(* ===== verification/Prelude.thy ===== *)
theory Prelude
  imports Complex_Main
begin

text \<open>
  Shared vocabulary of the development: HTTP errors and results, the row-level
  view of a database table, and the generic facts every component proof uses.

  A table is a list of rows.  A query by key is \<^term>\<open>lookup\<close>, a conditional
  \<^theory_text>\<open>updateMany\<close> is \<^term>\<open>modify\<close>, and the count it reports is \<^term>\<open>matches\<close>.
  Nothing here is specific to the platform.
\<close>

named_theorems guard_simps \<open>unfolding of the guards a handler runs before it writes\<close>
named_theorems repo_defs \<open>definitions of the repository primitives\<close>

section \<open>Errors and results\<close>

text \<open>The exception classes the services throw; the string names the throw site.\<close>

datatype error =
    BadRequest string
  | Unauthorized string
  | Forbidden string
  | NotFound string
  | Conflict string
  | Unavailable string
  | UniqueViolation string
  | RecordNotFound string
  | SerializationFailure
  | ProviderError string

type_synonym 'a result = "error + 'a"

type_synonym ('s, 'a) outcome = "'a result \<times> 's"

definition guard :: "bool \<Rightarrow> error \<Rightarrow> unit result" where
  "guard b e = (if b then Inr () else Inl e)"

fun andThen :: "'a result \<Rightarrow> ('a \<Rightarrow> 'b result) \<Rightarrow> 'b result" where
  "andThen (Inl e) k = Inl e"
| "andThen (Inr x) k = k x"

fun ok :: "'a result \<Rightarrow> bool" where
  "ok (Inl e) = False"
| "ok (Inr x) = True"

lemma guard_ok [simp]: "guard b e = Inr u \<longleftrightarrow> b"
  by (simp add: guard_def)

lemma guard_err [simp]: "guard b e = Inl e' \<longleftrightarrow> \<not> b \<and> e' = e"
  by (auto simp: guard_def)

lemma guard_True [simp]: "guard True e = Inr ()"
  by simp

lemma guard_False [simp]: "guard False e = Inl e"
  by simp

lemma andThen_Inr_iff: "andThen m k = Inr y \<longleftrightarrow> (\<exists>x. m = Inr x \<and> k x = Inr y)"
  by (cases m) auto

lemma andThen_Inl_iff:
  "andThen m k = Inl e \<longleftrightarrow> m = Inl e \<or> (\<exists>x. m = Inr x \<and> k x = Inl e)"
  by (cases m) auto

lemma andThen_guard: "andThen (guard b e) k = (if b then k () else Inl e)"
  by (simp add: guard_def)

lemma ok_iff: "ok r \<longleftrightarrow> (\<exists>x. r = Inr x)"
  by (cases r) auto

lemma ok_cases [case_names err success]:
  assumes "\<And>e. r = Inl e \<Longrightarrow> P" and "\<And>x. r = Inr x \<Longrightarrow> P"
  shows P
  using assms by (cases r) auto

section \<open>Tables\<close>

definition lookup :: "('r \<Rightarrow> 'k) \<Rightarrow> 'k \<Rightarrow> 'r list \<Rightarrow> 'r option" where
  "lookup key k rows = List.find (\<lambda>r. key r = k) rows"

definition modify :: "('r \<Rightarrow> bool) \<Rightarrow> ('r \<Rightarrow> 'r) \<Rightarrow> 'r list \<Rightarrow> 'r list" where
  "modify p f rows = map (\<lambda>r. if p r then f r else r) rows"

definition matches :: "('r \<Rightarrow> bool) \<Rightarrow> 'r list \<Rightarrow> nat" where
  "matches p rows = length (filter p rows)"

definition keyed :: "('r \<Rightarrow> 'k) \<Rightarrow> 'r list \<Rightarrow> bool" where
  "keyed key rows \<longleftrightarrow> distinct (map key rows)"

lemma lookup_Nil [simp]: "lookup key k [] = None"
  by (simp add: lookup_def)

lemma lookup_Cons [simp]:
  "lookup key k (r # rows) = (if key r = k then Some r else lookup key k rows)"
  by (simp add: lookup_def)

lemma lookup_SomeD: "lookup key k rows = Some r \<Longrightarrow> key r = k \<and> r \<in> set rows"
  by (induction rows) (auto split: if_splits)

lemma lookup_key: "lookup key k rows = Some r \<Longrightarrow> key r = k"
  by (drule lookup_SomeD) (rule conjunct1)

lemma lookup_mem [intro]: "lookup key k rows = Some r \<Longrightarrow> r \<in> set rows"
  by (drule lookup_SomeD) (rule conjunct2)

lemma lookup_None_iff: "lookup key k rows = None \<longleftrightarrow> k \<notin> key ` set rows"
  by (induction rows) auto

lemma fresh_neq: "k \<notin> key ` set rows \<Longrightarrow> r \<in> set rows \<Longrightarrow> key r \<noteq> k"
  by (auto intro: rev_image_eqI)

lemma lookup_append:
  "lookup key k (xs @ ys) = (case lookup key k xs of None \<Rightarrow> lookup key k ys | Some r \<Rightarrow> Some r)"
  by (induction xs) auto

lemma lookup_snoc_fresh:
  "key r = k \<Longrightarrow> k \<notin> key ` set xs \<Longrightarrow> lookup key k (xs @ [r]) = Some r"
  using lookup_None_iff[of key k xs] by (simp add: lookup_append)

lemma lookup_keyed:
  "keyed key rows \<Longrightarrow> r \<in> set rows \<Longrightarrow> lookup key (key r) rows = Some r"
  by (induction rows) (auto simp: keyed_def image_iff)

lemma find_SomeD: "List.find p xs = Some x \<Longrightarrow> p x \<and> x \<in> set xs"
  by (induction xs) (auto split: if_splits)

lemma find_snoc_fresh:
  "(\<And>r. r \<in> set xs \<Longrightarrow> \<not> p r) \<Longrightarrow> p x \<Longrightarrow> List.find p (xs @ [x]) = Some x"
  by (induction xs) auto

lemma list_all2_right:
  "list_all2 P xs ys \<Longrightarrow> (\<And>x y. x \<in> set xs \<Longrightarrow> P x y \<Longrightarrow> Q y) \<Longrightarrow> \<forall>y \<in> set ys. Q y"
  by (induction xs ys rule: list_all2_induct) auto

lemma lookup_rev:
  assumes "keyed key xs" shows "lookup key k (rev xs) = lookup key k xs"
proof (cases "lookup key k xs")
  case None
  then have "k \<notin> key ` set (rev xs)" by (simp add: lookup_None_iff)
  then have "lookup key k (rev xs) = None" by (simp only: lookup_None_iff not_False_eq_True)
  with None show ?thesis by simp
next
  case (Some r)
  then have "r \<in> set (rev xs)" "key r = k" by (auto dest: lookup_SomeD)
  moreover have "keyed key (rev xs)" using assms by (simp add: keyed_def rev_map[symmetric])
  ultimately show ?thesis using Some lookup_keyed by metis
qed

lemma modify_Nil [simp]: "modify p f [] = []"
  by (simp add: modify_def)

lemma modify_Cons [simp]: "modify p f (r # rows) = (if p r then f r else r) # modify p f rows"
  by (simp add: modify_def)

lemma length_modify [simp]: "length (modify p f rows) = length rows"
  by (simp add: modify_def)

lemma set_modify: "set (modify p f rows) = (\<lambda>r. if p r then f r else r) ` set rows"
  by (simp add: modify_def)

lemma modify_append [simp]: "modify p f (xs @ ys) = modify p f xs @ modify p f ys"
  by (simp add: modify_def)

lemma modify_none: "(\<And>r. r \<in> set rows \<Longrightarrow> \<not> p r) \<Longrightarrow> modify p f rows = rows"
  by (induction rows) auto

lemma filter_modify_off:
  "(\<And>x. p (f x) = p x) \<Longrightarrow> (\<And>x. x \<in> set xs \<Longrightarrow> p x \<Longrightarrow> \<not> q x) \<Longrightarrow> filter p (modify q f xs) = filter p xs"
  by (induction xs) auto

lemma filter_filter_off:
  "(\<And>x. x \<in> set xs \<Longrightarrow> p x \<Longrightarrow> r x) \<Longrightarrow> filter p (filter r xs) = filter p xs"
  by (induction xs) auto

lemma map_modify:
  "(\<And>r. key (f r) = key r) \<Longrightarrow> map key (modify p f rows) = map key rows"
  by (induction rows) auto

lemma lookup_modify:
  assumes "\<And>r. key (f r) = key r"
  shows "lookup key k (modify p f rows) = map_option (\<lambda>r. if p r then f r else r) (lookup key k rows)"
  using assms by (induction rows) auto

lemma lookup_modify_other:
  assumes "\<And>r. key (f r) = key r" and "\<And>r. p r \<Longrightarrow> key r \<noteq> k"
  shows "lookup key k (modify p f rows) = lookup key k rows"
  using assms by (induction rows) auto

lemma keyed_modify [simp]:
  "(\<And>r. key (f r) = key r) \<Longrightarrow> keyed key (modify p f rows) = keyed key rows"
  by (simp add: keyed_def map_modify)

lemma keyed_snoc: "keyed key (xs @ [r]) \<longleftrightarrow> keyed key xs \<and> key r \<notin> key ` set xs"
  by (auto simp: keyed_def)

lemma keyed_filter: "keyed key xs \<Longrightarrow> keyed key (filter p xs)"
  by (simp add: keyed_def distinct_map_filter)

lemma matches_Nil [simp]: "matches p [] = 0"
  by (simp add: matches_def)

lemma matches_Cons [simp]: "matches p (r # rows) = (if p r then Suc (matches p rows) else matches p rows)"
  by (simp add: matches_def)

lemma matches_append [simp]: "matches p (xs @ ys) = matches p xs + matches p ys"
  by (simp add: matches_def)

lemma matches_0_iff: "matches p rows = 0 \<longleftrightarrow> (\<forall>r \<in> set rows. \<not> p r)"
  by (induction rows) auto

lemma matches_le: "matches p rows \<le> length rows"
  by (simp add: matches_def)

lemma matches_cong: "(\<And>r. r \<in> set rows \<Longrightarrow> p r = q r) \<Longrightarrow> matches p rows = matches q rows"
  by (induction rows) auto

lemma matches_mono: "(\<And>r. r \<in> set rows \<Longrightarrow> p r \<Longrightarrow> q r) \<Longrightarrow> matches p rows \<le> matches q rows"
proof (induction rows)
  case (Cons a rows)
  then have "matches p rows \<le> matches q rows" by simp
  with Cons.prems[of a] show ?case by auto
qed simp

lemma matches_modify_same:
  "(\<And>r. q (f r) = q r) \<Longrightarrow> matches q (modify p f rows) = matches q rows"
  by (induction rows) auto

lemma matches_modify_le:
  "(\<And>r. p r \<Longrightarrow> q (f r) \<Longrightarrow> q r) \<Longrightarrow> matches q (modify p f rows) \<le> matches q rows"
  by (induction rows) (auto intro: le_SucI)

lemma find_None_matches: "List.find p rows = None \<longleftrightarrow> matches p rows = 0"
  by (induction rows) auto

text \<open>A conditional update addressed by a unique key matches at most one row.\<close>

lemma matches_pk:
  assumes "keyed key rows"
  shows "matches (\<lambda>r. key r = k \<and> c r) rows
           = (case lookup key k rows of None \<Rightarrow> 0 | Some r \<Rightarrow> if c r then 1 else 0)"
  using assms
proof (induction rows)
  case (Cons a rows)
  have tl: "keyed key rows" and fresh: "key a \<notin> key ` set rows"
    using Cons.prems by (auto simp: keyed_def)
  have none: "matches (\<lambda>r. key r = k \<and> c r) rows = 0" if eq: "key a = k"
    unfolding matches_0_iff
  proof (intro ballI notI)
    fix r assume "r \<in> set rows" and "key r = k \<and> c r"
    then have "key a \<in> key ` set rows" using eq by (auto intro: rev_image_eqI)
    with fresh show False ..
  qed
  show ?case
    using Cons.IH[OF tl] none by (cases "key a = k") simp_all
qed simp

lemma matches_pk_le_1: "keyed key rows \<Longrightarrow> matches (\<lambda>r. key r = k \<and> c r) rows \<le> 1"
  by (auto simp: matches_pk split: option.split)

lemma matches_pk_0:
  "keyed key rows \<Longrightarrow> lookup key k rows = Some r \<Longrightarrow>
     matches (\<lambda>r. key r = k \<and> c r) rows = 0 \<longleftrightarrow> \<not> c r"
  by (simp add: matches_pk)

lemma keyed_same:
  assumes "keyed key rows" and "r \<in> set rows" and "s \<in> set rows" and "key r = key s"
  shows "r = s"
  using assms unfolding keyed_def distinct_map inj_on_def by blast

lemma modify_cong: "(\<And>r. r \<in> set rows \<Longrightarrow> p r = q r) \<Longrightarrow> modify p f rows = modify q f rows"
  by (simp add: modify_def)

text \<open>How a conditional update of one keyed row changes any count over the table.\<close>

lemma matches_modify_pk:
  assumes "keyed key rows" and "lookup key k rows = Some r"
  shows "int (matches q (modify (\<lambda>x. key x = k \<and> c x) f rows)) =
    int (matches q rows) + (if c r then (if q (f r) then 1 else 0) - (if q r then 1 else 0) else 0)"
  using assms
proof (induction rows)
  case (Cons a rows)
  show ?case
  proof (cases "key a = k")
    case True
    then have "modify (\<lambda>x. key x = k \<and> c x) f rows = rows"
      using Cons.prems(1) by (intro modify_none) (auto simp: keyed_def dest: fresh_neq)
    then show ?thesis using True Cons.prems(2) by simp
  next
    case False
    then have "keyed key rows" "lookup key k rows = Some r" using Cons.prems by (auto simp: keyed_def)
    from Cons.IH[OF this] show ?thesis using False by auto
  qed
qed simp

lemma modify_pk_miss:
  assumes "\<And>r. lookup key k rows = Some r \<Longrightarrow> \<not> c r" and "keyed key rows"
  shows "modify (\<lambda>x. key x = k \<and> c x) f rows = rows"
  using assms lookup_keyed[OF assms(2)] by (intro modify_none) auto

text \<open>\<^verbatim>\<open>findFirst\<close> with \<^verbatim>\<open>orderBy: { k: 'desc' }\<close>: a row with the largest key among the matching ones.\<close>

fun largestBy :: "('r \<Rightarrow> 'k::linorder) \<Rightarrow> 'r list \<Rightarrow> 'r option" where
  "largestBy key [] = None"
| "largestBy key (r # rows) =
     (case largestBy key rows of
        None \<Rightarrow> Some r
      | Some s \<Rightarrow> if key s > key r then Some s else Some r)"

definition findLatest :: "('r \<Rightarrow> bool) \<Rightarrow> ('r \<Rightarrow> 'k::linorder) \<Rightarrow> 'r list \<Rightarrow> 'r option" where
  "findLatest p key rows = largestBy key (filter p rows)"

lemma largestBy_None_iff: "largestBy key rows = None \<longleftrightarrow> rows = []"
  by (cases rows) (auto split: option.split)

lemma largestBy_SomeD:
  "largestBy key rows = Some r \<Longrightarrow> r \<in> set rows \<and> (\<forall>s \<in> set rows. key s \<le> key r)"
proof (induction rows arbitrary: r)
  case (Cons a rows)
  show ?case
  proof (cases "largestBy key rows")
    case None
    then show ?thesis using Cons.prems by (simp add: largestBy_None_iff)
  next
    case (Some s)
    then have "s \<in> set rows" and "\<forall>u \<in> set rows. key u \<le> key s" using Cons.IH by auto
    then show ?thesis using Cons.prems Some
      by (cases "key s > key a") (auto intro: order_trans)
  qed
qed simp

lemma findLatest_SomeD:
  assumes "findLatest p key rows = Some r"
  shows "r \<in> set rows" "p r" "\<And>s. s \<in> set rows \<Longrightarrow> p s \<Longrightarrow> key s \<le> key r"
  using largestBy_SomeD[of key "filter p rows" r] assms by (auto simp: findLatest_def)

lemma findLatest_None_iff: "findLatest p key rows = None \<longleftrightarrow> (\<forall>r \<in> set rows. \<not> p r)"
  by (simp add: findLatest_def largestBy_None_iff filter_empty_conv)

section \<open>Sums over filtered rows\<close>

definition total :: "('r \<Rightarrow> 'n::comm_monoid_add) \<Rightarrow> ('r \<Rightarrow> bool) \<Rightarrow> 'r list \<Rightarrow> 'n" where
  "total amount p rows = sum_list (map amount (filter p rows))"

lemma total_Nil [simp]: "total amount p [] = 0"
  by (simp add: total_def)

lemma total_Cons [simp]:
  "total amount p (r # rows) = (if p r then amount r + total amount p rows else total amount p rows)"
  by (simp add: total_def)

lemma total_append [simp]: "total amount p (xs @ ys) = total amount p xs + total amount p ys"
  by (simp add: total_def)

section \<open>Strings\<close>

text \<open>The string functions the services call, on the ASCII range.\<close>

definition isSpace :: "char \<Rightarrow> bool" where
  "isSpace c \<longleftrightarrow> (let n = of_char c :: nat in n = 32 \<or> (9 \<le> n \<and> n \<le> 13))"

definition upperChar :: "char \<Rightarrow> char" where
  "upperChar c = (let n = of_char c :: nat in if 97 \<le> n \<and> n \<le> 122 then char_of (n - 32) else c)"

definition lowerChar :: "char \<Rightarrow> char" where
  "lowerChar c = (let n = of_char c :: nat in if 65 \<le> n \<and> n \<le> 90 then char_of (n + 32) else c)"

definition toUpperCase :: "string \<Rightarrow> string" where "toUpperCase = map upperChar"

definition toLowerCase :: "string \<Rightarrow> string" where "toLowerCase = map lowerChar"

definition trim :: "string \<Rightarrow> string" where
  "trim s = rev (dropWhile isSpace (rev (dropWhile isSpace s)))"

fun startsWith :: "string \<Rightarrow> string \<Rightarrow> bool" where
  "startsWith [] s = True"
| "startsWith (p # ps) [] = False"
| "startsWith (p # ps) (c # cs) = (p = c \<and> startsWith ps cs)"

fun isSubstring :: "string \<Rightarrow> string \<Rightarrow> bool" where
  "isSubstring p [] = (p = [])"
| "isSubstring p (c # cs) = (startsWith p (c # cs) \<or> isSubstring p cs)"

definition containsInsensitive :: "string \<Rightarrow> string \<Rightarrow> bool" where
  "containsInsensitive needle hay = isSubstring (toLowerCase needle) (toLowerCase hay)"

text \<open>A JavaScript string used as a condition: absent and empty are both false.\<close>

definition truthy :: "string option \<Rightarrow> bool" where
  "truthy s = (case s of None \<Rightarrow> False | Some t \<Rightarrow> t \<noteq> [])"

lemma truthy_simps [simp]: "\<not> truthy None" "truthy (Some t) \<longleftrightarrow> t \<noteq> []"
  by (simp_all add: truthy_def)

lemma toUpperCase_idem [simp]: "toUpperCase (toUpperCase s) = toUpperCase s"
  by (induction s) (auto simp: toUpperCase_def upperChar_def Let_def)

lemma startsWith_iff: "startsWith p s \<longleftrightarrow> (\<exists>t. s = p @ t)"
  by (induction p s rule: startsWith.induct) auto

lemma isSubstring_iff: "isSubstring p s \<longleftrightarrow> (\<exists>u v. s = u @ p @ v)"
proof (induction s)
  case (Cons c cs)
  have "(\<exists>u v. c # cs = u @ p @ v) \<longleftrightarrow> (\<exists>v. c # cs = p @ v) \<or> (\<exists>u v. cs = u @ p @ v)"
    by (auto simp: Cons_eq_append_conv)
  then show ?case using Cons.IH by (simp add: startsWith_iff)
qed simp

section \<open>Pages\<close>

text \<open>Prisma's \<^verbatim>\<open>skip\<close>/\<^verbatim>\<open>take\<close> and the page arithmetic every listing endpoint repeats.  The DTOs
  validate \<^verbatim>\<open>page\<close> and \<^verbatim>\<open>limit\<close> to be at least one.\<close>

definition skipTake :: "nat \<Rightarrow> nat \<Rightarrow> 'r list \<Rightarrow> 'r list" where
  "skipTake skip tk rows = take tk (drop skip rows)"

definition pageOf :: "nat \<Rightarrow> nat \<Rightarrow> 'r list \<Rightarrow> 'r list" where
  "pageOf page limit rows = skipTake ((page - 1) * limit) limit rows"

definition totalPages :: "nat \<Rightarrow> nat \<Rightarrow> nat" where
  "totalPages n limit = (n + limit - 1) div limit"

lemma pages_cover:
  assumes "0 < limit"
  shows "concat (map (\<lambda>p. pageOf (Suc p) limit rows) [0..<k]) = take (k * limit) rows"
proof (induction k)
  case (Suc k)
  have "take (k * limit) rows @ take limit (drop (k * limit) rows) = take (k * limit + limit) rows"
    by (simp add: take_add)
  with Suc show ?case by (simp add: pageOf_def skipTake_def add.commute)
qed simp

lemma totalPages_enough: "0 < limit \<Longrightarrow> n \<le> totalPages n limit * limit"
  using dividend_less_times_div[of limit "n + limit - 1"] by (simp add: totalPages_def algebra_simps)

lemma pages_partition:
  assumes "0 < limit"
  shows "concat (map (\<lambda>p. pageOf (Suc p) limit rows) [0..<totalPages (length rows) limit]) = rows"
  using totalPages_enough[OF assms, of "length rows"] by (simp add: pages_cover[OF assms])

text \<open>Sequential batches, as in \<^verbatim>\<open>for (i = 0; i < xs.length; i += n) xs.slice(i, i + n)\<close>.\<close>

function batches :: "nat \<Rightarrow> 'r list \<Rightarrow> 'r list list" where
  "batches n xs = (if n = 0 \<or> xs = [] then [] else take n xs # batches n (drop n xs))"
  by pat_completeness auto
termination
  by (relation "measure (\<lambda>(n, xs). length xs)") auto

declare batches.simps [simp del]

lemma concat_batches: "0 < n \<Longrightarrow> concat (batches n xs) = xs"
proof (induction n xs rule: batches.induct)
  case (1 n xs)
  show ?case
  proof (cases "xs = []")
    case True
    then show ?thesis by (simp add: batches.simps[of n "[]"])
  next
    case False
    then have "concat (batches n (drop n xs)) = drop n xs" using 1 by simp
    then show ?thesis using False 1(2) by (subst batches.simps) simp
  qed
qed

lemma batch_size: "b \<in> set (batches n xs) \<Longrightarrow> length b \<le> n \<and> b \<noteq> []"
proof (induction n xs rule: batches.induct)
  case (1 n xs)
  then show ?case by (auto simp: batches.simps[of n xs] split: if_splits)
qed

section \<open>Rounding\<close>

text \<open>JavaScript's \<^verbatim>\<open>Math.round\<close>: halves round towards positive infinity.\<close>

definition mathRound :: "rat \<Rightarrow> int" where
  "mathRound x = \<lfloor>x + 1 / 2\<rfloor>"

text \<open>The idiom \<^verbatim>\<open>Math.round(x * 100) / 100\<close> used for money.\<close>

definition round2 :: "rat \<Rightarrow> rat" where
  "round2 x = of_int (mathRound (x * 100)) / 100"

lemma mathRound_bounds: "x - 1 / 2 < of_int (mathRound x) \<and> of_int (mathRound x) \<le> x + 1 / 2"
  unfolding mathRound_def by linarith

lemma mathRound_of_int [simp]: "mathRound (of_int n) = n"
  unfolding mathRound_def by (simp add: floor_eq_iff)

lemma mathRound_mono: "x \<le> y \<Longrightarrow> mathRound x \<le> mathRound y"
  by (simp add: mathRound_def floor_mono)

lemma mathRound_nonneg: "0 \<le> x \<Longrightarrow> 0 \<le> mathRound x"
  by (simp add: mathRound_def)

lemma round2_0 [simp]: "round2 0 = 0"
  using mathRound_of_int[of 0] by (simp add: round2_def)

lemma round2_nonneg: "0 \<le> x \<Longrightarrow> 0 \<le> round2 x"
  by (simp add: round2_def mathRound_nonneg)

lemma round2_mono: "x \<le> y \<Longrightarrow> round2 x \<le> round2 y"
  by (simp add: round2_def mathRound_mono divide_right_mono)

lemma round2_error: "\<bar>round2 x - x\<bar> \<le> 1 / 200"
proof -
  let ?m = "of_int (mathRound (x * 100)) :: rat"
  have "x * 100 - 1 / 2 < ?m" and "?m \<le> x * 100 + 1 / 2"
    using mathRound_bounds[of "x * 100"] by auto
  then have "?m / 100 - x \<le> 1 / 200" and "x - ?m / 100 \<le> 1 / 200"
    by (auto simp: field_simps)
  then show ?thesis unfolding round2_def by (intro abs_leI) simp_all
qed

lemma round2_paise: "round2 (of_int n / 100) = of_int n / 100"
  by (simp add: round2_def)

text \<open>A column of type \<^verbatim>\<open>Decimal(10, 2)\<close>: the database rounds what is written to two places, halves
  away from zero.\<close>

definition dec2 :: "rat \<Rightarrow> rat" where
  "dec2 x = (if 0 \<le> x then round2 x else - round2 (- x))"

definition onGrid :: "rat \<Rightarrow> bool" where
  "onGrid x \<longleftrightarrow> (\<exists>n :: int. x = of_int n / 100)"

lemma onGrid_add: "onGrid x \<Longrightarrow> onGrid y \<Longrightarrow> onGrid (x + y)"
  unfolding onGrid_def by (metis add_divide_distrib of_int_add)

lemma onGrid_round2 [simp]: "onGrid (round2 x)"
  by (auto simp: onGrid_def round2_def)

lemma onGrid_minus [simp]: "onGrid (- x) \<longleftrightarrow> onGrid x"
  unfolding onGrid_def by (metis minus_divide_left minus_equation_iff of_int_minus)

lemma onGrid_dec2 [simp]: "onGrid (dec2 x)"
  by (simp add: dec2_def)

lemma onGrid_0 [simp]: "onGrid 0"
  unfolding onGrid_def by (intro exI[of _ 0]) simp

lemma round2_grid: "onGrid x \<Longrightarrow> round2 x = x"
  unfolding onGrid_def using round2_paise by blast

lemma dec2_grid: "onGrid x \<Longrightarrow> dec2 x = x"
  by (simp add: dec2_def round2_grid)

lemma dec2_of_int: "dec2 (of_int n) = of_int n"
  by (rule dec2_grid) (auto simp: onGrid_def intro!: exI[of _ "100 * n"])

lemma dec2_numeral [simp]: "dec2 (numeral n) = numeral n" "dec2 0 = 0" "dec2 1 = 1"
  using dec2_of_int[of "numeral n"] dec2_of_int[of 0] dec2_of_int[of 1] by simp_all

lemma dec2_minus [simp]: "dec2 (- x) = - dec2 x"
  by (auto simp: dec2_def)

lemma dec2_nonneg: "0 \<le> x \<Longrightarrow> dec2 x = round2 x"
  by (simp add: dec2_def)

lemma dec2_mono: "x \<le> y \<Longrightarrow> dec2 x \<le> dec2 y"
proof (cases "0 \<le> x \<or> y < 0")
  case False
  then have "0 \<le> round2 (- x)" "0 \<le> round2 y" by (simp_all add: round2_nonneg)
  with False show ?thesis by (simp add: dec2_def)
qed (auto simp: dec2_def round2_mono)

lemma dec2_error: "\<bar>dec2 x - x\<bar> \<le> 1 / 200"
proof (cases "0 \<le> x")
  case False
  have "- round2 (- x) - x = - (round2 (- x) - (- x))" by simp
  then have "\<bar>- round2 (- x) - x\<bar> = \<bar>round2 (- x) - (- x)\<bar>" by (simp only: abs_minus_cancel)
  with round2_error[of "- x"] False show ?thesis unfolding dec2_def by (simp only: if_False)
qed (use round2_error[of x] in \<open>simp only: dec2_def if_True\<close>)

lemma round2_shift:
  assumes "onGrid b"
  shows "round2 (b + x) = b + round2 x"
proof -
  obtain n :: int where b: "b = of_int n / 100" using assms by (auto simp: onGrid_def)
  have "(b + x) * 100 + 1 / 2 = of_int n + (x * 100 + 1 / 2)" by (simp add: b algebra_simps)
  then have "mathRound ((b + x) * 100) = n + mathRound (x * 100)"
    unfolding mathRound_def by (simp only: floor_add_int add.commute[of "of_int n"] add.commute[of n])
  then show ?thesis by (simp add: round2_def b add_divide_distrib)
qed

text \<open>Rounding a sum against summing rounded: they differ only where a debit has a half paisa.\<close>

lemma round2_flip: "round2 x = - round2 (- x) \<or> round2 x = - round2 (- x) + 1 / 100"
proof -
  let ?y = "x * 100"
  have "mathRound ?y = - mathRound (- ?y) \<or> mathRound ?y = - mathRound (- ?y) + 1"
    using mathRound_bounds[of ?y] mathRound_bounds[of "- ?y"] unfolding mathRound_def by linarith
  then show ?thesis by (auto simp: round2_def add_divide_distrib)
qed

lemma dec2_add:
  assumes "onGrid b" and "0 \<le> b + x"
  shows "dec2 (b + x) = b + dec2 x \<or> (x < 0 \<and> dec2 (b + x) = b + dec2 x + 1 / 100)"
  using assms round2_shift[OF assms(1), of x] round2_flip[of x] by (auto simp: dec2_def)

end
