(* ===== verification/Store.thy ===== *)
theory Store
  imports Prelude
begin

text \<open>
  The persistent state the services share: the Prisma enums and rows of
  \<^verbatim>\<open>apps/api-gateway/prisma/schema.prisma\<close> that the modelled code reads or writes, and
  the database record \<^verbatim>\<open>world\<close>.  Each table is a list of rows in insertion order.

  Money columns (\<^verbatim>\<open>Decimal(10, 2)\<close>, read as JavaScript numbers) are exact rationals that the
  writing operations round (\<open>dec2\<close>), a
  \<^verbatim>\<open>DateTime\<close> is its number of milliseconds as an \<^verbatim>\<open>int\<close>, a coordinate is a rational, an id is a
  string.  Fields that no modelled code reads (names, avatars, free-form profile data) are
  left out of the rows.  Published domain events, queued jobs and audit entries are kept in
  the world as logs, in publication order, so that what a handler emits is part of its result.
\<close>

section \<open>Enums\<close>

datatype userRole = CUSTOMER | RESTAURANT_OWNER | RESTAURANT_MANAGER | DELIVERY_PARTNER
  | SUPPORT_AGENT | ADMIN | SUPER_ADMIN | DISPATCH_MANAGER

datatype userStatus = USER_ACTIVE | USER_INACTIVE | USER_SUSPENDED | USER_BLOCKED

datatype orderStatus = PENDING | CONFIRMED | PREPARING | READY_FOR_PICKUP
  | OUT_FOR_DELIVERY | DELIVERED | CANCELLED

datatype paymentStatus = PAY_PENDING | PAID | PAY_FAILED | PAY_REFUNDED

datatype paymentMode = ONLINE | COD

datatype transactionStatus = TX_PENDING | TX_SUCCESS | TX_FAILED | TX_REFUNDED

datatype assignmentStatus = ASG_PENDING | ASG_ASSIGNED | ASG_ACCEPTED | ASG_REJECTED
  | ASG_EXPIRED | ASG_COMPLETED

datatype partnerStatus = OFFLINE | AVAILABLE | ON_DELIVERY | SUSPENDED

datatype couponType = PERCENTAGE | FLAT | FREE_DELIVERY

datatype couponScope = PLATFORM | RESTAURANT

datatype proofType = PICKUP | DELIVERY

datatype otpStatus = OTP_PENDING | OTP_VERIFIED | OTP_EXPIRED | OTP_EXCEEDED

datatype walletTxType = CASHBACK | REFERRAL_REWARD | REFUND_CREDIT | ORDER_PAYMENT | ADMIN_ADJUSTMENT

datatype walletTxStatus = WTX_COMPLETED | WTX_REVERSED

datatype referralStatus = REF_PENDING | REF_REWARDED

datatype restaurantStatus = REST_PENDING | REST_APPROVED | REST_REJECTED | REST_SUSPENDED

datatype staffRole = OWNER | CO_OWNER | BRANCH_MANAGER | KITCHEN_MANAGER | FINANCE_MANAGER | STAFF

datatype staffStatus = STAFF_INVITED | STAFF_ACTIVE | STAFF_REVOKED

datatype paymentMethod = UPI | CARD | NETBANKING | WALLET | METHOD_COD

section \<open>Rows\<close>

record authUser =
  userId :: string
  role :: userRole

record orderItem =
  i_menuItemId :: string
  i_variantId :: "string option"
  i_quantity :: int
  i_unitPrice :: rat
  i_totalPrice :: rat
  i_instructions :: "string option"
  i_addons :: "(string \<times> string \<times> rat) list"

record order =
  o_id :: string
  o_customerId :: string
  o_restaurantId :: string
  o_branchId :: "string option"
  o_deliveryPartnerId :: "string option"
  o_orderNumber :: string
  o_idempotencyKey :: "string option"
  o_status :: orderStatus
  o_paymentStatus :: paymentStatus
  o_paymentMode :: paymentMode
  o_addressId :: "string option"
  o_subtotal :: rat
  o_deliveryFee :: rat
  o_tax :: rat
  o_couponId :: "string option"
  o_discount :: rat
  o_total :: rat
  o_walletUsed :: rat
  o_notes :: "string option"
  o_deliveryAddress :: string
  o_latitude :: "rat option"
  o_longitude :: "rat option"
  o_placedAt :: int
  o_deliveredAt :: "int option"
  o_items :: "orderItem list"

record statusHistory =
  h_orderId :: string
  h_status :: orderStatus
  h_note :: "string option"
  h_changedById :: "string option"
  h_createdAt :: int

record payment =
  p_id :: string
  p_orderId :: string
  p_providerOrderId :: "string option"
  p_providerPaymentId :: "string option"
  p_amount :: rat
  p_status :: transactionStatus
  p_method :: "paymentMethod option"
  p_attempt :: nat
  p_isActive :: bool
  p_createdAt :: int

record refund =
  r_id :: string
  r_paymentId :: string
  r_amount :: rat
  r_status :: transactionStatus

record coupon =
  c_id :: string
  c_code :: string
  c_type :: couponType
  c_value :: rat
  c_maxDiscount :: "rat option"
  c_minOrder :: rat
  c_scope :: couponScope
  c_restaurantId :: "string option"
  c_usageLimit :: "int option"
  c_usagePerUser :: int
  c_totalUsed :: int
  c_startsAt :: int
  c_endsAt :: int
  c_active :: bool

record redemption =
  x_id :: string
  x_couponId :: string
  x_userId :: string
  x_orderId :: "string option"
  x_discount :: rat

record partner =
  d_id :: string
  d_userId :: string
  d_status :: partnerStatus
  d_isVerified :: bool
  d_latitude :: "rat option"
  d_longitude :: "rat option"

record assignment =
  a_id :: string
  a_orderId :: string
  a_partnerId :: string
  a_status :: assignmentStatus
  a_cycle :: nat
  a_assignedAt :: int
  a_respondedAt :: "int option"
  a_expiresAt :: "int option"
  a_arrivedAt :: "int option"

record proofOtp =
  v_orderId :: string
  v_type :: proofType
  v_otpHash :: string
  v_status :: otpStatus
  v_attempts :: nat
  v_maxAttempts :: nat
  v_expiresAt :: int
  v_verifiedAt :: "int option"

record proofPhoto =
  ph_orderId :: string
  ph_type :: proofType
  ph_url :: string
  ph_uploadedById :: string

record walletTx =
  t_id :: string
  t_userId :: string
  t_type :: walletTxType
  t_status :: walletTxStatus
  t_amount :: rat
  t_balanceAfter :: rat
  t_orderId :: "string option"
  t_referralId :: "string option"

record referral =
  f_id :: string
  f_referrerId :: string
  f_refereeId :: string
  f_status :: referralStatus
  f_reward :: "rat option"
  f_rewardedAt :: "int option"

record staffMember =
  sm_userId :: string
  sm_role :: staffRole
  sm_status :: staffStatus
  sm_branchId :: "string option"

record restaurantSettings =
  st_acceptanceTimeoutMinutes :: int
  st_autoAcceptOrders :: bool

record restaurant =
  rs_id :: string
  rs_ownerId :: string
  rs_status :: restaurantStatus
  rs_staff :: "staffMember list"
  rs_settings :: "restaurantSettings option"

text \<open>One shift of one weekday (0 is Sunday), times as \<^verbatim>\<open>HH:mm\<close>.\<close>

record operatingHour =
  oh_dayOfWeek :: nat
  oh_opensAt :: string
  oh_closesAt :: string
  oh_isClosed :: bool

record holiday =
  hd_id :: string
  hd_restaurantId :: string
  hd_branchId :: "string option"
  hd_date :: int
  hd_name :: string
  hd_isClosed :: bool
  hd_specialOpensAt :: "string option"
  hd_specialClosesAt :: "string option"

record branch =
  b_id :: string
  b_restaurantId :: string
  b_isPrimary :: bool
  b_isActive :: bool
  b_latitude :: "rat option"
  b_longitude :: "rat option"
  b_timezone :: "string option"
  b_operatingHours :: "operatingHour list"

record user =
  u_id :: string
  u_role :: userRole
  u_status :: userStatus

section \<open>Emitted effects\<close>

datatype event =
    OrderPlaced string string string
  | OrderStatusChanged string string orderStatus string "rat option"
  | OrderReady string string
  | OrderRefunded string string string rat
  | OrderRefundCompleted string string string rat
  | PaymentSuccess string string
  | PaymentFailed string string
  | PaymentRefunded string string rat
  | DeliveryCreated string string
  | DeliveryPartnerAssigned string string string
  | AssignmentRejected string string
  | AssignmentExpired string string

datatype job =
    AcceptanceTimeout string int
  | AssignmentExpiry string int
  | DispatchAssignment string string "int option" "nat option"
  | Notification string string

record audit =
  au_actor :: "string option"
  au_entity :: string
  au_entityId :: string
  au_action :: string

section \<open>The database\<close>

record world =
  w_orders :: "order list"
  w_history :: "statusHistory list"
  w_payments :: "payment list"
  w_refunds :: "refund list"
  w_webhooks :: "string list"
  w_coupons :: "coupon list"
  w_redemptions :: "redemption list"
  w_partners :: "partner list"
  w_assignments :: "assignment list"
  w_otps :: "proofOtp list"
  w_photos :: "proofPhoto list"
  w_ledger :: "walletTx list"
  w_referrals :: "referral list"
  w_restaurants :: "restaurant list"
  w_branches :: "branch list"
  w_holidays :: "holiday list"
  w_users :: "user list"
  w_online :: "string list"
  w_events :: "event list"
  w_jobs :: "job list"
  w_audit :: "audit list"
  w_timings :: "(string \<times> int option \<times> int) list"

text \<open>Primary keys and unique indexes of the schema.\<close>

definition otpKey :: "proofOtp \<Rightarrow> string \<times> proofType" where
  "otpKey v = (v_orderId v, v_type v)"

definition photoKey :: "proofPhoto \<Rightarrow> string \<times> proofType" where
  "photoKey ph = (ph_orderId ph, ph_type ph)"

definition unique_ids :: "world \<Rightarrow> bool" where
  "unique_ids w \<longleftrightarrow> keyed o_id (w_orders w) \<and> keyed p_id (w_payments w) \<and>
     keyed r_id (w_refunds w) \<and> keyed c_id (w_coupons w) \<and> keyed x_id (w_redemptions w) \<and>
     keyed d_id (w_partners w) \<and> keyed d_userId (w_partners w) \<and> keyed a_id (w_assignments w) \<and>
     keyed otpKey (w_otps w) \<and> keyed photoKey (w_photos w) \<and> keyed t_id (w_ledger w) \<and>
     keyed f_id (w_referrals w)"

definition emptyWorld :: world where
  "emptyWorld = \<lparr>w_orders = [], w_history = [], w_payments = [], w_refunds = [], w_webhooks = [],
     w_coupons = [], w_redemptions = [], w_partners = [], w_assignments = [], w_otps = [],
     w_photos = [], w_ledger = [], w_referrals = [], w_restaurants = [], w_branches = [], w_holidays = [],
     w_users = [], w_online = [], w_events = [], w_jobs = [], w_audit = [], w_timings = []\<rparr>"

lemma unique_ids_empty: "unique_ids emptyWorld"
  by (simp add: unique_ids_def emptyWorld_def keyed_def)

text \<open>Side effects that only append to a log.\<close>

definition publish :: "event \<Rightarrow> world \<Rightarrow> world" where
  "publish e w = w\<lparr>w_events := w_events w @ [e]\<rparr>"

definition enqueue :: "job \<Rightarrow> world \<Rightarrow> world" where
  "enqueue j w = w\<lparr>w_jobs := w_jobs w @ [j]\<rparr>"

definition auditLog :: "string option \<Rightarrow> string \<Rightarrow> string \<Rightarrow> string \<Rightarrow> world \<Rightarrow> world" where
  "auditLog actor entity entityId action w =
     w\<lparr>w_audit := w_audit w @ [\<lparr>au_actor = actor, au_entity = entity, au_entityId = entityId, au_action = action\<rparr>]\<rparr>"

lemma unique_ids_effects [simp]:
  "unique_ids (publish e w) = unique_ids w"
  "unique_ids (enqueue j w) = unique_ids w"
  "unique_ids (auditLog a en i ac w) = unique_ids w"
  by (simp_all add: unique_ids_def publish_def enqueue_def auditLog_def)

text \<open>A log entry leaves every table alone.\<close>

lemma publish_tables [simp]:
  "w_orders (publish e w) = w_orders w" "w_history (publish e w) = w_history w"
  "w_payments (publish e w) = w_payments w" "w_refunds (publish e w) = w_refunds w"
  "w_webhooks (publish e w) = w_webhooks w"
  "w_coupons (publish e w) = w_coupons w" "w_redemptions (publish e w) = w_redemptions w"
  "w_partners (publish e w) = w_partners w" "w_assignments (publish e w) = w_assignments w"
  "w_otps (publish e w) = w_otps w" "w_photos (publish e w) = w_photos w"
  "w_ledger (publish e w) = w_ledger w" "w_referrals (publish e w) = w_referrals w"
  "w_restaurants (publish e w) = w_restaurants w" "w_branches (publish e w) = w_branches w" "w_holidays (publish e w) = w_holidays w"
  "w_users (publish e w) = w_users w" "w_online (publish e w) = w_online w"
  "w_jobs (publish e w) = w_jobs w" "w_audit (publish e w) = w_audit w"
  "w_timings (publish e w) = w_timings w"
  "w_events (publish e w) = w_events w @ [e]"
  by (simp_all add: publish_def)

lemma enqueue_tables [simp]:
  "w_orders (enqueue j w) = w_orders w" "w_history (enqueue j w) = w_history w"
  "w_payments (enqueue j w) = w_payments w" "w_refunds (enqueue j w) = w_refunds w"
  "w_webhooks (enqueue j w) = w_webhooks w"
  "w_coupons (enqueue j w) = w_coupons w" "w_redemptions (enqueue j w) = w_redemptions w"
  "w_partners (enqueue j w) = w_partners w" "w_assignments (enqueue j w) = w_assignments w"
  "w_otps (enqueue j w) = w_otps w" "w_photos (enqueue j w) = w_photos w"
  "w_ledger (enqueue j w) = w_ledger w" "w_referrals (enqueue j w) = w_referrals w"
  "w_restaurants (enqueue j w) = w_restaurants w" "w_branches (enqueue j w) = w_branches w" "w_holidays (enqueue j w) = w_holidays w"
  "w_users (enqueue j w) = w_users w" "w_online (enqueue j w) = w_online w"
  "w_events (enqueue j w) = w_events w" "w_audit (enqueue j w) = w_audit w"
  "w_timings (enqueue j w) = w_timings w"
  "w_jobs (enqueue j w) = w_jobs w @ [j]"
  by (simp_all add: enqueue_def)

lemma auditLog_tables [simp]:
  "w_orders (auditLog a en i ac w) = w_orders w" "w_history (auditLog a en i ac w) = w_history w"
  "w_payments (auditLog a en i ac w) = w_payments w" "w_refunds (auditLog a en i ac w) = w_refunds w"
  "w_webhooks (auditLog a en i ac w) = w_webhooks w"
  "w_coupons (auditLog a en i ac w) = w_coupons w"
  "w_redemptions (auditLog a en i ac w) = w_redemptions w"
  "w_partners (auditLog a en i ac w) = w_partners w"
  "w_assignments (auditLog a en i ac w) = w_assignments w"
  "w_otps (auditLog a en i ac w) = w_otps w" "w_photos (auditLog a en i ac w) = w_photos w"
  "w_ledger (auditLog a en i ac w) = w_ledger w" "w_referrals (auditLog a en i ac w) = w_referrals w"
  "w_restaurants (auditLog a en i ac w) = w_restaurants w"
  "w_branches (auditLog a en i ac w) = w_branches w" "w_holidays (auditLog a en i ac w) = w_holidays w"
  "w_users (auditLog a en i ac w) = w_users w" "w_online (auditLog a en i ac w) = w_online w"
  "w_events (auditLog a en i ac w) = w_events w" "w_jobs (auditLog a en i ac w) = w_jobs w"
  "w_timings (auditLog a en i ac w) = w_timings w"
  by (simp_all add: auditLog_def)

end
