(* ===== verification/Access.thy ===== *)
theory Access
  imports Store
begin

text \<open>
  Authorization: \<^verbatim>\<open>shared/authorization/order-access.util.ts\<close>.  The single place where the
  code decides who may see or act on an order or a restaurant, modelled as pure functions
  of the database and the authenticated user.
\<close>

datatype restaurantAccessRole = StaffRole staffRole | AdminRole

definition isAdmin :: "authUser \<Rightarrow> bool" where
  "isAdmin u \<longleftrightarrow> role u = ADMIN \<or> role u = SUPER_ADMIN"

definition activeStaff :: "restaurant \<Rightarrow> string \<Rightarrow> staffMember list" where
  "activeStaff r uid = filter (\<lambda>m. sm_userId m = uid \<and> sm_status m = STAFF_ACTIVE) (rs_staff r)"

definition getRestaurantRole :: "world \<Rightarrow> string \<Rightarrow> authUser \<Rightarrow> restaurantAccessRole option" where
  "getRestaurantRole w restaurantId u =
     (if isAdmin u then Some AdminRole
      else case lookup rs_id restaurantId (w_restaurants w) of
        None \<Rightarrow> None
      | Some r \<Rightarrow>
          if rs_ownerId r = userId u then Some (StaffRole OWNER)
          else (case activeStaff r (userId u) of
                  [] \<Rightarrow> None
                | m # _ \<Rightarrow> Some (StaffRole (sm_role m))))"

definition canAccessRestaurant :: "world \<Rightarrow> string \<Rightarrow> authUser \<Rightarrow> bool" where
  "canAccessRestaurant w restaurantId u \<longleftrightarrow> getRestaurantRole w restaurantId u \<noteq> None"

definition canAccessOrder :: "world \<Rightarrow> order \<Rightarrow> authUser \<Rightarrow> bool" where
  "canAccessOrder w ord u =
     (if isAdmin u then True
      else if o_customerId ord = userId u then True
      else if o_deliveryPartnerId ord = Some (userId u) then True
      else if role u = RESTAURANT_OWNER \<or> role u = RESTAURANT_MANAGER
        then canAccessRestaurant w (o_restaurantId ord) u
      else False)"

definition hasRestaurantRole ::
  "world \<Rightarrow> string \<Rightarrow> authUser \<Rightarrow> restaurantAccessRole list \<Rightarrow> bool" where
  "hasRestaurantRole w restaurantId u allowed =
     (case getRestaurantRole w restaurantId u of None \<Rightarrow> False | Some r \<Rightarrow> r \<in> set allowed)"

section \<open>Restaurant order settings\<close>

text \<open>\<^verbatim>\<open>shared/restaurant/restaurant-order-settings.util.ts\<close>: a restaurant without a settings
  row gets a ten minute timeout and no auto-accept.\<close>

definition getRestaurantOrderSettings :: "world \<Rightarrow> string \<Rightarrow> restaurantSettings" where
  "getRestaurantOrderSettings w restaurantId =
     (case lookup rs_id restaurantId (w_restaurants w) of
        Some r \<Rightarrow> (case rs_settings r of
            Some st \<Rightarrow> st
          | None \<Rightarrow> \<lparr>st_acceptanceTimeoutMinutes = 10, st_autoAcceptOrders = False\<rparr>)
      | None \<Rightarrow> \<lparr>st_acceptanceTimeoutMinutes = 10, st_autoAcceptOrders = False\<rparr>)"

section \<open>What access means\<close>

lemma admin_accesses_restaurant: "isAdmin u \<Longrightarrow> canAccessRestaurant w rid u"
  by (simp add: canAccessRestaurant_def getRestaurantRole_def)

lemma activeStaff_nonempty:
  "activeStaff r uid \<noteq> [] \<longleftrightarrow> (\<exists>m \<in> set (rs_staff r). sm_userId m = uid \<and> sm_status m = STAFF_ACTIVE)"
  by (auto simp: activeStaff_def filter_empty_conv)

lemma restaurant_access_cases:
  "canAccessRestaurant w rid u \<longleftrightarrow> isAdmin u \<or>
     (\<exists>r. lookup rs_id rid (w_restaurants w) = Some r \<and>
          (rs_ownerId r = userId u \<or>
           (\<exists>m \<in> set (rs_staff r). sm_userId m = userId u \<and> sm_status m = STAFF_ACTIVE)))"
  unfolding canAccessRestaurant_def getRestaurantRole_def activeStaff_nonempty[symmetric]
  by (auto split: option.splits list.splits)

lemma owner_role:
  "\<not> isAdmin u \<Longrightarrow> lookup rs_id rid (w_restaurants w) = Some r \<Longrightarrow> rs_ownerId r = userId u \<Longrightarrow>
     getRestaurantRole w rid u = Some (StaffRole OWNER)"
  by (simp add: getRestaurantRole_def)

lemma staff_role_is_active_membership:
  assumes "getRestaurantRole w rid u = Some (StaffRole sr)" and "sr \<noteq> OWNER"
  shows "\<exists>r m. lookup rs_id rid (w_restaurants w) = Some r \<and> m \<in> set (rs_staff r) \<and>
           sm_userId m = userId u \<and> sm_status m = STAFF_ACTIVE \<and> sm_role m = sr"
proof -
  obtain r ms m where r: "lookup rs_id rid (w_restaurants w) = Some r"
    and m: "activeStaff r (userId u) = m # ms" "sm_role m = sr"
    using assms by (auto simp: getRestaurantRole_def split: if_splits option.splits list.splits)
  then have "m \<in> set (activeStaff r (userId u))" by simp
  with r m(2) show ?thesis by (auto simp: activeStaff_def)
qed

text \<open>Exactly four relationships open an order: platform admin, its customer, its rider, and a
  restaurant account with a role over its restaurant.\<close>

lemma order_access_cases:
  "canAccessOrder w ord u \<longleftrightarrow>
     isAdmin u \<or> o_customerId ord = userId u \<or> o_deliveryPartnerId ord = Some (userId u) \<or>
     ((role u = RESTAURANT_OWNER \<or> role u = RESTAURANT_MANAGER) \<and>
      canAccessRestaurant w (o_restaurantId ord) u)"
  by (simp add: canAccessOrder_def)

text \<open>Access only looks at the restaurant table.\<close>

lemma access_frame:
  "w_restaurants w' = w_restaurants w \<Longrightarrow> getRestaurantRole w' = getRestaurantRole w"
  "w_restaurants w' = w_restaurants w \<Longrightarrow> canAccessRestaurant w' = canAccessRestaurant w"
  "w_restaurants w' = w_restaurants w \<Longrightarrow> canAccessOrder w' = canAccessOrder w"
  by (auto simp: fun_eq_iff getRestaurantRole_def canAccessRestaurant_def canAccessOrder_def)

end
