(* ===== verification/Pricing.thy ===== *)
theory Pricing
  imports Store
begin

text \<open>
  The pricing pipeline of \<^verbatim>\<open>modules/pricing\<close>: subtotal, coupon, delivery fee, tax, total.
  Amounts are exact rationals; the code computes the same expressions on doubles.
\<close>

record couponResult =
  cr_discount :: rat
  cr_freeDelivery :: bool

record pricingResult =
  pr_subtotal :: rat
  pr_deliveryFee :: rat
  pr_tax :: rat
  pr_discount :: rat
  pr_wallet :: rat
  pr_platformFee :: rat
  pr_total :: rat
  pr_breakdown :: "(string \<times> rat) list"

section \<open>Calculators\<close>

definition subtotalCalculate :: "rat list \<Rightarrow> rat" where
  "subtotalCalculate items = foldl (\<lambda>sum t. sum + t) 0 items"

definition FLAT_DELIVERY_FEE :: rat where "FLAT_DELIVERY_FEE = 40"

definition deliveryFeeCalculate :: rat where "deliveryFeeCalculate = FLAT_DELIVERY_FEE"

definition FLAT_TAX_RATE :: rat where "FLAT_TAX_RATE = 5 / 100"

definition taxCalculate :: "rat \<Rightarrow> rat" where "taxCalculate subtotal = subtotal * FLAT_TAX_RATE"

fun couponCalculate :: "rat \<Rightarrow> coupon option \<Rightarrow> couponResult" where
  "couponCalculate subtotal None = \<lparr>cr_discount = 0, cr_freeDelivery = False\<rparr>"
| "couponCalculate subtotal (Some c) =
     (if c_type c = FREE_DELIVERY then \<lparr>cr_discount = 0, cr_freeDelivery = True\<rparr>
      else if c_type c = FLAT
        then \<lparr>cr_discount = min (c_value c) subtotal, cr_freeDelivery = False\<rparr>
      else
        (let rawDiscount = subtotal * (c_value c / 100);
             cappedDiscount = (case c_maxDiscount c of
                 Some m \<Rightarrow> min rawDiscount m
               | None \<Rightarrow> rawDiscount)
         in \<lparr>cr_discount = min cappedDiscount subtotal, cr_freeDelivery = False\<rparr>))"

section \<open>The engine\<close>

definition calculate :: "rat list \<Rightarrow> coupon option \<Rightarrow> pricingResult" where
  "calculate items cpn =
     (let subtotal = subtotalCalculate items;
          cr = couponCalculate subtotal cpn;
          baseDeliveryFee = deliveryFeeCalculate;
          deliveryFee = (if cr_freeDelivery cr then 0 else baseDeliveryFee);
          taxAmount = taxCalculate subtotal;
          discountAmount = cr_discount cr;
          walletAmount = 0;
          platformFee = 0;
          totalAmount = subtotal - discountAmount + deliveryFee + taxAmount + platformFee - walletAmount
      in \<lparr>pr_subtotal = subtotal, pr_deliveryFee = deliveryFee, pr_tax = taxAmount,
          pr_discount = discountAmount, pr_wallet = walletAmount, pr_platformFee = platformFee,
          pr_total = totalAmount,
          pr_breakdown = [(''Subtotal'', subtotal)]
            @ (if discountAmount > 0 then [(''Discount'', - discountAmount)] else [])
            @ [(''Delivery Fee'', deliveryFee), (''Tax'', taxAmount), (''Total'', totalAmount)]\<rparr>)"

section \<open>Well-formed coupons\<close>

text \<open>What the admin DTO validation guarantees of a stored coupon's amounts.\<close>

definition wf_coupon :: "coupon \<Rightarrow> bool" where
  "wf_coupon c \<longleftrightarrow> 0 \<le> c_value c \<and> (\<forall>m. c_maxDiscount c = Some m \<longrightarrow> 0 \<le> m) \<and> 0 \<le> c_minOrder c"

lemma subtotal_sum_list: "subtotalCalculate items = sum_list items"
proof -
  have "foldl (\<lambda>sum t. sum + t) a items = a + sum_list items" for a :: rat
    by (induction items arbitrary: a) (auto simp: add.assoc)
  then show ?thesis by (simp add: subtotalCalculate_def)
qed

lemma discount_le_subtotal: "0 \<le> subtotal \<Longrightarrow> cr_discount (couponCalculate subtotal cpn) \<le> subtotal"
  by (cases cpn) (auto simp: Let_def)

lemma discount_nonneg:
  "0 \<le> subtotal \<Longrightarrow> (\<And>c. cpn = Some c \<Longrightarrow> wf_coupon c) \<Longrightarrow>
     0 \<le> cr_discount (couponCalculate subtotal cpn)"
  by (cases cpn) (auto simp: Let_def wf_coupon_def split: option.split)

lemma discount_le_cap:
  "c_type c = PERCENTAGE \<Longrightarrow> c_maxDiscount c = Some m \<Longrightarrow>
     cr_discount (couponCalculate subtotal (Some c)) \<le> m"
  by (simp add: Let_def)

lemma calculate_fields:
  "pr_subtotal (calculate items cpn) = sum_list items"
  "pr_tax (calculate items cpn) = sum_list items * 5 / 100"
  "pr_discount (calculate items cpn) = cr_discount (couponCalculate (sum_list items) cpn)"
  "pr_deliveryFee (calculate items cpn)
     = (if cr_freeDelivery (couponCalculate (sum_list items) cpn) then 0 else 40)"
  "pr_total (calculate items cpn) =
     sum_list items - pr_discount (calculate items cpn) + pr_deliveryFee (calculate items cpn)
       + pr_tax (calculate items cpn)"
  by (simp_all add: calculate_def Let_def subtotal_sum_list taxCalculate_def FLAT_TAX_RATE_def
      deliveryFeeCalculate_def FLAT_DELIVERY_FEE_def)

lemma calculate_nonneg:
  assumes "\<And>t. t \<in> set items \<Longrightarrow> 0 \<le> t"
  shows "0 \<le> pr_subtotal (calculate items cpn)" "0 \<le> pr_tax (calculate items cpn)"
    "0 \<le> pr_deliveryFee (calculate items cpn)"
    "pr_tax (calculate items cpn) + pr_deliveryFee (calculate items cpn) \<le> pr_total (calculate items cpn)"
proof -
  have s: "0 \<le> sum_list items" using assms by (simp add: sum_list_nonneg)
  show "0 \<le> pr_subtotal (calculate items cpn)" "0 \<le> pr_tax (calculate items cpn)"
    "0 \<le> pr_deliveryFee (calculate items cpn)"
    using s by (simp_all add: calculate_fields)
  show "pr_tax (calculate items cpn) + pr_deliveryFee (calculate items cpn) \<le> pr_total (calculate items cpn)"
    using discount_le_subtotal[OF s, of cpn] by (simp add: calculate_fields(3,5))
qed

text \<open>The breakdown a customer is shown adds up to the total.\<close>

lemma breakdown_adds_up:
  assumes "0 \<le> pr_discount (calculate items cpn)"
  shows "sum_list (map snd (butlast (pr_breakdown (calculate items cpn)))) = pr_total (calculate items cpn)"
  using assms by (auto simp: calculate_def Let_def butlast_append)

section \<open>Properties\<close>

text \<open>
  Pricing never charges a negative amount and never discounts more than the food: for line
  totals that are non-negative and a well-formed coupon, the discount lies between zero and the
  subtotal, the total is the subtotal minus discount plus fee plus tax and at least the fee plus
  the tax, and the breakdown lines add up to the total.
\<close>
theorem pricing_sound:
  assumes "\<forall>t \<in> set items. 0 \<le> t" and "\<forall>c. cpn = Some c \<longrightarrow> wf_coupon c"
  shows "0 \<le> pr_discount (calculate items cpn) \<and>
    pr_discount (calculate items cpn) \<le> pr_subtotal (calculate items cpn) \<and>
    pr_total (calculate items cpn) = pr_subtotal (calculate items cpn) - pr_discount (calculate items cpn)
      + pr_deliveryFee (calculate items cpn) + pr_tax (calculate items cpn) \<and>
    pr_deliveryFee (calculate items cpn) + pr_tax (calculate items cpn) \<le> pr_total (calculate items cpn) \<and>
    sum_list (map snd (butlast (pr_breakdown (calculate items cpn)))) = pr_total (calculate items cpn)"
proof -
  have s: "0 \<le> sum_list items" using assms(1) by (simp add: sum_list_nonneg)
  have d: "0 \<le> pr_discount (calculate items cpn)"
    using discount_nonneg[OF s] assms(2) by (simp add: calculate_fields(3))
  then show ?thesis
    using discount_le_subtotal[OF s, of cpn] calculate_nonneg[of items cpn] assms(1)
      breakdown_adds_up[OF d]
    by (simp add: calculate_fields)
qed

definition cappedCoupon :: coupon where
  "cappedCoupon = \<lparr>c_id = ''c9'', c_code = ''HALF'', c_type = PERCENTAGE, c_value = 50,
     c_maxDiscount = Some 60, c_minOrder = 100, c_scope = PLATFORM, c_restaurantId = None,
     c_usageLimit = None, c_usagePerUser = 1, c_totalUsed = 0, c_startsAt = 0, c_endsAt = 1000,
     c_active = True\<rparr>"

lemma pricing_sound_witness:
  "pr_discount (calculate [120, 80] (Some cappedCoupon)) = 60 \<and>
   pr_total (calculate [120, 80] (Some cappedCoupon)) = 190 \<and>
   pr_discount (calculate [120, 80] (Some cappedCoupon)) \<le> pr_subtotal (calculate [120, 80] (Some cappedCoupon)) \<and>
   sum_list (map snd (butlast (pr_breakdown (calculate [120, 80] (Some cappedCoupon)))))
     = pr_total (calculate [120, 80] (Some cappedCoupon))"
proof -
  have "\<forall>t \<in> set [120, 80 :: rat]. 0 \<le> t" by simp
  moreover have "\<forall>c. Some cappedCoupon = Some c \<longrightarrow> wf_coupon c"
    by (simp add: wf_coupon_def cappedCoupon_def)
  ultimately show ?thesis
    using pricing_sound[of "[120, 80]" "Some cappedCoupon"]
    by (simp add: calculate_fields cappedCoupon_def Let_def)
qed

end
