(* ===== verification/Coupons.thy ===== *)
theory Coupons
  imports Pricing
begin

text \<open>
  Coupons: the eligibility rules (\<^verbatim>\<open>coupons.util.ts\<close>), the atomic redemption gate
  (\<^verbatim>\<open>CouponsRepository.reserveRedemption\<close>), its release, and the admin operations.

  A transaction is a function of the world that either returns the updated world or, on an
  error, the unchanged one.  \<^verbatim>\<open>uuid()\<close> values are arguments.
\<close>

section \<open>Eligibility\<close>

definition assertCouponEligible :: "coupon \<Rightarrow> string \<Rightarrow> rat \<Rightarrow> int \<Rightarrow> int \<Rightarrow> unit result" where
  "assertCouponEligible c restaurantId subtotal userRedemptionCount now =
     (if \<not> c_active c then Inl (BadRequest ''inactive'')
      else if now < c_startsAt c then Inl (BadRequest ''not active yet'')
      else if now > c_endsAt c then Inl (BadRequest ''expired'')
      else if subtotal < c_minOrder c then Inl (BadRequest ''minimum order'')
      else if c_scope c = RESTAURANT \<and> c_restaurantId c \<noteq> Some restaurantId
        then Inl (BadRequest ''wrong restaurant'')
      else if (case c_usageLimit c of None \<Rightarrow> False | Some l \<Rightarrow> c_totalUsed c \<ge> l)
        then Inl (BadRequest ''usage limit'')
      else if userRedemptionCount \<ge> c_usagePerUser c then Inl (BadRequest ''already redeemed'')
      else Inr ())"

section \<open>Repository\<close>

definition findCouponByCode :: "string \<Rightarrow> world \<Rightarrow> coupon option" where
  "findCouponByCode code w = lookup c_code code (w_coupons w)"

definition findCouponById :: "string \<Rightarrow> world \<Rightarrow> coupon option" where
  "findCouponById cid w = lookup c_id cid (w_coupons w)"

definition countUserRedemptions :: "string \<Rightarrow> string \<Rightarrow> world \<Rightarrow> int" where
  "countUserRedemptions cid uid w =
     int (matches (\<lambda>x. x_couponId x = cid \<and> x_userId x = uid) (w_redemptions w))"

definition findAvailable :: "string option \<Rightarrow> int \<Rightarrow> world \<Rightarrow> coupon list" where
  "findAvailable restaurantId now w =
     rev (filter (\<lambda>c. c_active c \<and> c_startsAt c \<le> now \<and> c_endsAt c \<ge> now \<and>
        (c_scope c = PLATFORM \<or>
         (restaurantId \<noteq> None \<and> c_scope c = RESTAURANT \<and> c_restaurantId c = restaurantId)))
      (w_coupons w))"

definition underLimit :: "int option \<Rightarrow> coupon \<Rightarrow> bool" where
  "underLimit limit c = (case limit of None \<Rightarrow> True | Some l \<Rightarrow> c_totalUsed c < l)"

definition bumpUsed :: "int \<Rightarrow> coupon \<Rightarrow> coupon" where
  "bumpUsed d c = c\<lparr>c_totalUsed := c_totalUsed c + d\<rparr>"

definition reserveRedemptionTx ::
  "string \<Rightarrow> int \<Rightarrow> string \<Rightarrow> string \<Rightarrow> string \<Rightarrow> rat \<Rightarrow> world \<Rightarrow> (world, coupon \<times> string) outcome" where
  "reserveRedemptionTx uuid now uid code restaurantId subtotal w =
     (case findCouponByCode code w of
        None \<Rightarrow> (Inl (NotFound ''Coupon''), w)
      | Some c \<Rightarrow>
          (case assertCouponEligible c restaurantId subtotal (countUserRedemptions (c_id c) uid w) now of
             Inl e \<Rightarrow> (Inl e, w)
           | Inr _ \<Rightarrow>
               (let p = (\<lambda>d. c_id d = c_id c \<and> underLimit (c_usageLimit c) d);
                    count = matches p (w_coupons w);
                    coupons' = modify p (bumpUsed 1) (w_coupons w)
                in if count = 0 then (Inl (BadRequest ''usage limit''), w)
                   else (Inr (c, uuid),
                     w\<lparr>w_coupons := coupons',
                       w_redemptions := w_redemptions w @
                         [\<lparr>x_id = uuid, x_couponId = c_id c, x_userId = uid, x_orderId = None,
                           x_discount = 0\<rparr>]\<rparr>))))"

text \<open>The batch transaction: Prisma's \<^verbatim>\<open>delete\<close> and \<^verbatim>\<open>update\<close> raise P2025 on a missing row.\<close>

definition releaseRedemption :: "string \<Rightarrow> string \<Rightarrow> world \<Rightarrow> (world, unit) outcome" where
  "releaseRedemption cid rid w =
     (if lookup x_id rid (w_redemptions w) = None then (Inl (RecordNotFound ''CouponRedemption''), w)
      else if lookup c_id cid (w_coupons w) = None then (Inl (RecordNotFound ''Coupon''), w)
      else (Inr (), w\<lparr>w_redemptions := filter (\<lambda>x. x_id x \<noteq> rid) (w_redemptions w),
                      w_coupons := modify (\<lambda>c. c_id c = cid) (bumpUsed (- 1)) (w_coupons w)\<rparr>))"

definition findRedemptionByOrderId :: "string \<Rightarrow> world \<Rightarrow> redemption option" where
  "findRedemptionByOrderId oid w = lookup x_orderId (Some oid) (w_redemptions w)"

definition finalizeRedemption :: "string \<Rightarrow> string \<Rightarrow> rat \<Rightarrow> world \<Rightarrow> (world, unit) outcome" where
  "finalizeRedemption rid oid discount w =
     (if lookup x_id rid (w_redemptions w) = None then (Inl (RecordNotFound ''CouponRedemption''), w)
      else (Inr (), w\<lparr>w_redemptions := modify (\<lambda>x. x_id x = rid)
              (\<lambda>x. x\<lparr>x_orderId := Some oid, x_discount := dec2 discount\<rparr>) (w_redemptions w)\<rparr>))"

section \<open>Service\<close>

definition normalizeCode :: "string \<Rightarrow> string" where
  "normalizeCode code = toUpperCase (trim code)"

definition assertUsable :: "string \<Rightarrow> string \<Rightarrow> string \<Rightarrow> rat \<Rightarrow> int \<Rightarrow> world \<Rightarrow> coupon result" where
  "assertUsable uid code restaurantId subtotal now w =
     (case findCouponByCode (normalizeCode code) w of
        None \<Rightarrow> Inl (NotFound ''Coupon'')
      | Some c \<Rightarrow>
          (case assertCouponEligible c restaurantId subtotal (countUserRedemptions (c_id c) uid w) now of
             Inl e \<Rightarrow> Inl e
           | Inr _ \<Rightarrow> Inr c))"

definition validateCoupon ::
  "string \<Rightarrow> string \<Rightarrow> string \<Rightarrow> rat \<Rightarrow> int \<Rightarrow> world \<Rightarrow> (coupon \<times> pricingResult) result" where
  "validateCoupon uid code restaurantId subtotal now w =
     (case assertUsable uid code restaurantId subtotal now w of
        Inl e \<Rightarrow> Inl e
      | Inr c \<Rightarrow> Inr (c, calculate [subtotal] (Some c)))"

definition MAX_SERIALIZATION_RETRIES :: nat where "MAX_SERIALIZATION_RETRIES = 2"

text \<open>\<open>aborts n\<close>: the database aborts attempt \<open>n\<close> with a serialization failure (P2034).\<close>

function reserveRedemption ::
  "(nat \<Rightarrow> bool) \<Rightarrow> string \<Rightarrow> int \<Rightarrow> string \<Rightarrow> string \<Rightarrow> string \<Rightarrow> rat \<Rightarrow> nat \<Rightarrow> world
     \<Rightarrow> (world, coupon \<times> string) outcome" where
  "reserveRedemption aborts uuid now uid code restaurantId subtotal attempt w =
     (if aborts attempt
      then if attempt < MAX_SERIALIZATION_RETRIES
        then reserveRedemption aborts uuid now uid code restaurantId subtotal (attempt + 1) w
        else (Inl SerializationFailure, w)
      else reserveRedemptionTx uuid now uid (normalizeCode code) restaurantId subtotal w)"
  by pat_completeness auto
termination
  by (relation "measure (\<lambda>(_, _, _, _, _, _, _, attempt, _). Suc MAX_SERIALIZATION_RETRIES - attempt)")
    (auto simp: MAX_SERIALIZATION_RETRIES_def)

declare reserveRedemption.simps [simp del]

definition releaseForOrder :: "string \<Rightarrow> world \<Rightarrow> (world, unit) outcome" where
  "releaseForOrder oid w =
     (case findRedemptionByOrderId oid w of
        None \<Rightarrow> (Inr (), w)
      | Some x \<Rightarrow>
          (case releaseRedemption (x_couponId x) (x_id x) w of
             (Inl (RecordNotFound _), w') \<Rightarrow> (Inr (), w')
           | res \<Rightarrow> res))"

section \<open>Admin operations\<close>

record couponInput =
  ci_code :: string
  ci_type :: couponType
  ci_value :: rat
  ci_maxDiscount :: "rat option"
  ci_minOrder :: "rat option"
  ci_scope :: "couponScope option"
  ci_restaurantId :: "string option"
  ci_usageLimit :: "int option"
  ci_usagePerUser :: "int option"
  ci_startsAt :: int
  ci_endsAt :: int
  ci_active :: "bool option"

definition orElse :: "'a option \<Rightarrow> 'a \<Rightarrow> 'a" where
  "orElse a d = (case a of None \<Rightarrow> d | Some x \<Rightarrow> x)"

definition createCoupon :: "string \<Rightarrow> couponInput \<Rightarrow> world \<Rightarrow> (world, coupon) outcome" where
  "createCoupon uuid ci w =
     (if ci_scope ci = Some RESTAURANT \<and> ci_restaurantId ci = None
        then (Inl (BadRequest ''restaurantId required''), w)
      else if lookup c_code (ci_code ci) (w_coupons w) \<noteq> None then (Inl (UniqueViolation ''code''), w)
      else
        (let c = \<lparr>c_id = uuid, c_code = ci_code ci, c_type = ci_type ci, c_value = dec2 (ci_value ci),
               c_maxDiscount = map_option dec2 (ci_maxDiscount ci), c_minOrder = dec2 (orElse (ci_minOrder ci) 0),
               c_scope = orElse (ci_scope ci) PLATFORM, c_restaurantId = ci_restaurantId ci,
               c_usageLimit = ci_usageLimit ci, c_usagePerUser = orElse (ci_usagePerUser ci) 1,
               c_totalUsed = 0, c_startsAt = ci_startsAt ci, c_endsAt = ci_endsAt ci,
               c_active = orElse (ci_active ci) True\<rparr>
         in (Inr c, w\<lparr>w_coupons := w_coupons w @ [c]\<rparr>)))"

definition findByIdOrThrow :: "string \<Rightarrow> world \<Rightarrow> coupon result" where
  "findByIdOrThrow cid w =
     (case findCouponById cid w of None \<Rightarrow> Inl (NotFound ''Coupon'') | Some c \<Rightarrow> Inr c)"

definition setActive :: "string \<Rightarrow> bool \<Rightarrow> world \<Rightarrow> world" where
  "setActive cid b w = w\<lparr>w_coupons := modify (\<lambda>c. c_id c = cid) (\<lambda>c. c\<lparr>c_active := b\<rparr>) (w_coupons w)\<rparr>"

definition disableCoupon :: "string \<Rightarrow> world \<Rightarrow> (world, unit) outcome" where
  "disableCoupon cid w =
     (case findByIdOrThrow cid w of Inl e \<Rightarrow> (Inl e, w) | Inr _ \<Rightarrow> (Inr (), setActive cid False w))"

text \<open>Deleting a coupon cascades to its redemption rows (\<^verbatim>\<open>onDelete: Cascade\<close>).\<close>

definition deleteCoupon :: "string \<Rightarrow> world \<Rightarrow> (world, unit) outcome" where
  "deleteCoupon cid w =
     (case findByIdOrThrow cid w of
        Inl e \<Rightarrow> (Inl e, w)
      | Inr _ \<Rightarrow> (Inr (), w\<lparr>w_coupons := filter (\<lambda>c. c_id c \<noteq> cid) (w_coupons w),
                           w_redemptions := filter (\<lambda>x. x_couponId x \<noteq> cid) (w_redemptions w),
                           w_orders := modify (\<lambda>ord. o_couponId ord = Some cid)
                             (\<lambda>ord. ord\<lparr>o_couponId := None\<rparr>) (w_orders w)\<rparr>))"

text \<open>A field the DTO leaves \<^verbatim>\<open>undefined\<close> keeps its value.\<close>

record couponPatch =
  cp_code :: "string option"
  cp_type :: "couponType option"
  cp_value :: "rat option"
  cp_maxDiscount :: "rat option"
  cp_minOrder :: "rat option"
  cp_scope :: "couponScope option"
  cp_restaurantId :: "string option"
  cp_usageLimit :: "int option"
  cp_usagePerUser :: "int option"
  cp_startsAt :: "int option"
  cp_endsAt :: "int option"
  cp_active :: "bool option"

definition applyPatch :: "couponPatch \<Rightarrow> coupon \<Rightarrow> coupon" where
  "applyPatch q c = c\<lparr>c_code := orElse (cp_code q) (c_code c), c_type := orElse (cp_type q) (c_type c),
     c_value := orElse (map_option dec2 (cp_value q)) (c_value c),
     c_maxDiscount := (if cp_maxDiscount q = None then c_maxDiscount c else map_option dec2 (cp_maxDiscount q)),
     c_minOrder := orElse (map_option dec2 (cp_minOrder q)) (c_minOrder c), c_scope := orElse (cp_scope q) (c_scope c),
     c_restaurantId := (if cp_restaurantId q = None then c_restaurantId c else cp_restaurantId q),
     c_usageLimit := (if cp_usageLimit q = None then c_usageLimit c else cp_usageLimit q),
     c_usagePerUser := orElse (cp_usagePerUser q) (c_usagePerUser c),
     c_startsAt := orElse (cp_startsAt q) (c_startsAt c), c_endsAt := orElse (cp_endsAt q) (c_endsAt c),
     c_active := orElse (cp_active q) (c_active c)\<rparr>"

definition updateCoupon :: "string \<Rightarrow> couponPatch \<Rightarrow> world \<Rightarrow> (world, unit) outcome" where
  "updateCoupon cid q w =
     (case findByIdOrThrow cid w of
        Inl e \<Rightarrow> (Inl e, w)
      | Inr c \<Rightarrow>
          if (case cp_code q of None \<Rightarrow> False
              | Some code \<Rightarrow> (\<exists>d \<in> set (w_coupons w). c_code d = code \<and> c_id d \<noteq> cid))
          then (Inl (UniqueViolation ''code''), w)
          else (Inr (), w\<lparr>w_coupons := modify (\<lambda>d. c_id d = cid) (applyPatch q) (w_coupons w)\<rparr>))"

section \<open>Invariant\<close>

definition usesOf :: "string \<Rightarrow> world \<Rightarrow> int" where
  "usesOf cid w = int (matches (\<lambda>x. x_couponId x = cid) (w_redemptions w))"

definition coupons_keyed :: "world \<Rightarrow> bool" where
  "coupons_keyed w \<longleftrightarrow> keyed c_id (w_coupons w) \<and> keyed x_id (w_redemptions w)"

text \<open>The counter on the coupon is the number of its ledger rows.\<close>

definition coupon_ledger :: "world \<Rightarrow> bool" where
  "coupon_ledger w \<longleftrightarrow> (\<forall>c \<in> set (w_coupons w). c_totalUsed c = usesOf (c_id c) w)"

definition within_limits :: "world \<Rightarrow> bool" where
  "within_limits w \<longleftrightarrow> (\<forall>c \<in> set (w_coupons w).
     (\<forall>l. c_usageLimit c = Some l \<longrightarrow> c_totalUsed c \<le> l) \<and>
     (\<forall>uid. countUserRedemptions (c_id c) uid w \<le> c_usagePerUser c))"

definition coupons_inv :: "world \<Rightarrow> bool" where
  "coupons_inv w \<longleftrightarrow> coupons_keyed w \<and> coupon_ledger w \<and> within_limits w"

text \<open>The same, with the limits only where \<open>b\<close> asks for them.\<close>

definition coupons_invB :: "bool \<Rightarrow> world \<Rightarrow> bool" where
  "coupons_invB b w \<longleftrightarrow> coupons_keyed w \<and> coupon_ledger w \<and> (b \<longrightarrow> within_limits w)"

lemma coupons_invB_True: "coupons_invB True w = coupons_inv w"
  by (simp add: coupons_invB_def coupons_inv_def)

lemma eligible_iff:
  "assertCouponEligible c rid subtotal n now = Inr u \<longleftrightarrow>
     c_active c \<and> c_startsAt c \<le> now \<and> now \<le> c_endsAt c \<and> c_minOrder c \<le> subtotal \<and>
     (c_scope c = RESTAURANT \<longrightarrow> c_restaurantId c = Some rid) \<and>
     underLimit (c_usageLimit c) c \<and> n < c_usagePerUser c"
  by (auto simp: assertCouponEligible_def underLimit_def split: option.splits)

lemma bumpUsed_simps [simp]:
  "c_id (bumpUsed d c) = c_id c" "c_code (bumpUsed d c) = c_code c"
  "c_totalUsed (bumpUsed d c) = c_totalUsed c + d" "c_usageLimit (bumpUsed d c) = c_usageLimit c"
  "c_usagePerUser (bumpUsed d c) = c_usagePerUser c"
  by (simp_all add: bumpUsed_def)

text \<open>What a successful reservation does, in one equation.\<close>

lemma reserve_success:
  assumes "reserveRedemptionTx uuid now uid code rid subtotal w = (Inr (c, x), w')"
    and "keyed c_id (w_coupons w)"
  shows "findCouponByCode code w = Some c \<and> x = uuid \<and>
    assertCouponEligible c rid subtotal (countUserRedemptions (c_id c) uid w) now = Inr () \<and>
    w' = w\<lparr>w_coupons := modify (\<lambda>d. c_id d = c_id c) (bumpUsed 1) (w_coupons w),
           w_redemptions := w_redemptions w @
             [\<lparr>x_id = uuid, x_couponId = c_id c, x_userId = uid, x_orderId = None, x_discount = 0\<rparr>]\<rparr>"
proof -
  have c: "findCouponByCode code w = Some c"
    and el: "assertCouponEligible c rid subtotal (countUserRedemptions (c_id c) uid w) now = Inr ()"
    and x: "x = uuid"
    and w': "w' = w\<lparr>w_coupons := modify (\<lambda>d. c_id d = c_id c \<and> underLimit (c_usageLimit c) d) (bumpUsed 1) (w_coupons w),
      w_redemptions := w_redemptions w @
        [\<lparr>x_id = uuid, x_couponId = c_id c, x_userId = uid, x_orderId = None, x_discount = 0\<rparr>]\<rparr>"
    using assms(1) by (auto simp: reserveRedemptionTx_def Let_def split: option.splits sum.splits if_splits)
  have mem: "c \<in> set (w_coupons w)" using c by (auto simp: findCouponByCode_def)
  have "modify (\<lambda>d. c_id d = c_id c \<and> underLimit (c_usageLimit c) d) (bumpUsed 1) (w_coupons w)
      = modify (\<lambda>d. c_id d = c_id c) (bumpUsed 1) (w_coupons w)"
    using el keyed_same[OF assms(2) _ mem] by (intro modify_cong) (auto simp: eligible_iff)
  with c el x w' show ?thesis by simp
qed

lemma reserve_error: "reserveRedemptionTx uuid now uid code rid subtotal w = (Inl e, w') \<Longrightarrow> w' = w"
  by (auto simp: reserveRedemptionTx_def Let_def split: option.splits sum.splits if_splits)

lemma usesOf_reserve:
  "usesOf cid (w\<lparr>w_coupons := cs, w_redemptions := w_redemptions w @ [x]\<rparr>)
     = usesOf cid w + (if x_couponId x = cid then 1 else 0)"
  by (simp add: usesOf_def)

lemma reserve_keeps:
  assumes inv: "coupons_invB b w" and fresh: "uuid \<notin> x_id ` set (w_redemptions w)"
    and run: "reserveRedemptionTx uuid now uid code rid subtotal w = (Inr (c, x), w')"
  shows "coupons_invB b w'"
proof -
  have k: "keyed c_id (w_coupons w)" using inv by (simp add: coupons_invB_def coupons_keyed_def)
  note s = reserve_success[OF run k]
  have mem: "c \<in> set (w_coupons w)" using s by (auto simp: findCouponByCode_def)
  have el: "underLimit (c_usageLimit c) c" "countUserRedemptions (c_id c) uid w < c_usagePerUser c"
    using s by (auto simp: eligible_iff)
  have orig: "\<exists>e \<in> set (w_coupons w). d = (if c_id e = c_id c then bumpUsed 1 e else e)"
    if "d \<in> set (w_coupons w')" for d
    using that s by (auto simp: set_modify)
  have keyed': "coupons_keyed w'"
    using inv s fresh by (simp add: coupons_invB_def coupons_keyed_def keyed_snoc)
  moreover have "coupon_ledger w'"
    unfolding coupon_ledger_def
  proof
    fix d assume "d \<in> set (w_coupons w')"
    then obtain e where e: "e \<in> set (w_coupons w)" "d = (if c_id e = c_id c then bumpUsed 1 e else e)"
      using orig by blast
    then have "c_totalUsed e = usesOf (c_id e) w" using inv by (simp add: coupons_invB_def coupon_ledger_def)
    then show "c_totalUsed d = usesOf (c_id d) w'" using e s by (simp add: usesOf_reserve)
  qed
  moreover have "within_limits w'" if b
    unfolding within_limits_def
  proof
    fix d assume "d \<in> set (w_coupons w')"
    then obtain e where e: "e \<in> set (w_coupons w)" "d = (if c_id e = c_id c then bumpUsed 1 e else e)"
      using orig by blast
    have we: "(\<forall>l. c_usageLimit e = Some l \<longrightarrow> c_totalUsed e \<le> l)"
      "(\<forall>uid. countUserRedemptions (c_id e) uid w \<le> c_usagePerUser e)"
      using inv e(1) \<open>b\<close> by (auto simp: coupons_invB_def within_limits_def)
    have same: "c_id e = c_id c \<Longrightarrow> e = c" using keyed_same[OF k e(1) mem] by simp
    have n: "countUserRedemptions (c_id e) v w' = countUserRedemptions (c_id e) v w
        + (if c_id e = c_id c \<and> v = uid then 1 else 0)" for v
      using s by (auto simp: countUserRedemptions_def)
    have "\<forall>l. c_usageLimit d = Some l \<longrightarrow> c_totalUsed d \<le> l"
      using we(1) e(2) same el(1) by (auto simp: underLimit_def)
    moreover have "countUserRedemptions (c_id d) v w' \<le> c_usagePerUser d" for v
    proof (cases "c_id e = c_id c")
      case True
      then show ?thesis using n[of v] we(2)[rule_format, of v] e(2) same el(2) by (cases "v = uid") auto
    next
      case False
      then show ?thesis using n[of v] we(2)[rule_format, of v] e(2) by simp
    qed
    ultimately show "(\<forall>l. c_usageLimit d = Some l \<longrightarrow> c_totalUsed d \<le> l) \<and>
        (\<forall>uid. countUserRedemptions (c_id d) uid w' \<le> c_usagePerUser d)" by blast
  qed
  ultimately show ?thesis by (simp add: coupons_invB_def)
qed

lemma matches_drop:
  assumes "keyed key rows" and "lookup key k rows = Some r"
  shows "int (matches p (filter (\<lambda>x. key x \<noteq> k) rows)) = int (matches p rows) - (if p r then 1 else 0)"
  using assms
proof (induction rows)
  case (Cons a rows)
  show ?case
  proof (cases "key a = k")
    case True
    then have "filter (\<lambda>x. key x \<noteq> k) rows = rows"
      using Cons.prems(1) by (auto simp: keyed_def filter_id_conv dest: fresh_neq)
    then show ?thesis using True Cons.prems by auto
  next
    case False
    then have "keyed key rows" "lookup key k rows = Some r" using Cons.prems by (auto simp: keyed_def)
    from Cons.IH[OF this] show ?thesis using False by auto
  qed
qed simp

lemma release_success:
  assumes "releaseRedemption cid rid w = (Inr u, w')"
  shows "(\<exists>x. lookup x_id rid (w_redemptions w) = Some x) \<and>
    w' = w\<lparr>w_redemptions := filter (\<lambda>x. x_id x \<noteq> rid) (w_redemptions w),
           w_coupons := modify (\<lambda>c. c_id c = cid) (bumpUsed (- 1)) (w_coupons w)\<rparr>"
  using assms by (auto simp: releaseRedemption_def split: if_splits)

lemma release_error: "releaseRedemption cid rid w = (Inl e, w') \<Longrightarrow> w' = w"
  by (auto simp: releaseRedemption_def split: if_splits)

text \<open>Releasing is only ever called with a redemption row and the coupon it belongs to.\<close>

lemma release_keeps:
  assumes inv: "coupons_invB b w" and x: "lookup x_id rid (w_redemptions w) = Some x" "x_couponId x = cid"
    and run: "releaseRedemption cid rid w = (Inr u, w')"
  shows "coupons_invB b w'"
proof -
  have kx: "keyed x_id (w_redemptions w)" using inv by (simp add: coupons_invB_def coupons_keyed_def)
  have w': "w' = w\<lparr>w_redemptions := filter (\<lambda>x. x_id x \<noteq> rid) (w_redemptions w),
      w_coupons := modify (\<lambda>c. c_id c = cid) (bumpUsed (- 1)) (w_coupons w)\<rparr>"
    using release_success[OF run] by blast
  have u: "usesOf c w' = usesOf c w - (if c = cid then 1 else 0)" for c
    using matches_drop[OF kx x(1)] x(2) by (simp add: usesOf_def w')
  have n: "countUserRedemptions c v w' \<le> countUserRedemptions c v w" for c v
    using matches_drop[OF kx x(1)] by (simp add: countUserRedemptions_def w')
  have "coupons_keyed w'"
    using inv by (simp add: coupons_invB_def coupons_keyed_def w' keyed_filter)
  moreover have "coupon_ledger w'"
    using inv u by (auto simp: coupons_invB_def coupon_ledger_def w' set_modify)
  moreover have "within_limits w'" if b
  proof -
    have "(\<forall>l. c_usageLimit d = Some l \<longrightarrow> c_totalUsed d \<le> l) \<and>
        (\<forall>v. countUserRedemptions (c_id d) v w' \<le> c_usagePerUser d)"
      if d: "d \<in> set (w_coupons w')" for d
    proof -
      obtain e where e: "e \<in> set (w_coupons w)" "d = (if c_id e = cid then bumpUsed (- 1) e else e)"
        using d by (auto simp: w' set_modify)
      have "(\<forall>l. c_usageLimit e = Some l \<longrightarrow> c_totalUsed e \<le> l) \<and>
          (\<forall>v. countUserRedemptions (c_id e) v w \<le> c_usagePerUser e)"
        using inv e(1) \<open>b\<close> by (simp add: coupons_invB_def within_limits_def)
      then show ?thesis using e(2) n[of "c_id e"] by (fastforce intro: order_trans)
    qed
    then show ?thesis by (simp add: within_limits_def)
  qed
  ultimately show ?thesis by (simp add: coupons_invB_def)
qed

lemma finalize_keeps:
  assumes inv: "coupons_invB b w" and run: "finalizeRedemption rid oid d w = (Inr u, w')"
  shows "coupons_invB b w'"
proof -
  let ?f = "\<lambda>x. x\<lparr>x_orderId := Some oid, x_discount := dec2 d\<rparr>"
  have w': "w' = w\<lparr>w_redemptions := modify (\<lambda>x. x_id x = rid) ?f (w_redemptions w)\<rparr>"
    using run by (auto simp: finalizeRedemption_def split: if_splits)
  have "usesOf c w' = usesOf c w" "countUserRedemptions c v w' = countUserRedemptions c v w" for c v
    by (simp_all add: usesOf_def countUserRedemptions_def w' matches_modify_same)
  then show ?thesis
    using inv unfolding coupons_invB_def coupons_keyed_def coupon_ledger_def within_limits_def
    by (auto simp: w')
qed

lemma releaseForOrder_cases:
  "releaseForOrder oid w = (Inr (), w) \<or>
   (\<exists>x. findRedemptionByOrderId oid w = Some x \<and>
      releaseRedemption (x_couponId x) (x_id x) w = releaseForOrder oid w \<and>
      fst (releaseForOrder oid w) = Inr ())"
  by (auto simp: releaseForOrder_def releaseRedemption_def split: option.split)

lemma releaseForOrder_ok [simp]: "fst (releaseForOrder oid w) = Inr ()"
  using releaseForOrder_cases[of oid w] by auto

lemma releaseForOrder_keeps:
  assumes inv: "coupons_invB b w" shows "coupons_invB b (snd (releaseForOrder oid w))"
  using releaseForOrder_cases[of oid w]
proof
  assume "\<exists>x. findRedemptionByOrderId oid w = Some x \<and>
      releaseRedemption (x_couponId x) (x_id x) w = releaseForOrder oid w \<and>
      fst (releaseForOrder oid w) = Inr ()"
  then obtain x where x: "findRedemptionByOrderId oid w = Some x"
    "releaseRedemption (x_couponId x) (x_id x) w = (Inr (), snd (releaseForOrder oid w))"
    by (metis prod.collapse)
  have "x \<in> set (w_redemptions w)" using x(1) by (auto simp: findRedemptionByOrderId_def)
  then have "lookup x_id (x_id x) (w_redemptions w) = Some x"
    using inv by (intro lookup_keyed) (auto simp: coupons_invB_def coupons_keyed_def)
  from release_keeps[OF inv this refl x(2)] show ?thesis .
qed (use inv in simp)

lemmas release_preserves = release_keeps[of True, unfolded coupons_invB_True]
  and finalize_preserves = finalize_keeps[of True, unfolded coupons_invB_True]
  and releaseForOrder_preserves = releaseForOrder_keeps[of True, unfolded coupons_invB_True]

section \<open>Any history of coupon operations\<close>

text \<open>One committed operation on the coupon tables.  Transactions on one coupon are serialized by
  the row lock and the advisory lock, so a concurrent run is some sequence of these steps.
  \<open>lowering\<close> says whether an administrator's update may set a limit below the one in force.\<close>

definition keepsLimits :: "couponPatch \<Rightarrow> coupon \<Rightarrow> bool" where
  "keepsLimits q c \<longleftrightarrow>
     (case (cp_usageLimit q, c_usageLimit c) of
        (None, _) \<Rightarrow> True | (Some l', Some l) \<Rightarrow> l \<le> l' | (Some _, None) \<Rightarrow> False) \<and>
     (case cp_usagePerUser q of None \<Rightarrow> True | Some n \<Rightarrow> c_usagePerUser c \<le> n)"

inductive couponStep :: "bool \<Rightarrow> world \<Rightarrow> world \<Rightarrow> bool" for lowering where
  reserve: "uuid \<notin> x_id ` set (w_redemptions w) \<Longrightarrow>
    reserveRedemption aborts uuid now uid code rid subtotal n w = (r, w') \<Longrightarrow> couponStep lowering w w'"
| release: "lookup x_id rid (w_redemptions w) = Some x \<Longrightarrow>
    releaseRedemption (x_couponId x) rid w = (r', w') \<Longrightarrow> couponStep lowering w w'"
| releaseOrder: "releaseForOrder oid w = (u, w') \<Longrightarrow> couponStep lowering w w'"
| finalize: "finalizeRedemption rid oid d w = (u, w') \<Longrightarrow> couponStep lowering w w'"
| disable: "disableCoupon cid w = (u, w') \<Longrightarrow> couponStep lowering w w'"
| create: "uuid \<notin> c_id ` set (w_coupons w) \<Longrightarrow> \<forall>x \<in> set (w_redemptions w). x_couponId x \<noteq> uuid \<Longrightarrow>
    (\<forall>l. ci_usageLimit ci = Some l \<longrightarrow> 0 \<le> l) \<Longrightarrow> (\<forall>n. ci_usagePerUser ci = Some n \<longrightarrow> 0 \<le> n) \<Longrightarrow>
    createCoupon uuid ci w = (v, w') \<Longrightarrow> couponStep lowering w w'"
| delete: "deleteCoupon cid w = (u, w') \<Longrightarrow> couponStep lowering w w'"
| update: "lowering \<or> (\<forall>c. findCouponById cid w = Some c \<longrightarrow> keepsLimits q c) \<Longrightarrow>
    updateCoupon cid q w = (u, w') \<Longrightarrow> couponStep lowering w w'"

lemma reserveRedemption_unfold:
  "reserveRedemption aborts uuid now uid code rid subtotal n w
     = (Inl SerializationFailure, w) \<or>
   reserveRedemption aborts uuid now uid code rid subtotal n w
     = reserveRedemptionTx uuid now uid (normalizeCode code) rid subtotal w"
proof (induction aborts uuid now uid code rid subtotal n w rule: reserveRedemption.induct)
  case (1 aborts uuid now uid code rid subtotal n w)
  then show ?case
    by (subst (1 2) reserveRedemption.simps) (auto simp: reserveRedemption.simps)
qed

lemma reserve_service_keeps:
  assumes "coupons_invB b w" and "uuid \<notin> x_id ` set (w_redemptions w)"
  shows "coupons_invB b (snd (reserveRedemption aborts uuid now uid code rid subtotal n w))"
proof -
  let ?tx = "reserveRedemptionTx uuid now uid (normalizeCode code) rid subtotal w"
  have "coupons_invB b (snd ?tx)"
  proof (cases ?tx)
    case (Pair res w')
    then show ?thesis
      using assms reserve_error[of uuid now uid "normalizeCode code" rid subtotal w]
        reserve_keeps[OF assms, of now uid "normalizeCode code" rid subtotal]
      by (cases res) auto
  qed
  then show ?thesis
    using assms(1) reserveRedemption_unfold[of aborts uuid now uid code rid subtotal n w] by auto
qed

lemma setActive_keeps: "coupons_invB b w \<Longrightarrow> coupons_invB b (setActive cid a w)"
  by (auto simp: coupons_invB_def coupons_keyed_def coupon_ledger_def within_limits_def setActive_def
      set_modify usesOf_def countUserRedemptions_def)

lemma create_keeps:
  assumes inv: "coupons_invB b w" and "uuid \<notin> c_id ` set (w_coupons w)"
    and none: "\<forall>x \<in> set (w_redemptions w). x_couponId x \<noteq> uuid"
    and lim: "\<forall>l. ci_usageLimit ci = Some l \<longrightarrow> 0 \<le> l" "\<forall>n. ci_usagePerUser ci = Some n \<longrightarrow> 0 \<le> n"
    and run: "createCoupon uuid ci w = (v, w')"
  shows "coupons_invB b w'"
proof (cases v)
  case (Inl e)
  then have "w' = w" using run by (auto simp: createCoupon_def Let_def split: if_splits)
  with inv show ?thesis by simp
next
  case (Inr c)
  have w': "w' = w\<lparr>w_coupons := w_coupons w @ [c]\<rparr>"
    and c: "c_id c = uuid" "c_totalUsed c = 0" "c_usageLimit c = ci_usageLimit ci"
      "c_usagePerUser c = orElse (ci_usagePerUser ci) 1"
    using run Inr by (auto simp: createCoupon_def Let_def split: if_splits)
  have 0: "matches (\<lambda>x. x_couponId x = uuid) (w_redemptions w) = 0"
    "matches (\<lambda>x. x_couponId x = uuid \<and> x_userId x = v) (w_redemptions w) = 0" for v
    using none by (auto simp: matches_0_iff)
  show ?thesis
    using inv assms(2) lim 0 c unfolding coupons_invB_def coupons_keyed_def coupon_ledger_def within_limits_def
    by (auto simp: w' keyed_snoc usesOf_def countUserRedemptions_def orElse_def split: option.splits)
qed

lemma matches_filter_neq:
  "c \<noteq> cid \<Longrightarrow> (\<And>x. p x \<Longrightarrow> x_couponId x = c) \<Longrightarrow>
     matches p (filter (\<lambda>x. x_couponId x \<noteq> cid) rows) = matches p rows"
  by (induction rows) auto

lemma delete_keeps:
  assumes inv: "coupons_invB b w" and run: "deleteCoupon cid w = (v, w')"
  shows "coupons_invB b w'"
proof (cases "findByIdOrThrow cid w")
  case (Inl e)
  then have "w' = w" using run by (simp add: deleteCoupon_def)
  with inv show ?thesis by simp
next
  case (Inr c)
  let ?ord = "modify (\<lambda>ord. o_couponId ord = Some cid) (\<lambda>ord. ord\<lparr>o_couponId := None\<rparr>) (w_orders w)"
  have w': "w' = w\<lparr>w_coupons := filter (\<lambda>c. c_id c \<noteq> cid) (w_coupons w),
      w_redemptions := filter (\<lambda>x. x_couponId x \<noteq> cid) (w_redemptions w), w_orders := ?ord\<rparr>"
    using run Inr by (auto simp: deleteCoupon_def)
  have "usesOf c w' = usesOf c w" "countUserRedemptions c v w' = countUserRedemptions c v w"
    if "c \<noteq> cid" for c v
    using that by (auto simp: w' usesOf_def countUserRedemptions_def intro!: matches_filter_neq)
  then show ?thesis
    using inv unfolding coupons_invB_def coupons_keyed_def coupon_ledger_def within_limits_def
    by (auto simp: w' keyed_filter)
qed

lemmas reserve_service_preserves = reserve_service_keeps[of True, unfolded coupons_invB_True]

lemma applyPatch_simps [simp]:
  "c_id (applyPatch q c) = c_id c" "c_totalUsed (applyPatch q c) = c_totalUsed c"
  by (simp_all add: applyPatch_def)

lemma update_keeps:
  assumes inv: "coupons_invB b w" and run: "updateCoupon cid q w = (u, w')"
    and keep: "b \<Longrightarrow> \<forall>c. findCouponById cid w = Some c \<longrightarrow> keepsLimits q c"
  shows "coupons_invB b w'"
proof (cases "w' = w")
  case False
  then have w': "w' = w\<lparr>w_coupons := modify (\<lambda>d. c_id d = cid) (applyPatch q) (w_coupons w)\<rparr>"
    using run by (auto simp: updateCoupon_def split: sum.splits if_splits)
  have same: "usesOf i w' = usesOf i w" "countUserRedemptions i v w' = countUserRedemptions i v w" for i v
    by (simp_all add: w' usesOf_def countUserRedemptions_def)
  have keyed: "coupons_keyed w'" using inv by (simp add: coupons_invB_def coupons_keyed_def w')
  have ledger: "coupon_ledger w'" using inv by (auto simp: coupons_invB_def coupon_ledger_def same) (auto simp: w' set_modify)
  have limits: "within_limits w'" if b
    unfolding within_limits_def
  proof
    fix d assume "d \<in> set (w_coupons w')"
    then obtain e where e: "e \<in> set (w_coupons w)" "d = (if c_id e = cid then applyPatch q e else e)"
      by (auto simp: w' set_modify)
    have k: "keyed c_id (w_coupons w)" using inv by (simp add: coupons_invB_def coupons_keyed_def)
    have "c_id e = cid \<Longrightarrow> keepsLimits q e"
      using keep[OF \<open>b\<close>] lookup_keyed[OF k e(1)] by (simp add: findCouponById_def)
    moreover have we: "\<forall>l. c_usageLimit e = Some l \<longrightarrow> c_totalUsed e \<le> l"
        "\<forall>uid. countUserRedemptions (c_id e) uid w \<le> c_usagePerUser e"
      using inv e(1) \<open>b\<close> by (simp_all add: coupons_invB_def within_limits_def)
    moreover have "\<forall>l. c_usageLimit d = Some l \<longrightarrow> c_totalUsed d \<le> l" if "c_id e = cid" "keepsLimits q e"
      using that e(2) we(1) by (cases "cp_usageLimit q"; cases "c_usageLimit e")
        (auto simp: applyPatch_def keepsLimits_def)
    moreover have "c_usagePerUser e \<le> c_usagePerUser d" if "c_id e = cid" "keepsLimits q e"
      using that e(2) by (cases "cp_usagePerUser q") (auto simp: applyPatch_def keepsLimits_def orElse_def)
    ultimately show "(\<forall>l. c_usageLimit d = Some l \<longrightarrow> c_totalUsed d \<le> l) \<and>
        (\<forall>uid. countUserRedemptions (c_id d) uid w' \<le> c_usagePerUser d)"
      using e(2) by (cases "c_id e = cid") (auto simp: same intro: order_trans)
  qed
  from keyed ledger limits show ?thesis by (simp add: coupons_invB_def)
qed (use inv in simp)

lemma couponStep_keeps: "couponStep lowering w w' \<Longrightarrow> coupons_invB (\<not> lowering) w \<Longrightarrow> coupons_invB (\<not> lowering) w'"
proof (induction rule: couponStep.induct)
  case (reserve uuid w aborts now uid code rid subtotal n r w')
  then show ?case using reserve_service_keeps by (metis snd_conv)
next
  case (release rid w x r' w')
  then show ?case using release_keeps[of "\<not> lowering" w rid x "x_couponId x"]
    by (cases r') (auto dest: release_error)
next
  case (releaseOrder oid w u w')
  then show ?case using releaseForOrder_keeps by (metis snd_conv)
next
  case (finalize rid oid d w u w')
  then show ?case using finalize_keeps
    by (cases u) (auto simp: finalizeRedemption_def split: if_splits)
next
  case (disable cid w u w')
  then show ?case using setActive_keeps by (auto simp: disableCoupon_def split: sum.splits)
next
  case (create uuid w ci v w')
  then show ?case using create_keeps by blast
next
  case (delete cid w u w')
  then show ?case using delete_keeps by blast
next
  case (update cid w q u w')
  then show ?case using update_keeps by blast
qed

text \<open>A reservation that succeeds is within the limits the coupon has at that moment.\<close>

lemma reserve_within:
  assumes inv: "coupons_invB b w"
    and run: "reserveRedemption aborts uuid now uid code rid subtotal n w = (Inr (c, x), w')"
  shows "findCouponById (c_id c) w = Some c \<and> usesOf (c_id c) w' = usesOf (c_id c) w + 1 \<and>
    (\<forall>l. c_usageLimit c = Some l \<longrightarrow> usesOf (c_id c) w' \<le> l) \<and>
    countUserRedemptions (c_id c) uid w' \<le> c_usagePerUser c"
proof -
  have k: "keyed c_id (w_coupons w)" using inv by (simp add: coupons_invB_def coupons_keyed_def)
  have tx: "reserveRedemptionTx uuid now uid (normalizeCode code) rid subtotal w = (Inr (c, x), w')"
    using run reserveRedemption_unfold[of aborts uuid now uid code rid subtotal n w] by auto
  note s = reserve_success[OF tx k]
  have mem: "c \<in> set (w_coupons w)" using s by (auto simp: findCouponByCode_def)
  then have "c_totalUsed c = usesOf (c_id c) w" using inv by (simp add: coupons_invB_def coupon_ledger_def)
  then show ?thesis
    using s lookup_keyed[OF k mem]
    by (auto simp: findCouponById_def eligible_iff underLimit_def usesOf_def countUserRedemptions_def)
qed

section \<open>Properties\<close>

definition sampleCoupon :: coupon where
  "sampleCoupon = \<lparr>c_id = ''c1'', c_code = ''TEN'', c_type = PERCENTAGE, c_value = 10,
     c_maxDiscount = Some 50, c_minOrder = 100, c_scope = PLATFORM, c_restaurantId = None,
     c_usageLimit = Some 1, c_usagePerUser = 1, c_totalUsed = 0, c_startsAt = 0, c_endsAt = 1000,
     c_active = True\<rparr>"

definition couponWorld :: world where
  "couponWorld = emptyWorld\<lparr>w_coupons := [sampleCoupon]\<rparr>"

lemma coupons_inv_couponWorld: "coupons_inv couponWorld"
  by (simp add: coupons_inv_def coupons_keyed_def coupon_ledger_def within_limits_def couponWorld_def
      sampleCoupon_def emptyWorld_def keyed_def usesOf_def countUserRedemptions_def)


definition reservedWorld :: world where
  "reservedWorld = snd (reserveRedemption (\<lambda>_. False) ''r1'' 5 ''u'' '' ten'' ''rest'' 200 0 couponWorld)"

lemma normalized_ten: "normalizeCode '' ten'' = ''TEN''" by code_simp

lemma reservedWorld_eq:
  "w_coupons reservedWorld = [sampleCoupon\<lparr>c_totalUsed := 1\<rparr>]"
  "map x_couponId (w_redemptions reservedWorld) = [''c1'']"
  by (simp_all add: reservedWorld_def reserveRedemption.simps normalized_ten reserveRedemptionTx_def
      couponWorld_def sampleCoupon_def emptyWorld_def findCouponByCode_def countUserRedemptions_def
      assertCouponEligible_def underLimit_def bumpUsed_def Let_def)

definition raiseLimits :: couponPatch where
  "raiseLimits = \<lparr>cp_code = None, cp_type = None, cp_value = None, cp_maxDiscount = None, cp_minOrder = None,
     cp_scope = None, cp_restaurantId = None, cp_usageLimit = Some 2, cp_usagePerUser = Some 2,
     cp_startsAt = None, cp_endsAt = None, cp_active = None\<rparr>"

definition raisedWorld :: world where
  "raisedWorld = snd (updateCoupon ''c1'' raiseLimits reservedWorld)"

definition raisedCoupon :: coupon where
  "raisedCoupon = sampleCoupon\<lparr>c_totalUsed := 1, c_usageLimit := Some 2, c_usagePerUser := 2\<rparr>"

lemma raisedWorld_eq:
  "w_coupons raisedWorld = [raisedCoupon]" "w_redemptions raisedWorld = w_redemptions reservedWorld"
  by (simp_all add: raisedWorld_def raisedCoupon_def updateCoupon_def findByIdOrThrow_def findCouponById_def
      reservedWorld_eq raiseLimits_def applyPatch_def orElse_def sampleCoupon_def)

lemma raised_reserve:
  "fst (reserveRedemption (\<lambda>_. False) ''r2'' 6 ''u'' '' ten'' ''rest'' 200 0 raisedWorld) = Inr (raisedCoupon, ''r2'')"
proof -
  have "countUserRedemptions ''c1'' ''u'' raisedWorld \<le> 1"
  proof -
    have "length (w_redemptions reservedWorld) = 1" using reservedWorld_eq(2) by (metis length_map length_Cons list.size(3) One_nat_def)
    then show ?thesis unfolding countUserRedemptions_def raisedWorld_eq
      by (cases "w_redemptions reservedWorld") auto
  qed
  then show ?thesis
    by (simp add: reserveRedemption.simps normalized_ten reserveRedemptionTx_def findCouponByCode_def raisedWorld_eq)
      (simp add: raisedWorld_eq raisedCoupon_def sampleCoupon_def assertCouponEligible_def underLimit_def Let_def)
qed


text \<open>
  Releasing a reservation undoes it exactly: reserving a slot under a fresh id and releasing
  it again restores every coupon counter and every ledger row of the database.
\<close>
theorem reserve_release_roundtrip:
  assumes "coupons_keyed w" and "uuid \<notin> x_id ` set (w_redemptions w)"
    and "reserveRedemptionTx uuid now uid code rid subtotal w = (Inr (c, x), w')"
  shows "releaseRedemption (c_id c) x w' = (Inr (), w)"
proof -
  have k: "keyed c_id (w_coupons w)" using assms(1) by (simp add: coupons_keyed_def)
  note s = reserve_success[OF assms(3) k]
  have undo: "modify (\<lambda>d. c_id d = c_id c) (bumpUsed (- 1)) (modify (\<lambda>d. c_id d = c_id c) (bumpUsed 1) cs) = cs"
    for cs by (induction cs) (auto simp: bumpUsed_def)
  have keep: "filter (\<lambda>x. x_id x \<noteq> uuid) (w_redemptions w) = w_redemptions w"
    using assms(2) by (auto simp: filter_id_conv dest: fresh_neq)
  have "lookup c_id (c_id c) (w_coupons w) = Some c"
    using s k by (auto simp: findCouponByCode_def intro: lookup_keyed)
  moreover have "lookup x_id uuid (w_redemptions w') \<noteq> None"
    using s by (simp add: lookup_None_iff)
  ultimately show ?thesis
    using s by (simp add: releaseRedemption_def lookup_modify undo keep)
qed

lemma reserve_release_roundtrip_witness:
  "\<exists>c x w'. reserveRedemptionTx ''r1'' 5 ''u'' ''TEN'' ''rest'' 200 couponWorld = (Inr (c, x), w') \<and>
     releaseRedemption (c_id c) x w' = (Inr (), couponWorld)"
proof -
  let ?run = "reserveRedemptionTx ''r1'' 5 ''u'' ''TEN'' ''rest'' 200 couponWorld"
  have run: "?run = (Inr (sampleCoupon, ''r1''), snd ?run)"
    by (simp add: reserveRedemptionTx_def couponWorld_def sampleCoupon_def emptyWorld_def
        findCouponByCode_def countUserRedemptions_def assertCouponEligible_def underLimit_def Let_def)
  have "releaseRedemption (c_id sampleCoupon) ''r1'' (snd ?run) = (Inr (), couponWorld)"
    using coupons_inv_couponWorld
    by (intro reserve_release_roundtrip[OF _ _ run]) (auto simp: coupons_inv_def couponWorld_def emptyWorld_def)
  with run show ?thesis by blast
qed

end
