(* ===== verification/Claims.thy ===== *)
theory Claims
  imports Store
begin

text \<open>
  The two contracts the services lean on everywhere.

  A \<^emph>\<open>claim\<close> is the conditional \<^verbatim>\<open>updateMany\<close> (\<open>WHERE id = k AND status IN (...)\<close>) that the
  repositories use as their exactly-once gate.  The locale \<^theory_text>\<open>cas_cell\<close> states what its
  callers rely on and proves the consequences for arbitrary schedules of racing claims; every
  repository that offers such a claim interprets it.

  A \<^emph>\<open>status graph\<close> is a table of allowed transitions.  \<^theory_text>\<open>ranked_graph\<close> adds a measure that
  every transition increases, hence no status is ever revisited.
\<close>

section \<open>Schedules of claims\<close>

text \<open>Racing callers, in the order in which the database commits their updates.\<close>

fun runClaims ::
  "('k \<Rightarrow> 's list \<Rightarrow> 's \<Rightarrow> 'w \<Rightarrow> nat \<times> 'w) \<Rightarrow> ('k \<times> 's list \<times> 's) list \<Rightarrow> 'w \<Rightarrow> nat list \<times> 'w" where
  "runClaims claim [] w = ([], w)"
| "runClaims claim ((k, from, t) # cs) w =
     (let (n, w') = claim k from t w; (ns, w'') = runClaims claim cs w' in (n # ns, w''))"

definition winners :: "('k \<Rightarrow> 's list \<Rightarrow> 's \<Rightarrow> 'w \<Rightarrow> nat \<times> 'w) \<Rightarrow> ('k \<times> 's list \<times> 's) list \<Rightarrow> 'w \<Rightarrow> nat" where
  "winners claim cs w = sum_list (fst (runClaims claim cs w))"

lemma snd_runClaims_Cons [simp]:
  "snd (runClaims claim ((k, from, t) # cs) w) = snd (runClaims claim cs (snd (claim k from t w)))"
  by (simp split: prod.split)

declare runClaims.simps(2) [simp del]

lemma winners_Nil [simp]: "winners claim [] w = 0"
  by (simp add: winners_def)

lemma winners_Cons [simp]:
  "winners claim ((k, from, t) # cs) w
     = fst (claim k from t w) + winners claim cs (snd (claim k from t w))"
  by (simp add: winners_def runClaims.simps(2) split: prod.split)

locale cas_cell =
  fixes good :: "'w \<Rightarrow> bool"
    and cell :: "'w \<Rightarrow> 'k \<Rightarrow> 's option"
    and claim :: "'k \<Rightarrow> 's list \<Rightarrow> 's \<Rightarrow> 'w \<Rightarrow> nat \<times> 'w"
  assumes claim_hit: "good w \<Longrightarrow> cell w k = Some s \<Longrightarrow> s \<in> set from \<Longrightarrow>
      fst (claim k from t w) = 1 \<and> cell (snd (claim k from t w)) k = Some t"
    and claim_miss: "good w \<Longrightarrow> (\<And>s. cell w k = Some s \<Longrightarrow> s \<notin> set from) \<Longrightarrow>
      claim k from t w = (0, w)"
    and claim_other: "k' \<noteq> k \<Longrightarrow> cell (snd (claim k from t w)) k' = cell w k'"
    and claim_good: "good w \<Longrightarrow> good (snd (claim k from t w))"
begin

lemma claim_count_le_1: "good w \<Longrightarrow> fst (claim k from t w) \<le> 1"
  by (cases "\<exists>s. cell w k = Some s \<and> s \<in> set from") (auto simp: claim_hit claim_miss)

lemma claim_count_1_iff:
  "good w \<Longrightarrow> fst (claim k from t w) = 1 \<longleftrightarrow> (\<exists>s. cell w k = Some s \<and> s \<in> set from)"
  by (cases "\<exists>s. cell w k = Some s \<and> s \<in> set from") (auto simp: claim_hit claim_miss)

lemma claim_count_0_iff:
  "good w \<Longrightarrow> fst (claim k from t w) = 0 \<longleftrightarrow> (\<forall>s. cell w k = Some s \<longrightarrow> s \<notin> set from)"
  by (cases "\<exists>s. cell w k = Some s \<and> s \<in> set from") (auto simp: claim_hit claim_miss)

lemma claim_lost_unchanged: "good w \<Longrightarrow> fst (claim k from t w) = 0 \<Longrightarrow> snd (claim k from t w) = w"
  using claim_count_0_iff claim_miss by fastforce

lemma claim_after:
  "good w \<Longrightarrow> cell (snd (claim k from t w)) k
     = (case cell w k of None \<Rightarrow> None | Some s \<Rightarrow> if s \<in> set from then Some t else Some s)"
proof (cases "\<exists>s. cell w k = Some s \<and> s \<in> set from")
  case False
  then have "\<And>s. cell w k = Some s \<Longrightarrow> s \<notin> set from" by blast
  moreover assume "good w"
  ultimately show ?thesis by (auto simp: claim_miss split: option.split)
qed (auto simp: claim_hit)

text \<open>Once a cell holds a value outside every source set, all later claims lose.\<close>

lemma all_lose:
  assumes "good w" and "\<And>s. cell w k = Some s \<Longrightarrow> s \<notin> set from"
    and "\<forall>c \<in> set cs. fst c = k \<and> fst (snd c) = from"
  shows "winners claim cs w = 0 \<and> snd (runClaims claim cs w) = w"
  using assms
proof (induction cs)
  case (Cons c cs)
  obtain t where c: "c = (k, from, t)" using Cons.prems(3) by (cases c) auto
  have "claim k from t w = (0, w)" using Cons.prems(1,2) by (rule claim_miss)
  then show ?case using Cons c by simp
qed simp

text \<open>However many callers race for the same source statuses with a target outside them, at most
  one wins; exactly one does when there is a caller and the cell is claimable.\<close>

lemma single_winner:
  assumes "good w" and "t \<notin> set from" and "\<forall>c \<in> set cs. c = (k, from, t)"
  shows "winners claim cs w
     = (if cs \<noteq> [] \<and> (\<exists>s. cell w k = Some s \<and> s \<in> set from) then 1 else 0)"
proof (cases cs)
  case (Cons c cs')
  have c: "c = (k, from, t)" and rest: "\<forall>d \<in> set cs'. fst d = k \<and> fst (snd d) = from"
    using assms(3) Cons by auto
  let ?w = "snd (claim k from t w)"
  have good': "good ?w" using assms(1) by (rule claim_good)
  have "\<And>s. cell ?w k = Some s \<Longrightarrow> s \<notin> set from"
    using assms(1,2) by (auto simp: claim_after split: option.splits if_splits)
  then have "winners claim cs' ?w = 0" using all_lose[OF good' _ rest] by blast
  then show ?thesis
    using Cons c claim_count_1_iff[OF assms(1), of k "from" t] claim_count_le_1[OF assms(1), of k "from" t]
    by (auto simp: le_Suc_eq)
qed simp

text \<open>Claims on other keys never decide a race.\<close>

lemma other_keys_neutral:
  assumes "good w" and "\<forall>c \<in> set cs. fst c \<noteq> k"
  shows "cell (snd (runClaims claim cs w)) k = cell w k \<and> good (snd (runClaims claim cs w))"
  using assms
proof (induction cs arbitrary: w)
  case (Cons c cs)
  obtain k' "from" t where c: "c = (k', from, t)" by (cases c) auto
  let ?w = "snd (claim k' from t w)"
  have "good ?w" using Cons.prems(1) by (rule claim_good)
  then have "cell (snd (runClaims claim cs ?w)) k = cell ?w k \<and> good (snd (runClaims claim cs ?w))"
    using Cons.prems(2) by (intro Cons.IH) auto
  moreover have "cell ?w k = cell w k" using Cons.prems(2) c by (intro claim_other) auto
  ultimately show ?case using c by simp
qed simp

end

section \<open>Conditional updates of a table satisfy the contract\<close>

text \<open>Every repository's claim has this shape: \<open>get\<close> and \<open>put\<close> select the table inside the world,
  \<open>upd t\<close> writes the new status (and whatever else the update sets).\<close>

lemma cas_cell_table:
  fixes key :: "'r \<Rightarrow> 'k" and st :: "'r \<Rightarrow> 's"
  assumes claim: "\<And>k from t w. claim k from t w =
      (matches (\<lambda>r. key r = k \<and> st r \<in> set from) (get w),
       put (modify (\<lambda>r. key r = k \<and> st r \<in> set from) (upd t) (get w)) w)"
    and get_put: "\<And>x w. get (put x w) = x" and put_get: "\<And>w. put (get w) w = w"
    and upd: "\<And>t r. key (upd t r) = key r" "\<And>t r. st (upd t r) = t"
  shows "cas_cell (\<lambda>w. keyed key (get w)) (\<lambda>w k. map_option st (lookup key k (get w))) claim"
proof
  fix w and k :: 'k and s t and "from" :: "'s list"
  assume g: "keyed key (get w)" and c: "map_option st (lookup key k (get w)) = Some s" and s: "s \<in> set from"
  then obtain r where "lookup key k (get w) = Some r" "st r = s" by auto
  with g s show "fst (claim k from t w) = 1 \<and>
      map_option st (lookup key k (get (snd (claim k from t w)))) = Some t"
    using lookup_key[of key k "get w" r] by (simp add: claim get_put matches_pk lookup_modify upd)
next
  fix w and k :: 'k and t and "from" :: "'s list"
  assume g: "keyed key (get w)"
    and c: "\<And>s. map_option st (lookup key k (get w)) = Some s \<Longrightarrow> s \<notin> set from"
  let ?p = "\<lambda>r. key r = k \<and> st r \<in> set from"
  have none: "\<not> ?p r" if "r \<in> set (get w)" for r
    using lookup_keyed[OF g that] c by auto
  then have "matches ?p (get w) = 0" by (simp add: matches_0_iff)
  moreover have "modify ?p f (get w) = get w" for f using none by (rule modify_none)
  ultimately show "claim k from t w = (0, w)" by (simp add: claim put_get)
next
  fix w and k k' :: 'k and t and "from" :: "'s list"
  assume "k' \<noteq> k"
  then show "map_option st (lookup key k' (get (snd (claim k from t w)))) = map_option st (lookup key k' (get w))"
    by (cases "lookup key k' (get w)") (auto simp: claim get_put lookup_modify upd(1) dest: lookup_key)
next
  fix w and k :: 'k and t and "from" :: "'s list"
  assume "keyed key (get w)"
  then show "keyed key (get (snd (claim k from t w)))" by (simp add: claim get_put upd(1))
qed

section \<open>Status graphs\<close>

definition edges :: "('s \<Rightarrow> 's list) \<Rightarrow> ('s \<times> 's) set" where
  "edges targets = {(s, t). t \<in> set (targets s)}"

lemma edges_iff [simp]: "(s, t) \<in> edges targets \<longleftrightarrow> t \<in> set (targets s)"
  by (simp add: edges_def)

locale status_graph =
  fixes targets :: "'s \<Rightarrow> 's list"
begin

definition terminal :: "'s \<Rightarrow> bool" where
  "terminal s \<longleftrightarrow> targets s = []"

lemma terminal_absorbing:
  assumes "(s, t) \<in> (edges targets)\<^sup>*" and "terminal s"
  shows "t = s"
  using assms by (induction rule: rtrancl_induct) (auto simp: terminal_def)

end

locale ranked_graph = status_graph targets for targets :: "'s \<Rightarrow> 's list" +
  fixes rank :: "'s \<Rightarrow> nat"
  assumes rank_up: "t \<in> set (targets s) \<Longrightarrow> rank s < rank t"
begin

lemma trancl_rank: "(s, t) \<in> (edges targets)\<^sup>+ \<Longrightarrow> rank s < rank t"
  by (induction rule: trancl_induct) (auto dest: rank_up)

lemma never_revisited: "(s, t) \<in> (edges targets)\<^sup>+ \<Longrightarrow> s \<noteq> t"
  using trancl_rank by blast

lemma acyclic_edges: "acyclic (edges targets)"
  using never_revisited by (auto simp: acyclic_def)

text \<open>A path of transitions climbs the rank at every step, which bounds its length.\<close>

lemma path_bound:
  "(s, t) \<in> (edges targets) ^^ n \<Longrightarrow> rank s + n \<le> rank t"
proof (induction n arbitrary: t)
  case (Suc n)
  then obtain u where "(s, u) \<in> edges targets ^^ n" "(u, t) \<in> edges targets" by auto
  with Suc.IH rank_up show ?case by fastforce
qed simp

end

end
