(* ===== verification/Payments.thy ===== *)
theory Payments
  imports Claims
begin

text \<open>
  Payments and refunds: \<^verbatim>\<open>payment-state-machine.ts\<close>, \<^verbatim>\<open>payment-status.validator.ts\<close>,
  \<^verbatim>\<open>PaymentsRepository\<close>, \<^verbatim>\<open>PaymentsService\<close> and \<^verbatim>\<open>PaymentReconciliationService\<close>.

  The payment provider (Razorpay) is outside the repository: what its calls return is an
  argument of the handlers (\<^theory_text>\<open>Inl\<close> when the call throws).  Where a handler reads a row and
  later claims it, the argument \<open>env\<close> is what other transactions commit in between; the
  sequential behaviour is \<open>env = id\<close>.
\<close>

section \<open>State machine\<close>

fun PAYMENT_STATE_MACHINE :: "transactionStatus \<Rightarrow> transactionStatus list" where
  "PAYMENT_STATE_MACHINE TX_PENDING = [TX_SUCCESS, TX_FAILED]"
| "PAYMENT_STATE_MACHINE TX_SUCCESS = [TX_REFUNDED]"
| "PAYMENT_STATE_MACHINE TX_FAILED = []"
| "PAYMENT_STATE_MACHINE TX_REFUNDED = []"

definition getAllowedSourceStatuses :: "transactionStatus \<Rightarrow> transactionStatus list" where
  "getAllowedSourceStatuses target =
     filter (\<lambda>s. target \<in> set (PAYMENT_STATE_MACHINE s))
       [TX_PENDING, TX_SUCCESS, TX_FAILED, TX_REFUNDED]"

definition validateTransition :: "transactionStatus \<Rightarrow> transactionStatus \<Rightarrow> unit result" where
  "validateTransition current nxt =
     guard (nxt \<in> set (PAYMENT_STATE_MACHINE current)) (Conflict ''invalid payment transition'')"

fun txRank :: "transactionStatus \<Rightarrow> nat" where
  "txRank TX_PENDING = 0"
| "txRank TX_SUCCESS = 1"
| "txRank TX_FAILED = 1"
| "txRank TX_REFUNDED = 2"

section \<open>Repository\<close>

definition AMOUNT_TOLERANCE :: rat where "AMOUNT_TOLERANCE = 1 / 100"

definition createPaymentRow :: "payment \<Rightarrow> world \<Rightarrow> world" where
  "createPaymentRow p w = w\<lparr>w_payments := w_payments w @ [p]\<rparr>"

definition findPaymentById :: "string \<Rightarrow> world \<Rightarrow> payment option" where
  "findPaymentById pid w = lookup p_id pid (w_payments w)"

definition findByProviderOrderId :: "string \<Rightarrow> world \<Rightarrow> payment option" where
  "findByProviderOrderId prov w = lookup p_providerOrderId (Some prov) (w_payments w)"

definition findLatestAttempt :: "string \<Rightarrow> world \<Rightarrow> payment option" where
  "findLatestAttempt oid w = findLatest (\<lambda>p. p_orderId p = oid) p_attempt (w_payments w)"

definition findActivePaymentForOrder :: "string \<Rightarrow> world \<Rightarrow> payment option" where
  "findActivePaymentForOrder oid w =
     findLatest (\<lambda>p. p_orderId p = oid \<and> p_isActive p) p_createdAt (w_payments w)"

definition deactivateOrderAttempts :: "string \<Rightarrow> world \<Rightarrow> world" where
  "deactivateOrderAttempts oid w =
     w\<lparr>w_payments := modify (\<lambda>p. p_orderId p = oid \<and> p_isActive p) (\<lambda>p. p\<lparr>p_isActive := False\<rparr>)
        (w_payments w)\<rparr>"

definition setStatus ::
  "transactionStatus \<Rightarrow> string option \<Rightarrow> paymentMethod option \<Rightarrow> payment \<Rightarrow> payment" where
  "setStatus st prov meth p = p\<lparr>p_status := st,
     p_providerPaymentId := (if prov = None then p_providerPaymentId p else prov),
     p_method := (if meth = None then p_method p else meth)\<rparr>"

definition claimStatusTransition ::
  "string option \<Rightarrow> paymentMethod option \<Rightarrow> string \<Rightarrow> transactionStatus list \<Rightarrow> transactionStatus \<Rightarrow> world
     \<Rightarrow> nat \<times> world" where
  "claimStatusTransition prov meth pid allowedFrom nxt w =
     (let p = (\<lambda>r. p_id r = pid \<and> p_status r \<in> set allowedFrom)
      in (matches p (w_payments w),
          w\<lparr>w_payments := modify p (setStatus nxt prov meth) (w_payments w)\<rparr>))"

datatype refundClaim = Claimed payment refund | NotClaimed string

definition claimRefund :: "string \<Rightarrow> string \<Rightarrow> rat \<Rightarrow> world \<Rightarrow> refundClaim \<times> world" where
  "claimRefund uuid pid amount w =
     (case findPaymentById pid w of
        None \<Rightarrow> (NotClaimed ''not_found'', w)
      | Some p \<Rightarrow>
          if p_status p = TX_REFUNDED then (NotClaimed ''already_refunded'', w)
          else if p_status p \<noteq> TX_SUCCESS then (NotClaimed ''not_success'', w)
          else if amount \<le> 0 \<or> amount > p_amount p + AMOUNT_TOLERANCE
            then (NotClaimed ''invalid_amount'', w)
          else if (\<exists>r \<in> set (w_refunds w). r_paymentId r = pid \<and> r_status r = TX_PENDING)
            then (NotClaimed ''refund_in_progress'', w)
          else
            (let r = \<lparr>r_id = uuid, r_paymentId = pid, r_amount = dec2 amount, r_status = TX_PENDING\<rparr>
             in (Claimed p r, w\<lparr>w_refunds := w_refunds w @ [r]\<rparr>)))"

definition finalizeRefundSuccess ::
  "string \<Rightarrow> string \<Rightarrow> string option \<Rightarrow> world \<Rightarrow> (nat \<times> nat) \<times> world" where
  "finalizeRefundSuccess pid rid prov w =
     (let q = (\<lambda>r. r_id r = rid \<and> r_status r = TX_PENDING);
          refundCount = matches q (w_refunds w);
          w1 = w\<lparr>w_refunds := modify q (\<lambda>r. r\<lparr>r_status := TX_REFUNDED\<rparr>) (w_refunds w)\<rparr>
      in if refundCount = 0 then ((0, 0), w)
         else
           (let p = (\<lambda>r. p_id r = pid \<and> p_status r = TX_SUCCESS);
                paymentCount = matches p (w_payments w1)
            in ((paymentCount, refundCount),
                w1\<lparr>w_payments := modify p (setStatus TX_REFUNDED prov None) (w_payments w1)\<rparr>)))"

definition finalizeRefundFailure :: "string \<Rightarrow> world \<Rightarrow> nat \<times> world" where
  "finalizeRefundFailure rid w =
     (let q = (\<lambda>r. r_id r = rid \<and> r_status r = TX_PENDING)
      in (matches q (w_refunds w),
          w\<lparr>w_refunds := modify q (\<lambda>r. r\<lparr>r_status := TX_FAILED\<rparr>) (w_refunds w)\<rparr>))"

definition createWebhookEvent :: "string \<Rightarrow> world \<Rightarrow> world" where
  "createWebhookEvent eventType w = w\<lparr>w_webhooks := w_webhooks w @ [eventType]\<rparr>"

definition findPendingPayments :: "world \<Rightarrow> payment list" where
  "findPendingPayments w =
     take 100 (filter (\<lambda>p. p_status p = TX_PENDING \<and> p_providerOrderId p \<noteq> None) (w_payments w))"

definition sumSuccessfulAmountToday :: "int \<Rightarrow> world \<Rightarrow> rat" where
  "sumSuccessfulAmountToday startOfToday w =
     total p_amount (\<lambda>p. p_status p = TX_SUCCESS \<and> p_createdAt p \<ge> startOfToday) (w_payments w)"

section \<open>Service\<close>

definition PAYABLE_ORDER_STATUSES :: "orderStatus list" where
  "PAYABLE_ORDER_STATUSES = [PENDING, CONFIRMED, PREPARING, READY_FOR_PICKUP, OUT_FOR_DELIVERY]"

text \<open>\<open>provOrder\<close>: the provider's answer to \<^verbatim>\<open>createOrder\<close>.\<close>

definition createPayment ::
  "string \<Rightarrow> int \<Rightarrow> string result \<Rightarrow> string \<Rightarrow> rat \<Rightarrow> string \<Rightarrow> world \<Rightarrow> (world, payment) outcome" where
  "createPayment uuid now provOrder oid amount uid w =
     (case lookup o_id oid (w_orders w) of
        None \<Rightarrow> (Inl (NotFound ''Order''), w)
      | Some ord \<Rightarrow>
          if o_customerId ord \<noteq> uid then (Inl (Forbidden ''order''), w)
          else if o_paymentStatus ord = PAID then (Inl (Conflict ''Order already paid''), w)
          else if o_status ord \<notin> set PAYABLE_ORDER_STATUSES
            then (Inl (Conflict ''not payable''), w)
          else if \<bar>amount - (o_total ord - o_walletUsed ord)\<bar> > AMOUNT_TOLERANCE
            then (Inl (BadRequest ''amount''), w)
          else if (case findActivePaymentForOrder oid w of
                     Some p \<Rightarrow> p_status p = TX_SUCCESS | None \<Rightarrow> False)
            then (Inl (Conflict ''Order already paid''), w)
          else
            (let attempt = (case findLatestAttempt oid w of Some p \<Rightarrow> p_attempt p + 1 | None \<Rightarrow> 1);
                 w1 = deactivateOrderAttempts oid w
             in case provOrder of
                  Inl e \<Rightarrow> (Inl e, w1)
                | Inr prov \<Rightarrow>
                    (let p = \<lparr>p_id = uuid, p_orderId = oid, p_providerOrderId = Some prov,
                           p_providerPaymentId = None, p_amount = dec2 amount, p_status = TX_PENDING,
                           p_method = None, p_attempt = attempt, p_isActive = True, p_createdAt = now\<rparr>
                     in (Inr p, createPaymentRow p w1))))"

definition transitionPaymentStatus ::
  "(world \<Rightarrow> world) \<Rightarrow> string \<Rightarrow> transactionStatus \<Rightarrow> string option \<Rightarrow> paymentMethod option \<Rightarrow> world
     \<Rightarrow> (world, payment \<times> bool) outcome" where
  "transitionPaymentStatus env pid nxt prov meth w =
     (case findPaymentById pid w of
        None \<Rightarrow> (Inl (NotFound ''Payment''), w)
      | Some p \<Rightarrow>
          if p_status p = nxt then (Inr (p, False), w)
          else (case validateTransition (p_status p) nxt of
            Inl e \<Rightarrow> (Inl e, w)
          | Inr _ \<Rightarrow>
              (let (count, w2) = claimStatusTransition prov meth pid (getAllowedSourceStatuses nxt) nxt (env w)
               in if count = 0
                  then case findPaymentById pid w2 of
                         None \<Rightarrow> (Inl (NotFound ''Payment''), w2)
                       | Some cur \<Rightarrow>
                           if p_status cur = nxt then (Inr (cur, False), w2)
                           else (Inl (Conflict ''invalid payment transition''), w2)
                  else (case findPaymentById pid w2 of
                         None \<Rightarrow> (Inl (NotFound ''Payment''), w2)
                       | Some upd \<Rightarrow> (Inr (upd, True), w2)))))"

text \<open>Best-effort: a queue that is down never fails the payment.\<close>

definition enqueuePaymentSuccessNotification :: "bool \<Rightarrow> string \<Rightarrow> world \<Rightarrow> world" where
  "enqueuePaymentSuccessNotification queueUp oid w =
     (if queueUp then enqueue (Notification ''payment-success'' oid) w else w)"

definition announceSuccess :: "bool \<Rightarrow> payment \<Rightarrow> world \<Rightarrow> world" where
  "announceSuccess queueUp p w =
     enqueuePaymentSuccessNotification queueUp (p_orderId p) (publish (PaymentSuccess (p_id p) (p_orderId p)) w)"

text \<open>The fields of Razorpay's payment entity that the service reads.\<close>

record providerPayment =
  rp_id :: string
  rp_orderId :: string
  rp_amount :: int
  rp_currency :: string
  rp_status :: "string option"
  rp_method :: "string option"
  rp_refundStatus :: "string option"
  rp_amountRefunded :: "int option"

definition providerPaymentMatches :: "payment \<Rightarrow> providerPayment \<Rightarrow> bool" where
  "providerPaymentMatches p rp \<longleftrightarrow>
     rp_amount rp = mathRound (p_amount p * 100) \<and> rp_currency rp = ''INR'' \<and> rp_status rp = Some ''captured''"

definition assertProviderPaymentMatches :: "payment \<Rightarrow> providerPayment result \<Rightarrow> unit result" where
  "assertProviderPaymentMatches p fetched =
     (case fetched of
        Inl e \<Rightarrow> Inl e
      | Inr rp \<Rightarrow> guard (providerPaymentMatches p rp) (Conflict ''amount mismatch''))"

definition verifyPayment ::
  "(world \<Rightarrow> world) \<Rightarrow> bool \<Rightarrow> bool \<Rightarrow> providerPayment result \<Rightarrow> string \<Rightarrow> string \<Rightarrow> string \<Rightarrow> world
     \<Rightarrow> (world, payment) outcome" where
  "verifyPayment env queueUp sigValid fetched provOrderId provPaymentId uid w =
     (if \<not> sigValid then (Inl (Conflict ''Invalid payment signature''), w)
      else (case findByProviderOrderId provOrderId w of
        None \<Rightarrow> (Inl (NotFound ''Payment''), w)
      | Some p \<Rightarrow>
          (case lookup o_id (p_orderId p) (w_orders w) of
             None \<Rightarrow> (Inl (NotFound ''Order''), w)
           | Some ord \<Rightarrow>
               if o_customerId ord \<noteq> uid then (Inl (Forbidden ''payment''), w)
               else if p_status p = TX_SUCCESS then (Inr p, w)
               else (case assertProviderPaymentMatches p fetched of
                 Inl e \<Rightarrow> (Inl e, w)
               | Inr _ \<Rightarrow>
                   (case transitionPaymentStatus env (p_id p) TX_SUCCESS (Some provPaymentId) None
                           (deactivateOrderAttempts (p_orderId p) w) of
                      (Inl e, w2) \<Rightarrow> (Inl e, w2)
                    | (Inr (upd, transitioned), w2) \<Rightarrow>
                        (Inr upd, if transitioned then announceSuccess queueUp p w2 else w2))))))"

definition RAZORPAY_METHOD_MAP :: "string \<Rightarrow> paymentMethod option" where
  "RAZORPAY_METHOD_MAP m =
     map_of [(''upi'', UPI), (''card'', CARD), (''netbanking'', NETBANKING), (''wallet'', WALLET)] m"

definition handlePaymentCaptured ::
  "(world \<Rightarrow> world) \<Rightarrow> bool \<Rightarrow> providerPayment \<Rightarrow> world \<Rightarrow> (world, unit) outcome" where
  "handlePaymentCaptured env queueUp entity w =
     (case findByProviderOrderId (rp_orderId entity) w of
        None \<Rightarrow> (Inr (), w)
      | Some p \<Rightarrow>
          if p_status p = TX_SUCCESS then (Inr (), w)
          else if rp_amount entity \<noteq> mathRound (p_amount p * 100) \<or> rp_currency entity \<noteq> ''INR''
            then (Inr (), w)
          else (case transitionPaymentStatus env (p_id p) TX_SUCCESS (Some (rp_id entity))
                      (case rp_method entity of None \<Rightarrow> None | Some m \<Rightarrow> RAZORPAY_METHOD_MAP m) w of
                 (Inl e, w2) \<Rightarrow> (Inl e, w2)
               | (Inr (upd, transitioned), w2) \<Rightarrow>
                   (Inr (), if transitioned then announceSuccess queueUp p w2 else w2)))"

definition markPaymentSucceededFromReconciliation ::
  "(world \<Rightarrow> world) \<Rightarrow> bool \<Rightarrow> string \<Rightarrow> string \<Rightarrow> world \<Rightarrow> (world, payment) outcome" where
  "markPaymentSucceededFromReconciliation env queueUp pid provPaymentId w =
     (case findPaymentById pid w of
        None \<Rightarrow> (Inl (NotFound ''Payment''), w)
      | Some p \<Rightarrow>
          if p_status p = TX_SUCCESS then (Inr p, w)
          else (case transitionPaymentStatus env (p_id p) TX_SUCCESS (Some provPaymentId) None w of
                 (Inl e, w2) \<Rightarrow> (Inl e, w2)
               | (Inr (upd, transitioned), w2) \<Rightarrow>
                   (Inr upd, if transitioned then announceSuccess queueUp p w2 else w2)))"

definition handlePaymentFailed ::
  "(world \<Rightarrow> world) \<Rightarrow> providerPayment \<Rightarrow> world \<Rightarrow> (world, unit) outcome" where
  "handlePaymentFailed env entity w =
     (case findByProviderOrderId (rp_orderId entity) w of
        None \<Rightarrow> (Inr (), w)
      | Some p \<Rightarrow>
          if p_status p = TX_FAILED then (Inr (), w)
          else (case transitionPaymentStatus env (p_id p) TX_FAILED (Some (rp_id entity)) None w of
                 (Inl e, w2) \<Rightarrow> (Inl e, w2)
               | (Inr (upd, transitioned), w2) \<Rightarrow>
                   (Inr (), if transitioned then publish (PaymentFailed (p_id p) (p_orderId p)) w2 else w2)))"

datatype webhookEvent = WebhookCaptured providerPayment | WebhookFailed providerPayment | WebhookOther string

fun webhookName :: "webhookEvent \<Rightarrow> string" where
  "webhookName (WebhookCaptured _) = ''payment.captured''"
| "webhookName (WebhookFailed _) = ''payment.failed''"
| "webhookName (WebhookOther s) = s"

definition processWebhook ::
  "(world \<Rightarrow> world) \<Rightarrow> bool \<Rightarrow> bool \<Rightarrow> webhookEvent \<Rightarrow> world \<Rightarrow> (world, unit) outcome" where
  "processWebhook env queueUp sigValid ev w =
     (if \<not> sigValid then (Inl (Unauthorized ''Invalid webhook signature''), w)
      else (case (case ev of
                   WebhookCaptured entity \<Rightarrow> handlePaymentCaptured env queueUp entity w
                 | WebhookFailed entity \<Rightarrow> handlePaymentFailed env entity w
                 | WebhookOther _ \<Rightarrow> (Inr (), w)) of
             (Inl e, w2) \<Rightarrow> (Inl e, w2)
           | (Inr _, w2) \<Rightarrow> (Inr (), createWebhookEvent (webhookName ev) w2)))"

text \<open>Razorpay's own view of the payment after an ambiguous refund failure; a throwing fetch
  counts as "not confirmed".\<close>

definition confirmRefundOnProvider :: "payment \<Rightarrow> rat \<Rightarrow> providerPayment result \<Rightarrow> bool" where
  "confirmRefundOnProvider p amount fetched =
     (if p_providerPaymentId p = None then False
      else case fetched of
        Inl _ \<Rightarrow> False
      | Inr rp \<Rightarrow> rp_refundStatus rp = Some ''full'' \<or>
          (rp_refundStatus rp = Some ''partial'' \<and>
           (case rp_amountRefunded rp of None \<Rightarrow> 0 | Some a \<Rightarrow> a) \<ge> mathRound (amount * 100)))"

text \<open>\<open>provRefund\<close>: the provider's answer to the refund call (\<^theory_text>\<open>Inr\<close> its refund id); \<open>env\<close>: what other
  transactions commit while that call is in flight.\<close>

definition refundPayment ::
  "string \<Rightarrow> (world \<Rightarrow> world) \<Rightarrow> string result \<Rightarrow> providerPayment result \<Rightarrow> string \<Rightarrow> rat \<Rightarrow> string option \<Rightarrow> world
     \<Rightarrow> (world, payment) outcome" where
  "refundPayment uuid env provRefund fetched pid amount actor w =
     (case claimRefund uuid pid amount w of
        (NotClaimed reason, w1) \<Rightarrow>
          (Inl (if reason = ''not_found'' then NotFound ''Payment''
                else if reason = ''not_success'' then Conflict ''Only successful payments can be refunded''
                else if reason = ''already_refunded'' then Conflict ''already refunded''
                else if reason = ''invalid_amount'' then BadRequest ''Refund amount''
                else Conflict ''refund in progress''), w1)
      | (Claimed p r, w1) \<Rightarrow>
          (let w2 = env w1;
               landed = (case provRefund of Inr _ \<Rightarrow> True
                         | Inl _ \<Rightarrow> confirmRefundOnProvider p amount fetched)
           in if \<not> landed
              then (Inl (Conflict ''Refund could not be processed''), snd (finalizeRefundFailure (r_id r) w2))
              else
                (let prov = (case provRefund of Inr i \<Rightarrow> Some i | Inl _ \<Rightarrow> None);
                     w3 = snd (finalizeRefundSuccess pid (r_id r) prov w2);
                     w4 = auditLog actor ''Payment'' pid ''STATUS_CHANGE'' w3;
                     w5 = publish (PaymentRefunded pid (p_orderId p) amount) w4
                 in case findPaymentById pid w5 of
                      None \<Rightarrow> (Inl (NotFound ''Payment''), w5)
                    | Some p' \<Rightarrow> (Inr p', w5))))"

section \<open>Reconciliation\<close>

definition RECONCILIATION_BATCH_SIZE :: nat where "RECONCILIATION_BATCH_SIZE = 8"

text \<open>\<open>orderPayments\<close>: the provider's list of payments (id, status) for a provider order.\<close>

definition reconcileOne ::
  "bool \<Rightarrow> (string \<Rightarrow> (string \<times> string) list result) \<Rightarrow> payment \<Rightarrow> world \<Rightarrow> bool \<times> world" where
  "reconcileOne queueUp orderPayments p w =
     (case p_providerOrderId p of
        None \<Rightarrow> (False, w)
      | Some prov \<Rightarrow>
          (case orderPayments prov of
             Inl _ \<Rightarrow> (False, w)
           | Inr items \<Rightarrow>
               (case List.find (\<lambda>(i, st). st = ''captured'') items of
                  None \<Rightarrow> (False, w)
                | Some (i, _) \<Rightarrow>
                    (case markPaymentSucceededFromReconciliation id queueUp (p_id p) i w of
                       (Inl _, w') \<Rightarrow> (False, w')
                     | (Inr _, w') \<Rightarrow> (True, w')))))"

fun reconcileBatch ::
  "bool \<Rightarrow> (string \<Rightarrow> (string \<times> string) list result) \<Rightarrow> payment list \<Rightarrow> world \<Rightarrow> nat \<times> world" where
  "reconcileBatch queueUp orderPayments [] w = (0, w)"
| "reconcileBatch queueUp orderPayments (p # ps) w =
     (let (b, w1) = reconcileOne queueUp orderPayments p w;
          (n, w2) = reconcileBatch queueUp orderPayments ps w1
      in ((if b then 1 else 0) + n, w2))"

fun reconcileBatches ::
  "bool \<Rightarrow> (string \<Rightarrow> (string \<times> string) list result) \<Rightarrow> payment list list \<Rightarrow> world \<Rightarrow> nat \<times> world" where
  "reconcileBatches queueUp orderPayments [] w = (0, w)"
| "reconcileBatches queueUp orderPayments (b # bs) w =
     (let (n, w1) = reconcileBatch queueUp orderPayments b w;
          (m, w2) = reconcileBatches queueUp orderPayments bs w1
      in (n + m, w2))"

text \<open>Returns how many stay pending (the value reported to the metrics) and the new world.\<close>

definition reconcilePendingPayments ::
  "bool \<Rightarrow> (string \<Rightarrow> (string \<times> string) list result) \<Rightarrow> world \<Rightarrow> nat \<times> world" where
  "reconcilePendingPayments queueUp orderPayments w =
     (let ps = findPendingPayments w;
          (resolved, w') = reconcileBatches queueUp orderPayments (batches RECONCILIATION_BATCH_SIZE ps) w
      in (length ps - resolved, w'))"

section \<open>The claim as an instance of the contract\<close>

definition payStatusCell :: "world \<Rightarrow> string \<Rightarrow> transactionStatus option" where
  "payStatusCell w pid = map_option p_status (lookup p_id pid (w_payments w))"

definition payKeyed :: "world \<Rightarrow> bool" where
  "payKeyed w \<longleftrightarrow> keyed p_id (w_payments w)"

lemma setStatus_simps [simp]:
  "p_id (setStatus st prov meth p) = p_id p" "p_orderId (setStatus st prov meth p) = p_orderId p"
  "p_status (setStatus st prov meth p) = st" "p_amount (setStatus st prov meth p) = p_amount p"
  "p_isActive (setStatus st prov meth p) = p_isActive p"
  "p_createdAt (setStatus st prov meth p) = p_createdAt p"
  by (simp_all add: setStatus_def)

interpretation payCas: cas_cell payKeyed payStatusCell "claimStatusTransition prov meth" for prov meth
  unfolding payKeyed_def[abs_def] payStatusCell_def[abs_def]
  by (rule cas_cell_table[where upd = "\<lambda>t. setStatus t prov meth" and put = "\<lambda>x. w_payments_update (\<lambda>_. x)"])
    (simp_all add: claimStatusTransition_def Let_def)

interpretation payGraph: ranked_graph PAYMENT_STATE_MACHINE txRank
proof
  fix s t assume "t \<in> set (PAYMENT_STATE_MACHINE s)"
  then show "txRank s < txRank t" by (cases s) auto
qed

section \<open>Refund integrity\<close>

definition pendingRefunds :: "string \<Rightarrow> world \<Rightarrow> nat" where
  "pendingRefunds pid w = matches (\<lambda>r. r_paymentId r = pid \<and> r_status r = TX_PENDING) (w_refunds w)"

definition completedRefunds :: "string \<Rightarrow> world \<Rightarrow> nat" where
  "completedRefunds pid w = matches (\<lambda>r. r_paymentId r = pid \<and> r_status r = TX_REFUNDED) (w_refunds w)"

definition payment_ok :: "world \<Rightarrow> payment \<Rightarrow> bool" where
  "payment_ok w p \<longleftrightarrow> pendingRefunds (p_id p) w \<le> (if p_status p = TX_SUCCESS then 1 else 0) \<and>
     completedRefunds (p_id p) w = (if p_status p = TX_REFUNDED then 1 else 0)"

definition refund_ok :: "world \<Rightarrow> refund \<Rightarrow> bool" where
  "refund_ok w r \<longleftrightarrow> (\<exists>p. lookup p_id (r_paymentId r) (w_payments w) = Some p \<and>
     0 \<le> r_amount r \<and> r_amount r \<le> dec2 (p_amount p + AMOUNT_TOLERANCE))"

definition payments_inv :: "world \<Rightarrow> bool" where
  "payments_inv w \<longleftrightarrow> keyed p_id (w_payments w) \<and> keyed r_id (w_refunds w) \<and>
     (\<forall>p \<in> set (w_payments w). payment_ok w p) \<and> (\<forall>r \<in> set (w_refunds w). refund_ok w r)"

text \<open>One committed transaction of the repository, in any order and from any caller; \<open>other\<close> is a
  transaction of another component, which leaves both tables alone.\<close>

inductive payTx :: "world \<Rightarrow> world \<Rightarrow> bool" where
  insert: "p_id p \<notin> p_id ` set (w_payments w) \<Longrightarrow> p_status p = TX_PENDING \<Longrightarrow>
    payTx w (createPaymentRow p w)"
| deactivate: "payTx w (deactivateOrderAttempts oid w)"
| settle: "nxt = TX_SUCCESS \<or> nxt = TX_FAILED \<Longrightarrow>
    payTx w (snd (claimStatusTransition prov meth pid (getAllowedSourceStatuses nxt) nxt w))"
| claim: "uuid \<notin> r_id ` set (w_refunds w) \<Longrightarrow> payTx w (snd (claimRefund uuid pid amount w))"
| success: "\<forall>r. lookup r_id rid (w_refunds w) = Some r \<longrightarrow> r_paymentId r = pid \<Longrightarrow>
    payTx w (snd (finalizeRefundSuccess pid rid prov w))"
| failure: "payTx w (snd (finalizeRefundFailure rid w))"
| other: "w_payments w' = w_payments w \<Longrightarrow> w_refunds w' = w_refunds w \<Longrightarrow> payTx w w'"

lemma payments_inv_frame:
  "w_payments w' = w_payments w \<Longrightarrow> w_refunds w' = w_refunds w \<Longrightarrow> payments_inv w' = payments_inv w"
  by (simp add: payments_inv_def payment_ok_def refund_ok_def pendingRefunds_def completedRefunds_def)

lemma payments_inv_update:
  assumes inv: "payments_inv w" and f: "\<And>p. p_id (f p) = p_id p" "\<And>p. p_amount (f p) = p_amount p"
    and ok: "\<And>p. p \<in> set (w_payments w) \<Longrightarrow> c p \<Longrightarrow> payment_ok w p \<Longrightarrow> payment_ok w (f p)"
  shows "payments_inv (w\<lparr>w_payments := modify c f (w_payments w)\<rparr>)"
proof -
  let ?w = "w\<lparr>w_payments := modify c f (w_payments w)\<rparr>"
  have same: "payment_ok ?w p = payment_ok w p" for p
    by (simp add: payment_ok_def pendingRefunds_def completedRefunds_def)
  have "refund_ok ?w r" if "refund_ok w r" for r
  proof -
    from that obtain p where "lookup p_id (r_paymentId r) (w_payments w) = Some p"
      and "0 \<le> r_amount r" "r_amount r \<le> dec2 (p_amount p + AMOUNT_TOLERANCE)"
      by (auto simp: refund_ok_def)
    then show ?thesis using f by (simp add: refund_ok_def lookup_modify)
  qed
  then show ?thesis
    using inv ok f by (auto simp: payments_inv_def same set_modify)
qed

lemma settle_preserves:
  assumes "payments_inv w" and "nxt = TX_SUCCESS \<or> nxt = TX_FAILED"
  shows "payments_inv (snd (claimStatusTransition prov meth pid (getAllowedSourceStatuses nxt) nxt w))"
proof -
  have src: "getAllowedSourceStatuses nxt = [TX_PENDING]"
    using assms(2) by (auto simp: getAllowedSourceStatuses_def)
  show ?thesis
    unfolding claimStatusTransition_def Let_def snd_conv
    by (rule payments_inv_update[OF assms(1)]) (use assms(2) src in \<open>auto simp: payment_ok_def\<close>)
qed

lemma claimRefund_preserves:
  assumes inv: "payments_inv w" and fresh: "uuid \<notin> r_id ` set (w_refunds w)"
  shows "payments_inv (snd (claimRefund uuid pid amount w))"
proof (cases "fst (claimRefund uuid pid amount w)")
  case (NotClaimed s)
  then have "snd (claimRefund uuid pid amount w) = w"
    by (auto simp: claimRefund_def Let_def split: option.splits if_splits)
  with inv show ?thesis by simp
next
  case (Claimed p r)
  then have p: "lookup p_id pid (w_payments w) = Some p" "p_status p = TX_SUCCESS" "0 < amount"
      "amount \<le> p_amount p + AMOUNT_TOLERANCE"
    and none: "\<forall>r \<in> set (w_refunds w). \<not> (r_paymentId r = pid \<and> r_status r = TX_PENDING)"
    and w': "snd (claimRefund uuid pid amount w) = w\<lparr>w_refunds := w_refunds w @
      [\<lparr>r_id = uuid, r_paymentId = pid, r_amount = dec2 amount, r_status = TX_PENDING\<rparr>]\<rparr>"
    by (auto simp: claimRefund_def findPaymentById_def Let_def not_le split: option.splits if_splits)
  let ?w = "snd (claimRefund uuid pid amount w)"
  have pend: "pendingRefunds i ?w = pendingRefunds i w + (if i = pid then 1 else 0)"
    and comp: "completedRefunds i ?w = completedRefunds i w" for i
    by (simp_all add: pendingRefunds_def completedRefunds_def w')
  have 0: "pendingRefunds pid w = 0" using none by (simp add: pendingRefunds_def matches_0_iff)
  have "payment_ok ?w q" if q: "q \<in> set (w_payments w)" for q
  proof -
    have "payment_ok w q" using inv q by (simp add: payments_inv_def)
    moreover have "q = p" if "p_id q = pid"
    proof -
      have "lookup p_id (p_id q) (w_payments w) = Some q"
        using inv q by (intro lookup_keyed) (simp_all add: payments_inv_def)
      then show ?thesis using p(1) that by simp
    qed
    ultimately show ?thesis using pend comp 0 p(2) by (auto simp: payment_ok_def)
  qed
  moreover have "refund_ok ?w r" if "refund_ok w r" for r
    using that by (simp add: refund_ok_def w')
  moreover have "refund_ok ?w \<lparr>r_id = uuid, r_paymentId = pid, r_amount = dec2 amount, r_status = TX_PENDING\<rparr>"
    using p dec2_mono[of 0 amount] dec2_mono[of amount "p_amount p + AMOUNT_TOLERANCE"]
    by (simp add: refund_ok_def w' dec2_grid)
  ultimately show ?thesis
    using inv fresh by (auto simp: payments_inv_def w' keyed_snoc)
qed

text \<open>Moving one pending refund to a final status.\<close>

definition finishRefund :: "string \<Rightarrow> transactionStatus \<Rightarrow> world \<Rightarrow> world" where
  "finishRefund rid st w = w\<lparr>w_refunds := modify (\<lambda>r. r_id r = rid \<and> r_status r = TX_PENDING)
     (\<lambda>r. r\<lparr>r_status := st\<rparr>) (w_refunds w)\<rparr>"

lemma finishRefund_miss:
  assumes "payments_inv w" and "\<And>r. lookup r_id rid (w_refunds w) = Some r \<Longrightarrow> r_status r \<noteq> TX_PENDING"
  shows "finishRefund rid st w = w"
  using assms modify_pk_miss[of r_id rid "w_refunds w" "\<lambda>r. r_status r = TX_PENDING"]
  by (simp add: finishRefund_def payments_inv_def)

lemma finishRefund_counts:
  assumes "payments_inv w" and "lookup r_id rid (w_refunds w) = Some r" and "r_status r = TX_PENDING"
    and "st \<noteq> TX_PENDING"
  shows "int (pendingRefunds i (finishRefund rid st w))
      = int (pendingRefunds i w) - (if r_paymentId r = i then 1 else 0)"
    and "int (completedRefunds i (finishRefund rid st w))
      = int (completedRefunds i w) + (if r_paymentId r = i \<and> st = TX_REFUNDED then 1 else 0)"
  using assms matches_modify_pk[OF _ assms(2), of _ "\<lambda>r. r_status r = TX_PENDING" "\<lambda>r. r\<lparr>r_status := st\<rparr>"]
  by (auto simp: payments_inv_def finishRefund_def pendingRefunds_def completedRefunds_def)

lemma pending_refund_payment:
  assumes inv: "payments_inv w" and r: "lookup r_id rid (w_refunds w) = Some r" "r_status r = TX_PENDING"
  obtains p where "lookup p_id (r_paymentId r) (w_payments w) = Some p" "p_status p = TX_SUCCESS"
    "pendingRefunds (r_paymentId r) w = 1" "completedRefunds (r_paymentId r) w = 0"
proof -
  have mem: "r \<in> set (w_refunds w)" using r(1) by blast
  then obtain p where p: "lookup p_id (r_paymentId r) (w_payments w) = Some p"
    using inv by (auto simp: payments_inv_def refund_ok_def)
  then have "payment_ok w p" "p_id p = r_paymentId r"
    using inv by (auto simp: payments_inv_def dest: lookup_SomeD)
  moreover have "pendingRefunds (r_paymentId r) w \<noteq> 0"
    using mem r(2) by (auto simp: pendingRefunds_def matches_0_iff)
  ultimately show ?thesis using that[OF p] by (auto simp: payment_ok_def split: if_splits)
qed

lemma refund_ok_finish:
  assumes "\<forall>r \<in> set (w_refunds w). refund_ok w r"
  shows "\<forall>r \<in> set (w_refunds (finishRefund rid st w)). refund_ok (finishRefund rid st w) r"
  using assms by (auto simp: finishRefund_def set_modify refund_ok_def)

lemma finalizeRefundFailure_preserves:
  assumes inv: "payments_inv w"
  shows "payments_inv (snd (finalizeRefundFailure rid w))"
proof -
  have w': "snd (finalizeRefundFailure rid w) = finishRefund rid TX_FAILED w"
    by (simp add: finalizeRefundFailure_def finishRefund_def Let_def)
  show ?thesis
  proof (cases "\<exists>r. lookup r_id rid (w_refunds w) = Some r \<and> r_status r = TX_PENDING")
    case False
    then show ?thesis using finishRefund_miss[OF inv] inv unfolding w' by auto
  next
    case True
    then obtain r where r: "lookup r_id rid (w_refunds w) = Some r" "r_status r = TX_PENDING" by blast
    let ?w = "finishRefund rid TX_FAILED w"
    note c = finishRefund_counts[OF inv r, of TX_FAILED, simplified]
    have "payment_ok ?w p" if "payment_ok w p" for p
      using that c[of "p_id p"] by (auto simp: payment_ok_def split: if_splits)
    then have "\<forall>p \<in> set (w_payments ?w). payment_ok ?w p"
      using inv by (simp add: payments_inv_def finishRefund_def)
    moreover have "\<forall>r \<in> set (w_refunds ?w). refund_ok ?w r"
      using inv by (intro refund_ok_finish) (simp add: payments_inv_def)
    ultimately show ?thesis
      using inv by (simp add: w' payments_inv_def finishRefund_def)
  qed
qed

lemma finalizeRefundSuccess_preserves:
  assumes inv: "payments_inv w"
    and pid: "\<forall>r. lookup r_id rid (w_refunds w) = Some r \<longrightarrow> r_paymentId r = pid"
  shows "payments_inv (snd (finalizeRefundSuccess pid rid prov w))"
proof (cases "\<exists>r. lookup r_id rid (w_refunds w) = Some r \<and> r_status r = TX_PENDING")
  case False
  then have "matches (\<lambda>r. r_id r = rid \<and> r_status r = TX_PENDING) (w_refunds w) = 0"
    using inv by (auto simp: payments_inv_def matches_pk split: option.split)
  then have "snd (finalizeRefundSuccess pid rid prov w) = w" by (simp add: finalizeRefundSuccess_def)
  with inv show ?thesis by simp
next
  case True
  then obtain r where r: "lookup r_id rid (w_refunds w) = Some r" "r_status r = TX_PENDING"
    and rp: "r_paymentId r = pid" using pid by blast
  obtain p where p: "lookup p_id pid (w_payments w) = Some p" "p_status p = TX_SUCCESS"
      "pendingRefunds pid w = 1" "completedRefunds pid w = 0"
    using pending_refund_payment[OF inv r] rp by blast
  let ?w1 = "finishRefund rid TX_REFUNDED w"
  let ?c = "\<lambda>q. p_id q = pid \<and> p_status q = TX_SUCCESS"
  let ?w2 = "?w1\<lparr>w_payments := modify ?c (setStatus TX_REFUNDED prov None) (w_payments ?w1)\<rparr>"
  have "matches (\<lambda>r. r_id r = rid \<and> r_status r = TX_PENDING) (w_refunds w) \<noteq> 0"
    using inv r by (simp add: payments_inv_def matches_pk)
  then have w': "snd (finalizeRefundSuccess pid rid prov w) = ?w2"
    by (simp add: finalizeRefundSuccess_def finishRefund_def Let_def)
  note c = finishRefund_counts[OF inv r, of TX_REFUNDED, simplified rp, simplified]
  have pend: "pendingRefunds i ?w2 = pendingRefunds i w - (if i = pid then 1 else 0)"
    and comp: "completedRefunds i ?w2 = completedRefunds i w + (if i = pid then 1 else 0)" for i
    using c[of i] p(3,4) by (auto simp: pendingRefunds_def completedRefunds_def finishRefund_def split: if_splits)
  have "payment_ok ?w2 (if ?c q then setStatus TX_REFUNDED prov None q else q)"
    if q: "q \<in> set (w_payments w)" for q
  proof -
    have ok: "payment_ok w q" using inv q by (simp add: payments_inv_def)
    have "q = p" if "p_id q = pid"
    proof -
      have "lookup p_id (p_id q) (w_payments w) = Some q"
        using inv q by (intro lookup_keyed) (simp_all add: payments_inv_def)
      then show ?thesis using p(1) that by simp
    qed
    then show ?thesis using ok pend comp p(2-4) by (auto simp: payment_ok_def)
  qed
  moreover have "set (w_payments ?w2) = (\<lambda>q. if ?c q then setStatus TX_REFUNDED prov None q else q) ` set (w_payments w)"
    by (simp add: set_modify finishRefund_def)
  ultimately have "\<forall>q \<in> set (w_payments ?w2). payment_ok ?w2 q" by (simp only: ball_simps) blast
  moreover have "refund_ok ?w2 s" if "refund_ok w s" for s
  proof -
    from that obtain q where "lookup p_id (r_paymentId s) (w_payments w) = Some q"
      and "0 \<le> r_amount s" "r_amount s \<le> dec2 (p_amount q + AMOUNT_TOLERANCE)"
      by (auto simp: refund_ok_def)
    then show ?thesis by (simp add: refund_ok_def lookup_modify finishRefund_def)
  qed
  then have "\<forall>s \<in> set (w_refunds ?w2). refund_ok ?w2 s"
    using inv by (auto simp: payments_inv_def finishRefund_def set_modify refund_ok_def)
  ultimately show ?thesis
    using inv by (simp add: w' payments_inv_def finishRefund_def)
qed

lemma deactivate_preserves: "payments_inv w \<Longrightarrow> payments_inv (deactivateOrderAttempts oid w)"
  unfolding deactivateOrderAttempts_def by (rule payments_inv_update) (auto simp: payment_ok_def)

lemma insert_preserves:
  assumes inv: "payments_inv w" and fresh: "p_id p \<notin> p_id ` set (w_payments w)" and "p_status p = TX_PENDING"
  shows "payments_inv (createPaymentRow p w)"
proof -
  let ?w = "createPaymentRow p w"
  have no: "r_paymentId r \<noteq> p_id p" if "r \<in> set (w_refunds w)" for r
  proof -
    have "lookup p_id (p_id p) (w_payments w) = None" using fresh by (simp add: lookup_None_iff)
    moreover have "lookup p_id (r_paymentId r) (w_payments w) \<noteq> None"
      using that inv by (auto simp: payments_inv_def refund_ok_def)
    ultimately show ?thesis by auto
  qed
  have "payment_ok ?w q = payment_ok w q" for q
    by (simp add: payment_ok_def pendingRefunds_def completedRefunds_def createPaymentRow_def)
  moreover have "payment_ok w p"
    using no assms(3) by (auto simp: payment_ok_def pendingRefunds_def completedRefunds_def matches_0_iff)
  moreover have "refund_ok ?w r" if "refund_ok w r" for r
    using that by (auto simp: refund_ok_def createPaymentRow_def lookup_append)
  ultimately show ?thesis
    using inv fresh by (auto simp: payments_inv_def createPaymentRow_def keyed_snoc)
qed

lemma payTx_preserves: "payTx w w' \<Longrightarrow> payments_inv w \<Longrightarrow> payments_inv w'"
proof (induction rule: payTx.induct)
  case (other w' w)
  then show ?case using payments_inv_frame by blast
qed (simp_all add: insert_preserves deactivate_preserves settle_preserves claimRefund_preserves
    finalizeRefundSuccess_preserves finalizeRefundFailure_preserves)

section \<open>Service calls as sequences of transactions\<close>

definition interleaved :: "(world \<Rightarrow> world) \<Rightarrow> bool" where
  "interleaved env \<longleftrightarrow> (\<forall>v. payTx\<^sup>*\<^sup>* v (env v))"

lemma interleaved_id [simp]: "interleaved id"
  by (simp add: interleaved_def)

lemma payTx_log [intro]:
  "payTx w (publish e w)" "payTx w (enqueue j w)" "payTx w (auditLog a en i ac w)"
  "payTx w (createWebhookEvent t w)"
  by (auto intro: payTx.other simp: createWebhookEvent_def)

lemma announce_steps: "payTx\<^sup>*\<^sup>* w (announceSuccess queueUp p w)"
  unfolding announceSuccess_def enqueuePaymentSuccessNotification_def
  by (auto intro: rtranclp.rtrancl_into_rtrancl)

lemma refund_persists:
  assumes "payTx w w'" and "lookup r_id i (w_refunds w) = Some r"
  shows "\<exists>r'. lookup r_id i (w_refunds w') = Some r' \<and> r_paymentId r' = r_paymentId r"
  using assms
proof (induction rule: payTx.induct)
  case (claim uuid w pid amount)
  then show ?case
    by (auto simp: claimRefund_def Let_def lookup_append split: option.split)
next
  case (success rid w pid prov)
  then show ?case by (auto simp: finalizeRefundSuccess_def Let_def lookup_modify)
next
  case (failure rid w)
  then show ?case by (auto simp: finalizeRefundFailure_def Let_def lookup_modify)
qed (auto simp: createPaymentRow_def deactivateOrderAttempts_def claimStatusTransition_def Let_def)

lemma refund_persists_star:
  assumes "payTx\<^sup>*\<^sup>* w w'" and "lookup r_id i (w_refunds w) = Some r"
  shows "\<exists>r'. lookup r_id i (w_refunds w') = Some r' \<and> r_paymentId r' = r_paymentId r"
  using assms
proof (induction rule: rtranclp_induct)
  case (step v w')
  then show ?case using refund_persists by metis
qed simp

lemma transition_steps:
  assumes "interleaved env" and "nxt = TX_SUCCESS \<or> nxt = TX_FAILED"
  shows "payTx\<^sup>*\<^sup>* w (snd (transitionPaymentStatus env pid nxt prov meth w))"
proof -
  let ?c = "claimStatusTransition prov meth pid (getAllowedSourceStatuses nxt) nxt (env w)"
  have "payTx\<^sup>*\<^sup>* w (env w)" using assms(1) by (simp add: interleaved_def)
  then have "payTx\<^sup>*\<^sup>* w (snd ?c)" using payTx.settle[OF assms(2)] by (rule rtranclp.rtrancl_into_rtrancl)
  moreover have "snd (transitionPaymentStatus env pid nxt prov meth w) \<in> {w, snd ?c}"
    by (cases ?c) (auto simp: transitionPaymentStatus_def split: option.split sum.split)
  ultimately show ?thesis by auto
qed

lemma verify_steps:
  assumes "interleaved env"
  shows "payTx\<^sup>*\<^sup>* w (snd (verifyPayment env queueUp sig fetched po pp uid w))"
proof -
  have "payTx\<^sup>*\<^sup>* w (snd (transitionPaymentStatus env pid TX_SUCCESS prov meth (deactivateOrderAttempts oid w)))"
    for pid prov meth oid
    using transition_steps[OF assms, of TX_SUCCESS "deactivateOrderAttempts oid w"]
    by (blast intro: converse_rtranclp_into_rtranclp payTx.deactivate)
  note st = this
  have "payTx\<^sup>*\<^sup>* w w2 \<and> payTx\<^sup>*\<^sup>* w (announceSuccess queueUp q w2)"
    if "transitionPaymentStatus env pid TX_SUCCESS prov meth (deactivateOrderAttempts oid w) = (res, w2)"
    for pid prov meth oid res w2 q
    using st[of pid prov meth oid] that announce_steps[of w2 queueUp q] by (auto intro: rtranclp_trans)
  then show ?thesis
    by (auto simp: verifyPayment_def split: option.split sum.split prod.split)
qed

lemma captured_steps:
  assumes "interleaved env"
  shows "payTx\<^sup>*\<^sup>* w (snd (handlePaymentCaptured env queueUp entity w))"
proof -
  have "payTx\<^sup>*\<^sup>* w w2 \<and> payTx\<^sup>*\<^sup>* w (announceSuccess queueUp q w2)"
    if "transitionPaymentStatus env pid TX_SUCCESS prov meth w = (res, w2)" for pid prov meth res w2 q
    using transition_steps[OF assms, of TX_SUCCESS w pid prov meth] that announce_steps[of w2 queueUp q]
    by (auto intro: rtranclp_trans)
  then show ?thesis
    by (auto simp: handlePaymentCaptured_def split: option.split sum.split prod.split)
qed

lemma reconciled_steps:
  assumes "interleaved env"
  shows "payTx\<^sup>*\<^sup>* w (snd (markPaymentSucceededFromReconciliation env queueUp pid prov w))"
proof -
  have "payTx\<^sup>*\<^sup>* w w2 \<and> payTx\<^sup>*\<^sup>* w (announceSuccess queueUp q w2)"
    if "transitionPaymentStatus env pid TX_SUCCESS prov meth w = (res, w2)" for pid prov meth res w2 q
    using transition_steps[OF assms, of TX_SUCCESS w pid prov meth] that announce_steps[of w2 queueUp q]
    by (auto intro: rtranclp_trans)
  then show ?thesis
    by (auto simp: markPaymentSucceededFromReconciliation_def split: option.split sum.split prod.split)
qed

lemma failed_steps:
  assumes "interleaved env"
  shows "payTx\<^sup>*\<^sup>* w (snd (handlePaymentFailed env entity w))"
proof -
  have "payTx\<^sup>*\<^sup>* w w2 \<and> payTx\<^sup>*\<^sup>* w (publish e w2)"
    if "transitionPaymentStatus env pid TX_FAILED prov meth w = (res, w2)" for pid prov meth res w2 e
    using transition_steps[OF assms, of TX_FAILED w pid prov meth] that
    by (auto intro: rtranclp.rtrancl_into_rtrancl)
  then show ?thesis
    by (auto simp: handlePaymentFailed_def split: option.split sum.split prod.split)
qed

lemma webhook_steps:
  assumes "interleaved env"
  shows "payTx\<^sup>*\<^sup>* w (snd (processWebhook env queueUp sig ev w))"
proof -
  have "payTx\<^sup>*\<^sup>* w (snd h) \<Longrightarrow> payTx\<^sup>*\<^sup>* w (snd (case h of (Inl e, w2) \<Rightarrow> (Inl e, w2)
      | (Inr (u::unit), w2) \<Rightarrow> (Inr (), createWebhookEvent t w2)))"
    for h :: "(world, unit) outcome" and t
    by (cases h) (auto split: sum.split intro: rtranclp.rtrancl_into_rtrancl)
  then show ?thesis
    using captured_steps[OF assms, of w queueUp] failed_steps[OF assms, of w] payTx_log(4)
    by (cases ev) (auto simp: processWebhook_def)
qed

lemma create_steps:
  assumes "uuid \<notin> p_id ` set (w_payments w)"
  shows "payTx\<^sup>*\<^sup>* w (snd (createPayment uuid now provOrder oid amount uid w))"
proof -
  let ?w = "deactivateOrderAttempts oid w"
  have one: "payTx\<^sup>*\<^sup>* w ?w" using payTx.deactivate by blast
  have "payTx ?w (createPaymentRow p ?w)" if "p_id p = uuid" "p_status p = TX_PENDING" for p
    using assms that by (intro payTx.insert) (auto simp: deactivateOrderAttempts_def set_modify split: if_splits)
  then have "payTx\<^sup>*\<^sup>* w (createPaymentRow p ?w)" if "p_id p = uuid" "p_status p = TX_PENDING" for p
    using that one by (blast intro: rtranclp.rtrancl_into_rtrancl)
  with one show ?thesis
    by (auto simp: createPayment_def Let_def split: option.split sum.split)
qed

lemma refund_steps:
  assumes env: "interleaved env" and fresh: "uuid \<notin> r_id ` set (w_refunds w)"
  shows "payTx\<^sup>*\<^sup>* w (snd (refundPayment uuid env provRefund fetched pid amount actor w))"
proof -
  let ?c = "claimRefund uuid pid amount w"
  let ?w1 = "snd ?c"
  have w1: "payTx\<^sup>*\<^sup>* w ?w1" using payTx.claim[OF fresh] by blast
  then have w2: "payTx\<^sup>*\<^sup>* w (env ?w1)" using env by (auto simp: interleaved_def intro: rtranclp_trans)
  show ?thesis
  proof (cases "fst ?c")
    case (NotClaimed reason)
    then show ?thesis using w1 by (cases ?c) (simp add: refundPayment_def)
  next
    case (Claimed p r)
    have r: "r_id r = uuid" "r_paymentId r = pid" "lookup r_id (r_id r) (w_refunds ?w1) = Some r"
      using Claimed fresh by (auto simp: claimRefund_def Let_def lookup_snoc_fresh split: option.splits if_splits)
    have "payTx\<^sup>*\<^sup>* ?w1 (env ?w1)" using env by (simp add: interleaved_def)
    then have "\<forall>r'. lookup r_id (r_id r) (w_refunds (env ?w1)) = Some r' \<longrightarrow> r_paymentId r' = pid"
      using refund_persists_star[OF _ r(3)] r(2) by fastforce
    then have "payTx\<^sup>*\<^sup>* w (snd (finalizeRefundSuccess pid (r_id r) prov (env ?w1)))" for prov
      using w2 by (blast intro: rtranclp.rtrancl_into_rtrancl payTx.success)
    then have ok: "payTx\<^sup>*\<^sup>* w (publish e (auditLog a en i ac (snd (finalizeRefundSuccess pid (r_id r) prov (env ?w1)))))"
      for prov e a en i ac
      by (meson payTx_log rtranclp.rtrancl_into_rtrancl)
    have no: "payTx\<^sup>*\<^sup>* w (snd (finalizeRefundFailure (r_id r) (env ?w1)))"
      using w2 by (blast intro: rtranclp.rtrancl_into_rtrancl payTx.failure)
    show ?thesis
      using Claimed ok no by (cases ?c) (auto simp: refundPayment_def Let_def split: option.split sum.split)
  qed
qed

lemma reconcileOne_steps: "payTx\<^sup>*\<^sup>* w (snd (reconcileOne queueUp op p w))"
proof -
  have "payTx\<^sup>*\<^sup>* w w'"
    if "markPaymentSucceededFromReconciliation id queueUp pid i w = (res, w')" for pid i res w'
    using reconciled_steps[of id w queueUp pid i] that by simp
  then show ?thesis
    by (auto simp: reconcileOne_def split: option.split sum.split prod.split)
qed

lemma reconcileBatch_steps: "payTx\<^sup>*\<^sup>* w (snd (reconcileBatch queueUp op ps w))"
proof (induction ps arbitrary: w)
  case (Cons p ps)
  show ?case
    using rtranclp_trans[OF reconcileOne_steps[of w queueUp op p] Cons[of "snd (reconcileOne queueUp op p w)"]]
    by (simp add: split_def Let_def)
qed simp

lemma reconcileBatches_steps: "payTx\<^sup>*\<^sup>* w (snd (reconcileBatches queueUp op bs w))"
proof (induction bs arbitrary: w)
  case (Cons b bs)
  show ?case
    using rtranclp_trans[OF reconcileBatch_steps[of w queueUp op b] Cons[of "snd (reconcileBatch queueUp op b w)"]]
    by (simp add: split_def Let_def)
qed simp

inductive payService :: "world \<Rightarrow> world \<Rightarrow> bool" where
  create: "uuid \<notin> p_id ` set (w_payments w) \<Longrightarrow>
    payService w (snd (createPayment uuid now provOrder oid amount uid w))"
| verify: "interleaved env \<Longrightarrow> payService w (snd (verifyPayment env queueUp sig fetched po pp uid w))"
| webhook: "interleaved env \<Longrightarrow> payService w (snd (processWebhook env queueUp sig ev w))"
| refund: "interleaved env \<Longrightarrow> uuid \<notin> r_id ` set (w_refunds w) \<Longrightarrow>
    payService w (snd (refundPayment uuid env provRefund fetched pid amount actor w))"
| reconcile: "payService w (snd (reconcilePendingPayments queueUp op w))"

lemma payService_steps: "payService w w' \<Longrightarrow> payTx\<^sup>*\<^sup>* w w'"
  by (induction rule: payService.induct)
    (auto simp: create_steps verify_steps webhook_steps refund_steps reconcilePendingPayments_def
      Let_def split_def reconcileBatches_steps)

lemma payService_inv: "payService\<^sup>*\<^sup>* w w' \<Longrightarrow> payments_inv w \<Longrightarrow> payments_inv w'"
proof (induction rule: rtranclp_induct)
  case (step v w')
  have "payTx\<^sup>*\<^sup>* v w'" using step.hyps(2) by (rule payService_steps)
  then show ?case
    using step.IH[OF step.prems] by (induction rule: rtranclp_induct) (auto intro: payTx_preserves)
qed simp

section \<open>Properties\<close>

definition samplePayment :: payment where
  "samplePayment = \<lparr>p_id = ''p1'', p_orderId = ''o1'', p_providerOrderId = Some ''prov'',
     p_providerPaymentId = None, p_amount = 100, p_status = TX_PENDING, p_method = None,
     p_attempt = 1, p_isActive = True, p_createdAt = 0\<rparr>"

definition payWorld :: world where
  "payWorld = emptyWorld\<lparr>w_payments := [samplePayment]\<rparr>"

definition sampleOrder :: order where
  "sampleOrder = \<lparr>o_id = ''o1'', o_customerId = ''u1'', o_restaurantId = ''r1'', o_branchId = None,
     o_deliveryPartnerId = None, o_orderNumber = ''ORD'', o_idempotencyKey = Some ''k1'', o_status = PENDING,
     o_paymentStatus = PAY_PENDING, o_paymentMode = ONLINE, o_addressId = None, o_subtotal = 100,
     o_deliveryFee = 0, o_tax = 0, o_couponId = None, o_discount = 0, o_total = 100, o_walletUsed = 0,
     o_notes = None, o_deliveryAddress = ''addr'', o_latitude = None, o_longitude = None, o_placedAt = 0,
     o_deliveredAt = None, o_items = []\<rparr>"

definition verifyWorld :: world where
  "verifyWorld = emptyWorld\<lparr>w_orders := [sampleOrder], w_payments := [samplePayment]\<rparr>"

definition sampleEntity :: providerPayment where
  "sampleEntity = \<lparr>rp_id = ''pay'', rp_orderId = ''prov'', rp_amount = 10000, rp_currency = ''INR'',
     rp_status = Some ''captured'', rp_method = Some ''upi'', rp_refundStatus = None, rp_amountRefunded = None\<rparr>"

lemma payWorld_inv: "payments_inv payWorld"
  by (simp add: payments_inv_def payWorld_def samplePayment_def emptyWorld_def keyed_def payment_ok_def
      pendingRefunds_def completedRefunds_def)


definition capturedWorld :: world where
  "capturedWorld = emptyWorld\<lparr>w_payments := [samplePayment\<lparr>p_status := TX_SUCCESS\<rparr>]\<rparr>"

definition refundedWorld :: world where
  "refundedWorld = snd (refundPayment ''r1'' id (Inr ''rf'') (Inl (NotFound ''payment'')) ''p1'' 100 None capturedWorld)"

definition refundedTwiceWorld :: world where
  "refundedTwiceWorld = snd (refundPayment ''r2'' id (Inr ''rf'') (Inl (NotFound ''payment'')) ''p1'' 100 None refundedWorld)"

lemma capturedWorld_inv: "payments_inv capturedWorld"
  by (simp add: payments_inv_def capturedWorld_def samplePayment_def emptyWorld_def keyed_def payment_ok_def
      pendingRefunds_def completedRefunds_def)

lemma refundedWorld_eq:
  "w_payments refundedWorld = [setStatus TX_REFUNDED (Some ''rf'') None (samplePayment\<lparr>p_status := TX_SUCCESS\<rparr>)]"
  "w_refunds refundedWorld = [\<lparr>r_id = ''r1'', r_paymentId = ''p1'', r_amount = 100, r_status = TX_REFUNDED\<rparr>]"
  by (simp_all add: refundedWorld_def refundPayment_def claimRefund_def findPaymentById_def capturedWorld_def
      samplePayment_def emptyWorld_def AMOUNT_TOLERANCE_def finalizeRefundSuccess_def setStatus_def Let_def)

lemma refundedTwiceWorld_eq: "refundedTwiceWorld = refundedWorld"
  by (simp add: refundedTwiceWorld_def refundPayment_def claimRefund_def findPaymentById_def refundedWorld_eq
      samplePayment_def setStatus_def)


text \<open>
  Exactly one of any number of racing settlements wins: when a pending payment is claimed by
  a list of callers (client verification, webhook deliveries, the reconciliation job), in any
  order and number, the claims that report a changed row add up to one.
\<close>
theorem settlement_single_winner:
  assumes "payKeyed w" and "payStatusCell w pid = Some TX_PENDING" and "cs \<noteq> []"
    and "\<forall>c \<in> set cs. c = (pid, getAllowedSourceStatuses TX_SUCCESS, TX_SUCCESS)"
  shows "winners (claimStatusTransition prov meth) cs w = 1"
proof -
  have "getAllowedSourceStatuses TX_SUCCESS = [TX_PENDING]" by (simp add: getAllowedSourceStatuses_def)
  then show ?thesis using assms payCas.single_winner[of w TX_SUCCESS "[TX_PENDING]" cs pid prov meth] by simp
qed

lemma settlement_single_winner_witness:
  "winners (claimStatusTransition None None)
     (replicate 3 (''p1'', getAllowedSourceStatuses TX_SUCCESS, TX_SUCCESS)) payWorld = 1"
  by (rule settlement_single_winner)
    (auto simp: payKeyed_def payStatusCell_def payWorld_def samplePayment_def emptyWorld_def keyed_def)

text \<open>When the sequential transition moves the row, and how.\<close>

lemma transition_id:
  assumes "payKeyed w" and "findPaymentById pid w = Some p"
  shows "transitionPaymentStatus id pid nxt prov meth w =
    (if p_status p = nxt then (Inr (p, False), w)
     else if nxt \<in> set (PAYMENT_STATE_MACHINE (p_status p))
       then (Inr (setStatus nxt prov meth p, True),
             snd (claimStatusTransition prov meth pid (getAllowedSourceStatuses nxt) nxt w))
     else (Inl (Conflict ''invalid payment transition''), w))"
proof -
  have src: "p_status p \<in> set (getAllowedSourceStatuses nxt) \<longleftrightarrow> nxt \<in> set (PAYMENT_STATE_MACHINE (p_status p))"
    by (cases "p_status p") (auto simp: getAllowedSourceStatuses_def)
  have pid: "p_id p = pid" and l: "lookup p_id pid (w_payments w) = Some p"
    using assms(2) by (auto simp: findPaymentById_def dest: lookup_SomeD)
  have n: "nxt \<in> set (PAYMENT_STATE_MACHINE (p_status p)) \<Longrightarrow>
      fst (claimStatusTransition prov meth pid (getAllowedSourceStatuses nxt) nxt w) = 1"
    using assms(1) l src by (simp add: claimStatusTransition_def payKeyed_def matches_pk)
  have a: "nxt \<in> set (PAYMENT_STATE_MACHINE (p_status p)) \<Longrightarrow>
      findPaymentById pid (snd (claimStatusTransition prov meth pid (getAllowedSourceStatuses nxt) nxt w))
        = Some (setStatus nxt prov meth p)"
    using l src pid by (simp add: findPaymentById_def claimStatusTransition_def lookup_modify Let_def)
  show ?thesis
    using assms(2) n a by (auto simp: transitionPaymentStatus_def validateTransition_def guard_def split_def)
qed

text \<open>
  C5. Client-side verification only accepts money that was really captured for this customer's
  order: whenever a verify call turns a payment of a consistent database into SUCCESS, the
  signature was valid, the caller is the order's customer, and the provider itself reported the
  payment captured, in INR, for exactly the payment's amount in paise.
\<close>
theorem verify_only_captured:
  assumes "payKeyed w" and "findByProviderOrderId po w = Some p" and "p_status p \<noteq> TX_SUCCESS"
    and "verifyPayment id queueUp sig fetched po pp uid w = (Inr q, w')"
  shows "sig \<and> (\<exists>ord. lookup o_id (p_orderId p) (w_orders w) = Some ord \<and> o_customerId ord = uid) \<and>
    (\<exists>rp. fetched = Inr rp \<and> rp_status rp = Some ''captured'' \<and> rp_currency rp = ''INR'' \<and>
       rp_amount rp = mathRound (p_amount p * 100)) \<and>
    p_status q = TX_SUCCESS \<and> p_status p = TX_PENDING"
proof -
  let ?w = "deactivateOrderAttempts (p_orderId p) w"
  have mem: "p \<in> set (w_payments w)" using assms(2) by (auto simp: findByProviderOrderId_def)
  have "lookup p_id (p_id p) (w_payments w) = Some p"
    using assms(1) mem by (simp add: payKeyed_def lookup_keyed)
  then obtain p' where p': "findPaymentById (p_id p) ?w = Some p'" "p_status p' = p_status p"
    by (simp add: findPaymentById_def deactivateOrderAttempts_def lookup_modify)
  have k: "payKeyed ?w" using assms(1) by (simp add: payKeyed_def deactivateOrderAttempts_def)
  note t = transition_id[OF k p'(1), of TX_SUCCESS "Some pp" None]
  show ?thesis
    using assms(2-4) p'(2) t
    by (cases "p_status p")
      (auto simp: verifyPayment_def assertProviderPaymentMatches_def providerPaymentMatches_def
        guard_def split: option.splits sum.splits if_splits)
qed

lemma verify_only_captured_witness:
  "\<exists>q w'. verifyPayment id True True
      (Inr \<lparr>rp_id = ''pay'', rp_orderId = ''prov'', rp_amount = 10000, rp_currency = ''INR'',
         rp_status = Some ''captured'', rp_method = None, rp_refundStatus = None, rp_amountRefunded = None\<rparr>)
      ''prov'' ''pay'' ''u1'' verifyWorld = (Inr q, w') \<and> p_status q = TX_SUCCESS"
proof -
  let ?f = "Inr \<lparr>rp_id = ''pay'', rp_orderId = ''prov'', rp_amount = 10000, rp_currency = ''INR'',
         rp_status = Some ''captured'', rp_method = None, rp_refundStatus = None, rp_amountRefunded = None\<rparr>"
  let ?v = "verifyPayment id True True ?f ''prov'' ''pay'' ''u1'' verifyWorld"
  have p: "findByProviderOrderId ''prov'' verifyWorld = Some samplePayment"
    by (simp add: findByProviderOrderId_def verifyWorld_def samplePayment_def)
  have k: "payKeyed verifyWorld" by (simp add: payKeyed_def verifyWorld_def keyed_def)
  have "mathRound (100 * 100) = 10000" using mathRound_of_int[of 10000] by simp
  then have "\<exists>q w'. ?v = (Inr q, w')"
    by (simp add: verifyPayment_def findByProviderOrderId_def verifyWorld_def samplePayment_def sampleOrder_def
        assertProviderPaymentMatches_def providerPaymentMatches_def guard_def transitionPaymentStatus_def
        deactivateOrderAttempts_def findPaymentById_def validateTransition_def claimStatusTransition_def
        getAllowedSourceStatuses_def)
  then obtain q w' where v: "?v = (Inr q, w')" by blast
  have "p_status q = TX_SUCCESS"
    using verify_only_captured[OF k p _ v] by (simp add: samplePayment_def)
  with v show ?thesis by blast
qed

text \<open>
  A captured webhook is idempotent: delivering the same event again after a delivery that was
  acknowledged changes no payment, refund or order and emits no further event; the delivery is
  only recorded once more.
\<close>
theorem captured_webhook_idempotent:
  assumes "payKeyed w" and "processWebhook id queueUp True (WebhookCaptured ent) w = (Inr u, w1)"
  shows "processWebhook id queueUp' True (WebhookCaptured ent) w1
    = (Inr (), createWebhookEvent ''payment.captured'' w1)"
proof -
  let ?find = "findByProviderOrderId (rp_orderId ent)"
  have frame: "?find (createWebhookEvent t v) = ?find v" "?find (announceSuccess b q v) = ?find v" for t v b q
    by (simp_all add: findByProviderOrderId_def createWebhookEvent_def announceSuccess_def
        enqueuePaymentSuccessNotification_def)
  consider (none) "?find w = None" | (some) p where "?find w = Some p" by (cases "?find w") auto
  then show ?thesis
  proof cases
    case none
    then show ?thesis using assms(2) frame(1) by (auto simp: processWebhook_def handlePaymentCaptured_def)
  next
    case (some p)
    then have mem: "p \<in> set (w_payments w)" by (auto simp: findByProviderOrderId_def)
    then have l: "findPaymentById (p_id p) w = Some p"
      using assms(1) by (simp add: payKeyed_def lookup_keyed findPaymentById_def)
    note t = transition_id[OF assms(1) l, of TX_SUCCESS]
    have moved: "?find (snd (claimStatusTransition prov meth (p_id p) (getAllowedSourceStatuses TX_SUCCESS) TX_SUCCESS w))
        = Some (setStatus TX_SUCCESS prov meth p)" if "p_status p = TX_PENDING" for prov meth
      using that some
      by (simp add: findByProviderOrderId_def claimStatusTransition_def Let_def lookup_modify setStatus_def
          getAllowedSourceStatuses_def)
    show ?thesis
      using assms(2) some t moved frame
      by (cases "p_status p") (auto simp: processWebhook_def handlePaymentCaptured_def split: if_splits)
  qed
qed

lemma captured_webhook_idempotent_witness:
  "\<exists>w1. processWebhook id True True (WebhookCaptured sampleEntity) verifyWorld = (Inr (), w1) \<and>
     processWebhook id True True (WebhookCaptured sampleEntity) w1
       = (Inr (), createWebhookEvent ''payment.captured'' w1)"
proof -
  have "\<exists>w1. processWebhook id True True (WebhookCaptured sampleEntity) verifyWorld = (Inr (), w1)"
  proof -
    have "mathRound (100 * 100) = 10000" using mathRound_of_int[of 10000] by simp
    then show ?thesis
      by (simp add: processWebhook_def handlePaymentCaptured_def sampleEntity_def findByProviderOrderId_def
          verifyWorld_def samplePayment_def transitionPaymentStatus_def findPaymentById_def
          validateTransition_def claimStatusTransition_def getAllowedSourceStatuses_def)
  qed
  moreover have "payKeyed verifyWorld" by (simp add: payKeyed_def verifyWorld_def keyed_def)
  ultimately show ?thesis using captured_webhook_idempotent by blast
qed

text \<open>Verification deactivates every attempt of the order, the one it settles included, and nothing
  reactivates it.\<close>

lemma verify_leaves_no_active:
  assumes "findByProviderOrderId po w = Some p" and "p_status p \<noteq> TX_SUCCESS"
    and "verifyPayment id queueUp sig fetched po pp uid w = (Inr q, w')"
  shows "findActivePaymentForOrder (p_orderId p) w' = None"
proof -
  let ?none = "\<lambda>v. findActivePaymentForOrder (p_orderId p) v = None"
  let ?w = "deactivateOrderAttempts (p_orderId p) w"
  have 0: "?none ?w"
    by (auto simp: findActivePaymentForOrder_def findLatest_None_iff deactivateOrderAttempts_def set_modify)
  have 1: "?none v \<Longrightarrow> ?none (snd (claimStatusTransition prov meth pid from nxt v))" for v prov meth pid "from" nxt
    by (auto simp: findActivePaymentForOrder_def findLatest_None_iff claimStatusTransition_def Let_def set_modify)
  have 2: "?none (announceSuccess b r v) = ?none v" for b r v
    by (simp add: findActivePaymentForOrder_def announceSuccess_def enqueuePaymentSuccessNotification_def)
  have 3: "?none w2" if "transitionPaymentStatus id pid nxt prov meth ?w = (res, w2)" for pid nxt prov meth res w2
  proof -
    have "w2 \<in> {?w, snd (claimStatusTransition prov meth pid (getAllowedSourceStatuses nxt) nxt ?w)}"
      using that by (auto simp: transitionPaymentStatus_def split: option.splits sum.splits if_splits prod.splits)
    then show ?thesis using 0 1[OF 0] by auto
  qed
  show ?thesis
    using assms 2 3
    by (auto simp: verifyPayment_def split: option.splits sum.splits if_splits prod.splits)
qed

end
