(* ===== verification/Delivery.thy ===== *)
theory Delivery
  imports Claims
begin

text \<open>
  Delivery partners: \<^verbatim>\<open>DeliveryService\<close> and \<^verbatim>\<open>DeliveryRepository\<close>.  A partner's operational
  status, its verification flag, its last reported location and its live presence.

  \<^verbatim>\<open>PresenceService\<close> is used through its effect on the set of online users, \<^term>\<open>w_online\<close>.
\<close>

section \<open>Repository\<close>

definition findPartnerByUserId :: "string \<Rightarrow> world \<Rightarrow> partner option" where
  "findPartnerByUserId uid w = lookup d_userId uid (w_partners w)"

definition findPartnerById :: "string \<Rightarrow> world \<Rightarrow> partner option" where
  "findPartnerById did w = lookup d_id did (w_partners w)"

definition setLocation :: "(rat \<times> rat) option \<Rightarrow> partner \<Rightarrow> partner" where
  "setLocation loc d = (case loc of None \<Rightarrow> d
     | Some (lat, lng) \<Rightarrow> d\<lparr>d_latitude := Some lat, d_longitude := Some lng\<rparr>)"

text \<open>Prisma's \<^verbatim>\<open>update\<close> by user id: raises P2025 when there is no such partner.\<close>

definition updatePartnerStatus ::
  "string \<Rightarrow> partnerStatus \<Rightarrow> (rat \<times> rat) option \<Rightarrow> world \<Rightarrow> (world, unit) outcome" where
  "updatePartnerStatus uid st loc w =
     (if findPartnerByUserId uid w = None then (Inl (RecordNotFound ''DeliveryPartner''), w)
      else (Inr (), w\<lparr>w_partners := modify (\<lambda>d. d_userId d = uid)
              (\<lambda>d. setLocation loc (d\<lparr>d_status := st\<rparr>)) (w_partners w)\<rparr>))"

definition updatePartnerLocation :: "string \<Rightarrow> rat \<times> rat \<Rightarrow> world \<Rightarrow> (world, unit) outcome" where
  "updatePartnerLocation uid loc w =
     (if findPartnerByUserId uid w = None then (Inl (RecordNotFound ''DeliveryPartner''), w)
      else (Inr (), w\<lparr>w_partners := modify (\<lambda>d. d_userId d = uid) (setLocation (Some loc)) (w_partners w)\<rparr>))"

definition releaseFromDelivery :: "string \<Rightarrow> string option \<Rightarrow> world \<Rightarrow> nat \<times> world" where
  "releaseFromDelivery uid oid w =
     (let p = (\<lambda>d. d_userId d = uid \<and> d_status d = ON_DELIVERY);
          count = matches p (w_partners w);
          w1 = w\<lparr>w_partners := modify p (\<lambda>d. d\<lparr>d_status := AVAILABLE\<rparr>) (w_partners w)\<rparr>
      in case oid of
           None \<Rightarrow> (count, w1)
         | Some i \<Rightarrow>
             (count, w1\<lparr>w_assignments :=
                modify (\<lambda>a. a_orderId a = i \<and> a_status a \<in> {ASG_PENDING, ASG_ACCEPTED})
                  (\<lambda>a. a\<lparr>a_status := ASG_COMPLETED\<rparr>) (w_assignments w1)\<rparr>))"

definition claimPartnerStatus :: "string \<Rightarrow> partnerStatus list \<Rightarrow> partnerStatus \<Rightarrow> world \<Rightarrow> nat \<times> world" where
  "claimPartnerStatus did allowedFrom nxt w =
     (let p = (\<lambda>d. d_id d = did \<and> d_status d \<in> set allowedFrom)
      in (matches p (w_partners w),
          w\<lparr>w_partners := modify p (\<lambda>d. d\<lparr>d_status := nxt\<rparr>) (w_partners w)\<rparr>))"

definition claimVerification :: "string \<Rightarrow> bool \<Rightarrow> bool \<Rightarrow> world \<Rightarrow> nat \<times> world" where
  "claimVerification did required nxt w =
     (let p = (\<lambda>d. d_id d = did \<and> d_isVerified d = required)
      in (matches p (w_partners w),
          w\<lparr>w_partners := modify p (\<lambda>d. d\<lparr>d_isVerified := nxt\<rparr>) (w_partners w)\<rparr>))"

definition countActivePartners :: "world \<Rightarrow> nat" where
  "countActivePartners w = matches (\<lambda>d. d_status d \<in> {AVAILABLE, ON_DELIVERY}) (w_partners w)"

definition getAssignedOrders :: "string \<Rightarrow> world \<Rightarrow> order list" where
  "getAssignedOrders uid w = filter (\<lambda>ord. o_deliveryPartnerId ord = Some uid) (w_orders w)"

section \<open>Presence effects\<close>

definition markOnline :: "string \<Rightarrow> world \<Rightarrow> world" where
  "markOnline uid w = w\<lparr>w_online := List.insert uid (w_online w)\<rparr>"

definition markOffline :: "string \<Rightarrow> world \<Rightarrow> world" where
  "markOffline uid w = w\<lparr>w_online := filter (\<lambda>u. u \<noteq> uid) (w_online w)\<rparr>"

section \<open>Service\<close>

definition onboardPartner :: "string \<Rightarrow> string \<Rightarrow> world \<Rightarrow> (world, partner) outcome" where
  "onboardPartner uuid uid w =
     (if findPartnerByUserId uid w \<noteq> None then (Inl (Conflict ''Delivery partner already exists''), w)
      else
        (let d = \<lparr>d_id = uuid, d_userId = uid, d_status = OFFLINE, d_isVerified = False,
               d_latitude = None, d_longitude = None\<rparr>
         in (Inr d, publish (DeliveryCreated uuid uid) (w\<lparr>w_partners := w_partners w @ [d]\<rparr>))))"

definition getMe :: "string \<Rightarrow> world \<Rightarrow> partner result" where
  "getMe uid w =
     (case findPartnerByUserId uid w of None \<Rightarrow> Inl (NotFound ''Delivery partner'') | Some d \<Rightarrow> Inr d)"

definition assertOnlineEligible :: "string \<Rightarrow> world \<Rightarrow> unit result" where
  "assertOnlineEligible uid w =
     (case findPartnerByUserId uid w of
        None \<Rightarrow> Inl (NotFound ''Delivery partner'')
      | Some d \<Rightarrow>
          if \<not> d_isVerified d then Inl (Forbidden ''verification'')
          else if d_status d = SUSPENDED then Inl (Forbidden ''suspended'')
          else if (case lookup u_id (d_userId d) (w_users w) of
                     None \<Rightarrow> True | Some u \<Rightarrow> u_status u \<noteq> USER_ACTIVE)
            then Inl (Forbidden ''not active'')
          else Inr ())"

definition goAvailable :: "string \<Rightarrow> (rat \<times> rat) option \<Rightarrow> world \<Rightarrow> (world, unit) outcome" where
  "goAvailable uid loc w =
     (case assertOnlineEligible uid w of
        Inl e \<Rightarrow> (Inl e, w)
      | Inr _ \<Rightarrow>
          (case updatePartnerStatus uid AVAILABLE loc w of
             (Inl e, w1) \<Rightarrow> (Inl e, w1)
           | (Inr _, w1) \<Rightarrow> (Inr (), markOnline uid w1)))"

definition reportLocation :: "string \<Rightarrow> rat \<times> rat \<Rightarrow> world \<Rightarrow> (world, unit) outcome" where
  "reportLocation uid loc w = updatePartnerLocation uid loc w"

definition goOffline :: "string \<Rightarrow> world \<Rightarrow> (world, unit) outcome" where
  "goOffline uid w =
     (case updatePartnerStatus uid OFFLINE None w of
        (Inl e, w1) \<Rightarrow> (Inl e, w1)
      | (Inr _, w1) \<Rightarrow> (Inr (), markOffline uid w1))"

definition releasePartnerFromDelivery :: "string \<Rightarrow> string option \<Rightarrow> world \<Rightarrow> world" where
  "releasePartnerFromDelivery uid oid w = snd (releaseFromDelivery uid oid w)"

definition findAdminTarget :: "string \<Rightarrow> world \<Rightarrow> partner result" where
  "findAdminTarget did w =
     (case findPartnerById did w of None \<Rightarrow> Inl (NotFound ''Delivery partner'') | Some d \<Rightarrow> Inr d)"

text \<open>\<open>env\<close> is what other transactions commit between the read and the claim.\<close>

definition approvePartner ::
  "(world \<Rightarrow> world) \<Rightarrow> string \<Rightarrow> string \<Rightarrow> world \<Rightarrow> (world, unit) outcome" where
  "approvePartner env did admin w =
     (case findAdminTarget did w of
        Inl e \<Rightarrow> (Inl e, w)
      | Inr _ \<Rightarrow>
          (let (count, w1) = claimVerification did False True (env w)
           in if count = 0 then (Inl (Conflict ''already approved''), w1)
              else (Inr (), auditLog (Some admin) ''DeliveryPartner'' did ''APPROVE'' w1)))"

definition rejectPartner ::
  "(world \<Rightarrow> world) \<Rightarrow> string \<Rightarrow> string \<Rightarrow> world \<Rightarrow> (world, unit) outcome" where
  "rejectPartner env did admin w =
     (case findAdminTarget did w of
        Inl e \<Rightarrow> (Inl e, w)
      | Inr _ \<Rightarrow>
          (let (count, w1) = claimVerification did True False (env w)
           in if count = 0 then (Inl (Conflict ''not currently approved''), w1)
              else (Inr (), auditLog (Some admin) ''DeliveryPartner'' did ''REJECT'' w1)))"

definition NON_SUSPENDED_PARTNER_STATUSES :: "partnerStatus list" where
  "NON_SUSPENDED_PARTNER_STATUSES = [OFFLINE, AVAILABLE, ON_DELIVERY]"

definition suspendPartner ::
  "(world \<Rightarrow> world) \<Rightarrow> string \<Rightarrow> string \<Rightarrow> world \<Rightarrow> (world, unit) outcome" where
  "suspendPartner env did admin w =
     (case findAdminTarget did w of
        Inl e \<Rightarrow> (Inl e, w)
      | Inr d \<Rightarrow>
          if d_status d = SUSPENDED then (Inl (BadRequest ''already suspended''), w)
          else
            (let (count, w1) = claimPartnerStatus did NON_SUSPENDED_PARTNER_STATUSES SUSPENDED (env w)
             in if count = 0 then (Inl (Conflict ''no longer eligible''), w1)
                else (Inr (), auditLog (Some admin) ''DeliveryPartner'' did ''STATUS_CHANGE'' w1)))"

definition restorePartner ::
  "(world \<Rightarrow> world) \<Rightarrow> string \<Rightarrow> string \<Rightarrow> world \<Rightarrow> (world, unit) outcome" where
  "restorePartner env did admin w =
     (case findAdminTarget did w of
        Inl e \<Rightarrow> (Inl e, w)
      | Inr d \<Rightarrow>
          if d_status d \<noteq> SUSPENDED then (Inl (BadRequest ''Only suspended partners''), w)
          else
            (let (count, w1) = claimPartnerStatus did [SUSPENDED] OFFLINE (env w)
             in if count = 0 then (Inl (Conflict ''no longer suspended''), w1)
                else (Inr (), auditLog (Some admin) ''DeliveryPartner'' did ''STATUS_CHANGE'' w1)))"

definition forceOffline ::
  "(world \<Rightarrow> world) \<Rightarrow> string \<Rightarrow> string \<Rightarrow> world \<Rightarrow> (world, unit) outcome" where
  "forceOffline env did admin w =
     (case findAdminTarget did w of
        Inl e \<Rightarrow> (Inl e, w)
      | Inr d \<Rightarrow>
          if d_status d \<noteq> AVAILABLE \<and> d_status d \<noteq> ON_DELIVERY
            then (Inl (BadRequest ''not currently online''), w)
          else
            (let (count, w1) = claimPartnerStatus did [AVAILABLE, ON_DELIVERY] OFFLINE (env w)
             in if count = 0 then (Inl (Conflict ''no longer online''), w1)
                else (Inr (), auditLog (Some admin) ''DeliveryPartner'' did ''STATUS_CHANGE'' w1)))"

section \<open>The claims as instances of the contract\<close>

definition partnerStatusCell :: "world \<Rightarrow> string \<Rightarrow> partnerStatus option" where
  "partnerStatusCell w did = map_option d_status (lookup d_id did (w_partners w))"

definition partnersKeyed :: "world \<Rightarrow> bool" where
  "partnersKeyed w \<longleftrightarrow> keyed d_id (w_partners w)"

interpretation partnerCas: cas_cell partnersKeyed partnerStatusCell claimPartnerStatus
  unfolding partnersKeyed_def[abs_def] partnerStatusCell_def[abs_def]
  by (rule cas_cell_table[where upd = "\<lambda>t d. d\<lparr>d_status := t\<rparr>" and put = "\<lambda>x. w_partners_update (\<lambda>_. x)"])
    (simp_all add: claimPartnerStatus_def Let_def)

text \<open>The verification flag is a claim with a single required value.\<close>

definition claimVerificationFrom :: "string \<Rightarrow> bool list \<Rightarrow> bool \<Rightarrow> world \<Rightarrow> nat \<times> world" where
  "claimVerificationFrom did from nxt w =
     (let p = (\<lambda>d. d_id d = did \<and> d_isVerified d \<in> set from)
      in (matches p (w_partners w),
          w\<lparr>w_partners := modify p (\<lambda>d. d\<lparr>d_isVerified := nxt\<rparr>) (w_partners w)\<rparr>))"

lemma claimVerification_single: "claimVerification did b nxt = claimVerificationFrom did [b] nxt"
  by (simp add: fun_eq_iff claimVerification_def claimVerificationFrom_def)

definition verifiedCell :: "world \<Rightarrow> string \<Rightarrow> bool option" where
  "verifiedCell w did = map_option d_isVerified (lookup d_id did (w_partners w))"

interpretation verifiedCas: cas_cell partnersKeyed verifiedCell claimVerificationFrom
  unfolding partnersKeyed_def[abs_def] verifiedCell_def[abs_def]
  by (rule cas_cell_table[where upd = "\<lambda>t d. d\<lparr>d_isVerified := t\<rparr>" and put = "\<lambda>x. w_partners_update (\<lambda>_. x)"])
    (simp_all add: claimVerificationFrom_def Let_def)

section \<open>Lemmas\<close>

lemma setLocation_simps [simp]:
  "d_id (setLocation loc d) = d_id d" "d_userId (setLocation loc d) = d_userId d"
  "d_status (setLocation loc d) = d_status d" "d_isVerified (setLocation loc d) = d_isVerified d"
  by (simp_all add: setLocation_def split: option.split prod.split)

lemma online_eligible_iff:
  "assertOnlineEligible uid w = Inr u \<longleftrightarrow>
     (\<exists>d usr. findPartnerByUserId uid w = Some d \<and> d_isVerified d \<and> d_status d \<noteq> SUSPENDED \<and>
        lookup u_id (d_userId d) (w_users w) = Some usr \<and> u_status usr = USER_ACTIVE)"
  by (auto simp: assertOnlineEligible_def split: option.splits)

lemma updatePartnerStatus_ok:
  "updatePartnerStatus uid st loc w = (Inr u, w') \<longleftrightarrow>
     findPartnerByUserId uid w \<noteq> None \<and>
     w' = w\<lparr>w_partners := modify (\<lambda>d. d_userId d = uid) (\<lambda>d. setLocation loc (d\<lparr>d_status := st\<rparr>)) (w_partners w)\<rparr>"
  by (auto simp: updatePartnerStatus_def)

lemma partner_after_update:
  assumes "updatePartnerStatus uid st loc w = (Inr u, w')" and "findPartnerByUserId uid w = Some d"
  shows "findPartnerByUserId uid w' = Some (setLocation loc (d\<lparr>d_status := st\<rparr>))"
  using assms by (auto simp: updatePartnerStatus_ok findPartnerByUserId_def lookup_modify dest: lookup_key)

lemma release_partner:
  "findPartnerByUserId uid (releasePartnerFromDelivery v oid w) = map_option
     (\<lambda>d. if uid = v \<and> d_status d = ON_DELIVERY then d\<lparr>d_status := AVAILABLE\<rparr> else d) (findPartnerByUserId uid w)"
  by (cases "lookup d_userId uid (w_partners w)")
    (auto simp: releasePartnerFromDelivery_def releaseFromDelivery_def findPartnerByUserId_def Let_def
      lookup_modify dest: lookup_key split: option.split)

lemma release_assignments:
  "w_assignments (releasePartnerFromDelivery v (Some oid) w) =
     modify (\<lambda>a. a_orderId a = oid \<and> a_status a \<in> {ASG_PENDING, ASG_ACCEPTED})
       (\<lambda>a. a\<lparr>a_status := ASG_COMPLETED\<rparr>) (w_assignments w)"
  by (simp add: releasePartnerFromDelivery_def releaseFromDelivery_def Let_def)

lemma release_frame [simp]:
  "w_orders (releasePartnerFromDelivery v oid w) = w_orders w"
  "w_history (releasePartnerFromDelivery v oid w) = w_history w"
  "w_payments (releasePartnerFromDelivery v oid w) = w_payments w"
  "w_refunds (releasePartnerFromDelivery v oid w) = w_refunds w"
  "w_coupons (releasePartnerFromDelivery v oid w) = w_coupons w"
  "w_redemptions (releasePartnerFromDelivery v oid w) = w_redemptions w"
  "w_restaurants (releasePartnerFromDelivery v oid w) = w_restaurants w"
  "w_events (releasePartnerFromDelivery v oid w) = w_events w"
  "w_otps (releasePartnerFromDelivery v oid w) = w_otps w"
  "w_photos (releasePartnerFromDelivery v oid w) = w_photos w"
  "w_ledger (releasePartnerFromDelivery v oid w) = w_ledger w"
  by (simp_all add: releasePartnerFromDelivery_def releaseFromDelivery_def Let_def split: option.split)

lemma goAvailable_granted:
  assumes "assertOnlineEligible uid w = Inr u"
  shows "\<exists>w'. goAvailable uid loc w = (Inr (), w') \<and> uid \<in> set (w_online w') \<and>
    map_option d_status (findPartnerByUserId uid w') = Some AVAILABLE"
proof -
  obtain d where d: "findPartnerByUserId uid w = Some d" using assms by (auto simp: online_eligible_iff)
  then obtain w1 where 1: "updatePartnerStatus uid AVAILABLE loc w = (Inr (), w1)"
    by (simp add: updatePartnerStatus_def)
  have "findPartnerByUserId uid (markOnline uid w1) = findPartnerByUserId uid w1"
    by (simp add: findPartnerByUserId_def markOnline_def)
  then show ?thesis
    using assms 1 partner_after_update[OF 1 d] by (simp add: goAvailable_def markOnline_def)
qed

section \<open>Properties\<close>

definition samplePartner :: partner where
  "samplePartner = \<lparr>d_id = ''d1'', d_userId = ''u2'', d_status = OFFLINE, d_isVerified = True,
     d_latitude = None, d_longitude = None\<rparr>"

definition partnerWorld :: "partnerStatus \<Rightarrow> world" where
  "partnerWorld st = emptyWorld\<lparr>w_partners := [samplePartner\<lparr>d_status := st\<rparr>],
     w_users := [\<lparr>u_id = ''u2'', u_role = DELIVERY_PARTNER, u_status = USER_ACTIVE\<rparr>]\<rparr>"

text \<open>
  The online gate: a go-available request succeeds exactly for a partner that is verified, not
  suspended and whose user account is active; a refused request changes nothing at all, and a
  granted one leaves the partner AVAILABLE and present.
\<close>
theorem goAvailable_gate:
  "let eligible = (\<exists>d usr. findPartnerByUserId uid w = Some d \<and> d_isVerified d \<and> d_status d \<noteq> SUSPENDED \<and>
         lookup u_id (d_userId d) (w_users w) = Some usr \<and> u_status usr = USER_ACTIVE)
   in case goAvailable uid loc w of
        (Inl e, w') \<Rightarrow> w' = w \<and> \<not> eligible
      | (Inr u, w') \<Rightarrow> eligible \<and> map_option d_status (findPartnerByUserId uid w') = Some AVAILABLE \<and>
          uid \<in> set (w_online w')"
proof (cases "assertOnlineEligible uid w")
  case (Inl e)
  then have "\<not> (assertOnlineEligible uid w = Inr ())" by simp
  then show ?thesis using Inl unfolding online_eligible_iff by (simp add: goAvailable_def)
next
  case (Inr u)
  from goAvailable_granted[OF this, of loc] obtain w' where
    w': "goAvailable uid loc w = (Inr (), w')" "uid \<in> set (w_online w')"
      "map_option d_status (findPartnerByUserId uid w') = Some AVAILABLE" by blast
  from Inr have "\<exists>d usr. findPartnerByUserId uid w = Some d \<and> d_isVerified d \<and> d_status d \<noteq> SUSPENDED \<and>
      lookup u_id (d_userId d) (w_users w) = Some usr \<and> u_status usr = USER_ACTIVE"
    by (simp only: online_eligible_iff)
  then show ?thesis using w' by (simp only: Let_def) simp
qed

text \<open>
  A suspension does not hold: a suspended partner whose account is active and verified can
  lift it without any admin by going offline and then available again, because going offline
  overwrites the SUSPENDED status unconditionally.
\<close>
theorem suspension_bypass:
  assumes "findPartnerByUserId uid w = Some d" and "d_status d = SUSPENDED" and "d_isVerified d"
    and "lookup u_id uid (w_users w) = Some usr" and "u_status usr = USER_ACTIVE"
  shows "\<exists>w1 w2. goAvailable uid loc w = (Inl (Forbidden ''suspended''), w) \<and>
    goOffline uid w = (Inr (), w1) \<and> goAvailable uid loc w1 = (Inr (), w2) \<and>
    map_option d_status (findPartnerByUserId uid w2) = Some AVAILABLE"
proof -
  have uid: "d_userId d = uid" using assms(1) by (auto simp: findPartnerByUserId_def dest: lookup_key)
  have refused: "goAvailable uid loc w = (Inl (Forbidden ''suspended''), w)"
    using assms by (simp add: goAvailable_def assertOnlineEligible_def)
  obtain v where v: "updatePartnerStatus uid OFFLINE None w = (Inr (), v)"
    using assms(1) by (simp add: updatePartnerStatus_def)
  let ?w1 = "markOffline uid v"
  have off: "goOffline uid w = (Inr (), ?w1)" by (simp add: goOffline_def v)
  have p1: "findPartnerByUserId uid ?w1 = Some (d\<lparr>d_status := OFFLINE\<rparr>)"
    using partner_after_update[OF v assms(1)] by (simp add: findPartnerByUserId_def markOffline_def setLocation_def)
  have "lookup u_id uid (w_users ?w1) = Some usr"
    using assms(4) v by (auto simp: updatePartnerStatus_ok markOffline_def)
  then have "assertOnlineEligible uid ?w1 = Inr ()"
    using p1 assms(3,5) uid by (simp add: assertOnlineEligible_def)
  then show ?thesis
    using goAvailable_granted[of uid ?w1 "()" loc] refused off by blast
qed

lemma suspension_bypass_witness:
  "\<exists>w1 w2. goAvailable ''u2'' None (partnerWorld SUSPENDED) = (Inl (Forbidden ''suspended''), partnerWorld SUSPENDED) \<and>
    goOffline ''u2'' (partnerWorld SUSPENDED) = (Inr (), w1) \<and> goAvailable ''u2'' None w1 = (Inr (), w2) \<and>
    map_option d_status (findPartnerByUserId ''u2'' w2) = Some AVAILABLE"
  by (rule suspension_bypass) (auto simp: findPartnerByUserId_def partnerWorld_def samplePartner_def)

text \<open>
  A release after a finished order never revives a partner who left: it moves exactly the
  partners of that user that are ON_DELIVERY to AVAILABLE, keeps every other status (OFFLINE,
  SUSPENDED) as it is, and leaves no PENDING or ACCEPTED assignment of the order.
\<close>
theorem release_closes_delivery:
  "let w' = releasePartnerFromDelivery uid (Some oid) w
   in map_option d_status (findPartnerByUserId uid w') =
        map_option (\<lambda>d. if d_status d = ON_DELIVERY then AVAILABLE else d_status d) (findPartnerByUserId uid w) \<and>
      filter (\<lambda>a. a_orderId a = oid \<and> a_status a \<in> {ASG_PENDING, ASG_ACCEPTED}) (w_assignments w') = [] \<and>
      filter (\<lambda>a. a_orderId a \<noteq> oid) (w_assignments w') = filter (\<lambda>a. a_orderId a \<noteq> oid) (w_assignments w)"
proof -
  have others: "filter (\<lambda>a. a_orderId a \<noteq> oid)
      (modify (\<lambda>a. a_orderId a = oid \<and> a_status a \<in> S) (\<lambda>a. a\<lparr>a_status := ASG_COMPLETED\<rparr>) rows)
      = filter (\<lambda>a. a_orderId a \<noteq> oid) rows" for S rows
    by (induction rows) auto
  have closed: "filter (\<lambda>a. a_orderId a = oid \<and> a_status a \<in> {ASG_PENDING, ASG_ACCEPTED})
      (modify (\<lambda>a. a_orderId a = oid \<and> a_status a \<in> {ASG_PENDING, ASG_ACCEPTED})
        (\<lambda>a. a\<lparr>a_status := ASG_COMPLETED\<rparr>) rows) = []" for rows
    by (induction rows) auto
  show ?thesis
    unfolding Let_def release_partner release_assignments others closed
    by (cases "findPartnerByUserId uid w") auto
qed

text \<open>
  Suspend and restore are exactly-once: of any number of racing suspensions of one partner
  who is not suspended, exactly one reports success, and after it the partner is SUSPENDED.
\<close>
theorem suspend_single_winner:
  assumes "partnersKeyed w" and "partnerStatusCell w did = Some st" and "st \<noteq> SUSPENDED" and "cs \<noteq> []"
    and "\<forall>c \<in> set cs. c = (did, NON_SUSPENDED_PARTNER_STATUSES, SUSPENDED)"
  shows "winners claimPartnerStatus cs w = 1"
  using assms partnerCas.single_winner[of w SUSPENDED NON_SUSPENDED_PARTNER_STATUSES cs did]
  by (cases st) (auto simp: NON_SUSPENDED_PARTNER_STATUSES_def)

lemma suspend_single_winner_witness:
  "winners claimPartnerStatus (replicate 2 (''d1'', NON_SUSPENDED_PARTNER_STATUSES, SUSPENDED)) (partnerWorld AVAILABLE) = 1"
  by (rule suspend_single_winner[where st = AVAILABLE])
    (auto simp: partnersKeyed_def partnerStatusCell_def partnerWorld_def samplePartner_def keyed_def)

end
