(* ===== verification/Orders.thy ===== *)
theory Orders
  imports Access Coupons Payments Delivery
begin

text \<open>
  The order life cycle: \<^verbatim>\<open>OrdersService\<close> (everything after placement) over
  \<^verbatim>\<open>OrdersRepository\<close>.  The single transition path \<open>updateOrderStatus\<close> with its guards in the
  code's order, the acceptance timeout, payment marks, the COD switch, reassignment, the admin
  overrides, and cancellation with its refund.

  \<open>now\<close> is the clock; \<open>env\<close> is what other transactions commit between a handler's read and its
  write; \<^verbatim>\<open>refundCtx\<close> bundles what a refund gets from the payment provider.
\<close>

section \<open>Transition table and role lists\<close>

fun ORDER_STATUS_TRANSITIONS :: "orderStatus \<Rightarrow> orderStatus list" where
  "ORDER_STATUS_TRANSITIONS PENDING = [CONFIRMED, CANCELLED]"
| "ORDER_STATUS_TRANSITIONS CONFIRMED = [PREPARING, CANCELLED]"
| "ORDER_STATUS_TRANSITIONS PREPARING = [READY_FOR_PICKUP]"
| "ORDER_STATUS_TRANSITIONS READY_FOR_PICKUP = [OUT_FOR_DELIVERY]"
| "ORDER_STATUS_TRANSITIONS OUT_FOR_DELIVERY = [DELIVERED]"
| "ORDER_STATUS_TRANSITIONS DELIVERED = []"
| "ORDER_STATUS_TRANSITIONS CANCELLED = []"

definition TERMINAL_ORDER_STATUSES :: "orderStatus list" where
  "TERMINAL_ORDER_STATUSES = [DELIVERED, CANCELLED]"

definition RESTAURANT_ONLY_STATUSES :: "orderStatus list" where
  "RESTAURANT_ONLY_STATUSES = [CONFIRMED, PREPARING, READY_FOR_PICKUP]"

definition DELIVERY_PARTNER_ONLY_STATUSES :: "orderStatus list" where
  "DELIVERY_PARTNER_ONLY_STATUSES = [OUT_FOR_DELIVERY, DELIVERED]"

fun REQUIRED_PROOF_TYPE_FOR_STATUS :: "orderStatus \<Rightarrow> proofType option" where
  "REQUIRED_PROOF_TYPE_FOR_STATUS OUT_FOR_DELIVERY = Some PICKUP"
| "REQUIRED_PROOF_TYPE_FOR_STATUS DELIVERED = Some DELIVERY"
| "REQUIRED_PROOF_TYPE_FOR_STATUS _ = None"

fun REQUIRED_PHOTO_TYPE_FOR_STATUS :: "orderStatus \<Rightarrow> proofType option" where
  "REQUIRED_PHOTO_TYPE_FOR_STATUS OUT_FOR_DELIVERY = Some PICKUP"
| "REQUIRED_PHOTO_TYPE_FOR_STATUS _ = None"

definition RESTAURANT_STAFF_ROLES :: "userRole list" where
  "RESTAURANT_STAFF_ROLES = [RESTAURANT_OWNER, RESTAURANT_MANAGER]"

definition ADMIN_ROLES :: "userRole list" where
  "ADMIN_ROLES = [ADMIN, SUPER_ADMIN]"

section \<open>Repository\<close>

definition findOrderById :: "string \<Rightarrow> world \<Rightarrow> order option" where
  "findOrderById oid w = lookup o_id oid (w_orders w)"

definition findOrderByIdempotencyKey :: "string \<Rightarrow> string \<Rightarrow> world \<Rightarrow> order option" where
  "findOrderByIdempotencyKey customerId key w =
     List.find (\<lambda>ord. o_customerId ord = customerId \<and> o_idempotencyKey ord = Some key) (w_orders w)"

definition updateOrderRow :: "string \<Rightarrow> (order \<Rightarrow> order) \<Rightarrow> world \<Rightarrow> world" where
  "updateOrderRow oid f w = w\<lparr>w_orders := modify (\<lambda>ord. o_id ord = oid) f (w_orders w)\<rparr>"

definition updateOrderStatusRow :: "int \<Rightarrow> string \<Rightarrow> orderStatus \<Rightarrow> world \<Rightarrow> world" where
  "updateOrderStatusRow now oid st = updateOrderRow oid (\<lambda>ord. ord\<lparr>o_status := st,
     o_deliveredAt := (if st = DELIVERED then Some now else o_deliveredAt ord)\<rparr>)"

definition markDelivered :: "int \<Rightarrow> string \<Rightarrow> world \<Rightarrow> world" where
  "markDelivered now oid = updateOrderRow oid (\<lambda>ord. ord\<lparr>o_status := DELIVERED, o_deliveredAt := Some now\<rparr>)"

definition claimOrderStatus :: "string \<Rightarrow> orderStatus list \<Rightarrow> orderStatus \<Rightarrow> world \<Rightarrow> nat \<times> world" where
  "claimOrderStatus oid from st w =
     (let p = (\<lambda>ord. o_id ord = oid \<and> o_status ord \<in> set from)
      in (matches p (w_orders w), w\<lparr>w_orders := modify p (\<lambda>ord. ord\<lparr>o_status := st\<rparr>) (w_orders w)\<rparr>))"

definition transitionIfPending :: "string \<Rightarrow> orderStatus \<Rightarrow> world \<Rightarrow> order option \<times> world" where
  "transitionIfPending oid st w =
     (let (count, w1) = claimOrderStatus oid [PENDING] st w
      in (if count = 0 then None else findOrderById oid w1, w1))"

definition switchPaymentModeIfEligible :: "string \<Rightarrow> paymentMode \<Rightarrow> world \<Rightarrow> order option \<times> world" where
  "switchPaymentModeIfEligible oid pm w =
     (let p = (\<lambda>ord. o_id ord = oid \<and> o_status ord = PENDING \<and> o_paymentStatus ord \<noteq> PAID);
          w1 = w\<lparr>w_orders := modify p (\<lambda>ord. ord\<lparr>o_paymentMode := pm\<rparr>) (w_orders w)\<rparr>
      in (if matches p (w_orders w) = 0 then None else findOrderById oid w1, w1))"

definition createStatusHistory ::
  "int \<Rightarrow> string \<Rightarrow> orderStatus \<Rightarrow> string option \<Rightarrow> string option \<Rightarrow> world \<Rightarrow> world" where
  "createStatusHistory now oid st note changedBy w =
     w\<lparr>w_history := w_history w @ [\<lparr>h_orderId = oid, h_status = st, h_note = note,
         h_changedById = changedBy, h_createdAt = now\<rparr>]\<rparr>"

definition assignDeliveryPartnerRow :: "string \<Rightarrow> string \<Rightarrow> world \<Rightarrow> world" where
  "assignDeliveryPartnerRow oid uid = updateOrderRow oid (\<lambda>ord. ord\<lparr>o_deliveryPartnerId := Some uid\<rparr>)"

definition getOrderTimelineRows :: "string \<Rightarrow> world \<Rightarrow> statusHistory list" where
  "getOrderTimelineRows oid w = filter (\<lambda>h. h_orderId h = oid) (w_history w)"

definition findStatusHistoryEntry :: "string \<Rightarrow> orderStatus \<Rightarrow> world \<Rightarrow> statusHistory option" where
  "findStatusHistoryEntry oid st w =
     List.find (\<lambda>h. h_orderId h = oid \<and> h_status h = st) (w_history w)"

definition claimPaymentStatusTransition ::
  "string \<Rightarrow> paymentStatus list \<Rightarrow> paymentStatus \<Rightarrow> world \<Rightarrow> nat \<times> world" where
  "claimPaymentStatusTransition oid allowedFrom nxt w =
     (let p = (\<lambda>ord. o_id ord = oid \<and> o_paymentStatus ord \<in> set allowedFrom)
      in (matches p (w_orders w),
          w\<lparr>w_orders := modify p (\<lambda>ord. ord\<lparr>o_paymentStatus := nxt\<rparr>) (w_orders w)\<rparr>))"

definition ACTIVE_ORDER_STATUSES :: "orderStatus list" where
  "ACTIVE_ORDER_STATUSES = [PENDING, CONFIRMED, PREPARING, READY_FOR_PICKUP, OUT_FOR_DELIVERY]"

definition countPlacedToday :: "int \<Rightarrow> world \<Rightarrow> nat" where
  "countPlacedToday startOfToday w = matches (\<lambda>ord. o_placedAt ord \<ge> startOfToday) (w_orders w)"

definition countActive :: "world \<Rightarrow> nat" where
  "countActive w = matches (\<lambda>ord. o_status ord \<in> set ACTIVE_ORDER_STATUSES) (w_orders w)"

definition countDeliveredToday :: "int \<Rightarrow> world \<Rightarrow> nat" where
  "countDeliveredToday startOfToday w =
     matches (\<lambda>ord. o_status ord = DELIVERED \<and>
        (case o_deliveredAt ord of None \<Rightarrow> False | Some t \<Rightarrow> t \<ge> startOfToday)) (w_orders w)"

text \<open>The order's own branch, or else the restaurant's first primary active branch; no location
  when either coordinate is missing.\<close>

definition findPickupLocation :: "string \<Rightarrow> world \<Rightarrow> (rat \<times> rat) option" where
  "findPickupLocation oid w =
     (case findOrderById oid w of
        None \<Rightarrow> None
      | Some ord \<Rightarrow>
          (let own = (case o_branchId ord of None \<Rightarrow> None | Some b \<Rightarrow> lookup b_id b (w_branches w));
               primary = List.find (\<lambda>b. b_restaurantId b = o_restaurantId ord \<and> b_isPrimary b \<and> b_isActive b)
                           (w_branches w);
               chosen = (case own of Some b \<Rightarrow> Some b | None \<Rightarrow> primary)
           in case chosen of
                None \<Rightarrow> None
              | Some b \<Rightarrow> (case (b_latitude b, b_longitude b) of
                    (Some lat, Some lng) \<Rightarrow> Some (lat, lng)
                  | _ \<Rightarrow> None)))"

section \<open>Guards\<close>

definition assertOrderAccess :: "world \<Rightarrow> order \<Rightarrow> authUser \<Rightarrow> unit result" where
  "assertOrderAccess w ord u = guard (canAccessOrder w ord u) (Forbidden ''order access'')"

definition assertRestaurantAccess :: "world \<Rightarrow> string \<Rightarrow> authUser \<Rightarrow> unit result" where
  "assertRestaurantAccess w rid u = guard (canAccessRestaurant w rid u) (Forbidden ''restaurant access'')"

definition assertActorAllowedForStatus :: "orderStatus \<Rightarrow> authUser \<Rightarrow> unit result" where
  "assertActorAllowedForStatus st u =
     (if st \<in> set RESTAURANT_ONLY_STATUSES
      then (if role u \<notin> set RESTAURANT_STAFF_ROLES \<and> role u \<notin> set ADMIN_ROLES
            then Inl (Forbidden ''restaurant staff only'') else Inr ())
      else if st \<in> set DELIVERY_PARTNER_ONLY_STATUSES
      then (if role u \<noteq> DELIVERY_PARTNER \<and> role u \<notin> set ADMIN_ROLES
            then Inl (Forbidden ''delivery partner only'') else Inr ())
      else Inr ())"

definition assertPaymentEligibleForAcceptance :: "order \<Rightarrow> orderStatus \<Rightarrow> unit result" where
  "assertPaymentEligibleForAcceptance ord st =
     (if st \<noteq> CONFIRMED then Inr ()
      else if o_paymentMode ord = COD then Inr ()
      else if o_paymentStatus ord \<noteq> PAID then Inl (Conflict ''payment not completed'')
      else Inr ())"

definition assertProofVerifiedForStatus :: "world \<Rightarrow> string \<Rightarrow> orderStatus \<Rightarrow> authUser \<Rightarrow> unit result" where
  "assertProofVerifiedForStatus w oid st u =
     (if role u \<noteq> DELIVERY_PARTNER then Inr ()
      else case REQUIRED_PROOF_TYPE_FOR_STATUS st of
        None \<Rightarrow> Inr ()
      | Some ty \<Rightarrow>
          (case lookup otpKey (oid, ty) (w_otps w) of
             None \<Rightarrow> Inl (Forbidden ''OTP required'')
           | Some v \<Rightarrow> if v_status v \<noteq> OTP_VERIFIED then Inl (Forbidden ''OTP required'') else Inr ()))"

definition assertPhotoVerifiedForStatus :: "world \<Rightarrow> string \<Rightarrow> orderStatus \<Rightarrow> authUser \<Rightarrow> unit result" where
  "assertPhotoVerifiedForStatus w oid st u =
     (if role u \<noteq> DELIVERY_PARTNER then Inr ()
      else case REQUIRED_PHOTO_TYPE_FOR_STATUS st of
        None \<Rightarrow> Inr ()
      | Some ty \<Rightarrow>
          (if lookup photoKey (oid, ty) (w_photos w) = None then Inl (Forbidden ''photo required'') else Inr ()))"

definition getOrderOwnership :: "string \<Rightarrow> world \<Rightarrow> order result" where
  "getOrderOwnership oid w =
     (case findOrderById oid w of None \<Rightarrow> Inl (NotFound ''Order'') | Some ord \<Rightarrow> Inr ord)"

definition assertOrderAccessById :: "string \<Rightarrow> authUser \<Rightarrow> world \<Rightarrow> order result" where
  "assertOrderAccessById oid u w =
     andThen (getOrderOwnership oid w) (\<lambda>ord. andThen (assertOrderAccess w ord u) (\<lambda>_. Inr ord))"

definition getOrderTimeline :: "string \<Rightarrow> authUser \<Rightarrow> world \<Rightarrow> statusHistory list result" where
  "getOrderTimeline oid u w =
     andThen (assertOrderAccessById oid u w) (\<lambda>_. Inr (getOrderTimelineRows oid w))"

section \<open>Refund\<close>

record refundCtx =
  rx_uuid :: string
  rx_env :: "world \<Rightarrow> world"
  rx_provRefund :: "string result"
  rx_fetched :: "providerPayment result"

text \<open>The body of the \<^verbatim>\<open>try\<close> block: split the amount over the two payment legs, refund the provider
  leg, announce the wallet leg, release the coupon.\<close>

definition refundRatio :: "order \<Rightarrow> rat \<Rightarrow> rat" where
  "refundRatio ord requested = (if o_total ord > 0 then requested / o_total ord else 0)"

definition walletPortion :: "order \<Rightarrow> rat \<Rightarrow> rat" where
  "walletPortion ord requested = round2 (o_walletUsed ord * refundRatio ord requested)"

definition razorpayPortion :: "order \<Rightarrow> rat \<Rightarrow> rat" where
  "razorpayPortion ord requested = round2 ((o_total ord - o_walletUsed ord) * refundRatio ord requested)"

definition refundProviderLeg ::
  "refundCtx \<Rightarrow> order \<Rightarrow> rat \<Rightarrow> string \<Rightarrow> world \<Rightarrow> (world, unit) outcome" where
  "refundProviderLeg rx ord amount actor w =
     (if amount > 0
      then case findActivePaymentForOrder (o_id ord) w of
             None \<Rightarrow> (Inl (BadRequest ''no successful payment to refund''), w)
           | Some p \<Rightarrow>
               if p_status p \<noteq> TX_SUCCESS then (Inl (BadRequest ''no successful payment to refund''), w)
               else (case refundPayment (rx_uuid rx) (rx_env rx) (rx_provRefund rx) (rx_fetched rx)
                            (p_id p) amount (Some actor) w of
                       (Inl e, w1) \<Rightarrow> (Inl e, w1)
                     | (Inr _, w1) \<Rightarrow> (Inr (), w1))
      else (Inr (), w))"

definition refundBody ::
  "refundCtx \<Rightarrow> order \<Rightarrow> rat option \<Rightarrow> string \<Rightarrow> world \<Rightarrow> (world, unit) outcome" where
  "refundBody rx ord amount actor w =
     (let requested = orElse amount (o_total ord)
      in if requested > o_total ord + AMOUNT_TOLERANCE
         then (Inl (BadRequest ''Refund amount cannot exceed the order total''), w)
         else
           (let wp = walletPortion ord requested; rp = razorpayPortion ord requested
            in case refundProviderLeg rx ord rp actor w of
                 (Inl e, w1) \<Rightarrow> (Inl e, w1)
               | (Inr _, w1) \<Rightarrow>
                   (let w2 = (if wp > 0
                              then publish (OrderRefunded (o_id ord) (o_customerId ord) (o_restaurantId ord) wp) w1
                              else w1)
                    in case releaseForOrder (o_id ord) w2 of
                         (Inl e, w3) \<Rightarrow> (Inl e, w3)
                       | (Inr _, w3) \<Rightarrow>
                           (Inr (), auditLog (Some actor) ''Order'' (o_id ord) ''STATUS_CHANGE''
                              (publish (OrderRefundCompleted (o_id ord) (o_customerId ord) (o_restaurantId ord)
                                          (round2 (wp + rp))) w3)))))"

definition refundOrder ::
  "refundCtx \<Rightarrow> string \<Rightarrow> rat option \<Rightarrow> string \<Rightarrow> world \<Rightarrow> (world, order) outcome" where
  "refundOrder rx oid amount actor w =
     (case findOrderById oid w of
        None \<Rightarrow> (Inl (NotFound ''Order''), w)
      | Some ord \<Rightarrow>
          (let (count, w1) = claimPaymentStatusTransition oid [PAID] PAY_REFUNDED w
           in if count = 0 then (Inl (Conflict ''already refunded or no paid balance''), w1)
              else case refundBody rx ord amount actor w1 of
                     (Inr _, w2) \<Rightarrow>
                       (case findOrderById oid w2 of
                          None \<Rightarrow> (Inl (NotFound ''Order''), w2)
                        | Some ord' \<Rightarrow> (Inr ord', w2))
                   | (Inl e, w2) \<Rightarrow>
                       (Inl e, snd (claimPaymentStatusTransition oid [PAY_REFUNDED] PAID w2))))"

text \<open>Coupon release is unconditional, the refund depends on the pre-cancellation snapshot; every
  failure of either is logged and swallowed.\<close>

definition handleCancellationSideEffects ::
  "refundCtx \<Rightarrow> order \<Rightarrow> string \<Rightarrow> world \<Rightarrow> world" where
  "handleCancellationSideEffects rx ord actor w =
     (case findOrderById (o_id ord) w of
        None \<Rightarrow> w
      | Some cur \<Rightarrow>
          if o_status cur \<noteq> CANCELLED then w
          else
            (let w1 = snd (releaseForOrder (o_id ord) w)
             in if o_paymentStatus ord \<noteq> PAID then w1
                else snd (refundOrder rx (o_id ord) None actor w1)))"

section \<open>Status transitions\<close>

definition orderStatusEvent :: "order \<Rightarrow> rat option \<Rightarrow> event" where
  "orderStatusEvent ord amount =
     OrderStatusChanged (o_id ord) (o_customerId ord) (o_status ord) (o_restaurantId ord) amount"

text \<open>\<^verbatim>\<open>RestaurantsService.recordOrderTiming\<close> receives the rounded minutes.\<close>

definition recordDeliveryTiming :: "int \<Rightarrow> order \<Rightarrow> world \<Rightarrow> world" where
  "recordDeliveryTiming placedAt ord w =
     (case o_deliveredAt ord of
        None \<Rightarrow> w
      | Some t \<Rightarrow>
          (let deliveryMinutes = mathRound (of_int (t - placedAt) / 60000);
               prepMinutes = map_option (\<lambda>h. mathRound (of_int (h_createdAt h - placedAt) / 60000))
                 (findStatusHistoryEntry (o_id ord) READY_FOR_PICKUP w)
           in w\<lparr>w_timings := w_timings w @ [(o_restaurantId ord, prepMinutes, deliveryMinutes)]\<rparr>))"

definition updateGuards :: "string \<Rightarrow> orderStatus \<Rightarrow> authUser \<Rightarrow> world \<Rightarrow> order result" where
  "updateGuards oid st u w =
     andThen (getOrderOwnership oid w) (\<lambda>ord.
     andThen (assertOrderAccess w ord u) (\<lambda>_.
     andThen (guard (st \<in> set (ORDER_STATUS_TRANSITIONS (o_status ord))) (BadRequest ''invalid transition'')) (\<lambda>_.
     andThen (assertActorAllowedForStatus st u) (\<lambda>_.
     andThen (assertPaymentEligibleForAcceptance ord st) (\<lambda>_.
     andThen (assertProofVerifiedForStatus w oid st u) (\<lambda>_.
     andThen (assertPhotoVerifiedForStatus w oid st u) (\<lambda>_. Inr ord)))))))"

definition afterStatusWrite ::
  "int \<Rightarrow> refundCtx \<Rightarrow> order \<Rightarrow> order \<Rightarrow> orderStatus \<Rightarrow> string option \<Rightarrow> authUser \<Rightarrow> world \<Rightarrow> world" where
  "afterStatusWrite now rx ord upd st reason u w =
     (let w1 = publish (orderStatusEvent upd (Some (o_total upd)))
                 (createStatusHistory now (o_id ord) st reason (Some (userId u)) w)
      in if st = READY_FOR_PICKUP then publish (OrderReady (o_id upd) (o_restaurantId upd)) w1
         else if st = DELIVERED then
           (let w2 = recordDeliveryTiming (o_placedAt ord) upd w1
            in case o_deliveryPartnerId upd of
                 None \<Rightarrow> w2
               | Some p \<Rightarrow> releasePartnerFromDelivery p (Some (o_id upd)) w2)
         else if st = CANCELLED then handleCancellationSideEffects rx ord (userId u) w1
         else w1)"

definition updateOrderStatus ::
  "int \<Rightarrow> (world \<Rightarrow> world) \<Rightarrow> refundCtx \<Rightarrow> string \<Rightarrow> orderStatus \<Rightarrow> string option \<Rightarrow> authUser \<Rightarrow> world
     \<Rightarrow> (world, order) outcome" where
  "updateOrderStatus now env rx oid st reason u w =
     (case updateGuards oid st u w of
        Inl e \<Rightarrow> (Inl e, w)
      | Inr ord \<Rightarrow>
          (let w1 = updateOrderStatusRow now oid st (env w)
           in case findOrderById oid w1 of
                None \<Rightarrow> (Inl (RecordNotFound ''Order''), w1)
              | Some upd \<Rightarrow> (Inr upd, afterStatusWrite now rx ord upd st reason u w1)))"

text \<open>The auto-accept/auto-reject job.\<close>

definition handleAcceptanceTimeout :: "int \<Rightarrow> (world \<Rightarrow> world) \<Rightarrow> string \<Rightarrow> world \<Rightarrow> world" where
  "handleAcceptanceTimeout now env oid w =
     (case findOrderById oid w of
        None \<Rightarrow> w
      | Some ord \<Rightarrow>
          if o_status ord \<noteq> PENDING then w
          else
            (let nextStatus = (if st_autoAcceptOrders (getRestaurantOrderSettings w (o_restaurantId ord))
                               then CONFIRMED else CANCELLED);
                 (updated, w1) = transitionIfPending oid nextStatus (env w)
             in case updated of
                  None \<Rightarrow> w1
                | Some upd \<Rightarrow>
                    publish (orderStatusEvent upd (Some (o_total upd)))
                      (auditLog None ''Order'' oid ''STATUS_CHANGE''
                        (createStatusHistory now oid nextStatus (Some ''acceptance timeout elapsed'') None w1))))"

definition markOrderPaid :: "int \<Rightarrow> (world \<Rightarrow> world) \<Rightarrow> string \<Rightarrow> world \<Rightarrow> world" where
  "markOrderPaid now env oid w =
     (case findOrderById oid w of
        None \<Rightarrow> w
      | Some ord \<Rightarrow>
          if o_paymentStatus ord = PAID then w
          else
            (let (count, w1) = claimPaymentStatusTransition oid [PAY_PENDING, PAY_FAILED, PAY_REFUNDED] PAID (env w)
             in if count = 0 then w1
                else if o_status ord = PENDING
                then (let w2 = updateOrderStatusRow now oid CONFIRMED w1
                      in case findOrderById oid w2 of
                           None \<Rightarrow> w2
                         | Some upd \<Rightarrow> publish (orderStatusEvent upd None)
                             (createStatusHistory now oid CONFIRMED None None w2))
                else w1))"

definition markOrderPaymentFailed :: "(world \<Rightarrow> world) \<Rightarrow> string \<Rightarrow> world \<Rightarrow> world" where
  "markOrderPaymentFailed env oid w =
     (case findOrderById oid w of
        None \<Rightarrow> w
      | Some ord \<Rightarrow>
          if o_paymentStatus ord = PAID then w
          else snd (claimPaymentStatusTransition oid [PAY_PENDING, PAY_FAILED, PAY_REFUNDED] PAY_FAILED (env w)))"

definition switchToCod :: "(world \<Rightarrow> world) \<Rightarrow> string \<Rightarrow> authUser \<Rightarrow> world \<Rightarrow> (world, order) outcome" where
  "switchToCod env oid u w =
     (case findOrderById oid w of
        None \<Rightarrow> (Inl (NotFound ''Order''), w)
      | Some ord \<Rightarrow>
          if o_customerId ord \<noteq> userId u \<and> role u \<noteq> ADMIN \<and> role u \<noteq> SUPER_ADMIN
            then (Inl (Forbidden ''order access''), w)
          else if o_paymentMode ord = COD then (Inr ord, w)
          else if o_paymentStatus ord = PAID then (Inl (Conflict ''already paid online''), w)
          else if o_status ord \<noteq> PENDING then (Inl (Conflict ''no longer awaiting acceptance''), w)
          else
            (let (updated, w1) = switchPaymentModeIfEligible oid COD (env w)
             in case updated of
                  None \<Rightarrow> (Inl (Conflict ''already paid online''), w1)
                | Some upd \<Rightarrow> (Inr upd, w1)))"

section \<open>Admin operations\<close>

definition assignDeliveryPartner :: "string \<Rightarrow> string \<Rightarrow> world \<Rightarrow> (world, unit) outcome" where
  "assignDeliveryPartner oid uid w =
     (case findOrderById oid w of
        None \<Rightarrow> (Inl (NotFound ''Order''), w)
      | Some ord \<Rightarrow>
          if o_status ord \<in> set TERMINAL_ORDER_STATUSES then (Inl (BadRequest ''cannot be reassigned''), w)
          else if findPartnerByUserId uid w = None then (Inl (NotFound ''Delivery partner''), w)
          else (Inr (), assignDeliveryPartnerRow oid uid w))"

definition adminCancelOrder ::
  "int \<Rightarrow> (world \<Rightarrow> world) \<Rightarrow> refundCtx \<Rightarrow> string \<Rightarrow> string option \<Rightarrow> string \<Rightarrow> world \<Rightarrow> (world, order) outcome" where
  "adminCancelOrder now env rx oid reason actor w =
     (case findOrderById oid w of
        None \<Rightarrow> (Inl (NotFound ''Order''), w)
      | Some ord \<Rightarrow>
          if o_status ord \<in> set TERMINAL_ORDER_STATUSES then (Inl (BadRequest ''cannot be cancelled''), w)
          else
            (let w1 = updateOrderStatusRow now oid CANCELLED (env w)
             in case findOrderById oid w1 of
                  None \<Rightarrow> (Inl (RecordNotFound ''Order''), w1)
                | Some upd \<Rightarrow>
                    (let w2 = createStatusHistory now oid CANCELLED reason None w1;
                         w3 = (case o_deliveryPartnerId ord of
                                 None \<Rightarrow> w2
                               | Some p \<Rightarrow> releasePartnerFromDelivery p (Some oid) w2)
                     in (Inr upd, handleCancellationSideEffects rx ord actor w3))))"

definition forceCompleteOrder ::
  "int \<Rightarrow> (world \<Rightarrow> world) \<Rightarrow> string \<Rightarrow> string option \<Rightarrow> world \<Rightarrow> (world, order) outcome" where
  "forceCompleteOrder now env oid reason w =
     (case findOrderById oid w of
        None \<Rightarrow> (Inl (NotFound ''Order''), w)
      | Some ord \<Rightarrow>
          if o_status ord \<in> set TERMINAL_ORDER_STATUSES
            then (Inl (BadRequest ''cannot be force completed''), w)
          else
            (let w1 = markDelivered now oid (env w)
             in case findOrderById oid w1 of
                  None \<Rightarrow> (Inl (RecordNotFound ''Order''), w1)
                | Some upd \<Rightarrow>
                    (let w2 = createStatusHistory now oid DELIVERED reason None w1
                     in (Inr upd, case o_deliveryPartnerId ord of
                           None \<Rightarrow> w2
                         | Some p \<Rightarrow> releasePartnerFromDelivery p (Some oid) w2))))"

end
