(* ===== verification/OrderLifecycle.thy ===== *)
theory OrderLifecycle
  imports Orders
begin

text \<open>
  Correctness of the order life cycle: the transition graph, what each operation of
  \<^verbatim>\<open>OrdersService\<close> does to an order's status, and the guards of the transition path.
\<close>

section \<open>The graph and the claims as instances of the contracts\<close>

fun orderRank :: "orderStatus \<Rightarrow> nat" where
  "orderRank PENDING = 0"
| "orderRank CONFIRMED = 1"
| "orderRank PREPARING = 2"
| "orderRank READY_FOR_PICKUP = 3"
| "orderRank OUT_FOR_DELIVERY = 4"
| "orderRank DELIVERED = 5"
| "orderRank CANCELLED = 5"

interpretation orderGraph: ranked_graph ORDER_STATUS_TRANSITIONS orderRank
proof
  fix s t assume "t \<in> set (ORDER_STATUS_TRANSITIONS s)"
  then show "orderRank s < orderRank t" by (cases s) auto
qed

definition ordersKeyed :: "world \<Rightarrow> bool" where
  "ordersKeyed w \<longleftrightarrow> keyed o_id (w_orders w)"

definition orderStatusCell :: "world \<Rightarrow> string \<Rightarrow> orderStatus option" where
  "orderStatusCell w oid = map_option o_status (lookup o_id oid (w_orders w))"

definition orderPayCell :: "world \<Rightarrow> string \<Rightarrow> paymentStatus option" where
  "orderPayCell w oid = map_option o_paymentStatus (lookup o_id oid (w_orders w))"

interpretation orderStatusCas: cas_cell ordersKeyed orderStatusCell claimOrderStatus
  unfolding ordersKeyed_def[abs_def] orderStatusCell_def[abs_def]
  by (rule cas_cell_table[where upd = "\<lambda>t ord. ord\<lparr>o_status := t\<rparr>" and put = "\<lambda>x. w_orders_update (\<lambda>_. x)"])
    (simp_all add: claimOrderStatus_def Let_def)

interpretation orderPayCas: cas_cell ordersKeyed orderPayCell claimPaymentStatusTransition
  unfolding ordersKeyed_def[abs_def] orderPayCell_def[abs_def]
  by (rule cas_cell_table[where upd = "\<lambda>t ord. ord\<lparr>o_paymentStatus := t\<rparr>" and put = "\<lambda>x. w_orders_update (\<lambda>_. x)"])
    (simp_all add: claimPaymentStatusTransition_def Let_def)

section \<open>What an operation does to the order table\<close>

text \<open>\<open>sameOrders\<close>: the order tables agree up to payment status and mode, assigned rider, coupon and
  delivery time, that is on ids and statuses.\<close>

definition orderStatuses :: "world \<Rightarrow> (string \<times> orderStatus) list" where
  "orderStatuses w = map (\<lambda>ord. (o_id ord, o_status ord)) (w_orders w)"

lemma orderStatusCell_statuses: "orderStatusCell w oid = map_of (orderStatuses w) oid"
proof -
  have "map_option o_status (lookup o_id oid rows) = map_of (map (\<lambda>ord. (o_id ord, o_status ord)) rows) oid" for rows
    by (induction rows) auto
  then show ?thesis by (simp add: orderStatusCell_def orderStatuses_def)
qed

lemma statuses_modify:
  "(\<And>ord. o_id (f ord) = o_id ord) \<Longrightarrow> (\<And>ord. o_status (f ord) = o_status ord) \<Longrightarrow>
     map (\<lambda>ord. (o_id ord, o_status ord)) (modify p f rows) = map (\<lambda>ord. (o_id ord, o_status ord)) rows"
  by (induction rows) auto

lemma statuses_payclaim [simp]:
  "orderStatuses (snd (claimPaymentStatusTransition oid from st w)) = orderStatuses w"
  by (simp add: orderStatuses_def claimPaymentStatusTransition_def Let_def statuses_modify)

lemma orders_releaseRedemption [simp]: "w_orders (snd (releaseRedemption c r w)) = w_orders w"
  by (simp add: releaseRedemption_def)

lemma orders_releaseForOrder [simp]: "w_orders (snd (releaseForOrder oid w)) = w_orders w"
  using releaseForOrder_cases[of oid w] orders_releaseRedemption by (metis snd_conv)

lemma orders_history [simp]: "w_orders (createStatusHistory now oid st note by w) = w_orders w"
  by (simp add: createStatusHistory_def)

lemma orders_timing [simp]: "w_orders (recordDeliveryTiming t ord w) = w_orders w"
  by (simp add: recordDeliveryTiming_def Let_def split: option.split)

lemma orders_claimRefund [simp]: "w_orders (snd (claimRefund uuid pid amount w)) = w_orders w"
  by (simp add: claimRefund_def Let_def split: option.split)

lemma orders_finalize [simp]:
  "w_orders (snd (finalizeRefundSuccess pid rid prov w)) = w_orders w"
  "w_orders (snd (finalizeRefundFailure rid w)) = w_orders w"
  by (simp_all add: finalizeRefundSuccess_def finalizeRefundFailure_def Let_def)

text \<open>A refund environment that leaves the order table to this call.\<close>

definition orderQuiet :: "refundCtx \<Rightarrow> bool" where
  "orderQuiet rx \<longleftrightarrow> (\<forall>v. w_orders (rx_env rx v) = w_orders v)"

lemma orders_refundPayment:
  assumes "\<And>v. w_orders (env v) = w_orders v"
  shows "w_orders (snd (refundPayment uuid env pr f pid amount actor w)) = w_orders w"
proof -
  obtain c w1 where c: "claimRefund uuid pid amount w = (c, w1)" by (cases "claimRefund uuid pid amount w")
  then have "w_orders w1 = w_orders w" using orders_claimRefund[of uuid pid amount w] by simp
  then show ?thesis
    by (cases c) (simp_all add: refundPayment_def c Let_def assms split: option.split)
qed

lemma orders_refundLeg:
  assumes "orderQuiet rx"
  shows "w_orders (snd (refundProviderLeg rx ord amount actor w)) = w_orders w"
proof -
  have "w_orders w1 = w_orders w"
    if "refundPayment (rx_uuid rx) (rx_env rx) (rx_provRefund rx) (rx_fetched rx) pid amount act w = (r, w1)"
    for pid act r w1
    using orders_refundPayment[of "rx_env rx" "rx_uuid rx" "rx_provRefund rx" "rx_fetched rx" pid amount act w]
      that assms by (simp add: orderQuiet_def)
  then show ?thesis
    by (auto simp: refundProviderLeg_def split: option.split prod.split sum.split)
qed

lemma orders_refundBody:
  assumes "orderQuiet rx"
  shows "w_orders (snd (refundBody rx ord amount actor w)) = w_orders w"
proof -
  have "w_orders w1 = w_orders w" if "refundProviderLeg rx ord a actor w = (r, w1)" for a r w1
    using orders_refundLeg[OF assms, of ord a actor w] that by simp
  moreover have "w_orders v' = w_orders v" if "releaseForOrder i v = (r, v')" for i v r v'
    using orders_releaseForOrder[of i v] that by simp
  ultimately show ?thesis
    by (auto simp: refundBody_def Let_def split: option.split prod.split sum.split)
qed

lemma statuses_refundOrder:
  assumes "orderQuiet rx"
  shows "orderStatuses (snd (refundOrder rx oid amount actor w)) = orderStatuses w"
proof -
  have "orderStatuses w2 = orderStatuses w"
    if "claimPaymentStatusTransition oid [PAID] PAY_REFUNDED w = (n, w1)"
      and "refundBody rx ord amount actor w1 = (r, w2)" for ord n w1 r w2
    using statuses_payclaim[of oid "[PAID]" PAY_REFUNDED w] orders_refundBody[OF assms, of ord amount actor w1] that
    by (simp add: orderStatuses_def)
  moreover have "orderStatuses w1 = orderStatuses w"
    if "claimPaymentStatusTransition oid [PAID] PAY_REFUNDED w = (n, w1)" for n w1
    using statuses_payclaim[of oid "[PAID]" PAY_REFUNDED w] that by simp
  ultimately show ?thesis
    by (auto simp: refundOrder_def split: option.split prod.split sum.split)
qed

lemma statuses_sideEffects:
  assumes "orderQuiet rx"
  shows "orderStatuses (handleCancellationSideEffects rx ord actor w) = orderStatuses w"
proof -
  have "orderStatuses (snd (releaseForOrder i w)) = orderStatuses w" for i
    by (simp add: orderStatuses_def)
  then show ?thesis
    using statuses_refundOrder[OF assms]
    by (simp add: handleCancellationSideEffects_def Let_def split: option.split)
qed

lemma statuses_logs [simp]:
  "orderStatuses (publish e w) = orderStatuses w"
  "orderStatuses (auditLog a en i ac w) = orderStatuses w"
  "orderStatuses (createStatusHistory now oid st note by w) = orderStatuses w"
  "orderStatuses (releasePartnerFromDelivery p q w) = orderStatuses w"
  "orderStatuses (recordDeliveryTiming t ord w) = orderStatuses w"
  by (simp_all add: orderStatuses_def)

lemma statuses_after:
  assumes "orderQuiet rx"
  shows "orderStatuses (afterStatusWrite now rx ord upd st reason u w) = orderStatuses w"
  using statuses_sideEffects[OF assms]
  by (simp add: afterStatusWrite_def Let_def split: option.split)

section \<open>Effect of each write on one status\<close>

lemma cell_statusRow:
  "orderStatusCell (updateOrderStatusRow now oid st w) i =
     (if i = oid then map_option (\<lambda>_. st) (orderStatusCell w i) else orderStatusCell w i)"
  by (cases "lookup o_id i (w_orders w)")
    (auto simp: orderStatusCell_def updateOrderStatusRow_def updateOrderRow_def lookup_modify dest: lookup_key)

lemma cell_markDelivered:
  "orderStatusCell (markDelivered now oid w) i =
     (if i = oid then map_option (\<lambda>_. DELIVERED) (orderStatusCell w i) else orderStatusCell w i)"
  by (cases "lookup o_id i (w_orders w)")
    (auto simp: orderStatusCell_def markDelivered_def updateOrderRow_def lookup_modify dest: lookup_key)

lemma cell_by_statuses: "orderStatuses w = orderStatuses v \<Longrightarrow> orderStatusCell w i = orderStatusCell v i"
  by (simp add: orderStatusCell_statuses)

section \<open>Guards, characterised\<close>

lemma actor_allowed_iff:
  "assertActorAllowedForStatus st u = Inr x \<longleftrightarrow>
     (st \<in> {CONFIRMED, PREPARING, READY_FOR_PICKUP} \<longrightarrow>
        role u \<in> {RESTAURANT_OWNER, RESTAURANT_MANAGER, ADMIN, SUPER_ADMIN}) \<and>
     (st \<in> {OUT_FOR_DELIVERY, DELIVERED} \<longrightarrow> role u \<in> {DELIVERY_PARTNER, ADMIN, SUPER_ADMIN})"
  by (cases st) (auto simp: assertActorAllowedForStatus_def RESTAURANT_ONLY_STATUSES_def
      DELIVERY_PARTNER_ONLY_STATUSES_def RESTAURANT_STAFF_ROLES_def ADMIN_ROLES_def)

lemma payment_eligible_iff:
  "assertPaymentEligibleForAcceptance ord st = Inr x \<longleftrightarrow>
     (st = CONFIRMED \<longrightarrow> o_paymentMode ord = COD \<or> o_paymentStatus ord = PAID)"
  by (cases "o_paymentMode ord") (auto simp: assertPaymentEligibleForAcceptance_def)

definition otpVerified :: "world \<Rightarrow> string \<Rightarrow> proofType \<Rightarrow> bool" where
  "otpVerified w oid ty \<longleftrightarrow> (\<exists>v. lookup otpKey (oid, ty) (w_otps w) = Some v \<and> v_status v = OTP_VERIFIED)"

definition photoUploaded :: "world \<Rightarrow> string \<Rightarrow> proofType \<Rightarrow> bool" where
  "photoUploaded w oid ty \<longleftrightarrow> lookup photoKey (oid, ty) (w_photos w) \<noteq> None"

lemma proof_verified_iff:
  "assertProofVerifiedForStatus w oid st u = Inr x \<longleftrightarrow>
     (role u = DELIVERY_PARTNER \<longrightarrow>
        (st = OUT_FOR_DELIVERY \<longrightarrow> otpVerified w oid PICKUP) \<and> (st = DELIVERED \<longrightarrow> otpVerified w oid DELIVERY))"
  by (cases st) (auto simp: assertProofVerifiedForStatus_def otpVerified_def split: option.split)

lemma photo_verified_iff:
  "assertPhotoVerifiedForStatus w oid st u = Inr x \<longleftrightarrow>
     (role u = DELIVERY_PARTNER \<longrightarrow> st = OUT_FOR_DELIVERY \<longrightarrow> photoUploaded w oid PICKUP)"
  by (cases st) (auto simp: assertPhotoVerifiedForStatus_def photoUploaded_def)

lemma guards_iff:
  "updateGuards oid st u w = Inr ord \<longleftrightarrow>
     findOrderById oid w = Some ord \<and> canAccessOrder w ord u \<and>
     st \<in> set (ORDER_STATUS_TRANSITIONS (o_status ord)) \<and>
     assertActorAllowedForStatus st u = Inr () \<and> assertPaymentEligibleForAcceptance ord st = Inr () \<and>
     assertProofVerifiedForStatus w oid st u = Inr () \<and> assertPhotoVerifiedForStatus w oid st u = Inr ()"
  by (auto simp: updateGuards_def andThen_Inr_iff getOrderOwnership_def assertOrderAccess_def
      split: option.splits)

lemma found_after_statusRow:
  assumes "findOrderById oid w = Some ord"
  shows "findOrderById oid (updateOrderStatusRow now oid st w) = Some (ord\<lparr>o_status := st,
    o_deliveredAt := (if st = DELIVERED then Some now else o_deliveredAt ord)\<rparr>)"
  using assms lookup_key[of o_id oid "w_orders w" ord]
  by (simp add: findOrderById_def updateOrderStatusRow_def updateOrderRow_def lookup_modify)

section \<open>The status of an order only moves forward\<close>

inductive orderStep :: "world \<Rightarrow> world \<Rightarrow> bool" where
  place: "oid \<notin> fst ` set (orderStatuses w) \<Longrightarrow>
    orderStatuses w' = orderStatuses w @ [(oid, PENDING)] \<Longrightarrow> orderStep w w'"
| update: "orderQuiet rx \<Longrightarrow> orderStep w (snd (updateOrderStatus now id rx oid st reason u w))"
| timeout: "orderStep w (handleAcceptanceTimeout now id oid w)"
| paid: "orderStep w (markOrderPaid now id oid w)"
| failed: "orderStep w (markOrderPaymentFailed id oid w)"
| cod: "orderStep w (snd (switchToCod id oid u w))"
| reassign: "orderStep w (snd (assignDeliveryPartner oid uid w))"
| cancel: "orderQuiet rx \<Longrightarrow> orderStep w (snd (adminCancelOrder now id rx oid reason actor w))"
| complete: "orderStep w (snd (forceCompleteOrder now id oid reason w))"
| refund: "orderQuiet rx \<Longrightarrow> orderStep w (snd (refundOrder rx oid amount actor w))"
| other: "orderStatuses w' = orderStatuses w \<Longrightarrow> orderStep w w'"

definition forward :: "orderStatus option \<Rightarrow> orderStatus option \<Rightarrow> bool" where
  "forward a b \<longleftrightarrow> (case a of None \<Rightarrow> True
     | Some s \<Rightarrow> (case b of None \<Rightarrow> False | Some t \<Rightarrow> t = s \<or> orderRank s < orderRank t))"

lemma forward_refl [simp]: "forward a a"
  by (simp add: forward_def split: option.split)

lemma forward_trans: "forward a b \<Longrightarrow> forward b c \<Longrightarrow> forward a c"
  by (auto simp: forward_def split: option.splits)

lemma forward_write:
  assumes "orderStatusCell w oid = Some s" and "s = t \<or> orderRank s < orderRank t"
  shows "forward (orderStatusCell w i) (if i = oid then map_option (\<lambda>_. t) (orderStatusCell w i) else orderStatusCell w i)"
  using assms by (auto simp: forward_def split: option.split)

lemma cell_of_found: "findOrderById oid w = Some ord \<Longrightarrow> orderStatusCell w oid = Some (o_status ord)"
  by (simp add: findOrderById_def orderStatusCell_def)

lemma nonterminal_rank: "s \<notin> set TERMINAL_ORDER_STATUSES \<Longrightarrow> orderRank s < 5"
  by (cases s) (auto simp: TERMINAL_ORDER_STATUSES_def)

lemma update_forward:
  assumes "orderQuiet rx"
  shows "forward (orderStatusCell w i) (orderStatusCell (snd (updateOrderStatus now id rx oid st reason u w)) i)"
proof (cases "updateGuards oid st u w")
  case (Inl e)
  then show ?thesis by (simp add: updateOrderStatus_def)
next
  case (Inr ord)
  then have o: "findOrderById oid w = Some ord" and t: "st \<in> set (ORDER_STATUS_TRANSITIONS (o_status ord))"
    by (simp_all add: guards_iff)
  let ?w = "updateOrderStatusRow now oid st w"
  obtain upd where "findOrderById oid ?w = Some upd" using found_after_statusRow[OF o] by blast
  then have "snd (updateOrderStatus now id rx oid st reason u w) = afterStatusWrite now rx ord upd st reason u ?w"
    by (simp add: updateOrderStatus_def Inr)
  moreover have "orderStatusCell (afterStatusWrite now rx ord upd st reason u ?w) i = orderStatusCell ?w i"
    using statuses_after[OF assms] by (rule cell_by_statuses)
  ultimately show ?thesis
    using forward_write[OF cell_of_found[OF o], of st i] orderGraph.rank_up[OF t] by (simp add: cell_statusRow)
qed

lemma cell_claimOrderStatus:
  "orderStatusCell (snd (claimOrderStatus oid from st w)) i = (if i = oid
     then map_option (\<lambda>s. if s \<in> set from then st else s) (orderStatusCell w i) else orderStatusCell w i)"
  by (cases "lookup o_id i (w_orders w)")
    (auto simp: orderStatusCell_def claimOrderStatus_def Let_def lookup_modify dest: lookup_key)

lemma cell_transition:
  "transitionIfPending oid st w = (r, w1) \<Longrightarrow>
     orderStatusCell w1 i = orderStatusCell (snd (claimOrderStatus oid [PENDING] st w)) i"
  by (auto simp: transitionIfPending_def split: prod.splits)

lemma timeout_forward:
  "forward (orderStatusCell w i) (orderStatusCell (handleAcceptanceTimeout now id oid w) i)"
proof -
  have 1: "forward (orderStatusCell w i) (orderStatusCell w1 i)"
    if "transitionIfPending oid st w = (r, w1)" and "st = CONFIRMED \<or> st = CANCELLED" for st r w1
    using that by (auto simp: cell_transition cell_claimOrderStatus forward_def split: option.split)
  have 2: "orderStatusCell (publish e (auditLog a en j ac (createStatusHistory now k st n by w1))) i
      = orderStatusCell w1 i" for e a en j ac k st n "by" w1
    by (rule cell_by_statuses) simp
  show ?thesis
    using 1 by (auto simp: handleAcceptanceTimeout_def Let_def 2 split: option.split prod.split)
qed

lemma cell_payclaim:
  "claimPaymentStatusTransition oid from st w = (n, w1) \<Longrightarrow> orderStatusCell w1 i = orderStatusCell w i"
  using statuses_payclaim[of oid "from" st w] cell_by_statuses[of w1 w] by simp

lemma paid_forward: "forward (orderStatusCell w i) (orderStatusCell (markOrderPaid now id oid w) i)"
proof (cases "findOrderById oid w")
  case (Some ord)
  obtain n w1 where c: "claimPaymentStatusTransition oid [PAY_PENDING, PAY_FAILED, PAY_REFUNDED] PAID w = (n, w1)"
    by fastforce
  have same: "orderStatusCell w1 j = orderStatusCell w j" for j using c by (rule cell_payclaim)
  have 2: "orderStatusCell (publish e (createStatusHistory now k st m by v)) i = orderStatusCell v i"
    for e k st m "by" v
    by (rule cell_by_statuses) simp
  show ?thesis
    using Some c same cell_of_found[OF Some]
    by (auto simp: markOrderPaid_def Let_def 2 cell_statusRow forward_def split: option.split)
qed (simp add: markOrderPaid_def)

lemma admin_write_forward:
  assumes "findOrderById oid w = Some ord" and "o_status ord \<notin> set TERMINAL_ORDER_STATUSES"
    and "\<And>i. orderStatusCell w' i = (if i = oid then map_option (\<lambda>_. t) (orderStatusCell w i) else orderStatusCell w i)"
    and "t \<in> {DELIVERED, CANCELLED}"
  shows "forward (orderStatusCell w i) (orderStatusCell w' i)"
  using forward_write[OF cell_of_found[OF assms(1)], of t i] nonterminal_rank[OF assms(2)] assms(3,4) by auto

lemma cancel_forward:
  assumes "orderQuiet rx"
  shows "forward (orderStatusCell w i) (orderStatusCell (snd (adminCancelOrder now id rx oid reason actor w)) i)"
proof (cases "\<exists>ord. findOrderById oid w = Some ord \<and> o_status ord \<notin> set TERMINAL_ORDER_STATUSES")
  case False
  then show ?thesis by (auto simp: adminCancelOrder_def split: option.split)
next
  case True
  then obtain ord where o: "findOrderById oid w = Some ord" "o_status ord \<notin> set TERMINAL_ORDER_STATUSES" by blast
  let ?w1 = "updateOrderStatusRow now oid CANCELLED w"
  obtain v where v: "snd (adminCancelOrder now id rx oid reason actor w) = handleCancellationSideEffects rx ord actor v"
    "orderStatuses v = orderStatuses ?w1"
    using o found_after_statusRow[OF o(1), of now CANCELLED]
    by (cases "o_deliveryPartnerId ord") (auto simp: adminCancelOrder_def Let_def)
  have "orderStatusCell (snd (adminCancelOrder now id rx oid reason actor w)) i = orderStatusCell ?w1 i" for i
    using v statuses_sideEffects[OF assms] by (intro cell_by_statuses) simp
  then show ?thesis by (intro admin_write_forward[OF o, of _ CANCELLED]) (simp_all add: cell_statusRow)
qed

lemma complete_forward:
  "forward (orderStatusCell w i) (orderStatusCell (snd (forceCompleteOrder now id oid reason w)) i)"
proof (cases "\<exists>ord. findOrderById oid w = Some ord \<and> o_status ord \<notin> set TERMINAL_ORDER_STATUSES")
  case False
  then show ?thesis by (auto simp: forceCompleteOrder_def split: option.split)
next
  case True
  then obtain ord where o: "findOrderById oid w = Some ord" "o_status ord \<notin> set TERMINAL_ORDER_STATUSES" by blast
  let ?w1 = "markDelivered now oid w"
  have "findOrderById oid ?w1 \<noteq> None"
    using o(1) by (simp add: findOrderById_def markDelivered_def updateOrderRow_def lookup_modify)
  then have "orderStatuses (snd (forceCompleteOrder now id oid reason w)) = orderStatuses ?w1"
    using o by (cases "o_deliveryPartnerId ord") (auto simp: forceCompleteOrder_def Let_def)
  then have "orderStatusCell (snd (forceCompleteOrder now id oid reason w)) i = orderStatusCell ?w1 i" for i
    by (rule cell_by_statuses)
  then show ?thesis by (intro admin_write_forward[OF o, of _ DELIVERED]) (simp_all add: cell_markDelivered)
qed

lemma statuses_simple:
  "orderStatuses (markOrderPaymentFailed id oid w) = orderStatuses w"
  "orderStatuses (snd (switchToCod id oid u w)) = orderStatuses w"
  "orderStatuses (snd (assignDeliveryPartner oid uid w)) = orderStatuses w"
proof -
  show "orderStatuses (markOrderPaymentFailed id oid w) = orderStatuses w"
    by (simp add: markOrderPaymentFailed_def split: option.split)
  have "orderStatuses w1 = orderStatuses w" if "switchPaymentModeIfEligible oid pm w = (r, w1)" for pm r w1
    using that by (auto simp: switchPaymentModeIfEligible_def Let_def orderStatuses_def statuses_modify)
  then show "orderStatuses (snd (switchToCod id oid u w)) = orderStatuses w"
    by (auto simp: switchToCod_def split: option.split prod.split)
  show "orderStatuses (snd (assignDeliveryPartner oid uid w)) = orderStatuses w"
    by (auto simp: assignDeliveryPartner_def assignDeliveryPartnerRow_def updateOrderRow_def orderStatuses_def
        statuses_modify split: option.split)
qed

lemma step_forward: "orderStep w w' \<Longrightarrow> forward (orderStatusCell w i) (orderStatusCell w' i)"
proof (induction rule: orderStep.induct)
  case (place oid w w')
  then show ?case by (auto simp: orderStatusCell_statuses forward_def map_add_def split: option.splits)
next
  case (other w' w)
  then have "orderStatusCell w' i = orderStatusCell w i" by (rule cell_by_statuses)
  then show ?case by simp
qed (simp_all add: update_forward timeout_forward paid_forward cancel_forward complete_forward
    statuses_simple[THEN cell_by_statuses] statuses_refundOrder[THEN cell_by_statuses])

section \<open>Properties\<close>

definition ownerUser :: authUser where
  "ownerUser = \<lparr>userId = ''own'', role = RESTAURANT_OWNER\<rparr>"

definition orderWorld :: "orderStatus \<Rightarrow> paymentStatus \<Rightarrow> world" where
  "orderWorld st ps = emptyWorld\<lparr>w_orders := [sampleOrder\<lparr>o_status := st, o_paymentStatus := ps\<rparr>],
     w_restaurants := [\<lparr>rs_id = ''r1'', rs_ownerId = ''own'', rs_status = REST_APPROVED, rs_staff = [],
       rs_settings = Some \<lparr>st_acceptanceTimeoutMinutes = 10, st_autoAcceptOrders = True\<rparr>\<rparr>]\<rparr>"

definition quietCtx :: refundCtx where
  "quietCtx = \<lparr>rx_uuid = ''rf1'', rx_env = id, rx_provRefund = Inr ''rfnd'', rx_fetched = Inl (ProviderError ''down'')\<rparr>"

text \<open>
  C1. An order never goes back and never leaves a terminal status: along any sequence of calls of
  the order service (placement, status updates by any user, the acceptance timeout, payment
  marks, the COD switch, reassignment, admin cancel, force-complete, refunds) an order keeps
  existing and its status is either unchanged or strictly further along the life cycle, in which
  DELIVERED and CANCELLED are last.
\<close>
theorem order_status_forward:
  assumes "orderStep\<^sup>*\<^sup>* w w'" and "orderStatusCell w oid = Some s"
  shows "\<exists>t. orderStatusCell w' oid = Some t \<and> (t = s \<or> orderRank s < orderRank t) \<and>
    (s \<in> set TERMINAL_ORDER_STATUSES \<longrightarrow> t = s)"
proof -
  have "forward (orderStatusCell w oid) (orderStatusCell w' oid)"
    using assms(1) by (induction rule: rtranclp_induct) (auto intro: forward_trans step_forward)
  then obtain t where "orderStatusCell w' oid = Some t" "t = s \<or> orderRank s < orderRank t"
    using assms(2) by (auto simp: forward_def split: option.splits)
  moreover have "orderRank t \<le> 5" by (cases t) auto
  ultimately show ?thesis by (auto simp: TERMINAL_ORDER_STATUSES_def)
qed

lemma order_status_forward_witness:
  "orderStatusCell (markOrderPaid 5 id ''o1'' (orderWorld PENDING PAY_PENDING)) ''o1'' = Some CONFIRMED \<and>
   (\<exists>t. orderStatusCell (markOrderPaid 5 id ''o1'' (orderWorld PENDING PAY_PENDING)) ''o1'' = Some t \<and>
      orderRank PENDING \<le> orderRank t)"
proof -
  have "orderStep (orderWorld PENDING PAY_PENDING) (markOrderPaid 5 id ''o1'' (orderWorld PENDING PAY_PENDING))"
    by (rule orderStep.paid)
  then have "orderStep\<^sup>*\<^sup>* (orderWorld PENDING PAY_PENDING) (markOrderPaid 5 id ''o1'' (orderWorld PENDING PAY_PENDING))"
    by blast
  moreover have "orderStatusCell (orderWorld PENDING PAY_PENDING) ''o1'' = Some PENDING"
    by (simp add: orderStatusCell_def orderWorld_def sampleOrder_def)
  ultimately have "\<exists>t. orderStatusCell (markOrderPaid 5 id ''o1'' (orderWorld PENDING PAY_PENDING)) ''o1'' = Some t \<and>
      (t = PENDING \<or> orderRank PENDING < orderRank t) \<and> (PENDING \<in> set TERMINAL_ORDER_STATUSES \<longrightarrow> t = PENDING)"
    by (rule order_status_forward)
  moreover have "orderStatusCell (markOrderPaid 5 id ''o1'' (orderWorld PENDING PAY_PENDING)) ''o1'' = Some CONFIRMED"
    by (simp add: markOrderPaid_def findOrderById_def orderWorld_def sampleOrder_def orderStatusCell_def
        claimPaymentStatusTransition_def updateOrderStatusRow_def updateOrderRow_def)
  ultimately show ?thesis by auto
qed

text \<open>
  C2. The transition path lets through exactly the right callers: a status update of an order
  succeeds if and only if the order exists, the user has one of the four relationships to it, the
  transition is in the table, the user's role fits the target, acceptance of an online order has
  been paid, and a rider has the verified OTP (and, for pickup, the photo); otherwise it fails and
  the whole database is unchanged.
\<close>
theorem status_update_gate:
  "let allowed = (\<exists>ord. findOrderById oid w = Some ord \<and> canAccessOrder w ord u \<and>
       st \<in> set (ORDER_STATUS_TRANSITIONS (o_status ord)) \<and>
       (st \<in> {CONFIRMED, PREPARING, READY_FOR_PICKUP} \<longrightarrow>
          role u \<in> {RESTAURANT_OWNER, RESTAURANT_MANAGER, ADMIN, SUPER_ADMIN}) \<and>
       (st \<in> {OUT_FOR_DELIVERY, DELIVERED} \<longrightarrow> role u \<in> {DELIVERY_PARTNER, ADMIN, SUPER_ADMIN}) \<and>
       (st = CONFIRMED \<longrightarrow> o_paymentMode ord = COD \<or> o_paymentStatus ord = PAID) \<and>
       (role u = DELIVERY_PARTNER \<longrightarrow>
          (st = OUT_FOR_DELIVERY \<longrightarrow> otpVerified w oid PICKUP \<and> photoUploaded w oid PICKUP) \<and>
          (st = DELIVERED \<longrightarrow> otpVerified w oid DELIVERY)))
   in case updateOrderStatus now id rx oid st reason u w of
        (Inl e, w') \<Rightarrow> \<not> allowed \<and> w' = w
      | (Inr upd, w') \<Rightarrow> allowed \<and> o_status upd = st \<and> o_id upd = oid"
proof -
  have gate: "(\<exists>ord. updateGuards oid st u w = Inr ord) \<longleftrightarrow> (\<exists>ord. findOrderById oid w = Some ord \<and> canAccessOrder w ord u \<and>
       st \<in> set (ORDER_STATUS_TRANSITIONS (o_status ord)) \<and>
       (st \<in> {CONFIRMED, PREPARING, READY_FOR_PICKUP} \<longrightarrow>
          role u \<in> {RESTAURANT_OWNER, RESTAURANT_MANAGER, ADMIN, SUPER_ADMIN}) \<and>
       (st \<in> {OUT_FOR_DELIVERY, DELIVERED} \<longrightarrow> role u \<in> {DELIVERY_PARTNER, ADMIN, SUPER_ADMIN}) \<and>
       (st = CONFIRMED \<longrightarrow> o_paymentMode ord = COD \<or> o_paymentStatus ord = PAID) \<and>
       (role u = DELIVERY_PARTNER \<longrightarrow>
          (st = OUT_FOR_DELIVERY \<longrightarrow> otpVerified w oid PICKUP \<and> photoUploaded w oid PICKUP) \<and>
          (st = DELIVERED \<longrightarrow> otpVerified w oid DELIVERY)))" (is "_ \<longleftrightarrow> ?allowed")
    unfolding guards_iff actor_allowed_iff payment_eligible_iff proof_verified_iff photo_verified_iff by blast
  show ?thesis
  proof (cases "updateGuards oid st u w")
    case (Inl e)
    with gate have "\<not> ?allowed" by simp
    then show ?thesis unfolding updateOrderStatus_def Let_def Inl by simp
  next
    case (Inr ord)
    with gate have a: ?allowed by simp
    have o: "findOrderById oid w = Some ord" using Inr by (simp add: guards_iff)
    then have "o_id ord = oid" by (auto simp: findOrderById_def dest: lookup_key)
    then show ?thesis using a found_after_statusRow[OF o, of now st]
      unfolding updateOrderStatus_def Let_def Inr by simp
  qed
qed

lemma status_update_gate_witness:
  "\<exists>upd w'. updateOrderStatus 5 id quietCtx ''o1'' CONFIRMED None ownerUser (orderWorld PENDING PAID) = (Inr upd, w') \<and>
     o_status upd = CONFIRMED"
proof -
  let ?r = "updateOrderStatus 5 id quietCtx ''o1'' CONFIRMED None ownerUser (orderWorld PENDING PAID)"
  have "\<exists>ord. findOrderById ''o1'' (orderWorld PENDING PAID) = Some ord \<and>
      canAccessOrder (orderWorld PENDING PAID) ord ownerUser \<and>
      CONFIRMED \<in> set (ORDER_STATUS_TRANSITIONS (o_status ord)) \<and> o_paymentStatus ord = PAID"
    by (simp add: findOrderById_def orderWorld_def sampleOrder_def canAccessOrder_def ownerUser_def isAdmin_def
        canAccessRestaurant_def getRestaurantRole_def)
  moreover have "role ownerUser = RESTAURANT_OWNER" by (simp add: ownerUser_def)
  ultimately show ?thesis
    using status_update_gate[where now = 5 and rx = quietCtx and oid = "''o1''" and st = CONFIRMED
        and reason = None and u = ownerUser and w = "orderWorld PENDING PAID"]
    by (cases ?r, cases "fst ?r") auto
qed

text \<open>What the timeout does to the order it fires on.\<close>

lemma timeout_effect:
  assumes "ordersKeyed w" and "findOrderById oid w = Some ord" and "o_status ord = PENDING"
    and "nxt = (if st_autoAcceptOrders (getRestaurantOrderSettings w (o_restaurantId ord)) then CONFIRMED else CANCELLED)"
  shows "handleAcceptanceTimeout now id oid w =
    publish (orderStatusEvent (ord\<lparr>o_status := nxt\<rparr>) (Some (o_total ord)))
      (auditLog None ''Order'' oid ''STATUS_CHANGE''
        (createStatusHistory now oid nxt (Some ''acceptance timeout elapsed'') None
          (snd (claimOrderStatus oid [PENDING] nxt w))))"
proof -
  have l: "lookup o_id oid (w_orders w) = Some ord" "o_id ord = oid"
    using assms(2) by (auto simp: findOrderById_def dest: lookup_key)
  have n: "fst (claimOrderStatus oid [PENDING] nxt w) = 1"
    using assms(1,3) l by (simp add: claimOrderStatus_def ordersKeyed_def matches_pk Let_def)
  have f: "findOrderById oid (snd (claimOrderStatus oid [PENDING] nxt w)) = Some (ord\<lparr>o_status := nxt\<rparr>)"
    using assms(3) l by (simp add: claimOrderStatus_def findOrderById_def lookup_modify Let_def)
  have "transitionIfPending oid nxt w = (Some (ord\<lparr>o_status := nxt\<rparr>), snd (claimOrderStatus oid [PENDING] nxt w))"
    using n f by (simp add: transitionIfPending_def split_def)
  then show ?thesis
    using assms(2-4) unfolding handleAcceptanceTimeout_def Let_def by simp
qed

lemma claimOrderStatus_frame [simp]:
  "w_redemptions (snd (claimOrderStatus oid from st w)) = w_redemptions w"
  "w_coupons (snd (claimOrderStatus oid from st w)) = w_coupons w"
  "w_history (snd (claimOrderStatus oid from st w)) = w_history w"
  "w_payments (snd (claimOrderStatus oid from st w)) = w_payments w"
  by (simp_all add: claimOrderStatus_def Let_def)

lemma history_frame [simp]:
  "w_redemptions (createStatusHistory now oid st n by w) = w_redemptions w"
  "w_coupons (createStatusHistory now oid st n by w) = w_coupons w"
  "w_payments (createStatusHistory now oid st n by w) = w_payments w"
  "w_refunds (createStatusHistory now oid st n by w) = w_refunds w"
  "w_events (createStatusHistory now oid st n by w) = w_events w"
  by (simp_all add: createStatusHistory_def)

lemma findOrder_logs [simp]:
  "findOrderById oid (publish e w) = findOrderById oid w"
  "findOrderById oid (auditLog a en i ac w) = findOrderById oid w"
  "findOrderById oid (createStatusHistory now i st n by w) = findOrderById oid w"
  by (simp_all add: findOrderById_def)

text \<open>
  The acceptance timeout confirms orders nobody has paid for: when the restaurant auto-accepts,
  the timeout takes any PENDING order to CONFIRMED whatever its payment mode and status, so an
  unpaid ONLINE order can be CONFIRMED without passing the payment gate.
\<close>
theorem auto_accept_ignores_payment:
  assumes "ordersKeyed w" and "findOrderById oid w = Some ord" and "o_status ord = PENDING"
    and "st_autoAcceptOrders (getRestaurantOrderSettings w (o_restaurantId ord))"
    and "o_paymentMode ord = ONLINE" and "o_paymentStatus ord \<noteq> PAID"
  shows "assertPaymentEligibleForAcceptance ord CONFIRMED \<noteq> Inr () \<and>
    (\<exists>ord'. findOrderById oid (handleAcceptanceTimeout now id oid w) = Some ord' \<and> o_status ord' = CONFIRMED \<and>
       o_paymentMode ord' = ONLINE \<and> o_paymentStatus ord' = o_paymentStatus ord)"
proof -
  have "lookup o_id oid (w_orders w) = Some ord" "o_id ord = oid"
    using assms(2) by (auto simp: findOrderById_def dest: lookup_key)
  then have "findOrderById oid (snd (claimOrderStatus oid [PENDING] CONFIRMED w)) = Some (ord\<lparr>o_status := CONFIRMED\<rparr>)"
    using assms(3) by (simp add: claimOrderStatus_def findOrderById_def lookup_modify Let_def)
  then show ?thesis
    using timeout_effect[OF assms(1-3) refl, of now] assms(4-6)
    by (simp add: assertPaymentEligibleForAcceptance_def)
qed

lemma auto_accept_ignores_payment_witness:
  "\<exists>ord'. findOrderById ''o1'' (handleAcceptanceTimeout 5 id ''o1'' (orderWorld PENDING PAY_PENDING)) = Some ord' \<and>
     o_status ord' = CONFIRMED \<and> o_paymentStatus ord' = PAY_PENDING"
  using auto_accept_ignores_payment[of "orderWorld PENDING PAY_PENDING" "''o1''"
      "sampleOrder\<lparr>o_status := PENDING, o_paymentStatus := PAY_PENDING\<rparr>" 5]
  by (auto simp: ordersKeyed_def keyed_def findOrderById_def orderWorld_def sampleOrder_def
      getRestaurantOrderSettings_def)

text \<open>
  An auto-rejected order keeps its coupon slot: the timeout takes the order to the terminal
  status CANCELLED but, unlike the two cancel operations, releases no redemption and gives no
  coupon use back.
\<close>
theorem auto_reject_keeps_coupon:
  assumes "ordersKeyed w" and "findOrderById oid w = Some ord" and "o_status ord = PENDING"
    and "\<not> st_autoAcceptOrders (getRestaurantOrderSettings w (o_restaurantId ord))"
  shows "orderStatusCell (handleAcceptanceTimeout now id oid w) oid = Some CANCELLED \<and>
    w_redemptions (handleAcceptanceTimeout now id oid w) = w_redemptions w \<and>
    w_coupons (handleAcceptanceTimeout now id oid w) = w_coupons w"
proof -
  have "orderStatusCell w oid = Some PENDING" using cell_of_found[OF assms(2)] assms(3) by simp
  then have "orderStatusCell (snd (claimOrderStatus oid [PENDING] CANCELLED w)) oid = Some CANCELLED"
    by (simp add: cell_claimOrderStatus)
  moreover have "orderStatusCell (publish e (auditLog a en i ac (createStatusHistory now k st n by v))) oid
      = orderStatusCell v oid" for e a en i ac k st n "by" v
    by (rule cell_by_statuses) simp
  ultimately show ?thesis using timeout_effect[OF assms(1-3) refl, of now] assms(4) by simp
qed

definition rejectWorld :: world where
  "rejectWorld = emptyWorld\<lparr>w_orders := [sampleOrder\<lparr>o_paymentMode := COD\<rparr>],
     w_redemptions := [\<lparr>x_id = ''x1'', x_couponId = ''c1'', x_userId = ''u1'', x_orderId = Some ''o1'', x_discount = 5\<rparr>],
     w_restaurants := [\<lparr>rs_id = ''r1'', rs_ownerId = ''own'', rs_status = REST_APPROVED, rs_staff = [], rs_settings = None\<rparr>]\<rparr>"

lemma auto_reject_keeps_coupon_witness:
  "orderStatusCell (handleAcceptanceTimeout 5 id ''o1'' rejectWorld) ''o1'' = Some CANCELLED \<and>
   findRedemptionByOrderId ''o1'' (handleAcceptanceTimeout 5 id ''o1'' rejectWorld) \<noteq> None"
  using auto_reject_keeps_coupon[of rejectWorld "''o1''" "sampleOrder\<lparr>o_paymentMode := COD\<rparr>" 5]
  by (simp add: ordersKeyed_def keyed_def findOrderById_def rejectWorld_def sampleOrder_def
      getRestaurantOrderSettings_def findRedemptionByOrderId_def)

text \<open>
  The timeout and a manual action can both apply: if the auto-reject job commits between the
  read and the write of a restaurant's acceptance, the acceptance overwrites the terminal
  CANCELLED with CONFIRMED, and the order's history records both outcomes.
\<close>
theorem timeout_and_accept_both_apply:
  assumes "ordersKeyed w" and "updateGuards oid CONFIRMED u w = Inr ord" and "o_status ord = PENDING"
    and "\<not> st_autoAcceptOrders (getRestaurantOrderSettings w (o_restaurantId ord))"
  shows "let w' = snd (updateOrderStatus now (handleAcceptanceTimeout t id oid) rx oid CONFIRMED reason u w)
    in orderStatusCell (handleAcceptanceTimeout t id oid w) oid = Some CANCELLED \<and>
       orderStatusCell w' oid = Some CONFIRMED \<and>
       map h_status (w_history w') = map h_status (w_history w) @ [CANCELLED, CONFIRMED]"
proof -
  let ?v = "handleAcceptanceTimeout t id oid w"
  let ?w1 = "updateOrderStatusRow now oid CONFIRMED ?v"
  have o: "findOrderById oid w = Some ord" using assms(2) by (simp add: guards_iff)
  have l: "lookup o_id oid (w_orders w) = Some ord" "o_id ord = oid"
    using o by (auto simp: findOrderById_def dest: lookup_key)
  have v: "?v = publish (orderStatusEvent (ord\<lparr>o_status := CANCELLED\<rparr>) (Some (o_total ord)))
      (auditLog None ''Order'' oid ''STATUS_CHANGE''
        (createStatusHistory t oid CANCELLED (Some ''acceptance timeout elapsed'') None
          (snd (claimOrderStatus oid [PENDING] CANCELLED w))))"
    using timeout_effect[OF assms(1) o assms(3) refl, of t] assms(4) by simp
  have fv: "findOrderById oid ?v = Some (ord\<lparr>o_status := CANCELLED\<rparr>)"
    unfolding v using l assms(3) by (simp add: findOrderById_def claimOrderStatus_def lookup_modify Let_def)
  have "w_history ?v = w_history w @ [\<lparr>h_orderId = oid, h_status = CANCELLED,
      h_note = Some ''acceptance timeout elapsed'', h_changedById = None, h_createdAt = t\<rparr>]"
    unfolding v by (simp add: createStatusHistory_def)
  then have hist: "map h_status (w_history ?w1) = map h_status (w_history w) @ [CANCELLED]"
    by (simp add: updateOrderStatusRow_def updateOrderRow_def)
  obtain upd where upd: "findOrderById oid ?w1 = Some upd"
    using found_after_statusRow[OF fv, of now CONFIRMED] by blast
  have w': "snd (updateOrderStatus now (handleAcceptanceTimeout t id oid) rx oid CONFIRMED reason u w)
      = publish (orderStatusEvent upd (Some (o_total upd)))
          (createStatusHistory now oid CONFIRMED reason (Some (userId u)) ?w1)"
    using upd l(2) by (simp add: updateOrderStatus_def assms(2) afterStatusWrite_def)
  have "orderStatusCell (publish e (createStatusHistory now k st n by x)) oid = orderStatusCell x oid"
    for e k st n "by" x by (rule cell_by_statuses) simp
  then show ?thesis
    using cell_of_found[OF fv] hist unfolding Let_def w' by (simp add: cell_statusRow createStatusHistory_def)
qed

lemma timeout_and_accept_both_apply_witness:
  "let w = rejectWorld;
       w' = snd (updateOrderStatus 7 (handleAcceptanceTimeout 6 id ''o1'') quietCtx ''o1'' CONFIRMED None ownerUser w)
   in orderStatusCell (handleAcceptanceTimeout 6 id ''o1'' w) ''o1'' = Some CANCELLED \<and>
      orderStatusCell w' ''o1'' = Some CONFIRMED \<and>
      map h_status (w_history w') = map h_status (w_history w) @ [CANCELLED, CONFIRMED]"
  unfolding Let_def[of rejectWorld]
proof (rule timeout_and_accept_both_apply[where ord = "sampleOrder\<lparr>o_paymentMode := COD\<rparr>"])
  show "ordersKeyed rejectWorld" by (simp add: ordersKeyed_def keyed_def rejectWorld_def)
  show "updateGuards ''o1'' CONFIRMED ownerUser rejectWorld = Inr (sampleOrder\<lparr>o_paymentMode := COD\<rparr>)"
    by (simp add: guards_iff findOrderById_def rejectWorld_def sampleOrder_def order_access_cases
        restaurant_access_cases ownerUser_def actor_allowed_iff payment_eligible_iff proof_verified_iff photo_verified_iff)
  show "o_status (sampleOrder\<lparr>o_paymentMode := COD\<rparr>) = PENDING" by (simp add: sampleOrder_def)
  show "\<not> st_autoAcceptOrders (getRestaurantOrderSettings rejectWorld (o_restaurantId (sampleOrder\<lparr>o_paymentMode := COD\<rparr>)))"
    by (simp add: getRestaurantOrderSettings_def rejectWorld_def sampleOrder_def)
qed

text \<open>
  A payment can revive a cancelled order: \<^verbatim>\<open>markOrderPaid\<close> claims the payment status
  atomically but confirms from the status it read before, so a cancellation that commits in
  between is overwritten and the cancelled order becomes CONFIRMED and PAID.
\<close>
theorem payment_revives_cancelled:
  assumes "findOrderById oid w = Some ord" and "o_status ord = PENDING" and "o_paymentStatus ord \<noteq> PAID"
    and "ordersKeyed (env w)" and "findOrderById oid (env w) = Some can" and "o_status can = CANCELLED"
    and "o_paymentStatus can \<noteq> PAID"
  shows "map_option (\<lambda>ord. (o_status ord, o_paymentStatus ord)) (findOrderById oid (markOrderPaid now env oid w))
    = Some (CONFIRMED, PAID)"
proof -
  let ?from = "[PAY_PENDING, PAY_FAILED, PAY_REFUNDED]"
  have l: "lookup o_id oid (w_orders (env w)) = Some can" "o_id can = oid"
    using assms(5) by (auto simp: findOrderById_def dest: lookup_key)
  have src: "o_paymentStatus can \<in> set ?from" using assms(7) by (cases "o_paymentStatus can") auto
  let ?w1 = "snd (claimPaymentStatusTransition oid ?from PAID (env w))"
  have n: "fst (claimPaymentStatusTransition oid ?from PAID (env w)) = 1"
    using assms(4) l src by (simp add: claimPaymentStatusTransition_def ordersKeyed_def matches_pk Let_def)
  have f1: "findOrderById oid ?w1 = Some (can\<lparr>o_paymentStatus := PAID\<rparr>)"
    using l src by (simp add: claimPaymentStatusTransition_def findOrderById_def lookup_modify Let_def)
  show ?thesis
    using assms(1-3) n found_after_statusRow[OF f1, of now CONFIRMED]
    by (simp add: markOrderPaid_def split_def Let_def)
qed

lemma payment_revives_cancelled_witness:
  "map_option (\<lambda>ord. (o_status ord, o_paymentStatus ord))
     (findOrderById ''o1'' (markOrderPaid 5 (\<lambda>_. orderWorld CANCELLED PAY_PENDING) ''o1'' (orderWorld PENDING PAY_PENDING)))
   = Some (CONFIRMED, PAID)"
  by (rule payment_revives_cancelled[where ord = "sampleOrder\<lparr>o_status := PENDING, o_paymentStatus := PAY_PENDING\<rparr>"
        and can = "sampleOrder\<lparr>o_status := CANCELLED, o_paymentStatus := PAY_PENDING\<rparr>"])
    (simp_all add: findOrderById_def orderWorld_def sampleOrder_def ordersKeyed_def keyed_def)

end
