(* ===== verification/OrderRefund.thy ===== *)
theory OrderRefund
  imports OrderLifecycle
begin

text \<open>
  Money on cancellation: the split of a refund over the wallet and provider legs, the order-level
  exactly-once gate with its compensating revert, and the cancellation side effects.
\<close>

section \<open>The split\<close>

lemma ratio_bounds:
  assumes "0 \<le> requested" and "0 < o_total ord"
  shows "0 \<le> refundRatio ord requested" and "o_total ord * refundRatio ord requested = requested"
  using assms by (simp_all add: refundRatio_def)

lemma split_error:
  assumes "0 \<le> requested" and "0 < o_total ord"
  shows "\<bar>walletPortion ord requested + razorpayPortion ord requested - requested\<bar> \<le> 1 / 100"
proof -
  let ?r = "refundRatio ord requested"
  have sum: "o_walletUsed ord * ?r + (o_total ord - o_walletUsed ord) * ?r = requested"
    using ratio_bounds(2)[OF assms] by (simp add: algebra_simps)
  have "\<bar>walletPortion ord requested - o_walletUsed ord * ?r\<bar> \<le> 1 / 200"
    and "\<bar>razorpayPortion ord requested - (o_total ord - o_walletUsed ord) * ?r\<bar> \<le> 1 / 200"
    unfolding walletPortion_def razorpayPortion_def by (rule round2_error)+
  then show ?thesis using sum by linarith
qed

text \<open>
  C9. A refund is split fairly between the two payment legs: for an order with a positive total of
  which the wallet covered a part, both legs of a refund are non-negative, together they differ
  from the requested amount by at most one paisa, and a full refund of amounts in whole paise
  gives each leg back exactly what it paid.
\<close>
theorem refund_split_fair:
  assumes "0 < o_total ord" and "0 \<le> o_walletUsed ord" and "o_walletUsed ord \<le> o_total ord" and "0 \<le> requested"
    and "o_total ord = of_int t / 100" and "o_walletUsed ord = of_int wl / 100"
  shows "0 \<le> walletPortion ord requested \<and> 0 \<le> razorpayPortion ord requested \<and>
    \<bar>walletPortion ord requested + razorpayPortion ord requested - requested\<bar> \<le> 1 / 100 \<and>
    walletPortion ord (o_total ord) = o_walletUsed ord \<and>
    razorpayPortion ord (o_total ord) = o_total ord - o_walletUsed ord"
proof -
  have full: "refundRatio ord (o_total ord) = 1" using assms(1) by (simp add: refundRatio_def)
  have "o_total ord - o_walletUsed ord = of_int (t - wl) / 100"
    using assms(5,6) by (simp add: diff_divide_distrib)
  then have "razorpayPortion ord (o_total ord) = o_total ord - o_walletUsed ord"
    unfolding razorpayPortion_def full by (simp only: mult_1_right round2_paise)
  moreover have "walletPortion ord (o_total ord) = o_walletUsed ord"
    unfolding walletPortion_def full assms(6) by (simp only: mult_1_right round2_paise)
  moreover have "0 \<le> walletPortion ord requested" "0 \<le> razorpayPortion ord requested"
    using assms(1-4) ratio_bounds(1)[OF assms(4,1)]
    by (simp_all add: walletPortion_def razorpayPortion_def round2_nonneg)
  ultimately show ?thesis using split_error[OF assms(4,1)] by blast
qed

lemma refund_split_fair_witness:
  "walletPortion (sampleOrder\<lparr>o_walletUsed := 30\<rparr>) 100 = 30 \<and> razorpayPortion (sampleOrder\<lparr>o_walletUsed := 30\<rparr>) 100 = 70"
  using refund_split_fair[of "sampleOrder\<lparr>o_walletUsed := 30\<rparr>" 100 10000 3000] by (simp add: sampleOrder_def)

section \<open>The order-level gate\<close>

lemma revert_identity:
  assumes "keyed o_id rows" and "lookup o_id oid rows = Some ord" and "o_paymentStatus ord = PAID"
  shows "modify (\<lambda>r. o_id r = oid \<and> o_paymentStatus r \<in> set [PAY_REFUNDED]) (\<lambda>r. r\<lparr>o_paymentStatus := PAID\<rparr>)
    (modify (\<lambda>r. o_id r = oid \<and> o_paymentStatus r \<in> set [PAID]) (\<lambda>r. r\<lparr>o_paymentStatus := PAY_REFUNDED\<rparr>) rows) = rows"
proof -
  have "o_paymentStatus r = PAID" if "r \<in> set rows" "o_id r = oid" for r
    using lookup_keyed[OF assms(1) that(1)] that(2) assms(2,3) by simp
  then show ?thesis by (auto simp: modify_def map_idI)
qed

lemma refundOrder_claimed:
  assumes "ordersKeyed w" and "findOrderById oid w = Some ord"
  shows "fst (claimPaymentStatusTransition oid [PAID] PAY_REFUNDED w) = (if o_paymentStatus ord = PAID then 1 else 0)"
  using assms by (simp add: claimPaymentStatusTransition_def ordersKeyed_def findOrderById_def matches_pk Let_def)

text \<open>
  C8. A failed refund leaves the order as it was: whenever \<^verbatim>\<open>refundOrder\<close> throws, whatever the
  reason (unknown order, not paid, amount too large, no successful payment, a refused or failed
  provider refund), no row of the order table has changed, so the order is not left showing a
  refund that did not happen.
\<close>
theorem failed_refund_reverts:
  assumes "ordersKeyed w" and "orderQuiet rx" and "refundOrder rx oid amount actor w = (Inl e, w')"
  shows "w_orders w' = w_orders w"
proof (cases "findOrderById oid w")
  case None
  then show ?thesis using assms(3) by (simp add: refundOrder_def)
next
  case (Some ord)
  let ?c = "claimPaymentStatusTransition oid [PAID] PAY_REFUNDED w"
  have l: "lookup o_id oid (w_orders w) = Some ord" using Some by (simp add: findOrderById_def)
  show ?thesis
  proof (cases "o_paymentStatus ord = PAID")
    case False
    have "?c = (0, w)"
      using False l by (intro orderPayCas.claim_miss[OF assms(1)]) (simp add: orderPayCell_def)
    then show ?thesis using assms(3) Some by (auto simp: refundOrder_def)
  next
    case True
    then have n: "fst ?c = 1" using refundOrder_claimed[OF assms(1) Some] by simp
    obtain r w2 where b: "refundBody rx ord amount actor (snd ?c) = (r, w2)" by fastforce
    have w2: "w_orders w2 = w_orders (snd ?c)"
      using orders_refundBody[OF assms(2), of ord amount actor "snd ?c"] b by simp
    have "findOrderById oid w2 \<noteq> None"
      using l w2 by (simp add: findOrderById_def claimPaymentStatusTransition_def lookup_modify Let_def)
    then have "w' = snd (claimPaymentStatusTransition oid [PAY_REFUNDED] PAID w2)"
      using assms(3) Some n b by (auto simp: refundOrder_def split_def split: sum.splits option.splits)
    then have "w_orders w' = modify (\<lambda>r. o_id r = oid \<and> o_paymentStatus r \<in> set [PAY_REFUNDED])
        (\<lambda>r. r\<lparr>o_paymentStatus := PAID\<rparr>) (w_orders w2)"
      by (simp add: claimPaymentStatusTransition_def Let_def)
    also have "w_orders w2 = modify (\<lambda>r. o_id r = oid \<and> o_paymentStatus r \<in> set [PAID])
        (\<lambda>r. r\<lparr>o_paymentStatus := PAY_REFUNDED\<rparr>) (w_orders w)"
      using w2 by (simp add: claimPaymentStatusTransition_def Let_def)
    finally show ?thesis
      using revert_identity[OF _ l True] assms(1) by (simp add: ordersKeyed_def)
  qed
qed

lemma quietCtx_quiet: "orderQuiet quietCtx"
  by (simp add: orderQuiet_def quietCtx_def)

lemma failed_refund_reverts_witness:
  "\<exists>e w'. refundOrder quietCtx ''o1'' None ''admin'' (orderWorld PENDING PAID) = (Inl e, w') \<and>
     w_orders w' = w_orders (orderWorld PENDING PAID)"
proof -
  have k: "ordersKeyed (orderWorld PENDING PAID)" by (simp add: ordersKeyed_def keyed_def orderWorld_def)
  have "mathRound 10000 = 10000" using mathRound_of_int[of 10000] by simp
  then have "\<exists>e w'. refundOrder quietCtx ''o1'' None ''admin'' (orderWorld PENDING PAID) = (Inl e, w')"
    by (simp add: refundOrder_def findOrderById_def orderWorld_def sampleOrder_def claimPaymentStatusTransition_def
        refundBody_def refundProviderLeg_def orElse_def AMOUNT_TOLERANCE_def razorpayPortion_def walletPortion_def
        refundRatio_def round2_def emptyWorld_def findActivePaymentForOrder_def findLatest_def Let_def)
  then show ?thesis using failed_refund_reverts[OF k quietCtx_quiet] by blast
qed

text \<open>
  Concurrent refunds of one order have one winner: of any number of callers racing for the
  PAID order (double clicks, a cancellation racing an admin refund), exactly one claim changes the
  row; the others are turned away before any money moves.
\<close>
theorem order_refund_single_winner:
  assumes "ordersKeyed w" and "orderPayCell w oid = Some PAID" and "cs \<noteq> []"
    and "\<forall>c \<in> set cs. c = (oid, [PAID], PAY_REFUNDED)"
  shows "winners claimPaymentStatusTransition cs w = 1"
  using assms orderPayCas.single_winner[of w PAY_REFUNDED "[PAID]" cs oid] by simp

lemma order_refund_single_winner_witness:
  "winners claimPaymentStatusTransition (replicate 4 (''o1'', [PAID], PAY_REFUNDED)) (orderWorld CONFIRMED PAID) = 1"
  by (rule order_refund_single_winner)
    (auto simp: ordersKeyed_def keyed_def orderWorld_def orderPayCell_def sampleOrder_def)

section \<open>Cancelling a paid order\<close>

lemma refundPayment_success:
  assumes inv: "payments_inv w" and p: "findPaymentById pid w = Some p" "p_status p = TX_SUCCESS"
    and amount: "0 < amount" "amount \<le> p_amount p + AMOUNT_TOLERANCE"
    and idle: "pendingRefunds pid w = 0" and fresh: "uuid \<notin> r_id ` set (w_refunds w)"
  shows "\<exists>w'. refundPayment uuid id (Inr i) f pid amount actor w = (Inr (setStatus TX_REFUNDED (Some i) None p), w') \<and>
    findPaymentById pid w' = Some (setStatus TX_REFUNDED (Some i) None p) \<and>
    completedRefunds pid w' = Suc (completedRefunds pid w) \<and>
    w_orders w' = w_orders w"
proof -
  let ?r = "\<lparr>r_id = uuid, r_paymentId = pid, r_amount = dec2 amount, r_status = TX_PENDING\<rparr>"
  let ?w1 = "w\<lparr>w_refunds := w_refunds w @ [?r]\<rparr>"
  have "\<not> (\<exists>r \<in> set (w_refunds w). r_paymentId r = pid \<and> r_status r = TX_PENDING)"
    using idle by (auto simp: pendingRefunds_def matches_0_iff)
  then have c: "claimRefund uuid pid amount w = (Claimed p ?r, ?w1)"
    using p amount by (simp add: claimRefund_def Let_def not_less)
  have inv1: "payments_inv ?w1" using claimRefund_preserves[OF inv fresh, of pid amount] c by simp
  have lr: "lookup r_id uuid (w_refunds ?w1) = Some ?r" using fresh by (simp add: lookup_snoc_fresh)
  have lp: "lookup p_id pid (w_payments w) = Some p" "p_id p = pid"
    using p(1) by (auto simp: findPaymentById_def dest: lookup_key)
  let ?q = "\<lambda>r. r_id r = uuid \<and> r_status r = TX_PENDING"
  let ?c = "\<lambda>q. p_id q = pid \<and> p_status q = TX_SUCCESS"
  let ?w3 = "snd (finalizeRefundSuccess pid uuid (Some i) ?w1)"
  have "matches ?q (w_refunds ?w1) \<noteq> 0" using inv1 lr by (simp add: payments_inv_def matches_pk)
  then have w3: "?w3 = (finishRefund uuid TX_REFUNDED ?w1)\<lparr>w_payments := modify ?c (setStatus TX_REFUNDED (Some i) None) (w_payments w)\<rparr>"
    by (simp add: finalizeRefundSuccess_def finishRefund_def Let_def)
  have fp: "findPaymentById pid ?w3 = Some (setStatus TX_REFUNDED (Some i) None p)"
    using lp p(2) by (simp add: findPaymentById_def w3 lookup_modify)
  have "int (completedRefunds pid (finishRefund uuid TX_REFUNDED ?w1)) = int (completedRefunds pid ?w1) + 1"
    using finishRefund_counts(2)[OF inv1 lr, of TX_REFUNDED pid] by simp
  then have cr: "completedRefunds pid ?w3 = Suc (completedRefunds pid w)"
    by (simp add: completedRefunds_def w3)
  let ?w' = "publish (PaymentRefunded pid (p_orderId p) amount) (auditLog actor ''Payment'' pid ''STATUS_CHANGE'' ?w3)"
  have logs: "findPaymentById pid ?w' = findPaymentById pid ?w3" "completedRefunds pid ?w' = completedRefunds pid ?w3"
    by (simp_all add: findPaymentById_def completedRefunds_def)
  have "refundPayment uuid id (Inr i) f pid amount actor w = (Inr (setStatus TX_REFUNDED (Some i) None p), ?w')"
    using fp logs by (simp add: refundPayment_def c Let_def)
  then show ?thesis using logs fp cr by (simp add: w3 finishRefund_def)
qed

lemma active_payment_mem:
  assumes "findActivePaymentForOrder oid w = Some p" and "payKeyed w"
  shows "findPaymentById (p_id p) w = Some p" "p_orderId p = oid"
  using assms findLatest_SomeD[of "\<lambda>p. p_orderId p = oid \<and> p_isActive p" p_createdAt "w_payments w" p]
  by (simp_all add: findActivePaymentForOrder_def findPaymentById_def payKeyed_def lookup_keyed)

lemma payments_releaseForOrder [simp]:
  "w_payments (snd (releaseForOrder oid w)) = w_payments w"
  "w_refunds (snd (releaseForOrder oid w)) = w_refunds w"
proof -
  have "w_payments (snd (releaseRedemption c r w)) = w_payments w"
    "w_refunds (snd (releaseRedemption c r w)) = w_refunds w" for c r
    by (simp_all add: releaseRedemption_def)
  then show "w_payments (snd (releaseForOrder oid w)) = w_payments w"
    "w_refunds (snd (releaseForOrder oid w)) = w_refunds w"
    using releaseForOrder_cases[of oid w] by (metis snd_conv)+
qed

lemma findPayment_frame: "w_payments w' = w_payments w \<Longrightarrow> findPaymentById pid w' = findPaymentById pid w"
  "w_payments w' = w_payments w \<Longrightarrow> findActivePaymentForOrder oid w' = findActivePaymentForOrder oid w"
  by (simp_all add: findPaymentById_def findActivePaymentForOrder_def)

text \<open>The state in which a cancellation finds a refundable order.\<close>

definition refundable :: "refundCtx \<Rightarrow> order \<Rightarrow> payment \<Rightarrow> world \<Rightarrow> bool" where
  "refundable rx ord p w \<longleftrightarrow> payments_inv w \<and> findActivePaymentForOrder (o_id ord) w = Some p \<and>
     p_status p = TX_SUCCESS \<and> pendingRefunds (p_id p) w = 0 \<and> rx_env rx = id \<and>
     rx_uuid rx \<notin> r_id ` set (w_refunds w) \<and> ok (rx_provRefund rx) \<and>
     0 < razorpayPortion ord (o_total ord) \<and> razorpayPortion ord (o_total ord) \<le> p_amount p + AMOUNT_TOLERANCE"

lemma refundable_frame:
  "w_payments w' = w_payments w \<Longrightarrow> w_refunds w' = w_refunds w \<Longrightarrow> refundable rx ord p w' = refundable rx ord p w"
  using payments_inv_frame[of w' w] findPayment_frame[of w' w]
  by (simp add: refundable_def pendingRefunds_def)

lemma refundBody_success:
  assumes "refundable rx ord p w"
  shows "\<exists>w'. refundBody rx ord None actor w = (Inr (), w') \<and> w_orders w' = w_orders w \<and>
    map_option p_status (findPaymentById (p_id p) w') = Some TX_REFUNDED \<and> completedRefunds (p_id p) w' = Suc (completedRefunds (p_id p) w)"
proof -
  from assms have k: "payKeyed w" by (simp add: refundable_def payments_inv_def payKeyed_def)
  obtain i where i: "rx_provRefund rx = Inr i" using assms by (auto simp: refundable_def ok_iff)
  let ?rp = "razorpayPortion ord (o_total ord)"
  have fp: "findPaymentById (p_id p) w = Some p"
    using assms by (auto simp: refundable_def intro: active_payment_mem(1)[OF _ k])
  obtain w1 where r: "refundPayment (rx_uuid rx) id (Inr i) (rx_fetched rx) (p_id p) ?rp (Some actor) w
      = (Inr (setStatus TX_REFUNDED (Some i) None p), w1)"
    and fp1: "findPaymentById (p_id p) w1 = Some (setStatus TX_REFUNDED (Some i) None p)"
    and cr: "completedRefunds (p_id p) w1 = Suc (completedRefunds (p_id p) w)" and ow: "w_orders w1 = w_orders w"
    using refundPayment_success[of w "p_id p" p ?rp "rx_uuid rx" i "rx_fetched rx" "Some actor"] assms fp
    by (auto simp: refundable_def)
  have leg: "refundProviderLeg rx ord ?rp actor w = (Inr (), w1)"
    using assms r i by (simp add: refundProviderLeg_def refundable_def)
  let ?w2 = "if walletPortion ord (o_total ord) > 0
    then publish (OrderRefunded (o_id ord) (o_customerId ord) (o_restaurantId ord) (walletPortion ord (o_total ord))) w1 else w1"
  obtain w3 where rel: "releaseForOrder (o_id ord) ?w2 = (Inr (), w3)"
    using releaseForOrder_ok[of "o_id ord" ?w2] by (metis prod.collapse)
  have t3: "w_payments w3 = w_payments w1" "w_refunds w3 = w_refunds w1" "w_orders w3 = w_orders w1"
    using payments_releaseForOrder[of "o_id ord" ?w2] orders_releaseForOrder[of "o_id ord" ?w2] rel
    by (simp_all split: if_splits)
  show ?thesis
    using leg rel fp1 cr ow t3 findPayment_frame(1)[of w3 w1]
    by (auto simp: refundBody_def orElse_def AMOUNT_TOLERANCE_def Let_def findPaymentById_def completedRefunds_def)
qed

lemma order_after_payclaim:
  assumes "findOrderById oid w = Some ord"
  shows "findOrderById oid (snd (claimPaymentStatusTransition oid from st w))
    = Some (if o_paymentStatus ord \<in> set from then ord\<lparr>o_paymentStatus := st\<rparr> else ord)"
  using assms lookup_key[of o_id oid "w_orders w" ord]
  by (simp add: findOrderById_def claimPaymentStatusTransition_def lookup_modify Let_def)

lemma payclaim_frame [simp]:
  "w_payments (snd (claimPaymentStatusTransition oid from st w)) = w_payments w"
  "w_refunds (snd (claimPaymentStatusTransition oid from st w)) = w_refunds w"
  by (simp_all add: claimPaymentStatusTransition_def Let_def)

lemma refundOrder_success:
  assumes "ordersKeyed w" and "findOrderById oid w = Some cur" and "o_paymentStatus cur = PAID"
    and "refundable rx cur p w"
  shows "\<exists>w'. refundOrder rx oid None actor w = (Inr (cur\<lparr>o_paymentStatus := PAY_REFUNDED\<rparr>), w') \<and>
    findOrderById oid w' = Some (cur\<lparr>o_paymentStatus := PAY_REFUNDED\<rparr>) \<and>
    map_option p_status (findPaymentById (p_id p) w') = Some TX_REFUNDED \<and>
    completedRefunds (p_id p) w' = Suc (completedRefunds (p_id p) w)"
proof -
  let ?c = "claimPaymentStatusTransition oid [PAID] PAY_REFUNDED w"
  have n: "fst ?c = 1" using refundOrder_claimed[OF assms(1,2)] assms(3) by simp
  have "refundable rx cur p (snd ?c)" using assms(4) refundable_frame[of "snd ?c" w] by simp
  then obtain w2 where b: "refundBody rx cur None actor (snd ?c) = (Inr (), w2)" "w_orders w2 = w_orders (snd ?c)"
    "map_option p_status (findPaymentById (p_id p) w2) = Some TX_REFUNDED"
    "completedRefunds (p_id p) w2 = Suc (completedRefunds (p_id p) (snd ?c))"
    using refundBody_success by blast
  have "findOrderById oid w2 = Some (cur\<lparr>o_paymentStatus := PAY_REFUNDED\<rparr>)"
    using order_after_payclaim[OF assms(2), of "[PAID]" PAY_REFUNDED] assms(3) b(2) by (simp add: findOrderById_def)
  then show ?thesis using n b assms(2) by (simp add: refundOrder_def split_def completedRefunds_def)
qed

lemma refundable_order_cong:
  "o_id a = o_id b \<Longrightarrow> o_total a = o_total b \<Longrightarrow> o_walletUsed a = o_walletUsed b \<Longrightarrow>
     refundable rx a p w = refundable rx b p w"
  by (simp add: refundable_def razorpayPortion_def refundRatio_def)

text \<open>The world in which an admin cancellation runs its side effects.\<close>

definition cancelledWorld :: "int \<Rightarrow> order \<Rightarrow> string option \<Rightarrow> world \<Rightarrow> world" where
  "cancelledWorld now ord reason w =
     (let w2 = createStatusHistory now (o_id ord) CANCELLED reason None (updateOrderStatusRow now (o_id ord) CANCELLED w)
      in case o_deliveryPartnerId ord of
           None \<Rightarrow> w2
         | Some p \<Rightarrow> releasePartnerFromDelivery p (Some (o_id ord)) w2)"

lemma updateOrderStatusRow_frame [simp]:
  "w_payments (updateOrderStatusRow now oid st w) = w_payments w"
  "w_refunds (updateOrderStatusRow now oid st w) = w_refunds w"
  "keyed o_id (w_orders (updateOrderStatusRow now oid st w)) = keyed o_id (w_orders w)"
  by (simp_all add: updateOrderStatusRow_def updateOrderRow_def)

lemma cancelledWorld_frame [simp]:
  "w_payments (cancelledWorld now ord reason w) = w_payments w"
  "w_refunds (cancelledWorld now ord reason w) = w_refunds w"
  "w_orders (cancelledWorld now ord reason w) = w_orders (updateOrderStatusRow now (o_id ord) CANCELLED w)"
  by (simp_all add: cancelledWorld_def Let_def split: option.split)

lemma adminCancel_effect:
  assumes "findOrderById oid w = Some ord" and "o_status ord \<notin> set TERMINAL_ORDER_STATUSES"
  shows "snd (adminCancelOrder now id rx oid reason actor w)
      = handleCancellationSideEffects rx ord actor (cancelledWorld now ord reason w)"
    and "findOrderById oid (cancelledWorld now ord reason w) = Some (ord\<lparr>o_status := CANCELLED\<rparr>)"
    and "o_id ord = oid"
proof -
  show id: "o_id ord = oid" using assms(1) by (auto simp: findOrderById_def dest: lookup_key)
  have upd: "findOrderById oid (updateOrderStatusRow now oid CANCELLED w) = Some (ord\<lparr>o_status := CANCELLED\<rparr>)"
    using found_after_statusRow[OF assms(1), of now CANCELLED] by simp
  then show "findOrderById oid (cancelledWorld now ord reason w) = Some (ord\<lparr>o_status := CANCELLED\<rparr>)"
    using id by (simp add: findOrderById_def)
  show "snd (adminCancelOrder now id rx oid reason actor w)
      = handleCancellationSideEffects rx ord actor (cancelledWorld now ord reason w)"
    using assms upd id by (simp add: adminCancelOrder_def cancelledWorld_def Let_def split: option.split)
qed

lemma sideEffects_paid:
  assumes "findOrderById (o_id ord) w = Some (ord\<lparr>o_status := CANCELLED\<rparr>)" and "o_paymentStatus ord = PAID"
  shows "handleCancellationSideEffects rx ord actor w
    = snd (refundOrder rx (o_id ord) None actor (snd (releaseForOrder (o_id ord) w)))"
  using assms by (simp add: handleCancellationSideEffects_def Let_def)

text \<open>
  C6. Cancelling a paid order gives the money back: an admin cancellation of an order that is not
  terminal, is PAID, and whose active payment succeeded, with a provider that accepts the refund,
  ends with the order CANCELLED and REFUNDED, the payment REFUNDED and exactly one more completed
  refund of that payment.
\<close>
theorem cancel_refunds_paid_order:
  assumes "ordersKeyed w" and "findOrderById oid w = Some ord"
    and "o_status ord \<notin> set TERMINAL_ORDER_STATUSES" and "o_paymentStatus ord = PAID"
    and "refundable rx ord p w"
  shows "let w' = snd (adminCancelOrder now id rx oid reason actor w)
    in map_option (\<lambda>ord. (o_status ord, o_paymentStatus ord)) (findOrderById oid w') = Some (CANCELLED, PAY_REFUNDED) \<and>
       map_option p_status (findPaymentById (p_id p) w') = Some TX_REFUNDED \<and>
       completedRefunds (p_id p) w' = Suc (completedRefunds (p_id p) w)"
proof -
  note eff = adminCancel_effect[OF assms(2,3)]
  let ?v = "cancelledWorld now ord reason w"
  let ?u = "snd (releaseForOrder oid ?v)"
  let ?cur = "ord\<lparr>o_status := CANCELLED\<rparr>"
  have w': "snd (adminCancelOrder now id rx oid reason actor w) = snd (refundOrder rx oid None actor ?u)"
    using eff sideEffects_paid[of ord ?v rx actor] assms(4) by simp
  have "ordersKeyed ?u" using assms(1) by (simp add: ordersKeyed_def)
  moreover have "findOrderById oid ?u = Some ?cur" using eff(2) by (simp add: findOrderById_def)
  moreover have "o_paymentStatus ?cur = PAID" using assms(4) by simp
  moreover have "refundable rx ?cur p ?u"
    using assms(5) refundable_order_cong[of ?cur ord] refundable_frame[of ?u w] by simp
  ultimately obtain z where z: "refundOrder rx oid None actor ?u = (Inr (?cur\<lparr>o_paymentStatus := PAY_REFUNDED\<rparr>), z)"
    "findOrderById oid z = Some (?cur\<lparr>o_paymentStatus := PAY_REFUNDED\<rparr>)"
    "map_option p_status (findPaymentById (p_id p) z) = Some TX_REFUNDED"
    "completedRefunds (p_id p) z = Suc (completedRefunds (p_id p) ?u)"
    using refundOrder_success by blast
  then show ?thesis by (simp add: w' completedRefunds_def)
qed

definition paidPayment :: payment where
  "paidPayment = samplePayment\<lparr>p_status := TX_SUCCESS, p_providerPaymentId := Some ''pay''\<rparr>"

definition paidWorld :: world where
  "paidWorld = emptyWorld\<lparr>w_orders := [sampleOrder\<lparr>o_status := CONFIRMED, o_paymentStatus := PAID\<rparr>],
     w_payments := [paidPayment]\<rparr>"

lemma paidWorld_refundable:
  "refundable quietCtx (sampleOrder\<lparr>o_status := CONFIRMED, o_paymentStatus := PAID\<rparr>) paidPayment paidWorld"
proof -
  have "mathRound 10000 = 10000" using mathRound_of_int[of 10000] by simp
  then show ?thesis
    by (simp add: refundable_def payments_inv_def paidWorld_def paidPayment_def samplePayment_def sampleOrder_def
        emptyWorld_def keyed_def payment_ok_def pendingRefunds_def completedRefunds_def quietCtx_def
        findActivePaymentForOrder_def findLatest_def razorpayPortion_def refundRatio_def round2_def AMOUNT_TOLERANCE_def)
qed

lemma cancel_refunds_paid_order_witness:
  "let w' = snd (adminCancelOrder 9 id quietCtx ''o1'' None ''admin'' paidWorld)
   in map_option (\<lambda>ord. (o_status ord, o_paymentStatus ord)) (findOrderById ''o1'' w') = Some (CANCELLED, PAY_REFUNDED) \<and>
      map_option p_status (findPaymentById (p_id paidPayment) w') = Some TX_REFUNDED \<and>
      completedRefunds (p_id paidPayment) w' = Suc (completedRefunds (p_id paidPayment) paidWorld)"
  by (rule cancel_refunds_paid_order[OF _ _ _ _ paidWorld_refundable])
    (simp_all add: ordersKeyed_def keyed_def findOrderById_def paidWorld_def sampleOrder_def TERMINAL_ORDER_STATUSES_def)

section \<open>The defect: verified payments are not refundable\<close>

lemma refundOrder_no_active:
  assumes "ordersKeyed w" and "orderQuiet rx" and "findOrderById oid w = Some ord" and "o_paymentStatus ord = PAID"
    and "findActivePaymentForOrder oid w = None" and "0 < razorpayPortion ord (o_total ord)"
  shows "\<exists>w'. refundOrder rx oid None actor w = (Inl (BadRequest ''no successful payment to refund''), w') \<and>
    w_refunds w' = w_refunds w \<and> findOrderById oid w' = Some ord"
proof -
  let ?c = "claimPaymentStatusTransition oid [PAID] PAY_REFUNDED w"
  have id: "o_id ord = oid" using assms(3) by (auto simp: findOrderById_def dest: lookup_key)
  have n: "fst ?c = 1" using refundOrder_claimed[OF assms(1,3)] assms(4) by simp
  have "findActivePaymentForOrder oid (snd ?c) = None"
    using assms(5) findPayment_frame(2)[of "snd ?c" w] by simp
  then have leg: "refundProviderLeg rx ord (razorpayPortion ord (o_total ord)) actor (snd ?c)
      = (Inl (BadRequest ''no successful payment to refund''), snd ?c)"
    using assms(6) id by (simp add: refundProviderLeg_def)
  then have "refundBody rx ord None actor (snd ?c) = (Inl (BadRequest ''no successful payment to refund''), snd ?c)"
    by (simp add: refundBody_def orElse_def AMOUNT_TOLERANCE_def Let_def)
  then have r: "refundOrder rx oid None actor w = (Inl (BadRequest ''no successful payment to refund''),
      snd (claimPaymentStatusTransition oid [PAY_REFUNDED] PAID (snd ?c)))"
    using assms(3) n by (simp add: refundOrder_def split_def)
  have "findOrderById oid (snd (claimPaymentStatusTransition oid [PAY_REFUNDED] PAID (snd ?c))) = Some ord"
    using order_after_payclaim[OF order_after_payclaim[OF assms(3), of "[PAID]" PAY_REFUNDED], of "[PAY_REFUNDED]" PAID]
      assms(4) by simp
  then show ?thesis using r by simp
qed

lemma razorpayPortion_status: "razorpayPortion (ord\<lparr>o_status := st\<rparr>) r = razorpayPortion ord r"
  by (simp add: razorpayPortion_def refundRatio_def)

lemma cancel_without_active_payment:
  assumes "ordersKeyed w" and "orderQuiet rx" and "findOrderById oid w = Some ord"
    and "o_status ord \<notin> set TERMINAL_ORDER_STATUSES" and "o_paymentStatus ord = PAID"
    and "findActivePaymentForOrder oid w = None" and "0 < razorpayPortion ord (o_total ord)"
  shows "let w' = snd (adminCancelOrder now id rx oid reason actor w)
    in map_option (\<lambda>ord. (o_status ord, o_paymentStatus ord)) (findOrderById oid w') = Some (CANCELLED, PAID) \<and>
       w_refunds w' = w_refunds w"
proof -
  note eff = adminCancel_effect[OF assms(3,4)]
  let ?v = "cancelledWorld now ord reason w"
  let ?u = "snd (releaseForOrder oid ?v)"
  let ?cur = "ord\<lparr>o_status := CANCELLED\<rparr>"
  have w': "snd (adminCancelOrder now id rx oid reason actor w) = snd (refundOrder rx oid None actor ?u)"
    using eff sideEffects_paid[of ord ?v rx actor] assms(5) by simp
  have "ordersKeyed ?u" using assms(1) by (simp add: ordersKeyed_def)
  moreover have "findOrderById oid ?u = Some ?cur" using eff(2) by (simp add: findOrderById_def)
  moreover have "findActivePaymentForOrder oid ?u = None"
    using assms(6) findPayment_frame(2)[of ?u w] by simp
  moreover have "0 < razorpayPortion ?cur (o_total ?cur)"
    using assms(7) by (simp add: razorpayPortion_status)
  ultimately obtain z where "refundOrder rx oid None actor ?u = (Inl (BadRequest ''no successful payment to refund''), z)"
    "w_refunds z = w_refunds ?u" "findOrderById oid z = Some ?cur"
    using refundOrder_no_active[OF _ assms(2), of ?u oid ?cur actor] assms(5) by auto
  then show ?thesis using assms(5) by (simp add: w')
qed

lemma markOrderPaid_frame:
  "w_payments (markOrderPaid now id oid w) = w_payments w"
  "w_refunds (markOrderPaid now id oid w) = w_refunds w"
proof -
  let ?c = "claimPaymentStatusTransition oid [PAY_PENDING, PAY_FAILED, PAY_REFUNDED] PAID w"
  have "w_payments (snd ?c) = w_payments w" "w_refunds (snd ?c) = w_refunds w" by simp_all
  then show "w_payments (markOrderPaid now id oid w) = w_payments w"
    "w_refunds (markOrderPaid now id oid w) = w_refunds w"
    by (auto simp: markOrderPaid_def split_def Let_def split: option.split)
qed

text \<open>
  C7. A payment confirmed by the customer's own verify call is never refunded on cancellation:
  verification deactivates every payment attempt of the order, the settled one included, so when
  the order is later marked paid and cancelled by an admin, the refund finds no active payment,
  the failure is swallowed, and the order ends CANCELLED and still PAID with no refund made.
\<close>
theorem verified_payment_not_refunded:
  assumes "findByProviderOrderId po w = Some p" and "p_status p \<noteq> TX_SUCCESS"
    and "verifyPayment id queueUp sig fetched po pp uid w = (Inr q, w1)"
    and "w2 = markOrderPaid t id (p_orderId p) w1" and "ordersKeyed w2" and "orderQuiet rx"
    and "findOrderById (p_orderId p) w2 = Some ord" and "o_status ord \<notin> set TERMINAL_ORDER_STATUSES"
    and "o_paymentStatus ord = PAID" and "0 < razorpayPortion ord (o_total ord)"
  shows "let w3 = snd (adminCancelOrder now id rx (p_orderId p) reason actor w2)
    in map_option (\<lambda>ord. (o_status ord, o_paymentStatus ord)) (findOrderById (p_orderId p) w3) = Some (CANCELLED, PAID) \<and>
       w_refunds w3 = w_refunds w2"
proof -
  have "findActivePaymentForOrder (p_orderId p) w1 = None"
    using assms(1-3) by (rule verify_leaves_no_active)
  then have "findActivePaymentForOrder (p_orderId p) w2 = None"
    using findPayment_frame(2)[of w2 w1] markOrderPaid_frame(1) by (simp add: assms(4))
  then show ?thesis using cancel_without_active_payment assms(5-10) by blast
qed

lemma verified_payment_not_refunded_witness:
  "let w1 = snd (verifyPayment id True True (Inr sampleEntity) ''prov'' ''pay'' ''u1'' verifyWorld);
       w2 = markOrderPaid 3 id ''o1'' w1;
       w3 = snd (adminCancelOrder 9 id quietCtx ''o1'' None ''admin'' w2)
   in map_option (\<lambda>ord. (o_status ord, o_paymentStatus ord)) (findOrderById ''o1'' w3) = Some (CANCELLED, PAID) \<and>
      w_refunds w3 = []"
proof -
  have m: "mathRound 10000 = 10000" using mathRound_of_int[of 10000] by simp
  note eval = verifyPayment_def findByProviderOrderId_def verifyWorld_def samplePayment_def sampleOrder_def
      sampleEntity_def assertProviderPaymentMatches_def providerPaymentMatches_def guard_def
      transitionPaymentStatus_def deactivateOrderAttempts_def findPaymentById_def validateTransition_def
      claimStatusTransition_def getAllowedSourceStatuses_def announceSuccess_def
      enqueuePaymentSuccessNotification_def emptyWorld_def setStatus_def m
  let ?v = "verifyPayment id True True (Inr sampleEntity) ''prov'' ''pay'' ''u1'' verifyWorld"
  let ?w2 = "markOrderPaid 3 id ''o1'' (snd ?v)"
  obtain q where v: "?v = (Inr q, snd ?v)" by (simp add: eval)
  have oid: "p_orderId samplePayment = ''o1''" by (simp add: samplePayment_def)
  have p: "findByProviderOrderId ''prov'' verifyWorld = Some samplePayment" "p_status samplePayment \<noteq> TX_SUCCESS"
    by (simp_all add: eval)
  have w1: "w_orders (snd ?v) = [sampleOrder]" "w_refunds (snd ?v) = []"
    by (simp_all add: eval)
  let ?ord = "sampleOrder\<lparr>o_paymentStatus := PAID, o_status := CONFIRMED\<rparr>"
  have w2: "w_orders ?w2 = [?ord]"
    using w1 by (simp add: markOrderPaid_def findOrderById_def sampleOrder_def claimPaymentStatusTransition_def
        updateOrderStatusRow_def updateOrderRow_def Let_def)
  have rp: "0 < razorpayPortion ?ord (o_total ?ord)"
    using m by (simp add: sampleOrder_def razorpayPortion_def refundRatio_def round2_def)
  have "let w3 = snd (adminCancelOrder 9 id quietCtx (p_orderId samplePayment) None ''admin'' ?w2)
    in map_option (\<lambda>ord. (o_status ord, o_paymentStatus ord)) (findOrderById (p_orderId samplePayment) w3) = Some (CANCELLED, PAID) \<and>
       w_refunds w3 = w_refunds ?w2"
    by (rule verified_payment_not_refunded[OF p v _ _ quietCtx_quiet _ _ _ rp, of _ 3])
      (simp_all add: oid w2 ordersKeyed_def keyed_def findOrderById_def sampleOrder_def TERMINAL_ORDER_STATUSES_def)
  then show ?thesis
    using w1(2) markOrderPaid_frame(2)[of 3 "''o1''" "snd ?v"] unfolding Let_def oid by simp
qed

end
