(* ===== verification/Addresses.thy ===== *)
theory Addresses
  imports Prelude
begin

text \<open>
  Saved delivery addresses: \<^verbatim>\<open>modules/addresses/services/addresses.service.ts\<close> and its
  repository over the address table.  The columns only shown back to the customer (label,
  instructions, accuracy, provider data) are left out.  The property is that a customer never
  has two default addresses, whatever they do.
\<close>

record address =
  ad_id :: string
  ad_customerId :: string
  ad_line1 :: string
  ad_line2 :: "string option"
  ad_city :: string
  ad_state :: string
  ad_postalCode :: string
  ad_landmark :: "string option"
  ad_latitude :: "rat option"
  ad_longitude :: "rat option"
  ad_isDefault :: bool
  ad_createdAt :: int

text \<open>\<^verbatim>\<open>CreateAddressDto\<close> and, every field optional, \<^verbatim>\<open>UpdateAddressDto\<close>.\<close>

record addressInput =
  an_line1 :: string
  an_line2 :: "string option"
  an_city :: string
  an_state :: string
  an_postalCode :: string
  an_landmark :: "string option"
  an_latitude :: "rat option"
  an_longitude :: "rat option"
  an_isDefault :: "bool option"

record addressPatch =
  au_line1 :: "string option"
  au_line2 :: "string option"
  au_city :: "string option"
  au_state :: "string option"
  au_postalCode :: "string option"
  au_landmark :: "string option"
  au_latitude :: "rat option"
  au_longitude :: "rat option"
  au_isDefault :: "bool option"

section \<open>Repository\<close>

definition findAllForCustomer :: "string \<Rightarrow> address list \<Rightarrow> address list" where
  "findAllForCustomer cid rows =
     sort_key (\<lambda>a. if ad_isDefault a then 0 else 1 :: nat)
       (sort_key (\<lambda>a. - ad_createdAt a) (filter (\<lambda>a. ad_customerId a = cid) rows))"

definition findAddress :: "string \<Rightarrow> string \<Rightarrow> address list \<Rightarrow> address option" where
  "findAddress aid cid rows = List.find (\<lambda>a. ad_id a = aid \<and> ad_customerId a = cid) rows"

definition countForCustomer :: "string \<Rightarrow> address list \<Rightarrow> nat" where
  "countForCustomer cid rows = matches (\<lambda>a. ad_customerId a = cid) rows"

definition unsetDefault :: "string \<Rightarrow> address list \<Rightarrow> address list" where
  "unsetDefault cid rows =
     modify (\<lambda>a. ad_customerId a = cid \<and> ad_isDefault a) (\<lambda>a. a\<lparr>ad_isDefault := False\<rparr>) rows"

definition patchField :: "'a option \<Rightarrow> 'a \<Rightarrow> 'a" where
  "patchField new old = (case new of None \<Rightarrow> old | Some v \<Rightarrow> v)"

definition patchNullable :: "'a option \<Rightarrow> 'a option \<Rightarrow> 'a option" where
  "patchNullable new old = (case new of None \<Rightarrow> old | Some v \<Rightarrow> Some v)"

definition applyAddressPatch :: "addressPatch \<Rightarrow> address \<Rightarrow> address" where
  "applyAddressPatch d a =
     a\<lparr>ad_line1 := patchField (au_line1 d) (ad_line1 a),
       ad_line2 := patchNullable (au_line2 d) (ad_line2 a),
       ad_city := patchField (au_city d) (ad_city a),
       ad_state := patchField (au_state d) (ad_state a),
       ad_postalCode := patchField (au_postalCode d) (ad_postalCode a),
       ad_landmark := patchNullable (au_landmark d) (ad_landmark a),
       ad_latitude := patchNullable (au_latitude d) (ad_latitude a),
       ad_longitude := patchNullable (au_longitude d) (ad_longitude a),
       ad_isDefault := patchField (au_isDefault d) (ad_isDefault a)\<rparr>"

definition promoteMostRecent :: "string \<Rightarrow> address list \<Rightarrow> address list" where
  "promoteMostRecent cid rows =
     (case findLatest (\<lambda>a. ad_customerId a = cid) ad_createdAt rows of
        None \<Rightarrow> rows
      | Some a \<Rightarrow> modify (\<lambda>b. ad_id b = ad_id a) (\<lambda>b. b\<lparr>ad_isDefault := True\<rparr>) rows)"

section \<open>Service\<close>

fun joinWith :: "string \<Rightarrow> string list \<Rightarrow> string" where
  "joinWith sep [] = []"
| "joinWith sep [p] = p"
| "joinWith sep (p # q # ps) = p @ sep @ joinWith sep (q # ps)"

definition formatAddressForOrder :: "address \<Rightarrow> string" where
  "formatAddressForOrder a =
     joinWith '', ''
       (filter (\<lambda>part. part \<noteq> [])
         ([ad_line1 a] @ (case ad_line2 a of None \<Rightarrow> [] | Some l \<Rightarrow> [l])
           @ (case ad_landmark a of None \<Rightarrow> [] | Some l \<Rightarrow> [l])
           @ [ad_city a, ad_state a, ad_postalCode a]))"

definition findByIdForCustomer :: "string \<Rightarrow> string \<Rightarrow> address list \<Rightarrow> address result" where
  "findByIdForCustomer aid cid rows =
     (case findAddress aid cid rows of None \<Rightarrow> Inl (NotFound ''Address'') | Some a \<Rightarrow> Inr a)"

definition createAddress ::
  "string \<Rightarrow> int \<Rightarrow> string \<Rightarrow> addressInput \<Rightarrow> address list \<Rightarrow> address \<times> address list" where
  "createAddress uuid now cid d rows =
     (let shouldBeDefault = (an_isDefault d = Some True \<or> countForCustomer cid rows = 0);
          rows1 = (if shouldBeDefault then unsetDefault cid rows else rows);
          a = \<lparr>ad_id = uuid, ad_customerId = cid, ad_line1 = an_line1 d, ad_line2 = an_line2 d,
               ad_city = an_city d, ad_state = an_state d, ad_postalCode = an_postalCode d,
               ad_landmark = an_landmark d, ad_latitude = an_latitude d, ad_longitude = an_longitude d,
               ad_isDefault = shouldBeDefault, ad_createdAt = now\<rparr>
      in (a, rows1 @ [a]))"

definition updateAddress ::
  "string \<Rightarrow> string \<Rightarrow> addressPatch \<Rightarrow> address list \<Rightarrow> (address list, unit) outcome" where
  "updateAddress cid aid d rows =
     (case findByIdForCustomer aid cid rows of
        Inl e \<Rightarrow> (Inl e, rows)
      | Inr _ \<Rightarrow>
          (let rows1 = (if au_isDefault d = Some True then unsetDefault cid rows else rows)
           in (Inr (), modify (\<lambda>a. ad_id a = aid) (applyAddressPatch d) rows1)))"

definition setDefault :: "string \<Rightarrow> string \<Rightarrow> address list \<Rightarrow> (address list, unit) outcome" where
  "setDefault cid aid rows =
     (case findByIdForCustomer aid cid rows of
        Inl e \<Rightarrow> (Inl e, rows)
      | Inr _ \<Rightarrow>
          (Inr (), modify (\<lambda>a. ad_id a = aid) (\<lambda>a. a\<lparr>ad_isDefault := True\<rparr>) (unsetDefault cid rows)))"

definition removeAddress :: "string \<Rightarrow> string \<Rightarrow> address list \<Rightarrow> (address list, unit) outcome" where
  "removeAddress cid aid rows =
     (case findByIdForCustomer aid cid rows of
        Inl e \<Rightarrow> (Inl e, rows)
      | Inr a \<Rightarrow>
          (let rows1 = filter (\<lambda>b. ad_id b \<noteq> aid) rows
           in (Inr (), if ad_isDefault a then promoteMostRecent cid rows1 else rows1)))"

section \<open>One default address\<close>

definition defaultsOf :: "string \<Rightarrow> address list \<Rightarrow> address list" where
  "defaultsOf cid rows = filter (\<lambda>a. ad_customerId a = cid \<and> ad_isDefault a) rows"

definition addresses_inv :: "address list \<Rightarrow> bool" where
  "addresses_inv rows \<longleftrightarrow> keyed ad_id rows \<and> (\<forall>cid. length (defaultsOf cid rows) \<le> 1)"

text \<open>The effect of each write on the default addresses of a customer.\<close>

lemma defaults_unset [simp]:
  "defaultsOf cid (unsetDefault cid' rows) = (if cid = cid' then [] else defaultsOf cid rows)"
  by (induction rows) (auto simp: defaultsOf_def unsetDefault_def)

lemma defaults_snoc [simp]:
  "defaultsOf cid (rows @ [a])
     = defaultsOf cid rows @ (if ad_customerId a = cid \<and> ad_isDefault a then [a] else [])"
  by (simp add: defaultsOf_def)

lemma unset_mem:
  "b \<in> set (unsetDefault cid rows) \<Longrightarrow>
     \<exists>b0 \<in> set rows. ad_id b0 = ad_id b \<and> ad_customerId b0 = ad_customerId b"
  by (auto simp: unsetDefault_def set_modify)

lemma keyed_unset [simp]: "keyed ad_id (unsetDefault cid rows) = keyed ad_id rows"
  by (simp add: unsetDefault_def keyed_modify)

lemma ids_unset [simp]: "ad_id ` set (unsetDefault cid rows) = ad_id ` set rows"
  by (induction rows) (auto simp: unsetDefault_def)

lemma patch_simps [simp]:
  "ad_id (applyAddressPatch d a) = ad_id a" "ad_customerId (applyAddressPatch d a) = ad_customerId a"
  by (simp_all add: applyAddressPatch_def)

text \<open>Writing one row makes at most that row a new default of its customer.\<close>

lemma defaults_modify:
  assumes k: "keyed ad_id rows" and c: "\<And>a. ad_customerId (f a) = ad_customerId a"
    and mine: "\<And>a. a \<in> set rows \<Longrightarrow> ad_id a = aid \<Longrightarrow> ad_customerId a = cid"
  shows "length (defaultsOf cid' (modify (\<lambda>a. ad_id a = aid) f rows))
    \<le> length (defaultsOf cid' rows) + (if cid' = cid then 1 else 0)"
  using k mine
proof (induction rows)
  case (Cons a rows)
  have k: "keyed ad_id rows" using Cons.prems(1) by (simp add: keyed_def)
  show ?case
  proof (cases "ad_id a = aid")
    case True
    then have "modify (\<lambda>b. ad_id b = aid) f rows = rows"
      using Cons.prems(1) by (intro modify_none) (auto simp: keyed_def dest: fresh_neq)
    then show ?thesis using True Cons.prems(2)[of a] c by (simp add: defaultsOf_def)
  next
    case False
    with Cons.IH[OF k] Cons.prems(2) show ?thesis by (auto simp: defaultsOf_def split: if_splits)
  qed
qed (simp add: defaultsOf_def)

lemma defaults_filter:
  "length (defaultsOf cid (filter p rows)) \<le> length (defaultsOf cid rows)"
  by (induction rows) (auto simp: defaultsOf_def)

lemma found_address:
  assumes "findByIdForCustomer aid cid rows = Inr a" and "keyed ad_id rows"
  shows "a \<in> set rows" "ad_id a = aid" "ad_customerId a = cid"
    "\<And>b. b \<in> set rows \<Longrightarrow> ad_id b = aid \<Longrightarrow> b = a"
proof -
  show "a \<in> set rows" "ad_id a = aid" "ad_customerId a = cid"
    using assms(1) by (auto simp: findByIdForCustomer_def findAddress_def split: option.splits dest: find_SomeD)
  then show "\<And>b. b \<in> set rows \<Longrightarrow> ad_id b = aid \<Longrightarrow> b = a"
    using keyed_same[OF assms(2)] by auto
qed

section \<open>The invariant is kept\<close>

lemma create_address_inv:
  assumes "addresses_inv rows" and "uuid \<notin> ad_id ` set rows"
  shows "addresses_inv (snd (createAddress uuid now cid d rows))"
proof -
  have "defaultsOf cid rows = []" if "countForCustomer cid rows = 0"
    using that by (auto simp: countForCustomer_def matches_def defaultsOf_def filter_empty_conv)
  with assms show ?thesis
    by (auto simp: addresses_inv_def createAddress_def Let_def keyed_snoc)
qed

lemma write_address_inv:
  assumes inv: "addresses_inv rows" and a: "findByIdForCustomer aid cid rows = Inr a"
    and f: "\<And>b. ad_id (f b) = ad_id b" "\<And>b. ad_customerId (f b) = ad_customerId b"
  shows "addresses_inv (modify (\<lambda>b. ad_id b = aid) f (unsetDefault cid rows))"
proof -
  have k: "keyed ad_id rows" using inv by (simp add: addresses_inv_def)
  have mine: "ad_customerId b = cid" if "b \<in> set (unsetDefault cid rows)" "ad_id b = aid" for b
    using unset_mem[OF that(1)] that(2) found_address(3,4)[OF a k] by metis
  have "length (defaultsOf c (modify (\<lambda>b. ad_id b = aid) f (unsetDefault cid rows))) \<le> 1" for c
  proof -
    have "length (defaultsOf c (unsetDefault cid rows)) + (if c = cid then 1 else 0) \<le> 1"
      using inv by (simp add: addresses_inv_def)
    then show ?thesis
      using defaults_modify[of "unsetDefault cid rows" f aid cid c] k f(2) mine by fastforce
  qed
  with k f(1) show ?thesis by (simp add: addresses_inv_def keyed_modify)
qed

text \<open>An update that does not ask for the default flag can only take it away.\<close>

lemma patch_address_inv:
  assumes inv: "addresses_inv rows" and d: "au_isDefault d \<noteq> Some True"
  shows "addresses_inv (modify (\<lambda>b. ad_id b = aid) (applyAddressPatch d) rows)"
proof -
  have "ad_isDefault (applyAddressPatch d b) \<Longrightarrow> ad_isDefault b" for b
    using d by (auto simp: applyAddressPatch_def patchField_def split: option.splits)
  then have "length (defaultsOf c (modify (\<lambda>b. ad_id b = aid) (applyAddressPatch d) rows))
      \<le> length (defaultsOf c rows)" for c
    by (induction rows) (auto simp: defaultsOf_def)
  with inv show ?thesis unfolding addresses_inv_def by (meson keyed_modify order_trans patch_simps(1))
qed

lemma promote_inv:
  assumes inv: "addresses_inv rows" and none: "defaultsOf cid rows = []"
  shows "addresses_inv (promoteMostRecent cid rows)"
proof (cases "findLatest (\<lambda>a. ad_customerId a = cid) ad_createdAt rows")
  case (Some a)
  note a = findLatest_SomeD[OF Some]
  have k: "keyed ad_id rows" using inv by (simp add: addresses_inv_def)
  have mine: "b \<in> set rows \<Longrightarrow> ad_id b = ad_id a \<Longrightarrow> ad_customerId b = cid" for b
    using keyed_same[OF k a(1)] a(2) by metis
  have "length (defaultsOf c (modify (\<lambda>b. ad_id b = ad_id a) (\<lambda>b. b\<lparr>ad_isDefault := True\<rparr>) rows)) \<le> 1" for c
  proof -
    have "length (defaultsOf c rows) + (if c = cid then 1 else 0) \<le> 1"
      using inv none by (auto simp: addresses_inv_def)
    then show ?thesis
      using defaults_modify[of rows "\<lambda>b. b\<lparr>ad_isDefault := True\<rparr>" "ad_id a" cid c] k mine by fastforce
  qed
  with k Some show ?thesis by (simp add: promoteMostRecent_def addresses_inv_def keyed_modify)
qed (use inv in \<open>simp add: promoteMostRecent_def\<close>)

lemma remove_address_inv:
  assumes inv: "addresses_inv rows"
  shows "addresses_inv (snd (removeAddress cid aid rows))"
proof (cases "findByIdForCustomer aid cid rows")
  case (Inr a)
  have k: "keyed ad_id rows" using inv by (simp add: addresses_inv_def)
  note a = found_address[OF Inr k]
  let ?rows = "filter (\<lambda>b. ad_id b \<noteq> aid) rows"
  have inv': "addresses_inv ?rows"
    using inv defaults_filter[of _ "\<lambda>b. ad_id b \<noteq> aid" rows]
    unfolding addresses_inv_def by (meson keyed_filter order_trans)
  show ?thesis
  proof (cases "ad_isDefault a")
    case True
    have "a \<in> set (defaultsOf cid rows)" using a(1,3) True by (simp add: defaultsOf_def)
    moreover have "length (defaultsOf cid rows) \<le> 1" using inv by (simp add: addresses_inv_def)
    ultimately have "defaultsOf cid rows = [a]" by (cases "defaultsOf cid rows") auto
    moreover have "defaultsOf cid ?rows = filter (\<lambda>b. ad_id b \<noteq> aid) (defaultsOf cid rows)"
      by (simp add: defaultsOf_def conj_commute)
    ultimately have "defaultsOf cid ?rows = []" using a(2) by simp
    with inv' True Inr show ?thesis by (simp add: removeAddress_def Let_def promote_inv)
  qed (use inv' Inr in \<open>simp add: removeAddress_def Let_def\<close>)
qed (use inv in \<open>simp add: removeAddress_def\<close>)

section \<open>Requests of the customers\<close>

inductive addressStep :: "address list \<Rightarrow> address list \<Rightarrow> bool" where
  create: "uuid \<notin> ad_id ` set rows \<Longrightarrow> addressStep rows (snd (createAddress uuid now cid d rows))"
| update: "addressStep rows (snd (updateAddress cid aid p rows))"
| default: "addressStep rows (snd (setDefault cid aid rows))"
| remove: "addressStep rows (snd (removeAddress cid aid rows))"

lemma addressStep_inv: "addressStep rows rows' \<Longrightarrow> addresses_inv rows \<Longrightarrow> addresses_inv rows'"
proof (induction rule: addressStep.induct)
  case (update rows cid aid p)
  then show ?case
  proof (cases "findByIdForCustomer aid cid rows")
    case (Inr a)
    with update show ?thesis
      using write_address_inv[OF _ Inr, of "applyAddressPatch p"] patch_address_inv[of rows p aid]
      by (simp add: updateAddress_def Let_def)
  qed (simp add: updateAddress_def)
next
  case (default rows cid aid)
  then show ?case
  proof (cases "findByIdForCustomer aid cid rows")
    case (Inr a)
    with default show ?thesis
      using write_address_inv[OF _ Inr, of "\<lambda>b. b\<lparr>ad_isDefault := True\<rparr>"] by (simp add: setDefault_def)
  qed (simp add: setDefault_def)
qed (simp_all add: create_address_inv remove_address_inv)

section \<open>Properties\<close>

text \<open>
  A customer never has two default addresses: from an empty address book, any sequence of
  create, update, set-default and remove requests of any customers leaves every customer with at
  most one default address.
\<close>
theorem one_default_address:
  assumes "addressStep\<^sup>*\<^sup>* [] rows"
  shows "length (filter (\<lambda>a. ad_customerId a = cid \<and> ad_isDefault a) rows) \<le> 1"
proof -
  have "addresses_inv rows" using assms
  proof (induction rule: rtranclp_induct)
    case base
    show ?case by (simp add: addresses_inv_def keyed_def defaultsOf_def)
  qed (rule addressStep_inv)
  then show ?thesis by (simp add: addresses_inv_def defaultsOf_def)
qed

definition homeInput :: addressInput where
  "homeInput = \<lparr>an_line1 = ''1 Road'', an_line2 = None, an_city = ''City'', an_state = ''ST'',
     an_postalCode = ''560001'', an_landmark = None, an_latitude = None, an_longitude = None,
     an_isDefault = Some True\<rparr>"

definition twoHomes :: "address list" where
  "twoHomes = snd (createAddress ''a2'' 2 ''u'' homeInput (snd (createAddress ''a1'' 1 ''u'' homeInput [])))"

lemma one_default_address_witness:
  "map ad_isDefault twoHomes = [False, True] \<and>
   length (filter (\<lambda>a. ad_customerId a = ''u'' \<and> ad_isDefault a) twoHomes) \<le> 1"
proof -
  have "addressStep [] (snd (createAddress ''a1'' 1 ''u'' homeInput []))" by (rule addressStep.create) simp
  moreover have "addressStep (snd (createAddress ''a1'' 1 ''u'' homeInput [])) twoHomes"
    unfolding twoHomes_def by (rule addressStep.create) (simp add: createAddress_def Let_def unsetDefault_def)
  ultimately have "addressStep\<^sup>*\<^sup>* [] twoHomes" by (meson r_into_rtranclp rtranclp.rtrancl_into_rtrancl)
  from one_default_address[OF this, of "''u''"] show ?thesis
    by (simp add: twoHomes_def createAddress_def Let_def homeInput_def unsetDefault_def)
qed

end
