(* ===== verification/Menu.thy ===== *)
theory Menu
  imports Store
begin

text \<open>
  The menu tables of \<^verbatim>\<open>schema.prisma\<close> as the cart and the order placement read them: an item
  with its category's restaurant, its variants and its add-on groups, and the resolution of one
  requested order line against them (the body of the \<^verbatim>\<open>dto.items.map\<close> in
  \<^verbatim>\<open>OrdersService.placeOrderInternal\<close>).
\<close>

record menuVariant =
  mv_id :: string
  mv_price :: rat

record addonOption =
  ao_id :: string
  ao_name :: string
  ao_price :: rat
  ao_isAvailable :: bool

record addonGroup =
  ag_id :: string
  ag_name :: string
  ag_minSelection :: int
  ag_maxSelection :: int
  ag_options :: "addonOption list"

record menuItem =
  mi_id :: string
  mi_restaurantId :: string
  mi_name :: string
  mi_basePrice :: rat
  mi_isAvailable :: bool
  mi_variants :: "menuVariant list"
  mi_addons :: "addonGroup list"

text \<open>\<^verbatim>\<open>CreateOrderItemDto\<close>.\<close>

record orderLineInput =
  li_menuItemId :: string
  li_variantId :: "string option"
  li_addonOptionIds :: "string list option"
  li_quantity :: int
  li_instructions :: "string option"

text \<open>\<^verbatim>\<open>xs.map(f)\<close> where \<^verbatim>\<open>f\<close> may throw: the first exception wins.\<close>

fun traverse :: "('a \<Rightarrow> 'b result) \<Rightarrow> 'a list \<Rightarrow> 'b list result" where
  "traverse f [] = Inr []"
| "traverse f (x # xs) = andThen (f x) (\<lambda>y. andThen (traverse f xs) (\<lambda>ys. Inr (y # ys)))"

section \<open>Options and prices of an item\<close>

definition itemOptions :: "menuItem \<Rightarrow> addonOption list" where
  "itemOptions mi = concat (map ag_options (mi_addons mi))"

text \<open>\<^verbatim>\<open>new Map(pairs)\<close>: a later pair with the same key replaces an earlier one.\<close>

definition optionIndex :: "menuItem \<Rightarrow> string \<Rightarrow> addonOption option" where
  "optionIndex mi oid = lookup ao_id oid (rev (itemOptions mi))"

definition linePrice :: "menuItem \<Rightarrow> string option \<Rightarrow> rat result" where
  "linePrice mi variantId =
     (if truthy variantId
      then (case lookup mv_id (the variantId) (mi_variants mi) of
              None \<Rightarrow> Inl (BadRequest ''Variant not found'')
            | Some v \<Rightarrow> Inr (mv_price v))
      else Inr (mi_basePrice mi))"

definition selectOption :: "menuItem \<Rightarrow> string \<Rightarrow> (string \<times> string \<times> rat) result" where
  "selectOption mi oid =
     (case optionIndex mi oid of
        None \<Rightarrow> Inl (BadRequest ''Addon option not found'')
      | Some opt \<Rightarrow>
          if \<not> ao_isAvailable opt then Inl (BadRequest ''Addon option unavailable'')
          else Inr (ao_id opt, ao_name opt, ao_price opt))"

definition selectedCount :: "(string \<times> string \<times> rat) list \<Rightarrow> addonGroup \<Rightarrow> int" where
  "selectedCount selected g =
     int (length (filter (\<lambda>(oid, _). \<exists>opt \<in> set (ag_options g). ao_id opt = oid) selected))"

definition selectionOk :: "(string \<times> string \<times> rat) list \<Rightarrow> addonGroup \<Rightarrow> bool" where
  "selectionOk selected g \<longleftrightarrow>
     \<not> (selectedCount selected g < ag_minSelection g \<or> selectedCount selected g > ag_maxSelection g)"

definition addonsTotal :: "(string \<times> string \<times> rat) list \<Rightarrow> rat" where
  "addonsTotal selected = foldl (\<lambda>sum opt. sum + snd (snd opt)) 0 selected"

definition resolveLine :: "string \<Rightarrow> menuItem list \<Rightarrow> orderLineInput \<Rightarrow> orderItem result" where
  "resolveLine restaurantId menuItems item =
     (case lookup mi_id (li_menuItemId item) menuItems of
        None \<Rightarrow> Inl (NotFound ''Menu item'')
      | Some mi \<Rightarrow>
          andThen (guard (mi_restaurantId mi = restaurantId)
                    (BadRequest ''All items must belong to the selected restaurant'')) (\<lambda>_.
          andThen (linePrice mi (li_variantId item)) (\<lambda>unitPrice.
          andThen (traverse (selectOption mi)
                    (case li_addonOptionIds item of None \<Rightarrow> [] | Some os \<Rightarrow> os)) (\<lambda>selected.
          andThen (guard (\<forall>g \<in> set (mi_addons mi). selectionOk selected g)
                    (BadRequest ''addon selections'')) (\<lambda>_.
          Inr \<lparr>i_menuItemId = li_menuItemId item, i_variantId = li_variantId item,
               i_quantity = li_quantity item, i_unitPrice = unitPrice,
               i_totalPrice = (unitPrice + addonsTotal selected) * of_int (li_quantity item),
               i_instructions = li_instructions item, i_addons = selected\<rparr>)))))"

section \<open>What a resolved line is\<close>

lemma traverse_Inr_iff:
  "traverse f xs = Inr ys \<longleftrightarrow> list_all2 (\<lambda>x y. f x = Inr y) xs ys"
  by (induction xs arbitrary: ys) (auto simp: andThen_Inr_iff list_all2_Cons1)

lemma traverse_ok_iff: "ok (traverse f xs) \<longleftrightarrow> (\<forall>x \<in> set xs. ok (f x))"
proof (induction xs)
  case (Cons x xs)
  then show ?case by (cases "f x"; cases "traverse f xs") auto
qed simp

lemma addonsTotal_sum: "addonsTotal selected = sum_list (map (\<lambda>opt. snd (snd opt)) selected)"
proof -
  have "foldl (\<lambda>sum opt. sum + snd (snd opt)) a selected
      = a + sum_list (map (\<lambda>opt. snd (snd opt)) selected)" for a :: rat
    by (induction selected arbitrary: a) (auto simp: add.assoc)
  then show ?thesis by (simp add: addonsTotal_def)
qed

lemma resolveLine_fields:
  assumes "resolveLine rid menu item = Inr line"
  shows "\<exists>mi. lookup mi_id (li_menuItemId item) menu = Some mi \<and> mi_restaurantId mi = rid \<and>
    linePrice mi (li_variantId item) = Inr (i_unitPrice line) \<and>
    traverse (selectOption mi) (case li_addonOptionIds item of None \<Rightarrow> [] | Some os \<Rightarrow> os) = Inr (i_addons line) \<and>
    (\<forall>g \<in> set (mi_addons mi). selectionOk (i_addons line) g) \<and>
    i_menuItemId line = li_menuItemId item \<and> i_quantity line = li_quantity item \<and>
    i_totalPrice line = (i_unitPrice line + addonsTotal (i_addons line)) * of_int (i_quantity line)"
proof (cases "lookup mi_id (li_menuItemId item) menu")
  case (Some mi)
  with assms show ?thesis by (clarsimp simp: resolveLine_def andThen_Inr_iff)
qed (use assms in \<open>simp add: resolveLine_def\<close>)

text \<open>A menu whose prices are not negative prices every line non-negatively.\<close>

definition wf_menu :: "menuItem list \<Rightarrow> bool" where
  "wf_menu menu \<longleftrightarrow> (\<forall>mi \<in> set menu. 0 \<le> mi_basePrice mi \<and> (\<forall>v \<in> set (mi_variants mi). 0 \<le> mv_price v) \<and>
     (\<forall>opt \<in> set (itemOptions mi). 0 \<le> ao_price opt))"

lemma selected_nonneg:
  assumes "\<forall>opt \<in> set (itemOptions mi). 0 \<le> ao_price opt" and "selectOption mi oid = Inr s"
  shows "0 \<le> snd (snd s)"
proof -
  obtain opt where "lookup ao_id oid (rev (itemOptions mi)) = Some opt" "snd (snd s) = ao_price opt"
    using assms(2) by (auto simp: selectOption_def optionIndex_def split: option.splits if_splits)
  with assms(1) show ?thesis by (auto dest: lookup_SomeD)
qed

lemma linePrice_nonneg:
  assumes "wf_menu menu" and "mi \<in> set menu" and "linePrice mi v = Inr p"
  shows "0 \<le> p"
proof (cases "truthy v")
  case True
  then obtain mv where "lookup mv_id (the v) (mi_variants mi) = Some mv" "p = mv_price mv"
    using assms(3) by (auto simp: linePrice_def split: option.splits)
  then show ?thesis using assms(1,2) by (auto simp: wf_menu_def dest: lookup_SomeD)
next
  case False
  then show ?thesis using assms by (auto simp: linePrice_def wf_menu_def)
qed

lemma line_total_nonneg:
  assumes menu: "wf_menu menu" and q: "0 \<le> li_quantity item" and run: "resolveLine rid menu item = Inr line"
  shows "0 \<le> i_totalPrice line"
proof -
  obtain mi ids where mi: "lookup mi_id (li_menuItemId item) menu = Some mi"
    and p: "linePrice mi (li_variantId item) = Inr (i_unitPrice line)"
    and sel: "traverse (selectOption mi) ids = Inr (i_addons line)"
    and tot: "i_totalPrice line = (i_unitPrice line + addonsTotal (i_addons line)) * of_int (li_quantity item)"
    using resolveLine_fields[OF run] by auto
  have mem: "mi \<in> set menu" using mi by (rule lookup_mem)
  have opts: "\<forall>opt \<in> set (itemOptions mi). 0 \<le> ao_price opt" using menu mem by (simp add: wf_menu_def)
  have "\<forall>s \<in> set (i_addons line). 0 \<le> snd (snd s)"
    using sel selected_nonneg[OF opts]
    unfolding traverse_Inr_iff list_all2_conv_all_nth by (metis in_set_conv_nth)
  then have "0 \<le> addonsTotal (i_addons line)" by (auto simp: addonsTotal_sum intro!: sum_list_nonneg)
  with linePrice_nonneg[OF menu mem p] q show ?thesis by (simp add: tot)
qed

end
