(* ===== verification/OrderPlacement.thy ===== *)
theory OrderPlacement
  imports Addresses Menu Orders
begin

text \<open>
  Order placement: \<^verbatim>\<open>OrdersService.placeOrder\<close> and \<^verbatim>\<open>placeOrderInternal\<close> with the Redis
  advisory lock of \<^verbatim>\<open>RedisService\<close>, idempotent replay, menu resolution, pricing, coupon
  reservation with its compensation, and the unique index on (customer, idempotency key).

  \<^verbatim>\<open>placeCtx\<close> fixes what a run gets from outside: the clock, the generated ids, the
  serialization aborts, the error of the insert if the database fails, whether Redis and the queue
  answer, and \<open>pc_env1\<close>, \<open>pc_env2\<close>, what other requests commit after the key lookup and
  between the reservation and the insert.
\<close>

record createOrderInput =
  co_restaurantId :: string
  co_addressId :: "string option"
  co_deliveryAddress :: "string option"
  co_paymentMode :: "paymentMode option"
  co_branchId :: "string option"
  co_notes :: "string option"
  co_couponCode :: "string option"
  co_items :: "orderLineInput list"
  co_idempotencyKey :: string

record placeCtx =
  pc_now :: int
  pc_orderId :: string
  pc_orderNumber :: string
  pc_redemptionId :: string
  pc_aborts :: "nat \<Rightarrow> bool"
  pc_env1 :: "world \<Rightarrow> world"
  pc_env2 :: "world \<Rightarrow> world"
  pc_dbError :: "error option"
  pc_redisUp :: bool
  pc_queueUp :: bool

record catalog =
  cat_menu :: "menuItem list"
  cat_addresses :: "address list"

section \<open>The advisory lock\<close>

text \<open>\<^verbatim>\<open>SET key 1 PX ttl NX\<close>: the keys currently held; an expired key is no longer in the list.\<close>

definition tryLock :: "bool \<Rightarrow> string \<Rightarrow> string list \<Rightarrow> (string list, bool) outcome" where
  "tryLock up key held =
     (if \<not> up then (Inl (Unavailable ''redis''), held)
      else if key \<in> set held then (Inr False, held)
      else (Inr True, key # held))"

definition releaseLock :: "string \<Rightarrow> string list \<Rightarrow> string list" where
  "releaseLock key held = filter (\<lambda>k. k \<noteq> key) held"

definition placementLockKey :: "string \<Rightarrow> string \<Rightarrow> string" where
  "placementLockKey customerId key = ''order-placement-lock:'' @ customerId @ '':'' @ key"

section \<open>Creating the row\<close>

text \<open>The row the database keeps: every money column is rounded to two places as it is written.\<close>

definition storedItem :: "orderItem \<Rightarrow> orderItem" where
  "storedItem i = i\<lparr>i_unitPrice := dec2 (i_unitPrice i), i_totalPrice := dec2 (i_totalPrice i),
     i_addons := map (\<lambda>(a, b, price). (a, b, dec2 price)) (i_addons i)\<rparr>"

definition storedOrder :: "order \<Rightarrow> order" where
  "storedOrder r = r\<lparr>o_subtotal := dec2 (o_subtotal r), o_deliveryFee := dec2 (o_deliveryFee r),
     o_tax := dec2 (o_tax r), o_discount := dec2 (o_discount r), o_total := dec2 (o_total r),
     o_walletUsed := dec2 (o_walletUsed r), o_items := map storedItem (o_items r)\<rparr>"

lemma storedOrder_simps [simp]:
  "o_id (storedOrder r) = o_id r" "o_customerId (storedOrder r) = o_customerId r"
  "o_idempotencyKey (storedOrder r) = o_idempotencyKey r" "o_couponId (storedOrder r) = o_couponId r"
  "o_discount (storedOrder r) = dec2 (o_discount r)"
  by (simp_all add: storedOrder_def)

definition createOrder :: "error option \<Rightarrow> order \<Rightarrow> world \<Rightarrow> (world, order) outcome" where
  "createOrder dbError ord w =
     (case dbError of
        Some e \<Rightarrow> (Inl e, w)
      | None \<Rightarrow>
          if \<exists>r \<in> set (w_orders w). o_id r = o_id ord \<or> o_orderNumber r = o_orderNumber ord \<or>
               (o_customerId r = o_customerId ord \<and> o_idempotencyKey ord \<noteq> None \<and>
                o_idempotencyKey r = o_idempotencyKey ord)
          then (Inl (UniqueViolation ''Order''), w)
          else (Inr (storedOrder ord), w\<lparr>w_orders := w_orders w @ [storedOrder ord]\<rparr>))"

definition deliveryTarget ::
  "catalog \<Rightarrow> string \<Rightarrow> createOrderInput
     \<Rightarrow> (string \<times> rat option \<times> rat option \<times> string option) result" where
  "deliveryTarget cat customerId dto =
     (if truthy (co_addressId dto)
      then andThen (findByIdForCustomer (the (co_addressId dto)) customerId (cat_addresses cat))
             (\<lambda>a. Inr (formatAddressForOrder a, ad_latitude a, ad_longitude a, Some (ad_id a)))
      else if truthy (co_deliveryAddress dto)
        then Inr (the (co_deliveryAddress dto), None, None, None)
      else Inl (BadRequest ''Either addressId or deliveryAddress must be provided''))"

text \<open>\<^verbatim>\<open>findMany({ where: { id: { in: ids } } })\<close> and then the lines, in order.\<close>

definition resolveItems :: "catalog \<Rightarrow> createOrderInput \<Rightarrow> orderItem list result" where
  "resolveItems cat dto =
     (let menuItems = filter (\<lambda>m. mi_id m \<in> li_menuItemId ` set (co_items dto)) (cat_menu cat)
      in traverse (resolveLine (co_restaurantId dto) menuItems) (co_items dto))"

definition newOrder ::
  "placeCtx \<Rightarrow> string \<Rightarrow> createOrderInput \<Rightarrow> string \<times> rat option \<times> rat option \<times> string option
     \<Rightarrow> orderItem list \<Rightarrow> pricingResult \<Rightarrow> coupon option \<Rightarrow> order" where
  "newOrder pc customerId dto target items pricing cpn =
     (case target of (addr, lat, lon, addressId) \<Rightarrow>
       \<lparr>o_id = pc_orderId pc, o_customerId = customerId, o_restaurantId = co_restaurantId dto,
        o_branchId = co_branchId dto, o_deliveryPartnerId = None,
        o_orderNumber = pc_orderNumber pc, o_idempotencyKey = Some (co_idempotencyKey dto),
        o_status = PENDING, o_paymentStatus = PAY_PENDING,
        o_paymentMode = (case co_paymentMode dto of None \<Rightarrow> ONLINE | Some m \<Rightarrow> m),
        o_addressId = addressId, o_subtotal = pr_subtotal pricing,
        o_deliveryFee = pr_deliveryFee pricing, o_tax = pr_tax pricing,
        o_couponId = map_option c_id cpn, o_discount = pr_discount pricing,
        o_total = pr_total pricing, o_walletUsed = 0, o_notes = co_notes dto,
        o_deliveryAddress = addr, o_latitude = lat, o_longitude = lon,
        o_placedAt = pc_now pc, o_deliveredAt = None, o_items = items\<rparr>)"

section \<open>The pipeline\<close>

definition scheduleAcceptanceTimeout :: "bool \<Rightarrow> string \<Rightarrow> string \<Rightarrow> world \<Rightarrow> (world, unit) outcome" where
  "scheduleAcceptanceTimeout queueUp restaurantId oid w =
     (if queueUp
      then (Inr (), enqueue (AcceptanceTimeout oid
              (st_acceptanceTimeoutMinutes (getRestaurantOrderSettings w restaurantId) * 60 * 1000)) w)
      else (Inl (Unavailable ''queue''), w))"

text \<open>\<^verbatim>\<open>Promise.all\<close>: all three effects happen, a failed schedule rejects the request afterwards.\<close>

definition announcePlacement ::
  "placeCtx \<Rightarrow> string \<Rightarrow> createOrderInput \<Rightarrow> order \<Rightarrow> world \<Rightarrow> (world, order) outcome" where
  "announcePlacement pc customerId dto ord w =
     (let w1 = createStatusHistory (pc_now pc) (o_id ord) PENDING None (Some customerId) w;
          (scheduled, w2) = scheduleAcceptanceTimeout (pc_queueUp pc) (co_restaurantId dto) (o_id ord) w1;
          w3 = publish (OrderPlaced (o_id ord) customerId (co_restaurantId dto)) w2
      in (andThen scheduled (\<lambda>_. Inr ord), w3))"

text \<open>The catch block around the insert: release the slot, then return the winner of a lost race.\<close>

definition placementFailed ::
  "string \<Rightarrow> createOrderInput \<Rightarrow> (coupon \<times> string) option \<Rightarrow> error \<Rightarrow> world \<Rightarrow> (world, order) outcome" where
  "placementFailed customerId dto reservation e w =
     (case (case reservation of
              None \<Rightarrow> (Inr (), w)
            | Some (c, rid) \<Rightarrow> releaseRedemption (c_id c) rid w) of
        (Inl e', w1) \<Rightarrow> (Inl e', w1)
      | (Inr _, w1) \<Rightarrow>
          (case e of
             UniqueViolation _ \<Rightarrow>
               (case findOrderByIdempotencyKey customerId (co_idempotencyKey dto) w1 of
                  Some winner \<Rightarrow> (Inr winner, w1)
                | None \<Rightarrow> (Inl e, w1))
           | _ \<Rightarrow> (Inl e, w1)))"

definition finishPlacement ::
  "placeCtx \<Rightarrow> string \<Rightarrow> createOrderInput \<Rightarrow> (coupon \<times> string) option \<Rightarrow> rat \<Rightarrow> order \<Rightarrow> world
     \<Rightarrow> (world, order) outcome" where
  "finishPlacement pc customerId dto reservation discount ord w =
     (case (case reservation of
              None \<Rightarrow> (Inr (), w)
            | Some (_, rid) \<Rightarrow> finalizeRedemption rid (o_id ord) discount w) of
        (Inl e, w1) \<Rightarrow> (Inl e, w1)
      | (Inr _, w1) \<Rightarrow> announcePlacement pc customerId dto ord w1)"

text \<open>From the reservation on; \<open>items\<close> are the resolved lines.\<close>

definition placeWithCoupon ::
  "placeCtx \<Rightarrow> string \<Rightarrow> createOrderInput \<Rightarrow> string \<times> rat option \<times> rat option \<times> string option
     \<Rightarrow> orderItem list \<Rightarrow> (coupon \<times> string) option \<Rightarrow> world \<Rightarrow> (world, order) outcome" where
  "placeWithCoupon pc customerId dto target items reservation w =
     (let cpn = map_option fst reservation;
          pricing = calculate (map i_totalPrice items) cpn
      in case createOrder (pc_dbError pc) (newOrder pc customerId dto target items pricing cpn)
                (pc_env2 pc w) of
           (Inl e, w2) \<Rightarrow> placementFailed customerId dto reservation e w2
         | (Inr ord, w2) \<Rightarrow>
             finishPlacement pc customerId dto reservation (pr_discount pricing) ord w2)"

definition placeOrderInternal ::
  "placeCtx \<Rightarrow> catalog \<Rightarrow> string \<Rightarrow> createOrderInput \<Rightarrow> world \<Rightarrow> (world, order) outcome" where
  "placeOrderInternal pc cat customerId dto w =
     (case deliveryTarget cat customerId dto of
        Inl e \<Rightarrow> (Inl e, w)
      | Inr target \<Rightarrow>
          (case resolveItems cat dto of
             Inl e \<Rightarrow> (Inl e, w)
           | Inr items \<Rightarrow>
               if truthy (co_couponCode dto)
               then (case reserveRedemption (pc_aborts pc) (pc_redemptionId pc) (pc_now pc) customerId
                            (the (co_couponCode dto)) (co_restaurantId dto)
                            (pr_subtotal (calculate (map i_totalPrice items) None)) 0 w of
                       (Inl e, w1) \<Rightarrow> (Inl e, w1)
                     | (Inr reservation, w1) \<Rightarrow>
                         placeWithCoupon pc customerId dto target items (Some reservation) w1)
               else placeWithCoupon pc customerId dto target items None w))"

definition placeOrder ::
  "placeCtx \<Rightarrow> catalog \<Rightarrow> string \<Rightarrow> createOrderInput \<Rightarrow> world \<times> string list
     \<Rightarrow> (world \<times> string list, order) outcome" where
  "placeOrder pc cat customerId dto s =
     (case s of (w, held) \<Rightarrow>
       (case findOrderByIdempotencyKey customerId (co_idempotencyKey dto) w of
          Some existing \<Rightarrow> (Inr existing, (w, held))
        | None \<Rightarrow>
            (let key = placementLockKey customerId (co_idempotencyKey dto)
             in case tryLock (pc_redisUp pc) key held of
                  (Inr False, held1) \<Rightarrow> (Inl (Conflict ''already being processed''), (w, held1))
                | (Inr True, held1) \<Rightarrow>
                    (let (r, w1) = placeOrderInternal pc cat customerId dto (pc_env1 pc w)
                     in (r, (w1, releaseLock key held1)))
                | (Inl _, held1) \<Rightarrow>
                    (let (r, w1) = placeOrderInternal pc cat customerId dto (pc_env1 pc w)
                     in (r, (w1, held1))))))"

section \<open>One order per idempotency key\<close>

definition ordersOfKey :: "string \<Rightarrow> string \<Rightarrow> world \<Rightarrow> order list" where
  "ordersOfKey c k w = filter (\<lambda>r. o_customerId r = c \<and> o_idempotencyKey r = Some k) (w_orders w)"

definition one_per_key :: "world \<Rightarrow> bool" where
  "one_per_key w \<longleftrightarrow> (\<forall>k. \<forall>c. length (ordersOfKey c k w) \<le> 1)"

lemma orders_of_coupon_writes [simp]:
  "w_orders (snd (releaseRedemption cid rid w)) = w_orders w"
  "w_orders (snd (finalizeRedemption rid oid d w)) = w_orders w"
  "w_orders (snd (reserveRedemptionTx u now uid code r s w)) = w_orders w"
  by (auto simp: releaseRedemption_def finalizeRedemption_def reserveRedemptionTx_def Let_def
      split: option.split sum.split)

lemma orders_reserve [simp]:
  "w_orders (snd (reserveRedemption ab u now uid code r s n w)) = w_orders w"
  using reserveRedemption_unfold[of ab u now uid code r s n w] by auto

lemma orders_announce [simp]:
  "w_orders (snd (announcePlacement pc cid dto ord w)) = w_orders w"
  by (simp add: announcePlacement_def scheduleAcceptanceTimeout_def createStatusHistory_def Let_def)

lemma orders_failed [simp]: "w_orders (snd (placementFailed cid dto res e w)) = w_orders w"
proof -
  have "w_orders w1 = w_orders w" if "releaseRedemption c rid w = (r, w1)" for c rid r w1
    using orders_of_coupon_writes(1)[of c rid w] that by simp
  then show ?thesis
    by (auto simp: placementFailed_def split: option.split prod.split sum.split error.split)
qed

lemma orders_finish [simp]: "w_orders (snd (finishPlacement pc cid dto res d ord w)) = w_orders w"
proof -
  have "w_orders w1 = w_orders w" if "finalizeRedemption rid (o_id ord) d w = (r, w1)" for rid r w1
    using orders_of_coupon_writes(2)[of rid "o_id ord" d w] that by simp
  then show ?thesis by (auto simp: finishPlacement_def split: option.split prod.split sum.split)
qed

text \<open>The insert either appends the order of a key nobody holds or changes nothing.\<close>

lemma createOrder_cases:
  "(\<exists>e. createOrder err ord w = (Inl e, w)) \<or>
   (createOrder err ord w = (Inr (storedOrder ord), w\<lparr>w_orders := w_orders w @ [storedOrder ord]\<rparr>) \<and>
    (\<forall>r \<in> set (w_orders w). o_id r \<noteq> o_id ord \<and>
       (o_idempotencyKey ord \<noteq> None \<longrightarrow> o_customerId r = o_customerId ord \<longrightarrow>
          o_idempotencyKey r \<noteq> o_idempotencyKey ord)))"
  by (auto simp: createOrder_def split: option.split)

lemma createOrder_one_per_key:
  assumes "one_per_key w" and "o_idempotencyKey ord \<noteq> None"
  shows "one_per_key (snd (createOrder err ord w))"
  using createOrder_cases[of err ord w]
proof
  assume new: "createOrder err ord w = (Inr (storedOrder ord), w\<lparr>w_orders := w_orders w @ [storedOrder ord]\<rparr>) \<and>
    (\<forall>r \<in> set (w_orders w). o_id r \<noteq> o_id ord \<and>
       (o_idempotencyKey ord \<noteq> None \<longrightarrow> o_customerId r = o_customerId ord \<longrightarrow>
          o_idempotencyKey r \<noteq> o_idempotencyKey ord))"
  have "filter (\<lambda>r. o_customerId r = o_customerId ord \<and> o_idempotencyKey r = o_idempotencyKey ord) (w_orders w) = []"
    using new assms(2) by (auto simp: filter_empty_conv)
  with assms new show ?thesis by (auto simp: one_per_key_def ordersOfKey_def)
qed (use assms in auto)

lemma newOrder_simps [simp]:
  "o_id (newOrder pc cid dto t items pr c) = pc_orderId pc"
  "o_customerId (newOrder pc cid dto t items pr c) = cid"
  "o_idempotencyKey (newOrder pc cid dto t items pr c) = Some (co_idempotencyKey dto)"
  by (simp_all add: newOrder_def split: prod.split)

lemma one_per_key_cong: "w_orders w = w_orders w' \<Longrightarrow> one_per_key w = one_per_key w'"
  by (simp add: one_per_key_def ordersOfKey_def)

lemma findKey_cong:
  "w_orders w = w_orders w' \<Longrightarrow> findOrderByIdempotencyKey c k w = findOrderByIdempotencyKey c k w'"
  by (simp add: findOrderByIdempotencyKey_def)

lemma announce_result: "announcePlacement pc cid dto ord w = (Inr ord', w') \<Longrightarrow> ord' = ord"
  by (auto simp: announcePlacement_def scheduleAcceptanceTimeout_def Let_def split: if_splits prod.splits)

lemma finish_result: "finishPlacement pc cid dto res d ord w = (Inr ord', w') \<Longrightarrow> ord' = ord"
  by (auto simp: finishPlacement_def split: prod.splits sum.splits dest: announce_result)

lemma failed_result:
  assumes "placementFailed cid dto res e w = (Inr ord, w')"
  shows "findOrderByIdempotencyKey cid (co_idempotencyKey dto) w' = Some ord"
  using assms by (auto simp: placementFailed_def split: prod.splits sum.splits error.splits option.splits)

text \<open>A run that returns an order returns the one its key now names.\<close>

lemma placeWithCoupon_result:
  assumes "placeWithCoupon pc cid dto t items res w = (Inr ord, w')"
  shows "findOrderByIdempotencyKey cid (co_idempotencyKey dto) w' = Some ord"
proof -
  let ?pr = "calculate (map i_totalPrice items) (map_option fst res)"
  let ?new = "newOrder pc cid dto t items ?pr (map_option fst res)"
  let ?row = "storedOrder ?new"
  let ?w = "pc_env2 pc w"
  show ?thesis
    using createOrder_cases[of "pc_dbError pc" ?new ?w]
  proof (elim disjE exE conjE)
    fix e assume "createOrder (pc_dbError pc) ?new ?w = (Inl e, ?w)"
    then have "placementFailed cid dto res e ?w = (Inr ord, w')"
      using assms by (simp add: placeWithCoupon_def Let_def)
    then show ?thesis by (rule failed_result)
  next
    assume c: "createOrder (pc_dbError pc) ?new ?w = (Inr ?row, ?w\<lparr>w_orders := w_orders ?w @ [?row]\<rparr>)"
      and fresh: "\<forall>r \<in> set (w_orders ?w). o_id r \<noteq> o_id ?new \<and> (o_idempotencyKey ?new \<noteq> None \<longrightarrow>
        o_customerId r = o_customerId ?new \<longrightarrow> o_idempotencyKey r \<noteq> o_idempotencyKey ?new)"
    have f: "finishPlacement pc cid dto res (pr_discount ?pr) ?row (?w\<lparr>w_orders := w_orders ?w @ [?row]\<rparr>) = (Inr ord, w')"
      using assms c by (simp add: placeWithCoupon_def Let_def)
    then have "ord = ?row" "w_orders w' = w_orders ?w @ [?row]"
      using finish_result[OF f] orders_finish[of pc cid dto res "pr_discount ?pr" ?row "?w\<lparr>w_orders := w_orders ?w @ [?row]\<rparr>"]
      by simp_all
    then show ?thesis using fresh
      by (auto simp: findOrderByIdempotencyKey_def intro!: find_snoc_fresh)
  qed
qed

lemma reserve_service_error:
  "reserveRedemption ab u now cid code r s n w = (Inl e, w') \<Longrightarrow> w' = w"
  using reserveRedemption_unfold[of ab u now cid code r s n w]
    reserve_error[of u now cid "normalizeCode code" r s w e w'] by auto

text \<open>A run either fails before it has written anything or reaches the insert.\<close>

lemma placeOrderInternal_cases:
  assumes "placeOrderInternal pc cat cid dto w = (r, w')"
  shows "(\<exists>e. r = Inl e \<and> w' = w) \<or>
    (\<exists>t items res w1. resolveItems cat dto = Inr items \<and> w_orders w1 = w_orders w \<and>
       placeWithCoupon pc cid dto t items res w1 = (r, w'))"
proof (cases "deliveryTarget cat cid dto")
  case t: (Inr t)
  show ?thesis
  proof (cases "resolveItems cat dto")
    case i: (Inr items)
    show ?thesis
    proof (cases "truthy (co_couponCode dto)")
      case True
      obtain x w1 where rr: "reserveRedemption (pc_aborts pc) (pc_redemptionId pc) (pc_now pc) cid
        (the (co_couponCode dto)) (co_restaurantId dto)
        (pr_subtotal (calculate (map i_totalPrice items) None)) 0 w = (x, w1)" by force
      show ?thesis
      proof (cases x)
        case (Inl e)
        have "w1 = w" by (rule reserve_service_error[OF rr[unfolded Inl]])
        then show ?thesis using assms t i True rr Inl by (auto simp: placeOrderInternal_def)
      next
        case (Inr res)
        have "w_orders w1 = w_orders w"
          using orders_reserve[of "pc_aborts pc" "pc_redemptionId pc" "pc_now pc" cid "the (co_couponCode dto)"
            "co_restaurantId dto" "pr_subtotal (calculate (map i_totalPrice items) None)" 0 w] rr by simp
        moreover have "placeWithCoupon pc cid dto t items (Some res) w1 = (r, w')"
          using assms t i True rr Inr by (simp add: placeOrderInternal_def)
        ultimately show ?thesis using i by blast
      qed
    next
      case False
      then have "placeWithCoupon pc cid dto t items None w = (r, w')"
        using assms t i by (simp add: placeOrderInternal_def)
      with i show ?thesis by blast
    qed
  qed (use assms t in \<open>auto simp: placeOrderInternal_def\<close>)
qed (use assms in \<open>auto simp: placeOrderInternal_def\<close>)

lemma placeOrderInternal_result:
  assumes "placeOrderInternal pc cat cid dto w = (Inr ord, w')"
  shows "findOrderByIdempotencyKey cid (co_idempotencyKey dto) w' = Some ord"
  using placeOrderInternal_cases[OF assms] placeWithCoupon_result by auto

lemma placeWithCoupon_one_per_key:
  assumes "one_per_key (pc_env2 pc w)"
  shows "one_per_key (snd (placeWithCoupon pc cid dto t items res w))"
proof -
  let ?pr = "calculate (map i_totalPrice items) (map_option fst res)"
  let ?new = "newOrder pc cid dto t items ?pr (map_option fst res)"
  let ?row = "storedOrder ?new"
  have "one_per_key (snd (createOrder (pc_dbError pc) ?new (pc_env2 pc w)))"
    using assms by (intro createOrder_one_per_key) simp_all
  then show ?thesis
    by (auto simp: placeWithCoupon_def Let_def one_per_key_def ordersOfKey_def split: prod.split sum.split)
qed

lemma placeOrderInternal_one_per_key:
  assumes w: "one_per_key w" and env: "\<And>v. one_per_key v \<Longrightarrow> one_per_key (pc_env2 pc v)"
  shows "one_per_key (snd (placeOrderInternal pc cat cid dto w))"
proof -
  obtain r w' where run: "placeOrderInternal pc cat cid dto w = (r, w')" by force
  from placeOrderInternal_cases[OF run] show ?thesis
  proof (elim disjE exE conjE)
    fix t items res w1
    assume "w_orders w1 = w_orders w" and p: "placeWithCoupon pc cid dto t items res w1 = (r, w')"
    then have "one_per_key (pc_env2 pc w1)" using w env one_per_key_cong by blast
    from placeWithCoupon_one_per_key[OF this, of cid dto t items res] p run show ?thesis by simp
  qed (use w run in simp)
qed

lemma placeOrder_cases:
  assumes "placeOrder pc cat cid dto (w, held) = (r, (w', held'))"
  shows "(\<exists>ord. findOrderByIdempotencyKey cid (co_idempotencyKey dto) w = Some ord \<and> r = Inr ord \<and> w' = w) \<or>
    (\<exists>e. r = Inl e \<and> w' = w) \<or>
    placeOrderInternal pc cat cid dto (pc_env1 pc w) = (r, w')"
  using assms by (auto simp: placeOrder_def Let_def split: option.splits prod.splits sum.splits bool.splits)

text \<open>The lock is given back in every case.\<close>

lemma placeOrder_locks:
  "placeOrder pc cat cid dto (w, held) = (r, (w', held')) \<Longrightarrow> held' = held"
  by (auto simp: placeOrder_def tryLock_def releaseLock_def Let_def filter_id_conv
      split: option.splits prod.splits sum.splits if_splits)

section \<open>Properties\<close>

text \<open>
  C23. An idempotency key places exactly one order: if no key names two orders and the requests
  running in between respect the same unique index, then whatever happens to this request (replay,
  held lock, Redis down, lost insert race, failed insert) no key names two orders afterwards, and
  a request that returns an order returns the only row its key names.
\<close>
theorem placement_exactly_once:
  assumes "one_per_key w"
    and "\<And>v. one_per_key v \<Longrightarrow> one_per_key (pc_env1 pc v)"
    and "\<And>v. one_per_key v \<Longrightarrow> one_per_key (pc_env2 pc v)"
    and "placeOrder pc cat cid dto (w, held) = (r, (w', held'))"
  shows "one_per_key w' \<and> (\<forall>ord. r = Inr ord \<longrightarrow>
    ordersOfKey cid (co_idempotencyKey dto) w' = [ord])"
proof
  show one: "one_per_key w'"
    using placeOrder_cases[OF assms(4)] assms(1-3)
      placeOrderInternal_one_per_key[of "pc_env1 pc w" pc cat cid dto] by auto
  show "\<forall>ord. r = Inr ord \<longrightarrow>
    ordersOfKey cid (co_idempotencyKey dto) w' = [ord]"
  proof (intro allI impI)
    fix ord assume "r = Inr ord"
    then have "findOrderByIdempotencyKey cid (co_idempotencyKey dto) w' = Some ord"
      using placeOrder_cases[OF assms(4)] placeOrderInternal_result by auto
    then have "ord \<in> set (ordersOfKey cid (co_idempotencyKey dto) w')"
      by (auto simp: findOrderByIdempotencyKey_def ordersOfKey_def dest: find_SomeD)
    moreover have "length (ordersOfKey cid (co_idempotencyKey dto) w') \<le> 1"
      using one by (simp add: one_per_key_def)
    ultimately show "ordersOfKey cid (co_idempotencyKey dto) w' = [ord]"
      by (cases "ordersOfKey cid (co_idempotencyKey dto) w'") auto
  qed
qed

definition plainCtx :: placeCtx where
  "plainCtx = \<lparr>pc_now = 5, pc_orderId = ''o1'', pc_orderNumber = ''ORD-1'', pc_redemptionId = ''r1'',
     pc_aborts = (\<lambda>_. False), pc_env1 = id, pc_env2 = id, pc_dbError = None, pc_redisUp = True,
     pc_queueUp = True\<rparr>"

definition thaliItem :: menuItem where
  "thaliItem = \<lparr>mi_id = ''m1'', mi_restaurantId = ''rest'', mi_name = ''Thali'', mi_basePrice = 100,
     mi_isAvailable = False, mi_variants = [], mi_addons = []\<rparr>"

definition thaliCatalog :: catalog where
  "thaliCatalog = \<lparr>cat_menu = [thaliItem], cat_addresses = []\<rparr>"

definition thaliOrder :: createOrderInput where
  "thaliOrder = \<lparr>co_restaurantId = ''rest'', co_addressId = None, co_deliveryAddress = Some ''1 Road'',
     co_paymentMode = Some COD, co_branchId = None, co_notes = None, co_couponCode = None,
     co_items = [\<lparr>li_menuItemId = ''m1'', li_variantId = None, li_addonOptionIds = None,
       li_quantity = 2, li_instructions = None\<rparr>], co_idempotencyKey = ''k1''\<rparr>"

definition placedOrder :: order where
  "placedOrder = storedOrder (newOrder plainCtx ''u'' thaliOrder (''1 Road'', None, None, None)
     [\<lparr>i_menuItemId = ''m1'', i_variantId = None, i_quantity = 2, i_unitPrice = 100,
       i_totalPrice = 200, i_instructions = None, i_addons = []\<rparr>] (calculate [200] None) None)"

lemma thali_lines:
  "resolveItems thaliCatalog thaliOrder = Inr [\<lparr>i_menuItemId = ''m1'', i_variantId = None,
     i_quantity = 2, i_unitPrice = 100, i_totalPrice = 200, i_instructions = None, i_addons = []\<rparr>]"
  by (simp add: resolveItems_def thaliCatalog_def thaliOrder_def thaliItem_def resolveLine_def
      linePrice_def truthy_def addonsTotal_def Let_def)

lemma thali_placed:
  "fst (placeOrder plainCtx thaliCatalog ''u'' thaliOrder (emptyWorld, [])) = Inr placedOrder \<and>
   w_orders (fst (snd (placeOrder plainCtx thaliCatalog ''u'' thaliOrder (emptyWorld, [])))) = [placedOrder]"
proof -
  have i: "placeOrderInternal plainCtx thaliCatalog ''u'' thaliOrder emptyWorld
    = announcePlacement plainCtx ''u'' thaliOrder placedOrder (emptyWorld\<lparr>w_orders := [placedOrder]\<rparr>)"
    unfolding placeOrderInternal_def thali_lines
    by (simp add: deliveryTarget_def placeWithCoupon_def createOrder_def finishPlacement_def truthy_def
        placedOrder_def plainCtx_def thaliOrder_def emptyWorld_def Let_def)
  show ?thesis
    by (simp add: placeOrder_def findOrderByIdempotencyKey_def emptyWorld_def tryLock_def plainCtx_def
        Let_def split_def i[unfolded plainCtx_def emptyWorld_def] announcePlacement_def
        scheduleAcceptanceTimeout_def createStatusHistory_def)
qed

lemma placement_exactly_once_witness:
  "ordersOfKey ''u'' ''k1'' (fst (snd (placeOrder plainCtx thaliCatalog ''u'' thaliOrder (emptyWorld, []))))
     = [placedOrder]"
proof -
  let ?run = "placeOrder plainCtx thaliCatalog ''u'' thaliOrder (emptyWorld, [])"
  have "?run = (fst ?run, (fst (snd ?run), snd (snd ?run)))" by simp
  from placement_exactly_once[OF _ _ _ this]
  have "fst ?run = Inr placedOrder \<longrightarrow>
    ordersOfKey ''u'' (co_idempotencyKey thaliOrder) (fst (snd ?run)) = [placedOrder]"
    by (simp add: one_per_key_def ordersOfKey_def emptyWorld_def plainCtx_def)
  then show ?thesis using thali_placed by (simp add: thaliOrder_def)
qed

text \<open>
  Replaying a placement is free: once a request with some key has returned an order, every
  later request of the same customer with that key, whatever else it asks for, returns the same
  order and changes neither the database nor the locks.
\<close>
theorem placement_replay:
  assumes "placeOrder pc cat cid dto (w, held) = (Inr ord, (w', held'))"
    and "co_idempotencyKey dto' = co_idempotencyKey dto"
  shows "placeOrder pc' cat' cid dto' (w', held'') = (Inr ord, (w', held''))"
proof -
  have "findOrderByIdempotencyKey cid (co_idempotencyKey dto) w' = Some ord"
    using placeOrder_cases[OF assms(1)] placeOrderInternal_result by auto
  with assms(2) show ?thesis by (simp add: placeOrder_def)
qed

lemma placement_replay_witness:
  "fst (placeOrder plainCtx thaliCatalog ''u'' (thaliOrder\<lparr>co_items := []\<rparr>)
     (snd (placeOrder plainCtx thaliCatalog ''u'' thaliOrder (emptyWorld, [])))) = Inr placedOrder"
proof -
  let ?run = "placeOrder plainCtx thaliCatalog ''u'' thaliOrder (emptyWorld, [])"
  have run: "?run = (Inr placedOrder, (fst (snd ?run), snd (snd ?run)))"
    using thali_placed by (simp add: prod_eq_iff)
  have "placeOrder plainCtx thaliCatalog ''u'' (thaliOrder\<lparr>co_items := []\<rparr>) (fst (snd ?run), snd (snd ?run))
      = (Inr placedOrder, (fst (snd ?run), snd (snd ?run)))"
    by (rule placement_replay[OF run]) simp
  then show ?thesis by simp
qed

section \<open>No coupon slot is lost\<close>

lemma coupons_inv_cong:
  "w_coupons w = w_coupons w' \<Longrightarrow> w_redemptions w = w_redemptions w' \<Longrightarrow> coupons_inv w = coupons_inv w'"
  by (simp add: coupons_inv_def coupons_keyed_def coupon_ledger_def within_limits_def usesOf_def
      countUserRedemptions_def)

lemma coupons_announce [simp]:
  "w_coupons (snd (announcePlacement pc cid dto ord w)) = w_coupons w"
  "w_redemptions (snd (announcePlacement pc cid dto ord w)) = w_redemptions w"
  by (simp_all add: announcePlacement_def scheduleAcceptanceTimeout_def createStatusHistory_def Let_def)

lemma coupons_createOrder [simp]:
  "w_coupons (snd (createOrder err ord w)) = w_coupons w"
  "w_redemptions (snd (createOrder err ord w)) = w_redemptions w"
  using createOrder_cases[of err ord w] by auto

text \<open>The compensation: after a failed insert the reserved row is gone.\<close>

lemma failed_releases:
  assumes inv: "coupons_inv w" and x: "lookup x_id rid (w_redemptions w) = Some x" "x_couponId x = c_id c"
    and c: "c_id c \<in> c_id ` set (w_coupons w)"
    and run: "placementFailed cid dto (Some (c, rid)) e w = (r, w')"
  shows "coupons_inv w' \<and> rid \<notin> x_id ` set (w_redemptions w')"
proof -
  let ?w = "w\<lparr>w_redemptions := filter (\<lambda>x. x_id x \<noteq> rid) (w_redemptions w),
      w_coupons := modify (\<lambda>d. c_id d = c_id c) (bumpUsed (- 1)) (w_coupons w)\<rparr>"
  have rel: "releaseRedemption (c_id c) rid w = (Inr (), ?w)"
    using x c lookup_None_iff[of c_id "c_id c" "w_coupons w"] by (simp add: releaseRedemption_def)
  then have "w' = ?w" using run
    by (auto simp: placementFailed_def split: error.splits option.splits)
  with release_preserves[OF inv x rel] show ?thesis by auto
qed

lemma finished_keeps:
  assumes inv: "coupons_inv w" and run: "finishPlacement pc cid dto res d ord w = (r, w')"
  shows "coupons_inv w'"
proof -
  have f: "coupons_inv w1" if "finalizeRedemption rid (o_id ord) d w = (u, w1)" for rid u w1
    using finalize_preserves[OF inv] that inv
    by (cases u) (auto simp: finalizeRedemption_def split: if_splits)
  have "coupons_inv (snd (announcePlacement pc cid dto ord w1))" if "coupons_inv w1" for w1
    using that coupons_inv_cong[of w1 "snd (announcePlacement pc cid dto ord w1)"] by simp
  with f inv run show ?thesis
    by (auto simp: finishPlacement_def split: option.splits prod.splits sum.splits) (metis snd_conv)+
qed

lemma ids_bump [simp]: "c_id ` set (modify p (bumpUsed d) cs) = c_id ` set cs"
  by (induction cs) auto

lemma reserved_row:
  assumes inv: "coupons_inv w" and fresh: "u \<notin> x_id ` set (w_redemptions w)"
    and run: "reserveRedemption ab u now cid code r s n w = (Inr (c, x), w')"
  shows "x = u \<and> c_id c \<in> c_id ` set (w_coupons w') \<and>
    (\<exists>y. lookup x_id u (w_redemptions w') = Some y \<and> x_couponId y = c_id c)"
proof -
  have k: "keyed c_id (w_coupons w)" using inv by (simp add: coupons_inv_def coupons_keyed_def)
  have run': "reserveRedemptionTx u now cid (normalizeCode code) r s w = (Inr (c, x), w')"
    using reserveRedemption_unfold[of ab u now cid code r s n w] run by auto
  note t = reserve_success[OF run' k]
  have "c \<in> set (w_coupons w)" using t by (auto simp: findCouponByCode_def)
  then show ?thesis using t fresh by (auto simp: lookup_snoc_fresh)
qed

text \<open>What the requests running in between may do to this request's reservation: nothing.\<close>

definition quietEnv :: "string \<Rightarrow> (world \<Rightarrow> world) \<Rightarrow> bool" where
  "quietEnv rid env \<longleftrightarrow> (\<forall>v. (coupons_inv v \<longrightarrow> coupons_inv (env v)) \<and>
     lookup x_id rid (w_redemptions (env v)) = lookup x_id rid (w_redemptions v) \<and>
     c_id ` set (w_coupons v) \<subseteq> c_id ` set (w_coupons (env v)))"

lemma placeWithCoupon_slot:
  assumes inv: "coupons_inv w" and env: "quietEnv rid (pc_env2 pc)"
    and res: "\<And>c x. res = Some (c, x) \<Longrightarrow> x = rid \<and> c_id c \<in> c_id ` set (w_coupons w) \<and>
        (\<exists>y. lookup x_id rid (w_redemptions w) = Some y \<and> x_couponId y = c_id c)"
    and none: "res = None \<Longrightarrow> lookup x_id rid (w_redemptions w) = None"
    and run: "placeWithCoupon pc cid dto t items res w = (r, w')"
  shows "coupons_inv w' \<and>
    (rid \<in> x_id ` set (w_redemptions w') \<longrightarrow> pc_orderId pc \<in> o_id ` set (w_orders w'))"
proof -
  let ?pr = "calculate (map i_totalPrice items) (map_option fst res)"
  let ?new = "newOrder pc cid dto t items ?pr (map_option fst res)"
  let ?row = "storedOrder ?new"
  let ?w = "pc_env2 pc w"
  have inv2: "coupons_inv ?w" using env inv by (simp add: quietEnv_def)
  have row: "lookup x_id rid (w_redemptions ?w) = lookup x_id rid (w_redemptions w)"
    using env by (simp add: quietEnv_def)
  show ?thesis
    using createOrder_cases[of "pc_dbError pc" ?new ?w]
  proof (elim disjE exE conjE)
    fix e assume "createOrder (pc_dbError pc) ?new ?w = (Inl e, ?w)"
    then have f: "placementFailed cid dto res e ?w = (r, w')"
      using run by (simp add: placeWithCoupon_def Let_def)
    show ?thesis
    proof (cases res)
      case None
      then have "w' = ?w" using f by (auto simp: placementFailed_def split: error.splits option.splits)
      then show ?thesis using inv2 row none[OF None] by (simp add: lookup_None_iff)
    next
      case (Some cx)
      have sub: "c_id ` set (w_coupons w) \<subseteq> c_id ` set (w_coupons ?w)" using env by (simp add: quietEnv_def)
      obtain c x where cx: "res = Some (c, x)" using Some by (cases cx) simp
      from res[OF cx] row sub obtain y where c: "res = Some (c, rid)" "lookup x_id rid (w_redemptions ?w) = Some y"
        "x_couponId y = c_id c" "c_id c \<in> c_id ` set (w_coupons ?w)" using cx by auto
      then show ?thesis using failed_releases[OF inv2 c(2,3,4)] f by auto
    qed
  next
    assume "createOrder (pc_dbError pc) ?new ?w = (Inr ?row, ?w\<lparr>w_orders := w_orders ?w @ [?row]\<rparr>)"
    then have f: "finishPlacement pc cid dto res (pr_discount ?pr) ?row (?w\<lparr>w_orders := w_orders ?w @ [?row]\<rparr>) = (r, w')"
      using run by (simp add: placeWithCoupon_def Let_def)
    have "coupons_inv (?w\<lparr>w_orders := w_orders ?w @ [?row]\<rparr>)"
      using inv2 coupons_inv_cong[of ?w "?w\<lparr>w_orders := w_orders ?w @ [?row]\<rparr>"] by simp
    moreover have "w_orders w' = w_orders ?w @ [?row]"
      using orders_finish[of pc cid dto res "pr_discount ?pr" ?row "?w\<lparr>w_orders := w_orders ?w @ [?row]\<rparr>"] f by simp
    ultimately show ?thesis using finished_keeps f by auto
  qed
qed

lemma placeOrderInternal_slot:
  assumes inv: "coupons_inv w" and env: "quietEnv (pc_redemptionId pc) (pc_env2 pc)"
    and fresh: "pc_redemptionId pc \<notin> x_id ` set (w_redemptions w)"
    and run: "placeOrderInternal pc cat cid dto w = (r, w')"
  shows "coupons_inv w' \<and>
    (pc_redemptionId pc \<in> x_id ` set (w_redemptions w') \<longrightarrow> pc_orderId pc \<in> o_id ` set (w_orders w'))"
proof (cases "deliveryTarget cat cid dto")
  case (Inr t)
  show ?thesis
  proof (cases "resolveItems cat dto")
    case (Inr items)
    let ?res = "reserveRedemption (pc_aborts pc) (pc_redemptionId pc) (pc_now pc) cid
      (the (co_couponCode dto)) (co_restaurantId dto) (pr_subtotal (calculate (map i_totalPrice items) None)) 0 w"
    show ?thesis
    proof (cases "truthy (co_couponCode dto)")
      case False
      then have "placeWithCoupon pc cid dto t items None w = (r, w')"
        using run Inr \<open>deliveryTarget cat cid dto = Inr t\<close> by (simp add: placeOrderInternal_def)
      then show ?thesis using inv env fresh by (intro placeWithCoupon_slot) (auto simp: lookup_None_iff)
    next
      case True
      obtain rr w1 where rr: "?res = (rr, w1)" by force
      have inv1: "coupons_inv w1"
        using reserve_service_preserves[OF inv fresh, of "pc_aborts pc" "pc_now pc" cid
            "the (co_couponCode dto)" "co_restaurantId dto" "pr_subtotal (calculate (map i_totalPrice items) None)" 0] rr
        by simp
      show ?thesis
      proof (cases rr)
        case (Inl e)
        then have "w' = w" using run rr Inr True \<open>deliveryTarget cat cid dto = Inr t\<close> reserve_service_error[of "pc_aborts pc"]
          by (auto simp: placeOrderInternal_def)
        then show ?thesis using inv fresh by simp
      next
        case (Inr cx)
        obtain c x where cx: "cx = (c, x)" by force
        note s = reserved_row[OF inv fresh rr[unfolded Inr cx]]
        have "placeWithCoupon pc cid dto t items (Some (c, x)) w1 = (r, w')"
          using run rr Inr cx True \<open>deliveryTarget cat cid dto = Inr t\<close> \<open>resolveItems cat dto = Inr items\<close>
          by (simp add: placeOrderInternal_def)
        then show ?thesis using inv1 env s by (intro placeWithCoupon_slot) auto
      qed
    qed
  qed (use run inv fresh Inr in \<open>auto simp: placeOrderInternal_def\<close>)
qed (use run inv fresh in \<open>auto simp: placeOrderInternal_def\<close>)

text \<open>
  A placement never loses a coupon slot: if the coupon ledger is consistent, the generated
  redemption id is fresh and the requests running in between leave this reservation alone, then
  after the request the ledger is consistent again and the reserved row is there only if the order
  was created, so a failed, refused or superseded placement has given its slot back.
\<close>
theorem placement_no_slot_leak:
  assumes "coupons_inv w" and "pc_redemptionId pc \<notin> x_id ` set (w_redemptions w)"
    and "quietEnv (pc_redemptionId pc) (pc_env1 pc)" and "quietEnv (pc_redemptionId pc) (pc_env2 pc)"
    and "placeOrder pc cat cid dto (w, held) = (r, (w', held'))"
  shows "coupons_inv w' \<and>
    (pc_redemptionId pc \<in> x_id ` set (w_redemptions w') \<longrightarrow> pc_orderId pc \<in> o_id ` set (w_orders w'))"
proof -
  have inv1: "coupons_inv (pc_env1 pc w)" using assms(1,3) by (simp add: quietEnv_def)
  have fresh1: "pc_redemptionId pc \<notin> x_id ` set (w_redemptions (pc_env1 pc w))"
    using assms(2,3) by (simp add: quietEnv_def flip: lookup_None_iff)
  show ?thesis
    using placeOrder_cases[OF assms(5)] assms(1,2) placeOrderInternal_slot[OF inv1 assms(4) fresh1] by auto
qed

definition failingCtx :: placeCtx where
  "failingCtx = plainCtx\<lparr>pc_dbError := Some (Unavailable ''database'')\<rparr>"

definition couponOrder :: createOrderInput where
  "couponOrder = thaliOrder\<lparr>co_couponCode := Some ''TEN''\<rparr>"

lemma coupon_lines: "resolveItems thaliCatalog couponOrder = resolveItems thaliCatalog thaliOrder"
  by (simp add: couponOrder_def resolveItems_def thaliOrder_def)

lemma quiet_id: "quietEnv rid id"
  by (simp add: quietEnv_def)

lemma placement_no_slot_leak_witness:
  "w_orders (fst (snd (placeOrder failingCtx thaliCatalog ''u'' couponOrder (couponWorld, [])))) = [] \<and>
   ''r1'' \<notin> x_id ` set (w_redemptions (fst (snd (placeOrder failingCtx thaliCatalog ''u'' couponOrder (couponWorld, [])))))"
proof -
  let ?run = "placeOrder failingCtx thaliCatalog ''u'' couponOrder (couponWorld, [])"
  have e: "?run = (fst ?run, (fst (snd ?run), snd (snd ?run)))" by simp
  have none: "w_orders (snd (placeWithCoupon failingCtx cid dto t items res w)) = w_orders w" for cid dto t items res w
    by (simp add: placeWithCoupon_def createOrder_def failingCtx_def plainCtx_def Let_def)
  have "w_orders (snd (placeOrderInternal failingCtx thaliCatalog ''u'' couponOrder couponWorld)) = w_orders couponWorld"
  proof -
    have "w_orders w1 = w_orders couponWorld"
      if "reserveRedemption ab u now cid code r s n couponWorld = (x, w1)" for ab u now cid code r s n x w1
      using orders_reserve[of ab u now cid code r s n couponWorld] that by simp
    then show ?thesis unfolding placeOrderInternal_def coupon_lines thali_lines
      by (auto simp: none split: sum.split prod.split)
  qed
  then have orders: "w_orders (fst (snd ?run)) = []"
    by (simp add: placeOrder_def findOrderByIdempotencyKey_def couponWorld_def emptyWorld_def tryLock_def
        failingCtx_def plainCtx_def Let_def split_def)
  have "pc_redemptionId failingCtx \<notin> x_id ` set (w_redemptions couponWorld)"
    by (simp add: couponWorld_def emptyWorld_def)
  from placement_no_slot_leak[OF coupons_inv_couponWorld this _ _ e]
  have "''r1'' \<in> x_id ` set (w_redemptions (fst (snd ?run))) \<longrightarrow> ''o1'' \<in> o_id ` set (w_orders (fst (snd ?run)))"
    by (simp add: failingCtx_def plainCtx_def quiet_id)
  with orders show ?thesis by auto
qed

section \<open>What a placed order is\<close>

lemma announce_ok:
  assumes "announcePlacement pc cid dto ord w = (Inr ord', w')"
  shows "w_orders w' = w_orders w \<and> w_redemptions w' = w_redemptions w \<and>
    w_events w' = w_events w @ [OrderPlaced (o_id ord) cid (co_restaurantId dto)] \<and>
    w_jobs w' = w_jobs w @ [AcceptanceTimeout (o_id ord)
      (st_acceptanceTimeoutMinutes (getRestaurantOrderSettings w' (co_restaurantId dto)) * 60 * 1000)]"
  using assms by (auto simp: announcePlacement_def scheduleAcceptanceTimeout_def createStatusHistory_def Let_def
      getRestaurantOrderSettings_def split: if_splits)

lemma finish_ok:
  assumes "finishPlacement pc cid dto res d ord w = (Inr ord', w')"
  shows "OrderPlaced (o_id ord) cid (co_restaurantId dto) \<in> set (w_events w') \<and>
    AcceptanceTimeout (o_id ord)
      (st_acceptanceTimeoutMinutes (getRestaurantOrderSettings w' (co_restaurantId dto)) * 60 * 1000) \<in> set (w_jobs w') \<and>
    (\<forall>c rid. res = Some (c, rid) \<longrightarrow> (\<exists>x \<in> set (w_redemptions w').
        x_id x = rid \<and> x_orderId x = Some (o_id ord) \<and> x_discount x = dec2 d))"
proof (cases res)
  case None
  then show ?thesis using assms announce_ok[of pc cid dto ord w ord' w'] by (simp add: finishPlacement_def)
next
  case (Some cx)
  obtain c rid where cx: "res = Some (c, rid)" using Some by (cases cx) simp
  let ?w = "w\<lparr>w_redemptions := modify (\<lambda>x. x_id x = rid)
              (\<lambda>x. x\<lparr>x_orderId := Some (o_id ord), x_discount := dec2 d\<rparr>) (w_redemptions w)\<rparr>"
  obtain y where y: "lookup x_id rid (w_redemptions w) = Some y" and run: "announcePlacement pc cid dto ord ?w = (Inr ord', w')"
    using assms cx by (auto simp: finishPlacement_def finalizeRedemption_def split: if_splits option.splits)
  have "y\<lparr>x_orderId := Some (o_id ord), x_discount := dec2 d\<rparr> \<in> set (w_redemptions ?w)"
    using lookup_SomeD[OF y] by (auto simp: set_modify image_iff intro!: bexI[of _ y])
  then have "\<exists>x \<in> set (w_redemptions w'). x_id x = rid \<and> x_orderId x = Some (o_id ord) \<and> x_discount x = dec2 d"
    using announce_ok[OF run] lookup_SomeD[OF y] by (intro bexI) simp_all
  with announce_ok[OF run] cx show ?thesis by simp
qed

text \<open>A fresh id stays fresh while other requests run.\<close>

definition freshEnv :: "string \<Rightarrow> (world \<Rightarrow> world) \<Rightarrow> bool" where
  "freshEnv oid env \<longleftrightarrow> (\<forall>v. oid \<notin> o_id ` set (w_orders v) \<longrightarrow> oid \<notin> o_id ` set (w_orders (env v)))"

text \<open>What the code promises of a new order, field by field.  Amounts are computed from the lines and
  the reserved coupon, and stored with two places.\<close>

definition orderAmounts :: "orderItem list \<Rightarrow> coupon option \<Rightarrow> order \<Rightarrow> bool" where
  "orderAmounts items cpn ord \<longleftrightarrow>
     (let sub = sum_list (map i_totalPrice items);
          d = cr_discount (couponCalculate sub cpn);
          fee = (if cr_freeDelivery (couponCalculate sub cpn) then 0 else 40);
          tax = sub * 5 / 100
      in o_subtotal ord = dec2 sub \<and> o_discount ord = dec2 d \<and> o_deliveryFee ord = fee \<and>
         o_tax ord = dec2 tax \<and> o_total ord = dec2 (sub - d + fee + tax) \<and> o_walletUsed ord = 0 \<and>
         \<bar>o_total ord - (o_subtotal ord - o_discount ord + fee + o_tax ord)\<bar> \<le> 2 / 100 \<and>
         ((\<forall>i \<in> set items. 0 \<le> i_totalPrice i) \<longrightarrow> d \<le> sub \<and> 0 \<le> o_total ord))"

definition orderAdds :: "catalog \<Rightarrow> string \<Rightarrow> createOrderInput \<Rightarrow> order \<Rightarrow> bool" where
  "orderAdds cat cid dto ord \<longleftrightarrow> (\<exists>items cpn.
     resolveItems cat dto = Inr items \<and> o_items ord = map storedItem items \<and>
     deliveryTarget cat cid dto
       = Inr (o_deliveryAddress ord, o_latitude ord, o_longitude ord, o_addressId ord) \<and>
     o_customerId ord = cid \<and> o_restaurantId ord = co_restaurantId dto \<and>
     o_branchId ord = co_branchId dto \<and> o_notes ord = co_notes dto \<and>
     o_idempotencyKey ord = Some (co_idempotencyKey dto) \<and>
     o_paymentMode ord = (case co_paymentMode dto of None \<Rightarrow> ONLINE | Some m \<Rightarrow> m) \<and>
     o_status ord = PENDING \<and> o_paymentStatus ord = PAY_PENDING \<and>
     o_couponId ord = map_option c_id cpn \<and> (cpn = None \<longleftrightarrow> \<not> truthy (co_couponCode dto)) \<and>
     (\<forall>c. cpn = Some c \<longrightarrow> c_code c = normalizeCode (the (co_couponCode dto))) \<and>
     orderAmounts items cpn ord)"

lemma orderAmounts_new:
  "orderAmounts items cpn (storedOrder (newOrder pc cid dto t items (calculate (map i_totalPrice items) cpn) cpn))"
proof -
  let ?sub = "sum_list (map i_totalPrice items)"
  let ?d = "cr_discount (couponCalculate ?sub cpn)"
  let ?fee = "if cr_freeDelivery (couponCalculate ?sub cpn) then 0 else 40 :: rat"
  let ?tot = "?sub - ?d + ?fee + ?sub * 5 / 100"
  let ?ord = "storedOrder (newOrder pc cid dto t items (calculate (map i_totalPrice items) cpn) cpn)"
  have f: "o_subtotal ?ord = dec2 ?sub" "o_discount ?ord = dec2 ?d" "o_deliveryFee ?ord = ?fee"
    "o_tax ?ord = dec2 (?sub * 5 / 100)" "o_total ?ord = dec2 ?tot" "o_walletUsed ?ord = 0"
    by (cases t; simp add: storedOrder_def newOrder_def calculate_fields)+
  have "\<bar>dec2 ?tot - (dec2 ?sub - dec2 ?d + ?fee + dec2 (?sub * 5 / 100))\<bar> \<le> 2 / 100"
    using dec2_error[of ?tot] dec2_error[of ?sub] dec2_error[of ?d] dec2_error[of "?sub * 5 / 100"]
    unfolding abs_le_iff by linarith
  moreover have "?d \<le> ?sub \<and> 0 \<le> dec2 ?tot" if "\<forall>i \<in> set items. 0 \<le> i_totalPrice i"
  proof -
    have s: "0 \<le> ?sub" using that by (auto intro!: sum_list_nonneg)
    from discount_le_subtotal[OF s, of cpn] have d: "?d \<le> ?sub" .
    have "0 \<le> ?tot" using s d by simp
    then show ?thesis using dec2_mono[of 0 ?tot] d by simp
  qed
  ultimately show ?thesis unfolding orderAmounts_def Let_def f by simp
qed

definition placementEffects :: "string \<Rightarrow> createOrderInput \<Rightarrow> order \<Rightarrow> world \<Rightarrow> bool" where
  "placementEffects cid dto ord w \<longleftrightarrow>
     OrderPlaced (o_id ord) cid (co_restaurantId dto) \<in> set (w_events w) \<and>
     AcceptanceTimeout (o_id ord)
       (st_acceptanceTimeoutMinutes (getRestaurantOrderSettings w (co_restaurantId dto)) * 60 * 1000) \<in> set (w_jobs w) \<and>
     (o_couponId ord \<noteq> None \<longrightarrow>
        (\<exists>x \<in> set (w_redemptions w). x_orderId x = Some (o_id ord) \<and> x_discount x = o_discount ord))"

lemma placeWithCoupon_new:
  assumes run: "placeWithCoupon pc cid dto t items res w = (Inr ord, w')"
    and fresh: "pc_orderId pc \<notin> o_id ` set (w_orders (pc_env2 pc w))" and new: "o_id ord = pc_orderId pc"
  shows "ord = storedOrder (newOrder pc cid dto t items
      (calculate (map i_totalPrice items) (map_option fst res)) (map_option fst res)) \<and>
    placementEffects cid dto ord w' \<and> w_orders w' = w_orders (pc_env2 pc w) @ [ord]"
proof -
  let ?pr = "calculate (map i_totalPrice items) (map_option fst res)"
  let ?new = "newOrder pc cid dto t items ?pr (map_option fst res)"
  let ?row = "storedOrder ?new"
  let ?w = "pc_env2 pc w"
  show ?thesis
    using createOrder_cases[of "pc_dbError pc" ?new ?w]
  proof (elim disjE exE conjE)
    fix e assume "createOrder (pc_dbError pc) ?new ?w = (Inl e, ?w)"
    then have f: "placementFailed cid dto res e ?w = (Inr ord, w')"
      using run by (simp add: placeWithCoupon_def Let_def)
    from failed_result[OF f] have "ord \<in> set (w_orders w')"
      by (auto simp: findOrderByIdempotencyKey_def dest: find_SomeD)
    moreover have "w_orders w' = w_orders ?w" using orders_failed[of cid dto res e ?w] f by simp
    ultimately show ?thesis using fresh new by (metis image_eqI)
  next
    assume "createOrder (pc_dbError pc) ?new ?w = (Inr ?row, ?w\<lparr>w_orders := w_orders ?w @ [?row]\<rparr>)"
    then have f: "finishPlacement pc cid dto res (pr_discount ?pr) ?row (?w\<lparr>w_orders := w_orders ?w @ [?row]\<rparr>) = (Inr ord, w')"
      using run by (simp add: placeWithCoupon_def Let_def)
    have o: "ord = ?row" by (rule finish_result[OF f])
    have "w_orders w' = w_orders ?w @ [?row]"
      using orders_finish[of pc cid dto res "pr_discount ?pr" ?row "?w\<lparr>w_orders := w_orders ?w @ [?row]\<rparr>"] f by simp
    moreover have d: "o_discount ?row = dec2 (pr_discount ?pr)" "o_couponId ?row = map_option c_id (map_option fst res)"
      by (simp_all add: newOrder_def split: prod.split)
    then have "placementEffects cid dto ?row w'" using finish_ok[OF f] by (auto simp: placementEffects_def)
    ultimately show ?thesis using o by simp
  qed
qed

lemma reserve_code:
  assumes "reserveRedemption ab u now cid code r s n w = (Inr (c, x), w')"
  shows "c_code c = normalizeCode code"
  using assms reserveRedemption_unfold[of ab u now cid code r s n w]
  by (auto simp: reserveRedemptionTx_def findCouponByCode_def Let_def dest: lookup_key
      split: option.splits sum.splits if_splits)

lemma placeOrderInternal_ok:
  assumes "placeOrderInternal pc cat cid dto w = (Inr ord, w')"
  obtains t items res w1 where "deliveryTarget cat cid dto = Inr t" "resolveItems cat dto = Inr items"
    "w_orders w1 = w_orders w" "placeWithCoupon pc cid dto t items res w1 = (Inr ord, w')"
    "res = None \<longleftrightarrow> \<not> truthy (co_couponCode dto)"
    "\<forall>c x. res = Some (c, x) \<longrightarrow> c_code c = normalizeCode (the (co_couponCode dto))"
proof -
  obtain t where t: "deliveryTarget cat cid dto = Inr t"
    using assms by (cases "deliveryTarget cat cid dto") (auto simp: placeOrderInternal_def)
  obtain items where i: "resolveItems cat dto = Inr items"
    using assms t by (cases "resolveItems cat dto") (auto simp: placeOrderInternal_def)
  show ?thesis
  proof (cases "truthy (co_couponCode dto)")
    case False
    then have "placeWithCoupon pc cid dto t items None w = (Inr ord, w')"
      using assms t i by (simp add: placeOrderInternal_def)
    then show ?thesis using that[OF t i refl] False by simp
  next
    case True
    let ?s = "pr_subtotal (calculate (map i_totalPrice items) None)"
    obtain c x w1 where rr: "reserveRedemption (pc_aborts pc) (pc_redemptionId pc) (pc_now pc) cid
        (the (co_couponCode dto)) (co_restaurantId dto) ?s 0 w = (Inr (c, x), w1)"
      and p: "placeWithCoupon pc cid dto t items (Some (c, x)) w1 = (Inr ord, w')"
      using assms t i True by (auto simp: placeOrderInternal_def split: prod.splits sum.splits)
    have "w_orders w1 = w_orders w"
      using orders_reserve[of "pc_aborts pc" "pc_redemptionId pc" "pc_now pc" cid "the (co_couponCode dto)"
        "co_restaurantId dto" ?s 0 w] rr by simp
    from that[OF t i this p] True reserve_code[OF rr] show ?thesis by simp
  qed
qed

lemma placeOrderInternal_new:
  assumes run: "placeOrderInternal pc cat cid dto w = (Inr ord, w')"
    and fresh: "pc_orderId pc \<notin> o_id ` set (w_orders w)" "freshEnv (pc_orderId pc) (pc_env2 pc)"
    and new: "o_id ord = pc_orderId pc"
  shows "orderAdds cat cid dto ord \<and> placementEffects cid dto ord w' \<and>
    (\<exists>v. w_orders v = w_orders w \<and> w_orders w' = w_orders (pc_env2 pc v) @ [ord])"
  using run
proof (rule placeOrderInternal_ok)
  fix t items res w1
  assume t: "deliveryTarget cat cid dto = Inr t" and i: "resolveItems cat dto = Inr items"
    and o1: "w_orders w1 = w_orders w" and p: "placeWithCoupon pc cid dto t items res w1 = (Inr ord, w')"
    and none: "res = None \<longleftrightarrow> \<not> truthy (co_couponCode dto)"
    and code: "\<forall>c x. res = Some (c, x) \<longrightarrow> c_code c = normalizeCode (the (co_couponCode dto))"
  let ?cpn = "map_option fst res"
  have "pc_orderId pc \<notin> o_id ` set (w_orders (pc_env2 pc w1))" using fresh o1 by (simp add: freshEnv_def)
  note n = placeWithCoupon_new[OF p this new]
  then have o: "ord = storedOrder (newOrder pc cid dto t items (calculate (map i_totalPrice items) ?cpn) ?cpn)" by blast
  have "o_items ord = map storedItem items" "o_restaurantId ord = co_restaurantId dto"
    "t = (o_deliveryAddress ord, o_latitude ord, o_longitude ord, o_addressId ord)"
    "o_branchId ord = co_branchId dto" "o_notes ord = co_notes dto" "o_customerId ord = cid"
    "o_idempotencyKey ord = Some (co_idempotencyKey dto)" "o_status ord = PENDING" "o_paymentStatus ord = PAY_PENDING"
    "o_paymentMode ord = (case co_paymentMode dto of None \<Rightarrow> ONLINE | Some m \<Rightarrow> m)"
    "o_couponId ord = map_option c_id ?cpn"
    unfolding o by (cases t; simp add: storedOrder_def newOrder_def)+
  moreover have "?cpn = None \<longleftrightarrow> \<not> truthy (co_couponCode dto)" using none by simp
  moreover have "\<forall>c. ?cpn = Some c \<longrightarrow> c_code c = normalizeCode (the (co_couponCode dto))" using code by auto
  moreover have "orderAmounts items ?cpn ord" unfolding o by (rule orderAmounts_new)
  ultimately have "orderAdds cat cid dto ord" unfolding orderAdds_def using i t by metis
  with n o1 show ?thesis by blast
qed

text \<open>
  C24. A new order is what the customer asked for at the menu's prices: when placement returns the
  order it has created (the generated id is one that no order has), the table has gained exactly
  that row beside what other requests committed, under the caller's id and key.  Its lines are the
  request's lines resolved against the restaurant's own menu, subtotal, discount, fee, tax and
  total are computed from them and from the coupon the request named and stored rounded to two
  places, so that the stored figures add up within two paise; with no negative line the discount
  is at most the subtotal and the total is not negative.  The order is pending and unpaid, its event is
  published, the acceptance timeout is scheduled with the restaurant's minutes, and its coupon has
  a ledger row with this order and this discount.
\<close>
theorem placed_order_sound:
  assumes "placeOrder pc cat cid dto (w, held) = (Inr ord, (w', held'))" and "o_id ord = pc_orderId pc"
    and "pc_orderId pc \<notin> o_id ` set (w_orders w)"
    and "freshEnv (pc_orderId pc) (pc_env1 pc)" and "freshEnv (pc_orderId pc) (pc_env2 pc)"
  shows "orderAdds cat cid dto ord \<and> placementEffects cid dto ord w' \<and>
    (\<exists>v. w_orders v = w_orders (pc_env1 pc w) \<and> w_orders w' = w_orders (pc_env2 pc v) @ [ord])"
proof -
  have fresh1: "pc_orderId pc \<notin> o_id ` set (w_orders (pc_env1 pc w))" using assms(3,4) by (simp add: freshEnv_def)
  have "findOrderByIdempotencyKey cid (co_idempotencyKey dto) w \<noteq> Some ord"
    using assms(2,3) by (auto simp: findOrderByIdempotencyKey_def image_iff dest!: find_SomeD)
  then have "placeOrderInternal pc cat cid dto (pc_env1 pc w) = (Inr ord, w')"
    using placeOrder_cases[OF assms(1)] by auto
  from placeOrderInternal_new[OF this fresh1 assms(5,2)] show ?thesis .
qed

lemma placed_order_sound_witness:
  "orderAdds thaliCatalog ''u'' thaliOrder placedOrder \<and>
   w_orders (fst (snd (placeOrder plainCtx thaliCatalog ''u'' thaliOrder (emptyWorld, [])))) = [placedOrder] \<and>
   AcceptanceTimeout ''o1'' 600000
     \<in> set (w_jobs (fst (snd (placeOrder plainCtx thaliCatalog ''u'' thaliOrder (emptyWorld, [])))))"
proof -
  let ?run = "placeOrder plainCtx thaliCatalog ''u'' thaliOrder (emptyWorld, [])"
  have run: "?run = (Inr placedOrder, (fst (snd ?run), snd (snd ?run)))"
    using thali_placed by (simp add: prod_eq_iff)
  have r: "w_restaurants (fst (snd ?run)) = []"
    unfolding placeOrder_def
    by (simp add: findOrderByIdempotencyKey_def emptyWorld_def tryLock_def plainCtx_def Let_def split_def
        placeOrderInternal_def thali_lines deliveryTarget_def placeWithCoupon_def createOrder_def
        finishPlacement_def truthy_def thaliOrder_def announcePlacement_def scheduleAcceptanceTimeout_def
        createStatusHistory_def thali_lines[unfolded thaliOrder_def])
  have i: "o_id placedOrder = ''o1''" by (simp add: placedOrder_def plainCtx_def)
  have "orderAdds thaliCatalog ''u'' thaliOrder placedOrder \<and>
      placementEffects ''u'' thaliOrder placedOrder (fst (snd ?run)) \<and>
      (\<exists>v. w_orders v = w_orders (pc_env1 plainCtx emptyWorld) \<and>
         w_orders (fst (snd ?run)) = w_orders (pc_env2 plainCtx v) @ [placedOrder])"
    by (rule placed_order_sound[OF run]) (simp_all add: i plainCtx_def emptyWorld_def freshEnv_def)
  then show ?thesis
    using r i by (auto simp: placementEffects_def getRestaurantOrderSettings_def plainCtx_def thaliOrder_def emptyWorld_def)
qed

text \<open>
  Placement never looks at availability: a dish the restaurant has switched off, which the
  cart refuses to take, is priced and ordered all the same; setting the flag of any item changes
  nothing about any placement.
\<close>
theorem placement_ignores_availability:
  "placeOrder pc (cat\<lparr>cat_menu := map (\<lambda>m. m\<lparr>mi_isAvailable := avail m\<rparr>) (cat_menu cat)\<rparr>) cid dto s
     = placeOrder pc cat cid dto s"
proof -
  let ?f = "\<lambda>m. m\<lparr>mi_isAvailable := avail m\<rparr>"
  have l: "lookup mi_id i (map ?f ms) = map_option ?f (lookup mi_id i ms)" for i ms
    by (induction ms) auto
  have "selectOption (?f m) oid = selectOption m oid" for m oid
    by (simp add: selectOption_def optionIndex_def itemOptions_def)
  then have s: "selectOption (?f m) = selectOption m" for m by blast
  have "resolveLine rid (map ?f ms) item = resolveLine rid ms item" for rid ms item
    by (simp add: resolveLine_def l linePrice_def s split: option.split)
  then have r: "resolveLine rid (map ?f ms) = resolveLine rid ms" for rid ms by blast
  have "filter (\<lambda>m. mi_id m \<in> S) (map ?f ms) = map ?f (filter (\<lambda>m. mi_id m \<in> S) ms)" for S ms
    by (induction ms) auto
  then have ri: "resolveItems (cat\<lparr>cat_menu := map ?f (cat_menu cat)\<rparr>) dto = resolveItems cat dto"
    by (simp add: resolveItems_def Let_def r)
  have dt: "deliveryTarget (cat\<lparr>cat_menu := map ?f (cat_menu cat)\<rparr>) cid dto = deliveryTarget cat cid dto"
    by (simp add: deliveryTarget_def)
  have pi: "placeOrderInternal pc (cat\<lparr>cat_menu := map ?f (cat_menu cat)\<rparr>) cid dto w
      = placeOrderInternal pc cat cid dto w" for w
    unfolding placeOrderInternal_def ri dt ..
  show ?thesis unfolding placeOrder_def pi ..
qed

end
