(* ===== verification/Cart.thy ===== *)
theory Cart
  imports Menu Pricing
begin

text \<open>
  The shopping cart: \<^verbatim>\<open>modules/cart/services/cart.service.ts\<close> and its repository over the two
  cart tables.  Prices are read from the menu when the cart is shown.  The lemmas give the
  single-restaurant rule, the merging of equal lines, and that the amount a cart shows is the
  subtotal the order placement computes for the same lines.
\<close>

record cart =
  k_id :: string
  k_customerId :: string
  k_restaurantId :: "string option"

record cartItem =
  ki_id :: string
  ki_cartId :: string
  ki_menuItemId :: string
  ki_variantId :: "string option"
  ki_quantity :: int
  ki_instructions :: "string option"
  ki_addonIds :: "string list"

record cartStore =
  k_carts :: "cart list"
  k_items :: "cartItem list"

record addCartItemInput =
  ka_menuItemId :: string
  ka_variantId :: "string option"
  ka_addonOptionIds :: "string list option"
  ka_quantity :: int
  ka_instructions :: "string option"
  ka_replaceExisting :: "bool option"

record cartLine =
  kl_itemId :: string
  kl_unitPrice :: rat
  kl_addonPrices :: "rat list"
  kl_quantity :: int
  kl_lineTotal :: rat
  kl_isAvailable :: bool

record cartResponse =
  kr_id :: string
  kr_restaurantId :: "string option"
  kr_lines :: "cartLine list"
  kr_subtotal :: rat
  kr_totalItems :: int

section \<open>Repository\<close>

definition findOrCreateCart :: "string \<Rightarrow> string \<Rightarrow> cartStore \<Rightarrow> cart \<times> cartStore" where
  "findOrCreateCart uuid cid s =
     (case lookup k_customerId cid (k_carts s) of
        Some c \<Rightarrow> (c, s)
      | None \<Rightarrow>
          (let c = \<lparr>k_id = uuid, k_customerId = cid, k_restaurantId = None\<rparr>
           in (c, s\<lparr>k_carts := k_carts s @ [c]\<rparr>)))"

definition itemsOf :: "string \<Rightarrow> cartStore \<Rightarrow> cartItem list" where
  "itemsOf kid s = filter (\<lambda>i. ki_cartId i = kid) (k_items s)"

definition findCartItem :: "string \<Rightarrow> string \<Rightarrow> cartStore \<Rightarrow> cartItem option" where
  "findCartItem iid kid s = List.find (\<lambda>i. ki_id i = iid \<and> ki_cartId i = kid) (k_items s)"

definition setCartRestaurant :: "string \<Rightarrow> string \<Rightarrow> cartStore \<Rightarrow> cartStore" where
  "setCartRestaurant kid rid s =
     s\<lparr>k_carts := modify (\<lambda>c. k_id c = kid) (\<lambda>c. c\<lparr>k_restaurantId := Some rid\<rparr>) (k_carts s)\<rparr>"

definition clearItems :: "string \<Rightarrow> cartStore \<Rightarrow> cartStore" where
  "clearItems kid s = s\<lparr>k_items := filter (\<lambda>i. ki_cartId i \<noteq> kid) (k_items s)\<rparr>"

text \<open>The insert fails on the variant's foreign key when the id names no variant.\<close>

definition createCartItem :: "menuItem \<Rightarrow> cartItem \<Rightarrow> cartStore \<Rightarrow> (cartStore, unit) outcome" where
  "createCartItem mi i s =
     (case ki_variantId i of
        Some v \<Rightarrow>
          if v \<in> mv_id ` set (mi_variants mi) then (Inr (), s\<lparr>k_items := k_items s @ [i]\<rparr>)
          else (Inl (RecordNotFound ''MenuItemVariant''), s)
      | None \<Rightarrow> (Inr (), s\<lparr>k_items := k_items s @ [i]\<rparr>))"

definition updateQuantity :: "string \<Rightarrow> int \<Rightarrow> cartStore \<Rightarrow> cartStore" where
  "updateQuantity iid q s =
     s\<lparr>k_items := modify (\<lambda>i. ki_id i = iid) (\<lambda>i. i\<lparr>ki_quantity := q\<rparr>) (k_items s)\<rparr>"

definition deleteCartItem :: "string \<Rightarrow> cartStore \<Rightarrow> cartStore" where
  "deleteCartItem iid s = s\<lparr>k_items := filter (\<lambda>i. ki_id i \<noteq> iid) (k_items s)\<rparr>"

section \<open>Showing a cart\<close>

definition cartUnitPrice :: "menuItem \<Rightarrow> string option \<Rightarrow> rat" where
  "cartUnitPrice mi v =
     (case v of
        None \<Rightarrow> mi_basePrice mi
      | Some i \<Rightarrow> (case lookup mv_id i (mi_variants mi) of
          None \<Rightarrow> mi_basePrice mi
        | Some mv \<Rightarrow> mv_price mv))"

definition cartLineOf :: "menuItem list \<Rightarrow> cartItem \<Rightarrow> cartLine result" where
  "cartLineOf menu i =
     (case lookup mi_id (ki_menuItemId i) menu of
        None \<Rightarrow> Inl (RecordNotFound ''MenuItem'')
      | Some mi \<Rightarrow>
          andThen (traverse (\<lambda>oid. case lookup ao_id oid (itemOptions mi) of
                       None \<Rightarrow> Inl (RecordNotFound ''AddonOption'') | Some opt \<Rightarrow> Inr (ao_price opt))
                     (ki_addonIds i)) (\<lambda>prices.
          (let unitPrice = cartUnitPrice mi (ki_variantId i);
               addons = foldl (\<lambda>sum p. sum + p) 0 prices
           in Inr \<lparr>kl_itemId = ki_id i, kl_unitPrice = unitPrice, kl_addonPrices = prices,
                   kl_quantity = ki_quantity i,
                   kl_lineTotal = (unitPrice + addons) * of_int (ki_quantity i),
                   kl_isAvailable = mi_isAvailable mi\<rparr>)))"

definition toCartResponse :: "menuItem list \<Rightarrow> cart \<Rightarrow> cartItem list \<Rightarrow> cartResponse result" where
  "toCartResponse menu c items =
     andThen (traverse (cartLineOf menu) items) (\<lambda>lines.
       Inr \<lparr>kr_id = k_id c, kr_restaurantId = k_restaurantId c, kr_lines = lines,
            kr_subtotal = foldl (\<lambda>sum l. sum + kl_lineTotal l) 0 lines,
            kr_totalItems = foldl (\<lambda>sum l. sum + kl_quantity l) 0 lines\<rparr>)"

definition getCart :: "string \<Rightarrow> menuItem list \<Rightarrow> string \<Rightarrow> cartStore \<Rightarrow> (cartStore, cartResponse) outcome" where
  "getCart uuid menu cid s =
     (let (c, s1) = findOrCreateCart uuid cid s
      in (toCartResponse menu c (itemsOf (k_id c) s1), s1))"

section \<open>Changing a cart\<close>

definition sameLine :: "addCartItemInput \<Rightarrow> cartItem \<Rightarrow> bool" where
  "sameLine d i \<longleftrightarrow>
     (let addonSet = set (case ka_addonOptionIds d of None \<Rightarrow> [] | Some os \<Rightarrow> os)
      in ki_menuItemId i = ka_menuItemId d \<and> ki_variantId i = ka_variantId d \<and>
         length (ki_addonIds i) = card addonSet \<and> (\<forall>a \<in> set (ki_addonIds i). a \<in> addonSet))"

definition cartItemGuards :: "menuItem list \<Rightarrow> addCartItemInput \<Rightarrow> menuItem result" where
  "cartItemGuards menu d =
     (case lookup mi_id (ka_menuItemId d) menu of
        None \<Rightarrow> Inl (NotFound ''Menu item'')
      | Some mi \<Rightarrow>
          andThen (guard (mi_isAvailable mi) (BadRequest ''unavailable'')) (\<lambda>_.
          andThen (guard (truthy (ka_variantId d) \<longrightarrow> the (ka_variantId d) \<in> mv_id ` set (mi_variants mi))
                    (BadRequest ''Variant'')) (\<lambda>_.
          andThen (guard (\<forall>oid \<in> set (case ka_addonOptionIds d of None \<Rightarrow> [] | Some os \<Rightarrow> os).
                      oid \<in> ao_id ` set (itemOptions mi)) (BadRequest ''Addon option'')) (\<lambda>_.
          Inr mi))))"

definition putLine ::
  "string \<Rightarrow> menuItem \<Rightarrow> string \<Rightarrow> addCartItemInput \<Rightarrow> cartItem list \<Rightarrow> cartStore \<Rightarrow> (cartStore, unit) outcome" where
  "putLine uuid mi kid d items s =
     (case List.find (sameLine d) items of
        Some i \<Rightarrow> (Inr (), updateQuantity (ki_id i) (ki_quantity i + ka_quantity d) s)
      | None \<Rightarrow>
          createCartItem mi
            \<lparr>ki_id = uuid, ki_cartId = kid, ki_menuItemId = ka_menuItemId d, ki_variantId = ka_variantId d,
             ki_quantity = ka_quantity d, ki_instructions = ka_instructions d,
             ki_addonIds = (case ka_addonOptionIds d of None \<Rightarrow> [] | Some os \<Rightarrow> os)\<rparr> s)"

definition addItem ::
  "string \<Rightarrow> string \<Rightarrow> menuItem list \<Rightarrow> string \<Rightarrow> addCartItemInput \<Rightarrow> cartStore
     \<Rightarrow> (cartStore, cartResponse) outcome" where
  "addItem uuidCart uuidItem menu cid d s =
     (case cartItemGuards menu d of
        Inl e \<Rightarrow> (Inl e, s)
      | Inr mi \<Rightarrow>
          (let (c, s1) = findOrCreateCart uuidCart cid s;
               items = itemsOf (k_id c) s1;
               conflict = (items \<noteq> [] \<and> k_restaurantId c \<noteq> None \<and> k_restaurantId c \<noteq> Some (mi_restaurantId mi));
               replace = (ka_replaceExisting d = Some True)
           in if conflict \<and> \<not> replace
              then (Inl (Conflict ''Cart contains items from a different restaurant''), s1)
              else
                (let (items2, s2) = (if conflict then ([], clearItems (k_id c) s1) else (items, s1));
                     s3 = (if k_restaurantId c \<noteq> Some (mi_restaurantId mi)
                           then setCartRestaurant (k_id c) (mi_restaurantId mi) s2 else s2)
                 in case putLine uuidItem mi (k_id c) d items2 s3 of
                      (Inl e, s4) \<Rightarrow> (Inl e, s4)
                    | (Inr _, s4) \<Rightarrow> getCart uuidCart menu cid s4)))"

definition updateItemQuantity ::
  "string \<Rightarrow> menuItem list \<Rightarrow> string \<Rightarrow> string \<Rightarrow> int \<Rightarrow> cartStore \<Rightarrow> (cartStore, cartResponse) outcome" where
  "updateItemQuantity uuid menu cid iid q s =
     (let (c, s1) = findOrCreateCart uuid cid s
      in case findCartItem iid (k_id c) s1 of
           None \<Rightarrow> (Inl (NotFound ''Cart item''), s1)
         | Some _ \<Rightarrow> getCart uuid menu cid (updateQuantity iid q s1))"

definition removeItem ::
  "string \<Rightarrow> menuItem list \<Rightarrow> string \<Rightarrow> string \<Rightarrow> cartStore \<Rightarrow> (cartStore, cartResponse) outcome" where
  "removeItem uuid menu cid iid s =
     (let (c, s1) = findOrCreateCart uuid cid s
      in case findCartItem iid (k_id c) s1 of
           None \<Rightarrow> (Inl (NotFound ''Cart item''), s1)
         | Some _ \<Rightarrow> getCart uuid menu cid (deleteCartItem iid s1))"

definition clearCart ::
  "string \<Rightarrow> menuItem list \<Rightarrow> string \<Rightarrow> cartStore \<Rightarrow> (cartStore, cartResponse) outcome" where
  "clearCart uuid menu cid s =
     (let (c, s1) = findOrCreateCart uuid cid s
      in getCart uuid menu cid (clearItems (k_id c) s1))"

section \<open>Invariant\<close>

definition mergeable :: "cartItem \<Rightarrow> cartItem \<Rightarrow> bool" where
  "mergeable i j \<longleftrightarrow> ki_cartId i = ki_cartId j \<and> ki_menuItemId i = ki_menuItemId j \<and>
     ki_variantId i = ki_variantId j \<and> set (ki_addonIds i) = set (ki_addonIds j)"

text \<open>A line fits its cart: positive quantity, distinct add-ons, and a dish of the cart's restaurant.\<close>

definition lineFits :: "menuItem list \<Rightarrow> cart list \<Rightarrow> cartItem \<Rightarrow> bool" where
  "lineFits menu carts i \<longleftrightarrow> 1 \<le> ki_quantity i \<and> distinct (ki_addonIds i) \<and>
     (\<exists>c mi. lookup k_id (ki_cartId i) carts = Some c \<and> lookup mi_id (ki_menuItemId i) menu = Some mi \<and>
        k_restaurantId c = Some (mi_restaurantId mi))"

definition cart_inv :: "menuItem list \<Rightarrow> cartStore \<Rightarrow> bool" where
  "cart_inv menu s \<longleftrightarrow> keyed k_id (k_carts s) \<and> keyed k_customerId (k_carts s) \<and> keyed ki_id (k_items s) \<and>
     (\<forall>i \<in> set (k_items s). lineFits menu (k_carts s) i) \<and>
     (\<forall>i \<in> set (k_items s). \<forall>j \<in> set (k_items s). mergeable i j \<longrightarrow> i = j)"

lemma cart_invI:
  assumes "keyed k_id (k_carts s)" "keyed k_customerId (k_carts s)" "keyed ki_id (k_items s)"
    "\<And>i. i \<in> set (k_items s) \<Longrightarrow> lineFits menu (k_carts s) i"
    "\<And>i j. i \<in> set (k_items s) \<Longrightarrow> j \<in> set (k_items s) \<Longrightarrow> mergeable i j \<Longrightarrow> i = j"
  shows "cart_inv menu s"
  using assms by (simp add: cart_inv_def)

lemma findOrCreate_inv:
  assumes inv: "cart_inv menu s" and run: "findOrCreateCart uuid cid s = (c, s1)"
    and fresh: "uuid \<notin> k_id ` set (k_carts s)"
  shows "cart_inv menu s1" "k_items s1 = k_items s" "lookup k_id (k_id c) (k_carts s1) = Some c"
    "lookup k_customerId cid (k_carts s1) = Some c"
proof -
  show "k_items s1 = k_items s" using run by (auto simp: findOrCreateCart_def Let_def split: option.splits)
  show l: "lookup k_id (k_id c) (k_carts s1) = Some c" "lookup k_customerId cid (k_carts s1) = Some c"
    using run inv fresh
    by (auto simp: findOrCreateCart_def Let_def cart_inv_def lookup_snoc_fresh lookup_None_iff
        split: option.splits intro: lookup_keyed)
  have "lineFits menu (k_carts s @ [d]) i" if "lineFits menu (k_carts s) i" for d i
    using that by (auto simp: lineFits_def lookup_append)
  then show "cart_inv menu s1"
    using run inv fresh
    by (auto simp: findOrCreateCart_def Let_def cart_inv_def keyed_snoc lookup_None_iff split: option.splits)
qed

lemma clear_inv: "cart_inv menu s \<Longrightarrow> cart_inv menu (clearItems kid s)"
  by (auto simp: cart_inv_def clearItems_def keyed_filter)

lemma delete_inv: "cart_inv menu s \<Longrightarrow> cart_inv menu (deleteCartItem iid s)"
  by (auto simp: cart_inv_def deleteCartItem_def keyed_filter)

lemma quantity_inv:
  assumes "cart_inv menu s" and "1 \<le> q"
  shows "cart_inv menu (updateQuantity iid q s)"
proof (rule cart_invI)
  let ?f = "\<lambda>i. if ki_id i = iid then i\<lparr>ki_quantity := q\<rparr> else i"
  have items: "set (k_items (updateQuantity iid q s)) = ?f ` set (k_items s)"
    by (simp add: updateQuantity_def set_modify)
  show "lineFits menu (k_carts (updateQuantity iid q s)) i" if "i \<in> set (k_items (updateQuantity iid q s))" for i
  proof -
    have "i \<in> ?f ` set (k_items s)" using that unfolding items .
    then obtain a where a: "a \<in> set (k_items s)" "i = ?f a" by auto
    then have "lineFits menu (k_carts s) a" using assms(1) by (simp add: cart_inv_def)
    then show ?thesis using a(2) assms(2) by (simp add: lineFits_def updateQuantity_def)
  qed
  show "i = j" if "i \<in> set (k_items (updateQuantity iid q s))" "j \<in> set (k_items (updateQuantity iid q s))"
    "mergeable i j" for i j
  proof -
    obtain a b where ab: "a \<in> set (k_items s)" "b \<in> set (k_items s)" "i = ?f a" "j = ?f b"
      using \<open>i \<in> _\<close> \<open>j \<in> _\<close> unfolding items by blast
    then have "mergeable a b" using \<open>mergeable i j\<close> by (auto simp: mergeable_def split: if_splits)
    with ab assms(1) show ?thesis by (auto simp: cart_inv_def)
  qed
qed (use assms in \<open>auto simp: cart_inv_def updateQuantity_def\<close>)

lemma setRestaurant_inv:
  assumes inv: "cart_inv menu s" and none: "itemsOf kid s = []"
  shows "cart_inv menu (setCartRestaurant kid rid s)"
proof (rule cart_invI)
  fix i assume "i \<in> set (k_items (setCartRestaurant kid rid s))"
  then have i: "i \<in> set (k_items s)" by (simp add: setCartRestaurant_def)
  then have "ki_cartId i \<noteq> kid" using none by (auto simp: itemsOf_def filter_empty_conv)
  then have "lookup k_id (ki_cartId i) (k_carts (setCartRestaurant kid rid s)) = lookup k_id (ki_cartId i) (k_carts s)"
    by (cases "lookup k_id (ki_cartId i) (k_carts s)")
      (auto simp: setCartRestaurant_def lookup_modify dest: lookup_key)
  then show "lineFits menu (k_carts (setCartRestaurant kid rid s)) i"
    using inv i by (simp add: cart_inv_def lineFits_def)
qed (use inv in \<open>auto simp: cart_inv_def setCartRestaurant_def\<close>)

lemma sameLine_mergeable:
  assumes d: "distinct (ki_addonIds i)"
    and j: "ki_menuItemId j = ka_menuItemId d" "ki_variantId j = ka_variantId d"
      "ki_addonIds j = (case ka_addonOptionIds d of None \<Rightarrow> [] | Some os \<Rightarrow> os)" "ki_cartId i = ki_cartId j"
  shows "mergeable i j \<longleftrightarrow> sameLine d i"
proof -
  let ?A = "set (ki_addonIds j)"
  have "set (ki_addonIds i) = ?A \<longleftrightarrow> length (ki_addonIds i) = card ?A \<and> set (ki_addonIds i) \<subseteq> ?A"
    using d by (metis List.finite_set card_subset_eq distinct_card order_refl)
  then show ?thesis using j by (auto simp: mergeable_def sameLine_def Let_def)
qed

lemma putLine_inv:
  assumes inv: "cart_inv menu s" and fresh: "uuid \<notin> ki_id ` set (k_items s)"
    and c: "lookup k_id kid (k_carts s) = Some c" "k_restaurantId c = Some (mi_restaurantId mi)"
    and mi: "lookup mi_id (ka_menuItemId d) menu = Some mi"
    and q: "1 \<le> ka_quantity d" and dist: "distinct (case ka_addonOptionIds d of None \<Rightarrow> [] | Some os \<Rightarrow> os)"
    and items: "items = itemsOf kid s" and run: "putLine uuid mi kid d items s = (r, s')"
  shows "cart_inv menu s'"
proof (cases "List.find (sameLine d) items")
  case (Some i)
  then have "i \<in> set (k_items s)" using items by (auto simp: itemsOf_def dest!: find_SomeD)
  then have "1 \<le> ki_quantity i + ka_quantity d" using inv q by (auto simp: cart_inv_def lineFits_def)
  with Some run inv show ?thesis by (auto simp: putLine_def intro!: quantity_inv)
next
  case None
  let ?new = "\<lparr>ki_id = uuid, ki_cartId = kid, ki_menuItemId = ka_menuItemId d, ki_variantId = ka_variantId d,
     ki_quantity = ka_quantity d, ki_instructions = ka_instructions d,
     ki_addonIds = (case ka_addonOptionIds d of None \<Rightarrow> [] | Some os \<Rightarrow> os)\<rparr>"
  have cases: "s' = s \<or> s' = s\<lparr>k_items := k_items s @ [?new]\<rparr>"
    using None run by (auto simp: putLine_def createCartItem_def split: option.splits if_splits)
  have other: "\<not> mergeable i ?new" if "i \<in> set (k_items s)" for i
  proof
    assume m: "mergeable i ?new"
    then have "i \<in> set items" using that items by (simp add: mergeable_def itemsOf_def)
    moreover have "sameLine d i"
      using m sameLine_mergeable[of i ?new d] inv that by (auto simp: cart_inv_def lineFits_def mergeable_def)
    ultimately show False using None by (auto simp: find_None_iff)
  qed
  have sym: "mergeable i j = mergeable j i" for i j by (auto simp: mergeable_def)
  have "lineFits menu (k_carts s) ?new" using c mi q dist by (simp add: lineFits_def)
  then have "cart_inv menu (s\<lparr>k_items := k_items s @ [?new]\<rparr>)"
    using inv fresh other sym by (auto simp: cart_inv_def keyed_snoc)
  with cases inv show ?thesis by auto
qed

text \<open>Once the customer has a cart, showing it changes nothing.\<close>

lemma getCart_same:
  assumes "cid \<in> k_customerId ` set (k_carts s)"
  shows "snd (getCart uuid menu cid s) = s"
proof -
  obtain c where "lookup k_customerId cid (k_carts s) = Some c"
    using assms by (meson lookup_None_iff not_None_eq)
  then show ?thesis by (simp add: getCart_def findOrCreateCart_def)
qed

lemma customers_modify:
  "k_customerId ` set (modify p (\<lambda>c. c\<lparr>k_restaurantId := r\<rparr>) cs) = k_customerId ` set cs"
  by (induction cs) auto

lemma customers_kept [simp]:
  "k_customerId ` set (k_carts (setCartRestaurant kid rid s)) = k_customerId ` set (k_carts s)"
  "k_carts (clearItems kid s) = k_carts s" "k_carts (deleteCartItem iid s) = k_carts s"
  "k_carts (updateQuantity iid q s) = k_carts s"
  by (simp_all add: setCartRestaurant_def clearItems_def deleteCartItem_def updateQuantity_def customers_modify)

lemma putLine_carts: "putLine uuid mi kid d items s = (r, s') \<Longrightarrow> k_carts s' = k_carts s"
  by (auto simp: putLine_def createCartItem_def updateQuantity_def split: option.splits if_splits)

lemma addItem_inv:
  assumes inv: "cart_inv menu s" and fresh: "uuidC \<notin> k_id ` set (k_carts s)" "uuidI \<notin> ki_id ` set (k_items s)"
    and q: "1 \<le> ka_quantity d" and dist: "distinct (case ka_addonOptionIds d of None \<Rightarrow> [] | Some os \<Rightarrow> os)"
  shows "cart_inv menu (snd (addItem uuidC uuidI menu cid d s))"
proof (cases "cartItemGuards menu d")
  case (Inr mi)
  have mi: "lookup mi_id (ka_menuItemId d) menu = Some mi"
    using Inr by (auto simp: cartItemGuards_def andThen_Inr_iff split: option.splits)
  obtain c s1 where f: "findOrCreateCart uuidC cid s = (c, s1)" by force
  note s1 = findOrCreate_inv[OF inv f fresh(1)]
  let ?items = "itemsOf (k_id c) s1"
  let ?conflict = "?items \<noteq> [] \<and> k_restaurantId c \<noteq> None \<and> k_restaurantId c \<noteq> Some (mi_restaurantId mi)"
  let ?s2 = "if ?conflict then clearItems (k_id c) s1 else s1"
  let ?i2 = "if ?conflict then [] else ?items"
  let ?s3 = "if k_restaurantId c \<noteq> Some (mi_restaurantId mi)
     then setCartRestaurant (k_id c) (mi_restaurantId mi) ?s2 else ?s2"
  obtain r s4 where p: "putLine uuidI mi (k_id c) d ?i2 ?s3 = (r, s4)" by force
  have some: "k_restaurantId c \<noteq> None" if "?items \<noteq> []"
  proof -
    from that obtain i where "i \<in> set ?items" by (cases ?items) auto
    then have "i \<in> set (k_items s1)" "ki_cartId i = k_id c" by (auto simp: itemsOf_def)
    then show ?thesis using s1(1,3) by (auto simp: cart_inv_def lineFits_def)
  qed
  have inv2: "cart_inv menu ?s2" using s1(1) by (simp add: clear_inv)
  have i2: "itemsOf (k_id c) ?s2 = ?i2" by (simp add: itemsOf_def clearItems_def)
  have inv3: "cart_inv menu ?s3"
  proof (cases "k_restaurantId c = Some (mi_restaurantId mi)")
    case False
    then have "?i2 = []" using some by (cases "?items = []") auto
    then show ?thesis using False setRestaurant_inv[OF inv2, of "k_id c"] i2 by presburger
  qed (use inv2 in presburger)
  have i3: "itemsOf (k_id c) ?s3 = ?i2" by (simp add: itemsOf_def setCartRestaurant_def clearItems_def)
  have c3: "\<exists>c'. lookup k_id (k_id c) (k_carts ?s3) = Some c' \<and> k_restaurantId c' = Some (mi_restaurantId mi)"
    using s1(3) by (auto simp: setCartRestaurant_def clearItems_def lookup_modify)
  have fr: "uuidI \<notin> ki_id ` set (k_items ?s3)"
    using fresh(2) s1(2) by (auto simp: setCartRestaurant_def clearItems_def)
  from c3 obtain c' where c': "lookup k_id (k_id c) (k_carts ?s3) = Some c'"
    "k_restaurantId c' = Some (mi_restaurantId mi)" by blast
  have inv4: "cart_inv menu s4" by (rule putLine_inv[OF inv3 fr c' mi q dist i3[symmetric] p])
  have "snd (addItem uuidC uuidI menu cid d s) \<in> {s1, s4, snd (getCart uuidC menu cid s4)}"
    using Inr f p by (auto simp: addItem_def Let_def split: sum.split prod.split)
  moreover have "cid \<in> k_customerId ` set (k_carts s1)"
    using s1(4) lookup_None_iff[of k_customerId cid "k_carts s1"] by simp
  then have "cid \<in> k_customerId ` set (k_carts s4)" using putLine_carts[OF p] by simp
  then have "snd (getCart uuidC menu cid s4) = s4" by (rule getCart_same)
  ultimately show ?thesis using s1(1) inv4 by auto
qed (use inv in \<open>simp add: addItem_def\<close>)

lemma itemWrite_inv:
  assumes inv: "cart_inv menu s" and fresh: "uuid \<notin> k_id ` set (k_carts s)"
    and w: "\<And>t. cart_inv menu t \<Longrightarrow> cart_inv menu (f t)" "\<And>t. k_carts (f t) = k_carts t"
    and f: "findOrCreateCart uuid cid s = (c, s1)"
  shows "cart_inv menu s1" "cart_inv menu (snd (getCart uuid menu cid (f s1)))"
proof -
  note s1 = findOrCreate_inv[OF inv f fresh]
  show "cart_inv menu s1" by (rule s1(1))
  have "cid \<in> k_customerId ` set (k_carts s1)"
    using s1(4) lookup_None_iff[of k_customerId cid "k_carts s1"] by simp
  then have "snd (getCart uuid menu cid (f s1)) = f s1" using w(2) by (intro getCart_same) simp
  then show "cart_inv menu (snd (getCart uuid menu cid (f s1)))" using w(1) s1(1) by simp
qed

inductive cartStep :: "menuItem list \<Rightarrow> cartStore \<Rightarrow> cartStore \<Rightarrow> bool" for menu where
  add: "uuidC \<notin> k_id ` set (k_carts s) \<Longrightarrow> uuidI \<notin> ki_id ` set (k_items s) \<Longrightarrow> 1 \<le> ka_quantity d \<Longrightarrow>
    distinct (case ka_addonOptionIds d of None \<Rightarrow> [] | Some os \<Rightarrow> os) \<Longrightarrow>
    cartStep menu s (snd (addItem uuidC uuidI menu cid d s))"
| quantity: "uuid \<notin> k_id ` set (k_carts s) \<Longrightarrow> 1 \<le> q \<Longrightarrow>
    cartStep menu s (snd (updateItemQuantity uuid menu cid iid q s))"
| remove: "uuid \<notin> k_id ` set (k_carts s) \<Longrightarrow> cartStep menu s (snd (removeItem uuid menu cid iid s))"
| clear: "uuid \<notin> k_id ` set (k_carts s) \<Longrightarrow> cartStep menu s (snd (clearCart uuid menu cid s))"
| show_cart: "uuid \<notin> k_id ` set (k_carts s) \<Longrightarrow> cartStep menu s (snd (getCart uuid menu cid s))"

lemma cartStep_inv: "cartStep menu s s' \<Longrightarrow> cart_inv menu s \<Longrightarrow> cart_inv menu s'"
proof (induction rule: cartStep.induct)
  case (quantity uuid s q cid iid)
  then show ?case
    using itemWrite_inv[of menu s uuid "updateQuantity iid q" cid] quantity_inv
    by (cases "findOrCreateCart uuid cid s") (auto simp: updateItemQuantity_def Let_def split: option.split)
next
  case (remove uuid s cid iid)
  then show ?case
    using itemWrite_inv[of menu s uuid "deleteCartItem iid" cid] delete_inv
    by (cases "findOrCreateCart uuid cid s") (auto simp: removeItem_def Let_def split: option.split)
next
  case (clear uuid s cid)
  then show ?case
    using itemWrite_inv[of menu s uuid "clearItems (k_id (fst (findOrCreateCart uuid cid s)))" cid] clear_inv
    by (cases "findOrCreateCart uuid cid s") (auto simp: clearCart_def Let_def)
next
  case (show_cart uuid s cid)
  then show ?case
    using findOrCreate_inv(1) by (auto simp: getCart_def Let_def split: prod.split)
qed (simp_all add: addItem_inv)

section \<open>Cart and checkout agree\<close>

text \<open>The order line of a cart item.\<close>

definition checkoutLine :: "cartItem \<Rightarrow> orderLineInput" where
  "checkoutLine i = \<lparr>li_menuItemId = ki_menuItemId i, li_variantId = ki_variantId i,
     li_addonOptionIds = Some (ki_addonIds i), li_quantity = ki_quantity i, li_instructions = ki_instructions i\<rparr>"

text \<open>Ids are primary keys and never empty.\<close>

definition menuKeyed :: "menuItem list \<Rightarrow> bool" where
  "menuKeyed menu \<longleftrightarrow> (\<forall>mi \<in> set menu. keyed ao_id (itemOptions mi) \<and> [] \<notin> mv_id ` set (mi_variants mi))"

lemma addon_prices:
  assumes k: "keyed ao_id (itemOptions mi)" and sel: "traverse (selectOption mi) ids = Inr selected"
  shows "traverse (\<lambda>oid. case lookup ao_id oid (itemOptions mi) of
      None \<Rightarrow> Inl (RecordNotFound ''AddonOption'') | Some opt \<Rightarrow> Inr (ao_price opt)) ids
    = Inr (map (\<lambda>s. snd (snd s)) selected)"
  using sel
proof (induction ids arbitrary: selected)
  case (Cons oid ids)
  then obtain s rest where s: "selectOption mi oid = Inr s" "traverse (selectOption mi) ids = Inr rest"
    "selected = s # rest" by (auto simp: andThen_Inr_iff)
  then obtain opt where "lookup ao_id oid (itemOptions mi) = Some opt" "snd (snd s) = ao_price opt"
    using lookup_rev[OF k] by (auto simp: selectOption_def optionIndex_def split: option.splits if_splits)
  with Cons.IH[OF s(2)] s(3) show ?case by simp
qed simp

lemma checkout_line_total:
  assumes k: "menuKeyed menu" and r: "resolveLine rid menu (checkoutLine i) = Inr line"
  shows "\<exists>l. cartLineOf menu i = Inr l \<and> kl_lineTotal l = i_totalPrice line"
proof -
  obtain mi where mi: "lookup mi_id (ki_menuItemId i) menu = Some mi"
    and p: "linePrice mi (ki_variantId i) = Inr (i_unitPrice line)"
    and sel: "traverse (selectOption mi) (ki_addonIds i) = Inr (i_addons line)"
    and tot: "i_totalPrice line = (i_unitPrice line + addonsTotal (i_addons line)) * of_int (ki_quantity i)"
    using resolveLine_fields[OF r] by (auto simp: checkoutLine_def)
  have mem: "keyed ao_id (itemOptions mi)" "[] \<notin> mv_id ` set (mi_variants mi)"
    using k lookup_mem[OF mi] by (auto simp: menuKeyed_def)
  have "lookup mv_id [] (mi_variants mi) = None" using mem(2) by (simp add: lookup_None_iff)
  then have "cartUnitPrice mi (ki_variantId i) = i_unitPrice line"
    using p by (auto simp: linePrice_def cartUnitPrice_def truthy_def split: option.splits if_splits)
  moreover have "foldl (\<lambda>sum p. sum + p) 0 (map (\<lambda>s. snd (snd s)) (i_addons line)) = addonsTotal (i_addons line)"
    by (simp add: addonsTotal_def foldl_map)
  ultimately show ?thesis using mi addon_prices[OF mem(1) sel] tot by (simp add: cartLineOf_def Let_def)
qed

section \<open>Properties\<close>

text \<open>
  A cart holds one restaurant's dishes, once each: from an empty store, after any sequence of
  requests of any customers, every line has a positive quantity and is a dish of the restaurant its
  cart is bound to, and no cart has two lines for the same dish, variant and add-ons.
\<close>
theorem cart_single_restaurant:
  assumes "(cartStep menu)\<^sup>*\<^sup>* \<lparr>k_carts = [], k_items = []\<rparr> s"
  shows "\<forall>i \<in> set (k_items s). lineFits menu (k_carts s) i \<and>
    (\<forall>j \<in> set (k_items s). mergeable i j \<longrightarrow> i = j)"
proof -
  have "cart_inv menu s" using assms
  proof (induction rule: rtranclp_induct)
    case base
    show ?case by (simp add: cart_inv_def keyed_def)
  qed (rule cartStep_inv)
  then show ?thesis by (auto simp: cart_inv_def)
qed

text \<open>
  C25. What the cart shows is what the order charges for the food: if the lines of a cart resolve
  as order lines against the menu, then the cart can be shown and its subtotal is the subtotal the
  pricing engine computes for the order.
\<close>
theorem cart_checkout_same_subtotal:
  assumes "menuKeyed menu" and "traverse (resolveLine rid menu) (map checkoutLine items) = Inr lines"
  shows "\<exists>r. toCartResponse menu c items = Inr r \<and>
    kr_subtotal r = pr_subtotal (calculate (map i_totalPrice lines) cpn)"
proof -
  have "\<exists>ls. traverse (cartLineOf menu) items = Inr ls \<and> map kl_lineTotal ls = map i_totalPrice lines"
    using assms(2)
  proof (induction items arbitrary: lines)
    case (Cons i items)
    then obtain line rest where l: "resolveLine rid menu (checkoutLine i) = Inr line"
      "traverse (resolveLine rid menu) (map checkoutLine items) = Inr rest" "lines = line # rest"
      by (auto simp: andThen_Inr_iff)
    with Cons.IH[OF l(2)] checkout_line_total[OF assms(1) l(1)] show ?case by auto
  qed simp
  then obtain ls where ls: "traverse (cartLineOf menu) items = Inr ls"
    "map kl_lineTotal ls = map i_totalPrice lines" by blast
  have "foldl (\<lambda>sum l. sum + kl_lineTotal l) 0 ls = sum_list (map kl_lineTotal ls)"
    using subtotal_sum_list[of "map kl_lineTotal ls"] by (simp add: subtotalCalculate_def foldl_map)
  then show ?thesis using ls by (simp add: toCartResponse_def calculate_fields)
qed

definition thaliAvailable :: menuItem where
  "thaliAvailable = \<lparr>mi_id = ''m1'', mi_restaurantId = ''rest'', mi_name = ''Thali'', mi_basePrice = 100,
     mi_isAvailable = True, mi_variants = [\<lparr>mv_id = ''v1'', mv_price = 120\<rparr>],
     mi_addons = [\<lparr>ag_id = ''g1'', ag_name = ''Extras'', ag_minSelection = 0, ag_maxSelection = 1,
       ag_options = [\<lparr>ao_id = ''a1'', ao_name = ''Roti'', ao_price = 15, ao_isAvailable = True\<rparr>]\<rparr>]\<rparr>"

definition twoThalis :: addCartItemInput where
  "twoThalis = \<lparr>ka_menuItemId = ''m1'', ka_variantId = Some ''v1'', ka_addonOptionIds = Some [''a1''],
     ka_quantity = 2, ka_instructions = None, ka_replaceExisting = None\<rparr>"

definition filledCart :: cartStore where
  "filledCart = snd (addItem ''k2'' ''i2'' [thaliAvailable] ''u'' twoThalis
     (snd (addItem ''k1'' ''i1'' [thaliAvailable] ''u'' twoThalis \<lparr>k_carts = [], k_items = []\<rparr>)))"

lemmas cart_eval = addItem_def cartItemGuards_def thaliAvailable_def twoThalis_def truthy_def itemOptions_def
  findOrCreateCart_def itemsOf_def setCartRestaurant_def putLine_def createCartItem_def getCart_def
  sameLine_def updateQuantity_def Let_def

lemma firstCart:
  "snd (addItem ''k1'' ''i1'' [thaliAvailable] ''u'' twoThalis \<lparr>k_carts = [], k_items = []\<rparr>) =
   \<lparr>k_carts = [\<lparr>k_id = ''k1'', k_customerId = ''u'', k_restaurantId = Some ''rest''\<rparr>],
    k_items = [\<lparr>ki_id = ''i1'', ki_cartId = ''k1'', ki_menuItemId = ''m1'', ki_variantId = Some ''v1'',
      ki_quantity = 2, ki_instructions = None, ki_addonIds = [''a1'']\<rparr>]\<rparr>"
  by (simp add: cart_eval)

lemma cart_single_restaurant_witness:
  "map ki_quantity (k_items filledCart) = [4] \<and>
   list_all (lineFits [thaliAvailable] (k_carts filledCart)) (k_items filledCart)"
proof -
  let ?s0 = "\<lparr>k_carts = [], k_items = []\<rparr>"
  let ?s1 = "snd (addItem ''k1'' ''i1'' [thaliAvailable] ''u'' twoThalis ?s0)"
  have "cartStep [thaliAvailable] ?s0 ?s1"
    by (rule cartStep.add) (simp_all add: twoThalis_def)
  moreover have "cartStep [thaliAvailable] ?s1 filledCart"
    unfolding filledCart_def by (rule cartStep.add) (simp_all only: firstCart, simp_all add: twoThalis_def)
  ultimately have "(cartStep [thaliAvailable])\<^sup>*\<^sup>* ?s0 filledCart" by (meson r_into_rtranclp rtranclp.rtrancl_into_rtrancl)
  note fits = cart_single_restaurant[OF this]
  have "map ki_quantity (k_items filledCart) = [4]"
    unfolding filledCart_def firstCart by (simp add: cart_eval)
  with fits show ?thesis by (simp add: list_all_iff)
qed

lemma cart_checkout_same_subtotal_witness:
  "\<exists>r. toCartResponse [thaliAvailable] (hd (k_carts filledCart)) (k_items filledCart) = Inr r \<and> kr_subtotal r = 540"
proof -
  let ?items = "k_items filledCart"
  let ?line = "\<lparr>i_menuItemId = ''m1'', i_variantId = Some ''v1'', i_quantity = 4, i_unitPrice = 120,
     i_totalPrice = 540, i_instructions = None, i_addons = [(''a1'', ''Roti'', 15)]\<rparr>"
  have items: "?items = [\<lparr>ki_id = ''i1'', ki_cartId = ''k1'', ki_menuItemId = ''m1'', ki_variantId = Some ''v1'',
      ki_quantity = 4, ki_instructions = None, ki_addonIds = [''a1'']\<rparr>]"
    unfolding filledCart_def firstCart by (simp add: cart_eval)
  have t: "traverse (resolveLine ''rest'' [thaliAvailable]) (map checkoutLine ?items) = Inr [?line]"
    unfolding items
    by (simp add: checkoutLine_def resolveLine_def thaliAvailable_def linePrice_def truthy_def selectOption_def
        optionIndex_def itemOptions_def selectionOk_def selectedCount_def addonsTotal_def)
  have "menuKeyed [thaliAvailable]"
    by (simp add: menuKeyed_def thaliAvailable_def itemOptions_def keyed_def)
  from cart_checkout_same_subtotal[OF this t, of "hd (k_carts filledCart)" None] show ?thesis
    by (simp add: calculate_fields)
qed

end
