(* ===== verification/Wallet.thy ===== *)
theory Wallet
  imports OrderRefund
begin

text \<open>
  The wallet: \<^verbatim>\<open>modules/wallet\<close> (service, repository, event listener) over the append-only
  ledger.  A write is one serializable transaction: it sums the user's completed entries, refuses
  a negative balance and appends a row, unless the unique index on (user, type, order) refuses it.
  The money columns are \<^verbatim>\<open>Decimal(10, 2)\<close>: amount, snapshot and the order's wallet amount are each
  rounded as they are written.
  \<open>aborts n\<close> says whether attempt \<open>n\<close> is aborted by the database; \<open>env\<close> is what other requests
  commit between the checks of \<^verbatim>\<open>applyToOrder\<close> and its transaction.  Realtime pushes and
  descriptions are left out.
\<close>

definition CASHBACK_RATE :: rat where "CASHBACK_RATE = 2 / 100"

definition REFERRAL_REWARD_AMOUNT :: rat where "REFERRAL_REWARD_AMOUNT = 50"

definition MAX_WALLET_RETRIES :: nat where "MAX_WALLET_RETRIES = 2"

record ledgerInput =
  le_userId :: string
  le_type :: walletTxType
  le_amount :: rat
  le_orderId :: "string option"
  le_referralId :: "string option"

section \<open>Repository\<close>

definition balanceOf :: "string \<Rightarrow> walletTx list \<Rightarrow> rat" where
  "balanceOf uid rows = total t_amount (\<lambda>r. t_userId r = uid \<and> t_status r = WTX_COMPLETED) rows"

definition getBalance :: "string \<Rightarrow> world \<Rightarrow> rat" where
  "getBalance uid w = balanceOf uid (w_ledger w)"

definition findLedgerEntry :: "string \<Rightarrow> walletTxType \<Rightarrow> string \<Rightarrow> world \<Rightarrow> walletTx option" where
  "findLedgerEntry uid ty oid w =
     List.find (\<lambda>r. t_userId r = uid \<and> t_type r = ty \<and> t_orderId r = Some oid) (w_ledger w)"

definition insertLedgerEntry ::
  "string \<Rightarrow> ledgerInput \<Rightarrow> rat option \<Rightarrow> world \<Rightarrow> (world, walletTx) outcome" where
  "insertLedgerEntry uuid p knownBalanceBefore w =
     (let balanceBefore = (case knownBalanceBefore of
            Some b \<Rightarrow> b | None \<Rightarrow> balanceOf (le_userId p) (w_ledger w));
          balanceAfter = balanceBefore + le_amount p;
          r = \<lparr>t_id = uuid, t_userId = le_userId p, t_type = le_type p, t_status = WTX_COMPLETED,
               t_amount = dec2 (le_amount p), t_balanceAfter = dec2 balanceAfter, t_orderId = le_orderId p,
               t_referralId = le_referralId p\<rparr>
      in if balanceAfter < 0 then (Inl (BadRequest ''Insufficient wallet balance''), w)
         else if le_orderId p \<noteq> None \<and>
           findLedgerEntry (le_userId p) (le_type p) (the (le_orderId p)) w \<noteq> None
         then (Inl (UniqueViolation ''WalletTransaction''), w)
         else (Inr r, w\<lparr>w_ledger := w_ledger w @ [r]\<rparr>))"

text \<open>The claim and the debit in one transaction: an exception rolls both back.\<close>

definition claimWallet :: "string \<Rightarrow> rat \<Rightarrow> world \<Rightarrow> nat \<times> world" where
  "claimWallet oid amount w =
     (let p = (\<lambda>r. o_id r = oid \<and> o_walletUsed r = 0 \<and> o_paymentStatus r \<noteq> PAID)
      in (matches p (w_orders w),
          w\<lparr>w_orders := modify p (\<lambda>r. r\<lparr>o_walletUsed := dec2 amount\<rparr>) (w_orders w)\<rparr>))"

definition applyToOrderAtomic ::
  "string \<Rightarrow> string \<Rightarrow> string \<Rightarrow> rat \<Rightarrow> world \<Rightarrow> (world, (walletTx \<times> rat) option) outcome" where
  "applyToOrderAtomic uuid uid oid requested w =
     (case lookup o_id oid (w_orders w) of
        None \<Rightarrow> (Inl (NotFound ''Order''), w)
      | Some ord \<Rightarrow>
          (let balance = balanceOf uid (w_ledger w);
               amountToApply = min (min requested balance) (o_total ord)
           in if amountToApply \<le> 0 then (Inl (BadRequest ''Insufficient wallet balance''), w)
              else
                (let (count, w1) = claimWallet oid amountToApply w
                 in if count = 0 then (Inr None, w)
                    else case insertLedgerEntry uuid
                           \<lparr>le_userId = uid, le_type = ORDER_PAYMENT, le_amount = - amountToApply,
                            le_orderId = Some oid, le_referralId = None\<rparr> (Some balance) w1 of
                           (Inl e, _) \<Rightarrow> (Inl e, w)
                         | (Inr r, w2) \<Rightarrow> (Inr (Some (r, amountToApply)), w2))))"

definition findReferralByReferee :: "string \<Rightarrow> world \<Rightarrow> referral option" where
  "findReferralByReferee uid w = lookup f_refereeId uid (w_referrals w)"

definition markReferralRewarded :: "int \<Rightarrow> string \<Rightarrow> rat \<Rightarrow> world \<Rightarrow> world" where
  "markReferralRewarded now rid amount w =
     w\<lparr>w_referrals := modify (\<lambda>f. f_id f = rid)
        (\<lambda>f. f\<lparr>f_status := REF_REWARDED, f_reward := Some (dec2 amount), f_rewardedAt := Some now\<rparr>) (w_referrals w)\<rparr>"

definition countDeliveredOrders :: "string \<Rightarrow> world \<Rightarrow> nat" where
  "countDeliveredOrders uid w = matches (\<lambda>r. o_customerId r = uid \<and> o_status r = DELIVERED) (w_orders w)"

record referralSummary =
  rf_totalReferred :: nat
  rf_totalRewarded :: nat
  rf_totalEarned :: rat

definition getReferralSummary :: "string \<Rightarrow> world \<Rightarrow> referralSummary" where
  "getReferralSummary uid w =
     \<lparr>rf_totalReferred = matches (\<lambda>f. f_referrerId f = uid) (w_referrals w),
      rf_totalRewarded = matches (\<lambda>f. f_referrerId f = uid \<and> f_status f = REF_REWARDED) (w_referrals w),
      rf_totalEarned = total t_amount (\<lambda>r. t_userId r = uid \<and> t_type r = REFERRAL_REWARD \<and>
         t_status r = WTX_COMPLETED) (w_ledger w)\<rparr>"

section \<open>Service\<close>

definition applyLedgerSideEffects :: "rat \<Rightarrow> walletTx \<Rightarrow> world \<Rightarrow> world" where
  "applyLedgerSideEffects amount r w =
     (let w1 = auditLog (Some (t_userId r)) ''WalletTransaction'' (t_id r) ''CREATE'' w
      in if amount > 0 then enqueue (Notification (t_userId r) ''WALLET_CREDIT'') w1 else w1)"

function writeLedgerEntry ::
  "(nat \<Rightarrow> bool) \<Rightarrow> string \<Rightarrow> ledgerInput \<Rightarrow> nat \<Rightarrow> world \<Rightarrow> (world, walletTx) outcome" where
  "writeLedgerEntry aborts uuid p attempt w =
     (if aborts attempt
      then if attempt < MAX_WALLET_RETRIES then writeLedgerEntry aborts uuid p (attempt + 1) w
        else (Inl SerializationFailure, w)
      else case insertLedgerEntry uuid p None w of
             (Inr r, w1) \<Rightarrow> (Inr r, applyLedgerSideEffects (le_amount p) r w1)
           | (Inl e, w1) \<Rightarrow>
               (case (e, le_orderId p) of
                  (UniqueViolation _, Some oid) \<Rightarrow>
                    (case findLedgerEntry (le_userId p) (le_type p) oid w1 of
                       Some r \<Rightarrow> (Inr r, w1)
                     | None \<Rightarrow> (Inl e, w1))
                | _ \<Rightarrow> (Inl e, w1)))"
  by pat_completeness auto
termination
  by (relation "measure (\<lambda>(_, _, _, attempt, _). Suc MAX_WALLET_RETRIES - attempt)")
    (auto simp: MAX_WALLET_RETRIES_def)

declare writeLedgerEntry.simps [simp del]

definition walletChecks :: "string \<Rightarrow> string \<Rightarrow> rat \<Rightarrow> world \<Rightarrow> order result" where
  "walletChecks uid oid requested w =
     (case lookup o_id oid (w_orders w) of
        None \<Rightarrow> Inl (NotFound ''Order'')
      | Some ord \<Rightarrow>
          andThen (guard (o_customerId ord = uid) (Forbidden ''order'')) (\<lambda>_.
          andThen (guard (o_paymentStatus ord \<noteq> PAID) (BadRequest ''already paid'')) (\<lambda>_.
          andThen (guard (\<not> o_walletUsed ord > 0) (BadRequest ''already applied'')) (\<lambda>_.
          andThen (guard (\<not> (requested \<le> 0 \<or> requested > o_total ord)) (BadRequest ''Invalid amount'')) (\<lambda>_.
          Inr ord)))))"

function applyToOrder ::
  "(nat \<Rightarrow> bool) \<Rightarrow> (world \<Rightarrow> world) \<Rightarrow> string \<Rightarrow> string \<Rightarrow> string \<Rightarrow> rat \<Rightarrow> nat \<Rightarrow> world
     \<Rightarrow> (world, rat \<times> rat) outcome" where
  "applyToOrder aborts env uuid uid oid requested attempt w =
     (case walletChecks uid oid requested w of
        Inl e \<Rightarrow> (Inl e, w)
      | Inr ord \<Rightarrow>
          if aborts attempt
          then if attempt < MAX_WALLET_RETRIES
            then applyToOrder aborts env uuid uid oid requested (attempt + 1) (env w)
            else (Inl SerializationFailure, env w)
          else case applyToOrderAtomic uuid uid oid requested (env w) of
                 (Inl e, w1) \<Rightarrow> (Inl e, w1)
               | (Inr None, w1) \<Rightarrow> (Inl (BadRequest ''already applied''), w1)
               | (Inr (Some (r, amountApplied)), w1) \<Rightarrow>
                   (let w2 = applyLedgerSideEffects (- amountApplied) r w1;
                        remaining = max (round2 (o_total ord - amountApplied)) 0
                    in (Inr (amountApplied, remaining),
                        if remaining = 0 then publish (PaymentSuccess [] oid) w2 else w2)))"
  by pat_completeness auto
termination
  by (relation "measure (\<lambda>(_, _, _, _, _, _, attempt, _). Suc MAX_WALLET_RETRIES - attempt)")
    (auto simp: MAX_WALLET_RETRIES_def)

declare applyToOrder.simps [simp del]

definition creditCashback ::
  "(nat \<Rightarrow> bool) \<Rightarrow> string \<Rightarrow> string \<Rightarrow> string \<Rightarrow> rat \<Rightarrow> world \<Rightarrow> (world, unit) outcome" where
  "creditCashback aborts uuid uid oid orderTotal w =
     (let amount = round2 (orderTotal * CASHBACK_RATE)
      in if amount \<le> 0 then (Inr (), w)
         else let (r, w1) = writeLedgerEntry aborts uuid
                \<lparr>le_userId = uid, le_type = CASHBACK, le_amount = amount, le_orderId = Some oid,
                 le_referralId = None\<rparr> 0 w
              in (andThen r (\<lambda>_. Inr ()), w1))"

definition creditRefund ::
  "(nat \<Rightarrow> bool) \<Rightarrow> string \<Rightarrow> string \<Rightarrow> string \<Rightarrow> rat \<Rightarrow> world \<Rightarrow> (world, unit) outcome" where
  "creditRefund aborts uuid uid oid amount w =
     (if amount \<le> 0 then (Inr (), w)
      else let (r, w1) = writeLedgerEntry aborts uuid
             \<lparr>le_userId = uid, le_type = REFUND_CREDIT, le_amount = round2 amount, le_orderId = Some oid,
              le_referralId = None\<rparr> 0 w
           in (andThen r (\<lambda>_. Inr ()), w1))"

definition referralCredit :: "referral \<Rightarrow> string \<Rightarrow> ledgerInput" where
  "referralCredit f uid = \<lparr>le_userId = uid, le_type = REFERRAL_REWARD, le_amount = REFERRAL_REWARD_AMOUNT,
     le_orderId = None, le_referralId = Some (f_id f)\<rparr>"

text \<open>\<^verbatim>\<open>Promise.all\<close>: both credits are attempted, a failure of either rejects the whole.\<close>

definition rewardReferralIfEligible ::
  "(nat \<Rightarrow> bool) \<Rightarrow> (nat \<Rightarrow> bool) \<Rightarrow> string \<Rightarrow> string \<Rightarrow> int \<Rightarrow> string \<Rightarrow> world \<Rightarrow> (world, unit) outcome" where
  "rewardReferralIfEligible aborts1 aborts2 uuid1 uuid2 now refereeId w =
     (case findReferralByReferee refereeId w of
        None \<Rightarrow> (Inr (), w)
      | Some f \<Rightarrow>
          if f_status f \<noteq> REF_PENDING \<or> countDeliveredOrders refereeId w \<noteq> 1 then (Inr (), w)
          else
            (let w1 = markReferralRewarded now (f_id f) REFERRAL_REWARD_AMOUNT w;
                 (r1, w2) = writeLedgerEntry aborts1 uuid1 (referralCredit f (f_refereeId f)) 0 w1;
                 (r2, w3) = writeLedgerEntry aborts2 uuid2 (referralCredit f (f_referrerId f)) 0 w2
             in case andThen r1 (\<lambda>_. r2) of
                  Inl e \<Rightarrow> (Inl e, w3)
                | Inr _ \<Rightarrow> (Inr (), enqueue (Notification (f_referrerId f) ''REFERRAL_REWARD'') w3)))"

definition adminAdjustBalance ::
  "(nat \<Rightarrow> bool) \<Rightarrow> string \<Rightarrow> string \<Rightarrow> rat \<Rightarrow> world \<Rightarrow> (world, walletTx) outcome" where
  "adminAdjustBalance aborts uuid uid amount w =
     (if amount = 0 then (Inl (BadRequest ''Adjustment amount cannot be zero''), w)
      else writeLedgerEntry aborts uuid
        \<lparr>le_userId = uid, le_type = ADMIN_ADJUSTMENT, le_amount = amount, le_orderId = None,
         le_referralId = None\<rparr> 0 w)"

text \<open>\<^verbatim>\<open>WalletEventListener\<close>; the event bus logs and swallows a handler's failure.\<close>

definition onWalletEvent ::
  "(nat \<Rightarrow> bool) \<Rightarrow> string \<Rightarrow> string \<Rightarrow> string \<Rightarrow> int \<Rightarrow> event \<Rightarrow> world \<Rightarrow> world" where
  "onWalletEvent aborts uuid uuid1 uuid2 now ev w =
     (case ev of
        OrderStatusChanged oid customerId st _ amount \<Rightarrow>
          if st \<noteq> DELIVERED then w
          else
            (case (case amount of
                     None \<Rightarrow> (Inr (), w)
                   | Some t \<Rightarrow> creditCashback aborts uuid customerId oid t w) of
               (Inl _, w1) \<Rightarrow> w1
             | (Inr _, w1) \<Rightarrow> snd (rewardReferralIfEligible aborts aborts uuid1 uuid2 now customerId w1))
      | OrderRefunded oid customerId _ amount \<Rightarrow> snd (creditRefund aborts uuid customerId oid amount w)
      | _ \<Rightarrow> w)"

section \<open>The ledger invariant\<close>

text \<open>A row is written completed and with two places; the balance it leaves is not negative, and
  its snapshot is that balance, or one paisa above it after a debit whose half paisa was rounded
  away from zero in the amount and up in the snapshot.\<close>

definition rowOk :: "walletTx list \<Rightarrow> walletTx \<Rightarrow> bool" where
  "rowOk pre r \<longleftrightarrow> t_status r = WTX_COMPLETED \<and> onGrid (t_amount r) \<and> onGrid (t_balanceAfter r) \<and>
     0 \<le> balanceOf (t_userId r) (pre @ [r]) \<and>
     (t_balanceAfter r = balanceOf (t_userId r) (pre @ [r]) \<or>
      (t_amount r < 0 \<and> t_balanceAfter r = balanceOf (t_userId r) (pre @ [r]) + 1 / 100))"

definition ledgerOk :: "walletTx list \<Rightarrow> bool" where
  "ledgerOk rows \<longleftrightarrow> (\<forall>pre r post. rows = pre @ r # post \<longrightarrow> rowOk pre r)"

definition orderEntriesUnique :: "walletTx list \<Rightarrow> bool" where
  "orderEntriesUnique rows \<longleftrightarrow> (\<forall>uid ty oid.
     matches (\<lambda>r. t_userId r = uid \<and> t_type r = ty \<and> t_orderId r = Some oid) rows \<le> 1)"

text \<open>What an order says it took from wallets is what the ledger debited for it.\<close>

definition debitsFor :: "string \<Rightarrow> walletTx list \<Rightarrow> rat" where
  "debitsFor oid rows = total t_amount (\<lambda>r. t_type r = ORDER_PAYMENT \<and> t_orderId r = Some oid) rows"

definition wallet_inv :: "world \<Rightarrow> bool" where
  "wallet_inv w \<longleftrightarrow> keyed o_id (w_orders w) \<and> ledgerOk (w_ledger w) \<and> orderEntriesUnique (w_ledger w) \<and>
     (\<forall>ord \<in> set (w_orders w). debitsFor (o_id ord) (w_ledger w) = - o_walletUsed ord)"

lemma ledgerOk_Nil [simp]: "ledgerOk []"
  by (simp add: ledgerOk_def)

lemma ledgerOk_snoc: "ledgerOk (rows @ [r]) \<longleftrightarrow> ledgerOk rows \<and> rowOk rows r"
proof (intro iffI conjI)
  assume l: "ledgerOk (rows @ [r])"
  show "ledgerOk rows" unfolding ledgerOk_def
  proof (intro allI impI)
    fix pre q post assume "rows = pre @ q # post"
    then have "rows @ [r] = pre @ q # (post @ [r])" by simp
    with l show "rowOk pre q" unfolding ledgerOk_def by blast
  qed
  from l show "rowOk rows r" unfolding ledgerOk_def by blast
next
  assume r: "ledgerOk rows \<and> rowOk rows r"
  show "ledgerOk (rows @ [r])" unfolding ledgerOk_def
  proof (intro allI impI)
    fix pre q post assume e: "rows @ [r] = pre @ q # post"
    show "rowOk pre q"
    proof (cases post rule: rev_cases)
      case Nil
      then show ?thesis using e r by simp
    next
      case (snoc post' z)
      then have "rows = pre @ q # post'" using e by (simp flip: append_Cons append_assoc)
      then show ?thesis using r unfolding ledgerOk_def by blast
    qed
  qed
qed

lemma balance_snoc:
  "balanceOf uid (rows @ [r]) = balanceOf uid rows + (if t_userId r = uid \<and> t_status r = WTX_COMPLETED then t_amount r else 0)"
  by (simp add: balanceOf_def)

lemma balance_grid: "ledgerOk rows \<Longrightarrow> onGrid (balanceOf uid rows)"
proof (induction rows rule: rev_induct)
  case (snoc r rows)
  then show ?case by (auto simp: ledgerOk_snoc balance_snoc rowOk_def intro: onGrid_add)
qed (simp add: balanceOf_def)

lemma balance_nonneg: "ledgerOk rows \<Longrightarrow> 0 \<le> balanceOf uid rows"
proof (induction rows rule: rev_induct)
  case (snoc r rows)
  then show ?case
    by (cases "t_userId r = uid") (auto simp: ledgerOk_snoc balance_snoc rowOk_def)
qed (simp add: balanceOf_def)

text \<open>What a write of any amount leaves behind: rounding keeps the balance non-negative.\<close>

lemma row_written:
  assumes rows: "ledgerOk rows" and b: "0 \<le> balanceOf (t_userId r) rows + a"
    and r: "t_status r = WTX_COMPLETED" "t_amount r = dec2 a" "t_balanceAfter r = dec2 (balanceOf (t_userId r) rows + a)"
  shows "rowOk rows r"
proof -
  let ?b = "balanceOf (t_userId r) rows"
  have g: "onGrid ?b" by (rule balance_grid[OF rows])
  have "dec2 (- ?b) \<le> dec2 a" using b by (intro dec2_mono) simp
  then have "0 \<le> ?b + dec2 a" using g by (simp add: dec2_grid)
  moreover have "dec2 (?b + a) = ?b + dec2 a \<or> (dec2 a < 0 \<and> dec2 (?b + a) = ?b + dec2 a + 1 / 100)"
  proof (cases "dec2 (?b + a) = ?b + dec2 a")
    case False
    with dec2_add[OF g b] have e: "a < 0" "dec2 (?b + a) = ?b + dec2 a + 1 / 100" by auto
    have "dec2 a \<noteq> 0"
    proof
      assume "dec2 a = 0"
      moreover have "dec2 (?b + a) \<le> ?b" using dec2_mono[of "?b + a" ?b] e(1) g by (simp add: dec2_grid)
      ultimately show False using e(2) by simp
    qed
    then show ?thesis using e dec2_mono[of a 0] by simp
  qed simp
  ultimately show ?thesis using r by (simp add: rowOk_def balance_snoc)
qed

section \<open>What one write does\<close>

lemma insert_cases:
  assumes "insertLedgerEntry uuid p known w = (x, w')"
  obtains (refused) e where "x = Inl e" "w' = w"
  | (appended) r where "x = Inr r" "w' = w\<lparr>w_ledger := w_ledger w @ [r]\<rparr>" "t_userId r = le_userId p"
      "t_type r = le_type p" "t_status r = WTX_COMPLETED" "t_amount r = dec2 (le_amount p)" "t_orderId r = le_orderId p"
      "t_balanceAfter r = dec2 ((case known of Some b \<Rightarrow> b | None \<Rightarrow> balanceOf (le_userId p) (w_ledger w)) + le_amount p)"
      "0 \<le> (case known of Some b \<Rightarrow> b | None \<Rightarrow> balanceOf (le_userId p) (w_ledger w)) + le_amount p"
      "\<And>oid. le_orderId p = Some oid \<Longrightarrow> findLedgerEntry (le_userId p) (le_type p) oid w = None"
  using assms by (fastforce simp: insertLedgerEntry_def Let_def split: if_splits)

lemma unique_snoc:
  assumes u: "orderEntriesUnique rows"
    and none: "\<And>oid. t_orderId r = Some oid \<Longrightarrow>
        \<forall>q \<in> set rows. \<not> (t_userId q = t_userId r \<and> t_type q = t_type r \<and> t_orderId q = Some oid)"
  shows "orderEntriesUnique (rows @ [r])"
  unfolding orderEntriesUnique_def
proof (intro allI)
  fix uid ty oid
  let ?p = "\<lambda>r. t_userId r = uid \<and> t_type r = ty \<and> t_orderId r = Some oid"
  show "matches ?p (rows @ [r]) \<le> 1"
  proof (cases "?p r")
    case True
    then have "matches ?p rows = 0" using none[of oid] by (auto simp: matches_0_iff)
    then show ?thesis by simp
  next
    case False
    then have "matches ?p (rows @ [r]) = matches ?p rows" by auto
    then show ?thesis using u by (simp add: orderEntriesUnique_def)
  qed
qed

lemma findLedger_None:
  "findLedgerEntry uid ty oid w = None \<longleftrightarrow>
     (\<forall>q \<in> set (w_ledger w). \<not> (t_userId q = uid \<and> t_type q = ty \<and> t_orderId q = Some oid))"
  by (auto simp: findLedgerEntry_def find_None_iff)

lemma insert_inv:
  assumes inv: "wallet_inv w" and run: "insertLedgerEntry uuid p None w = (x, w')"
    and ty: "le_type p \<noteq> ORDER_PAYMENT"
  shows "wallet_inv w'"
  using run
proof (cases rule: insert_cases)
  case (appended r)
  have "ledgerOk (w_ledger w @ [r])"
    using inv appended row_written[of "w_ledger w" r "le_amount p"] by (simp add: wallet_inv_def ledgerOk_snoc)
  moreover have "orderEntriesUnique (w_ledger w @ [r])"
  proof (rule unique_snoc)
    show "orderEntriesUnique (w_ledger w)" using inv by (simp add: wallet_inv_def)
    show "\<forall>q \<in> set (w_ledger w). \<not> (t_userId q = t_userId r \<and> t_type q = t_type r \<and> t_orderId q = Some oid)"
      if "t_orderId r = Some oid" for oid
      using that appended findLedger_None by simp
  qed
  ultimately show ?thesis using inv appended ty by (simp add: wallet_inv_def debitsFor_def)
qed (use inv in simp)

lemma effects_tables [simp]:
  "w_ledger (applyLedgerSideEffects a r w) = w_ledger w"
  "w_orders (applyLedgerSideEffects a r w) = w_orders w"
  "w_referrals (applyLedgerSideEffects a r w) = w_referrals w"
  by (simp_all add: applyLedgerSideEffects_def Let_def)

lemma wallet_inv_cong:
  "w_ledger w = w_ledger w' \<Longrightarrow> w_orders w = w_orders w' \<Longrightarrow> wallet_inv w = wallet_inv w'"
  by (simp add: wallet_inv_def)

text \<open>A service write inserts once, or finds the entry that is already there, or does nothing.\<close>

lemma write_cases:
  "writeLedgerEntry aborts uuid p n w = (Inl SerializationFailure, w) \<or>
   (\<exists>r w1. insertLedgerEntry uuid p None w = (Inr r, w1) \<and>
      writeLedgerEntry aborts uuid p n w = (Inr r, applyLedgerSideEffects (le_amount p) r w1)) \<or>
   (\<exists>e. insertLedgerEntry uuid p None w = (Inl e, w) \<and> snd (writeLedgerEntry aborts uuid p n w) = w)"
proof (induction aborts uuid p n w rule: writeLedgerEntry.induct)
  case (1 aborts uuid p n w)
  show ?case
  proof (cases "aborts n")
    case True
    then have "writeLedgerEntry aborts uuid p n w = (if n < MAX_WALLET_RETRIES
        then writeLedgerEntry aborts uuid p (n + 1) w else (Inl SerializationFailure, w))"
      by (subst writeLedgerEntry.simps) simp
    with 1[OF True] show ?thesis by (cases "n < MAX_WALLET_RETRIES") simp_all
  next
    case False
    obtain x w1 where i: "insertLedgerEntry uuid p None w = (x, w1)" by force
    have e: "writeLedgerEntry aborts uuid p n w =
       (case insertLedgerEntry uuid p None w of
             (Inr r, w1) \<Rightarrow> (Inr r, applyLedgerSideEffects (le_amount p) r w1)
           | (Inl e, w1) \<Rightarrow>
               (case (e, le_orderId p) of
                  (UniqueViolation _, Some oid) \<Rightarrow>
                    (case findLedgerEntry (le_userId p) (le_type p) oid w1 of
                       Some r \<Rightarrow> (Inr r, w1)
                     | None \<Rightarrow> (Inl e, w1))
                | _ \<Rightarrow> (Inl e, w1)))"
      using False by (subst writeLedgerEntry.simps) simp
    from i show ?thesis
      by (cases rule: insert_cases) (auto simp: e i split: error.split option.split)
  qed
qed

lemma write_inv:
  assumes inv: "wallet_inv w" and ty: "le_type p \<noteq> ORDER_PAYMENT"
  shows "wallet_inv (snd (writeLedgerEntry aborts uuid p n w))"
  using write_cases[of aborts uuid p n w]
proof (elim disjE exE conjE)
  fix r w1 assume i: "insertLedgerEntry uuid p None w = (Inr r, w1)"
    and "writeLedgerEntry aborts uuid p n w = (Inr r, applyLedgerSideEffects (le_amount p) r w1)"
  then show ?thesis using insert_inv[OF inv i ty] wallet_inv_cong[of w1 "applyLedgerSideEffects (le_amount p) r w1"] by simp
qed (use inv in simp_all)

lemma applyAtomic_inv:
  assumes inv: "wallet_inv w" and run: "applyToOrderAtomic uuid uid oid requested w = (x, w')"
  shows "wallet_inv w'"
proof (cases "lookup o_id oid (w_orders w)")
  case (Some ord)
  let ?b = "balanceOf uid (w_ledger w)"
  let ?a = "min (min requested ?b) (o_total ord)"
  let ?c = "\<lambda>r. o_walletUsed r = 0 \<and> o_paymentStatus r \<noteq> PAID"
  let ?w1 = "w\<lparr>w_orders := modify (\<lambda>r. o_id r = oid \<and> ?c r) (\<lambda>r. r\<lparr>o_walletUsed := dec2 ?a\<rparr>) (w_orders w)\<rparr>"
  let ?p = "\<lparr>le_userId = uid, le_type = ORDER_PAYMENT, le_amount = - ?a, le_orderId = Some oid, le_referralId = None\<rparr>"
  have k: "keyed o_id (w_orders w)" using inv by (simp add: wallet_inv_def)
  have m: "matches (\<lambda>r. o_id r = oid \<and> ?c r) (w_orders w) = (if ?c ord then 1 else 0)"
    using matches_pk[OF k, of oid ?c] Some by simp
  obtain y w2 where i: "insertLedgerEntry uuid ?p (Some ?b) ?w1 = (y, w2)" by force
  from i show ?thesis
  proof (cases rule: insert_cases)
    case (refused e)
    then show ?thesis using run Some i inv
      by (auto simp: applyToOrderAtomic_def claimWallet_def Let_def split: if_splits)
  next
    case (appended r)
    show ?thesis
    proof (cases "?a \<le> 0 \<or> \<not> ?c ord")
      case True
      then show ?thesis using run Some inv m
        by (auto simp: applyToOrderAtomic_def claimWallet_def Let_def split: if_splits)
    next
      case False
      then have w': "w' = w2" using run Some m i appended
        by (auto simp: applyToOrderAtomic_def claimWallet_def Let_def split: if_splits)
      have "ledgerOk (w_ledger w @ [r])"
        using inv appended(3,5,6,8,9) row_written[of "w_ledger w" r "- ?a"] by (simp add: wallet_inv_def ledgerOk_snoc)
      moreover have "orderEntriesUnique (w_ledger w @ [r])"
        using inv appended(3,4,7,10) findLedger_None[of uid ORDER_PAYMENT oid ?w1]
        by (intro unique_snoc) (auto simp: wallet_inv_def)
      moreover have "debitsFor (o_id q) (w_ledger w @ [r]) = - o_walletUsed q" if "q \<in> set (w_orders ?w1)" for q
      proof -
        obtain q0 where q0: "q0 \<in> set (w_orders w)" "q = (if o_id q0 = oid \<and> ?c q0 then q0\<lparr>o_walletUsed := dec2 ?a\<rparr> else q0)"
          using \<open>q \<in> set (w_orders ?w1)\<close> by (auto simp: set_modify)
        have d: "debitsFor (o_id q0) (w_ledger w) = - o_walletUsed q0" using inv q0(1) by (simp add: wallet_inv_def)
        show ?thesis
        proof (cases "o_id q0 = oid")
          case True
          then have "q0 = ord" using lookup_keyed[OF k q0(1)] Some by simp
          then have "q = ord\<lparr>o_walletUsed := dec2 ?a\<rparr>" "o_walletUsed ord = 0" using q0(2) False True by simp_all
          with d True \<open>q0 = ord\<close> appended(4,6,7) show ?thesis by (simp add: debitsFor_def)
        qed (use q0(2) d appended(7) in \<open>simp add: debitsFor_def\<close>)
      qed
      ultimately show ?thesis using k w' appended by (simp add: wallet_inv_def)
    qed
  qed
qed (use run inv in \<open>simp add: applyToOrderAtomic_def\<close>)

lemma apply_inv:
  assumes "wallet_inv w" and "\<And>v. wallet_inv v \<Longrightarrow> wallet_inv (env v)"
  shows "wallet_inv (snd (applyToOrder aborts env uuid uid oid requested n w))"
  using assms
proof (induction aborts env uuid uid oid requested n w rule: applyToOrder.induct)
  case (1 aborts env uuid uid oid requested n w)
  show ?case
  proof (cases "walletChecks uid oid requested w")
    case (Inr ord)
    show ?thesis
    proof (cases "aborts n")
      case True
      then show ?thesis using 1 Inr by (subst applyToOrder.simps) simp
    next
      case False
      obtain x w1 where a: "applyToOrderAtomic uuid uid oid requested (env w) = (x, w1)" by force
      have i: "wallet_inv w1" by (rule applyAtomic_inv[OF 1(3)[OF 1(2)] a])
      have "wallet_inv (applyLedgerSideEffects a r w1)" for a r
        using i wallet_inv_cong[of w1 "applyLedgerSideEffects a r w1"] by simp
      moreover have "wallet_inv (publish ev (applyLedgerSideEffects a r w1))" for a r ev
        using i wallet_inv_cong[of w1 "publish ev (applyLedgerSideEffects a r w1)"] by simp
      ultimately show ?thesis using False Inr a i
        by (subst applyToOrder.simps) (auto simp: Let_def split: sum.split option.split)
    qed
  qed (use 1 in \<open>simp add: applyToOrder.simps\<close>)
qed

lemma cashback_inv: "wallet_inv w \<Longrightarrow> wallet_inv (snd (creditCashback aborts uuid uid oid t w))"
  by (auto simp: creditCashback_def Let_def split_def intro!: write_inv)

lemma refundCredit_inv: "wallet_inv w \<Longrightarrow> wallet_inv (snd (creditRefund aborts uuid uid oid t w))"
  by (auto simp: creditRefund_def Let_def split_def intro!: write_inv)

lemma adjust_inv: "wallet_inv w \<Longrightarrow> wallet_inv (snd (adminAdjustBalance aborts uuid uid t w))"
  by (auto simp: adminAdjustBalance_def intro!: write_inv)

lemma referral_inv:
  assumes inv: "wallet_inv w"
  shows "wallet_inv (snd (rewardReferralIfEligible a1 a2 u1 u2 now uid w))"
proof (cases "findReferralByReferee uid w")
  case (Some f)
  let ?w1 = "markReferralRewarded now (f_id f) REFERRAL_REWARD_AMOUNT w"
  let ?w2 = "snd (writeLedgerEntry a1 u1 (referralCredit f (f_refereeId f)) 0 ?w1)"
  let ?w3 = "snd (writeLedgerEntry a2 u2 (referralCredit f (f_referrerId f)) 0 ?w2)"
  have "wallet_inv ?w1" using inv wallet_inv_cong[of w ?w1] by (simp add: markReferralRewarded_def)
  then have "wallet_inv ?w3" by (intro write_inv) (simp_all add: referralCredit_def)
  moreover have "wallet_inv (enqueue j ?w3)" for j
    using calculation wallet_inv_cong[of ?w3 "enqueue j ?w3"] by simp
  ultimately show ?thesis using inv Some
    by (auto simp: rewardReferralIfEligible_def Let_def split_def split: sum.split)
qed (use inv in \<open>simp add: rewardReferralIfEligible_def\<close>)

text \<open>Everything else that happens: other services never touch the ledger or the wallet column of
  an order, and a new order starts with nothing taken under an id the ledger does not know.\<close>

definition walletNeutral :: "world \<Rightarrow> world \<Rightarrow> bool" where
  "walletNeutral w w' \<longleftrightarrow> w_ledger w' = w_ledger w \<and> keyed o_id (w_orders w') \<and>
     (\<forall>q \<in> set (w_orders w'). (\<exists>p \<in> set (w_orders w). o_id p = o_id q \<and> o_walletUsed p = o_walletUsed q) \<or>
        (o_walletUsed q = 0 \<and> (\<forall>r \<in> set (w_ledger w). t_orderId r \<noteq> Some (o_id q))))"

inductive walletStep :: "world \<Rightarrow> world \<Rightarrow> bool" where
  cashback: "walletStep w (snd (creditCashback aborts uuid uid oid t w))"
| refunded: "walletStep w (snd (creditRefund aborts uuid uid oid t w))"
| referred: "walletStep w (snd (rewardReferralIfEligible a1 a2 u1 u2 now uid w))"
| adjusted: "walletStep w (snd (adminAdjustBalance aborts uuid uid t w))"
| applied: "(\<And>v. wallet_inv v \<Longrightarrow> wallet_inv (env v)) \<Longrightarrow>
    walletStep w (snd (applyToOrder aborts env uuid uid oid t 0 w))"
| other: "walletNeutral w w' \<Longrightarrow> walletStep w w'"

lemma neutral_inv:
  assumes "wallet_inv w" and "walletNeutral w w'"
  shows "wallet_inv w'"
proof -
  have "debitsFor (o_id q) (w_ledger w) = - o_walletUsed q" if q: "q \<in> set (w_orders w')" for q
  proof -
    have "debitsFor (o_id q) rows = 0" if "\<forall>r \<in> set rows. t_orderId r \<noteq> Some (o_id q)" for rows
      using that by (induction rows) (auto simp: debitsFor_def)
    then show ?thesis using assms q unfolding wallet_inv_def walletNeutral_def by fastforce
  qed
  with assms show ?thesis by (simp add: wallet_inv_def walletNeutral_def)
qed

lemma walletStep_inv: "walletStep w w' \<Longrightarrow> wallet_inv w \<Longrightarrow> wallet_inv w'"
  by (induction rule: walletStep.induct)
    (auto intro: cashback_inv refundCredit_inv referral_inv adjust_inv apply_inv neutral_inv)

section \<open>Properties\<close>


definition walletWorld :: world where
  "walletWorld = emptyWorld\<lparr>w_orders := [sampleOrder]\<rparr>"

definition fundedWorld :: world where
  "fundedWorld = snd (adminAdjustBalance (\<lambda>n. n = 0) ''t1'' ''u1'' 30 walletWorld)"

definition partlyPaid :: "(world, rat \<times> rat) outcome" where
  "partlyPaid = applyToOrder (\<lambda>_. False) id ''t2'' ''u1'' ''o1'' 100 0 fundedWorld"

lemma walletWorld_inv: "wallet_inv walletWorld"
  by (simp add: wallet_inv_def walletWorld_def emptyWorld_def keyed_def orderEntriesUnique_def
      debitsFor_def sampleOrder_def)

lemma fundedWorld_eq:
  "w_ledger fundedWorld = [\<lparr>t_id = ''t1'', t_userId = ''u1'', t_type = ADMIN_ADJUSTMENT, t_status = WTX_COMPLETED,
     t_amount = 30, t_balanceAfter = 30, t_orderId = None, t_referralId = None\<rparr>]"
  "w_orders fundedWorld = [sampleOrder]"
proof -
  let ?p = "\<lparr>le_userId = ''u1'', le_type = ADMIN_ADJUSTMENT, le_amount = 30, le_orderId = None, le_referralId = None\<rparr>"
  have "writeLedgerEntry (\<lambda>n. n = 0) ''t1'' ?p 0 walletWorld = writeLedgerEntry (\<lambda>n. n = 0) ''t1'' ?p (Suc 0) walletWorld"
    by (subst writeLedgerEntry.simps) (simp add: MAX_WALLET_RETRIES_def)
  then have f: "fundedWorld = snd (writeLedgerEntry (\<lambda>n. n = 0) ''t1'' ?p (Suc 0) walletWorld)"
    by (simp add: fundedWorld_def adminAdjustBalance_def)
  show "w_ledger fundedWorld = [\<lparr>t_id = ''t1'', t_userId = ''u1'', t_type = ADMIN_ADJUSTMENT, t_status = WTX_COMPLETED,
     t_amount = 30, t_balanceAfter = 30, t_orderId = None, t_referralId = None\<rparr>]" "w_orders fundedWorld = [sampleOrder]"
    unfolding f
    by (simp_all add: writeLedgerEntry.simps[of _ _ _ "Suc 0"] insertLedgerEntry_def walletWorld_def emptyWorld_def
        balanceOf_def Let_def)
qed

lemma partlyPaid_eq:
  "fst partlyPaid = Inr (30, 70)"
  "w_orders (snd partlyPaid) = [sampleOrder\<lparr>o_walletUsed := 30\<rparr>]"
  "map t_amount (w_ledger (snd partlyPaid)) = [30, - 30]"
  "getBalance ''u1'' (snd partlyPaid) = 0"
proof -
  have "walletChecks ''u1'' ''o1'' 100 fundedWorld = Inr sampleOrder"
    by (simp add: walletChecks_def fundedWorld_eq sampleOrder_def)
  moreover have "round2 (70 :: rat) = 70" by code_simp
  ultimately show "fst partlyPaid = Inr (30, 70)"
    "w_orders (snd partlyPaid) = [sampleOrder\<lparr>o_walletUsed := 30\<rparr>]"
    "map t_amount (w_ledger (snd partlyPaid)) = [30, - 30]" "getBalance ''u1'' (snd partlyPaid) = 0"
    by (simp_all add: partlyPaid_def applyToOrder.simps applyToOrderAtomic_def claimWallet_def insertLedgerEntry_def
        fundedWorld_eq balanceOf_def getBalance_def findLedgerEntry_def sampleOrder_def Let_def)
qed


text \<open>The paisa is real: 10.005 applied from a balance of 100 is stored as a debit of 10.01 with the
  snapshot 90.00, while the balance is 89.99; the response still speaks of 10.005.\<close>

definition halfPaisaWorld :: world where
  "halfPaisaWorld = snd (adminAdjustBalance (\<lambda>_. False) ''t1'' ''u1'' 100 walletWorld)"

definition halfPaisaRun :: "(world, rat \<times> rat) outcome" where
  "halfPaisaRun = applyToOrder (\<lambda>_. False) id ''t2'' ''u1'' ''o1'' (2001 / 200) 0 halfPaisaWorld"

lemma halfPaisaWorld_eq:
  "w_ledger halfPaisaWorld = [\<lparr>t_id = ''t1'', t_userId = ''u1'', t_type = ADMIN_ADJUSTMENT, t_status = WTX_COMPLETED,
     t_amount = 100, t_balanceAfter = 100, t_orderId = None, t_referralId = None\<rparr>]"
  "w_orders halfPaisaWorld = [sampleOrder]"
  by (simp_all add: halfPaisaWorld_def adminAdjustBalance_def writeLedgerEntry.simps insertLedgerEntry_def
      walletWorld_def emptyWorld_def balanceOf_def Let_def)

lemma half_paisa_debit:
  "fst halfPaisaRun = Inr (2001 / 200, 90)"
  "map t_amount (w_ledger (snd halfPaisaRun)) = [100, - (1001 / 100)]"
  "map t_balanceAfter (w_ledger (snd halfPaisaRun)) = [100, 90]"
  "getBalance ''u1'' (snd halfPaisaRun) = 8999 / 100"
  "map o_walletUsed (w_orders (snd halfPaisaRun)) = [1001 / 100]"
proof -
  have "walletChecks ''u1'' ''o1'' (2001 / 200) halfPaisaWorld = Inr sampleOrder"
    by (simp add: walletChecks_def halfPaisaWorld_eq sampleOrder_def)
  moreover have "round2 (17999 / 200 :: rat) = 90" by code_simp
  moreover have "dec2 (2001 / 200 :: rat) = 1001 / 100" "dec2 (17999 / 200 :: rat) = 90" by code_simp+
  ultimately show "fst halfPaisaRun = Inr (2001 / 200, 90)"
    "map t_amount (w_ledger (snd halfPaisaRun)) = [100, - (1001 / 100)]"
    "map t_balanceAfter (w_ledger (snd halfPaisaRun)) = [100, 90]"
    "getBalance ''u1'' (snd halfPaisaRun) = 8999 / 100"
    "map o_walletUsed (w_orders (snd halfPaisaRun)) = [1001 / 100]"
    by (simp_all add: halfPaisaRun_def applyToOrder.simps applyToOrderAtomic_def claimWallet_def insertLedgerEntry_def
        halfPaisaWorld_eq balanceOf_def getBalance_def findLedgerEntry_def sampleOrder_def Let_def)
qed

section \<open>Events delivered twice\<close>

lemma write_settled:
  assumes "le_orderId p = Some oid" and "findLedgerEntry (le_userId p) (le_type p) oid w \<noteq> None"
  shows "w_ledger (snd (writeLedgerEntry ab u p n w)) = w_ledger w"
  using write_cases[of ab u p n w]
proof (elim disjE exE conjE)
  fix r w1 assume i: "insertLedgerEntry u p None w = (Inr r, w1)"
  then show ?thesis using assms by (auto simp: insertLedgerEntry_def Let_def split: if_splits)
qed simp_all

lemma write_once:
  "writeLedgerEntry (\<lambda>_. False) u p 0 w =
     (case insertLedgerEntry u p None w of
             (Inr r, w1) \<Rightarrow> (Inr r, applyLedgerSideEffects (le_amount p) r w1)
           | (Inl e, w1) \<Rightarrow>
               (case (e, le_orderId p) of
                  (UniqueViolation _, Some oid) \<Rightarrow>
                    (case findLedgerEntry (le_userId p) (le_type p) oid w1 of
                       Some r \<Rightarrow> (Inr r, w1)
                     | None \<Rightarrow> (Inl e, w1))
                | _ \<Rightarrow> (Inl e, w1)))"
  by (subst writeLedgerEntry.simps) simp

lemma write_ok_settles:
  assumes "writeLedgerEntry (\<lambda>_. False) u p 0 w = (Inr r, w1)" and "le_orderId p = Some oid"
  shows "findLedgerEntry (le_userId p) (le_type p) oid w1 \<noteq> None"
proof -
  obtain x v where i: "insertLedgerEntry u p None w = (x, v)" by force
  from i show ?thesis
  proof (cases rule: insert_cases)
    case (refused e)
    then show ?thesis using assms i by (auto simp: write_once split: error.splits option.splits)
  next
    case (appended q)
    then have "q \<in> set (w_ledger w1)" using assms(1) i by (auto simp: write_once)
    then show ?thesis using appended assms(2) findLedger_None by fastforce
  qed
qed

lemma write_error_ledger:
  assumes "writeLedgerEntry (\<lambda>_. False) u p 0 w = (Inl e, w1)"
  shows "w_ledger w1 = w_ledger w"
    and "w_ledger v = w_ledger w \<Longrightarrow> w_ledger (snd (writeLedgerEntry ab u' p n v)) = w_ledger v \<and>
      \<not> ok (fst (writeLedgerEntry ab u' p n v))"
proof -
  obtain x z where i: "insertLedgerEntry u p None w = (x, z)" by force
  from i have low: "balanceOf (le_userId p) (w_ledger w) + le_amount p < 0" and "w1 = w"
    by (cases rule: insert_cases; use assms i in
        \<open>auto simp: write_once insertLedgerEntry_def Let_def split: if_splits error.splits option.splits\<close>)+
  then show "w_ledger w1 = w_ledger w" by simp
  assume "w_ledger v = w_ledger w"
  then have iv: "insertLedgerEntry u' p None v = (Inl (BadRequest ''Insufficient wallet balance''), v)"
    using low by (simp add: insertLedgerEntry_def Let_def)
  have "\<not> ok (fst (writeLedgerEntry ab u' p n v))"
    using iv
  proof (induction ab u' p n v rule: writeLedgerEntry.induct)
    case (1 ab u' p n v)
    then show ?case by (subst writeLedgerEntry.simps) simp
  qed
  then show "w_ledger (snd (writeLedgerEntry ab u' p n v)) = w_ledger v \<and> \<not> ok (fst (writeLedgerEntry ab u' p n v))"
    using write_cases[of ab u' p n v] iv by auto
qed

lemma cashback_twice:
  assumes "creditCashback (\<lambda>_. False) u uid oid t w = (Inr (), w1)"
    and "w_ledger v = w_ledger w1 \<or> (\<exists>more. w_ledger v = w_ledger w1 @ more)"
  shows "w_ledger (snd (creditCashback ab u' uid oid t v)) = w_ledger v"
proof (cases "round2 (t * CASHBACK_RATE) \<le> 0")
  case False
  let ?p = "\<lparr>le_userId = uid, le_type = CASHBACK, le_amount = round2 (t * CASHBACK_RATE), le_orderId = Some oid,
                 le_referralId = None\<rparr>"
  obtain r where "writeLedgerEntry (\<lambda>_. False) u ?p 0 w = (Inr r, w1)"
    using assms(1) False by (auto simp: creditCashback_def Let_def split: prod.splits simp: andThen_Inr_iff)
  from write_ok_settles[OF this] have "findLedgerEntry uid CASHBACK oid w1 \<noteq> None" by simp
  then have "findLedgerEntry uid CASHBACK oid v \<noteq> None"
    using assms(2) findLedger_None by (metis Un_iff set_append)
  then show ?thesis using False write_settled[of ?p oid v ab u' 0]
    by (simp add: creditCashback_def Let_def split_def)
qed (simp add: creditCashback_def Let_def)

lemma write_tables [simp]:
  "w_orders (snd (writeLedgerEntry ab u p n w)) = w_orders w"
  "w_referrals (snd (writeLedgerEntry ab u p n w)) = w_referrals w"
  using write_cases[of ab u p n w] by (auto elim!: insert_cases)

lemma write_extends: "\<exists>more. w_ledger (snd (writeLedgerEntry ab u p n w)) = w_ledger w @ more"
  using write_cases[of ab u p n w] by (auto elim!: insert_cases)

text \<open>After a reward the referral is no longer pending; without one nothing has changed.\<close>

lemma referral_twice:
  assumes keys: "keyed f_refereeId (w_referrals w)"
    and run: "rewardReferralIfEligible a1 a2 u1 u2 now uid w = (r, w1)"
    and same: "w_orders v = w_orders w1" "w_referrals v = w_referrals w1"
  shows "snd (rewardReferralIfEligible b1 b2 v1 v2 now' uid v) = v"
proof (cases "findReferralByReferee uid w")
  case None
  then show ?thesis using run same by (simp add: rewardReferralIfEligible_def findReferralByReferee_def)
next
  case (Some f)
  show ?thesis
  proof (cases "f_status f \<noteq> REF_PENDING \<or> countDeliveredOrders uid w \<noteq> 1")
    case True
    then have "w1 = w" using run Some by (auto simp: rewardReferralIfEligible_def)
    then show ?thesis using True Some same
      by (auto simp: rewardReferralIfEligible_def findReferralByReferee_def countDeliveredOrders_def)
  next
    case False
    have refs: "w_referrals w1 = w_referrals (markReferralRewarded now (f_id f) REFERRAL_REWARD_AMOUNT w)"
      using run Some False
      by (auto simp: rewardReferralIfEligible_def Let_def split_def split: sum.splits)
    have "findReferralByReferee uid v =
        Some (f\<lparr>f_status := REF_REWARDED, f_reward := Some (dec2 REFERRAL_REWARD_AMOUNT), f_rewardedAt := Some now\<rparr>)"
      using Some by (simp add: findReferralByReferee_def same refs markReferralRewarded_def lookup_modify)
    then show ?thesis by (simp add: rewardReferralIfEligible_def)
  qed
qed

lemma referral_tables:
  assumes "rewardReferralIfEligible a1 a2 u1 u2 now uid w = (r, w1)"
  shows "w_orders w1 = w_orders w" "\<exists>more. w_ledger w1 = w_ledger w @ more"
proof -
  let ?f = "the (findReferralByReferee uid w)"
  let ?w1 = "markReferralRewarded now (f_id ?f) REFERRAL_REWARD_AMOUNT w"
  let ?w2 = "snd (writeLedgerEntry a1 u1 (referralCredit ?f (f_refereeId ?f)) 0 ?w1)"
  let ?w3 = "snd (writeLedgerEntry a2 u2 (referralCredit ?f (f_referrerId ?f)) 0 ?w2)"
  have "w_ledger ?w1 = w_ledger w" "w_orders ?w1 = w_orders w" by (simp_all add: markReferralRewarded_def)
  then have 3: "\<exists>more. w_ledger ?w3 = w_ledger w @ more" "w_orders ?w3 = w_orders w"
    using write_extends[of a1 u1 "referralCredit ?f (f_refereeId ?f)" 0 ?w1]
      write_extends[of a2 u2 "referralCredit ?f (f_referrerId ?f)" 0 ?w2] by auto
  have "w1 = w \<or> (w_ledger w1 = w_ledger ?w3 \<and> w_orders w1 = w_orders ?w3)"
    using assms by (auto simp: rewardReferralIfEligible_def Let_def split_def split: option.splits sum.splits if_splits)
  with 3 show "w_orders w1 = w_orders w" "\<exists>more. w_ledger w1 = w_ledger w @ more" by auto
qed

lemma cashback_tables:
  "w_orders (snd (creditCashback ab u uid oid t w)) = w_orders w"
  "w_referrals (snd (creditCashback ab u uid oid t w)) = w_referrals w"
  by (simp_all add: creditCashback_def Let_def split_def)

lemma delivered_twice:
  assumes keys: "keyed f_refereeId (w_referrals w)"
    and e: "ev = OrderStatusChanged oid uid DELIVERED rest amount"
    and w1: "w1 = onWalletEvent (\<lambda>_. False) u u1 u2 now ev w"
  shows "w_ledger (onWalletEvent ab u' u1' u2' now' ev w1) = w_ledger w1"
proof -
  obtain c v where c: "(case amount of None \<Rightarrow> (Inr (), w) | Some t \<Rightarrow> creditCashback (\<lambda>_. False) u uid oid t w) = (c, v)"
    by force
  have refs: "w_referrals v = w_referrals w" "w_orders v = w_orders w"
    using c cashback_tables[of "\<lambda>_. False" u uid oid "the amount" w] by (auto split: option.splits)
  show ?thesis
  proof (cases c)
    case (Inl err)
    then obtain t where t: "amount = Some t" using c by (cases amount) auto
    then have w1v: "w1 = v" using w1 e c Inl by (simp add: onWalletEvent_def)
    let ?p = "\<lparr>le_userId = uid, le_type = CASHBACK, le_amount = round2 (t * CASHBACK_RATE), le_orderId = Some oid,
                 le_referralId = None\<rparr>"
    have pos: "\<not> round2 (t * CASHBACK_RATE) \<le> 0" using c t Inl by (auto simp: creditCashback_def Let_def)
    then have "writeLedgerEntry (\<lambda>_. False) u ?p 0 w = (Inl err, v)"
      using c t Inl by (auto simp: creditCashback_def Let_def split: prod.splits simp: andThen_Inl_iff)
    note again = write_error_ledger[OF this]
    have "w_ledger v = w_ledger w" by (rule again(1))
    from again(2)[OF this, of ab u' 0] show ?thesis
      using t e pos w1v
      by (auto simp: onWalletEvent_def creditCashback_def Let_def andThen_Inr_iff split: prod.splits sum.splits)
  next
    case (Inr x)
    let ?ref = "rewardReferralIfEligible (\<lambda>_. False) (\<lambda>_. False) u1 u2 now uid v"
    have w1: "w1 = snd ?ref" using w1 e c Inr by (simp add: onWalletEvent_def)
    obtain r where ref: "?ref = (r, w1)" using w1 by (cases ?ref) simp
    obtain c2 v2 where c2: "(case amount of None \<Rightarrow> (Inr (), w1) | Some t \<Rightarrow> creditCashback ab u' uid oid t w1) = (c2, v2)"
      by force
    have "w_ledger v2 = w_ledger w1"
    proof (cases amount)
      case (Some t)
      then show ?thesis
        using cashback_twice[of u uid oid t w v w1 ab u'] c Inr referral_tables(2)[OF ref] c2 by auto
    qed (use c2 in simp)
    moreover have "w_orders v2 = w_orders w1" "w_referrals v2 = w_referrals w1"
      using c2 cashback_tables[of ab u' uid oid "the amount" w1] by (auto split: option.splits)
    then have "snd (rewardReferralIfEligible ab ab u1' u2' now' uid v2) = v2"
      by (intro referral_twice[OF _ ref]) (simp_all add: keys refs)
    ultimately show ?thesis using e c2 by (auto simp: onWalletEvent_def split: sum.split)
  qed
qed

lemma refunded_twice:
  assumes "w1 = snd (creditRefund (\<lambda>_. False) u uid oid t w)"
  shows "w_ledger (snd (creditRefund ab u' uid oid t w1)) = w_ledger w1"
proof (cases "t \<le> 0")
  case False
  let ?p = "\<lparr>le_userId = uid, le_type = REFUND_CREDIT, le_amount = round2 t, le_orderId = Some oid, le_referralId = None\<rparr>"
  obtain r where r: "writeLedgerEntry (\<lambda>_. False) u ?p 0 w = (r, w1)"
    using assms False by (cases "writeLedgerEntry (\<lambda>_. False) u ?p 0 w") (simp add: creditRefund_def)
  have "w_ledger (snd (writeLedgerEntry ab u' ?p 0 w1)) = w_ledger w1"
  proof (cases r)
    case (Inl e)
    show ?thesis using write_error_ledger(2)[OF r[unfolded Inl], of w1 ab u' 0] write_error_ledger(1)[OF r[unfolded Inl]] by simp
  next
    case (Inr q)
    show ?thesis using write_ok_settles[OF r[unfolded Inr]] by (intro write_settled) simp_all
  qed
  then show ?thesis using False by (simp add: creditRefund_def Let_def split_def)
qed (simp add: creditRefund_def)

text \<open>
  A domain event delivered twice credits once: when the wallet listener has handled an event
  without database aborts, handling the same event again, with any ids, at any time and whatever
  the database does, leaves the ledger exactly as it is (cashback, refund and both referral
  rewards alike).
\<close>
theorem wallet_events_idempotent:
  assumes "keyed f_refereeId (w_referrals w)"
    and "w1 = onWalletEvent (\<lambda>_. False) u u1 u2 now ev w"
  shows "w_ledger (onWalletEvent ab u' u1' u2' now' ev w1) = w_ledger w1"
proof (cases ev)
  case (OrderStatusChanged oid uid st rest amount)
  show ?thesis
  proof (cases "st = DELIVERED")
    case True
    with delivered_twice[OF assms(1) _ assms(2)] OrderStatusChanged show ?thesis by simp
  qed (use OrderStatusChanged in \<open>simp add: onWalletEvent_def\<close>)
next
  case (OrderRefunded oid uid rest amount)
  with assms(2) refunded_twice[of w1 u uid oid amount w ab u'] show ?thesis by (simp add: onWalletEvent_def)
qed (simp_all add: onWalletEvent_def)

lemma wallet_events_idempotent_witness:
  "map t_amount (w_ledger (onWalletEvent (\<lambda>_. False) ''t9'' [] [] 9 (OrderRefunded ''o1'' ''u1'' ''r1'' 30)
     (onWalletEvent (\<lambda>_. False) ''t8'' [] [] 8 (OrderRefunded ''o1'' ''u1'' ''r1'' 30) walletWorld))) = [30]"
proof -
  let ?ev = "OrderRefunded ''o1'' ''u1'' ''r1'' 30"
  let ?w1 = "onWalletEvent (\<lambda>_. False) ''t8'' [] [] 8 ?ev walletWorld"
  have "keyed f_refereeId (w_referrals walletWorld)" by (simp add: walletWorld_def emptyWorld_def keyed_def)
  from wallet_events_idempotent[OF this refl, of "\<lambda>_. False" "''t9''" "[]" "[]" 9 ?ev "''t8''" "[]" "[]" 8]
  have "w_ledger (onWalletEvent (\<lambda>_. False) ''t9'' [] [] 9 ?ev ?w1) = w_ledger ?w1" .
  moreover have "round2 (30 :: rat) = 30" by code_simp
  then have "map t_amount (w_ledger ?w1) = [30]"
    by (simp add: onWalletEvent_def creditRefund_def write_once insertLedgerEntry_def walletWorld_def emptyWorld_def
        balanceOf_def findLedgerEntry_def Let_def)
  ultimately show ?thesis by simp
qed

section \<open>Cancelling before the order is paid\<close>

lemma release_coupon_tables [simp]:
  "w_ledger (snd (releaseForOrder oid w)) = w_ledger w"
  "w_events (snd (releaseForOrder oid w)) = w_events w"
  by (auto simp: releaseForOrder_def releaseRedemption_def split: option.split)

lemma cancelledWorld_logs [simp]:
  "w_ledger (cancelledWorld now ord reason w) = w_ledger w"
  "w_events (cancelledWorld now ord reason w) = w_events w"
  by (simp_all add: cancelledWorld_def Let_def createStatusHistory_def updateOrderStatusRow_def updateOrderRow_def
      releasePartnerFromDelivery_def releaseFromDelivery_def split: option.split)

text \<open>
  Cancelling an order that is not paid yet keeps the wallet money: whatever the customer had
  applied from the wallet stays debited after an administrator's cancellation: no ledger row and no
  event is written, the order is CANCELLED with its wallet amount, and every later refund of it is
  refused because only a PAID order can be refunded.
\<close>
theorem cancel_keeps_wallet_debit:
  assumes "ordersKeyed w" and "findOrderById oid w = Some ord"
    and "o_status ord \<notin> set TERMINAL_ORDER_STATUSES" and "o_paymentStatus ord \<noteq> PAID"
  shows "getBalance uid (snd (adminCancelOrder now id rx oid reason actor w)) = getBalance uid w \<and>
    w_events (snd (adminCancelOrder now id rx oid reason actor w)) = w_events w \<and>
    findOrderById oid (snd (adminCancelOrder now id rx oid reason actor w)) = Some (ord\<lparr>o_status := CANCELLED\<rparr>) \<and>
    fst (refundOrder rx' oid amount admin (snd (adminCancelOrder now id rx oid reason actor w)))
      = Inl (Conflict ''already refunded or no paid balance'')"
proof -
  let ?v = "cancelledWorld now ord reason w"
  note eff = adminCancel_effect[OF assms(2,3)]
  have w': "snd (adminCancelOrder now id rx oid reason actor w) = snd (releaseForOrder oid ?v)"
    using eff(1)[of now rx reason actor] eff(2)[of now reason] eff(3) assms(4) by (simp add: handleCancellationSideEffects_def Let_def)
  have o: "findOrderById oid (snd (releaseForOrder oid ?v)) = Some (ord\<lparr>o_status := CANCELLED\<rparr>)"
    using eff(2)[of now reason] by (simp add: findOrderById_def)
  have k: "ordersKeyed (snd (releaseForOrder oid ?v))" using assms(1) by (simp add: ordersKeyed_def)
  have "fst (refundOrder rx' oid amount admin (snd (releaseForOrder oid ?v)))
      = Inl (Conflict ''already refunded or no paid balance'')"
    using o refundOrder_claimed[OF k o] assms(4) by (simp add: refundOrder_def split_def)
  with o show ?thesis unfolding w' by (simp add: getBalance_def)
qed

lemma cancel_keeps_wallet_debit_witness:
  "getBalance ''u1'' (snd (adminCancelOrder 9 id quietCtx ''o1'' None ''admin'' (snd partlyPaid))) = 0 \<and>
   map_option o_walletUsed (findOrderById ''o1'' (snd (adminCancelOrder 9 id quietCtx ''o1'' None ''admin'' (snd partlyPaid))))
     = Some 30"
proof -
  have "ordersKeyed (snd partlyPaid)" by (simp add: ordersKeyed_def keyed_def partlyPaid_eq)
  moreover have "findOrderById ''o1'' (snd partlyPaid) = Some (sampleOrder\<lparr>o_walletUsed := 30\<rparr>)"
    by (simp add: findOrderById_def partlyPaid_eq) (simp add: sampleOrder_def)
  ultimately show ?thesis
    using cancel_keeps_wallet_debit[of "snd partlyPaid" "''o1''" "sampleOrder\<lparr>o_walletUsed := 30\<rparr>" "''u1''" 9 quietCtx None "''admin''"]
    by (simp add: TERMINAL_ORDER_STATUSES_def partlyPaid_eq) (simp add: sampleOrder_def)
qed

end
