(* ===== verification/OperatingHours.thy ===== *)
theory OperatingHours
  imports Access "HOL-Library.List_Lexorder" "HOL-Library.Multiset"
begin

text \<open>
  When a branch is open: \<^verbatim>\<open>modules/restaurants/utils/operating-hours.util.ts\<close>, and the
  services that keep the weekly schedule and the holiday calendar
  (\<^verbatim>\<open>operating-hours.service.ts\<close>, \<^verbatim>\<open>holidays.service.ts\<close> and their repositories).

  The time zone database is the third-party \<^verbatim>\<open>dayjs\<close>: a parameter that returns the local date and
  wall clock of an instant in a named zone, and nothing for a name it does not know.
\<close>

section \<open>Times of day\<close>

fun splitOn :: "char \<Rightarrow> string \<Rightarrow> string list" where
  "splitOn c [] = [[]]"
| "splitOn c (x # xs) =
     (if x = c then [] # splitOn c xs
      else (case splitOn c xs of [] \<Rightarrow> [[x]] | w # ws \<Rightarrow> (x # w) # ws))"

definition digitOf :: "char \<Rightarrow> nat option" where
  "digitOf c = (let n = of_char c :: nat in if 48 \<le> n \<and> n \<le> 57 then Some (n - 48) else None)"

text \<open>\<^verbatim>\<open>Number(s)\<close> on decimal digits (the empty string is 0); nothing stands for NaN.\<close>

fun digitsFrom :: "nat \<Rightarrow> string \<Rightarrow> nat option" where
  "digitsFrom acc [] = Some acc"
| "digitsFrom acc (c # cs) = (case digitOf c of None \<Rightarrow> None | Some d \<Rightarrow> digitsFrom (10 * acc + d) cs)"

definition toMinutesSinceMidnight :: "string \<Rightarrow> nat option" where
  "toMinutesSinceMidnight time =
     (case splitOn (CHR '':'') time of
        hours # minutes # _ \<Rightarrow>
          (case (digitsFrom 0 hours, digitsFrom 0 minutes) of
             (Some h, Some m) \<Rightarrow> Some (h * 60 + m)
           | _ \<Rightarrow> None)
      | _ \<Rightarrow> None)"

text \<open>The pattern \<^verbatim>\<open>HH:mm\<close> every stored time is validated against.\<close>

definition timePattern :: "string \<Rightarrow> bool" where
  "timePattern s =
     (case s of
        [h1, h2, c, m1, m2] \<Rightarrow> c = CHR '':'' \<and>
          (case (digitOf h1, digitOf h2, digitOf m1, digitOf m2) of
             (Some a, Some b, Some d, Some e) \<Rightarrow> (a \<le> 1 \<or> a = 2 \<and> b \<le> 3) \<and> d \<le> 5
           | _ \<Rightarrow> False)
      | _ \<Rightarrow> False)"

text \<open>Comparisons with NaN are false.\<close>

definition withinWindow :: "nat \<Rightarrow> string \<Rightarrow> string \<Rightarrow> bool" where
  "withinWindow nowMinutes opensAt closesAt \<longleftrightarrow>
     (case (toMinutesSinceMidnight opensAt, toMinutesSinceMidnight closesAt) of
        (Some a, Some b) \<Rightarrow> a \<le> nowMinutes \<and> nowMinutes \<le> b
      | _ \<Rightarrow> False)"

section \<open>Open now\<close>

record zonedTime =
  z_date :: string
  z_day :: nat
  z_hour :: nat
  z_minute :: nat

type_synonym zoneLib = "string \<Rightarrow> int \<Rightarrow> zonedTime option"

definition DEFAULT_TIMEZONE :: string where "DEFAULT_TIMEZONE = ''Asia/Kolkata''"

text \<open>An unset, empty or unknown zone falls back to the default one.  When the library does not
  even know the default, the call throws, which is the result \<^term>\<open>None\<close>.\<close>

definition resolveZonedNow :: "zoneLib \<Rightarrow> string option \<Rightarrow> int \<Rightarrow> zonedTime option" where
  "resolveZonedNow tz name now =
     (case name of
        None \<Rightarrow> tz DEFAULT_TIMEZONE now
      | Some n \<Rightarrow>
          if n = [] then tz DEFAULT_TIMEZONE now
          else (case tz n now of Some z \<Rightarrow> Some z | None \<Rightarrow> tz DEFAULT_TIMEZONE now))"

definition openOnHoliday :: "nat \<Rightarrow> holiday \<Rightarrow> bool" where
  "openOnHoliday nowMinutes h =
     (if hd_isClosed h \<or> \<not> truthy (hd_specialOpensAt h) \<or> \<not> truthy (hd_specialClosesAt h) then False
      else withinWindow nowMinutes (the (hd_specialOpensAt h)) (the (hd_specialClosesAt h)))"

definition openOnWeekday :: "nat \<Rightarrow> nat \<Rightarrow> operatingHour list \<Rightarrow> bool" where
  "openOnWeekday day nowMinutes hours =
     (if hours = [] then True
      else
        (let todayShifts = filter (\<lambda>e. oh_dayOfWeek e = day) hours
         in if todayShifts = [] \<or> list_ex oh_isClosed todayShifts then False
            else list_ex (\<lambda>s. withinWindow nowMinutes (oh_opensAt s) (oh_closesAt s)) todayShifts))"

text \<open>\<open>dayKey\<close> is \<^verbatim>\<open>dayjs(holiday.date).format('YYYY-MM-DD')\<close>: the calendar date of a stored
  instant in the server's own zone.\<close>

definition computeIsOpenNow ::
  "zoneLib \<Rightarrow> (int \<Rightarrow> string) \<Rightarrow> operatingHour list \<Rightarrow> string option \<Rightarrow> int \<Rightarrow> holiday list \<Rightarrow> bool option" where
  "computeIsOpenNow tz dayKey hours name now holidays =
     (case resolveZonedNow tz name now of
        None \<Rightarrow> None
      | Some z \<Rightarrow>
          (let nowMinutes = z_hour z * 60 + z_minute z
           in Some (case List.find (\<lambda>h. dayKey (hd_date h) = z_date z) holidays of
                      Some h \<Rightarrow> openOnHoliday nowMinutes h
                    | None \<Rightarrow> openOnWeekday (z_day z) nowMinutes hours)))"


section \<open>The weekly schedule\<close>

definition requireBranch :: "string \<Rightarrow> string \<Rightarrow> world \<Rightarrow> branch result" where
  "requireBranch rid bid w =
     (case lookup b_id bid (w_branches w) of
        None \<Rightarrow> Inl (NotFound ''Branch'')
      | Some b \<Rightarrow> if b_restaurantId b \<noteq> rid then Inl (NotFound ''Branch'') else Inr b)"

definition MANAGE_ROLES :: "restaurantAccessRole list" where
  "MANAGE_ROLES = [StaffRole OWNER, StaffRole CO_OWNER, AdminRole]"

definition canManageBranch :: "world \<Rightarrow> string \<Rightarrow> string \<Rightarrow> authUser \<Rightarrow> bool" where
  "canManageBranch w rid bid u =
     (if hasRestaurantRole w rid u MANAGE_ROLES then True
      else (case lookup rs_id rid (w_restaurants w) of
              None \<Rightarrow> False
            | Some r \<Rightarrow> list_ex (\<lambda>m. sm_userId m = userId u \<and> sm_status m = STAFF_ACTIVE \<and>
                                   sm_role m = BRANCH_MANAGER \<and> sm_branchId m = Some bid) (rs_staff r)))"

text \<open>Sorted by weekday, then by opening time as text.\<close>

definition findHoursByBranch :: "string \<Rightarrow> world \<Rightarrow> operatingHour list" where
  "findHoursByBranch bid w =
     (case lookup b_id bid (w_branches w) of
        None \<Rightarrow> []
      | Some b \<Rightarrow> sort_key oh_dayOfWeek (sort_key (\<lambda>e. map (of_char :: char \<Rightarrow> nat) (oh_opensAt e)) (b_operatingHours b)))"

definition replaceHours :: "string \<Rightarrow> operatingHour list \<Rightarrow> world \<Rightarrow> world" where
  "replaceHours bid hours w =
     w\<lparr>w_branches := modify (\<lambda>b. b_id b = bid) (\<lambda>b. b\<lparr>b_operatingHours := hours\<rparr>) (w_branches w)\<rparr>"

definition findAllHours :: "string \<Rightarrow> string \<Rightarrow> world \<Rightarrow> operatingHour list result" where
  "findAllHours rid bid w = andThen (requireBranch rid bid w) (\<lambda>_. Inr (findHoursByBranch bid w))"

definition replaceAllHours ::
  "string \<Rightarrow> string \<Rightarrow> operatingHour list \<Rightarrow> authUser \<Rightarrow> world \<Rightarrow> (world, operatingHour list) outcome" where
  "replaceAllHours rid bid hours u w =
     (case requireBranch rid bid w of
        Inl e \<Rightarrow> (Inl e, w)
      | Inr _ \<Rightarrow>
          if \<not> canManageBranch w rid bid u then (Inl (Forbidden ''operating hours''), w)
          else
            (let w1 = replaceHours bid hours w
             in (Inr (findHoursByBranch bid w1),
                 auditLog (Some (userId u)) ''OperatingHour'' bid ''UPDATE'' w1)))"

section \<open>The holiday calendar\<close>

text \<open>\<^verbatim>\<open>CreateHolidayDto\<close> and \<^verbatim>\<open>UpdateHolidayDto\<close>, the dates already parsed to instants.\<close>

record holidayInput =
  hi_date :: int
  hi_name :: string
  hi_branchId :: "string option"
  hi_isClosed :: "bool option"
  hi_specialOpensAt :: "string option"
  hi_specialClosesAt :: "string option"

record holidayPatch =
  hp_date :: "int option"
  hp_name :: "string option"
  hp_isClosed :: "bool option"
  hp_specialOpensAt :: "string option"
  hp_specialClosesAt :: "string option"

definition HOLIDAY_ROLES :: "restaurantAccessRole list" where
  "HOLIDAY_ROLES = [StaffRole OWNER, StaffRole CO_OWNER, StaffRole BRANCH_MANAGER, AdminRole]"

definition assertCanManageHolidays :: "world \<Rightarrow> string \<Rightarrow> authUser \<Rightarrow> unit result" where
  "assertCanManageHolidays w rid u = guard (hasRestaurantRole w rid u HOLIDAY_ROLES) (Forbidden ''holiday calendar'')"

definition assertValidHoursShape :: "bool option \<Rightarrow> string option \<Rightarrow> string option \<Rightarrow> unit result" where
  "assertValidHoursShape isCl opens closes =
     guard (\<not> (isCl = Some False \<and> (\<not> truthy opens \<or> \<not> truthy closes))) (BadRequest ''specialOpensAt'')"

definition requireHoliday :: "string \<Rightarrow> string \<Rightarrow> world \<Rightarrow> holiday result" where
  "requireHoliday rid hid w =
     (case lookup hd_id hid (w_holidays w) of
        None \<Rightarrow> Inl (NotFound ''Holiday'')
      | Some h \<Rightarrow> if hd_restaurantId h \<noteq> rid then Inl (NotFound ''Holiday'') else Inr h)"

definition findAllHolidays :: "string \<Rightarrow> string option \<Rightarrow> world \<Rightarrow> holiday list" where
  "findAllHolidays rid bid w =
     sort_key hd_date (filter (\<lambda>h. hd_restaurantId h = rid \<and>
       (case bid of None \<Rightarrow> True | Some b \<Rightarrow> b = [] \<or> hd_branchId h = Some b)) (w_holidays w))"

text \<open>The unique index on restaurant, branch and date; PostgreSQL never counts two rows without a
  branch as equal.\<close>

definition holidayClash :: "string \<Rightarrow> string option \<Rightarrow> int \<Rightarrow> string \<Rightarrow> holiday list \<Rightarrow> bool" where
  "holidayClash rid bid date self rows \<longleftrightarrow>
     bid \<noteq> None \<and> list_ex (\<lambda>h. hd_id h \<noteq> self \<and> hd_restaurantId h = rid \<and> hd_branchId h = bid \<and> hd_date h = date) rows"

definition createHolidayRow :: "holiday \<Rightarrow> world \<Rightarrow> (world, holiday) outcome" where
  "createHolidayRow h w =
     (if holidayClash (hd_restaurantId h) (hd_branchId h) (hd_date h) (hd_id h) (w_holidays w)
      then (Inl (UniqueViolation ''restaurant_holidays''), w)
      else (Inr h, w\<lparr>w_holidays := w_holidays w @ [h]\<rparr>))"

definition createHoliday ::
  "string \<Rightarrow> string \<Rightarrow> holidayInput \<Rightarrow> authUser \<Rightarrow> world \<Rightarrow> (world, holiday) outcome" where
  "createHoliday uuid rid d u w =
     (case andThen (assertCanManageHolidays w rid u) (\<lambda>_.
           andThen (assertValidHoursShape (hi_isClosed d) (hi_specialOpensAt d) (hi_specialClosesAt d)) (\<lambda>_.
           if truthy (hi_branchId d)
           then andThen (requireBranch rid (the (hi_branchId d)) w) (\<lambda>_. Inr ()) else Inr ())) of
        Inl e \<Rightarrow> (Inl e, w)
      | Inr _ \<Rightarrow>
          (case createHolidayRow
                  \<lparr>hd_id = uuid, hd_restaurantId = rid, hd_branchId = hi_branchId d, hd_date = hi_date d,
                   hd_name = hi_name d,
                   hd_isClosed = (case hi_isClosed d of None \<Rightarrow> True | Some c \<Rightarrow> c),
                   hd_specialOpensAt = hi_specialOpensAt d, hd_specialClosesAt = hi_specialClosesAt d\<rparr> w of
             (Inl e, w1) \<Rightarrow> (Inl e, w1)
           | (Inr h, w1) \<Rightarrow> (Inr h, auditLog (Some (userId u)) ''RestaurantHoliday'' uuid ''CREATE'' w1)))"

definition applyHolidayPatch :: "holidayPatch \<Rightarrow> holiday \<Rightarrow> holiday" where
  "applyHolidayPatch d h =
     h\<lparr>hd_date := (case hp_date d of None \<Rightarrow> hd_date h | Some t \<Rightarrow> t),
       hd_name := (case hp_name d of None \<Rightarrow> hd_name h | Some n \<Rightarrow> n),
       hd_isClosed := (case hp_isClosed d of None \<Rightarrow> hd_isClosed h | Some c \<Rightarrow> c),
       hd_specialOpensAt := (case hp_specialOpensAt d of None \<Rightarrow> hd_specialOpensAt h | Some t \<Rightarrow> Some t),
       hd_specialClosesAt := (case hp_specialClosesAt d of None \<Rightarrow> hd_specialClosesAt h | Some t \<Rightarrow> Some t)\<rparr>"

definition updateHoliday ::
  "string \<Rightarrow> string \<Rightarrow> holidayPatch \<Rightarrow> authUser \<Rightarrow> world \<Rightarrow> (world, holiday) outcome" where
  "updateHoliday rid hid d u w =
     (case andThen (assertCanManageHolidays w rid u) (\<lambda>_.
           andThen (requireHoliday rid hid w) (\<lambda>h.
           andThen (assertValidHoursShape (hp_isClosed d) (hp_specialOpensAt d) (hp_specialClosesAt d)) (\<lambda>_. Inr h))) of
        Inl e \<Rightarrow> (Inl e, w)
      | Inr h \<Rightarrow>
          (let h' = applyHolidayPatch d h
           in if holidayClash rid (hd_branchId h') (hd_date h') hid (w_holidays w)
              then (Inl (UniqueViolation ''restaurant_holidays''), w)
              else (Inr h', auditLog (Some (userId u)) ''RestaurantHoliday'' hid ''UPDATE''
                (w\<lparr>w_holidays := modify (\<lambda>x. hd_id x = hid) (applyHolidayPatch d) (w_holidays w)\<rparr>))))"

definition removeHoliday :: "string \<Rightarrow> string \<Rightarrow> authUser \<Rightarrow> world \<Rightarrow> (world, unit) outcome" where
  "removeHoliday rid hid u w =
     (case andThen (assertCanManageHolidays w rid u) (\<lambda>_. requireHoliday rid hid w) of
        Inl e \<Rightarrow> (Inl e, w)
      | Inr _ \<Rightarrow> (Inr (), auditLog (Some (userId u)) ''RestaurantHoliday'' hid ''DELETE''
          (w\<lparr>w_holidays := filter (\<lambda>x. hd_id x \<noteq> hid) (w_holidays w)\<rparr>)))"

section \<open>Lemmas\<close>

lemma digitOf_bound: "digitOf c = Some d \<Longrightarrow> d \<le> 9"
  by (auto simp: digitOf_def Let_def split: if_splits)

lemma digit_not_colon: "digitOf c = Some d \<Longrightarrow> c \<noteq> CHR '':''"
  by (auto simp: digitOf_def Let_def)

text \<open>A validated time is a minute of the day.\<close>

lemma timePattern_minutes:
  assumes "timePattern s"
  shows "\<exists>m. toMinutesSinceMidnight s = Some m \<and> m < 1440"
proof -
  obtain h1 h2 m1 m2 a b d e where s: "s = [h1, h2, CHR '':'', m1, m2]"
    and dg: "digitOf h1 = Some a" "digitOf h2 = Some b" "digitOf m1 = Some d" "digitOf m2 = Some e"
    and r: "a \<le> 1 \<or> a = 2 \<and> b \<le> 3" "d \<le> 5"
    using assms by (auto simp: timePattern_def split: list.splits option.splits)
  have "toMinutesSinceMidnight s = Some ((10 * a + b) * 60 + (10 * d + e))"
    using dg[THEN digit_not_colon] dg by (simp add: s toMinutesSinceMidnight_def)
  moreover have "(10 * a + b) * 60 + (10 * d + e) < 1440"
    using r dg(2,4)[THEN digitOf_bound] by auto
  ultimately show ?thesis by blast
qed

lemma window_iff:
  "withinWindow t a b \<longleftrightarrow> (\<exists>x y. toMinutesSinceMidnight a = Some x \<and> toMinutesSinceMidnight b = Some y \<and> x \<le> t \<and> t \<le> y)"
  by (auto simp: withinWindow_def split: option.splits)

text \<open>A shift past midnight contains no minute of any day.\<close>

lemma overnight_window:
  "toMinutesSinceMidnight a = Some x \<Longrightarrow> toMinutesSinceMidnight b = Some y \<Longrightarrow> y < x \<Longrightarrow> \<not> withinWindow t a b"
  by (auto simp: window_iff)

text \<open>A holiday entry for the local date decides alone.\<close>

lemma holiday_decides:
  assumes "resolveZonedNow tz name now = Some z" and "List.find (\<lambda>h. dayKey (hd_date h) = z_date z) hs = Some h"
  shows "computeIsOpenNow tz dayKey hours name now hs = Some (openOnHoliday (z_hour z * 60 + z_minute z) h)"
  using assms by (simp add: computeIsOpenNow_def)

lemma no_hours_open:
  "resolveZonedNow tz name now = Some z \<Longrightarrow> computeIsOpenNow tz dayKey [] name now [] = Some True"
  by (simp add: computeIsOpenNow_def openOnWeekday_def)

lemma replaced_hours:
  assumes "replaceAllHours rid bid hours u w = (Inr hs, w')"
  shows "mset hs = mset hours \<and> findHoursByBranch bid w' = hs"
  using assms by (auto simp: replaceAllHours_def requireBranch_def findHoursByBranch_def replaceHours_def
      lookup_modify Let_def split: option.splits if_splits dest: lookup_key)

end
