(* ===== verification/DispatchRepository.thy ===== *)
theory DispatchRepository
  imports OrderLifecycle
begin

text \<open>
  Delivery offers: \<^verbatim>\<open>modules/dispatch/repositories/dispatch.repository.ts\<close>.  A row of
  \<^term>\<open>w_assignments\<close> is an offer of one order to one rider; it is active while PENDING or ACCEPTED.

  Two transactions carry the exactly-once guarantees: \<^verbatim>\<open>createAssignmentForOrder\<close> re-checks under
  a lock on the order before it inserts, \<^verbatim>\<open>acceptAssignmentAtomic\<close> claims the offer, the rider and
  the order and rolls back when any claim is lost.  Each is one step of the model.
\<close>

section \<open>Queries\<close>

definition isActive :: "assignment \<Rightarrow> bool" where
  "isActive a \<longleftrightarrow> a_status a \<in> {ASG_PENDING, ASG_ACCEPTED}"

definition findAssignmentById :: "string \<Rightarrow> world \<Rightarrow> assignment option" where
  "findAssignmentById aid w = lookup a_id aid (w_assignments w)"

definition findAvailablePartners :: "world \<Rightarrow> partner list" where
  "findAvailablePartners w = filter (\<lambda>d. d_status d = AVAILABLE \<and> d_isVerified d) (w_partners w)"

definition findPartnerIdsWithActiveAssignment :: "string list \<Rightarrow> world \<Rightarrow> string list" where
  "findPartnerIdsWithActiveAssignment ids w =
     map a_partnerId (filter (\<lambda>a. a_partnerId a \<in> set ids \<and> isActive a) (w_assignments w))"

definition findPartnerAssignments :: "string \<Rightarrow> assignmentStatus option \<Rightarrow> world \<Rightarrow> assignment list" where
  "findPartnerAssignments did st w =
     sort_key (\<lambda>a. - a_assignedAt a)
       (filter (\<lambda>a. a_partnerId a = did \<and> (case st of None \<Rightarrow> True | Some s \<Rightarrow> a_status a = s)) (w_assignments w))"

definition findActiveAssignmentForOrder :: "string \<Rightarrow> world \<Rightarrow> assignment option" where
  "findActiveAssignmentForOrder oid w =
     List.find (\<lambda>a. a_orderId a = oid \<and> isActive a) (w_assignments w)"

definition findActiveAssignmentForPartner :: "string \<Rightarrow> world \<Rightarrow> assignment option" where
  "findActiveAssignmentForPartner did w =
     List.find (\<lambda>a. a_partnerId a = did \<and> isActive a) (w_assignments w)"

definition findAssignmentsForOrder :: "string \<Rightarrow> world \<Rightarrow> assignment list" where
  "findAssignmentsForOrder oid w = filter (\<lambda>a. a_orderId a = oid) (w_assignments w)"

text \<open>\<^verbatim>\<open>groupBy\<close> with \<^verbatim>\<open>_max\<close>: nothing for a rider who was never offered an order.\<close>

definition lastAssignmentActivity :: "world \<Rightarrow> string \<Rightarrow> int option" where
  "lastAssignmentActivity w did =
     map_option a_assignedAt (findLatest (\<lambda>a. a_partnerId a = did) a_assignedAt (w_assignments w))"

text \<open>The time of the last write to an order row is kept by the ORM: the parameter \<open>updatedAt\<close>.\<close>

definition findStrandedReadyForPickupOrders :: "(string \<Rightarrow> int) \<Rightarrow> int \<Rightarrow> int \<Rightarrow> world \<Rightarrow> string list" where
  "findStrandedReadyForPickupOrders updatedAt now olderThanMs w =
     take 50 (map o_id (filter (\<lambda>ord. o_status ord = READY_FOR_PICKUP \<and> o_deliveryPartnerId ord = None \<and>
        updatedAt (o_id ord) < now - olderThanMs) (w_orders w)))"

section \<open>Claims and transactions\<close>

definition claimAssignmentTransition ::
  "int \<Rightarrow> string \<Rightarrow> assignmentStatus list \<Rightarrow> assignmentStatus \<Rightarrow> world \<Rightarrow> nat \<times> world" where
  "claimAssignmentTransition now aid allowedFrom nxt w =
     (let p = (\<lambda>a. a_id a = aid \<and> a_status a \<in> set allowedFrom)
      in (matches p (w_assignments w),
          w\<lparr>w_assignments := modify p (\<lambda>a. a\<lparr>a_status := nxt, a_respondedAt := Some now\<rparr>) (w_assignments w)\<rparr>))"

definition claimOrderPartner :: "string \<Rightarrow> string \<Rightarrow> world \<Rightarrow> nat \<times> world" where
  "claimOrderPartner oid uid w =
     (let p = (\<lambda>ord. o_id ord = oid \<and> o_deliveryPartnerId ord = None)
      in (matches p (w_orders w),
          w\<lparr>w_orders := modify p (\<lambda>ord. ord\<lparr>o_deliveryPartnerId := Some uid\<rparr>) (w_orders w)\<rparr>))"

datatype createAssignmentResult = Created assignment | NotCreated string

definition createAssignmentForOrder ::
  "string \<Rightarrow> int \<Rightarrow> string \<Rightarrow> string \<Rightarrow> int \<Rightarrow> orderStatus list \<Rightarrow> nat \<Rightarrow> world \<Rightarrow> createAssignmentResult \<times> world" where
  "createAssignmentForOrder uuid now oid did expiresAt dispatchable cycle w =
     (case findOrderById oid w of
        None \<Rightarrow> (NotCreated ''order_not_found'', w)
      | Some ord \<Rightarrow>
          if truthy (o_deliveryPartnerId ord) then (NotCreated ''already_has_partner'', w)
          else if o_status ord \<notin> set dispatchable then (NotCreated ''not_dispatchable'', w)
          else if findActiveAssignmentForOrder oid w \<noteq> None then (NotCreated ''active_assignment_exists'', w)
          else
            (let a = \<lparr>a_id = uuid, a_orderId = oid, a_partnerId = did, a_status = ASG_PENDING, a_cycle = cycle,
                      a_assignedAt = now, a_respondedAt = None, a_expiresAt = Some expiresAt, a_arrivedAt = None\<rparr>
             in (Created a, w\<lparr>w_assignments := w_assignments w @ [a]\<rparr>)))"

datatype acceptResult = Accepted | NotAccepted string

definition acceptAssignmentAtomic ::
  "int \<Rightarrow> string \<Rightarrow> string \<Rightarrow> string \<Rightarrow> string \<Rightarrow> world \<Rightarrow> acceptResult \<times> world" where
  "acceptAssignmentAtomic now aid did uid oid w =
     (let (n1, w1) = claimAssignmentTransition now aid [ASG_PENDING] ASG_ACCEPTED w
      in if n1 = 0 then (NotAccepted ''assignment_not_pending'', w)
         else (let (n2, w2) = claimPartnerStatus did [AVAILABLE] ON_DELIVERY w1
               in if n2 = 0 then (NotAccepted ''partner_not_available'', w)
                  else (let (n3, w3) = claimOrderPartner oid uid w2
                        in if n3 = 0 then (NotAccepted ''order_already_assigned'', w)
                           else (Accepted, w3))))"

section \<open>The claims as instances of the contract\<close>

definition assignmentsKeyed :: "world \<Rightarrow> bool" where
  "assignmentsKeyed w \<longleftrightarrow> keyed a_id (w_assignments w)"

definition assignmentCell :: "world \<Rightarrow> string \<Rightarrow> assignmentStatus option" where
  "assignmentCell w aid = map_option a_status (lookup a_id aid (w_assignments w))"

interpretation assignmentCas: cas_cell assignmentsKeyed assignmentCell "claimAssignmentTransition now" for now
  unfolding assignmentsKeyed_def[abs_def] assignmentCell_def[abs_def]
  by (rule cas_cell_table[where upd = "\<lambda>t a. a\<lparr>a_status := t, a_respondedAt := Some now\<rparr>"
        and put = "\<lambda>x. w_assignments_update (\<lambda>_. x)"])
    (simp_all add: claimAssignmentTransition_def Let_def)

text \<open>The rider column of an order as a cell that goes from unset to set.\<close>

definition riderCell :: "world \<Rightarrow> string \<Rightarrow> string option option" where
  "riderCell w oid = map_option o_deliveryPartnerId (lookup o_id oid (w_orders w))"

definition claimRiderFrom :: "string \<Rightarrow> string option list \<Rightarrow> string option \<Rightarrow> world \<Rightarrow> nat \<times> world" where
  "claimRiderFrom oid from rider w =
     (let p = (\<lambda>ord. o_id ord = oid \<and> o_deliveryPartnerId ord \<in> set from)
      in (matches p (w_orders w),
          w\<lparr>w_orders := modify p (\<lambda>ord. ord\<lparr>o_deliveryPartnerId := rider\<rparr>) (w_orders w)\<rparr>))"

lemma claimOrderPartner_from: "claimOrderPartner oid uid = claimRiderFrom oid [None] (Some uid)"
  by (simp add: fun_eq_iff claimOrderPartner_def claimRiderFrom_def)

interpretation riderCas: cas_cell ordersKeyed riderCell claimRiderFrom
  unfolding ordersKeyed_def[abs_def] riderCell_def[abs_def]
  by (rule cas_cell_table[where upd = "\<lambda>t ord. ord\<lparr>o_deliveryPartnerId := t\<rparr>" and put = "\<lambda>x. w_orders_update (\<lambda>_. x)"])
    (simp_all add: claimRiderFrom_def Let_def)

section \<open>What an accept does\<close>

definition dispatchKeyed :: "world \<Rightarrow> bool" where
  "dispatchKeyed w \<longleftrightarrow> assignmentsKeyed w \<and> partnersKeyed w \<and> ordersKeyed w"

lemma claim_tables [simp]:
  "w_partners (snd (claimAssignmentTransition now aid from t w)) = w_partners w"
  "w_orders (snd (claimAssignmentTransition now aid from t w)) = w_orders w"
  "w_branches (snd (claimAssignmentTransition now aid from t w)) = w_branches w"
  "w_restaurants (snd (claimAssignmentTransition now aid from t w)) = w_restaurants w"
  "w_online (snd (claimAssignmentTransition now aid from t w)) = w_online w"
  "w_orders (snd (claimPartnerStatus did pf pt w)) = w_orders w"
  "w_assignments (snd (claimPartnerStatus did pf pt w)) = w_assignments w"
  "w_partners (snd (claimOrderPartner oid uid w)) = w_partners w"
  "w_assignments (snd (claimOrderPartner oid uid w)) = w_assignments w"
  by (simp_all add: claimAssignmentTransition_def claimPartnerStatus_def claimOrderPartner_def Let_def)

lemma dispatchKeyed_cong:
  "w_assignments w' = w_assignments w \<Longrightarrow> w_partners w' = w_partners w \<Longrightarrow> w_orders w' = w_orders w \<Longrightarrow>
     dispatchKeyed w' = dispatchKeyed w"
  by (simp add: dispatchKeyed_def assignmentsKeyed_def partnersKeyed_def ordersKeyed_def)

text \<open>Exactly when an accept succeeds: all three cells are claimable.\<close>

definition acceptable :: "string \<Rightarrow> string \<Rightarrow> string \<Rightarrow> world \<Rightarrow> bool" where
  "acceptable aid did oid w \<longleftrightarrow> assignmentCell w aid = Some ASG_PENDING \<and>
     partnerStatusCell w did = Some AVAILABLE \<and> riderCell w oid = Some None"

lemma accept_cases:
  assumes "dispatchKeyed w"
  shows "if acceptable aid did oid w
    then (\<exists>w'. acceptAssignmentAtomic now aid did uid oid w = (Accepted, w') \<and> dispatchKeyed w' \<and>
        assignmentCell w' = (assignmentCell w)(aid \<mapsto> ASG_ACCEPTED) \<and>
        partnerStatusCell w' = (partnerStatusCell w)(did \<mapsto> ON_DELIVERY) \<and>
        riderCell w' = (riderCell w)(oid \<mapsto> Some uid))
    else (\<exists>reason. acceptAssignmentAtomic now aid did uid oid w = (NotAccepted reason, w))"
proof -
  let ?A = "claimAssignmentTransition now aid [ASG_PENDING] ASG_ACCEPTED"
  let ?P = "claimPartnerStatus did [AVAILABLE] ON_DELIVERY"
  let ?O = "claimOrderPartner oid uid"
  define w1 w2 w3 where "w1 = snd (?A w)" and "w2 = snd (?P w1)" and "w3 = snd (?O w2)"
  have g: "assignmentsKeyed w" "partnersKeyed w" "ordersKeyed w" using assms by (auto simp: dispatchKeyed_def)
  have g1: "assignmentsKeyed w1" unfolding w1_def by (rule assignmentCas.claim_good[OF g(1)])
  have p1: "partnersKeyed w1" "partnerStatusCell w1 = partnerStatusCell w"
    using g(2) by (simp_all add: w1_def partnersKeyed_def partnerStatusCell_def[abs_def])
  have p2: "partnersKeyed w2" unfolding w2_def by (rule partnerCas.claim_good[OF p1(1)])
  have r2: "ordersKeyed w2" "riderCell w2 = riderCell w"
    using g(3) by (simp_all add: w2_def w1_def ordersKeyed_def riderCell_def[abs_def])
  have r3: "ordersKeyed w3" unfolding w3_def claimOrderPartner_from by (rule riderCas.claim_good[OF r2(1)])
  have n1: "fst (?A w) = 0 \<longleftrightarrow> assignmentCell w aid \<noteq> Some ASG_PENDING"
    using assignmentCas.claim_count_0_iff[OF g(1), of now aid "[ASG_PENDING]"] by auto
  have n2: "fst (?P w1) = 0 \<longleftrightarrow> partnerStatusCell w did \<noteq> Some AVAILABLE"
    using partnerCas.claim_count_0_iff[OF p1(1), of did "[AVAILABLE]"] by (auto simp: p1(2))
  have n3: "fst (?O w2) = 0 \<longleftrightarrow> riderCell w oid \<noteq> Some None"
    using riderCas.claim_count_0_iff[OF r2(1), of oid "[None]"] by (auto simp: r2(2) claimOrderPartner_from)
  have eq: "acceptAssignmentAtomic now aid did uid oid w =
      (if fst (?A w) = 0 then (NotAccepted ''assignment_not_pending'', w)
       else if fst (?P w1) = 0 then (NotAccepted ''partner_not_available'', w)
       else if fst (?O w2) = 0 then (NotAccepted ''order_already_assigned'', w) else (Accepted, w3))"
    by (simp add: acceptAssignmentAtomic_def w1_def w2_def w3_def split: prod.split)
  show ?thesis
  proof (cases "acceptable aid did oid w")
    case False
    then show ?thesis by (auto simp: eq n1 n2 n3 acceptable_def)
  next
    case True
    then have c: "assignmentCell w aid = Some ASG_PENDING" "partnerStatusCell w did = Some AVAILABLE"
      "riderCell w oid = Some None" by (auto simp: acceptable_def)
    have a: "assignmentCell w3 = (assignmentCell w)(aid \<mapsto> ASG_ACCEPTED)"
    proof
      fix k
      have "assignmentCell w3 k = assignmentCell w1 k"
        by (simp add: w3_def w2_def assignmentCell_def)
      also have "\<dots> = ((assignmentCell w)(aid \<mapsto> ASG_ACCEPTED)) k"
        using assignmentCas.claim_hit[OF g(1) c(1), of "[ASG_PENDING]" now ASG_ACCEPTED]
          assignmentCas.claim_other[of k aid now "[ASG_PENDING]" ASG_ACCEPTED w]
        by (cases "k = aid") (simp_all add: w1_def)
      finally show "assignmentCell w3 k = ((assignmentCell w)(aid \<mapsto> ASG_ACCEPTED)) k" .
    qed
    have p: "partnerStatusCell w3 = (partnerStatusCell w)(did \<mapsto> ON_DELIVERY)"
    proof
      fix k
      have "partnerStatusCell w3 k = partnerStatusCell w2 k" by (simp add: w3_def partnerStatusCell_def)
      also have "\<dots> = ((partnerStatusCell w)(did \<mapsto> ON_DELIVERY)) k"
        using partnerCas.claim_hit[OF p1(1), of did AVAILABLE "[AVAILABLE]" ON_DELIVERY] c(2)
          partnerCas.claim_other[of k did "[AVAILABLE]" ON_DELIVERY w1]
        by (cases "k = did") (simp_all add: w2_def p1(2))
      finally show "partnerStatusCell w3 k = ((partnerStatusCell w)(did \<mapsto> ON_DELIVERY)) k" .
    qed
    have r: "riderCell w3 = (riderCell w)(oid \<mapsto> Some uid)"
    proof
      fix k
      show "riderCell w3 k = ((riderCell w)(oid \<mapsto> Some uid)) k"
        using riderCas.claim_hit[OF r2(1), of oid None "[None]" "Some uid"] c(3)
          riderCas.claim_other[of k oid "[None]" "Some uid" w2]
        by (cases "k = oid") (simp_all add: w3_def r2(2) claimOrderPartner_from)
    qed
    have "dispatchKeyed w3"
      using g1 p2 r3 by (simp add: dispatchKeyed_def assignmentsKeyed_def partnersKeyed_def w3_def w2_def)
    then show ?thesis using True a p r c by (auto simp: eq n1 n2 n3)
  qed
qed

section \<open>At most one live offer per order\<close>

definition liveOffers :: "string \<Rightarrow> world \<Rightarrow> nat" where
  "liveOffers oid w = matches (\<lambda>a. a_orderId a = oid \<and> isActive a) (w_assignments w)"

definition one_live_offer :: "world \<Rightarrow> bool" where
  "one_live_offer w \<longleftrightarrow> (\<forall>oid. liveOffers oid w \<le> 1)"

lemma one_live_offer_cong: "w_assignments w' = w_assignments w \<Longrightarrow> one_live_offer w' = one_live_offer w"
  by (simp add: one_live_offer_def liveOffers_def)

lemma created_only_when_free:
  assumes "createAssignmentForOrder uuid now oid did expires sts cycle w = (Created a, w')"
  shows "liveOffers oid w = 0 \<and> w' = w\<lparr>w_assignments := w_assignments w @ [a]\<rparr> \<and>
    a_orderId a = oid \<and> a_partnerId a = did \<and> a_id a = uuid \<and> a_status a = ASG_PENDING \<and> a_cycle a = cycle \<and>
    a_assignedAt a = now"
  using assms by (auto simp: createAssignmentForOrder_def findActiveAssignmentForOrder_def find_None_matches
      liveOffers_def Let_def split: option.splits if_splits)

lemma create_keeps_one:
  assumes "one_live_offer w"
  shows "one_live_offer (snd (createAssignmentForOrder uuid now oid did expires sts cycle w))"
proof (cases "createAssignmentForOrder uuid now oid did expires sts cycle w")
  case (Pair r w')
  show ?thesis
  proof (cases r)
    case (Created a)
    note c = created_only_when_free[OF Pair[unfolded Created]]
    then show ?thesis
      using assms Pair by (auto simp: one_live_offer_def liveOffers_def)
  next
    case (NotCreated reason)
    then have "w' = w"
      using Pair by (auto simp: createAssignmentForOrder_def Let_def split: option.splits if_splits)
    then show ?thesis using assms Pair by simp
  qed
qed

text \<open>A transition of an active row never adds a live offer.\<close>

lemma claim_keeps_one:
  assumes "one_live_offer w" and "set from \<subseteq> {ASG_PENDING, ASG_ACCEPTED}"
  shows "one_live_offer (snd (claimAssignmentTransition now aid from t w))"
proof -
  have "liveOffers oid (snd (claimAssignmentTransition now aid from t w)) \<le> liveOffers oid w" for oid
    unfolding liveOffers_def claimAssignmentTransition_def Let_def
    using assms(2) by (auto simp: isActive_def intro!: matches_modify_le)
  then show ?thesis using assms(1) order_trans unfolding one_live_offer_def by blast
qed

lemma accept_assignments:
  "w_assignments (snd (acceptAssignmentAtomic now aid did uid oid w)) = w_assignments w \<or>
   w_assignments (snd (acceptAssignmentAtomic now aid did uid oid w)) =
     w_assignments (snd (claimAssignmentTransition now aid [ASG_PENDING] ASG_ACCEPTED w))"
proof -
  obtain n1 w1 where 1: "claimAssignmentTransition now aid [ASG_PENDING] ASG_ACCEPTED w = (n1, w1)" by fastforce
  obtain n2 w2 where 2: "claimPartnerStatus did [AVAILABLE] ON_DELIVERY w1 = (n2, w2)" by fastforce
  obtain n3 w3 where 3: "claimOrderPartner oid uid w2 = (n3, w3)" by fastforce
  have "w_assignments w2 = w_assignments w1" "w_assignments w3 = w_assignments w2"
    using claim_tables(7)[of did "[AVAILABLE]" ON_DELIVERY w1] claim_tables(9)[of oid uid w2] by (simp_all add: 2 3)
  then show ?thesis by (simp add: acceptAssignmentAtomic_def 1 2 3)
qed

lemma accept_keeps_one:
  assumes "one_live_offer w"
  shows "one_live_offer (snd (acceptAssignmentAtomic now aid did uid oid w))"
proof -
  let ?w = "snd (acceptAssignmentAtomic now aid did uid oid w)"
  let ?c = "snd (claimAssignmentTransition now aid [ASG_PENDING] ASG_ACCEPTED w)"
  have "one_live_offer ?c" by (rule claim_keeps_one[OF assms]) simp
  with accept_assignments[of now aid did uid oid w] one_live_offer_cong[of ?w ?c] one_live_offer_cong[of ?w w] assms
  show ?thesis by blast
qed

lemma release_keeps_one:
  assumes "one_live_offer w"
  shows "one_live_offer (releasePartnerFromDelivery uid oid w)"
proof (cases oid)
  case None
  then show ?thesis using assms
    by (simp add: releasePartnerFromDelivery_def releaseFromDelivery_def one_live_offer_def liveOffers_def Let_def)
next
  case (Some i)
  have "liveOffers k (releasePartnerFromDelivery uid oid w) \<le> liveOffers k w" for k
    unfolding liveOffers_def Some release_assignments by (rule matches_modify_le) (auto simp: isActive_def)
  then show ?thesis using assms order_trans unfolding one_live_offer_def by blast
qed

section \<open>Schedules of accepts\<close>

text \<open>Accept transactions in the order in which the database commits them: offer, rider id, rider's
  user id, order.\<close>

fun runAccepts :: "int \<Rightarrow> (string \<times> string \<times> string \<times> string) list \<Rightarrow> world \<Rightarrow> acceptResult list \<times> world" where
  "runAccepts now [] w = ([], w)"
| "runAccepts now ((aid, did, uid, oid) # rs) w =
     (let (r, w1) = acceptAssignmentAtomic now aid did uid oid w; (out, w2) = runAccepts now rs w1
      in (r # out, w2))"

definition accepted :: "int \<Rightarrow> (string \<times> string \<times> string \<times> string) list \<Rightarrow> world \<Rightarrow> (string \<times> string \<times> string \<times> string) list" where
  "accepted now rs w = map snd (filter (\<lambda>p. fst p = Accepted) (zip (fst (runAccepts now rs w)) rs))"

lemma accepted_Nil [simp]: "accepted now [] w = []"
  by (simp add: accepted_def)

lemma accepted_Cons:
  assumes "dispatchKeyed w"
  shows "accepted now ((aid, did, uid, oid) # rs) w =
    (if acceptable aid did oid w
     then (aid, did, uid, oid) # accepted now rs (snd (acceptAssignmentAtomic now aid did uid oid w))
     else accepted now rs w)"
  using accept_cases[OF assms, of aid did oid now uid]
  by (auto simp: accepted_def split: prod.splits if_splits)

text \<open>What can still be accepted only shrinks.\<close>

lemma accepted_were_acceptable:
  assumes "dispatchKeyed w"
  shows "\<forall>(aid, did, uid, oid) \<in> set (accepted now rs w). acceptable aid did oid w"
  using assms
proof (induction rs arbitrary: w)
  case (Cons r rs)
  obtain aid did uid oid where r: "r = (aid, did, uid, oid)" by (cases r) auto
  show ?case
  proof (cases "acceptable aid did oid w")
    case False
    then show ?thesis using Cons r by (simp add: accepted_Cons)
  next
    case True
    then obtain w1 where w1: "acceptAssignmentAtomic now aid did uid oid w = (Accepted, w1)" "dispatchKeyed w1"
      "assignmentCell w1 = (assignmentCell w)(aid \<mapsto> ASG_ACCEPTED)"
      "partnerStatusCell w1 = (partnerStatusCell w)(did \<mapsto> ON_DELIVERY)"
      "riderCell w1 = (riderCell w)(oid \<mapsto> Some uid)"
      using accept_cases[OF Cons.prems, of aid did oid now uid] by auto
    have "acceptable a d k w" if "acceptable a d k w1" for a d k
      using that by (auto simp: acceptable_def w1 split: if_splits)
    then show ?thesis using Cons.IH[OF w1(2)] True Cons.prems r w1(1) by (auto simp: accepted_Cons)
  qed
qed simp

lemma accepted_distinct:
  assumes "dispatchKeyed w"
  shows "distinct (map fst (accepted now rs w)) \<and> distinct (map (fst \<circ> snd) (accepted now rs w)) \<and>
    distinct (map (snd \<circ> snd \<circ> snd) (accepted now rs w))"
  using assms
proof (induction rs arbitrary: w)
  case (Cons r rs)
  obtain aid did uid oid where r: "r = (aid, did, uid, oid)" by (cases r) auto
  show ?case
  proof (cases "acceptable aid did oid w")
    case False
    then show ?thesis using Cons r by (simp add: accepted_Cons)
  next
    case True
    then obtain w1 where w1: "acceptAssignmentAtomic now aid did uid oid w = (Accepted, w1)" "dispatchKeyed w1"
      "assignmentCell w1 = (assignmentCell w)(aid \<mapsto> ASG_ACCEPTED)"
      "partnerStatusCell w1 = (partnerStatusCell w)(did \<mapsto> ON_DELIVERY)"
      "riderCell w1 = (riderCell w)(oid \<mapsto> Some uid)"
      using accept_cases[OF Cons.prems, of aid did oid now uid] by auto
    have "a \<noteq> aid \<and> d \<noteq> did \<and> k \<noteq> oid" if "acceptable a d k w1" for a d k
      using that by (auto simp: acceptable_def w1 split: if_splits)
    then have "\<forall>(a, d, u, k) \<in> set (accepted now rs w1). a \<noteq> aid \<and> d \<noteq> did \<and> k \<noteq> oid"
      using accepted_were_acceptable[OF w1(2), of now rs] by fastforce
    then show ?thesis using Cons.IH[OF w1(2)] True Cons.prems r w1(1)
      by (fastforce simp: accepted_Cons)
  qed
qed simp

end
