(* ===== verification/Geo.thy ===== *)
theory Geo
  imports Prelude
begin

text \<open>
  Great-circle distance: \<^verbatim>\<open>modules/restaurants/utils/geo.util.ts\<close>, over the reals (the code
  computes the same formula in IEEE doubles).  Coordinates are degrees.
\<close>

definition EARTH_RADIUS_KM :: real where "EARTH_RADIUS_KM = 6371"

definition toRadians :: "real \<Rightarrow> real" where
  "toRadians degrees = (degrees * pi) / 180"

text \<open>\<^verbatim>\<open>Math.atan2(y, x)\<close>.\<close>

definition atan2 :: "real \<Rightarrow> real \<Rightarrow> real" where
  "atan2 y x =
     (if x > 0 then arctan (y / x)
      else if x < 0 then (if y \<ge> 0 then arctan (y / x) + pi else arctan (y / x) - pi)
      else if y > 0 then pi / 2 else if y < 0 then - pi / 2 else 0)"

definition haversineTerm :: "real \<Rightarrow> real \<Rightarrow> real \<Rightarrow> real \<Rightarrow> real" where
  "haversineTerm lat1 lng1 lat2 lng2 =
     (let dLat = toRadians (lat2 - lat1); dLng = toRadians (lng2 - lng1)
      in (sin (dLat / 2))\<^sup>2 + cos (toRadians lat1) * cos (toRadians lat2) * (sin (dLng / 2))\<^sup>2)"

definition haversineDistanceKm :: "real \<Rightarrow> real \<Rightarrow> real \<Rightarrow> real \<Rightarrow> real" where
  "haversineDistanceKm lat1 lng1 lat2 lng2 =
     (let a = haversineTerm lat1 lng1 lat2 lng2
      in EARTH_RADIUS_KM * (2 * atan2 (sqrt a) (sqrt (1 - a))))"

section \<open>Lemmas\<close>

lemma toRadians_diff: "toRadians (x - y) = toRadians x - toRadians y"
  by (simp add: toRadians_def algebra_simps diff_divide_distrib)

text \<open>The spherical law of cosines: the term is always within the unit interval, whatever the
  inputs, so that neither square root is taken of a negative number.\<close>

lemma haversineTerm_cos:
  "1 - 2 * haversineTerm lat1 lng1 lat2 lng2 =
     sin (toRadians lat1) * sin (toRadians lat2) +
     cos (toRadians lat1) * cos (toRadians lat2) * cos (toRadians (lng2 - lng1))"
proof -
  have half: "2 * (sin (x / 2))\<^sup>2 = 1 - cos x" for x :: real
    using cos_double_sin[of "x / 2"] by simp
  have "1 - 2 * haversineTerm lat1 lng1 lat2 lng2 =
      1 - 2 * (sin (toRadians (lat2 - lat1) / 2))\<^sup>2
        - cos (toRadians lat1) * cos (toRadians lat2) * (2 * (sin (toRadians (lng2 - lng1) / 2))\<^sup>2)"
    by (simp add: haversineTerm_def Let_def algebra_simps)
  also have "\<dots> = cos (toRadians lat2 - toRadians lat1)
        - cos (toRadians lat1) * cos (toRadians lat2) * (1 - cos (toRadians (lng2 - lng1)))"
    by (simp add: half toRadians_diff)
  also have "\<dots> = sin (toRadians lat1) * sin (toRadians lat2) +
     cos (toRadians lat1) * cos (toRadians lat2) * cos (toRadians (lng2 - lng1))"
    by (simp add: cos_diff algebra_simps)
  finally show ?thesis .
qed

lemma haversineTerm_unit: "0 \<le> haversineTerm lat1 lng1 lat2 lng2 \<and> haversineTerm lat1 lng1 lat2 lng2 \<le> 1"
proof -
  let ?a = "toRadians lat1" and ?b = "toRadians lat2" and ?c = "cos (toRadians (lng2 - lng1))"
  let ?u = "sin ?a * sin ?b" and ?v = "cos ?a * cos ?b"
  have c: "\<bar>?c\<bar> \<le> 1" by simp
  have "\<bar>?v * ?c\<bar> \<le> \<bar>?v\<bar>" using c by (simp add: abs_mult mult_left_le)
  moreover have "\<bar>?u\<bar> + \<bar>?v\<bar> \<le> 1"
  proof -
    have "\<bar>cos (?a - ?b)\<bar> \<le> 1" "\<bar>cos (?a + ?b)\<bar> \<le> 1" by simp_all
    then have "\<bar>?v + ?u\<bar> \<le> 1" "\<bar>?v - ?u\<bar> \<le> 1" by (simp_all only: cos_diff cos_add)
    then show ?thesis by linarith
  qed
  ultimately have "\<bar>?u + ?v * ?c\<bar> \<le> 1" by linarith
  then have "\<bar>1 - 2 * haversineTerm lat1 lng1 lat2 lng2\<bar> \<le> 1" by (simp only: haversineTerm_cos)
  then show ?thesis by linarith
qed

lemma atan2_quadrant: "0 \<le> y \<Longrightarrow> 0 \<le> x \<Longrightarrow> 0 \<le> atan2 y x \<and> atan2 y x \<le> pi / 2"
  using arctan_ubound[of "y / x"] by (auto simp: atan2_def zero_le_arctan_iff intro: less_imp_le)

lemma haversine_bounds:
  "0 \<le> haversineDistanceKm lat1 lng1 lat2 lng2 \<and> haversineDistanceKm lat1 lng1 lat2 lng2 \<le> EARTH_RADIUS_KM * pi"
proof -
  let ?a = "haversineTerm lat1 lng1 lat2 lng2"
  have "0 \<le> sqrt ?a" "0 \<le> sqrt (1 - ?a)" using haversineTerm_unit[of lat1 lng1 lat2 lng2] by auto
  from atan2_quadrant[OF this] show ?thesis
    by (auto simp: haversineDistanceKm_def Let_def EARTH_RADIUS_KM_def)
qed

lemma haversine_symmetric:
  "haversineDistanceKm lat1 lng1 lat2 lng2 = haversineDistanceKm lat2 lng2 lat1 lng1"
proof -
  have "1 - 2 * haversineTerm lat1 lng1 lat2 lng2 = 1 - 2 * haversineTerm lat2 lng2 lat1 lng1"
    unfolding haversineTerm_cos toRadians_diff using cos_minus[of "toRadians lng2 - toRadians lng1"]
    by (simp add: mult.commute mult.assoc)
  then have "haversineTerm lat1 lng1 lat2 lng2 = haversineTerm lat2 lng2 lat1 lng1" by simp
  then show ?thesis by (simp add: haversineDistanceKm_def)
qed

lemma haversine_self [simp]: "haversineDistanceKm lat lng lat lng = 0"
  by (simp add: haversineDistanceKm_def haversineTerm_def toRadians_def atan2_def)

end
