(* ===== verification/Dispatch.thy ===== *)
theory Dispatch
  imports DispatchRepository OperatingHours Geo "HOL-Library.Product_Lexorder" "HOL-Library.Option_ord"
begin

text \<open>
  The dispatch engine: \<^verbatim>\<open>modules/dispatch/services/dispatch.service.ts\<close>, its listener, its
  reconciliation, the \<^verbatim>\<open>dispatch\<close> queue worker
  (\<^verbatim>\<open>infrastructure/queues/processors/assignment-expiry.processor.ts\<close>) and manual assignment
  (\<^verbatim>\<open>modules/admin/services/admin-dispatch.service.ts\<close>).

  Presence is the set \<^term>\<open>w_online\<close>.  Log lines, metrics and websocket messages have no effect on
  the state and are left out; the audit trail, domain events and queue jobs are kept.
\<close>

section \<open>Configuration\<close>

text \<open>The environment variables, as numbers, and the time zone library.\<close>

record dispatchCfg =
  dc_timeoutSeconds :: int
  dc_retrySeconds :: int
  dc_radiusTiers :: "real list"
  dc_maxCyclesConfigured :: nat
  dc_zone :: zoneLib
  dc_dayKey :: "int \<Rightarrow> string"

definition defaultCfg :: "zoneLib \<Rightarrow> (int \<Rightarrow> string) \<Rightarrow> dispatchCfg" where
  "defaultCfg tz dk = \<lparr>dc_timeoutSeconds = 30, dc_retrySeconds = 15, dc_radiusTiers = [5000, 7000, 9000, 10000],
     dc_maxCyclesConfigured = 10, dc_zone = tz, dc_dayKey = dk\<rparr>"

definition DISPATCHABLE_ORDER_STATUSES :: "orderStatus list" where
  "DISPATCHABLE_ORDER_STATUSES = [READY_FOR_PICKUP]"

definition effectiveRadiusTiers :: "dispatchCfg \<Rightarrow> real list" where
  "effectiveRadiusTiers cfg =
     (let tiers = filter (\<lambda>t. t > 0) (dc_radiusTiers cfg)
      in if length tiers > 0 then tiers else [5000, 7000, 9000, 10000])"

text \<open>\<^verbatim>\<open>currentCycle < DISPATCH_MAX_CYCLES\<close>, where a configured 0 is \<^verbatim>\<open>Infinity\<close>.\<close>

definition belowMaxCycles :: "dispatchCfg \<Rightarrow> nat \<Rightarrow> bool" where
  "belowMaxCycles cfg cycle \<longleftrightarrow> dc_maxCyclesConfigured cfg = 0 \<or> cycle < dc_maxCyclesConfigured cfg"

section \<open>Where the order is picked up\<close>

type_synonym location = "rat \<times> rat"

definition distanceMeters :: "location \<Rightarrow> location \<Rightarrow> real" where
  "distanceMeters p q =
     haversineDistanceKm (of_rat (fst p)) (of_rat (snd p)) (of_rat (fst q)) (of_rat (snd q)) * 1000"

definition coordinates :: "rat option \<Rightarrow> rat option \<Rightarrow> location option" where
  "coordinates lat lng = (case (lat, lng) of (Some a, Some b) \<Rightarrow> Some (a, b) | _ \<Rightarrow> None)"

definition orderBranch :: "world \<Rightarrow> order \<Rightarrow> branch option" where
  "orderBranch w ord = (case o_branchId ord of None \<Rightarrow> None | Some b \<Rightarrow> lookup b_id b (w_branches w))"

definition primaryBranch :: "world \<Rightarrow> order \<Rightarrow> branch option" where
  "primaryBranch w ord =
     List.find (\<lambda>b. b_restaurantId b = o_restaurantId ord \<and> b_isPrimary b \<and> b_isActive b) (w_branches w)"

definition resolveBranchCoordinates :: "world \<Rightarrow> order \<Rightarrow> location option" where
  "resolveBranchCoordinates w ord =
     (case Option.bind (orderBranch w ord) (\<lambda>b. coordinates (b_latitude b) (b_longitude b)) of
        Some l \<Rightarrow> Some l
      | None \<Rightarrow> Option.bind (primaryBranch w ord) (\<lambda>b. coordinates (b_latitude b) (b_longitude b)))"

section \<open>Choosing the rider\<close>

definition partnerLocation :: "partner \<Rightarrow> location option" where
  "partnerLocation d = coordinates (d_latitude d) (d_longitude d)"

definition withinRadius :: "location option \<Rightarrow> real \<Rightarrow> partner \<Rightarrow> bool" where
  "withinRadius loc tier d =
     (case (loc, partnerLocation d) of
        (Some p, Some q) \<Rightarrow> distanceMeters p q \<le> tier
      | _ \<Rightarrow> False)"

text \<open>The first tier with a candidate wins.\<close>

fun widenRadius :: "location option \<Rightarrow> real list \<Rightarrow> partner list \<Rightarrow> partner list" where
  "widenRadius loc [] ps = []"
| "widenRadius loc (tier # tiers) ps =
     (let withinTier = filter (withinRadius loc tier) ps
      in if length withinTier > 0 then withinTier else widenRadius loc tiers ps)"

text \<open>A score as the code computes it: \<^term>\<open>None\<close> is \<^verbatim>\<open>Infinity\<close>.\<close>

record scored =
  sc_partner :: partner
  sc_distance :: "real option"
  sc_idleMs :: "int option"

definition scorePartner :: "location option \<Rightarrow> (string \<Rightarrow> int option) \<Rightarrow> int \<Rightarrow> partner \<Rightarrow> scored" where
  "scorePartner loc lastActivity now d =
     \<lparr>sc_partner = d,
      sc_distance = (case (loc, partnerLocation d) of (Some p, Some q) \<Rightarrow> Some (distanceMeters p q) | _ \<Rightarrow> None),
      sc_idleMs = (case lastActivity (d_id d) of Some t \<Rightarrow> Some (now - t) | None \<Rightarrow> None)\<rparr>"

text \<open>Strings compare by their code units.\<close>

definition codeUnits :: "string \<Rightarrow> nat list" where
  "codeUnits s = map of_char s"

text \<open>The comparator as \<open>a\<close> does not come after \<open>b\<close>.\<close>

definition rankedBefore :: "scored \<Rightarrow> scored \<Rightarrow> bool" where
  "rankedBefore a b =
     (if sc_idleMs a \<noteq> sc_idleMs b
      then (case (sc_idleMs a, sc_idleMs b) of
              (None, _) \<Rightarrow> True | (Some _, None) \<Rightarrow> False | (Some x, Some y) \<Rightarrow> y - x < 0)
      else if sc_distance a \<noteq> sc_distance b
      then (case (sc_distance a, sc_distance b) of
              (None, _) \<Rightarrow> False | (Some _, None) \<Rightarrow> True | (Some x, Some y) \<Rightarrow> x - y < 0)
      else if codeUnits (d_id (sc_partner a)) < codeUnits (d_id (sc_partner b)) then True
      else if codeUnits (d_id (sc_partner a)) > codeUnits (d_id (sc_partner b)) then False
      else True)"

text \<open>\<^verbatim>\<open>Array.prototype.sort\<close>: a stable sort.\<close>

fun insertBy :: "('a \<Rightarrow> 'a \<Rightarrow> bool) \<Rightarrow> 'a \<Rightarrow> 'a list \<Rightarrow> 'a list" where
  "insertBy le x [] = [x]"
| "insertBy le x (y # ys) = (if le x y then x # y # ys else y # insertBy le x ys)"

definition sortBy :: "('a \<Rightarrow> 'a \<Rightarrow> bool) \<Rightarrow> 'a list \<Rightarrow> 'a list" where
  "sortBy le xs = foldr (insertBy le) xs []"

definition selectPartnerByPriority ::
  "location option \<Rightarrow> partner list \<Rightarrow> (string \<Rightarrow> int option) \<Rightarrow> int \<Rightarrow> nat \<Rightarrow> partner option" where
  "selectPartnerByPriority loc ps lastActivity now cycle =
     (case ps of
        [] \<Rightarrow> None
      | [d] \<Rightarrow> Some d
      | _ \<Rightarrow>
          (let scores = sortBy rankedBefore (map (scorePartner loc lastActivity now) ps);
               offset = (cycle - 1) mod length scores
           in if offset > 0 then Some (sc_partner (hd (drop offset scores @ take offset scores)))
              else Some (sc_partner (hd scores))))"

section \<open>Automatic assignment\<close>

definition addDispatchAssignmentJob :: "string \<Rightarrow> string \<Rightarrow> int option \<Rightarrow> nat option \<Rightarrow> world \<Rightarrow> world" where
  "addDispatchAssignmentJob oid source delayMs cycle w =
     enqueue (DispatchAssignment oid source (if delayMs = Some 0 then None else delayMs) cycle) w"

definition addAssignmentExpiryJob :: "string \<Rightarrow> int option \<Rightarrow> world \<Rightarrow> world" where
  "addAssignmentExpiryJob aid delayMs w =
     enqueue (AssignmentExpiry aid (case delayMs of None \<Rightarrow> 10 * 60 * 1000 | Some d \<Rightarrow> d)) w"

text \<open>The early exits: \<^term>\<open>None\<close> goes on, otherwise the call ends with the given result.\<close>

definition dispatchStop :: "dispatchCfg \<Rightarrow> int \<Rightarrow> world \<Rightarrow> order \<Rightarrow> assignment option result option" where
  "dispatchStop cfg now w ord =
     (if truthy (o_deliveryPartnerId ord) then Some (Inr None)
      else if o_status ord \<notin> set DISPATCHABLE_ORDER_STATUSES then Some (Inr None)
      else if map_option rs_status (lookup rs_id (o_restaurantId ord) (w_restaurants w)) = Some REST_SUSPENDED
        then Some (Inr None)
      else
        (case (case orderBranch w ord of
                 None \<Rightarrow> Some True
               | Some b \<Rightarrow>
                   if \<not> b_isActive b then Some False
                   else computeIsOpenNow (dc_zone cfg) (dc_dayKey cfg) (b_operatingHours b) (b_timezone b) now []) of
           None \<Rightarrow> Some (Inl (ProviderError ''timezone''))
         | Some False \<Rightarrow> Some (Inr None)
         | Some True \<Rightarrow>
             (case findActiveAssignmentForOrder (o_id ord) w of
                Some a \<Rightarrow> Some (Inr (Some a))
              | None \<Rightarrow> None)))"

definition derivedCycle :: "assignment list \<Rightarrow> nat" where
  "derivedCycle previous = (case previous of [] \<Rightarrow> 1 | _ \<Rightarrow> Max (set (map a_cycle previous)))"

definition currentCycle :: "assignment list \<Rightarrow> nat option \<Rightarrow> nat" where
  "currentCycle previous forced =
     (case forced of Some f \<Rightarrow> max f (derivedCycle previous) | None \<Rightarrow> derivedCycle previous)"

definition attemptedPartnerIds :: "assignment list \<Rightarrow> nat \<Rightarrow> string list" where
  "attemptedPartnerIds previous cycle = map a_partnerId (filter (\<lambda>a. a_cycle a = cycle) previous)"

definition radiusEligibleCandidates :: "string \<Rightarrow> nat \<Rightarrow> world \<Rightarrow> partner list" where
  "radiusEligibleCandidates oid cycle w =
     (let partners = findAvailablePartners w;
          attempted = attemptedPartnerIds (findAssignmentsForOrder oid w) cycle;
          busy = findPartnerIdsWithActiveAssignment (map d_id partners) w
      in filter (\<lambda>d. d_userId d \<in> set (w_online w) \<and> d_id d \<notin> set attempted \<and> d_id d \<notin> set busy) partners)"

text \<open>No rider in range: retry in a later cycle while the limit allows it.\<close>

definition cycleExhausted :: "dispatchCfg \<Rightarrow> string \<Rightarrow> nat \<Rightarrow> world \<Rightarrow> (world, assignment option) outcome" where
  "cycleExhausted cfg oid cycle w =
     (if findAvailablePartners w \<noteq> [] \<and> belowMaxCycles cfg cycle
      then (Inr None, addDispatchAssignmentJob oid ''dispatch.cycle.retry''
              (Some (dc_retrySeconds cfg * 1000)) (Some (cycle + 1)) w)
      else (Inl (NotFound ''No delivery partners available''), w))"

text \<open>\<open>env\<close> is what other transactions commit between the reads and the locked insert.\<close>

definition offerTo ::
  "dispatchCfg \<Rightarrow> string \<Rightarrow> int \<Rightarrow> (world \<Rightarrow> world) \<Rightarrow> order \<Rightarrow> nat \<Rightarrow> partner \<Rightarrow> world
     \<Rightarrow> (world, assignment option) outcome" where
  "offerTo cfg uuid now env ord cycle d w =
     (case createAssignmentForOrder uuid now (o_id ord) (d_id d) (now + dc_timeoutSeconds cfg * 1000)
              DISPATCHABLE_ORDER_STATUSES cycle (env w) of
        (NotCreated _, w1) \<Rightarrow> (Inr None, w1)
      | (Created a, w1) \<Rightarrow>
          (Inr (Some a),
           publish (DeliveryPartnerAssigned (o_id ord) (o_customerId ord) (d_userId d))
            (addAssignmentExpiryJob (a_id a) (Some (dc_timeoutSeconds cfg * 1000))
              (auditLog None ''DeliveryAssignment'' (a_id a) ''CREATE'' w1))))"

definition assignOrder ::
  "dispatchCfg \<Rightarrow> string \<Rightarrow> int \<Rightarrow> (world \<Rightarrow> world) \<Rightarrow> string \<Rightarrow> nat option \<Rightarrow> world
     \<Rightarrow> (world, assignment option) outcome" where
  "assignOrder cfg uuid now env oid forced w =
     (case findOrderById oid w of
        None \<Rightarrow> (Inr None, w)
      | Some ord \<Rightarrow>
          (case dispatchStop cfg now w ord of
             Some r \<Rightarrow> (r, w)
           | None \<Rightarrow>
               (let previous = findAssignmentsForOrder oid w;
                    cycle = currentCycle previous forced;
                    loc = resolveBranchCoordinates w ord;
                    onlinePartners = widenRadius loc (effectiveRadiusTiers cfg) (radiusEligibleCandidates oid cycle w)
                in case selectPartnerByPriority loc onlinePartners (lastAssignmentActivity w) now cycle of
                     None \<Rightarrow> cycleExhausted cfg oid cycle w
                   | Some d \<Rightarrow> offerTo cfg uuid now env ord cycle d w)))"

section \<open>Accepting, rejecting, expiring\<close>

definition acceptAssignment ::
  "int \<Rightarrow> (world \<Rightarrow> world) \<Rightarrow> string \<Rightarrow> string \<Rightarrow> world \<Rightarrow> (world, unit) outcome" where
  "acceptAssignment now env aid uid w =
     (case findPartnerByUserId uid w of
        None \<Rightarrow> (Inl (NotFound ''Delivery partner''), w)
      | Some d \<Rightarrow>
          (case findAssignmentById aid w of
             None \<Rightarrow> (Inl (NotFound ''Assignment''), w)
           | Some a \<Rightarrow>
               if a_partnerId a \<noteq> d_id d then (Inl (Forbidden ''Assignment does not belong to you''), w)
               else if \<not> d_isVerified d \<or> d_status d = SUSPENDED then (Inl (Forbidden ''not eligible''), w)
               else
                 (case acceptAssignmentAtomic now aid (d_id d) (d_userId d) (a_orderId a) (env w) of
                    (NotAccepted reason, w1) \<Rightarrow>
                      (Inl (if reason = ''assignment_not_pending'' then BadRequest ''Only pending''
                            else if reason = ''partner_not_available'' then Conflict ''no longer available''
                            else Conflict ''already has a delivery partner''), w1)
                  | (Accepted, w1) \<Rightarrow>
                      (Inr (), auditLog (Some uid) ''DeliveryAssignment'' aid ''STATUS_CHANGE'' w1))))"

definition rejectAssignment ::
  "int \<Rightarrow> (world \<Rightarrow> world) \<Rightarrow> string \<Rightarrow> string \<Rightarrow> world \<Rightarrow> (world, unit) outcome" where
  "rejectAssignment now env aid uid w =
     (case findPartnerByUserId uid w of
        None \<Rightarrow> (Inl (NotFound ''Delivery partner''), w)
      | Some d \<Rightarrow>
          (case findAssignmentById aid w of
             None \<Rightarrow> (Inl (NotFound ''Assignment''), w)
           | Some a \<Rightarrow>
               if a_partnerId a \<noteq> d_id d then (Inl (Forbidden ''Assignment does not belong to you''), w)
               else
                 (let (count, w1) = claimAssignmentTransition now aid [ASG_PENDING] ASG_REJECTED (env w)
                  in if count = 0 then (Inl (BadRequest ''Only pending''), w1)
                     else (Inr (), publish (AssignmentRejected (a_orderId a) aid)
                            (auditLog (Some uid) ''DeliveryAssignment'' aid ''STATUS_CHANGE'' w1)))))"

definition getAssignments :: "string \<Rightarrow> assignmentStatus option \<Rightarrow> world \<Rightarrow> assignment list result" where
  "getAssignments uid st w =
     (case findPartnerByUserId uid w of
        None \<Rightarrow> Inl (NotFound ''Delivery partner'')
      | Some d \<Rightarrow> Inr (findPartnerAssignments (d_id d) st w))"

definition expireAssignment :: "int \<Rightarrow> (world \<Rightarrow> world) \<Rightarrow> string \<Rightarrow> world \<Rightarrow> world" where
  "expireAssignment now env aid w =
     (case findAssignmentById aid w of
        None \<Rightarrow> w
      | Some a \<Rightarrow>
          (let (count, w1) = claimAssignmentTransition now aid [ASG_PENDING] ASG_EXPIRED (env w)
           in if count = 1
              then publish (AssignmentExpired (a_orderId a) aid)
                     (auditLog None ''DeliveryAssignment'' aid ''STATUS_CHANGE'' w1)
              else w1))"

section \<open>Listener, queue worker, reconciliation\<close>

definition onDispatchEvent :: "event \<Rightarrow> world \<Rightarrow> world" where
  "onDispatchEvent e w =
     (case e of
        OrderReady oid rid \<Rightarrow> addDispatchAssignmentJob oid ''order.ready'' None None w
      | AssignmentRejected oid aid \<Rightarrow> addDispatchAssignmentJob oid ''dispatch.assignment.rejected'' None None w
      | AssignmentExpired oid aid \<Rightarrow> addDispatchAssignmentJob oid ''dispatch.assignment.expired'' None None w
      | _ \<Rightarrow> w)"

definition STRANDED_THRESHOLD_MS :: int where "STRANDED_THRESHOLD_MS = 3 * 60 * 1000"

definition reconcileStrandedAssignments :: "(string \<Rightarrow> int) \<Rightarrow> int \<Rightarrow> world \<Rightarrow> world" where
  "reconcileStrandedAssignments updatedAt now w =
     foldl (\<lambda>v oid. addDispatchAssignmentJob oid ''reconciliation'' None None v) w
       (findStrandedReadyForPickupOrders updatedAt now STRANDED_THRESHOLD_MS w)"

definition processDispatchJob ::
  "dispatchCfg \<Rightarrow> string \<Rightarrow> int \<Rightarrow> (world \<Rightarrow> world) \<Rightarrow> job \<Rightarrow> world \<Rightarrow> (world, unit) outcome" where
  "processDispatchJob cfg uuid now env j w =
     (case j of
        DispatchAssignment oid source delay cycle \<Rightarrow>
          (case assignOrder cfg uuid now env oid cycle w of
             (Inl e, w1) \<Rightarrow> (Inl e, w1)
           | (Inr _, w1) \<Rightarrow> (Inr (), w1))
      | AssignmentExpiry aid delay \<Rightarrow> (Inr (), expireAssignment now env aid w)
      | _ \<Rightarrow> (Inr (), w))"

section \<open>Manual assignment\<close>

definition manualGuards :: "string \<Rightarrow> string \<Rightarrow> world \<Rightarrow> (order \<times> partner) result" where
  "manualGuards oid did w =
     (case findOrderById oid w of
        None \<Rightarrow> Inl (NotFound ''Order'')
      | Some ord \<Rightarrow>
          andThen (guard (o_status ord \<notin> set TERMINAL_ORDER_STATUSES) (BadRequest ''cannot be assigned'')) (\<lambda>_.
          andThen (guard (\<not> truthy (o_deliveryPartnerId ord)) (Conflict ''already has a delivery partner'')) (\<lambda>_.
          andThen (guard (findActiveAssignmentForOrder oid w = None) (Conflict ''active dispatch assignment'')) (\<lambda>_.
          (case findPartnerById did w of
             None \<Rightarrow> Inl (NotFound ''Delivery partner'')
           | Some d \<Rightarrow>
               andThen (guard (d_status d \<noteq> OFFLINE) (BadRequest ''offline'')) (\<lambda>_.
               andThen (guard (d_status d \<noteq> SUSPENDED) (Forbidden ''suspended'')) (\<lambda>_.
               andThen (guard (d_isVerified d) (Forbidden ''verification'')) (\<lambda>_.
               andThen (guard (findActiveAssignmentForPartner (d_id d) w = None)
                         (Conflict ''partner has an active assignment'')) (\<lambda>_.
               Inr (ord, d))))))))))"

text \<open>Every failure is written to the audit trail and rethrown.\<close>

definition assignOrderToPartner ::
  "string \<Rightarrow> int \<Rightarrow> (world \<Rightarrow> world) \<Rightarrow> string \<Rightarrow> string \<Rightarrow> string \<Rightarrow> world \<Rightarrow> (world, assignment) outcome" where
  "assignOrderToPartner uuid now env oid did actor w =
     (case (case manualGuards oid did w of
              Inl e \<Rightarrow> (Inl e, w)
            | Inr (ord, d) \<Rightarrow>
                (case createAssignmentForOrder uuid now oid (d_id d) (now + 10 * 60 * 1000) [READY_FOR_PICKUP] 1 (env w) of
                   (NotCreated reason, w1) \<Rightarrow> (Inl (Conflict reason), w1)
                 | (Created a, w1) \<Rightarrow>
                     (Inr a, addAssignmentExpiryJob (a_id a) None
                               (auditLog (Some actor) ''DeliveryAssignment'' (a_id a) ''CREATE'' w1)))) of
        (Inl e, w2) \<Rightarrow> (Inl e, auditLog (Some actor) ''DeliveryAssignment'' [] ''CREATE'' w2)
      | (Inr a, w2) \<Rightarrow> (Inr a, w2))"

definition getDispatchDebugInfo :: "string \<Rightarrow> world \<Rightarrow> nat \<times> nat \<times> int option \<times> string list" where
  "getDispatchDebugInfo oid w =
     (let rows = findAssignmentsForOrder oid w
      in (derivedCycle rows, length rows,
          (case rows of [] \<Rightarrow> None | _ \<Rightarrow> Some (Max (set (map a_assignedAt rows)))),
          rev (remdups (rev (map a_partnerId (filter (\<lambda>a. a_status a \<in> {ASG_REJECTED, ASG_EXPIRED}) rows))))))"

end
