(* ===== verification/DispatchSafety.thy ===== *)
theory DispatchSafety
  imports Dispatch OrderRefund
begin

text \<open>
  Safety of dispatch: an order never has two live offers, concurrent accepts are exclusive in the
  offer, the rider and the order, and what an accept does to an order that was cancelled after it
  was offered.
\<close>

section \<open>Frames\<close>

lemma job_tables [simp]:
  "w_assignments (addDispatchAssignmentJob oid src dl c w) = w_assignments w"
  "w_assignments (addAssignmentExpiryJob aid d w) = w_assignments w"
  "w_partners (addAssignmentExpiryJob aid d w) = w_partners w"
  "w_orders (addAssignmentExpiryJob aid d w) = w_orders w"
  "w_branches (addAssignmentExpiryJob aid d w) = w_branches w"
  "w_restaurants (addAssignmentExpiryJob aid d w) = w_restaurants w"
  "w_online (addAssignmentExpiryJob aid d w) = w_online w"
  by (simp_all add: addDispatchAssignmentJob_def addAssignmentExpiryJob_def)

lemma create_assignments_snd:
  "w_assignments (snd (case createAssignmentForOrder uuid now oid did ex sts cycle v of
       (NotCreated reason, w1) \<Rightarrow> (f reason w1, w1) | (Created a, w1) \<Rightarrow> (g a w1, h a w1))) =
   w_assignments (snd (createAssignmentForOrder uuid now oid did ex sts cycle v))"
  if "\<And>a w1. w_assignments (h a w1) = w_assignments w1"
  using that by (simp split: prod.split createAssignmentResult.split)

lemma cells_audit [simp]:
  "riderCell (auditLog a b c d w) = riderCell w"
  "partnerStatusCell (auditLog a b c d w) = partnerStatusCell w"
  "assignmentCell (auditLog a b c d w) = assignmentCell w"
  by (simp_all add: riderCell_def[abs_def] partnerStatusCell_def[abs_def] assignmentCell_def[abs_def])

lemma one_live_offerI: "w_assignments w' = w_assignments v \<Longrightarrow> one_live_offer v \<Longrightarrow> one_live_offer w'"
  by (simp add: one_live_offer_def liveOffers_def)

section \<open>Every operation keeps one live offer\<close>

lemma assignOrder_keeps_one:
  assumes "one_live_offer w" and "one_live_offer (env w)"
  shows "one_live_offer (snd (assignOrder cfg uuid now env oid f w))"
proof -
  have offer: "one_live_offer (snd (offerTo cfg uuid now env ord c d w))" for ord c d
    unfolding offerTo_def
    by (rule one_live_offerI[OF create_assignments_snd create_keeps_one[OF assms(2)]]) simp
  have exhausted: "one_live_offer (snd (cycleExhausted cfg oid c w))" for c
    by (rule one_live_offerI[OF _ assms(1)]) (simp add: cycleExhausted_def)
  show ?thesis
    unfolding assignOrder_def Let_def using offer exhausted assms(1) by (simp split: option.split)
qed

lemma manual_keeps_one:
  assumes "one_live_offer w" and "one_live_offer (env w)"
  shows "one_live_offer (snd (assignOrderToPartner uuid now env oid did actor w))"
proof -
  have body: "one_live_offer (snd (case createAssignmentForOrder uuid now oid k ex sts c (env w) of
      (NotCreated reason, w1) \<Rightarrow> (Inl (Conflict reason), w1)
    | (Created a, w1) \<Rightarrow> (Inr a, addAssignmentExpiryJob (a_id a) None
          (auditLog (Some actor) ''DeliveryAssignment'' (a_id a) ''CREATE'' w1))))" for k ex sts c
    by (rule one_live_offerI[OF create_assignments_snd create_keeps_one[OF assms(2)]]) simp
  have wrap: "one_live_offer (snd (case p of (Inl e, w2) \<Rightarrow> (Inl e, auditLog x y z v w2) | (Inr a, w2) \<Rightarrow> (Inr a, w2)))"
    if "one_live_offer (snd p)" for p :: "(world, assignment) outcome" and x y z v
    using that by (cases p; cases "fst p") (auto intro: one_live_offerI)
  show ?thesis
  proof (cases "manualGuards oid did w")
    case (Inl e)
    then show ?thesis unfolding assignOrderToPartner_def by (intro wrap) (simp add: assms(1))
  next
    case (Inr p)
    then obtain ord d where "manualGuards oid did w = Inr (ord, d)" by (cases p) auto
    then show ?thesis unfolding assignOrderToPartner_def by (intro wrap) (simp only: sum.case prod.case body)
  qed
qed

lemma accept_op_keeps_one:
  assumes "one_live_offer w" and "one_live_offer (env w)"
  shows "one_live_offer (snd (acceptAssignment now env aid uid w))"
proof -
  have "one_live_offer (snd (case acceptAssignmentAtomic now aid did v k (env w) of
      (NotAccepted reason, w1) \<Rightarrow> (e reason, w1) | (Accepted, w1) \<Rightarrow> (r, auditLog x y z u w1)))"
    for did v k r x y z u and e :: "string \<Rightarrow> unit result"
    using accept_keeps_one[OF assms(2), of now aid did v k]
    by (auto split: prod.split acceptResult.split intro: one_live_offerI)
  then show ?thesis
    unfolding acceptAssignment_def using assms(1) by (auto split: option.split)
qed

lemma reject_op_keeps_one:
  assumes "one_live_offer w" and "one_live_offer (env w)"
  shows "one_live_offer (snd (rejectAssignment now env aid uid w))"
  unfolding rejectAssignment_def
  using assms claim_keeps_one[OF assms(2), of "[ASG_PENDING]" now aid ASG_REJECTED]
  by (auto split: option.split prod.split intro: one_live_offerI)

lemma expire_keeps_one:
  assumes "one_live_offer w" and "one_live_offer (env w)"
  shows "one_live_offer (expireAssignment now env aid w)"
  unfolding expireAssignment_def
  using assms claim_keeps_one[OF assms(2), of "[ASG_PENDING]" now aid ASG_EXPIRED]
  by (auto split: option.split prod.split intro: one_live_offerI)


section \<open>Properties\<close>

text \<open>Everything that writes offers, with \<open>env\<close> standing for any finite run of the same operations
  by other requests between the reads and the transaction of a call.\<close>

inductive dispatchStep :: "world \<Rightarrow> world \<Rightarrow> bool" where
  assign: "dispatchStep\<^sup>*\<^sup>* w (env w) \<Longrightarrow> dispatchStep w (snd (assignOrder cfg uuid now env oid f w))"
| manual: "dispatchStep\<^sup>*\<^sup>* w (env w) \<Longrightarrow> dispatchStep w (snd (assignOrderToPartner uuid now env oid did actor w))"
| accept: "dispatchStep\<^sup>*\<^sup>* w (env w) \<Longrightarrow> dispatchStep w (snd (acceptAssignment now env aid uid w))"
| reject: "dispatchStep\<^sup>*\<^sup>* w (env w) \<Longrightarrow> dispatchStep w (snd (rejectAssignment now env aid uid w))"
| expire: "dispatchStep\<^sup>*\<^sup>* w (env w) \<Longrightarrow> dispatchStep w (expireAssignment now env aid w)"
| release: "dispatchStep w (releasePartnerFromDelivery uid oid w)"
| other: "w_assignments w' = w_assignments w \<Longrightarrow> dispatchStep w w'"

lemma dispatchStep_keeps_one: "dispatchStep w w' \<Longrightarrow> one_live_offer w \<Longrightarrow> one_live_offer w'"
proof (induction rule: dispatchStep.induct)
  fix w :: world and env :: "world \<Rightarrow> world"
  assume run: "(\<lambda>x y. dispatchStep x y \<and> (one_live_offer x \<longrightarrow> one_live_offer y))\<^sup>*\<^sup>* w (env w)" and one: "one_live_offer w"
  have "one_live_offer (env w)" using run one by (induction rule: rtranclp_induct) auto
  note both = one this
  show "one_live_offer (snd (assignOrder cfg uuid now env oid f w))" for cfg uuid now oid f
    by (rule assignOrder_keeps_one[of w env, OF both])
  show "one_live_offer (snd (assignOrderToPartner uuid now env oid did actor w))" for uuid now oid did actor
    by (rule manual_keeps_one[of w env, OF both])
  show "one_live_offer (snd (acceptAssignment now env aid uid w))" for now aid uid
    by (rule accept_op_keeps_one[of w env, OF both])
  show "one_live_offer (snd (rejectAssignment now env aid uid w))" for now aid uid
    by (rule reject_op_keeps_one[of w env, OF both])
  show "one_live_offer (expireAssignment now env aid w)" for now aid
    by (rule expire_keeps_one[of w env, OF both])
qed (auto intro: release_keeps_one one_live_offerI)

text \<open>
  C10. An order never has two live offers: whatever sequence of automatic and manual assignments,
  accepts, rejections, expiries and releases runs, each of them interleaved with any others between
  its reads and its transaction, at most one offer of an order is PENDING or ACCEPTED.
\<close>
theorem dispatch_single_offer:
  assumes "dispatchStep\<^sup>*\<^sup>* w w'" and "w_assignments w = []"
  shows "liveOffers oid w' \<le> 1"
proof -
  have "one_live_offer w" using assms(2) by (simp add: one_live_offer_def liveOffers_def)
  with assms(1) have "one_live_offer w'"
    by (induction rule: rtranclp_induct) (auto intro: dispatchStep_keeps_one)
  then show ?thesis by (simp add: one_live_offer_def)
qed

text \<open>
  C11. Accepting is exclusive: however many accepts of whatever offers race, the ones that succeed
  are accepts of different offers, by different riders, of different orders, and each of them found
  its offer pending, its rider available and its order without a rider.
\<close>
theorem accept_exclusive:
  assumes "dispatchKeyed w"
  shows "distinct (map fst (accepted now rs w)) \<and> distinct (map (fst \<circ> snd) (accepted now rs w)) \<and>
    distinct (map (snd \<circ> snd \<circ> snd) (accepted now rs w)) \<and>
    (\<forall>(aid, did, uid, oid) \<in> set (accepted now rs w). acceptable aid did oid w)"
  using accepted_distinct[OF assms] accepted_were_acceptable[OF assms] by blast

lemma release_dispatch_tables [simp]:
  "w_assignments (snd (releaseForOrder oid w)) = w_assignments w"
  "w_partners (snd (releaseForOrder oid w)) = w_partners w"
  by (auto simp: releaseForOrder_def releaseRedemption_def split: option.split)

text \<open>What is left after the cancellation of an unpaid order that no rider had accepted.\<close>

lemma cancelled_offer_stays:
  assumes "findOrderById oid w = Some ord" and "o_status ord \<notin> set TERMINAL_ORDER_STATUSES"
    and "o_paymentStatus ord \<noteq> PAID" and "o_deliveryPartnerId ord = None"
  shows "let w1 = snd (adminCancelOrder now id rx oid reason actor w)
    in w_assignments w1 = w_assignments w \<and> w_partners w1 = w_partners w \<and>
       w_orders w1 = w_orders (updateOrderStatusRow now oid CANCELLED w) \<and>
       findOrderById oid w1 = Some (ord\<lparr>o_status := CANCELLED\<rparr>)"
proof -
  note eff = adminCancel_effect[OF assms(1,2)]
  let ?v = "cancelledWorld now ord reason w"
  have w1: "snd (adminCancelOrder now id rx oid reason actor w) = snd (releaseForOrder oid ?v)"
    using assms(3) eff by (simp add: handleCancellationSideEffects_def)
  have "w_assignments ?v = w_assignments w" "w_partners ?v = w_partners w"
    by (simp_all add: cancelledWorld_def assms(4) createStatusHistory_def updateOrderStatusRow_def updateOrderRow_def)
  then show ?thesis using eff(2,3) unfolding w1 by (simp add: findOrderById_def)
qed

text \<open>
  A cancelled order can still be accepted: cancelling an unpaid order that was offered but not
  yet accepted leaves the offer pending, and the rider's accept then succeeds.  The rider ends
  ON_DELIVERY for an order that is CANCELLED, and no transition of that order is left that would
  release them.
\<close>
theorem accept_cancelled_order:
  assumes "dispatchKeyed w" and "findOrderById oid w = Some ord" and "o_status ord = READY_FOR_PICKUP"
    and "o_paymentStatus ord \<noteq> PAID" and "o_deliveryPartnerId ord = None"
    and "findAssignmentById aid w = Some a" and "a_orderId a = oid" and "a_status a = ASG_PENDING"
    and "findPartnerByUserId uid w = Some d" and "lookup d_id (d_id d) (w_partners w) = Some d"
    and "a_partnerId a = d_id d" and "d_isVerified d" and "d_status d = AVAILABLE"
  shows "let w1 = snd (adminCancelOrder now id rx oid reason actor w)
    in \<exists>w2. acceptAssignment now id aid uid w1 = (Inr (), w2) \<and>
      map_option o_status (findOrderById oid w1) = Some CANCELLED \<and> w_history w2 = w_history w1 \<and>
      riderCell w2 oid = Some (Some uid) \<and> partnerStatusCell w2 (d_id d) = Some ON_DELIVERY \<and>
      ORDER_STATUS_TRANSITIONS CANCELLED = []"
proof -
  let ?w1 = "snd (adminCancelOrder now id rx oid reason actor w)"
  have nt: "o_status ord \<notin> set TERMINAL_ORDER_STATUSES" by (simp add: assms(3) TERMINAL_ORDER_STATUSES_def)
  note left = cancelled_offer_stays[OF assms(2) nt assms(4,5), of now rx reason actor, unfolded Let_def]
  have uid: "d_userId d = uid" using assms(9) by (auto simp: findPartnerByUserId_def dest: lookup_key)
  have k: "dispatchKeyed ?w1"
    using assms(1) left by (simp add: dispatchKeyed_def assignmentsKeyed_def partnersKeyed_def ordersKeyed_def
        updateOrderStatusRow_def updateOrderRow_def)
  have f: "findOrderById oid ?w1 = Some (ord\<lparr>o_status := CANCELLED\<rparr>)" using left by blast
  have "riderCell ?w1 oid = Some None" using f assms(5) by (simp add: riderCell_def findOrderById_def)
  then have "acceptable aid (d_id d) oid ?w1"
    using left assms(6-8,10,13) by (simp add: acceptable_def assignmentCell_def partnerStatusCell_def findAssignmentById_def)
  then obtain w2 where w2: "acceptAssignmentAtomic now aid (d_id d) uid oid ?w1 = (Accepted, w2)"
    "partnerStatusCell w2 = (partnerStatusCell ?w1)(d_id d \<mapsto> ON_DELIVERY)"
    "riderCell w2 = (riderCell ?w1)(oid \<mapsto> Some uid)"
    using accept_cases[OF k, of aid "d_id d" oid now uid] by auto
  have h: "w_history w2 = w_history ?w1"
    using w2(1) by (auto simp: acceptAssignmentAtomic_def claimAssignmentTransition_def claimPartnerStatus_def
        claimOrderPartner_def Let_def split: if_splits)
  let ?w2 = "auditLog (Some uid) ''DeliveryAssignment'' aid ''STATUS_CHANGE'' w2"
  have "acceptAssignment now id aid uid ?w1 = (Inr (), ?w2)"
    using left assms(6,7,9,11-13) w2(1) uid by (simp add: acceptAssignment_def findPartnerByUserId_def findAssignmentById_def)
  moreover have "riderCell ?w2 oid = Some (Some uid)" "partnerStatusCell ?w2 (d_id d) = Some ON_DELIVERY"
    using w2(2,3) by simp_all
  ultimately show ?thesis using f h by (simp add: Let_def)
qed

section \<open>Witnesses\<close>

definition idleRider :: partner where
  "idleRider = \<lparr>d_id = ''d1'', d_userId = ''u2'', d_status = AVAILABLE, d_isVerified = True,
     d_latitude = Some 0, d_longitude = Some 0\<rparr>"

definition pendingOffer :: assignment where
  "pendingOffer = \<lparr>a_id = ''a1'', a_orderId = ''o1'', a_partnerId = ''d1'', a_status = ASG_PENDING, a_cycle = 1,
     a_assignedAt = 0, a_respondedAt = None, a_expiresAt = Some 30000, a_arrivedAt = None\<rparr>"

definition readyOrder :: order where
  "readyOrder = sampleOrder\<lparr>o_status := READY_FOR_PICKUP, o_paymentMode := COD\<rparr>"

definition readyWorld :: world where
  "readyWorld = emptyWorld\<lparr>w_orders := [readyOrder], w_partners := [idleRider]\<rparr>"

definition offeredWorld :: world where
  "offeredWorld = readyWorld\<lparr>w_assignments := [pendingOffer]\<rparr>"

lemmas dispatch_rows = readyWorld_def offeredWorld_def pendingOffer_def readyOrder_def idleRider_def sampleOrder_def
  emptyWorld_def

lemma offeredWorld_keyed: "dispatchKeyed offeredWorld"
  by (simp add: dispatchKeyed_def assignmentsKeyed_def partnersKeyed_def ordersKeyed_def keyed_def dispatch_rows)

lemma manual_offer:
  "w_assignments (snd (assignOrderToPartner ''a1'' 0 id ''o1'' ''d1'' ''admin'' readyWorld)) =
     [pendingOffer\<lparr>a_expiresAt := Some 600000\<rparr>]"
  by (simp add: assignOrderToPartner_def manualGuards_def createAssignmentForOrder_def findOrderById_def
      findActiveAssignmentForOrder_def findActiveAssignmentForPartner_def findPartnerById_def
      TERMINAL_ORDER_STATUSES_def Let_def dispatch_rows)

lemma dispatch_single_offer_witness:
  "liveOffers ''o1'' (snd (assignOrderToPartner ''a1'' 0 id ''o1'' ''d1'' ''admin'' readyWorld)) \<le> 1 \<and>
   length (w_assignments (snd (assignOrderToPartner ''a1'' 0 id ''o1'' ''d1'' ''admin'' readyWorld))) = 1"
proof -
  have "dispatchStep readyWorld (snd (assignOrderToPartner ''a1'' 0 id ''o1'' ''d1'' ''admin'' readyWorld))"
    by (rule dispatchStep.manual) simp
  then show ?thesis
    using dispatch_single_offer[of readyWorld _ "''o1''"] manual_offer by (simp add: dispatch_rows r_into_rtranclp)
qed

lemma accept_exclusive_witness:
  "distinct (map fst (accepted 5 [(''a1'', ''d1'', ''u2'', ''o1''), (''a1'', ''d1'', ''u2'', ''o1'')] offeredWorld)) \<and>
   acceptable ''a1'' ''d1'' ''o1'' offeredWorld"
proof -
  have "acceptable ''a1'' ''d1'' ''o1'' offeredWorld"
    by (simp add: acceptable_def assignmentCell_def partnerStatusCell_def riderCell_def dispatch_rows)
  then show ?thesis
    using accept_exclusive[OF offeredWorld_keyed, of 5 "[(''a1'', ''d1'', ''u2'', ''o1''), (''a1'', ''d1'', ''u2'', ''o1'')]"]
    by blast
qed

lemma accept_cancelled_order_witness:
  "\<exists>w1 w2. w1 = snd (adminCancelOrder 5 id quietCtx ''o1'' None ''admin'' offeredWorld) \<and>
     acceptAssignment 5 id ''a1'' ''u2'' w1 = (Inr (), w2) \<and>
     map_option o_status (findOrderById ''o1'' w1) = Some CANCELLED \<and>
     partnerStatusCell w2 ''d1'' = Some ON_DELIVERY"
proof -
  have "let w1 = snd (adminCancelOrder 5 id quietCtx ''o1'' None ''admin'' offeredWorld)
    in \<exists>w2. acceptAssignment 5 id ''a1'' ''u2'' w1 = (Inr (), w2) \<and>
      map_option o_status (findOrderById ''o1'' w1) = Some CANCELLED \<and> w_history w2 = w_history w1 \<and>
      riderCell w2 ''o1'' = Some (Some ''u2'') \<and> partnerStatusCell w2 (d_id idleRider) = Some ON_DELIVERY \<and>
      ORDER_STATUS_TRANSITIONS CANCELLED = []"
    by (rule accept_cancelled_order[OF offeredWorld_keyed, where ord = readyOrder and a = pendingOffer])
      (simp_all add: findOrderById_def findAssignmentById_def findPartnerByUserId_def dispatch_rows)
  then show ?thesis by (auto simp: Let_def idleRider_def)
qed

end
