(* ===== verification/DispatchFairness.thy ===== *)
theory DispatchFairness
  imports DispatchSafety
begin

text \<open>
  Which rider dispatch picks, and that a cycle of offers reaches every rider it may reach: the
  ranking is a sort by one key, independent of the order in which the database returns the rows;
  a cycle offers the order to each eligible rider in range exactly once; the chain of retries ends.
\<close>

section \<open>The ranking as a sort by one key\<close>

text \<open>The reference: the time of the last offer (never first), then the distance (unknown last),
  then the id.  It does not mention the current time.\<close>

definition distanceKey :: "location option \<Rightarrow> partner \<Rightarrow> bool \<times> real" where
  "distanceKey loc d =
     (case (loc, partnerLocation d) of (Some p, Some q) \<Rightarrow> (False, distanceMeters p q) | _ \<Rightarrow> (True, 0))"

definition rankKey :: "location option \<Rightarrow> (string \<Rightarrow> int option) \<Rightarrow> partner \<Rightarrow> int option \<times> (bool \<times> real) \<times> nat list" where
  "rankKey loc lastActivity d = (lastActivity (d_id d), distanceKey loc d, codeUnits (d_id d))"

lemma codeUnits_inj [simp]: "codeUnits s = codeUnits t \<longleftrightarrow> s = t"
  unfolding codeUnits_def by (rule inj_map_eq_map) (simp add: inj_def)

lemma rankedBefore_key:
  "rankedBefore (scorePartner loc la now p) (scorePartner loc la now q) \<longleftrightarrow> rankKey loc la p \<le> rankKey loc la q"
  unfolding rankedBefore_def scorePartner_def rankKey_def distanceKey_def less_eq_prod_def less_prod_def
  by (cases loc; cases "partnerLocation p"; cases "partnerLocation q"; cases "la (d_id p)"; cases "la (d_id q)") auto

lemma insertBy_key: "insertBy rankedBefore (scorePartner loc la now p) (map (scorePartner loc la now) ps)
    = map (scorePartner loc la now) (insort_key (rankKey loc la) p ps)"
  by (induction ps) (simp_all add: rankedBefore_key)

lemma sortBy_key: "sortBy rankedBefore (map (scorePartner loc la now) ps)
    = map (scorePartner loc la now) (sort_key (rankKey loc la) ps)"
proof -
  have "foldr (insertBy rankedBefore) (map (scorePartner loc la now) ps) []
      = map (scorePartner loc la now) (foldr (insort_key (rankKey loc la)) ps [])"
    by (induction ps) (simp_all add: insertBy_key)
  then show ?thesis by (simp add: sortBy_def sort_key_def)
qed

lemma hd_rotate: "0 < n \<Longrightarrow> n < length xs \<Longrightarrow> hd (drop n xs @ take n xs) = xs ! n"
  by (simp add: hd_append hd_drop_conv_nth)

lemma select_nth:
  assumes "ps \<noteq> []"
  shows "selectPartnerByPriority loc ps la now cycle
    = Some (sort_key (rankKey loc la) ps ! ((cycle - 1) mod length ps))"
proof (cases "length ps = 1")
  case True
  then obtain d where "ps = [d]" by (auto simp: length_Suc_conv)
  then show ?thesis by (simp add: selectPartnerByPriority_def)
next
  case False
  let ?n = "(cycle - 1) mod length ps" and ?S = "sort_key (rankKey loc la) ps"
  have n: "?n < length ps" using assms by simp
  have ne: "?S \<noteq> []" using assms by (metis length_0_conv length_sort)
  have "ps = hd ps # hd (tl ps) # tl (tl ps)" using assms False by (cases ps; cases "tl ps") auto
  then obtain d e rest where ps: "ps = d # e # rest" by blast
  have "selectPartnerByPriority loc ps la now cycle =
      (let scores = sortBy rankedBefore (map (scorePartner loc la now) ps); offset = (cycle - 1) mod length scores
       in if offset > 0 then Some (sc_partner (hd (drop offset scores @ take offset scores)))
          else Some (sc_partner (hd scores)))"
    by (simp only: ps selectPartnerByPriority_def list.case)
  also have "\<dots> = (if 0 < ?n then Some (sc_partner (hd (drop ?n (map (scorePartner loc la now) ?S) @ take ?n (map (scorePartner loc la now) ?S))))
       else Some (sc_partner (hd (map (scorePartner loc la now) ?S))))"
    by (simp only: sortBy_key Let_def length_map length_sort)
  also have "\<dots> = Some (sc_partner (map (scorePartner loc la now) ?S ! ?n))"
    using n ne hd_rotate[of ?n "map (scorePartner loc la now) ?S"] by (auto simp: hd_conv_nth hd_map)
  finally show ?thesis using n by (simp add: scorePartner_def)
qed

lemma select_member: "selectPartnerByPriority loc ps la now cycle = Some d \<Longrightarrow> d \<in> set ps"
proof -
  assume a: "selectPartnerByPriority loc ps la now cycle = Some d"
  then have "ps \<noteq> []" by (auto simp: selectPartnerByPriority_def)
  moreover have "sort_key f ps ! ((cycle - 1) mod length ps) \<in> set ps" if "ps \<noteq> []" for f :: "partner \<Rightarrow> 'k::linorder"
    using that nth_mem[of "(cycle - 1) mod length ps" "sort_key f ps"] by simp
  ultimately show ?thesis using a by (auto simp: select_nth)
qed

lemma select_None_iff: "selectPartnerByPriority loc ps la now cycle = None \<longleftrightarrow> ps = []"
  by (cases "ps = []") (auto simp: select_nth, simp add: selectPartnerByPriority_def)

text \<open>
  The choice of the rider is deterministic: the hand-written comparator, stable sort and
  rotation pick the element at position \<open>(cycle - 1) mod n\<close> of the candidates sorted by their last
  offer (never offered first), then distance, then id.  In particular the choice does not depend on
  the order in which the database returns the candidates, nor on the current time.
\<close>
theorem select_partner_reference:
  assumes "ps \<noteq> []" and "distinct (map d_id ps)" and "mset ps = mset qs"
  shows "selectPartnerByPriority loc ps la now cycle
    = Some (sort_key (rankKey loc la) qs ! ((cycle - 1) mod length qs))"
proof -
  have "inj_on (rankKey loc la) (set ps)"
    using assms(2) by (auto simp: inj_on_def rankKey_def distinct_map)
  then have "sort_key (rankKey loc la) ps = sort_key (rankKey loc la) qs"
    using assms(3) by (intro sort_key_inj_key_eq) simp_all
  moreover have "length ps = length qs" using assms(3) by (rule mset_eq_length)
  ultimately show ?thesis by (simp add: select_nth[OF assms(1)])
qed

lemma select_partner_reference_witness:
  "selectPartnerByPriority None [idleRider\<lparr>d_id := ''d2''\<rparr>, idleRider] (\<lambda>_. None) 7 1 = Some idleRider"
proof -
  have "selectPartnerByPriority None [idleRider\<lparr>d_id := ''d2''\<rparr>, idleRider] (\<lambda>_. None) 7 1 =
      Some (sort_key (rankKey None (\<lambda>_. None)) [idleRider, idleRider\<lparr>d_id := ''d2''\<rparr>] ! ((1 - 1) mod length [idleRider, idleRider\<lparr>d_id := ''d2''\<rparr>]))"
    by (rule select_partner_reference) (simp_all add: idleRider_def)
  then show ?thesis by (simp add: rankKey_def distanceKey_def codeUnits_def idleRider_def)
qed

section \<open>Widening the radius\<close>

definition inRange :: "dispatchCfg \<Rightarrow> location option \<Rightarrow> partner \<Rightarrow> bool" where
  "inRange cfg loc d \<longleftrightarrow> list_ex (\<lambda>tier. withinRadius loc tier d) (effectiveRadiusTiers cfg)"

lemma widen_subset: "d \<in> set (widenRadius loc tiers ps) \<Longrightarrow> d \<in> set ps \<and> list_ex (\<lambda>t. withinRadius loc t d) tiers"
  by (induction tiers) (auto simp: Let_def split: if_splits)

lemma widen_empty: "widenRadius loc tiers ps = [] \<longleftrightarrow> filter (\<lambda>d. list_ex (\<lambda>t. withinRadius loc t d) tiers) ps = []"
  by (induction tiers) (auto simp: Let_def filter_empty_conv)

text \<open>The riders an order can still be offered to in a cycle.\<close>

definition remainingRiders :: "dispatchCfg \<Rightarrow> order \<Rightarrow> nat \<Rightarrow> world \<Rightarrow> partner list" where
  "remainingRiders cfg ord cycle w =
     filter (inRange cfg (resolveBranchCoordinates w ord)) (radiusEligibleCandidates (o_id ord) cycle w)"

lemma assign_choice:
  assumes "findOrderById oid w = Some ord" and "dispatchStop cfg now w ord = None"
    and "c = currentCycle (findAssignmentsForOrder oid w) f"
  shows "if remainingRiders cfg ord c w = [] then assignOrder cfg uuid now env oid f w = cycleExhausted cfg oid c w
    else (\<exists>d \<in> set (remainingRiders cfg ord c w). assignOrder cfg uuid now env oid f w = offerTo cfg uuid now env ord c d w)"
proof -
  let ?loc = "resolveBranchCoordinates w ord" and ?T = "effectiveRadiusTiers cfg"
  let ?ps = "widenRadius ?loc ?T (radiusEligibleCandidates oid c w)"
  have oid: "o_id ord = oid" using assms(1) by (auto simp: findOrderById_def dest: lookup_key)
  have R: "remainingRiders cfg ord c w = filter (\<lambda>d. list_ex (\<lambda>t. withinRadius ?loc t d) ?T) (radiusEligibleCandidates oid c w)"
    by (simp add: remainingRiders_def inRange_def[abs_def] oid)
  have eq: "assignOrder cfg uuid now env oid f w =
      (case selectPartnerByPriority ?loc ?ps (lastAssignmentActivity w) now c of
         None \<Rightarrow> cycleExhausted cfg oid c w | Some d \<Rightarrow> offerTo cfg uuid now env ord c d w)"
    by (simp only: assignOrder_def assms(1,2) option.case Let_def assms(3)[symmetric])
  show ?thesis
  proof (cases "?ps = []")
    case True
    then show ?thesis using eq by (simp add: R widen_empty select_None_iff[THEN iffD2, OF True])
  next
    case False
    then obtain d where d: "selectPartnerByPriority ?loc ?ps (lastAssignmentActivity w) now c = Some d"
      using select_None_iff[of ?loc ?ps "lastAssignmentActivity w" now c] by auto
    then have "d \<in> set (remainingRiders cfg ord c w)"
      using widen_subset[OF select_member[OF d]] by (simp add: R)
    moreover have "assignOrder cfg uuid now env oid f w = offerTo cfg uuid now env ord c d w" using eq d by simp
    ultimately show ?thesis by auto
  qed
qed

section \<open>A cycle of unanswered offers\<close>

text \<open>One attempt whose offer nobody answers: the expiry job fires, and its event triggers the next
  attempt, which carries no cycle of its own.\<close>

definition offerRound ::
  "dispatchCfg \<Rightarrow> string \<Rightarrow> int \<Rightarrow> string \<Rightarrow> nat option \<Rightarrow> world \<Rightarrow> string option \<times> world" where
  "offerRound cfg uuid now oid f w =
     (case assignOrder cfg uuid now id oid f w of
        (Inr (Some a), w1) \<Rightarrow>
          (Some (a_partnerId a), expireAssignment (now + dc_timeoutSeconds cfg * 1000) id (a_id a) w1)
      | (_, w1) \<Rightarrow> (None, w1))"

fun offerRounds ::
  "dispatchCfg \<Rightarrow> (string \<times> int) list \<Rightarrow> string \<Rightarrow> nat option \<Rightarrow> world \<Rightarrow> string option list \<times> world" where
  "offerRounds cfg [] oid f w = ([], w)"
| "offerRounds cfg ((uuid, now) # rs) oid f w =
     (let (out, w1) = offerRound cfg uuid now oid f w; (outs, w2) = offerRounds cfg rs oid None w1
      in (out # outs, w2))"

text \<open>What such a round changes: one expired row.\<close>

definition sameSupply :: "world \<Rightarrow> world \<Rightarrow> bool" where
  "sameSupply w w' \<longleftrightarrow> w_partners w' = w_partners w \<and> w_online w' = w_online w \<and> w_branches w' = w_branches w \<and>
     w_restaurants w' = w_restaurants w \<and> w_orders w' = w_orders w"

lemma stop_None:
  assumes "dispatchStop cfg now w ord = None"
  shows "\<not> truthy (o_deliveryPartnerId ord) \<and> o_status ord = READY_FOR_PICKUP \<and>
    findActiveAssignmentForOrder (o_id ord) w = None"
  using assms by (auto simp: dispatchStop_def DISPATCHABLE_ORDER_STATUSES_def split: if_splits option.splits bool.splits)

lemma expire_new:
  assumes "uuid \<notin> a_id ` set rows" and "w_assignments w = rows @ [a]" and "a_id a = uuid" and "a_status a = ASG_PENDING"
  shows "w_assignments (expireAssignment t id uuid w) = rows @ [a\<lparr>a_status := ASG_EXPIRED, a_respondedAt := Some t\<rparr>] \<and>
    sameSupply w (expireAssignment t id uuid w)"
proof -
  have found: "findAssignmentById uuid w = Some a"
    using assms by (simp add: findAssignmentById_def lookup_snoc_fresh)
  have old: "modify (\<lambda>a. a_id a = uuid \<and> a_status a \<in> set [ASG_PENDING]) f rows = rows" for f
    using assms(1) by (intro modify_none) (auto dest: fresh_neq)
  have "w_assignments (snd (claimAssignmentTransition t uuid [ASG_PENDING] ASG_EXPIRED w)) =
      rows @ [a\<lparr>a_status := ASG_EXPIRED, a_respondedAt := Some t\<rparr>]"
    using assms(2-4) old by (simp add: claimAssignmentTransition_def Let_def)
  then show ?thesis
    by (auto simp: expireAssignment_def found sameSupply_def claimAssignmentTransition_def Let_def)
qed

lemma round_effect:
  assumes "findOrderById oid w = Some ord" and "dispatchStop cfg now w ord = None"
    and "uuid \<notin> a_id ` set (w_assignments w)"
    and c: "c = currentCycle (findAssignmentsForOrder oid w) f" and "remainingRiders cfg ord c w \<noteq> []"
  shows "\<exists>d a w1. offerRound cfg uuid now oid f w = (Some (d_id d), w1) \<and> d \<in> set (remainingRiders cfg ord c w) \<and>
    w_assignments w1 = w_assignments w @ [a] \<and> a_id a = uuid \<and> a_orderId a = oid \<and> a_partnerId a = d_id d \<and>
    a_cycle a = c \<and> a_status a = ASG_EXPIRED \<and> sameSupply w w1"
proof -
  obtain d where d: "d \<in> set (remainingRiders cfg ord c w)"
    "assignOrder cfg uuid now id oid f w = offerTo cfg uuid now id ord c d w"
    using assign_choice[OF assms(1,2) c, of uuid id] assms(5) by auto
  have oid: "o_id ord = oid" using assms(1) by (auto simp: findOrderById_def dest: lookup_key)
  note open' = stop_None[OF assms(2), unfolded oid]
  define a where "a = \<lparr>a_id = uuid, a_orderId = oid, a_partnerId = d_id d, a_status = ASG_PENDING, a_cycle = c,
      a_assignedAt = now, a_respondedAt = None, a_expiresAt = Some (now + dc_timeoutSeconds cfg * 1000), a_arrivedAt = None\<rparr>"
  have "createAssignmentForOrder uuid now oid (d_id d) (now + dc_timeoutSeconds cfg * 1000) DISPATCHABLE_ORDER_STATUSES c w
      = (Created a, w\<lparr>w_assignments := w_assignments w @ [a]\<rparr>)"
    using assms(1) open' by (simp add: createAssignmentForOrder_def DISPATCHABLE_ORDER_STATUSES_def a_def Let_def)
  then obtain v where v: "assignOrder cfg uuid now id oid f w = (Inr (Some a), v)"
    "w_assignments v = w_assignments w @ [a]" "sameSupply w v"
    using d(2) by (simp add: offerTo_def oid sameSupply_def)
  let ?t = "now + dc_timeoutSeconds cfg * 1000"
  have "a_id a = uuid" "a_status a = ASG_PENDING" by (simp_all add: a_def)
  note ex = expire_new[OF assms(3) v(2) this, of ?t]
  have "sameSupply w (expireAssignment ?t id uuid v)" using ex v(3) by (simp add: sameSupply_def)
  then show ?thesis
    using d(1) ex v(1) by (auto simp: offerRound_def a_def)
qed

text \<open>How the next attempt sees the world after an unanswered offer.\<close>

lemma expired_not_active: "a_status a = ASG_EXPIRED \<Longrightarrow> \<not> isActive a"
  by (simp add: isActive_def)

lemma find_snoc_other: "\<not> p x \<Longrightarrow> List.find p (xs @ [x]) = List.find p xs"
  by (induction xs) auto

lemma stop_after:
  assumes "sameSupply w w1" and "w_assignments w1 = w_assignments w @ [a]" and "a_status a = ASG_EXPIRED"
  shows "dispatchStop cfg now w1 ord = dispatchStop cfg now w ord"
proof -
  have "findActiveAssignmentForOrder k w1 = findActiveAssignmentForOrder k w" for k
    using expired_not_active[OF assms(3)] by (simp add: findActiveAssignmentForOrder_def assms(2) find_snoc_other)
  moreover have "orderBranch w1 ord = orderBranch w ord" "w_restaurants w1 = w_restaurants w"
    using assms(1) by (simp_all add: sameSupply_def orderBranch_def split: option.split)
  ultimately show ?thesis by (simp only: dispatchStop_def)
qed

lemma derived_le: "a \<in> set rows \<Longrightarrow> a_cycle a \<le> derivedCycle rows"
  by (cases rows) (auto simp: derivedCycle_def)

lemma derived_snoc: "derivedCycle rows \<le> a_cycle a \<Longrightarrow> derivedCycle (rows @ [a]) = a_cycle a"
proof -
  assume le: "derivedCycle rows \<le> a_cycle a"
  have "Max (set (map a_cycle (rows @ [a]))) = a_cycle a"
    using le derived_le order_trans by (intro Max_eqI) fastforce+
  then show ?thesis by (cases rows) (simp_all add: derivedCycle_def)
qed

lemma cycle_after:
  assumes "w_assignments w1 = w_assignments w @ [a]" and "a_orderId a = oid"
    and "a_cycle a = currentCycle (findAssignmentsForOrder oid w) f"
  shows "currentCycle (findAssignmentsForOrder oid w1) None = currentCycle (findAssignmentsForOrder oid w) f"
proof -
  have "derivedCycle (findAssignmentsForOrder oid w) \<le> a_cycle a"
    unfolding assms(3) by (simp add: currentCycle_def split: option.split)
  then show ?thesis using assms by (simp add: currentCycle_def findAssignmentsForOrder_def derived_snoc)
qed

lemma remaining_after:
  assumes "sameSupply w w1" and "w_assignments w1 = w_assignments w @ [a]" and "a_orderId a = o_id ord"
    and "a_status a = ASG_EXPIRED" and "a_cycle a = c"
  shows "remainingRiders cfg ord c w1 = filter (\<lambda>d. d_id d \<noteq> a_partnerId a) (remainingRiders cfg ord c w)"
proof -
  have sup: "findAvailablePartners w1 = findAvailablePartners w" "w_online w1 = w_online w"
    "resolveBranchCoordinates w1 ord = resolveBranchCoordinates w ord"
    using assms(1) by (simp_all add: sameSupply_def findAvailablePartners_def resolveBranchCoordinates_def
        orderBranch_def primaryBranch_def split: option.split)
  have busy: "findPartnerIdsWithActiveAssignment ids w1 = findPartnerIdsWithActiveAssignment ids w" for ids
    using expired_not_active[OF assms(4)] by (simp add: findPartnerIdsWithActiveAssignment_def assms(2))
  have tried: "attemptedPartnerIds (findAssignmentsForOrder (o_id ord) w1) c
      = attemptedPartnerIds (findAssignmentsForOrder (o_id ord) w) c @ [a_partnerId a]"
    by (simp add: attemptedPartnerIds_def findAssignmentsForOrder_def assms)
  show ?thesis
    unfolding remainingRiders_def radiusEligibleCandidates_def Let_def sup busy tried filter_filter
    by (rule filter_cong) auto
qed

lemma mset_remove_id:
  "distinct (map d_id ds) \<Longrightarrow> d \<in> set ds \<Longrightarrow> mset ds = add_mset d (mset (filter (\<lambda>x. d_id x \<noteq> d_id d) ds))"
proof (induction ds)
  case (Cons e ds)
  show ?case
  proof (cases "e = d")
    case True
    then have "filter (\<lambda>x. d_id x \<noteq> d_id d) ds = ds" using Cons.prems(1) by (auto simp: filter_id_conv intro: rev_image_eqI)
    then show ?thesis using True by simp
  next
    case False
    then have "d \<in> set ds" "d_id e \<noteq> d_id d" using Cons.prems by auto
    then show ?thesis using Cons by simp
  qed
qed simp

lemma remaining_distinct: "partnersKeyed w \<Longrightarrow> distinct (map d_id (remainingRiders cfg ord c w))"
  by (simp add: remainingRiders_def radiusEligibleCandidates_def findAvailablePartners_def partnersKeyed_def
      keyed_def Let_def distinct_map_filter)

lemma rounds_cover:
  assumes "findOrderById oid w = Some ord" and "partnersKeyed w"
    and "\<forall>(uuid, now) \<in> set rs. dispatchStop cfg now w ord = None"
    and "distinct (map fst rs)" and "fst ` set rs \<inter> a_id ` set (w_assignments w) = {}"
    and "c = currentCycle (findAssignmentsForOrder oid w) f" and "length rs = length (remainingRiders cfg ord c w)"
  shows "mset (fst (offerRounds cfg rs oid f w)) = mset (map (\<lambda>d. Some (d_id d)) (remainingRiders cfg ord c w)) \<and>
    remainingRiders cfg ord c (snd (offerRounds cfg rs oid f w)) = []"
  using assms
proof (induction rs arbitrary: f w)
  case (Cons r rs)
  obtain uuid now where r: "r = (uuid, now)" by (cases r) auto
  have oid: "o_id ord = oid" using Cons.prems(1) by (auto simp: findOrderById_def dest: lookup_key)
  have "remainingRiders cfg ord c w \<noteq> []" using Cons.prems(7) by auto
  moreover have "dispatchStop cfg now w ord = None" "uuid \<notin> a_id ` set (w_assignments w)"
    using Cons.prems(3,5) r by auto
  ultimately obtain d a w1 where 1: "offerRound cfg uuid now oid f w = (Some (d_id d), w1)"
    "d \<in> set (remainingRiders cfg ord c w)" "w_assignments w1 = w_assignments w @ [a]" "a_id a = uuid"
    "a_orderId a = oid" "a_partnerId a = d_id d" "a_cycle a = c" "a_status a = ASG_EXPIRED" "sameSupply w w1"
    using round_effect[OF Cons.prems(1) _ _ Cons.prems(6)] by blast
  let ?R = "remainingRiders cfg ord c w"
  have R1: "remainingRiders cfg ord c w1 = filter (\<lambda>x. d_id x \<noteq> d_id d) ?R"
    using remaining_after[OF 1(9,3) _ 1(8,7), of ord cfg] 1(5,6) oid by simp
  have m: "mset ?R = add_mset d (mset (remainingRiders cfg ord c w1))"
    using mset_remove_id[OF remaining_distinct[OF Cons.prems(2)] 1(2)] R1 by simp
  have len: "length rs = length (remainingRiders cfg ord c w1)"
    using Cons.prems(7) arg_cong[OF m, of size] by simp
  have "mset (fst (offerRounds cfg rs oid None w1)) = mset (map (\<lambda>d. Some (d_id d)) (remainingRiders cfg ord c w1)) \<and>
    remainingRiders cfg ord c (snd (offerRounds cfg rs oid None w1)) = []"
  proof (rule Cons.IH)
    show "findOrderById oid w1 = Some ord" "partnersKeyed w1"
      using Cons.prems(1,2) 1(9) by (simp_all add: sameSupply_def findOrderById_def partnersKeyed_def)
    show "\<forall>(uuid, now) \<in> set rs. dispatchStop cfg now w1 ord = None"
      using Cons.prems(3) stop_after[OF 1(9,3,8), of cfg _ ord] by auto
    show "distinct (map fst rs)" using Cons.prems(4) by simp
    show "fst ` set rs \<inter> a_id ` set (w_assignments w1) = {}"
      using Cons.prems(4,5) r 1(3,4) by auto
    show "c = currentCycle (findAssignmentsForOrder oid w1) None"
      using cycle_after[OF 1(3,5), of f] 1(7) Cons.prems(6) by simp
  qed (rule len)
  then show ?case using 1(1) m by (simp add: r split_beta)
qed simp

text \<open>
  C12. A dispatch cycle reaches everyone: while an order stays dispatchable, as many unanswered
  offers in a row as there are riders it may still be offered to (available, verified, online, not
  tied up, not yet tried in this cycle and within the widest radius) go to exactly those riders, each
  of them once, and then nobody is left in the cycle.
\<close>
theorem cycle_offers_everyone:
  assumes "findOrderById oid w = Some ord" and "partnersKeyed w"
    and "\<forall>(uuid, now) \<in> set rs. dispatchStop cfg now w ord = None"
    and "distinct (map fst rs)" and "fst ` set rs \<inter> a_id ` set (w_assignments w) = {}"
    and "c = currentCycle (findAssignmentsForOrder oid w) f" and "length rs = length (remainingRiders cfg ord c w)"
  shows "mset (fst (offerRounds cfg rs oid f w)) = mset (map (\<lambda>d. Some (d_id d)) (remainingRiders cfg ord c w)) \<and>
    remainingRiders cfg ord c (snd (offerRounds cfg rs oid f w)) = []"
  using assms by (rule rounds_cover)

section \<open>The chain of retries\<close>

text \<open>The queue gives every job \<^verbatim>\<open>attempts: 3\<close> (\<^verbatim>\<open>DEFAULT_JOB_OPTIONS\<close>): a run that throws is repeated
  until one returns or the attempts are used up.  An attempt has its own id, clock and environment:
  \<open>at_before\<close> is what happens before it starts (backoff included), \<open>at_env\<close> what happens during it.\<close>

definition JOB_ATTEMPTS :: nat where "JOB_ATTEMPTS = 3"

record attempt =
  at_uuid :: string
  at_now :: int
  at_before :: "world \<Rightarrow> world"
  at_env :: "world \<Rightarrow> world"

fun runAttempts :: "dispatchCfg \<Rightarrow> job \<Rightarrow> attempt list \<Rightarrow> world \<Rightarrow> (world, unit) outcome" where
  "runAttempts cfg j [] w = (Inl (Unavailable ''attempts''), w)"
| "runAttempts cfg j (a # as) w =
     (case processDispatchJob cfg (at_uuid a) (at_now a) (at_env a) j (at_before a w) of
        (Inr _, w1) \<Rightarrow> (Inr (), w1)
      | (Inl e, w1) \<Rightarrow> if as = [] then (Inl e, w1) else runAttempts cfg j as w1)"

definition runQueuedJob :: "dispatchCfg \<Rightarrow> job \<Rightarrow> attempt list \<Rightarrow> world \<Rightarrow> (world, unit) outcome" where
  "runQueuedJob cfg j as w = runAttempts cfg j (take JOB_ATTEMPTS as) w"

text \<open>The retry jobs ever enqueued for an order: those the exhausted cycle of \<^verbatim>\<open>assignOrder\<close> adds.\<close>

definition retriesOf :: "string \<Rightarrow> world \<Rightarrow> job list" where
  "retriesOf oid w = filter (\<lambda>j. case j of DispatchAssignment i source delay c \<Rightarrow>
     i = oid \<and> source = ''dispatch.cycle.retry'' | _ \<Rightarrow> False) (w_jobs w)"

fun jobCycle :: "job \<Rightarrow> nat option" where
  "jobCycle (DispatchAssignment i source delay c) = c"
| "jobCycle _ = None"

text \<open>A job with all its attempts, then the retry it has enqueued if any, and so on: how many jobs ran
  and the result of the last.  Each job takes its attempts from the list; \<^term>\<open>None\<close> says that the list
  ended before the chain.\<close>

fun retryChain ::
  "dispatchCfg \<Rightarrow> string \<Rightarrow> job \<Rightarrow> attempt list list \<Rightarrow> world \<Rightarrow> (nat \<times> unit result) option" where
  "retryChain cfg oid j [] w = None"
| "retryChain cfg oid j (as # js) w =
     (case runQueuedJob cfg j as w of (r, w1) \<Rightarrow>
        (case drop (length (retriesOf oid w)) (retriesOf oid w1) of
           [] \<Rightarrow> Some (1, r)
         | k # _ \<Rightarrow> map_option (\<lambda>(n, r'). (Suc n, r')) (retryChain cfg oid k js w1)))"

text \<open>What happens beside the chain enqueues no retry of this order: only a run of one of its dispatch
  jobs does that, so this leaves out a second chain of the same order running at the same time.\<close>

definition quietAttempt :: "string \<Rightarrow> attempt \<Rightarrow> bool" where
  "quietAttempt oid a \<longleftrightarrow> (\<forall>w. retriesOf oid (at_before a w) = retriesOf oid w) \<and>
     (\<forall>w. retriesOf oid (at_env a w) = retriesOf oid w)"

lemma exhausted_result:
  "cycleExhausted cfg oid c w =
     (if findAvailablePartners w \<noteq> [] \<and> belowMaxCycles cfg c
      then (Inr None, w\<lparr>w_jobs := w_jobs w @ [DispatchAssignment oid ''dispatch.cycle.retry''
              (if dc_retrySeconds cfg * 1000 = 0 then None else Some (dc_retrySeconds cfg * 1000)) (Some (c + 1))]\<rparr>)
      else (Inl (NotFound ''No delivery partners available''), w))"
  by (simp add: cycleExhausted_def addDispatchAssignmentJob_def enqueue_def)

lemma retries_enqueue:
  "retriesOf oid (enqueue j w) = retriesOf oid w @
     (case j of DispatchAssignment i source delay c \<Rightarrow>
        if i = oid \<and> source = ''dispatch.cycle.retry'' then [j] else [] | _ \<Rightarrow> [])"
  by (auto simp: retriesOf_def enqueue_def split: job.split)

lemma retries_cong: "w_jobs w = w_jobs w' \<Longrightarrow> retriesOf oid w = retriesOf oid w'"
  by (simp add: retriesOf_def)

text \<open>An offer enqueues no retry; an exhausted cycle enqueues one, of the next cycle, and returns.\<close>

lemma offer_retries:
  assumes "\<forall>w. retriesOf oid (env w) = retriesOf oid w"
  shows "retriesOf oid (snd (offerTo cfg uuid now env ord c d w)) = retriesOf oid w"
proof -
  have "w_jobs (snd (createAssignmentForOrder u n i did ex st cy v)) = w_jobs v" for u n i did ex st cy v
    by (simp add: createAssignmentForOrder_def Let_def split: option.split)
  then have "retriesOf oid (snd (createAssignmentForOrder u n i did ex st cy (env w))) = retriesOf oid w" for u n i did ex st cy
    using assms retries_cong by metis
  then have k: "createAssignmentForOrder u n i did ex st cy (env w) = (r, w1) \<Longrightarrow> retriesOf oid w1 = retriesOf oid w"
    for u n i did ex st cy r w1 by (metis snd_conv)
  have logs: "retriesOf oid (publish e (addAssignmentExpiryJob i dl (auditLog a en k ac w1))) = retriesOf oid w1" for e i dl a en k ac w1
  proof -
    have "retriesOf oid (publish e v) = retriesOf oid v" "retriesOf oid (auditLog a en k ac v) = retriesOf oid v" for v
      by (rule retries_cong; simp)+
    then show ?thesis by (simp add: addAssignmentExpiryJob_def retries_enqueue)
  qed
  show ?thesis
    by (auto simp: offerTo_def logs split: prod.split createAssignmentResult.split dest: k)
qed

lemma assign_retries:
  assumes "\<forall>w. retriesOf oid (env w) = retriesOf oid w" and "dc_maxCyclesConfigured cfg \<noteq> 0"
    and run: "assignOrder cfg uuid now env oid f w = (r, w1)"
  shows "retriesOf oid w1 = retriesOf oid w \<or>
    r = Inr None \<and> (\<exists>delay c. retriesOf oid w1 = retriesOf oid w @ [DispatchAssignment oid ''dispatch.cycle.retry'' delay (Some c)] \<and>
      c \<le> dc_maxCyclesConfigured cfg \<and> 0 < c \<and> (\<forall>k. f = Some k \<longrightarrow> k < c))"
proof (cases "findOrderById oid w")
  case (Some ord)
  show ?thesis
  proof (cases "dispatchStop cfg now w ord")
    case None
    define c where "c = currentCycle (findAssignmentsForOrder oid w) f"
    have f: "k \<le> c" if "f = Some k" for k using that by (simp add: c_def currentCycle_def)
    from assign_choice[OF Some None c_def, of uuid env]
    consider (exhausted) "assignOrder cfg uuid now env oid f w = cycleExhausted cfg oid c w"
      | (offer) d where "assignOrder cfg uuid now env oid f w = offerTo cfg uuid now env ord c d w"
      by (auto split: if_splits)
    then show ?thesis
    proof cases
      case exhausted
      show ?thesis
      proof (cases "findAvailablePartners w \<noteq> [] \<and> belowMaxCycles cfg c")
        case True
        then have "r = Inr None" and w1: "w1 = addDispatchAssignmentJob oid ''dispatch.cycle.retry''
            (Some (dc_retrySeconds cfg * 1000)) (Some (c + 1)) w"
          using run exhausted by (simp_all add: cycleExhausted_def)
        moreover have "c + 1 \<le> dc_maxCyclesConfigured cfg" using True assms(2) by (simp add: belowMaxCycles_def)
        moreover have "\<forall>k. f = Some k \<longrightarrow> k < c + 1" using f by fastforce
        ultimately show ?thesis
          by (auto simp: addDispatchAssignmentJob_def retries_enqueue intro!: exI[of _ "c + 1"])
      next
        case False
        then show ?thesis using run exhausted by (auto simp: cycleExhausted_def)
      qed
    next
      case offer
      then have "w1 = snd (offerTo cfg uuid now env ord c d w)" using run by (metis snd_conv)
      then show ?thesis using offer_retries[OF assms(1), of cfg uuid now ord c d w] by simp
    qed
  qed (use run Some in \<open>simp add: assignOrder_def\<close>)
qed (use run in \<open>simp add: assignOrder_def\<close>)

text \<open>So does a job with all its attempts: a run that throws has enqueued nothing.\<close>

lemma attempts_retries:
  assumes "dc_maxCyclesConfigured cfg \<noteq> 0" and "list_all (quietAttempt oid) as"
    and "runAttempts cfg (DispatchAssignment oid source delay f) as w = (r, w1)"
  shows "retriesOf oid w1 = retriesOf oid w \<or>
    (\<exists>delay c. retriesOf oid w1 = retriesOf oid w @ [DispatchAssignment oid ''dispatch.cycle.retry'' delay (Some c)] \<and>
      c \<le> dc_maxCyclesConfigured cfg \<and> 0 < c \<and> (\<forall>k. f = Some k \<longrightarrow> k < c))"
  using assms(2,3)
proof (induction as arbitrary: w)
  case (Cons a as)
  have q: "\<forall>w. retriesOf oid (at_env a w) = retriesOf oid w" "retriesOf oid (at_before a w) = retriesOf oid w"
    using Cons.prems(1) by (auto simp: quietAttempt_def)
  obtain x v where x: "assignOrder cfg (at_uuid a) (at_now a) (at_env a) oid f (at_before a w) = (x, v)" by force
  note step = assign_retries[OF q(1) assms(1) x, unfolded q(2)]
  show ?case
  proof (cases "(\<exists>y. x = Inr y) \<or> as = []")
    case True
    then have "w1 = v" using Cons.prems(2) x by (cases x) (auto simp: processDispatchJob_def)
    with step show ?thesis by blast
  next
    case False
    then obtain e where e: "x = Inl e" by (cases x) auto
    then have same: "retriesOf oid v = retriesOf oid w" using step by auto
    have "runAttempts cfg (DispatchAssignment oid source delay f) as v = (r, w1)"
      using Cons.prems(2) x e False by (simp add: processDispatchJob_def)
    from Cons.IH[OF _ this] Cons.prems(1) show ?thesis by (simp add: same)
  qed
qed simp

lemma job_retries:
  assumes "dc_maxCyclesConfigured cfg \<noteq> 0" and "list_all (quietAttempt oid) as"
    and "runQueuedJob cfg (DispatchAssignment oid source delay f) as w = (r, w1)"
  shows "retriesOf oid w1 = retriesOf oid w \<or>
    (\<exists>delay c. retriesOf oid w1 = retriesOf oid w @ [DispatchAssignment oid ''dispatch.cycle.retry'' delay (Some c)] \<and>
      c \<le> dc_maxCyclesConfigured cfg \<and> 0 < c \<and> (\<forall>k. f = Some k \<longrightarrow> k < c))"
  using assms by (intro attempts_retries[where as = "take JOB_ATTEMPTS as"])
    (auto simp: runQueuedJob_def list_all_iff dest: in_set_takeD)

lemma chain_ends:
  assumes "dc_maxCyclesConfigured cfg \<noteq> 0" and "list_all (list_all (quietAttempt oid)) js"
    and "dc_maxCyclesConfigured cfg - (case f of None \<Rightarrow> 0 | Some c \<Rightarrow> c) < length js"
  shows "\<exists>n r. retryChain cfg oid (DispatchAssignment oid source delay f) js w = Some (n, r) \<and>
    n \<le> Suc (dc_maxCyclesConfigured cfg - (case f of None \<Rightarrow> 0 | Some c \<Rightarrow> c))"
  using assms(2,3)
proof (induction js arbitrary: f source delay w)
  case (Cons as js)
  let ?M = "dc_maxCyclesConfigured cfg" and ?f = "case f of None \<Rightarrow> 0 | Some c \<Rightarrow> c"
  obtain r w1 where run: "runQueuedJob cfg (DispatchAssignment oid source delay f) as w = (r, w1)" by force
  have q: "list_all (quietAttempt oid) as" using Cons.prems(1) by simp
  from job_retries[OF assms(1) q run] show ?case
  proof (elim disjE exE conjE)
    fix d c
    assume new: "retriesOf oid w1 = retriesOf oid w @ [DispatchAssignment oid ''dispatch.cycle.retry'' d (Some c)]"
      and c: "c \<le> ?M" "0 < c" "\<forall>k. f = Some k \<longrightarrow> k < c"
    have less: "?M - c < ?M - ?f" using c by (auto split: option.split)
    have "\<exists>n r. retryChain cfg oid (DispatchAssignment oid ''dispatch.cycle.retry'' d (Some c)) js w1 = Some (n, r) \<and>
        n \<le> Suc (?M - c)"
      using Cons.IH[of "Some c" _ d w1] Cons.prems less by simp
    then show ?thesis using run new less by fastforce
  qed (use run in simp)
qed simp

text \<open>
  C16. A chain of dispatch retries ends.  Whatever riders, orders and other requests do before and
  during each run, a dispatch job with its three attempts enqueues at most one retry, and only with
  a cycle above its own and at most the configured number of cycles; so starting from any job, at
  most that number of cycles minus the job's own, plus one, jobs run (each at most three times)
  until one enqueues no retry.  The limit must be set (0 means unlimited); jobs that a rejection, an
  expiry or the reconciliation of stranded orders enqueues start a chain of their own, the chain is
  followed while no other chain of the same order runs, and a worker crash that makes the queue
  repeat a finished run is not modelled.
\<close>
theorem retry_chain_ends:
  assumes "dc_maxCyclesConfigured cfg \<noteq> 0" and "list_all (list_all (quietAttempt oid)) js"
    and "dc_maxCyclesConfigured cfg < length js"
  shows "\<exists>n r. retryChain cfg oid (DispatchAssignment oid source delay f) js w = Some (n, r) \<and>
    n \<le> Suc (dc_maxCyclesConfigured cfg - (case f of None \<Rightarrow> 0 | Some c \<Rightarrow> c))"
  using assms by (intro chain_ends) simp_all

text \<open>Queue entries are invisible to an attempt.\<close>

lemma jobs_invisible:
  "findOrderById oid (w\<lparr>w_jobs := js\<rparr>) = findOrderById oid w"
  "dispatchStop cfg now (w\<lparr>w_jobs := js\<rparr>) ord = dispatchStop cfg now w ord"
  "remainingRiders cfg ord c (w\<lparr>w_jobs := js\<rparr>) = remainingRiders cfg ord c w"
  "findAvailablePartners (w\<lparr>w_jobs := js\<rparr>) = findAvailablePartners w"
  "findAssignmentsForOrder oid (w\<lparr>w_jobs := js\<rparr>) = findAssignmentsForOrder oid w"
proof -
  have b: "orderBranch (w\<lparr>w_jobs := js\<rparr>) ord = orderBranch w ord" for ord
    by (simp add: orderBranch_def split: option.split)
  have a: "findActiveAssignmentForOrder k (w\<lparr>w_jobs := js\<rparr>) = findActiveAssignmentForOrder k w" for k
    by (simp add: findActiveAssignmentForOrder_def)
  have r: "w_restaurants (w\<lparr>w_jobs := js\<rparr>) = w_restaurants w" by simp
  show "dispatchStop cfg now (w\<lparr>w_jobs := js\<rparr>) ord = dispatchStop cfg now w ord"
    unfolding dispatchStop_def a b r by (rule refl)
  have p: "primaryBranch (w\<lparr>w_jobs := js\<rparr>) ord = primaryBranch w ord" for ord by (simp add: primaryBranch_def)
  have l: "resolveBranchCoordinates (w\<lparr>w_jobs := js\<rparr>) ord = resolveBranchCoordinates w ord"
    unfolding resolveBranchCoordinates_def b p by (rule refl)
  show "remainingRiders cfg ord c (w\<lparr>w_jobs := js\<rparr>) = remainingRiders cfg ord c w"
    unfolding remainingRiders_def l by (simp add: radiusEligibleCandidates_def findAvailablePartners_def
        findAssignmentsForOrder_def findPartnerIdsWithActiveAssignment_def)
qed (simp_all add: findOrderById_def findAvailablePartners_def findAssignmentsForOrder_def)

text \<open>The bound is reached when riders are available but none of them is in reach: every cycle from
  the current one to the last has its job, and the last one fails all its attempts.\<close>

definition idleAttempt :: attempt where
  "idleAttempt = \<lparr>at_uuid = ''a'', at_now = 0, at_before = id, at_env = id\<rparr>"

definition idleAttempts :: "attempt list" where "idleAttempts = replicate JOB_ATTEMPTS idleAttempt"

lemma idle_quiet: "list_all (list_all (quietAttempt oid)) (replicate n idleAttempts)"
  by (auto simp: list_all_iff idleAttempts_def quietAttempt_def idleAttempt_def)

lemma unreachable_chain:
  assumes "findOrderById oid w = Some ord" and "\<forall>now. dispatchStop cfg now w ord = None"
    and "\<forall>k. remainingRiders cfg ord k w = []" and "findAvailablePartners w \<noteq> []"
    and "dc_maxCyclesConfigured cfg \<noteq> 0" and "n > dc_maxCyclesConfigured cfg - c"
    and "c = currentCycle (findAssignmentsForOrder oid w) f"
  shows "retryChain cfg oid (DispatchAssignment oid source delay f) (replicate n idleAttempts) w
    = Some (Suc (dc_maxCyclesConfigured cfg - c), Inl (NotFound ''No delivery partners available''))"
  using assms
proof (induction n arbitrary: f w c source delay)
  case (Suc n)
  let ?M = "dc_maxCyclesConfigured cfg"
  have a: "assignOrder cfg ''a'' 0 id oid f w = cycleExhausted cfg oid c w"
    using assign_choice[OF Suc.prems(1) _ Suc.prems(7), of cfg 0 "''a''" id] Suc.prems(2,3) by simp
  let ?j = "DispatchAssignment oid source delay f"
  have p: "processDispatchJob cfg ''a'' 0 id ?j w = (case cycleExhausted cfg oid c w of
      (Inl e, w1) \<Rightarrow> (Inl e, w1) | (Inr _, w1) \<Rightarrow> (Inr (), w1))" by (simp add: processDispatchJob_def a)
  show ?case
  proof (cases "c < ?M")
    case False
    then have "processDispatchJob cfg ''a'' 0 id ?j w = (Inl (NotFound ''No delivery partners available''), w)"
      using p Suc.prems(4,5) by (simp add: exhausted_result belowMaxCycles_def)
    then have "runQueuedJob cfg ?j idleAttempts w = (Inl (NotFound ''No delivery partners available''), w)"
      by (simp add: runQueuedJob_def idleAttempts_def idleAttempt_def JOB_ATTEMPTS_def numeral_3_eq_3)
    then show ?thesis using False by simp
  next
    case True
    define d where "d = (if dc_retrySeconds cfg * 1000 = 0 then None else Some (dc_retrySeconds cfg * 1000))"
    let ?k = "DispatchAssignment oid ''dispatch.cycle.retry'' d (Some (c + 1))"
    let ?w = "w\<lparr>w_jobs := w_jobs w @ [?k]\<rparr>"
    have "processDispatchJob cfg ''a'' 0 id ?j w = (Inr (), ?w)"
      using p True Suc.prems(4) by (simp add: exhausted_result belowMaxCycles_def d_def)
    then have run: "runQueuedJob cfg ?j idleAttempts w = (Inr (), ?w)"
      by (simp add: runQueuedJob_def idleAttempts_def idleAttempt_def JOB_ATTEMPTS_def numeral_3_eq_3)
    have dc: "derivedCycle (findAssignmentsForOrder oid w) \<le> c"
      using Suc.prems(7) by (simp add: currentCycle_def split: option.splits)
    have "retryChain cfg oid ?k (replicate n idleAttempts) ?w =
        Some (Suc (?M - (c + 1)), Inl (NotFound ''No delivery partners available''))"
    proof (rule Suc.IH)
      show "c + 1 = currentCycle (findAssignmentsForOrder oid ?w) (Some (c + 1))"
        using dc by (simp add: currentCycle_def jobs_invisible)
    qed (use Suc.prems True in \<open>simp_all add: jobs_invisible\<close>)
    moreover have "retriesOf oid ?w = retriesOf oid w @ [?k]" by (simp add: retriesOf_def)
    ultimately show ?thesis using True run by (simp add: Suc_diff_Suc)
  qed
qed simp

section \<open>Witnesses\<close>

definition anyZone :: zoneLib where
  "anyZone name now = Some \<lparr>z_date = ''2026-01-01'', z_day = 4, z_hour = 12, z_minute = 0\<rparr>"

definition testCfg :: dispatchCfg where "testCfg = defaultCfg anyZone (\<lambda>_. [])"

definition kitchen :: branch where
  "kitchen = \<lparr>b_id = ''b1'', b_restaurantId = ''r1'', b_isPrimary = True, b_isActive = True,
     b_latitude = Some 0, b_longitude = Some 0, b_timezone = None, b_operatingHours = []\<rparr>"

definition cityWorld :: "string list \<Rightarrow> world" where
  "cityWorld online = readyWorld\<lparr>w_branches := [kitchen], w_online := online\<rparr>"

lemmas city_eval = cityWorld_def kitchen_def testCfg_def defaultCfg_def dispatch_rows findOrderById_def

lemma city_open: "dispatchStop testCfg now (cityWorld online) readyOrder = None"
  by (simp add: dispatchStop_def DISPATCHABLE_ORDER_STATUSES_def orderBranch_def findActiveAssignmentForOrder_def city_eval)

lemma city_remaining:
  "remainingRiders testCfg readyOrder c (cityWorld online) = (if ''u2'' \<in> set online then [idleRider] else [])"
proof -
  have "inRange testCfg (Some (0, 0)) idleRider"
    by (simp add: inRange_def effectiveRadiusTiers_def withinRadius_def partnerLocation_def coordinates_def
        distanceMeters_def testCfg_def defaultCfg_def idleRider_def)
  moreover have "resolveBranchCoordinates (cityWorld online) readyOrder = Some (0, 0)"
    by (simp add: resolveBranchCoordinates_def orderBranch_def primaryBranch_def coordinates_def city_eval)
  moreover have "radiusEligibleCandidates ''o1'' c (cityWorld online) = (if ''u2'' \<in> set online then [idleRider] else [])"
    by (simp add: radiusEligibleCandidates_def findAvailablePartners_def findAssignmentsForOrder_def attemptedPartnerIds_def
        findPartnerIdsWithActiveAssignment_def city_eval)
  moreover have "o_id readyOrder = ''o1''" by (simp add: readyOrder_def sampleOrder_def)
  ultimately show ?thesis by (simp add: remainingRiders_def)
qed

lemma cycle_offers_everyone_witness:
  "mset (fst (offerRounds testCfg [(''a1'', 0)] ''o1'' None (cityWorld [''u2'']))) = {#Some ''d1''#}"
proof -
  have "mset (fst (offerRounds testCfg [(''a1'', 0)] ''o1'' None (cityWorld [''u2'']))) =
      mset (map (\<lambda>d. Some (d_id d)) (remainingRiders testCfg readyOrder 1 (cityWorld [''u2'']))) \<and>
    remainingRiders testCfg readyOrder 1 (snd (offerRounds testCfg [(''a1'', 0)] ''o1'' None (cityWorld [''u2'']))) = []"
    by (rule cycle_offers_everyone)
      (simp_all add: city_open city_remaining, simp_all add: currentCycle_def derivedCycle_def
        findAssignmentsForOrder_def partnersKeyed_def keyed_def city_eval)
  then show ?thesis by (simp add: city_remaining) (simp add: idleRider_def)
qed

lemma retry_chain_ends_witness:
  "\<exists>n. retryChain testCfg ''o1'' (DispatchAssignment ''o1'' ''order.ready'' None None)
       (replicate 11 idleAttempts) (cityWorld []) = Some (n, Inl (NotFound ''No delivery partners available'')) \<and>
     n \<le> 11 \<and> n = 10"
proof -
  have max: "dc_maxCyclesConfigured testCfg = 10" by (simp add: testCfg_def defaultCfg_def)
  let ?run = "retryChain testCfg ''o1'' (DispatchAssignment ''o1'' ''order.ready'' None None)
      (replicate 11 idleAttempts) (cityWorld [])"
  have "\<exists>n r. ?run = Some (n, r) \<and> n \<le> Suc (dc_maxCyclesConfigured testCfg - (case None of None \<Rightarrow> 0 | Some c \<Rightarrow> c))"
    by (rule retry_chain_ends) (simp_all add: max idle_quiet)
  moreover have "?run = Some (Suc (dc_maxCyclesConfigured testCfg - currentCycle (findAssignmentsForOrder ''o1'' (cityWorld [])) None),
      Inl (NotFound ''No delivery partners available''))"
    by (rule unreachable_chain[where ord = readyOrder])
      (simp_all add: city_open city_remaining max, simp_all add: findAvailablePartners_def city_eval)
  moreover have "currentCycle (findAssignmentsForOrder ''o1'' (cityWorld [])) None = 1"
    by (simp add: currentCycle_def derivedCycle_def findAssignmentsForOrder_def city_eval)
  ultimately show ?thesis by (auto simp: max)
qed

end
