(* ===== verification/Presence.thy ===== *)
theory Presence
  imports Prelude
begin

text \<open>
  Who is online: \<^verbatim>\<open>modules/presence/services/presence.service.ts\<close>, over the Redis keys it writes.
  A key holds a JSON document and may expire; a set enumerates the ids, so that counting needs no
  scan.  The set and the keys are separate data: the property is that together they refine a plain
  map from ids to the instants until which they are online.

  Instants are milliseconds.  A string value that is not one of the documents written here is
  \<^term>\<open>Corrupt\<close>: reading it back throws in \<^verbatim>\<open>JSON.parse\<close>.
\<close>

section \<open>Redis\<close>

record presenceDoc =
  pd_online :: bool
  pd_lastSeen :: int

datatype redisValue = Doc presenceDoc | Corrupt string

record redis =
  rd_strings :: "string \<rightharpoonup> redisValue \<times> int option"
  rd_sets :: "string \<Rightarrow> string list"

definition redisGet :: "string \<Rightarrow> int \<Rightarrow> redis \<Rightarrow> redisValue option" where
  "redisGet key now r =
     (case rd_strings r key of
        None \<Rightarrow> None
      | Some (v, None) \<Rightarrow> Some v
      | Some (v, Some expiry) \<Rightarrow> if now < expiry then Some v else None)"

definition redisMget :: "string list \<Rightarrow> int \<Rightarrow> redis \<Rightarrow> redisValue option list" where
  "redisMget keys now r = map (\<lambda>k. redisGet k now r) keys"

definition redisSet :: "string \<Rightarrow> redisValue \<Rightarrow> int option \<Rightarrow> redis \<Rightarrow> redis" where
  "redisSet key v expiry r = r\<lparr>rd_strings := (rd_strings r)(key \<mapsto> (v, expiry))\<rparr>"

definition smembers :: "string \<Rightarrow> redis \<Rightarrow> string list" where
  "smembers key r = rd_sets r key"

definition sadd :: "string \<Rightarrow> string \<Rightarrow> redis \<Rightarrow> redis" where
  "sadd key m r = r\<lparr>rd_sets := (rd_sets r)(key := List.insert m (rd_sets r key))\<rparr>"

definition srem :: "string \<Rightarrow> string list \<Rightarrow> redis \<Rightarrow> redis" where
  "srem key ms r = r\<lparr>rd_sets := (rd_sets r)(key := filter (\<lambda>m. m \<notin> set ms) (rd_sets r key))\<rparr>"

section \<open>The service\<close>

definition PRESENCE_TTL_SECONDS :: int where "PRESENCE_TTL_SECONDS = 2 * 60"

definition ONLINE_AGENTS_SET_KEY :: string where "ONLINE_AGENTS_SET_KEY = ''support:agents:online''"

definition ONLINE_DRIVERS_SET_KEY :: string where "ONLINE_DRIVERS_SET_KEY = ''driver:online:set''"

definition agentKey :: "string \<Rightarrow> string" where "agentKey i = ''agent:online:'' @ i"

definition driverKey :: "string \<Rightarrow> string" where "driverKey i = ''driver:online:'' @ i"

definition ttl :: "int \<Rightarrow> int option" where "ttl now = Some (now + PRESENCE_TTL_SECONDS * 1000)"

definition markAgentOnline :: "int \<Rightarrow> string \<Rightarrow> redis \<Rightarrow> redis" where
  "markAgentOnline now i r =
     sadd ONLINE_AGENTS_SET_KEY i (redisSet (agentKey i) (Doc \<lparr>pd_online = True, pd_lastSeen = now\<rparr>) (ttl now) r)"

definition markAgentOffline :: "int \<Rightarrow> string \<Rightarrow> redis \<Rightarrow> redis" where
  "markAgentOffline now i r =
     srem ONLINE_AGENTS_SET_KEY [i] (redisSet (agentKey i) (Doc \<lparr>pd_online = False, pd_lastSeen = now\<rparr>) None r)"

text \<open>Truthiness of a value read: missing keys and the empty string are false.\<close>

definition present :: "redisValue option \<Rightarrow> bool" where
  "present v \<longleftrightarrow> v \<noteq> None \<and> v \<noteq> Some (Corrupt [])"

text \<open>The value a missing key yields, the parsed document, or the exception of the parser.\<close>

definition readStatus :: "redisValue option \<Rightarrow> bool result" where
  "readStatus v =
     (if \<not> present v then Inr False
      else case v of
        None \<Rightarrow> Inr False
      | Some (Doc d) \<Rightarrow> Inr (pd_online d)
      | Some (Corrupt s) \<Rightarrow> Inl (ProviderError ''JSON''))"

definition getAgentStatus :: "int \<Rightarrow> string \<Rightarrow> redis \<Rightarrow> bool result" where
  "getAgentStatus now i r = readStatus (redisGet (agentKey i) now r)"

definition listOnlineAgentIds :: "int \<Rightarrow> redis \<Rightarrow> string list \<times> redis" where
  "listOnlineAgentIds now r =
     (let ids = smembers ONLINE_AGENTS_SET_KEY r
      in if ids = [] then ([], r)
         else
           (let values = redisMget (map agentKey ids) now r;
                online = map fst (filter (\<lambda>p. present (snd p)) (zip ids values));
                stale = map fst (filter (\<lambda>p. \<not> present (snd p)) (zip ids values))
            in (online, if length stale > 0 then srem ONLINE_AGENTS_SET_KEY stale r else r)))"

definition markDriverOnline :: "int \<Rightarrow> string \<Rightarrow> redis \<Rightarrow> redis" where
  "markDriverOnline now i r =
     sadd ONLINE_DRIVERS_SET_KEY i (redisSet (driverKey i) (Doc \<lparr>pd_online = True, pd_lastSeen = now\<rparr>) (ttl now) r)"

definition markDriverOffline :: "int \<Rightarrow> string \<Rightarrow> redis \<Rightarrow> redis" where
  "markDriverOffline now i r =
     srem ONLINE_DRIVERS_SET_KEY [i] (redisSet (driverKey i) (Doc \<lparr>pd_online = False, pd_lastSeen = now\<rparr>) None r)"

definition countOnlinePartners :: "int \<Rightarrow> redis \<Rightarrow> nat \<times> redis" where
  "countOnlinePartners now r =
     (let ids = smembers ONLINE_DRIVERS_SET_KEY r
      in if ids = [] then (0, r)
         else
           (let values = redisMget (map driverKey ids) now r;
                stale = map fst (filter (\<lambda>p. \<not> present (snd p)) (zip ids values))
            in (length ids - length stale, if length stale > 0 then srem ONLINE_DRIVERS_SET_KEY stale r else r)))"

definition getStatus :: "int \<Rightarrow> string \<Rightarrow> redis \<Rightarrow> bool result" where
  "getStatus now i r = readStatus (redisGet (driverKey i) now r)"

definition isOnline :: "int \<Rightarrow> string \<Rightarrow> redis \<Rightarrow> bool result" where
  "isOnline now i r = getStatus now i r"

text \<open>A document that cannot be parsed counts as offline here.\<close>

definition isOnlineBatch :: "int \<Rightarrow> string list \<Rightarrow> redis \<Rightarrow> (string \<times> bool) list" where
  "isOnlineBatch now ids r =
     (if ids = [] then []
      else map (\<lambda>(i, v). (i, case readStatus v of Inl e \<Rightarrow> False | Inr b \<Rightarrow> b))
             (zip ids (redisMget (map driverKey ids) now r)))"

section \<open>The abstract service\<close>

text \<open>Ids online until an instant.\<close>

type_synonym deadlines = "string \<rightharpoonup> int"

definition onlineAt :: "int \<Rightarrow> deadlines \<Rightarrow> string set" where
  "onlineAt now d = {i. \<exists>t. d i = Some t \<and> now < t}"

section \<open>One space of ids\<close>

text \<open>Riders and agents use the same layout under different keys.  A space is given by its key
  function and its set key; the operations below are what both services reduce to.\<close>

definition spaceOn :: "(string \<Rightarrow> string) \<Rightarrow> string \<Rightarrow> int \<Rightarrow> string \<Rightarrow> redis \<Rightarrow> redis" where
  "spaceOn key members now i r =
     sadd members i (redisSet (key i) (Doc \<lparr>pd_online = True, pd_lastSeen = now\<rparr>) (ttl now) r)"

definition spaceOff :: "(string \<Rightarrow> string) \<Rightarrow> string \<Rightarrow> int \<Rightarrow> string \<Rightarrow> redis \<Rightarrow> redis" where
  "spaceOff key members now i r =
     srem members [i] (redisSet (key i) (Doc \<lparr>pd_online = False, pd_lastSeen = now\<rparr>) None r)"

definition liveIds :: "(string \<Rightarrow> string) \<Rightarrow> string \<Rightarrow> int \<Rightarrow> redis \<Rightarrow> string list" where
  "liveIds key members now r = filter (\<lambda>i. present (redisGet (key i) now r)) (rd_sets r members)"

definition pruned :: "(string \<Rightarrow> string) \<Rightarrow> string \<Rightarrow> int \<Rightarrow> redis \<Rightarrow> redis" where
  "pruned key members now r = r\<lparr>rd_sets := (rd_sets r)(members := liveIds key members now r)\<rparr>"

lemma pruned_idem: "liveIds key members now r = rd_sets r members \<Longrightarrow> pruned key members now r = r"
  by (simp add: pruned_def fun_upd_idem)

lemma zip_values: "zip ids (redisMget (map key ids) now r) = map (\<lambda>i. (i, redisGet (key i) now r)) ids"
  by (induction ids) (simp_all add: redisMget_def)

lemma filter_values:
  "filter (\<lambda>p. present (snd p)) (map (\<lambda>i. (i, f i)) ids) = map (\<lambda>i. (i, f i)) (filter (\<lambda>i. present (f i)) ids)"
  "filter (\<lambda>p. \<not> present (snd p)) (map (\<lambda>i. (i, f i)) ids) = map (\<lambda>i. (i, f i)) (filter (\<lambda>i. \<not> present (f i)) ids)"
  by (simp_all add: filter_map comp_def)

lemma prune_stale:
  "(let stale = filter (\<lambda>i. \<not> present (redisGet (key i) now r)) (rd_sets r members)
    in if length stale > 0 then srem members stale r else r) = pruned key members now r"
proof -
  let ?p = "\<lambda>i. present (redisGet (key i) now r)"
  have "filter (\<lambda>m. m \<notin> set (filter (\<lambda>i. \<not> ?p i) ids)) ids = filter ?p ids" for ids
    by (rule filter_cong) auto
  then have s: "srem members (filter (\<lambda>i. \<not> ?p i) (rd_sets r members)) r = pruned key members now r"
    by (simp add: srem_def pruned_def liveIds_def)
  show ?thesis
  proof (cases "filter (\<lambda>i. \<not> ?p i) (rd_sets r members) = []")
    case True
    then have "liveIds key members now r = rd_sets r members"
      by (simp add: liveIds_def filter_id_conv filter_empty_conv)
    then show ?thesis using True by (simp add: pruned_idem)
  qed (use s in \<open>simp add: Let_def\<close>)
qed

lemma drivers_as_space:
  "markDriverOnline = spaceOn driverKey ONLINE_DRIVERS_SET_KEY"
  "markDriverOffline = spaceOff driverKey ONLINE_DRIVERS_SET_KEY"
  "countOnlinePartners now r =
     (length (liveIds driverKey ONLINE_DRIVERS_SET_KEY now r), pruned driverKey ONLINE_DRIVERS_SET_KEY now r)"
proof -
  let ?ids = "rd_sets r ONLINE_DRIVERS_SET_KEY" and ?p = "\<lambda>i. present (redisGet (driverKey i) now r)"
  have len: "length ?ids - length (filter (\<lambda>i. \<not> ?p i) ?ids) = length (filter ?p ?ids)"
    using sum_length_filter_compl[of ?p ?ids] by linarith
  show "countOnlinePartners now r =
     (length (liveIds driverKey ONLINE_DRIVERS_SET_KEY now r), pruned driverKey ONLINE_DRIVERS_SET_KEY now r)"
  proof (cases "?ids = []")
    case True
    then show ?thesis by (simp add: countOnlinePartners_def smembers_def liveIds_def pruned_idem)
  next
    case False
    then show ?thesis
      using prune_stale[of driverKey now r ONLINE_DRIVERS_SET_KEY] len
      by (simp add: countOnlinePartners_def smembers_def zip_values filter_values comp_def liveIds_def Let_def split: if_splits)
  qed
qed (simp_all add: fun_eq_iff markDriverOnline_def markDriverOffline_def spaceOn_def spaceOff_def)

lemma agents_as_space:
  "markAgentOnline = spaceOn agentKey ONLINE_AGENTS_SET_KEY"
  "markAgentOffline = spaceOff agentKey ONLINE_AGENTS_SET_KEY"
  "listOnlineAgentIds now r =
     (liveIds agentKey ONLINE_AGENTS_SET_KEY now r, pruned agentKey ONLINE_AGENTS_SET_KEY now r)"
proof -
  show "listOnlineAgentIds now r =
     (liveIds agentKey ONLINE_AGENTS_SET_KEY now r, pruned agentKey ONLINE_AGENTS_SET_KEY now r)"
  proof (cases "rd_sets r ONLINE_AGENTS_SET_KEY = []")
    case True
    then show ?thesis by (simp add: listOnlineAgentIds_def smembers_def liveIds_def pruned_idem)
  next
    case False
    then show ?thesis
      using prune_stale[of agentKey now r ONLINE_AGENTS_SET_KEY]
      by (simp add: listOnlineAgentIds_def smembers_def zip_values filter_values comp_def liveIds_def Let_def split: if_splits)
  qed
qed (simp_all add: fun_eq_iff markAgentOnline_def markAgentOffline_def spaceOn_def spaceOff_def)

lemma batch_is_pointwise:
  "isOnlineBatch now ids r = map (\<lambda>i. (i, case isOnline now i r of Inl e \<Rightarrow> False | Inr b \<Rightarrow> b)) ids"
  by (cases "ids = []") (simp_all add: isOnlineBatch_def zip_values isOnline_def getStatus_def)

text \<open>The contract of a space: its keys are injective and apart from those of another space.\<close>

locale presence_space =
  fixes key :: "string \<Rightarrow> string" and members :: string
  assumes key_inj: "key i = key j \<Longrightarrow> i = j"
begin

definition deadlinesOf :: "redis \<Rightarrow> deadlines" where
  "deadlinesOf r i =
     (case rd_strings r (key i) of Some (Doc d, Some t) \<Rightarrow> if pd_online d then Some t else None | _ \<Rightarrow> None)"

definition wf :: "int \<Rightarrow> redis \<Rightarrow> bool" where
  "wf now r \<longleftrightarrow> distinct (rd_sets r members) \<and> onlineAt now (deadlinesOf r) \<subseteq> set (rd_sets r members) \<and>
     set (rd_sets r members) \<subseteq> dom (deadlinesOf r) \<and>
     (\<forall>i. case rd_strings r (key i) of None \<Rightarrow> True | Some (Doc d, e) \<Rightarrow> pd_online d \<longleftrightarrow> e \<noteq> None | _ \<Rightarrow> False)"

lemma key_eq [simp]: "key i = key j \<longleftrightarrow> i = j"
  using key_inj by blast

lemma wf_value:
  assumes "wf now r"
  obtains "rd_strings r (key i) = None"
  | d t where "rd_strings r (key i) = Some (Doc d, Some t)" "pd_online d"
  | d where "rd_strings r (key i) = Some (Doc d, None)" "\<not> pd_online d"
proof -
  have v: "case rd_strings r (key i) of None \<Rightarrow> True | Some (Doc d, e) \<Rightarrow> pd_online d \<longleftrightarrow> e \<noteq> None | _ \<Rightarrow> False"
    using assms unfolding wf_def by blast
  show thesis
  proof (cases "rd_strings r (key i)")
    case (Some p)
    then obtain d e where p: "rd_strings r (key i) = Some (Doc d, e)" "pd_online d \<longleftrightarrow> e \<noteq> None"
      using v by (cases p; cases "fst p") auto
    then show thesis using that(2,3) by (cases e) auto
  qed (rule that(1))
qed

lemma status_exact: "wf now r \<Longrightarrow> readStatus (redisGet (key i) now r) = Inr (i \<in> onlineAt now (deadlinesOf r))"
  by (rule wf_value[of now r i]) (auto simp: redisGet_def readStatus_def present_def onlineAt_def deadlinesOf_def)

lemma live_exact:
  assumes "wf now r"
  shows "distinct (liveIds key members now r) \<and> set (liveIds key members now r) = onlineAt now (deadlinesOf r)"
proof -
  have "present (redisGet (key i) now r) \<longleftrightarrow> i \<in> onlineAt now (deadlinesOf r)" if "i \<in> set (rd_sets r members)" for i
  proof -
    have "i \<in> dom (deadlinesOf r)" using assms that by (auto simp: wf_def)
    note dom = this
    show ?thesis
      by (rule wf_value[OF assms, of i])
        (use dom in \<open>auto simp: redisGet_def present_def onlineAt_def deadlinesOf_def\<close>)
  qed
  then show ?thesis using assms by (auto simp: liveIds_def wf_def)
qed

lemma on_deadlines: "deadlinesOf (spaceOn key members now i r) = (deadlinesOf r)(i \<mapsto> now + PRESENCE_TTL_SECONDS * 1000)"
  by (auto simp: fun_eq_iff deadlinesOf_def spaceOn_def sadd_def redisSet_def ttl_def)

lemma off_deadlines: "deadlinesOf (spaceOff key members now i r) = (deadlinesOf r)(i := None)"
  by (auto simp: fun_eq_iff deadlinesOf_def spaceOff_def srem_def redisSet_def)

lemma prune_deadlines: "deadlinesOf (pruned key members now r) = deadlinesOf r"
  by (simp add: fun_eq_iff deadlinesOf_def pruned_def)

lemma on_wf: "wf now r \<Longrightarrow> wf now (spaceOn key members now i r)"
  unfolding wf_def on_deadlines
  by (auto simp: spaceOn_def sadd_def redisSet_def ttl_def onlineAt_def split: if_splits)

lemma off_wf: "wf now r \<Longrightarrow> wf now (spaceOff key members now i r)"
  unfolding wf_def off_deadlines
  by (auto simp: spaceOff_def srem_def redisSet_def onlineAt_def split: if_splits)

lemma prune_wf: "wf now r \<Longrightarrow> wf now (pruned key members now r)"
  using live_exact[of now r] unfolding wf_def prune_deadlines
  by (auto simp: pruned_def liveIds_def)

lemma wf_later: "wf now r \<Longrightarrow> now \<le> t \<Longrightarrow> wf t r"
  by (auto simp: wf_def onlineAt_def)

text \<open>Writes elsewhere are not seen.\<close>

lemma frame:
  assumes "\<And>i. rd_strings r' (key i) = rd_strings r (key i)" and "rd_sets r' members = rd_sets r members"
  shows "deadlinesOf r' = deadlinesOf r \<and> (wf now r' \<longleftrightarrow> wf now r)"
proof -
  have "deadlinesOf r' = deadlinesOf r" by (simp add: fun_eq_iff deadlinesOf_def assms(1))
  then show ?thesis by (simp add: wf_def assms)
qed

end

interpretation drivers: presence_space driverKey ONLINE_DRIVERS_SET_KEY
  by unfold_locales (simp add: driverKey_def)

interpretation agents: presence_space agentKey ONLINE_AGENTS_SET_KEY
  by unfold_locales (simp add: agentKey_def)

section \<open>Refinement\<close>

datatype presenceOp = DriverOn string | DriverOff string | CountDrivers | AskDriver string | AskDrivers "string list"
  | AgentOn string | AgentOff string | ListAgents | AskAgent string

datatype presenceReply = Done | Counted nat | Answer "bool result" | Answers "(string \<times> bool) list" | Ids "string set"

fun presenceStep :: "presenceOp \<Rightarrow> int \<Rightarrow> redis \<Rightarrow> presenceReply \<times> redis" where
  "presenceStep (DriverOn i) now r = (Done, markDriverOnline now i r)"
| "presenceStep (DriverOff i) now r = (Done, markDriverOffline now i r)"
| "presenceStep CountDrivers now r = (case countOnlinePartners now r of (n, r') \<Rightarrow> (Counted n, r'))"
| "presenceStep (AskDriver i) now r = (Answer (isOnline now i r), r)"
| "presenceStep (AskDrivers ids) now r = (Answers (isOnlineBatch now ids r), r)"
| "presenceStep (AgentOn i) now r = (Done, markAgentOnline now i r)"
| "presenceStep (AgentOff i) now r = (Done, markAgentOffline now i r)"
| "presenceStep ListAgents now r = (case listOnlineAgentIds now r of (ids, r') \<Rightarrow> (Ids (set ids), r'))"
| "presenceStep (AskAgent i) now r = (Answer (getAgentStatus now i r), r)"

text \<open>The same requests against two maps of deadlines, drivers and agents.\<close>

fun specStep :: "presenceOp \<Rightarrow> int \<Rightarrow> deadlines \<times> deadlines \<Rightarrow> presenceReply \<times> deadlines \<times> deadlines" where
  "specStep (DriverOn i) now (d, a) = (Done, d(i \<mapsto> now + 120000), a)"
| "specStep (DriverOff i) now (d, a) = (Done, d(i := None), a)"
| "specStep CountDrivers now (d, a) = (Counted (card (onlineAt now d)), d, a)"
| "specStep (AskDriver i) now (d, a) = (Answer (Inr (i \<in> onlineAt now d)), d, a)"
| "specStep (AskDrivers ids) now (d, a) = (Answers (map (\<lambda>i. (i, i \<in> onlineAt now d)) ids), d, a)"
| "specStep (AgentOn i) now (d, a) = (Done, d, a(i \<mapsto> now + 120000))"
| "specStep (AgentOff i) now (d, a) = (Done, d, a(i := None))"
| "specStep ListAgents now (d, a) = (Ids (onlineAt now a), d, a)"
| "specStep (AskAgent i) now (d, a) = (Answer (Inr (i \<in> onlineAt now a)), d, a)"

text \<open>Requests arrive in order, each some milliseconds after the previous one.\<close>

fun replies :: "('op \<Rightarrow> int \<Rightarrow> 's \<Rightarrow> 'reply \<times> 's) \<Rightarrow> (nat \<times> 'op) list \<Rightarrow> int \<Rightarrow> 's \<Rightarrow> 'reply list" where
  "replies step [] now s = []"
| "replies step ((delay, rq) # rqs) now s =
     (case step rq (now + int delay) s of (out, s') \<Rightarrow> out # replies step rqs (now + int delay) s')"

definition presenceAbs :: "redis \<Rightarrow> deadlines \<times> deadlines" where
  "presenceAbs r = (drivers.deadlinesOf r, agents.deadlinesOf r)"

definition presenceWf :: "int \<Rightarrow> redis \<Rightarrow> bool" where
  "presenceWf now r \<longleftrightarrow> drivers.wf now r \<and> agents.wf now r"

lemma other_space:
  "drivers.deadlinesOf (spaceOn agentKey ONLINE_AGENTS_SET_KEY now i r) = drivers.deadlinesOf r"
  "drivers.deadlinesOf (spaceOff agentKey ONLINE_AGENTS_SET_KEY now i r) = drivers.deadlinesOf r"
  "drivers.deadlinesOf (pruned agentKey ONLINE_AGENTS_SET_KEY now r) = drivers.deadlinesOf r"
  "agents.deadlinesOf (spaceOn driverKey ONLINE_DRIVERS_SET_KEY now i r) = agents.deadlinesOf r"
  "agents.deadlinesOf (spaceOff driverKey ONLINE_DRIVERS_SET_KEY now i r) = agents.deadlinesOf r"
  "agents.deadlinesOf (pruned driverKey ONLINE_DRIVERS_SET_KEY now r) = agents.deadlinesOf r"
  by (simp_all add: fun_eq_iff drivers.deadlinesOf_def agents.deadlinesOf_def spaceOn_def spaceOff_def pruned_def
      sadd_def srem_def redisSet_def driverKey_def agentKey_def)

lemma other_space_wf:
  "drivers.wf t (spaceOn agentKey ONLINE_AGENTS_SET_KEY now i r) = drivers.wf t r"
  "drivers.wf t (spaceOff agentKey ONLINE_AGENTS_SET_KEY now i r) = drivers.wf t r"
  "drivers.wf t (pruned agentKey ONLINE_AGENTS_SET_KEY now r) = drivers.wf t r"
  "agents.wf t (spaceOn driverKey ONLINE_DRIVERS_SET_KEY now i r) = agents.wf t r"
  "agents.wf t (spaceOff driverKey ONLINE_DRIVERS_SET_KEY now i r) = agents.wf t r"
  "agents.wf t (pruned driverKey ONLINE_DRIVERS_SET_KEY now r) = agents.wf t r"
  unfolding drivers.wf_def agents.wf_def other_space
  by (simp_all add: spaceOn_def spaceOff_def pruned_def sadd_def srem_def redisSet_def driverKey_def agentKey_def
      ONLINE_AGENTS_SET_KEY_def ONLINE_DRIVERS_SET_KEY_def)

lemmas space_steps = drivers_as_space agents_as_space drivers.on_deadlines drivers.off_deadlines drivers.prune_deadlines
  agents.on_deadlines agents.off_deadlines agents.prune_deadlines other_space

lemma step_refines:
  assumes "presenceWf now r"
  shows "fst (presenceStep rq now r) = fst (specStep rq now (presenceAbs r)) \<and>
    presenceAbs (snd (presenceStep rq now r)) = snd (specStep rq now (presenceAbs r)) \<and>
    presenceWf now (snd (presenceStep rq now r))"
proof -
  have d: "drivers.wf now r" and a: "agents.wf now r" using assms by (auto simp: presenceWf_def)
  have n: "length (liveIds driverKey ONLINE_DRIVERS_SET_KEY now r) = card (onlineAt now (drivers.deadlinesOf r))"
    using drivers.live_exact[OF d] by (metis distinct_card)
  have ask: "isOnline now i r = Inr (i \<in> onlineAt now (drivers.deadlinesOf r))"
    "getAgentStatus now i r = Inr (i \<in> onlineAt now (agents.deadlinesOf r))" for i
    using drivers.status_exact[OF d] agents.status_exact[OF a] by (simp_all add: isOnline_def getStatus_def getAgentStatus_def)
  have wfs: "presenceWf now (snd (presenceStep rq now r))"
    using d a by (cases rq) (simp_all add: presenceWf_def drivers_as_space agents_as_space other_space_wf
        drivers.on_wf drivers.off_wf drivers.prune_wf agents.on_wf agents.off_wf agents.prune_wf)
  show ?thesis
    using wfs n agents.live_exact[OF a]
    by (cases rq) (simp_all add: presenceAbs_def space_steps PRESENCE_TTL_SECONDS_def ask batch_is_pointwise)
qed

definition emptyRedis :: redis where
  "emptyRedis = \<lparr>rd_strings = Map.empty, rd_sets = (\<lambda>_. [])\<rparr>"

text \<open>
  C19. Presence is what it claims to be: from an empty store, every sequence of pings, sign-offs,
  counts and questions, at any non-decreasing times, gets the replies of a plain map from ids to
  deadlines: an id is online for two minutes after its last ping unless it signed off.  The online
  sets that are never expired by Redis, and are pruned only when they are read, never show: the
  count is exact, the batch question is the single question for each id, and riders and agents do
  not interfere.
\<close>
theorem presence_refines:
  "replies presenceStep rqs now emptyRedis = replies specStep rqs now (Map.empty, Map.empty)"
proof -
  have "presenceWf now r \<Longrightarrow> replies presenceStep rqs now r = replies specStep rqs now (presenceAbs r)" for r
  proof (induction rqs arbitrary: now r)
    case (Cons x rqs)
    obtain delay rq where x: "x = (delay, rq)" by (cases x)
    let ?t = "now + int delay"
    have "presenceWf ?t r"
      using Cons.prems drivers.wf_later[of now r ?t] agents.wf_later[of now r ?t] by (simp add: presenceWf_def)
    from step_refines[OF this, of rq] Cons.IH[of ?t "snd (presenceStep rq ?t r)"]
    show ?case by (simp add: x split_beta)
  qed simp
  moreover have "presenceWf now emptyRedis"
    by (simp add: presenceWf_def drivers.wf_def agents.wf_def emptyRedis_def onlineAt_def drivers.deadlinesOf_def
        agents.deadlinesOf_def)
  moreover have "presenceAbs emptyRedis = (Map.empty, Map.empty)"
    by (simp add: presenceAbs_def emptyRedis_def fun_eq_iff drivers.deadlinesOf_def agents.deadlinesOf_def)
  ultimately show ?thesis by metis
qed

end
