(* ===== verification/Proof.thy ===== *)
theory Proof
  imports OrderLifecycle Geo
begin

text \<open>
  Proof of pickup and delivery: \<^verbatim>\<open>ProofService\<close> (\<^verbatim>\<open>modules/delivery/services/proof.service.ts\<close>)
  over \<^verbatim>\<open>ProofRepository\<close>.  One-time codes with an expiry and an attempt limit, the write-once
  pickup photo, and the geofenced arrival at the restaurant; a verified code advances the order
  through \<^term>\<open>updateOrderStatus\<close>.

  Hashing is a parameter: \<open>hash\<close> for \<^verbatim>\<open>bcrypt.hash\<close>, \<open>compare\<close> for \<^verbatim>\<open>bcrypt.compare\<close>.  The random
  number behind a code, the storage upload and the clock are parameters too.  \<open>env\<close> is what other
  requests commit while the handler awaits between its read and its write.
\<close>

section \<open>Constants\<close>

definition OTP_EXPIRY_MINUTES :: int where "OTP_EXPIRY_MINUTES = 10"

definition MAX_ATTEMPTS :: nat where "MAX_ATTEMPTS = 5"

definition ARRIVAL_RADIUS_METERS :: real where "ARRIVAL_RADIUS_METERS = 100"

fun REQUIRED_ORDER_STATUS :: "proofType \<Rightarrow> orderStatus" where
  "REQUIRED_ORDER_STATUS PICKUP = READY_FOR_PICKUP"
| "REQUIRED_ORDER_STATUS DELIVERY = OUT_FOR_DELIVERY"

fun TARGET_ORDER_STATUS :: "proofType \<Rightarrow> orderStatus" where
  "TARGET_ORDER_STATUS PICKUP = OUT_FOR_DELIVERY"
| "TARGET_ORDER_STATUS DELIVERY = DELIVERED"

fun OTP_GENERATED_NOTIFICATION :: "proofType \<Rightarrow> string" where
  "OTP_GENERATED_NOTIFICATION PICKUP = ''PICKUP_OTP_GENERATED''"
| "OTP_GENERATED_NOTIFICATION DELIVERY = ''DELIVERY_OTP_GENERATED''"

fun OTP_VERIFIED_NOTIFICATION :: "proofType \<Rightarrow> string" where
  "OTP_VERIFIED_NOTIFICATION PICKUP = ''PICKUP_VERIFIED''"
| "OTP_VERIFIED_NOTIFICATION DELIVERY = ''DELIVERY_VERIFIED''"

section \<open>Repository\<close>

definition findPhoto :: "string \<Rightarrow> proofType \<Rightarrow> world \<Rightarrow> proofPhoto option" where
  "findPhoto oid ty w = lookup photoKey (oid, ty) (w_photos w)"

text \<open>The unique index on \<^verbatim>\<open>(orderId, type)\<close> makes a second insert fail with P2002.\<close>

definition createPhoto :: "proofPhoto \<Rightarrow> world \<Rightarrow> (world, proofPhoto) outcome" where
  "createPhoto ph w =
     (if lookup photoKey (photoKey ph) (w_photos w) \<noteq> None
      then (Inl (UniqueViolation ''DeliveryProofPhoto''), w)
      else (Inr ph, w\<lparr>w_photos := w_photos w @ [ph]\<rparr>))"

text \<open>The nested relation filter \<^verbatim>\<open>deliveryPartner: { userId }\<close>.\<close>

definition assignmentOfUser :: "string \<Rightarrow> string \<Rightarrow> world \<Rightarrow> assignment \<Rightarrow> bool" where
  "assignmentOfUser oid uid w a \<longleftrightarrow> a_orderId a = oid \<and>
     (case lookup d_id (a_partnerId a) (w_partners w) of None \<Rightarrow> False | Some d \<Rightarrow> d_userId d = uid)"

definition findAcceptedAssignment :: "string \<Rightarrow> string \<Rightarrow> world \<Rightarrow> assignment option" where
  "findAcceptedAssignment oid uid w =
     List.find (\<lambda>a. assignmentOfUser oid uid w a \<and> a_status a = ASG_ACCEPTED) (w_assignments w)"

definition findAssignmentForOrder :: "string \<Rightarrow> string \<Rightarrow> world \<Rightarrow> assignment option" where
  "findAssignmentForOrder oid uid w = findLatest (assignmentOfUser oid uid w) a_assignedAt (w_assignments w)"

definition markArrival :: "int \<Rightarrow> string \<Rightarrow> world \<Rightarrow> (world, assignment) outcome" where
  "markArrival now aid w =
     (let w1 = w\<lparr>w_assignments := modify (\<lambda>a. a_id a = aid \<and> a_arrivedAt a = None)
                   (\<lambda>a. a\<lparr>a_arrivedAt := Some now\<rparr>) (w_assignments w)\<rparr>
      in case lookup a_id aid (w_assignments w1) of
           None \<Rightarrow> (Inl (RecordNotFound ''DeliveryAssignment''), w1)
         | Some a \<Rightarrow> (Inr a, w1))"

definition findOtp :: "string \<Rightarrow> proofType \<Rightarrow> world \<Rightarrow> proofOtp option" where
  "findOtp oid ty w = lookup otpKey (oid, ty) (w_otps w)"

text \<open>\<^verbatim>\<open>update\<close> of the row of one order and type; P2025 when there is none.\<close>

definition updateOtp :: "string \<times> proofType \<Rightarrow> (proofOtp \<Rightarrow> proofOtp) \<Rightarrow> world \<Rightarrow> (world, proofOtp) outcome" where
  "updateOtp k f w =
     (case lookup otpKey k (w_otps w) of
        None \<Rightarrow> (Inl (RecordNotFound ''DeliveryProofOtp''), w)
      | Some v \<Rightarrow> (Inr (f v), w\<lparr>w_otps := modify (\<lambda>v. otpKey v = k) f (w_otps w)\<rparr>))"

definition upsertOtp :: "string \<Rightarrow> proofType \<Rightarrow> string \<Rightarrow> int \<Rightarrow> nat \<Rightarrow> world \<Rightarrow> proofOtp \<times> world" where
  "upsertOtp oid ty otpHash expiresAt maxAttempts w =
     (let v = \<lparr>v_orderId = oid, v_type = ty, v_otpHash = otpHash, v_status = OTP_PENDING, v_attempts = 0,
               v_maxAttempts = maxAttempts, v_expiresAt = expiresAt, v_verifiedAt = None\<rparr>
      in (v, w\<lparr>w_otps :=
            (if lookup otpKey (oid, ty) (w_otps w) = None then w_otps w @ [v]
             else modify (\<lambda>r. otpKey r = (oid, ty)) (\<lambda>_. v) (w_otps w))\<rparr>))"

definition incrementAttempts :: "string \<times> proofType \<Rightarrow> otpStatus option \<Rightarrow> world \<Rightarrow> (world, proofOtp) outcome" where
  "incrementAttempts k st = updateOtp k (\<lambda>v. v\<lparr>v_attempts := v_attempts v + 1,
     v_status := (case st of None \<Rightarrow> v_status v | Some s \<Rightarrow> s)\<rparr>)"

definition markStatus :: "string \<times> proofType \<Rightarrow> otpStatus \<Rightarrow> world \<Rightarrow> (world, proofOtp) outcome" where
  "markStatus k st = updateOtp k (\<lambda>v. v\<lparr>v_status := st\<rparr>)"

definition markVerified :: "int \<Rightarrow> string \<times> proofType \<Rightarrow> world \<Rightarrow> (world, proofOtp) outcome" where
  "markVerified now k = updateOtp k (\<lambda>v. v\<lparr>v_status := OTP_VERIFIED, v_verifiedAt := Some now\<rparr>)"

section \<open>Codes\<close>

definition digitChar :: "nat \<Rightarrow> char" where
  "digitChar d = char_of (48 + d)"

fun decimal :: "nat \<Rightarrow> string" where
  "decimal n = (if n < 10 then [digitChar n] else decimal (n div 10) @ [digitChar (n mod 10)])"

declare decimal.simps [simp del]

definition padStart :: "nat \<Rightarrow> char \<Rightarrow> string \<Rightarrow> string" where
  "padStart n c s = replicate (n - length s) c @ s"

text \<open>\<^verbatim>\<open>randomInt(0, 1_000_000).toString().padStart(6, '0')\<close>.\<close>

definition otpCode :: "nat \<Rightarrow> string" where
  "otpCode n = padStart 6 (CHR ''0'') (decimal n)"

section \<open>Service\<close>

definition assertAssignedPartner :: "order \<Rightarrow> authUser \<Rightarrow> unit result" where
  "assertAssignedPartner ord u =
     (let admin = (role u = ADMIN \<or> role u = SUPER_ADMIN);
          assigned = (role u = DELIVERY_PARTNER \<and> o_deliveryPartnerId ord = Some (userId u))
      in guard (admin \<or> assigned) (Forbidden ''assigned delivery partner only''))"

definition partnerOrder :: "string \<Rightarrow> authUser \<Rightarrow> world \<Rightarrow> order result" where
  "partnerOrder oid u w =
     andThen (getOrderOwnership oid w) (\<lambda>ord. andThen (assertAssignedPartner ord u) (\<lambda>_. Inr ord))"

record otpStatusResponse =
  ps_orderId :: string
  ps_type :: proofType
  ps_status :: otpStatus
  ps_attempts :: nat
  ps_maxAttempts :: nat
  ps_attemptsRemaining :: nat
  ps_expiresAt :: int
  ps_verifiedAt :: "int option"
  ps_orderStatus :: orderStatus

definition toStatusResponse :: "proofOtp \<Rightarrow> orderStatus \<Rightarrow> otpStatusResponse" where
  "toStatusResponse v st = \<lparr>ps_orderId = v_orderId v, ps_type = v_type v, ps_status = v_status v,
     ps_attempts = v_attempts v, ps_maxAttempts = v_maxAttempts v,
     ps_attemptsRemaining = v_maxAttempts v - v_attempts v, ps_expiresAt = v_expiresAt v,
     ps_verifiedAt = v_verifiedAt v, ps_orderStatus = st\<rparr>"

definition getProofStatus :: "string \<Rightarrow> proofType \<Rightarrow> authUser \<Rightarrow> world \<Rightarrow> otpStatusResponse result" where
  "getProofStatus oid ty u w =
     andThen (partnerOrder oid u w) (\<lambda>ord.
       case findOtp oid ty w of
         None \<Rightarrow> Inl (NotFound ''no OTP has been generated'')
       | Some v \<Rightarrow> Inr (toStatusResponse v (o_status ord)))"

text \<open>The upload happens between the duplicate check and the insert; the unique index decides a race.\<close>

definition uploadPickupPhoto ::
  "(world \<Rightarrow> world) \<Rightarrow> string result \<Rightarrow> string \<Rightarrow> authUser \<Rightarrow> world \<Rightarrow> (world, proofPhoto) outcome" where
  "uploadPickupPhoto env upload oid u w =
     (case partnerOrder oid u w of
        Inl e \<Rightarrow> (Inl e, w)
      | Inr ord \<Rightarrow>
          if o_status ord \<noteq> REQUIRED_ORDER_STATUS PICKUP then (Inl (BadRequest ''photo: wrong status''), w)
          else if findPhoto oid PICKUP w \<noteq> None then (Inl (Conflict ''photo already submitted''), w)
          else (case upload of
            Inl e \<Rightarrow> (Inl e, env w)
          | Inr url \<Rightarrow>
              (case createPhoto \<lparr>ph_orderId = oid, ph_type = PICKUP, ph_url = url, ph_uploadedById = userId u\<rparr> (env w) of
                 (Inl (UniqueViolation x), w1) \<Rightarrow> (Inl (Conflict ''photo already submitted''), w1)
               | (Inl e, w1) \<Rightarrow> (Inl e, w1)
               | (Inr ph, w1) \<Rightarrow> (Inr ph, auditLog (Some (userId u)) ''DeliveryProofPhoto'' oid ''CREATE'' w1))))"

definition getPickupPhoto :: "string \<Rightarrow> authUser \<Rightarrow> world \<Rightarrow> proofPhoto result" where
  "getPickupPhoto oid u w =
     andThen (getOrderOwnership oid w) (\<lambda>ord.
     andThen (guard (canAccessOrder w ord u) (Forbidden ''order access'')) (\<lambda>_.
       case findPhoto oid PICKUP w of
         None \<Rightarrow> Inl (NotFound ''no pickup photo'')
       | Some ph \<Rightarrow> Inr ph))"

definition withinArrivalRadius :: "string \<Rightarrow> real \<Rightarrow> real \<Rightarrow> world \<Rightarrow> unit result" where
  "withinArrivalRadius oid latitude longitude w =
     (case findPickupLocation oid w of
        None \<Rightarrow> Inl (BadRequest ''no pickup location'')
      | Some (lat, lng) \<Rightarrow>
          if haversineDistanceKm latitude longitude (of_rat lat) (of_rat lng) * 1000 > ARRIVAL_RADIUS_METERS
          then Inl (BadRequest ''too far from the restaurant'') else Inr ())"

definition markRestaurantArrival ::
  "int \<Rightarrow> (world \<Rightarrow> world) \<Rightarrow> string \<Rightarrow> real \<Rightarrow> real \<Rightarrow> authUser \<Rightarrow> world \<Rightarrow> (world, int option) outcome" where
  "markRestaurantArrival now env oid latitude longitude u w =
     (case partnerOrder oid u w of
        Inl e \<Rightarrow> (Inl e, w)
      | Inr ord \<Rightarrow>
          if o_status ord \<noteq> READY_FOR_PICKUP then (Inl (BadRequest ''arrival: wrong status''), w)
          else (case findAcceptedAssignment oid (userId u) w of
            None \<Rightarrow> (Inl (Forbidden ''no active assignment''), w)
          | Some a \<Rightarrow>
              (case (if a_arrivedAt a = None then withinArrivalRadius oid latitude longitude w else Inr ()) of
                 Inl e \<Rightarrow> (Inl e, w)
               | Inr _ \<Rightarrow>
                   (case markArrival now (a_id a) (env w) of
                      (Inl e, w1) \<Rightarrow> (Inl e, w1)
                    | (Inr a', w1) \<Rightarrow>
                        (Inr (a_arrivedAt a'),
                         enqueue (Notification (o_customerId ord) ''RIDER_ARRIVED_AT_RESTAURANT'')
                           (auditLog (Some (userId u)) ''DeliveryAssignment'' (a_id a') ''UPDATE'' w1))))))"

definition getArrivalStatus :: "string \<Rightarrow> authUser \<Rightarrow> world \<Rightarrow> int option result" where
  "getArrivalStatus oid u w =
     andThen (getOrderOwnership oid w) (\<lambda>ord.
     andThen (guard (canAccessOrder w ord u) (Forbidden ''order access'')) (\<lambda>_.
       Inr (if truthy (o_deliveryPartnerId ord)
            then (case findAssignmentForOrder oid (the (o_deliveryPartnerId ord)) w of
                    None \<Rightarrow> None | Some a \<Rightarrow> a_arrivedAt a)
            else None)))"

definition generate ::
  "int \<Rightarrow> (string \<Rightarrow> string) \<Rightarrow> (world \<Rightarrow> world) \<Rightarrow> nat \<Rightarrow> proofType \<Rightarrow> string \<Rightarrow> authUser \<Rightarrow> world
     \<Rightarrow> (world, proofOtp) outcome" where
  "generate now hash env rnd ty oid u w =
     (case partnerOrder oid u w of
        Inl e \<Rightarrow> (Inl e, w)
      | Inr ord \<Rightarrow>
          if o_status ord \<noteq> REQUIRED_ORDER_STATUS ty then (Inl (BadRequest ''OTP: wrong status''), w)
          else
            (let (v, w1) = upsertOtp oid ty (hash (otpCode rnd)) (now + OTP_EXPIRY_MINUTES * 60000)
                             MAX_ATTEMPTS (env w)
             in (Inr v, enqueue (Notification (o_customerId ord) (OTP_GENERATED_NOTIFICATION ty))
                   (auditLog (Some (userId u)) ''DeliveryProofOtp'' oid ''CREATE'' w1))))"

definition generatePickupOtp ::
  "int \<Rightarrow> (string \<Rightarrow> string) \<Rightarrow> (world \<Rightarrow> world) \<Rightarrow> nat \<Rightarrow> string \<Rightarrow> authUser \<Rightarrow> world
     \<Rightarrow> (world, proofOtp) outcome" where
  "generatePickupOtp now hash env rnd = generate now hash env rnd PICKUP"

definition generateDeliveryOtp ::
  "int \<Rightarrow> (string \<Rightarrow> string) \<Rightarrow> (world \<Rightarrow> world) \<Rightarrow> nat \<Rightarrow> string \<Rightarrow> authUser \<Rightarrow> world
     \<Rightarrow> (world, proofOtp) outcome" where
  "generateDeliveryOtp now hash env rnd = generate now hash env rnd DELIVERY"

text \<open>The checks of \<^verbatim>\<open>verify\<close> up to the comparison: who may verify, the photo gate of a pickup, and
  the state of the code.  Detecting the expiry writes it.\<close>

definition verifyChecks :: "int \<Rightarrow> proofType \<Rightarrow> string \<Rightarrow> authUser \<Rightarrow> world \<Rightarrow> (world, proofOtp) outcome" where
  "verifyChecks now ty oid u w =
     (case partnerOrder oid u w of
        Inl e \<Rightarrow> (Inl e, w)
      | Inr ord \<Rightarrow>
          if ty = PICKUP \<and> findPhoto oid PICKUP w = None then (Inl (Forbidden ''pickup photo required''), w)
          else (case findOtp oid ty w of
            None \<Rightarrow> (Inl (NotFound ''no OTP has been generated''), w)
          | Some v \<Rightarrow>
              if v_status v = OTP_VERIFIED then (Inl (Conflict ''already verified''), w)
              else if v_status v = OTP_EXCEEDED then (Inl (Forbidden ''attempts exceeded''), w)
              else if v_status v = OTP_EXPIRED \<or> v_expiresAt v < now
              then (Inl (BadRequest ''OTP expired''),
                    if v_status v \<noteq> OTP_EXPIRED then snd (markStatus (oid, ty) OTP_EXPIRED w) else w)
              else (Inr v, w)))"

definition verifyMismatch ::
  "proofOtp \<Rightarrow> authUser \<Rightarrow> world \<Rightarrow> (world, otpStatusResponse) outcome" where
  "verifyMismatch v u w =
     (let exceeded = v_attempts v + 1 \<ge> v_maxAttempts v
      in case incrementAttempts (otpKey v) (if exceeded then Some OTP_EXCEEDED else None) w of
           (Inl e, w1) \<Rightarrow> (Inl e, w1)
         | (Inr v', w1) \<Rightarrow>
             (Inl (if exceeded then Forbidden ''attempts exceeded'' else BadRequest ''incorrect code''),
              auditLog (Some (userId u)) ''DeliveryProofOtp'' (v_orderId v) ''REJECT'' w1))"

definition verifyMatch ::
  "int \<Rightarrow> (world \<Rightarrow> world) \<Rightarrow> refundCtx \<Rightarrow> proofType \<Rightarrow> string \<Rightarrow> authUser \<Rightarrow> world
     \<Rightarrow> (world, otpStatusResponse) outcome" where
  "verifyMatch now env rx ty oid u w =
     (case markVerified now (oid, ty) w of
        (Inl e, w1) \<Rightarrow> (Inl e, w1)
      | (Inr _, w1) \<Rightarrow>
          (case updateOrderStatus now env rx oid (TARGET_ORDER_STATUS ty) None u
                  (auditLog (Some (userId u)) ''DeliveryProofOtp'' oid ''APPROVE'' w1) of
             (Inl e, w2) \<Rightarrow> (Inl e, w2)
           | (Inr upd, w2) \<Rightarrow>
               (let w3 = enqueue (Notification (userId u) (OTP_VERIFIED_NOTIFICATION ty)) w2
                in case findOtp oid ty w3 of
                     None \<Rightarrow> (Inl (RecordNotFound ''DeliveryProofOtp''), w3)
                   | Some v \<Rightarrow> (Inr (toStatusResponse v (o_status upd)), w3))))"

definition verify ::
  "int \<Rightarrow> (string \<Rightarrow> string \<Rightarrow> bool) \<Rightarrow> (world \<Rightarrow> world) \<Rightarrow> (world \<Rightarrow> world) \<Rightarrow> refundCtx \<Rightarrow> proofType
     \<Rightarrow> string \<Rightarrow> string \<Rightarrow> authUser \<Rightarrow> world \<Rightarrow> (world, otpStatusResponse) outcome" where
  "verify now compare env env2 rx ty oid code u w =
     (case verifyChecks now ty oid u w of
        (Inl e, w1) \<Rightarrow> (Inl e, w1)
      | (Inr v, w1) \<Rightarrow>
          if compare code (v_otpHash v) then verifyMatch now env2 rx ty oid u (env w1)
          else verifyMismatch v u (env w1))"

definition verifyPickupOtp ::
  "int \<Rightarrow> (string \<Rightarrow> string \<Rightarrow> bool) \<Rightarrow> (world \<Rightarrow> world) \<Rightarrow> (world \<Rightarrow> world) \<Rightarrow> refundCtx
     \<Rightarrow> string \<Rightarrow> string \<Rightarrow> authUser \<Rightarrow> world \<Rightarrow> (world, otpStatusResponse) outcome" where
  "verifyPickupOtp now compare env env2 rx = verify now compare env env2 rx PICKUP"

definition verifyDeliveryOtp ::
  "int \<Rightarrow> (string \<Rightarrow> string \<Rightarrow> bool) \<Rightarrow> (world \<Rightarrow> world) \<Rightarrow> (world \<Rightarrow> world) \<Rightarrow> refundCtx
     \<Rightarrow> string \<Rightarrow> string \<Rightarrow> authUser \<Rightarrow> world \<Rightarrow> (world, otpStatusResponse) outcome" where
  "verifyDeliveryOtp now compare env env2 rx = verify now compare env env2 rx DELIVERY"

section \<open>Frames\<close>

lemma release_proofs [simp]:
  "w_otps (releasePartnerFromDelivery p oid w) = w_otps w"
  "w_photos (releasePartnerFromDelivery p oid w) = w_photos w"
  by (simp_all add: releasePartnerFromDelivery_def releaseFromDelivery_def Let_def split: option.split)

lemma statusRow_proofs [simp]:
  "w_otps (updateOrderStatusRow now oid st w) = w_otps w"
  "w_photos (updateOrderStatusRow now oid st w) = w_photos w"
  by (simp_all add: updateOrderStatusRow_def updateOrderRow_def)

lemma after_target_proofs [simp]:
  "w_otps (afterStatusWrite now rx ord upd (TARGET_ORDER_STATUS ty) reason u w) = w_otps w"
  "w_photos (afterStatusWrite now rx ord upd (TARGET_ORDER_STATUS ty) reason u w) = w_photos w"
  by (cases ty; simp add: afterStatusWrite_def createStatusHistory_def recordDeliveryTiming_def Let_def
      split: option.split)+

lemma advance_proofs:
  "w_otps (snd (updateOrderStatus now env rx oid (TARGET_ORDER_STATUS ty) reason u w)) =
     w_otps (if ok (updateGuards oid (TARGET_ORDER_STATUS ty) u w) then env w else w)"
  "w_photos (snd (updateOrderStatus now env rx oid (TARGET_ORDER_STATUS ty) reason u w)) =
     w_photos (if ok (updateGuards oid (TARGET_ORDER_STATUS ty) u w) then env w else w)"
  by (cases "updateGuards oid (TARGET_ORDER_STATUS ty) u w";
      auto simp: updateOrderStatus_def Let_def split: option.split)+

lemma partnerOrder_iff:
  "partnerOrder oid u w = Inr ord \<longleftrightarrow> findOrderById oid w = Some ord \<and>
     (role u \<in> {ADMIN, SUPER_ADMIN} \<or> role u = DELIVERY_PARTNER \<and> o_deliveryPartnerId ord = Some (userId u))"
  by (auto simp: partnerOrder_def andThen_Inr_iff getOrderOwnership_def assertAssignedPartner_def Let_def
      split: option.splits)

lemma checks_iff:
  "verifyChecks now ty oid u w = (Inr v, w1) \<longleftrightarrow> w1 = w \<and> ok (partnerOrder oid u w) \<and>
     (ty = PICKUP \<longrightarrow> photoUploaded w oid PICKUP) \<and> findOtp oid ty w = Some v \<and> v_status v = OTP_PENDING \<and>
     now \<le> v_expiresAt v"
proof -
  have "v_status v = OTP_PENDING \<longleftrightarrow> v_status v \<noteq> OTP_VERIFIED \<and> v_status v \<noteq> OTP_EXCEEDED \<and> v_status v \<noteq> OTP_EXPIRED" for v
    by (cases "v_status v") auto
  then show ?thesis
    by (cases "partnerOrder oid u w")
      (auto simp: verifyChecks_def photoUploaded_def findPhoto_def split: option.splits if_splits)
qed

lemma findOtp_key: "findOtp oid ty w = Some v \<Longrightarrow> otpKey v = (oid, ty)"
  by (auto simp: findOtp_def dest: lookup_key)

lemma updateOtp_hit:
  assumes "findOtp oid ty w = Some v" and "otpKey (f v) = (oid, ty)"
  shows "\<exists>w1. updateOtp (oid, ty) f w = (Inr (f v), w1) \<and> findOtp oid ty w1 = Some (f v) \<and>
    w_orders w1 = w_orders w \<and> w_photos w1 = w_photos w"
proof -
  have "lookup otpKey k (modify (\<lambda>v. otpKey v = k) f rows) = Some (f v)"
    if "lookup otpKey k rows = Some v" and "otpKey (f v) = k" for k rows
    using that by (induction rows) (auto split: if_splits)
  then show ?thesis using assms by (auto simp: updateOtp_def findOtp_def)
qed

section \<open>A code is six digits and names its number\<close>

fun readDecimal :: "nat \<Rightarrow> string \<Rightarrow> nat" where
  "readDecimal acc [] = acc"
| "readDecimal acc (c # cs) = readDecimal (acc * 10 + (of_char c - 48)) cs"

lemma readDecimal_append: "readDecimal acc (xs @ ys) = readDecimal (readDecimal acc xs) ys"
  by (induction xs arbitrary: acc) auto

lemma digit_value: "d < 10 \<Longrightarrow> of_char (digitChar d) - 48 = d"
  by (simp add: digitChar_def)

lemma decimal_small: "n < 10 \<Longrightarrow> decimal n = [digitChar n]"
  by (subst decimal.simps) simp

lemma read_decimal: "readDecimal 0 (decimal n) = n"
proof (induction n rule: decimal.induct)
  case (1 n)
  show ?case
  proof (cases "n < 10")
    case False
    then have "readDecimal 0 (decimal n) = readDecimal 0 (decimal (n div 10)) * 10 + (of_char (digitChar (n mod 10)) - 48)"
      by (subst decimal.simps) (simp add: readDecimal_append)
    then show ?thesis using 1[OF False] digit_value[of "n mod 10"] by simp
  qed (simp add: decimal_small digit_value)
qed

lemma decimal_length: "0 < k \<Longrightarrow> n < 10 ^ k \<Longrightarrow> length (decimal n) \<le> k"
proof (induction n arbitrary: k rule: decimal.induct)
  case (1 n)
  show ?case
  proof (cases "n < 10")
    case False
    then have k: "k \<noteq> 1" using 1 by auto
    then have "n div 10 < 10 ^ (k - 1)" "0 < k - 1"
      using 1 by (auto simp: div_less_iff_less_mult power_eq_if)
    then have "length (decimal (n div 10)) \<le> k - 1" using 1(1)[OF False] by blast
    then show ?thesis using 1(2) False by (subst decimal.simps) simp
  qed (use 1 in \<open>simp add: decimal_small\<close>)
qed

lemma decimal_digits: "c \<in> set (decimal n) \<Longrightarrow> \<exists>d < 10. c = digitChar d"
proof (induction n rule: decimal.induct)
  case (1 n)
  show ?case
  proof (cases "n < 10")
    case False
    then have "c \<in> set (decimal (n div 10)) \<or> c = digitChar (n mod 10)" using 1(2) by (subst (asm) decimal.simps) auto
    moreover have "n mod 10 < 10" by simp
    ultimately show ?thesis using 1(1)[OF False] by blast
  qed (use 1 in \<open>auto simp: decimal_small\<close>)
qed

lemma otpCode_length: "n < 1000000 \<Longrightarrow> length (otpCode n) = 6"
proof -
  assume "n < 1000000"
  then have "length (decimal n) \<le> 6" by (intro decimal_length) simp_all
  then show ?thesis unfolding otpCode_def padStart_def length_append length_replicate by (rule le_add_diff_inverse2)
qed

lemma read_otpCode: "readDecimal 0 (otpCode n) = n"
proof -
  have "readDecimal 0 (replicate k (CHR ''0'')) = 0" for k
    by (induction k) (simp_all add: replicate_append_same[symmetric] readDecimal_append)
  then show ?thesis by (simp add: otpCode_def padStart_def readDecimal_append read_decimal)
qed

lemma otpCode_inj: "otpCode m = otpCode n \<longleftrightarrow> m = n"
  by (metis read_otpCode)

end
