(* ===== verification/ProofSafety.thy ===== *)
theory ProofSafety
  imports Proof
begin

text \<open>
  What the delivery-proof service guarantees: the shape of its rows along any sequential use, the
  round trip of a code, what a successful verification means, and what concurrent guesses break.
\<close>

section \<open>Well-formed rows\<close>

definition otpOk :: "proofOtp \<Rightarrow> bool" where
  "otpOk v \<longleftrightarrow> v_attempts v \<le> MAX_ATTEMPTS \<and> v_maxAttempts v = MAX_ATTEMPTS \<and>
     (v_status v = OTP_EXCEEDED \<longleftrightarrow> v_attempts v = MAX_ATTEMPTS) \<and>
     (v_status v = OTP_VERIFIED \<longleftrightarrow> v_verifiedAt v \<noteq> None)"

definition proof_inv :: "world \<Rightarrow> bool" where
  "proof_inv w \<longleftrightarrow> keyed otpKey (w_otps w) \<and> (\<forall>v \<in> set (w_otps w). otpOk v) \<and>
     keyed photoKey (w_photos w) \<and> (\<forall>ph \<in> set (w_photos w). ph_type ph = PICKUP)"

lemma proof_inv_cong: "w_otps w = w_otps w' \<Longrightarrow> w_photos w = w_photos w' \<Longrightarrow> proof_inv w = proof_inv w'"
  by (simp add: proof_inv_def)

lemma proof_inv_logs [simp]:
  "proof_inv (enqueue j w) = proof_inv w" "proof_inv (auditLog a en i ac w) = proof_inv w"
  by (simp_all add: proof_inv_def)

lemma updateOtp_photos [simp]: "w_photos (snd (updateOtp k f w)) = w_photos w"
  by (simp add: updateOtp_def split: option.split)

lemma updateOtp_inv:
  assumes "proof_inv w" and "\<And>v. otpKey (f v) = otpKey v"
    and "\<And>v. lookup otpKey k (w_otps w) = Some v \<Longrightarrow> otpOk v \<Longrightarrow> otpOk (f v)"
  shows "proof_inv (snd (updateOtp k f w))"
proof -
  have "otpOk (f v)" if "v \<in> set (w_otps w)" "otpKey v = k" for v
    using that assms(1,3) lookup_keyed[of otpKey "w_otps w" v] by (auto simp: proof_inv_def)
  then show ?thesis
    using assms(1,2) by (auto simp: proof_inv_def updateOtp_def set_modify split: option.split)
qed

lemma keyed_modify_at:
  "(\<And>r. p r \<Longrightarrow> key (f r) = key r) \<Longrightarrow> keyed key (modify p f rows) = keyed key rows"
proof -
  assume "\<And>r. p r \<Longrightarrow> key (f r) = key r"
  then have "map key (modify p f rows) = map key rows" by (induction rows) auto
  then show ?thesis by (simp add: keyed_def)
qed

lemma upsert_inv:
  assumes "proof_inv w"
  shows "proof_inv (snd (upsertOtp oid ty h e MAX_ATTEMPTS w))"
proof -
  obtain v where v: "v = \<lparr>v_orderId = oid, v_type = ty, v_otpHash = h, v_status = OTP_PENDING, v_attempts = 0,
    v_maxAttempts = MAX_ATTEMPTS, v_expiresAt = e, v_verifiedAt = None\<rparr>" by simp
  then have key: "otpKey v = (oid, ty)" and okv: "otpOk v"
    by (simp_all add: otpKey_def otpOk_def MAX_ATTEMPTS_def)
  have w: "snd (upsertOtp oid ty h e MAX_ATTEMPTS w) = w\<lparr>w_otps := (if lookup otpKey (oid, ty) (w_otps w) = None
      then w_otps w @ [v] else modify (\<lambda>r. otpKey r = (oid, ty)) (\<lambda>_. v) (w_otps w))\<rparr>"
    by (simp add: upsertOtp_def v Let_def)
  have "keyed otpKey (modify (\<lambda>r. otpKey r = (oid, ty)) (\<lambda>_. v) (w_otps w)) = keyed otpKey (w_otps w)"
    using key by (intro keyed_modify_at) simp
  then show ?thesis
    unfolding w using assms key okv
    by (auto simp: proof_inv_def keyed_snoc set_modify lookup_None_iff)
qed

section \<open>Steps\<close>

inductive proofStep :: "world \<Rightarrow> world \<Rightarrow> bool" where
  generate: "proofStep w (snd (generate now hash id rnd ty oid u w))"
| verify: "proofStep w (snd (verify now compare id id rx ty oid code u w))"
| photo: "proofStep w (snd (uploadPickupPhoto id upload oid u w))"
| arrival: "proofStep w (snd (markRestaurantArrival now id oid lat lng u w))"
| other: "w_otps w' = w_otps w \<Longrightarrow> w_photos w' = w_photos w \<Longrightarrow> proofStep w w'"

lemma generate_inv:
  assumes "proof_inv w"
  shows "proof_inv (snd (generate now hash id rnd ty oid u w))"
proof (cases "partnerOrder oid u w")
  case (Inr ord)
  obtain v w1 where up: "upsertOtp oid ty (hash (otpCode rnd)) (now + OTP_EXPIRY_MINUTES * 60000) MAX_ATTEMPTS w = (v, w1)"
    by fastforce
  then have "proof_inv w1" using upsert_inv[OF assms, of oid ty "hash (otpCode rnd)"] by (metis snd_conv)
  then show ?thesis using assms Inr up by (simp add: generate_def)
qed (use assms in \<open>simp add: generate_def\<close>)

lemma checks_inv:
  assumes "proof_inv w"
  shows "proof_inv (snd (verifyChecks now ty oid u w))"
proof -
  have "proof_inv (snd (markStatus (oid, ty) OTP_EXPIRED w))"
    if "findOtp oid ty w = Some v" "v_status v \<noteq> OTP_EXCEEDED" "v_status v \<noteq> OTP_VERIFIED" for v
    unfolding markStatus_def
    using that by (intro updateOtp_inv[OF assms]) (auto simp: otpKey_def otpOk_def findOtp_def)
  then show ?thesis
    using assms by (auto simp: verifyChecks_def split: sum.split option.split)
qed

lemma mismatch_inv:
  assumes "proof_inv w" and "findOtp oid ty w = Some v" and "v_status v = OTP_PENDING"
  shows "proof_inv (snd (verifyMismatch v u w))"
proof -
  have k: "otpKey v = (oid, ty)" using assms(2) by (rule findOtp_key)
  have v: "otpOk v" using assms(1,2) by (auto simp: proof_inv_def findOtp_def)
  let ?st = "if v_attempts v + 1 \<ge> v_maxAttempts v then Some OTP_EXCEEDED else None"
  have "proof_inv (snd (incrementAttempts (otpKey v) ?st w))"
    unfolding incrementAttempts_def
    using assms(2,3) k v
    by (intro updateOtp_inv[OF assms(1)]) (auto simp: otpKey_def otpOk_def findOtp_def)
  then show ?thesis
    by (auto simp: verifyMismatch_def Let_def split: prod.split sum.split)
qed

lemma match_inv:
  assumes "proof_inv w" and "findOtp oid ty w = Some v" and "v_status v = OTP_PENDING"
  shows "proof_inv (snd (verifyMatch now id rx ty oid u w))"
proof -
  have "proof_inv (snd (markVerified now (oid, ty) w))"
    unfolding markVerified_def
    using assms(2,3) by (intro updateOtp_inv[OF assms(1)]) (auto simp: otpKey_def otpOk_def findOtp_def)
  moreover have "proof_inv (snd (updateOrderStatus now id rx oid (TARGET_ORDER_STATUS ty) None u
      (auditLog a en i ac w1))) = proof_inv w1" for a en i ac w1
    by (rule proof_inv_cong) (simp_all add: advance_proofs)
  ultimately show ?thesis
    by (fastforce simp: verifyMatch_def Let_def split: prod.split sum.split option.split
        dest: arg_cong[where f = snd])
qed

lemma verify_inv:
  assumes "proof_inv w"
  shows "proof_inv (snd (verify now compare id id rx ty oid code u w))"
proof (cases "verifyChecks now ty oid u w")
  case (Pair r w1)
  show ?thesis
  proof (cases r)
    case (Inl e)
    then show ?thesis using checks_inv[OF assms, of now ty oid u] Pair by (simp add: verify_def)
  next
    case (Inr v)
    then have "w1 = w" "findOtp oid ty w = Some v" "v_status v = OTP_PENDING"
      using Pair by (simp_all add: checks_iff)
    then show ?thesis
      using Pair Inr mismatch_inv[OF assms, of oid ty v u] match_inv[OF assms, of oid ty v now rx u]
      by (simp add: verify_def)
  qed
qed

lemma insert_photo_inv:
  assumes "proof_inv w" and "findPhoto oid PICKUP w = None"
  shows "proof_inv (w\<lparr>w_photos := w_photos w @ [\<lparr>ph_orderId = oid, ph_type = PICKUP, ph_url = url, ph_uploadedById = uid\<rparr>]\<rparr>)"
  using assms by (auto simp: proof_inv_def keyed_snoc lookup_None_iff findPhoto_def photoKey_def)

lemma photo_inv:
  assumes "proof_inv w"
  shows "proof_inv (snd (uploadPickupPhoto id upload oid u w))"
  using assms insert_photo_inv[OF assms, of oid]
  by (auto simp: uploadPickupPhoto_def createPhoto_def split: sum.split)

lemma arrival_tables:
  "w_otps (snd (markRestaurantArrival now id oid lat lng u w)) = w_otps w"
  "w_photos (snd (markRestaurantArrival now id oid lat lng u w)) = w_photos w"
  by (auto simp: markRestaurantArrival_def markArrival_def Let_def split: sum.split option.split)

lemma proofStep_inv: "proofStep w w' \<Longrightarrow> proof_inv w \<Longrightarrow> proof_inv w'"
proof (induction rule: proofStep.induct)
  case (arrival w now oid lat lng u)
  then show ?case using proof_inv_cong[of w "snd (markRestaurantArrival now id oid lat lng u w)"] by (simp add: arrival_tables)
next
  case (other w' w)
  then show ?case using proof_inv_cong[of w w'] by simp
qed (simp_all add: generate_inv verify_inv photo_inv)


section \<open>Properties\<close>

lemma found_after_update:
  assumes "findOtp oid ty w = Some v" and "otpKey (f v) = (oid, ty)"
  shows "findOtp oid ty (snd (updateOtp (oid, ty) f w)) = Some (f v)"
  using updateOtp_hit[of oid ty w v f, OF assms] by auto

lemma found_cong: "w_otps w = w_otps w' \<Longrightarrow> findOtp oid ty w = findOtp oid ty w'"
  by (simp add: findOtp_def)

text \<open>
  A code row is always in one of four consistent states.  Along any sequence of generating,
  verifying, uploading a photo, marking arrival and steps of other services, run one after the
  other, a stored code has at most five attempts, is locked exactly when it has used all five,
  carries a verification time exactly when it is verified, and there is one row per order and type.
\<close>
theorem otp_rows_well_formed:
  assumes "proofStep\<^sup>*\<^sup>* w w'" and "proof_inv w" and "findOtp oid ty w' = Some v"
  shows "v_attempts v \<le> 5 \<and> (v_status v = OTP_EXCEEDED \<longleftrightarrow> v_attempts v = 5) \<and>
    (v_status v = OTP_VERIFIED \<longleftrightarrow> v_verifiedAt v \<noteq> None) \<and> keyed otpKey (w_otps w')"
proof -
  have "proof_inv w'" using assms(1,2) by (induction rule: rtranclp_induct) (auto intro: proofStep_inv)
  then have "otpOk v" "keyed otpKey (w_otps w')" using assms(3) by (auto simp: proof_inv_def findOtp_def)
  then show ?thesis by (auto simp: otpOk_def MAX_ATTEMPTS_def)
qed

text \<open>What the target status asks for, read back to the order's current status.\<close>

lemma target_from: "TARGET_ORDER_STATUS ty \<in> set (ORDER_STATUS_TRANSITIONS s) \<longleftrightarrow> s = REQUIRED_ORDER_STATUS ty"
  by (cases ty; cases s; simp)

lemma rider_advance_guards:
  assumes "findOrderById oid w = Some ord" and "o_status ord = REQUIRED_ORDER_STATUS ty"
    and "role u \<in> {ADMIN, SUPER_ADMIN} \<or> role u = DELIVERY_PARTNER \<and> o_deliveryPartnerId ord = Some (userId u)"
    and "otpVerified w oid ty" and "ty = PICKUP \<Longrightarrow> photoUploaded w oid PICKUP"
  shows "updateGuards oid (TARGET_ORDER_STATUS ty) u w = Inr ord"
  using assms
  by (cases ty) (auto simp: guards_iff actor_allowed_iff payment_eligible_iff proof_verified_iff photo_verified_iff
      canAccessOrder_def isAdmin_def)

lemma updateOrderStatus_ok:
  assumes "updateGuards oid st u w = Inr ord"
  shows "\<exists>upd w'. updateOrderStatus now id rx oid st reason u w = (Inr upd, w') \<and> o_status upd = st"
proof -
  have "findOrderById oid w = Some ord" using assms by (simp add: guards_iff)
  from found_after_statusRow[OF this, of now st] show ?thesis using assms by (auto simp: updateOrderStatus_def Let_def)
qed

lemma match_ok:
  assumes "findOtp oid ty w = Some v" and "findOrderById oid w = Some ord" and "o_status ord = REQUIRED_ORDER_STATUS ty"
    and "role u \<in> {ADMIN, SUPER_ADMIN} \<or> role u = DELIVERY_PARTNER \<and> o_deliveryPartnerId ord = Some (userId u)"
    and "ty = PICKUP \<Longrightarrow> photoUploaded w oid PICKUP"
  shows "\<exists>w'. verifyMatch now id rx ty oid u w =
    (Inr (toStatusResponse (v\<lparr>v_status := OTP_VERIFIED, v_verifiedAt := Some now\<rparr>) (TARGET_ORDER_STATUS ty)), w')"
proof -
  let ?f = "\<lambda>v. v\<lparr>v_status := OTP_VERIFIED, v_verifiedAt := Some now\<rparr>"
  have "otpKey (?f v) = (oid, ty)" using findOtp_key[OF assms(1)] by (simp add: otpKey_def)
  from updateOtp_hit[of oid ty w v ?f, OF assms(1) this] obtain w1 where
    w1: "updateOtp (oid, ty) ?f w = (Inr (?f v), w1)" "findOtp oid ty w1 = Some (?f v)"
      "w_orders w1 = w_orders w" "w_photos w1 = w_photos w" by auto
  let ?w2 = "auditLog (Some (userId u)) ''DeliveryProofOtp'' oid ''APPROVE'' w1"
  have f2: "findOtp oid ty ?w2 = Some (?f v)" using w1(2) by (simp add: findOtp_def)
  have "updateGuards oid (TARGET_ORDER_STATUS ty) u ?w2 = Inr ord"
    using assms(2-5) w1(3,4) f2
    by (intro rider_advance_guards) (auto simp: findOrderById_def otpVerified_def photoUploaded_def findOtp_def)
  from updateOrderStatus_ok[OF this, of now rx None] obtain upd w3 where
    up: "updateOrderStatus now id rx oid (TARGET_ORDER_STATUS ty) None u ?w2 = (Inr upd, w3)"
      "o_status upd = TARGET_ORDER_STATUS ty" by blast
  have "w_otps w3 = w_otps ?w2"
    using advance_proofs(1)[of now id rx oid ty None u ?w2] up(1) by simp
  then have "findOtp oid ty w3 = Some (?f v)" using f2 by (simp add: findOtp_def)
  then show ?thesis using w1(1) up by (simp add: verifyMatch_def markVerified_def findOtp_def)
qed

lemma upsert_found:
  "findOtp oid ty (snd (upsertOtp oid ty h e m w)) = Some (fst (upsertOtp oid ty h e m w))"
proof -
  let ?v = "fst (upsertOtp oid ty h e m w)"
  have key: "otpKey ?v = (oid, ty)" by (simp add: upsertOtp_def Let_def otpKey_def)
  have "lookup otpKey k (modify (\<lambda>r. otpKey r = k) (\<lambda>_. x) rows) = Some x"
    if "otpKey x = k" "lookup otpKey k rows \<noteq> None" for k x rows
    using that by (induction rows) (auto split: if_splits)
  then show ?thesis
    using key by (simp add: upsertOtp_def Let_def findOtp_def lookup_append)
qed

lemma generate_found:
  assumes "generate now hash id rnd ty oid u w = (Inr v, w1)"
  shows "findOtp oid ty w1 = Some v \<and> v_status v = OTP_PENDING \<and> v_otpHash v = hash (otpCode rnd) \<and>
    v_expiresAt v = now + 600000 \<and> w_orders w1 = w_orders w \<and> w_photos w1 = w_photos w"
proof -
  obtain x w2 where up: "upsertOtp oid ty (hash (otpCode rnd)) (now + OTP_EXPIRY_MINUTES * 60000) MAX_ATTEMPTS w = (x, w2)"
    by fastforce
  then have x: "findOtp oid ty w2 = Some x" "v_status x = OTP_PENDING" "v_otpHash x = hash (otpCode rnd)"
    "v_expiresAt x = now + 600000" "w_orders w2 = w_orders w" "w_photos w2 = w_photos w"
    using upsert_found[of oid ty "hash (otpCode rnd)" "now + OTP_EXPIRY_MINUTES * 60000" MAX_ATTEMPTS w]
    by (auto simp: upsertOtp_def Let_def OTP_EXPIRY_MINUTES_def)
  then show ?thesis
    using assms up by (auto simp: generate_def findOtp_def split: sum.splits if_splits)
qed

lemma after_target_orders [simp]:
  "w_orders (afterStatusWrite now rx ord upd (TARGET_ORDER_STATUS ty) reason u w) = w_orders w"
  by (cases ty; simp add: afterStatusWrite_def createStatusHistory_def recordDeliveryTiming_def
      releasePartnerFromDelivery_def releaseFromDelivery_def Let_def split: option.split)

lemma updateOrderStatus_cell:
  assumes "updateOrderStatus now id rx oid (TARGET_ORDER_STATUS ty) reason u w = (Inr upd, w')"
  shows "o_status upd = TARGET_ORDER_STATUS ty \<and> orderStatusCell w' oid = Some (TARGET_ORDER_STATUS ty) \<and>
    ok (updateGuards oid (TARGET_ORDER_STATUS ty) u w)"
proof -
  obtain ord where g: "updateGuards oid (TARGET_ORDER_STATUS ty) u w = Inr ord"
    using assms by (cases "updateGuards oid (TARGET_ORDER_STATUS ty) u w") (auto simp: updateOrderStatus_def)
  then have o: "findOrderById oid w = Some ord" by (simp add: guards_iff)
  note f = found_after_statusRow[OF o, of now "TARGET_ORDER_STATUS ty"]
  show ?thesis
    using assms f g by (auto simp: updateOrderStatus_def Let_def orderStatusCell_def findOrderById_def)
qed

text \<open>Everything a successful verification without interference tells.\<close>

lemma verify_facts:
  assumes "verify now compare id id rx ty oid code u w = (Inr resp, w')"
  shows "\<exists>ord v. findOrderById oid w = Some ord \<and> o_status ord = REQUIRED_ORDER_STATUS ty \<and>
    (role u \<in> {ADMIN, SUPER_ADMIN} \<or> role u = DELIVERY_PARTNER \<and> o_deliveryPartnerId ord = Some (userId u)) \<and>
    findOtp oid ty w = Some v \<and> v_status v = OTP_PENDING \<and> now \<le> v_expiresAt v \<and> compare code (v_otpHash v) \<and>
    (ty = PICKUP \<longrightarrow> photoUploaded w oid PICKUP) \<and> orderStatusCell w' oid = Some (TARGET_ORDER_STATUS ty) \<and>
    findOtp oid ty w' = Some (v\<lparr>v_status := OTP_VERIFIED, v_verifiedAt := Some now\<rparr>)"
proof -
  obtain v where c: "verifyChecks now ty oid u w = (Inr v, w)"
    using assms by (auto simp: verify_def checks_iff split: prod.splits sum.splits)
  have cmp: "compare code (v_otpHash v)"
    using assms c by (auto simp: verify_def verifyMismatch_def Let_def split: if_splits prod.splits sum.splits)
  let ?log = "auditLog (Some (userId u)) ''DeliveryProofOtp'' oid ''APPROVE''"
  obtain x w1 upd w2 where m: "markVerified now (oid, ty) w = (Inr x, w1)"
    and up: "updateOrderStatus now id rx oid (TARGET_ORDER_STATUS ty) None u (?log w1) = (Inr upd, w2)"
    and w': "w' = enqueue (Notification (userId u) (OTP_VERIFIED_NOTIFICATION ty)) w2"
    using assms c cmp by (auto simp: verify_def verifyMatch_def Let_def split: prod.splits sum.splits option.splits)
  have same: "w_orders w1 = w_orders w" using m by (auto simp: markVerified_def updateOtp_def split: option.splits)
  note u = updateOrderStatus_cell[OF up]
  then obtain ord where g: "updateGuards oid (TARGET_ORDER_STATUS ty) u (?log w1) = Inr ord" by (auto simp: ok_iff)
  then have "findOrderById oid w = Some ord" "o_status ord = REQUIRED_ORDER_STATUS ty"
    using same by (auto simp: guards_iff findOrderById_def target_from)
  moreover have "orderStatusCell w' oid = Some (TARGET_ORDER_STATUS ty)"
    using u w' by (simp add: orderStatusCell_def)
  moreover have "w_otps w2 = w_otps w1" using advance_proofs(1)[of now id rx oid ty None u "?log w1"] up by simp
  then have same2: "findOtp oid ty w' = findOtp oid ty w1" using w' by (simp add: findOtp_def)
  have fo: "findOtp oid ty w = Some v" using c by (simp add: checks_iff)
  have "otpKey (v\<lparr>v_status := OTP_VERIFIED, v_verifiedAt := Some now\<rparr>) = (oid, ty)"
    using findOtp_key[OF fo] by (simp add: otpKey_def)
  from found_after_update[of oid ty w v "\<lambda>v. v\<lparr>v_status := OTP_VERIFIED, v_verifiedAt := Some now\<rparr>", OF fo this] m same2
  have "findOtp oid ty w' = Some (v\<lparr>v_status := OTP_VERIFIED, v_verifiedAt := Some now\<rparr>)"
    by (simp add: markVerified_def)
  ultimately show ?thesis using c cmp by (auto simp: checks_iff ok_iff partnerOrder_iff)
qed

text \<open>
  C27. A generated code verifies.  If a rider or an admin generates a code and presents the same
  code at most ten minutes later, with no other request in between, with the pickup photo on file
  for a pickup, and hashing satisfies its round trip for that code, then the verification
  succeeds, the order row is in the status the proof stands for, the code's row is VERIFIED with
  the time of the call, and the response reports both.
\<close>
theorem otp_roundtrip:
  assumes "generate now hash id rnd ty oid u w = (Inr v, w1)" and "compare (otpCode rnd) (hash (otpCode rnd))"
    and "t \<le> now + 600000" and "ty = PICKUP \<Longrightarrow> photoUploaded w oid PICKUP"
  shows "\<exists>resp w2. verify t compare id id rx ty oid (otpCode rnd) u w1 = (Inr resp, w2) \<and>
    orderStatusCell w2 oid = Some (TARGET_ORDER_STATUS ty) \<and>
    findOtp oid ty w2 = Some (v\<lparr>v_status := OTP_VERIFIED, v_verifiedAt := Some t\<rparr>) \<and>
    ps_status resp = OTP_VERIFIED \<and> ps_orderStatus resp = TARGET_ORDER_STATUS ty"
proof -
  note g = generate_found[OF assms(1)]
  obtain ord where ord: "partnerOrder oid u w = Inr ord" "o_status ord = REQUIRED_ORDER_STATUS ty"
    using assms(1) by (auto simp: generate_def split: sum.splits if_splits)
  have same: "partnerOrder oid u w1 = Inr ord" "findOrderById oid w1 = Some ord"
    using ord(1) g by (auto simp: partnerOrder_iff findOrderById_def)
  have "verifyChecks t ty oid u w1 = (Inr v, w1)"
    using same g assms(3,4) by (auto simp: checks_iff ok_iff photoUploaded_def)
  moreover have "\<exists>w'. verifyMatch t id rx ty oid u w1 =
      (Inr (toStatusResponse (v\<lparr>v_status := OTP_VERIFIED, v_verifiedAt := Some t\<rparr>) (TARGET_ORDER_STATUS ty)), w')"
    using same g ord assms(4) by (intro match_ok) (auto simp: partnerOrder_iff photoUploaded_def)
  ultimately obtain resp w2 where run: "verify t compare id id rx ty oid (otpCode rnd) u w1 = (Inr resp, w2)"
    and resp: "ps_status resp = OTP_VERIFIED" "ps_orderStatus resp = TARGET_ORDER_STATUS ty"
    using assms(2) g by (auto simp: verify_def toStatusResponse_def)
  from verify_facts[OF run] g resp run show ?thesis by auto
qed

text \<open>
  C28. A verification that succeeds was entitled to.  When no other request interferes, success
  means that the caller is an admin or the order's rider, the order was in the status the proof
  requires, the stored code was pending and unexpired and matches, the photo is on file for a
  pickup, and afterwards the order is in the target status and the code's row is VERIFIED at the
  time of the call.  The attempt counter is not read on this path: a pending code has attempts left
  as long as its rows are well formed, which concurrent guesses can break.
\<close>
theorem verify_sound:
  assumes "verify now compare id id rx ty oid code u w = (Inr resp, w')"
  shows "\<exists>ord v. findOrderById oid w = Some ord \<and> o_status ord = REQUIRED_ORDER_STATUS ty \<and>
    (role u \<in> {ADMIN, SUPER_ADMIN} \<or> role u = DELIVERY_PARTNER \<and> o_deliveryPartnerId ord = Some (userId u)) \<and>
    findOtp oid ty w = Some v \<and> v_status v = OTP_PENDING \<and> now \<le> v_expiresAt v \<and> compare code (v_otpHash v) \<and>
    (ty = PICKUP \<longrightarrow> photoUploaded w oid PICKUP) \<and> orderStatusCell w' oid = Some (TARGET_ORDER_STATUS ty) \<and>
    findOtp oid ty w' = Some (v\<lparr>v_status := OTP_VERIFIED, v_verifiedAt := Some now\<rparr>) \<and>
    (proof_inv w \<longrightarrow> v_attempts v < MAX_ATTEMPTS)"
proof -
  have "v_attempts v < MAX_ATTEMPTS" if "proof_inv w" "findOtp oid ty w = Some v" "v_status v = OTP_PENDING" for v
  proof -
    have "otpOk v" using that(1,2) by (auto simp: proof_inv_def findOtp_def)
    then show ?thesis using that(3) by (auto simp: otpOk_def order.strict_iff_order)
  qed
  with verify_facts[OF assms] show ?thesis by blast
qed

text \<open>Requests that all read the code before any of them writes: request \<open>n + 1\<close> awaits the
  comparison while the \<open>n\<close> others run.\<close>

primrec guessRace ::
  "int \<Rightarrow> (string \<Rightarrow> string \<Rightarrow> bool) \<Rightarrow> refundCtx \<Rightarrow> proofType \<Rightarrow> string \<Rightarrow> string \<Rightarrow> authUser \<Rightarrow> nat \<Rightarrow> world \<Rightarrow> world" where
  "guessRace now compare rx ty oid code u 0 = (\<lambda>w. w)"
| "guessRace now compare rx ty oid code u (Suc n) =
     (\<lambda>w. snd (verify now compare (guessRace now compare rx ty oid code u n) id rx ty oid code u w))"

text \<open>
  The attempt limit does not hold against concurrent guesses.  However many wrong guesses are
  raced against one read of a code with at least two attempts left, each of them is compared,
  the counter grows past the limit and the code is never locked: the next correct guess passes
  every check.
\<close>
theorem concurrent_guesses_unlimited:
  assumes "verifyChecks now ty oid u w = (Inr v, w)" and "\<not> compare code (v_otpHash v)"
    and "v_attempts v + 1 < v_maxAttempts v"
  shows "verifyChecks now ty oid u (guessRace now compare rx ty oid code u n w) =
    (Inr (v\<lparr>v_attempts := v_attempts v + n\<rparr>), guessRace now compare rx ty oid code u n w)"
proof -
  let ?w = "\<lambda>n. guessRace now compare rx ty oid code u n w"
  note c = assms(1)[unfolded checks_iff]
  have "findOtp oid ty (?w n) = Some (v\<lparr>v_attempts := v_attempts v + n\<rparr>) \<and> w_orders (?w n) = w_orders w \<and>
    w_photos (?w n) = w_photos w" for n
  proof (induction n)
    case (Suc n)
    let ?f = "\<lambda>v. v\<lparr>v_attempts := v_attempts v + 1\<rparr>" and ?v = "v\<lparr>v_attempts := v_attempts v + n\<rparr>"
    have k: "otpKey v = (oid, ty)" using c by (auto dest: findOtp_key)
    have inc: "incrementAttempts (oid, ty) None = updateOtp (oid, ty) ?f" by (simp add: incrementAttempts_def)
    have "otpKey (?f ?v) = (oid, ty)" using k by (simp add: otpKey_def)
    from updateOtp_hit[of oid ty "?w n" ?v ?f, OF _ this] Suc obtain w1 where
      w1: "updateOtp (oid, ty) ?f (?w n) = (Inr (?f ?v), w1)" "findOtp oid ty w1 = Some (?f ?v)"
        "w_orders w1 = w_orders w" "w_photos w1 = w_photos w" by auto
    have "?w (Suc n) = snd (verifyMismatch v u (?w n))"
      using assms(1,2) by (simp add: verify_def)
    also have "\<dots> = auditLog (Some (userId u)) ''DeliveryProofOtp'' (v_orderId v) ''REJECT'' w1"
      using assms(3) w1(1) by (simp add: verifyMismatch_def k inc)
    finally show ?case using w1(2-4) by (simp add: findOtp_def)
  qed (use c in simp)
  then show ?thesis
    using c by (auto simp: checks_iff ok_iff partnerOrder_iff findOrderById_def photoUploaded_def)
qed

lemma find_modify:
  "(\<And>r. q (f r) = q r) \<Longrightarrow>
     List.find q (modify p f rows) = map_option (\<lambda>r. if p r then f r else r) (List.find q rows)"
  by (induction rows) auto

text \<open>
  Arrival is recorded once and within the geofence.  The first successful call happens within
  100 metres of the pickup point and stores its own time; every later call by the same rider, from
  wherever, reports that first time and does not change it.
\<close>
theorem arrival_recorded_once:
  assumes "markRestaurantArrival now id oid lat lng u w = (Inr t, w1)"
    and "findAcceptedAssignment oid (userId u) w = Some a" and "a_arrivedAt a = None" and "keyed a_id (w_assignments w)"
  shows "t = Some now \<and>
    (\<exists>plat plng. findPickupLocation oid w = Some (plat, plng) \<and>
       haversineDistanceKm lat lng (of_rat plat) (of_rat plng) * 1000 \<le> 100) \<and>
    fst (markRestaurantArrival later id oid lat' lng' u w1) = Inr (Some now)"
proof -
  let ?f = "\<lambda>a. a\<lparr>a_arrivedAt := Some now\<rparr>"
  let ?v = "w\<lparr>w_assignments := modify (\<lambda>x. a_id x = a_id a \<and> a_arrivedAt x = None) ?f (w_assignments w)\<rparr>"
  obtain ord where ord: "partnerOrder oid u w = Inr ord" "o_status ord = READY_FOR_PICKUP"
    using assms(1) by (auto simp: markRestaurantArrival_def split: sum.splits if_splits)
  have "lookup a_id (a_id a) (w_assignments w) = Some a"
    using find_SomeD[of _ "w_assignments w" a] assms(2,4) by (auto simp: findAcceptedAssignment_def intro: lookup_keyed)
  then have mark: "markArrival now (a_id a) w = (Inr (?f a), ?v)"
    using assms(3) by (simp add: markArrival_def lookup_modify)
  have rad: "withinArrivalRadius oid lat lng w = Inr ()"
    using assms(1-3) ord by (auto simp: markRestaurantArrival_def split: sum.splits)
  have t: "t = Some now" and w1: "w_orders w1 = w_orders w" "w_assignments w1 = w_assignments ?v" "w_partners w1 = w_partners w"
    using assms(1-3) ord rad mark by (auto simp: markRestaurantArrival_def)
  have "findAcceptedAssignment oid (userId u) w1 = Some (?f a)"
    using assms(2,3) w1 by (simp add: findAcceptedAssignment_def find_modify assignmentOfUser_def)
  moreover have l: "lookup a_id (a_id a) (w_assignments w1) = Some (?f a)"
    unfolding w1(2) using mark by (simp add: markArrival_def Let_def split: option.splits)
  have "fst (markArrival later (a_id a) w1) = Inr (?f a)"
    by (simp add: markArrival_def Let_def lookup_modify l)
  moreover have "partnerOrder oid u w1 = Inr ord" using ord w1 by (simp add: partnerOrder_iff findOrderById_def)
  ultimately have "fst (markRestaurantArrival later id oid lat' lng' u w1) = Inr (Some now)"
    using ord by (auto simp: markRestaurantArrival_def split: sum.split prod.split)
  then show ?thesis
    using t rad by (auto simp: withinArrivalRadius_def ARRIVAL_RADIUS_METERS_def split: option.splits if_splits)
qed

section \<open>Concrete inputs\<close>

definition proofRider :: authUser where
  "proofRider = \<lparr>userId = ''dp1'', role = DELIVERY_PARTNER\<rparr>"

definition proofWorld :: "orderStatus \<Rightarrow> world" where
  "proofWorld st = emptyWorld\<lparr>w_orders := [sampleOrder\<lparr>o_status := st, o_deliveryPartnerId := Some ''dp1''\<rparr>],
     w_partners := [\<lparr>d_id = ''d1'', d_userId = ''dp1'', d_status = ON_DELIVERY, d_isVerified = True,
       d_latitude = None, d_longitude = None\<rparr>],
     w_branches := [\<lparr>b_id = ''b1'', b_restaurantId = ''r1'', b_isPrimary = True, b_isActive = True,
       b_latitude = Some 12, b_longitude = Some 77, b_timezone = None, b_operatingHours = []\<rparr>],
     w_assignments := [\<lparr>a_id = ''a1'', a_orderId = ''o1'', a_partnerId = ''d1'', a_status = ASG_ACCEPTED,
       a_cycle = 0, a_assignedAt = 0, a_respondedAt = None, a_expiresAt = None, a_arrivedAt = None\<rparr>]\<rparr>"

definition prefixHash :: "string \<Rightarrow> string" where "prefixHash c = ''h'' @ c"

definition prefixCompare :: "string \<Rightarrow> string \<Rightarrow> bool" where "prefixCompare c h \<longleftrightarrow> h = ''h'' @ c"

abbreviation "codedWorld \<equiv> snd (generate 0 prefixHash id 4711 DELIVERY ''o1'' proofRider (proofWorld OUT_FOR_DELIVERY))"

lemma rider_order: "partnerOrder ''o1'' proofRider (proofWorld st) =
    Inr (sampleOrder\<lparr>o_status := st, o_deliveryPartnerId := Some ''dp1''\<rparr>)"
  by (simp add: partnerOrder_iff findOrderById_def proofWorld_def proofRider_def sampleOrder_def)

lemma coded: "\<exists>v. generate 0 prefixHash id 4711 DELIVERY ''o1'' proofRider (proofWorld OUT_FOR_DELIVERY) = (Inr v, codedWorld) \<and>
    v_attempts v = 0 \<and> v_maxAttempts v = 5"
  by (simp add: generate_def rider_order upsertOtp_def Let_def MAX_ATTEMPTS_def)

lemma coded_checks: "\<exists>v. verifyChecks 100 DELIVERY ''o1'' proofRider codedWorld = (Inr v, codedWorld) \<and>
    v_otpHash v = prefixHash (otpCode 4711) \<and> v_attempts v = 0 \<and> v_maxAttempts v = 5"
proof -
  obtain v where g: "generate 0 prefixHash id 4711 DELIVERY ''o1'' proofRider (proofWorld OUT_FOR_DELIVERY) = (Inr v, codedWorld)"
    and v: "v_attempts v = 0" "v_maxAttempts v = 5" using coded by blast
  note f = generate_found[OF g]
  have "ok (partnerOrder ''o1'' proofRider codedWorld)"
    using f rider_order[of OUT_FOR_DELIVERY] by (auto simp: ok_iff partnerOrder_iff findOrderById_def)
  then show ?thesis using f v by (auto simp: checks_iff)
qed

lemma otp_rows_well_formed_witness:
  "\<exists>v. findOtp ''o1'' DELIVERY codedWorld = Some v \<and> v_attempts v \<le> 5"
proof -
  obtain v where v: "findOtp ''o1'' DELIVERY codedWorld = Some v" using coded generate_found by blast
  have "proofStep\<^sup>*\<^sup>* (proofWorld OUT_FOR_DELIVERY) codedWorld" by (intro r_into_rtranclp proofStep.generate)
  moreover have "proof_inv (proofWorld OUT_FOR_DELIVERY)"
    by (simp add: proof_inv_def proofWorld_def emptyWorld_def keyed_def)
  ultimately have "v_attempts v \<le> 5" using v otp_rows_well_formed by blast
  then show ?thesis using v by blast
qed

lemma otp_roundtrip_witness:
  "\<exists>resp w2. verify 100 prefixCompare id id quietCtx DELIVERY ''o1'' (otpCode 4711) proofRider codedWorld = (Inr resp, w2) \<and>
     orderStatusCell w2 ''o1'' = Some DELIVERED \<and> ps_status resp = OTP_VERIFIED \<and> ps_orderStatus resp = DELIVERED"
proof -
  obtain v where g: "generate 0 prefixHash id 4711 DELIVERY ''o1'' proofRider (proofWorld OUT_FOR_DELIVERY) = (Inr v, codedWorld)"
    using coded by blast
  have "prefixCompare (otpCode 4711) (prefixHash (otpCode 4711))" by (simp add: prefixCompare_def prefixHash_def)
  from otp_roundtrip[where compare = prefixCompare, OF g this, of 100 quietCtx] show ?thesis by auto
qed

lemma deliveryVerified: "\<exists>resp w2. verify 100 prefixCompare id id quietCtx DELIVERY ''o1'' (otpCode 4711) proofRider codedWorld = (Inr resp, w2)"
proof -
  obtain v where v: "verifyChecks 100 DELIVERY ''o1'' proofRider codedWorld = (Inr v, codedWorld)"
    "v_otpHash v = prefixHash (otpCode 4711)" using coded_checks by blast
  note c = v(1)[unfolded checks_iff]
  obtain g where g: "generate 0 prefixHash id 4711 DELIVERY ''o1'' proofRider (proofWorld OUT_FOR_DELIVERY) = (Inr g, codedWorld)"
    using coded by blast
  have "partnerOrder ''o1'' proofRider codedWorld = Inr (sampleOrder\<lparr>o_status := OUT_FOR_DELIVERY, o_deliveryPartnerId := Some ''dp1''\<rparr>)"
    using rider_order[of OUT_FOR_DELIVERY] generate_found[OF g] by (simp add: partnerOrder_iff findOrderById_def)
  then have "\<exists>w'. verifyMatch 100 id quietCtx DELIVERY ''o1'' proofRider codedWorld = (Inr (toStatusResponse
      (v\<lparr>v_status := OTP_VERIFIED, v_verifiedAt := Some 100\<rparr>) (TARGET_ORDER_STATUS DELIVERY)), w')"
    using c by (intro match_ok) (auto simp: partnerOrder_iff)
  then show ?thesis using v by (auto simp: verify_def prefixCompare_def prefixHash_def)
qed

lemma verify_sound_witness:
  "\<exists>ord. findOrderById ''o1'' codedWorld = Some ord \<and> o_status ord = OUT_FOR_DELIVERY"
proof -
  obtain resp w2 where "verify 100 prefixCompare id id quietCtx DELIVERY ''o1'' (otpCode 4711) proofRider codedWorld = (Inr resp, w2)"
    using deliveryVerified by blast
  from verify_sound[OF this] show ?thesis by auto
qed

lemma concurrent_guesses_unlimited_witness:
  "\<exists>v. fst (verifyChecks 100 DELIVERY ''o1'' proofRider
      (guessRace 100 prefixCompare quietCtx DELIVERY ''o1'' (otpCode 0) proofRider 50 codedWorld)) = Inr v \<and> v_attempts v = 50"
proof -
  obtain v where v: "verifyChecks 100 DELIVERY ''o1'' proofRider codedWorld = (Inr v, codedWorld)"
    "v_otpHash v = prefixHash (otpCode 4711)" "v_attempts v = 0" "v_maxAttempts v = 5" using coded_checks by blast
  have "otpCode 0 \<noteq> otpCode 4711" by (simp add: otpCode_inj)
  then have "\<not> prefixCompare (otpCode 0) (v_otpHash v)" using v(2) by (auto simp: prefixCompare_def prefixHash_def)
  from concurrent_guesses_unlimited[where compare = prefixCompare and code = "otpCode 0", OF v(1) this, of quietCtx 50] show ?thesis using v by simp
qed

lemma arrival_recorded_once_witness:
  "fst (markRestaurantArrival 9 id ''o1'' 0 0 proofRider
     (snd (markRestaurantArrival 5 id ''o1'' 12 77 proofRider (proofWorld READY_FOR_PICKUP)))) = Inr (Some 5)"
proof -
  let ?w = "proofWorld READY_FOR_PICKUP"
  have f: "\<exists>a. findAcceptedAssignment ''o1'' (userId proofRider) ?w = Some a \<and> a_arrivedAt a = None \<and> a_id a = ''a1''"
    by (simp add: findAcceptedAssignment_def assignmentOfUser_def proofWorld_def proofRider_def)
  have "withinArrivalRadius ''o1'' 12 77 ?w = Inr ()"
    by (simp add: withinArrivalRadius_def findPickupLocation_def findOrderById_def proofWorld_def sampleOrder_def
        emptyWorld_def ARRIVAL_RADIUS_METERS_def)
  moreover have "\<exists>a w1. markArrival 5 ''a1'' ?w = (Inr a, w1)"
    by (simp add: markArrival_def proofWorld_def)
  ultimately have "\<exists>t. fst (markRestaurantArrival 5 id ''o1'' 12 77 proofRider ?w) = Inr t"
    using f by (auto simp: markRestaurantArrival_def rider_order)
  then obtain t w1 where "markRestaurantArrival 5 id ''o1'' 12 77 proofRider ?w = (Inr t, w1)"
    by (metis fst_conv surj_pair)
  moreover have "keyed a_id (w_assignments ?w)" by (simp add: keyed_def proofWorld_def)
  ultimately show ?thesis using f arrival_recorded_once[of 5 "''o1''" 12 77 proofRider ?w t w1 _ 9 0 0] by auto
qed

end
