(* ===== verification/Tickets.thy ===== *)
theory Tickets
  imports Store
begin

text \<open>
  Support tickets: \<^verbatim>\<open>TicketsService\<close> over \<^verbatim>\<open>TicketsRepository\<close>, the SLA escalation job
  (\<^verbatim>\<open>TicketEscalationProcessor\<close>) and the FAQ service.  The tables are a record of their own,
  \<^verbatim>\<open>ticketStore\<close>; realtime messages are not modelled, notifications, audit entries and the
  one published event are logs.
\<close>

section \<open>Data\<close>

datatype ticketPriority = LOW | MEDIUM | HIGH | URGENT

datatype ticketStatus = OPEN | IN_PROGRESS | WAITING_ON_CUSTOMER | RESOLVED | CLOSED

datatype senderType = FROM_CUSTOMER | FROM_AGENT | FROM_SYSTEM

record ticket =
  k_id :: string
  k_ticketNumber :: string
  k_customerId :: string
  k_assignedAgentId :: "string option"
  k_orderId :: "string option"
  k_paymentId :: "string option"
  k_category :: string
  k_priority :: ticketPriority
  k_status :: ticketStatus
  k_subject :: string
  k_description :: string
  k_firstResponseAt :: "int option"
  k_resolvedAt :: "int option"
  k_escalatedAt :: "int option"
  k_createdAt :: int

record ticketMessage =
  m_id :: string
  m_ticketId :: string
  m_senderId :: "string option"
  m_senderType :: senderType
  m_message :: string
  m_createdAt :: int

record ticketAttachment =
  at_id :: string
  at_ticketId :: string
  at_messageId :: "string option"
  at_uploadedById :: string
  at_fileUrl :: string
  at_fileName :: string
  at_mimeType :: string
  at_sizeBytes :: int

record customerCard =
  cc_id :: string
  cc_firstName :: string
  cc_lastName :: "string option"
  cc_email :: "string option"

record faq =
  q_id :: string
  q_category :: string
  q_question :: string
  q_answer :: string
  q_sortOrder :: int
  q_isActive :: bool

datatype ticketEffect =
    TicketNotification string string
  | OrderCustomerMessage string string string
  | TicketAudit "string option" string string

record ticketStore =
  ts_tickets :: "ticket list"
  ts_messages :: "ticketMessage list"
  ts_attachments :: "ticketAttachment list"
  ts_customers :: "customerCard list"
  ts_faqs :: "faq list"
  ts_effects :: "ticketEffect list"

definition emit :: "ticketEffect \<Rightarrow> ticketStore \<Rightarrow> ticketStore" where
  "emit e s = s\<lparr>ts_effects := ts_effects s @ [e]\<rparr>"

section \<open>Repository\<close>

definition insertTicket :: "ticket \<Rightarrow> ticketStore \<Rightarrow> (ticketStore, ticket) outcome" where
  "insertTicket k s =
     (if k_ticketNumber k \<in> k_ticketNumber ` set (ts_tickets s)
      then (Inl (UniqueViolation ''ticketNumber''), s)
      else (Inr k, s\<lparr>ts_tickets := ts_tickets s @ [k]\<rparr>))"

definition findTicketById :: "string \<Rightarrow> ticketStore \<Rightarrow> ticket option" where
  "findTicketById i s = lookup k_id i (ts_tickets s)"

definition findTicketByIdForCustomer :: "string \<Rightarrow> string \<Rightarrow> ticketStore \<Rightarrow> ticket option" where
  "findTicketByIdForCustomer i cid s =
     List.find (\<lambda>k. k_id k = i \<and> k_customerId k = cid) (ts_tickets s)"

definition findCustomerTickets ::
  "string \<Rightarrow> ticketStatus option \<Rightarrow> string option \<Rightarrow> nat \<Rightarrow> nat \<Rightarrow> ticketStore \<Rightarrow> ticket list \<times> nat" where
  "findCustomerTickets cid st cat skip tk s =
     (let rows = filter (\<lambda>k. k_customerId k = cid \<and> (case st of None \<Rightarrow> True | Some x \<Rightarrow> k_status k = x) \<and>
                    (truthy cat \<longrightarrow> Some (k_category k) = cat)) (ts_tickets s)
      in (skipTake skip tk (sort_key (\<lambda>k. - k_createdAt k) rows), length rows))"

record adminTicketFilter =
  af_search :: "string option"
  af_status :: "ticketStatus option"
  af_category :: "string option"
  af_priority :: "ticketPriority option"
  af_assignedAgentId :: "string option"
  af_unassigned :: bool

definition containsOpt :: "string \<Rightarrow> string option \<Rightarrow> bool" where
  "containsOpt needle hay = (case hay of None \<Rightarrow> False | Some h \<Rightarrow> containsInsensitive needle h)"

definition matchesSearch :: "ticketStore \<Rightarrow> string \<Rightarrow> ticket \<Rightarrow> bool" where
  "matchesSearch s q k \<longleftrightarrow> containsInsensitive q (k_ticketNumber k) \<or> containsInsensitive q (k_subject k) \<or>
     (case lookup cc_id (k_customerId k) (ts_customers s) of
        None \<Rightarrow> False
      | Some c \<Rightarrow> containsInsensitive q (cc_firstName c) \<or> containsOpt q (cc_lastName c) \<or> containsOpt q (cc_email c))"

definition buildAdminWhere :: "ticketStore \<Rightarrow> adminTicketFilter \<Rightarrow> ticket \<Rightarrow> bool" where
  "buildAdminWhere s f k \<longleftrightarrow>
     (case af_status f of None \<Rightarrow> True | Some x \<Rightarrow> k_status k = x) \<and>
     (truthy (af_category f) \<longrightarrow> Some (k_category k) = af_category f) \<and>
     (case af_priority f of None \<Rightarrow> True | Some x \<Rightarrow> k_priority k = x) \<and>
     (if af_unassigned f then k_assignedAgentId k = None
      else truthy (af_assignedAgentId f) \<longrightarrow> k_assignedAgentId k = af_assignedAgentId f) \<and>
     (truthy (af_search f) \<longrightarrow> matchesSearch s (the (af_search f)) k)"

fun priorityRank :: "ticketPriority \<Rightarrow> int" where
  "priorityRank LOW = 0"
| "priorityRank MEDIUM = 1"
| "priorityRank HIGH = 2"
| "priorityRank URGENT = 3"

text \<open>\<^verbatim>\<open>orderBy: [{ priority: 'desc' }, { createdAt: 'desc' }]\<close>: two stable sorts, minor key first.\<close>

definition findAllForAdmin :: "adminTicketFilter \<Rightarrow> nat \<Rightarrow> nat \<Rightarrow> ticketStore \<Rightarrow> ticket list \<times> nat" where
  "findAllForAdmin f skip tk s =
     (let rows = filter (buildAdminWhere s f) (ts_tickets s)
      in (skipTake skip tk (sort_key (\<lambda>k. - priorityRank (k_priority k)) (sort_key (\<lambda>k. - k_createdAt k) rows)),
          length rows))"

definition createMessage :: "ticketMessage \<Rightarrow> ticketStore \<Rightarrow> ticketStore" where
  "createMessage m s = s\<lparr>ts_messages := ts_messages s @ [m]\<rparr>"

definition createAttachment :: "ticketAttachment \<Rightarrow> ticketStore \<Rightarrow> ticketStore" where
  "createAttachment a s = s\<lparr>ts_attachments := ts_attachments s @ [a]\<rparr>"

definition updateTicket :: "string \<Rightarrow> (ticket \<Rightarrow> ticket) \<Rightarrow> ticketStore \<Rightarrow> (ticketStore, ticket) outcome" where
  "updateTicket i f s =
     (case lookup k_id i (ts_tickets s) of
        None \<Rightarrow> (Inl (RecordNotFound ''SupportTicket''), s)
      | Some k \<Rightarrow> (Inr (f k), s\<lparr>ts_tickets := modify (\<lambda>k. k_id k = i) f (ts_tickets s)\<rparr>))"

definition updateStatus ::
  "string \<Rightarrow> ticketStatus \<Rightarrow> int option \<Rightarrow> ticketStore \<Rightarrow> (ticketStore, ticket) outcome" where
  "updateStatus i st resolvedAt = updateTicket i (\<lambda>k. k\<lparr>k_status := st,
     k_resolvedAt := (case resolvedAt of None \<Rightarrow> k_resolvedAt k | Some t \<Rightarrow> Some t)\<rparr>)"

definition setPriority :: "string \<Rightarrow> ticketPriority \<Rightarrow> ticketStore \<Rightarrow> (ticketStore, ticket) outcome" where
  "setPriority i p = updateTicket i (\<lambda>k. k\<lparr>k_priority := p\<rparr>)"

definition assignAgent :: "string \<Rightarrow> string \<Rightarrow> ticketStore \<Rightarrow> (ticketStore, ticket) outcome" where
  "assignAgent i agent = updateTicket i (\<lambda>k. k\<lparr>k_assignedAgentId := Some agent\<rparr>)"

definition setFirstResponseIfUnset :: "int \<Rightarrow> string \<Rightarrow> ticketStore \<Rightarrow> ticketStore" where
  "setFirstResponseIfUnset now i s =
     s\<lparr>ts_tickets := modify (\<lambda>k. k_id k = i \<and> k_firstResponseAt k = None)
        (\<lambda>k. k\<lparr>k_firstResponseAt := Some now\<rparr>) (ts_tickets s)\<rparr>"

definition isOverdue :: "int \<Rightarrow> ticket \<Rightarrow> bool" where
  "isOverdue threshold k \<longleftrightarrow> k_status k \<in> {OPEN, IN_PROGRESS} \<and> k_escalatedAt k = None \<and> k_createdAt k \<le> threshold"

definition findOverdueTickets :: "int \<Rightarrow> ticketStore \<Rightarrow> ticket list" where
  "findOverdueTickets threshold s = filter (isOverdue threshold) (ts_tickets s)"

definition markEscalated :: "int \<Rightarrow> string \<Rightarrow> ticketStore \<Rightarrow> (ticketStore, ticket) outcome" where
  "markEscalated now i = updateTicket i (\<lambda>k. k\<lparr>k_escalatedAt := Some now, k_priority := URGENT\<rparr>)"

section \<open>Service\<close>

definition TERMINAL_STATUSES :: "ticketStatus list" where
  "TERMINAL_STATUSES = [RESOLVED, CLOSED]"

fun TICKET_STATUS_TRANSITIONS :: "ticketStatus \<Rightarrow> ticketStatus list" where
  "TICKET_STATUS_TRANSITIONS OPEN = [IN_PROGRESS, RESOLVED, CLOSED]"
| "TICKET_STATUS_TRANSITIONS IN_PROGRESS = [WAITING_ON_CUSTOMER, RESOLVED, CLOSED]"
| "TICKET_STATUS_TRANSITIONS WAITING_ON_CUSTOMER = [IN_PROGRESS, RESOLVED, CLOSED]"
| "TICKET_STATUS_TRANSITIONS RESOLVED = [CLOSED, IN_PROGRESS]"
| "TICKET_STATUS_TRANSITIONS CLOSED = []"

definition ALLOWED_ATTACHMENT_MIME_TYPES :: "string list" where
  "ALLOWED_ATTACHMENT_MIME_TYPES = [''image/jpeg'', ''image/png'', ''image/webp'', ''application/pdf'']"

definition MAX_ATTACHMENT_SIZE_BYTES :: int where
  "MAX_ATTACHMENT_SIZE_BYTES = 8 * 1024 * 1024"

text \<open>What a caller sees of a ticket: its columns and its messages, oldest first, each with the
  attachments that hang off that message.\<close>

type_synonym ticketResponse = "ticket \<times> (ticketMessage \<times> ticketAttachment list) list"

definition toTicketResponse :: "ticketStore \<Rightarrow> ticket \<Rightarrow> ticketResponse" where
  "toTicketResponse s k =
     (k, map (\<lambda>m. (m, filter (\<lambda>a. at_messageId a = Some (m_id m)) (ts_attachments s)))
           (sort_key m_createdAt (filter (\<lambda>m. m_ticketId m = k_id k) (ts_messages s))))"

definition getTicketOrThrow :: "string \<Rightarrow> ticketStore \<Rightarrow> ticketResponse result" where
  "getTicketOrThrow i s =
     (case findTicketById i s of None \<Rightarrow> Inl (NotFound ''Ticket'') | Some k \<Rightarrow> Inr (toTicketResponse s k))"

record createTicketDto =
  ct_category :: string
  ct_priority :: "ticketPriority option"
  ct_subject :: string
  ct_description :: string
  ct_orderId :: "string option"
  ct_paymentId :: "string option"

text \<open>\<open>number\<close> is the decimal rendering of the clock in \<^verbatim>\<open>TKT-${Date.now()}\<close>.\<close>

definition createTicket ::
  "string \<Rightarrow> int \<Rightarrow> (int \<Rightarrow> string) \<Rightarrow> string \<Rightarrow> createTicketDto \<Rightarrow> ticketStore \<Rightarrow> (ticketStore, ticketResponse) outcome" where
  "createTicket uuid now number customerId dto s =
     (let k = \<lparr>k_id = uuid, k_ticketNumber = ''TKT-'' @ number now, k_customerId = customerId,
               k_assignedAgentId = None, k_orderId = ct_orderId dto, k_paymentId = ct_paymentId dto,
               k_category = ct_category dto,
               k_priority = (case ct_priority dto of None \<Rightarrow> MEDIUM | Some p \<Rightarrow> p), k_status = OPEN,
               k_subject = ct_subject dto, k_description = ct_description dto, k_firstResponseAt = None,
               k_resolvedAt = None, k_escalatedAt = None, k_createdAt = now\<rparr>
      in case insertTicket k s of
           (Inl e, s1) \<Rightarrow> (Inl e, s1)
         | (Inr k, s1) \<Rightarrow> (Inr (toTicketResponse s1 k), emit (TicketAudit (Some customerId) uuid ''CREATE'') s1))"

definition getMyTickets ::
  "string \<Rightarrow> ticketStatus option \<Rightarrow> string option \<Rightarrow> nat \<Rightarrow> nat \<Rightarrow> ticketStore \<Rightarrow> ticket list \<times> nat \<times> nat" where
  "getMyTickets cid st cat page limit s =
     (let (items, n) = findCustomerTickets cid st cat ((page - 1) * limit) limit s
      in (items, n, totalPages n limit))"

definition getMyTicketById :: "string \<Rightarrow> string \<Rightarrow> ticketStore \<Rightarrow> ticketResponse result" where
  "getMyTicketById i cid s =
     (case findTicketByIdForCustomer i cid s of
        None \<Rightarrow> Inl (NotFound ''Ticket'') | Some k \<Rightarrow> Inr (toTicketResponse s k))"

definition assertTicketAccess :: "string \<Rightarrow> authUser \<Rightarrow> ticketStore \<Rightarrow> ticket result" where
  "assertTicketAccess i u s =
     (case findTicketById i s of
        None \<Rightarrow> Inl (NotFound ''Ticket'')
      | Some k \<Rightarrow>
          if role u \<notin> {ADMIN, SUPER_ADMIN, SUPPORT_AGENT} \<and> k_customerId k \<noteq> userId u
          then Inl (Forbidden ''ticket access'') else Inr k)"

definition excerpt :: "string \<Rightarrow> string" where
  "excerpt m = (if length m > 120 then take 117 m @ ''...'' else m)"

definition postMessage ::
  "string \<Rightarrow> int \<Rightarrow> string \<Rightarrow> authUser \<Rightarrow> string \<Rightarrow> ticketStore \<Rightarrow> (ticketStore, ticketResponse) outcome" where
  "postMessage uuid now i u msg s =
     (case assertTicketAccess i u s of
        Inl e \<Rightarrow> (Inl e, s)
      | Inr k \<Rightarrow>
          (let staff = (role u \<noteq> CUSTOMER);
               s1 = createMessage \<lparr>m_id = uuid, m_ticketId = i, m_senderId = Some (userId u),
                      m_senderType = (if staff then FROM_AGENT else FROM_CUSTOMER), m_message = msg,
                      m_createdAt = now\<rparr> s;
               s2 = (if staff then setFirstResponseIfUnset now i s1 else s1);
               s3 = (if staff then emit (TicketNotification (k_customerId k) (excerpt msg)) s2
                     else if truthy (k_orderId k)
                     then emit (OrderCustomerMessage (the (k_orderId k)) i (excerpt msg)) s2
                     else s2)
           in (getTicketOrThrow i s3, s3)))"

record uploadFile =
  uf_name :: string
  uf_mime :: string
  uf_size :: int

definition uploadAttachment ::
  "string \<Rightarrow> string result \<Rightarrow> string \<Rightarrow> authUser \<Rightarrow> uploadFile option \<Rightarrow> ticketStore
     \<Rightarrow> (ticketStore, ticketResponse) outcome" where
  "uploadAttachment uuid stored i u upl s =
     (case assertTicketAccess i u s of
        Inl e \<Rightarrow> (Inl e, s)
      | Inr k \<Rightarrow>
          (case upl of
             None \<Rightarrow> (Inl (BadRequest ''No file provided''), s)
           | Some f \<Rightarrow>
               if uf_mime f \<notin> set ALLOWED_ATTACHMENT_MIME_TYPES then (Inl (BadRequest ''Unsupported file type''), s)
               else if uf_size f > MAX_ATTACHMENT_SIZE_BYTES then (Inl (BadRequest ''File exceeds the limit''), s)
               else (case stored of
                   Inl e \<Rightarrow> (Inl e, s)
                 | Inr url \<Rightarrow>
                     (let s1 = createAttachment \<lparr>at_id = uuid, at_ticketId = i, at_messageId = None,
                                 at_uploadedById = userId u, at_fileUrl = url, at_fileName = uf_name f,
                                 at_mimeType = uf_mime f, at_sizeBytes = uf_size f\<rparr> s
                      in (getTicketOrThrow i s1, s1)))))"

text \<open>The caller passes the status it read; \<open>s\<close> is the database when the write happens.\<close>

definition transitionStatus ::
  "int \<Rightarrow> string \<Rightarrow> ticketStatus \<Rightarrow> ticketStatus \<Rightarrow> string \<Rightarrow> ticketStore \<Rightarrow> (ticketStore, ticketResponse) outcome" where
  "transitionStatus now i current nxt actor s =
     (if nxt \<notin> set (TICKET_STATUS_TRANSITIONS current) then (Inl (BadRequest ''Invalid ticket status transition''), s)
      else
        (case updateStatus i nxt
                (if nxt = RESOLVED \<and> current \<notin> set TERMINAL_STATUSES then Some now else None) s of
           (Inl e, s1) \<Rightarrow> (Inl e, s1)
         | (Inr k, s1) \<Rightarrow>
             (let s2 = emit (TicketNotification (k_customerId k) ''status'')
                         (emit (TicketAudit (Some actor) i ''STATUS_CHANGE'') s1)
              in (getTicketOrThrow i s2, s2))))"

definition closeTicket ::
  "int \<Rightarrow> (ticketStore \<Rightarrow> ticketStore) \<Rightarrow> string \<Rightarrow> string \<Rightarrow> ticketStore \<Rightarrow> (ticketStore, ticketResponse) outcome" where
  "closeTicket now env i customerId s =
     (case findTicketByIdForCustomer i customerId s of
        None \<Rightarrow> (Inl (NotFound ''Ticket''), s)
      | Some k \<Rightarrow> transitionStatus now i (k_status k) CLOSED customerId (env s))"

definition getAllForAdmin :: "adminTicketFilter \<Rightarrow> nat \<Rightarrow> nat \<Rightarrow> ticketStore \<Rightarrow> ticket list \<times> nat \<times> nat" where
  "getAllForAdmin f page limit s =
     (let (items, n) = findAllForAdmin f ((page - 1) * limit) limit s in (items, n, totalPages n limit))"

definition getTicketByIdForAdmin :: "string \<Rightarrow> ticketStore \<Rightarrow> ticketResponse result" where
  "getTicketByIdForAdmin i s = getTicketOrThrow i s"

definition assignTicket ::
  "string \<Rightarrow> string \<Rightarrow> string \<Rightarrow> ticketStore \<Rightarrow> (ticketStore, ticket) outcome" where
  "assignTicket i agentId actor s =
     (case findTicketById i s of
        None \<Rightarrow> (Inl (NotFound ''Ticket''), s)
      | Some _ \<Rightarrow>
          (case assignAgent i agentId s of
             (Inl e, s1) \<Rightarrow> (Inl e, s1)
           | (Inr _, s1) \<Rightarrow>
               (let s2 = emit (TicketAudit (Some actor) i ''UPDATE'') s1
                in case findTicketById i s2 of
                     None \<Rightarrow> (Inl (NotFound ''Ticket''), s2)
                   | Some k \<Rightarrow> (Inr k, s2))))"

definition updatePriority ::
  "string \<Rightarrow> ticketPriority \<Rightarrow> string \<Rightarrow> ticketStore \<Rightarrow> (ticketStore, unit) outcome" where
  "updatePriority i p actor s =
     (case findTicketById i s of
        None \<Rightarrow> (Inl (NotFound ''Ticket''), s)
      | Some _ \<Rightarrow>
          (case setPriority i p s of
             (Inl e, s1) \<Rightarrow> (Inl e, s1)
           | (Inr _, s1) \<Rightarrow> (Inr (), emit (TicketAudit (Some actor) i ''UPDATE'') s1)))"

definition updateStatusAsStaff ::
  "int \<Rightarrow> (ticketStore \<Rightarrow> ticketStore) \<Rightarrow> string \<Rightarrow> ticketStatus \<Rightarrow> string \<Rightarrow> ticketStore
     \<Rightarrow> (ticketStore, ticketResponse) outcome" where
  "updateStatusAsStaff now env i st actor s =
     (case findTicketById i s of
        None \<Rightarrow> (Inl (NotFound ''Ticket''), s)
      | Some k \<Rightarrow> transitionStatus now i (k_status k) st actor (env s))"

section \<open>The escalation job\<close>

definition SLA_THRESHOLD_HOURS :: int where "SLA_THRESHOLD_HOURS = 24"

fun escalateEach :: "int \<Rightarrow> ticket list \<Rightarrow> ticketStore \<Rightarrow> (ticketStore, unit) outcome" where
  "escalateEach now [] s = (Inr (), s)"
| "escalateEach now (k # ks) s =
     (case markEscalated now (k_id k) s of
        (Inl e, s1) \<Rightarrow> (Inl e, s1)
      | (Inr _, s1) \<Rightarrow>
          escalateEach now ks (emit (TicketNotification (k_customerId k) ''escalated'')
            (emit (TicketAudit None (k_id k) ''STATUS_CHANGE'') s1)))"

definition escalateOverdueTickets :: "int \<Rightarrow> ticketStore \<Rightarrow> (ticketStore, unit) outcome" where
  "escalateOverdueTickets now s =
     escalateEach now (findOverdueTickets (now - SLA_THRESHOLD_HOURS * 60 * 60 * 1000) s) s"

section \<open>FAQ\<close>

definition faqFindActive :: "(string \<Rightarrow> nat) \<Rightarrow> string option \<Rightarrow> ticketStore \<Rightarrow> faq list" where
  "faqFindActive collate category s =
     sort_key (\<lambda>q. collate (q_category q)) (sort_key q_sortOrder
       (filter (\<lambda>q. q_isActive q \<and> (truthy category \<longrightarrow> Some (q_category q) = category)) (ts_faqs s)))"

definition faqFindAllForAdmin :: "(string \<Rightarrow> nat) \<Rightarrow> ticketStore \<Rightarrow> faq list" where
  "faqFindAllForAdmin collate s = sort_key (\<lambda>q. collate (q_category q)) (sort_key q_sortOrder (ts_faqs s))"

definition faqCreate :: "string \<Rightarrow> string \<Rightarrow> string \<Rightarrow> string \<Rightarrow> int option \<Rightarrow> ticketStore \<Rightarrow> ticketStore" where
  "faqCreate uuid category question answer sortOrder s =
     s\<lparr>ts_faqs := ts_faqs s @ [\<lparr>q_id = uuid, q_category = category, q_question = question, q_answer = answer,
        q_sortOrder = (case sortOrder of None \<Rightarrow> 0 | Some n \<Rightarrow> n), q_isActive = True\<rparr>]\<rparr>"

definition faqUpdate :: "string \<Rightarrow> (faq \<Rightarrow> faq) \<Rightarrow> ticketStore \<Rightarrow> (ticketStore, unit) outcome" where
  "faqUpdate i patch s =
     (case lookup q_id i (ts_faqs s) of
        None \<Rightarrow> (Inl (NotFound ''FAQ''), s)
      | Some _ \<Rightarrow> (Inr (), s\<lparr>ts_faqs := modify (\<lambda>q. q_id q = i) patch (ts_faqs s)\<rparr>))"

definition faqDelete :: "string \<Rightarrow> ticketStore \<Rightarrow> (ticketStore, unit) outcome" where
  "faqDelete i s =
     (case lookup q_id i (ts_faqs s) of
        None \<Rightarrow> (Inl (RecordNotFound ''FAQ''), s)
      | Some _ \<Rightarrow> (Inr (), s\<lparr>ts_faqs := filter (\<lambda>q. q_id q \<noteq> i) (ts_faqs s)\<rparr>))"

section \<open>How a ticket ages\<close>

definition resolvedOk :: "ticket \<Rightarrow> bool" where
  "resolvedOk k \<longleftrightarrow> k_status k \<noteq> RESOLVED \<or> k_resolvedAt k \<noteq> None"

definition keeps :: "'a option \<Rightarrow> 'a option \<Rightarrow> bool" where
  "keeps a b \<longleftrightarrow> a = None \<or> b = a"

definition ages :: "ticket \<Rightarrow> ticket \<Rightarrow> bool" where
  "ages k k' \<longleftrightarrow> k_id k' = k_id k \<and> k_customerId k' = k_customerId k \<and>
     (k_status k = CLOSED \<longrightarrow> k_status k' = CLOSED) \<and> keeps (k_firstResponseAt k) (k_firstResponseAt k') \<and>
     keeps (k_escalatedAt k) (k_escalatedAt k') \<and> (resolvedOk k \<longrightarrow> resolvedOk k')"

definition evolves :: "ticketStore \<Rightarrow> ticketStore \<Rightarrow> bool" where
  "evolves s s' \<longleftrightarrow> (keyed k_id (ts_tickets s) \<longrightarrow> keyed k_id (ts_tickets s')) \<and>
     (\<forall>i k. findTicketById i s = Some k \<longrightarrow> (\<exists>k'. findTicketById i s' = Some k' \<and> ages k k'))"

lemma keeps_refl [simp]: "keeps a a" "keeps None b"
  by (simp_all add: keeps_def)

lemma ages_refl [simp]: "ages k k"
  by (simp add: ages_def)

lemma ages_trans: "ages k l \<Longrightarrow> ages l m \<Longrightarrow> ages k m"
  by (auto simp: ages_def keeps_def)

lemma evolves_refl [simp]: "evolves s s"
  by (auto simp: evolves_def)

lemma evolves_trans: "evolves s t \<Longrightarrow> evolves t u \<Longrightarrow> evolves s u"
  unfolding evolves_def by (blast intro: ages_trans)

lemma evolves_tickets: "ts_tickets s' = ts_tickets s \<Longrightarrow> evolves s s'"
  using evolves_refl[of s] by (simp add: evolves_def findTicketById_def)

lemma emit_simps [simp]:
  "ts_tickets (emit e s) = ts_tickets s" "ts_messages (emit e s) = ts_messages s"
  "ts_attachments (emit e s) = ts_attachments s" "ts_effects (emit e s) = ts_effects s @ [e]"
  by (simp_all add: emit_def)

lemma emit_evolves [simp]: "evolves s (emit e s') = evolves s s'"
  by (simp add: evolves_def findTicketById_def)

lemma modify_evolves:
  assumes "ts_tickets s' = modify (\<lambda>k. k_id k = i \<and> c k) f (ts_tickets s)" and "\<And>k. k_id (f k) = k_id k"
    and "\<And>k. findTicketById i s = Some k \<Longrightarrow> c k \<Longrightarrow> ages k (f k)"
  shows "evolves s s'"
  using assms lookup_key[of k_id _ "ts_tickets s"]
  by (auto simp: evolves_def findTicketById_def lookup_modify)

lemma updateTicket_evolves:
  assumes "\<And>k. k_id (f k) = k_id k" and "\<And>k. findTicketById i s = Some k \<Longrightarrow> ages k (f k)"
  shows "evolves s (snd (updateTicket i f s))"
  using assms by (cases "lookup k_id i (ts_tickets s)")
    (auto simp: updateTicket_def intro!: modify_evolves[where i = i and c = "\<lambda>_. True" and f = f])

text \<open>A handler that got an answer from a row update evolves the store as that update does.\<close>

lemma updateTicket_snd: "updateTicket i f s = (r, s1) \<Longrightarrow> s1 = snd (updateTicket i f s)"
  by simp

lemma transition_evolves:
  assumes "findTicketById i s = Some k"
  shows "evolves s (snd (transitionStatus now i (k_status k) nxt actor s))"
proof -
  have "evolves s (snd (updateStatus i nxt (if nxt = RESOLVED \<and> k_status k \<notin> set TERMINAL_STATUSES then Some now else None) s))"
    if "nxt \<in> set (TICKET_STATUS_TRANSITIONS (k_status k))"
    unfolding updateStatus_def using that assms
    by (intro updateTicket_evolves) (cases "k_status k"; auto simp: ages_def resolvedOk_def TERMINAL_STATUSES_def)+
  then show ?thesis by (auto simp: transitionStatus_def Let_def split: prod.split sum.split)
qed

lemma setFirst_evolves: "evolves s (setFirstResponseIfUnset now i s)"
  by (rule modify_evolves[where i = i and c = "\<lambda>k. k_firstResponseAt k = None"
        and f = "\<lambda>k. k\<lparr>k_firstResponseAt := Some now\<rparr>"])
    (auto simp: setFirstResponseIfUnset_def ages_def resolvedOk_def)

lemma findForCustomer: "keyed k_id (ts_tickets s) \<Longrightarrow> findTicketByIdForCustomer i cid s = Some k \<Longrightarrow> findTicketById i s = Some k"
  using find_SomeD[of _ "ts_tickets s" k] lookup_keyed[of k_id "ts_tickets s" k]
  by (auto simp: findTicketByIdForCustomer_def findTicketById_def)

lemma post_evolves: "evolves s (snd (postMessage uuid now i u msg s))"
proof -
  have "evolves s (setFirstResponseIfUnset now i (createMessage m s))" for m
    by (rule evolves_trans[OF _ setFirst_evolves]) (simp add: evolves_tickets createMessage_def)
  moreover have "evolves s (createMessage m s)" for m by (simp add: evolves_tickets createMessage_def)
  ultimately show ?thesis by (auto simp: postMessage_def Let_def split: sum.split)
qed

section \<open>The escalation job\<close>

lemma escalate_cons:
  assumes "k_id k \<in> k_id ` set (ts_tickets s)"
  obtains s1 where "escalateEach now (k # ks) s = escalateEach now ks s1"
    and "ts_tickets s1 = modify (\<lambda>r. k_id r = k_id k) (\<lambda>r. r\<lparr>k_escalatedAt := Some now, k_priority := URGENT\<rparr>) (ts_tickets s)"
  using assms lookup_None_iff[of k_id "k_id k" "ts_tickets s"]
  by (cases "lookup k_id (k_id k) (ts_tickets s)") (auto simp: markEscalated_def updateTicket_def)

lemma escalateEach_effect:
  assumes "k_id ` set ks \<subseteq> k_id ` set (ts_tickets s)"
  shows "fst (escalateEach now ks s) = Inr () \<and> ts_tickets (snd (escalateEach now ks s)) =
    modify (\<lambda>r. k_id r \<in> k_id ` set ks) (\<lambda>r. r\<lparr>k_escalatedAt := Some now, k_priority := URGENT\<rparr>) (ts_tickets s)"
  using assms
proof (induction ks arbitrary: s)
  case (Cons k ks)
  then have "k_id k \<in> k_id ` set (ts_tickets s)" by auto
  then obtain s1 where s1: "escalateEach now (k # ks) s = escalateEach now ks s1"
    "ts_tickets s1 = modify (\<lambda>r. k_id r = k_id k) (\<lambda>r. r\<lparr>k_escalatedAt := Some now, k_priority := URGENT\<rparr>) (ts_tickets s)"
    using escalate_cons[of k s now ks] by blast
  have "map k_id (ts_tickets s1) = map k_id (ts_tickets s)" unfolding s1(2) by (rule map_modify) simp
  then have "k_id ` set (ts_tickets s1) = k_id ` set (ts_tickets s)" by (metis list.set_map)
  then have "k_id ` set ks \<subseteq> k_id ` set (ts_tickets s1)" using Cons.prems by auto
  from Cons.IH[OF this] show ?case unfolding s1(1) s1(2) by (auto simp: modify_def)
qed (simp add: modify_def)

lemma overdue_ids: "k_id ` set (findOverdueTickets t s) \<subseteq> k_id ` set (ts_tickets s)"
  by (auto simp: findOverdueTickets_def)

lemma escalate_evolves:
  assumes "keyed k_id (ts_tickets s)"
  shows "evolves s (snd (escalateOverdueTickets now s))"
proof -
  let ?o = "findOverdueTickets (now - SLA_THRESHOLD_HOURS * 60 * 60 * 1000) s"
  let ?f = "\<lambda>r. r\<lparr>k_escalatedAt := Some now, k_priority := URGENT\<rparr>"
  have "ages k (?f k)" if k: "k \<in> set (ts_tickets s)" and o: "k_id k \<in> k_id ` set ?o" for k
  proof -
    obtain l where l: "l \<in> set ?o" "k_id k = k_id l" using o by auto
    then have "k = l" using keyed_same[OF assms k] by (auto simp: findOverdueTickets_def)
    then show ?thesis using l by (auto simp: findOverdueTickets_def isOverdue_def ages_def resolvedOk_def)
  qed
  moreover have "ts_tickets (snd (escalateOverdueTickets now s)) = modify (\<lambda>r. k_id r \<in> k_id ` set ?o) ?f (ts_tickets s)"
    using escalateEach_effect[OF overdue_ids] by (simp add: escalateOverdueTickets_def)
  ultimately show ?thesis by (auto simp: evolves_def findTicketById_def lookup_modify)
qed

section \<open>Properties\<close>

inductive ticketStep :: "ticketStore \<Rightarrow> ticketStore \<Rightarrow> bool" where
  create: "uuid \<notin> k_id ` set (ts_tickets s) \<Longrightarrow> ticketStep s (snd (createTicket uuid now number cid dto s))"
| post: "ticketStep s (snd (postMessage uuid now i u msg s))"
| attach: "ticketStep s (snd (uploadAttachment uuid stored i u upl s))"
| close: "ticketStep s (snd (closeTicket now id i cid s))"
| assign: "ticketStep s (snd (assignTicket i agentId actor s))"
| priority: "ticketStep s (snd (updatePriority i p actor s))"
| status: "ticketStep s (snd (updateStatusAsStaff now id i st actor s))"
| escalate: "ticketStep s (snd (escalateOverdueTickets now s))"

lemma create_evolves:
  assumes "uuid \<notin> k_id ` set (ts_tickets s)"
  shows "evolves s (snd (createTicket uuid now number cid dto s))"
proof -
  have "evolves s s1" if "insertTicket k s = (r, s1)" "k_id k = uuid" for k r s1
    using assms that
    by (auto simp: insertTicket_def evolves_def findTicketById_def lookup_append keyed_snoc split: if_splits)
  then show ?thesis by (auto simp: createTicket_def Let_def split: prod.split sum.split)
qed

lemma ticketStep_evolves: "ticketStep s s' \<Longrightarrow> keyed k_id (ts_tickets s) \<Longrightarrow> evolves s s'"
proof (induction rule: ticketStep.induct)
  case (attach s uuid stored i u upl)
  show ?case by (auto simp: uploadAttachment_def createAttachment_def Let_def evolves_tickets split: sum.split option.split)
next
  case (close s now i cid)
  then show ?case using transition_evolves findForCustomer by (auto simp: closeTicket_def split: option.split)
next
  case (assign s i agentId actor)
  have "evolves s (snd (assignAgent i agentId s))"
    unfolding assignAgent_def by (rule updateTicket_evolves) (simp_all add: ages_def resolvedOk_def)
  then show ?case by (auto simp: assignTicket_def Let_def split: option.split prod.split sum.split)
next
  case (priority s i p actor)
  have "evolves s (snd (setPriority i p s))"
    unfolding setPriority_def by (rule updateTicket_evolves) (simp_all add: ages_def resolvedOk_def)
  then show ?case by (auto simp: updatePriority_def split: option.split prod.split sum.split)
next
  case (status s now i st actor)
  then show ?case using transition_evolves by (auto simp: updateStatusAsStaff_def split: option.split)
qed (simp_all add: create_evolves post_evolves escalate_evolves)

text \<open>
  A ticket ages one way.  Along any sequence of ticket operations and escalation runs, one
  after the other, a ticket keeps existing with its customer, a closed one stays closed, the time
  of the first agent reply and the time of the escalation are each set at most once, and a
  resolved ticket carries the time it was resolved.
\<close>
theorem ticket_ages:
  assumes "ticketStep\<^sup>*\<^sup>* s s'" and "keyed k_id (ts_tickets s)" and "findTicketById i s = Some k" and "resolvedOk k"
  shows "\<exists>k'. findTicketById i s' = Some k' \<and> k_customerId k' = k_customerId k \<and>
    (k_status k = CLOSED \<longrightarrow> k_status k' = CLOSED) \<and>
    (k_firstResponseAt k \<noteq> None \<longrightarrow> k_firstResponseAt k' = k_firstResponseAt k) \<and>
    (k_escalatedAt k \<noteq> None \<longrightarrow> k_escalatedAt k' = k_escalatedAt k) \<and>
    (k_status k' = RESOLVED \<longrightarrow> k_resolvedAt k' \<noteq> None)"
proof -
  have "evolves s s' \<and> keyed k_id (ts_tickets s')"
    using assms(1,2)
  proof (induction rule: rtranclp_induct)
    case (step t u)
    then have "evolves t u" by (blast intro: ticketStep_evolves)
    then show ?case using step evolves_trans[of s t u] by (auto simp: evolves_def)
  qed simp
  then obtain k' where "findTicketById i s' = Some k'" "ages k k'" using assms(3) by (auto simp: evolves_def)
  then show ?thesis using assms(4) by (auto simp: ages_def keeps_def resolvedOk_def)
qed

text \<open>
  An escalation run leaves nothing overdue.  It never fails, no ticket that was past the
  threshold at its clock is still waiting for escalation afterwards, and running it again at the
  same clock changes nothing and notifies nobody.
\<close>
theorem escalation_complete:
  "fst (escalateOverdueTickets now s) = Inr () \<and>
   findOverdueTickets (now - SLA_THRESHOLD_HOURS * 60 * 60 * 1000) (snd (escalateOverdueTickets now s)) = [] \<and>
   escalateOverdueTickets now (snd (escalateOverdueTickets now s)) = (Inr (), snd (escalateOverdueTickets now s))"
proof -
  let ?t = "now - SLA_THRESHOLD_HOURS * 60 * 60 * 1000"
  let ?s = "snd (escalateOverdueTickets now s)"
  note e = escalateEach_effect[OF overdue_ids, of now ?t s]
  have s: "ts_tickets ?s = modify (\<lambda>r. k_id r \<in> k_id ` set (findOverdueTickets ?t s))
      (\<lambda>r. r\<lparr>k_escalatedAt := Some now, k_priority := URGENT\<rparr>) (ts_tickets s)"
    using e by (simp only: escalateOverdueTickets_def)
  have "k_id k \<in> k_id ` set (findOverdueTickets ?t s)" if "k \<in> set (ts_tickets s)" "isOverdue ?t k" for k
    using that by (auto simp: findOverdueTickets_def)
  then have "\<not> isOverdue ?t k" if "k \<in> set (ts_tickets ?s)" for k
    using that unfolding s set_modify by auto (simp add: isOverdue_def)
  then have none: "findOverdueTickets ?t ?s = []"
    unfolding findOverdueTickets_def filter_empty_conv by blast
  have "escalateOverdueTickets now ?s = escalateEach now (findOverdueTickets ?t ?s) ?s"
    by (rule escalateOverdueTickets_def)
  then show ?thesis unfolding none using e none by (simp add: escalateOverdueTickets_def)
qed

text \<open>
  An uploaded attachment is never shown.  An accepted upload adds a row that belongs to no
  message, and a ticket is shown with the attachments of its messages only: the answer to the
  upload, and every later view of the ticket, is the one before the upload.
\<close>
theorem attachment_invisible:
  assumes "uploadAttachment uuid stored i u upl s = (Inr resp, s')"
  shows "length (ts_attachments s') = Suc (length (ts_attachments s)) \<and>
    Inr resp = getTicketOrThrow i s \<and> getTicketOrThrow i s' = getTicketOrThrow i s"
proof -
  have "toTicketResponse (createAttachment a s) k = toTicketResponse s k" if "at_messageId a = None" for a k
    using that by (simp add: createAttachment_def toTicketResponse_def)
  then have "getTicketOrThrow i (createAttachment a s) = getTicketOrThrow i s" if "at_messageId a = None" for a
    using that by (simp add: getTicketOrThrow_def findTicketById_def createAttachment_def split: option.split)
  then show ?thesis
    using assms by (auto simp: uploadAttachment_def Let_def createAttachment_def
        split: sum.splits option.splits if_splits)
qed

text \<open>
  A requester who is not a customer answers their own ticket.  Any signed-in role may open a
  ticket, but whoever is not a CUSTOMER counts as staff when posting: a rider's own follow-up is
  stored as an agent's message, stamps the first response and notifies the rider.
\<close>
theorem own_reply_counts_as_response:
  assumes "findTicketById i s = Some k" and "k_customerId k = userId u" and "role u \<noteq> CUSTOMER"
    and "k_firstResponseAt k = None"
  shows "let s' = snd (postMessage uuid now i u msg s) in
    map_option k_firstResponseAt (findTicketById i s') = Some (Some now) \<and>
    map m_senderType (ts_messages s') = map m_senderType (ts_messages s) @ [FROM_AGENT] \<and>
    ts_effects s' = ts_effects s @ [TicketNotification (userId u) (excerpt msg)]"
proof -
  have "k_id k = i" using assms(1) by (auto simp: findTicketById_def dest: lookup_key)
  then show ?thesis
    using assms by (simp add: postMessage_def assertTicketAccess_def Let_def createMessage_def
        setFirstResponseIfUnset_def findTicketById_def lookup_modify)
qed

section \<open>Concrete inputs\<close>

definition ticketDto :: createTicketDto where
  "ticketDto = \<lparr>ct_category = ''GENERAL'', ct_priority = None, ct_subject = ''late'', ct_description = ''...'',
     ct_orderId = None, ct_paymentId = None\<rparr>"

definition noTickets :: ticketStore where
  "noTickets = \<lparr>ts_tickets = [], ts_messages = [], ts_attachments = [], ts_customers = [], ts_faqs = [], ts_effects = []\<rparr>"

definition riderTickets :: ticketStore where
  "riderTickets = snd (createTicket ''k1'' 7 (\<lambda>n. ''7'') ''dp1'' ticketDto noTickets)"

definition riderPoster :: authUser where
  "riderPoster = \<lparr>userId = ''dp1'', role = DELIVERY_PARTNER\<rparr>"

definition riderTicket :: ticket where
  "riderTicket = \<lparr>k_id = ''k1'', k_ticketNumber = ''TKT-7'', k_customerId = ''dp1'', k_assignedAgentId = None,
     k_orderId = None, k_paymentId = None, k_category = ''GENERAL'', k_priority = MEDIUM, k_status = OPEN,
     k_subject = ''late'', k_description = ''...'', k_firstResponseAt = None, k_resolvedAt = None,
     k_escalatedAt = None, k_createdAt = 7\<rparr>"

lemma riderTickets_eq: "ts_tickets riderTickets = [riderTicket]" "ts_attachments riderTickets = []"
  by (simp_all add: riderTickets_def createTicket_def insertTicket_def noTickets_def ticketDto_def riderTicket_def Let_def)

lemma rider_found: "findTicketById ''k1'' riderTickets = Some riderTicket"
  by (simp add: findTicketById_def riderTickets_eq) (simp add: riderTicket_def)

lemma ticket_ages_witness:
  "\<exists>k'. findTicketById ''k1'' (snd (closeTicket 9 id ''k1'' ''dp1'' riderTickets)) = Some k' \<and> k_customerId k' = ''dp1''"
proof -
  have "ticketStep\<^sup>*\<^sup>* riderTickets (snd (closeTicket 9 id ''k1'' ''dp1'' riderTickets))"
    by (intro r_into_rtranclp ticketStep.close)
  moreover have "keyed k_id (ts_tickets riderTickets)" by (simp add: riderTickets_eq keyed_def)
  moreover have "resolvedOk riderTicket" by (simp add: resolvedOk_def riderTicket_def)
  ultimately show ?thesis using ticket_ages[OF _ _ rider_found] by (fastforce simp: riderTicket_def)
qed

lemma attachment_invisible_witness:
  "length (ts_attachments (snd (uploadAttachment ''at1'' (Inr ''url'') ''k1'' riderPoster
      (Some \<lparr>uf_name = ''x'', uf_mime = ''image/png'', uf_size = 10\<rparr>) riderTickets))) = 1"
proof -
  let ?r = "uploadAttachment ''at1'' (Inr ''url'') ''k1'' riderPoster
      (Some \<lparr>uf_name = ''x'', uf_mime = ''image/png'', uf_size = 10\<rparr>) riderTickets"
  have "assertTicketAccess ''k1'' riderPoster riderTickets = Inr riderTicket"
    by (simp add: assertTicketAccess_def rider_found riderPoster_def riderTicket_def)
  then have "\<exists>resp. fst ?r = Inr resp"
    using rider_found by (simp add: uploadAttachment_def ALLOWED_ATTACHMENT_MIME_TYPES_def MAX_ATTACHMENT_SIZE_BYTES_def
        getTicketOrThrow_def findTicketById_def createAttachment_def Let_def)
  then obtain resp s' where r: "?r = (Inr resp, s')" by (metis fst_conv surj_pair)
  from attachment_invisible[OF r] show ?thesis using r by (simp add: riderTickets_eq)
qed

lemma own_reply_counts_as_response_witness:
  "map_option k_firstResponseAt (findTicketById ''k1'' (snd (postMessage ''m1'' 9 ''k1'' riderPoster ''hello'' riderTickets)))
     = Some (Some 9)"
  using own_reply_counts_as_response[OF rider_found, of riderPoster "''m1''" 9 "''hello''"]
  by (simp add: riderTicket_def riderPoster_def Let_def)

end
