(* ===== verification/Auth.thy ===== *)
theory Auth
  imports Store
begin

text \<open>
  Accounts and sessions: \<^verbatim>\<open>AuthService\<close>, \<^verbatim>\<open>AuthRepository\<close>, \<^verbatim>\<open>TokenService\<close>, \<^verbatim>\<open>JwtStrategy\<close>,
  \<^verbatim>\<open>RolesGuard\<close>, and the account operations of \<^verbatim>\<open>UsersService\<close> over \<^verbatim>\<open>UsersRepository\<close>.

  Library functions are parameters, bundled in \<^verbatim>\<open>crypto\<close>: bcrypt's \<open>hash\<close> and \<open>compare\<close>, the
  SHA-256 \<open>digest\<close> of \<^verbatim>\<open>hashToken\<close>, and the JWT library's signing and verification of refresh
  tokens.  A signed refresh token is a function of its payload and of the second it is issued in,
  because that is all the library puts into it (\<^verbatim>\<open>sub\<close>, \<^verbatim>\<open>email\<close>, \<^verbatim>\<open>role\<close>, \<^verbatim>\<open>iat\<close>, \<^verbatim>\<open>exp\<close>).

  Redis is the key-value list of \<^verbatim>\<open>authStore\<close> with an optional deadline per key; a request finds
  it up or down (\<open>up\<close>).
\<close>

section \<open>Data\<close>

record jwtPayload =
  jp_sub :: string
  jp_email :: "string option"
  jp_role :: userRole

record accessToken =
  ac_payload :: jwtPayload
  ac_jti :: "string option"
  ac_exp :: int

record crypto =
  cr_hash :: "string \<Rightarrow> string"
  cr_compare :: "string \<Rightarrow> string \<Rightarrow> bool"
  cr_digest :: "string \<Rightarrow> string"
  cr_signRefresh :: "jwtPayload \<Rightarrow> int \<Rightarrow> string"
  cr_refreshValid :: "string \<Rightarrow> int \<Rightarrow> bool"

record account =
  ua_id :: string
  ua_firstName :: string
  ua_lastName :: "string option"
  ua_email :: "string option"
  ua_phone :: "string option"
  ua_passwordHash :: "string option"
  ua_role :: userRole
  ua_status :: userStatus
  ua_avatarUrl :: "string option"
  ua_referralCode :: "string option"
  ua_referredByCode :: "string option"
  ua_createdAt :: int
  ua_deletedAt :: "int option"

record refreshRow =
  rt_userId :: string
  rt_token :: string
  rt_expiresAt :: int
  rt_revokedAt :: "int option"

record resetRow =
  pr_userId :: string
  pr_tokenHash :: string
  pr_expiresAt :: int
  pr_usedAt :: "int option"

record authStore =
  as_users :: "account list"
  as_refresh :: "refreshRow list"
  as_resets :: "resetRow list"
  as_referrals :: "(string \<times> string) list"
  as_redis :: "(string \<times> int option) list"
  as_audit :: "(string \<times> string) list"

definition logAudit :: "string \<Rightarrow> string \<Rightarrow> authStore \<Rightarrow> authStore" where
  "logAudit target action s = s\<lparr>as_audit := as_audit s @ [(target, action)]\<rparr>"

section \<open>Redis keys\<close>

definition redisSetEx :: "string \<Rightarrow> int option \<Rightarrow> authStore \<Rightarrow> authStore" where
  "redisSetEx key deadline s = s\<lparr>as_redis := (key, deadline) # filter (\<lambda>e. fst e \<noteq> key) (as_redis s)\<rparr>"

definition redisDel :: "string \<Rightarrow> authStore \<Rightarrow> authStore" where
  "redisDel key s = s\<lparr>as_redis := filter (\<lambda>e. fst e \<noteq> key) (as_redis s)\<rparr>"

definition redisHas :: "int \<Rightarrow> string \<Rightarrow> authStore \<Rightarrow> bool" where
  "redisHas now key s =
     (case map_of (as_redis s) key of
        None \<Rightarrow> False | Some None \<Rightarrow> True | Some (Some t) \<Rightarrow> now < t)"

definition blockedKey :: "string \<Rightarrow> string" where
  "blockedKey uid = ''auth:blocked:'' @ uid"

definition blacklistKey :: "string \<Rightarrow> string" where
  "blacklistKey jti = ''auth:blacklist:'' @ jti"

section \<open>Repository\<close>

definition findUserByEmail :: "string \<Rightarrow> authStore \<Rightarrow> account option" where
  "findUserByEmail email s = List.find (\<lambda>a. ua_email a = Some email \<and> ua_deletedAt a = None) (as_users s)"

definition findUserById :: "string \<Rightarrow> authStore \<Rightarrow> account option" where
  "findUserById uid s = List.find (\<lambda>a. ua_id a = uid \<and> ua_deletedAt a = None) (as_users s)"

text \<open>The unique index on \<^verbatim>\<open>email\<close> covers deleted accounts too (their email is cleared).\<close>

definition createUser :: "account \<Rightarrow> authStore \<Rightarrow> (authStore, account) outcome" where
  "createUser a s =
     (if \<exists>b \<in> set (as_users s). ua_email b \<noteq> None \<and> ua_email b = ua_email a
      then (Inl (UniqueViolation ''email''), s)
      else (Inr a, s\<lparr>as_users := as_users s @ [a]\<rparr>))"

definition updateUser :: "string \<Rightarrow> (account \<Rightarrow> account) \<Rightarrow> authStore \<Rightarrow> (authStore, account) outcome" where
  "updateUser uid f s =
     (case lookup ua_id uid (as_users s) of
        None \<Rightarrow> (Inl (RecordNotFound ''User''), s)
      | Some a \<Rightarrow> (Inr (f a), s\<lparr>as_users := modify (\<lambda>a. ua_id a = uid) f (as_users s)\<rparr>))"

definition createRefreshToken :: "refreshRow \<Rightarrow> authStore \<Rightarrow> (authStore, unit) outcome" where
  "createRefreshToken r s =
     (if lookup rt_token (rt_token r) (as_refresh s) \<noteq> None then (Inl (UniqueViolation ''RefreshToken.token''), s)
      else (Inr (), s\<lparr>as_refresh := as_refresh s @ [r]\<rparr>))"

definition findRefreshToken :: "string \<Rightarrow> authStore \<Rightarrow> refreshRow option" where
  "findRefreshToken tok s = lookup rt_token tok (as_refresh s)"

definition revokeRefreshToken :: "int \<Rightarrow> string \<Rightarrow> authStore \<Rightarrow> (authStore, unit) outcome" where
  "revokeRefreshToken now tok s =
     (if findRefreshToken tok s = None then (Inl (RecordNotFound ''RefreshToken''), s)
      else (Inr (), s\<lparr>as_refresh := modify (\<lambda>r. rt_token r = tok) (\<lambda>r. r\<lparr>rt_revokedAt := Some now\<rparr>) (as_refresh s)\<rparr>))"

definition revokeAllRefreshTokensForUser :: "int \<Rightarrow> string \<Rightarrow> authStore \<Rightarrow> authStore" where
  "revokeAllRefreshTokensForUser now uid s =
     s\<lparr>as_refresh := modify (\<lambda>r. rt_userId r = uid \<and> rt_revokedAt r = None)
         (\<lambda>r. r\<lparr>rt_revokedAt := Some now\<rparr>) (as_refresh s)\<rparr>"

definition createPasswordResetToken :: "resetRow \<Rightarrow> authStore \<Rightarrow> (authStore, unit) outcome" where
  "createPasswordResetToken r s =
     (if lookup pr_tokenHash (pr_tokenHash r) (as_resets s) \<noteq> None then (Inl (UniqueViolation ''tokenHash''), s)
      else (Inr (), s\<lparr>as_resets := as_resets s @ [r]\<rparr>))"

definition findPasswordResetToken :: "string \<Rightarrow> authStore \<Rightarrow> resetRow option" where
  "findPasswordResetToken h s = lookup pr_tokenHash h (as_resets s)"

definition markPasswordResetTokenUsed :: "int \<Rightarrow> string \<Rightarrow> authStore \<Rightarrow> (authStore, unit) outcome" where
  "markPasswordResetTokenUsed now h s =
     (if findPasswordResetToken h s = None then (Inl (RecordNotFound ''PasswordResetToken''), s)
      else (Inr (), s\<lparr>as_resets := modify (\<lambda>r. pr_tokenHash r = h) (\<lambda>r. r\<lparr>pr_usedAt := Some now\<rparr>) (as_resets s)\<rparr>))"

definition findUserByReferralCode :: "string \<Rightarrow> authStore \<Rightarrow> account option" where
  "findUserByReferralCode code s = lookup ua_referralCode (Some code) (as_users s)"

definition setReferralCode :: "string \<Rightarrow> string \<Rightarrow> authStore \<Rightarrow> (authStore, account) outcome" where
  "setReferralCode uid code s =
     (if \<exists>b \<in> set (as_users s). ua_id b \<noteq> uid \<and> ua_referralCode b = Some code
      then (Inl (UniqueViolation ''referralCode''), s)
      else updateUser uid (\<lambda>a. a\<lparr>ua_referralCode := Some code\<rparr>) s)"

definition createReferral :: "string \<Rightarrow> string \<Rightarrow> authStore \<Rightarrow> authStore" where
  "createReferral referrer referee s =
     (if referee \<in> snd ` set (as_referrals s) then s
      else s\<lparr>as_referrals := as_referrals s @ [(referrer, referee)]\<rparr>)"

section \<open>Tokens\<close>

definition REFRESH_TOKEN_TTL_MS :: int where "REFRESH_TOKEN_TTL_MS = 7 * 24 * 60 * 60 * 1000"

definition PASSWORD_RESET_TOKEN_TTL_MS :: int where "PASSWORD_RESET_TOKEN_TTL_MS = 30 * 60 * 1000"

definition payloadOf :: "account \<Rightarrow> jwtPayload" where
  "payloadOf a = \<lparr>jp_sub = ua_id a, jp_email = ua_email a, jp_role = ua_role a\<rparr>"

definition generateAccessToken :: "string \<Rightarrow> int \<Rightarrow> jwtPayload \<Rightarrow> accessToken" where
  "generateAccessToken jti now p = \<lparr>ac_payload = p, ac_jti = Some jti, ac_exp = now div 1000 + 15 * 60\<rparr>"

definition generateRefreshToken :: "crypto \<Rightarrow> int \<Rightarrow> jwtPayload \<Rightarrow> string" where
  "generateRefreshToken cr now p = cr_signRefresh cr p (now div 1000)"

definition issueTokens ::
  "crypto \<Rightarrow> int \<Rightarrow> string \<Rightarrow> account \<Rightarrow> authStore \<Rightarrow> (authStore, accessToken \<times> string) outcome" where
  "issueTokens cr now jti a s =
     (let p = payloadOf a; acc = generateAccessToken jti now p; ref = generateRefreshToken cr now p
      in case createRefreshToken \<lparr>rt_userId = ua_id a, rt_token = cr_digest cr ref,
                rt_expiresAt = now + REFRESH_TOKEN_TTL_MS, rt_revokedAt = None\<rparr> s of
           (Inl e, s1) \<Rightarrow> (Inl e, s1)
         | (Inr _, s1) \<Rightarrow> (Inr (acc, ref), s1))"

section \<open>Auth service\<close>

record registerDto =
  rg_firstName :: string
  rg_lastName :: "string option"
  rg_email :: string
  rg_password :: string
  rg_referralCode :: "string option"

definition ownReferralCode :: "string \<Rightarrow> string" where
  "ownReferralCode uid = toUpperCase (take 8 (filter (\<lambda>c. c \<noteq> CHR ''-'') uid))"

definition linkReferral :: "registerDto \<Rightarrow> userRole \<Rightarrow> string \<Rightarrow> authStore \<Rightarrow> authStore" where
  "linkReferral dto rl uid s =
     (if rl = CUSTOMER \<and> truthy (rg_referralCode dto)
      then (case findUserByReferralCode (the (rg_referralCode dto)) s of
              None \<Rightarrow> s
            | Some r \<Rightarrow> if ua_id r \<noteq> uid then createReferral (ua_id r) uid s else s)
      else s)"

definition registerWithRole ::
  "crypto \<Rightarrow> int \<Rightarrow> string \<Rightarrow> string \<Rightarrow> (authStore \<Rightarrow> authStore) \<Rightarrow> registerDto \<Rightarrow> userRole \<Rightarrow> authStore
     \<Rightarrow> (authStore, account \<times> accessToken \<times> string) outcome" where
  "registerWithRole cr now uuid jti env dto rl s =
     (if findUserByEmail (rg_email dto) s \<noteq> None then (Inl (Conflict ''User already exists''), s)
      else
        (case createUser \<lparr>ua_id = uuid, ua_firstName = rg_firstName dto, ua_lastName = rg_lastName dto,
                ua_email = Some (rg_email dto), ua_phone = None,
                ua_passwordHash = Some (cr_hash cr (rg_password dto)), ua_role = rl, ua_status = USER_ACTIVE,
                ua_avatarUrl = None, ua_referralCode = None, ua_referredByCode = rg_referralCode dto,
                ua_createdAt = now, ua_deletedAt = None\<rparr> (env s) of
           (Inl e, s1) \<Rightarrow> (Inl e, s1)
         | (Inr a, s1) \<Rightarrow>
             (case setReferralCode uuid (ownReferralCode uuid) s1 of
                (Inl e, s2) \<Rightarrow> (Inl e, s2)
              | (Inr a', s2) \<Rightarrow>
                  (case issueTokens cr now jti a' (linkReferral dto rl uuid s2) of
                     (Inl e, s3) \<Rightarrow> (Inl e, s3)
                   | (Inr (acc, ref), s3) \<Rightarrow> (Inr (a', acc, ref), logAudit uuid ''CREATE'' s3)))))"

definition register ::
  "crypto \<Rightarrow> int \<Rightarrow> string \<Rightarrow> string \<Rightarrow> (authStore \<Rightarrow> authStore) \<Rightarrow> registerDto \<Rightarrow> authStore
     \<Rightarrow> (authStore, account \<times> accessToken \<times> string) outcome" where
  "register cr now uuid jti env dto = registerWithRole cr now uuid jti env dto CUSTOMER"

definition registerDeliveryPartner ::
  "crypto \<Rightarrow> int \<Rightarrow> string \<Rightarrow> string \<Rightarrow> (authStore \<Rightarrow> authStore) \<Rightarrow> registerDto \<Rightarrow> authStore
     \<Rightarrow> (authStore, account \<times> accessToken \<times> string) outcome" where
  "registerDeliveryPartner cr now uuid jti env dto = registerWithRole cr now uuid jti env dto DELIVERY_PARTNER"

definition registerRestaurantOwner ::
  "crypto \<Rightarrow> int \<Rightarrow> string \<Rightarrow> string \<Rightarrow> (authStore \<Rightarrow> authStore) \<Rightarrow> registerDto \<Rightarrow> authStore
     \<Rightarrow> (authStore, account \<times> accessToken \<times> string) outcome" where
  "registerRestaurantOwner cr now uuid jti env dto = registerWithRole cr now uuid jti env dto RESTAURANT_OWNER"

definition login ::
  "crypto \<Rightarrow> int \<Rightarrow> string \<Rightarrow> string \<Rightarrow> string \<Rightarrow> authStore \<Rightarrow> (authStore, account \<times> accessToken \<times> string) outcome" where
  "login cr now jti email password s =
     (case findUserByEmail email s of
        None \<Rightarrow> (Inl (Unauthorized ''Invalid credentials''), s)
      | Some a \<Rightarrow>
          (if \<not> truthy (ua_passwordHash a) then (Inl (Unauthorized ''Invalid credentials''), s)
           else if \<not> cr_compare cr password (the (ua_passwordHash a))
           then (Inl (Unauthorized ''Invalid credentials''), s)
           else (case issueTokens cr now jti a s of
                   (Inl e, s1) \<Rightarrow> (Inl e, s1)
                 | (Inr (acc, ref), s1) \<Rightarrow> (Inr (a, acc, ref), s1))))"

text \<open>\<open>env\<close>: what other requests commit between the read of the token row and its revocation.  The
  row was read with its user, whom the new tokens are issued to.\<close>

definition refreshToken ::
  "crypto \<Rightarrow> int \<Rightarrow> string \<Rightarrow> (authStore \<Rightarrow> authStore) \<Rightarrow> string \<Rightarrow> authStore
     \<Rightarrow> (authStore, accessToken \<times> string) outcome" where
  "refreshToken cr now jti env raw s =
     (let deny = Unauthorized ''Invalid or expired refresh token'' in
      if \<not> cr_refreshValid cr raw now then (Inl deny, s)
      else
        (case findRefreshToken (cr_digest cr raw) s of
           None \<Rightarrow> (Inl deny, s)
         | Some r \<Rightarrow>
             (if rt_revokedAt r \<noteq> None then (Inl deny, s)
              else if rt_expiresAt r < now then (Inl deny, s)
              else
                (case lookup ua_id (rt_userId r) (as_users s) of
                   None \<Rightarrow> (Inl deny, s)
                 | Some a \<Rightarrow>
                     (case revokeRefreshToken now (cr_digest cr raw) (env s) of
                        (Inl e, s1) \<Rightarrow> (Inl e, s1)
                      | (Inr _, s1) \<Rightarrow> issueTokens cr now jti a s1)))))"

text \<open>\<open>presented\<close> is the payload of the access token sent along, when its signature verifies.\<close>

definition logout :: "crypto \<Rightarrow> int \<Rightarrow> bool \<Rightarrow> string \<Rightarrow> accessToken option \<Rightarrow> authStore \<Rightarrow> (authStore, unit) outcome" where
  "logout cr now up raw presented s =
     (case revokeRefreshToken now (cr_digest cr raw) s of
        (Inl e, s1) \<Rightarrow> (Inl e, s1)
      | (Inr _, s1) \<Rightarrow>
          (Inr (), case presented of
             None \<Rightarrow> s1
           | Some t \<Rightarrow>
               (case ac_jti t of
                  None \<Rightarrow> s1
                | Some jti \<Rightarrow>
                    (let ttl = ac_exp t - now div 1000
                     in if ttl > 0 \<and> up then redisSetEx (blacklistKey jti) (Some (now + ttl * 1000)) s1 else s1))))"

definition forgotPassword :: "crypto \<Rightarrow> int \<Rightarrow> string \<Rightarrow> string \<Rightarrow> authStore \<Rightarrow> (authStore, unit) outcome" where
  "forgotPassword cr now raw email s =
     (case findUserByEmail email s of
        None \<Rightarrow> (Inr (), s)
      | Some a \<Rightarrow> createPasswordResetToken \<lparr>pr_userId = ua_id a, pr_tokenHash = cr_digest cr raw,
                    pr_expiresAt = now + PASSWORD_RESET_TOKEN_TTL_MS, pr_usedAt = None\<rparr> s)"

definition resetPassword ::
  "crypto \<Rightarrow> int \<Rightarrow> (authStore \<Rightarrow> authStore) \<Rightarrow> string \<Rightarrow> string \<Rightarrow> authStore \<Rightarrow> (authStore, unit) outcome" where
  "resetPassword cr now env raw newPassword s =
     (let h = cr_digest cr raw in
      case findPasswordResetToken h s of
        None \<Rightarrow> (Inl (BadRequest ''Invalid or expired reset link''), s)
      | Some r \<Rightarrow>
          (if pr_usedAt r \<noteq> None \<or> pr_expiresAt r < now then (Inl (BadRequest ''Invalid or expired reset link''), s)
           else
             (case updateUser (pr_userId r) (\<lambda>a. a\<lparr>ua_passwordHash := Some (cr_hash cr newPassword)\<rparr>) (env s) of
                (Inl e, s1) \<Rightarrow> (Inl e, s1)
              | (Inr _, s1) \<Rightarrow>
                  (case markPasswordResetTokenUsed now h s1 of
                     (Inl e, s2) \<Rightarrow> (Inl e, s2)
                   | (Inr _, s2) \<Rightarrow>
                       (Inr (), logAudit (pr_userId r) ''password_reset''
                          (revokeAllRefreshTokensForUser now (pr_userId r) s2))))))"

definition getProfile :: "string \<Rightarrow> authStore \<Rightarrow> account result" where
  "getProfile uid s =
     (case findUserById uid s of None \<Rightarrow> Inl (Unauthorized ''User not found'') | Some a \<Rightarrow> Inr a)"

text \<open>\<^verbatim>\<open>JwtStrategy.validate\<close> on a token whose signature and expiry the library has checked; with Redis
  down it lets the request through.\<close>

definition validate :: "int \<Rightarrow> bool \<Rightarrow> accessToken \<Rightarrow> authStore \<Rightarrow> authUser result" where
  "validate now up t s =
     (let blacklisted = up \<and> (case ac_jti t of None \<Rightarrow> False | Some j \<Rightarrow> j \<noteq> [] \<and> redisHas now (blacklistKey j) s);
          blocked = up \<and> redisHas now (blockedKey (jp_sub (ac_payload t))) s
      in if blacklisted then Inl (Unauthorized ''Session has been logged out'')
         else if blocked then Inl (Unauthorized ''Account is no longer active'')
         else Inr \<lparr>userId = jp_sub (ac_payload t), role = jp_role (ac_payload t)\<rparr>)"

definition canActivate :: "userRole list option \<Rightarrow> authUser \<Rightarrow> bool" where
  "canActivate required u = (case required of None \<Rightarrow> True | Some rs \<Rightarrow> role u \<in> set rs)"

section \<open>Users service\<close>

definition changePassword ::
  "crypto \<Rightarrow> string \<Rightarrow> string \<Rightarrow> string \<Rightarrow> authStore \<Rightarrow> (authStore, unit) outcome" where
  "changePassword cr uid current new s =
     (case findUserById uid s of
        None \<Rightarrow> (Inl (NotFound ''User''), s)
      | Some a \<Rightarrow>
          (if \<not> truthy (ua_passwordHash a) then (Inl (BadRequest ''Password login is not enabled''), s)
           else if \<not> cr_compare cr current (the (ua_passwordHash a))
           then (Inl (Unauthorized ''Current password is incorrect''), s)
           else (case updateUser uid (\<lambda>a. a\<lparr>ua_passwordHash := Some (cr_hash cr new)\<rparr>) s of
                   (Inl e, s1) \<Rightarrow> (Inl e, s1)
                 | (Inr _, s1) \<Rightarrow> (Inr (), logAudit uid ''password_changed'' s1))))"

text \<open>\<^verbatim>\<open>Math.round((filled / 4) * 100)\<close>.\<close>

definition computeProfileCompletion :: "account \<Rightarrow> int" where
  "computeProfileCompletion a =
     mathRound (of_nat (length (filter truthy [ua_lastName a, ua_email a, ua_phone a, ua_avatarUrl a])) / 4 * 100)"

definition deleteAccount :: "int \<Rightarrow> string \<Rightarrow> authStore \<Rightarrow> (authStore, unit) outcome" where
  "deleteAccount now uid s =
     (case findUserById uid s of
        None \<Rightarrow> (Inl (NotFound ''User''), s)
      | Some _ \<Rightarrow>
          (case updateUser uid (\<lambda>a. a\<lparr>ua_deletedAt := Some now, ua_passwordHash := None, ua_email := None,
                   ua_phone := None\<rparr>) s of
             (Inl e, s1) \<Rightarrow> (Inl e, s1)
           | (Inr _, s1) \<Rightarrow> (Inr (), logAudit uid ''DELETE'' (revokeAllRefreshTokensForUser now uid s1))))"

definition setUserStatus :: "string \<Rightarrow> userStatus \<Rightarrow> authStore \<Rightarrow> (authStore, account) outcome" where
  "setUserStatus uid st = updateUser uid (\<lambda>a. a\<lparr>ua_status := st\<rparr>)"

text \<open>The Redis write is best effort: with Redis down it is logged and skipped.\<close>

definition revokeAllSessions :: "int \<Rightarrow> bool \<Rightarrow> string \<Rightarrow> authStore \<Rightarrow> authStore" where
  "revokeAllSessions now up uid s =
     (let s1 = revokeAllRefreshTokensForUser now uid s
      in if up then redisSetEx (blockedKey uid) None s1 else s1)"

definition activateUser :: "string \<Rightarrow> authStore \<Rightarrow> (authStore, account) outcome" where
  "activateUser uid s =
     (case findUserById uid s of
        None \<Rightarrow> (Inl (NotFound ''User''), s)
      | Some a \<Rightarrow>
          if ua_status a \<noteq> USER_INACTIVE then (Inl (BadRequest ''Only inactive users can be activated''), s)
          else (case setUserStatus uid USER_ACTIVE s of
                  (Inl e, s1) \<Rightarrow> (Inl e, s1)
                | (Inr a', s1) \<Rightarrow> (Inr a', logAudit uid ''activated'' s1)))"

definition suspendUser :: "int \<Rightarrow> bool \<Rightarrow> string \<Rightarrow> string \<Rightarrow> authStore \<Rightarrow> (authStore, account) outcome" where
  "suspendUser now up uid actor s =
     (if uid = actor then (Inl (Forbidden ''own account''), s)
      else case findUserById uid s of
        None \<Rightarrow> (Inl (NotFound ''User''), s)
      | Some a \<Rightarrow>
          if ua_role a = SUPER_ADMIN then (Inl (Forbidden ''Super admin accounts cannot be suspended''), s)
          else if ua_status a \<noteq> USER_ACTIVE then (Inl (BadRequest ''Only active users can be suspended''), s)
          else (case setUserStatus uid USER_SUSPENDED s of
                  (Inl e, s1) \<Rightarrow> (Inl e, s1)
                | (Inr a', s1) \<Rightarrow> (Inr a', revokeAllSessions now up uid (logAudit uid ''suspended'' s1))))"

text \<open>Here the Redis call is not guarded: with Redis down the request fails after the status change.\<close>

definition restoreUser :: "bool \<Rightarrow> string \<Rightarrow> authStore \<Rightarrow> (authStore, account) outcome" where
  "restoreUser up uid s =
     (case findUserById uid s of
        None \<Rightarrow> (Inl (NotFound ''User''), s)
      | Some a \<Rightarrow>
          if ua_status a \<noteq> USER_SUSPENDED \<and> ua_status a \<noteq> USER_BLOCKED
            then (Inl (BadRequest ''Only suspended or blocked users can be restored''), s)
          else (case setUserStatus uid USER_ACTIVE s of
                  (Inl e, s1) \<Rightarrow> (Inl e, s1)
                | (Inr a', s1) \<Rightarrow>
                    (let s2 = logAudit uid ''restored'' s1
                     in if up then (Inr a', redisDel (blockedKey uid) s2) else (Inl (Unavailable ''redis''), s2))))"

definition blockUser :: "int \<Rightarrow> bool \<Rightarrow> string \<Rightarrow> string \<Rightarrow> authStore \<Rightarrow> (authStore, account) outcome" where
  "blockUser now up uid actor s =
     (if uid = actor then (Inl (Forbidden ''own account''), s)
      else case findUserById uid s of
        None \<Rightarrow> (Inl (NotFound ''User''), s)
      | Some a \<Rightarrow>
          if ua_role a = SUPER_ADMIN then (Inl (Forbidden ''Super admin accounts cannot be blocked''), s)
          else if ua_status a = USER_BLOCKED then (Inl (BadRequest ''User is already blocked''), s)
          else (case setUserStatus uid USER_BLOCKED s of
                  (Inl e, s1) \<Rightarrow> (Inl e, s1)
                | (Inr a', s1) \<Rightarrow> (Inr a', revokeAllSessions now up uid (logAudit uid ''blocked'' s1))))"

definition usersWhere :: "userRole option \<Rightarrow> userStatus option \<Rightarrow> string option \<Rightarrow> account \<Rightarrow> bool" where
  "usersWhere rl st q a \<longleftrightarrow> ua_deletedAt a = None \<and> (case rl of None \<Rightarrow> True | Some x \<Rightarrow> ua_role a = x) \<and>
     (case st of None \<Rightarrow> True | Some x \<Rightarrow> ua_status a = x) \<and>
     (truthy q \<longrightarrow> containsInsensitive (the q) (ua_firstName a) \<or>
        (\<exists>f \<in> set [ua_lastName a, ua_email a, ua_phone a].
           case f of None \<Rightarrow> False | Some v \<Rightarrow> containsInsensitive (the q) v))"

definition getAllUsers ::
  "userRole option \<Rightarrow> userStatus option \<Rightarrow> string option \<Rightarrow> nat \<Rightarrow> nat \<Rightarrow> authStore \<Rightarrow> account list \<times> nat \<times> nat" where
  "getAllUsers rl st q page limit s =
     (let rows = filter (usersWhere rl st q) (as_users s)
      in (pageOf page limit (sort_key (\<lambda>a. - ua_createdAt a) rows), length rows, totalPages (length rows) limit))"

definition countByRole :: "userRole \<Rightarrow> authStore \<Rightarrow> nat" where
  "countByRole rl s = matches (\<lambda>a. ua_role a = rl) (as_users s)"

end
