(* ===== verification/AuthSafety.thy ===== *)
theory AuthSafety
  imports Auth
begin

text \<open>
  What sessions guarantee: a refresh token is consumed by its first use, a suspension cuts every
  live session, and the ways in which concurrent or fast requests escape either.
\<close>

section \<open>What every request keeps\<close>

text \<open>A token row persists with its user and stays revoked once revoked; the block flag of account
  \<open>v\<close>, once set, stays.\<close>

definition rowKept :: "refreshRow \<Rightarrow> refreshRow \<Rightarrow> bool" where
  "rowKept r r' \<longleftrightarrow> rt_userId r' = rt_userId r \<and> (rt_revokedAt r \<noteq> None \<longrightarrow> rt_revokedAt r' \<noteq> None)"

definition kept :: "string \<Rightarrow> authStore \<Rightarrow> authStore \<Rightarrow> bool" where
  "kept v s s' \<longleftrightarrow> (\<forall>h r. findRefreshToken h s = Some r \<longrightarrow> (\<exists>r'. findRefreshToken h s' = Some r' \<and> rowKept r r')) \<and>
     (map_of (as_redis s) (blockedKey v) = Some None \<longrightarrow> map_of (as_redis s') (blockedKey v) = Some None)"

lemma rowKept_refl [simp]: "rowKept r r"
  by (simp add: rowKept_def)

lemma rowKept_trans: "rowKept r s \<Longrightarrow> rowKept s t \<Longrightarrow> rowKept r t"
  by (simp add: rowKept_def)

lemma kept_refl [simp]: "kept v s s"
  by (simp add: kept_def)

lemma kept_trans [trans]: "kept v s t \<Longrightarrow> kept v t u \<Longrightarrow> kept v s u"
  unfolding kept_def by (blast intro: rowKept_trans)

lemma kept_same: "as_refresh s' = as_refresh s \<Longrightarrow> as_redis s' = as_redis s \<Longrightarrow> kept v s s'"
  by (simp add: kept_def findRefreshToken_def)

lemma kept_tables: "as_refresh s1 = as_refresh s2 \<Longrightarrow> as_redis s1 = as_redis s2 \<Longrightarrow> kept v s s1 = kept v s s2"
  by (simp add: kept_def findRefreshToken_def)

lemma logAudit_kept [simp]: "kept v s (logAudit t a s') = kept v s s'"
  by (rule kept_tables) (simp_all add: logAudit_def)

lemma block_keys: "blockedKey u = blockedKey v \<longleftrightarrow> u = v" "blockedKey v \<noteq> blacklistKey j"
  by (simp_all add: blockedKey_def blacklistKey_def)

lemma map_of_without: "map_of (filter (\<lambda>e. fst e \<noteq> k) xs) k' = (if k' = k then None else map_of xs k')"
  by (induction xs) auto

text \<open>One fact per write of the repository and of Redis.\<close>

lemma updateUser_kept: "updateUser uid f s = (r, s1) \<Longrightarrow> kept v s s1"
  by (rule kept_same) (auto simp: updateUser_def split: option.splits)

lemma createUser_kept: "createUser a s = (r, s1) \<Longrightarrow> kept v s s1"
  by (rule kept_same) (auto simp: createUser_def split: if_splits)

lemma referralCode_kept: "setReferralCode u c s = (r, s1) \<Longrightarrow> kept v s s1"
  by (auto simp: setReferralCode_def dest: updateUser_kept split: if_splits)

lemma linkReferral_kept: "kept v s (linkReferral dto rl uid s)"
  by (rule kept_same) (auto simp: linkReferral_def createReferral_def split: option.split)

lemma revoke_kept: "revokeRefreshToken now tok s = (r, s1) \<Longrightarrow> kept v s s1"
  by (auto simp: kept_def revokeRefreshToken_def findRefreshToken_def lookup_modify rowKept_def split: if_splits)

lemma revokeAll_kept: "kept v s (revokeAllRefreshTokensForUser now uid s)"
  by (auto simp: kept_def revokeAllRefreshTokensForUser_def findRefreshToken_def lookup_modify rowKept_def)

lemma createRefresh_kept: "createRefreshToken r s = (x, s1) \<Longrightarrow> kept v s s1"
  by (auto simp: kept_def createRefreshToken_def findRefreshToken_def lookup_append split: if_splits)

lemma reset_row_kept: "createPasswordResetToken r s = (x, s1) \<Longrightarrow> kept v s s1"
  by (rule kept_same) (auto simp: createPasswordResetToken_def split: if_splits)

lemma reset_used_kept: "markPasswordResetTokenUsed now h s = (x, s1) \<Longrightarrow> kept v s s1"
  by (rule kept_same) (auto simp: markPasswordResetTokenUsed_def split: if_splits)

lemma redis_kept:
  "kept v s (redisSetEx (blockedKey u) None s)" "kept v s (redisSetEx (blacklistKey j) d s)"
  "u \<noteq> v \<Longrightarrow> kept v s (redisDel (blockedKey u) s)"
  by (auto simp: kept_def findRefreshToken_def redisSetEx_def redisDel_def map_of_without block_keys)

lemma issue_kept: "issueTokens cr now jti a s = (x, s1) \<Longrightarrow> kept v s s1"
  by (auto simp: issueTokens_def Let_def split: prod.splits sum.splits dest: createRefresh_kept)

lemma write_kept_snd:
  "kept v s (snd (issueTokens cr now jti a s))" "kept v s (snd (createPasswordResetToken pr s))"
  using issue_kept[of cr now jti a s _ _ v] reset_row_kept[of pr s _ _ v] by (metis prod.collapse)+

lemma sessions_kept: "kept v s (revokeAllSessions now up uid s)"
  using kept_trans[OF revokeAll_kept redis_kept(1)] revokeAll_kept by (auto simp: revokeAllSessions_def Let_def)

lemmas write_kept = updateUser_kept createUser_kept referralCode_kept revoke_kept createRefresh_kept
  reset_row_kept reset_used_kept issue_kept

section \<open>Steps\<close>

text \<open>\<open>authStep v\<close>: any request except the restoration of account \<open>v\<close>.  What concurrent requests do
  meanwhile (\<open>env\<close>) is only asked to keep what every request keeps.\<close>

inductive authStep :: "string \<Rightarrow> authStore \<Rightarrow> authStore \<Rightarrow> bool" for v where
  register: "(\<And>s. kept v s (env s)) \<Longrightarrow> authStep v s (snd (registerWithRole cr now uuid jti env dto rl s))"
| login: "authStep v s (snd (login cr now jti email password s))"
| refresh: "(\<And>s. kept v s (env s)) \<Longrightarrow> authStep v s (snd (refreshToken cr now jti env raw s))"
| logout: "authStep v s (snd (logout cr now up raw presented s))"
| forgot: "authStep v s (snd (forgotPassword cr now raw email s))"
| reset: "(\<And>s. kept v s (env s)) \<Longrightarrow> authStep v s (snd (resetPassword cr now env raw new s))"
| change: "authStep v s (snd (changePassword cr uid current new s))"
| delete: "authStep v s (snd (deleteAccount now uid s))"
| activate: "authStep v s (snd (activateUser uid s))"
| suspend: "authStep v s (snd (suspendUser now up uid actor s))"
| restore: "uid \<noteq> v \<Longrightarrow> authStep v s (snd (restoreUser up uid s))"
| block: "authStep v s (snd (blockUser now up uid actor s))"

lemma register_kept:
  assumes "\<And>s. kept v s (env s)"
  shows "kept v s (snd (registerWithRole cr now uuid jti env dto rl s))"
  unfolding registerWithRole_def using assms
  by (auto split: prod.split sum.split dest!: write_kept[where v = v]; meson kept_trans linkReferral_kept)

lemma refresh_kept:
  assumes "\<And>s. kept v s (env s)"
  shows "kept v s (snd (refreshToken cr now jti env raw s))"
  unfolding refreshToken_def Let_def using assms
  by (auto split: prod.split sum.split option.split dest!: write_kept[where v = v]; meson kept_trans write_kept_snd)

lemma logout_kept: "kept v s (snd (logout cr now up raw presented s))"
  unfolding logout_def Let_def
  by (auto split: prod.split sum.split option.split dest!: write_kept[where v = v] intro: kept_trans redis_kept(2))

lemma reset_kept:
  assumes "\<And>s. kept v s (env s)"
  shows "kept v s (snd (resetPassword cr now env raw new s))"
  unfolding resetPassword_def Let_def using assms
  by (auto split: prod.split sum.split option.split dest!: write_kept[where v = v];
      meson kept_trans revokeAll_kept)

lemma status_kept:
  "kept v s (snd (activateUser uid s))" "kept v s (snd (suspendUser now up uid actor s))"
  "kept v s (snd (blockUser now up uid actor s))" "uid \<noteq> v \<Longrightarrow> kept v s (snd (restoreUser up uid s))"
  unfolding activateUser_def suspendUser_def blockUser_def restoreUser_def setUserStatus_def Let_def
  by (auto split: prod.split sum.split option.split dest!: write_kept[where v = v]
      intro: kept_trans[OF _ sessions_kept] kept_trans[OF _ redis_kept(3)])

lemma authStep_kept: "authStep v s s' \<Longrightarrow> kept v s s'"
proof (induction rule: authStep.induct)
  case (login s cr now jti email password)
  show ?case by (auto simp: login_def split: prod.split sum.split option.split dest!: write_kept[where v = v])
next
  case (forgot s cr now raw email)
  show ?case by (auto simp: forgotPassword_def write_kept_snd split: option.split)
next
  case (change s cr uid current new)
  show ?case by (auto simp: changePassword_def split: prod.split sum.split option.split dest!: write_kept[where v = v])
next
  case (delete s now uid)
  show ?case by (auto simp: deleteAccount_def split: prod.split sum.split option.split
        dest!: write_kept[where v = v] intro: kept_trans revokeAll_kept)
qed (simp_all add: register_kept refresh_kept logout_kept reset_kept status_kept)

lemma authSteps_kept: "(authStep v)\<^sup>*\<^sup>* s s' \<Longrightarrow> kept v s s'"
  by (induction rule: rtranclp_induct) (auto intro: kept_trans authStep_kept)

section \<open>Properties\<close>

definition revoked :: "string \<Rightarrow> authStore \<Rightarrow> bool" where
  "revoked h s \<longleftrightarrow> (\<exists>r. findRefreshToken h s = Some r \<and> rt_revokedAt r \<noteq> None)"

lemma revoked_kept: "kept v s s' \<Longrightarrow> revoked h s \<Longrightarrow> revoked h s'"
  unfolding kept_def revoked_def rowKept_def by fast

lemma revoked_denied: "revoked (cr_digest cr raw) s \<Longrightarrow>
    refreshToken cr now jti env raw s = (Inl (Unauthorized ''Invalid or expired refresh token''), s)"
  by (auto simp: revoked_def refreshToken_def Let_def)

lemma revoke_revokes: "revokeRefreshToken now h s = (Inr u, s1) \<Longrightarrow> revoked h s1"
  by (auto simp: revoked_def revokeRefreshToken_def findRefreshToken_def lookup_modify split: if_splits dest: lookup_key)

lemma revokeAll_revokes:
  "findRefreshToken h s = Some r \<Longrightarrow> rt_userId r = uid \<Longrightarrow> revoked h (revokeAllRefreshTokensForUser now uid s)"
  by (auto simp: revoked_def revokeAllRefreshTokensForUser_def findRefreshToken_def lookup_modify)

text \<open>
  C29. A refresh token is single use: once a refresh with it has succeeded, every later refresh
  with the same token is denied and changes nothing, whatever requests run in between and
  whatever other requests those overlap with.
\<close>
theorem refresh_token_single_use:
  assumes "refreshToken cr now jti env raw s = (Inr x, s1)" and "(authStep v)\<^sup>*\<^sup>* s1 s2"
  shows "refreshToken cr later jti' env' raw s2 = (Inl (Unauthorized ''Invalid or expired refresh token''), s2)"
proof -
  obtain a u s3 where rv: "revokeRefreshToken now (cr_digest cr raw) (env s) = (Inr u, s3)"
    and issue: "issueTokens cr now jti a s3 = (Inr x, s1)"
    using assms(1) by (auto simp: refreshToken_def Let_def split: if_splits option.splits prod.splits sum.splits)
  from rv have "revoked (cr_digest cr raw) s3" by (rule revoke_revokes)
  then have "revoked (cr_digest cr raw) s1" by (rule revoked_kept[OF issue_kept[OF issue]])
  then have "revoked (cr_digest cr raw) s2" by (rule revoked_kept[OF authSteps_kept[OF assms(2)]])
  then show ?thesis by (rule revoked_denied)
qed

lemma suspended_effect:
  assumes "suspendUser now up uid actor s = (Inr a, s1)"
  obtains s0 where "setUserStatus uid USER_SUSPENDED s = (Inr a, s0)"
    and "s1 = revokeAllSessions now up uid (logAudit uid ''suspended'' s0)"
  using assms by (auto simp: suspendUser_def split: if_splits option.splits prod.splits sum.splits)

lemma suspended_blocked:
  assumes "suspendUser now True uid actor s = (Inr a, s1)" and "(authStep uid)\<^sup>*\<^sup>* s1 s2"
  shows "map_of (as_redis s2) (blockedKey uid) = Some None"
proof -
  obtain s0 where "s1 = revokeAllSessions now True uid (logAudit uid ''suspended'' s0)"
    using assms(1) by (rule suspended_effect)
  then have "map_of (as_redis s1) (blockedKey uid) = Some None"
    by (simp add: revokeAllSessions_def redisSetEx_def Let_def)
  then show ?thesis using authSteps_kept[OF assms(2)] by (simp add: kept_def)
qed

text \<open>
  A suspension cuts every session.  After a successful suspension with Redis reachable, until
  the account is restored, no access token of the account passes validation, whenever it was
  issued, and no refresh token that existed at the suspension yields new tokens, whatever other
  requests run or overlap.
\<close>
theorem suspension_cuts_sessions:
  assumes "suspendUser now True uid actor s = (Inr a, s1)" and "(authStep uid)\<^sup>*\<^sup>* s1 s2"
    and "jp_sub (ac_payload tok) = uid" and "findRefreshToken (cr_digest cr raw) s = Some r" and "rt_userId r = uid"
  shows "\<not> ok (validate t True tok s2) \<and> \<not> ok (fst (refreshToken cr t jti env raw s2))"
proof -
  obtain s0 where s0: "setUserStatus uid USER_SUSPENDED s = (Inr a, s0)"
    and s1: "s1 = revokeAllSessions now True uid (logAudit uid ''suspended'' s0)"
    using assms(1) by (rule suspended_effect)
  have "as_refresh s0 = as_refresh s"
    using s0 by (auto simp: setUserStatus_def updateUser_def split: option.splits)
  then have "revoked (cr_digest cr raw) (revokeAllRefreshTokensForUser now uid (logAudit uid ''suspended'' s0))"
    using assms(4,5) by (intro revokeAll_revokes) (simp_all add: findRefreshToken_def logAudit_def)
  then have "revoked (cr_digest cr raw) s1"
    unfolding s1 revokeAllSessions_def Let_def if_True by (rule revoked_kept[OF redis_kept(1)])
  then have "revoked (cr_digest cr raw) s2" by (rule revoked_kept[OF authSteps_kept[OF assms(2)]])
  then show ?thesis using revoked_denied suspended_blocked[OF assms(1,2)] assms(3)
    by (simp add: validate_def redisHas_def Let_def)
qed

text \<open>
  A suspended user can sign in.  The login checks no status; only the flag in Redis stops the
  session.  If Redis was down when the account was suspended, the flag is never written, and from
  then on, with Redis back, the suspended user signs in with the password and passes validation.
\<close>
theorem suspended_user_logs_in:
  assumes "suspendUser now False uid actor s = (Inr a, s1)" and "findUserByEmail email s1 = Some a"
    and "truthy (ua_passwordHash a)" and "cr_compare cr password (the (ua_passwordHash a))"
    and "ua_id a = uid" and "map_of (as_redis s) (blockedKey uid) = None"
    and "map_of (as_redis s) (blacklistKey jti) = None"
    and "findRefreshToken (cr_digest cr (generateRefreshToken cr later (payloadOf a))) s1 = None"
  shows "\<exists>acc ref s2. login cr later jti email password s1 = (Inr (a, acc, ref), s2) \<and>
    ua_status a = USER_SUSPENDED \<and> validate later True acc s2 = Inr \<lparr>userId = uid, role = ua_role a\<rparr>"
proof -
  obtain s0 where s0: "setUserStatus uid USER_SUSPENDED s = (Inr a, s0)"
    and s1: "s1 = revokeAllSessions now False uid (logAudit uid ''suspended'' s0)"
    using assms(1) by (rule suspended_effect)
  have "as_redis s1 = as_redis s" "ua_status a = USER_SUSPENDED"
    using s0 unfolding s1
    by (auto simp: revokeAllSessions_def revokeAllRefreshTokensForUser_def logAudit_def setUserStatus_def
        updateUser_def split: option.splits)
  then show ?thesis
    using assms by (simp add: login_def issueTokens_def createRefreshToken_def findRefreshToken_def validate_def
        redisHas_def generateAccessToken_def payloadOf_def Let_def)
qed

text \<open>
  Two tokens of one user cannot be issued within one second.  A refresh token carries only
  the user, the role and the second of issue, and its digest is unique in the table: a second
  login in the same second fails with a database error, and refreshing in the second of the login
  fails after the old token was revoked, which ends the session.
\<close>
theorem same_second_tokens_collide:
  assumes "login cr now jti email password s = (Inr (a, acc, raw), s1)" and "later div 1000 = now div 1000"
    and "cr_refreshValid cr raw later" and "lookup ua_id (ua_id a) (as_users s) = Some a"
  shows "fst (login cr later jti2 email password s1) = Inl (UniqueViolation ''RefreshToken.token'') \<and>
    fst (refreshToken cr later jti3 id raw s1) = Inl (UniqueViolation ''RefreshToken.token'') \<and>
    revoked (cr_digest cr raw) (snd (refreshToken cr later jti3 id raw s1))"
proof -
  have same: "generateRefreshToken cr later p = generateRefreshToken cr now p" for p
    using assms(2) by (simp add: generateRefreshToken_def)
  let ?h = "cr_digest cr raw"
  let ?row = "\<lparr>rt_userId = ua_id a, rt_token = ?h, rt_expiresAt = now + REFRESH_TOKEN_TTL_MS, rt_revokedAt = None\<rparr>"
  have a: "findUserByEmail email s = Some a" "truthy (ua_passwordHash a)" "cr_compare cr password (the (ua_passwordHash a))"
    and i: "issueTokens cr now jti a s = (Inr (acc, raw), s1)"
    using assms(1) by (auto simp: login_def split: option.splits if_splits prod.splits sum.splits)
  have raw: "generateRefreshToken cr now (payloadOf a) = raw"
    and s1: "s1 = s\<lparr>as_refresh := as_refresh s @ [?row]\<rparr>" and new: "lookup rt_token ?h (as_refresh s) = None"
    using i by (auto simp: issueTokens_def createRefreshToken_def Let_def split: if_splits)
  have found: "findRefreshToken ?h s1 = Some ?row" using new by (simp add: s1 findRefreshToken_def lookup_append)
  have clash: "issueTokens cr later j a s2 = (Inl (UniqueViolation ''RefreshToken.token''), s2)"
    if "findRefreshToken ?h s2 \<noteq> None" for j s2
    using that raw by (auto simp: issueTokens_def createRefreshToken_def Let_def same findRefreshToken_def)
  have "findUserByEmail email s1 = Some a" using a(1) by (simp add: s1 findUserByEmail_def)
  then have 1: "fst (login cr later jti2 email password s1) = Inl (UniqueViolation ''RefreshToken.token'')"
    using a clash[of s1 jti2] found by (simp add: login_def)
  obtain s2 where s2: "revokeRefreshToken later ?h s1 = (Inr (), s2)" using found by (simp add: revokeRefreshToken_def)
  then have r: "revoked ?h s2" by (rule revoke_revokes)
  have "now \<le> later + REFRESH_TOKEN_TTL_MS \<and> later \<le> now + REFRESH_TOKEN_TTL_MS"
    using assms(2) unfolding REFRESH_TOKEN_TTL_MS_def by linarith
  moreover have "lookup ua_id (ua_id a) (as_users s1) = Some a" using assms(4) by (simp add: s1)
  ultimately have "refreshToken cr later jti3 id raw s1 = (Inl (UniqueViolation ''RefreshToken.token''), s2)"
    using found s2 clash[of s2 jti3] r assms(3) by (auto simp: refreshToken_def Let_def revoked_def)
  then show ?thesis using 1 r by simp
qed

text \<open>
  Concurrent refreshes with one token can both succeed.  The revocation has no condition on
  the row: a request that read the token before another one consumed it still gets its own pair.
\<close>
theorem concurrent_refresh_both_succeed:
  assumes "refreshToken cr now jti id raw s = (Inr x, s1)" and "cr_refreshValid cr raw later"
    and "findRefreshToken (cr_digest cr raw) s = Some r" and "later \<le> rt_expiresAt r"
    and "lookup ua_id (rt_userId r) (as_users s) = Some a"
    and "findRefreshToken (cr_digest cr (generateRefreshToken cr later (payloadOf a))) s1 = None"
  shows "ok (fst (refreshToken cr later jti' (\<lambda>_. s1) raw s))"
proof -
  have r: "rt_revokedAt r = None"
    using assms(1,3) by (auto simp: refreshToken_def Let_def split: if_splits)
  have "revoked (cr_digest cr raw) s1"
    using assms(1) revoked_kept[OF issue_kept] revoke_revokes
    by (auto simp: refreshToken_def Let_def split: if_splits option.splits prod.splits sum.splits)
  then obtain q where q: "findRefreshToken (cr_digest cr raw) s1 = Some q" by (auto simp: revoked_def)
  have "lookup rt_token k (modify p (\<lambda>r. r\<lparr>rt_revokedAt := x\<rparr>) rows) = None"
    if "lookup rt_token k rows = None" for k p x rows
    using that by (simp add: lookup_modify)
  then show ?thesis
    using assms(2-6) r q
    by (simp add: refreshToken_def revokeRefreshToken_def issueTokens_def createRefreshToken_def Let_def findRefreshToken_def)
qed

section \<open>Concrete inputs\<close>

definition toyCrypto :: crypto where
  "toyCrypto = \<lparr>cr_hash = (\<lambda>p. CHR ''#'' # p), cr_compare = (\<lambda>p h. h = CHR ''#'' # p),
     cr_digest = (\<lambda>t. CHR ''d'' # t), cr_signRefresh = (\<lambda>p n. jp_sub p @ replicate (nat n) (CHR ''x'')),
     cr_refreshValid = (\<lambda>t n. True)\<rparr>"

definition anna :: account where
  "anna = \<lparr>ua_id = ''u1'', ua_firstName = ''Anna'', ua_lastName = None, ua_email = Some ''a@x'', ua_phone = None,
     ua_passwordHash = Some ''#pw'', ua_role = CUSTOMER, ua_status = USER_ACTIVE, ua_avatarUrl = None,
     ua_referralCode = None, ua_referredByCode = None, ua_createdAt = 0, ua_deletedAt = None\<rparr>"

definition annaRow :: refreshRow where
  "annaRow = \<lparr>rt_userId = ''u1'', rt_token = ''du1x'', rt_expiresAt = 604801000, rt_revokedAt = None\<rparr>"

definition annaStore :: "refreshRow list \<Rightarrow> authStore" where
  "annaStore rows = \<lparr>as_users = [anna], as_refresh = rows, as_resets = [], as_referrals = [], as_redis = [], as_audit = []\<rparr>"

lemmas auth_eval = toyCrypto_def anna_def annaRow_def annaStore_def login_def issueTokens_def findUserByEmail_def
  createRefreshToken_def generateRefreshToken_def payloadOf_def refreshToken_def findRefreshToken_def
  revokeRefreshToken_def REFRESH_TOKEN_TTL_MS_def Let_def

lemma anna_login: "\<exists>acc s1. login toyCrypto 1000 ''j1'' ''a@x'' ''pw'' (annaStore []) = (Inr (anna, acc, ''u1x''), s1)"
  by (simp add: auth_eval)

lemma anna_refresh: "\<exists>x s1. refreshToken toyCrypto 2000 ''j2'' id ''u1x'' (annaStore [annaRow]) = (Inr x, s1) \<and>
    findRefreshToken ''du1xxx'' s1 = None"
  by (simp add: auth_eval numeral_2_eq_2)

lemma anna_suspended: "\<exists>a s1. suspendUser 1500 up ''u1'' ''admin'' (annaStore [annaRow]) = (Inr a, s1) \<and>
    findUserByEmail ''a@x'' s1 = Some a \<and> a = anna\<lparr>ua_status := USER_SUSPENDED\<rparr> \<and> findRefreshToken ''du1xxx'' s1 = None"
  by (simp add: suspendUser_def findUserById_def setUserStatus_def updateUser_def revokeAllSessions_def
      revokeAllRefreshTokensForUser_def redisSetEx_def logAudit_def findUserByEmail_def findRefreshToken_def
      annaStore_def anna_def annaRow_def Let_def)

lemma refresh_token_single_use_witness:
  "\<exists>s1. ok (fst (refreshToken toyCrypto 2000 ''j2'' id ''u1x'' (annaStore [annaRow]))) \<and>
     \<not> ok (fst (refreshToken toyCrypto 9000 ''j3'' id ''u1x'' s1)) \<and> s1 = snd (refreshToken toyCrypto 2000 ''j2'' id ''u1x'' (annaStore [annaRow]))"
proof -
  obtain x s1 where r: "refreshToken toyCrypto 2000 ''j2'' id ''u1x'' (annaStore [annaRow]) = (Inr x, s1)"
    using anna_refresh by blast
  show ?thesis using r refresh_token_single_use[OF r rtranclp.rtrancl_refl, of 9000 "''j3''" id] by simp
qed

lemma suspension_cuts_sessions_witness:
  "\<exists>s1. \<not> ok (validate 1600 True (generateAccessToken ''j1'' 1000 (payloadOf anna)) s1) \<and>
     \<not> ok (fst (refreshToken toyCrypto 1600 ''j3'' id ''u1x'' s1))"
proof -
  obtain a s1 where s: "suspendUser 1500 True ''u1'' ''admin'' (annaStore [annaRow]) = (Inr a, s1)"
    using anna_suspended by blast
  have "jp_sub (ac_payload (generateAccessToken ''j1'' 1000 (payloadOf anna))) = ''u1''"
    by (simp add: generateAccessToken_def payloadOf_def anna_def)
  moreover have "findRefreshToken (cr_digest toyCrypto ''u1x'') (annaStore [annaRow]) = Some annaRow" "rt_userId annaRow = ''u1''"
    by (simp_all add: auth_eval)
  ultimately show ?thesis using suspension_cuts_sessions[OF s rtranclp.rtrancl_refl, of _ toyCrypto "''u1x''" annaRow] by blast
qed

lemma suspended_user_logs_in_witness:
  "\<exists>acc s1 s2. validate 3000 True acc s2 = Inr \<lparr>userId = ''u1'', role = CUSTOMER\<rparr> \<and>
     snd (suspendUser 1500 False ''u1'' ''admin'' (annaStore [annaRow])) = s1 \<and>
     snd (login toyCrypto 3000 ''j4'' ''a@x'' ''pw'' s1) = s2"
proof -
  obtain a s1 where s: "suspendUser 1500 False ''u1'' ''admin'' (annaStore [annaRow]) = (Inr a, s1)"
    "findUserByEmail ''a@x'' s1 = Some a" "a = anna\<lparr>ua_status := USER_SUSPENDED\<rparr>" "findRefreshToken ''du1xxx'' s1 = None"
    using anna_suspended by blast
  have a: "truthy (ua_passwordHash a)" "cr_compare toyCrypto ''pw'' (the (ua_passwordHash a))" "ua_id a = ''u1''" "ua_role a = CUSTOMER"
    by (simp_all add: s(3) anna_def toyCrypto_def)
  have n: "map_of (as_redis (annaStore [annaRow])) k = None" for k by (simp add: annaStore_def)
  have "findRefreshToken (cr_digest toyCrypto (generateRefreshToken toyCrypto 3000 (payloadOf a))) s1 = None"
    using s(4) by (simp add: s(3) anna_def toyCrypto_def generateRefreshToken_def payloadOf_def numeral_eq_Suc)
  from suspended_user_logs_in[OF s(1,2) a(1-3) n n this, of "''j4''"] a(4) s(1) show ?thesis by auto
qed

lemma same_second_tokens_collide_witness:
  "\<exists>s1. snd (login toyCrypto 1000 ''j1'' ''a@x'' ''pw'' (annaStore [])) = s1 \<and>
     fst (login toyCrypto 1900 ''j2'' ''a@x'' ''pw'' s1) = Inl (UniqueViolation ''RefreshToken.token'')"
proof -
  obtain acc s1 where l: "login toyCrypto 1000 ''j1'' ''a@x'' ''pw'' (annaStore []) = (Inr (anna, acc, ''u1x''), s1)"
    using anna_login by blast
  have "cr_refreshValid toyCrypto ''u1x'' 1900" "lookup ua_id (ua_id anna) (as_users (annaStore [])) = Some anna"
    by (simp_all add: toyCrypto_def annaStore_def)
  then show ?thesis using same_second_tokens_collide[OF l, of 1900 "''j2''"] l by simp
qed

lemma concurrent_refresh_both_succeed_witness:
  "\<exists>s1. ok (fst (refreshToken toyCrypto 3000 ''j3'' (\<lambda>_. s1) ''u1x'' (annaStore [annaRow]))) \<and>
     s1 = snd (refreshToken toyCrypto 2000 ''j2'' id ''u1x'' (annaStore [annaRow]))"
proof -
  obtain x s1 where r: "refreshToken toyCrypto 2000 ''j2'' id ''u1x'' (annaStore [annaRow]) = (Inr x, s1)"
    "findRefreshToken ''du1xxx'' s1 = None" using anna_refresh by blast
  have c: "cr_refreshValid toyCrypto ''u1x'' 3000" "findRefreshToken (cr_digest toyCrypto ''u1x'') (annaStore [annaRow]) = Some annaRow"
    "3000 \<le> rt_expiresAt annaRow" "lookup ua_id (rt_userId annaRow) (as_users (annaStore [annaRow])) = Some anna"
    by (simp_all add: toyCrypto_def annaStore_def annaRow_def anna_def findRefreshToken_def)
  have "findRefreshToken (cr_digest toyCrypto (generateRefreshToken toyCrypto 3000 (payloadOf anna))) s1 = None"
    using r(2) by (simp add: anna_def toyCrypto_def generateRefreshToken_def payloadOf_def numeral_eq_Suc)
  from concurrent_refresh_both_succeed[OF r(1) c this, of "''j3''"] r(1) show ?thesis by auto
qed

end
