(* ===== verification/Verification.thy ===== *)
theory Verification
  imports Delivery Access
begin

text \<open>
  Admission to the platform: the restaurant status transitions of \<^verbatim>\<open>RestaurantsService\<close>, the two
  verification aggregates (\<^verbatim>\<open>modules/restaurants/services/verification.service.ts\<close> and
  \<^verbatim>\<open>modules/delivery/services/verification.service.ts\<close> with their repositories), the onboarding
  wizard (\<^verbatim>\<open>OnboardingService\<close>) and the listener that keeps onboarding, verification and
  restaurant status in step.

  \<^verbatim>\<open>reviewStore\<close> puts the review tables beside the shared database \<^verbatim>\<open>rvw\<close>.  Publishing an event
  runs its subscribers before the publisher continues (\<^verbatim>\<open>EventBusService.publish\<close> awaits them and
  swallows their errors), so the three restaurant events call the listener directly.
\<close>

section \<open>Data\<close>

datatype restStage = RV_DRAFT | RV_SUBMITTED | RV_DOCUMENT_REVIEW | RV_GST | RV_FSSAI | RV_BANK
  | RV_COMPLIANCE | RV_APPROVED | RV_REJECTED | RV_SUSPENDED

datatype delivStage = DV_DRAFT | DV_SUBMITTED | DV_UNDER_REVIEW | DV_APPROVED | DV_REJECTED | DV_SUSPENDED

datatype onboardingStatus = OB_DRAFT | OB_IN_PROGRESS | OB_SUBMITTED | OB_UNDER_REVIEW
  | OB_CHANGES_REQUESTED | OB_APPROVED | OB_REJECTED

record restVerification =
  rv_restaurantId :: string
  rv_stage :: restStage
  rv_submittedAt :: "int option"
  rv_decidedAt :: "int option"
  rv_rejectedReason :: "string option"

record delivVerification =
  dv_partnerId :: string
  dv_stage :: delivStage
  dv_submittedAt :: "int option"
  dv_decidedAt :: "int option"
  dv_rejectedReason :: "string option"

record verificationHistory =
  vh_partnerId :: string
  vh_fromStage :: delivStage
  vh_toStage :: delivStage
  vh_reason :: "string option"
  vh_decidedById :: string

record onboarding =
  on_restaurantId :: string
  on_status :: onboardingStatus
  on_currentStep :: int
  on_completedSteps :: "int list"
  on_termsAcceptedAt :: "int option"
  on_submittedAt :: "int option"
  on_decidedAt :: "int option"
  on_changesRequested :: "string list"

record reviewStore =
  rvw :: world
  rv_rows :: "restVerification list"
  dv_rows :: "delivVerification list"
  dv_history :: "verificationHistory list"
  on_rows :: "onboarding list"

definition onWorld :: "(world \<Rightarrow> world) \<Rightarrow> reviewStore \<Rightarrow> reviewStore" where
  "onWorld f s = s\<lparr>rvw := f (rvw s)\<rparr>"

section \<open>Restaurant status\<close>

definition claimRestaurantStatus ::
  "string \<Rightarrow> restaurantStatus list \<Rightarrow> restaurantStatus \<Rightarrow> world \<Rightarrow> nat \<times> world" where
  "claimRestaurantStatus rid from nxt w =
     (let p = (\<lambda>r. rs_id r = rid \<and> rs_status r \<in> set from)
      in (matches p (w_restaurants w),
          w\<lparr>w_restaurants := modify p (\<lambda>r. r\<lparr>rs_status := nxt\<rparr>) (w_restaurants w)\<rparr>))"

definition findRestaurant :: "string \<Rightarrow> world \<Rightarrow> restaurant option" where
  "findRestaurant rid w = lookup rs_id rid (w_restaurants w)"

section \<open>Onboarding repository\<close>

definition findOnboarding :: "string \<Rightarrow> reviewStore \<Rightarrow> onboarding option" where
  "findOnboarding rid s = lookup on_restaurantId rid (on_rows s)"

definition newOnboarding :: "string \<Rightarrow> onboarding" where
  "newOnboarding rid = \<lparr>on_restaurantId = rid, on_status = OB_DRAFT, on_currentStep = 1, on_completedSteps = [],
     on_termsAcceptedAt = None, on_submittedAt = None, on_decidedAt = None, on_changesRequested = []\<rparr>"

definition onboardingFindOrCreate :: "string \<Rightarrow> reviewStore \<Rightarrow> onboarding \<times> reviewStore" where
  "onboardingFindOrCreate rid s =
     (case findOnboarding rid s of
        Some ob \<Rightarrow> (ob, s)
      | None \<Rightarrow> (newOnboarding rid, s\<lparr>on_rows := on_rows s @ [newOnboarding rid]\<rparr>))"

definition updateOnboarding :: "string \<Rightarrow> (onboarding \<Rightarrow> onboarding) \<Rightarrow> reviewStore \<Rightarrow> reviewStore" where
  "updateOnboarding rid f s = s\<lparr>on_rows := modify (\<lambda>ob. on_restaurantId ob = rid) f (on_rows s)\<rparr>"

text \<open>\<^verbatim>\<open>Array.from(new Set([...steps, step])).sort(...)\<close>.\<close>

definition addStep :: "int \<Rightarrow> int list \<Rightarrow> int list" where
  "addStep step steps = sort (remdups (steps @ [step]))"

definition markStepComplete :: "(reviewStore \<Rightarrow> reviewStore) \<Rightarrow> string \<Rightarrow> int \<Rightarrow> reviewStore \<Rightarrow> reviewStore" where
  "markStepComplete env rid step s =
     (let (cur, s1) = onboardingFindOrCreate rid s
      in updateOnboarding rid (\<lambda>ob. ob\<lparr>on_completedSteps := addStep step (on_completedSteps cur),
           on_currentStep := max (on_currentStep cur) (min (step + 1) 12),
           on_status := (if on_status cur = OB_DRAFT then OB_IN_PROGRESS else on_status ob)\<rparr>) (env s1))"

definition setOnboardingStatus ::
  "string \<Rightarrow> onboardingStatus \<Rightarrow> (onboarding \<Rightarrow> onboarding) \<Rightarrow> reviewStore \<Rightarrow> reviewStore" where
  "setOnboardingStatus rid st extra s =
     updateOnboarding rid (\<lambda>ob. extra (ob\<lparr>on_status := st\<rparr>)) (snd (onboardingFindOrCreate rid s))"

section \<open>The decision listener and the restaurant transitions\<close>

text \<open>\<^verbatim>\<open>restaurant.activated\<close>: the restaurant was approved, directly or as a consequence.\<close>

definition onRestaurantActivated :: "int \<Rightarrow> string \<Rightarrow> reviewStore \<Rightarrow> reviewStore" where
  "onRestaurantActivated now rid =
     setOnboardingStatus rid OB_APPROVED (\<lambda>ob. ob\<lparr>on_decidedAt := Some now\<rparr>)"

definition transitionRestaurantStatus ::
  "int \<Rightarrow> (reviewStore \<Rightarrow> reviewStore) \<Rightarrow> string \<Rightarrow> restaurantStatus \<Rightarrow> restaurantStatus \<Rightarrow> string option \<Rightarrow> string
     \<Rightarrow> reviewStore \<Rightarrow> (reviewStore, unit) outcome" where
  "transitionRestaurantStatus now env rid required nxt admin act s =
     (case findRestaurant rid (rvw s) of
        None \<Rightarrow> (Inl (NotFound ''Restaurant''), s)
      | Some r \<Rightarrow>
          if rs_status r \<noteq> required then (Inl (BadRequest ''wrong restaurant status''), s)
          else
            (let s1 = env s; (count, w1) = claimRestaurantStatus rid [required] nxt (rvw s1);
                 s2 = s1\<lparr>rvw := w1\<rparr>
             in if count = 0 then (Inl (Conflict ''no longer in that status''), s2)
                else (let s3 = onWorld (auditLog admin ''Restaurant'' rid act) s2
                      in (Inr (), if nxt = REST_APPROVED then onRestaurantActivated now rid s3 else s3))))"

definition approveRestaurant ::
  "int \<Rightarrow> (reviewStore \<Rightarrow> reviewStore) \<Rightarrow> string \<Rightarrow> string option \<Rightarrow> reviewStore \<Rightarrow> (reviewStore, unit) outcome" where
  "approveRestaurant now env rid admin =
     transitionRestaurantStatus now env rid REST_PENDING REST_APPROVED admin ''APPROVE''"

definition rejectRestaurant ::
  "int \<Rightarrow> (reviewStore \<Rightarrow> reviewStore) \<Rightarrow> string \<Rightarrow> string \<Rightarrow> reviewStore \<Rightarrow> (reviewStore, unit) outcome" where
  "rejectRestaurant now env rid admin =
     transitionRestaurantStatus now env rid REST_PENDING REST_REJECTED (Some admin) ''REJECT''"

definition suspendRestaurant ::
  "int \<Rightarrow> (reviewStore \<Rightarrow> reviewStore) \<Rightarrow> string \<Rightarrow> string \<Rightarrow> reviewStore \<Rightarrow> (reviewStore, unit) outcome" where
  "suspendRestaurant now env rid admin =
     transitionRestaurantStatus now env rid REST_APPROVED REST_SUSPENDED (Some admin) ''STATUS_CHANGE''"

definition restoreRestaurant ::
  "int \<Rightarrow> (reviewStore \<Rightarrow> reviewStore) \<Rightarrow> string \<Rightarrow> string \<Rightarrow> reviewStore \<Rightarrow> (reviewStore, unit) outcome" where
  "restoreRestaurant now env rid admin =
     transitionRestaurantStatus now env rid REST_SUSPENDED REST_APPROVED (Some admin) ''STATUS_CHANGE''"

definition onVerificationCompleted :: "int \<Rightarrow> string \<Rightarrow> reviewStore \<Rightarrow> reviewStore" where
  "onVerificationCompleted now rid s =
     (let s1 = setOnboardingStatus rid OB_APPROVED (\<lambda>ob. ob\<lparr>on_decidedAt := Some now\<rparr>) s
      in case findRestaurant rid (rvw s1) of
           None \<Rightarrow> s1
         | Some r \<Rightarrow> if rs_status r = REST_PENDING then snd (approveRestaurant now id rid None s1) else s1)"

definition onVerificationRejected :: "int \<Rightarrow> string \<Rightarrow> reviewStore \<Rightarrow> reviewStore" where
  "onVerificationRejected now rid =
     setOnboardingStatus rid OB_REJECTED (\<lambda>ob. ob\<lparr>on_decidedAt := Some now\<rparr>)"

section \<open>Restaurant verification\<close>

definition VERIFICATION_ROLES :: "restaurantAccessRole list" where
  "VERIFICATION_ROLES = [StaffRole OWNER, StaffRole CO_OWNER, AdminRole]"

definition REST_STAGE_ORDER :: "restStage list" where
  "REST_STAGE_ORDER = [RV_DRAFT, RV_SUBMITTED, RV_DOCUMENT_REVIEW, RV_GST, RV_FSSAI, RV_BANK, RV_COMPLIANCE, RV_APPROVED]"

text \<open>\<^verbatim>\<open>STAGE_ORDER[STAGE_ORDER.indexOf(stage) + 1]\<close>, when the stage is in the list and not its last.\<close>

fun nextIn :: "'s \<Rightarrow> 's list \<Rightarrow> 's option" where
  "nextIn s (a # b # rest) = (if a = s then Some b else nextIn s (b # rest))"
| "nextIn s _ = None"

definition restFindOrCreate :: "string \<Rightarrow> reviewStore \<Rightarrow> restVerification \<times> reviewStore" where
  "restFindOrCreate rid s =
     (case lookup rv_restaurantId rid (rv_rows s) of
        Some v \<Rightarrow> (v, s)
      | None \<Rightarrow>
          (let v = \<lparr>rv_restaurantId = rid, rv_stage = RV_DRAFT, rv_submittedAt = None, rv_decidedAt = None,
                    rv_rejectedReason = None\<rparr>
           in (v, s\<lparr>rv_rows := rv_rows s @ [v]\<rparr>)))"

definition claimRestStage ::
  "(restVerification \<Rightarrow> restVerification) \<Rightarrow> string \<Rightarrow> restStage list \<Rightarrow> restStage \<Rightarrow> reviewStore \<Rightarrow> nat \<times> reviewStore" where
  "claimRestStage extra rid from nxt s =
     (let p = (\<lambda>v. rv_restaurantId v = rid \<and> rv_stage v \<in> set from)
      in (matches p (rv_rows s), s\<lparr>rv_rows := modify p (\<lambda>v. extra (v\<lparr>rv_stage := nxt\<rparr>)) (rv_rows s)\<rparr>))"

definition restSubmit ::
  "int \<Rightarrow> (reviewStore \<Rightarrow> reviewStore) \<Rightarrow> string \<Rightarrow> authUser \<Rightarrow> reviewStore \<Rightarrow> (reviewStore, unit) outcome" where
  "restSubmit now env rid u s =
     (if \<not> hasRestaurantRole (rvw s) rid u VERIFICATION_ROLES then (Inl (Forbidden ''manage restaurant''), s)
      else
        (let (cur, s1) = restFindOrCreate rid s
         in if rv_stage cur \<noteq> RV_DRAFT then (Inl (BadRequest ''Only a DRAFT verification can be submitted''), s1)
            else
              (let (count, s2) = claimRestStage (\<lambda>v. v\<lparr>rv_submittedAt := Some now\<rparr>) rid [RV_DRAFT] RV_SUBMITTED (env s1)
               in if count = 0 then (Inl (Conflict ''no longer DRAFT''), s2)
                  else (Inr (), onWorld (auditLog (Some (userId u)) ''RestaurantVerification'' rid ''STATUS_CHANGE'') s2))))"

definition restAdvance ::
  "int \<Rightarrow> (reviewStore \<Rightarrow> reviewStore) \<Rightarrow> string \<Rightarrow> string \<Rightarrow> reviewStore \<Rightarrow> (reviewStore, unit) outcome" where
  "restAdvance now env rid admin s =
     (let (cur, s1) = restFindOrCreate rid s
      in case nextIn (rv_stage cur) REST_STAGE_ORDER of
           None \<Rightarrow> (Inl (BadRequest ''cannot be advanced further''), s1)
         | Some nxt \<Rightarrow>
             (let (count, s2) = claimRestStage (\<lambda>v. if nxt = RV_APPROVED then v\<lparr>rv_decidedAt := Some now\<rparr> else v)
                                  rid [rv_stage cur] nxt (env s1)
              in if count = 0 then (Inl (Conflict ''stage changed''), s2)
                 else (let s3 = onWorld (auditLog (Some admin) ''RestaurantVerification'' rid ''STATUS_CHANGE'') s2
                       in (Inr (), if nxt = RV_APPROVED then onVerificationCompleted now rid s3 else s3))))"

definition restReject ::
  "int \<Rightarrow> (reviewStore \<Rightarrow> reviewStore) \<Rightarrow> string \<Rightarrow> string \<Rightarrow> string \<Rightarrow> reviewStore \<Rightarrow> (reviewStore, unit) outcome" where
  "restReject now env rid reason admin s =
     (let (cur, s1) = restFindOrCreate rid s
      in if rv_stage cur = RV_REJECTED \<or> rv_stage cur = RV_APPROVED then (Inl (BadRequest ''cannot be rejected''), s1)
         else
           (let (count, s2) = claimRestStage (\<lambda>v. v\<lparr>rv_decidedAt := Some now, rv_rejectedReason := Some reason\<rparr>)
                  rid (filter (\<lambda>st. st \<noteq> RV_APPROVED) REST_STAGE_ORDER) RV_REJECTED (env s1)
            in if count = 0 then (Inl (Conflict ''can no longer be rejected''), s2)
               else (Inr (), onVerificationRejected now rid
                       (onWorld (auditLog (Some admin) ''RestaurantVerification'' rid ''REJECT'') s2))))"

definition restSuspend ::
  "(reviewStore \<Rightarrow> reviewStore) \<Rightarrow> string \<Rightarrow> string \<Rightarrow> reviewStore \<Rightarrow> (reviewStore, unit) outcome" where
  "restSuspend env rid admin s =
     (let (cur, s1) = restFindOrCreate rid s
      in if rv_stage cur \<noteq> RV_APPROVED then (Inl (BadRequest ''Only an APPROVED verification can be suspended''), s1)
         else
           (let (count, s2) = claimRestStage id rid [RV_APPROVED] RV_SUSPENDED (env s1)
            in if count = 0 then (Inl (Conflict ''no longer APPROVED''), s2)
               else (Inr (), onWorld (auditLog (Some admin) ''RestaurantVerification'' rid ''STATUS_CHANGE'') s2)))"

definition restReinstate ::
  "(reviewStore \<Rightarrow> reviewStore) \<Rightarrow> string \<Rightarrow> string \<Rightarrow> reviewStore \<Rightarrow> (reviewStore, unit) outcome" where
  "restReinstate env rid admin s =
     (let (cur, s1) = restFindOrCreate rid s
      in if rv_stage cur \<noteq> RV_SUSPENDED then (Inl (BadRequest ''Only a SUSPENDED verification can be reinstated''), s1)
         else
           (let (count, s2) = claimRestStage id rid [RV_SUSPENDED] RV_APPROVED (env s1)
            in if count = 0 then (Inl (Conflict ''no longer SUSPENDED''), s2)
               else (Inr (), onWorld (auditLog (Some admin) ''RestaurantVerification'' rid ''STATUS_CHANGE'') s2)))"

section \<open>Onboarding service\<close>

definition ONBOARDING_TOTAL_STEPS :: int where "ONBOARDING_TOTAL_STEPS = 12"

definition MANDATORY_STEPS_BEFORE_SUBMIT :: "int list" where
  "MANDATORY_STEPS_BEFORE_SUBMIT = map (\<lambda>i. int i + 1) [0..<nat (ONBOARDING_TOTAL_STEPS - 1)]"

definition progressPercent :: "onboarding \<Rightarrow> int" where
  "progressPercent ob =
     mathRound (of_nat (length (on_completedSteps ob)) / of_int ONBOARDING_TOTAL_STEPS * 100)"

definition getOnboardingState ::
  "string \<Rightarrow> authUser \<Rightarrow> reviewStore \<Rightarrow> (reviewStore, onboarding) outcome" where
  "getOnboardingState rid u s =
     (if \<not> canAccessRestaurant (rvw s) rid u then (Inl (Forbidden ''restaurant access''), s)
      else (let (ob, s1) = onboardingFindOrCreate rid s in (Inr ob, s1)))"

definition completeStep ::
  "(reviewStore \<Rightarrow> reviewStore) \<Rightarrow> string \<Rightarrow> int \<Rightarrow> authUser \<Rightarrow> reviewStore \<Rightarrow> (reviewStore, unit) outcome" where
  "completeStep env rid step u s =
     (if \<not> hasRestaurantRole (rvw s) rid u VERIFICATION_ROLES then (Inl (Forbidden ''manage onboarding''), s)
      else if step < 1 \<or> step > ONBOARDING_TOTAL_STEPS then (Inl (BadRequest ''step out of range''), s)
      else (Inr (), onWorld (auditLog (Some (userId u)) ''RestaurantOnboarding'' rid ''UPDATE'')
                      (markStepComplete env rid step s)))"

definition submitOnboarding ::
  "int \<Rightarrow> (reviewStore \<Rightarrow> reviewStore) \<Rightarrow> string \<Rightarrow> authUser \<Rightarrow> reviewStore \<Rightarrow> (reviewStore, unit) outcome" where
  "submitOnboarding now env rid u s =
     (if \<not> hasRestaurantRole (rvw s) rid u VERIFICATION_ROLES then (Inl (Forbidden ''manage onboarding''), s)
      else
        (let (cur, s1) = onboardingFindOrCreate rid s;
             missing = filter (\<lambda>st. st \<notin> set (on_completedSteps cur)) MANDATORY_STEPS_BEFORE_SUBMIT
         in if missing \<noteq> [] then (Inl (BadRequest ''complete the steps before submitting''), s1)
            else if on_status cur \<notin> {OB_DRAFT, OB_IN_PROGRESS, OB_CHANGES_REQUESTED}
            then (Inl (BadRequest ''cannot be submitted in this status''), s1)
            else
              (case (if on_status cur \<noteq> OB_CHANGES_REQUESTED then restSubmit now env rid u s1 else (Inr (), env s1)) of
                 (Inl e, s2) \<Rightarrow> (Inl e, s2)
               | (Inr _, s2) \<Rightarrow>
                   (Inr (), onWorld (auditLog (Some (userId u)) ''RestaurantOnboarding'' rid ''STATUS_CHANGE'')
                      (setOnboardingStatus rid OB_UNDER_REVIEW
                         (\<lambda>ob. ob\<lparr>on_termsAcceptedAt := Some now, on_submittedAt := Some now,
                            on_changesRequested := (if on_status cur = OB_CHANGES_REQUESTED then []
                                                    else on_changesRequested ob)\<rparr>) s2)))))"

definition requestChanges :: "string \<Rightarrow> string list \<Rightarrow> string \<Rightarrow> reviewStore \<Rightarrow> reviewStore" where
  "requestChanges rid items admin s =
     onWorld (auditLog (Some admin) ''RestaurantOnboarding'' rid ''STATUS_CHANGE'')
       (setOnboardingStatus rid OB_CHANGES_REQUESTED (\<lambda>ob. ob\<lparr>on_changesRequested := items\<rparr>) s)"

section \<open>Delivery partner verification\<close>

definition DELIV_STAGE_ORDER :: "delivStage list" where
  "DELIV_STAGE_ORDER = [DV_DRAFT, DV_SUBMITTED, DV_UNDER_REVIEW, DV_APPROVED]"

definition delivFindOrCreate :: "string \<Rightarrow> reviewStore \<Rightarrow> delivVerification \<times> reviewStore" where
  "delivFindOrCreate did s =
     (case lookup dv_partnerId did (dv_rows s) of
        Some v \<Rightarrow> (v, s)
      | None \<Rightarrow>
          (let v = \<lparr>dv_partnerId = did, dv_stage = DV_DRAFT, dv_submittedAt = None, dv_decidedAt = None,
                    dv_rejectedReason = None\<rparr>
           in (v, s\<lparr>dv_rows := dv_rows s @ [v]\<rparr>)))"

text \<open>One transaction: the stage claim, the rider's flag (P2025 when the rider is gone, which rolls the
  claim back) and the history row.\<close>

definition claimDelivStage ::
  "(delivVerification \<Rightarrow> delivVerification) \<Rightarrow> bool option \<Rightarrow> delivStage \<Rightarrow> string option \<Rightarrow> string
     \<Rightarrow> string \<Rightarrow> delivStage list \<Rightarrow> delivStage \<Rightarrow> reviewStore \<Rightarrow> (reviewStore, nat) outcome" where
  "claimDelivStage extra flag fromStage reason decidedBy did from nxt s =
     (let p = (\<lambda>v. dv_partnerId v = did \<and> dv_stage v \<in> set from); count = matches p (dv_rows s);
          s1 = s\<lparr>dv_rows := modify p (\<lambda>v. extra (v\<lparr>dv_stage := nxt\<rparr>)) (dv_rows s)\<rparr>;
          hist = (\<lambda>s. s\<lparr>dv_history := dv_history s @ [\<lparr>vh_partnerId = did, vh_fromStage = fromStage,
                     vh_toStage = nxt, vh_reason = reason, vh_decidedById = decidedBy\<rparr>]\<rparr>)
      in if count = 0 then (Inr 0, s)
         else case flag of
           None \<Rightarrow> (Inr count, hist s1)
         | Some b \<Rightarrow>
             (if findPartnerById did (rvw s1) = None then (Inl (RecordNotFound ''DeliveryPartner''), s)
              else (Inr count, hist (onWorld (\<lambda>w. w\<lparr>w_partners :=
                      modify (\<lambda>d. d_id d = did) (\<lambda>d. d\<lparr>d_isVerified := b\<rparr>) (w_partners w)\<rparr>) s1))))"

definition notifyPartner :: "string \<Rightarrow> string \<Rightarrow> world \<Rightarrow> world" where
  "notifyPartner did ty w =
     (case findPartnerById did w of None \<Rightarrow> w | Some d \<Rightarrow> enqueue (Notification (d_userId d) ty) w)"

text \<open>What every operation does around its claim; \<open>note\<close> is the notification that follows.\<close>

definition delivClaimed ::
  "(reviewStore, nat) outcome \<Rightarrow> string \<Rightarrow> string \<Rightarrow> string \<Rightarrow> (world \<Rightarrow> world) \<Rightarrow> (reviewStore, unit) outcome" where
  "delivClaimed out actor did act note =
     (case out of
        (Inl e, s) \<Rightarrow> (Inl e, s)
      | (Inr n, s) \<Rightarrow>
          if n = 0 then (Inl (Conflict ''stage changed''), s)
          else (Inr (), onWorld (note \<circ> auditLog (Some actor) ''DeliveryVerification'' did act) s))"

definition delivSubmit ::
  "int \<Rightarrow> (reviewStore \<Rightarrow> reviewStore) \<Rightarrow> string \<Rightarrow> reviewStore \<Rightarrow> (reviewStore, unit) outcome" where
  "delivSubmit now env uid s =
     (case findPartnerByUserId uid (rvw s) of
        None \<Rightarrow> (Inl (NotFound ''Delivery partner''), s)
      | Some d \<Rightarrow>
          (let (cur, s1) = delivFindOrCreate (d_id d) s
           in if dv_stage cur \<noteq> DV_DRAFT then (Inl (BadRequest ''Only a DRAFT verification can be submitted''), s1)
              else delivClaimed (claimDelivStage (\<lambda>v. v\<lparr>dv_submittedAt := Some now\<rparr>) None (dv_stage cur) None uid
                     (d_id d) [DV_DRAFT] DV_SUBMITTED (env s1)) uid (d_id d) ''STATUS_CHANGE''
                     (enqueue (Notification uid ''DELIVERY_PARTNER_VERIFICATION_SUBMITTED''))))"

definition delivAdvance ::
  "int \<Rightarrow> (reviewStore \<Rightarrow> reviewStore) \<Rightarrow> string \<Rightarrow> string \<Rightarrow> reviewStore \<Rightarrow> (reviewStore, unit) outcome" where
  "delivAdvance now env did admin s =
     (let (cur, s1) = delivFindOrCreate did s
      in case nextIn (dv_stage cur) DELIV_STAGE_ORDER of
           None \<Rightarrow> (Inl (BadRequest ''cannot be advanced further''), s1)
         | Some nxt \<Rightarrow>
             delivClaimed (claimDelivStage (\<lambda>v. if nxt = DV_APPROVED then v\<lparr>dv_decidedAt := Some now\<rparr> else v)
                 (if nxt = DV_APPROVED then Some True else None) (dv_stage cur) None admin
                 did [dv_stage cur] nxt (env s1)) admin did ''STATUS_CHANGE''
                 (if nxt = DV_APPROVED then notifyPartner did ''DELIVERY_PARTNER_VERIFICATION_APPROVED'' else id))"

definition delivReject ::
  "int \<Rightarrow> (reviewStore \<Rightarrow> reviewStore) \<Rightarrow> string \<Rightarrow> string \<Rightarrow> string \<Rightarrow> reviewStore \<Rightarrow> (reviewStore, unit) outcome" where
  "delivReject now env did reason admin s =
     (let (cur, s1) = delivFindOrCreate did s
      in if dv_stage cur = DV_REJECTED \<or> dv_stage cur = DV_APPROVED then (Inl (BadRequest ''cannot be rejected''), s1)
         else delivClaimed (claimDelivStage (\<lambda>v. v\<lparr>dv_decidedAt := Some now, dv_rejectedReason := Some reason\<rparr>)
                (Some False) (dv_stage cur) (Some reason) admin
                did (filter (\<lambda>st. st \<noteq> DV_APPROVED) DELIV_STAGE_ORDER) DV_REJECTED (env s1)) admin did ''REJECT''
                (notifyPartner did ''DELIVERY_PARTNER_VERIFICATION_REJECTED''))"

definition delivSuspend ::
  "(reviewStore \<Rightarrow> reviewStore) \<Rightarrow> string \<Rightarrow> string \<Rightarrow> reviewStore \<Rightarrow> (reviewStore, unit) outcome" where
  "delivSuspend env did admin s =
     (let (cur, s1) = delivFindOrCreate did s
      in if dv_stage cur \<noteq> DV_APPROVED then (Inl (BadRequest ''Only an APPROVED verification can be suspended''), s1)
         else delivClaimed (claimDelivStage id (Some False) (dv_stage cur) None admin
                did [DV_APPROVED] DV_SUSPENDED (env s1)) admin did ''STATUS_CHANGE'' id)"

definition delivReinstate ::
  "(reviewStore \<Rightarrow> reviewStore) \<Rightarrow> string \<Rightarrow> string \<Rightarrow> reviewStore \<Rightarrow> (reviewStore, unit) outcome" where
  "delivReinstate env did admin s =
     (let (cur, s1) = delivFindOrCreate did s
      in if dv_stage cur \<noteq> DV_SUSPENDED then (Inl (BadRequest ''Only a SUSPENDED verification can be reinstated''), s1)
         else delivClaimed (claimDelivStage id (Some True) (dv_stage cur) None admin
                did [DV_SUSPENDED] DV_APPROVED (env s1)) admin did ''STATUS_CHANGE'' id)"

end
