(* ===== verification/VerificationSafety.thy ===== *)
theory VerificationSafety
  imports Verification
begin

text \<open>
  What admission guarantees: the rider's verified flag and the verification stage agree under any
  interleaving of review actions, a restaurant goes live with its verification, and the places
  where the parallel admin endpoints drive the two apart.
\<close>

section \<open>The claims as instances of the contract\<close>

definition restaurantsKeyed :: "world \<Rightarrow> bool" where
  "restaurantsKeyed w \<longleftrightarrow> keyed rs_id (w_restaurants w)"

definition restaurantStatusCell :: "world \<Rightarrow> string \<Rightarrow> restaurantStatus option" where
  "restaurantStatusCell w rid = map_option rs_status (lookup rs_id rid (w_restaurants w))"

interpretation restaurantCas: cas_cell restaurantsKeyed restaurantStatusCell claimRestaurantStatus
  unfolding restaurantsKeyed_def[abs_def] restaurantStatusCell_def[abs_def]
  by (rule cas_cell_table[where upd = "\<lambda>t r. r\<lparr>rs_status := t\<rparr>" and put = "\<lambda>x. w_restaurants_update (\<lambda>_. x)"])
    (simp_all add: claimRestaurantStatus_def Let_def)

definition restStagesKeyed :: "reviewStore \<Rightarrow> bool" where
  "restStagesKeyed s \<longleftrightarrow> keyed rv_restaurantId (rv_rows s)"

definition restStageCell :: "reviewStore \<Rightarrow> string \<Rightarrow> restStage option" where
  "restStageCell s rid = map_option rv_stage (lookup rv_restaurantId rid (rv_rows s))"

interpretation restStageCas: cas_cell restStagesKeyed restStageCell "claimRestStage id"
  unfolding restStagesKeyed_def[abs_def] restStageCell_def[abs_def]
  by (rule cas_cell_table[where upd = "\<lambda>t v. v\<lparr>rv_stage := t\<rparr>" and put = "\<lambda>x. rv_rows_update (\<lambda>_. x)"])
    (simp_all add: claimRestStage_def Let_def)

fun restStageTargets :: "restStage \<Rightarrow> restStage list" where
  "restStageTargets RV_REJECTED = []"
| "restStageTargets RV_APPROVED = [RV_SUSPENDED]"
| "restStageTargets RV_SUSPENDED = [RV_APPROVED]"
| "restStageTargets st = (case nextIn st REST_STAGE_ORDER of None \<Rightarrow> [RV_REJECTED] | Some n \<Rightarrow> [n, RV_REJECTED])"

interpretation restStages: status_graph restStageTargets .

text \<open>The claims of the six restaurant actions are edges of that graph, and a rejected verification
  is terminal.\<close>

lemma rest_rejected_terminal: "(RV_REJECTED, t) \<in> (edges restStageTargets)\<^sup>* \<Longrightarrow> t = RV_REJECTED"
  by (rule restStages.terminal_absorbing) (simp_all add: restStages.terminal_def)

lemma advance_edge: "nextIn st REST_STAGE_ORDER = Some n \<Longrightarrow> n \<in> set (restStageTargets st)"
  by (cases st) (simp_all add: REST_STAGE_ORDER_def)

section \<open>Rider verification: the flag and the stage\<close>

definition stageIn :: "delivVerification list \<Rightarrow> string \<Rightarrow> delivStage" where
  "stageIn rows did = (case lookup dv_partnerId did rows of None \<Rightarrow> DV_DRAFT | Some v \<Rightarrow> dv_stage v)"

definition review_inv :: "reviewStore \<Rightarrow> bool" where
  "review_inv s \<longleftrightarrow> keyed dv_partnerId (dv_rows s) \<and> keyed d_id (w_partners (rvw s)) \<and>
     (\<forall>d \<in> set (w_partners (rvw s)). d_isVerified d \<longleftrightarrow> stageIn (dv_rows s) (d_id d) = DV_APPROVED)"

lemma review_inv_cong:
  "dv_rows s = dv_rows s' \<Longrightarrow> w_partners (rvw s) = w_partners (rvw s') \<Longrightarrow> review_inv s = review_inv s'"
  by (simp add: review_inv_def)

lemma onWorld_simps [simp]:
  "dv_rows (onWorld f s) = dv_rows s" "rvw (onWorld f s) = f (rvw s)" "on_rows (onWorld f s) = on_rows s"
  "rv_rows (onWorld f s) = rv_rows s" "dv_history (onWorld f s) = dv_history s"
  by (simp_all add: onWorld_def)

lemma notify_partners [simp]: "w_partners (notifyPartner did ty w) = w_partners w"
  by (simp add: notifyPartner_def split: option.split)

lemma stageIn_snoc: "dv_stage x = DV_DRAFT \<Longrightarrow> stageIn (rows @ [x]) i = stageIn rows i"
  by (simp add: stageIn_def lookup_append split: option.split)

lemma create_row_inv:
  assumes "review_inv s" and "delivFindOrCreate did s = (v, s1)"
  shows "review_inv s1" and "dv_stage v = stageIn (dv_rows s) did"
proof -
  show "review_inv s1"
    using assms stageIn_snoc[of "\<lparr>dv_partnerId = did, dv_stage = DV_DRAFT, dv_submittedAt = None, dv_decidedAt = None,
        dv_rejectedReason = None\<rparr>" "dv_rows s"]
    by (auto simp: delivFindOrCreate_def Let_def review_inv_def keyed_snoc lookup_None_iff split: option.splits)
  show "dv_stage v = stageIn (dv_rows s) did"
    using assms(2) by (auto simp: delivFindOrCreate_def stageIn_def Let_def split: option.splits)
qed

abbreviation "stageHit did from \<equiv> \<lambda>v. dv_partnerId v = did \<and> dv_stage v \<in> set from"

lemma stage_hit_iff:
  "keyed dv_partnerId rows \<Longrightarrow> matches (stageHit did from) rows \<noteq> 0 \<longleftrightarrow>
     (\<exists>v. lookup dv_partnerId did rows = Some v \<and> dv_stage v \<in> set from)"
  using matches_pk[of dv_partnerId rows did "\<lambda>v. dv_stage v \<in> set from"] by (auto split: option.split)

lemma stageIn_claim:
  assumes "keyed dv_partnerId rows" and "matches (stageHit did from) rows \<noteq> 0"
    and "\<And>v. dv_partnerId (extra v) = dv_partnerId v" and "\<And>v. dv_stage (extra v) = dv_stage v"
  shows "stageIn (modify (stageHit did from) (\<lambda>v. extra (v\<lparr>dv_stage := nxt\<rparr>)) rows) i =
      (if i = did then nxt else stageIn rows i) \<and> stageIn rows did \<in> set from"
  using assms(2)[unfolded stage_hit_iff[OF assms(1)]] assms(3,4) lookup_key[of dv_partnerId i rows]
  by (cases "lookup dv_partnerId i rows") (auto simp: stageIn_def lookup_modify)

lemma claim_inv:
  assumes "review_inv s" and "\<And>v. dv_partnerId (extra v) = dv_partnerId v" and "\<And>v. dv_stage (extra v) = dv_stage v"
    and "case flag of None \<Rightarrow> nxt \<noteq> DV_APPROVED \<and> DV_APPROVED \<notin> set from | Some b \<Rightarrow> b = (nxt = DV_APPROVED)"
    and "claimDelivStage extra flag fs rsn by' did from nxt s = (r, s')"
  shows "review_inv s'"
proof (cases "matches (stageHit did from) (dv_rows s) = 0")
  case True
  then show ?thesis using assms(1,5) by (simp add: claimDelivStage_def)
next
  case False
  let ?rows = "modify (stageHit did from) (\<lambda>v. extra (v\<lparr>dv_stage := nxt\<rparr>)) (dv_rows s)"
  have k: "keyed dv_partnerId (dv_rows s)" "keyed dv_partnerId ?rows" using assms(1,2) by (simp_all add: review_inv_def)
  note st = stageIn_claim[OF k(1) False assms(2,3), of nxt]
  show ?thesis
  proof (cases flag)
    case None
    then have "dv_rows s' = ?rows" "w_partners (rvw s') = w_partners (rvw s)"
      using False assms(5) by (auto simp: claimDelivStage_def Let_def)
    then show ?thesis
      using assms(1,4) k st None unfolding review_inv_def by auto
  next
    case (Some b)
    then have "s' = s \<or> dv_rows s' = ?rows \<and> w_partners (rvw s') =
        modify (\<lambda>d. d_id d = did) (\<lambda>d. d\<lparr>d_isVerified := b\<rparr>) (w_partners (rvw s))"
      using False assms(5) by (auto simp: claimDelivStage_def Let_def split: if_splits)
    then show ?thesis
      using assms(1,4) k(2) st Some by (auto simp: review_inv_def set_modify)
  qed
qed

lemma claimed_inv:
  assumes "review_inv (snd out)" and "\<And>w. w_partners (note w) = w_partners w"
  shows "review_inv (snd (delivClaimed out actor did act note))"
proof -
  have "review_inv (onWorld (note \<circ> auditLog a e i c) s) = review_inv s" for a e i c s
    by (rule review_inv_cong) (simp_all add: assms(2))
  then show ?thesis
    using assms(1) by (cases out) (auto simp: delivClaimed_def split: sum.split)
qed

text \<open>A review action keeps the invariant whatever the requests it overlaps with do, as long as these
  keep it too.\<close>

definition benignReview :: "(reviewStore \<Rightarrow> reviewStore) \<Rightarrow> bool" where
  "benignReview env \<longleftrightarrow> (\<forall>s. review_inv s \<longrightarrow> review_inv (env s))"

lemma action_inv:
  assumes "review_inv s" and "benignReview env" and "delivFindOrCreate did s = (cur, s1)"
    and "\<And>v. dv_partnerId (extra v) = dv_partnerId v" and "\<And>v. dv_stage (extra v) = dv_stage v"
    and "case flag of None \<Rightarrow> nxt \<noteq> DV_APPROVED \<and> DV_APPROVED \<notin> set from | Some b \<Rightarrow> b = (nxt = DV_APPROVED)"
    and "\<And>w. w_partners (note w) = w_partners w"
  shows "review_inv (snd (delivClaimed (claimDelivStage extra flag fs rsn by' did' from nxt (env s1)) actor i act note))"
proof -
  have e: "review_inv (env s1)"
    using assms(2) create_row_inv(1)[OF assms(1,3)] by (simp add: benignReview_def)
  obtain r s2 where c: "claimDelivStage extra flag fs rsn by' did' from nxt (env s1) = (r, s2)" by fastforce
  have "review_inv (snd (r, s2))" using claim_inv[OF e assms(4-6) c] by simp
  then show ?thesis unfolding c by (rule claimed_inv[OF _ assms(7)])
qed

inductive reviewStep :: "reviewStore \<Rightarrow> reviewStore \<Rightarrow> bool" where
  submit: "benignReview env \<Longrightarrow> reviewStep s (snd (delivSubmit now env uid s))"
| advance: "benignReview env \<Longrightarrow> reviewStep s (snd (delivAdvance now env did admin s))"
| reject: "benignReview env \<Longrightarrow> reviewStep s (snd (delivReject now env did reason admin s))"
| suspend: "benignReview env \<Longrightarrow> reviewStep s (snd (delivSuspend env did admin s))"
| reinstate: "benignReview env \<Longrightarrow> reviewStep s (snd (delivReinstate env did admin s))"
| onboard: "uuid \<notin> d_id ` set (w_partners (rvw s)) \<Longrightarrow> lookup dv_partnerId uuid (dv_rows s) = None \<Longrightarrow>
    reviewStep s (s\<lparr>rvw := snd (onboardPartner uuid uid (rvw s))\<rparr>)"
| restSubmit: "benignReview env \<Longrightarrow> reviewStep s (snd (restSubmit now env rid u s))"
| other: "dv_rows s' = dv_rows s \<Longrightarrow>
    map (\<lambda>d. (d_id d, d_isVerified d)) (w_partners (rvw s')) = map (\<lambda>d. (d_id d, d_isVerified d)) (w_partners (rvw s)) \<Longrightarrow>
    reviewStep s s'"

lemma flags_inv:
  assumes "dv_rows s' = dv_rows s"
    and "map (\<lambda>d. (d_id d, d_isVerified d)) (w_partners (rvw s')) = map (\<lambda>d. (d_id d, d_isVerified d)) (w_partners (rvw s))"
  shows "review_inv s' = review_inv s"
proof -
  let ?f = "\<lambda>d. (d_id d, d_isVerified d)"
  have ids: "map d_id xs = map fst (map ?f xs)" for xs by simp
  have flags: "(\<forall>d \<in> set xs. d_isVerified d \<longleftrightarrow> stageIn rows (d_id d) = DV_APPROVED) \<longleftrightarrow>
      (\<forall>q \<in> set (map ?f xs). snd q \<longleftrightarrow> stageIn rows (fst q) = DV_APPROVED)" for xs rows by simp
  show ?thesis unfolding review_inv_def keyed_def ids flags assms by (rule refl)
qed

lemma onboard_inv:
  assumes "review_inv s" and "uuid \<notin> d_id ` set (w_partners (rvw s))" and "lookup dv_partnerId uuid (dv_rows s) = None"
  shows "review_inv (s\<lparr>rvw := snd (onboardPartner uuid uid (rvw s))\<rparr>)"
  using assms by (auto simp: review_inv_def onboardPartner_def keyed_snoc stageIn_def Let_def)

lemma restSubmit_inv:
  assumes "review_inv s" and "benignReview env"
  shows "review_inv (snd (restSubmit now env rid u s))"
proof -
  have 1: "review_inv s1" if "restFindOrCreate rid s = (v, s1)" for v s1
    using that assms(1) review_inv_cong[of s1 s] by (auto simp: restFindOrCreate_def Let_def split: option.splits)
  have 2: "review_inv s2" if "claimRestStage e rid f n (env s1) = (k, s2)" "review_inv s1" for e f n k s1 s2
    using that assms(2) review_inv_cong[of s2 "env s1"] by (auto simp: claimRestStage_def Let_def benignReview_def)
  show ?thesis
    using assms(1) 1 2 review_inv_cong[of "onWorld f s2" s2 for f s2]
    by (auto simp: restSubmit_def Let_def split: prod.split)
qed

lemma advance_from:
  "nextIn st DELIV_STAGE_ORDER = Some nxt \<Longrightarrow> st \<noteq> DV_APPROVED"
  by (cases st) (simp_all add: DELIV_STAGE_ORDER_def)

lemma review_actions_inv:
  assumes "review_inv s" and "benignReview env"
  shows "review_inv (snd (delivSubmit now env uid s))" "review_inv (snd (delivAdvance now env did admin s))"
    "review_inv (snd (delivReject now env did reason admin s))" "review_inv (snd (delivSuspend env did admin s))"
    "review_inv (snd (delivReinstate env did admin s))"
proof -
  note act = action_inv[OF assms] and row = create_row_inv(1)[OF assms(1)]
  show "review_inv (snd (delivSubmit now env uid s))"
    using assms(1) row act by (auto simp: delivSubmit_def split: option.split prod.split)
  show "review_inv (snd (delivAdvance now env did admin s))"
    unfolding delivAdvance_def Let_def using row
    by (auto split: option.split prod.split intro!: act dest: advance_from)
  show "review_inv (snd (delivReject now env did reason admin s))"
    using assms(1) row act by (auto simp: delivReject_def split: prod.split)
  show "review_inv (snd (delivSuspend env did admin s))"
    using assms(1) row act by (auto simp: delivSuspend_def split: prod.split)
  show "review_inv (snd (delivReinstate env did admin s))"
    using assms(1) row act by (auto simp: delivReinstate_def split: prod.split)
qed

lemma reviewStep_inv: "reviewStep s s' \<Longrightarrow> review_inv s \<Longrightarrow> review_inv s'"
proof (induction rule: reviewStep.induct)
  case (other s' s)
  then show ?case using flags_inv by blast
qed (simp_all add: review_actions_inv onboard_inv restSubmit_inv)

section \<open>Properties\<close>

text \<open>
  C30. A rider is verified exactly while the verification stands at APPROVED.  Along any sequence of
  submissions, advances, rejections, suspensions, reinstatements, new riders and restaurant reviews,
  each overlapping other such requests between its read and its claim, the flag the dispatcher reads
  equals the stage the reviewers see.
\<close>
theorem delivery_verified_iff_approved:
  assumes "reviewStep\<^sup>*\<^sup>* s s'" and "review_inv s" and "findPartnerById did (rvw s') = Some d"
  shows "d_isVerified d \<longleftrightarrow> stageIn (dv_rows s') did = DV_APPROVED"
proof -
  have "review_inv s'" using assms(1,2) by (induction rule: rtranclp_induct) (auto intro: reviewStep_inv)
  moreover have "d \<in> set (w_partners (rvw s'))" "d_id d = did"
    using assms(3) lookup_SomeD[of d_id did _ d] by (auto simp: findPartnerById_def)
  ultimately show ?thesis by (auto simp: review_inv_def)
qed

text \<open>
  The delivery admin's reject leaves the verification APPROVED.  \<^verbatim>\<open>DeliveryService.rejectPartner\<close>
  clears the flag alone: the stage still says APPROVED, and from there the review can neither
  advance the rider again nor reject it, so the rider sees an approved application and cannot work.
\<close>
theorem direct_reject_desynchronises:
  assumes "review_inv s" and "rejectPartner id did admin (rvw s) = (Inr u, w1)"
  shows "let s1 = s\<lparr>rvw := w1\<rparr> in
    map_option d_isVerified (findPartnerById did (rvw s1)) = Some False \<and> stageIn (dv_rows s1) did = DV_APPROVED \<and>
    \<not> ok (fst (delivAdvance now id did reviewer s1)) \<and> \<not> ok (fst (delivReject now id did reason reviewer s1))"
proof -
  let ?s1 = "s\<lparr>rvw := w1\<rparr>"
  obtain d where d: "findPartnerById did (rvw s) = Some d"
    using assms(2) by (auto simp: rejectPartner_def findAdminTarget_def split: option.splits)
  then have mem: "d \<in> set (w_partners (rvw s))" "d_id d = did"
    using lookup_SomeD[of d_id did _ d] by (auto simp: findPartnerById_def)
  have k: "keyed d_id (w_partners (rvw s))" using assms(1) by (simp add: review_inv_def)
  have hit: "matches (\<lambda>d. d_id d = did \<and> d_isVerified d = True) (w_partners (rvw s)) \<noteq> 0"
    and w1: "w_partners w1 = modify (\<lambda>d. d_id d = did \<and> d_isVerified d = True) (\<lambda>d. d\<lparr>d_isVerified := False\<rparr>) (w_partners (rvw s))"
    using assms(2) d by (auto simp: rejectPartner_def findAdminTarget_def claimVerification_def Let_def split: if_splits)
  have v: "d_isVerified d"
    using hit d matches_pk[OF k, of did "\<lambda>d. d_isVerified d = True"] by (auto simp: findPartnerById_def split: if_splits)
  then have st: "stageIn (dv_rows s) did = DV_APPROVED" using assms(1) mem by (auto simp: review_inv_def)
  have flag: "map_option d_isVerified (findPartnerById did w1) = Some False"
    using d v mem(2) by (simp add: findPartnerById_def w1 lookup_modify)
  have row: "delivFindOrCreate did ?s1 = (v, s2) \<Longrightarrow> dv_stage v = DV_APPROVED" for v s2
    using st by (auto simp: delivFindOrCreate_def stageIn_def Let_def split: option.splits)
  have "\<not> ok (fst (delivAdvance now id did reviewer ?s1))"
    using row by (auto simp: delivAdvance_def DELIV_STAGE_ORDER_def split: prod.split)
  moreover have "\<not> ok (fst (delivReject now id did reason reviewer ?s1))"
    using row by (auto simp: delivReject_def split: prod.split)
  ultimately show ?thesis using st flag by (simp add: Let_def)
qed

lemma setOnboarding_status:
  "map_option on_status (findOnboarding rid (setOnboardingStatus rid st (\<lambda>ob. ob\<lparr>on_decidedAt := t\<rparr>) s)) = Some st"
proof -
  have "\<exists>ob. findOnboarding rid (snd (onboardingFindOrCreate rid s)) = Some ob"
    by (auto simp: onboardingFindOrCreate_def findOnboarding_def newOnboarding_def lookup_append split: option.split)
  then obtain ob where ob: "lookup on_restaurantId rid (on_rows (snd (onboardingFindOrCreate rid s))) = Some ob"
    by (auto simp: findOnboarding_def)
  have "on_restaurantId ob = rid" using ob by (rule lookup_key)
  then show ?thesis using ob by (simp add: setOnboardingStatus_def updateOnboarding_def findOnboarding_def lookup_modify)
qed

lemma setOnboarding_frame [simp]:
  "rvw (setOnboardingStatus rid st f s) = rvw s" "rv_rows (setOnboardingStatus rid st f s) = rv_rows s"
  by (auto simp: setOnboardingStatus_def updateOnboarding_def onboardingFindOrCreate_def split: option.split)

lemma approve_pending:
  assumes "restaurantsKeyed (rvw s)" and "findRestaurant rid (rvw s) = Some r" and "rs_status r = REST_PENDING"
  shows "restaurantStatusCell (rvw (snd (approveRestaurant now id rid admin s))) rid = Some REST_APPROVED \<and>
    map_option on_status (findOnboarding rid (snd (approveRestaurant now id rid admin s))) = Some OB_APPROVED"
proof -
  have "restaurantStatusCell (rvw s) rid = Some REST_PENDING"
    using assms(2,3) by (simp add: restaurantStatusCell_def findRestaurant_def)
  then have "fst (claimRestaurantStatus rid [REST_PENDING] REST_APPROVED (rvw s)) = 1 \<and>
      restaurantStatusCell (snd (claimRestaurantStatus rid [REST_PENDING] REST_APPROVED (rvw s))) rid = Some REST_APPROVED"
    using restaurantCas.claim_hit[OF assms(1), of rid REST_PENDING "[REST_PENDING]" REST_APPROVED] by simp
  then show ?thesis
    using assms(2,3) setOnboarding_status[of rid OB_APPROVED "Some now"]
    by (auto simp: approveRestaurant_def transitionRestaurantStatus_def Let_def onRestaurantActivated_def
        restaurantStatusCell_def split: prod.split)
qed

text \<open>
  Completing a verification is what takes a restaurant live.  When the last review stage is
  advanced, the verification and the onboarding both read APPROVED and a restaurant that was
  pending is approved; a restaurant that had been rejected or suspended keeps that status, although
  its owner's onboarding now reads APPROVED.
\<close>
theorem verification_completion_effect:
  assumes "restaurantsKeyed (rvw s)" and "restStagesKeyed s" and "findRestaurant rid (rvw s) = Some r"
    and "restStageCell s rid = Some RV_COMPLIANCE"
  shows "let s' = snd (restAdvance now id rid admin s) in
    restStageCell s' rid = Some RV_APPROVED \<and> map_option on_status (findOnboarding rid s') = Some OB_APPROVED \<and>
    restaurantStatusCell (rvw s') rid = Some (if rs_status r = REST_PENDING then REST_APPROVED else rs_status r)"
proof -
  obtain v where v: "lookup rv_restaurantId rid (rv_rows s) = Some v" "rv_stage v = RV_COMPLIANCE"
    using assms(4) by (auto simp: restStageCell_def)
  let ?e = "\<lambda>v. v\<lparr>rv_decidedAt := Some now\<rparr>"
  let ?p = "\<lambda>v. rv_restaurantId v = rid \<and> rv_stage v = RV_COMPLIANCE"
  let ?s2 = "s\<lparr>rv_rows := modify ?p (\<lambda>v. ?e (v\<lparr>rv_stage := RV_APPROVED\<rparr>)) (rv_rows s)\<rparr>"
  have "matches ?p (rv_rows s) \<noteq> 0"
    using v matches_pk[of rv_restaurantId "rv_rows s" rid "\<lambda>v. rv_stage v = RV_COMPLIANCE"] assms(2)
    by (simp add: restStagesKeyed_def)
  then have s': "snd (restAdvance now id rid admin s) =
      onVerificationCompleted now rid (onWorld (auditLog (Some admin) ''RestaurantVerification'' rid ''STATUS_CHANGE'') ?s2)"
    using v by (simp add: restAdvance_def restFindOrCreate_def REST_STAGE_ORDER_def claimRestStage_def Let_def)
  let ?s3 = "setOnboardingStatus rid OB_APPROVED (\<lambda>ob. ob\<lparr>on_decidedAt := Some now\<rparr>)
      (onWorld (auditLog (Some admin) ''RestaurantVerification'' rid ''STATUS_CHANGE'') ?s2)"
  have r3: "restaurantsKeyed (rvw ?s3)" "findRestaurant rid (rvw ?s3) = Some r"
    using assms(1,3) by (simp_all add: restaurantsKeyed_def findRestaurant_def)
  have fin: "snd (restAdvance now id rid admin s) =
      (if rs_status r = REST_PENDING then snd (approveRestaurant now id rid None ?s3) else ?s3)"
    unfolding s' onVerificationCompleted_def Let_def r3(2) by simp
  have "rv_rows (snd (approveRestaurant now id rid None ?s3)) = rv_rows ?s3"
    by (auto simp: approveRestaurant_def transitionRestaurantStatus_def onRestaurantActivated_def Let_def
        split: option.split prod.split)
  moreover have "restStageCell ?s3 rid = Some RV_APPROVED"
    using v lookup_key[OF v(1)] by (simp add: restStageCell_def lookup_modify)
  ultimately have 1: "restStageCell (snd (restAdvance now id rid admin s)) rid = Some RV_APPROVED"
    unfolding fin restStageCell_def by simp
  show ?thesis
    using 1 approve_pending[OF r3, of now None] setOnboarding_status r3(2) unfolding fin
    by (auto simp: Let_def restaurantStatusCell_def findRestaurant_def)
qed

text \<open>
  Asking for changes before the first submission skips the verification.  The admin's request
  has no status condition; an owner who then submits reaches UNDER_REVIEW although the verification
  was never submitted and has no row for the reviewers.
\<close>
theorem changes_requested_skips_verification:
  assumes "findOnboarding rid s = Some ob" and "on_status ob = OB_IN_PROGRESS"
    and "set MANDATORY_STEPS_BEFORE_SUBMIT \<subseteq> set (on_completedSteps ob)"
    and "hasRestaurantRole (rvw s) rid u VERIFICATION_ROLES" and "lookup rv_restaurantId rid (rv_rows s) = None"
  shows "let out = submitOnboarding now id rid u (requestChanges rid items admin s) in
    ok (fst out) \<and> map_option on_status (findOnboarding rid (snd out)) = Some OB_UNDER_REVIEW \<and>
    lookup rv_restaurantId rid (rv_rows (snd out)) = None"
proof -
  have k: "on_restaurantId ob = rid" using assms(1) unfolding findOnboarding_def by (rule lookup_key)
  let ?ob = "ob\<lparr>on_status := OB_CHANGES_REQUESTED, on_changesRequested := items\<rparr>"
  let ?s1 = "requestChanges rid items admin s"
  have ob1: "findOnboarding rid ?s1 = Some ?ob"
    using assms(1) k by (simp add: requestChanges_def setOnboardingStatus_def onboardingFindOrCreate_def
        updateOnboarding_def findOnboarding_def lookup_modify)
  have role: "hasRestaurantRole (rvw ?s1) rid u VERIFICATION_ROLES"
  proof -
    have "w_restaurants (rvw ?s1) = w_restaurants (rvw s)" by (simp add: requestChanges_def)
    then have "getRestaurantRole (rvw ?s1) rid u = getRestaurantRole (rvw s) rid u" by (simp add: getRestaurantRole_def)
    then show ?thesis using assms(4) by (simp add: hasRestaurantRole_def)
  qed
  have missing: "filter (\<lambda>st. st \<notin> set (on_completedSteps ob)) MANDATORY_STEPS_BEFORE_SUBMIT = []"
    using assms(3) by (auto simp: filter_empty_conv)
  have rows: "rv_rows ?s1 = rv_rows s" by (simp add: requestChanges_def)
  show ?thesis
    using role ob1 missing assms(5) rows k
    by (simp add: submitOnboarding_def onboardingFindOrCreate_def setOnboardingStatus_def updateOnboarding_def
        findOnboarding_def lookup_modify Let_def)
qed

section \<open>Concrete inputs\<close>

definition reviewWorld :: "bool \<Rightarrow> delivStage \<Rightarrow> restaurantStatus \<Rightarrow> reviewStore" where
  "reviewWorld flag dst rst = \<lparr>rvw = emptyWorld\<lparr>
       w_partners := [\<lparr>d_id = ''d1'', d_userId = ''dp1'', d_status = OFFLINE, d_isVerified = flag, d_latitude = None, d_longitude = None\<rparr>],
       w_restaurants := [\<lparr>rs_id = ''r1'', rs_ownerId = ''own'', rs_status = rst, rs_staff = [], rs_settings = None\<rparr>]\<rparr>,
     rv_rows = [\<lparr>rv_restaurantId = ''r1'', rv_stage = RV_COMPLIANCE, rv_submittedAt = Some 1, rv_decidedAt = None, rv_rejectedReason = None\<rparr>],
     dv_rows = [\<lparr>dv_partnerId = ''d1'', dv_stage = dst, dv_submittedAt = Some 1, dv_decidedAt = None, dv_rejectedReason = None\<rparr>],
     dv_history = [], on_rows = []\<rparr>"

lemma reviewWorld_inv: "flag = (dst = DV_APPROVED) \<Longrightarrow> review_inv (reviewWorld flag dst rst)"
  by (simp add: review_inv_def reviewWorld_def keyed_def stageIn_def)

lemma delivery_verified_iff_approved_witness:
  "\<exists>d. findPartnerById ''d1'' (rvw (snd (delivAdvance 9 id ''d1'' ''adm'' (reviewWorld False DV_UNDER_REVIEW REST_PENDING)))) = Some d \<and>
     d_isVerified d"
proof -
  let ?s = "reviewWorld False DV_UNDER_REVIEW REST_PENDING"
  let ?s' = "snd (delivAdvance 9 id ''d1'' ''adm'' ?s)"
  have "reviewStep\<^sup>*\<^sup>* ?s ?s'" by (intro r_into_rtranclp reviewStep.advance) (simp add: benignReview_def)
  moreover have "\<exists>d. findPartnerById ''d1'' (rvw ?s') = Some d \<and> stageIn (dv_rows ?s') ''d1'' = DV_APPROVED"
    by (simp add: reviewWorld_def delivAdvance_def delivFindOrCreate_def DELIV_STAGE_ORDER_def claimDelivStage_def
        delivClaimed_def findPartnerById_def onWorld_def notifyPartner_def stageIn_def Let_def)
  ultimately show ?thesis
    using delivery_verified_iff_approved[of ?s ?s'] reviewWorld_inv[of False DV_UNDER_REVIEW REST_PENDING] by auto
qed

lemma direct_reject_desynchronises_witness:
  "stageIn (dv_rows (reviewWorld True DV_APPROVED REST_PENDING\<lparr>rvw := snd (rejectPartner id ''d1'' ''adm''
     (rvw (reviewWorld True DV_APPROVED REST_PENDING)))\<rparr>)) ''d1'' = DV_APPROVED"
proof -
  let ?s = "reviewWorld True DV_APPROVED REST_PENDING"
  have "\<exists>u w1. rejectPartner id ''d1'' ''adm'' (rvw ?s) = (Inr u, w1)"
    by (simp add: rejectPartner_def findAdminTarget_def findPartnerById_def claimVerification_def reviewWorld_def Let_def)
  then obtain u w1 where r: "rejectPartner id ''d1'' ''adm'' (rvw ?s) = (Inr u, w1)" by blast
  show ?thesis using direct_reject_desynchronises[OF reviewWorld_inv r] r by (simp add: Let_def)
qed

lemma verification_completion_effect_witness:
  "restaurantStatusCell (rvw (snd (restAdvance 9 id ''r1'' ''adm'' (reviewWorld False DV_DRAFT REST_PENDING)))) ''r1'' = Some REST_APPROVED"
  using verification_completion_effect[of "reviewWorld False DV_DRAFT REST_PENDING" "''r1''"
      "\<lparr>rs_id = ''r1'', rs_ownerId = ''own'', rs_status = REST_PENDING, rs_staff = [], rs_settings = None\<rparr>" 9 "''adm''"]
  by (simp add: restaurantsKeyed_def restStagesKeyed_def restStageCell_def findRestaurant_def reviewWorld_def keyed_def Let_def)

definition wizardStore :: reviewStore where
  "wizardStore = (reviewWorld False DV_DRAFT REST_PENDING)\<lparr>rv_rows := [],
     on_rows := [(newOnboarding ''r1'')\<lparr>on_status := OB_IN_PROGRESS, on_completedSteps := [1,2,3,4,5,6,7,8,9,10,11]\<rparr>]\<rparr>"

lemma changes_requested_skips_verification_witness:
  "map_option on_status (findOnboarding ''r1'' (snd (submitOnboarding 9 id ''r1'' \<lparr>userId = ''own'', role = RESTAURANT_OWNER\<rparr>
     (requestChanges ''r1'' [''logo''] ''adm'' wizardStore)))) = Some OB_UNDER_REVIEW"
proof -
  let ?ob = "(newOnboarding ''r1'')\<lparr>on_status := OB_IN_PROGRESS, on_completedSteps := [1,2,3,4,5,6,7,8,9,10,11]\<rparr>"
  have "findOnboarding ''r1'' wizardStore = Some ?ob" "on_status ?ob = OB_IN_PROGRESS"
    by (simp_all add: findOnboarding_def wizardStore_def newOnboarding_def)
  moreover have "[0..<nat (ONBOARDING_TOTAL_STEPS - 1)] = [0,1,2,3,4,5,6,7,8,9,10]"
    by (simp add: ONBOARDING_TOTAL_STEPS_def upt_conv_Cons)
  then have "set MANDATORY_STEPS_BEFORE_SUBMIT \<subseteq> set (on_completedSteps ?ob)"
    by (simp add: MANDATORY_STEPS_BEFORE_SUBMIT_def)
  moreover have "hasRestaurantRole (rvw wizardStore) ''r1'' \<lparr>userId = ''own'', role = RESTAURANT_OWNER\<rparr> VERIFICATION_ROLES"
    by (simp add: hasRestaurantRole_def getRestaurantRole_def isAdmin_def wizardStore_def reviewWorld_def VERIFICATION_ROLES_def)
  moreover have "lookup rv_restaurantId ''r1'' (rv_rows wizardStore) = None" by (simp add: wizardStore_def)
  ultimately show ?thesis
    using changes_requested_skips_verification[of "''r1''" wizardStore ?ob] by (simp add: Let_def)
qed

end
