(* ===== verification/Catalog.thy ===== *)
theory Catalog
  imports OperatingHours Geo
begin

text \<open>
  The restaurant catalogue: the rows behind a restaurant's public profile, and the profile
  operations of \<^verbatim>\<open>RestaurantsService\<close> over \<^verbatim>\<open>RestaurantsRepository\<close> (creation, profile update,
  images, delivery timing, the admin listing).

  The rows hold what the code reads or decides on; address lines and contact columns that are
  only stored and returned are left out.  Object storage is a parameter: what an upload returns.
\<close>

section \<open>Data\<close>

record branchRow = branch +
  br_name :: string
  br_addressLine1 :: string
  br_addressLine2 :: "string option"
  br_landmark :: "string option"
  br_city :: string
  br_state :: string
  br_postalCode :: string
  br_deliveryRadiusKm :: "rat option"
  br_phone :: "string option"
  br_emergencyContactName :: "string option"
  br_emergencyContactPhone :: "string option"
  br_createdAt :: int
  br_deletedAt :: "int option"

record staffRow =
  sf_id :: string
  sf_restaurantId :: string
  sf_member :: staffMember
  sf_invitedById :: "string option"
  sf_createdAt :: int
  sf_respondedAt :: "int option"

datatype offerType = PERCENTAGE_OFF | FLAT_OFF | FREE_DELIVERY | BUY_ONE_GET_ONE | OFFER_CASHBACK | OTHER_OFFER

record offer =
  ofr_id :: string
  ofr_restaurantId :: "string option"
  ofr_title :: string
  ofr_description :: "string option"
  ofr_imageUrl :: "string option"
  ofr_linkUrl :: "string option"
  ofr_type :: "offerType option"
  ofr_isActive :: bool
  ofr_startsAt :: "int option"
  ofr_endsAt :: "int option"
  ofr_createdAt :: int

record review =
  rw_id :: string
  rw_restaurantId :: string
  rw_customerId :: string
  rw_rating :: int
  rw_comment :: "string option"
  rw_createdAt :: int
  rw_replyText :: "string option"
  rw_replyCreatedAt :: "int option"
  rw_replyUpdatedAt :: "int option"
  rw_repliedByUserId :: "string option"

datatype mediaType = LOGO | BANNER | GALLERY string

record media =
  me_id :: string
  me_restaurantId :: string
  me_type :: mediaType
  me_url :: string
  me_sortOrder :: nat
  me_uploadedById :: string
  me_createdAt :: int

record ownerCard =
  ow_id :: string
  ow_firstName :: string
  ow_lastName :: "string option"
  ow_email :: "string option"
  ow_phone :: "string option"
  ow_passwordHash :: "string option"

record restaurantRow =
  rr_id :: string
  rr_ownerId :: string
  rr_name :: string
  rr_slug :: string
  rr_description :: "string option"
  rr_phone :: "string option"
  rr_email :: "string option"
  rr_logoUrl :: "string option"
  rr_bannerUrl :: "string option"
  rr_status :: restaurantStatus
  rr_isActive :: bool
  rr_featured :: bool
  rr_avgRating :: rat
  rr_ratingCount :: nat
  rr_avgPreparationTimeMinutes :: "int option"
  rr_avgDeliveryTimeMinutes :: "int option"
  rr_deliveredOrderCount :: nat
  rr_hasVegOptions :: bool
  rr_hasVeganOptions :: bool
  rr_cuisines :: "string list"
  rr_createdAt :: int

datatype chargeType = CHARGE_NONE | CHARGE_FLAT | CHARGE_PERCENTAGE

record settingsRow =
  se_restaurantId :: string
  se_serviceChargeType :: chargeType
  se_serviceChargeValue :: rat
  se_packingChargeType :: chargeType
  se_packingChargeValue :: rat
  se_minimumOrderAmount :: rat
  se_currency :: string
  se_autoAcceptOrders :: bool
  se_acceptanceTimeoutMinutes :: int
  se_isTemporarilyClosed :: bool
  se_temporaryClosureReason :: "string option"
  se_temporaryClosureUntil :: "int option"
  se_restaurantNotes :: "string option"
  se_specialInstructions :: "string option"
  se_deliveryRadiusOverrideKm :: "rat option"
  se_orderPreparationDefaultMinutes :: "int option"
  se_notifyOnNewOrder :: bool
  se_notifyOnOrderCancelled :: bool
  se_notifyOnRefund :: bool
  se_notifyOnCustomerMessage :: bool

text \<open>The two columns the order code reads.\<close>

definition orderSettingsOf :: "settingsRow \<Rightarrow> restaurantSettings" where
  "orderSettingsOf s = \<lparr>st_acceptanceTimeoutMinutes = se_acceptanceTimeoutMinutes s,
     st_autoAcceptOrders = se_autoAcceptOrders s\<rparr>"

record catalog =
  cg_base :: world
  cg_restaurants :: "restaurantRow list"
  cg_branches :: "branchRow list"
  cg_staff :: "staffRow list"
  cg_offers :: "offer list"
  cg_reviews :: "review list"
  cg_media :: "media list"
  cg_owners :: "ownerCard list"
  cg_published :: "(string \<times> string) list"
  cg_settings :: "settingsRow list"

definition onBase :: "(world \<Rightarrow> world) \<Rightarrow> 'z catalog_scheme \<Rightarrow> 'z catalog_scheme" where
  "onBase f c = c\<lparr>cg_base := f (cg_base c)\<rparr>"

definition announce :: "string \<Rightarrow> string \<Rightarrow> 'z catalog_scheme \<Rightarrow> 'z catalog_scheme" where
  "announce name i c = c\<lparr>cg_published := cg_published c @ [(name, i)]\<rparr>"

text \<open>What the access checks read: the restaurants with the staff relation resolved.\<close>

definition roleView :: "'z catalog_scheme \<Rightarrow> world" where
  "roleView c = (cg_base c)\<lparr>w_restaurants := map (\<lambda>r.
     \<lparr>rs_id = rr_id r, rs_ownerId = rr_ownerId r, rs_status = rr_status r,
      rs_staff = map sf_member (filter (\<lambda>s. sf_restaurantId s = rr_id r) (cg_staff c)),
      rs_settings = map_option orderSettingsOf (lookup se_restaurantId (rr_id r) (cg_settings c))\<rparr>) (cg_restaurants c)\<rparr>"

section \<open>Repository\<close>

definition findRestaurantRow :: "string \<Rightarrow> 'z catalog_scheme \<Rightarrow> restaurantRow option" where
  "findRestaurantRow rid c = lookup rr_id rid (cg_restaurants c)"

definition insertRestaurant ::
  "restaurantRow \<Rightarrow> 'z catalog_scheme \<Rightarrow> ('z catalog_scheme, restaurantRow) outcome" where
  "insertRestaurant r c =
     (if rr_slug r \<in> rr_slug ` set (cg_restaurants c) then (Inl (UniqueViolation ''slug''), c)
      else (Inr r, c\<lparr>cg_restaurants := cg_restaurants c @ [r]\<rparr>))"

definition updateRestaurantRow ::
  "string \<Rightarrow> (restaurantRow \<Rightarrow> restaurantRow) \<Rightarrow> 'z catalog_scheme \<Rightarrow> ('z catalog_scheme, restaurantRow) outcome" where
  "updateRestaurantRow rid f c =
     (case findRestaurantRow rid c of
        None \<Rightarrow> (Inl (RecordNotFound ''Restaurant''), c)
      | Some r \<Rightarrow> (Inr (f r), c\<lparr>cg_restaurants := modify (\<lambda>r. rr_id r = rid) f (cg_restaurants c)\<rparr>))"

definition findRestaurantsByOwner :: "string \<Rightarrow> 'z catalog_scheme \<Rightarrow> restaurantRow list" where
  "findRestaurantsByOwner uid c =
     sort_key (\<lambda>r. - rr_createdAt r) (filter (\<lambda>r. rr_ownerId r = uid) (cg_restaurants c))"

definition countByStatus :: "restaurantStatus option \<Rightarrow> 'z catalog_scheme \<Rightarrow> nat" where
  "countByStatus st c = matches (\<lambda>r. case st of None \<Rightarrow> True | Some x \<Rightarrow> rr_status r = x) (cg_restaurants c)"

definition hasCity :: "string \<Rightarrow> string \<Rightarrow> 'z catalog_scheme \<Rightarrow> bool" where
  "hasCity city rid c = list_ex (\<lambda>b. b_restaurantId b = rid \<and> containsInsensitive city (br_city b)) (cg_branches c)"

definition hasCuisine :: "string \<Rightarrow> restaurantRow \<Rightarrow> bool" where
  "hasCuisine q r = list_ex (containsInsensitive q) (rr_cuisines r)"

definition maybeContains :: "string \<Rightarrow> string option \<Rightarrow> bool" where
  "maybeContains q v = (case v of None \<Rightarrow> False | Some t \<Rightarrow> containsInsensitive q t)"

record adminRestaurantQuery =
  aq_search :: "string option"
  aq_city :: "string option"
  aq_cuisine :: "string option"
  aq_status :: "restaurantStatus option"

definition adminListed :: "adminRestaurantQuery \<Rightarrow> 'z catalog_scheme \<Rightarrow> restaurantRow \<Rightarrow> bool" where
  "adminListed q c r \<longleftrightarrow>
     (case aq_status q of None \<Rightarrow> True | Some st \<Rightarrow> rr_status r = st) \<and>
     (truthy (aq_search q) \<longrightarrow>
        containsInsensitive (the (aq_search q)) (rr_name r) \<or>
        (case lookup ow_id (rr_ownerId r) (cg_owners c) of
           None \<Rightarrow> False
         | Some ow \<Rightarrow> containsInsensitive (the (aq_search q)) (ow_firstName ow) \<or>
                      maybeContains (the (aq_search q)) (ow_lastName ow) \<or>
                      maybeContains (the (aq_search q)) (ow_email ow))) \<and>
     (truthy (aq_city q) \<longrightarrow> hasCity (the (aq_city q)) (rr_id r) c) \<and>
     (truthy (aq_cuisine q) \<longrightarrow> hasCuisine (the (aq_cuisine q)) r)"

definition findRestaurantsForAdmin ::
  "adminRestaurantQuery \<Rightarrow> nat \<Rightarrow> nat \<Rightarrow> 'z catalog_scheme \<Rightarrow> restaurantRow list \<times> nat" where
  "findRestaurantsForAdmin q skip tk c =
     (let rows = filter (adminListed q c) (cg_restaurants c)
      in (skipTake skip tk (sort_key (\<lambda>r. - rr_createdAt r) rows), length rows))"

text \<open>The owner as the responses show it; the row's \<^verbatim>\<open>passwordHash\<close> is not part of it.\<close>

record ownerSummary =
  os_id :: string
  os_firstName :: string
  os_lastName :: "string option"
  os_email :: "string option"
  os_phone :: "string option"

definition ownerSummaryOf :: "ownerCard \<Rightarrow> ownerSummary" where
  "ownerSummaryOf ow = \<lparr>os_id = ow_id ow, os_firstName = ow_firstName ow, os_lastName = ow_lastName ow,
     os_email = ow_email ow, os_phone = ow_phone ow\<rparr>"

definition toSafeRestaurant :: "'z catalog_scheme \<Rightarrow> restaurantRow \<Rightarrow> restaurantRow \<times> ownerSummary option \<times> string list" where
  "toSafeRestaurant c r =
     (r, map_option ownerSummaryOf (lookup ow_id (rr_ownerId r) (cg_owners c)),
      map br_city (filter (\<lambda>b. b_restaurantId b = rr_id r) (cg_branches c)))"

definition getRestaurantsForAdmin ::
  "adminRestaurantQuery \<Rightarrow> nat \<Rightarrow> nat \<Rightarrow> 'z catalog_scheme
     \<Rightarrow> (restaurantRow \<times> ownerSummary option \<times> string list) list \<times> nat \<times> nat" where
  "getRestaurantsForAdmin q page limit c =
     (let (items, n) = findRestaurantsForAdmin q ((page - 1) * limit) limit c
      in (map (toSafeRestaurant c) items, n, totalPages n limit))"

section \<open>Service\<close>

record createRestaurantDto =
  cr_name :: string
  cr_slug :: string
  cr_description :: "string option"
  cr_phone :: "string option"
  cr_email :: "string option"

definition newRestaurant :: "string \<Rightarrow> int \<Rightarrow> string \<Rightarrow> createRestaurantDto \<Rightarrow> restaurantRow" where
  "newRestaurant uuid now owner dto =
     \<lparr>rr_id = uuid, rr_ownerId = owner, rr_name = cr_name dto, rr_slug = cr_slug dto,
      rr_description = cr_description dto, rr_phone = cr_phone dto, rr_email = cr_email dto,
      rr_logoUrl = None, rr_bannerUrl = None, rr_status = REST_PENDING, rr_isActive = True, rr_featured = False,
      rr_avgRating = 0, rr_ratingCount = 0, rr_avgPreparationTimeMinutes = None,
      rr_avgDeliveryTimeMinutes = None, rr_deliveredOrderCount = 0, rr_hasVegOptions = False,
      rr_hasVeganOptions = False, rr_cuisines = [], rr_createdAt = now\<rparr>"

text \<open>The slug is looked up first and decided by its unique index; \<open>env\<close> is what other requests do
  in between.\<close>

definition createRestaurant ::
  "string \<Rightarrow> int \<Rightarrow> ('z catalog_scheme \<Rightarrow> 'z catalog_scheme) \<Rightarrow> string \<Rightarrow> createRestaurantDto
     \<Rightarrow> 'z catalog_scheme \<Rightarrow> ('z catalog_scheme, restaurantRow) outcome" where
  "createRestaurant uuid now env owner dto c =
     (if lookup rr_slug (cr_slug dto) (cg_restaurants c) \<noteq> None
      then (Inl (Conflict ''Restaurant slug already exists''), c)
      else
        (case insertRestaurant (newRestaurant uuid now owner dto) (env c) of
           (Inl e, c1) \<Rightarrow> (Inl e, c1)
         | (Inr r, c1) \<Rightarrow>
             (Inr r, announce ''restaurant.created'' uuid
                       (onBase (auditLog (Some owner) ''Restaurant'' uuid ''CREATE'') c1))))"

record updateRestaurantDto =
  ur_name :: "string option"
  ur_description :: "string option"
  ur_phone :: "string option"
  ur_email :: "string option"

definition patchField :: "'v option \<Rightarrow> 'v \<Rightarrow> 'v" where
  "patchField given old = (case given of None \<Rightarrow> old | Some v \<Rightarrow> v)"

definition patchOpt :: "'v option \<Rightarrow> 'v option \<Rightarrow> 'v option" where
  "patchOpt given old = (case given of None \<Rightarrow> old | Some v \<Rightarrow> Some v)"

definition updateProfile :: "updateRestaurantDto \<Rightarrow> restaurantRow \<Rightarrow> restaurantRow" where
  "updateProfile dto r = r\<lparr>rr_name := patchField (ur_name dto) (rr_name r),
     rr_description := patchOpt (ur_description dto) (rr_description r),
     rr_phone := patchOpt (ur_phone dto) (rr_phone r), rr_email := patchOpt (ur_email dto) (rr_email r)\<rparr>"

definition updateRestaurant ::
  "string \<Rightarrow> updateRestaurantDto \<Rightarrow> authUser \<Rightarrow> 'z catalog_scheme \<Rightarrow> ('z catalog_scheme, restaurantRow) outcome" where
  "updateRestaurant rid dto u c =
     (if findRestaurantRow rid c = None then (Inl (NotFound ''Restaurant''), c)
      else if \<not> hasRestaurantRole (roleView c) rid u [StaffRole OWNER, StaffRole CO_OWNER, AdminRole]
      then (Inl (Forbidden ''update restaurant''), c)
      else
        (case updateRestaurantRow rid (updateProfile dto) c of
           (Inl e, c1) \<Rightarrow> (Inl e, c1)
         | (Inr r, c1) \<Rightarrow>
             (Inr r, announce ''restaurant.updated'' rid
                       (onBase (auditLog (Some (userId u)) ''Restaurant'' rid ''UPDATE'') c1))))"

definition getMyRestaurants :: "string \<Rightarrow> 'z catalog_scheme \<Rightarrow> restaurantRow list" where
  "getMyRestaurants uid c = findRestaurantsByOwner uid c"

section \<open>Images\<close>

definition mirrorPrimaryMedia ::
  "string \<Rightarrow> int \<Rightarrow> string \<Rightarrow> mediaType \<Rightarrow> string \<Rightarrow> string \<Rightarrow> 'z catalog_scheme \<Rightarrow> 'z catalog_scheme" where
  "mirrorPrimaryMedia uuid now rid ty url uid c =
     c\<lparr>cg_media := filter (\<lambda>m. \<not> (me_restaurantId m = rid \<and> me_type m = ty)) (cg_media c) @
        [\<lparr>me_id = uuid, me_restaurantId = rid, me_type = ty, me_url = url, me_sortOrder = 0,
          me_uploadedById = uid, me_createdAt = now\<rparr>]\<rparr>"

definition uploadImage ::
  "mediaType \<Rightarrow> (string \<Rightarrow> restaurantRow \<Rightarrow> restaurantRow) \<Rightarrow> string \<Rightarrow> int \<Rightarrow> string result \<Rightarrow> string \<Rightarrow> authUser
     \<Rightarrow> 'z catalog_scheme \<Rightarrow> ('z catalog_scheme, restaurantRow) outcome" where
  "uploadImage ty setUrl uuid now stored rid u c =
     (if findRestaurantRow rid c = None then (Inl (NotFound ''Restaurant''), c)
      else if \<not> canAccessRestaurant (roleView c) rid u then (Inl (Forbidden ''modify restaurant''), c)
      else
        (case stored of
           Inl e \<Rightarrow> (Inl e, c)
         | Inr url \<Rightarrow>
             updateRestaurantRow rid (setUrl url) (mirrorPrimaryMedia uuid now rid ty url (userId u) c)))"

definition uploadLogo ::
  "string \<Rightarrow> int \<Rightarrow> string result \<Rightarrow> string \<Rightarrow> authUser \<Rightarrow> 'z catalog_scheme
     \<Rightarrow> ('z catalog_scheme, restaurantRow) outcome" where
  "uploadLogo = uploadImage LOGO (\<lambda>url r. r\<lparr>rr_logoUrl := Some url\<rparr>)"

definition uploadBanner ::
  "string \<Rightarrow> int \<Rightarrow> string result \<Rightarrow> string \<Rightarrow> authUser \<Rightarrow> 'z catalog_scheme
     \<Rightarrow> ('z catalog_scheme, restaurantRow) outcome" where
  "uploadBanner = uploadImage BANNER (\<lambda>url r. r\<lparr>rr_bannerUrl := Some url\<rparr>)"

section \<open>Delivery timing\<close>

text \<open>The incremental mean of the delivered orders; the columns are integers, so each step rounds.\<close>

definition nextMean :: "int option \<Rightarrow> int \<Rightarrow> nat \<Rightarrow> rat" where
  "nextMean avg v newCount =
     (let base = (case avg of None \<Rightarrow> v | Some a \<Rightarrow> a)
      in of_int base + (of_int v - of_int base) / of_nat newCount)"

definition recordOrderTiming ::
  "('z catalog_scheme \<Rightarrow> 'z catalog_scheme) \<Rightarrow> string \<Rightarrow> int option \<Rightarrow> int \<Rightarrow> 'z catalog_scheme \<Rightarrow> 'z catalog_scheme" where
  "recordOrderTiming env rid prepMinutes deliveryMinutes c =
     (case findRestaurantRow rid c of
        None \<Rightarrow> c
      | Some r \<Rightarrow>
          (let newCount = rr_deliveredOrderCount r + 1;
               newDelivery = mathRound (nextMean (rr_avgDeliveryTimeMinutes r) deliveryMinutes newCount);
               newPrep = (case prepMinutes of
                            None \<Rightarrow> rr_avgPreparationTimeMinutes r
                          | Some m \<Rightarrow> Some (mathRound (nextMean (rr_avgPreparationTimeMinutes r) m newCount)))
           in snd (updateRestaurantRow rid (\<lambda>r. r\<lparr>rr_deliveredOrderCount := newCount,
                     rr_avgDeliveryTimeMinutes := Some newDelivery,
                     rr_avgPreparationTimeMinutes := newPrep\<rparr>) (env c))))"

end
