(* ===== verification/Discovery.thy ===== *)
theory Discovery
  imports Catalog "HOL-Library.Product_Lexorder"
begin

text \<open>
  Finding restaurants: the public queries of \<^verbatim>\<open>RestaurantsService\<close> (listing with filters and sorting,
  featured, popular, nearby, recommended) and the summary they return.

  \<open>openNow\<close> stands for \<^verbatim>\<open>computeIsOpenNow(hours, timezone)\<close> at the time of the request; it is the
  function of theory \<^verbatim>\<open>OperatingHours\<close>, instantiated by \<open>openAt\<close> below.  Distances are real numbers
  where the code has doubles.  Rows a query leaves tied come in table order.
\<close>

type_synonym openCheck = "operatingHour list \<Rightarrow> string option \<Rightarrow> bool"

definition openAt :: "zoneLib \<Rightarrow> (int \<Rightarrow> string) \<Rightarrow> int \<Rightarrow> openCheck" where
  "openAt tz dayKey now hours zone = (computeIsOpenNow tz dayKey hours zone now [] = Some True)"

section \<open>Summaries\<close>

definition branchesOf :: "string \<Rightarrow> 'z catalog_scheme \<Rightarrow> branchRow list" where
  "branchesOf rid c = filter (\<lambda>b. b_restaurantId b = rid) (cg_branches c)"

definition selectPrimaryBranch :: "branchRow list \<Rightarrow> branchRow option" where
  "selectPrimaryBranch branches =
     (case branches of
        [] \<Rightarrow> None
      | b # _ \<Rightarrow> (case List.find b_isPrimary branches of Some p \<Rightarrow> Some p | None \<Rightarrow> Some b))"

record restaurantSummary =
  su_id :: string
  su_name :: string
  su_slug :: string
  su_logoUrl :: "string option"
  su_bannerUrl :: "string option"
  su_cuisines :: "string list"
  su_city :: "string option"
  su_avgRating :: rat
  su_ratingCount :: nat
  su_avgPreparationTimeMinutes :: "int option"
  su_avgDeliveryTimeMinutes :: "int option"
  su_isOpenNow :: bool
  su_featured :: bool
  su_hasVegOptions :: bool
  su_hasVeganOptions :: bool
  su_distanceKm :: "real option"

definition distanceTo :: "real \<times> real \<Rightarrow> branchRow \<Rightarrow> real option" where
  "distanceTo origin b =
     (case (b_latitude b, b_longitude b) of
        (Some lat, Some lng) \<Rightarrow> Some (haversineDistanceKm (fst origin) (snd origin) (of_rat lat) (of_rat lng))
      | _ \<Rightarrow> None)"

definition branchOpen :: "openCheck \<Rightarrow> branchRow option \<Rightarrow> bool" where
  "branchOpen openNow pb =
     (case pb of None \<Rightarrow> openNow [] None | Some b \<Rightarrow> openNow (b_operatingHours b) (b_timezone b))"

definition toRestaurantSummary ::
  "openCheck \<Rightarrow> (real \<times> real) option \<Rightarrow> 'z catalog_scheme \<Rightarrow> restaurantRow \<Rightarrow> restaurantSummary" where
  "toRestaurantSummary openNow origin c r =
     (let pb = selectPrimaryBranch (branchesOf (rr_id r) c)
      in \<lparr>su_id = rr_id r, su_name = rr_name r, su_slug = rr_slug r, su_logoUrl = rr_logoUrl r,
          su_bannerUrl = rr_bannerUrl r, su_cuisines = rr_cuisines r, su_city = map_option br_city pb,
          su_avgRating = rr_avgRating r, su_ratingCount = rr_ratingCount r,
          su_avgPreparationTimeMinutes = rr_avgPreparationTimeMinutes r,
          su_avgDeliveryTimeMinutes = rr_avgDeliveryTimeMinutes r,
          su_isOpenNow = branchOpen openNow pb, su_featured = rr_featured r,
          su_hasVegOptions = rr_hasVegOptions r, su_hasVeganOptions = rr_hasVeganOptions r,
          su_distanceKm = (case origin of None \<Rightarrow> None
                           | Some p \<Rightarrow> (case pb of None \<Rightarrow> None | Some b \<Rightarrow> distanceTo p b))\<rparr>)"

section \<open>The listing\<close>

datatype restaurantSortBy = BY_NAME | BY_RATING | BY_CREATED | BY_POPULARITY | BY_DELIVERY_TIME
  | BY_PREPARATION_TIME | BY_DISTANCE

record restaurantQuery =
  rq_page :: nat
  rq_limit :: nat
  rq_search :: "string option"
  rq_city :: "string option"
  rq_cuisine :: "string option"
  rq_featured :: "string option"
  rq_openNow :: "string option"
  rq_veg :: "string option"
  rq_vegan :: "string option"
  rq_offers :: "string option"
  rq_minRating :: "rat option"
  rq_maxDeliveryTimeMinutes :: "int option"
  rq_maxDistanceKm :: "real option"
  rq_latitude :: "real option"
  rq_longitude :: "real option"
  rq_sortBy :: restaurantSortBy
  rq_descending :: bool

definition isTrue :: "string option \<Rightarrow> bool" where
  "isTrue v = (v = Some ''true'')"

definition activeOffer :: "int \<Rightarrow> offer \<Rightarrow> bool" where
  "activeOffer now f \<longleftrightarrow> ofr_isActive f \<and>
     (case ofr_startsAt f of None \<Rightarrow> True | Some t \<Rightarrow> t \<le> now) \<and>
     (case ofr_endsAt f of None \<Rightarrow> True | Some t \<Rightarrow> now \<le> t)"

definition liveRestaurant :: "restaurantRow \<Rightarrow> bool" where
  "liveRestaurant r \<longleftrightarrow> rr_status r = REST_APPROVED \<and> rr_isActive r"

definition listedWhere :: "int \<Rightarrow> restaurantQuery \<Rightarrow> 'z catalog_scheme \<Rightarrow> restaurantRow \<Rightarrow> bool" where
  "listedWhere now q c r \<longleftrightarrow> liveRestaurant r \<and>
     (truthy (rq_search q) \<longrightarrow>
        containsInsensitive (the (rq_search q)) (rr_name r) \<or> maybeContains (the (rq_search q)) (rr_description r)) \<and>
     (truthy (rq_city q) \<longrightarrow> hasCity (the (rq_city q)) (rr_id r) c) \<and>
     (truthy (rq_cuisine q) \<longrightarrow> hasCuisine (the (rq_cuisine q)) r) \<and>
     (rq_featured q \<noteq> None \<longrightarrow> rr_featured r = isTrue (rq_featured q)) \<and>
     (isTrue (rq_veg q) \<longrightarrow> rr_hasVegOptions r) \<and>
     (isTrue (rq_vegan q) \<longrightarrow> rr_hasVeganOptions r) \<and>
     (isTrue (rq_offers q) \<longrightarrow> list_ex (\<lambda>f. ofr_restaurantId f = Some (rr_id r) \<and> activeOffer now f) (cg_offers c)) \<and>
     (case rq_minRating q of None \<Rightarrow> True | Some m \<Rightarrow> m \<le> rr_avgRating r) \<and>
     (case rq_maxDeliveryTimeMinutes q of None \<Rightarrow> True
      | Some m \<Rightarrow> (case rr_avgDeliveryTimeMinutes r of None \<Rightarrow> False | Some t \<Rightarrow> t \<le> m))"

text \<open>\<^verbatim>\<open>ORDER BY\<close>: ascending puts NULL last, descending puts it first; text compares by character
  code.\<close>

definition nullsLast :: "'k::zero option \<Rightarrow> nat \<times> 'k" where
  "nullsLast v = (case v of None \<Rightarrow> (1, 0) | Some x \<Rightarrow> (0, x))"

definition sortDir :: "bool \<Rightarrow> ('r \<Rightarrow> 'k::linorder) \<Rightarrow> 'r list \<Rightarrow> 'r list" where
  "sortDir desc key rows = (if desc then rev (sort_key key (rev rows)) else sort_key key rows)"

definition textKey :: "string \<Rightarrow> nat list" where
  "textKey s = map of_char s"

definition orderRestaurants :: "restaurantSortBy \<Rightarrow> bool \<Rightarrow> restaurantRow list \<Rightarrow> restaurantRow list" where
  "orderRestaurants sb desc rows =
     (case sb of
        BY_NAME \<Rightarrow> sortDir desc (\<lambda>r. textKey (rr_name r)) rows
      | BY_RATING \<Rightarrow> sortDir desc rr_avgRating rows
      | BY_CREATED \<Rightarrow> sortDir desc rr_createdAt rows
      | BY_POPULARITY \<Rightarrow> sortDir desc rr_deliveredOrderCount rows
      | BY_DELIVERY_TIME \<Rightarrow> sortDir desc (\<lambda>r. nullsLast (rr_avgDeliveryTimeMinutes r)) rows
      | BY_PREPARATION_TIME \<Rightarrow> sortDir desc (\<lambda>r. nullsLast (rr_avgPreparationTimeMinutes r)) rows
      | BY_DISTANCE \<Rightarrow> sortDir True rr_createdAt rows)"

text \<open>\<^verbatim>\<open>getPagination\<close>.\<close>

definition getPagination :: "nat \<Rightarrow> nat \<Rightarrow> nat \<times> nat" where
  "getPagination page limit =
     (let safePage = max page 1; safeLimit = min limit 100 in ((safePage - 1) * safeLimit, safeLimit))"

record summaryPage =
  sp_items :: "restaurantSummary list"
  sp_total :: nat
  sp_page :: nat
  sp_limit :: nat
  sp_totalPages :: nat

definition CANDIDATE_LIMIT :: nat where "CANDIDATE_LIMIT = 500"

definition needsDistance :: "restaurantQuery \<Rightarrow> bool" where
  "needsDistance q \<longleftrightarrow> rq_sortBy q = BY_DISTANCE \<or> rq_maxDistanceKm q \<noteq> None"

definition originOf :: "restaurantQuery \<Rightarrow> (real \<times> real) option" where
  "originOf q =
     (if needsDistance q
      then (case (rq_latitude q, rq_longitude q) of (Some lat, Some lng) \<Rightarrow> Some (lat, lng) | _ \<Rightarrow> None)
      else None)"

text \<open>The branch that filters and sorts in memory, over at most \<^const>\<open>CANDIDATE_LIMIT\<close> rows.\<close>

definition inMemory :: "openCheck \<Rightarrow> int \<Rightarrow> restaurantQuery \<Rightarrow> 'z catalog_scheme \<Rightarrow> restaurantSummary list" where
  "inMemory openNow now q c =
     (let candidates = take CANDIDATE_LIMIT
            (orderRestaurants (rq_sortBy q) (rq_descending q) (filter (listedWhere now q c) (cg_restaurants c)));
          candidates = (if isTrue (rq_openNow q)
            then filter (\<lambda>r. branchOpen openNow (selectPrimaryBranch (branchesOf (rr_id r) c))) candidates
            else candidates);
          summaries = map (toRestaurantSummary openNow (originOf q) c) candidates;
          summaries = (case rq_maxDistanceKm q of
              None \<Rightarrow> summaries
            | Some m \<Rightarrow> filter (\<lambda>s. case su_distanceKm s of None \<Rightarrow> False | Some d \<Rightarrow> d \<le> m) summaries)
      in if rq_sortBy q = BY_DISTANCE
         then (let near = sort_key (\<lambda>s. nullsLast (su_distanceKm s)) summaries
               in if rq_descending q then rev near else near)
         else summaries)"

definition findAllRestaurants ::
  "openCheck \<Rightarrow> int \<Rightarrow> restaurantQuery \<Rightarrow> 'z catalog_scheme \<Rightarrow> summaryPage result" where
  "findAllRestaurants openNow now q c =
     (if needsDistance q \<and> (rq_latitude q = None \<or> rq_longitude q = None)
      then Inl (BadRequest ''latitude and longitude are required'')
      else if isTrue (rq_openNow q) \<or> needsDistance q
      then
        (let summaries = inMemory openNow now q c; (skip, tk) = getPagination (rq_page q) (rq_limit q)
         in Inr \<lparr>sp_items = skipTake skip tk summaries, sp_total = length summaries, sp_page = rq_page q,
                 sp_limit = rq_limit q, sp_totalPages = totalPages (length summaries) (rq_limit q)\<rparr>)
      else
        (let rows = filter (listedWhere now q c) (cg_restaurants c);
             (skip, tk) = getPagination (rq_page q) (rq_limit q);
             items = skipTake skip tk (orderRestaurants (rq_sortBy q) (rq_descending q) rows)
         in Inr \<lparr>sp_items = map (toRestaurantSummary openNow None c) items, sp_total = length rows,
                 sp_page = rq_page q, sp_limit = rq_limit q,
                 sp_totalPages = totalPages (length rows) (rq_limit q)\<rparr>))"

section \<open>Featured, popular, nearby, recommended\<close>

definition findFeatured :: "openCheck \<Rightarrow> nat \<Rightarrow> 'z catalog_scheme \<Rightarrow> restaurantSummary list" where
  "findFeatured openNow limit c =
     map (toRestaurantSummary openNow None c)
       (take limit (sortDir True rr_createdAt
          (filter (\<lambda>r. liveRestaurant r \<and> rr_featured r) (cg_restaurants c))))"

text \<open>The restaurants of the orders created since \<open>since\<close> with their number of orders; \<^verbatim>\<open>createdAt\<close> and
  \<^verbatim>\<open>placedAt\<close> are both the time of insertion.\<close>

definition orderCounts :: "int \<Rightarrow> 'z catalog_scheme \<Rightarrow> (string \<times> nat) list" where
  "orderCounts since c =
     (let recent = filter (\<lambda>ord. since \<le> o_placedAt ord) (w_orders (cg_base c))
      in map (\<lambda>rid. (rid, matches (\<lambda>ord. o_restaurantId ord = rid) recent)) (remdups (map o_restaurantId recent)))"

definition findPopular :: "openCheck \<Rightarrow> int \<Rightarrow> nat \<Rightarrow> 'z catalog_scheme \<Rightarrow> restaurantSummary list" where
  "findPopular openNow now limit c =
     (let grouped = take limit (sortDir True snd (orderCounts (now - 30 * 24 * 60 * 60 * 1000) c));
          live = filter liveRestaurant (cg_restaurants c)
      in map (toRestaurantSummary openNow None c)
           (List.map_filter (\<lambda>g. lookup rr_id (fst g) live) grouped))"

definition inBox :: "real \<Rightarrow> real \<Rightarrow> real \<Rightarrow> branchRow \<Rightarrow> bool" where
  "inBox latitude longitude radiusKm b =
     (let latDelta = radiusKm / 111; lngDelta = radiusKm / (111 * cos (latitude * pi / 180))
      in case (b_latitude b, b_longitude b) of
           (Some lat, Some lng) \<Rightarrow>
             latitude - latDelta \<le> of_rat lat \<and> of_rat lat \<le> latitude + latDelta \<and>
             longitude - lngDelta \<le> of_rat lng \<and> of_rat lng \<le> longitude + lngDelta
         | _ \<Rightarrow> False)"

definition findNearby ::
  "openCheck \<Rightarrow> real \<Rightarrow> real \<Rightarrow> nat \<Rightarrow> real \<Rightarrow> 'z catalog_scheme \<Rightarrow> restaurantSummary list" where
  "findNearby openNow latitude longitude limit radiusKm c =
     (let candidates = filter (\<lambda>r. liveRestaurant r \<and>
            list_ex (inBox latitude longitude radiusKm) (branchesOf (rr_id r) c)) (cg_restaurants c);
          summaries = map (toRestaurantSummary openNow (Some (latitude, longitude)) c) candidates;
          inRange = filter (\<lambda>s. case su_distanceKm s of None \<Rightarrow> False | Some d \<Rightarrow> d \<le> radiusKm) summaries
      in take limit (sort_key (\<lambda>s. case su_distanceKm s of None \<Rightarrow> 0 | Some d \<Rightarrow> d) inRange))"

definition findRecommended ::
  "openCheck \<Rightarrow> real \<Rightarrow> real \<Rightarrow> nat \<Rightarrow> 'z catalog_scheme \<Rightarrow> restaurantSummary list" where
  "findRecommended openNow latitude longitude limit c =
     take limit (filter (\<lambda>s. su_avgRating s \<ge> 4 \<and> su_ratingCount s > 0 \<and> su_isOpenNow s)
       (findNearby openNow latitude longitude 50 10 c))"

end
