(* ===== verification/GeoBox.thy ===== *)
theory GeoBox
  imports Geo
begin

text \<open>
  The bounding box of \<^verbatim>\<open>RestaurantsService.findNearby\<close> is wide enough: 111 kilometres per degree
  understates a degree of latitude on a sphere of radius 6371, and at latitudes up to 60 degrees
  and radii up to 100 kilometres the slack also covers the bulge of the circle in longitude.
\<close>

section \<open>The central angle\<close>

lemma cos_twice_atan2:
  assumes "0 \<le> s" "0 \<le> c" "s\<^sup>2 + c\<^sup>2 = 1"
  shows "cos (2 * atan2 s c) = 1 - 2 * s\<^sup>2"
proof (cases "c = 0")
  case True
  then have "s = 1" using assms by (metis add.right_neutral power2_eq_1_iff zero_power2 not_one_le_zero
      neg_0_le_iff_le zero_less_one_class.zero_le_one add_0 order_trans le_minus_iff)
  then show ?thesis using True by (simp add: atan2_def)
next
  case False
  then have c: "c > 0" using assms by simp
  have "1 + (s / c)\<^sup>2 = 1 / c\<^sup>2" using assms c by (simp add: field_simps power2_eq_square)
  then have "(cos (arctan (s / c)))\<^sup>2 = c\<^sup>2" by (simp add: cos_arctan power_divide)
  then have "cos (2 * arctan (s / c)) = 2 * c\<^sup>2 - 1" by (simp add: cos_double_cos)
  then show ?thesis using c assms by (simp add: atan2_def)
qed

definition centralAngle :: "real \<Rightarrow> real \<Rightarrow> real \<Rightarrow> real \<Rightarrow> real" where
  "centralAngle lat1 lng1 lat2 lng2 = haversineDistanceKm lat1 lng1 lat2 lng2 / EARTH_RADIUS_KM"

lemma cos_centralAngle:
  "cos (centralAngle lat1 lng1 lat2 lng2) =
     sin (toRadians lat1) * sin (toRadians lat2) +
     cos (toRadians lat1) * cos (toRadians lat2) * cos (toRadians (lng2 - lng1))"
proof -
  let ?a = "haversineTerm lat1 lng1 lat2 lng2"
  have a: "0 \<le> ?a" "?a \<le> 1" using haversineTerm_unit[of lat1 lng1 lat2 lng2] by auto
  have "centralAngle lat1 lng1 lat2 lng2 = 2 * atan2 (sqrt ?a) (sqrt (1 - ?a))"
    by (simp add: centralAngle_def haversineDistanceKm_def EARTH_RADIUS_KM_def Let_def)
  then have "cos (centralAngle lat1 lng1 lat2 lng2) = 1 - 2 * ?a"
    using cos_twice_atan2[of "sqrt ?a" "sqrt (1 - ?a)"] a by simp
  then show ?thesis by (simp only: haversineTerm_cos)
qed

lemma centralAngle_range: "0 \<le> centralAngle a b c d \<and> centralAngle a b c d \<le> pi"
  using haversine_bounds[of a b c d] by (simp add: centralAngle_def EARTH_RADIUS_KM_def)

lemma within_cos:
  assumes "haversineDistanceKm lat1 lng1 lat2 lng2 \<le> r" "r \<le> 100"
  shows "cos (r / EARTH_RADIUS_KM) \<le> cos (centralAngle lat1 lng1 lat2 lng2)"
proof (rule cos_monotone_0_pi_le)
  show "centralAngle lat1 lng1 lat2 lng2 \<le> r / EARTH_RADIUS_KM"
    using assms by (simp add: centralAngle_def EARTH_RADIUS_KM_def divide_right_mono)
  show "r / EARTH_RADIUS_KM \<le> pi" using assms pi_ge_two by (simp add: EARTH_RADIUS_KM_def)
qed (use centralAngle_range in auto)

section \<open>Numeric bounds\<close>

lemma sin_coeffs: "sin_coeff 0 = 0" "sin_coeff (Suc 0) = 1" "sin_coeff 2 = 0" "sin_coeff 3 = - 1 / 6" "sin_coeff 4 = 0"
  by (simp_all add: sin_coeff_def fact_numeral)

lemma sin_cubic: "0 \<le> x \<Longrightarrow> x - x ^ 3 / 6 \<le> sin (x :: real)"
proof -
  assume x: "0 \<le> x"
  have "\<bar>sin x - (\<Sum>m<3. sin_coeff m * x ^ m)\<bar> \<le> inverse (fact 3) * \<bar>x\<bar> ^ 3"
    by (rule Maclaurin_sin_bound)
  moreover have "(\<Sum>m<3. sin_coeff m * x ^ m) = x"
    by (simp add: lessThan_nat_numeral lessThan_Suc sin_coeffs)
  ultimately have "\<bar>sin x - x\<bar> \<le> x ^ 3 / 6" using x by (simp add: fact_numeral)
  then show ?thesis by linarith
qed

lemma pi_lower: "3.1413 \<le> pi"
proof (rule ccontr)
  assume "\<not> 3.1413 \<le> pi"
  then have small: "pi / 6 \<le> (0.52355 :: real)" by simp
  let ?x = "0.52355 :: real"
  have "\<bar>sin ?x - (\<Sum>m<5. sin_coeff m * ?x ^ m)\<bar> \<le> inverse (fact 5) * \<bar>?x\<bar> ^ 5"
    by (rule Maclaurin_sin_bound)
  moreover have "(\<Sum>m<5. sin_coeff m * ?x ^ m) = ?x - ?x ^ 3 / 6"
    by (simp add: lessThan_nat_numeral lessThan_Suc sin_coeffs)
  ultimately have "\<bar>sin ?x - (?x - ?x ^ 3 / 6)\<bar> \<le> ?x ^ 5 / 120" by (simp add: fact_numeral)
  then have "sin ?x \<le> ?x - ?x ^ 3 / 6 + ?x ^ 5 / 120" by linarith
  also have "\<dots> < 1 / 2" by (simp add: eval_nat_numeral)
  finally have "sin ?x < sin (pi / 6)" by (simp add: sin_30)
  moreover have "sin (pi / 6) \<le> sin ?x"
    by (rule sin_monotone_2pi_le) (use small pi_ge_two in auto)
  ultimately show False by simp
qed

section \<open>Latitude\<close>

lemma toRadians_scale: "toRadians x = x * (pi / 180)"
  by (simp add: toRadians_def)

lemma toRadians_abs: "\<bar>toRadians x\<bar> = toRadians \<bar>x\<bar>"
  by (simp add: toRadians_scale abs_mult)

lemma toRadians_mono: "x \<le> y \<Longrightarrow> toRadians x \<le> toRadians y"
  by (simp add: toRadians_scale)

lemma cos_lat_nonneg: "\<bar>lat\<bar> \<le> 90 \<Longrightarrow> 0 \<le> cos (toRadians lat)"
proof -
  assume "\<bar>lat\<bar> \<le> 90"
  then have "toRadians \<bar>lat\<bar> \<le> pi / 2" using toRadians_mono[of "\<bar>lat\<bar>" 90] by (simp add: toRadians_def)
  then have "\<bar>toRadians lat\<bar> \<le> pi / 2" by (simp only: toRadians_abs)
  then show ?thesis by (intro cos_ge_zero) linarith+
qed

lemma cos_lat_half: "\<bar>lat\<bar> \<le> 60 \<Longrightarrow> 1 / 2 \<le> cos (toRadians lat)"
proof -
  assume "\<bar>lat\<bar> \<le> 60"
  then have "\<bar>toRadians lat\<bar> \<le> pi / 3" using toRadians_mono[of "\<bar>lat\<bar>" 60] toRadians_abs[of lat] by (simp add: toRadians_def)
  then have "cos (pi / 3) \<le> cos \<bar>toRadians lat\<bar>" by (intro cos_monotone_0_pi_le) auto
  then show ?thesis by (simp add: cos_60)
qed

text \<open>An angle whose cosine is at least that of \<open>r / R\<close>, in degrees.\<close>

lemma degrees_of_cos:
  assumes "0 \<le> r" "r \<le> 100" "\<bar>x\<bar> \<le> 180" "cos (r / EARTH_RADIUS_KM) \<le> cos (toRadians x)"
  shows "\<bar>x\<bar> \<le> r / 111"
proof -
  have "toRadians \<bar>x\<bar> \<le> r / EARTH_RADIUS_KM"
  proof (rule ccontr)
    assume "\<not> toRadians \<bar>x\<bar> \<le> r / EARTH_RADIUS_KM"
    then have "cos (toRadians \<bar>x\<bar>) < cos (r / EARTH_RADIUS_KM)"
      by (intro cos_monotone_0_pi) (use assms in \<open>auto simp: toRadians_scale EARTH_RADIUS_KM_def\<close>)
    moreover have "cos (toRadians \<bar>x\<bar>) = cos (toRadians x)"
      by (cases "0 \<le> x") (simp_all add: toRadians_scale)
    ultimately show False using assms by simp
  qed
  then have "\<bar>x\<bar> * pi * 6371 \<le> r * 180" by (simp add: toRadians_scale EARTH_RADIUS_KM_def field_simps)
  moreover have "\<bar>x\<bar> * 111 * 180 \<le> \<bar>x\<bar> * pi * 6371"
    using pi_lower mult_left_mono[of "111 * 180" "pi * 6371" "\<bar>x\<bar>"] by (simp add: mult.assoc)
  ultimately show ?thesis by simp
qed

lemma box_latitude:
  assumes "0 \<le> r" "r \<le> 100" "\<bar>lat1\<bar> \<le> 90" "\<bar>lat2\<bar> \<le> 90"
    "haversineDistanceKm lat1 lng1 lat2 lng2 \<le> r"
  shows "\<bar>lat2 - lat1\<bar> \<le> r / 111"
proof (rule degrees_of_cos)
  let ?c = "cos (toRadians lat1) * cos (toRadians lat2)"
  have "?c * cos (toRadians (lng2 - lng1)) \<le> ?c"
    using mult_left_mono[of "cos (toRadians (lng2 - lng1))" 1 ?c] cos_lat_nonneg assms by simp
  then have "cos (centralAngle lat1 lng1 lat2 lng2) \<le> cos (toRadians (lat2 - lat1))"
    by (simp add: cos_centralAngle toRadians_diff cos_diff mult.commute)
  then show "cos (r / EARTH_RADIUS_KM) \<le> cos (toRadians (lat2 - lat1))"
    using within_cos[OF assms(5,2)] by simp
qed (use assms in \<open>auto simp: abs_le_iff\<close>)

section \<open>Longitude\<close>

text \<open>Two longitudes further apart than \<open>T\<close> degrees, the short way round, have a smaller cosine.\<close>

lemma cos_far:
  assumes "0 \<le> T" "T \<le> 180" "T < \<bar>x\<bar>" "\<bar>x\<bar> \<le> 360 - T"
  shows "cos (toRadians x) \<le> cos (toRadians T)"
proof -
  have x: "cos (toRadians x) = cos (toRadians \<bar>x\<bar>)" by (cases "0 \<le> x") (simp_all add: toRadians_scale)
  show ?thesis
  proof (cases "\<bar>x\<bar> \<le> 180")
    case True
    then show ?thesis unfolding x
      by (intro cos_monotone_0_pi_le) (use assms in \<open>auto simp: toRadians_scale\<close>)
  next
    case False
    have "cos (toRadians \<bar>x\<bar>) = cos (toRadians (360 - \<bar>x\<bar>))"
      using cos_periodic_pi2 by (simp add: toRadians_def diff_divide_distrib left_diff_distrib cos_diff)
    also have "\<dots> \<le> cos (toRadians T)"
      by (intro cos_monotone_0_pi_le) (use assms False in \<open>auto simp: toRadians_scale\<close>)
    finally show ?thesis using x by simp
  qed
qed

text \<open>Cauchy--Schwarz in the plane.\<close>

lemma cauchy_plane: "(a * c + b * d)\<^sup>2 \<le> (a\<^sup>2 + b\<^sup>2) * (c\<^sup>2 + d\<^sup>2)" for a :: real
proof -
  have "(a\<^sup>2 + b\<^sup>2) * (c\<^sup>2 + d\<^sup>2) = (a * c + b * d)\<^sup>2 + (a * d - b * c)\<^sup>2"
    by (simp add: power2_eq_square algebra_simps)
  then show ?thesis by simp
qed

lemma sin_radius_bound:
  fixes p q y t \<delta> :: real
  assumes C: "cos \<delta> \<le> sin p * sin q + cos p * cos q * cos y" "cos y \<le> cos t"
    and nn: "0 \<le> cos p" "0 \<le> cos q" "0 \<le> cos \<delta>" "0 \<le> sin \<delta>"
  shows "cos p * sin t \<le> sin \<delta>"
proof -
  have "cos p * cos q * cos y \<le> cos p * cos q * cos t"
    using mult_left_mono[OF C(2), of "cos p * cos q"] nn by simp
  then have "cos \<delta> \<le> sin p * sin q + (cos p * cos t) * cos q"
    using C(1) by (simp add: mult.commute mult.left_commute)
  then have "(cos \<delta>)\<^sup>2 \<le> (sin p * sin q + (cos p * cos t) * cos q)\<^sup>2"
    using nn(3) by (intro power_mono)
  also have "\<dots> \<le> ((sin p)\<^sup>2 + (cos p * cos t)\<^sup>2) * ((sin q)\<^sup>2 + (cos q)\<^sup>2)"
    by (rule cauchy_plane)
  also have "\<dots> = (sin p)\<^sup>2 + (cos p)\<^sup>2 * (cos t)\<^sup>2" by (simp add: power_mult_distrib)
  also have "\<dots> = 1 - (cos p * sin t)\<^sup>2"
    by (simp add: power_mult_distrib sin_squared_eq[of p] cos_squared_eq[of t] right_diff_distrib)
  finally have "(cos p * sin t)\<^sup>2 \<le> (sin \<delta>)\<^sup>2" by (simp only: sin_squared_eq[of \<delta>])
  then show ?thesis using nn(4) by (rule power2_le_imp_le)
qed

lemma box_longitude:
  assumes "0 < r" "r \<le> 100" "\<bar>lat1\<bar> \<le> 60" "\<bar>lat2\<bar> \<le> 90" "\<bar>lng1\<bar> \<le> 178" "\<bar>lng2\<bar> \<le> 180"
    "haversineDistanceKm lat1 lng1 lat2 lng2 \<le> r"
  shows "\<bar>lng2 - lng1\<bar> \<le> r / (111 * cos (toRadians lat1))"
proof (rule ccontr)
  let ?c = "cos (toRadians lat1)" and ?\<delta> = "r / EARTH_RADIUS_KM"
  let ?T = "r / (111 * ?c)" and ?t = "toRadians (r / (111 * ?c))"
  assume far: "\<not> \<bar>lng2 - lng1\<bar> \<le> ?T"
  have c: "1 / 2 \<le> ?c" using cos_lat_half assms(3) by simp
  have T: "0 < ?T" "?T \<le> 2"
    using assms(1,2) c by (auto simp: field_simps)
  have "0 < ?T * (pi / 180)" using T(1) by (intro mult_pos_pos) simp_all
  moreover have "toRadians 2 \<le> 45 / 1000" using pi_less_4 by (simp add: toRadians_scale)
  ultimately have t: "0 < ?t" "?t \<le> 45 / 1000"
    using toRadians_mono[OF T(2)] by (simp_all only: toRadians_scale order_trans)
  have near: "cos (toRadians (lng2 - lng1)) \<le> cos ?t"
    using cos_far[of ?T "lng2 - lng1"] far T assms(5,6) by (simp add: abs_le_iff)
  have small: "0 \<le> ?\<delta>" "?\<delta> \<le> 1" using assms(1,2) by (simp_all add: EARTH_RADIUS_KM_def)
  have "?c * sin ?t \<le> sin ?\<delta>"
  proof (rule sin_radius_bound[where q = "toRadians lat2" and y = "toRadians (lng2 - lng1)"])
    show "cos ?\<delta> \<le> sin (toRadians lat1) * sin (toRadians lat2) +
        cos (toRadians lat1) * cos (toRadians lat2) * cos (toRadians (lng2 - lng1))"
      using within_cos[OF assms(7,2)] by (simp only: cos_centralAngle)
    show "0 \<le> sin ?\<delta>" using small pi_ge_two by (intro sin_ge_zero) linarith+
    show "0 \<le> cos ?\<delta>" using small pi_ge_two by (intro cos_ge_zero) linarith+
  qed (use near c cos_lat_nonneg assms(4) in auto)
  also have "\<dots> \<le> ?\<delta>" using small sin_x_le_x by blast
  finally have up: "?c * sin ?t \<le> ?\<delta>" .
  have ct: "?c * ?t = r / 111 * (pi / 180)" using c by (simp add: toRadians_scale field_simps)
  have "?t ^ 3 / 6 \<le> ?t * (4 / 10000)"
  proof -
    have "?t * ?t \<le> 45 / 1000 * (45 / 1000)" using t by (intro mult_mono) auto
    then have "?t * (?t * ?t) \<le> ?t * (24 / 10000)" using t by (intro mult_left_mono) auto
    then show ?thesis by (simp add: power3_eq_cube)
  qed
  then have "?t * (1 - 4 / 10000) \<le> sin ?t" using sin_cubic[of ?t] t by (simp add: algebra_simps)
  then have "?c * (?t * (1 - 4 / 10000)) \<le> ?c * sin ?t" using c by (intro mult_left_mono) auto
  then have "r / 111 * (pi / 180) * (1 - 4 / 10000) \<le> r / 6371"
    using up ct by (simp add: EARTH_RADIUS_KM_def mult.assoc[symmetric])
  then have "r * (pi * (9996 * 6371)) \<le> r * (10000 * 111 * 180)" by (simp add: field_simps)
  then have "pi * (9996 * 6371) \<le> 10000 * 111 * 180" using assms(1) by simp
  then show False using pi_lower by simp
qed

end
