(* ===== verification/DiscoverySafety.thy ===== *)
theory DiscoverySafety
  imports Discovery GeoBox
begin

text \<open>
  What the public queries guarantee: they show live restaurants only, their pages partition the
  result, the nearby search finds what a search without its bounding box would find; and where
  they fall short: the in-memory listing forgets matches beyond its candidate limit, and the
  rounded timing means stop moving.
\<close>

section \<open>Order and membership\<close>

lemma set_sortDir [simp]: "set (sortDir desc key rows) = set rows"
  by (simp add: sortDir_def)

lemma length_sortDir [simp]: "length (sortDir desc key rows) = length rows"
  by (simp add: sortDir_def)

lemma distinct_sortDir [simp]: "distinct (sortDir desc key rows) = distinct rows"
  by (simp add: sortDir_def)

lemma set_orderRestaurants [simp]: "set (orderRestaurants sb desc rows) = set rows"
  by (simp add: orderRestaurants_def split: restaurantSortBy.split)

lemma length_orderRestaurants [simp]: "length (orderRestaurants sb desc rows) = length rows"
  by (simp add: orderRestaurants_def split: restaurantSortBy.split)

lemma sortDir_desc_sorted: "sorted (rev (map key (sortDir True key rows)))"
  by (simp add: sortDir_def rev_map)

lemma su_id_summary [simp]: "su_id (toRestaurantSummary openNow origin c r) = rr_id r"
  by (simp add: toRestaurantSummary_def Let_def)

lemma set_skipTake: "set (skipTake s n xs) \<subseteq> set xs"
  by (auto simp: skipTake_def dest: in_set_takeD in_set_dropD)

section \<open>Only live restaurants\<close>

datatype publicQuery =
    Listing restaurantQuery
  | Featured nat
  | Popular nat
  | Nearby real real nat real
  | Recommended real real nat

fun answer :: "openCheck \<Rightarrow> int \<Rightarrow> publicQuery \<Rightarrow> 'z catalog_scheme \<Rightarrow> restaurantSummary list" where
  "answer openNow now (Listing q) c =
     (case findAllRestaurants openNow now q c of Inl _ \<Rightarrow> [] | Inr p \<Rightarrow> sp_items p)"
| "answer openNow now (Featured n) c = findFeatured openNow n c"
| "answer openNow now (Popular n) c = findPopular openNow now n c"
| "answer openNow now (Nearby lat lng n r) c = findNearby openNow lat lng n r c"
| "answer openNow now (Recommended lat lng n) c = findRecommended openNow lat lng n c"

definition fromLive :: "'z catalog_scheme \<Rightarrow> restaurantSummary \<Rightarrow> bool" where
  "fromLive c s \<longleftrightarrow> (\<exists>r \<in> set (cg_restaurants c). liveRestaurant r \<and> rr_id r = su_id s)"

lemma fromLive_summary:
  "r \<in> set (cg_restaurants c) \<Longrightarrow> liveRestaurant r \<Longrightarrow> fromLive c (toRestaurantSummary openNow origin c r)"
  by (auto simp: fromLive_def)

lemma listedWhere_live: "listedWhere now q c r \<Longrightarrow> liveRestaurant r"
  by (simp add: listedWhere_def)

lemma inMemory_live: "s \<in> set (inMemory openNow now q c) \<Longrightarrow> fromLive c s"
  by (auto simp: inMemory_def Let_def intro!: fromLive_summary dest!: in_set_takeD listedWhere_live
      split: if_splits option.splits)

lemma findAll_live: "findAllRestaurants openNow now q c = Inr p \<Longrightarrow> s \<in> set (sp_items p) \<Longrightarrow> fromLive c s"
  by (auto simp: findAllRestaurants_def Let_def getPagination_def intro!: fromLive_summary
      dest!: subsetD[OF set_skipTake] listedWhere_live intro: inMemory_live split: if_splits)

lemma findNearby_live: "s \<in> set (findNearby openNow lat lng n r c) \<Longrightarrow> fromLive c s"
  by (auto simp: findNearby_def Let_def intro!: fromLive_summary dest!: in_set_takeD)

lemma set_mapFilter: "set (List.map_filter f xs) = {y. \<exists>x \<in> set xs. f x = Some y}"
  by (induction xs) (auto simp: map_filter_simps split: option.splits)

lemma findPopular_live: "s \<in> set (findPopular openNow now n c) \<Longrightarrow> fromLive c s"
  by (fastforce simp: findPopular_def Let_def set_mapFilter intro!: fromLive_summary dest!: lookup_mem)

text \<open>
  The public queries show live restaurants only.  Whatever a customer asks for (the listing
  with any filters, featured, popular, nearby, recommended), every restaurant in the answer is
  approved and active at that moment.
\<close>

theorem public_queries_only_live:
  "s \<in> set (answer openNow now q c) \<Longrightarrow> fromLive c s"
proof (cases q)
  case (Listing lq)
  assume "s \<in> set (answer openNow now q c)"
  then show ?thesis using Listing by (auto intro: findAll_live[OF sym] split: sum.splits)
next
  case (Featured n)
  assume "s \<in> set (answer openNow now q c)"
  then show ?thesis using Featured by (auto simp: findFeatured_def intro!: fromLive_summary dest!: in_set_takeD)
next
  case (Recommended lat lng n)
  assume "s \<in> set (answer openNow now q c)"
  then show ?thesis using Recommended by (auto simp: findRecommended_def intro: findNearby_live dest!: in_set_takeD)
qed (simp_all add: findPopular_live findNearby_live)

section \<open>Pages\<close>

text \<open>All rows a listing query ranges over, in its order.\<close>

definition listingOf :: "openCheck \<Rightarrow> int \<Rightarrow> restaurantQuery \<Rightarrow> 'z catalog_scheme \<Rightarrow> restaurantSummary list" where
  "listingOf openNow now q c =
     (if isTrue (rq_openNow q) \<or> needsDistance q then inMemory openNow now q c
      else map (toRestaurantSummary openNow None c)
             (orderRestaurants (rq_sortBy q) (rq_descending q) (filter (listedWhere now q c) (cg_restaurants c))))"

lemma getPagination_valid:
  "1 \<le> page \<Longrightarrow> limit \<le> 100 \<Longrightarrow> getPagination page limit = ((page - 1) * limit, limit)"
  by (simp add: getPagination_def Let_def)

lemma skipTake_map: "skipTake s n (map f xs) = map f (skipTake s n xs)"
  by (simp add: skipTake_def take_map drop_map)

lemma answer_page:
  assumes "1 \<le> rq_page q" "rq_limit q \<le> 100" "needsDistance q \<Longrightarrow> rq_latitude q \<noteq> None \<and> rq_longitude q \<noteq> None"
  shows "answer openNow now (Listing q) c = pageOf (rq_page q) (rq_limit q) (listingOf openNow now q c)"
  using assms by (auto simp: findAllRestaurants_def Let_def getPagination_valid pageOf_def listingOf_def skipTake_map)

lemma listingOf_page [simp]: "listingOf openNow now (q\<lparr>rq_page := p\<rparr>) c = listingOf openNow now q c"
  by (simp add: listingOf_def inMemory_def needsDistance_def originOf_def listedWhere_def Let_def
      cong: filter_cong option.case_cong)

text \<open>
  Pages partition a listing.  Reading a listing page by page, with any filters and order and a
  page size between 1 and 100, gives every row of the result exactly once and in order.
\<close>

theorem listing_pages_partition:
  assumes "1 \<le> rq_limit q" "rq_limit q \<le> 100"
    and "needsDistance q \<Longrightarrow> rq_latitude q \<noteq> None \<and> rq_longitude q \<noteq> None"
  shows "concat (map (\<lambda>p. answer openNow now (Listing (q\<lparr>rq_page := Suc p\<rparr>)) c)
           [0..<totalPages (length (listingOf openNow now q c)) (rq_limit q)]) = listingOf openNow now q c"
proof -
  have "answer openNow now (Listing (q\<lparr>rq_page := Suc p\<rparr>)) c =
      pageOf (Suc p) (rq_limit q) (listingOf openNow now q c)" for p
    using answer_page[of "q\<lparr>rq_page := Suc p\<rparr>" openNow now c] assms by (simp add: needsDistance_def)
  then show ?thesis using pages_partition[of "rq_limit q" "listingOf openNow now q c"] assms(1) by simp
qed

section \<open>Nearby\<close>

definition nearbyReference ::
  "openCheck \<Rightarrow> real \<Rightarrow> real \<Rightarrow> nat \<Rightarrow> real \<Rightarrow> 'z catalog_scheme \<Rightarrow> restaurantSummary list" where
  "nearbyReference openNow latitude longitude limit radiusKm c =
     take limit (sort_key (\<lambda>s. case su_distanceKm s of None \<Rightarrow> 0 | Some d \<Rightarrow> d)
       (filter (\<lambda>s. case su_distanceKm s of None \<Rightarrow> False | Some d \<Rightarrow> d \<le> radiusKm)
         (map (toRestaurantSummary openNow (Some (latitude, longitude)) c)
           (filter liveRestaurant (cg_restaurants c)))))"

definition validCoordinates :: "branchRow \<Rightarrow> bool" where
  "validCoordinates b \<longleftrightarrow>
     (case b_latitude b of None \<Rightarrow> True | Some x \<Rightarrow> \<bar>x\<bar> \<le> 90) \<and>
     (case b_longitude b of None \<Rightarrow> True | Some x \<Rightarrow> \<bar>x\<bar> \<le> 180)"

lemma abs_of_rat_le: "\<bar>x\<bar> \<le> of_nat n \<Longrightarrow> \<bar>of_rat x :: real\<bar> \<le> of_nat n"
proof -
  assume "\<bar>x\<bar> \<le> of_nat n"
  then have "(of_rat \<bar>x\<bar> :: real) \<le> of_rat (of_nat n)" by (simp only: of_rat_less_eq)
  then show ?thesis by simp
qed

lemma box_sound:
  assumes "0 < r" "r \<le> 100" "\<bar>lat\<bar> \<le> 60" "\<bar>lng\<bar> \<le> 178" "validCoordinates b" "distanceTo (lat, lng) b = Some d" "d \<le> r"
  shows "inBox lat lng r b"
proof -
  obtain y x where b: "b_latitude b = Some y" "b_longitude b = Some x"
    and d: "haversineDistanceKm lat lng (of_rat y) (of_rat x) = d"
    using assms(6) by (auto simp: distanceTo_def split: option.splits)
  have "\<bar>of_rat y :: real\<bar> \<le> 90" "\<bar>of_rat x :: real\<bar> \<le> 180"
    using assms(5) b abs_of_rat_le[of y 90] abs_of_rat_le[of x 180] by (simp_all add: validCoordinates_def)
  then have "\<bar>of_rat y - lat\<bar> \<le> r / 111" "\<bar>of_rat x - lng\<bar> \<le> r / (111 * cos (toRadians lat))"
    using box_latitude[of r lat "of_rat y" lng "of_rat x"] box_longitude[of r lat "of_rat y" lng "of_rat x"] assms d
    by simp_all
  then show ?thesis by (simp only: abs_diff_le_iff) (simp add: inBox_def b Let_def toRadians_def)
qed

text \<open>The box does not wrap: a branch at longitude -180 is the very place of a customer at 180 and
  outside his box.\<close>

lemma box_misses_antimeridian:
  assumes "b_latitude b = Some 0" "b_longitude b = Some (- 180)" "0 < r" "r \<le> 100"
  shows "distanceTo (0, 180) b = Some 0 \<and> \<not> inBox 0 180 r b"
proof -
  have "haversineTerm 0 180 0 (- 180) = 0"
    by (simp add: haversineTerm_def toRadians_def Let_def)
  then show ?thesis
    using assms by (simp add: distanceTo_def inBox_def haversineDistanceKm_def atan2_def Let_def of_rat_minus)
qed

lemma selectPrimary_mem: "selectPrimaryBranch bs = Some b \<Longrightarrow> b \<in> set bs"
  by (auto simp: selectPrimaryBranch_def dest: find_SomeD split: list.splits option.splits if_splits)

text \<open>
  C32. The bounding box of the nearby search loses nothing away from poles and antimeridian.  From a
  point at latitude at most 60 and longitude at most 178 degrees either way, for radii up to 100
  kilometres and when every stored branch has coordinates on the globe, the search through the box
  returns exactly what measuring every live restaurant would return, in the same order.  (Nearer
  to the antimeridian it does not: see \<open>box_misses_antimeridian\<close>.)
\<close>

theorem nearby_box_exact:
  assumes "0 < radiusKm" "radiusKm \<le> 100" "\<bar>latitude\<bar> \<le> 60" "\<bar>longitude\<bar> \<le> 178"
    and valid: "\<forall>b \<in> set (cg_branches c). validCoordinates b"
  shows "findNearby openNow latitude longitude limit radiusKm c =
    nearbyReference openNow latitude longitude limit radiusKm c"
proof -
  let ?f = "toRestaurantSummary openNow (Some (latitude, longitude)) c"
  let ?near = "\<lambda>s. case su_distanceKm s of None \<Rightarrow> False | Some d \<Rightarrow> d \<le> radiusKm"
  let ?box = "\<lambda>r. list_ex (inBox latitude longitude radiusKm) (branchesOf (rr_id r) c)"
  have "?box r" if "?near (?f r)" for r
  proof -
    from that obtain b d where b: "selectPrimaryBranch (branchesOf (rr_id r) c) = Some b"
      "distanceTo (latitude, longitude) b = Some d" "d \<le> radiusKm"
      by (auto simp: toRestaurantSummary_def Let_def split: option.splits)
    then have "b \<in> set (branchesOf (rr_id r) c)" using selectPrimary_mem by blast
    then show ?thesis
      using box_sound[OF assms(1-4) _ b(2,3)] valid by (auto simp: list_ex_iff branchesOf_def)
  qed
  then have "filter ?near (map ?f (filter (\<lambda>r. liveRestaurant r \<and> ?box r) rs)) =
      filter ?near (map ?f (filter liveRestaurant rs))" for rs
    by (induction rs) auto
  then show ?thesis by (simp add: findNearby_def nearbyReference_def Let_def)
qed

section \<open>The candidate limit\<close>

lemma take_sorted_desc:
  assumes "sorted (rev (map key xs))" "r \<in> set (take n xs)" "distinct xs"
  shows "length (filter (\<lambda>x. key r < key x) xs) < n"
proof -
  obtain i where i: "i < length xs" "i < n" "xs ! i = r" using assms(2) by (auto simp: in_set_conv_nth)
  have "\<not> key r < key x" if "x \<in> set (drop i xs)" for x
  proof -
    from that obtain j where j: "i \<le> j" "j < length xs" "x = xs ! j"
      by (auto simp: in_set_conv_nth) (metis le_add1 less_diff_conv add.commute)
    then have "key (xs ! j) \<le> key (xs ! i)"
      using assms(1) by (simp add: sorted_rev_iff_nth_mono)
    then show ?thesis using i j by simp
  qed
  then have "filter (\<lambda>x. key r < key x) (drop i xs) = []" by (simp add: filter_empty_conv)
  then have "filter (\<lambda>x. key r < key x) xs = filter (\<lambda>x. key r < key x) (take i xs)"
    using filter_append[of "\<lambda>x. key r < key x" "take i xs" "drop i xs"] by simp
  then show ?thesis using i length_filter_le[of "\<lambda>x. key r < key x" "take i xs"] by simp
qed

lemma filter_length_set:
  "distinct xs \<Longrightarrow> distinct ys \<Longrightarrow> set xs = set ys \<Longrightarrow> length (filter p xs) = length (filter p ys)"
  by (metis distinct_card distinct_filter set_filter)

text \<open>
  Sorting by distance forgets restaurants.  The in-memory listing looks at the 500 most recently
  created matches only: a matching restaurant with 500 newer ones is on no page of a listing
  sorted by distance, however near it is.
\<close>

theorem distance_listing_forgets:
  assumes "keyed rr_id (cg_restaurants c)" and "rq_sortBy q = BY_DISTANCE"
    and "r \<in> set (cg_restaurants c)"
    and "CANDIDATE_LIMIT \<le>
      length (filter (\<lambda>x. rr_createdAt r < rr_createdAt x) (filter (listedWhere now q c) (cg_restaurants c)))"
  shows "rr_id r \<notin> su_id ` set (answer openNow now (Listing q) c)"
proof
  let ?rows = "filter (listedWhere now q c) (cg_restaurants c)"
  let ?sorted = "sortDir True rr_createdAt ?rows"
  assume "rr_id r \<in> su_id ` set (answer openNow now (Listing q) c)"
  then have "rr_id r \<in> su_id ` set (inMemory openNow now q c)"
    using assms(2) by (auto simp: findAllRestaurants_def needsDistance_def Let_def getPagination_def
        dest!: subsetD[OF set_skipTake] split: if_splits)
  then obtain r' where r': "r' \<in> set (take CANDIDATE_LIMIT ?sorted)" "rr_id r' = rr_id r"
    using assms(2) by (auto simp: inMemory_def Let_def orderRestaurants_def split: if_splits option.splits)
  then have "r' \<in> set (cg_restaurants c)" by (auto dest!: in_set_takeD)
  then have "r' = r" using keyed_same[OF assms(1)] r'(2) assms(3) by blast
  moreover have "distinct ?rows" using assms(1) by (simp add: keyed_def distinct_map)
  ultimately have "length (filter (\<lambda>x. rr_createdAt r < rr_createdAt x) ?sorted) < CANDIDATE_LIMIT"
    using take_sorted_desc[OF sortDir_desc_sorted] r'(1) by (metis distinct_sortDir)
  then show False
    using assms(4) filter_length_set[of ?sorted ?rows] \<open>distinct ?rows\<close> by simp
qed

section \<open>Timing\<close>

lemma nextMean_between:
  assumes "0 < n"
  shows "min (of_int a) (of_int v) \<le> nextMean (Some a) v n \<and> nextMean (Some a) v n \<le> max (of_int a) (of_int v)"
proof -
  let ?d = "of_int v - of_int a :: rat"
  have "\<bar>?d / of_nat n\<bar> \<le> \<bar>?d\<bar>"
    using assms by (simp add: abs_divide divide_le_eq mult_le_cancel_left1)
  moreover have "0 \<le> ?d / of_nat n \<longleftrightarrow> 0 \<le> ?d" using assms by (simp add: zero_le_divide_iff)
  ultimately show ?thesis by (simp add: nextMean_def) linarith
qed

lemma mathRound_near:
  assumes "- (1 / 2) \<le> e" "e < 1 / 2"
  shows "mathRound (of_int a + e) = a"
proof -
  have "\<lfloor>of_int a + e + 1 / 2\<rfloor> = a" using assms by (intro floor_unique) simp_all
  then show ?thesis by (simp add: mathRound_def)
qed

text \<open>The stored means stay between the old mean and the new value.\<close>

lemma rounded_mean_between:
  assumes "0 < n"
  shows "min a v \<le> mathRound (nextMean (Some a) v n) \<and> mathRound (nextMean (Some a) v n) \<le> max a v"
proof -
  have "mathRound (of_int (min a v)) \<le> mathRound (nextMean (Some a) v n)"
    "mathRound (nextMean (Some a) v n) \<le> mathRound (of_int (max a v))"
    using nextMean_between[OF assms, of a v] by (auto intro!: mathRound_mono simp: of_int_min of_int_max)
  then show ?thesis by simp
qed

lemma nextMean_frozen:
  assumes "2 * \<bar>v - a\<bar> < int n"
  shows "mathRound (nextMean (Some a) v n) = a"
proof -
  let ?e = "of_int (v - a) / of_nat n :: rat"
  have n: "(0 :: rat) < of_nat n" using assms by (cases n) simp_all
  have "of_int (2 * \<bar>v - a\<bar>) < (of_int (int n) :: rat)" using assms by (simp only: of_int_less_iff)
  then have "2 * \<bar>of_int (v - a) :: rat\<bar> < of_nat n" by simp
  then have "\<bar>?e\<bar> < 1 / 2" using n by (simp add: abs_divide divide_less_eq)
  then have "- (1 / 2) \<le> ?e" "?e < 1 / 2" by (simp_all only: abs_less_iff) linarith+
  from mathRound_near[OF this, of a] show ?thesis by (simp add: nextMean_def)
qed

lemma recordOrderTiming_row:
  assumes "findRestaurantRow rid c = Some r"
  shows "findRestaurantRow rid (recordOrderTiming id rid prep v c) =
    Some (r\<lparr>rr_deliveredOrderCount := rr_deliveredOrderCount r + 1,
            rr_avgDeliveryTimeMinutes := Some (mathRound (nextMean (rr_avgDeliveryTimeMinutes r) v (rr_deliveredOrderCount r + 1))),
            rr_avgPreparationTimeMinutes := (case prep of None \<Rightarrow> rr_avgPreparationTimeMinutes r
               | Some m \<Rightarrow> Some (mathRound (nextMean (rr_avgPreparationTimeMinutes r) m (rr_deliveredOrderCount r + 1))))\<rparr>)"
  using assms lookup_SomeD[of rr_id rid "cg_restaurants c" r]
  by (cases prep) (simp_all add: recordOrderTiming_def updateRestaurantRow_def findRestaurantRow_def Let_def lookup_modify)

text \<open>
  The delivery-time average freezes.  The running mean is stored rounded, so once a restaurant
  has delivered n orders no sequence of further deliveries, each within n/2 minutes of the
  stored mean, ever moves it.
\<close>

theorem timing_mean_frozen:
  assumes "findRestaurantRow rid c = Some r" and "rr_avgDeliveryTimeMinutes r = Some a"
    and "\<forall>v \<in> set vs. 2 * \<bar>v - a\<bar> \<le> int (rr_deliveredOrderCount r)"
  shows "map_option rr_avgDeliveryTimeMinutes
    (findRestaurantRow rid (foldl (\<lambda>c v. recordOrderTiming id rid None v c) c vs)) = Some (Some a)"
  using assms
proof (induction vs arbitrary: c r)
  case (Cons v vs)
  note row = recordOrderTiming_row[OF Cons.prems(1), of None v]
  have frozen: "mathRound (nextMean (Some a) v (rr_deliveredOrderCount r + 1)) = a"
    by (rule nextMean_frozen) (use Cons.prems(3) in simp)
  have later: "\<forall>v \<in> set vs. 2 * \<bar>v - a\<bar> \<le> int (rr_deliveredOrderCount r + 1)"
    using Cons.prems(3) by force
  show ?case unfolding foldl.simps
    by (rule Cons.IH[OF row]) (use frozen later Cons.prems(2) in simp_all)
qed simp

section \<open>The properties on a concrete catalogue\<close>

definition mgRoad :: branchRow where
  "mgRoad = \<lparr>b_id = ''b1'', b_restaurantId = ''r1'', b_isPrimary = True, b_isActive = True,
     b_latitude = Some 12, b_longitude = Some 77, b_timezone = None, b_operatingHours = [],
     br_name = ''MG Road'', br_addressLine1 = ''1'', br_addressLine2 = None, br_landmark = None,
     br_city = ''Bengaluru'', br_state = ''KA'', br_postalCode = ''560001'', br_deliveryRadiusKm = None, br_phone = None,
     br_emergencyContactName = None, br_emergencyContactPhone = None, br_createdAt = 0, br_deletedAt = None\<rparr>"

definition dosaHouse :: restaurantRow where
  "dosaHouse = (newRestaurant ''r1'' 0 ''o1'' \<lparr>cr_name = ''Dosa House'', cr_slug = ''dosa'', cr_description = None,
      cr_phone = None, cr_email = None\<rparr>)
     \<lparr>rr_status := REST_APPROVED, rr_featured := True, rr_avgDeliveryTimeMinutes := Some 30,
      rr_deliveredOrderCount := 100\<rparr>"

definition townCatalog :: "restaurantRow list \<Rightarrow> catalog" where
  "townCatalog rows = \<lparr>cg_base = emptyWorld, cg_restaurants = rows, cg_branches = [mgRoad], cg_staff = [],
     cg_offers = [], cg_reviews = [], cg_media = [], cg_owners = [], cg_published = [], cg_settings = []\<rparr>"

definition anyQuery :: restaurantQuery where
  "anyQuery = \<lparr>rq_page = 1, rq_limit = 20, rq_search = None, rq_city = None, rq_cuisine = None,
     rq_featured = None, rq_openNow = None, rq_veg = None, rq_vegan = None, rq_offers = None, rq_minRating = None,
     rq_maxDeliveryTimeMinutes = None, rq_maxDistanceKm = None, rq_latitude = Some 12, rq_longitude = Some 77,
     rq_sortBy = BY_DISTANCE, rq_descending = False\<rparr>"

lemmas town_defs = townCatalog_def dosaHouse_def mgRoad_def newRestaurant_def anyQuery_def

theorem public_queries_only_live_witness:
  "fromLive (townCatalog [dosaHouse]) (toRestaurantSummary (\<lambda>_ _. True) None (townCatalog [dosaHouse]) dosaHouse)"
  by (rule public_queries_only_live[where q = "Featured 1" and openNow = "\<lambda>_ _. True" and now = 0])
    (simp add: findFeatured_def sortDir_def liveRestaurant_def town_defs)

theorem listing_pages_partition_witness:
  "concat (map (\<lambda>p. answer (\<lambda>_ _. True) 0 (Listing (anyQuery\<lparr>rq_page := Suc p\<rparr>)) (townCatalog [dosaHouse]))
     [0..<totalPages (length (listingOf (\<lambda>_ _. True) 0 anyQuery (townCatalog [dosaHouse]))) (rq_limit anyQuery)])
   = listingOf (\<lambda>_ _. True) 0 anyQuery (townCatalog [dosaHouse])"
  by (rule listing_pages_partition) (simp_all add: anyQuery_def)

theorem nearby_box_exact_witness:
  "findNearby (\<lambda>_ _. True) 12 77 5 10 (townCatalog [dosaHouse]) =
   nearbyReference (\<lambda>_ _. True) 12 77 5 10 (townCatalog [dosaHouse])"
  by (rule nearby_box_exact) (simp_all add: town_defs validCoordinates_def)

definition numberedRow :: "nat \<Rightarrow> restaurantRow" where
  "numberedRow n = dosaHouse\<lparr>rr_id := replicate n CHR ''r'', rr_createdAt := int n\<rparr>"

definition manyRows :: "nat \<Rightarrow> restaurantRow list" where
  "manyRows n = map numberedRow [0..<Suc n]"

lemma numberedRow_simps [simp]: "rr_createdAt (numberedRow n) = int n" "rr_id (numberedRow n) = replicate n CHR ''r''"
  by (simp_all add: numberedRow_def)

lemma numberedRow_listed: "listedWhere 0 anyQuery c (numberedRow n)"
  by (simp add: listedWhere_def liveRestaurant_def anyQuery_def numberedRow_def dosaHouse_def newRestaurant_def isTrue_def)

lemma manyRows_newer:
  "length (filter (\<lambda>x. 0 < rr_createdAt x) (filter (listedWhere 0 anyQuery c) (manyRows n))) = n"
proof -
  have "filter (listedWhere 0 anyQuery c) (manyRows n) = manyRows n"
    by (rule filter_True) (auto simp: manyRows_def numberedRow_listed)
  moreover have "length (filter (\<lambda>x. 0 < rr_createdAt x) (manyRows n)) = n"
  proof (induction n)
    case (Suc n)
    have "manyRows (Suc n) = manyRows n @ [numberedRow (Suc n)]" by (simp add: manyRows_def)
    then show ?case using Suc by simp
  qed (simp add: manyRows_def)
  ultimately show ?thesis by simp
qed

theorem distance_listing_forgets_witness:
  "[] \<notin> su_id ` set (answer (\<lambda>_ _. True) 0 (Listing anyQuery) (townCatalog (manyRows CANDIDATE_LIMIT)))"
proof -
  let ?c = "townCatalog (manyRows CANDIDATE_LIMIT)"
  have rows: "cg_restaurants ?c = manyRows CANDIDATE_LIMIT" by (simp add: townCatalog_def)
  have "rr_id (numberedRow 0) \<notin> su_id ` set (answer (\<lambda>_ _. True) 0 (Listing anyQuery) ?c)"
  proof (rule distance_listing_forgets)
    show "keyed rr_id (cg_restaurants ?c)"
      unfolding rows by (auto simp: keyed_def manyRows_def distinct_map inj_on_def simp del: upt_Suc)
    show "numberedRow 0 \<in> set (cg_restaurants ?c)"
      unfolding rows by (simp add: manyRows_def del: upt_Suc)
    show "CANDIDATE_LIMIT \<le> length (filter (\<lambda>x. rr_createdAt (numberedRow 0) < rr_createdAt x)
        (filter (listedWhere 0 anyQuery ?c) (cg_restaurants ?c)))"
      unfolding rows by (simp only: numberedRow_simps of_nat_0 manyRows_newer order_refl)
  qed (simp add: anyQuery_def)
  then show ?thesis by simp
qed

text \<open>A mean of 30 minutes over 100 orders survives any number of 80-minute deliveries.\<close>

theorem timing_mean_frozen_witness:
  "map_option rr_avgDeliveryTimeMinutes (findRestaurantRow ''r1''
     (foldl (\<lambda>c v. recordOrderTiming id ''r1'' None v c) (townCatalog [dosaHouse]) (replicate 1000 80))) = Some (Some 30)"
  by (rule timing_mean_frozen[where r = dosaHouse]) (auto simp: findRestaurantRow_def town_defs)

end
