(* ===== verification/RestaurantAdmin.thy ===== *)
theory RestaurantAdmin
  imports Catalog Verification
begin

text \<open>
  The owner's side of a restaurant: branches, staff, order settings, bank account, tax profile,
  documents, media gallery, and the compliance snapshot built from them
  (\<^verbatim>\<open>modules/restaurants/services\<close> and \<^verbatim>\<open>modules/restaurants/repositories\<close>).

  The tables extend the catalogue by the compliance rows; \<^verbatim>\<open>ch_review\<close> holds the verification tables
  of theory \<^verbatim>\<open>Verification\<close>.  Encryption of the account number is a parameter; the admin-only
  endpoints are guarded by the controllers' role decorators, so their operations check nothing.  The
  restaurants named in the requests are taken to exist: a write for an unknown one, which only an
  administrator could attempt, fails on the foreign key and is left out.
\<close>

section \<open>Data\<close>

datatype verificationStatus = VS_PENDING | VS_UNDER_REVIEW | VS_VERIFIED | VS_REJECTED | VS_EXPIRED

record restaurantDocument =
  do_id :: string
  do_restaurantId :: string
  do_branchId :: "string option"
  do_documentType :: string
  do_documentNumber :: "string option"
  do_issueDate :: "int option"
  do_expiryDate :: "int option"
  do_status :: verificationStatus
  do_storageUrl :: string
  do_fileName :: string
  do_mimeType :: string
  do_sizeBytes :: nat
  do_uploadedById :: string
  do_verifiedById :: "string option"
  do_verifiedAt :: "int option"
  do_rejectedReason :: "string option"
  do_version :: nat
  do_isLatest :: bool
  do_previousVersionId :: "string option"
  do_createdAt :: int
  do_deletedAt :: "int option"

record taxProfile =
  tp_restaurantId :: string
  tp_gstin :: "string option"
  tp_gstLegalName :: "string option"
  tp_gstRegisteredAddress :: "string option"
  tp_gstBusinessCategory :: "string option"
  tp_gstRegistrationState :: "string option"
  tp_gstStatus :: verificationStatus
  tp_gstVerifiedById :: "string option"
  tp_gstVerifiedAt :: "int option"
  tp_fssaiNumber :: "string option"
  tp_fssaiLicenseType :: "string option"
  tp_fssaiIssueDate :: "int option"
  tp_fssaiExpiryAt :: "int option"
  tp_fssaiStatus :: verificationStatus
  tp_fssaiVerifiedById :: "string option"
  tp_fssaiVerifiedAt :: "int option"
  tp_pan :: "string option"
  tp_cin :: "string option"
  tp_businessType :: "string option"

record bankAccount =
  ba_restaurantId :: string
  ba_accountHolderName :: string
  ba_bankName :: string
  ba_branchName :: "string option"
  ba_accountNumberEncrypted :: string
  ba_accountNumberLast4 :: string
  ba_ifsc :: string
  ba_upiId :: "string option"
  ba_cancelledChequeDocumentId :: "string option"
  ba_status :: verificationStatus
  ba_verifiedById :: "string option"
  ba_verifiedAt :: "int option"

record officeStore = catalog +
  ch_documents :: "restaurantDocument list"
  ch_tax :: "taxProfile list"
  ch_bank :: "bankAccount list"
  ch_review :: reviewStore
  ch_users :: "(string \<times> string) list"

definition officeAudit :: "string \<Rightarrow> string \<Rightarrow> string \<Rightarrow> string \<Rightarrow> 'z officeStore_scheme \<Rightarrow> 'z officeStore_scheme" where
  "officeAudit uid entity i action = onBase (auditLog (Some uid) entity i action)"

text \<open>The three sets of managing roles the services declare.\<close>

definition OWNER_ROLES :: "restaurantAccessRole list" where
  "OWNER_ROLES = [StaffRole OWNER, StaffRole CO_OWNER, AdminRole]"

definition FINANCE_ROLES :: "restaurantAccessRole list" where
  "FINANCE_ROLES = [StaffRole OWNER, StaffRole CO_OWNER, StaffRole FINANCE_MANAGER, AdminRole]"

section \<open>Branches\<close>

definition liveBranch :: "string \<Rightarrow> branchRow \<Rightarrow> bool" where
  "liveBranch rid b \<longleftrightarrow> b_restaurantId b = rid \<and> br_deletedAt b = None"

definition findBranchesByRestaurant :: "string \<Rightarrow> 'z catalog_scheme \<Rightarrow> branchRow list" where
  "findBranchesByRestaurant rid c =
     sort_key (\<lambda>b. if b_isPrimary b then 0 else 1 :: nat)
       (sort_key br_createdAt (filter (liveBranch rid) (cg_branches c)))"

definition findBranchById :: "string \<Rightarrow> 'z catalog_scheme \<Rightarrow> branchRow option" where
  "findBranchById bid c = List.find (\<lambda>b. b_id b = bid \<and> br_deletedAt b = None) (cg_branches c)"

definition countBranches :: "string \<Rightarrow> 'z catalog_scheme \<Rightarrow> nat" where
  "countBranches rid c = matches (liveBranch rid) (cg_branches c)"

definition clearPrimary :: "string \<Rightarrow> string option \<Rightarrow> 'z catalog_scheme \<Rightarrow> 'z catalog_scheme" where
  "clearPrimary rid except c =
     c\<lparr>cg_branches := modify (\<lambda>b. liveBranch rid b \<and> (truthy except \<longrightarrow> Some (b_id b) \<noteq> except))
          (\<lambda>b. b\<lparr>b_isPrimary := False\<rparr>) (cg_branches c)\<rparr>"

definition updateBranchRow ::
  "string \<Rightarrow> (branchRow \<Rightarrow> branchRow) \<Rightarrow> 'z catalog_scheme \<Rightarrow> ('z catalog_scheme, branchRow) outcome" where
  "updateBranchRow bid f c =
     (case lookup b_id bid (cg_branches c) of
        None \<Rightarrow> (Inl (RecordNotFound ''RestaurantBranch''), c)
      | Some b \<Rightarrow> (Inr (f b), c\<lparr>cg_branches := modify (\<lambda>b. b_id b = bid) f (cg_branches c)\<rparr>))"

record createBranchDto =
  cb_name :: string
  cb_addressLine1 :: string
  cb_addressLine2 :: "string option"
  cb_landmark :: "string option"
  cb_city :: string
  cb_state :: string
  cb_postalCode :: string
  cb_latitude :: "rat option"
  cb_longitude :: "rat option"
  cb_timezone :: "string option"
  cb_deliveryRadiusKm :: "rat option"
  cb_phone :: "string option"
  cb_emergencyContactName :: "string option"
  cb_emergencyContactPhone :: "string option"
  cb_isPrimary :: "bool option"

record updateBranchDto =
  ub_name :: "string option"
  ub_addressLine1 :: "string option"
  ub_addressLine2 :: "string option"
  ub_landmark :: "string option"
  ub_city :: "string option"
  ub_state :: "string option"
  ub_postalCode :: "string option"
  ub_latitude :: "rat option"
  ub_longitude :: "rat option"
  ub_timezone :: "string option"
  ub_deliveryRadiusKm :: "rat option"
  ub_phone :: "string option"
  ub_emergencyContactName :: "string option"
  ub_emergencyContactPhone :: "string option"
  ub_isPrimary :: "bool option"
  ub_isActive :: "bool option"

definition newBranch :: "string \<Rightarrow> int \<Rightarrow> string \<Rightarrow> bool \<Rightarrow> createBranchDto \<Rightarrow> branchRow" where
  "newBranch uuid now rid primary dto =
     \<lparr>b_id = uuid, b_restaurantId = rid, b_isPrimary = primary, b_isActive = True,
      b_latitude = cb_latitude dto, b_longitude = cb_longitude dto, b_timezone = cb_timezone dto,
      b_operatingHours = [], br_name = cb_name dto,
      br_addressLine1 = cb_addressLine1 dto, br_addressLine2 = cb_addressLine2 dto, br_landmark = cb_landmark dto,
      br_city = cb_city dto, br_state = cb_state dto, br_postalCode = cb_postalCode dto,
      br_deliveryRadiusKm = cb_deliveryRadiusKm dto, br_phone = cb_phone dto,
      br_emergencyContactName = cb_emergencyContactName dto,
      br_emergencyContactPhone = cb_emergencyContactPhone dto, br_createdAt = now, br_deletedAt = None\<rparr>"

definition createBranch ::
  "string \<Rightarrow> int \<Rightarrow> string \<Rightarrow> createBranchDto \<Rightarrow> authUser \<Rightarrow> 'z officeStore_scheme
     \<Rightarrow> ('z officeStore_scheme, branchRow) outcome" where
  "createBranch uuid now rid dto u c =
     (if \<not> hasRestaurantRole (roleView c) rid u OWNER_ROLES then (Inl (Forbidden ''add branches''), c)
      else
        (let isFirstBranch = (countBranches rid c = 0);
             c1 = (if isFirstBranch \<or> cb_isPrimary dto = Some True then clearPrimary rid None c else c);
             b = newBranch uuid now rid (isFirstBranch \<or> cb_isPrimary dto = Some True) dto
         in (Inr b, announce ''restaurant.branch.created'' uuid
               (officeAudit (userId u) ''RestaurantBranch'' uuid ''CREATE''
                  (c1\<lparr>cg_branches := cg_branches c1 @ [b]\<rparr>)))))"

definition requireBranchRow :: "string \<Rightarrow> string \<Rightarrow> 'z catalog_scheme \<Rightarrow> branchRow result" where
  "requireBranchRow rid bid c =
     (case findBranchById bid c of
        None \<Rightarrow> Inl (NotFound ''Branch'')
      | Some b \<Rightarrow> if b_restaurantId b \<noteq> rid then Inl (NotFound ''Branch'') else Inr b)"

definition patchBranch :: "updateBranchDto \<Rightarrow> branchRow \<Rightarrow> branchRow" where
  "patchBranch dto b = b\<lparr>br_name := patchField (ub_name dto) (br_name b),
     br_addressLine1 := patchField (ub_addressLine1 dto) (br_addressLine1 b),
     br_addressLine2 := patchOpt (ub_addressLine2 dto) (br_addressLine2 b),
     br_landmark := patchOpt (ub_landmark dto) (br_landmark b), br_city := patchField (ub_city dto) (br_city b),
     br_state := patchField (ub_state dto) (br_state b), br_postalCode := patchField (ub_postalCode dto) (br_postalCode b),
     br_deliveryRadiusKm := patchOpt (ub_deliveryRadiusKm dto) (br_deliveryRadiusKm b),
     br_phone := patchOpt (ub_phone dto) (br_phone b),
     br_emergencyContactName := patchOpt (ub_emergencyContactName dto) (br_emergencyContactName b),
     br_emergencyContactPhone := patchOpt (ub_emergencyContactPhone dto) (br_emergencyContactPhone b),
     b_latitude := patchOpt (ub_latitude dto) (b_latitude b), b_longitude := patchOpt (ub_longitude dto) (b_longitude b),
     b_timezone := patchOpt (ub_timezone dto) (b_timezone b), b_isPrimary := patchField (ub_isPrimary dto) (b_isPrimary b),
     b_isActive := patchField (ub_isActive dto) (b_isActive b)\<rparr>"

text \<open>\<^const>\<open>canManageBranch\<close> of theory \<^verbatim>\<open>OperatingHours\<close> is the same check in both services.\<close>

definition updateBranch ::
  "string \<Rightarrow> string \<Rightarrow> updateBranchDto \<Rightarrow> authUser \<Rightarrow> 'z officeStore_scheme
     \<Rightarrow> ('z officeStore_scheme, branchRow) outcome" where
  "updateBranch rid bid dto u c =
     (case requireBranchRow rid bid c of
        Inl e \<Rightarrow> (Inl e, c)
      | Inr _ \<Rightarrow>
          if \<not> canManageBranch (roleView c) rid bid u then (Inl (Forbidden ''update branch''), c)
          else
            (let c1 = (if ub_isPrimary dto = Some True then clearPrimary rid (Some bid) c else c)
             in case updateBranchRow bid (patchBranch dto) c1 of
                  (Inl e, c2) \<Rightarrow> (Inl e, c2)
                | (Inr b, c2) \<Rightarrow> (Inr b, officeAudit (userId u) ''RestaurantBranch'' bid ''UPDATE'' c2)))"

definition removeBranch ::
  "int \<Rightarrow> string \<Rightarrow> string \<Rightarrow> authUser \<Rightarrow> 'z officeStore_scheme \<Rightarrow> ('z officeStore_scheme, branchRow) outcome" where
  "removeBranch now rid bid u c =
     (case requireBranchRow rid bid c of
        Inl e \<Rightarrow> (Inl e, c)
      | Inr b \<Rightarrow>
          if \<not> hasRestaurantRole (roleView c) rid u OWNER_ROLES then (Inl (Forbidden ''remove branch''), c)
          else if b_isPrimary b \<and> countBranches rid c > 1
          then (Inl (Forbidden ''Set another branch as primary first''), c)
          else
            (case updateBranchRow bid (\<lambda>b. b\<lparr>br_deletedAt := Some now, b_isActive := False\<rparr>) c of
               (Inl e, c1) \<Rightarrow> (Inl e, c1)
             | (Inr b, c1) \<Rightarrow> (Inr b, officeAudit (userId u) ''RestaurantBranch'' bid ''DELETE'' c1)))"

section \<open>Staff\<close>

definition findStaffById :: "string \<Rightarrow> 'z catalog_scheme \<Rightarrow> staffRow option" where
  "findStaffById sid c = lookup sf_id sid (cg_staff c)"

definition staffKey :: "staffRow \<Rightarrow> string \<times> string" where
  "staffKey s = (sf_restaurantId s, sm_userId (sf_member s))"

definition updateStaffRow ::
  "string \<Rightarrow> (staffRow \<Rightarrow> staffRow) \<Rightarrow> 'z catalog_scheme \<Rightarrow> ('z catalog_scheme, staffRow) outcome" where
  "updateStaffRow sid f c =
     (case findStaffById sid c of
        None \<Rightarrow> (Inl (RecordNotFound ''RestaurantStaff''), c)
      | Some s \<Rightarrow> (Inr (f s), c\<lparr>cg_staff := modify (\<lambda>s. sf_id s = sid) f (cg_staff c)\<rparr>))"

definition findAllStaff :: "string \<Rightarrow> authUser \<Rightarrow> 'z catalog_scheme \<Rightarrow> staffRow list result" where
  "findAllStaff rid u c =
     (if \<not> canAccessRestaurant (roleView c) rid u then Inl (Forbidden ''access restaurant'')
      else Inr (sort_key sf_createdAt (filter (\<lambda>s. sf_restaurantId s = rid) (cg_staff c))))"

record inviteStaffDto =
  is_email :: string
  is_role :: staffRole
  is_branchId :: "string option"

text \<open>The unique index on restaurant and user decides a race between two invitations.\<close>

definition inviteStaff ::
  "string \<Rightarrow> int \<Rightarrow> ('z officeStore_scheme \<Rightarrow> 'z officeStore_scheme) \<Rightarrow> string \<Rightarrow> inviteStaffDto \<Rightarrow> authUser
     \<Rightarrow> 'z officeStore_scheme \<Rightarrow> ('z officeStore_scheme, staffRow) outcome" where
  "inviteStaff uuid now env rid dto u c =
     (if \<not> hasRestaurantRole (roleView c) rid u OWNER_ROLES then (Inl (Forbidden ''invite staff''), c)
      else if is_role dto = OWNER then (Inl (BadRequest ''OWNER cannot be assigned''), c)
      else
        (case map_of (ch_users c) (is_email dto) of
           None \<Rightarrow> (Inl (NotFound ''No registered user with that email''), c)
         | Some invitee \<Rightarrow>
             if lookup staffKey (rid, invitee) (cg_staff c) \<noteq> None then (Inl (Conflict ''already staff''), c)
             else
               (let c1 = env c;
                    s = \<lparr>sf_id = uuid, sf_restaurantId = rid,
                         sf_member = \<lparr>sm_userId = invitee, sm_role = is_role dto, sm_status = STAFF_INVITED,
                                      sm_branchId = is_branchId dto\<rparr>,
                         sf_invitedById = Some (userId u), sf_createdAt = now, sf_respondedAt = None\<rparr>
                in if lookup staffKey (rid, invitee) (cg_staff c1) \<noteq> None
                   then (Inl (UniqueViolation ''RestaurantStaff''), c1)
                   else (Inr s, officeAudit (userId u) ''RestaurantStaff'' uuid ''CREATE''
                                  (c1\<lparr>cg_staff := cg_staff c1 @ [s]\<rparr>)))))"

definition requireStaff :: "string \<Rightarrow> string \<Rightarrow> 'z catalog_scheme \<Rightarrow> staffRow result" where
  "requireStaff rid sid c =
     (case findStaffById sid c of
        None \<Rightarrow> Inl (NotFound ''Staff member'')
      | Some s \<Rightarrow> if sf_restaurantId s \<noteq> rid then Inl (NotFound ''Staff member'') else Inr s)"

definition patchStaff :: "staffRole option \<Rightarrow> string option \<Rightarrow> staffRow \<Rightarrow> staffRow" where
  "patchStaff rl branch s = s\<lparr>sf_member := (sf_member s)\<lparr>sm_role := patchField rl (sm_role (sf_member s)),
     sm_branchId := patchOpt branch (sm_branchId (sf_member s))\<rparr>\<rparr>"

definition updateStaff ::
  "string \<Rightarrow> string \<Rightarrow> staffRole option \<Rightarrow> string option \<Rightarrow> authUser \<Rightarrow> 'z officeStore_scheme
     \<Rightarrow> ('z officeStore_scheme, staffRow) outcome" where
  "updateStaff rid sid rl branch u c =
     (case requireStaff rid sid c of
        Inl e \<Rightarrow> (Inl e, c)
      | Inr _ \<Rightarrow>
          if \<not> hasRestaurantRole (roleView c) rid u OWNER_ROLES then (Inl (Forbidden ''manage staff''), c)
          else (case updateStaffRow sid (patchStaff rl branch) c of
                  (Inl e, c1) \<Rightarrow> (Inl e, c1)
                | (Inr s, c1) \<Rightarrow> (Inr s, officeAudit (userId u) ''RestaurantStaff'' sid ''UPDATE'' c1)))"

definition setStaffStatus :: "staffStatus \<Rightarrow> int \<Rightarrow> staffRow \<Rightarrow> staffRow" where
  "setStaffStatus st now s = s\<lparr>sf_member := (sf_member s)\<lparr>sm_status := st\<rparr>, sf_respondedAt := Some now\<rparr>"

definition acceptStaff ::
  "int \<Rightarrow> string \<Rightarrow> string \<Rightarrow> authUser \<Rightarrow> 'z officeStore_scheme \<Rightarrow> ('z officeStore_scheme, staffRow) outcome" where
  "acceptStaff now rid sid u c =
     (case requireStaff rid sid c of
        Inl e \<Rightarrow> (Inl e, c)
      | Inr s \<Rightarrow>
          if sm_userId (sf_member s) \<noteq> userId u then (Inl (Forbidden ''your own invitation''), c)
          else (case updateStaffRow sid (setStaffStatus STAFF_ACTIVE now) c of
                  (Inl e, c1) \<Rightarrow> (Inl e, c1)
                | (Inr s, c1) \<Rightarrow> (Inr s, officeAudit (userId u) ''RestaurantStaff'' sid ''STATUS_CHANGE'' c1)))"

definition revokeStaff ::
  "int \<Rightarrow> string \<Rightarrow> string \<Rightarrow> authUser \<Rightarrow> 'z officeStore_scheme \<Rightarrow> ('z officeStore_scheme, staffRow) outcome" where
  "revokeStaff now rid sid u c =
     (case requireStaff rid sid c of
        Inl e \<Rightarrow> (Inl e, c)
      | Inr _ \<Rightarrow>
          if \<not> hasRestaurantRole (roleView c) rid u OWNER_ROLES then (Inl (Forbidden ''remove staff''), c)
          else (case updateStaffRow sid (setStaffStatus STAFF_REVOKED now) c of
                  (Inl e, c1) \<Rightarrow> (Inl e, c1)
                | (Inr s, c1) \<Rightarrow> (Inr s, officeAudit (userId u) ''RestaurantStaff'' sid ''STATUS_CHANGE'' c1)))"

end
