(* ===== verification/RestaurantCompliance.thy ===== *)
theory RestaurantCompliance
  imports RestaurantAdmin
begin

text \<open>
  A restaurant's paperwork: order settings, bank account, tax profile, versioned documents, media
  gallery, and the compliance snapshot (\<^verbatim>\<open>settings.service.ts\<close>, \<^verbatim>\<open>bank-account.service.ts\<close>,
  \<^verbatim>\<open>tax-profile.service.ts\<close>, \<^verbatim>\<open>documents.service.ts\<close>, \<^verbatim>\<open>media.service.ts\<close>, \<^verbatim>\<open>compliance.service.ts\<close>
  and their repositories).
\<close>

section \<open>Settings\<close>

definition defaultSettings :: "string \<Rightarrow> settingsRow" where
  "defaultSettings rid =
     \<lparr>se_restaurantId = rid, se_serviceChargeType = CHARGE_NONE, se_serviceChargeValue = 0,
      se_packingChargeType = CHARGE_NONE, se_packingChargeValue = 0, se_minimumOrderAmount = 0,
      se_currency = ''INR'', se_autoAcceptOrders = False, se_acceptanceTimeoutMinutes = 10,
      se_isTemporarilyClosed = False, se_temporaryClosureReason = None, se_temporaryClosureUntil = None,
      se_restaurantNotes = None, se_specialInstructions = None, se_deliveryRadiusOverrideKm = None,
      se_orderPreparationDefaultMinutes = None, se_notifyOnNewOrder = True, se_notifyOnOrderCancelled = True,
      se_notifyOnRefund = True, se_notifyOnCustomerMessage = True\<rparr>"

definition settingsByRestaurant :: "string \<Rightarrow> 'z catalog_scheme \<Rightarrow> settingsRow" where
  "settingsByRestaurant rid c =
     (case lookup se_restaurantId rid (cg_settings c) of None \<Rightarrow> defaultSettings rid | Some s \<Rightarrow> s)"

definition findSettings :: "string \<Rightarrow> authUser \<Rightarrow> 'z catalog_scheme \<Rightarrow> settingsRow result" where
  "findSettings rid u c =
     (if \<not> canAccessRestaurant (roleView c) rid u then Inl (Forbidden ''access restaurant'')
      else Inr (settingsByRestaurant rid c))"

record settingsDto =
  sd_serviceChargeType :: "chargeType option"
  sd_serviceChargeValue :: "rat option"
  sd_packingChargeType :: "chargeType option"
  sd_packingChargeValue :: "rat option"
  sd_minimumOrderAmount :: "rat option"
  sd_currency :: "string option"
  sd_autoAcceptOrders :: "bool option"
  sd_acceptanceTimeoutMinutes :: "int option"
  sd_isTemporarilyClosed :: "bool option"
  sd_temporaryClosureReason :: "string option"
  sd_temporaryClosureUntil :: "int option"
  sd_restaurantNotes :: "string option"
  sd_specialInstructions :: "string option"
  sd_deliveryRadiusOverrideKm :: "rat option"
  sd_orderPreparationDefaultMinutes :: "int option"
  sd_notifyOnNewOrder :: "bool option"
  sd_notifyOnOrderCancelled :: "bool option"
  sd_notifyOnRefund :: "bool option"
  sd_notifyOnCustomerMessage :: "bool option"

definition patchSettings :: "settingsDto \<Rightarrow> settingsRow \<Rightarrow> settingsRow" where
  "patchSettings d s = s\<lparr>
     se_serviceChargeType := patchField (sd_serviceChargeType d) (se_serviceChargeType s),
     se_serviceChargeValue := patchField (sd_serviceChargeValue d) (se_serviceChargeValue s),
     se_packingChargeType := patchField (sd_packingChargeType d) (se_packingChargeType s),
     se_packingChargeValue := patchField (sd_packingChargeValue d) (se_packingChargeValue s),
     se_minimumOrderAmount := patchField (sd_minimumOrderAmount d) (se_minimumOrderAmount s),
     se_currency := patchField (sd_currency d) (se_currency s),
     se_autoAcceptOrders := patchField (sd_autoAcceptOrders d) (se_autoAcceptOrders s),
     se_acceptanceTimeoutMinutes := patchField (sd_acceptanceTimeoutMinutes d) (se_acceptanceTimeoutMinutes s),
     se_isTemporarilyClosed := patchField (sd_isTemporarilyClosed d) (se_isTemporarilyClosed s),
     se_temporaryClosureReason := patchOpt (sd_temporaryClosureReason d) (se_temporaryClosureReason s),
     se_temporaryClosureUntil := patchOpt (sd_temporaryClosureUntil d) (se_temporaryClosureUntil s),
     se_restaurantNotes := patchOpt (sd_restaurantNotes d) (se_restaurantNotes s),
     se_specialInstructions := patchOpt (sd_specialInstructions d) (se_specialInstructions s),
     se_deliveryRadiusOverrideKm := patchOpt (sd_deliveryRadiusOverrideKm d) (se_deliveryRadiusOverrideKm s),
     se_orderPreparationDefaultMinutes :=
       patchOpt (sd_orderPreparationDefaultMinutes d) (se_orderPreparationDefaultMinutes s),
     se_notifyOnNewOrder := patchField (sd_notifyOnNewOrder d) (se_notifyOnNewOrder s),
     se_notifyOnOrderCancelled := patchField (sd_notifyOnOrderCancelled d) (se_notifyOnOrderCancelled s),
     se_notifyOnRefund := patchField (sd_notifyOnRefund d) (se_notifyOnRefund s),
     se_notifyOnCustomerMessage := patchField (sd_notifyOnCustomerMessage d) (se_notifyOnCustomerMessage s)\<rparr>"

definition upsertSettingsRow :: "string \<Rightarrow> settingsDto \<Rightarrow> 'z catalog_scheme \<Rightarrow> 'z catalog_scheme" where
  "upsertSettingsRow rid d c =
     (case lookup se_restaurantId rid (cg_settings c) of
        Some _ \<Rightarrow> c\<lparr>cg_settings := modify (\<lambda>s. se_restaurantId s = rid) (patchSettings d) (cg_settings c)\<rparr>
      | None \<Rightarrow> c\<lparr>cg_settings := cg_settings c @ [patchSettings d (defaultSettings rid)]\<rparr>)"

text \<open>The push to the restaurant's connected clients is recorded with the published events.\<close>

definition upsertSettings ::
  "string \<Rightarrow> settingsDto \<Rightarrow> authUser \<Rightarrow> 'z officeStore_scheme \<Rightarrow> ('z officeStore_scheme, settingsRow) outcome" where
  "upsertSettings rid d u c =
     (if \<not> hasRestaurantRole (roleView c) rid u FINANCE_ROLES then (Inl (Forbidden ''manage settings''), c)
      else
        (let c1 = upsertSettingsRow rid d c
         in (Inr (settingsByRestaurant rid c1),
             announce ''restaurant.settings.updated'' rid (officeAudit (userId u) ''RestaurantSettings'' rid ''UPDATE'' c1))))"

section \<open>Bank account\<close>

record upsertBankAccountDto =
  ub_accountHolderName :: string
  ub_bankName :: string
  ub_branchName :: "string option"
  ub_accountNumber :: string
  ub_ifsc :: string
  ub_upiId :: "string option"
  ub_cancelledChequeDocumentId :: "string option"

text \<open>\<^verbatim>\<open>value.slice(-4)\<close>.\<close>

definition maskLast4 :: "string \<Rightarrow> string" where
  "maskLast4 v = drop (length v - 4) v"

definition findBankAccount :: "string \<Rightarrow> 'z officeStore_scheme \<Rightarrow> bankAccount option" where
  "findBankAccount rid c = lookup ba_restaurantId rid (ch_bank c)"

definition applyBank :: "(string \<Rightarrow> string) \<Rightarrow> upsertBankAccountDto \<Rightarrow> bankAccount \<Rightarrow> bankAccount" where
  "applyBank enc dto a = a\<lparr>ba_accountHolderName := ub_accountHolderName dto, ba_bankName := ub_bankName dto,
     ba_branchName := patchOpt (ub_branchName dto) (ba_branchName a),
     ba_accountNumberEncrypted := enc (ub_accountNumber dto), ba_accountNumberLast4 := maskLast4 (ub_accountNumber dto),
     ba_ifsc := ub_ifsc dto, ba_upiId := patchOpt (ub_upiId dto) (ba_upiId a),
     ba_cancelledChequeDocumentId := patchOpt (ub_cancelledChequeDocumentId dto) (ba_cancelledChequeDocumentId a),
     ba_status := VS_PENDING\<rparr>"

definition upsertBankRow ::
  "(string \<Rightarrow> string) \<Rightarrow> string \<Rightarrow> upsertBankAccountDto \<Rightarrow> 'z officeStore_scheme \<Rightarrow> 'z officeStore_scheme" where
  "upsertBankRow enc rid dto c =
     (case findBankAccount rid c of
        Some _ \<Rightarrow> c\<lparr>ch_bank := modify (\<lambda>a. ba_restaurantId a = rid) (applyBank enc dto) (ch_bank c)\<rparr>
      | None \<Rightarrow> c\<lparr>ch_bank := ch_bank c @ [applyBank enc dto
          \<lparr>ba_restaurantId = rid, ba_accountHolderName = [], ba_bankName = [], ba_branchName = None,
           ba_accountNumberEncrypted = [], ba_accountNumberLast4 = [], ba_ifsc = [], ba_upiId = None,
           ba_cancelledChequeDocumentId = None, ba_status = VS_PENDING, ba_verifiedById = None, ba_verifiedAt = None\<rparr>]\<rparr>)"

definition getBankAccount :: "string \<Rightarrow> authUser \<Rightarrow> 'z officeStore_scheme \<Rightarrow> bankAccount option result" where
  "getBankAccount rid u c =
     (if \<not> canAccessRestaurant (roleView c) rid u then Inl (Forbidden ''access restaurant'')
      else Inr (findBankAccount rid c))"

text \<open>\<open>enc\<close> is \<^verbatim>\<open>encryptSecret\<close> under the configured key, \<^const>\<open>None\<close> when no key is configured: then it
  throws.\<close>

definition upsertBankAccount ::
  "(string \<Rightarrow> string) option \<Rightarrow> string \<Rightarrow> upsertBankAccountDto \<Rightarrow> authUser \<Rightarrow> 'z officeStore_scheme
     \<Rightarrow> ('z officeStore_scheme, unit) outcome" where
  "upsertBankAccount enc rid dto u c =
     (if \<not> hasRestaurantRole (roleView c) rid u OWNER_ROLES then (Inl (Forbidden ''manage bank account''), c)
      else (case enc of
              None \<Rightarrow> (Inl (ProviderError ''BANK_ACCOUNT_ENCRYPTION_KEY is not configured''), c)
            | Some e \<Rightarrow> (Inr (), officeAudit (userId u) ''RestaurantBankAccount'' rid ''UPDATE'' (upsertBankRow e rid dto c))))"

definition updateBankRow ::
  "string \<Rightarrow> (bankAccount \<Rightarrow> bankAccount) \<Rightarrow> 'z officeStore_scheme \<Rightarrow> ('z officeStore_scheme, bankAccount) outcome" where
  "updateBankRow rid f c =
     (case findBankAccount rid c of
        None \<Rightarrow> (Inl (RecordNotFound ''RestaurantBankAccount''), c)
      | Some a \<Rightarrow> (Inr (f a), c\<lparr>ch_bank := modify (\<lambda>a. ba_restaurantId a = rid) f (ch_bank c)\<rparr>))"

definition verifyBankAccount ::
  "int \<Rightarrow> string \<Rightarrow> authUser \<Rightarrow> 'z officeStore_scheme \<Rightarrow> ('z officeStore_scheme, bankAccount) outcome" where
  "verifyBankAccount now rid u c =
     (case updateBankRow rid (\<lambda>a. a\<lparr>ba_status := VS_VERIFIED, ba_verifiedById := Some (userId u),
                                   ba_verifiedAt := Some now\<rparr>) c of
        (Inl e, c1) \<Rightarrow> (Inl e, c1)
      | (Inr a, c1) \<Rightarrow> (Inr a, announce ''restaurant.bank.verified'' rid
                                (officeAudit (userId u) ''RestaurantBankAccount'' rid ''APPROVE'' c1)))"

definition rejectBankAccount ::
  "string \<Rightarrow> authUser \<Rightarrow> 'z officeStore_scheme \<Rightarrow> ('z officeStore_scheme, bankAccount) outcome" where
  "rejectBankAccount rid u c =
     (case updateBankRow rid (\<lambda>a. a\<lparr>ba_status := VS_REJECTED\<rparr>) c of
        (Inl e, c1) \<Rightarrow> (Inl e, c1)
      | (Inr a, c1) \<Rightarrow> (Inr a, officeAudit (userId u) ''RestaurantBankAccount'' rid ''REJECT'' c1))"

section \<open>Tax profile\<close>

record upsertTaxProfileDto =
  ut_gstin :: "string option"
  ut_gstLegalName :: "string option"
  ut_gstRegisteredAddress :: "string option"
  ut_gstBusinessCategory :: "string option"
  ut_gstRegistrationState :: "string option"
  ut_fssaiNumber :: "string option"
  ut_fssaiLicenseType :: "string option"
  ut_fssaiIssueDate :: "int option"
  ut_fssaiExpiryAt :: "int option"
  ut_pan :: "string option"
  ut_cin :: "string option"
  ut_businessType :: "string option"

definition applyTax :: "upsertTaxProfileDto \<Rightarrow> taxProfile \<Rightarrow> taxProfile" where
  "applyTax dto t = t\<lparr>tp_gstin := patchOpt (ut_gstin dto) (tp_gstin t),
     tp_gstLegalName := patchOpt (ut_gstLegalName dto) (tp_gstLegalName t),
     tp_gstRegisteredAddress := patchOpt (ut_gstRegisteredAddress dto) (tp_gstRegisteredAddress t),
     tp_gstBusinessCategory := patchOpt (ut_gstBusinessCategory dto) (tp_gstBusinessCategory t),
     tp_gstRegistrationState := patchOpt (ut_gstRegistrationState dto) (tp_gstRegistrationState t),
     tp_fssaiNumber := patchOpt (ut_fssaiNumber dto) (tp_fssaiNumber t),
     tp_fssaiLicenseType := patchOpt (ut_fssaiLicenseType dto) (tp_fssaiLicenseType t),
     tp_fssaiIssueDate := patchOpt (ut_fssaiIssueDate dto) (tp_fssaiIssueDate t),
     tp_cin := patchOpt (ut_cin dto) (tp_cin t), tp_businessType := patchOpt (ut_businessType dto) (tp_businessType t),
     tp_fssaiExpiryAt := patchOpt (ut_fssaiExpiryAt dto) (tp_fssaiExpiryAt t), tp_pan := patchOpt (ut_pan dto) (tp_pan t)\<rparr>"

definition findTaxProfile :: "string \<Rightarrow> 'z officeStore_scheme \<Rightarrow> taxProfile option" where
  "findTaxProfile rid c = lookup tp_restaurantId rid (ch_tax c)"

definition getTaxProfile :: "string \<Rightarrow> authUser \<Rightarrow> 'z officeStore_scheme \<Rightarrow> taxProfile option result" where
  "getTaxProfile rid u c =
     (if \<not> canAccessRestaurant (roleView c) rid u then Inl (Forbidden ''access restaurant'')
      else Inr (findTaxProfile rid c))"

definition upsertTaxRow :: "string \<Rightarrow> upsertTaxProfileDto \<Rightarrow> 'z officeStore_scheme \<Rightarrow> 'z officeStore_scheme" where
  "upsertTaxRow rid dto c =
     (case findTaxProfile rid c of
        Some _ \<Rightarrow> c\<lparr>ch_tax := modify (\<lambda>t. tp_restaurantId t = rid) (applyTax dto) (ch_tax c)\<rparr>
      | None \<Rightarrow> c\<lparr>ch_tax := ch_tax c @ [applyTax dto
          \<lparr>tp_restaurantId = rid, tp_gstin = None, tp_gstLegalName = None,
           tp_gstRegisteredAddress = None, tp_gstBusinessCategory = None, tp_gstRegistrationState = None, tp_gstStatus = VS_PENDING,
           tp_gstVerifiedById = None, tp_gstVerifiedAt = None, tp_fssaiNumber = None,
           tp_fssaiLicenseType = None, tp_fssaiIssueDate = None, tp_fssaiExpiryAt = None,
           tp_fssaiStatus = VS_PENDING, tp_fssaiVerifiedById = None, tp_fssaiVerifiedAt = None, tp_pan = None,
           tp_cin = None, tp_businessType = None\<rparr>]\<rparr>)"

definition upsertTaxProfile ::
  "string \<Rightarrow> upsertTaxProfileDto \<Rightarrow> authUser \<Rightarrow> 'z officeStore_scheme \<Rightarrow> ('z officeStore_scheme, unit) outcome" where
  "upsertTaxProfile rid dto u c =
     (if \<not> hasRestaurantRole (roleView c) rid u FINANCE_ROLES then (Inl (Forbidden ''manage tax profile''), c)
      else (Inr (), officeAudit (userId u) ''RestaurantTaxProfile'' rid ''UPDATE'' (upsertTaxRow rid dto c)))"

definition updateTaxRow ::
  "string \<Rightarrow> string \<Rightarrow> (taxProfile \<Rightarrow> taxProfile) \<Rightarrow> authUser \<Rightarrow> 'z officeStore_scheme
     \<Rightarrow> ('z officeStore_scheme, taxProfile) outcome" where
  "updateTaxRow rid act f u c =
     (case findTaxProfile rid c of
        None \<Rightarrow> (Inl (RecordNotFound ''RestaurantTaxProfile''), c)
      | Some t \<Rightarrow> (Inr (f t), officeAudit (userId u) ''RestaurantTaxProfile'' rid act
                     (c\<lparr>ch_tax := modify (\<lambda>t. tp_restaurantId t = rid) f (ch_tax c)\<rparr>)))"

definition verifyGst ::
  "int \<Rightarrow> string \<Rightarrow> authUser \<Rightarrow> 'z officeStore_scheme \<Rightarrow> ('z officeStore_scheme, taxProfile) outcome" where
  "verifyGst now rid u = updateTaxRow rid ''APPROVE'' (\<lambda>t. t\<lparr>tp_gstStatus := VS_VERIFIED,
     tp_gstVerifiedById := Some (userId u), tp_gstVerifiedAt := Some now\<rparr>) u"

definition rejectGst ::
  "string \<Rightarrow> authUser \<Rightarrow> 'z officeStore_scheme \<Rightarrow> ('z officeStore_scheme, taxProfile) outcome" where
  "rejectGst rid u = updateTaxRow rid ''REJECT'' (\<lambda>t. t\<lparr>tp_gstStatus := VS_REJECTED\<rparr>) u"

definition verifyFssai ::
  "int \<Rightarrow> string \<Rightarrow> authUser \<Rightarrow> 'z officeStore_scheme \<Rightarrow> ('z officeStore_scheme, taxProfile) outcome" where
  "verifyFssai now rid u = updateTaxRow rid ''APPROVE'' (\<lambda>t. t\<lparr>tp_fssaiStatus := VS_VERIFIED,
     tp_fssaiVerifiedById := Some (userId u), tp_fssaiVerifiedAt := Some now\<rparr>) u"

definition rejectFssai ::
  "string \<Rightarrow> authUser \<Rightarrow> 'z officeStore_scheme \<Rightarrow> ('z officeStore_scheme, taxProfile) outcome" where
  "rejectFssai rid u = updateTaxRow rid ''REJECT'' (\<lambda>t. t\<lparr>tp_fssaiStatus := VS_REJECTED\<rparr>) u"

section \<open>Documents\<close>

definition findLatestByRestaurant :: "string \<Rightarrow> 'z officeStore_scheme \<Rightarrow> restaurantDocument list" where
  "findLatestByRestaurant rid c =
     sort_key (\<lambda>d. - do_createdAt d)
       (filter (\<lambda>d. do_restaurantId d = rid \<and> do_isLatest d \<and> do_deletedAt d = None) (ch_documents c))"

definition findDocumentById :: "string \<Rightarrow> 'z officeStore_scheme \<Rightarrow> restaurantDocument option" where
  "findDocumentById did c = List.find (\<lambda>d. do_id d = did \<and> do_deletedAt d = None) (ch_documents c)"

definition updateDocument ::
  "string \<Rightarrow> (restaurantDocument \<Rightarrow> restaurantDocument) \<Rightarrow> 'z officeStore_scheme
     \<Rightarrow> ('z officeStore_scheme, restaurantDocument) outcome" where
  "updateDocument did f c =
     (case lookup do_id did (ch_documents c) of
        None \<Rightarrow> (Inl (RecordNotFound ''RestaurantDocument''), c)
      | Some d \<Rightarrow> (Inr (f d), c\<lparr>ch_documents := modify (\<lambda>d. do_id d = did) f (ch_documents c)\<rparr>))"

definition getDocuments :: "string \<Rightarrow> authUser \<Rightarrow> 'z officeStore_scheme \<Rightarrow> restaurantDocument list result" where
  "getDocuments rid u c =
     (if \<not> canAccessRestaurant (roleView c) rid u then Inl (Forbidden ''access restaurant'')
      else Inr (findLatestByRestaurant rid c))"

record uploadDocumentDto =
  ud_documentType :: string
  ud_documentNumber :: "string option"
  ud_issueDate :: "int option"
  ud_expiryDate :: "int option"
  ud_branchId :: "string option"
  ud_previousVersionId :: "string option"

record uploadedFile =
  fl_originalname :: string
  fl_mimetype :: string
  fl_size :: nat

definition previousVersion ::
  "string \<Rightarrow> uploadDocumentDto \<Rightarrow> 'z officeStore_scheme \<Rightarrow> restaurantDocument option result" where
  "previousVersion rid dto c =
     (if \<not> truthy (ud_previousVersionId dto) then Inr None
      else (case findDocumentById (the (ud_previousVersionId dto)) c of
              None \<Rightarrow> Inl (NotFound ''Previous document version'')
            | Some d \<Rightarrow> if do_restaurantId d \<noteq> rid then Inl (NotFound ''Previous document version'')
                        else Inr (Some d)))"

definition newDocument ::
  "string \<Rightarrow> int \<Rightarrow> string \<Rightarrow> uploadDocumentDto \<Rightarrow> uploadedFile \<Rightarrow> string \<Rightarrow> string \<Rightarrow> restaurantDocument option
     \<Rightarrow> restaurantDocument" where
  "newDocument uuid now rid dto upl url uid prev =
     \<lparr>do_id = uuid, do_restaurantId = rid, do_branchId = ud_branchId dto, do_documentType = ud_documentType dto,
      do_documentNumber = ud_documentNumber dto, do_issueDate = ud_issueDate dto, do_expiryDate = ud_expiryDate dto,
      do_status = VS_PENDING, do_storageUrl = url, do_fileName = fl_originalname upl, do_mimeType = fl_mimetype upl,
      do_sizeBytes = fl_size upl, do_uploadedById = uid, do_verifiedById = None, do_verifiedAt = None,
      do_rejectedReason = None, do_version = (case prev of None \<Rightarrow> 1 | Some d \<Rightarrow> do_version d + 1),
      do_isLatest = True, do_previousVersionId = ud_previousVersionId dto, do_createdAt = now, do_deletedAt = None\<rparr>"

text \<open>\<open>env\<close> is what other requests do while the file is being stored.\<close>

definition uploadDocument ::
  "string \<Rightarrow> int \<Rightarrow> string result \<Rightarrow> ('z officeStore_scheme \<Rightarrow> 'z officeStore_scheme) \<Rightarrow> string
     \<Rightarrow> uploadDocumentDto \<Rightarrow> uploadedFile \<Rightarrow> authUser \<Rightarrow> 'z officeStore_scheme
     \<Rightarrow> ('z officeStore_scheme, restaurantDocument) outcome" where
  "uploadDocument uuid now stored env rid dto upl u c =
     (if \<not> canAccessRestaurant (roleView c) rid u then (Inl (Forbidden ''upload documents''), c)
      else
        (case previousVersion rid dto c of
           Inl e \<Rightarrow> (Inl e, c)
         | Inr prev \<Rightarrow>
             (case stored of
                Inl e \<Rightarrow> (Inl e, env c)
              | Inr url \<Rightarrow>
                  (let d = newDocument uuid now rid dto upl url (userId u) prev;
                       c1 = (env c)\<lparr>ch_documents := ch_documents (env c) @ [d]\<rparr>
                   in case (case prev of None \<Rightarrow> (Inr d, c1)
                            | Some p \<Rightarrow> updateDocument (do_id p) (\<lambda>d. d\<lparr>do_isLatest := False\<rparr>) c1) of
                        (Inl e, c2) \<Rightarrow> (Inl e, c2)
                      | (Inr _, c2) \<Rightarrow>
                          (Inr d, announce ''restaurant.document.uploaded'' uuid
                             (officeAudit (userId u) ''RestaurantDocument'' uuid ''CREATE'' c2))))))"

definition requireDocument :: "string \<Rightarrow> string \<Rightarrow> 'z officeStore_scheme \<Rightarrow> restaurantDocument result" where
  "requireDocument rid did c =
     (case findDocumentById did c of
        None \<Rightarrow> Inl (NotFound ''Document'')
      | Some d \<Rightarrow> if do_restaurantId d \<noteq> rid then Inl (NotFound ''Document'') else Inr d)"

definition decideDocument ::
  "(restaurantDocument \<Rightarrow> restaurantDocument) \<Rightarrow> string \<Rightarrow> string \<Rightarrow> string \<Rightarrow> authUser \<Rightarrow> 'z officeStore_scheme
     \<Rightarrow> ('z officeStore_scheme, restaurantDocument) outcome" where
  "decideDocument f act rid did u c =
     (case requireDocument rid did c of
        Inl e \<Rightarrow> (Inl e, c)
      | Inr _ \<Rightarrow>
          (case updateDocument did f c of
             (Inl e, c1) \<Rightarrow> (Inl e, c1)
           | (Inr d, c1) \<Rightarrow> (Inr d, announce ''restaurant.document.verified'' did
                                     (officeAudit (userId u) ''RestaurantDocument'' did act c1))))"

definition verifyDocument ::
  "int \<Rightarrow> string \<Rightarrow> string \<Rightarrow> authUser \<Rightarrow> 'z officeStore_scheme \<Rightarrow> ('z officeStore_scheme, restaurantDocument) outcome" where
  "verifyDocument now rid did u = decideDocument (\<lambda>d. d\<lparr>do_status := VS_VERIFIED, do_verifiedById := Some (userId u),
     do_verifiedAt := Some now, do_rejectedReason := None\<rparr>) ''APPROVE'' rid did u"

definition rejectDocument ::
  "int \<Rightarrow> string \<Rightarrow> string \<Rightarrow> string \<Rightarrow> authUser \<Rightarrow> 'z officeStore_scheme
     \<Rightarrow> ('z officeStore_scheme, restaurantDocument) outcome" where
  "rejectDocument now rid did reason u = decideDocument (\<lambda>d. d\<lparr>do_status := VS_REJECTED,
     do_verifiedById := Some (userId u), do_verifiedAt := Some now, do_rejectedReason := Some reason\<rparr>) ''REJECT'' rid did u"

definition removeDocument ::
  "int \<Rightarrow> string \<Rightarrow> string \<Rightarrow> authUser \<Rightarrow> 'z officeStore_scheme \<Rightarrow> ('z officeStore_scheme, restaurantDocument) outcome" where
  "removeDocument now rid did u c =
     (case requireDocument rid did c of
        Inl e \<Rightarrow> (Inl e, c)
      | Inr _ \<Rightarrow>
          if \<not> canAccessRestaurant (roleView c) rid u then (Inl (Forbidden ''remove documents''), c)
          else (case updateDocument did (\<lambda>d. d\<lparr>do_deletedAt := Some now\<rparr>) c of
                  (Inl e, c1) \<Rightarrow> (Inl e, c1)
                | (Inr d, c1) \<Rightarrow> (Inr d, officeAudit (userId u) ''RestaurantDocument'' did ''DELETE'' c1)))"

section \<open>Compliance snapshot\<close>

datatype overallStatus = COMPLIANT | AT_RISK | NON_COMPLIANT

record complianceSnapshot =
  cs_overallStatus :: overallStatus
  cs_verificationStage :: restStage
  cs_documentsTotal :: nat
  cs_documentsVerified :: nat
  cs_documentsPending :: nat
  cs_documentsRejected :: nat
  cs_expiringWithin30Days :: "string list"
  cs_expired :: "string list"
  cs_gstVerificationStatus :: "verificationStatus option"
  cs_fssaiVerificationStatus :: "verificationStatus option"
  cs_bankVerificationStatus :: "verificationStatus option"

definition EXPIRY_WINDOW_DAYS :: int where "EXPIRY_WINDOW_DAYS = 30"

definition snapshotOf ::
  "int \<Rightarrow> restStage \<Rightarrow> restaurantDocument list \<Rightarrow> taxProfile option \<Rightarrow> bankAccount option \<Rightarrow> complianceSnapshot" where
  "snapshotOf now stage documents tax bank =
     (let windowMs = EXPIRY_WINDOW_DAYS * 24 * 60 * 60 * 1000;
          expired = filter (\<lambda>d. case do_expiryDate d of None \<Rightarrow> False | Some t \<Rightarrow> t < now) documents;
          expiring = filter (\<lambda>d. case do_expiryDate d of None \<Rightarrow> False
                                 | Some t \<Rightarrow> t \<ge> now \<and> t - now \<le> windowMs) documents;
          verified = matches (\<lambda>d. do_status d = VS_VERIFIED) documents;
          rejected = matches (\<lambda>d. do_status d = VS_REJECTED) documents;
          pending = length documents - verified - rejected;
          hasBlockingIssue = (stage = RV_REJECTED \<or> stage = RV_SUSPENDED \<or> rejected > 0 \<or>
             map_option ba_status bank = Some VS_REJECTED \<or> map_option tp_gstStatus tax = Some VS_REJECTED \<or>
             map_option tp_fssaiStatus tax = Some VS_REJECTED);
          hasRisk = (expired \<noteq> [] \<or> expiring \<noteq> [] \<or> pending > 0 \<or> stage \<noteq> RV_APPROVED)
      in \<lparr>cs_overallStatus = (if hasBlockingIssue then NON_COMPLIANT else if hasRisk then AT_RISK else COMPLIANT),
          cs_verificationStage = stage, cs_documentsTotal = length documents, cs_documentsVerified = verified,
          cs_documentsPending = pending, cs_documentsRejected = rejected,
          cs_expiringWithin30Days = map do_id expiring, cs_expired = map do_id expired,
          cs_gstVerificationStatus = map_option tp_gstStatus tax,
          cs_fssaiVerificationStatus = map_option tp_fssaiStatus tax,
          cs_bankVerificationStatus = map_option ba_status bank\<rparr>)"

definition getSnapshot ::
  "int \<Rightarrow> string \<Rightarrow> authUser \<Rightarrow> 'z officeStore_scheme \<Rightarrow> ('z officeStore_scheme, complianceSnapshot) outcome" where
  "getSnapshot now rid u c =
     (if \<not> canAccessRestaurant (roleView c) rid u then (Inl (Forbidden ''access restaurant''), c)
      else
        (let (v, review) = restFindOrCreate rid (ch_review c); c1 = c\<lparr>ch_review := review\<rparr>
         in (Inr (snapshotOf now (rv_stage v) (findLatestByRestaurant rid c1) (findTaxProfile rid c1)
                    (findBankAccount rid c1)), c1)))"

section \<open>Media gallery\<close>

definition findMediaByRestaurant :: "string \<Rightarrow> 'z catalog_scheme \<Rightarrow> media list" where
  "findMediaByRestaurant rid c =
     sort_key me_sortOrder (sort_key me_createdAt (filter (\<lambda>m. me_restaurantId m = rid) (cg_media c)))"

definition uploadMedia ::
  "string \<Rightarrow> int \<Rightarrow> string result \<Rightarrow> string \<Rightarrow> mediaType \<Rightarrow> authUser \<Rightarrow> 'z catalog_scheme
     \<Rightarrow> ('z catalog_scheme, media) outcome" where
  "uploadMedia uuid now stored rid ty u c =
     (if \<not> canAccessRestaurant (roleView c) rid u then (Inl (Forbidden ''upload media''), c)
      else (case stored of
              Inl e \<Rightarrow> (Inl e, c)
            | Inr url \<Rightarrow>
                (let m = \<lparr>me_id = uuid, me_restaurantId = rid, me_type = ty, me_url = url,
                          me_sortOrder = matches (\<lambda>m. me_restaurantId m = rid) (cg_media c),
                          me_uploadedById = userId u, me_createdAt = now\<rparr>
                 in (Inr m, c\<lparr>cg_media := cg_media c @ [m]\<rparr>))))"

definition removeMedia ::
  "string \<Rightarrow> string \<Rightarrow> authUser \<Rightarrow> 'z catalog_scheme \<Rightarrow> ('z catalog_scheme, media) outcome" where
  "removeMedia rid mid u c =
     (case lookup me_id mid (cg_media c) of
        None \<Rightarrow> (Inl (NotFound ''Media''), c)
      | Some m \<Rightarrow>
          if me_restaurantId m \<noteq> rid then (Inl (NotFound ''Media''), c)
          else if \<not> hasRestaurantRole (roleView c) rid u OWNER_ROLES then (Inl (Forbidden ''remove media''), c)
          else (Inr m, c\<lparr>cg_media := filter (\<lambda>m. me_id m \<noteq> mid) (cg_media c)\<rparr>))"

text \<open>One transaction of one update per id; a repeated id keeps its last position.\<close>

fun reorderRows :: "nat \<Rightarrow> string list \<Rightarrow> media list \<Rightarrow> media list" where
  "reorderRows i [] ms = ms"
| "reorderRows i (mid # rest) ms =
     reorderRows (Suc i) rest (modify (\<lambda>m. me_id m = mid) (\<lambda>m. m\<lparr>me_sortOrder := i\<rparr>) ms)"

definition reorderMedia ::
  "string \<Rightarrow> string list \<Rightarrow> authUser \<Rightarrow> 'z catalog_scheme \<Rightarrow> ('z catalog_scheme, media list) outcome" where
  "reorderMedia rid mediaIds u c =
     (if \<not> hasRestaurantRole (roleView c) rid u OWNER_ROLES then (Inl (Forbidden ''reorder media''), c)
      else if \<not> set mediaIds \<subseteq> me_id ` set (findMediaByRestaurant rid c) then (Inl (NotFound ''Media''), c)
      else (let c1 = c\<lparr>cg_media := reorderRows 0 mediaIds (cg_media c)\<rparr> in (Inr (findMediaByRestaurant rid c1), c1)))"

end
