(* ===== verification/RestaurantSafety.thy ===== *)
theory RestaurantSafety
  imports RestaurantCompliance Discovery
begin

text \<open>
  What the owner-side operations keep and what they lose: at most one live primary branch along
  any branch operations, but a removed primary branch stays the one the public summary shows; the
  compliance verdict read back from the rows; a bank account falls back to pending on every
  change while a tax profile keeps its verified mark; and a revoked staff member can accept the
  old invitation again.
\<close>

section \<open>One primary branch\<close>

lemma officeAudit_tables [simp]:
  "cg_branches (officeAudit uid ent i a c) = cg_branches c" "cg_staff (officeAudit uid ent i a c) = cg_staff c"
  "cg_restaurants (officeAudit uid ent i a c) = cg_restaurants c"
  "ch_tax (officeAudit uid ent i a c) = ch_tax c" "ch_bank (officeAudit uid ent i a c) = ch_bank c"
  "ch_documents (officeAudit uid ent i a c) = ch_documents c" "ch_review (officeAudit uid ent i a c) = ch_review c"
  by (simp_all add: officeAudit_def onBase_def)

lemma announce_tables [simp]:
  "cg_branches (announce nm i c) = cg_branches c" "cg_staff (announce nm i c) = cg_staff c"
  "cg_restaurants (announce nm i c) = cg_restaurants c"
  by (simp_all add: announce_def)

definition livePrimary :: "branchRow \<Rightarrow> bool" where
  "livePrimary b \<longleftrightarrow> b_isPrimary b \<and> br_deletedAt b = None"

definition onePrimary :: "branchRow list \<Rightarrow> bool" where
  "onePrimary bs \<longleftrightarrow> (\<forall>a \<in> set bs. \<forall>b \<in> set bs.
     livePrimary a \<and> livePrimary b \<and> b_restaurantId a = b_restaurantId b \<longrightarrow> b_id a = b_id b)"

definition branchesSound :: "branchRow list \<Rightarrow> bool" where
  "branchesSound bs \<longleftrightarrow> keyed b_id bs \<and> onePrimary bs"

lemma onePrimaryD:
  "onePrimary bs \<Longrightarrow> a \<in> set bs \<Longrightarrow> b \<in> set bs \<Longrightarrow> livePrimary a \<Longrightarrow> livePrimary b \<Longrightarrow>
     b_restaurantId a = b_restaurantId b \<Longrightarrow> b_id a = b_id b"
  unfolding onePrimary_def by blast

definition clearedRow :: "string \<Rightarrow> string option \<Rightarrow> branchRow \<Rightarrow> branchRow" where
  "clearedRow rid x b =
     (if liveBranch rid b \<and> (truthy x \<longrightarrow> Some (b_id b) \<noteq> x) then b\<lparr>b_isPrimary := False\<rparr> else b)"

lemma branches_clearPrimary: "cg_branches (clearPrimary rid x c) = map (clearedRow rid x) (cg_branches c)"
  by (simp add: clearPrimary_def modify_def clearedRow_def)

lemma clearedRow_frame [simp]:
  "b_id (clearedRow rid x b) = b_id b" "b_restaurantId (clearedRow rid x b) = b_restaurantId b"
  "br_deletedAt (clearedRow rid x b) = br_deletedAt b"
  by (simp_all add: clearedRow_def)

lemma clearedRow_primary:
  "livePrimary (clearedRow rid x b) \<Longrightarrow>
     livePrimary b \<and> (b_restaurantId b = rid \<longrightarrow> truthy x \<and> Some (b_id b) = x)"
  by (auto simp: clearedRow_def livePrimary_def liveBranch_def split: if_splits)

lemma ids_map: "(\<And>b. b_id (f b) = b_id b) \<Longrightarrow> b_id ` f ` S = b_id ` S"
  by (simp add: image_image)

lemma keyed_map: "(\<And>b. key (f b) = key b) \<Longrightarrow> keyed key (map f bs) = keyed key bs"
  by (simp add: keyed_def comp_def)

lemma clear_sound: "branchesSound bs \<Longrightarrow> branchesSound (map (clearedRow rid x) bs)"
  unfolding branchesSound_def onePrimary_def
  by (auto simp: keyed_map ids_map dest!: clearedRow_primary)

text \<open>Creating and updating: the written row is the only live primary left when it is one.\<close>

lemma snoc_sound:
  assumes "branchesSound bs" "b_id b \<notin> b_id ` set bs"
    and "\<And>a. a \<in> set bs \<Longrightarrow> livePrimary b \<Longrightarrow> livePrimary a \<Longrightarrow> b_restaurantId a \<noteq> b_restaurantId b"
  shows "branchesSound (bs @ [b])"
proof -
  have "onePrimary (bs @ [b])"
    unfolding onePrimary_def
  proof (intro ballI impI)
    fix x y assume m: "x \<in> set (bs @ [b])" "y \<in> set (bs @ [b])"
      and p: "livePrimary x \<and> livePrimary y \<and> b_restaurantId x = b_restaurantId y"
    have "b_id x = b_id y" if "x \<in> set bs" "y \<in> set bs"
      using that p assms(1) onePrimaryD[of bs x y] by (simp add: branchesSound_def)
    moreover have "b_id x = b_id y" if "x \<in> set bs" "y = b" using that p assms(3)[of x] by simp
    moreover have "b_id x = b_id y" if "x = b" "y \<in> set bs" using that p assms(3)[of y] by simp
    ultimately show "b_id x = b_id y" using m by auto
  qed
  then show ?thesis using assms(1,2) by (simp add: branchesSound_def keyed_snoc)
qed

lemma update_sound:
  assumes "branchesSound bs" and f: "\<And>b. b_id (f b) = b_id b" "\<And>b. b_restaurantId (f b) = b_restaurantId b"
    and others: "\<And>a b. a \<in> set bs \<Longrightarrow> b \<in> set bs \<Longrightarrow> b_id b = bid \<Longrightarrow> b_id a \<noteq> bid \<Longrightarrow>
      livePrimary (f b) \<Longrightarrow> livePrimary a \<Longrightarrow> b_restaurantId a \<noteq> b_restaurantId b"
  shows "branchesSound (modify (\<lambda>b. b_id b = bid) f bs)"
proof -
  have "onePrimary (modify (\<lambda>b. b_id b = bid) f bs)"
    unfolding onePrimary_def
  proof (intro ballI impI)
    fix a b assume "a \<in> set (modify (\<lambda>b. b_id b = bid) f bs)" "b \<in> set (modify (\<lambda>b. b_id b = bid) f bs)"
    then obtain a' b' where m: "a' \<in> set bs" "b' \<in> set bs"
      and a: "a = (if b_id a' = bid then f a' else a')" and b: "b = (if b_id b' = bid then f b' else b')"
      by (auto simp: set_modify)
    assume "livePrimary a \<and> livePrimary b \<and> b_restaurantId a = b_restaurantId b"
    then show "b_id a = b_id b"
      using a b f m others[of a' b'] others[of b' a'] onePrimaryD[of bs a' b'] assms(1)
      by (auto simp: branchesSound_def split: if_splits)
  qed
  then show ?thesis using assms(1) f(1) by (simp add: branchesSound_def)
qed

lemma createBranch_sound:
  assumes "branchesSound (cg_branches c)" "uuid \<notin> b_id ` set (cg_branches c)"
  shows "branchesSound (cg_branches (snd (createBranch uuid now rid dto u c)))"
proof -
  let ?p = "countBranches rid c = 0 \<or> cb_isPrimary dto = Some True"
  let ?bs = "if ?p then map (clearedRow rid None) (cg_branches c) else cg_branches c"
  have "branchesSound (?bs @ [newBranch uuid now rid ?p dto])"
  proof (rule snoc_sound)
    show "branchesSound ?bs" using assms(1) clear_sound by simp
    show "b_id (newBranch uuid now rid ?p dto) \<notin> b_id ` set ?bs"
      using assms(2) by (simp add: newBranch_def ids_map)
  next
    fix a assume "a \<in> set ?bs" "livePrimary (newBranch uuid now rid ?p dto)" "livePrimary a"
    then have "?p" "\<exists>b. a = clearedRow rid None b" by (auto simp: livePrimary_def newBranch_def)
    then show "b_restaurantId a \<noteq> b_restaurantId (newBranch uuid now rid ?p dto)"
      using \<open>livePrimary a\<close> clearedRow_primary by (fastforce simp: newBranch_def truthy_def)
  qed
  then show ?thesis using assms(1)
    by (simp add: createBranch_def Let_def branches_clearPrimary if_distrib[of cg_branches] cong: if_cong)
qed

lemma findBranchById_SomeD: "findBranchById bid c = Some b \<Longrightarrow> b \<in> set (cg_branches c) \<and> b_id b = bid"
  by (auto simp: findBranchById_def dest: find_SomeD)

lemma updateBranch_sound:
  assumes "branchesSound (cg_branches c)"
  shows "branchesSound (cg_branches (snd (updateBranch rid bid dto u c)))"
proof (cases "requireBranchRow rid bid c")
  case (Inr b)
  then have b: "b \<in> set (cg_branches c)" "b_id b = bid" "b_restaurantId b = rid"
    using findBranchById_SomeD[of bid c] by (auto simp: requireBranchRow_def split: option.splits if_splits)
  let ?set = "ub_isPrimary dto = Some True"
  let ?bs = "if ?set then map (clearedRow rid (Some bid)) (cg_branches c) else cg_branches c"
  have sound: "branchesSound ?bs" using assms clear_sound by simp
  have "branchesSound (modify (\<lambda>b. b_id b = bid) (patchBranch dto) ?bs)"
  proof (rule update_sound[OF sound])
    fix x y assume m: "x \<in> set ?bs" "y \<in> set ?bs" and y: "b_id y = bid" and x: "b_id x \<noteq> bid"
      and py: "livePrimary (patchBranch dto y)" and px: "livePrimary x"
    have rid: "b_restaurantId y = rid"
    proof -
      obtain y' where "y' \<in> set (cg_branches c)" "b_id y' = b_id y" "b_restaurantId y' = b_restaurantId y"
        using m(2) by (auto split: if_splits)
      then show ?thesis using keyed_same[of b_id "cg_branches c" y' b] assms b y by (auto simp: branchesSound_def)
    qed
    show "b_restaurantId x \<noteq> b_restaurantId y"
    proof (cases ?set)
      case True
      then obtain x' where "x = clearedRow rid (Some bid) x'" using m(1) by auto
      then show ?thesis using clearedRow_primary[of rid "Some bid" x'] px x rid by auto
    next
      case False
      then have "livePrimary y" using py by (auto simp: livePrimary_def patchBranch_def patchField_def split: option.splits)
      then show ?thesis using onePrimaryD[of ?bs x y] sound m px x y by (auto simp: branchesSound_def)
    qed
  qed (simp_all add: patchBranch_def)
  then show ?thesis using Inr assms sound
    by (cases ?set) (simp_all add: updateBranch_def Let_def updateBranchRow_def branches_clearPrimary
        split: option.split)
qed (simp add: updateBranch_def assms)

lemma removeBranch_sound:
  assumes "branchesSound (cg_branches c)"
  shows "branchesSound (cg_branches (snd (removeBranch now rid bid u c)))"
proof -
  have "branchesSound (modify (\<lambda>b. b_id b = bid) (\<lambda>b. b\<lparr>br_deletedAt := Some now, b_isActive := False\<rparr>) (cg_branches c))"
    by (rule update_sound[OF assms]) (simp_all add: livePrimary_def)
  then show ?thesis using assms
    by (auto simp: removeBranch_def updateBranchRow_def split: sum.splits option.splits)
qed

text \<open>The branch operations; \<open>createBranch\<close> draws an unused id.\<close>

inductive branchStep :: "officeStore \<Rightarrow> officeStore \<Rightarrow> bool" where
  create: "uuid \<notin> b_id ` set (cg_branches c) \<Longrightarrow> branchStep c (snd (createBranch uuid now rid dto u c))"
| update: "branchStep c (snd (updateBranch rid bid dto u c))"
| remove: "branchStep c (snd (removeBranch now rid bid u c))"

lemma branchStep_sound: "branchStep c c' \<Longrightarrow> branchesSound (cg_branches c) \<Longrightarrow> branchesSound (cg_branches c')"
  by (induction rule: branchStep.induct) (simp_all add: createBranch_sound updateBranch_sound removeBranch_sound)

lemma branchSteps_sound:
  "branchStep\<^sup>*\<^sup>* c c' \<Longrightarrow> branchesSound (cg_branches c) \<Longrightarrow> branchesSound (cg_branches c')"
  by (induction rule: rtranclp_induct) (auto intro: branchStep_sound)

lemma all_same_matches:
  assumes "keyed key xs" "Q" "\<And>x y. Q \<Longrightarrow> x \<in> set xs \<Longrightarrow> y \<in> set xs \<Longrightarrow> p x \<Longrightarrow> p y \<Longrightarrow> key x = key y"
  shows "matches p xs \<le> 1"
proof (cases "List.find p xs")
  case (Some x)
  have x: "p x" "x \<in> set xs" using find_SomeD[OF Some] by simp_all
  have "matches p xs = matches (\<lambda>y. key y = key x \<and> p y) xs"
  proof (rule matches_cong)
    fix y assume "y \<in> set xs"
    then show "p y = (key y = key x \<and> p y)" using assms(3)[OF assms(2) _ x(2) _ x(1), of y] by blast
  qed
  then show ?thesis using matches_pk_le_1[OF assms(1)] by simp
qed (simp add: find_None_matches)

text \<open>
  One primary branch.  Along any sequence of branch creations, updates and removals that
  starts without branches, by whomever and in whatever order, a restaurant never has more than
  one live branch flagged as primary.
\<close>

theorem one_primary_branch:
  assumes "branchStep\<^sup>*\<^sup>* c c'" "cg_branches c = []"
  shows "matches (\<lambda>b. liveBranch rid b \<and> b_isPrimary b) (cg_branches c') \<le> 1"
proof -
  have "branchesSound (cg_branches c)" by (simp add: assms(2) branchesSound_def onePrimary_def keyed_def)
  then have "branchesSound (cg_branches c')" by (rule branchSteps_sound[OF assms(1)])
  then have "keyed b_id (cg_branches c')" "onePrimary (cg_branches c')" by (simp_all add: branchesSound_def)
  then show ?thesis
  proof (rule all_same_matches)
    fix x y assume "onePrimary (cg_branches c')" "x \<in> set (cg_branches c')" "y \<in> set (cg_branches c')"
      "liveBranch rid x \<and> b_isPrimary x" "liveBranch rid y \<and> b_isPrimary y"
    then show "b_id x = b_id y" using onePrimaryD[of "cg_branches c'" x y] by (simp add: livePrimary_def liveBranch_def)
  qed
qed

section \<open>A removed primary branch\<close>

lemma find_modify_first:
  "List.find p xs = Some x \<Longrightarrow> (\<And>y. p (f y) = p y) \<Longrightarrow>
     List.find p (modify q f xs) = Some (if q x then f x else x)"
  by (induction xs) (auto split: if_splits)

lemma find_append_first: "List.find p xs = Some x \<Longrightarrow> List.find p (xs @ ys) = Some x"
  by (induction xs) (auto split: if_splits)

lemma filter_modify: "(\<And>y. p (f y) = p y) \<Longrightarrow> filter p (modify q f xs) = modify q f (filter p xs)"
  by (induction xs) auto

lemma selectPrimary_find:
  "List.find b_isPrimary bs = Some b \<Longrightarrow> selectPrimaryBranch bs = Some b"
  by (cases bs) (simp_all add: selectPrimaryBranch_def split: if_splits)

lemma clearedRow_idle: "countBranches rid c = 0 \<Longrightarrow> map (clearedRow rid x) (cg_branches c) = cg_branches c"
  by (rule map_idI) (auto simp: countBranches_def matches_0_iff clearedRow_def)

text \<open>
  A removed branch goes on representing its restaurant.  When the last branch, the primary
  one, is removed and a new branch is opened, the public summary still takes its city, hours and
  distance from the removed row: the removal keeps its primary flag, the flag of removed rows is
  never cleared, and the summary does not look at the removal.
\<close>

theorem removed_primary_still_represents:
  assumes "List.find b_isPrimary (branchesOf rid c) = Some b" "b_id b = bid" "keyed b_id (cg_branches c)"
    and "removeBranch now rid bid u c = (Inr removed, c1)"
    and "createBranch uuid now' rid dto v c1 = (Inr opened, c2)"
  shows "selectPrimaryBranch (branchesOf rid c2) = Some (b\<lparr>br_deletedAt := Some now, b_isActive := False\<rparr>)"
proof -
  let ?del = "\<lambda>b :: branchRow. b\<lparr>br_deletedAt := Some now, b_isActive := False\<rparr>"
  have b: "b \<in> set (cg_branches c)" "b_restaurantId b = rid" "b_isPrimary b"
    using find_SomeD[OF assms(1)] by (auto simp: branchesOf_def)
  obtain b' where b': "requireBranchRow rid bid c = Inr b'" and few: "\<not> (b_isPrimary b' \<and> countBranches rid c > 1)"
    using assms(4) by (auto simp: removeBranch_def split: sum.splits if_splits)
  have "findBranchById bid c = Some b'" using b' by (auto simp: requireBranchRow_def split: option.splits if_splits)
  then have b'_live: "b' \<in> set (cg_branches c)" "b_id b' = bid" "br_deletedAt b' = None"
    by (auto simp: findBranchById_def dest: find_SomeD)
  have same: "b' = b" by (rule keyed_same[OF assms(3) b'_live(1) b(1)]) (simp add: assms(2) b'_live(2))
  have one: "countBranches rid c \<le> 1" using few same b(3) by simp
  have c1: "cg_branches c1 = modify (\<lambda>b. b_id b = bid) ?del (cg_branches c)"
    using assms(4) by (auto simp: removeBranch_def updateBranchRow_def split: sum.splits if_splits option.splits)
  have "countBranches rid c1 = 0"
  proof -
    have "lookup b_id bid (cg_branches c) = Some b" using lookup_keyed[OF assms(3) b(1)] assms(2) by simp
    then have "int (countBranches rid c1) = int (countBranches rid c) - 1"
      using matches_modify_pk[OF assms(3), of bid b "liveBranch rid" "\<lambda>_. True" ?del] b'_live(3) same b(2)
      by (simp add: countBranches_def c1 liveBranch_def)
    then show ?thesis using one by linarith
  qed
  then have "cg_branches c2 = cg_branches c1 @ [opened]"
    using assms(5) by (auto simp: createBranch_def Let_def branches_clearPrimary clearedRow_idle split: if_splits)
  then have "branchesOf rid c2 = modify (\<lambda>b. b_id b = bid) ?del (branchesOf rid c) @ filter (\<lambda>b. b_restaurantId b = rid) [opened]"
    by (simp add: branchesOf_def c1 filter_modify)
  moreover have "List.find b_isPrimary (modify (\<lambda>b. b_id b = bid) ?del (branchesOf rid c)) = Some (?del b)"
    using find_modify_first[OF assms(1), of ?del "\<lambda>b. b_id b = bid"] assms(2) by simp
  ultimately show ?thesis by (simp only: find_append_first selectPrimary_find)
qed

section \<open>Staff\<close>

lemma updateStaffRow_Inr:
  "updateStaffRow sid f c = (Inr s', c') \<longleftrightarrow>
     (\<exists>s. findStaffById sid c = Some s \<and> s' = f s \<and> c' = c\<lparr>cg_staff := modify (\<lambda>s. sf_id s = sid) f (cg_staff c)\<rparr>)"
  by (auto simp: updateStaffRow_def split: option.split)

lemma requireStaff_Inr:
  "requireStaff rid sid c = Inr s \<longleftrightarrow> findStaffById sid c = Some s \<and> sf_restaurantId s = rid"
  by (auto simp: requireStaff_def split: option.split)

lemma findStaffById_modify:
  assumes "\<And>s. sf_id (f s) = sf_id s"
  shows "findStaffById sid (c\<lparr>cg_staff := modify (\<lambda>s. sf_id s = sid) f (cg_staff c)\<rparr>) = map_option f (findStaffById sid c)"
proof (cases "findStaffById sid c")
  case (Some s)
  then have "sf_id s = sid" by (auto simp: findStaffById_def dest: lookup_SomeD)
  then show ?thesis using Some by (simp add: findStaffById_def lookup_modify assms)
qed (simp add: findStaffById_def lookup_modify assms)

lemma findStaffById_audit [simp]: "findStaffById sid (officeAudit uid ent i a c) = findStaffById sid c"
  by (simp add: findStaffById_def)

lemma lookup_map_row: "(\<And>r. key (f r) = key' r) \<Longrightarrow> lookup key k (map f rows) = map_option f (lookup key' k rows)"
  by (induction rows) auto

text \<open>An active staff row gives its user access to the restaurant.\<close>

lemma active_staff_access:
  assumes "findRestaurantRow rid c \<noteq> None" "s \<in> set (cg_staff c)" "sf_restaurantId s = rid"
    and "sm_status (sf_member s) = STAFF_ACTIVE" "sm_userId (sf_member s) = userId u"
  shows "canAccessRestaurant (roleView c) rid u"
proof -
  obtain r where r: "lookup rr_id rid (cg_restaurants c) = Some r"
    using assms(1) by (auto simp: findRestaurantRow_def)
  then have "rr_id r = rid" by (auto dest: lookup_SomeD)
  let ?row = "\<lambda>r. \<lparr>rs_id = rr_id r, rs_ownerId = rr_ownerId r, rs_status = rr_status r,
      rs_staff = map sf_member (filter (\<lambda>s. sf_restaurantId s = rr_id r) (cg_staff c)), rs_settings = map_option orderSettingsOf (lookup se_restaurantId (rr_id r) (cg_settings c))\<rparr>"
  have "lookup rs_id rid (w_restaurants (roleView c)) = Some (?row r)"
    using r by (simp add: roleView_def lookup_map_row[where key' = rr_id])
  moreover have "sf_member s \<in> set (rs_staff (?row r))" using assms(2,3) \<open>rr_id r = rid\<close> by auto
  ultimately show ?thesis unfolding restaurant_access_cases using assms(4,5) by blast
qed

text \<open>
  A revocation does not hold.  After an owner revokes a staff member, that member can accept
  the old invitation again, which succeeds and restores the access to the restaurant: accepting
  checks only whose invitation it is, not that it is still open.
\<close>

theorem revoked_staff_reactivates:
  assumes "revokeStaff now rid sid u c = (Inr s, c1)" "sm_userId (sf_member s) = userId v"
    and "findRestaurantRow rid c \<noteq> None"
  shows "case acceptStaff now' rid sid v c1 of
      (Inl _, _) \<Rightarrow> False
    | (Inr s', c2) \<Rightarrow> sm_role (sf_member s') = sm_role (sf_member s) \<and> canAccessRestaurant (roleView c2) rid v"
proof -
  obtain s0 where s0: "findStaffById sid c = Some s0" "sf_restaurantId s0 = rid" "s = setStaffStatus STAFF_REVOKED now s0"
    and c1: "c1 = officeAudit (userId u) ''RestaurantStaff'' sid ''STATUS_CHANGE''
      (c\<lparr>cg_staff := modify (\<lambda>s. sf_id s = sid) (setStaffStatus STAFF_REVOKED now) (cg_staff c)\<rparr>)"
    using assms(1)
    by (auto simp: revokeStaff_def requireStaff_Inr updateStaffRow_Inr split: sum.splits if_splits prod.splits)
  have f1: "findStaffById sid c1 = Some s"
    using s0 by (simp add: c1 findStaffById_modify setStaffStatus_def)
  have rid: "sf_restaurantId s = rid" using s0 by (simp add: setStaffStatus_def)
  let ?s = "setStaffStatus STAFF_ACTIVE now' s"
  let ?c = "c1\<lparr>cg_staff := modify (\<lambda>s. sf_id s = sid) (setStaffStatus STAFF_ACTIVE now') (cg_staff c1)\<rparr>"
  let ?d = "officeAudit (userId v) ''RestaurantStaff'' sid ''STATUS_CHANGE'' ?c"
  have "acceptStaff now' rid sid v c1 = (Inr ?s, ?d)"
    using f1 rid assms(2) by (simp add: acceptStaff_def requireStaff_def updateStaffRow_def)
  moreover have "canAccessRestaurant (roleView ?d) rid v"
  proof (rule active_staff_access)
    have "findStaffById sid ?c = Some ?s" using f1 by (simp add: findStaffById_modify setStaffStatus_def)
    then show "?s \<in> set (cg_staff ?d)" by (auto simp: findStaffById_def)
    show "findRestaurantRow rid ?d \<noteq> None" using assms(3) by (simp add: findRestaurantRow_def c1)
  qed (use rid assms(2) in \<open>simp_all add: setStaffStatus_def\<close>)
  ultimately show ?thesis by (simp add: setStaffStatus_def)
qed

text \<open>The invitation refuses the owner role, the update does not.\<close>

theorem update_grants_owner:
  assumes "hasRestaurantRole (roleView c) rid u OWNER_ROLES" "findStaffById sid c = Some s" "sf_restaurantId s = rid"
  shows "map_option (\<lambda>s. sm_role (sf_member s)) (findStaffById sid (snd (updateStaff rid sid (Some OWNER) branch u c))) = Some OWNER"
  using assms by (simp add: updateStaff_def requireStaff_def updateStaffRow_def findStaffById_modify patchStaff_def patchField_def)

section \<open>Paperwork\<close>

lemma find_map_key: "lookup key k rows = Some r \<Longrightarrow> (\<And>r. key (f r) = key r) \<Longrightarrow>
    lookup key k (modify (\<lambda>r. key r = k) f rows) = Some (f r)"
  by (frule lookup_key) (simp add: lookup_modify)

section \<open>Settings\<close>

lemma lookup_upsertSettings:
  "lookup se_restaurantId rid (cg_settings (upsertSettingsRow rid d c)) =
     Some (patchSettings d (settingsByRestaurant rid c))"
  by (cases "lookup se_restaurantId rid (cg_settings c)")
    (simp_all add: upsertSettingsRow_def settingsByRestaurant_def find_map_key lookup_append patchSettings_def
      defaultSettings_def)

lemma roleView_restaurant:
  "findRestaurantRow rid c = Some r \<Longrightarrow>
     lookup rs_id rid (w_restaurants (roleView c)) =
       Some \<lparr>rs_id = rid, rs_ownerId = rr_ownerId r, rs_status = rr_status r,
             rs_staff = map sf_member (filter (\<lambda>s. sf_restaurantId s = rid) (cg_staff c)),
             rs_settings = map_option orderSettingsOf (lookup se_restaurantId rid (cg_settings c))\<rparr>"
  using lookup_SomeD[of rr_id rid "cg_restaurants c" r]
  by (simp add: roleView_def findRestaurantRow_def lookup_map_row[where key' = rr_id])

text \<open>
  Settings reach the order code.  After the owner saves order settings, reading them back gives
  the saved fields over the previous or default ones, and the acceptance timeout and auto-accept
  flag the order code then reads are the saved ones.
\<close>

theorem settings_reach_orders:
  assumes "upsertSettings rid d u c = (Inr s, c')" "findRestaurantRow rid c = Some r"
  shows "settingsByRestaurant rid c' = patchSettings d (settingsByRestaurant rid c) \<and>
    getRestaurantOrderSettings (roleView c') rid = orderSettingsOf (patchSettings d (settingsByRestaurant rid c))"
proof -
  have c': "c' = announce ''restaurant.settings.updated'' rid
      (officeAudit (userId u) ''RestaurantSettings'' rid ''UPDATE'' (upsertSettingsRow rid d c))"
    using assms(1) by (simp add: upsertSettings_def Let_def split: if_splits)
  have set: "cg_settings c' = cg_settings (upsertSettingsRow rid d c)"
    by (simp add: c' announce_def officeAudit_def onBase_def)
  have "cg_restaurants c' = cg_restaurants c" by (simp add: c' upsertSettingsRow_def split: option.split)
  then have "findRestaurantRow rid c' = Some r" using assms(2) by (simp add: findRestaurantRow_def)
  then have "getRestaurantOrderSettings (roleView c') rid = orderSettingsOf (patchSettings d (settingsByRestaurant rid c))"
    by (simp add: getRestaurantOrderSettings_def roleView_restaurant set lookup_upsertSettings)
  then show ?thesis by (simp add: settingsByRestaurant_def[of rid c'] set lookup_upsertSettings)
qed

text \<open>
  A changed bank account is pending again; a changed tax profile stays verified.  Every upsert
  of the bank account sets its status back to pending, while replacing the GSTIN of a verified tax
  profile keeps the verification of the old number.
\<close>

theorem tax_profile_keeps_verified:
  assumes "findTaxProfile rid c = Some t" "upsertTaxProfile rid dto u c = (Inr (), c')"
    and "upsertBankAccount enc rid bdto v d = (Inr (), d')"
  shows "(map_option (\<lambda>t. (tp_gstStatus t, tp_gstin t)) (findTaxProfile rid c'),
          map_option ba_status (findBankAccount rid d')) =
     (Some (tp_gstStatus t, patchOpt (ut_gstin dto) (tp_gstin t)), Some VS_PENDING)"
proof -
  have c': "c' = officeAudit (userId u) ''RestaurantTaxProfile'' rid ''UPDATE'' (upsertTaxRow rid dto c)"
    using assms(2) by (simp add: upsertTaxProfile_def split: if_splits)
  have "findTaxProfile rid c' = Some (applyTax dto t)"
    using assms(1) by (simp add: c' upsertTaxRow_def findTaxProfile_def find_map_key applyTax_def)
  then have tax: "map_option (\<lambda>t. (tp_gstStatus t, tp_gstin t)) (findTaxProfile rid c') =
      Some (tp_gstStatus t, patchOpt (ut_gstin dto) (tp_gstin t))" by (simp add: applyTax_def)
  obtain e where "d' = officeAudit (userId v) ''RestaurantBankAccount'' rid ''UPDATE'' (upsertBankRow e rid bdto d)"
    using assms(3) by (auto simp: upsertBankAccount_def split: if_splits option.splits)
  then have "map_option ba_status (findBankAccount rid d') = Some VS_PENDING"
    by (cases "lookup ba_restaurantId rid (ch_bank d)")
      (simp_all add: upsertBankRow_def findBankAccount_def find_map_key lookup_append applyBank_def)
  with tax show ?thesis by simp
qed

text \<open>
  What a compliant restaurant is.  The snapshot says COMPLIANT exactly when the verification
  stands at APPROVED, every latest document is verified and neither expired nor within 30 days of
  its expiry, and no bank account or tax registration is rejected.  Missing paperwork does not
  count against it.
\<close>

theorem compliant_means:
  assumes "getSnapshot now rid u c = (Inr s, c')"
  shows "(cs_overallStatus s = COMPLIANT) =
    (cs_verificationStage s = RV_APPROVED \<and>
     list_all (\<lambda>d. do_status d = VS_VERIFIED \<and>
         (case do_expiryDate d of None \<Rightarrow> True | Some t \<Rightarrow> now + 30 * 24 * 60 * 60 * 1000 < t))
       (findLatestByRestaurant rid c) \<and>
     map_option ba_status (findBankAccount rid c) \<noteq> Some VS_REJECTED \<and>
     map_option tp_gstStatus (findTaxProfile rid c) \<noteq> Some VS_REJECTED \<and>
     map_option tp_fssaiStatus (findTaxProfile rid c) \<noteq> Some VS_REJECTED)"
proof -
  let ?docs = "findLatestByRestaurant rid c"
  obtain v review where v: "restFindOrCreate rid (ch_review c) = (v, review)" by (meson surj_pair)
  have s: "s = snapshotOf now (rv_stage v) ?docs (findTaxProfile rid c) (findBankAccount rid c)"
    using assms v by (auto simp: getSnapshot_def Let_def findLatestByRestaurant_def findTaxProfile_def
        findBankAccount_def split: if_splits)
  have pending: "length ds - matches (\<lambda>d. do_status d = VS_VERIFIED) ds - matches (\<lambda>d. do_status d = VS_REJECTED) ds = 0
      \<and> matches (\<lambda>d. do_status d = VS_REJECTED) ds = 0 \<longleftrightarrow> list_all (\<lambda>d. do_status d = VS_VERIFIED) ds" for ds
  proof (induction ds)
    case (Cons d ds)
    have "matches (\<lambda>d. do_status d = VS_VERIFIED) ds \<le> length ds" by (rule matches_le)
    then show ?case using Cons by (cases "do_status d") auto
  qed simp
  have dates: "(case x of None \<Rightarrow> True | Some t \<Rightarrow> now + 30 * 24 * 60 * 60 * 1000 < t) \<longleftrightarrow>
      \<not> (case x of None \<Rightarrow> False | Some t \<Rightarrow> t < now) \<and>
      \<not> (case x of None \<Rightarrow> False | Some t \<Rightarrow> now \<le> t \<and> t - now \<le> 2592000000)" for x :: "int option"
    by (cases x) auto
  have docs: "list_all (\<lambda>d. do_status d = VS_VERIFIED \<and>
         (case do_expiryDate d of None \<Rightarrow> True | Some t \<Rightarrow> now + 30 * 24 * 60 * 60 * 1000 < t)) ?docs \<longleftrightarrow>
      list_all (\<lambda>d. do_status d = VS_VERIFIED) ?docs \<and>
      filter (\<lambda>d. case do_expiryDate d of None \<Rightarrow> False | Some t \<Rightarrow> t < now) ?docs = [] \<and>
      filter (\<lambda>d. case do_expiryDate d of None \<Rightarrow> False
        | Some t \<Rightarrow> now \<le> t \<and> t - now \<le> 2592000000) ?docs = []"
    unfolding list_all_iff filter_empty_conv by (subst dates) auto
  show ?thesis
    unfolding docs pending[symmetric] by (auto simp: s snapshotOf_def Let_def EXPIRY_WINDOW_DAYS_def)
qed

lemma findLatest_mem:
  "d \<in> set (findLatestByRestaurant rid c) \<longleftrightarrow>
     d \<in> set (ch_documents c) \<and> do_restaurantId d = rid \<and> do_isLatest d \<and> do_deletedAt d = None"
  by (auto simp: findLatestByRestaurant_def)

lemma announce_documents [simp]: "ch_documents (announce nm i c) = ch_documents c"
  by (simp add: announce_def)

lemma uploadDocument_row:
  assumes "uploadDocument uuid now stored id rid dto upl u c = (Inr d, c')" "ud_previousVersionId dto = Some pid" "pid \<noteq> []"
    and "uuid \<noteq> pid"
  shows "\<exists>p. findDocumentById pid c = Some p \<and> do_id d = uuid \<and> do_version d = do_version p + 1 \<and>
     do_restaurantId d = rid \<and> do_isLatest d \<and> do_deletedAt d = None \<and>
     ch_documents c' = modify (\<lambda>d. do_id d = pid) (\<lambda>d. d\<lparr>do_isLatest := False\<rparr>) (ch_documents c) @ [d]"
proof -
  from assms(1,2,3) obtain p url where p: "findDocumentById pid c = Some p"
    and d: "d = newDocument uuid now rid dto upl url (userId u) (Some p)"
    and c': "ch_documents c' = modify (\<lambda>d. do_id d = do_id p) (\<lambda>d. d\<lparr>do_isLatest := False\<rparr>) (ch_documents c @ [d])"
    by (auto simp: uploadDocument_def previousVersion_def updateDocument_def truthy_def Let_def
        split: if_splits option.splits sum.splits prod.splits)
  have "do_id p = pid" using p by (auto simp: findDocumentById_def dest: find_SomeD)
  then show ?thesis using p d c' assms(4) by (simp add: newDocument_def)
qed

text \<open>
  Two uploads fork a document.  An upload naming an older version as its predecessor is
  accepted whether or not that version was superseded already: both successors are then listed as
  the latest version of the same document, with the same version number.
\<close>

theorem uploads_fork:
  assumes "uploadDocument uuid now stored id rid dto upl u c = (Inr d, c1)" "ud_previousVersionId dto = Some pid"
    and "uploadDocument uuid' now' stored' id rid dto' upl' u' c1 = (Inr d', c2)" "ud_previousVersionId dto' = Some pid"
    and "pid \<noteq> []" "uuid \<noteq> pid" "uuid' \<noteq> pid"
  shows "{d, d'} \<subseteq> set (findLatestByRestaurant rid c2) \<and> do_version d = do_version d'"
proof -
  obtain p where p: "findDocumentById pid c = Some p" "do_version d = do_version p + 1" "do_id d = uuid"
    and d: "do_restaurantId d = rid" "do_isLatest d" "do_deletedAt d = None"
    and c1: "ch_documents c1 = modify (\<lambda>d. do_id d = pid) (\<lambda>d. d\<lparr>do_isLatest := False\<rparr>) (ch_documents c) @ [d]"
    using uploadDocument_row[OF assms(1,2,5,6)] by auto
  obtain p' where p': "findDocumentById pid c1 = Some p'" "do_version d' = do_version p' + 1"
    and d': "do_restaurantId d' = rid" "do_isLatest d'" "do_deletedAt d' = None"
    and c2: "ch_documents c2 = modify (\<lambda>d. do_id d = pid) (\<lambda>d. d\<lparr>do_isLatest := False\<rparr>) (ch_documents c1) @ [d']"
    using uploadDocument_row[OF assms(3,4,5,7)] by auto
  have "findDocumentById pid c1 = Some (p\<lparr>do_isLatest := False\<rparr>)"
    using p(1) find_SomeD[OF p(1)[unfolded findDocumentById_def]]
    by (simp add: findDocumentById_def c1 find_append_first
        find_modify_first[where f = "\<lambda>d. d\<lparr>do_isLatest := False\<rparr>"])
  then have "do_version p' = do_version p" using p'(1) by auto
  then show ?thesis using p p'(2) d d' assms(6) by (simp add: findLatest_mem c1 c2)
qed

section \<open>The properties on a concrete restaurant\<close>

definition ana :: authUser where "ana = \<lparr>userId = ''o1'', role = RESTAURANT_OWNER\<rparr>"

definition ben :: authUser where "ben = \<lparr>userId = ''u2'', role = RESTAURANT_MANAGER\<rparr>"

definition benStaff :: staffRow where
  "benStaff = \<lparr>sf_id = ''s1'', sf_restaurantId = ''r1'',
     sf_member = \<lparr>sm_userId = ''u2'', sm_role = STAFF, sm_status = STAFF_ACTIVE, sm_branchId = None\<rparr>,
     sf_invitedById = Some ''o1'', sf_createdAt = 0, sf_respondedAt = Some 1\<rparr>"

definition grill :: restaurantRow where
  "grill = newRestaurant ''r1'' 0 ''o1'' \<lparr>cr_name = ''Grill'', cr_slug = ''grill'', cr_description = None,
      cr_phone = None, cr_email = None\<rparr>"

definition grillTax :: taxProfile where
  "grillTax = \<lparr>tp_restaurantId = ''r1'', tp_gstin = Some ''OLD'', tp_gstLegalName = None,
     tp_gstRegisteredAddress = None, tp_gstBusinessCategory = None, tp_gstRegistrationState = None, tp_gstStatus = VS_VERIFIED,
     tp_gstVerifiedById = None, tp_gstVerifiedAt = None, tp_fssaiNumber = None, tp_fssaiLicenseType = None, tp_fssaiIssueDate = None, tp_fssaiExpiryAt = None,
     tp_fssaiStatus = VS_VERIFIED, tp_fssaiVerifiedById = None, tp_fssaiVerifiedAt = None, tp_pan = None,
     tp_cin = None, tp_businessType = None\<rparr>"

definition grillOffice :: officeStore where
  "grillOffice = \<lparr>cg_base = emptyWorld, cg_restaurants = [grill], cg_branches = [], cg_staff = [benStaff],
     cg_offers = [], cg_reviews = [], cg_media = [], cg_owners = [], cg_published = [], cg_settings = [], ch_documents = [],
     ch_tax = [grillTax], ch_bank = [], ch_review = \<lparr>rvw = emptyWorld, rv_rows = [], dv_rows = [], dv_history = [], on_rows = []\<rparr>, ch_users = []\<rparr>"

lemmas grill_defs = grillOffice_def grill_def grillTax_def benStaff_def ana_def ben_def newRestaurant_def

text \<open>The owner may do everything with the restaurant.\<close>

definition branchForm :: createBranchDto where
  "branchForm = \<lparr>cb_name = ''Main'', cb_addressLine1 = ''1'', cb_addressLine2 = None, cb_landmark = None, cb_city = ''Pune'',
     cb_state = ''MH'', cb_postalCode = ''411001'', cb_latitude = None, cb_longitude = None,
     cb_timezone = None, cb_deliveryRadiusKm = None, cb_phone = None, cb_emergencyContactName = None,
     cb_emergencyContactPhone = None, cb_isPrimary = Some True\<rparr>"

lemma ana_owner:
  "cg_restaurants c = [grill] \<Longrightarrow> getRestaurantRole (roleView c) ''r1'' ana = Some (StaffRole OWNER)"
  by (simp add: getRestaurantRole_def isAdmin_def roleView_def grill_defs)

lemma ana_may:
  "cg_restaurants c = [grill] \<Longrightarrow> hasRestaurantRole (roleView c) ''r1'' ana OWNER_ROLES"
  "cg_restaurants c = [grill] \<Longrightarrow> hasRestaurantRole (roleView c) ''r1'' ana FINANCE_ROLES"
  "cg_restaurants c = [grill] \<Longrightarrow> canAccessRestaurant (roleView c) ''r1'' ana"
  by (simp_all add: hasRestaurantRole_def ana_owner OWNER_ROLES_def FINANCE_ROLES_def canAccessRestaurant_def)

theorem one_primary_branch_witness:
  "matches (\<lambda>b. liveBranch ''r1'' b \<and> b_isPrimary b)
     (cg_branches (snd (createBranch ''b2'' 2 ''r1'' branchForm ana
        (snd (createBranch ''b1'' 1 ''r1'' branchForm ana grillOffice))))) \<le> 1"
proof (rule one_primary_branch)
  let ?c1 = "snd (createBranch ''b1'' 1 ''r1'' branchForm ana grillOffice)"
  have "branchStep grillOffice ?c1" by (rule branchStep.create) (simp add: grill_defs)
  moreover have "branchStep ?c1 (snd (createBranch ''b2'' 2 ''r1'' branchForm ana ?c1))"
    by (rule branchStep.create) (simp add: createBranch_def Let_def newBranch_def branches_clearPrimary grillOffice_def)
  ultimately show "branchStep\<^sup>*\<^sup>* grillOffice (snd (createBranch ''b2'' 2 ''r1'' branchForm ana ?c1))"
    by (meson r_into_rtranclp rtranclp_trans)
qed (simp add: grillOffice_def)

definition oneBranch :: officeStore where
  "oneBranch = grillOffice\<lparr>cg_branches := [newBranch ''b1'' 0 ''r1'' True branchForm]\<rparr>"

lemma oneBranch_tables:
  "cg_branches oneBranch = [newBranch ''b1'' 0 ''r1'' True branchForm]" "cg_restaurants oneBranch = [grill]"
  by (simp_all add: oneBranch_def grillOffice_def)

theorem removed_primary_still_represents_witness:
  "selectPrimaryBranch (branchesOf ''r1'' (snd (createBranch ''b2'' 2 ''r1'' branchForm ana
      (snd (removeBranch 1 ''r1'' ''b1'' ana oneBranch))))) =
   Some ((newBranch ''b1'' 0 ''r1'' True branchForm)\<lparr>br_deletedAt := Some 1, b_isActive := False\<rparr>)"
proof -
  let ?gone = "(newBranch ''b1'' 0 ''r1'' True branchForm)\<lparr>br_deletedAt := Some 1, b_isActive := False\<rparr>"
  obtain c1 where c1: "removeBranch 1 ''r1'' ''b1'' ana oneBranch = (Inr ?gone, c1)" "cg_restaurants c1 = [grill]"
    by (simp add: removeBranch_def requireBranchRow_def findBranchById_def oneBranch_tables newBranch_def ana_may
        countBranches_def updateBranchRow_def liveBranch_def)
  obtain b c2 where c2: "createBranch ''b2'' 2 ''r1'' branchForm ana c1 = (Inr b, c2)"
    by (simp add: createBranch_def ana_may c1(2) Let_def)
  have "selectPrimaryBranch (branchesOf ''r1'' c2) = Some ?gone"
    by (rule removed_primary_still_represents[OF _ _ _ c1(1) c2])
      (simp_all add: branchesOf_def oneBranch_tables newBranch_def keyed_def)
  then show ?thesis using c1 c2 by simp
qed

theorem revoked_staff_reactivates_witness:
  "canAccessRestaurant (roleView (snd (acceptStaff 3 ''r1'' ''s1'' ben
     (snd (revokeStaff 2 ''r1'' ''s1'' ana grillOffice))))) ''r1'' ben"
proof -
  let ?s = "setStaffStatus STAFF_REVOKED 2 benStaff"
  have tabs: "cg_restaurants grillOffice = [grill]" "cg_staff grillOffice = [benStaff]" by (simp_all add: grillOffice_def)
  have found: "findStaffById ''s1'' grillOffice = Some benStaff" "sf_restaurantId benStaff = ''r1''"
    by (simp_all add: findStaffById_def tabs benStaff_def)
  obtain c1 where c1: "revokeStaff 2 ''r1'' ''s1'' ana grillOffice = (Inr ?s, c1)"
    by (simp add: revokeStaff_def requireStaff_def found ana_may[OF tabs(1)] updateStaffRow_def)
  have "case acceptStaff 3 ''r1'' ''s1'' ben c1 of (Inl _, _) \<Rightarrow> False
    | (Inr s', c2) \<Rightarrow> sm_role (sf_member s') = sm_role (sf_member ?s) \<and> canAccessRestaurant (roleView c2) ''r1'' ben"
    by (rule revoked_staff_reactivates[OF c1])
      (simp_all add: findRestaurantRow_def tabs setStaffStatus_def grill_defs)
  then show ?thesis using c1 by (auto split: prod.splits sum.splits)
qed

definition bankForm :: upsertBankAccountDto where
  "bankForm = \<lparr>ub_accountHolderName = ''Ana'', ub_bankName = ''SBI'', ub_branchName = None, ub_accountNumber = ''12345678'',
     ub_ifsc = ''SBIN0001'', ub_upiId = None, ub_cancelledChequeDocumentId = None\<rparr>"

definition taxForm :: upsertTaxProfileDto where
  "taxForm = \<lparr>ut_gstin = Some ''NEW'', ut_gstLegalName = None, ut_gstRegisteredAddress = None,
     ut_gstBusinessCategory = None, ut_gstRegistrationState = None, ut_fssaiNumber = None, ut_fssaiLicenseType = None,
     ut_fssaiIssueDate = None, ut_fssaiExpiryAt = None, ut_pan = None, ut_cin = None, ut_businessType = None\<rparr>"

theorem tax_profile_keeps_verified_witness:
  "(map_option (\<lambda>t. (tp_gstStatus t, tp_gstin t))
      (findTaxProfile ''r1'' (snd (upsertTaxProfile ''r1'' taxForm ana grillOffice))),
    map_option ba_status (findBankAccount ''r1'' (snd (upsertBankAccount (Some rev) ''r1'' bankForm ana grillOffice))))
   = (Some (VS_VERIFIED, Some ''NEW''), Some VS_PENDING)"
proof -
  have tabs: "cg_restaurants grillOffice = [grill]" by (simp add: grillOffice_def)
  obtain c1 c2 where c: "upsertTaxProfile ''r1'' taxForm ana grillOffice = (Inr (), c1)"
    "upsertBankAccount (Some rev) ''r1'' bankForm ana grillOffice = (Inr (), c2)"
    by (simp add: upsertTaxProfile_def upsertBankAccount_def ana_may tabs)
  have "findTaxProfile ''r1'' grillOffice = Some grillTax" by (simp add: findTaxProfile_def grillOffice_def grillTax_def)
  from tax_profile_keeps_verified[OF this c] show ?thesis
    by (simp only: c snd_conv) (simp add: grillTax_def taxForm_def patchOpt_def)
qed

definition busyHours :: settingsDto where
  "busyHours = \<lparr>sd_serviceChargeType = None, sd_serviceChargeValue = None, sd_packingChargeType = None,
     sd_packingChargeValue = None, sd_minimumOrderAmount = Some 99, sd_currency = None, sd_autoAcceptOrders = Some True,
     sd_acceptanceTimeoutMinutes = Some 5, sd_isTemporarilyClosed = None, sd_temporaryClosureReason = None,
     sd_temporaryClosureUntil = None, sd_restaurantNotes = None, sd_specialInstructions = None,
     sd_deliveryRadiusOverrideKm = None, sd_orderPreparationDefaultMinutes = None, sd_notifyOnNewOrder = None,
     sd_notifyOnOrderCancelled = None, sd_notifyOnRefund = None, sd_notifyOnCustomerMessage = None\<rparr>"

theorem settings_reach_orders_witness:
  "getRestaurantOrderSettings (roleView (snd (upsertSettings ''r1'' busyHours ana grillOffice))) ''r1'' =
     \<lparr>st_acceptanceTimeoutMinutes = 5, st_autoAcceptOrders = True\<rparr>"
proof -
  have tabs: "cg_restaurants grillOffice = [grill]" by (simp add: grillOffice_def)
  have "findRestaurantRow ''r1'' grillOffice = Some grill" by (simp add: findRestaurantRow_def tabs grill_def newRestaurant_def)
  moreover obtain s c where "upsertSettings ''r1'' busyHours ana grillOffice = (Inr s, c)"
    by (simp add: upsertSettings_def ana_may tabs Let_def)
  ultimately show ?thesis
    using settings_reach_orders[of "''r1''" busyHours ana grillOffice s c grill]
    by (simp add: settingsByRestaurant_def grillOffice_def orderSettingsOf_def patchSettings_def busyHours_def patchField_def)
qed

text \<open>A restaurant without any paperwork is compliant once approved.\<close>

definition approvedOffice :: officeStore where
  "approvedOffice = grillOffice\<lparr>ch_tax := [], ch_review := (ch_review grillOffice)\<lparr>rv_rows :=
     [\<lparr>rv_restaurantId = ''r1'', rv_stage = RV_APPROVED, rv_submittedAt = None, rv_decidedAt = None, rv_rejectedReason = None\<rparr>]\<rparr>\<rparr>"

theorem compliant_means_witness:
  "map_sum id cs_overallStatus (fst (getSnapshot 0 ''r1'' ana approvedOffice)) = Inr COMPLIANT"
proof -
  have tabs: "cg_restaurants approvedOffice = [grill]" by (simp add: approvedOffice_def grillOffice_def)
  obtain s c where s: "getSnapshot 0 ''r1'' ana approvedOffice = (Inr s, c)" "cs_verificationStage s = RV_APPROVED"
    by (simp add: getSnapshot_def ana_may tabs restFindOrCreate_def approvedOffice_def grillOffice_def snapshotOf_def Let_def)
  have "cs_overallStatus s = COMPLIANT"
    unfolding compliant_means[OF s(1)]
    by (simp add: s(2) findLatestByRestaurant_def findBankAccount_def findTaxProfile_def approvedOffice_def grillOffice_def)
  then show ?thesis by (simp add: s(1))
qed

end
