(* ===== verification/MenuAdmin.thy ===== *)
theory MenuAdmin
  imports Discovery Menu
begin

text \<open>
  The menu as its owners edit it (\<^verbatim>\<open>modules/menu/services/menu.service.ts\<close> and
  \<^verbatim>\<open>modules/menu/repositories/menu.repository.ts\<close>): five tables linked by foreign keys, the
  ownership check in front of every write, the cascades of the deletions, the derived vegetarian
  flags of the restaurant, and the public menu and search.  \<^verbatim>\<open>orderMenu\<close> is the tree of items the
  cart and the placement of orders read (theory \<^verbatim>\<open>Menu\<close>).

  Deleting a row cascades to the rows below it; an item or an add-on option that occurs in an order
  cannot be deleted, a deleted variant is blanked in the orders.  Cart lines and favourites that
  cascade away with an item belong to other theories.  Prices are stored with two places.
\<close>

section \<open>Tables\<close>

record categoryRow =
  mc_id :: string
  mc_restaurantId :: string
  mc_name :: string
  mc_description :: "string option"
  mc_sortOrder :: int
  mc_isActive :: bool

record itemRow =
  ir_id :: string
  ir_categoryId :: string
  ir_name :: string
  ir_description :: "string option"
  ir_imageUrl :: "string option"
  ir_basePrice :: rat
  ir_isVegetarian :: bool
  ir_isVegan :: bool
  ir_isAvailable :: bool

record variantRow =
  vr_id :: string
  vr_menuItemId :: string
  vr_name :: string
  vr_price :: rat
  vr_isDefault :: bool

record addonRow =
  ar_id :: string
  ar_menuItemId :: string
  ar_name :: string
  ar_minSelection :: int
  ar_maxSelection :: int

record addonOptionRow =
  op_id :: string
  op_addonId :: string
  op_name :: string
  op_price :: rat
  op_isAvailable :: bool

record menuStore = catalog +
  mn_categories :: "categoryRow list"
  mn_items :: "itemRow list"
  mn_variants :: "variantRow list"
  mn_addons :: "addonRow list"
  mn_options :: "addonOptionRow list"

section \<open>Owners of the rows\<close>

definition getCategoryRestaurantId :: "string \<Rightarrow> 'z menuStore_scheme \<Rightarrow> string option" where
  "getCategoryRestaurantId cid c = map_option mc_restaurantId (lookup mc_id cid (mn_categories c))"

definition getMenuItemRestaurantId :: "string \<Rightarrow> 'z menuStore_scheme \<Rightarrow> string option" where
  "getMenuItemRestaurantId iid c =
     (case lookup ir_id iid (mn_items c) of None \<Rightarrow> None | Some i \<Rightarrow> getCategoryRestaurantId (ir_categoryId i) c)"

definition getVariantRestaurantId :: "string \<Rightarrow> 'z menuStore_scheme \<Rightarrow> string option" where
  "getVariantRestaurantId vid c =
     (case lookup vr_id vid (mn_variants c) of None \<Rightarrow> None | Some v \<Rightarrow> getMenuItemRestaurantId (vr_menuItemId v) c)"

definition getAddonRestaurantId :: "string \<Rightarrow> 'z menuStore_scheme \<Rightarrow> string option" where
  "getAddonRestaurantId aid c =
     (case lookup ar_id aid (mn_addons c) of None \<Rightarrow> None | Some a \<Rightarrow> getMenuItemRestaurantId (ar_menuItemId a) c)"

definition getAddonOptionRestaurantId :: "string \<Rightarrow> 'z menuStore_scheme \<Rightarrow> string option" where
  "getAddonOptionRestaurantId oid c =
     (case lookup op_id oid (mn_options c) of None \<Rightarrow> None | Some p \<Rightarrow> getAddonRestaurantId (op_addonId p) c)"

definition MENU_MANAGE_ROLES :: "restaurantAccessRole list" where
  "MENU_MANAGE_ROLES = [StaffRole OWNER, StaffRole CO_OWNER, StaffRole BRANCH_MANAGER, AdminRole]"

definition assertCanManageMenu :: "string \<Rightarrow> authUser \<Rightarrow> 'z menuStore_scheme \<Rightarrow> unit result" where
  "assertCanManageMenu rid u c =
     guard (hasRestaurantRole (roleView c) rid u MENU_MANAGE_ROLES) (Forbidden ''manage restaurant menu'')"

definition requireOwner :: "string \<Rightarrow> string option \<Rightarrow> string result" where
  "requireOwner what owner = (if truthy owner then Inr (the owner) else Inl (NotFound what))"

definition requireCategoryRestaurantId :: "string \<Rightarrow> 'z menuStore_scheme \<Rightarrow> string result" where
  "requireCategoryRestaurantId cid c = requireOwner ''Menu category'' (getCategoryRestaurantId cid c)"

definition requireMenuItemRestaurantId :: "string \<Rightarrow> 'z menuStore_scheme \<Rightarrow> string result" where
  "requireMenuItemRestaurantId iid c = requireOwner ''Menu item'' (getMenuItemRestaurantId iid c)"

definition requireVariantRestaurantId :: "string \<Rightarrow> 'z menuStore_scheme \<Rightarrow> string result" where
  "requireVariantRestaurantId vid c = requireOwner ''Menu item variant'' (getVariantRestaurantId vid c)"

definition requireAddonRestaurantId :: "string \<Rightarrow> 'z menuStore_scheme \<Rightarrow> string result" where
  "requireAddonRestaurantId aid c = requireOwner ''Addon group'' (getAddonRestaurantId aid c)"

definition requireAddonOptionRestaurantId :: "string \<Rightarrow> 'z menuStore_scheme \<Rightarrow> string result" where
  "requireAddonOptionRestaurantId oid c = requireOwner ''Addon option'' (getAddonOptionRestaurantId oid c)"

text \<open>Every write: resolve the restaurant, check the role, then touch the tables.\<close>

definition managed ::
  "string result \<Rightarrow> authUser \<Rightarrow> ('z menuStore_scheme \<Rightarrow> ('z menuStore_scheme, 'a) outcome) \<Rightarrow> 'z menuStore_scheme
     \<Rightarrow> ('z menuStore_scheme, 'a) outcome" where
  "managed owner u act c =
     (case andThen owner (\<lambda>rid. assertCanManageMenu rid u c) of
        Inl e \<Rightarrow> (Inl e, c)
      | Inr _ \<Rightarrow> act c)"

section \<open>Repository\<close>

definition foreignKey :: error where "foreignKey = ProviderError ''Foreign key constraint failed''"

text \<open>An update or deletion by primary key; Prisma raises when the row is missing.\<close>

definition updateById ::
  "('r \<Rightarrow> string) \<Rightarrow> string \<Rightarrow> string \<Rightarrow> ('r \<Rightarrow> 'r) \<Rightarrow> 'r list \<Rightarrow> ('r list, 'r) outcome" where
  "updateById key what k f rows =
     (case lookup key k rows of
        None \<Rightarrow> (Inl (RecordNotFound what), rows)
      | Some r \<Rightarrow> (Inr (f r), modify (\<lambda>r. key r = k) f rows))"

definition itemsUnder :: "string \<Rightarrow> 'z menuStore_scheme \<Rightarrow> itemRow list" where
  "itemsUnder cid c = filter (\<lambda>i. ir_categoryId i = cid) (mn_items c)"

definition ordered :: "string \<Rightarrow> 'z menuStore_scheme \<Rightarrow> bool" where
  "ordered iid c \<longleftrightarrow> list_ex (\<lambda>ord. list_ex (\<lambda>i. i_menuItemId i = iid) (o_items ord)) (w_orders (cg_base c))"

definition optionOrdered :: "string \<Rightarrow> 'z menuStore_scheme \<Rightarrow> bool" where
  "optionOrdered oid c \<longleftrightarrow>
     list_ex (\<lambda>ord. list_ex (\<lambda>i. list_ex (\<lambda>a. fst a = oid) (i_addons i)) (o_items ord)) (w_orders (cg_base c))"

definition restaurantItems :: "string \<Rightarrow> 'z menuStore_scheme \<Rightarrow> itemRow list" where
  "restaurantItems rid c = filter (\<lambda>i. getCategoryRestaurantId (ir_categoryId i) c = Some rid) (mn_items c)"

definition recomputeVegFlags :: "string \<Rightarrow> 'z menuStore_scheme \<Rightarrow> ('z menuStore_scheme, restaurantRow) outcome" where
  "recomputeVegFlags rid c =
     (let vegCount = matches ir_isVegetarian (restaurantItems rid c);
          veganCount = matches ir_isVegan (restaurantItems rid c)
      in updateRestaurantRow rid (\<lambda>r. r\<lparr>rr_hasVegOptions := vegCount > 0, rr_hasVeganOptions := veganCount > 0\<rparr>) c)"

text \<open>The recomputation after a write: its failure is the failure of the request, with the write kept.\<close>

definition recomputeFor ::
  "string option \<Rightarrow> 'a \<Rightarrow> 'z menuStore_scheme \<Rightarrow> ('z menuStore_scheme, 'a) outcome" where
  "recomputeFor owner answer c =
     (case owner of
        None \<Rightarrow> (Inr answer, c)
      | Some rid \<Rightarrow> (case recomputeVegFlags rid c of
            (Inl e, c1) \<Rightarrow> (Inl e, c1)
          | (Inr _, c1) \<Rightarrow> (Inr answer, c1)))"

definition insertMenuItem :: "itemRow \<Rightarrow> 'z menuStore_scheme \<Rightarrow> ('z menuStore_scheme, itemRow) outcome" where
  "insertMenuItem i c =
     (if lookup mc_id (ir_categoryId i) (mn_categories c) = None then (Inl foreignKey, c)
      else (let c1 = c\<lparr>mn_items := mn_items c @ [i]\<rparr>
            in recomputeFor (getCategoryRestaurantId (ir_categoryId i) c1) i c1))"

record updateMenuItemDto =
  mu_name :: "string option"
  mu_description :: "string option"
  mu_basePrice :: "rat option"
  mu_isVegetarian :: "bool option"
  mu_isVegan :: "bool option"
  mu_imageUrl :: "string option"

definition patchItem :: "updateMenuItemDto \<Rightarrow> itemRow \<Rightarrow> itemRow" where
  "patchItem d i = i\<lparr>ir_name := patchField (mu_name d) (ir_name i),
     ir_description := patchOpt (mu_description d) (ir_description i),
     ir_basePrice := patchField (map_option dec2 (mu_basePrice d)) (ir_basePrice i),
     ir_isVegetarian := patchField (mu_isVegetarian d) (ir_isVegetarian i),
     ir_isVegan := patchField (mu_isVegan d) (ir_isVegan i), ir_imageUrl := patchOpt (mu_imageUrl d) (ir_imageUrl i)\<rparr>"

definition updateItemRow ::
  "string \<Rightarrow> updateMenuItemDto \<Rightarrow> 'z menuStore_scheme \<Rightarrow> ('z menuStore_scheme, itemRow) outcome" where
  "updateItemRow iid d c =
     (case updateById ir_id ''MenuItem'' iid (patchItem d) (mn_items c) of
        (Inl e, _) \<Rightarrow> (Inl e, c)
      | (Inr i, rows) \<Rightarrow>
          (let c1 = c\<lparr>mn_items := rows\<rparr>
           in if mu_isVegetarian d \<noteq> None \<or> mu_isVegan d \<noteq> None
              then recomputeFor (getCategoryRestaurantId (ir_categoryId i) c1) i c1
              else (Inr i, c1)))"

text \<open>The rows below a set of items go with them.\<close>

definition dropItems :: "(itemRow \<Rightarrow> bool) \<Rightarrow> 'z menuStore_scheme \<Rightarrow> 'z menuStore_scheme" where
  "dropItems p c =
     (let gone = map ir_id (filter p (mn_items c));
          addons = map ar_id (filter (\<lambda>a. ar_menuItemId a \<in> set gone) (mn_addons c))
      in c\<lparr>mn_items := filter (\<lambda>i. \<not> p i) (mn_items c),
           mn_variants := filter (\<lambda>v. vr_menuItemId v \<notin> set gone) (mn_variants c),
           mn_addons := filter (\<lambda>a. ar_menuItemId a \<notin> set gone) (mn_addons c),
           mn_options := filter (\<lambda>p. op_addonId p \<notin> set addons) (mn_options c)\<rparr>)"

definition deleteItemRow :: "string \<Rightarrow> 'z menuStore_scheme \<Rightarrow> ('z menuStore_scheme, itemRow) outcome" where
  "deleteItemRow iid c =
     (case lookup ir_id iid (mn_items c) of
        None \<Rightarrow> (Inl (RecordNotFound ''MenuItem''), c)
      | Some i \<Rightarrow>
          if ordered iid c then (Inl foreignKey, c)
          else
            (let owner = getCategoryRestaurantId (ir_categoryId i) c;
                 c1 = dropItems (\<lambda>i. ir_id i = iid) c
             in if ir_isVegetarian i \<or> ir_isVegan i then recomputeFor owner i c1 else (Inr i, c1)))"

definition deleteCategoryRow :: "string \<Rightarrow> 'z menuStore_scheme \<Rightarrow> ('z menuStore_scheme, categoryRow) outcome" where
  "deleteCategoryRow cid c =
     (case lookup mc_id cid (mn_categories c) of
        None \<Rightarrow> (Inl (RecordNotFound ''MenuCategory''), c)
      | Some k \<Rightarrow>
          if list_ex (\<lambda>i. ordered (ir_id i) c) (itemsUnder cid c) then (Inl foreignKey, c)
          else (Inr k, (dropItems (\<lambda>i. ir_categoryId i = cid) c)
                  \<lparr>mn_categories := filter (\<lambda>k. mc_id k \<noteq> cid) (mn_categories c)\<rparr>))"

definition blankVariant :: "string \<Rightarrow> orderItem \<Rightarrow> orderItem" where
  "blankVariant vid i = (if i_variantId i = Some vid then i\<lparr>i_variantId := None\<rparr> else i)"

definition deleteVariantRow :: "string \<Rightarrow> 'z menuStore_scheme \<Rightarrow> ('z menuStore_scheme, variantRow) outcome" where
  "deleteVariantRow vid c =
     (case lookup vr_id vid (mn_variants c) of
        None \<Rightarrow> (Inl (RecordNotFound ''MenuItemVariant''), c)
      | Some v \<Rightarrow> (Inr v, onBase (\<lambda>w. w\<lparr>w_orders := map (\<lambda>ord. ord\<lparr>o_items := map (blankVariant vid) (o_items ord)\<rparr>)
                     (w_orders w)\<rparr>) (c\<lparr>mn_variants := filter (\<lambda>v. vr_id v \<noteq> vid) (mn_variants c)\<rparr>)))"

definition deleteAddonRow :: "string \<Rightarrow> 'z menuStore_scheme \<Rightarrow> ('z menuStore_scheme, addonRow) outcome" where
  "deleteAddonRow aid c =
     (case lookup ar_id aid (mn_addons c) of
        None \<Rightarrow> (Inl (RecordNotFound ''MenuItemAddon''), c)
      | Some a \<Rightarrow>
          if list_ex (\<lambda>p. op_addonId p = aid \<and> optionOrdered (op_id p) c) (mn_options c) then (Inl foreignKey, c)
          else (Inr a, c\<lparr>mn_addons := filter (\<lambda>a. ar_id a \<noteq> aid) (mn_addons c),
                         mn_options := filter (\<lambda>p. op_addonId p \<noteq> aid) (mn_options c)\<rparr>))"

definition deleteAddonOptionRow :: "string \<Rightarrow> 'z menuStore_scheme \<Rightarrow> ('z menuStore_scheme, addonOptionRow) outcome" where
  "deleteAddonOptionRow oid c =
     (case lookup op_id oid (mn_options c) of
        None \<Rightarrow> (Inl (RecordNotFound ''MenuItemAddonOption''), c)
      | Some p \<Rightarrow>
          if optionOrdered oid c then (Inl foreignKey, c)
          else (Inr p, c\<lparr>mn_options := filter (\<lambda>p. op_id p \<noteq> oid) (mn_options c)\<rparr>))"

section \<open>Service\<close>

record createCategoryDto =
  kc_restaurantId :: string
  kc_name :: string
  kc_description :: "string option"

definition createCategory ::
  "string \<Rightarrow> createCategoryDto \<Rightarrow> authUser \<Rightarrow> 'z menuStore_scheme \<Rightarrow> ('z menuStore_scheme, categoryRow) outcome" where
  "createCategory uuid d u c =
     managed (Inr (kc_restaurantId d)) u (\<lambda>c.
       if findRestaurantRow (kc_restaurantId d) c = None then (Inl foreignKey, c)
       else (let k = \<lparr>mc_id = uuid, mc_restaurantId = kc_restaurantId d, mc_name = kc_name d,
                      mc_description = kc_description d, mc_sortOrder = 0, mc_isActive = True\<rparr>
             in (Inr k, c\<lparr>mn_categories := mn_categories c @ [k]\<rparr>))) c"

record updateCategoryDto =
  ku_name :: "string option"
  ku_description :: "string option"
  ku_isActive :: "bool option"

definition patchCategory :: "updateCategoryDto \<Rightarrow> categoryRow \<Rightarrow> categoryRow" where
  "patchCategory d k = k\<lparr>mc_name := patchField (ku_name d) (mc_name k),
     mc_description := patchOpt (ku_description d) (mc_description k), mc_isActive := patchField (ku_isActive d) (mc_isActive k)\<rparr>"

definition updateCategory ::
  "string \<Rightarrow> updateCategoryDto \<Rightarrow> authUser \<Rightarrow> 'z menuStore_scheme \<Rightarrow> ('z menuStore_scheme, categoryRow) outcome" where
  "updateCategory cid d u c =
     managed (requireCategoryRestaurantId cid c) u (\<lambda>c.
       case updateById mc_id ''MenuCategory'' cid (patchCategory d) (mn_categories c) of
         (Inl e, _) \<Rightarrow> (Inl e, c)
       | (Inr k, rows) \<Rightarrow> (Inr k, c\<lparr>mn_categories := rows\<rparr>)) c"

definition deleteCategory ::
  "string \<Rightarrow> authUser \<Rightarrow> 'z menuStore_scheme \<Rightarrow> ('z menuStore_scheme, categoryRow) outcome" where
  "deleteCategory cid u c = managed (requireCategoryRestaurantId cid c) u (deleteCategoryRow cid) c"

record createMenuItemDto =
  mi_categoryId :: string
  md_name :: string
  md_description :: "string option"
  md_basePrice :: rat
  md_isVegetarian :: "bool option"
  md_isVegan :: "bool option"
  md_imageUrl :: "string option"

definition newMenuItem :: "string \<Rightarrow> createMenuItemDto \<Rightarrow> itemRow" where
  "newMenuItem uuid d =
     \<lparr>ir_id = uuid, ir_categoryId = mi_categoryId d, ir_name = md_name d, ir_description = md_description d,
      ir_imageUrl = md_imageUrl d, ir_basePrice = dec2 (md_basePrice d),
      ir_isVegetarian = patchField (md_isVegetarian d) False, ir_isVegan = patchField (md_isVegan d) False,
      ir_isAvailable = True\<rparr>"

definition createMenuItem ::
  "string \<Rightarrow> createMenuItemDto \<Rightarrow> authUser \<Rightarrow> 'z menuStore_scheme \<Rightarrow> ('z menuStore_scheme, itemRow) outcome" where
  "createMenuItem uuid d u c =
     managed (requireCategoryRestaurantId (mi_categoryId d) c) u (insertMenuItem (newMenuItem uuid d)) c"

definition updateMenuItem ::
  "string \<Rightarrow> updateMenuItemDto \<Rightarrow> authUser \<Rightarrow> 'z menuStore_scheme \<Rightarrow> ('z menuStore_scheme, itemRow) outcome" where
  "updateMenuItem iid d u c = managed (requireMenuItemRestaurantId iid c) u (updateItemRow iid d) c"

definition deleteMenuItem ::
  "string \<Rightarrow> authUser \<Rightarrow> 'z menuStore_scheme \<Rightarrow> ('z menuStore_scheme, itemRow) outcome" where
  "deleteMenuItem iid u c = managed (requireMenuItemRestaurantId iid c) u (deleteItemRow iid) c"

definition toggleAvailability ::
  "string \<Rightarrow> bool \<Rightarrow> authUser \<Rightarrow> 'z menuStore_scheme \<Rightarrow> ('z menuStore_scheme, itemRow) outcome" where
  "toggleAvailability iid available u c =
     managed (requireMenuItemRestaurantId iid c) u (\<lambda>c.
       case updateById ir_id ''MenuItem'' iid (\<lambda>i. i\<lparr>ir_isAvailable := available\<rparr>) (mn_items c) of
         (Inl e, _) \<Rightarrow> (Inl e, c)
       | (Inr i, rows) \<Rightarrow> (Inr i, c\<lparr>mn_items := rows\<rparr>)) c"

definition imagePatch :: "string \<Rightarrow> updateMenuItemDto" where
  "imagePatch url = \<lparr>mu_name = None, mu_description = None, mu_basePrice = None, mu_isVegetarian = None,
     mu_isVegan = None, mu_imageUrl = Some url\<rparr>"

definition uploadMenuItemImage ::
  "string result \<Rightarrow> string \<Rightarrow> authUser \<Rightarrow> 'z menuStore_scheme \<Rightarrow> ('z menuStore_scheme, itemRow) outcome" where
  "uploadMenuItemImage stored iid u c =
     (case lookup ir_id iid (mn_items c) of
        None \<Rightarrow> (Inl (NotFound ''Menu item''), c)
      | Some i \<Rightarrow> managed (requireCategoryRestaurantId (ir_categoryId i) c) u (\<lambda>c.
            case stored of Inl e \<Rightarrow> (Inl e, c) | Inr url \<Rightarrow> updateItemRow iid (imagePatch url) c) c)"

record createVariantDto =
  vc_name :: string
  vc_price :: rat
  vc_isDefault :: "bool option"

definition createVariant ::
  "string \<Rightarrow> string \<Rightarrow> createVariantDto \<Rightarrow> authUser \<Rightarrow> 'z menuStore_scheme \<Rightarrow> ('z menuStore_scheme, variantRow) outcome" where
  "createVariant uuid iid d u c =
     managed (requireMenuItemRestaurantId iid c) u (\<lambda>c.
       let v = \<lparr>vr_id = uuid, vr_menuItemId = iid, vr_name = vc_name d, vr_price = dec2 (vc_price d),
                vr_isDefault = patchField (vc_isDefault d) False\<rparr>
       in (Inr v, c\<lparr>mn_variants := mn_variants c @ [v]\<rparr>)) c"

record updateVariantDto =
  vu_name :: "string option"
  vu_price :: "rat option"
  vu_isDefault :: "bool option"

definition patchVariant :: "updateVariantDto \<Rightarrow> variantRow \<Rightarrow> variantRow" where
  "patchVariant d v = v\<lparr>vr_name := patchField (vu_name d) (vr_name v), vr_price := patchField (map_option dec2 (vu_price d)) (vr_price v),
     vr_isDefault := patchField (vu_isDefault d) (vr_isDefault v)\<rparr>"

definition updateVariant ::
  "string \<Rightarrow> updateVariantDto \<Rightarrow> authUser \<Rightarrow> 'z menuStore_scheme \<Rightarrow> ('z menuStore_scheme, variantRow) outcome" where
  "updateVariant vid d u c =
     managed (requireVariantRestaurantId vid c) u (\<lambda>c.
       case updateById vr_id ''MenuItemVariant'' vid (patchVariant d) (mn_variants c) of
         (Inl e, _) \<Rightarrow> (Inl e, c)
       | (Inr v, rows) \<Rightarrow> (Inr v, c\<lparr>mn_variants := rows\<rparr>)) c"

definition deleteVariant ::
  "string \<Rightarrow> authUser \<Rightarrow> 'z menuStore_scheme \<Rightarrow> ('z menuStore_scheme, variantRow) outcome" where
  "deleteVariant vid u c = managed (requireVariantRestaurantId vid c) u (deleteVariantRow vid) c"

record createAddonDto =
  ac_name :: string
  ac_minSelection :: "int option"
  ac_maxSelection :: "int option"

definition createAddon ::
  "string \<Rightarrow> string \<Rightarrow> createAddonDto \<Rightarrow> authUser \<Rightarrow> 'z menuStore_scheme \<Rightarrow> ('z menuStore_scheme, addonRow) outcome" where
  "createAddon uuid iid d u c =
     managed (requireMenuItemRestaurantId iid c) u (\<lambda>c.
       let a = \<lparr>ar_id = uuid, ar_menuItemId = iid, ar_name = ac_name d,
                ar_minSelection = patchField (ac_minSelection d) 0, ar_maxSelection = patchField (ac_maxSelection d) 1\<rparr>
       in (Inr a, c\<lparr>mn_addons := mn_addons c @ [a]\<rparr>)) c"

record updateAddonDto =
  au_name :: "string option"
  au_minSelection :: "int option"
  au_maxSelection :: "int option"

definition patchAddon :: "updateAddonDto \<Rightarrow> addonRow \<Rightarrow> addonRow" where
  "patchAddon d a = a\<lparr>ar_name := patchField (au_name d) (ar_name a),
     ar_minSelection := patchField (au_minSelection d) (ar_minSelection a),
     ar_maxSelection := patchField (au_maxSelection d) (ar_maxSelection a)\<rparr>"

definition updateAddon ::
  "string \<Rightarrow> updateAddonDto \<Rightarrow> authUser \<Rightarrow> 'z menuStore_scheme \<Rightarrow> ('z menuStore_scheme, addonRow) outcome" where
  "updateAddon aid d u c =
     managed (requireAddonRestaurantId aid c) u (\<lambda>c.
       case updateById ar_id ''MenuItemAddon'' aid (patchAddon d) (mn_addons c) of
         (Inl e, _) \<Rightarrow> (Inl e, c)
       | (Inr a, rows) \<Rightarrow> (Inr a, c\<lparr>mn_addons := rows\<rparr>)) c"

definition deleteAddon ::
  "string \<Rightarrow> authUser \<Rightarrow> 'z menuStore_scheme \<Rightarrow> ('z menuStore_scheme, addonRow) outcome" where
  "deleteAddon aid u c = managed (requireAddonRestaurantId aid c) u (deleteAddonRow aid) c"

record createAddonOptionDto =
  oc_name :: string
  oc_price :: rat
  oc_isAvailable :: "bool option"

definition createAddonOption ::
  "string \<Rightarrow> string \<Rightarrow> createAddonOptionDto \<Rightarrow> authUser \<Rightarrow> 'z menuStore_scheme
     \<Rightarrow> ('z menuStore_scheme, addonOptionRow) outcome" where
  "createAddonOption uuid aid d u c =
     managed (requireAddonRestaurantId aid c) u (\<lambda>c.
       let p = \<lparr>op_id = uuid, op_addonId = aid, op_name = oc_name d, op_price = dec2 (oc_price d),
                op_isAvailable = patchField (oc_isAvailable d) True\<rparr>
       in (Inr p, c\<lparr>mn_options := mn_options c @ [p]\<rparr>)) c"

record updateAddonOptionDto =
  ou_name :: "string option"
  ou_price :: "rat option"
  ou_isAvailable :: "bool option"

definition patchAddonOption :: "updateAddonOptionDto \<Rightarrow> addonOptionRow \<Rightarrow> addonOptionRow" where
  "patchAddonOption d p = p\<lparr>op_name := patchField (ou_name d) (op_name p), op_price := patchField (map_option dec2 (ou_price d)) (op_price p),
     op_isAvailable := patchField (ou_isAvailable d) (op_isAvailable p)\<rparr>"

definition updateAddonOption ::
  "string \<Rightarrow> updateAddonOptionDto \<Rightarrow> authUser \<Rightarrow> 'z menuStore_scheme
     \<Rightarrow> ('z menuStore_scheme, addonOptionRow) outcome" where
  "updateAddonOption oid d u c =
     managed (requireAddonOptionRestaurantId oid c) u (\<lambda>c.
       case updateById op_id ''MenuItemAddonOption'' oid (patchAddonOption d) (mn_options c) of
         (Inl e, _) \<Rightarrow> (Inl e, c)
       | (Inr p, rows) \<Rightarrow> (Inr p, c\<lparr>mn_options := rows\<rparr>)) c"

definition deleteAddonOption ::
  "string \<Rightarrow> authUser \<Rightarrow> 'z menuStore_scheme \<Rightarrow> ('z menuStore_scheme, addonOptionRow) outcome" where
  "deleteAddonOption oid u c = managed (requireAddonOptionRestaurantId oid c) u (deleteAddonOptionRow oid) c"

section \<open>Reading the menu\<close>

definition addonsOf :: "string \<Rightarrow> 'z menuStore_scheme \<Rightarrow> (addonRow \<times> addonOptionRow list) list" where
  "addonsOf iid c = map (\<lambda>a. (a, filter (\<lambda>p. op_addonId p = ar_id a) (mn_options c)))
     (filter (\<lambda>a. ar_menuItemId a = iid) (mn_addons c))"

definition variantsOf :: "string \<Rightarrow> 'z menuStore_scheme \<Rightarrow> variantRow list" where
  "variantsOf iid c = filter (\<lambda>v. vr_menuItemId v = iid) (mn_variants c)"

definition getRestaurantMenu ::
  "string \<Rightarrow> string option \<Rightarrow> 'z menuStore_scheme
     \<Rightarrow> (categoryRow \<times> (itemRow \<times> variantRow list \<times> (addonRow \<times> addonOptionRow list) list) list) list" where
  "getRestaurantMenu rid search c =
     map (\<lambda>k. (k, map (\<lambda>i. (i, variantsOf (ir_id i) c, addonsOf (ir_id i) c))
           (filter (\<lambda>i. ir_isAvailable i \<and> (truthy search \<longrightarrow> containsInsensitive (the search) (ir_name i)))
             (itemsUnder (mc_id k) c))))
       (sort_key mc_sortOrder (filter (\<lambda>k. mc_restaurantId k = rid \<and> mc_isActive k) (mn_categories c)))"

definition searchable :: "string \<Rightarrow> 'z menuStore_scheme \<Rightarrow> itemRow \<Rightarrow> bool" where
  "searchable q c i \<longleftrightarrow> ir_isAvailable i \<and> containsInsensitive q (ir_name i) \<and>
     (case lookup mc_id (ir_categoryId i) (mn_categories c) of
        None \<Rightarrow> False
      | Some k \<Rightarrow> mc_isActive k \<and>
          (case findRestaurantRow (mc_restaurantId k) c of None \<Rightarrow> False | Some r \<Rightarrow> liveRestaurant r))"

definition searchMenuItemsAcrossRestaurants ::
  "string \<Rightarrow> nat \<Rightarrow> nat \<Rightarrow> 'z menuStore_scheme \<Rightarrow> itemRow list \<times> nat" where
  "searchMenuItemsAcrossRestaurants q skip tk c =
     (let rows = filter (searchable q c) (mn_items c)
      in (skipTake skip tk (sort_key (\<lambda>i. textKey (ir_name i)) rows), length rows))"

definition findMenuItemNameMatches :: "string \<Rightarrow> nat \<Rightarrow> 'z menuStore_scheme \<Rightarrow> itemRow list" where
  "findMenuItemNameMatches q limit c = take limit (sort_key (\<lambda>i. textKey (ir_name i)) (filter (searchable q c) (mn_items c)))"

text \<open>The tree the cart and the placement of orders load.\<close>

definition orderAddon :: "addonRow \<times> addonOptionRow list \<Rightarrow> addonGroup" where
  "orderAddon g = \<lparr>ag_id = ar_id (fst g), ag_name = ar_name (fst g), ag_minSelection = ar_minSelection (fst g),
     ag_maxSelection = ar_maxSelection (fst g),
     ag_options = map (\<lambda>p. \<lparr>ao_id = op_id p, ao_name = op_name p, ao_price = op_price p, ao_isAvailable = op_isAvailable p\<rparr>)
       (snd g)\<rparr>"

definition orderItemView :: "string \<Rightarrow> 'z menuStore_scheme \<Rightarrow> itemRow \<Rightarrow> menuItem" where
  "orderItemView rid c i =
     \<lparr>mi_id = ir_id i, mi_restaurantId = rid, mi_name = ir_name i, mi_basePrice = ir_basePrice i,
      mi_isAvailable = ir_isAvailable i,
      mi_variants = map (\<lambda>v. \<lparr>mv_id = vr_id v, mv_price = vr_price v\<rparr>) (variantsOf (ir_id i) c),
      mi_addons = map orderAddon (addonsOf (ir_id i) c)\<rparr>"

definition orderMenu :: "string \<Rightarrow> 'z menuStore_scheme \<Rightarrow> menuItem list" where
  "orderMenu rid c = map (orderItemView rid c) (restaurantItems rid c)"

end
