(* ===== verification/MenuSafety.thy ===== *)
theory MenuSafety
  imports MenuAdmin
begin

text \<open>
  Who can change a menu and what the derived flags are worth: an operation changes the menu of a
  restaurant only for someone with a managing role there; the vegetarian flags equal the menu along
  all item operations, but not after a category is deleted; and a negative price passes through to
  an order line.
\<close>

section \<open>Operations\<close>

datatype menuOp =
    CreateCategory string createCategoryDto
  | UpdateCategory string updateCategoryDto
  | DeleteCategory string
  | CreateItem string createMenuItemDto
  | UpdateItem string updateMenuItemDto
  | DeleteItem string
  | ToggleItem string bool
  | ItemImage "string result" string
  | CreateVariant string string createVariantDto
  | UpdateVariant string updateVariantDto
  | DeleteVariant string
  | CreateAddon string string createAddonDto
  | UpdateAddon string updateAddonDto
  | DeleteAddon string
  | CreateOption string string createAddonOptionDto
  | UpdateOption string updateAddonOptionDto
  | DeleteOption string

fun runMenuOp :: "menuOp \<Rightarrow> authUser \<Rightarrow> menuStore \<Rightarrow> menuStore" where
  "runMenuOp (CreateCategory i d) u c = snd (createCategory i d u c)"
| "runMenuOp (UpdateCategory i d) u c = snd (updateCategory i d u c)"
| "runMenuOp (DeleteCategory i) u c = snd (deleteCategory i u c)"
| "runMenuOp (CreateItem i d) u c = snd (createMenuItem i d u c)"
| "runMenuOp (UpdateItem i d) u c = snd (updateMenuItem i d u c)"
| "runMenuOp (DeleteItem i) u c = snd (deleteMenuItem i u c)"
| "runMenuOp (ToggleItem i b) u c = snd (toggleAvailability i b u c)"
| "runMenuOp (ItemImage s i) u c = snd (uploadMenuItemImage s i u c)"
| "runMenuOp (CreateVariant i p d) u c = snd (createVariant i p d u c)"
| "runMenuOp (UpdateVariant i d) u c = snd (updateVariant i d u c)"
| "runMenuOp (DeleteVariant i) u c = snd (deleteVariant i u c)"
| "runMenuOp (CreateAddon i p d) u c = snd (createAddon i p d u c)"
| "runMenuOp (UpdateAddon i d) u c = snd (updateAddon i d u c)"
| "runMenuOp (DeleteAddon i) u c = snd (deleteAddon i u c)"
| "runMenuOp (CreateOption i p d) u c = snd (createAddonOption i p d u c)"
| "runMenuOp (UpdateOption i d) u c = snd (updateAddonOption i d u c)"
| "runMenuOp (DeleteOption i) u c = snd (deleteAddonOption i u c)"

text \<open>Primary keys, and every item in an existing category.\<close>

definition menuSound :: "menuStore \<Rightarrow> bool" where
  "menuSound c \<longleftrightarrow> keyed mc_id (mn_categories c) \<and> keyed ir_id (mn_items c) \<and> keyed vr_id (mn_variants c) \<and>
     keyed ar_id (mn_addons c) \<and> keyed op_id (mn_options c) \<and>
     (\<forall>i \<in> set (mn_items c). getCategoryRestaurantId (ir_categoryId i) c \<noteq> None)"

section \<open>Frames\<close>

text \<open>All rows of a restaurant's menu: its categories as they are, its items with their variants and
  add-on groups.  What customers browse and what orders are priced by is computed from them.\<close>

definition ownCategories :: "string \<Rightarrow> 'z menuStore_scheme \<Rightarrow> categoryRow list" where
  "ownCategories rid c = filter (\<lambda>k. mc_restaurantId k = rid) (mn_categories c)"

definition menuRows ::
  "string \<Rightarrow> 'z menuStore_scheme
     \<Rightarrow> categoryRow list \<times> (itemRow \<times> variantRow list \<times> (addonRow \<times> addonOptionRow list) list) list" where
  "menuRows rid c = (ownCategories rid c,
     map (\<lambda>i. (i, variantsOf (ir_id i) c, addonsOf (ir_id i) c)) (restaurantItems rid c))"

lemma orderMenu_of_rows: "orderMenu rid c = map (\<lambda>(i, vs, gs). \<lparr>mi_id = ir_id i, mi_restaurantId = rid,
     mi_name = ir_name i, mi_basePrice = ir_basePrice i, mi_isAvailable = ir_isAvailable i,
     mi_variants = map (\<lambda>v. \<lparr>mv_id = vr_id v, mv_price = vr_price v\<rparr>) vs, mi_addons = map orderAddon gs\<rparr>)
   (snd (menuRows rid c))"
  by (simp add: orderMenu_def menuRows_def orderItemView_def comp_def)

lemma items_of_category:
  assumes "menuSound c" "k \<in> set (mn_categories c)" "mc_restaurantId k = rid"
  shows "itemsUnder (mc_id k) c = filter (\<lambda>i. ir_categoryId i = mc_id k) (restaurantItems rid c)"
proof -
  have "getCategoryRestaurantId (mc_id k) c = Some rid"
    using assms lookup_keyed[of mc_id "mn_categories c" k] by (simp add: menuSound_def getCategoryRestaurantId_def)
  then show ?thesis by (auto simp: itemsUnder_def restaurantItems_def filter_filter intro!: filter_cong)
qed

lemma publicMenu_of_rows:
  assumes "menuSound c"
  shows "getRestaurantMenu rid search c = map (\<lambda>k. (k, filter (\<lambda>(i, vs, gs). ir_categoryId i = mc_id k \<and>
       ir_isAvailable i \<and> (truthy search \<longrightarrow> containsInsensitive (the search) (ir_name i))) (snd (menuRows rid c))))
     (sort_key mc_sortOrder (filter mc_isActive (fst (menuRows rid c))))"
proof -
  have "map (\<lambda>i. (i, variantsOf (ir_id i) c, addonsOf (ir_id i) c))
      (filter (\<lambda>i. ir_isAvailable i \<and> (truthy search \<longrightarrow> containsInsensitive (the search) (ir_name i))) (itemsUnder (mc_id k) c)) =
    filter (\<lambda>(i, vs, gs). ir_categoryId i = mc_id k \<and> ir_isAvailable i \<and>
       (truthy search \<longrightarrow> containsInsensitive (the search) (ir_name i))) (snd (menuRows rid c))"
    if "k \<in> set (mn_categories c)" "mc_restaurantId k = rid" for k
    unfolding items_of_category[OF assms that] menuRows_def snd_conv filter_map filter_filter comp_def
    by (auto intro!: arg_cong[where f = "map _"] filter_cong)
  then show ?thesis
    by (auto simp: getRestaurantMenu_def menuRows_def ownCategories_def filter_filter conj_commute intro!: map_cong)
qed

lemma menuRows_cong:
  assumes "ownCategories rid c' = ownCategories rid c" and "restaurantItems rid c' = restaurantItems rid c"
    and "\<And>i. i \<in> set (restaurantItems rid c) \<Longrightarrow> variantsOf (ir_id i) c' = variantsOf (ir_id i) c"
    and "\<And>i. i \<in> set (restaurantItems rid c) \<Longrightarrow> addonsOf (ir_id i) c' = addonsOf (ir_id i) c"
  shows "menuRows rid c' = menuRows rid c"
  using assms by (simp add: menuRows_def)

lemma catalog_updates [simp]:
  "menuRows rid (c\<lparr>cg_restaurants := x\<rparr>) = menuRows rid c" "menuRows rid (c\<lparr>cg_base := w\<rparr>) = menuRows rid c"
  by (simp_all add: menuRows_def ownCategories_def restaurantItems_def getCategoryRestaurantId_def
      variantsOf_def addonsOf_def)

lemma menuRows_recompute [simp]: "menuRows rid (snd (recomputeFor owner x c)) = menuRows rid c"
  by (auto simp: recomputeFor_def recomputeVegFlags_def updateRestaurantRow_def Let_def split: option.splits)

lemma orderMenu_recompute [simp]: "orderMenu rid (snd (recomputeFor owner x c)) = orderMenu rid c"
  unfolding orderMenu_of_rows by simp

lemma restaurantItem_owner:
  assumes "keyed ir_id (mn_items c)" "i \<in> set (restaurantItems rid c)"
  shows "getMenuItemRestaurantId (ir_id i) c = Some rid"
  using assms lookup_keyed[of ir_id "mn_items c" i] by (simp add: restaurantItems_def getMenuItemRestaurantId_def)

lemma variant_owner:
  assumes "menuSound c" "i \<in> set (restaurantItems rid c)" "v \<in> set (mn_variants c)" "vr_menuItemId v = ir_id i"
  shows "getVariantRestaurantId (vr_id v) c = Some rid"
  using assms lookup_keyed[of vr_id "mn_variants c" v] restaurantItem_owner[of c i rid]
  by (simp add: menuSound_def getVariantRestaurantId_def)

lemma addon_owner:
  assumes "menuSound c" "i \<in> set (restaurantItems rid c)" "a \<in> set (mn_addons c)" "ar_menuItemId a = ir_id i"
  shows "getAddonRestaurantId (ar_id a) c = Some rid"
  using assms lookup_keyed[of ar_id "mn_addons c" a] restaurantItem_owner[of c i rid]
  by (simp add: menuSound_def getAddonRestaurantId_def)

lemma option_owner:
  assumes "menuSound c" "i \<in> set (restaurantItems rid c)" "a \<in> set (mn_addons c)" "ar_menuItemId a = ir_id i"
    and "p \<in> set (mn_options c)" "op_addonId p = ar_id a"
  shows "getAddonOptionRestaurantId (op_id p) c = Some rid"
  using assms lookup_keyed[of op_id "mn_options c" p] addon_owner[of c i rid a]
  by (simp add: menuSound_def getAddonOptionRestaurantId_def)

subsection \<open>Writing rows of another restaurant\<close>

lemma variants_frame:
  assumes "\<And>i. i \<in> set (restaurantItems rid c) \<Longrightarrow>
      filter (\<lambda>v. vr_menuItemId v = ir_id i) xs = filter (\<lambda>v. vr_menuItemId v = ir_id i) (mn_variants c)"
  shows "menuRows rid (c\<lparr>mn_variants := xs\<rparr>) = menuRows rid c"
  by (rule menuRows_cong)
    (use assms in \<open>simp_all add: ownCategories_def variantsOf_def addonsOf_def restaurantItems_def getCategoryRestaurantId_def\<close>)

lemma addons_frame:
  assumes "\<And>i. i \<in> set (restaurantItems rid c) \<Longrightarrow>
      filter (\<lambda>a. ar_menuItemId a = ir_id i) xs = filter (\<lambda>a. ar_menuItemId a = ir_id i) (mn_addons c)"
  shows "menuRows rid (c\<lparr>mn_addons := xs\<rparr>) = menuRows rid c"
  by (rule menuRows_cong)
    (use assms in \<open>simp_all add: ownCategories_def variantsOf_def addonsOf_def restaurantItems_def getCategoryRestaurantId_def\<close>)

lemma options_frame:
  assumes "\<And>i a. i \<in> set (restaurantItems rid c) \<Longrightarrow> a \<in> set (mn_addons c) \<Longrightarrow> ar_menuItemId a = ir_id i \<Longrightarrow>
      filter (\<lambda>p. op_addonId p = ar_id a) xs = filter (\<lambda>p. op_addonId p = ar_id a) (mn_options c)"
  shows "menuRows rid (c\<lparr>mn_options := xs\<rparr>) = menuRows rid c"
  by (rule menuRows_cong)
    (use assms in \<open>simp_all add: ownCategories_def variantsOf_def addonsOf_def restaurantItems_def getCategoryRestaurantId_def\<close>)

lemma items_frame:
  assumes "filter (\<lambda>i. getCategoryRestaurantId (ir_categoryId i) c = Some rid) xs = restaurantItems rid c"
  shows "menuRows rid (c\<lparr>mn_items := xs\<rparr>) = menuRows rid c"
  by (rule menuRows_cong)
    (use assms in \<open>simp_all add: ownCategories_def variantsOf_def addonsOf_def restaurantItems_def getCategoryRestaurantId_def\<close>)

lemma categories_frame:
  assumes "filter (\<lambda>k. mc_restaurantId k = rid) xs = ownCategories rid c" and "\<And>i. i \<in> set (mn_items c) \<Longrightarrow> map_option mc_restaurantId (lookup mc_id (ir_categoryId i) xs) =
      getCategoryRestaurantId (ir_categoryId i) c"
  shows "menuRows rid (c\<lparr>mn_categories := xs\<rparr>) = menuRows rid c"
  by (rule menuRows_cong)
    (use assms in \<open>simp_all add: ownCategories_def variantsOf_def addonsOf_def restaurantItems_def getCategoryRestaurantId_def
       cong: filter_cong\<close>)


text \<open>What is left to show for each operation: acting on another restaurant's rows keeps the menu.\<close>

lemma managed_isolated:
  assumes "\<And>r. owner = Inr r \<Longrightarrow> r \<noteq> rid \<Longrightarrow> menuRows rid (snd (act c)) = menuRows rid c"
    and "menuRows rid (snd (managed owner u act c)) \<noteq> menuRows rid c"
  shows "hasRestaurantRole (roleView c) rid u MENU_MANAGE_ROLES"
  using assms by (cases owner) (auto simp: managed_def assertCanManageMenu_def guard_def split: if_splits)

lemma requireOwner_Inr: "requireOwner what x = Inr r \<longleftrightarrow> x = Some r \<and> r \<noteq> []"
  by (cases x) (auto simp: requireOwner_def)

lemmas require_defs = requireCategoryRestaurantId_def requireMenuItemRestaurantId_def requireVariantRestaurantId_def
  requireAddonRestaurantId_def requireAddonOptionRestaurantId_def requireOwner_Inr

subsection \<open>The repository operations\<close>

lemma createCategory_frame:
  assumes "menuSound c" "mc_restaurantId k \<noteq> rid"
  shows "menuRows rid (c\<lparr>mn_categories := mn_categories c @ [k]\<rparr>) = menuRows rid c"
  by (rule categories_frame)
    (use assms in \<open>auto simp: menuSound_def ownCategories_def getCategoryRestaurantId_def lookup_append split: option.splits\<close>)

lemma other_categories:
  assumes "menuSound c" "getCategoryRestaurantId cid c = Some r" "r \<noteq> rid" "k \<in> set (mn_categories c)"
    "mc_restaurantId k = rid"
  shows "mc_id k \<noteq> cid"
  using assms lookup_keyed[of mc_id "mn_categories c" k] by (auto simp: menuSound_def getCategoryRestaurantId_def)

lemma updateCategory_frame:
  assumes "menuSound c" "getCategoryRestaurantId cid c = Some r" "r \<noteq> rid"
  shows "menuRows rid (c\<lparr>mn_categories := modify (\<lambda>k. mc_id k = cid) (patchCategory d) (mn_categories c)\<rparr>) = menuRows rid c"
proof (rule categories_frame)
  show "filter (\<lambda>k. mc_restaurantId k = rid) (modify (\<lambda>k. mc_id k = cid) (patchCategory d) (mn_categories c)) =
      ownCategories rid c"
    unfolding ownCategories_def
    by (rule filter_modify_off) (use other_categories[OF assms] in \<open>auto simp: patchCategory_def\<close>)
qed (simp add: getCategoryRestaurantId_def lookup_modify patchCategory_def option.map_comp comp_def if_distrib
      cong: if_cong)

lemma other_items:
  assumes "menuSound c" "getMenuItemRestaurantId iid c = Some r" "r \<noteq> rid" "i \<in> set (restaurantItems rid c)"
  shows "ir_id i \<noteq> iid"
  using restaurantItem_owner[of c i rid] assms by (auto simp: menuSound_def)

lemma updateItem_frame:
  assumes "menuSound c" "getMenuItemRestaurantId iid c = Some r" "r \<noteq> rid" "\<And>i. ir_categoryId (f i) = ir_categoryId i"
  shows "menuRows rid (c\<lparr>mn_items := modify (\<lambda>i. ir_id i = iid) f (mn_items c)\<rparr>) = menuRows rid c"
  by (rule items_frame, unfold restaurantItems_def, rule filter_modify_off)
    (use other_items[OF assms(1-3)] assms(4) in \<open>simp_all add: restaurantItems_def\<close>)

lemma updateItemRow_frame:
  assumes "menuSound c" "getMenuItemRestaurantId iid c = Some r" "r \<noteq> rid"
  shows "menuRows rid (snd (updateItemRow iid d c)) = menuRows rid c"
  using updateItem_frame[OF assms, of "patchItem d"]
  by (simp add: updateItemRow_def updateById_def Let_def patchItem_def split: option.split)

lemma insertItem_frame:
  assumes "getCategoryRestaurantId (ir_categoryId i) c = Some r" "r \<noteq> rid"
  shows "menuRows rid (snd (insertMenuItem i c)) = menuRows rid c"
proof -
  have "menuRows rid (c\<lparr>mn_items := mn_items c @ [i]\<rparr>) = menuRows rid c"
    by (rule items_frame) (use assms in \<open>simp add: restaurantItems_def\<close>)
  then show ?thesis by (simp add: insertMenuItem_def Let_def)
qed

lemma dropItems_frame:
  assumes "menuSound c" "\<And>i. i \<in> set (restaurantItems rid c) \<Longrightarrow> \<not> p i"
  shows "menuRows rid (dropItems p c) = menuRows rid c"
proof (rule menuRows_cong)
  let ?gone = "map ir_id (filter p (mn_items c))"
  let ?addons = "map ar_id (filter (\<lambda>a. ar_menuItemId a \<in> set ?gone) (mn_addons c))"
  have item: "ir_id i \<notin> set ?gone" if "i \<in> set (restaurantItems rid c)" for i
  proof
    assume "ir_id i \<in> set ?gone"
    then obtain j where j: "j \<in> set (mn_items c)" "p j" "ir_id j = ir_id i" by auto
    have "j = i" using keyed_same[of ir_id "mn_items c" j i] assms(1) that j by (simp add: menuSound_def restaurantItems_def)
    then show False using assms(2)[OF that] j(2) by simp
  qed
  have addon: "ar_id a \<notin> set ?addons" if "i \<in> set (restaurantItems rid c)" "a \<in> set (mn_addons c)" "ar_menuItemId a = ir_id i" for i a
  proof
    assume "ar_id a \<in> set ?addons"
    then obtain b where b: "b \<in> set (mn_addons c)" "ar_menuItemId b \<in> set ?gone" "ar_id b = ar_id a" by auto
    have "b = a" using keyed_same[of ar_id "mn_addons c" b a] assms(1) that b by (simp add: menuSound_def)
    then show False using item[OF that(1)] that(3) b(2) by simp
  qed
  show "ownCategories rid (dropItems p c) = ownCategories rid c" by (simp add: ownCategories_def dropItems_def Let_def)
  have "filter (\<lambda>i. getCategoryRestaurantId (ir_categoryId i) c = Some rid) (filter (\<lambda>i. \<not> p i) (mn_items c)) =
      restaurantItems rid c"
    unfolding restaurantItems_def by (rule filter_filter_off) (use assms(2) in \<open>simp add: restaurantItems_def\<close>)
  then show "restaurantItems rid (dropItems p c) = restaurantItems rid c"
    by (simp add: restaurantItems_def dropItems_def Let_def getCategoryRestaurantId_def)
  fix i assume i: "i \<in> set (restaurantItems rid c)"
  have "filter (\<lambda>v. vr_menuItemId v = ir_id i) (filter (\<lambda>v. vr_menuItemId v \<notin> set ?gone) (mn_variants c)) =
      filter (\<lambda>v. vr_menuItemId v = ir_id i) (mn_variants c)"
    by (rule filter_filter_off) (use item[OF i] in simp)
  then show "variantsOf (ir_id i) (dropItems p c) = variantsOf (ir_id i) c"
    by (simp add: variantsOf_def dropItems_def Let_def)
  have "filter (\<lambda>a. ar_menuItemId a = ir_id i) (filter (\<lambda>a. ar_menuItemId a \<notin> set ?gone) (mn_addons c)) =
      filter (\<lambda>a. ar_menuItemId a = ir_id i) (mn_addons c)"
    by (rule filter_filter_off) (use item[OF i] in simp)
  moreover have "filter (\<lambda>q. op_addonId q = ar_id a) (filter (\<lambda>q. op_addonId q \<notin> set ?addons) (mn_options c)) =
      filter (\<lambda>q. op_addonId q = ar_id a) (mn_options c)" if "a \<in> set (mn_addons c)" "ar_menuItemId a = ir_id i" for a
    by (rule filter_filter_off) (use addon[OF i that] in simp)
  ultimately show "addonsOf (ir_id i) (dropItems p c) = addonsOf (ir_id i) c"
    by (simp add: addonsOf_def dropItems_def Let_def)
qed

lemma deleteItemRow_frame:
  assumes "menuSound c" "getMenuItemRestaurantId iid c = Some r" "r \<noteq> rid"
  shows "menuRows rid (snd (deleteItemRow iid c)) = menuRows rid c"
  using dropItems_frame[OF assms(1), of rid "\<lambda>i. ir_id i = iid"] other_items[OF assms]
  by (simp add: deleteItemRow_def Let_def split: option.split)

lemma deleteCategoryRow_frame:
  assumes "menuSound c" "getCategoryRestaurantId cid c = Some r" "r \<noteq> rid"
  shows "menuRows rid (snd (deleteCategoryRow cid c)) = menuRows rid c"
proof -
  have "menuRows rid ((dropItems p c)\<lparr>mn_categories := filter (\<lambda>k. mc_id k \<noteq> cid) (mn_categories c)\<rparr>) =
      menuRows rid (dropItems p c)" if p: "p = (\<lambda>i. ir_categoryId i = cid)" for p
  proof (rule categories_frame)
    have "filter (\<lambda>k. mc_restaurantId k = rid) (filter (\<lambda>k. mc_id k \<noteq> cid) (mn_categories c)) = ownCategories rid c"
      unfolding ownCategories_def by (rule filter_filter_off) (use other_categories[OF assms] in auto)
    then show "filter (\<lambda>k. mc_restaurantId k = rid) (filter (\<lambda>k. mc_id k \<noteq> cid) (mn_categories c)) =
        ownCategories rid (dropItems p c)"
      by (simp add: ownCategories_def dropItems_def Let_def)
    fix i assume "i \<in> set (mn_items (dropItems p c))"
    then have "ir_categoryId i \<noteq> cid" by (simp add: p dropItems_def Let_def)
    then have eq: "lookup mc_id (ir_categoryId i) (filter (\<lambda>k. mc_id k \<noteq> cid) ks) = lookup mc_id (ir_categoryId i) ks" for ks
      by (induction ks) auto
    show "map_option mc_restaurantId (lookup mc_id (ir_categoryId i) (filter (\<lambda>k. mc_id k \<noteq> cid) (mn_categories c))) =
        getCategoryRestaurantId (ir_categoryId i) (dropItems p c)"
      by (simp add: eq getCategoryRestaurantId_def dropItems_def Let_def)
  qed
  moreover have "menuRows rid (dropItems (\<lambda>i. ir_categoryId i = cid) c) = menuRows rid c"
    by (rule dropItems_frame[OF assms(1)]) (use assms(2,3) in \<open>auto simp: restaurantItems_def\<close>)
  ultimately show ?thesis by (simp add: deleteCategoryRow_def split: option.split)
qed

lemma variantRows_frame:
  assumes "menuSound c" "r \<noteq> rid"
  shows "getMenuItemRestaurantId (vr_menuItemId v) c = Some r \<Longrightarrow>
      menuRows rid (c\<lparr>mn_variants := mn_variants c @ [v]\<rparr>) = menuRows rid c"
    and "getVariantRestaurantId vid c = Some r \<Longrightarrow>
      menuRows rid (c\<lparr>mn_variants := modify (\<lambda>v. vr_id v = vid) (patchVariant d) (mn_variants c)\<rparr>) = menuRows rid c"
    and "getVariantRestaurantId vid c = Some r \<Longrightarrow>
      menuRows rid (c\<lparr>mn_variants := filter (\<lambda>v. vr_id v \<noteq> vid) (mn_variants c)\<rparr>) = menuRows rid c"
proof -
  assume "getMenuItemRestaurantId (vr_menuItemId v) c = Some r"
  then have "vr_menuItemId v \<noteq> ir_id i" if "i \<in> set (restaurantItems rid c)" for i
    using other_items[OF assms(1) _ assms(2) that] by (simp only: neq_commute) blast
  then show "menuRows rid (c\<lparr>mn_variants := mn_variants c @ [v]\<rparr>) = menuRows rid c"
    by (intro variants_frame) simp
next
  assume own: "getVariantRestaurantId vid c = Some r"
  have off: "vr_id v \<noteq> vid" if "i \<in> set (restaurantItems rid c)" "v \<in> set (mn_variants c)" "vr_menuItemId v = ir_id i" for i v
    using variant_owner[OF assms(1) that] own assms(2) by auto
  show "menuRows rid (c\<lparr>mn_variants := modify (\<lambda>v. vr_id v = vid) (patchVariant d) (mn_variants c)\<rparr>) = menuRows rid c"
    by (rule variants_frame, rule filter_modify_off) (use off in \<open>auto simp: patchVariant_def\<close>)
  show "menuRows rid (c\<lparr>mn_variants := filter (\<lambda>v. vr_id v \<noteq> vid) (mn_variants c)\<rparr>) = menuRows rid c"
    by (rule variants_frame, rule filter_filter_off) (use off in auto)
qed

lemma addonRows_frame:
  assumes "menuSound c" "r \<noteq> rid"
  shows "getMenuItemRestaurantId (ar_menuItemId a) c = Some r \<Longrightarrow>
      menuRows rid (c\<lparr>mn_addons := mn_addons c @ [a]\<rparr>) = menuRows rid c"
    and "getAddonRestaurantId aid c = Some r \<Longrightarrow>
      menuRows rid (c\<lparr>mn_addons := modify (\<lambda>a. ar_id a = aid) (patchAddon d) (mn_addons c)\<rparr>) = menuRows rid c"
    and "getAddonRestaurantId aid c = Some r \<Longrightarrow>
      menuRows rid (c\<lparr>mn_addons := filter (\<lambda>a. ar_id a \<noteq> aid) (mn_addons c),
                      mn_options := filter (\<lambda>p. op_addonId p \<noteq> aid) (mn_options c)\<rparr>) = menuRows rid c"
proof -
  assume "getMenuItemRestaurantId (ar_menuItemId a) c = Some r"
  then have "ar_menuItemId a \<noteq> ir_id i" if "i \<in> set (restaurantItems rid c)" for i
    using other_items[OF assms(1) _ assms(2) that] by (simp only: neq_commute) blast
  then show "menuRows rid (c\<lparr>mn_addons := mn_addons c @ [a]\<rparr>) = menuRows rid c"
    by (intro addons_frame) simp
next
  assume own: "getAddonRestaurantId aid c = Some r"
  have off: "ar_id a \<noteq> aid" if "i \<in> set (restaurantItems rid c)" "a \<in> set (mn_addons c)" "ar_menuItemId a = ir_id i" for i a
    using addon_owner[OF assms(1) that] own assms(2) by auto
  show "menuRows rid (c\<lparr>mn_addons := modify (\<lambda>a. ar_id a = aid) (patchAddon d) (mn_addons c)\<rparr>) = menuRows rid c"
    by (rule addons_frame, rule filter_modify_off) (use off in \<open>auto simp: patchAddon_def\<close>)
  let ?c = "c\<lparr>mn_addons := filter (\<lambda>a. ar_id a \<noteq> aid) (mn_addons c)\<rparr>"
  have "menuRows rid (?c\<lparr>mn_options := filter (\<lambda>p. op_addonId p \<noteq> aid) (mn_options ?c)\<rparr>) = menuRows rid ?c"
    by (rule options_frame, rule filter_filter_off) auto
  also have "\<dots> = menuRows rid c"
    by (rule addons_frame, rule filter_filter_off) (use off in auto)
  finally show "menuRows rid (c\<lparr>mn_addons := filter (\<lambda>a. ar_id a \<noteq> aid) (mn_addons c),
      mn_options := filter (\<lambda>p. op_addonId p \<noteq> aid) (mn_options c)\<rparr>) = menuRows rid c" by simp
qed

lemma optionRows_frame:
  assumes "menuSound c" "r \<noteq> rid"
  shows "getAddonRestaurantId (op_addonId p) c = Some r \<Longrightarrow>
      menuRows rid (c\<lparr>mn_options := mn_options c @ [p]\<rparr>) = menuRows rid c"
    and "getAddonOptionRestaurantId oid c = Some r \<Longrightarrow>
      menuRows rid (c\<lparr>mn_options := modify (\<lambda>p. op_id p = oid) (patchAddonOption d) (mn_options c)\<rparr>) = menuRows rid c"
    and "getAddonOptionRestaurantId oid c = Some r \<Longrightarrow>
      menuRows rid (c\<lparr>mn_options := filter (\<lambda>p. op_id p \<noteq> oid) (mn_options c)\<rparr>) = menuRows rid c"
proof -
  assume "getAddonRestaurantId (op_addonId p) c = Some r"
  then have "op_addonId p \<noteq> ar_id a" if "i \<in> set (restaurantItems rid c)" "a \<in> set (mn_addons c)" "ar_menuItemId a = ir_id i" for i a
    using addon_owner[OF assms(1) that] assms(2) by auto
  then show "menuRows rid (c\<lparr>mn_options := mn_options c @ [p]\<rparr>) = menuRows rid c"
    by (intro options_frame) simp
next
  assume own: "getAddonOptionRestaurantId oid c = Some r"
  have off: "op_id p \<noteq> oid" if "i \<in> set (restaurantItems rid c)" "a \<in> set (mn_addons c)" "ar_menuItemId a = ir_id i"
    "p \<in> set (mn_options c)" "op_addonId p = ar_id a" for i a p
    using option_owner[OF assms(1) that] own assms(2) by auto
  show "menuRows rid (c\<lparr>mn_options := modify (\<lambda>p. op_id p = oid) (patchAddonOption d) (mn_options c)\<rparr>) = menuRows rid c"
    by (rule options_frame, rule filter_modify_off) (use off in \<open>auto simp: patchAddonOption_def\<close>)
  show "menuRows rid (c\<lparr>mn_options := filter (\<lambda>p. op_id p \<noteq> oid) (mn_options c)\<rparr>) = menuRows rid c"
    by (rule options_frame, rule filter_filter_off) (use off in auto)
qed

lemma image_isolated:
  assumes "menuSound c" "menuRows rid (snd (uploadMenuItemImage st i u c)) \<noteq> menuRows rid c"
  shows "hasRestaurantRole (roleView c) rid u MENU_MANAGE_ROLES"
proof -
  obtain it where it: "lookup ir_id i (mn_items c) = Some it"
    using assms(2) by (cases "lookup ir_id i (mn_items c)") (simp_all add: uploadMenuItemImage_def)
  have changed: "menuRows rid (snd (managed (requireCategoryRestaurantId (ir_categoryId it) c) u (\<lambda>c.
      case st of Inl e \<Rightarrow> (Inl e, c) | Inr url \<Rightarrow> updateItemRow i (imagePatch url) c) c)) \<noteq> menuRows rid c"
    using it assms(2) by (simp add: uploadMenuItemImage_def)
  show ?thesis
  proof (rule managed_isolated[OF _ changed])
    fix r assume "requireCategoryRestaurantId (ir_categoryId it) c = Inr r" "r \<noteq> rid"
    then have "menuRows rid (snd (updateItemRow i d c)) = menuRows rid c" for d
      using it by (intro updateItemRow_frame[OF assms(1)]) (simp_all add: require_defs getMenuItemRestaurantId_def)
    then show "menuRows rid (snd (case st of Inl e \<Rightarrow> (Inl e, c) | Inr url \<Rightarrow> updateItemRow i (imagePatch url) c)) =
        menuRows rid c" by (cases st) simp_all
  qed
qed

definition changesExtras :: "menuOp \<Rightarrow> bool" where
  "changesExtras m =
     (case m of CreateVariant _ _ _ \<Rightarrow> True | UpdateVariant _ _ \<Rightarrow> True | DeleteVariant _ \<Rightarrow> True
      | CreateAddon _ _ _ \<Rightarrow> True | UpdateAddon _ _ \<Rightarrow> True | DeleteAddon _ \<Rightarrow> True
      | CreateOption _ _ _ \<Rightarrow> True | UpdateOption _ _ \<Rightarrow> True | DeleteOption _ \<Rightarrow> True | _ \<Rightarrow> False)"

lemma extras_isolated:
  assumes "menuSound c" "menuRows rid (runMenuOp m u c) \<noteq> menuRows rid c" "changesExtras m"
  shows "hasRestaurantRole (roleView c) rid u MENU_MANAGE_ROLES"
proof (cases m)
  case (CreateVariant i pid d)
  show ?thesis
    by (rule managed_isolated[OF _ assms(2)[unfolded CreateVariant runMenuOp.simps createVariant_def]])
      (simp add: require_defs Let_def variantRows_frame(1)[OF assms(1)])
next
  case (UpdateVariant i d)
  show ?thesis
    by (rule managed_isolated[OF _ assms(2)[unfolded UpdateVariant runMenuOp.simps updateVariant_def]])
      (simp add: require_defs updateById_def variantRows_frame(2)[OF assms(1)] split: option.split)
next
  case (DeleteVariant i)
  show ?thesis
    by (rule managed_isolated[OF _ assms(2)[unfolded DeleteVariant runMenuOp.simps deleteVariant_def]])
      (simp add: require_defs deleteVariantRow_def onBase_def variantRows_frame(3)[OF assms(1)] split: option.split)
next
  case (CreateAddon i pid d)
  show ?thesis
    by (rule managed_isolated[OF _ assms(2)[unfolded CreateAddon runMenuOp.simps createAddon_def]])
      (simp add: require_defs Let_def addonRows_frame(1)[OF assms(1)])
next
  case (UpdateAddon i d)
  show ?thesis
    by (rule managed_isolated[OF _ assms(2)[unfolded UpdateAddon runMenuOp.simps updateAddon_def]])
      (simp add: require_defs updateById_def addonRows_frame(2)[OF assms(1)] split: option.split)
next
  case (DeleteAddon i)
  show ?thesis
    by (rule managed_isolated[OF _ assms(2)[unfolded DeleteAddon runMenuOp.simps deleteAddon_def]])
      (simp add: require_defs deleteAddonRow_def addonRows_frame(3)[OF assms(1)] split: option.split)
next
  case (CreateOption i pid d)
  show ?thesis
    by (rule managed_isolated[OF _ assms(2)[unfolded CreateOption runMenuOp.simps createAddonOption_def]])
      (simp add: require_defs Let_def optionRows_frame(1)[OF assms(1)])
next
  case (UpdateOption i d)
  show ?thesis
    by (rule managed_isolated[OF _ assms(2)[unfolded UpdateOption runMenuOp.simps updateAddonOption_def]])
      (simp add: require_defs updateById_def optionRows_frame(2)[OF assms(1)] split: option.split)
next
  case (DeleteOption i)
  show ?thesis
    by (rule managed_isolated[OF _ assms(2)[unfolded DeleteOption runMenuOp.simps deleteAddonOption_def]])
      (simp add: require_defs deleteAddonOptionRow_def optionRows_frame(3)[OF assms(1)] split: option.split)
qed (use assms(3) in \<open>simp_all add: changesExtras_def\<close>)

text \<open>
  C31. Menus are isolated.  Whatever menu operation a user requests, with any ids, a row of a
  restaurant's menu (a category with its name, description, order and flag, an item with all its
  columns, a variant, an add-on group or an option) is added, changed or removed only if the user
  manages that restaurant's menu: owner, co-owner, branch manager or platform administrator.
\<close>

theorem menu_isolated:
  assumes "menuSound c" "menuRows rid (runMenuOp m u c) \<noteq> menuRows rid c"
  shows "hasRestaurantRole (roleView c) rid u MENU_MANAGE_ROLES"
proof (cases m)
  case (CreateCategory i d)
  show ?thesis
    by (rule managed_isolated[OF _ assms(2)[unfolded CreateCategory runMenuOp.simps createCategory_def]])
      (auto simp: createCategory_frame[OF assms(1)] Let_def)
next
  case (UpdateCategory i d)
  show ?thesis
    by (rule managed_isolated[OF _ assms(2)[unfolded UpdateCategory runMenuOp.simps updateCategory_def]])
      (simp add: require_defs updateById_def updateCategory_frame[OF assms(1)] split: option.split)
next
  case (DeleteCategory i)
  show ?thesis
    by (rule managed_isolated[OF _ assms(2)[unfolded DeleteCategory runMenuOp.simps deleteCategory_def]])
      (simp add: require_defs deleteCategoryRow_frame[OF assms(1)])
next
  case (CreateItem i d)
  show ?thesis
    by (rule managed_isolated[OF _ assms(2)[unfolded CreateItem runMenuOp.simps createMenuItem_def]])
      (simp add: require_defs insertItem_frame newMenuItem_def)
next
  case (UpdateItem i d)
  show ?thesis
    by (rule managed_isolated[OF _ assms(2)[unfolded UpdateItem runMenuOp.simps updateMenuItem_def]])
      (simp add: require_defs updateItemRow_frame[OF assms(1)])
next
  case (DeleteItem i)
  show ?thesis
    by (rule managed_isolated[OF _ assms(2)[unfolded DeleteItem runMenuOp.simps deleteMenuItem_def]])
      (simp add: require_defs deleteItemRow_frame[OF assms(1)])
next
  case (ToggleItem i b)
  show ?thesis
    by (rule managed_isolated[OF _ assms(2)[unfolded ToggleItem runMenuOp.simps toggleAvailability_def]])
      (simp add: require_defs updateById_def updateItem_frame[OF assms(1)] split: option.split)
next
  case (ItemImage st i)
  then show ?thesis using assms(2) by (intro image_isolated[OF assms(1)]) simp
qed (use extras_isolated[OF assms] in \<open>simp_all add: changesExtras_def\<close>)

section \<open>Vegetarian flags\<close>

definition vegRow :: "menuStore \<Rightarrow> restaurantRow \<Rightarrow> bool" where
  "vegRow c r \<longleftrightarrow>
     rr_hasVegOptions r = (0 < matches ir_isVegetarian (restaurantItems (rr_id r) c)) \<and>
     rr_hasVeganOptions r = (0 < matches ir_isVegan (restaurantItems (rr_id r) c))"

definition vegInv :: "menuStore \<Rightarrow> bool" where
  "vegInv c \<longleftrightarrow> keyed mc_id (mn_categories c) \<and> keyed ir_id (mn_items c) \<and>
     (\<forall>i \<in> set (mn_items c). getCategoryRestaurantId (ir_categoryId i) c \<noteq> None) \<and>
     (\<forall>r \<in> set (cg_restaurants c). vegRow c r)"

lemma vegInv_same:
  assumes "mn_items c' = mn_items c" "mn_categories c' = mn_categories c" "cg_restaurants c' = cg_restaurants c"
  shows "vegInv c' = vegInv c"
  using assms by (simp add: vegInv_def vegRow_def restaurantItems_def getCategoryRestaurantId_def)

lemma vegInv_rows [simp]:
  "vegInv (c\<lparr>mn_variants := vs\<rparr>) = vegInv c" "vegInv (c\<lparr>mn_addons := gs\<rparr>) = vegInv c"
  "vegInv (c\<lparr>mn_options := ps\<rparr>) = vegInv c" "vegInv (c\<lparr>cg_base := w\<rparr>) = vegInv c"
  by (rule vegInv_same; simp)+

lemma vegRow_same:
  assumes "mn_items c' = mn_items c" "mn_categories c' = mn_categories c"
  shows "vegRow c' = vegRow c"
  using assms by (intro ext) (simp add: vegRow_def restaurantItems_def getCategoryRestaurantId_def)

text \<open>Recomputing one restaurant repairs its row, the others must have been right.\<close>

lemma recompute_rows:
  assumes "\<And>r. r \<in> set (cg_restaurants c) \<Longrightarrow> rr_id r \<noteq> rid \<Longrightarrow> vegRow c r"
    and "r \<in> set (cg_restaurants (snd (recomputeVegFlags rid c)))"
  shows "vegRow c r"
  using assms(2)
  by (auto simp: recomputeVegFlags_def updateRestaurantRow_def findRestaurantRow_def Let_def set_modify
      intro: assms(1) split: option.splits if_splits dest: fresh_neq simp: lookup_None_iff)
     (simp_all add: vegRow_def)

lemma recompute_tables [simp]:
  "mn_items (snd (recomputeVegFlags rid c)) = mn_items c" "mn_categories (snd (recomputeVegFlags rid c)) = mn_categories c"
  by (simp_all add: recomputeVegFlags_def updateRestaurantRow_def Let_def split: option.split)

lemma snd_recomputeFor: "snd (recomputeFor owner x c) = (case owner of None \<Rightarrow> c | Some rid \<Rightarrow> snd (recomputeVegFlags rid c))"
  by (auto simp: recomputeFor_def split: option.split prod.splits sum.splits)

lemma vegInv_recompute:
  assumes "keyed mc_id (mn_categories c)" "keyed ir_id (mn_items c)"
    and "\<forall>i \<in> set (mn_items c). getCategoryRestaurantId (ir_categoryId i) c \<noteq> None"
    and "\<And>r. r \<in> set (cg_restaurants c) \<Longrightarrow> rr_id r \<noteq> rid \<Longrightarrow> vegRow c r"
  shows "vegInv (snd (recomputeFor (Some rid) x c))"
  using recompute_rows[OF assms(4)] assms(1-3) vegRow_same[of "snd (recomputeVegFlags rid c)" c]
  by (simp add: vegInv_def snd_recomputeFor getCategoryRestaurantId_def)

lemma restaurantItems_update:
  assumes "keyed ir_id (mn_items c)" "getMenuItemRestaurantId iid c = Some r" "r \<noteq> rid" "\<And>i. ir_categoryId (f i) = ir_categoryId i"
  shows "filter (\<lambda>i. getCategoryRestaurantId (ir_categoryId i) c = Some rid) (modify (\<lambda>i. ir_id i = iid) f (mn_items c)) =
    restaurantItems rid c"
  unfolding restaurantItems_def
proof (rule filter_modify_off)
  fix i assume "i \<in> set (mn_items c)" "getCategoryRestaurantId (ir_categoryId i) c = Some rid"
  then show "ir_id i \<noteq> iid" using restaurantItem_owner[OF assms(1), of i rid] assms(2,3) by (auto simp: restaurantItems_def)
qed (simp add: assms(4))

lemma vegRow_items:
  "vegRow (c\<lparr>mn_items := xs\<rparr>) r \<longleftrightarrow>
     rr_hasVegOptions r = (0 < matches ir_isVegetarian
        (filter (\<lambda>i. getCategoryRestaurantId (ir_categoryId i) c = Some (rr_id r)) xs)) \<and>
     rr_hasVeganOptions r = (0 < matches ir_isVegan
        (filter (\<lambda>i. getCategoryRestaurantId (ir_categoryId i) c = Some (rr_id r)) xs))"
  by (simp add: vegRow_def restaurantItems_def getCategoryRestaurantId_def)

lemma getCategory_items [simp]: "getCategoryRestaurantId k (c\<lparr>mn_items := xs\<rparr>) = getCategoryRestaurantId k c"
  by (simp add: getCategoryRestaurantId_def)

text \<open>A table of items that keeps the keys and categories, and the rows of the other restaurants.\<close>

lemma vegInv_items:
  assumes "vegInv c" "keyed ir_id xs" "\<And>i. i \<in> set xs \<Longrightarrow> getCategoryRestaurantId (ir_categoryId i) c \<noteq> None"
    and "\<And>rid'. rid' \<noteq> rid \<Longrightarrow>
      filter (\<lambda>i. getCategoryRestaurantId (ir_categoryId i) c = Some rid') xs = restaurantItems rid' c"
  shows "vegInv (snd (recomputeFor (Some rid) x (c\<lparr>mn_items := xs\<rparr>)))"
proof (rule vegInv_recompute)
  fix r assume "r \<in> set (cg_restaurants (c\<lparr>mn_items := xs\<rparr>))" "rr_id r \<noteq> rid"
  then have "vegRow c r" "rr_id r \<noteq> rid" using assms(1) by (simp_all add: vegInv_def)
  then show "vegRow (c\<lparr>mn_items := xs\<rparr>) r" by (simp add: vegRow_items assms(4)) (simp add: vegRow_def)
qed (use assms in \<open>simp_all add: vegInv_def\<close>)

lemma keyed_map_same: "map key xs = map key ys \<Longrightarrow> keyed key xs = keyed key ys"
  by (simp add: keyed_def)

lemma vegInv_patch:
  assumes "vegInv c" "\<And>i. ir_id (f i) = ir_id i" "\<And>i. ir_categoryId (f i) = ir_categoryId i"
    "\<And>i. ir_isVegetarian (f i) = ir_isVegetarian i" "\<And>i. ir_isVegan (f i) = ir_isVegan i"
  shows "vegInv (c\<lparr>mn_items := modify p f (mn_items c)\<rparr>)"
proof -
  have "matches q (filter P (modify p f xs)) = matches q (filter P xs)"
    if "\<And>i. P (f i) = P i" "\<And>i. q (f i) = q i" for P q and xs :: "itemRow list"
    using that by (induction xs) auto
  then have "vegRow (c\<lparr>mn_items := modify p f (mn_items c)\<rparr>) r = vegRow c r" for r
    using assms(3-5) by (simp add: vegRow_items) (simp add: vegRow_def restaurantItems_def)
  then show ?thesis using assms by (auto simp: vegInv_def set_modify)
qed

lemma vegInv_updateItem:
  assumes "vegInv c"
  shows "vegInv (snd (updateItemRow iid d c))"
proof (cases "lookup ir_id iid (mn_items c)")
  case (Some i)
  let ?xs = "modify (\<lambda>i. ir_id i = iid) (patchItem d) (mn_items c)"
  have frame: "ir_id (patchItem d i) = ir_id i" "ir_categoryId (patchItem d i) = ir_categoryId i" for i
    by (simp_all add: patchItem_def)
  show ?thesis
  proof (cases "mu_isVegetarian d \<noteq> None \<or> mu_isVegan d \<noteq> None")
    case True
    have "i \<in> set (mn_items c)" using Some by (rule lookup_mem)
    then obtain rid where rid: "getCategoryRestaurantId (ir_categoryId i) c = Some rid"
      using assms by (auto simp: vegInv_def)
    then have own: "getMenuItemRestaurantId iid c = Some rid" using Some by (simp add: getMenuItemRestaurantId_def)
    have "vegInv (snd (recomputeFor (Some rid) (patchItem d i) (c\<lparr>mn_items := ?xs\<rparr>)))"
    proof (rule vegInv_items[OF assms])
      show "keyed ir_id ?xs" using assms frame by (simp add: vegInv_def)
      show "getCategoryRestaurantId (ir_categoryId j) c \<noteq> None" if "j \<in> set ?xs" for j
        using that assms frame by (auto simp: vegInv_def set_modify split: if_splits)
      show "filter (\<lambda>i. getCategoryRestaurantId (ir_categoryId i) c = Some rid') ?xs = restaurantItems rid' c"
        if "rid' \<noteq> rid" for rid'
        by (rule restaurantItems_update[OF _ own]) (use assms that frame in \<open>auto simp: vegInv_def\<close>)
    qed
    then show ?thesis using True Some rid by (simp add: updateItemRow_def updateById_def frame)
  next
    case False
    then have "vegInv (c\<lparr>mn_items := ?xs\<rparr>)"
      by (intro vegInv_patch[OF assms]) (simp_all add: patchItem_def patchField_def)
    then show ?thesis using False Some by (simp add: updateItemRow_def updateById_def)
  qed
qed (simp add: updateItemRow_def updateById_def assms)

lemma vegInv_insertItem:
  assumes "vegInv c" "ir_id i \<notin> ir_id ` set (mn_items c)"
  shows "vegInv (snd (insertMenuItem i c))"
proof (cases "lookup mc_id (ir_categoryId i) (mn_categories c)")
  case (Some k)
  then have rid: "getCategoryRestaurantId (ir_categoryId i) c = Some (mc_restaurantId k)"
    by (simp add: getCategoryRestaurantId_def)
  have "vegInv (snd (recomputeFor (Some (mc_restaurantId k)) i (c\<lparr>mn_items := mn_items c @ [i]\<rparr>)))"
    by (rule vegInv_items[OF assms(1)])
      (use assms rid in \<open>auto simp: vegInv_def keyed_snoc restaurantItems_def\<close>)
  then show ?thesis using Some rid by (simp add: insertMenuItem_def Let_def)
qed (simp add: insertMenuItem_def assms)

lemma vegInv_deleteItem:
  assumes "vegInv c"
  shows "vegInv (snd (deleteItemRow iid c))"
proof (cases "lookup ir_id iid (mn_items c)")
  case (Some i)
  have i: "i \<in> set (mn_items c)" "ir_id i = iid" using lookup_SomeD[OF Some] by simp_all
  obtain rid where rid: "getCategoryRestaurantId (ir_categoryId i) c = Some rid"
    using assms i(1) by (auto simp: vegInv_def)
  let ?xs = "filter (\<lambda>i. ir_id i \<noteq> iid) (mn_items c)"
  let ?c = "dropItems (\<lambda>i. ir_id i = iid) c"
  have same: "vegInv (snd (recomputeFor (Some rid) i ?c)) = vegInv (snd (recomputeFor (Some rid) i (c\<lparr>mn_items := ?xs\<rparr>)))"
    "vegInv ?c = vegInv (c\<lparr>mn_items := ?xs\<rparr>)"
    by (rule vegInv_same; simp add: snd_recomputeFor dropItems_def Let_def recomputeVegFlags_def restaurantItems_def
        getCategoryRestaurantId_def updateRestaurantRow_def findRestaurantRow_def split: option.split)+
  have only: "j = i" if "j \<in> set (mn_items c)" "ir_id j = iid" for j
    using keyed_same[of ir_id "mn_items c" j i] that i assms by (simp add: vegInv_def)
  have "vegInv (snd (recomputeFor (Some rid) i (c\<lparr>mn_items := ?xs\<rparr>)))"
  proof (rule vegInv_items[OF assms])
    show "keyed ir_id ?xs" using assms by (simp add: vegInv_def keyed_filter)
    show "getCategoryRestaurantId (ir_categoryId j) c \<noteq> None" if "j \<in> set ?xs" for j
      using that assms by (auto simp: vegInv_def)
    show "filter (\<lambda>i. getCategoryRestaurantId (ir_categoryId i) c = Some rid') ?xs = restaurantItems rid' c"
      if "rid' \<noteq> rid" for rid'
      unfolding restaurantItems_def by (rule filter_filter_off) (use only rid that in auto)
  qed
  moreover have "vegInv (c\<lparr>mn_items := ?xs\<rparr>)" if plain: "\<not> ir_isVegetarian i" "\<not> ir_isVegan i"
  proof -
    have "matches q (filter P ?xs) = matches q (filter P (mn_items c))" if "\<not> q i" for q P
    proof -
      have "filter q (filter P ?xs) = filter q (filter P (mn_items c))"
        unfolding filter_filter by (rule filter_cong[OF refl]) (use only that in auto)
      then show ?thesis by (simp add: matches_def)
    qed
    then have "vegRow (c\<lparr>mn_items := ?xs\<rparr>) r = vegRow c r" for r
      using plain by (simp add: vegRow_items) (simp add: vegRow_def restaurantItems_def)
    then show ?thesis using assms by (auto simp: vegInv_def keyed_filter)
  qed
  ultimately show ?thesis using assms Some rid same by (simp add: deleteItemRow_def Let_def)
qed (simp add: deleteItemRow_def assms)

lemma managed_inv:
  assumes "vegInv c" "vegInv (snd (act c))" shows "vegInv (snd (managed owner u act c))"
  using assms by (auto simp: managed_def split: sum.split)

lemma vegInv_category:
  assumes "vegInv c" "mc_id k \<notin> mc_id ` set (mn_categories c)"
  shows "vegInv (c\<lparr>mn_categories := mn_categories c @ [k]\<rparr>)"
proof -
  let ?c = "c\<lparr>mn_categories := mn_categories c @ [k]\<rparr>"
  have old: "getCategoryRestaurantId (ir_categoryId i) ?c = getCategoryRestaurantId (ir_categoryId i) c"
    if "i \<in> set (mn_items c)" for i
    using that assms(1) by (auto simp: vegInv_def getCategoryRestaurantId_def lookup_append split: option.splits)
  then have "restaurantItems rid ?c = restaurantItems rid c" for rid by (simp add: restaurantItems_def cong: filter_cong)
  then show ?thesis using assms old by (simp add: vegInv_def vegRow_def keyed_snoc)
qed

lemma vegInv_patchCategory:
  assumes "vegInv c"
  shows "vegInv (c\<lparr>mn_categories := modify (\<lambda>k. mc_id k = cid) (patchCategory d) (mn_categories c)\<rparr>)"
proof -
  let ?c = "c\<lparr>mn_categories := modify (\<lambda>k. mc_id k = cid) (patchCategory d) (mn_categories c)\<rparr>"
  have "getCategoryRestaurantId k ?c = getCategoryRestaurantId k c" for k
    by (simp add: getCategoryRestaurantId_def lookup_modify patchCategory_def option.map_comp comp_def if_distrib
      cong: if_cong)
  moreover from this have "restaurantItems rid ?c = restaurantItems rid c" for rid by (simp add: restaurantItems_def)
  ultimately show ?thesis using assms by (simp add: vegInv_def vegRow_def patchCategory_def)
qed

text \<open>Menu operations with unused ids for the rows they create; the deletion of a category is left out.\<close>

fun freshOp :: "menuOp \<Rightarrow> menuStore \<Rightarrow> bool" where
  "freshOp (CreateCategory i d) c \<longleftrightarrow> i \<notin> mc_id ` set (mn_categories c)"
| "freshOp (CreateItem i d) c \<longleftrightarrow> i \<notin> ir_id ` set (mn_items c)"
| "freshOp (DeleteCategory i) c \<longleftrightarrow> False"
| "freshOp m c \<longleftrightarrow> True"

inductive menuStep :: "menuStore \<Rightarrow> menuStore \<Rightarrow> bool" where
  "freshOp m c \<Longrightarrow> menuStep c (runMenuOp m u c)"

lemmas menu_op_defs = createCategory_def updateCategory_def createMenuItem_def updateMenuItem_def deleteMenuItem_def
  toggleAvailability_def createVariant_def updateVariant_def deleteVariant_def createAddon_def updateAddon_def
  deleteAddon_def createAddonOption_def updateAddonOption_def deleteAddonOption_def

lemma vegInv_runMenuOp:
  assumes "vegInv c" "freshOp m c"
  shows "vegInv (runMenuOp m u c)"
proof (cases m)
  case (CreateCategory i d)
  then show ?thesis using assms
    by (auto simp: menu_op_defs Let_def intro!: managed_inv vegInv_category)
next
  case (UpdateCategory i d)
  then show ?thesis using assms
    by (auto simp: menu_op_defs updateById_def intro!: managed_inv vegInv_patchCategory split: option.split)
next
  case (CreateItem i d)
  then show ?thesis using assms
    by (auto simp: menu_op_defs newMenuItem_def intro!: managed_inv vegInv_insertItem)
next
  case (UpdateItem i d)
  then show ?thesis using assms by (auto simp: menu_op_defs intro!: managed_inv vegInv_updateItem)
next
  case (DeleteItem i)
  then show ?thesis using assms by (auto simp: menu_op_defs intro!: managed_inv vegInv_deleteItem)
next
  case (ToggleItem i b)
  then show ?thesis using assms
    by (auto simp: menu_op_defs updateById_def intro!: managed_inv vegInv_patch split: option.split)
next
  case (ItemImage st i)
  then show ?thesis using assms
    by (auto simp: uploadMenuItemImage_def intro!: managed_inv vegInv_updateItem split: option.split sum.split)
next
  case (DeleteCategory i)
  then show ?thesis using assms by simp
qed (use assms in \<open>auto simp: menu_op_defs updateById_def Let_def deleteVariantRow_def deleteAddonRow_def
      deleteAddonOptionRow_def onBase_def intro!: managed_inv split: option.split\<close>)

text \<open>
  Vegetarian flags are derived.  Along any menu operations except deleting a category, by
  whomever and whether they succeed or not, every restaurant is flagged vegetarian (vegan) exactly
  when one of its menu items is.
\<close>

theorem veg_flags_derived:
  assumes "menuStep\<^sup>*\<^sup>* c c'" "mn_items c = []" "mn_categories c = []"
    and "list_all (\<lambda>r. \<not> rr_hasVegOptions r \<and> \<not> rr_hasVeganOptions r) (cg_restaurants c)"
  shows "list_all (\<lambda>r. rr_hasVegOptions r = list_ex ir_isVegetarian (restaurantItems (rr_id r) c') \<and>
                      rr_hasVeganOptions r = list_ex ir_isVegan (restaurantItems (rr_id r) c')) (cg_restaurants c')"
proof -
  have "vegInv c" using assms(2-4) by (simp add: vegInv_def vegRow_def restaurantItems_def keyed_def list_all_iff)
  with assms(1) have "vegInv c'"
    by (induction rule: rtranclp_induct) (auto elim!: menuStep.cases intro: vegInv_runMenuOp)
  moreover have "(0 < matches p xs) = list_ex p xs" for p and xs :: "itemRow list"
    by (induction xs) auto
  ultimately show ?thesis by (simp add: vegInv_def vegRow_def list_all_iff)
qed

text \<open>
  Deleting a category leaves the flags stale.  When the only vegetarian items of a restaurant
  are deleted with their category, the restaurant stays flagged as vegetarian although no item is.
\<close>

theorem deleted_category_keeps_flags:
  assumes "deleteCategory cid u c = (Inr k, c')" "findRestaurantRow rid c = Some r" "rr_hasVegOptions r"
    and "list_all (\<lambda>i. ir_isVegetarian i \<longrightarrow> ir_categoryId i = cid) (mn_items c)"
  shows "map_option rr_hasVegOptions (findRestaurantRow rid c') = Some True \<and>
    \<not> list_ex ir_isVegetarian (mn_items c')"
proof -
  have "deleteCategoryRow cid c = (Inr k, c')"
    using assms(1) by (auto simp: deleteCategory_def managed_def split: sum.splits)
  then have c': "c' = (dropItems (\<lambda>i. ir_categoryId i = cid) c)
      \<lparr>mn_categories := filter (\<lambda>k. mc_id k \<noteq> cid) (mn_categories c)\<rparr>"
    by (auto simp: deleteCategoryRow_def split: option.splits if_splits)
  then show ?thesis using assms(2-4)
    by (auto simp: dropItems_def Let_def findRestaurantRow_def list_all_iff list_ex_iff)
qed

section \<open>Prices\<close>

lemma mi_id_view: "mi_id (orderItemView rid c i) = ir_id i"
  by (simp add: orderItemView_def)

text \<open>
  A negative price reaches the order.  The form for a menu item does not bound its price: an
  item created with a negative price (of half a paisa or more) resolves to an order line with a negative
  total.
\<close>

theorem negative_price_reaches_order:
  assumes "createMenuItem uuid d u c = (Inr i, c')" "dec2 (md_basePrice d) < 0" "0 < n"
    and "menuSound c" "uuid \<notin> ir_id ` set (mn_items c)" "uuid \<notin> ar_menuItemId ` set (mn_addons c)"
    and "getCategoryRestaurantId (mi_categoryId d) c = Some rid"
  shows "case resolveLine rid (orderMenu rid c') \<lparr>li_menuItemId = uuid, li_variantId = None,
      li_addonOptionIds = None, li_quantity = n, li_instructions = None\<rparr> of
    Inl _ \<Rightarrow> False | Inr line \<Rightarrow> i_totalPrice line < 0"
proof -
  let ?i = "newMenuItem uuid d"
  let ?c = "c\<lparr>mn_items := mn_items c @ [?i]\<rparr>"
  have cat: "ir_categoryId ?i = mi_categoryId d" "ir_id ?i = uuid" "ir_basePrice ?i = dec2 (md_basePrice d)"
    by (simp_all add: newMenuItem_def)
  obtain k where k: "lookup mc_id (mi_categoryId d) (mn_categories c) = Some k"
    using assms(7) by (auto simp: getCategoryRestaurantId_def)
  have "insertMenuItem ?i c = (Inr i, c')"
    using assms(1) by (auto simp: createMenuItem_def managed_def split: sum.splits)
  then have "c' = snd (recomputeFor (getCategoryRestaurantId (mi_categoryId d) ?c) ?i ?c)"
    using k by (simp add: insertMenuItem_def Let_def cat)
  then have menu: "orderMenu rid c' = orderMenu rid ?c" by simp
  have items: "restaurantItems rid ?c = restaurantItems rid c @ [?i]"
    using assms(7) by (simp add: restaurantItems_def cat)
  have "addonsOf uuid ?c = []"
    using assms(6) by (auto simp: addonsOf_def filter_empty_conv)
  then have view: "mi_id (orderItemView rid ?c ?i) = uuid" "mi_restaurantId (orderItemView rid ?c ?i) = rid"
    "mi_basePrice (orderItemView rid ?c ?i) = dec2 (md_basePrice d)" "mi_addons (orderItemView rid ?c ?i) = []"
    by (simp_all add: orderItemView_def cat)
  have "lookup mi_id uuid (map (orderItemView rid ?c) (restaurantItems rid c)) = None"
    using assms(5) by (auto simp: lookup_None_iff image_image mi_id_view restaurantItems_def)
  then have "lookup mi_id uuid (orderMenu rid c') = Some (orderItemView rid ?c ?i)"
    unfolding menu by (simp add: orderMenu_def items lookup_append view)
  moreover have "dec2 (md_basePrice d) * of_int n < 0" using assms(2,3) by (simp add: mult_neg_pos)
  ultimately show ?thesis
    by (simp add: resolveLine_def view linePrice_def truthy_def addonsTotal_def)
qed

section \<open>The properties on a concrete menu\<close>

definition tiffin :: restaurantRow where
  "tiffin = newRestaurant ''r1'' 0 ''o1'' \<lparr>cr_name = ''Tiffin'', cr_slug = ''tiffin'', cr_description = None,
      cr_phone = None, cr_email = None\<rparr>"

definition dosaRow :: itemRow where
  "dosaRow = \<lparr>ir_id = ''i1'', ir_categoryId = ''k1'', ir_name = ''Dosa'', ir_description = None, ir_imageUrl = None,
     ir_basePrice = 60, ir_isVegetarian = True, ir_isVegan = False, ir_isAvailable = True\<rparr>"

definition tiffinMenu :: "restaurantRow \<Rightarrow> itemRow list \<Rightarrow> menuStore" where
  "tiffinMenu r is = \<lparr>cg_base = emptyWorld, cg_restaurants = [r], cg_branches = [], cg_staff = [], cg_offers = [],
     cg_reviews = [], cg_media = [], cg_owners = [], cg_published = [], cg_settings = [],
     mn_categories = [\<lparr>mc_id = ''k1'', mc_restaurantId = ''r1'', mc_name = ''South'', mc_description = None,
       mc_sortOrder = 0, mc_isActive = True\<rparr>], mn_items = is, mn_variants = [], mn_addons = [], mn_options = []\<rparr>"

definition cook :: authUser where "cook = \<lparr>userId = ''o1'', role = RESTAURANT_OWNER\<rparr>"

definition dosaForm :: "rat \<Rightarrow> createMenuItemDto" where
  "dosaForm price = \<lparr>mi_categoryId = ''k1'', md_name = ''Dosa'', md_description = None, md_basePrice = price,
     md_isVegetarian = Some True, md_isVegan = None, md_imageUrl = None\<rparr>"

lemmas tiffin_defs = tiffinMenu_def tiffin_def dosaRow_def cook_def newRestaurant_def dosaForm_def

lemma cook_manages: "rr_ownerId r = ''o1'' \<Longrightarrow> rr_id r = ''r1'' \<Longrightarrow>
    hasRestaurantRole (roleView (tiffinMenu r is)) ''r1'' cook MENU_MANAGE_ROLES"
  by (simp add: hasRestaurantRole_def getRestaurantRole_def isAdmin_def roleView_def tiffinMenu_def cook_def
      MENU_MANAGE_ROLES_def)

lemma menu_kitchen:
  "requireCategoryRestaurantId ''k1'' (tiffinMenu r is) = Inr ''r1''"
  by (simp add: require_defs getCategoryRestaurantId_def tiffinMenu_def)

theorem menu_isolated_witness:
  "hasRestaurantRole (roleView (tiffinMenu tiffin [])) ''r1'' cook MENU_MANAGE_ROLES"
proof (rule menu_isolated[where m = "CreateItem ''i1'' (dosaForm 60)"])
  show "menuSound (tiffinMenu tiffin [])" by (simp add: menuSound_def tiffinMenu_def keyed_def)
  have "managed (Inr ''r1'') cook act (tiffinMenu tiffin []) = act (tiffinMenu tiffin [])" for act :: "menuStore \<Rightarrow> (menuStore, itemRow) outcome"
    using cook_manages[of tiffin "[]"] by (simp add: managed_def assertCanManageMenu_def tiffin_def newRestaurant_def)
  then show "menuRows ''r1'' (runMenuOp (CreateItem ''i1'' (dosaForm 60)) cook (tiffinMenu tiffin [])) \<noteq>
      menuRows ''r1'' (tiffinMenu tiffin [])"
    using menu_kitchen[of tiffin "[]"]
    by (simp add: createMenuItem_def dosaForm_def insertMenuItem_def Let_def newMenuItem_def)
      (simp add: menuRows_def restaurantItems_def getCategoryRestaurantId_def tiffinMenu_def)
qed

definition emptyMenu :: menuStore where
  "emptyMenu = (tiffinMenu tiffin [])\<lparr>mn_categories := []\<rparr>"

definition southForm :: createCategoryDto where
  "southForm = \<lparr>kc_restaurantId = ''r1'', kc_name = ''South'', kc_description = None\<rparr>"

definition dosaMenu :: menuStore where
  "dosaMenu = runMenuOp (CreateItem ''i1'' (dosaForm 60)) cook
     (runMenuOp (CreateCategory ''k1'' southForm) cook emptyMenu)"

theorem veg_flags_derived_witness:
  "list_all (\<lambda>r. rr_hasVegOptions r = list_ex ir_isVegetarian (restaurantItems (rr_id r) dosaMenu) \<and>
      rr_hasVeganOptions r = list_ex ir_isVegan (restaurantItems (rr_id r) dosaMenu)) (cg_restaurants dosaMenu)"
proof (rule veg_flags_derived[of emptyMenu])
  have fresh: "freshOp (CreateItem ''i1'' (dosaForm 60)) (runMenuOp (CreateCategory ''k1'' southForm) cook emptyMenu)"
    by (simp add: createCategory_def managed_def emptyMenu_def tiffinMenu_def Let_def split: sum.split)
  have "menuStep emptyMenu (runMenuOp (CreateCategory ''k1'' southForm) cook emptyMenu)"
    by (rule menuStep.intros) (simp add: emptyMenu_def)
  moreover have "menuStep (runMenuOp (CreateCategory ''k1'' southForm) cook emptyMenu) dosaMenu"
    unfolding dosaMenu_def by (rule menuStep.intros[OF fresh])
  ultimately show "menuStep\<^sup>*\<^sup>* emptyMenu dosaMenu" by (meson r_into_rtranclp rtranclp_trans)
qed (simp_all add: emptyMenu_def tiffinMenu_def tiffin_def newRestaurant_def)

theorem deleted_category_keeps_flags_witness:
  "map_option rr_hasVegOptions (findRestaurantRow ''r1''
     (snd (deleteCategory ''k1'' cook (tiffinMenu (tiffin\<lparr>rr_hasVegOptions := True\<rparr>) [dosaRow])))) = Some True"
proof -
  let ?r = "tiffin\<lparr>rr_hasVegOptions := True\<rparr>"
  let ?c = "tiffinMenu ?r [dosaRow]"
  have "hasRestaurantRole (roleView ?c) ''r1'' cook MENU_MANAGE_ROLES"
    by (rule cook_manages) (simp_all add: tiffin_def newRestaurant_def)
  then have run: "deleteCategory ''k1'' cook ?c = deleteCategoryRow ''k1'' ?c"
    by (simp add: deleteCategory_def managed_def menu_kitchen assertCanManageMenu_def)
  obtain k c' where k: "deleteCategoryRow ''k1'' ?c = (Inr k, c')"
    by (simp add: deleteCategoryRow_def tiffinMenu_def itemsUnder_def ordered_def emptyWorld_def)
  have r: "findRestaurantRow ''r1'' ?c = Some ?r" by (simp add: findRestaurantRow_def tiffin_defs)
  show ?thesis using deleted_category_keeps_flags[OF run[unfolded k] r]
    by (simp add: run k) (simp add: tiffinMenu_def dosaRow_def)
qed

theorem negative_price_reaches_order_witness:
  "\<exists>line. resolveLine ''r1'' (orderMenu ''r1'' (snd (createMenuItem ''i1'' (dosaForm (- 60)) cook (tiffinMenu tiffin []))))
     \<lparr>li_menuItemId = ''i1'', li_variantId = None, li_addonOptionIds = None, li_quantity = 2, li_instructions = None\<rparr>
       = Inr line \<and> i_totalPrice line < 0"
proof -
  let ?c = "tiffinMenu tiffin []"
  have "hasRestaurantRole (roleView ?c) ''r1'' cook MENU_MANAGE_ROLES"
    by (rule cook_manages) (simp_all add: tiffin_def newRestaurant_def)
  then have "createMenuItem ''i1'' (dosaForm (- 60)) cook ?c = insertMenuItem (newMenuItem ''i1'' (dosaForm (- 60))) ?c"
    using menu_kitchen[of tiffin "[]"]
    by (simp add: createMenuItem_def managed_def assertCanManageMenu_def dosaForm_def)
  then obtain i c' where run: "createMenuItem ''i1'' (dosaForm (- 60)) cook ?c = (Inr i, c')"
    by (simp add: insertMenuItem_def Let_def newMenuItem_def recomputeFor_def getCategoryRestaurantId_def
        recomputeVegFlags_def updateRestaurantRow_def findRestaurantRow_def tiffin_defs)
  have "case resolveLine ''r1'' (orderMenu ''r1'' c') \<lparr>li_menuItemId = ''i1'', li_variantId = None,
      li_addonOptionIds = None, li_quantity = 2, li_instructions = None\<rparr> of
    Inl _ \<Rightarrow> False | Inr line \<Rightarrow> i_totalPrice line < 0"
    by (rule negative_price_reaches_order[OF run])
      (simp_all add: menuSound_def keyed_def dosaForm_def getCategoryRestaurantId_def tiffinMenu_def)
  then show ?thesis by (auto simp: run split: sum.splits)
qed

end
