(* ===== verification/Notifications.thy ===== *)
theory Notifications
  imports Catalog
begin

text \<open>
  Notifications (\<^verbatim>\<open>modules/notifications\<close>), the preferences that gate them
  (\<^verbatim>\<open>users.service.ts\<close>), the listeners that turn order events into notifications for the customer
  and for the restaurant's people, the queue processor of retries, and the event bus that runs the
  listeners (\<^verbatim>\<open>core/events/event-bus.service.ts\<close>).

  The tables extend the catalogue.  Pushes over the realtime gateway are recorded in
  \<^verbatim>\<open>nt_pushed\<close>.  \<open>uuid\<close> gives the id drawn for a recipient's row, \<open>showAmount\<close> the text of an
  amount inside a message.
\<close>

section \<open>The event bus\<close>

text \<open>Handlers by event name; a handler that throws is counted and logged, the others still run.
  The handlers start in order of subscription and the model runs each to its end.\<close>

type_synonym ('s, 'p) handler = "'p \<Rightarrow> 's \<Rightarrow> ('s, unit) outcome"

record ('s, 'p) eventBus =
  eb_handlers :: "string \<Rightarrow> ('s, 'p) handler list"
  eb_published :: "string list"
  eb_failures :: "string list"

definition subscribe :: "string \<Rightarrow> ('s, 'p) handler \<Rightarrow> ('s, 'p) eventBus \<Rightarrow> ('s, 'p) eventBus" where
  "subscribe name h bus = bus\<lparr>eb_handlers := (eb_handlers bus)(name := eb_handlers bus name @ [h])\<rparr>"

fun runHandlers :: "string \<Rightarrow> 'p \<Rightarrow> ('s, 'p) handler list \<Rightarrow> string list \<times> 's \<Rightarrow> string list \<times> 's" where
  "runHandlers name p [] (fails, s) = (fails, s)"
| "runHandlers name p (h # hs) (fails, s) =
     (case h p s of
        (Inl _, s1) \<Rightarrow> runHandlers name p hs (fails @ [name], s1)
      | (Inr _, s1) \<Rightarrow> runHandlers name p hs (fails, s1))"

definition publishEvent :: "string \<Rightarrow> 'p \<Rightarrow> ('s, 'p) eventBus \<times> 's \<Rightarrow> ('s, 'p) eventBus \<times> 's" where
  "publishEvent name p = (\<lambda>(bus, s).
     let (fails, s1) = runHandlers name p (eb_handlers bus name) (eb_failures bus, s)
     in (bus\<lparr>eb_published := eb_published bus @ [name], eb_failures := fails\<rparr>, s1))"

section \<open>Data\<close>

datatype notificationType =
    ORDER_PLACED | ORDER_STATUS_CHANGED | DELIVERY_PARTNER_ASSIGNED | OFFER_NOTICE | WALLET_CREDIT | REFERRAL_REWARD
  | TICKET_STATUS_CHANGED | TICKET_MESSAGE | REVIEW_REPLIED | GENERAL
  | NEW_ORDER_FOR_RESTAURANT | ORDER_CANCELLED_FOR_RESTAURANT | REFUND_FOR_RESTAURANT | CUSTOMER_MESSAGE_FOR_RESTAURANT
  | PARTNER_VERIFICATION_SUBMITTED | PARTNER_VERIFICATION_APPROVED | PARTNER_VERIFICATION_REJECTED
  | PARTNER_CHANGES_REQUESTED | PARTNER_DOCUMENT_EXPIRING
  | PICKUP_OTP_GENERATED | DELIVERY_OTP_GENERATED | PICKUP_VERIFIED | DELIVERY_VERIFIED | PARCEL_CONFIRMED
  | RIDER_ARRIVED_AT_RESTAURANT | REFUND_ISSUED

datatype notificationChannel = CH_PUSH | CH_EMAIL | CH_SMS | CH_WHATSAPP | CH_IN_APP

datatype notificationStatus = NS_PENDING | NS_SENT | NS_FAILED | NS_READ

record notification =
  n_id :: string
  n_userId :: string
  n_type :: notificationType
  n_title :: string
  n_message :: string
  n_channel :: notificationChannel
  n_status :: notificationStatus
  n_metadata :: "(string \<times> string) list"
  n_attempts :: nat
  n_errorMessage :: "string option"
  n_sentAt :: "int option"
  n_readAt :: "int option"
  n_createdAt :: int

text \<open>Email, SMS and push, for each of the four categories.\<close>

record preferenceRow =
  pf_userId :: string
  pf_orderUpdates :: "bool \<times> bool \<times> bool"
  pf_promotions :: "bool \<times> bool \<times> bool"
  pf_reviews :: "bool \<times> bool \<times> bool"
  pf_system :: "bool \<times> bool \<times> bool"

record pushToken =
  pt_userId :: string
  pt_token :: string
  pt_platform :: string

record noticeStore = catalog +
  nt_rows :: "notification list"
  nt_preferences :: "preferenceRow list"
  nt_tokens :: "pushToken list"
  nt_jobs :: "string list"
  nt_pushed :: "(string \<times> string) list"

section \<open>Preferences\<close>

datatype pushPreferenceKey = OrderUpdatesPush | PromotionsPush | ReviewsPush | SystemPush

fun PUSH_PREFERENCE_BY_TYPE :: "notificationType \<Rightarrow> pushPreferenceKey" where
  "PUSH_PREFERENCE_BY_TYPE ORDER_PLACED = OrderUpdatesPush"
| "PUSH_PREFERENCE_BY_TYPE ORDER_STATUS_CHANGED = OrderUpdatesPush"
| "PUSH_PREFERENCE_BY_TYPE DELIVERY_PARTNER_ASSIGNED = OrderUpdatesPush"
| "PUSH_PREFERENCE_BY_TYPE REFUND_ISSUED = OrderUpdatesPush"
| "PUSH_PREFERENCE_BY_TYPE OFFER_NOTICE = PromotionsPush"
| "PUSH_PREFERENCE_BY_TYPE REVIEW_REPLIED = ReviewsPush"
| "PUSH_PREFERENCE_BY_TYPE NEW_ORDER_FOR_RESTAURANT = OrderUpdatesPush"
| "PUSH_PREFERENCE_BY_TYPE ORDER_CANCELLED_FOR_RESTAURANT = OrderUpdatesPush"
| "PUSH_PREFERENCE_BY_TYPE REFUND_FOR_RESTAURANT = OrderUpdatesPush"
| "PUSH_PREFERENCE_BY_TYPE PICKUP_OTP_GENERATED = OrderUpdatesPush"
| "PUSH_PREFERENCE_BY_TYPE DELIVERY_OTP_GENERATED = OrderUpdatesPush"
| "PUSH_PREFERENCE_BY_TYPE PICKUP_VERIFIED = OrderUpdatesPush"
| "PUSH_PREFERENCE_BY_TYPE DELIVERY_VERIFIED = OrderUpdatesPush"
| "PUSH_PREFERENCE_BY_TYPE PARCEL_CONFIRMED = OrderUpdatesPush"
| "PUSH_PREFERENCE_BY_TYPE RIDER_ARRIVED_AT_RESTAURANT = OrderUpdatesPush"
| "PUSH_PREFERENCE_BY_TYPE _ = SystemPush"

fun DEFAULT_PUSH_PREFERENCE :: "pushPreferenceKey \<Rightarrow> bool" where
  "DEFAULT_PUSH_PREFERENCE OrderUpdatesPush = True"
| "DEFAULT_PUSH_PREFERENCE PromotionsPush = False"
| "DEFAULT_PUSH_PREFERENCE ReviewsPush = True"
| "DEFAULT_PUSH_PREFERENCE SystemPush = True"

fun pushColumn :: "pushPreferenceKey \<Rightarrow> preferenceRow \<Rightarrow> bool" where
  "pushColumn OrderUpdatesPush p = snd (snd (pf_orderUpdates p))"
| "pushColumn PromotionsPush p = snd (snd (pf_promotions p))"
| "pushColumn ReviewsPush p = snd (snd (pf_reviews p))"
| "pushColumn SystemPush p = snd (snd (pf_system p))"

definition isPushAllowed :: "string \<Rightarrow> notificationType \<Rightarrow> 'z noticeStore_scheme \<Rightarrow> bool" where
  "isPushAllowed uid ty c =
     (case lookup pf_userId uid (nt_preferences c) of
        None \<Rightarrow> DEFAULT_PUSH_PREFERENCE (PUSH_PREFERENCE_BY_TYPE ty)
      | Some p \<Rightarrow> pushColumn (PUSH_PREFERENCE_BY_TYPE ty) p)"

definition DEFAULT_NOTIFICATION_PREFERENCES :: "string \<Rightarrow> preferenceRow" where
  "DEFAULT_NOTIFICATION_PREFERENCES uid =
     \<lparr>pf_userId = uid, pf_orderUpdates = (True, True, True), pf_promotions = (False, False, False),
      pf_reviews = (True, False, True), pf_system = (True, False, True)\<rparr>"

definition getPreferences :: "string \<Rightarrow> 'z noticeStore_scheme \<Rightarrow> preferenceRow" where
  "getPreferences uid c =
     (case lookup pf_userId uid (nt_preferences c) of
        None \<Rightarrow> DEFAULT_NOTIFICATION_PREFERENCES uid
      | Some p \<Rightarrow> p)"

text \<open>The columns a request leaves out keep their value, or the schema's default in a new row.\<close>

type_synonym channelPatch = "bool option \<times> bool option \<times> bool option"

record updatePreferencesDto =
  up_orderUpdates :: channelPatch
  up_promotions :: channelPatch
  up_reviews :: channelPatch
  up_system :: channelPatch

definition patchChannels :: "channelPatch \<Rightarrow> bool \<times> bool \<times> bool \<Rightarrow> bool \<times> bool \<times> bool" where
  "patchChannels d p = (patchField (fst d) (fst p), patchField (fst (snd d)) (fst (snd p)), patchField (snd (snd d)) (snd (snd p)))"

definition patchPreferences :: "updatePreferencesDto \<Rightarrow> preferenceRow \<Rightarrow> preferenceRow" where
  "patchPreferences d p = p\<lparr>pf_orderUpdates := patchChannels (up_orderUpdates d) (pf_orderUpdates p),
     pf_promotions := patchChannels (up_promotions d) (pf_promotions p),
     pf_reviews := patchChannels (up_reviews d) (pf_reviews p), pf_system := patchChannels (up_system d) (pf_system p)\<rparr>"

definition updatePreferences ::
  "string \<Rightarrow> updatePreferencesDto \<Rightarrow> 'z noticeStore_scheme \<Rightarrow> ('z noticeStore_scheme, preferenceRow) outcome" where
  "updatePreferences uid d c =
     (case lookup pf_userId uid (nt_preferences c) of
        Some p \<Rightarrow> (Inr (patchPreferences d p),
          c\<lparr>nt_preferences := modify (\<lambda>p. pf_userId p = uid) (patchPreferences d) (nt_preferences c)\<rparr>)
      | None \<Rightarrow> (let p = patchPreferences d (DEFAULT_NOTIFICATION_PREFERENCES uid)
                in (Inr p, c\<lparr>nt_preferences := nt_preferences c @ [p]\<rparr>)))"

section \<open>Creating and reading\<close>

definition newNotification ::
  "string \<Rightarrow> int \<Rightarrow> string \<Rightarrow> notificationType \<Rightarrow> string \<Rightarrow> string \<Rightarrow> (string \<times> string) list \<Rightarrow> notification" where
  "newNotification uuid now uid ty title msg meta =
     \<lparr>n_id = uuid, n_userId = uid, n_type = ty, n_title = title, n_message = msg, n_channel = CH_IN_APP,
      n_status = NS_PENDING, n_metadata = meta, n_attempts = 0, n_errorMessage = None, n_sentAt = None,
      n_readAt = None, n_createdAt = now\<rparr>"

definition createNotification ::
  "string \<Rightarrow> int \<Rightarrow> string \<Rightarrow> notificationType \<Rightarrow> string \<Rightarrow> string \<Rightarrow> (string \<times> string) list
     \<Rightarrow> 'z noticeStore_scheme \<Rightarrow> 'z noticeStore_scheme" where
  "createNotification uuid now uid ty title msg meta c =
     (if \<not> isPushAllowed uid ty c then c
      else c\<lparr>nt_rows := nt_rows c @ [newNotification uuid now uid ty title msg meta],
             nt_pushed := nt_pushed c @ [(uid, ''notification'')]\<rparr>)"

record noticeQuery =
  nq_page :: nat
  nq_limit :: nat
  nq_search :: "string option"
  nq_type :: "notificationType option"
  nq_status :: "notificationStatus option"
  nq_unreadOnly :: "string option"
  nq_dateFrom :: "int option"
  nq_dateTo :: "int option"

definition withinDates :: "int option \<Rightarrow> int option \<Rightarrow> int \<Rightarrow> bool" where
  "withinDates since till t \<longleftrightarrow> (case since of None \<Rightarrow> True | Some a \<Rightarrow> a \<le> t) \<and> (case till of None \<Rightarrow> True | Some b \<Rightarrow> t \<le> b)"

definition noticeSearch :: "string option \<Rightarrow> notification \<Rightarrow> bool" where
  "noticeSearch q n \<longleftrightarrow> (truthy q \<longrightarrow> containsInsensitive (the q) (n_title n) \<or> containsInsensitive (the q) (n_message n))"

definition buildBaseWhere :: "noticeQuery \<Rightarrow> notification \<Rightarrow> bool" where
  "buildBaseWhere q n \<longleftrightarrow>
     (case nq_type q of None \<Rightarrow> True | Some t \<Rightarrow> n_type n = t) \<and>
     (case nq_status q of None \<Rightarrow> True | Some st \<Rightarrow> n_status n = st) \<and>
     withinDates (nq_dateFrom q) (nq_dateTo q) (n_createdAt n) \<and> noticeSearch (nq_search q) n"

text \<open>\<^verbatim>\<open>@Type(() => Boolean)\<close> turns every non-empty text into true.  The spread of the unread
  condition replaces the status condition of the base filter.\<close>

definition buildCustomerWhere :: "string \<Rightarrow> noticeQuery \<Rightarrow> notification \<Rightarrow> bool" where
  "buildCustomerWhere uid q n \<longleftrightarrow> n_userId n = uid \<and>
     (if truthy (nq_unreadOnly q) then buildBaseWhere (q\<lparr>nq_status := None\<rparr>) n \<and> n_status n \<noteq> NS_READ
      else buildBaseWhere q n)"

definition getMyNotifications ::
  "string \<Rightarrow> noticeQuery \<Rightarrow> 'z noticeStore_scheme \<Rightarrow> notification list \<times> nat \<times> nat" where
  "getMyNotifications uid q c =
     (let rows = filter (buildCustomerWhere uid q) (nt_rows c)
      in (skipTake ((nq_page q - 1) * nq_limit q) (nq_limit q) (sort_key (\<lambda>n. - n_createdAt n) rows),
          length rows, totalPages (length rows) (nq_limit q)))"

definition findCustomerNotificationById :: "string \<Rightarrow> string \<Rightarrow> 'z noticeStore_scheme \<Rightarrow> notification option" where
  "findCustomerNotificationById nid uid c = List.find (\<lambda>n. n_id n = nid \<and> n_userId n = uid) (nt_rows c)"

definition getMyNotificationById :: "string \<Rightarrow> string \<Rightarrow> 'z noticeStore_scheme \<Rightarrow> notification result" where
  "getMyNotificationById nid uid c =
     (case findCustomerNotificationById nid uid c of None \<Rightarrow> Inl (NotFound ''Notification'') | Some n \<Rightarrow> Inr n)"

definition setRead :: "int \<Rightarrow> notification \<Rightarrow> notification" where
  "setRead now n = n\<lparr>n_status := NS_READ, n_readAt := Some now\<rparr>"

definition markAsReadForCustomer :: "int \<Rightarrow> string \<Rightarrow> string \<Rightarrow> 'z noticeStore_scheme \<Rightarrow> nat \<times> 'z noticeStore_scheme" where
  "markAsReadForCustomer now nid uid c =
     (matches (\<lambda>n. n_id n = nid \<and> n_userId n = uid) (nt_rows c),
      c\<lparr>nt_rows := modify (\<lambda>n. n_id n = nid \<and> n_userId n = uid) (setRead now) (nt_rows c)\<rparr>)"

definition markMyNotificationAsRead ::
  "int \<Rightarrow> string \<Rightarrow> string \<Rightarrow> 'z noticeStore_scheme \<Rightarrow> ('z noticeStore_scheme, notification) outcome" where
  "markMyNotificationAsRead now nid uid c =
     (let (n, c1) = markAsReadForCustomer now nid uid c
      in if n = 0 then (Inl (NotFound ''Notification''), c1) else (getMyNotificationById nid uid c1, c1))"

definition markAllMyNotificationsAsRead :: "int \<Rightarrow> string \<Rightarrow> 'z noticeStore_scheme \<Rightarrow> nat \<times> 'z noticeStore_scheme" where
  "markAllMyNotificationsAsRead now uid c =
     (matches (\<lambda>n. n_userId n = uid \<and> n_status n \<noteq> NS_READ) (nt_rows c),
      c\<lparr>nt_rows := modify (\<lambda>n. n_userId n = uid \<and> n_status n \<noteq> NS_READ) (setRead now) (nt_rows c)\<rparr>)"

definition getMyUnreadCount :: "string \<Rightarrow> 'z noticeStore_scheme \<Rightarrow> nat" where
  "getMyUnreadCount uid c = matches (\<lambda>n. n_userId n = uid \<and> n_status n \<noteq> NS_READ) (nt_rows c)"

text \<open>The legacy endpoint, open to every signed-in user.\<close>

definition markAsRead :: "int \<Rightarrow> string \<Rightarrow> 'z noticeStore_scheme \<Rightarrow> ('z noticeStore_scheme, notification) outcome" where
  "markAsRead now nid c =
     (case lookup n_id nid (nt_rows c) of
        None \<Rightarrow> (Inl (RecordNotFound ''Notification''), c)
      | Some n \<Rightarrow> (Inr (setRead now n), c\<lparr>nt_rows := modify (\<lambda>n. n_id n = nid) (setRead now) (nt_rows c)\<rparr>))"

definition registerPushToken :: "string \<Rightarrow> string \<Rightarrow> string \<Rightarrow> 'z noticeStore_scheme \<Rightarrow> ('z noticeStore_scheme, pushToken) outcome" where
  "registerPushToken uid token platform c =
     (case lookup pt_token token (nt_tokens c) of
        Some t \<Rightarrow> (Inr (t\<lparr>pt_platform := platform\<rparr>),
          c\<lparr>nt_tokens := modify (\<lambda>t. pt_token t = token) (\<lambda>t. t\<lparr>pt_platform := platform\<rparr>) (nt_tokens c)\<rparr>)
      | None \<Rightarrow> (let t = \<lparr>pt_userId = uid, pt_token = token, pt_platform = platform\<rparr>
                in (Inr t, c\<lparr>nt_tokens := nt_tokens c @ [t]\<rparr>)))"

section \<open>Retries\<close>

definition recordDeliveryAttempt ::
  "string \<Rightarrow> notificationStatus \<Rightarrow> string option \<Rightarrow> int option \<Rightarrow> 'z noticeStore_scheme
     \<Rightarrow> ('z noticeStore_scheme, unit) outcome" where
  "recordDeliveryAttempt nid st err sentAt c =
     (case lookup n_id nid (nt_rows c) of
        None \<Rightarrow> (Inl (RecordNotFound ''Notification''), c)
      | Some _ \<Rightarrow> (Inr (), c\<lparr>nt_rows := modify (\<lambda>n. n_id n = nid) (\<lambda>n. n\<lparr>n_status := st, n_errorMessage := err,
            n_sentAt := (case sentAt of None \<Rightarrow> n_sentAt n | Some t \<Rightarrow> Some t), n_attempts := n_attempts n + 1\<rparr>)
            (nt_rows c)\<rparr>))"

definition retryNotification :: "string \<Rightarrow> 'z noticeStore_scheme \<Rightarrow> ('z noticeStore_scheme, notification) outcome" where
  "retryNotification nid c =
     (case lookup n_id nid (nt_rows c) of
        None \<Rightarrow> (Inl (NotFound ''Notification''), c)
      | Some n \<Rightarrow>
          if n_status n \<noteq> NS_FAILED then (Inl (BadRequest ''Only failed notifications can be retried''), c)
          else (Inr n, c\<lparr>nt_jobs := nt_jobs c @ [nid]\<rparr>))"

text \<open>\<open>found\<close> is the outcome of the read of the row, which may fail.\<close>

definition deliverNotification ::
  "int \<Rightarrow> unit result \<Rightarrow> string \<Rightarrow> 'z noticeStore_scheme \<Rightarrow> ('z noticeStore_scheme, unit) outcome" where
  "deliverNotification now found nid c =
     (case found of
        Inl _ \<Rightarrow> recordDeliveryAttempt nid NS_FAILED (Some ''Delivery attempt failed'') None c
      | Inr _ \<Rightarrow>
          (case lookup n_id nid (nt_rows c) of
             None \<Rightarrow> (Inr (), c)
           | Some _ \<Rightarrow> recordDeliveryAttempt nid NS_SENT None (Some now) c))"

definition processNotificationJob ::
  "int \<Rightarrow> unit result \<Rightarrow> string option \<Rightarrow> 'z noticeStore_scheme \<Rightarrow> ('z noticeStore_scheme, unit) outcome" where
  "processNotificationJob now found retry c =
     (if truthy retry then deliverNotification now found (the retry) c else (Inr (), c))"

section \<open>Order events\<close>

fun orderStatusMessage :: "orderStatus \<Rightarrow> string option" where
  "orderStatusMessage CONFIRMED = Some ''Your order has been confirmed.''"
| "orderStatusMessage PREPARING = Some ''Your food is being prepared.''"
| "orderStatusMessage READY_FOR_PICKUP = Some ''Your order is ready for pickup.''"
| "orderStatusMessage OUT_FOR_DELIVERY = Some ''Your order is on the way.''"
| "orderStatusMessage DELIVERED = Some ''Your order has been delivered.''"
| "orderStatusMessage CANCELLED = Some ''Your order has been cancelled.''"
| "orderStatusMessage _ = None"

definition orderMeta :: "string \<Rightarrow> (string \<times> string) list" where
  "orderMeta oid = [(''referenceType'', ''ORDER''), (''referenceId'', oid)]"

definition onOrderEvent ::
  "(string \<Rightarrow> string) \<Rightarrow> int \<Rightarrow> (rat \<Rightarrow> string) \<Rightarrow> event \<Rightarrow> 'z noticeStore_scheme \<Rightarrow> 'z noticeStore_scheme" where
  "onOrderEvent uuid now showAmount ev c =
     (case ev of
        OrderPlaced oid cid _ \<Rightarrow>
          createNotification (uuid cid) now cid ORDER_PLACED ''Order Placed''
            (''Order '' @ oid @ '' has been placed.'') (orderMeta oid) c
      | OrderStatusChanged oid cid st _ _ \<Rightarrow>
          (case orderStatusMessage st of
             None \<Rightarrow> c
           | Some msg \<Rightarrow> createNotification (uuid cid) now cid ORDER_STATUS_CHANGED ''Order Update'' msg (orderMeta oid) c)
      | DeliveryPartnerAssigned oid cid _ \<Rightarrow>
          createNotification (uuid cid) now cid DELIVERY_PARTNER_ASSIGNED ''Delivery Partner Assigned''
            ''A delivery partner has been assigned to your order.'' (orderMeta oid) c
      | OrderRefundCompleted oid cid _ amount \<Rightarrow>
          createNotification (uuid cid) now cid REFUND_ISSUED ''Refund issued''
            (''A refund of '' @ showAmount amount @ '' was issued for your order.'') (orderMeta oid) c
      | _ \<Rightarrow> c)"

subsection \<open>The restaurant's side\<close>

datatype restaurantPreferenceKey = NotifyOnNewOrder | NotifyOnOrderCancelled | NotifyOnRefund | NotifyOnCustomerMessage

fun settingColumn :: "restaurantPreferenceKey \<Rightarrow> settingsRow \<Rightarrow> bool" where
  "settingColumn NotifyOnNewOrder s = se_notifyOnNewOrder s"
| "settingColumn NotifyOnOrderCancelled s = se_notifyOnOrderCancelled s"
| "settingColumn NotifyOnRefund s = se_notifyOnRefund s"
| "settingColumn NotifyOnCustomerMessage s = se_notifyOnCustomerMessage s"

definition getRestaurantNotificationPreference :: "string \<Rightarrow> restaurantPreferenceKey \<Rightarrow> 'z catalog_scheme \<Rightarrow> bool" where
  "getRestaurantNotificationPreference rid key c =
     (case lookup se_restaurantId rid (cg_settings c) of None \<Rightarrow> True | Some s \<Rightarrow> settingColumn key s)"

text \<open>\<^verbatim>\<open>Array.from(new Set(ids))\<close>: first occurrences, in order.\<close>

fun uniqueIds :: "'a list \<Rightarrow> 'a list" where
  "uniqueIds [] = []"
| "uniqueIds (x # xs) = x # uniqueIds (filter (\<lambda>y. y \<noteq> x) xs)"

lemma set_uniqueIds [simp]: "set (uniqueIds xs) = set xs"
  by (induction xs rule: uniqueIds.induct) auto

lemma distinct_uniqueIds [simp]: "distinct (uniqueIds xs)"
  by (induction xs rule: uniqueIds.induct) auto

definition getActiveRestaurantRecipientIds :: "string \<Rightarrow> 'z catalog_scheme \<Rightarrow> string list" where
  "getActiveRestaurantRecipientIds rid c =
     (case findRestaurantRow rid c of
        None \<Rightarrow> []
      | Some r \<Rightarrow> uniqueIds (rr_ownerId r # map (\<lambda>s. sm_userId (sf_member s))
          (filter (\<lambda>s. sf_restaurantId s = rid \<and> sm_status (sf_member s) = STAFF_ACTIVE) (cg_staff c))))"

definition notifyRestaurant ::
  "(string \<Rightarrow> string) \<Rightarrow> int \<Rightarrow> string \<Rightarrow> string \<Rightarrow> restaurantPreferenceKey \<Rightarrow> notificationType \<Rightarrow> string \<Rightarrow> string
     \<Rightarrow> string \<Rightarrow> 'z noticeStore_scheme \<Rightarrow> 'z noticeStore_scheme" where
  "notifyRestaurant uuid now rid oid key ty title msg realtimeEvent c =
     (if \<not> getRestaurantNotificationPreference rid key c then c
      else
        (let c1 = foldl (\<lambda>c uid. createNotification (uuid uid) now uid ty title msg (orderMeta oid) c) c
                    (getActiveRestaurantRecipientIds rid c)
         in c1\<lparr>nt_pushed := nt_pushed c1 @ [(rid, realtimeEvent)]\<rparr>))"

definition onRestaurantOrderEvent ::
  "(string \<Rightarrow> string) \<Rightarrow> int \<Rightarrow> (rat \<Rightarrow> string) \<Rightarrow> event \<Rightarrow> 'z noticeStore_scheme \<Rightarrow> 'z noticeStore_scheme" where
  "onRestaurantOrderEvent uuid now showAmount ev c =
     (case ev of
        OrderPlaced oid _ rid \<Rightarrow>
          notifyRestaurant uuid now rid oid NotifyOnNewOrder NEW_ORDER_FOR_RESTAURANT ''New order received''
            ''A new order has been placed at your restaurant.'' ''order.new'' c
      | OrderStatusChanged oid _ st rid _ \<Rightarrow>
          if st \<noteq> CANCELLED then c
          else notifyRestaurant uuid now rid oid NotifyOnOrderCancelled ORDER_CANCELLED_FOR_RESTAURANT ''Order cancelled''
                 (''Order '' @ oid @ '' was cancelled.'') ''order.cancelled'' c
      | OrderRefundCompleted oid _ rid amount \<Rightarrow>
          notifyRestaurant uuid now rid oid NotifyOnRefund REFUND_FOR_RESTAURANT ''Order refunded''
            (''A refund of '' @ showAmount amount @ '' was issued for order '' @ oid @ ''.'') ''order.refunded'' c
      | _ \<Rightarrow> c)"

text \<open>A customer's ticket message about an order.\<close>

definition onCustomerMessage ::
  "(string \<Rightarrow> string) \<Rightarrow> int \<Rightarrow> string \<Rightarrow> string \<Rightarrow> 'z noticeStore_scheme \<Rightarrow> 'z noticeStore_scheme" where
  "onCustomerMessage uuid now oid msg c =
     (case lookup o_id oid (w_orders (cg_base c)) of
        None \<Rightarrow> c
      | Some ord \<Rightarrow> notifyRestaurant uuid now (o_restaurantId ord) oid NotifyOnCustomerMessage
          CUSTOMER_MESSAGE_FOR_RESTAURANT ''New customer message'' msg ''order.customer-message'' c)"

text \<open>Both listeners on the bus.\<close>

definition notificationBus ::
  "(string \<Rightarrow> string) \<Rightarrow> (string \<Rightarrow> string) \<Rightarrow> int \<Rightarrow> (rat \<Rightarrow> string) \<Rightarrow> ('z noticeStore_scheme, event) eventBus" where
  "notificationBus uuid uuid' now showAmount =
     foldl (\<lambda>bus name. subscribe name (\<lambda>ev c. (Inr (), onRestaurantOrderEvent uuid' now showAmount ev c)) bus)
       (foldl (\<lambda>bus name. subscribe name (\<lambda>ev c. (Inr (), onOrderEvent uuid now showAmount ev c)) bus)
          \<lparr>eb_handlers = (\<lambda>_. []), eb_published = [], eb_failures = []\<rparr>
          [''order.placed'', ''order.status.changed'', ''delivery.partner.assigned'', ''order.refund.completed''])
       [''order.placed'', ''order.status.changed'', ''order.refund.completed'']"

lemma publish_on_both_listeners:
  assumes "name \<in> {''order.placed'', ''order.status.changed'', ''order.refund.completed''}"
  shows "snd (publishEvent name ev (notificationBus uuid uuid' now showAmount, c)) =
    onRestaurantOrderEvent uuid' now showAmount ev (onOrderEvent uuid now showAmount ev c)"
  using assms by (auto simp: notificationBus_def publishEvent_def subscribe_def Let_def)

section \<open>Administration\<close>

record adminNoticeQuery =
  aq_base :: noticeQuery
  aq_channel :: "notificationChannel option"
  aq_recipient :: "string option"

definition buildAdminNoticeWhere :: "adminNoticeQuery \<Rightarrow> 'z noticeStore_scheme \<Rightarrow> notification \<Rightarrow> bool" where
  "buildAdminNoticeWhere q c n \<longleftrightarrow> buildBaseWhere (aq_base q) n \<and>
     (case aq_channel q of None \<Rightarrow> True | Some ch \<Rightarrow> n_channel n = ch) \<and>
     (truthy (aq_recipient q) \<longrightarrow>
        (case lookup ow_id (n_userId n) (cg_owners c) of
           None \<Rightarrow> False
         | Some u \<Rightarrow> containsInsensitive (the (aq_recipient q)) (ow_firstName u) \<or>
             maybeContains (the (aq_recipient q)) (ow_lastName u) \<or> maybeContains (the (aq_recipient q)) (ow_email u) \<or>
             maybeContains (the (aq_recipient q)) (ow_phone u)))"

text \<open>The recipient as the administrator sees it, without the stored password hash.\<close>

definition toAdminNotification :: "'z noticeStore_scheme \<Rightarrow> notification \<Rightarrow> notification \<times> ownerSummary option" where
  "toAdminNotification c n = (n, map_option ownerSummaryOf (lookup ow_id (n_userId n) (cg_owners c)))"

definition getNotificationsForAdmin ::
  "adminNoticeQuery \<Rightarrow> 'z noticeStore_scheme \<Rightarrow> (notification \<times> ownerSummary option) list \<times> nat \<times> nat" where
  "getNotificationsForAdmin q c =
     (let rows = filter (buildAdminNoticeWhere q c) (nt_rows c); limit = nq_limit (aq_base q)
      in (map (toAdminNotification c)
            (skipTake ((nq_page (aq_base q) - 1) * limit) limit (sort_key (\<lambda>n. - n_createdAt n) rows)),
          length rows, totalPages (length rows) limit))"

definition getNotificationForAdmin ::
  "string \<Rightarrow> 'z noticeStore_scheme \<Rightarrow> (notification \<times> ownerSummary option) result" where
  "getNotificationForAdmin nid c =
     (case lookup n_id nid (nt_rows c) of
        None \<Rightarrow> Inl (NotFound ''Notification'')
      | Some n \<Rightarrow> Inr (toAdminNotification c n))"

end
