(* ===== verification/NotificationSafety.thy ===== *)
theory NotificationSafety
  imports Notifications
begin

text \<open>
  Who is notified and who can change what: every handler of an event runs, an order event reaches
  each member of the restaurant's team at most once and exactly those who allow it, reading touches
  one's own notifications only; and the gaps: a retry turns a read notification unread again, and a
  device keeps delivering to the user who registered it first.
\<close>

section \<open>The bus\<close>

lemma runHandlers_state:
  "snd (runHandlers name p hs (fails, s)) = foldl (\<lambda>s h. snd (h p s)) s hs"
proof (induction hs arbitrary: fails s)
  case (Cons h hs)
  show ?case by (cases "h p s"; cases "fst (h p s)") (simp_all add: Cons)
qed simp

lemma runHandlers_failures:
  "length (fst (runHandlers name p hs (fails, s))) \<le> length fails + length hs"
proof (induction hs arbitrary: fails s)
  case (Cons h hs)
  show ?case
    using Cons.IH[of "fails @ [name]" "snd (h p s)"] Cons.IH[of fails "snd (h p s)"]
    by (cases "h p s"; cases "fst (h p s)") simp_all
qed simp

text \<open>
  Every handler runs.  Publishing an event runs all its handlers in order of subscription, whatever
  any of them throws, and leaves the subscriptions of every event as they are.
\<close>

theorem bus_runs_every_handler:
  "snd (publishEvent name p (bus, s)) = foldl (\<lambda>s h. snd (h p s)) s (eb_handlers bus name) \<and>
   eb_handlers (fst (publishEvent name p (bus, s))) = eb_handlers bus"
  using runHandlers_state[of name p "eb_handlers bus name" "eb_failures bus" s]
  by (cases "runHandlers name p (eb_handlers bus name) (eb_failures bus, s)") (simp add: publishEvent_def)

section \<open>One notification each\<close>

lemma create_frame [simp]:
  "nt_preferences (createNotification i now uid ty title msg meta c) = nt_preferences c"
  "cg_settings (createNotification i now uid ty title msg meta c) = cg_settings c"
  "cg_staff (createNotification i now uid ty title msg meta c) = cg_staff c"
  "cg_restaurants (createNotification i now uid ty title msg meta c) = cg_restaurants c"
  by (simp_all add: createNotification_def)

lemma isPushAllowed_create [simp]:
  "isPushAllowed uid ty (createNotification i now uid' ty' title msg meta c) = isPushAllowed uid ty c"
  by (simp add: isPushAllowed_def)

lemma matches_create:
  "matches p (nt_rows (createNotification i now uid ty title msg meta c)) =
     matches p (nt_rows c) + (if isPushAllowed uid ty c \<and> p (newNotification i now uid ty title msg meta) then 1 else 0)"
  by (simp add: createNotification_def)

lemma matches_foldl_create:
  "distinct uids \<Longrightarrow>
   matches (\<lambda>n. n_userId n = uid \<and> n_type n = ty)
     (nt_rows (foldl (\<lambda>c uid. createNotification (uuid uid) now uid ty title msg meta c) c uids)) =
   matches (\<lambda>n. n_userId n = uid \<and> n_type n = ty) (nt_rows c) + (if uid \<in> set uids \<and> isPushAllowed uid ty c then 1 else 0)"
proof (induction uids arbitrary: c)
  case (Cons a uids)
  then show ?case by (auto simp: matches_create newNotification_def)
qed simp

lemma getPreference_create [simp]:
  "getRestaurantNotificationPreference rid key (createNotification i now uid ty title msg meta c) =
     getRestaurantNotificationPreference rid key c"
  "getActiveRestaurantRecipientIds rid (createNotification i now uid ty title msg meta c) =
     getActiveRestaurantRecipientIds rid c"
  by (simp_all add: getRestaurantNotificationPreference_def getActiveRestaurantRecipientIds_def findRestaurantRow_def
      cong: option.case_cong)

lemma recipients:
  assumes "findRestaurantRow rid c = Some r"
  shows "uid \<in> set (getActiveRestaurantRecipientIds rid c) \<longleftrightarrow>
    uid = rr_ownerId r \<or> list_ex (\<lambda>s. sf_restaurantId s = rid \<and> sm_status (sf_member s) = STAFF_ACTIVE \<and>
      sm_userId (sf_member s) = uid) (cg_staff c)"
  using assms by (auto simp: getActiveRestaurantRecipientIds_def list_ex_iff)

lemma distinct_recipients: "distinct (getActiveRestaurantRecipientIds rid c)"
  by (simp add: getActiveRestaurantRecipientIds_def split: option.split)

lemma matches_notifyRestaurant:
  "matches (\<lambda>n. n_userId n = uid \<and> n_type n = ty)
     (nt_rows (notifyRestaurant uuid now rid oid key ty title msg ev c)) =
   matches (\<lambda>n. n_userId n = uid \<and> n_type n = ty) (nt_rows c) +
     (if getRestaurantNotificationPreference rid key c \<and> uid \<in> set (getActiveRestaurantRecipientIds rid c) \<and>
         isPushAllowed uid ty c then 1 else 0)"
  using matches_foldl_create[OF distinct_recipients[of rid c], of uid ty uuid now title msg "orderMeta oid" c]
  by (simp add: notifyRestaurant_def Let_def)

text \<open>
  C33. A new order reaches the team once.  When an order is placed, its restaurant's owner and each
  active staff member gets exactly one new-order notification, and nobody else gets one: none if the
  restaurant switched these notifications off, none for a person who switched order updates off, and
  one for an owner who is also on the staff list.  The second switch is what the code does: a comment
  in \<^verbatim>\<open>notifications.service.ts\<close> says that restaurant-facing types are not gated by it, but
  \<^verbatim>\<open>createNotification\<close> consults it for every type.
\<close>

theorem new_order_reaches_team_once:
  assumes "findRestaurantRow rid c = Some r"
  shows "matches (\<lambda>n. n_userId n = uid \<and> n_type n = NEW_ORDER_FOR_RESTAURANT)
      (nt_rows (onRestaurantOrderEvent uuid now showAmount (OrderPlaced oid cid rid) c)) =
    matches (\<lambda>n. n_userId n = uid \<and> n_type n = NEW_ORDER_FOR_RESTAURANT) (nt_rows c) +
      (if getRestaurantNotificationPreference rid NotifyOnNewOrder c \<and>
          (uid = rr_ownerId r \<or> list_ex (\<lambda>s. sf_restaurantId s = rid \<and> sm_status (sf_member s) = STAFF_ACTIVE \<and>
             sm_userId (sf_member s) = uid) (cg_staff c)) \<and>
          isPushAllowed uid NEW_ORDER_FOR_RESTAURANT c
       then 1 else 0)"
  by (simp only: onRestaurantOrderEvent_def event.case matches_notifyRestaurant recipients[OF assms])

section \<open>Reading\<close>

datatype readRequest =
    MarkOne int string
  | MarkAll int

fun runRead :: "string \<Rightarrow> readRequest \<Rightarrow> 'z noticeStore_scheme \<Rightarrow> 'z noticeStore_scheme" where
  "runRead uid (MarkOne now nid) c = snd (markMyNotificationAsRead now nid uid c)"
| "runRead uid (MarkAll now) c = snd (markAllMyNotificationsAsRead now uid c)"

lemma snd_markMy: "snd (markMyNotificationAsRead now nid uid c) = snd (markAsReadForCustomer now nid uid c)"
  by (simp add: markMyNotificationAsRead_def Let_def split: prod.split)

text \<open>
  Reading is private.  A customer's read requests change none of the notifications of others, and
  after marking all as read the customer has none unread.
\<close>

theorem reading_is_private:
  assumes "uid \<noteq> other"
  shows "filter (\<lambda>n. n_userId n = other) (nt_rows (foldl (\<lambda>c q. runRead uid q c) c qs)) =
     filter (\<lambda>n. n_userId n = other) (nt_rows c) \<and>
   getMyUnreadCount uid (runRead uid (MarkAll now) c) = 0"
proof
  show "filter (\<lambda>n. n_userId n = other) (nt_rows (foldl (\<lambda>c q. runRead uid q c) c qs)) =
     filter (\<lambda>n. n_userId n = other) (nt_rows c)"
  proof (induction qs arbitrary: c)
    case (Cons q qs)
    have "filter (\<lambda>n. n_userId n = other) (modify (\<lambda>n. P n \<and> n_userId n = uid) (setRead now) rows) =
        filter (\<lambda>n. n_userId n = other) rows"
      "filter (\<lambda>n. n_userId n = other) (modify (\<lambda>n. n_userId n = uid \<and> P n) (setRead now) rows) =
        filter (\<lambda>n. n_userId n = other) rows" for P now rows
      by (rule filter_modify_off; use assms in \<open>simp add: setRead_def\<close>)+
    then have "filter (\<lambda>n. n_userId n = other) (nt_rows (runRead uid q c)) = filter (\<lambda>n. n_userId n = other) (nt_rows c)"
      by (cases q) (simp_all add: snd_markMy markAsReadForCustomer_def markAllMyNotificationsAsRead_def)
    then show ?case by (simp add: Cons)
  qed simp
  show "getMyUnreadCount uid (runRead uid (MarkAll now) c) = 0"
  proof -
    have "matches (\<lambda>n. n_userId n = uid \<and> n_status n \<noteq> NS_READ)
        (modify (\<lambda>n. n_userId n = uid \<and> n_status n \<noteq> NS_READ) (setRead now) rows) = 0" for rows
      by (induction rows) (simp_all add: setRead_def)
    then show ?thesis by (simp add: getMyUnreadCount_def markAllMyNotificationsAsRead_def)
  qed
qed

text \<open>The legacy endpoint is not bound to the reader: any signed-in user marks anyone's notification.\<close>

lemma legacy_marks_anyones:
  assumes "lookup n_id nid (nt_rows c) = Some n"
  shows "map_option n_status (lookup n_id nid (nt_rows (snd (markAsRead now nid c)))) = Some NS_READ"
  using assms lookup_key[OF assms] by (simp add: markAsRead_def lookup_modify setRead_def)

section \<open>Retries\<close>

text \<open>
  A retry makes a read notification unread.  When an administrator retries a failed
  notification and its user reads it before the job runs, the delivery sets it back from read to
  sent, so it counts as unread again.
\<close>

theorem retry_unreads:
  assumes "keyed n_id (nt_rows c)" "retryNotification nid c = (Inr n, c1)"
    and "markMyNotificationAsRead now nid (n_userId n) c1 = (Inr m, c2)"
    and "processNotificationJob later (Inr ()) (Some nid) c2 = (Inr (), c3)" "nid \<noteq> []"
  shows "int (getMyUnreadCount (n_userId n) c3) = int (getMyUnreadCount (n_userId n) c2) + 1 \<and> n_status m = NS_READ"
proof -
  let ?rd = "\<lambda>r. n_id r = nid \<and> n_userId r = n_userId n"
  let ?sent = "\<lambda>r. r\<lparr>n_status := NS_SENT, n_errorMessage := None, n_sentAt := Some later, n_attempts := n_attempts r + 1\<rparr>"
  have n: "lookup n_id nid (nt_rows c) = Some n" and c1: "nt_rows c1 = nt_rows c"
    using assms(2) by (auto simp: retryNotification_def split: option.splits if_splits)
  have id: "n_id n = nid" using n by (rule lookup_key)
  have c2: "nt_rows c2 = modify ?rd (setRead now) (nt_rows c)"
    using assms(3) c1 by (auto simp: markMyNotificationAsRead_def markAsReadForCustomer_def Let_def split: if_splits)
  have row: "lookup n_id nid (nt_rows c2) = Some (setRead now n)"
    using n id by (simp add: c2 lookup_modify setRead_def)
  have keyed: "keyed n_id (nt_rows c2)" using assms(1) by (simp add: c2 setRead_def)
  have c3: "nt_rows c3 = modify (\<lambda>r. n_id r = nid \<and> True) ?sent (nt_rows c2)"
    using assms(4,5) row by (simp add: processNotificationJob_def deliverNotification_def recordDeliveryAttempt_def)
      (auto simp: modify_def)
  have "int (getMyUnreadCount (n_userId n) c3) = int (getMyUnreadCount (n_userId n) c2) + 1"
    unfolding getMyUnreadCount_def c3
    by (subst matches_modify_pk[OF keyed row]) (simp add: setRead_def)
  moreover have "n_status m = NS_READ"
  proof -
    have "findCustomerNotificationById nid (n_userId n) c2 = Some m"
      using assms(3) by (auto simp: markMyNotificationAsRead_def markAsReadForCustomer_def getMyNotificationById_def Let_def split: if_splits option.splits)
    then have "m \<in> set (nt_rows c2)" "n_id m = nid" by (auto simp: findCustomerNotificationById_def dest: find_SomeD)
    then have "m = setRead now n" using keyed_same[OF keyed, of m "setRead now n"] row lookup_SomeD[OF row] by auto
    then show ?thesis by (simp add: setRead_def)
  qed
  ultimately show ?thesis by simp
qed

section \<open>Devices\<close>

text \<open>
  A device stays with its first user.  Registering a push token that another user registered
  before updates the platform only: the token, and every push sent to it, stays with the first user,
  and the second one has no token.
\<close>

theorem device_stays_with_first_user:
  assumes "keyed pt_token (nt_tokens c)" "lookup pt_token token (nt_tokens c) = Some t" "pt_userId t \<noteq> uid"
  shows "map_option pt_userId (lookup pt_token token (nt_tokens (snd (registerPushToken uid token platform c)))) =
      Some (pt_userId t) \<and>
    filter (\<lambda>t. pt_userId t = uid) (nt_tokens (snd (registerPushToken uid token platform c))) =
      filter (\<lambda>t. pt_userId t = uid) (nt_tokens c)"
proof
  have key: "pt_token t = token" using assms(2) by (rule lookup_key)
  show "map_option pt_userId (lookup pt_token token (nt_tokens (snd (registerPushToken uid token platform c)))) =
      Some (pt_userId t)"
    using assms(2) key by (simp add: registerPushToken_def lookup_modify)
  have "t' = t" if "t' \<in> set (nt_tokens c)" "pt_token t' = token" for t'
    using keyed_same[OF assms(1) that(1) lookup_mem[OF assms(2)]] that(2) key by simp
  then have "filter (\<lambda>t. pt_userId t = uid) (modify (\<lambda>t. pt_token t = token) (\<lambda>t. t\<lparr>pt_platform := platform\<rparr>) (nt_tokens c)) =
      filter (\<lambda>t. pt_userId t = uid) (nt_tokens c)"
    by (intro filter_modify_off) (use assms(3) in auto)
  then show "filter (\<lambda>t. pt_userId t = uid) (nt_tokens (snd (registerPushToken uid token platform c))) =
      filter (\<lambda>t. pt_userId t = uid) (nt_tokens c)"
    using assms(2) by (simp add: registerPushToken_def)
qed

section \<open>The properties on concrete tables\<close>

definition cafe :: restaurantRow where
  "cafe = newRestaurant ''r1'' 0 ''o1'' \<lparr>cr_name = ''Cafe'', cr_slug = ''cafe'', cr_description = None,
      cr_phone = None, cr_email = None\<rparr>"

definition ownerOnStaff :: staffRow where
  "ownerOnStaff = \<lparr>sf_id = ''s1'', sf_restaurantId = ''r1'',
     sf_member = \<lparr>sm_userId = ''o1'', sm_role = STAFF, sm_status = STAFF_ACTIVE, sm_branchId = None\<rparr>,
     sf_invitedById = None, sf_createdAt = 0, sf_respondedAt = None\<rparr>"

definition cafeNotices :: "notification list \<Rightarrow> noticeStore" where
  "cafeNotices rows = \<lparr>cg_base = emptyWorld, cg_restaurants = [cafe], cg_branches = [], cg_staff = [ownerOnStaff],
     cg_offers = [], cg_reviews = [], cg_media = [], cg_owners = [], cg_published = [], cg_settings = [],
     nt_rows = rows, nt_preferences = [],
     nt_tokens = [\<lparr>pt_userId = ''u1'', pt_token = ''phone'', pt_platform = ''android''\<rparr>], nt_jobs = [], nt_pushed = []\<rparr>"

definition failedNotice :: notification where
  "failedNotice = (newNotification ''n1'' 0 ''u1'' GENERAL ''Hi'' ''Hello'' [])\<lparr>n_status := NS_FAILED\<rparr>"

text \<open>The owner, also on the staff list, gets one.\<close>

theorem new_order_reaches_team_once_witness:
  "matches (\<lambda>n. n_userId n = ''o1'' \<and> n_type n = NEW_ORDER_FOR_RESTAURANT)
     (nt_rows (onRestaurantOrderEvent id 5 (\<lambda>_. []) (OrderPlaced ''x'' ''u1'' ''r1'') (cafeNotices []))) = 1"
proof -
  have r: "findRestaurantRow ''r1'' (cafeNotices []) = Some cafe"
    by (simp add: findRestaurantRow_def cafeNotices_def cafe_def newRestaurant_def)
  have c: "getRestaurantNotificationPreference ''r1'' NotifyOnNewOrder (cafeNotices [])" "rr_ownerId cafe = ''o1''"
    "isPushAllowed ''o1'' NEW_ORDER_FOR_RESTAURANT (cafeNotices [])" "nt_rows (cafeNotices []) = []"
    by (simp_all add: getRestaurantNotificationPreference_def isPushAllowed_def cafeNotices_def cafe_def newRestaurant_def)
  show ?thesis by (simp only: new_order_reaches_team_once[OF r] c) simp
qed

theorem reading_is_private_witness:
  "filter (\<lambda>n. n_userId n = ''u1'') (nt_rows (foldl (\<lambda>c q. runRead ''u2'' q c) (cafeNotices [failedNotice]) [MarkOne 1 ''n1'', MarkAll 2])) =
     filter (\<lambda>n. n_userId n = ''u1'') (nt_rows (cafeNotices [failedNotice])) \<and>
   getMyUnreadCount ''u2'' (runRead ''u2'' (MarkAll 3) (cafeNotices [failedNotice])) = 0"
  by (rule reading_is_private) simp

theorem retry_unreads_witness:
  "getMyUnreadCount ''u1'' (snd (processNotificationJob 9 (Inr ()) (Some ''n1'')
     (snd (markMyNotificationAsRead 8 ''n1'' ''u1'' (snd (retryNotification ''n1'' (cafeNotices [failedNotice]))))))) = 1"
proof -
  let ?c = "cafeNotices [failedNotice]"
  obtain c1 where c1: "retryNotification ''n1'' ?c = (Inr failedNotice, c1)" "nt_rows c1 = [failedNotice]"
    by (simp add: retryNotification_def cafeNotices_def failedNotice_def newNotification_def)
  obtain c2 where c2: "markMyNotificationAsRead 8 ''n1'' ''u1'' c1 = (Inr (setRead 8 failedNotice), c2)"
    "nt_rows c2 = [setRead 8 failedNotice]"
    by (simp add: markMyNotificationAsRead_def markAsReadForCustomer_def Let_def c1(2) getMyNotificationById_def
        findCustomerNotificationById_def failedNotice_def newNotification_def setRead_def)
  obtain c3 where c3: "processNotificationJob 9 (Inr ()) (Some ''n1'') c2 = (Inr (), c3)"
    by (simp add: processNotificationJob_def deliverNotification_def recordDeliveryAttempt_def c2(2)
        failedNotice_def newNotification_def setRead_def)
  have u: "n_userId failedNotice = ''u1''" by (simp add: failedNotice_def newNotification_def)
  have "int (getMyUnreadCount ''u1'' c3) = int (getMyUnreadCount ''u1'' c2) + 1"
    using retry_unreads[OF _ c1(1) c2(1)[folded u] c3] by (simp add: u cafeNotices_def keyed_def)
  then show ?thesis by (simp add: c1 c2 c3 getMyUnreadCount_def setRead_def)
qed

theorem device_stays_with_first_user_witness:
  "map_option pt_userId (lookup pt_token ''phone''
      (nt_tokens (snd (registerPushToken ''u2'' ''phone'' ''ios'' (cafeNotices []))))) = Some ''u1'' \<and>
   filter (\<lambda>t. pt_userId t = ''u2'') (nt_tokens (snd (registerPushToken ''u2'' ''phone'' ''ios'' (cafeNotices [])))) = []"
  using device_stays_with_first_user[of "cafeNotices []" "''phone''"
      "\<lparr>pt_userId = ''u1'', pt_token = ''phone'', pt_platform = ''android''\<rparr>" "''u2''" "''ios''"]
  by (simp add: cafeNotices_def keyed_def)

end
