(* ===== verification/Reviews.thy ===== *)
theory Reviews
  imports Notifications Payments
begin

text \<open>
  Customer reviews and the restaurant's replies (\<^verbatim>\<open>reviews.service.ts\<close>,
  \<^verbatim>\<open>reviews.repository.ts\<close>).  A review and the restaurant's rating columns are written in one
  transaction; at the database's default isolation its aggregate sees the committed rows and its own
  write, which \<open>visible\<close> says: \<^term>\<open>\<lambda>_. True\<close> when no other transaction is running.  The ratings'
  mean is exact here, a double in the code.
\<close>

section \<open>Repository\<close>

definition reviewKey :: "review \<Rightarrow> string \<times> string" where
  "reviewKey r = (rw_restaurantId r, rw_customerId r)"

definition meanRating :: "review list \<Rightarrow> rat" where
  "meanRating rs = (if rs = [] then 0 else of_int (sum_list (map rw_rating rs)) / of_nat (length rs))"

definition reviewsOf :: "string \<Rightarrow> 'z catalog_scheme \<Rightarrow> review list" where
  "reviewsOf rid c = filter (\<lambda>r. rw_restaurantId r = rid) (cg_reviews c)"

definition recomputeAggregate ::
  "(review \<Rightarrow> bool) \<Rightarrow> string \<Rightarrow> 'z catalog_scheme \<Rightarrow> ('z catalog_scheme, restaurantRow) outcome" where
  "recomputeAggregate visible rid c =
     (let rs = filter visible (reviewsOf rid c)
      in updateRestaurantRow rid (\<lambda>r. r\<lparr>rr_avgRating := meanRating rs, rr_ratingCount := length rs\<rparr>) c)"

text \<open>A transaction whose last statement fails leaves nothing behind.\<close>

definition commit :: "'s \<Rightarrow> ('s, 'b) outcome \<Rightarrow> 'a \<Rightarrow> ('s, 'a) outcome" where
  "commit before res answer = (case res of (Inl e, _) \<Rightarrow> (Inl e, before) | (Inr _, s) \<Rightarrow> (Inr answer, s))"

definition upsertReview ::
  "(review \<Rightarrow> bool) \<Rightarrow> string \<Rightarrow> int \<Rightarrow> string \<Rightarrow> string \<Rightarrow> int \<Rightarrow> string option \<Rightarrow> 'z catalog_scheme
     \<Rightarrow> ('z catalog_scheme, review) outcome" where
  "upsertReview visible uuid now rid cid rating comment c =
     (case lookup reviewKey (rid, cid) (cg_reviews c) of
        Some r \<Rightarrow>
          (let f = (\<lambda>r. r\<lparr>rw_rating := rating, rw_comment := patchOpt comment (rw_comment r)\<rparr>)
           in commit c (recomputeAggregate visible rid
                (c\<lparr>cg_reviews := modify (\<lambda>r. reviewKey r = (rid, cid)) f (cg_reviews c)\<rparr>)) (f r))
      | None \<Rightarrow>
          (let r = \<lparr>rw_id = uuid, rw_restaurantId = rid, rw_customerId = cid, rw_rating = rating, rw_comment = comment,
                    rw_createdAt = now, rw_replyText = None, rw_replyCreatedAt = None, rw_replyUpdatedAt = None,
                    rw_repliedByUserId = None\<rparr>
           in commit c (recomputeAggregate visible rid (c\<lparr>cg_reviews := cg_reviews c @ [r]\<rparr>)) r))"

definition deleteReviewRow ::
  "(review \<Rightarrow> bool) \<Rightarrow> string \<Rightarrow> string \<Rightarrow> 'z catalog_scheme \<Rightarrow> ('z catalog_scheme, unit) outcome" where
  "deleteReviewRow visible rid cid c =
     (case lookup reviewKey (rid, cid) (cg_reviews c) of
        None \<Rightarrow> (Inl (RecordNotFound ''Review''), c)
      | Some _ \<Rightarrow> commit c (recomputeAggregate visible rid
            (c\<lparr>cg_reviews := filter (\<lambda>r. reviewKey r \<noteq> (rid, cid)) (cg_reviews c)\<rparr>)) ())"

definition findReviewByCustomer :: "string \<Rightarrow> string \<Rightarrow> 'z catalog_scheme \<Rightarrow> review option" where
  "findReviewByCustomer rid cid c = lookup reviewKey (rid, cid) (cg_reviews c)"

definition setReply :: "int \<Rightarrow> string \<Rightarrow> string \<Rightarrow> bool \<Rightarrow> review \<Rightarrow> review" where
  "setReply now replyText uid isNew r = r\<lparr>rw_replyText := Some replyText, rw_replyUpdatedAt := Some now,
     rw_replyCreatedAt := (if isNew then Some now else rw_replyCreatedAt r), rw_repliedByUserId := Some uid\<rparr>"

definition clearReply :: "review \<Rightarrow> review" where
  "clearReply r = r\<lparr>rw_replyText := None, rw_replyCreatedAt := None, rw_replyUpdatedAt := None, rw_repliedByUserId := None\<rparr>"

definition updateReviewRow ::
  "string \<Rightarrow> (review \<Rightarrow> review) \<Rightarrow> 'z catalog_scheme \<Rightarrow> ('z catalog_scheme, review) outcome" where
  "updateReviewRow i f c =
     (case lookup rw_id i (cg_reviews c) of
        None \<Rightarrow> (Inl (RecordNotFound ''Review''), c)
      | Some r \<Rightarrow> (Inr (f r), c\<lparr>cg_reviews := modify (\<lambda>r. rw_id r = i) f (cg_reviews c)\<rparr>))"

record ratingSummary =
  sy_averageRating :: rat
  sy_totalReviews :: nat
  sy_breakdown :: "(int \<times> nat) list"

definition ratingSummaryOf :: "string \<Rightarrow> 'z catalog_scheme \<Rightarrow> ratingSummary" where
  "ratingSummaryOf rid c =
     (let rs = reviewsOf rid c
      in \<lparr>sy_averageRating = meanRating rs, sy_totalReviews = length rs,
          sy_breakdown = map (\<lambda>k. (k, matches (\<lambda>r. rw_rating r = k) rs)) [5, 4, 3, 2, 1]\<rparr>)"

record manageReviewsQuery =
  mq_page :: nat
  mq_limit :: nat
  mq_rating :: "int option"
  mq_dateFrom :: "int option"
  mq_dateTo :: "int option"
  mq_hasReply :: "bool option"

definition managedReviewWhere :: "manageReviewsQuery \<Rightarrow> review \<Rightarrow> bool" where
  "managedReviewWhere q r \<longleftrightarrow>
     (case mq_rating q of None \<Rightarrow> True | Some k \<Rightarrow> rw_rating r = k) \<and>
     withinDates (mq_dateFrom q) (mq_dateTo q) (rw_createdAt r) \<and>
     (case mq_hasReply q of None \<Rightarrow> True | Some b \<Rightarrow> (rw_replyText r \<noteq> None) = b)"

section \<open>Service\<close>

definition REVIEW_MANAGE_ROLES :: "restaurantAccessRole list" where
  "REVIEW_MANAGE_ROLES = [StaffRole OWNER, StaffRole CO_OWNER, StaffRole BRANCH_MANAGER, AdminRole]"

definition REPLY_PREVIEW_LENGTH :: nat where "REPLY_PREVIEW_LENGTH = 120"

definition customerName :: "string \<Rightarrow> 'z catalog_scheme \<Rightarrow> string option" where
  "customerName cid c = map_option (\<lambda>u. trim (ow_firstName u @ '' '' @ (case ow_lastName u of None \<Rightarrow> [] | Some l \<Rightarrow> l)))
     (lookup ow_id cid (cg_owners c))"

definition toReviewResponse :: "'z catalog_scheme \<Rightarrow> review \<Rightarrow> review \<times> string option" where
  "toReviewResponse c r = (r, customerName (rw_customerId r) c)"

definition createReview ::
  "(review \<Rightarrow> bool) \<Rightarrow> string \<Rightarrow> int \<Rightarrow> string \<Rightarrow> string \<Rightarrow> int \<Rightarrow> string option \<Rightarrow> 'z catalog_scheme
     \<Rightarrow> ('z catalog_scheme, review) outcome" where
  "createReview visible uuid now rid cid rating comment c =
     (if findRestaurantRow rid c = None then (Inl (NotFound ''Restaurant''), c)
      else if \<not> list_ex (\<lambda>ord. o_restaurantId ord = rid \<and> o_customerId ord = cid \<and> o_status ord = DELIVERED)
                (w_orders (cg_base c))
      then (Inl (Forbidden ''review after a delivered order''), c)
      else upsertReview visible uuid now rid cid rating comment c)"

definition getReviews ::
  "string \<Rightarrow> nat \<Rightarrow> nat \<Rightarrow> 'z catalog_scheme \<Rightarrow> ((review \<times> string option) list \<times> nat \<times> nat) result" where
  "getReviews rid page limit c =
     (if findRestaurantRow rid c = None then Inl (NotFound ''Restaurant'')
      else (let rs = reviewsOf rid c
            in Inr (map (toReviewResponse c) (skipTake ((page - 1) * limit) limit (sort_key (\<lambda>r. - rw_createdAt r) rs)),
                    length rs, totalPages (length rs) limit)))"

definition getMyReview :: "string \<Rightarrow> string \<Rightarrow> 'z catalog_scheme \<Rightarrow> review option" where
  "getMyReview rid cid c = findReviewByCustomer rid cid c"

definition deleteReview ::
  "(review \<Rightarrow> bool) \<Rightarrow> ('z catalog_scheme \<Rightarrow> 'z catalog_scheme) \<Rightarrow> string \<Rightarrow> string \<Rightarrow> 'z catalog_scheme
     \<Rightarrow> ('z catalog_scheme, unit) outcome" where
  "deleteReview visible env rid cid c =
     (case findReviewByCustomer rid cid c of
        None \<Rightarrow> (Inl (NotFound ''Review''), c)
      | Some _ \<Rightarrow> deleteReviewRow visible rid cid (env c))"

definition assertCanManageReviews :: "string \<Rightarrow> authUser \<Rightarrow> 'z catalog_scheme \<Rightarrow> unit result" where
  "assertCanManageReviews rid u c =
     guard (hasRestaurantRole (roleView c) rid u REVIEW_MANAGE_ROLES) (Forbidden ''manage reviews'')"

definition getReviewsForManage ::
  "string \<Rightarrow> manageReviewsQuery \<Rightarrow> authUser \<Rightarrow> 'z catalog_scheme
     \<Rightarrow> ((review \<times> string option) list \<times> nat \<times> nat) result" where
  "getReviewsForManage rid q u c =
     andThen (assertCanManageReviews rid u c) (\<lambda>_.
       let rs = filter (managedReviewWhere q) (reviewsOf rid c)
       in Inr (map (toReviewResponse c)
                 (skipTake ((mq_page q - 1) * mq_limit q) (mq_limit q) (sort_key (\<lambda>r. - rw_createdAt r) rs)),
               length rs, totalPages (length rs) (mq_limit q)))"

definition getRatingSummary :: "string \<Rightarrow> authUser \<Rightarrow> 'z catalog_scheme \<Rightarrow> ratingSummary result" where
  "getRatingSummary rid u c = andThen (assertCanManageReviews rid u c) (\<lambda>_. Inr (ratingSummaryOf rid c))"

definition requireOwnedReview :: "string \<Rightarrow> string \<Rightarrow> authUser \<Rightarrow> 'z catalog_scheme \<Rightarrow> review result" where
  "requireOwnedReview rid i u c =
     andThen (assertCanManageReviews rid u c) (\<lambda>_.
       case lookup rw_id i (cg_reviews c) of
         None \<Rightarrow> Inl (NotFound ''Review'')
       | Some r \<Rightarrow> if rw_restaurantId r \<noteq> rid then Inl (NotFound ''Review'') else Inr r)"

definition replyPreview :: "string \<Rightarrow> string" where
  "replyPreview t =
     (if length t > REPLY_PREVIEW_LENGTH then take (REPLY_PREVIEW_LENGTH - 3) t @ ''...'' else t)"

definition createReply ::
  "string \<Rightarrow> int \<Rightarrow> string \<Rightarrow> string \<Rightarrow> string \<Rightarrow> authUser \<Rightarrow> 'z noticeStore_scheme
     \<Rightarrow> ('z noticeStore_scheme, review) outcome" where
  "createReply uuid now rid i replyText u c =
     (case requireOwnedReview rid i u c of
        Inl e \<Rightarrow> (Inl e, c)
      | Inr r \<Rightarrow>
          if truthy (rw_replyText r) then (Inl (BadRequest ''already has a reply''), c)
          else
            (case updateReviewRow i (setReply now replyText (userId u) True) c of
               (Inl e, c1) \<Rightarrow> (Inl e, c1)
             | (Inr r', c1) \<Rightarrow>
                 (Inr r', createNotification uuid now (rw_customerId r) REVIEW_REPLIED
                    ''The restaurant replied to your review'' (replyPreview replyText)
                    [(''referenceType'', ''REVIEW''), (''referenceId'', i), (''restaurantId'', rid)] c1)))"

definition updateReply ::
  "int \<Rightarrow> string \<Rightarrow> string \<Rightarrow> string \<Rightarrow> authUser \<Rightarrow> 'z catalog_scheme \<Rightarrow> ('z catalog_scheme, review) outcome" where
  "updateReply now rid i replyText u c =
     (case requireOwnedReview rid i u c of
        Inl e \<Rightarrow> (Inl e, c)
      | Inr r \<Rightarrow>
          if \<not> truthy (rw_replyText r) then (Inl (NotFound ''no reply yet''), c)
          else updateReviewRow i (setReply now replyText (userId u) False) c)"

definition deleteReply :: "string \<Rightarrow> string \<Rightarrow> authUser \<Rightarrow> 'z catalog_scheme \<Rightarrow> ('z catalog_scheme, unit) outcome" where
  "deleteReply rid i u c =
     (case requireOwnedReview rid i u c of
        Inl e \<Rightarrow> (Inl e, c)
      | Inr r \<Rightarrow>
          if \<not> truthy (rw_replyText r) then (Inl (NotFound ''no reply to delete''), c)
          else (case updateReviewRow i clearReply c of
                  (Inl e, c1) \<Rightarrow> (Inl e, c1)
                | (Inr _, c1) \<Rightarrow> (Inr (), c1)))"

section \<open>The rating columns\<close>

definition ratingRow :: "'z catalog_scheme \<Rightarrow> restaurantRow \<Rightarrow> bool" where
  "ratingRow c r \<longleftrightarrow> rr_ratingCount r = length (reviewsOf (rr_id r) c) \<and> rr_avgRating r = meanRating (reviewsOf (rr_id r) c)"

definition ratingsExact :: "'z catalog_scheme \<Rightarrow> bool" where
  "ratingsExact c \<longleftrightarrow> (\<forall>r \<in> set (cg_restaurants c). ratingRow c r)"

lemma reviewsOf_restaurants [simp]: "reviewsOf rid (c\<lparr>cg_restaurants := x\<rparr>) = reviewsOf rid c"
  by (simp add: reviewsOf_def)

lemma ratingsExact_recompute:
  assumes "\<And>r. r \<in> set (cg_restaurants c) \<Longrightarrow> rr_id r \<noteq> rid \<Longrightarrow> ratingRow c r"
  shows "ratingsExact (snd (recomputeAggregate (\<lambda>_. True) rid c))"
proof -
  have row: "ratingRow (snd (recomputeAggregate (\<lambda>_. True) rid c)) r = ratingRow c r" for r
    by (simp add: ratingRow_def recomputeAggregate_def updateRestaurantRow_def reviewsOf_def Let_def split: option.split)
  have "ratingRow c r" if "r \<in> set (cg_restaurants (snd (recomputeAggregate (\<lambda>_. True) rid c)))" for r
  proof (cases "rr_id r = rid")
    case True
    show ?thesis
    proof (cases "findRestaurantRow rid c")
      case None
      then have "r \<in> set (cg_restaurants c)" using that
        by (simp add: recomputeAggregate_def updateRestaurantRow_def Let_def)
      then have "findRestaurantRow rid c \<noteq> None" using True by (auto simp: findRestaurantRow_def lookup_None_iff)
      then show ?thesis using None by simp
    next
      case (Some r0)
      let ?f = "\<lambda>x. if rr_id x = rid
          then x\<lparr>rr_avgRating := meanRating (reviewsOf rid c), rr_ratingCount := length (reviewsOf rid c)\<rparr> else x"
      have "r \<in> ?f ` set (cg_restaurants c)"
        using that Some by (simp add: recomputeAggregate_def updateRestaurantRow_def Let_def set_modify)
      then obtain x where "r = ?f x" by (rule imageE)
      then show ?thesis using True by (cases "rr_id x = rid") (simp_all add: ratingRow_def)
    qed
  next
    case False
    then have "r \<in> set (cg_restaurants c)" using that
      by (auto simp: recomputeAggregate_def updateRestaurantRow_def Let_def set_modify split: option.splits if_splits)
    then show ?thesis using assms False by simp
  qed
  then show ?thesis by (simp add: ratingsExact_def row)
qed

lemma ratingsExact_write:
  assumes "ratingsExact c" "\<And>rid'. rid' \<noteq> rid \<Longrightarrow> filter (\<lambda>r. rw_restaurantId r = rid') rs = reviewsOf rid' c"
  shows "ratingsExact (snd (commit c (recomputeAggregate (\<lambda>_. True) rid (c\<lparr>cg_reviews := rs\<rparr>)) x))"
proof -
  have "ratingsExact (snd (recomputeAggregate (\<lambda>_. True) rid (c\<lparr>cg_reviews := rs\<rparr>)))"
  proof (rule ratingsExact_recompute)
    fix r assume "r \<in> set (cg_restaurants (c\<lparr>cg_reviews := rs\<rparr>))" "rr_id r \<noteq> rid"
    then have "ratingRow c r" "filter (\<lambda>x. rw_restaurantId x = rr_id r) rs = reviewsOf (rr_id r) c"
      using assms by (simp_all add: ratingsExact_def)
    then show "ratingRow (c\<lparr>cg_reviews := rs\<rparr>) r"
      by (simp add: ratingRow_def reviewsOf_def[of "rr_id r" "c\<lparr>cg_reviews := rs\<rparr>"])
  qed
  then show ?thesis using assms(1) by (auto simp: commit_def split: prod.split sum.split)
qed

lemma ratingsExact_upsert:
  assumes "ratingsExact c" shows "ratingsExact (snd (upsertReview (\<lambda>_. True) uuid now rid cid rating comment c))"
proof (cases "lookup reviewKey (rid, cid) (cg_reviews c)")
  case None
  show ?thesis unfolding upsertReview_def None Let_def option.case
    by (rule ratingsExact_write[OF assms]) (simp add: reviewsOf_def)
next
  case (Some r)
  show ?thesis unfolding upsertReview_def Some Let_def option.case
    by (rule ratingsExact_write[OF assms]) (auto simp: reviewsOf_def reviewKey_def intro!: filter_modify_off)
qed

lemma ratingsExact_delete:
  assumes "ratingsExact c" shows "ratingsExact (snd (deleteReviewRow (\<lambda>_. True) rid cid c))"
proof (cases "lookup reviewKey (rid, cid) (cg_reviews c)")
  case (Some r)
  show ?thesis unfolding deleteReviewRow_def Some option.case
    by (rule ratingsExact_write[OF assms], unfold reviewsOf_def, rule filter_filter_off) (auto simp: reviewKey_def)
qed (simp add: deleteReviewRow_def assms)

text \<open>The customers' review requests, one after the other.\<close>

datatype reviewOp =
    Submit string int string string int "string option"
  | Withdraw string string

fun runReviewOp :: "'z catalog_scheme \<Rightarrow> reviewOp \<Rightarrow> 'z catalog_scheme" where
  "runReviewOp c (Submit uuid now rid cid rating comment) = snd (createReview (\<lambda>_. True) uuid now rid cid rating comment c)"
| "runReviewOp c (Withdraw rid cid) = snd (deleteReview (\<lambda>_. True) id rid cid c)"

lemma ratingsExact_op:
  assumes "ratingsExact c" shows "ratingsExact (runReviewOp c q)"
  using assms by (cases q) (simp_all add: createReview_def ratingsExact_upsert deleteReview_def ratingsExact_delete
      split: option.split)

text \<open>
  Ratings are exact.  Along any review requests that run one after the other, every restaurant's
  stored rating count and average are the number and the mean of its reviews.
\<close>

theorem ratings_exact:
  assumes "cg_reviews c = []" "list_all (\<lambda>r. rr_ratingCount r = 0 \<and> rr_avgRating r = 0) (cg_restaurants c)"
    and "r \<in> set (cg_restaurants (foldl runReviewOp c qs))"
  shows "rr_ratingCount r = length (reviewsOf (rr_id r) (foldl runReviewOp c qs)) \<and>
    rr_avgRating r = meanRating (reviewsOf (rr_id r) (foldl runReviewOp c qs))"
proof -
  have "ratingsExact c"
    using assms(1,2) by (simp add: ratingsExact_def ratingRow_def reviewsOf_def meanRating_def list_all_iff)
  then have "ratingsExact (foldl runReviewOp c qs)"
    by (induction qs arbitrary: c) (simp_all add: ratingsExact_op)
  then show ?thesis using assms(3) by (simp add: ratingsExact_def ratingRow_def)
qed

lemma upsert_new:
  assumes "lookup reviewKey (rid, cid) (cg_reviews c) = None" "findRestaurantRow rid c = Some r"
  shows "\<exists>rv. upsertReview visible uuid now rid cid rating comment c =
      (Inr rv, c\<lparr>cg_reviews := cg_reviews c @ [rv],
         cg_restaurants := modify (\<lambda>r. rr_id r = rid) (\<lambda>r. r\<lparr>rr_avgRating := meanRating (filter visible (reviewsOf rid c @ [rv])),
           rr_ratingCount := length (filter visible (reviewsOf rid c @ [rv]))\<rparr>) (cg_restaurants c)\<rparr>) \<and>
    rw_id rv = uuid \<and> rw_restaurantId rv = rid \<and> rw_customerId rv = cid \<and> rw_rating rv = rating"
  using assms by (simp add: upsertReview_def Let_def commit_def recomputeAggregate_def updateRestaurantRow_def
      findRestaurantRow_def reviewsOf_def)

text \<open>
  Concurrent reviews are lost from the rating.  Two customers review a restaurant in
  overlapping transactions: the second one's aggregate does not see the first one's uncommitted
  row, and its write stands.  The restaurant then has two more reviews but a count of one more,
  until the next review repairs it.
\<close>

theorem concurrent_reviews_lost:
  assumes "findRestaurantRow rid c = Some r" "keyed rw_id (cg_reviews c)" "a \<noteq> b" "ida \<noteq> idb"
    and "ida \<notin> rw_id ` set (cg_reviews c)"
    and "findReviewByCustomer rid a c = None" "findReviewByCustomer rid b c = None"
    and "upsertReview (\<lambda>_. True) ida now rid a k1 t1 c = (Inr ra, c1)"
    and "upsertReview (\<lambda>rv. rw_id rv \<noteq> ida) idb now rid b k2 t2 c1 = (Inr rb, c2)"
  shows "length (reviewsOf rid c2) = length (reviewsOf rid c) + 2 \<and>
    map_option rr_ratingCount (findRestaurantRow rid c2) = Some (length (reviewsOf rid c) + 1)"
proof -
  have id: "rr_id r = rid" using assms(1) lookup_key[of rr_id rid "cg_restaurants c" r] by (simp add: findRestaurantRow_def)
  note A = upsert_new[OF assms(6)[unfolded findReviewByCustomer_def] assms(1), of "\<lambda>_. True" ida now k1 t1]
  have ra: "rw_id ra = ida" "rw_restaurantId ra = rid" "rw_customerId ra = a" "cg_reviews c1 = cg_reviews c @ [ra]"
    using A assms(8) by auto
  obtain r1 where r1: "findRestaurantRow rid c1 = Some r1"
    using A assms(1,8) id by (auto simp: findRestaurantRow_def lookup_modify)
  have id1: "rr_id r1 = rid" using r1 lookup_key[of rr_id rid "cg_restaurants c1" r1] by (simp add: findRestaurantRow_def)
  have none: "lookup reviewKey (rid, b) (cg_reviews c1) = None"
    using assms(3,7) ra by (simp add: findReviewByCustomer_def lookup_append reviewKey_def)
  note B = upsert_new[OF none r1, of "\<lambda>rv. rw_id rv \<noteq> ida" idb now k2 t2]
  have rb: "rw_id rb = idb" "rw_restaurantId rb = rid" "cg_reviews c2 = cg_reviews c1 @ [rb]"
    using B assms(9) by auto
  have old: "filter (\<lambda>rv. rw_id rv \<noteq> ida) (reviewsOf rid c) = reviewsOf rid c"
    by (rule filter_True) (use assms(5) in \<open>auto simp: reviewsOf_def\<close>)
  have "map_option rr_ratingCount (findRestaurantRow rid c2) =
      Some (length (filter (\<lambda>rv. rw_id rv \<noteq> ida) (reviewsOf rid c1 @ [rb])))"
    using B assms(9) r1 id1 by (auto simp: findRestaurantRow_def lookup_modify)
  moreover have "reviewsOf rid c1 = reviewsOf rid c @ [ra]" using ra by (simp add: reviewsOf_def)
  moreover have "length (reviewsOf rid c2) = length (reviewsOf rid c) + 2" using ra rb by (simp add: reviewsOf_def)
  ultimately show ?thesis using old ra(1) rb(1) assms(4) by simp
qed

lemma breakdown_sums:
  "list_all (\<lambda>r. rw_rating r \<in> {1..5}) rs \<Longrightarrow>
     sum_list (map (\<lambda>k. matches (\<lambda>r. rw_rating r = k) rs) [5, 4, 3, 2, 1]) = length rs \<and>
     sum_list (map (\<lambda>k. k * int (matches (\<lambda>r. rw_rating r = k) rs)) [5, 4, 3, 2, 1]) = sum_list (map rw_rating rs)"
proof (induction rs)
  case (Cons r rs)
  have "rw_rating r = 1 \<or> rw_rating r = 2 \<or> rw_rating r = 3 \<or> rw_rating r = 4 \<or> rw_rating r = 5"
    using Cons.prems by auto
  then show ?case using Cons by auto
qed simp

text \<open>
  The star breakdown is complete.  When every rating is a whole number of stars from one to
  five, the counts of the summary add up to the number of reviews and, weighted with their stars, to
  the average times that number.
\<close>

theorem rating_summary_complete:
  assumes "list_all (\<lambda>r. rw_rating r \<in> {1..5}) (cg_reviews c)" "getRatingSummary rid u c = Inr s"
  shows "sum_list (map snd (sy_breakdown s)) = sy_totalReviews s \<and>
    of_int (sum_list (map (\<lambda>(k, n). k * int n) (sy_breakdown s))) = sy_averageRating s * of_nat (sy_totalReviews s)"
proof -
  let ?rs = "reviewsOf rid c"
  have s: "s = ratingSummaryOf rid c"
    using assms(2) by (auto simp: getRatingSummary_def andThen_Inr_iff)
  have "list_all (\<lambda>r. rw_rating r \<in> {1..5}) ?rs" using assms(1) by (auto simp: reviewsOf_def list_all_iff)
  note sums = breakdown_sums[OF this]
  have "meanRating ?rs * of_nat (length ?rs) = of_int (sum_list (map rw_rating ?rs))" by (simp add: meanRating_def)
  then show ?thesis using sums by (simp add: s ratingSummaryOf_def Let_def)
qed

section \<open>Replies\<close>

text \<open>A customer's new rating and text keep the restaurant's reply to the old ones.\<close>

lemma resubmission_keeps_reply:
  assumes "lookup reviewKey (rid, cid) (cg_reviews c) = Some r" "upsertReview vis uuid now rid cid k (Some t) c = (Inr r', c')"
  shows "rw_replyText r' = rw_replyText r \<and> rw_comment r' = Some t"
  using assms by (auto simp: upsertReview_def Let_def commit_def patchOpt_def split: prod.splits sum.splits)

section \<open>The properties on a concrete restaurant\<close>

definition bistro :: restaurantRow where
  "bistro = newRestaurant ''r1'' 0 ''o1'' \<lparr>cr_name = ''Bistro'', cr_slug = ''bistro'', cr_description = None,
      cr_phone = None, cr_email = None\<rparr>"

definition starReview :: "int \<Rightarrow> review" where
  "starReview k = \<lparr>rw_id = ''v1'', rw_restaurantId = ''r1'', rw_customerId = ''u9'', rw_rating = k, rw_comment = None,
     rw_createdAt = 0, rw_replyText = None, rw_replyCreatedAt = None, rw_replyUpdatedAt = None, rw_repliedByUserId = None\<rparr>"

definition bistroTown :: "review list \<Rightarrow> catalog" where
  "bistroTown rs = \<lparr>cg_base = emptyWorld, cg_restaurants = [bistro], cg_branches = [], cg_staff = [], cg_offers = [],
     cg_reviews = rs, cg_media = [], cg_owners = [], cg_published = [], cg_settings = []\<rparr>"

lemma bistro_found: "findRestaurantRow ''r1'' (bistroTown rs) = Some bistro"
  by (simp add: findRestaurantRow_def bistroTown_def bistro_def newRestaurant_def)

definition dinerTown :: catalog where
  "dinerTown = (bistroTown [])\<lparr>cg_base := emptyWorld\<lparr>w_orders := [sampleOrder\<lparr>o_status := DELIVERED,
     o_customerId := ''u1'', o_restaurantId := ''r1''\<rparr>]\<rparr>\<rparr>"

lemma diner_reviews:
  "\<exists>r. cg_restaurants (foldl runReviewOp dinerTown [Submit ''v1'' 1 ''r1'' ''u1'' 4 None]) = [r] \<and> rr_ratingCount r = 1"
  by (simp add: createReview_def upsertReview_def commit_def recomputeAggregate_def updateRestaurantRow_def Let_def
      dinerTown_def bistroTown_def findRestaurantRow_def reviewsOf_def bistro_def newRestaurant_def emptyWorld_def
      modify_def sampleOrder_def)

theorem ratings_exact_witness:
  "\<exists>r. cg_restaurants (foldl runReviewOp dinerTown [Submit ''v1'' 1 ''r1'' ''u1'' 4 None]) = [r] \<and>
     rr_ratingCount r = 1 \<and>
     rr_ratingCount r = length (reviewsOf (rr_id r) (foldl runReviewOp dinerTown [Submit ''v1'' 1 ''r1'' ''u1'' 4 None])) \<and>
     rr_avgRating r = meanRating (reviewsOf (rr_id r) (foldl runReviewOp dinerTown [Submit ''v1'' 1 ''r1'' ''u1'' 4 None]))"
proof -
  obtain r where r: "cg_restaurants (foldl runReviewOp dinerTown [Submit ''v1'' 1 ''r1'' ''u1'' 4 None]) = [r]"
    and one: "rr_ratingCount r = 1" using diner_reviews by blast
  have "r \<in> set (cg_restaurants (foldl runReviewOp dinerTown [Submit ''v1'' 1 ''r1'' ''u1'' 4 None]))"
    unfolding r by simp
  moreover have "cg_reviews dinerTown = []" by (simp add: dinerTown_def bistroTown_def)
  moreover have "list_all (\<lambda>r. rr_ratingCount r = 0 \<and> rr_avgRating r = 0) (cg_restaurants dinerTown)"
    by (simp add: dinerTown_def bistroTown_def bistro_def newRestaurant_def)
  ultimately show ?thesis using ratings_exact[of dinerTown r] r one by blast
qed

theorem concurrent_reviews_lost_witness:
  "let c1 = snd (upsertReview (\<lambda>_. True) ''a'' 5 ''r1'' ''u1'' 5 None (bistroTown []));
       c2 = snd (upsertReview (\<lambda>rv. rw_id rv \<noteq> ''a'') ''b'' 5 ''r1'' ''u2'' 1 None c1)
   in length (reviewsOf ''r1'' c2) = 2 \<and> map_option rr_ratingCount (findRestaurantRow ''r1'' c2) = Some 1"
proof -
  have none: "lookup reviewKey (''r1'', cid) (cg_reviews (bistroTown [])) = None" for cid by (simp add: bistroTown_def)
  obtain ra c1 where A: "upsertReview (\<lambda>_. True) ''a'' 5 ''r1'' ''u1'' 5 None (bistroTown []) = (Inr ra, c1)"
    and c1: "cg_reviews c1 = [ra]" "rw_customerId ra = ''u1''" "rw_restaurantId ra = ''r1''" "findRestaurantRow ''r1'' c1 \<noteq> None"
    using upsert_new[OF none bistro_found, of "\<lambda>_. True" "''a''" 5 "''u1''" 5 None]
    by (auto simp: bistroTown_def findRestaurantRow_def lookup_modify bistro_def newRestaurant_def)
  then obtain r1 where r1: "findRestaurantRow ''r1'' c1 = Some r1" by blast
  have none1: "lookup reviewKey (''r1'', ''u2'') (cg_reviews c1) = None" using c1 by (simp add: reviewKey_def)
  obtain rb c2 where B: "upsertReview (\<lambda>rv. rw_id rv \<noteq> ''a'') ''b'' 5 ''r1'' ''u2'' 1 None c1 = (Inr rb, c2)"
    using upsert_new[OF none1 r1, of "\<lambda>rv. rw_id rv \<noteq> ''a''" "''b''" 5 1 None] by auto
  have "length (reviewsOf ''r1'' c2) = length (reviewsOf ''r1'' (bistroTown [])) + 2 \<and>
      map_option rr_ratingCount (findRestaurantRow ''r1'' c2) = Some (length (reviewsOf ''r1'' (bistroTown [])) + 1)"
    by (rule concurrent_reviews_lost[OF bistro_found _ _ _ _ _ _ A B])
      (simp_all add: bistroTown_def keyed_def findReviewByCustomer_def)
  then show ?thesis by (simp add: A B reviewsOf_def[of _ "bistroTown []"]) (simp add: bistroTown_def)
qed

theorem rating_summary_complete_witness:
  "\<exists>s. getRatingSummary ''r1'' \<lparr>userId = ''o1'', role = RESTAURANT_OWNER\<rparr> (bistroTown [starReview 4]) = Inr s \<and>
     sum_list (map snd (sy_breakdown s)) = sy_totalReviews s"
proof -
  let ?u = "\<lparr>userId = ''o1'', role = RESTAURANT_OWNER\<rparr>"
  have "hasRestaurantRole (roleView (bistroTown [starReview 4])) ''r1'' ?u REVIEW_MANAGE_ROLES"
    by (simp add: hasRestaurantRole_def getRestaurantRole_def isAdmin_def roleView_def bistroTown_def bistro_def
        newRestaurant_def REVIEW_MANAGE_ROLES_def)
  then obtain s where s: "getRatingSummary ''r1'' ?u (bistroTown [starReview 4]) = Inr s"
    by (simp add: getRatingSummary_def assertCanManageReviews_def)
  have "list_all (\<lambda>r. rw_rating r \<in> {1..5}) (cg_reviews (bistroTown [starReview 4]))"
    by (simp add: bistroTown_def starReview_def)
  from rating_summary_complete[OF this s] show ?thesis using s by auto
qed

end
