(* ===== verification/Offers.thy ===== *)
theory Offers
  imports Discovery MenuAdmin
begin

text \<open>
  A restaurant's offers (\<^verbatim>\<open>modules/offers\<close>: service, repository and DTOs).  The customer's queries
  see the live offers only, with \<^const>\<open>activeOffer\<close> of the restaurant listings; the owner's
  operations work on every offer of the restaurant.  A field of an update request is left out, null or
  given: validation accepts null for every one of them.
\<close>

section \<open>Requests\<close>

datatype 'v field = Omitted | Null | Given 'v

record createOfferDto =
  cof_restaurantId :: string
  cof_title :: string
  cof_description :: "string field"
  cof_imageUrl :: "string field"
  cof_linkUrl :: "string field"
  cof_type :: "offerType field"
  cof_isActive :: "bool field"
  cof_startsAt :: "int field"
  cof_endsAt :: "int field"

record updateOfferDto =
  uo_title :: "string field"
  uo_description :: "string field"
  uo_imageUrl :: "string field"
  uo_linkUrl :: "string field"
  uo_type :: "offerType field"
  uo_isActive :: "bool field"
  uo_startsAt :: "int field"
  uo_endsAt :: "int field"

record offersQuery =
  oq_page :: nat
  oq_limit :: nat
  oq_search :: "string option"
  oq_restaurantId :: "string option"
  oq_type :: "offerType option"

record restaurantOffersQuery =
  ro_page :: nat
  ro_limit :: nat
  ro_isActive :: "bool option"

section \<open>Repository\<close>

definition invalidArgument :: "string \<Rightarrow> error" where
  "invalidArgument name = ProviderError (''Argument '' @ name @ '' must not be null'')"

definition offerFilter :: "int \<Rightarrow> string option \<Rightarrow> string option \<Rightarrow> offerType option \<Rightarrow> offer \<Rightarrow> bool" where
  "offerFilter now search rid ty f \<longleftrightarrow> activeOffer now f \<and>
     (truthy rid \<longrightarrow> ofr_restaurantId f = rid) \<and>
     (case ty of None \<Rightarrow> True | Some t \<Rightarrow> ofr_type f = Some t) \<and>
     (truthy search \<longrightarrow> containsInsensitive (the search) (ofr_title f) \<or> maybeContains (the search) (ofr_description f))"

definition newestOffers :: "(offer \<Rightarrow> bool) \<Rightarrow> 'z catalog_scheme \<Rightarrow> offer list" where
  "newestOffers p c = sort_key (\<lambda>f. - ofr_createdAt f) (filter p (cg_offers c))"

definition findActiveOffers :: "int \<Rightarrow> nat \<Rightarrow> string option \<Rightarrow> 'z catalog_scheme \<Rightarrow> offer list" where
  "findActiveOffers now limit rid c = take limit (newestOffers (offerFilter now None rid None) c)"

definition findByIdActive :: "int \<Rightarrow> string \<Rightarrow> 'z catalog_scheme \<Rightarrow> offer option" where
  "findByIdActive now i c = List.find (\<lambda>f. ofr_id f = i \<and> activeOffer now f) (cg_offers c)"

fun nullable :: "'v field \<Rightarrow> 'v option" where
  "nullable Omitted = None" | "nullable Null = None" | "nullable (Given v) = Some v"

text \<open>Prisma leaves the column of an undefined value alone and rejects null in a required one.\<close>

fun setNullable :: "'v field \<Rightarrow> 'v option \<Rightarrow> 'v option" where
  "setNullable Omitted old = old" | "setNullable Null old = None" | "setNullable (Given v) old = Some v"

fun setRequired :: "'v field \<Rightarrow> 'v \<Rightarrow> 'v" where
  "setRequired (Given v) old = v" | "setRequired _ old = old"

text \<open>\<^verbatim>\<open>dto.startsAt ? new Date(dto.startsAt) : undefined\<close>.\<close>

fun setDate :: "int field \<Rightarrow> int option \<Rightarrow> int option" where
  "setDate (Given t) old = Some t" | "setDate _ old = old"

definition createOfferRow :: "string \<Rightarrow> int \<Rightarrow> createOfferDto \<Rightarrow> 'z catalog_scheme \<Rightarrow> ('z catalog_scheme, offer) outcome" where
  "createOfferRow uuid now d c =
     (if cof_isActive d = Null then (Inl (invalidArgument ''isActive''), c)
      else if findRestaurantRow (cof_restaurantId d) c = None then (Inl foreignKey, c)
      else
        (let f = \<lparr>ofr_id = uuid, ofr_restaurantId = Some (cof_restaurantId d), ofr_title = cof_title d,
                  ofr_description = nullable (cof_description d), ofr_imageUrl = nullable (cof_imageUrl d),
                  ofr_linkUrl = nullable (cof_linkUrl d), ofr_type = nullable (cof_type d),
                  ofr_isActive = setRequired (cof_isActive d) True, ofr_startsAt = setDate (cof_startsAt d) None,
                  ofr_endsAt = setDate (cof_endsAt d) None, ofr_createdAt = now\<rparr>
         in (Inr f, c\<lparr>cg_offers := cg_offers c @ [f]\<rparr>)))"

definition writeOffer :: "string \<Rightarrow> (offer \<Rightarrow> offer) \<Rightarrow> 'z catalog_scheme \<Rightarrow> ('z catalog_scheme, offer) outcome" where
  "writeOffer i g c =
     (case lookup ofr_id i (cg_offers c) of
        None \<Rightarrow> (Inl (RecordNotFound ''Offer''), c)
      | Some f \<Rightarrow> (Inr (g f), c\<lparr>cg_offers := modify (\<lambda>f. ofr_id f = i) g (cg_offers c)\<rparr>))"

definition applyUpdate :: "updateOfferDto \<Rightarrow> offer \<Rightarrow> offer" where
  "applyUpdate d f = f\<lparr>ofr_title := setRequired (uo_title d) (ofr_title f),
     ofr_description := setNullable (uo_description d) (ofr_description f),
     ofr_imageUrl := setNullable (uo_imageUrl d) (ofr_imageUrl f), ofr_linkUrl := setNullable (uo_linkUrl d) (ofr_linkUrl f),
     ofr_type := setNullable (uo_type d) (ofr_type f), ofr_isActive := setRequired (uo_isActive d) (ofr_isActive f),
     ofr_startsAt := setDate (uo_startsAt d) (ofr_startsAt f), ofr_endsAt := setDate (uo_endsAt d) (ofr_endsAt f)\<rparr>"

definition updateOfferRow :: "string \<Rightarrow> updateOfferDto \<Rightarrow> 'z catalog_scheme \<Rightarrow> ('z catalog_scheme, offer) outcome" where
  "updateOfferRow i d c =
     (if uo_title d = Null then (Inl (invalidArgument ''title''), c)
      else if uo_isActive d = Null then (Inl (invalidArgument ''isActive''), c)
      else writeOffer i (applyUpdate d) c)"

definition setOfferActive :: "string \<Rightarrow> bool \<Rightarrow> 'z catalog_scheme \<Rightarrow> ('z catalog_scheme, offer) outcome" where
  "setOfferActive i b = writeOffer i (\<lambda>f. f\<lparr>ofr_isActive := b\<rparr>)"

definition deleteOfferRow :: "string \<Rightarrow> 'z catalog_scheme \<Rightarrow> ('z catalog_scheme, unit) outcome" where
  "deleteOfferRow i c =
     (case lookup ofr_id i (cg_offers c) of
        None \<Rightarrow> (Inl (RecordNotFound ''Offer''), c)
      | Some _ \<Rightarrow> (Inr (), c\<lparr>cg_offers := filter (\<lambda>f. ofr_id f \<noteq> i) (cg_offers c)\<rparr>))"

section \<open>Service\<close>

definition FEATURED_LIMIT :: nat where "FEATURED_LIMIT = 10"
definition HOME_LIMIT :: nat where "HOME_LIMIT = 5"

definition OFFER_MANAGE_ROLES :: "restaurantAccessRole list" where
  "OFFER_MANAGE_ROLES = [StaffRole OWNER, StaffRole CO_OWNER, StaffRole BRANCH_MANAGER, AdminRole]"

definition toOfferResponse :: "'z catalog_scheme \<Rightarrow> offer \<Rightarrow> offer \<times> string option" where
  "toOfferResponse c f =
     (f, case ofr_restaurantId f of None \<Rightarrow> None | Some rid \<Rightarrow> map_option rr_name (findRestaurantRow rid c))"

definition offerPage :: "nat \<Rightarrow> nat \<Rightarrow> offer list \<Rightarrow> 'z catalog_scheme \<Rightarrow> (offer \<times> string option) list \<times> nat \<times> nat" where
  "offerPage page limit rows c =
     (map (toOfferResponse c) (skipTake ((page - 1) * limit) limit rows), length rows, totalPages (length rows) limit)"

definition findAllOffers :: "int \<Rightarrow> offersQuery \<Rightarrow> 'z catalog_scheme \<Rightarrow> (offer \<times> string option) list \<times> nat \<times> nat" where
  "findAllOffers now q c =
     offerPage (oq_page q) (oq_limit q)
       (newestOffers (offerFilter now (oq_search q) (oq_restaurantId q) (oq_type q)) c) c"

definition findOfferById :: "int \<Rightarrow> string \<Rightarrow> 'z catalog_scheme \<Rightarrow> (offer \<times> string option) result" where
  "findOfferById now i c =
     (case findByIdActive now i c of None \<Rightarrow> Inl (NotFound ''Offer'') | Some f \<Rightarrow> Inr (toOfferResponse c f))"

definition findFeaturedOffers :: "int \<Rightarrow> 'z catalog_scheme \<Rightarrow> (offer \<times> string option) list" where
  "findFeaturedOffers now c = map (toOfferResponse c) (findActiveOffers now FEATURED_LIMIT None c)"

definition findHomeOffers :: "int \<Rightarrow> 'z catalog_scheme \<Rightarrow> (offer \<times> string option) list" where
  "findHomeOffers now c = map (toOfferResponse c) (findActiveOffers now HOME_LIMIT None c)"

definition findOffersByRestaurant ::
  "int \<Rightarrow> string \<Rightarrow> offersQuery \<Rightarrow> 'z catalog_scheme \<Rightarrow> (offer \<times> string option) list \<times> nat \<times> nat" where
  "findOffersByRestaurant now rid q c =
     offerPage (oq_page q) (oq_limit q) (newestOffers (offerFilter now None (Some rid) None) c) c"

definition findActiveForRestaurant :: "int \<Rightarrow> string \<Rightarrow> 'z catalog_scheme \<Rightarrow> (offer \<times> string option) list" where
  "findActiveForRestaurant now rid c = map (toOfferResponse c) (findActiveOffers now 100 (Some rid) c)"

definition assertCanManageOffers :: "string \<Rightarrow> authUser \<Rightarrow> 'z catalog_scheme \<Rightarrow> unit result" where
  "assertCanManageOffers rid u c =
     guard (hasRestaurantRole (roleView c) rid u OFFER_MANAGE_ROLES) (Forbidden ''manage offers for this restaurant'')"

definition findAllOffersForRestaurant ::
  "string \<Rightarrow> restaurantOffersQuery \<Rightarrow> authUser \<Rightarrow> 'z catalog_scheme
     \<Rightarrow> ((offer \<times> string option) list \<times> nat \<times> nat) result" where
  "findAllOffersForRestaurant rid q u c =
     andThen (assertCanManageOffers rid u c) (\<lambda>_. Inr
       (offerPage (ro_page q) (ro_limit q)
          (newestOffers (\<lambda>f. ofr_restaurantId f = Some rid \<and>
             (case ro_isActive q of None \<Rightarrow> True | Some b \<Rightarrow> ofr_isActive f = b)) c) c))"

definition assertValidWindow :: "int option \<Rightarrow> int option \<Rightarrow> unit result" where
  "assertValidWindow s e =
     (case (s, e) of (Some s, Some e) \<Rightarrow> guard (s < e) (BadRequest ''startsAt must be before endsAt'') | _ \<Rightarrow> Inr ())"

definition requireOffer :: "string \<Rightarrow> 'z catalog_scheme \<Rightarrow> (offer \<times> string) result" where
  "requireOffer i c =
     (case lookup ofr_id i (cg_offers c) of
        None \<Rightarrow> Inl (NotFound ''Offer'')
      | Some f \<Rightarrow>
          if truthy (ofr_restaurantId f) then Inr (f, the (ofr_restaurantId f))
          else Inl (Forbidden ''offer is not managed at the restaurant level''))"

definition managedOffer ::
  "string \<Rightarrow> authUser \<Rightarrow> (offer \<Rightarrow> ('z catalog_scheme, 'a) outcome) \<Rightarrow> 'z catalog_scheme \<Rightarrow> ('z catalog_scheme, 'a) outcome" where
  "managedOffer i u act c =
     (case andThen (requireOffer i c) (\<lambda>(f, rid). andThen (assertCanManageOffers rid u c) (\<lambda>_. Inr f)) of
        Inl e \<Rightarrow> (Inl e, c)
      | Inr f \<Rightarrow> act f)"

definition createOffer ::
  "string \<Rightarrow> int \<Rightarrow> createOfferDto \<Rightarrow> authUser \<Rightarrow> 'z catalog_scheme \<Rightarrow> ('z catalog_scheme, offer) outcome" where
  "createOffer uuid now d u c =
     (case andThen (assertCanManageOffers (cof_restaurantId d) u c)
             (\<lambda>_. assertValidWindow (nullable (cof_startsAt d)) (nullable (cof_endsAt d))) of
        Inl e \<Rightarrow> (Inl e, c)
      | Inr _ \<Rightarrow> createOfferRow uuid now d c)"

text \<open>\<^verbatim>\<open>new Date(null)\<close> is the epoch.\<close>

fun effectiveDate :: "int field \<Rightarrow> int option \<Rightarrow> int option" where
  "effectiveDate Omitted old = old" | "effectiveDate Null old = Some 0" | "effectiveDate (Given t) old = Some t"

definition updateOffer ::
  "string \<Rightarrow> updateOfferDto \<Rightarrow> authUser \<Rightarrow> 'z catalog_scheme \<Rightarrow> ('z catalog_scheme, offer) outcome" where
  "updateOffer i d u c =
     managedOffer i u (\<lambda>f.
       case assertValidWindow (effectiveDate (uo_startsAt d) (ofr_startsAt f)) (effectiveDate (uo_endsAt d) (ofr_endsAt f)) of
         Inl e \<Rightarrow> (Inl e, c)
       | Inr _ \<Rightarrow> updateOfferRow i d c) c"

definition deleteOffer :: "string \<Rightarrow> authUser \<Rightarrow> 'z catalog_scheme \<Rightarrow> ('z catalog_scheme, unit) outcome" where
  "deleteOffer i u c = managedOffer i u (\<lambda>_. deleteOfferRow i c) c"

definition setActiveOffer :: "string \<Rightarrow> bool \<Rightarrow> authUser \<Rightarrow> 'z catalog_scheme \<Rightarrow> ('z catalog_scheme, offer) outcome" where
  "setActiveOffer i b u c = managedOffer i u (\<lambda>_. setOfferActive i b c) c"

datatype offerOp =
    OfferCreate string int createOfferDto
  | OfferUpdate string updateOfferDto
  | OfferDelete string
  | OfferSetActive string bool

fun runOfferOp :: "offerOp \<Rightarrow> authUser \<Rightarrow> 'z catalog_scheme \<Rightarrow> 'z catalog_scheme" where
  "runOfferOp (OfferCreate uuid now d) u c = snd (createOffer uuid now d u c)"
| "runOfferOp (OfferUpdate i d) u c = snd (updateOffer i d u c)"
| "runOfferOp (OfferDelete i) u c = snd (deleteOffer i u c)"
| "runOfferOp (OfferSetActive i b) u c = snd (setActiveOffer i b u c)"

section \<open>Who may change them\<close>

lemma managedOffer_cases:
  obtains (refused) e where "managedOffer i u act c = (Inl e, c)"
  | (allowed) f rid where "managedOffer i u act c = act f" "lookup ofr_id i (cg_offers c) = Some f"
      "ofr_restaurantId f = Some rid" "hasRestaurantRole (roleView c) rid u OFFER_MANAGE_ROLES"
proof (cases "andThen (requireOffer i c) (\<lambda>(f, rid). andThen (assertCanManageOffers rid u c) (\<lambda>_. Inr f))")
  case (Inl e)
  then show ?thesis using refused by (simp add: managedOffer_def)
next
  case (Inr f)
  then obtain rid where "requireOffer i c = Inr (f, rid)" "assertCanManageOffers rid u c = Inr ()"
    by (auto simp: andThen_Inr_iff)
  then have "lookup ofr_id i (cg_offers c) = Some f" "ofr_restaurantId f = Some rid"
    "hasRestaurantRole (roleView c) rid u OFFER_MANAGE_ROLES"
    by (auto simp: requireOffer_def assertCanManageOffers_def truthy_def split: option.splits if_splits)
  then show ?thesis using allowed[of f rid] Inr by (simp add: managedOffer_def)
qed

definition offersOf :: "string \<Rightarrow> 'z catalog_scheme \<Rightarrow> offer list" where
  "offersOf rid c = filter (\<lambda>f. ofr_restaurantId f = Some rid) (cg_offers c)"

lemma offersOf_write:
  assumes "keyed ofr_id (cg_offers c)" "lookup ofr_id i (cg_offers c) = Some f" "ofr_restaurantId f \<noteq> Some rid"
    and "\<And>f. ofr_restaurantId (g f) = ofr_restaurantId f"
  shows "offersOf rid (snd (writeOffer i g c)) = offersOf rid c"
proof -
  have off: "x = f" if "x \<in> set (cg_offers c)" "ofr_id x = i" for x
    using that keyed_same[OF assms(1) that(1), of f] lookup_SomeD[OF assms(2)] by simp
  show ?thesis using assms(2-4) off by (auto simp: writeOffer_def offersOf_def intro!: filter_modify_off)
qed

lemma offersOf_delete:
  assumes "keyed ofr_id (cg_offers c)" "lookup ofr_id i (cg_offers c) = Some f" "ofr_restaurantId f \<noteq> Some rid"
  shows "offersOf rid (snd (deleteOfferRow i c)) = offersOf rid c"
proof -
  have off: "x = f" if "x \<in> set (cg_offers c)" "ofr_id x = i" for x
    using that keyed_same[OF assms(1) that(1), of f] lookup_SomeD[OF assms(2)] by simp
  show ?thesis unfolding deleteOfferRow_def assms(2) offersOf_def using assms(3) off
    by (auto intro!: filter_cong)
qed

text \<open>
  Offers are isolated.  Whatever offer operation a user requests, the offers of a restaurant change
  only if the user manages that restaurant.
\<close>

theorem offers_isolated:
  assumes "keyed ofr_id (cg_offers c)" "offersOf rid (runOfferOp q u c) \<noteq> offersOf rid c"
  shows "hasRestaurantRole (roleView c) rid u OFFER_MANAGE_ROLES"
proof (cases q)
  case (OfferCreate uuid now d)
  then show ?thesis using assms(2)
    by (auto simp: createOffer_def createOfferRow_def offersOf_def assertCanManageOffers_def andThen_Inr_iff Let_def
        split: sum.splits if_splits)
next
  case (OfferUpdate i d)
  show ?thesis
  proof (cases rule: managedOffer_cases[of i u "\<lambda>f.
       case assertValidWindow (effectiveDate (uo_startsAt d) (ofr_startsAt f)) (effectiveDate (uo_endsAt d) (ofr_endsAt f)) of
         Inl e \<Rightarrow> (Inl e, c) | Inr _ \<Rightarrow> updateOfferRow i d c" c])
    case (allowed f rid')
    have "rid' = rid"
      using assms(2) allowed offersOf_write[OF assms(1) allowed(2), of rid "applyUpdate d"]
      by (auto simp: OfferUpdate updateOffer_def updateOfferRow_def applyUpdate_def split: sum.splits if_splits)
    then show ?thesis using allowed by simp
  qed (use assms(2) in \<open>simp add: OfferUpdate updateOffer_def\<close>)
next
  case (OfferDelete i)
  show ?thesis
  proof (cases rule: managedOffer_cases[of i u "\<lambda>_. deleteOfferRow i c" c])
    case (allowed f rid')
    have "rid' = rid" using assms(2) allowed offersOf_delete[OF assms(1) allowed(2), of rid]
      by (auto simp: OfferDelete deleteOffer_def)
    then show ?thesis using allowed by simp
  qed (use assms(2) in \<open>simp add: OfferDelete deleteOffer_def\<close>)
next
  case (OfferSetActive i b)
  show ?thesis
  proof (cases rule: managedOffer_cases[of i u "\<lambda>_. setOfferActive i b c" c])
    case (allowed f rid')
    have "rid' = rid" using assms(2) allowed offersOf_write[OF assms(1) allowed(2), of rid "\<lambda>f. f\<lparr>ofr_isActive := b\<rparr>"]
      by (auto simp: OfferSetActive setActiveOffer_def setOfferActive_def)
    then show ?thesis using allowed by simp
  qed (use assms(2) in \<open>simp add: OfferSetActive setActiveOffer_def\<close>)
qed

section \<open>Windows\<close>

definition validWindow :: "offer \<Rightarrow> bool" where
  "validWindow f \<longleftrightarrow> (case (ofr_startsAt f, ofr_endsAt f) of (Some s, Some e) \<Rightarrow> s < e | _ \<Rightarrow> True)"

lemma assertValidWindow_iff:
  "assertValidWindow s e = Inr () \<longleftrightarrow> (case (s, e) of (Some s, Some e) \<Rightarrow> s < e | _ \<Rightarrow> True)"
  by (auto simp: assertValidWindow_def split: option.splits)

fun noNullDate :: "offerOp \<Rightarrow> bool" where
  "noNullDate (OfferUpdate i d) \<longleftrightarrow> uo_startsAt d \<noteq> Null \<and> uo_endsAt d \<noteq> Null"
| "noNullDate _ \<longleftrightarrow> True"

lemma setDate_effective: "t \<noteq> Null \<Longrightarrow> setDate t old = effectiveDate t old"
  by (cases t) simp_all

lemma setDate_nullable: "setDate t None = nullable t"
  by (cases t) simp_all

lemma writeOffer_windows:
  assumes "list_all validWindow (cg_offers c)" "lookup ofr_id i (cg_offers c) = Some f" "keyed ofr_id (cg_offers c)" "validWindow (g f)"
  shows "list_all validWindow (cg_offers (snd (writeOffer i g c)))"
proof -
  have "x = f" if "x \<in> set (cg_offers c)" "ofr_id x = i" for x
    using that keyed_same[OF assms(3) that(1), of f] lookup_SomeD[OF assms(2)] by simp
  then show ?thesis using assms(1,2,4) by (auto simp: writeOffer_def list_all_iff set_modify)
qed

lemma offerOp_windows:
  assumes w: "list_all validWindow (cg_offers c)" and k: "keyed ofr_id (cg_offers c)" and n: "noNullDate q"
  shows "list_all validWindow (cg_offers (runOfferOp q u c))"
proof (cases q)
  case (OfferCreate uuid now d)
  then show ?thesis using w
    by (auto simp: createOffer_def createOfferRow_def Let_def andThen_Inr_iff assertValidWindow_iff validWindow_def setDate_nullable
        split: sum.splits)
next
  case (OfferUpdate i d)
  show ?thesis
  proof (cases rule: managedOffer_cases[of i u "\<lambda>f.
       case assertValidWindow (effectiveDate (uo_startsAt d) (ofr_startsAt f)) (effectiveDate (uo_endsAt d) (ofr_endsAt f)) of
         Inl e \<Rightarrow> (Inl e, c) | Inr _ \<Rightarrow> updateOfferRow i d c" c])
    case (allowed f rid)
    show ?thesis
    proof (cases "assertValidWindow (effectiveDate (uo_startsAt d) (ofr_startsAt f)) (effectiveDate (uo_endsAt d) (ofr_endsAt f))")
      case (Inr x)
      then have "validWindow (applyUpdate d f)"
        using n OfferUpdate by (simp add: assertValidWindow_iff validWindow_def applyUpdate_def setDate_effective)
      then have "list_all validWindow (cg_offers (snd (updateOfferRow i d c)))"
        using writeOffer_windows[OF w allowed(2) k, of "applyUpdate d"] w by (simp add: updateOfferRow_def)
      then show ?thesis using allowed(1) Inr by (simp add: OfferUpdate updateOffer_def)
    qed (use w allowed(1) in \<open>simp add: OfferUpdate updateOffer_def\<close>)
  qed (use w in \<open>simp add: OfferUpdate updateOffer_def\<close>)
next
  case (OfferDelete i)
  show ?thesis
    by (cases rule: managedOffer_cases[of i u "\<lambda>_. deleteOfferRow i c" c])
      (use w in \<open>auto simp: OfferDelete deleteOffer_def deleteOfferRow_def list_all_iff split: option.split\<close>)
next
  case (OfferSetActive i b)
  show ?thesis
  proof (cases rule: managedOffer_cases[of i u "\<lambda>_. setOfferActive i b c" c])
    case (allowed f rid)
    have "validWindow (f\<lparr>ofr_isActive := b\<rparr>)" using w lookup_SomeD[OF allowed(2)] by (auto simp: list_all_iff validWindow_def)
    then show ?thesis using allowed(1) writeOffer_windows[OF w allowed(2) k, of "\<lambda>f. f\<lparr>ofr_isActive := b\<rparr>"]
      by (simp add: OfferSetActive setActiveOffer_def setOfferActive_def)
  qed (use w in \<open>simp add: OfferSetActive setActiveOffer_def\<close>)
qed

lemma offerOp_keyed:
  assumes "keyed ofr_id (cg_offers c)" "\<And>uuid now d. q = OfferCreate uuid now d \<Longrightarrow> uuid \<notin> ofr_id ` set (cg_offers c)"
  shows "keyed ofr_id (cg_offers (runOfferOp q u c))"
proof (cases q)
  case (OfferCreate uuid now d)
  then show ?thesis using assms
    by (auto simp: createOffer_def createOfferRow_def Let_def keyed_snoc split: sum.split)
qed (use assms(1) in \<open>auto simp: updateOffer_def deleteOffer_def setActiveOffer_def managedOffer_def updateOfferRow_def
      setOfferActive_def writeOffer_def deleteOfferRow_def applyUpdate_def keyed_filter split: sum.split option.split\<close>)

text \<open>
  A null date slips past the window check.  An update with a null \<^verbatim>\<open>startsAt\<close> and a new end is
  checked against the epoch, but the null is not written: the offer keeps its start, after its new
  end, and no customer ever sees it again.
\<close>

theorem null_date_inverts_window:
  assumes "lookup ofr_id i (cg_offers c) = Some f" "ofr_restaurantId f = Some rid" "rid \<noteq> []"
    and "hasRestaurantRole (roleView c) rid u OFFER_MANAGE_ROLES"
    and "ofr_startsAt f = Some s" "0 < e" "e < s"
    and "d = \<lparr>uo_title = Omitted, uo_description = Omitted, uo_imageUrl = Omitted, uo_linkUrl = Omitted, uo_type = Omitted,
        uo_isActive = Omitted, uo_startsAt = Null, uo_endsAt = Given e\<rparr>"
  shows "updateOffer i d u c = (Inr (f\<lparr>ofr_endsAt := Some e\<rparr>), snd (updateOffer i d u c)) \<and>
    (\<forall>now. \<not> activeOffer now (f\<lparr>ofr_endsAt := Some e\<rparr>))"
  using assms
  by (auto simp: updateOffer_def managedOffer_def requireOffer_def assertCanManageOffers_def assertValidWindow_def
      updateOfferRow_def writeOffer_def applyUpdate_def activeOffer_def)

section \<open>What the customers see\<close>

lemma mapped_pages:
  assumes "0 < limit"
  shows "concat (map (\<lambda>p. map h (skipTake (p * limit) limit rows)) [0..<totalPages (length rows) limit]) = map h rows"
proof -
  have "concat (map (\<lambda>p. map h (skipTake (p * limit) limit rows)) [0..<totalPages (length rows) limit]) =
      map h (concat (map (\<lambda>p. pageOf (Suc p) limit rows) [0..<totalPages (length rows) limit]))"
    by (simp add: map_concat comp_def pageOf_def)
  then show ?thesis by (simp add: pages_partition[OF assms])
qed

text \<open>
  The offer pages are complete.  The pages of the public listing, from the first to the last it
  announces, are exactly the live offers that match the request, newest first, and each of them can be
  opened by its id and by no other id.
\<close>

theorem offer_pages_complete:
  assumes "keyed ofr_id (cg_offers c)" "0 < limit"
  shows "concat (map (\<lambda>p. fst (findAllOffers now (q\<lparr>oq_page := Suc p, oq_limit := limit\<rparr>) c))
           [0..<snd (snd (findAllOffers now (q\<lparr>oq_page := 1, oq_limit := limit\<rparr>) c))]) =
       map (toOfferResponse c) (newestOffers (offerFilter now (oq_search q) (oq_restaurantId q) (oq_type q)) c) \<and>
     (\<forall>f \<in> set (cg_offers c). findOfferById now (ofr_id f) c =
        (if activeOffer now f then Inr (toOfferResponse c f) else Inl (NotFound ''Offer'')))"
proof
  show "concat (map (\<lambda>p. fst (findAllOffers now (q\<lparr>oq_page := Suc p, oq_limit := limit\<rparr>) c))
           [0..<snd (snd (findAllOffers now (q\<lparr>oq_page := 1, oq_limit := limit\<rparr>) c))]) =
       map (toOfferResponse c) (newestOffers (offerFilter now (oq_search q) (oq_restaurantId q) (oq_type q)) c)"
    by (simp add: findAllOffers_def offerPage_def mapped_pages[OF assms(2)])
  show "\<forall>f \<in> set (cg_offers c). findOfferById now (ofr_id f) c =
      (if activeOffer now f then Inr (toOfferResponse c f) else Inl (NotFound ''Offer''))"
  proof
    fix f assume f: "f \<in> set (cg_offers c)"
    have "findByIdActive now (ofr_id f) c = (if activeOffer now f then Some f else None)"
    proof (cases "findByIdActive now (ofr_id f) c")
      case None
      then show ?thesis using f by (auto simp: findByIdActive_def find_None_iff)
    next
      case (Some g)
      then have "g \<in> set (cg_offers c)" "ofr_id g = ofr_id f" "activeOffer now g"
        using find_SomeD[of _ "cg_offers c" g] by (auto simp: findByIdActive_def)
      then show ?thesis using Some keyed_same[OF assms(1) f, of g] by simp
    qed
    then show "findOfferById now (ofr_id f) c =
      (if activeOffer now f then Inr (toOfferResponse c f) else Inl (NotFound ''Offer''))" by (simp add: findOfferById_def)
  qed
qed

text \<open>
  Offers keep a valid window.  As long as no update sends a null date, every stored offer with a
  start and an end starts before it ends.
\<close>

theorem windows_stay_valid:
  assumes "list_all validWindow (cg_offers c)" "keyed ofr_id (cg_offers c)"
    and "list_all (\<lambda>(q, u). noNullDate q) qs"
    and "\<And>n uuid now d u. n < length qs \<Longrightarrow> qs ! n = (OfferCreate uuid now d, u) \<Longrightarrow>
      uuid \<notin> ofr_id ` set (cg_offers (foldl (\<lambda>c (q, u). runOfferOp q u c) c (take n qs)))"
  shows "list_all validWindow (cg_offers (foldl (\<lambda>c (q, u). runOfferOp q u c) c qs))"
  using assms
proof (induction qs arbitrary: c)
  case (Cons x qs)
  obtain q u where x: "x = (q, u)" by (cases x)
  let ?c = "runOfferOp q u c"
  have "list_all validWindow (cg_offers ?c)" using Cons.prems(1-3) x by (intro offerOp_windows) auto
  moreover have "keyed ofr_id (cg_offers ?c)"
    by (rule offerOp_keyed[OF Cons.prems(2)]) (use Cons.prems(4)[of 0] x in auto)
  moreover have "list_all (\<lambda>(q, u). noNullDate q) qs" using Cons.prems(3) by simp
  moreover have "uuid \<notin> ofr_id ` set (cg_offers (foldl (\<lambda>c (q, u). runOfferOp q u c) ?c (take n qs)))"
    if "n < length qs" "qs ! n = (OfferCreate uuid now d, v)" for n uuid now d v
    using Cons.prems(4)[of "Suc n" uuid now d v] that x by simp
  ultimately have "list_all validWindow (cg_offers (foldl (\<lambda>c (q, u). runOfferOp q u c) ?c qs))"
    by (rule Cons.IH)
  then show ?case by (simp add: x)
qed simp

section \<open>The properties on a concrete restaurant\<close>

definition thali :: restaurantRow where
  "thali = newRestaurant ''r1'' 0 ''o1'' \<lparr>cr_name = ''Thali'', cr_slug = ''thali'', cr_description = None,
      cr_phone = None, cr_email = None\<rparr>"

definition thaliOwner :: authUser where
  "thaliOwner = \<lparr>userId = ''o1'', role = RESTAURANT_OWNER\<rparr>"

definition lunchOffer :: offer where
  "lunchOffer = \<lparr>ofr_id = ''f1'', ofr_restaurantId = Some ''r1'', ofr_title = ''Lunch'', ofr_description = None,
     ofr_imageUrl = None, ofr_linkUrl = None, ofr_type = None, ofr_isActive = True, ofr_startsAt = Some 10,
     ofr_endsAt = Some 20, ofr_createdAt = 0\<rparr>"

definition thaliTown :: catalog where
  "thaliTown = \<lparr>cg_base = emptyWorld, cg_restaurants = [thali], cg_branches = [], cg_staff = [], cg_offers = [lunchOffer],
     cg_reviews = [], cg_media = [], cg_owners = [], cg_published = [], cg_settings = []\<rparr>"

lemma thali_manages: "hasRestaurantRole (roleView thaliTown) ''r1'' thaliOwner OFFER_MANAGE_ROLES"
  by (simp add: hasRestaurantRole_def getRestaurantRole_def isAdmin_def roleView_def thaliTown_def thali_def
      newRestaurant_def thaliOwner_def OFFER_MANAGE_ROLES_def)

lemma thali_offer: "lookup ofr_id ''f1'' (cg_offers thaliTown) = Some lunchOffer" "keyed ofr_id (cg_offers thaliTown)"
  "ofr_restaurantId lunchOffer = Some ''r1''"
  by (simp_all add: thaliTown_def lunchOffer_def keyed_def)

lemma thali_act: "managedOffer ''f1'' thaliOwner act thaliTown = act lunchOffer"
  using thali_manages by (simp add: managedOffer_def requireOffer_def thali_offer assertCanManageOffers_def)

lemma thali_paused: "cg_offers (runOfferOp (OfferSetActive ''f1'' False) thaliOwner thaliTown) = [lunchOffer\<lparr>ofr_isActive := False\<rparr>]"
  by (simp add: setActiveOffer_def thali_act setOfferActive_def writeOffer_def thali_offer)
    (simp add: thaliTown_def lunchOffer_def)

theorem offers_isolated_witness:
  "hasRestaurantRole (roleView thaliTown) ''r1'' thaliOwner OFFER_MANAGE_ROLES"
proof (rule offers_isolated[where q = "OfferSetActive ''f1'' False"])
  show "offersOf ''r1'' (runOfferOp (OfferSetActive ''f1'' False) thaliOwner thaliTown) \<noteq> offersOf ''r1'' thaliTown"
    using thali_paused by (simp add: offersOf_def) (simp add: thaliTown_def lunchOffer_def)
qed (rule thali_offer)

theorem null_date_inverts_window_witness:
  "fst (updateOffer ''f1'' \<lparr>uo_title = Omitted, uo_description = Omitted, uo_imageUrl = Omitted, uo_linkUrl = Omitted,
      uo_type = Omitted, uo_isActive = Omitted, uo_startsAt = Null, uo_endsAt = Given 5\<rparr> thaliOwner thaliTown) =
      Inr (lunchOffer\<lparr>ofr_endsAt := Some 5\<rparr>) \<and>
   (\<forall>now. \<not> activeOffer now (lunchOffer\<lparr>ofr_endsAt := Some 5\<rparr>))"
proof -
  have s: "ofr_startsAt lunchOffer = Some 10" by (simp add: lunchOffer_def)
  have r: "''r1'' \<noteq> []" "(0::int) < 5" "(5::int) < 10" by simp_all
  show ?thesis
    using null_date_inverts_window[OF thali_offer(1,3) r(1) thali_manages s r(2,3) refl] fst_conv by metis
qed

theorem offer_pages_complete_witness:
  "concat (map (\<lambda>p. fst (findAllOffers 15 \<lparr>oq_page = Suc p, oq_limit = 1, oq_search = None, oq_restaurantId = None,
        oq_type = None\<rparr> thaliTown)) [0..<1]) = [toOfferResponse thaliTown lunchOffer] \<and>
   findOfferById 15 ''f1'' thaliTown = Inr (toOfferResponse thaliTown lunchOffer)"
proof -
  let ?q = "\<lparr>oq_page = 0, oq_limit = 0, oq_search = None, oq_restaurantId = None, oq_type = None\<rparr>"
  have rows: "newestOffers (offerFilter 15 None None None) thaliTown = [lunchOffer]"
    by (simp add: newestOffers_def offerFilter_def activeOffer_def thaliTown_def lunchOffer_def)
  have live: "activeOffer 15 lunchOffer" "lunchOffer \<in> set (cg_offers thaliTown)" "ofr_id lunchOffer = ''f1''"
    by (simp_all add: activeOffer_def thaliTown_def lunchOffer_def)
  have one: "snd (snd (findAllOffers 15 (?q\<lparr>oq_page := 1, oq_limit := 1\<rparr>) thaliTown)) = 1"
    by (simp add: findAllOffers_def offerPage_def rows totalPages_def)
  have C: "concat (map (\<lambda>p. fst (findAllOffers 15 (?q\<lparr>oq_page := Suc p, oq_limit := 1\<rparr>) thaliTown)) [0..<1]) =
      map (toOfferResponse thaliTown) [lunchOffer] \<and>
     (\<forall>f \<in> set (cg_offers thaliTown). findOfferById 15 (ofr_id f) thaliTown =
        (if activeOffer 15 f then Inr (toOfferResponse thaliTown f) else Inl (NotFound ''Offer'')))"
    using offer_pages_complete[OF thali_offer(2) zero_less_one, of 15 ?q] unfolding one
    by (simp only: rows offersQuery.simps) (elim conjE, intro conjI refl, assumption)
  then have "findOfferById 15 (ofr_id lunchOffer) thaliTown = Inr (toOfferResponse thaliTown lunchOffer)"
    using live(1,2) by simp
  moreover have "concat (map (\<lambda>p. fst (findAllOffers 15 (?q\<lparr>oq_page := Suc p, oq_limit := 1\<rparr>) thaliTown)) [0..<1]) =
      [toOfferResponse thaliTown lunchOffer]" using C by (simp only: list.map)
  ultimately show ?thesis by (simp only: live(3) offersQuery.simps)
qed

theorem windows_stay_valid_witness:
  "list_all validWindow (cg_offers (foldl (\<lambda>c (q, u). runOfferOp q u c) thaliTown [(OfferSetActive ''f1'' False, thaliOwner)]))"
proof (rule windows_stay_valid)
  show "list_all validWindow (cg_offers thaliTown)" by (simp add: thaliTown_def lunchOffer_def validWindow_def)
qed (simp_all add: thali_offer)

end
