(* ===== verification/Browsing.thy ===== *)
theory Browsing
  imports Offers OperatingHours
begin

text \<open>
  Favourites (\<^verbatim>\<open>modules/favorites\<close>) and search (\<^verbatim>\<open>modules/search\<close>): one row per customer and
  favourite, the search log, each customer's recent searches, and the trending searches a scheduled
  job computes from the log.  Where the database breaks ties as it likes, the model keeps the order of
  the table.
\<close>

section \<open>Data\<close>

record favorite =
  fv_customerId :: string
  fv_subjectId :: string
  fv_createdAt :: int

record recentSearch =
  rc_id :: string
  rc_customerId :: string
  rc_query :: string
  rc_updatedAt :: int

record searchLog =
  sl_query :: string
  sl_customerId :: "string option"
  sl_createdAt :: int

record trendingSearch =
  tg_query :: string
  tg_score :: nat

record cuisine =
  cu_id :: string
  cu_name :: string

record browseStore = menuStore +
  bw_restaurantFavorites :: "favorite list"
  bw_itemFavorites :: "favorite list"
  bw_cuisines :: "cuisine list"
  bw_searchLogs :: "searchLog list"
  bw_recent :: "recentSearch list"
  bw_trending :: "trendingSearch list"

section \<open>Favourites\<close>

definition favoriteKey :: "favorite \<Rightarrow> string \<times> string" where
  "favoriteKey f = (fv_customerId f, fv_subjectId f)"

definition addFavorite :: "int \<Rightarrow> string \<Rightarrow> string \<Rightarrow> favorite list \<Rightarrow> favorite list" where
  "addFavorite now cid sid rows =
     (case lookup favoriteKey (cid, sid) rows of
        Some _ \<Rightarrow> rows
      | None \<Rightarrow> rows @ [\<lparr>fv_customerId = cid, fv_subjectId = sid, fv_createdAt = now\<rparr>])"

definition removeFavorite :: "string \<Rightarrow> string \<Rightarrow> favorite list \<Rightarrow> favorite list" where
  "removeFavorite cid sid rows = filter (\<lambda>f. favoriteKey f \<noteq> (cid, sid)) rows"

text \<open>The customer's favourites, newest first, one page, and their number.\<close>

definition favoritePage :: "string \<Rightarrow> nat \<Rightarrow> nat \<Rightarrow> favorite list \<Rightarrow> string list \<times> nat" where
  "favoritePage cid skip tk rows =
     (let mine = filter (\<lambda>f. fv_customerId f = cid) rows
      in (map fv_subjectId (skipTake skip tk (sort_key (\<lambda>f. - fv_createdAt f) mine)), length mine))"

definition getFavoritedIds :: "string \<Rightarrow> string list \<Rightarrow> favorite list \<Rightarrow> string set" where
  "getFavoritedIds cid ids rows =
     (if ids = [] then {} else set (map fv_subjectId (filter (\<lambda>f. fv_customerId f = cid \<and> fv_subjectId f \<in> set ids) rows)))"

definition addRestaurantFavorite :: "int \<Rightarrow> string \<Rightarrow> string \<Rightarrow> 'z browseStore_scheme \<Rightarrow> ('z browseStore_scheme, bool) outcome" where
  "addRestaurantFavorite now cid rid c =
     (if findRestaurantRow rid c = None then (Inl (NotFound ''Restaurant''), c)
      else (Inr True, c\<lparr>bw_restaurantFavorites := addFavorite now cid rid (bw_restaurantFavorites c)\<rparr>))"

definition removeRestaurantFavorite :: "string \<Rightarrow> string \<Rightarrow> 'z browseStore_scheme \<Rightarrow> ('z browseStore_scheme, bool) outcome" where
  "removeRestaurantFavorite cid rid c =
     (Inr False, c\<lparr>bw_restaurantFavorites := removeFavorite cid rid (bw_restaurantFavorites c)\<rparr>)"

definition addMenuItemFavorite :: "int \<Rightarrow> string \<Rightarrow> string \<Rightarrow> 'z browseStore_scheme \<Rightarrow> ('z browseStore_scheme, bool) outcome" where
  "addMenuItemFavorite now cid iid c =
     (if lookup ir_id iid (mn_items c) = None then (Inl (NotFound ''Menu item''), c)
      else (Inr True, c\<lparr>bw_itemFavorites := addFavorite now cid iid (bw_itemFavorites c)\<rparr>))"

definition removeMenuItemFavorite :: "string \<Rightarrow> string \<Rightarrow> 'z browseStore_scheme \<Rightarrow> ('z browseStore_scheme, bool) outcome" where
  "removeMenuItemFavorite cid iid c =
     (Inr False, c\<lparr>bw_itemFavorites := removeFavorite cid iid (bw_itemFavorites c)\<rparr>)"

definition findFavoriteRestaurantsDetailed ::
  "string \<Rightarrow> nat \<Rightarrow> nat \<Rightarrow> 'z browseStore_scheme \<Rightarrow> restaurantRow list \<times> nat" where
  "findFavoriteRestaurantsDetailed cid skip tk c =
     (let (ids, n) = favoritePage cid skip tk (bw_restaurantFavorites c);
          found = filter (\<lambda>r. rr_id r \<in> set ids) (cg_restaurants c)
      in if ids = [] then ([], n) else (List.map_filter (\<lambda>i. lookup rr_id i found) ids, n))"

definition findFavoriteMenuItemsDetailed ::
  "string \<Rightarrow> nat \<Rightarrow> nat \<Rightarrow> 'z browseStore_scheme \<Rightarrow> itemRow list \<times> nat" where
  "findFavoriteMenuItemsDetailed cid skip tk c =
     (let (ids, n) = favoritePage cid skip tk (bw_itemFavorites c);
          found = filter (\<lambda>i. ir_id i \<in> set ids) (mn_items c)
      in if ids = [] then ([], n) else (List.map_filter (\<lambda>i. lookup ir_id i found) ids, n))"

definition getFavoriteRestaurants ::
  "openCheck \<Rightarrow> string \<Rightarrow> nat \<Rightarrow> nat \<Rightarrow> 'z browseStore_scheme \<Rightarrow> restaurantSummary list \<times> nat \<times> nat" where
  "getFavoriteRestaurants openNow cid page limit c =
     (let (items, n) = findFavoriteRestaurantsDetailed cid ((page - 1) * limit) limit c
      in (map (toRestaurantSummary openNow None c) items, n, totalPages n limit))"

record favoriteItem =
  fi_item :: itemRow
  fi_variants :: "variantRow list"
  fi_addons :: "(addonRow \<times> addonOptionRow list) list"
  fi_restaurantId :: "string option"
  fi_restaurantName :: "string option"

definition toFavoriteMenuItemResponse :: "'z browseStore_scheme \<Rightarrow> itemRow \<Rightarrow> favoriteItem" where
  "toFavoriteMenuItemResponse c i =
     (let rid = getCategoryRestaurantId (ir_categoryId i) c
      in \<lparr>fi_item = i, fi_variants = variantsOf (ir_id i) c, fi_addons = addonsOf (ir_id i) c, fi_restaurantId = rid,
          fi_restaurantName = (case rid of None \<Rightarrow> None | Some r \<Rightarrow> map_option rr_name (findRestaurantRow r c))\<rparr>)"

definition getFavoriteMenuItems ::
  "string \<Rightarrow> nat \<Rightarrow> nat \<Rightarrow> 'z browseStore_scheme \<Rightarrow> favoriteItem list \<times> nat \<times> nat" where
  "getFavoriteMenuItems cid page limit c =
     (let (items, n) = findFavoriteMenuItemsDetailed cid ((page - 1) * limit) limit c
      in (map (toFavoriteMenuItemResponse c) items, n, totalPages n limit))"

definition parseIds :: "string \<Rightarrow> string list" where
  "parseIds raw = filter (\<lambda>i. i \<noteq> []) (map trim (splitOn CHR '','' raw))"

definition getRestaurantFavoriteStatus :: "string \<Rightarrow> string \<Rightarrow> 'z browseStore_scheme \<Rightarrow> (string \<times> bool) list" where
  "getRestaurantFavoriteStatus cid raw c =
     (let ids = parseIds raw; favorited = getFavoritedIds cid ids (bw_restaurantFavorites c)
      in map (\<lambda>i. (i, i \<in> favorited)) ids)"

definition getMenuItemFavoriteStatus :: "string \<Rightarrow> string \<Rightarrow> 'z browseStore_scheme \<Rightarrow> (string \<times> bool) list" where
  "getMenuItemFavoriteStatus cid raw c =
     (let ids = parseIds raw; favorited = getFavoritedIds cid ids (bw_itemFavorites c)
      in map (\<lambda>i. (i, i \<in> favorited)) ids)"

section \<open>Search\<close>

definition findCuisines :: "string option \<Rightarrow> 'z browseStore_scheme \<Rightarrow> cuisine list" where
  "findCuisines search c =
     sort_key (\<lambda>k. textKey (cu_name k))
       (filter (\<lambda>k. truthy search \<longrightarrow> containsInsensitive (the search) (cu_name k)) (bw_cuisines c))"

record itemHit =
  ih_item :: itemRow
  ih_restaurantId :: string
  ih_restaurantName :: string
  ih_restaurantSlug :: string

definition toMenuItemSearchResult :: "'z menuStore_scheme \<Rightarrow> itemRow \<Rightarrow> itemHit" where
  "toMenuItemSearchResult c i =
     (let r = the (findRestaurantRow (the (getCategoryRestaurantId (ir_categoryId i) c)) c)
      in \<lparr>ih_item = i, ih_restaurantId = rr_id r, ih_restaurantName = rr_name r, ih_restaurantSlug = rr_slug r\<rparr>)"

definition nameSearch :: "string \<Rightarrow> nat \<Rightarrow> restaurantQuery" where
  "nameSearch q limit =
     \<lparr>rq_page = 1, rq_limit = limit, rq_search = Some q, rq_city = None, rq_cuisine = None, rq_featured = None,
      rq_openNow = None, rq_veg = None, rq_vegan = None, rq_offers = None, rq_minRating = None,
      rq_maxDeliveryTimeMinutes = None, rq_maxDistanceKm = None, rq_latitude = None, rq_longitude = None,
      rq_sortBy = BY_NAME, rq_descending = False\<rparr>"

definition globalSearch ::
  "openCheck \<Rightarrow> int \<Rightarrow> string \<Rightarrow> nat \<Rightarrow> 'z menuStore_scheme \<Rightarrow> (restaurantSummary list \<times> itemHit list) result" where
  "globalSearch openNow now q limit c =
     andThen (findAllRestaurants openNow now (nameSearch q limit) c) (\<lambda>p.
       Inr (sp_items p, map (toMenuItemSearchResult c) (fst (searchMenuItemsAcrossRestaurants q 0 limit c))))"

definition searchMenuItems :: "string \<Rightarrow> nat \<Rightarrow> nat \<Rightarrow> 'z menuStore_scheme \<Rightarrow> itemHit list \<times> nat \<times> nat" where
  "searchMenuItems q page limit c =
     (let (items, n) = searchMenuItemsAcrossRestaurants q ((page - 1) * limit) limit c
      in (map (toMenuItemSearchResult c) items, n, totalPages n limit))"

definition SUGGESTION_RESTAURANT_SHARE :: nat where "SUGGESTION_RESTAURANT_SHARE = 4"
definition SUGGESTION_CUISINE_SHARE :: nat where "SUGGESTION_CUISINE_SHARE = 2"

datatype suggestion =
    RestaurantSuggestion string string
  | CuisineSuggestion string string
  | ItemSuggestion string string "string option"

definition getSuggestions ::
  "openCheck \<Rightarrow> int \<Rightarrow> string \<Rightarrow> nat \<Rightarrow> 'z browseStore_scheme \<Rightarrow> suggestion list result" where
  "getSuggestions openNow now q limit c =
     (let restaurantLimit = min SUGGESTION_RESTAURANT_SHARE limit; cuisineLimit = min SUGGESTION_CUISINE_SHARE limit;
          menuItemLimit = limit - restaurantLimit - cuisineLimit
      in andThen (findAllRestaurants openNow now (nameSearch q restaurantLimit) c) (\<lambda>p.
         Inr (take limit
           (map (\<lambda>s. RestaurantSuggestion (su_id s) (su_name s)) (sp_items p) @
            map (\<lambda>k. CuisineSuggestion (cu_id k) (cu_name k)) (take cuisineLimit (findCuisines (Some q) c)) @
            map (\<lambda>i. ItemSuggestion (ir_id i) (ir_name i) (getCategoryRestaurantId (ir_categoryId i) c))
              (findMenuItemNameMatches q menuItemLimit c)))))"

definition logSearch :: "int \<Rightarrow> string \<Rightarrow> string option \<Rightarrow> 'z browseStore_scheme \<Rightarrow> 'z browseStore_scheme" where
  "logSearch now q cid c = c\<lparr>bw_searchLogs := bw_searchLogs c @ [\<lparr>sl_query = trim q, sl_customerId = cid, sl_createdAt = now\<rparr>]\<rparr>"

definition RECENT_SEARCH_LIMIT :: nat where "RECENT_SEARCH_LIMIT = 10"

definition recentKey :: "recentSearch \<Rightarrow> string \<times> string" where
  "recentKey r = (rc_customerId r, rc_query r)"

definition recordRecentSearch :: "string \<Rightarrow> int \<Rightarrow> string \<Rightarrow> string \<Rightarrow> 'z browseStore_scheme \<Rightarrow> 'z browseStore_scheme" where
  "recordRecentSearch uuid now cid q c =
     (case lookup recentKey (cid, trim q) (bw_recent c) of
        Some _ \<Rightarrow> c\<lparr>bw_recent := modify (\<lambda>r. recentKey r = (cid, trim q)) (\<lambda>r. r\<lparr>rc_updatedAt := now\<rparr>) (bw_recent c)\<rparr>
      | None \<Rightarrow> c\<lparr>bw_recent := bw_recent c @
          [\<lparr>rc_id = uuid, rc_customerId = cid, rc_query = trim q, rc_updatedAt = now\<rparr>]\<rparr>)"

definition getRecentSearches :: "string \<Rightarrow> 'z browseStore_scheme \<Rightarrow> recentSearch list" where
  "getRecentSearches cid c =
     take RECENT_SEARCH_LIMIT (sort_key (\<lambda>r. - rc_updatedAt r) (filter (\<lambda>r. rc_customerId r = cid) (bw_recent c)))"

definition deleteRecentSearch :: "string \<Rightarrow> string \<Rightarrow> 'z browseStore_scheme \<Rightarrow> bool \<times> 'z browseStore_scheme" where
  "deleteRecentSearch i cid c =
     (list_ex (\<lambda>r. rc_id r = i \<and> rc_customerId r = cid) (bw_recent c),
      c\<lparr>bw_recent := filter (\<lambda>r. \<not> (rc_id r = i \<and> rc_customerId r = cid)) (bw_recent c)\<rparr>)"

definition clearRecentSearches :: "string \<Rightarrow> 'z browseStore_scheme \<Rightarrow> nat \<times> 'z browseStore_scheme" where
  "clearRecentSearches cid c =
     (matches (\<lambda>r. rc_customerId r = cid) (bw_recent c),
      c\<lparr>bw_recent := filter (\<lambda>r. rc_customerId r \<noteq> cid) (bw_recent c)\<rparr>)"

subsection \<open>Trending\<close>

definition TRENDING_LIMIT :: nat where "TRENDING_LIMIT = 10"
definition TRENDING_WINDOW_HOURS :: int where "TRENDING_WINDOW_HOURS = 24"

definition windowCount :: "int \<Rightarrow> string \<Rightarrow> searchLog list \<Rightarrow> nat" where
  "windowCount since q logs = matches (\<lambda>l. since \<le> sl_createdAt l \<and> sl_query l = q) logs"

definition groupedQueries :: "int \<Rightarrow> searchLog list \<Rightarrow> (string \<times> nat) list" where
  "groupedQueries since logs =
     take 50 (sort_key (\<lambda>g. - int (snd g))
       (map (\<lambda>q. (q, windowCount since q logs)) (remdups (map sl_query (filter (\<lambda>l. since \<le> sl_createdAt l) logs)))))"

definition upsertTrending :: "trendingSearch list \<Rightarrow> string \<times> nat \<Rightarrow> trendingSearch list" where
  "upsertTrending rows g =
     (case lookup tg_query (fst g) rows of
        Some _ \<Rightarrow> modify (\<lambda>t. tg_query t = fst g) (\<lambda>t. t\<lparr>tg_score := snd g\<rparr>) rows
      | None \<Rightarrow> rows @ [\<lparr>tg_query = fst g, tg_score = snd g\<rparr>])"

definition recomputeTrendingScores :: "int \<Rightarrow> int \<Rightarrow> 'z browseStore_scheme \<Rightarrow> nat \<times> 'z browseStore_scheme" where
  "recomputeTrendingScores now windowHours c =
     (let grouped = groupedQueries (now - windowHours * 60 * 60 * 1000) (bw_searchLogs c);
          rows = foldl upsertTrending (bw_trending c) grouped
      in (length grouped,
          c\<lparr>bw_trending := if grouped = [] then rows else filter (\<lambda>t. tg_query t \<in> set (map fst grouped)) rows\<rparr>))"

text \<open>The scheduled job; other job names do nothing.\<close>

definition processTrendingJob :: "int \<Rightarrow> string \<Rightarrow> 'z browseStore_scheme \<Rightarrow> 'z browseStore_scheme" where
  "processTrendingJob now name c =
     (if name = ''aggregate-trending-searches'' then snd (recomputeTrendingScores now TRENDING_WINDOW_HOURS c) else c)"

definition getTrendingSearches :: "'z browseStore_scheme \<Rightarrow> (string \<times> nat) list" where
  "getTrendingSearches c =
     map (\<lambda>t. (tg_query t, tg_score t)) (take TRENDING_LIMIT (sort_key (\<lambda>t. - int (tg_score t)) (bw_trending c)))"

end
