(* ===== verification/BrowsingSafety.thy ===== *)
theory BrowsingSafety
  imports Browsing
begin

text \<open>
  What the favourites, the suggestions and the trending searches promise: a toggle changes one
  customer's one favourite, the suggestions respect the limit and the shares, and the trending table is
  the count of the last day's searches once there are any, and yesterday's when there are none.
\<close>

section \<open>Favourites\<close>

definition favorited :: "favorite list \<Rightarrow> string \<Rightarrow> string \<Rightarrow> bool" where
  "favorited rows cid sid \<longleftrightarrow> (cid, sid) \<in> favoriteKey ` set rows"

lemma favorited_add: "favorited (addFavorite now cid sid rows) k i \<longleftrightarrow> (k, i) = (cid, sid) \<or> favorited rows k i"
proof (cases "lookup favoriteKey (cid, sid) rows")
  case (Some f)
  then have "(cid, sid) \<in> favoriteKey ` set rows" using lookup_SomeD[OF Some] by force
  then show ?thesis using Some by (auto simp: addFavorite_def favorited_def)
qed (auto simp: addFavorite_def favorited_def favoriteKey_def)

lemma favorited_remove: "favorited (removeFavorite cid sid rows) k i \<longleftrightarrow> (k, i) \<noteq> (cid, sid) \<and> favorited rows k i"
  by (auto simp: removeFavorite_def favorited_def)

lemma favoritedIds: "i \<in> getFavoritedIds cid ids rows \<longleftrightarrow> i \<in> set ids \<and> favorited rows cid i"
  by (auto simp: getFavoritedIds_def favorited_def favoriteKey_def)

lemma status_iff:
  "getRestaurantFavoriteStatus cid raw c = map (\<lambda>i. (i, favorited (bw_restaurantFavorites c) cid i)) (parseIds raw)"
  by (auto simp: getRestaurantFavoriteStatus_def favoritedIds Let_def)

text \<open>
  A toggle changes one favourite.  After a customer adds an existing restaurant to their favourites,
  every status request of every customer answers as before, except that this customer's requests see
  this restaurant as a favourite; removing it undoes exactly that.
\<close>

theorem toggle_changes_one_favorite:
  assumes "findRestaurantRow rid c \<noteq> None"
  shows "getRestaurantFavoriteStatus k raw (snd (addRestaurantFavorite now cid rid c)) =
      map (\<lambda>(i, b). (i, b \<or> (k = cid \<and> i = rid))) (getRestaurantFavoriteStatus k raw c) \<and>
    getRestaurantFavoriteStatus k raw (snd (removeRestaurantFavorite cid rid (snd (addRestaurantFavorite now cid rid c)))) =
      map (\<lambda>(i, b). (i, b \<and> \<not> (k = cid \<and> i = rid))) (getRestaurantFavoriteStatus k raw c)"
  using assms
  by (auto simp: status_iff addRestaurantFavorite_def removeRestaurantFavorite_def favorited_add favorited_remove)

lemma favorite_page_resolved:
  assumes "list_all (\<lambda>f. lookup rr_id (fv_subjectId f) (cg_restaurants c) \<noteq> None) (bw_restaurantFavorites c)"
    and "findFavoriteRestaurantsDetailed cid skip tk c = (rows, n)"
  shows "map rr_id rows = fst (favoritePage cid skip tk (bw_restaurantFavorites c))"
proof -
  let ?ids = "fst (favoritePage cid skip tk (bw_restaurantFavorites c))"
  have sub: "set ?ids \<subseteq> fv_subjectId ` set (bw_restaurantFavorites c)"
    by (auto simp: favoritePage_def Let_def skipTake_def dest!: in_set_takeD in_set_dropD)
  have res: "\<exists>r. lookup rr_id i (filter (\<lambda>r. rr_id r \<in> set ?ids) (cg_restaurants c)) = Some r \<and> rr_id r = i"
    if i: "i \<in> set ?ids" for i
  proof -
    have "lookup rr_id i (cg_restaurants c) \<noteq> None" using sub i assms(1) by (auto simp: list_all_iff)
    then have "i \<in> rr_id ` set (cg_restaurants c)" by (auto simp: lookup_None_iff)
    then have "i \<in> rr_id ` set (filter (\<lambda>r. rr_id r \<in> set ?ids) (cg_restaurants c))" using i by auto
    then have "lookup rr_id i (filter (\<lambda>r. rr_id r \<in> set ?ids) (cg_restaurants c)) \<noteq> None"
      unfolding lookup_None_iff by blast
    then obtain r where r: "lookup rr_id i (filter (\<lambda>r. rr_id r \<in> set ?ids) (cg_restaurants c)) = Some r" by blast
    show ?thesis using r lookup_key[OF r] by blast
  qed
  have "map rr_id (List.map_filter (\<lambda>i. lookup rr_id i (filter (\<lambda>r. rr_id r \<in> set ?ids) (cg_restaurants c))) js) = js"
    if "set js \<subseteq> set ?ids" for js
    using that
  proof (induction js)
    case (Cons j js)
    then obtain r where "lookup rr_id j (filter (\<lambda>r. rr_id r \<in> set ?ids) (cg_restaurants c)) = Some r" "rr_id r = j"
      using res[of j] by auto
    then show ?case using Cons by (simp add: List.map_filter_simps)
  qed (simp add: List.map_filter_simps)
  then show ?thesis using assms(2) by (auto simp: findFavoriteRestaurantsDetailed_def Let_def split: prod.splits if_splits)
qed

section \<open>Suggestions\<close>

lemma nameSearch_rows: "findAllRestaurants openNow now (nameSearch q k) c = Inr p \<Longrightarrow> length (sp_items p) \<le> k"
  by (auto simp: findAllRestaurants_def nameSearch_def isTrue_def needsDistance_def getPagination_def skipTake_def Let_def
      split: if_splits)

lemma nameSearch_ok: "\<exists>p. findAllRestaurants openNow now (nameSearch q k) c = Inr p"
  by (simp add: findAllRestaurants_def nameSearch_def isTrue_def needsDistance_def getPagination_def Let_def)

text \<open>
  Suggestions fit.  A suggestion request always succeeds; it answers with at most the asked number of
  suggestions, at most four of them restaurants and at most two cuisines, restaurants first, then
  cuisines, then dishes.
\<close>

theorem suggestions_bounded:
  "\<exists>rs ks is. getSuggestions openNow now q limit c = Inr (rs @ ks @ is) \<and>
     length (rs @ ks @ is) \<le> limit \<and> length rs \<le> 4 \<and> length ks \<le> 2 \<and>
     list_all (\<lambda>s. case s of RestaurantSuggestion _ _ \<Rightarrow> True | _ \<Rightarrow> False) rs \<and>
     list_all (\<lambda>s. case s of CuisineSuggestion _ _ \<Rightarrow> True | _ \<Rightarrow> False) ks \<and>
     list_all (\<lambda>s. case s of ItemSuggestion _ _ _ \<Rightarrow> True | _ \<Rightarrow> False) is"
proof -
  let ?r = "min SUGGESTION_RESTAURANT_SHARE limit" let ?k = "min SUGGESTION_CUISINE_SHARE limit"
  obtain p where p: "findAllRestaurants openNow now (nameSearch q ?r) c = Inr p" using nameSearch_ok by blast
  define rs where "rs = map (\<lambda>s. RestaurantSuggestion (su_id s) (su_name s)) (sp_items p)"
  define ks where "ks = map (\<lambda>k. CuisineSuggestion (cu_id k) (cu_name k)) (take ?k (findCuisines (Some q) c))"
  define its where "its = map (\<lambda>i. ItemSuggestion (ir_id i) (ir_name i) (getCategoryRestaurantId (ir_categoryId i) c))
    (findMenuItemNameMatches q (limit - ?r - ?k) c)"
  have n: "length rs \<le> 4" "length ks \<le> 2"
    using nameSearch_rows[OF p] by (simp_all add: rs_def ks_def SUGGESTION_RESTAURANT_SHARE_def SUGGESTION_CUISINE_SHARE_def)
  have k: "list_all (\<lambda>s. case s of RestaurantSuggestion _ _ \<Rightarrow> True | _ \<Rightarrow> False) rs"
    "list_all (\<lambda>s. case s of CuisineSuggestion _ _ \<Rightarrow> True | _ \<Rightarrow> False) ks"
    "list_all (\<lambda>s. case s of ItemSuggestion _ _ _ \<Rightarrow> True | _ \<Rightarrow> False) its"
    by (simp_all add: rs_def ks_def its_def list_all_iff)
  have "getSuggestions openNow now q limit c = Inr (take limit (rs @ ks @ its))"
    by (simp add: getSuggestions_def Let_def p rs_def ks_def its_def)
  moreover have "take limit (rs @ ks @ its) =
      take limit rs @ take (limit - length rs) ks @ take (limit - length rs - length ks) its"
    by simp
  moreover have "list_all P (take m xs)" if "list_all P xs" for P m and xs :: "suggestion list"
    using that by (auto simp: list_all_iff dest: in_set_takeD)
  ultimately show ?thesis using n k
    by (intro exI[of _ "take limit rs"] exI[of _ "take (limit - length rs) ks"]
        exI[of _ "take (limit - length rs - length ks) its"]) auto
qed

section \<open>Trending\<close>

lemma sort_key_Nil_iff: "sort_key f xs = [] \<longleftrightarrow> xs = []"
  by (metis length_sort length_0_conv)

lemma upsert_score:
  "tg_query ` set (upsertTrending rows g) = insert (fst g) (tg_query ` set rows)"
  "t \<in> set (upsertTrending rows g) \<Longrightarrow> tg_query t = fst g \<Longrightarrow> tg_score t = snd g"
  "t \<in> set (upsertTrending rows g) \<Longrightarrow> tg_query t \<noteq> fst g \<Longrightarrow> t \<in> set rows"
proof -
  show "tg_query ` set (upsertTrending rows g) = insert (fst g) (tg_query ` set rows)"
  proof (cases "lookup tg_query (fst g) rows")
    case (Some r)
    have "map tg_query (modify (\<lambda>t. tg_query t = fst g) (\<lambda>t. t\<lparr>tg_score := snd g\<rparr>) rows) = map tg_query rows"
      by (rule map_modify) simp
    then have "tg_query ` set (modify (\<lambda>t. tg_query t = fst g) (\<lambda>t. t\<lparr>tg_score := snd g\<rparr>) rows) = tg_query ` set rows"
      by (metis set_map)
    then show ?thesis using Some imageI[of r "set rows" tg_query] lookup_SomeD[OF Some] by (simp add: upsertTrending_def insert_absorb)
  qed (simp add: upsertTrending_def)
next
  assume "t \<in> set (upsertTrending rows g)" "tg_query t = fst g"
  then show "tg_score t = snd g"
    by (cases "lookup tg_query (fst g) rows") (auto simp: upsertTrending_def set_modify lookup_None_iff image_iff split: if_splits)
next
  assume "t \<in> set (upsertTrending rows g)" "tg_query t \<noteq> fst g"
  then show "t \<in> set rows" by (auto simp: upsertTrending_def set_modify split: option.splits if_splits)
qed

lemma upserts_scores:
  assumes "distinct (map fst gs)"
  shows "tg_query ` set (foldl upsertTrending rows gs) = set (map fst gs) \<union> tg_query ` set rows \<and>
    (\<forall>t \<in> set (foldl upsertTrending rows gs). (tg_query t, tg_score t) \<in> set gs \<or> tg_query t \<notin> set (map fst gs) \<and> t \<in> set rows)"
  using assms
proof (induction gs rule: rev_induct)
  case (snoc g gs)
  let ?rows = "foldl upsertTrending rows gs"
  have d: "distinct (map fst gs)" "fst g \<notin> set (map fst gs)" using snoc.prems by auto
  note IH = snoc.IH[OF d(1)]
  have "(tg_query t, tg_score t) \<in> set (gs @ [g]) \<or> tg_query t \<notin> set (map fst (gs @ [g])) \<and> t \<in> set rows"
    if t: "t \<in> set (upsertTrending ?rows g)" for t
  proof (cases "tg_query t = fst g")
    case True
    then have "(tg_query t, tg_score t) = g" using upsert_score(2)[OF t True] by (simp add: prod_eq_iff)
    then show ?thesis by simp
  next
    case False
    then have "t \<in> set ?rows" using upsert_score(3)[OF t] by simp
    then show ?thesis using IH False by auto
  qed
  then show ?case using IH by (auto simp: upsert_score(1))
qed simp

text \<open>
  The trending table counts the window.  If anybody searched in the last \<open>h\<close> hours, the job leaves
  exactly the (at most fifty) most searched queries of that window in the table, each with the number
  of times it was searched there.
\<close>

theorem trending_counts_window:
  assumes "list_ex (\<lambda>l. now - h * 60 * 60 * 1000 \<le> sl_createdAt l) (bw_searchLogs c)"
    and "recomputeTrendingScores now h c = (n, c')"
  shows "(\<lambda>t. (tg_query t, tg_score t)) ` set (bw_trending c') = set (groupedQueries (now - h * 60 * 60 * 1000) (bw_searchLogs c)) \<and>
    0 < n \<and> n \<le> 50 \<and>
    list_all (\<lambda>t. tg_score t = windowCount (now - h * 60 * 60 * 1000) (tg_query t) (bw_searchLogs c)) (bw_trending c')"
proof -
  let ?since = "now - h * 60 * 60 * 1000" let ?logs = "bw_searchLogs c"
  let ?qs = "remdups (map sl_query (filter (\<lambda>l. ?since \<le> sl_createdAt l) ?logs))"
  let ?all = "map (\<lambda>q. (q, windowCount ?since q ?logs)) ?qs"
  define gs where "gs = groupedQueries ?since ?logs"
  have gs: "gs = take 50 (sort_key (\<lambda>g. - int (snd g)) ?all)" by (simp add: gs_def groupedQueries_def)
  have "distinct ?all" by (simp add: distinct_map inj_on_def)
  then have fsts: "distinct (map fst (sort_key (\<lambda>g. - int (snd g)) ?all))"
    by (auto simp: distinct_map inj_on_def)
  then have d: "distinct (map fst gs)" by (simp add: gs take_map[symmetric] distinct_take)
  have ne: "gs \<noteq> []"
  proof -
    have "?qs \<noteq> []" using assms(1) by (simp add: list_ex_iff filter_empty_conv)
    then have "?all \<noteq> []" by simp
    then have "sort_key (\<lambda>g. - int (snd g)) ?all \<noteq> []" unfolding sort_key_Nil_iff .
    then show ?thesis unfolding gs by simp
  qed
  have count: "snd g = windowCount ?since (fst g) ?logs" if "g \<in> set gs" for g
    using in_set_takeD[OF that[unfolded gs]] by auto
  have c': "bw_trending c' = filter (\<lambda>t. tg_query t \<in> set (map fst gs)) (foldl upsertTrending (bw_trending c) gs)" and n: "n = length gs"
    using assms(2) ne by (auto simp: recomputeTrendingScores_def Let_def gs_def)
  have le: "length gs \<le> 50" by (simp add: gs_def groupedQueries_def)
  note U = upserts_scores[OF d, of "bw_trending c"]
  have rows: "(tg_query t, tg_score t) \<in> set gs" if "t \<in> set (bw_trending c')" for t using that U by (auto simp: c')
  have "g \<in> (\<lambda>t. (tg_query t, tg_score t)) ` set (bw_trending c')" if g: "g \<in> set gs" for g
  proof -
    have "fst g \<in> tg_query ` set (foldl upsertTrending (bw_trending c) gs)" using U g by auto
    then obtain t where t: "t \<in> set (foldl upsertTrending (bw_trending c) gs)" "tg_query t = fst g" by auto
    then have m: "t \<in> set (bw_trending c')" using g by (auto simp: c')
    then have "(tg_query t, tg_score t) \<in> set gs" by (rule rows)
    then have "(tg_query t, tg_score t) = g" using d g t(2) by (auto simp: distinct_map inj_on_def)
    then show ?thesis using m by force
  qed
  then have "(\<lambda>t. (tg_query t, tg_score t)) ` set (bw_trending c') = set gs" using rows by blast
  moreover have "0 < n \<and> n \<le> 50" using ne le unfolding n by simp
  moreover have "tg_score t = windowCount ?since (tg_query t) ?logs" if "t \<in> set (bw_trending c')" for t
    using count[OF rows[OF that]] by simp
  ultimately show ?thesis unfolding gs_def list_all_iff by blast
qed

text \<open>
  Trending searches go stale.  When nobody searched in the window, the job changes nothing: the
  queries of earlier windows keep their scores and stay on the trending list.
\<close>

theorem trending_goes_stale:
  assumes "list_all (\<lambda>l. sl_createdAt l < now - TRENDING_WINDOW_HOURS * 60 * 60 * 1000) (bw_searchLogs c)"
  shows "getTrendingSearches (processTrendingJob now ''aggregate-trending-searches'' c) = getTrendingSearches c"
proof -
  have "filter (\<lambda>l. now - TRENDING_WINDOW_HOURS * 60 * 60 * 1000 \<le> sl_createdAt l) (bw_searchLogs c) = []"
    using assms by (auto simp: list_all_iff filter_empty_conv)
  then have "groupedQueries (now - TRENDING_WINDOW_HOURS * 60 * 60 * 1000) (bw_searchLogs c) = []"
    by (simp add: groupedQueries_def)
  then show ?thesis by (simp add: processTrendingJob_def recomputeTrendingScores_def getTrendingSearches_def)
qed

section \<open>The properties on a concrete town\<close>

definition kiosk :: restaurantRow where
  "kiosk = newRestaurant ''r1'' 0 ''o1'' \<lparr>cr_name = ''Kiosk'', cr_slug = ''kiosk'', cr_description = None,
      cr_phone = None, cr_email = None\<rparr>"

definition kioskTown :: "searchLog list \<Rightarrow> browseStore" where
  "kioskTown logs = \<lparr>cg_base = emptyWorld, cg_restaurants = [kiosk], cg_branches = [], cg_staff = [], cg_offers = [],
     cg_reviews = [], cg_media = [], cg_owners = [], cg_published = [], cg_settings = [],
     mn_categories = [], mn_items = [], mn_variants = [], mn_addons = [], mn_options = [],
     bw_restaurantFavorites = [], bw_itemFavorites = [], bw_cuisines = [], bw_searchLogs = logs, bw_recent = [],
     bw_trending = [\<lparr>tg_query = ''idli'', tg_score = 9\<rparr>]\<rparr>"

lemma kiosk_found: "findRestaurantRow ''r1'' (kioskTown logs) \<noteq> None"
  by (simp add: findRestaurantRow_def kioskTown_def kiosk_def newRestaurant_def)

theorem toggle_changes_one_favorite_witness:
  "getRestaurantFavoriteStatus ''u1'' ''r1, r2'' (snd (addRestaurantFavorite 5 ''u1'' ''r1'' (kioskTown []))) =
      [(''r1'', True), (''r2'', False)] \<and>
   getRestaurantFavoriteStatus ''u1'' ''r1, r2'' (snd (removeRestaurantFavorite ''u1'' ''r1''
      (snd (addRestaurantFavorite 5 ''u1'' ''r1'' (kioskTown []))))) = [(''r1'', False), (''r2'', False)]"
proof -
  have ids: "parseIds ''r1, r2'' = [''r1'', ''r2'']" by code_simp
  have "getRestaurantFavoriteStatus ''u1'' ''r1, r2'' (kioskTown []) = [(''r1'', False), (''r2'', False)]"
    by (simp add: status_iff ids favorited_def kioskTown_def)
  then show ?thesis using toggle_changes_one_favorite[OF kiosk_found, of "''u1''" "''r1, r2''" 5 "''u1''" "[]"] by simp
qed

definition dosaSearch :: "int \<Rightarrow> searchLog" where
  "dosaSearch t = \<lparr>sl_query = ''dosa'', sl_customerId = None, sl_createdAt = t\<rparr>"

theorem trending_counts_window_witness:
  "(\<lambda>t. (tg_query t, tg_score t)) ` set (bw_trending (snd (recomputeTrendingScores 10 24 (kioskTown [dosaSearch 1, dosaSearch 2])))) =
     {(''dosa'', 2)}"
proof -
  let ?c = "kioskTown [dosaSearch 1, dosaSearch 2]"
  have logs: "bw_searchLogs ?c = [dosaSearch 1, dosaSearch 2]" by (simp add: kioskTown_def)
  have g: "groupedQueries (10 - 24 * 60 * 60 * 1000) (bw_searchLogs ?c) = [(''dosa'', 2)]"
    unfolding logs by (simp add: groupedQueries_def windowCount_def dosaSearch_def)
  have "list_ex (\<lambda>l. 10 - 24 * 60 * 60 * 1000 \<le> sl_createdAt l) (bw_searchLogs ?c)"
    unfolding logs by (simp add: dosaSearch_def)
  from trending_counts_window[OF this prod.collapse[symmetric]]
  show ?thesis unfolding g by simp
qed

theorem trending_goes_stale_witness:
  "getTrendingSearches (processTrendingJob 100000000 ''aggregate-trending-searches'' (kioskTown [dosaSearch 1])) = [(''idli'', 9)]"
proof -
  have "list_all (\<lambda>l. sl_createdAt l < 100000000 - TRENDING_WINDOW_HOURS * 60 * 60 * 1000) (bw_searchLogs (kioskTown [dosaSearch 1]))"
    by (simp add: kioskTown_def dosaSearch_def TRENDING_WINDOW_HOURS_def)
  from trending_goes_stale[OF this]
  show ?thesis by (simp add: getTrendingSearches_def[of "kioskTown [dosaSearch 1]"]) (simp add: kioskTown_def TRENDING_LIMIT_def)
qed

end
