(* ===== verification/Reports.thy ===== *)
theory Reports
  imports Proof Notifications Discovery
begin

text \<open>
  The restaurant's reports (\<^verbatim>\<open>modules/reports\<close>): seven tables over orders, payments and refunds, and
  their export.  A string is its UTF-8 bytes, an amount is exact.  Parameters: \<open>offset\<close>, the server's
  distance from UTC in milliseconds, which the local day boundaries use; \<open>showLocal\<close> for
  \<^verbatim>\<open>toLocaleString\<close>; \<open>showNumber\<close> for \<^verbatim>\<open>String\<close> of a number; the workbook and PDF
  libraries.  A refund's reason and time are columns the payment model leaves out and come as
  functions.
\<close>

section \<open>Tables\<close>

datatype reportCell = CellNull | CellText string | CellNumber rat

record reportTable =
  rt_title :: string
  rt_generatedAt :: int
  rt_columns :: "(string \<times> string) list"
  rt_rows :: "(string \<times> reportCell) list list"
  rt_summary :: "(string \<times> reportCell) list"

definition cellOf :: "(string \<times> reportCell) list \<Rightarrow> string \<Rightarrow> reportCell" where
  "cellOf r k = (case map_of r k of None \<Rightarrow> CellNull | Some v \<Rightarrow> v)"

section \<open>Text\<close>

definition showInt :: "int \<Rightarrow> string" where
  "showInt n = (if n < 0 then ''-'' @ decimal (nat (- n)) else decimal (nat n))"

text \<open>\<^verbatim>\<open>toFixed(2)\<close>: the nearest hundredth, the larger one of two; a negative number by its absolute
  value.\<close>

definition hundredths :: "rat \<Rightarrow> nat" where
  "hundredths x = nat \<lfloor>x * 100 + 1 / 2\<rfloor>"

definition toFixed2 :: "rat \<Rightarrow> string" where
  "toFixed2 x =
     (let n = hundredths \<bar>x\<bar>
      in (if x < 0 then ''-'' else []) @ decimal (n div 100) @ ''.'' @ padStart 2 (CHR ''0'') (decimal (n mod 100)))"

definition DAY_MS :: int where "DAY_MS = 24 * 60 * 60 * 1000"

text \<open>The calendar date (year, month, day) of a day counted from 1970-01-01, and its ISO form.\<close>

definition civilDate :: "int \<Rightarrow> int \<times> int \<times> int" where
  "civilDate days =
     (let z = days + 719468; era = z div 146097; doe = z mod 146097;
          yoe = (doe - doe div 1460 + doe div 36524 - doe div 146096) div 365;
          doy = doe - (365 * yoe + yoe div 4 - yoe div 100);
          mp = (5 * doy + 2) div 153; d = doy - (153 * mp + 2) div 5 + 1;
          m = (if mp < 10 then mp + 3 else mp - 9)
      in (yoe + era * 400 + (if m \<le> 2 then 1 else 0), m, d))"

definition isoDay :: "int \<Rightarrow> string" where
  "isoDay days =
     (case civilDate days of (y, m, d) \<Rightarrow>
        padStart 4 (CHR ''0'') (showInt y) @ ''-'' @ padStart 2 (CHR ''0'') (showInt m) @ ''-'' @
        padStart 2 (CHR ''0'') (showInt d))"

definition dayKey :: "int \<Rightarrow> string" where
  "dayKey t = isoDay (t div DAY_MS)"

definition startOfDay :: "int \<Rightarrow> int \<Rightarrow> int" where
  "startOfDay offset t = ((t + offset) div DAY_MS) * DAY_MS - offset"

definition endOfDay :: "int \<Rightarrow> int \<Rightarrow> int" where
  "endOfDay offset t = startOfDay offset t + DAY_MS - 1"

section \<open>CSV\<close>

definition QUOTE :: char where "QUOTE = CHR 0x22"
definition LF :: char where "LF = CHR 0x0A"
definition CR :: char where "CR = CHR 0x0D"
definition emDash :: string where "emDash = [CHR 0xE2, CHR 0x80, CHR 0x94]"
definition BOM :: string where "BOM = [CHR 0xEF, CHR 0xBB, CHR 0xBF]"

fun doubleQuotes :: "string \<Rightarrow> string" where
  "doubleQuotes [] = []"
| "doubleQuotes (x # xs) = (if x = QUOTE then [QUOTE, QUOTE] else [x]) @ doubleQuotes xs"

definition escapeCsvText :: "string \<Rightarrow> string" where
  "escapeCsvText s =
     (if list_ex (\<lambda>x. x = CHR '','' \<or> x = QUOTE \<or> x = LF) s then [QUOTE] @ doubleQuotes s @ [QUOTE] else s)"

fun cellText :: "(rat \<Rightarrow> string) \<Rightarrow> reportCell \<Rightarrow> string" where
  "cellText showNumber CellNull = []"
| "cellText showNumber (CellText s) = s"
| "cellText showNumber (CellNumber x) = showNumber x"

definition escapeCsvValue :: "(rat \<Rightarrow> string) \<Rightarrow> reportCell \<Rightarrow> string" where
  "escapeCsvValue showNumber v = escapeCsvText (cellText showNumber v)"

fun joinText :: "string \<Rightarrow> string list \<Rightarrow> string" where
  "joinText sep [] = []"
| "joinText sep [x] = x"
| "joinText sep (x # y # xs) = x @ sep @ joinText sep (y # xs)"

definition csvLines :: "(rat \<Rightarrow> string) \<Rightarrow> reportTable \<Rightarrow> string list" where
  "csvLines showNumber t =
     [joinText '','' (map (\<lambda>k. escapeCsvText (snd k)) (rt_columns t))] @
     map (\<lambda>r. joinText '','' (map (\<lambda>k. escapeCsvValue showNumber (cellOf r (fst k))) (rt_columns t))) (rt_rows t) @
     (if rt_summary t = [] then []
      else [] # map (\<lambda>e. escapeCsvText (fst e) @ '','' @ escapeCsvValue showNumber (snd e)) (rt_summary t))"

definition toCsv :: "(rat \<Rightarrow> string) \<Rightarrow> reportTable \<Rightarrow> string" where
  "toCsv showNumber t = BOM @ joinText [CR, LF] (csvLines showNumber t)"

definition toSheetName :: "string \<Rightarrow> string" where
  "toSheetName title = take 31 (map (\<lambda>x. if x \<in> set [CHR 0x5C, CHR ''/'', CHR ''?'', CHR ''*'', CHR ''['', CHR '']''] then CHR '' '' else x) title)"

section \<open>Queries\<close>

datatype reportFormat = FMT_JSON | FMT_CSV | FMT_XLSX | FMT_PDF

record reportQuery =
  rep_dateFrom :: "int option"
  rep_dateTo :: "int option"
  rep_branchId :: "string option"
  rep_status :: "orderStatus option"
  rep_paymentMode :: "paymentMode option"

definition REPORT_MANAGE_ROLES :: "restaurantAccessRole list" where
  "REPORT_MANAGE_ROLES = [StaffRole OWNER, StaffRole CO_OWNER, StaffRole BRANCH_MANAGER, AdminRole]"

definition DEFAULT_WINDOW_DAYS :: int where "DEFAULT_WINDOW_DAYS = 30"

definition resolveRange :: "int \<Rightarrow> int \<Rightarrow> reportQuery \<Rightarrow> int \<times> int" where
  "resolveRange offset now q =
     (let dateTo = endOfDay offset (case rep_dateTo q of None \<Rightarrow> now | Some t \<Rightarrow> t);
          dateFrom = startOfDay offset (case rep_dateFrom q of None \<Rightarrow> dateTo - DEFAULT_WINDOW_DAYS * DAY_MS | Some t \<Rightarrow> t)
      in (dateFrom, dateTo))"

definition findReportOrders ::
  "string \<Rightarrow> string option \<Rightarrow> orderStatus option \<Rightarrow> int \<times> int \<Rightarrow> world \<Rightarrow> order list" where
  "findReportOrders rid branch st window w =
     sort_key (\<lambda>ord. - o_placedAt ord)
       (filter (\<lambda>ord. o_restaurantId ord = rid \<and> (truthy branch \<longrightarrow> o_branchId ord = branch) \<and>
          (case st of None \<Rightarrow> True | Some s \<Rightarrow> o_status ord = s) \<and>
          fst window \<le> o_placedAt ord \<and> o_placedAt ord \<le> snd window) (w_orders w))"

definition paymentOrder :: "world \<Rightarrow> string \<Rightarrow> order option" where
  "paymentOrder w oid = lookup o_id oid (w_orders w)"

definition findReportPayments ::
  "string \<Rightarrow> string option \<Rightarrow> paymentMode option \<Rightarrow> int \<times> int \<Rightarrow> world \<Rightarrow> payment list" where
  "findReportPayments rid branch mode window w =
     sort_key (\<lambda>p. - p_createdAt p)
       (filter (\<lambda>p. (case paymentOrder w (p_orderId p) of
                       None \<Rightarrow> False
                     | Some ord \<Rightarrow> o_restaurantId ord = rid \<and> (truthy branch \<longrightarrow> o_branchId ord = branch) \<and>
                         (case mode of None \<Rightarrow> True | Some m \<Rightarrow> o_paymentMode ord = m)) \<and>
                    fst window \<le> p_createdAt p \<and> p_createdAt p \<le> snd window) (w_payments w))"

definition refundedOrder :: "world \<Rightarrow> refund \<Rightarrow> order option" where
  "refundedOrder w r =
     (case lookup p_id (r_paymentId r) (w_payments w) of None \<Rightarrow> None | Some p \<Rightarrow> paymentOrder w (p_orderId p))"

definition findReportRefunds ::
  "(refund \<Rightarrow> int) \<Rightarrow> string \<Rightarrow> string option \<Rightarrow> int \<times> int \<Rightarrow> world \<Rightarrow> refund list" where
  "findReportRefunds refundedAt rid branch window w =
     sort_key (\<lambda>r. - refundedAt r)
       (filter (\<lambda>r. (case refundedOrder w r of
                       None \<Rightarrow> False
                     | Some ord \<Rightarrow> o_restaurantId ord = rid \<and> (truthy branch \<longrightarrow> o_branchId ord = branch)) \<and>
                    fst window \<le> refundedAt r \<and> refundedAt r \<le> snd window) (w_refunds w))"

text \<open>\<^verbatim>\<open>Map\<close> grouping: the keys in order of first occurrence, each with its rows.\<close>

definition groupOn :: "('r \<Rightarrow> 'k) \<Rightarrow> 'r list \<Rightarrow> ('k \<times> 'r list) list" where
  "groupOn key rows = map (\<lambda>k. (k, filter (\<lambda>r. key r = k) rows)) (uniqueIds (map key rows))"

definition dayGroups :: "order list \<Rightarrow> (string \<times> order list) list" where
  "dayGroups orders = sortDir True (\<lambda>g. textKey (fst g)) (groupOn (\<lambda>ord. dayKey (o_placedAt ord)) orders)"

definition amountOf :: "(order \<Rightarrow> rat) \<Rightarrow> order list \<Rightarrow> rat" where
  "amountOf f orders = sum_list (map f orders)"

section \<open>The reports\<close>

fun showOrderStatus :: "orderStatus \<Rightarrow> string" where
  "showOrderStatus PENDING = ''PENDING''" | "showOrderStatus CONFIRMED = ''CONFIRMED''"
| "showOrderStatus PREPARING = ''PREPARING''" | "showOrderStatus READY_FOR_PICKUP = ''READY_FOR_PICKUP''"
| "showOrderStatus OUT_FOR_DELIVERY = ''OUT_FOR_DELIVERY''" | "showOrderStatus DELIVERED = ''DELIVERED''"
| "showOrderStatus CANCELLED = ''CANCELLED''"


fun showPaymentMode :: "paymentMode \<Rightarrow> string" where
  "showPaymentMode ONLINE = ''ONLINE''" | "showPaymentMode COD = ''COD''"

fun showPaymentStatus :: "paymentStatus \<Rightarrow> string" where
  "showPaymentStatus PAY_PENDING = ''PENDING''" | "showPaymentStatus PAID = ''PAID''"
| "showPaymentStatus PAY_FAILED = ''FAILED''" | "showPaymentStatus PAY_REFUNDED = ''REFUNDED''"

fun showTransactionStatus :: "transactionStatus \<Rightarrow> string" where
  "showTransactionStatus TX_PENDING = ''PENDING''" | "showTransactionStatus TX_SUCCESS = ''SUCCESS''"
| "showTransactionStatus TX_FAILED = ''FAILED''" | "showTransactionStatus TX_REFUNDED = ''REFUNDED''"

fun showPaymentMethod :: "paymentMethod option \<Rightarrow> string" where
  "showPaymentMethod None = ''UNSPECIFIED''"
| "showPaymentMethod (Some UPI) = ''UPI''" | "showPaymentMethod (Some CARD) = ''CARD''"
| "showPaymentMethod (Some NETBANKING) = ''NETBANKING''" | "showPaymentMethod (Some WALLET) = ''WALLET''"
| "showPaymentMethod (Some METHOD_COD) = ''COD''"

record reportContext =
  rx_offset :: int
  rx_now :: int
  rx_showLocal :: "int \<Rightarrow> string"

definition countCell :: "'a list \<Rightarrow> reportCell" where "countCell xs = CellNumber (of_nat (length xs))"
definition fixedCell :: "rat \<Rightarrow> reportCell" where "fixedCell x = CellText (toFixed2 x)"

definition rangeEntry :: "int \<times> int \<Rightarrow> string \<times> reportCell" where
  "rangeEntry window = (''Date Range'', CellText (dayKey (fst window) @ '' to '' @ dayKey (snd window)))"

definition assertCanViewReports :: "string \<Rightarrow> authUser \<Rightarrow> world \<Rightarrow> unit result" where
  "assertCanViewReports rid u w =
     guard (hasRestaurantRole w rid u REPORT_MANAGE_ROLES) (Forbidden ''view reports for this restaurant'')"

definition viewReport :: "string \<Rightarrow> authUser \<Rightarrow> world \<Rightarrow> reportTable \<Rightarrow> reportTable result" where
  "viewReport rid u w t = andThen (assertCanViewReports rid u w) (\<lambda>_. Inr t)"

definition getDailySalesReport :: "reportContext \<Rightarrow> string \<Rightarrow> reportQuery \<Rightarrow> authUser \<Rightarrow> world \<Rightarrow> reportTable result" where
  "getDailySalesReport x rid q u w =
     (let day = (case rep_dateFrom q of None \<Rightarrow> rx_now x | Some t \<Rightarrow> t);
          orders = findReportOrders rid (rep_branchId q) None (startOfDay (rx_offset x) day, endOfDay (rx_offset x) day) w;
          delivered = filter (\<lambda>ord. o_status ord = DELIVERED) orders;
          cancelled = filter (\<lambda>ord. o_status ord = CANCELLED) orders;
          totalRevenue = amountOf o_total delivered
      in viewReport rid u w
           \<lparr>rt_title = ''Daily Sales Report '' @ emDash @ '' '' @ dayKey day, rt_generatedAt = rx_now x,
            rt_columns = [(''orderNumber'', ''Order #''), (''placedAt'', ''Placed At''), (''status'', ''Status''),
              (''paymentMode'', ''Payment Mode''), (''subtotal'', ''Subtotal''), (''deliveryFee'', ''Delivery Fee''),
              (''tax'', ''Tax''), (''discount'', ''Discount''), (''total'', ''Total'')],
            rt_rows = map (\<lambda>ord. [(''orderNumber'', CellText (o_orderNumber ord)),
              (''placedAt'', CellText (rx_showLocal x (o_placedAt ord))), (''status'', CellText (showOrderStatus (o_status ord))),
              (''paymentMode'', CellText (showPaymentMode (o_paymentMode ord))), (''subtotal'', CellNumber (o_subtotal ord)),
              (''deliveryFee'', CellNumber (o_deliveryFee ord)), (''tax'', CellNumber (o_tax ord)),
              (''discount'', CellNumber (o_discount ord)), (''total'', CellNumber (o_total ord))]) orders,
            rt_summary = [(''Total Orders'', countCell orders), (''Delivered'', countCell delivered),
              (''Cancelled'', countCell cancelled), (''Total Revenue (Delivered)'', fixedCell totalRevenue),
              (''Average Order Value (Delivered)'',
                 if delivered = [] then CellText ''0.00'' else fixedCell (totalRevenue / of_nat (length delivered)))]\<rparr>)"

definition getOrdersReport :: "reportContext \<Rightarrow> string \<Rightarrow> reportQuery \<Rightarrow> authUser \<Rightarrow> world \<Rightarrow> reportTable result" where
  "getOrdersReport x rid q u w =
     (let window = resolveRange (rx_offset x) (rx_now x) q;
          orders = findReportOrders rid (rep_branchId q) (rep_status q) window w
      in viewReport rid u w
           \<lparr>rt_title = ''Orders Report'', rt_generatedAt = rx_now x,
            rt_columns = [(''orderNumber'', ''Order #''), (''placedAt'', ''Placed At''), (''deliveredAt'', ''Delivered At''),
              (''status'', ''Status''), (''paymentMode'', ''Payment Mode''), (''paymentStatus'', ''Payment Status''),
              (''total'', ''Total'')],
            rt_rows = map (\<lambda>ord. [(''orderNumber'', CellText (o_orderNumber ord)),
              (''placedAt'', CellText (rx_showLocal x (o_placedAt ord))),
              (''deliveredAt'', CellText (case o_deliveredAt ord of None \<Rightarrow> [] | Some t \<Rightarrow> rx_showLocal x t)),
              (''status'', CellText (showOrderStatus (o_status ord))), (''paymentMode'', CellText (showPaymentMode (o_paymentMode ord))),
              (''paymentStatus'', CellText (showPaymentStatus (o_paymentStatus ord))), (''total'', CellNumber (o_total ord))]) orders,
            rt_summary = [rangeEntry window, (''Total Orders'', countCell orders)]\<rparr>)"

definition revenueRow :: "string \<times> order list \<Rightarrow> (string \<times> reportCell) list" where
  "revenueRow g = [(''date'', CellText (fst g)), (''orders'', countCell (snd g)),
     (''subtotal'', CellNumber (amountOf o_subtotal (snd g))), (''deliveryFee'', CellNumber (amountOf o_deliveryFee (snd g))),
     (''tax'', CellNumber (amountOf o_tax (snd g))), (''discount'', CellNumber (amountOf o_discount (snd g))),
     (''revenue'', CellNumber (amountOf o_total (snd g)))]"

definition getRevenueReport :: "reportContext \<Rightarrow> string \<Rightarrow> reportQuery \<Rightarrow> authUser \<Rightarrow> world \<Rightarrow> reportTable result" where
  "getRevenueReport x rid q u w =
     (let window = resolveRange (rx_offset x) (rx_now x) q;
          orders = findReportOrders rid (rep_branchId q) (Some DELIVERED) window w;
          groups = dayGroups orders;
          totalRevenue = sum_list (map (\<lambda>g. amountOf o_total (snd g)) groups)
      in viewReport rid u w
           \<lparr>rt_title = ''Revenue Report'', rt_generatedAt = rx_now x,
            rt_columns = [(''date'', ''Date''), (''orders'', ''Orders''), (''subtotal'', ''Subtotal''),
              (''deliveryFee'', ''Delivery Fee''), (''tax'', ''Tax''), (''discount'', ''Discount''), (''revenue'', ''Revenue'')],
            rt_rows = map revenueRow groups,
            rt_summary = [rangeEntry window, (''Delivered Orders'', countCell orders),
              (''Total Revenue'', fixedCell totalRevenue)]\<rparr>)"

definition taxRow :: "string \<times> order list \<Rightarrow> (string \<times> reportCell) list" where
  "taxRow g = [(''date'', CellText (fst g)), (''orders'', countCell (snd g)),
     (''taxableSubtotal'', CellNumber (amountOf o_subtotal (snd g))), (''tax'', CellNumber (amountOf o_tax (snd g)))]"

definition getTaxSummary :: "reportContext \<Rightarrow> string \<Rightarrow> reportQuery \<Rightarrow> authUser \<Rightarrow> world \<Rightarrow> reportTable result" where
  "getTaxSummary x rid q u w =
     (let window = resolveRange (rx_offset x) (rx_now x) q;
          orders = findReportOrders rid (rep_branchId q) (Some DELIVERED) window w;
          groups = dayGroups orders;
          totalTax = sum_list (map (\<lambda>g. amountOf o_tax (snd g)) groups)
      in viewReport rid u w
           \<lparr>rt_title = ''Tax Summary'', rt_generatedAt = rx_now x,
            rt_columns = [(''date'', ''Date''), (''orders'', ''Orders''), (''taxableSubtotal'', ''Taxable Subtotal''),
              (''tax'', ''Tax Collected'')],
            rt_rows = map taxRow groups,
            rt_summary = [rangeEntry window, (''Total Tax Collected'', fixedCell totalTax)]\<rparr>)"

definition paymentRow :: "string \<times> payment list \<Rightarrow> (string \<times> reportCell) list" where
  "paymentRow g =
     (let good = filter (\<lambda>p. p_status p = TX_SUCCESS) (snd g); bad = filter (\<lambda>p. p_status p = TX_FAILED) (snd g)
      in [(''method'', CellText (fst g)), (''transactions'', countCell (snd g)), (''successful'', countCell good),
          (''failed'', countCell bad), (''totalAmount'', CellNumber (sum_list (map p_amount good)))])"

definition getPaymentSummary :: "reportContext \<Rightarrow> string \<Rightarrow> reportQuery \<Rightarrow> authUser \<Rightarrow> world \<Rightarrow> reportTable result" where
  "getPaymentSummary x rid q u w =
     (let window = resolveRange (rx_offset x) (rx_now x) q;
          payments = findReportPayments rid (rep_branchId q) (rep_paymentMode q) window w;
          groups = groupOn (\<lambda>p. showPaymentMethod (p_method p)) payments;
          totalCollected = sum_list (map (\<lambda>g. sum_list (map p_amount (filter (\<lambda>p. p_status p = TX_SUCCESS) (snd g)))) groups)
      in viewReport rid u w
           \<lparr>rt_title = ''Payment Summary'', rt_generatedAt = rx_now x,
            rt_columns = [(''method'', ''Method''), (''transactions'', ''Transactions''), (''successful'', ''Successful''),
              (''failed'', ''Failed''), (''totalAmount'', ''Total Collected'')],
            rt_rows = map paymentRow groups,
            rt_summary = [rangeEntry window, (''Total Transactions'', countCell payments),
              (''Total Collected'', fixedCell totalCollected)]\<rparr>)"

definition getCancelledOrdersReport :: "reportContext \<Rightarrow> string \<Rightarrow> reportQuery \<Rightarrow> authUser \<Rightarrow> world \<Rightarrow> reportTable result" where
  "getCancelledOrdersReport x rid q u w =
     (let window = resolveRange (rx_offset x) (rx_now x) q;
          orders = findReportOrders rid (rep_branchId q) (Some CANCELLED) window w;
          totalValue = amountOf o_total orders
      in viewReport rid u w
           \<lparr>rt_title = ''Cancelled Orders Report'', rt_generatedAt = rx_now x,
            rt_columns = [(''orderNumber'', ''Order #''), (''placedAt'', ''Placed At''), (''paymentMode'', ''Payment Mode''),
              (''paymentStatus'', ''Payment Status''), (''total'', ''Order Value'')],
            rt_rows = map (\<lambda>ord. [(''orderNumber'', CellText (o_orderNumber ord)),
              (''placedAt'', CellText (rx_showLocal x (o_placedAt ord))), (''paymentMode'', CellText (showPaymentMode (o_paymentMode ord))),
              (''paymentStatus'', CellText (showPaymentStatus (o_paymentStatus ord))), (''total'', CellNumber (o_total ord))]) orders,
            rt_summary = [rangeEntry window, (''Cancelled Orders'', countCell orders),
              (''Total Value Cancelled'', fixedCell totalValue)]\<rparr>)"

definition getRefundSummary ::
  "(refund \<Rightarrow> int) \<Rightarrow> (refund \<Rightarrow> string option) \<Rightarrow> reportContext \<Rightarrow> string \<Rightarrow> reportQuery \<Rightarrow> authUser \<Rightarrow> world
     \<Rightarrow> reportTable result" where
  "getRefundSummary refundedAt reason x rid q u w =
     (let window = resolveRange (rx_offset x) (rx_now x) q;
          refunds = findReportRefunds refundedAt rid (rep_branchId q) window w;
          totalRefunded = sum_list (map r_amount (filter (\<lambda>r. r_status r = TX_SUCCESS) refunds))
      in viewReport rid u w
           \<lparr>rt_title = ''Refund Summary'', rt_generatedAt = rx_now x,
            rt_columns = [(''orderNumber'', ''Order #''), (''amount'', ''Amount''), (''status'', ''Status''),
              (''reason'', ''Reason''), (''createdAt'', ''Date'')],
            rt_rows = map (\<lambda>r. [(''orderNumber'', CellText (case refundedOrder w r of None \<Rightarrow> [] | Some ord \<Rightarrow> o_orderNumber ord)),
              (''amount'', CellNumber (r_amount r)), (''status'', CellText (showTransactionStatus (r_status r))),
              (''reason'', CellText (case reason r of None \<Rightarrow> [] | Some t \<Rightarrow> t)),
              (''createdAt'', CellText (rx_showLocal x (refundedAt r)))]) refunds,
            rt_summary = [rangeEntry window, (''Total Refunds'', countCell refunds),
              (''Total Amount Refunded'', fixedCell totalRefunded)]\<rparr>)"

record exportedFile =
  xf_buffer :: string
  xf_contentType :: string
  xf_filename :: string

definition exportReport ::
  "(rat \<Rightarrow> string) \<Rightarrow> (string \<Rightarrow> reportTable \<Rightarrow> string) \<Rightarrow> (reportTable \<Rightarrow> string) \<Rightarrow> reportTable \<Rightarrow> reportFormat \<Rightarrow> string
     \<Rightarrow> exportedFile result" where
  "exportReport showNumber workbook pdf t fmt name =
     (case fmt of
        FMT_CSV \<Rightarrow> Inr \<lparr>xf_buffer = toCsv showNumber t, xf_contentType = ''text/csv; charset=utf-8'', xf_filename = name @ ''.csv''\<rparr>
      | FMT_XLSX \<Rightarrow> Inr \<lparr>xf_buffer = workbook (toSheetName (rt_title t)) t,
          xf_contentType = ''application/vnd.openxmlformats-officedocument.spreadsheetml.sheet'', xf_filename = name @ ''.xlsx''\<rparr>
      | FMT_PDF \<Rightarrow> Inr \<lparr>xf_buffer = pdf t, xf_contentType = ''application/pdf'', xf_filename = name @ ''.pdf''\<rparr>
      | FMT_JSON \<Rightarrow> Inl (ProviderError ''export() should not be called for format=json''))"

end
