(* ===== verification/ReportsSafety.thy ===== *)
theory ReportsSafety
  imports Reports Payments
begin

text \<open>
  The reports against reference definitions: a CSV file read back by an RFC 4180 reader is the table
  that was written, the revenue report counts every delivered order once, the tax summary agrees with it,
  and the daily reports split the orders by local day.
\<close>

section \<open>A reader\<close>

text \<open>Cells are separated by commas, rows by any of CRLF, CR and LF; a cell that starts with a quote runs to
  the closing quote, a doubled quote standing for one.\<close>

datatype csvMode = Plain | Quoted | Closing

fun csvRead :: "csvMode \<Rightarrow> string \<Rightarrow> string list \<Rightarrow> string \<Rightarrow> string list list" where
  "csvRead m cell cells [] = [cells @ [cell]]"
| "csvRead Quoted cell cells (x # xs) =
     (if x = QUOTE then csvRead Closing cell cells xs else csvRead Quoted (cell @ [x]) cells xs)"
| "csvRead Closing cell cells (x # xs) =
     (if x = QUOTE then csvRead Quoted (cell @ [QUOTE]) cells xs
      else if x = CHR '','' then csvRead Plain [] (cells @ [cell]) xs
      else if x = CR \<and> xs \<noteq> [] \<and> hd xs = LF then (cells @ [cell]) # csvRead Plain [] [] (tl xs)
      else if x = CR \<or> x = LF then (cells @ [cell]) # csvRead Plain [] [] xs
      else csvRead Plain (cell @ [x]) cells xs)"
| "csvRead Plain cell cells (x # xs) =
     (if x = QUOTE \<and> cell = [] then csvRead Quoted [] cells xs
      else if x = CHR '','' then csvRead Plain [] (cells @ [cell]) xs
      else if x = CR \<and> xs \<noteq> [] \<and> hd xs = LF then (cells @ [cell]) # csvRead Plain [] [] (tl xs)
      else if x = CR \<or> x = LF then (cells @ [cell]) # csvRead Plain [] [] xs
      else csvRead Plain (cell @ [x]) cells xs)"

definition csvRows :: "string \<Rightarrow> string list list" where
  "csvRows s = csvRead Plain [] [] s"

text \<open>The writer quotes for comma, quote and line feed, not for a carriage return alone.\<close>

definition quotedFor :: "char \<Rightarrow> bool" where
  "quotedFor x \<longleftrightarrow> x = CHR '','' \<or> x = QUOTE \<or> x = LF"

definition csvSafe :: "string \<Rightarrow> bool" where
  "csvSafe s \<longleftrightarrow> CR \<notin> set s \<or> list_ex quotedFor s"

lemma csv_chars [simp]: "CR \<noteq> LF" "QUOTE \<noteq> CHR '',''" "QUOTE \<noteq> CR" "QUOTE \<noteq> LF" "CHR '','' \<noteq> CR" "CHR '','' \<noteq> LF"
  by (simp_all add: CR_def LF_def QUOTE_def)

lemmas csv_chars' [simp] = csv_chars[symmetric]

lemma escape_def': "escapeCsvText s = (if list_ex quotedFor s then QUOTE # doubleQuotes s @ [QUOTE] else s)"
proof -
  have "(\<lambda>x. x = CHR '','' \<or> x = QUOTE \<or> x = LF) = quotedFor" by (simp add: quotedFor_def fun_eq_iff)
  then show ?thesis by (simp add: escapeCsvText_def)
qed

lemma escape_Nil [simp]: "escapeCsvText [] = []"
  by (simp add: escape_def')

text \<open>What follows a cell: nothing, a comma or the line end the writer uses.\<close>

definition cellEnd :: "string \<Rightarrow> bool" where
  "cellEnd rest \<longleftrightarrow> rest = [] \<or> hd rest = CHR '','' \<or> (\<exists>xs. rest = CR # LF # xs)"

lemma read_quoted:
  assumes "rest = [] \<or> hd rest \<noteq> QUOTE"
  shows "csvRead Quoted cell cells (doubleQuotes s @ QUOTE # rest) = csvRead Closing (cell @ s) cells rest"
  using assms by (induction s arbitrary: cell) auto

lemma read_plain:
  assumes "CR \<notin> set s" "\<not> list_ex quotedFor s"
  shows "csvRead Plain cell cells (s @ rest) = csvRead Plain (cell @ s) cells rest"
  using assms by (induction s arbitrary: cell) (auto simp: quotedFor_def)

lemma closing_plain: "cellEnd rest \<Longrightarrow> csvRead Closing cell cells rest = csvRead Plain cell cells rest"
  by (cases rest) (auto simp: cellEnd_def)

lemma read_cell:
  assumes "csvSafe s" "cellEnd rest"
  shows "csvRead Plain [] cells (escapeCsvText s @ rest) = csvRead Plain s cells rest"
proof (cases "list_ex quotedFor s")
  case True
  have "rest = [] \<or> hd rest \<noteq> QUOTE" using assms(2) by (auto simp: cellEnd_def)
  from read_quoted[OF this] show ?thesis using True closing_plain[OF assms(2)] by (simp add: escape_def')
next
  case False
  then show ?thesis using read_plain[of s "[]" cells rest] assms(1) by (simp add: escape_def' csvSafe_def)
qed

definition rowEnd :: "string \<Rightarrow> bool" where
  "rowEnd rest \<longleftrightarrow> rest = [] \<or> (\<exists>xs. rest = CR # LF # xs)"

lemma read_row:
  assumes "list_all csvSafe ss" "ss \<noteq> []" "rowEnd rest"
  shows "csvRead Plain [] cells (joinText '','' (map escapeCsvText ss) @ rest) = csvRead Plain (last ss) (cells @ butlast ss) rest"
  using assms
proof (induction ss arbitrary: cells rule: induct_list012)
  case (2 s)
  then show ?case using read_cell[of s rest cells] by (auto simp: cellEnd_def rowEnd_def)
next
  case (3 s t ss)
  have "csvRead Plain [] cells (escapeCsvText s @ CHR '','' # joinText '','' (map escapeCsvText (t # ss)) @ rest) =
      csvRead Plain s cells (CHR '','' # joinText '','' (map escapeCsvText (t # ss)) @ rest)"
    by (rule read_cell) (use 3(3) in \<open>auto simp: cellEnd_def\<close>)
  also have "\<dots> = csvRead Plain [] (cells @ [s]) (joinText '','' (map escapeCsvText (t # ss)) @ rest)" by simp
  also have "\<dots> = csvRead Plain (last (t # ss)) ((cells @ [s]) @ butlast (t # ss)) rest" using 3 by (intro 3(2)) auto
  finally show ?case by simp
qed simp

lemma read_lines:
  assumes "list_all (\<lambda>ss. ss \<noteq> [] \<and> list_all csvSafe ss) rows" "rows \<noteq> []"
  shows "csvRows (joinText [CR, LF] (map (\<lambda>ss. joinText '','' (map escapeCsvText ss)) rows)) = rows"
  using assms unfolding csvRows_def
proof (induction rows rule: induct_list012)
  case (2 ss)
  then show ?case using read_row[of ss "[]" "[]"] by (simp add: rowEnd_def)
next
  case (3 ss ts rows)
  let ?more = "joinText [CR, LF] (map (\<lambda>ss. joinText '','' (map escapeCsvText ss)) (ts # rows))"
  have "csvRead Plain [] [] (joinText '','' (map escapeCsvText ss) @ CR # LF # ?more) =
      csvRead Plain (last ss) (butlast ss) (CR # LF # ?more)"
    using read_row[of ss "CR # LF # ?more" "[]"] 3(3) by (simp add: rowEnd_def)
  also have "\<dots> = ss # csvRead Plain [] [] ?more" using 3(3) by simp
  also have "csvRead Plain [] [] ?more = ts # rows" using 3 by (intro 3(2)) auto
  finally show ?case by simp
qed simp

text \<open>The cells a table shows, row by row.\<close>

definition tableCells :: "(rat \<Rightarrow> string) \<Rightarrow> reportTable \<Rightarrow> string list list" where
  "tableCells showNumber t =
     map snd (rt_columns t) #
     map (\<lambda>r. map (\<lambda>k. cellText showNumber (cellOf r (fst k))) (rt_columns t)) (rt_rows t) @
     (if rt_summary t = [] then [] else [[]] # map (\<lambda>e. [fst e, cellText showNumber (snd e)]) (rt_summary t))"

lemma csvLines_cells:
  "csvLines showNumber t = map (\<lambda>ss. joinText '','' (map escapeCsvText ss)) (tableCells showNumber t)"
  by (simp add: csvLines_def tableCells_def escapeCsvValue_def comp_def)

text \<open>
  C34. CSV round trip, lone carriage returns excepted.  A table with at least one column, no cell of which
  has a carriage return without a comma, quote or line feed that would make the writer quote it, is
  read back from its CSV file cell by cell: header, rows, the empty line and the summary.
\<close>

theorem csv_roundtrip:
  assumes "rt_columns t \<noteq> []" "list_all (list_all csvSafe) (tableCells showNumber t)"
  shows "csvRows (drop (length BOM) (toCsv showNumber t)) = tableCells showNumber t"
proof -
  have "csvRows (joinText [CR, LF] (map (\<lambda>ss. joinText '','' (map escapeCsvText ss)) (tableCells showNumber t))) =
      tableCells showNumber t"
  proof (rule read_lines)
    show "list_all (\<lambda>ss. ss \<noteq> [] \<and> list_all csvSafe ss) (tableCells showNumber t)"
      using assms by (auto simp: tableCells_def list_all_iff)
    show "tableCells showNumber t \<noteq> []" by (simp add: tableCells_def)
  qed
  then show ?thesis by (simp add: toCsv_def csvLines_cells)
qed

text \<open>
  A carriage return breaks a row.  A text with a lone carriage return and none of the three quoted
  characters is written as it is, and a reader that accepts any line end reads it as two rows.
\<close>

theorem carriage_return_splits:
  assumes "CR \<notin> set a" "CR \<notin> set b" "\<not> list_ex quotedFor a" "\<not> list_ex quotedFor b"
  shows "csvRows (escapeCsvValue showNumber (CellText (a @ CR # b))) = [[a], [b]]"
proof -
  have e: "escapeCsvValue showNumber (CellText (a @ CR # b)) = a @ CR # b"
    using assms(3,4) by (simp add: escapeCsvValue_def escape_def' quotedFor_def)
  have "csvRead Plain [] [] (a @ CR # b) = csvRead Plain a [] (CR # b)" using read_plain[OF assms(1,3), of "[]" "[]" "CR # b"] by simp
  also have "\<dots> = [a] # csvRead Plain [] [] b" using assms(4) by (cases b) (auto simp: quotedFor_def)
  also have "csvRead Plain [] [] b = [[b]]" using read_plain[OF assms(2,4), of "[]" "[]" "[]"] by simp
  finally show ?thesis by (simp add: e csvRows_def)
qed

section \<open>Groups\<close>

lemma sum_filter_split:
  fixes f :: "'r \<Rightarrow> 'n::comm_monoid_add"
  shows "sum_list (map f (filter p rows)) + sum_list (map f (filter (\<lambda>r. \<not> p r) rows)) = sum_list (map f rows)"
  by (induction rows) (auto simp: ac_simps)

lemma groupOn_sum:
  fixes f :: "'r \<Rightarrow> 'n::comm_monoid_add"
  shows "sum_list (map (\<lambda>g. sum_list (map f (snd g))) (groupOn key rows)) = sum_list (map f rows)"
proof -
  have "sum_list (map (\<lambda>k. sum_list (map f (filter (\<lambda>r. key r = k) rows))) ks) = sum_list (map f rows)"
    if "distinct ks" "key ` set rows \<subseteq> set ks" for ks
    using that
  proof (induction ks arbitrary: rows)
    case (Cons k ks)
    have "sum_list (map (\<lambda>j. sum_list (map f (filter (\<lambda>r. key r = j) rows))) ks) =
        sum_list (map (\<lambda>j. sum_list (map f (filter (\<lambda>r. key r = j) (filter (\<lambda>r. key r \<noteq> k) rows)))) ks)"
      using Cons.prems(1) by (intro arg_cong[of _ _ sum_list] map_cong refl) (auto intro!: arg_cong[of _ _ sum_list] arg_cong[of _ _ "map f"] filter_cong simp: conj_commute)
    also have "\<dots> = sum_list (map f (filter (\<lambda>r. key r \<noteq> k) rows))" using Cons by (intro Cons.IH) auto
    finally show ?case using sum_filter_split[of f "\<lambda>r. key r = k" rows] by simp
  qed simp
  from this[of "uniqueIds (map key rows)"] show ?thesis by (simp add: groupOn_def comp_def)
qed

lemma sum_list_perm:
  fixes f :: "'r \<Rightarrow> 'n::comm_monoid_add"
  shows "mset xs = mset ys \<Longrightarrow> sum_list (map f xs) = sum_list (map f ys)"
  by (metis mset_map sum_mset_sum_list)

lemma mset_sortDir [simp]: "mset (sortDir d key rows) = mset rows"
  by (simp add: sortDir_def)

lemma dayGroups_sum:
  fixes f :: "order \<Rightarrow> 'n::comm_monoid_add"
  shows "sum_list (map (\<lambda>g. sum_list (map f (snd g))) (dayGroups orders)) = sum_list (map f orders)"
proof -
  have "mset (dayGroups orders) = mset (groupOn (\<lambda>ord. dayKey (o_placedAt ord)) orders)" by (simp add: dayGroups_def)
  from sum_list_perm[OF this, of "\<lambda>g. sum_list (map f (snd g))"] show ?thesis by (simp only: groupOn_sum)
qed

lemma dayGroups_mem:
  "g \<in> set (dayGroups orders) \<Longrightarrow> snd g = filter (\<lambda>ord. dayKey (o_placedAt ord) = fst g) orders"
proof -
  have "set (dayGroups orders) = set (groupOn (\<lambda>ord. dayKey (o_placedAt ord)) orders)"
    by (rule mset_eq_setD) (simp add: dayGroups_def)
  then show "g \<in> set (dayGroups orders) \<Longrightarrow> snd g = filter (\<lambda>ord. dayKey (o_placedAt ord) = fst g) orders"
    by (auto simp: groupOn_def)
qed

lemma dayGroups_days: "distinct (map fst (dayGroups orders))"
proof -
  let ?gs = "groupOn (\<lambda>ord. dayKey (o_placedAt ord)) orders"
  have "mset (dayGroups orders) = mset ?gs" by (simp add: dayGroups_def)
  then have "mset (map fst (dayGroups orders)) = mset (map fst ?gs)" by (simp only: mset_map)
  moreover have "map fst ?gs = uniqueIds (map (\<lambda>ord. dayKey (o_placedAt ord)) orders)"
    by (simp add: groupOn_def comp_def)
  ultimately show ?thesis by (metis distinct_uniqueIds mset_eq_imp_distinct_iff)
qed

section \<open>Revenue and tax\<close>

fun cellAmount :: "reportCell \<Rightarrow> rat" where
  "cellAmount (CellNumber x) = x" | "cellAmount _ = 0"

lemma viewReport_Inr: "viewReport rid u w t = Inr t' \<Longrightarrow> t' = t"
  by (auto simp: viewReport_def andThen_Inr_iff)

lemma revenueRow_cells [simp]:
  "cellOf (revenueRow g) ''date'' = CellText (fst g)" "cellOf (revenueRow g) ''orders'' = countCell (snd g)"
  "cellOf (revenueRow g) ''revenue'' = CellNumber (amountOf o_total (snd g))"
  "cellOf (revenueRow g) ''subtotal'' = CellNumber (amountOf o_subtotal (snd g))"
  "cellOf (revenueRow g) ''tax'' = CellNumber (amountOf o_tax (snd g))"
  by (simp_all add: cellOf_def revenueRow_def)

lemma taxRow_cells [simp]:
  "cellOf (taxRow g) ''date'' = CellText (fst g)" "cellOf (taxRow g) ''orders'' = countCell (snd g)"
  "cellOf (taxRow g) ''taxableSubtotal'' = CellNumber (amountOf o_subtotal (snd g))"
  "cellOf (taxRow g) ''tax'' = CellNumber (amountOf o_tax (snd g))"
  by (simp_all add: cellOf_def taxRow_def)

definition revenueOrders :: "reportContext \<Rightarrow> string \<Rightarrow> reportQuery \<Rightarrow> world \<Rightarrow> order list" where
  "revenueOrders x rid q w =
     findReportOrders rid (rep_branchId q) (Some DELIVERED) (resolveRange (rx_offset x) (rx_now x) q) w"

text \<open>
  C35. The revenue report reconciles.  Its rows are distinct days; each shows the revenue of exactly the
  delivered orders of that day in the range; together they count every such order once, and the
  announced total is the sum over the orders.
\<close>

theorem revenue_reconciles:
  assumes "getRevenueReport x rid q u w = Inr t"
  shows "distinct (map (\<lambda>r. cellOf r ''date'') (rt_rows t)) \<and>
    (\<forall>r \<in> set (rt_rows t). cellAmount (cellOf r ''revenue'') =
        amountOf o_total (filter (\<lambda>ord. CellText (dayKey (o_placedAt ord)) = cellOf r ''date'') (revenueOrders x rid q w))) \<and>
    sum_list (map (\<lambda>r. cellAmount (cellOf r ''orders'')) (rt_rows t)) = of_nat (length (revenueOrders x rid q w)) \<and>
    cellOf (rt_summary t) ''Total Revenue'' = CellText (toFixed2 (amountOf o_total (revenueOrders x rid q w)))"
proof -
  let ?os = "revenueOrders x rid q w"
  have rows: "rt_rows t = map revenueRow (dayGroups ?os)"
    and total: "cellOf (rt_summary t) ''Total Revenue'' = fixedCell (sum_list (map (\<lambda>g. amountOf o_total (snd g)) (dayGroups ?os)))"
    using assms by (auto simp: getRevenueReport_def Let_def cellOf_def revenueOrders_def rangeEntry_def dest!: viewReport_Inr)
  have "distinct (map (\<lambda>r. cellOf r ''date'') (rt_rows t))"
    using dayGroups_days[of ?os] by (simp add: rows comp_def distinct_map inj_on_def)
  moreover have "\<forall>r \<in> set (rt_rows t). cellAmount (cellOf r ''revenue'') =
        amountOf o_total (filter (\<lambda>ord. CellText (dayKey (o_placedAt ord)) = cellOf r ''date'') ?os)"
    by (auto simp: rows dayGroups_mem)
  moreover have "sum_list (map (\<lambda>r. cellAmount (cellOf r ''orders'')) (rt_rows t)) = of_nat (length ?os)"
    using dayGroups_sum[of "\<lambda>_. 1 :: rat" ?os] by (simp add: rows comp_def countCell_def sum_list_triv)
  moreover have "cellOf (rt_summary t) ''Total Revenue'' = CellText (toFixed2 (amountOf o_total ?os))"
    using dayGroups_sum[of o_total ?os] by (simp add: total fixedCell_def amountOf_def)
  ultimately show ?thesis by blast
qed

text \<open>
  Tax summary and revenue report agree.  For the same request the two reports show the same days, the
  same numbers of orders, the same tax and the same taxable amount, line by line.
\<close>

theorem tax_and_revenue_agree:
  assumes "getRevenueReport x rid q u w = Inr t" "getTaxSummary x rid q u w = Inr t'"
  shows "map (\<lambda>r. (cellOf r ''date'', cellOf r ''orders'', cellOf r ''subtotal'', cellOf r ''tax'')) (rt_rows t) =
    map (\<lambda>r. (cellOf r ''date'', cellOf r ''orders'', cellOf r ''taxableSubtotal'', cellOf r ''tax'')) (rt_rows t')"
proof -
  have "rt_rows t = map revenueRow (dayGroups (revenueOrders x rid q w))"
    using assms(1) by (auto simp: getRevenueReport_def Let_def revenueOrders_def dest!: viewReport_Inr)
  moreover have "rt_rows t' = map taxRow (dayGroups (revenueOrders x rid q w))"
    using assms(2) by (auto simp: getTaxSummary_def Let_def revenueOrders_def dest!: viewReport_Inr)
  ultimately show ?thesis by simp
qed

section \<open>Days\<close>

definition localDay :: "int \<Rightarrow> int \<Rightarrow> int" where
  "localDay offset t = (t + offset) div DAY_MS"

lemma div_window:
  fixes k :: int
  assumes "0 < k"
  shows "x div k = n \<longleftrightarrow> n * k \<le> x \<and> x < n * k + k"
proof
  assume n: "x div k = n"
  have "x = n * k + x mod k" using div_mult_mod_eq[of x k] n by simp
  then show "n * k \<le> x \<and> x < n * k + k" using pos_mod_bound[OF assms, of x] pos_mod_sign[OF assms, of x] by linarith
next
  assume "n * k \<le> x \<and> x < n * k + k"
  then show "x div k = n" by (intro int_div_pos_eq[of _ _ _ "x - n * k"]) (auto simp: algebra_simps)
qed

lemma in_local_day:
  "startOfDay offset d \<le> t \<and> t \<le> endOfDay offset d \<longleftrightarrow> localDay offset t = localDay offset d"
proof -
  have "0 < DAY_MS" by (simp add: DAY_MS_def)
  from div_window[OF this, of "t + offset" "(d + offset) div DAY_MS"]
  show ?thesis unfolding startOfDay_def endOfDay_def localDay_def by linarith
qed

text \<open>
  The daily report of the small hours carries yesterday's date.  On a server east of UTC, a report asked
  for less than the offset after local midnight lists exactly the orders of the local day that has just
  begun, and its title names the day before.
\<close>

theorem early_report_misdated:
  assumes "rep_dateFrom q = None" "getDailySalesReport x rid q u w = Inr t"
    and "0 < rx_offset x" "rx_offset x \<le> DAY_MS" "(rx_now x + rx_offset x) mod DAY_MS < rx_offset x"
  shows "map (\<lambda>r. cellOf r ''orderNumber'') (rt_rows t) =
      map (\<lambda>ord. CellText (o_orderNumber ord)) (sort_key (\<lambda>ord. - o_placedAt ord)
        (filter (\<lambda>ord. o_restaurantId ord = rid \<and> (truthy (rep_branchId q) \<longrightarrow> o_branchId ord = rep_branchId q) \<and>
           localDay (rx_offset x) (o_placedAt ord) = localDay (rx_offset x) (rx_now x)) (w_orders w))) \<and>
    rt_title t = ''Daily Sales Report '' @ emDash @ '' '' @ isoDay (localDay (rx_offset x) (rx_now x) - 1)"
proof -
  let ?n = "rx_now x" let ?f = "rx_offset x"
  have pos: "0 < DAY_MS" by (simp add: DAY_MS_def)
  have "?n div DAY_MS = localDay ?f ?n - 1"
  proof (rule int_div_pos_eq[of _ _ _ "(?n + ?f) mod DAY_MS - ?f + DAY_MS"])
    show "?n = DAY_MS * (localDay ?f ?n - 1) + ((?n + ?f) mod DAY_MS - ?f + DAY_MS)"
      using div_mult_mod_eq[of "?n + ?f" DAY_MS] by (simp add: localDay_def algebra_simps)
    show "0 \<le> (?n + ?f) mod DAY_MS - ?f + DAY_MS" using assms(4) pos_mod_sign[OF pos, of "?n + ?f"] by linarith
    show "(?n + ?f) mod DAY_MS - ?f + DAY_MS < DAY_MS" using assms(5) by simp
  qed
  moreover have "rt_title t = ''Daily Sales Report '' @ emDash @ '' '' @ dayKey ?n"
    using assms(1,2) by (auto simp: getDailySalesReport_def Let_def dest!: viewReport_Inr)
  moreover have "map (\<lambda>r. cellOf r ''orderNumber'') (rt_rows t) = map (\<lambda>ord. CellText (o_orderNumber ord))
      (findReportOrders rid (rep_branchId q) None (startOfDay ?f ?n, endOfDay ?f ?n) w)"
    using assms(1,2) by (auto simp: getDailySalesReport_def Let_def cellOf_def comp_def dest!: viewReport_Inr)
  ultimately show ?thesis by (simp add: findReportOrders_def in_local_day dayKey_def)
qed

section \<open>The properties on concrete reports\<close>

definition noteTable :: reportTable where
  "noteTable = \<lparr>rt_title = ''Notes'', rt_generatedAt = 0, rt_columns = [(''a'', ''A, B''), (''b'', ''B'')],
     rt_rows = [[(''a'', CellText [QUOTE, LF, CR]), (''b'', CellNumber 7)], [(''b'', CellText ''x'')]],
     rt_summary = [(''Total'', CellNumber 7)]\<rparr>"

theorem csv_roundtrip_witness:
  "csvRows (drop (length BOM) (toCsv (\<lambda>_. ''7'') noteTable)) =
    [[''A, B'', ''B''], [[QUOTE, LF, CR], ''7''], [[], ''x''], [[]], [''Total'', ''7'']]"
proof -
  have cells: "tableCells (\<lambda>_. ''7'') noteTable =
      [[''A, B'', ''B''], [[QUOTE, LF, CR], ''7''], [[], ''x''], [[]], [''Total'', ''7'']]"
    by (simp add: tableCells_def noteTable_def cellOf_def)
  have "csvRows (drop (length BOM) (toCsv (\<lambda>_. ''7'') noteTable)) = tableCells (\<lambda>_. ''7'') noteTable"
  proof (rule csv_roundtrip)
    show "rt_columns noteTable \<noteq> []" by (simp add: noteTable_def)
    show "list_all (list_all csvSafe) (tableCells (\<lambda>_. ''7'') noteTable)"
      unfolding cells by (simp add: csvSafe_def quotedFor_def) (simp add: CR_def)
  qed
  then show ?thesis by (simp only: cells)
qed

theorem carriage_return_splits_witness:
  "csvRows (escapeCsvValue (\<lambda>_. []) (CellText (''No onion'' @ CR # ''ring twice''))) = [[''No onion''], [''ring twice'']]"
  by (rule carriage_return_splits) (simp_all add: CR_def LF_def QUOTE_def quotedFor_def)

definition salesOrder :: "string \<Rightarrow> int \<Rightarrow> order" where
  "salesOrder no t = sampleOrder\<lparr>o_restaurantId := ''r1'', o_orderNumber := no, o_placedAt := t, o_status := DELIVERED\<rparr>"

definition salesWorld :: world where
  "salesWorld = emptyWorld\<lparr>w_orders := [salesOrder ''A1'' 1000, salesOrder ''A2'' 2000]\<rparr>"

definition platformAdmin :: authUser where
  "platformAdmin = \<lparr>userId = ''root'', role = ADMIN\<rparr>"

definition anyReport :: reportQuery where
  "anyReport = \<lparr>rep_dateFrom = None, rep_dateTo = None, rep_branchId = None, rep_status = None, rep_paymentMode = None\<rparr>"

definition utcContext :: reportContext where
  "utcContext = \<lparr>rx_offset = 0, rx_now = 5000, rx_showLocal = (\<lambda>_. [])\<rparr>"

definition indiaContext :: reportContext where
  "indiaContext = \<lparr>rx_offset = 19800000, rx_now = 70000000, rx_showLocal = (\<lambda>_. [])\<rparr>"

lemma admin_views: "viewReport ''r1'' platformAdmin salesWorld t = Inr t"
  by (simp add: viewReport_def assertCanViewReports_def hasRestaurantRole_def getRestaurantRole_def isAdmin_def
      platformAdmin_def REPORT_MANAGE_ROLES_def)

lemma sales_orders: "revenueOrders utcContext ''r1'' anyReport salesWorld = [salesOrder ''A2'' 2000, salesOrder ''A1'' 1000]"
  by (simp add: revenueOrders_def findReportOrders_def resolveRange_def startOfDay_def endOfDay_def DAY_MS_def
      DEFAULT_WINDOW_DAYS_def utcContext_def anyReport_def salesWorld_def salesOrder_def emptyWorld_def)

theorem revenue_reconciles_witness:
  "\<exists>t. getRevenueReport utcContext ''r1'' anyReport platformAdmin salesWorld = Inr t \<and>
     sum_list (map (\<lambda>r. cellAmount (cellOf r ''orders'')) (rt_rows t)) = 2"
proof -
  obtain t where t: "getRevenueReport utcContext ''r1'' anyReport platformAdmin salesWorld = Inr t"
    by (simp add: getRevenueReport_def admin_views Let_def)
  then show ?thesis using revenue_reconciles[OF t] by (simp add: sales_orders)
qed

theorem tax_and_revenue_agree_witness:
  "\<exists>t t'. getRevenueReport utcContext ''r1'' anyReport platformAdmin salesWorld = Inr t \<and>
     getTaxSummary utcContext ''r1'' anyReport platformAdmin salesWorld = Inr t' \<and>
     map (\<lambda>r. cellOf r ''tax'') (rt_rows t) = map (\<lambda>r. cellOf r ''tax'') (rt_rows t')"
proof -
  obtain t where t: "getRevenueReport utcContext ''r1'' anyReport platformAdmin salesWorld = Inr t"
    by (simp add: getRevenueReport_def admin_views Let_def)
  obtain t' where t': "getTaxSummary utcContext ''r1'' anyReport platformAdmin salesWorld = Inr t'"
    by (simp add: getTaxSummary_def admin_views Let_def)
  have "map (snd \<circ> snd \<circ> snd) (map (\<lambda>r. (cellOf r ''date'', cellOf r ''orders'', cellOf r ''subtotal'', cellOf r ''tax'')) (rt_rows t)) =
      map (snd \<circ> snd \<circ> snd) (map (\<lambda>r. (cellOf r ''date'', cellOf r ''orders'', cellOf r ''taxableSubtotal'', cellOf r ''tax'')) (rt_rows t'))"
    using tax_and_revenue_agree[OF t t'] by (simp only:)
  then show ?thesis using t t' by (simp add: comp_def)
qed

theorem early_report_misdated_witness:
  "\<exists>t. getDailySalesReport indiaContext ''r1'' anyReport platformAdmin salesWorld = Inr t \<and>
     rt_title t = ''Daily Sales Report '' @ emDash @ '' '' @ isoDay 0 \<and> localDay 19800000 70000000 = 1"
proof -
  obtain t where t: "getDailySalesReport indiaContext ''r1'' anyReport platformAdmin salesWorld = Inr t"
    by (simp add: getDailySalesReport_def admin_views Let_def)
  have q: "rep_dateFrom anyReport = None" by (simp add: anyReport_def)
  have "rt_title t = ''Daily Sales Report '' @ emDash @ '' '' @ isoDay (localDay (rx_offset indiaContext) (rx_now indiaContext) - 1)"
    using early_report_misdated[OF q t] by (simp add: indiaContext_def DAY_MS_def)
  then show ?thesis using t by (simp add: indiaContext_def localDay_def DAY_MS_def)
qed

end
