(* ===== verification/PartnerPaperwork.thy ===== *)
theory PartnerPaperwork
  imports RestaurantCompliance Verification "HOL-Library.Product_Lexorder"
begin

text \<open>
  A delivery partner's own records (\<^verbatim>\<open>modules/delivery/services\<close>: vehicles, documents, bank account,
  onboarding and compliance, with their repositories).  \<open>env\<close> is what other requests do between two
  statements of one that is not a transaction, \<open>stored\<close> the storage's answer, \<open>enc\<close> the encryption
  under the configured key (\<^const>\<open>None\<close> without one).  The review tables of
  \<^verbatim>\<open>VerificationService\<close> are the field \<open>pw_review\<close>, which holds the shared database.
\<close>

section \<open>Tables\<close>

record vehicle =
  ve_id :: string
  ve_partnerId :: string
  ve_type :: string
  ve_registrationNumber :: string
  ve_brand :: "string option"
  ve_model :: "string option"
  ve_year :: "int option"
  ve_fuelType :: "string option"
  ve_color :: "string option"
  ve_isPrimary :: bool
  ve_isActive :: bool
  ve_createdAt :: int

datatype deliveryDocumentType = DRIVING_LICENSE | AADHAAR | PAN | VEHICLE_RC | VEHICLE_INSURANCE | VEHICLE_FITNESS
  | VEHICLE_POLLUTION | PROFILE_PHOTO | SELFIE | BACKGROUND_VERIFICATION | VEHICLE_PHOTO | DD_OTHER

record partnerDocument =
  pd_id :: string
  pd_partnerId :: string
  pd_vehicleId :: "string option"
  pd_documentType :: deliveryDocumentType
  pd_documentNumber :: "string option"
  pd_issueDate :: "int option"
  pd_expiryDate :: "int option"
  pd_status :: verificationStatus
  pd_storageUrl :: string
  pd_fileName :: string
  pd_uploadedById :: string
  pd_verifiedById :: "string option"
  pd_verifiedAt :: "int option"
  pd_rejectedReason :: "string option"
  pd_version :: nat
  pd_isLatest :: bool
  pd_previousVersionId :: "string option"
  pd_deletedAt :: "int option"
  pd_createdAt :: int

record documentVersion =
  dn_documentId :: string
  dn_partnerId :: string
  dn_documentType :: deliveryDocumentType
  dn_version :: nat
  dn_storageUrl :: string
  dn_fileName :: string

record partnerBank =
  pb_partnerId :: string
  pb_accountHolderName :: string
  pb_bankName :: string
  pb_branchName :: "string option"
  pb_accountNumberEncrypted :: string
  pb_accountNumberLast4 :: string
  pb_ifsc :: string
  pb_upiId :: "string option"
  pb_cancelledChequeDocumentId :: "string option"
  pb_status :: verificationStatus
  pb_verifiedById :: "string option"
  pb_verifiedAt :: "int option"

record partnerOnboarding =
  po_partnerId :: string
  po_status :: onboardingStatus
  po_currentStep :: int
  po_completedSteps :: "int list"
  po_termsAcceptedAt :: "int option"
  po_submittedAt :: "int option"
  po_decidedAt :: "int option"
  po_changesRequested :: "string list"

record partnerSnapshot =
  sn_partnerId :: string
  sn_overallStatus :: overallStatus
  sn_verificationStage :: delivStage
  sn_documentsTotal :: nat
  sn_documentsVerified :: nat
  sn_documentsPending :: nat
  sn_documentsRejected :: nat
  sn_missingDocumentTypes :: "deliveryDocumentType list"
  sn_bankStatus :: "verificationStatus option"

record paperStore =
  pw_review :: reviewStore
  pw_vehicles :: "vehicle list"
  pw_documents :: "partnerDocument list"
  pw_versions :: "documentVersion list"
  pw_bank :: "partnerBank list"
  pw_onboarding :: "partnerOnboarding list"
  pw_snapshots :: "partnerSnapshot list"
  pw_published :: "(string \<times> string) list"

definition onReview :: "(reviewStore \<Rightarrow> reviewStore) \<Rightarrow> paperStore \<Rightarrow> paperStore" where
  "onReview f s = s\<lparr>pw_review := f (pw_review s)\<rparr>"

definition logPaper :: "string \<Rightarrow> string \<Rightarrow> string \<Rightarrow> string \<Rightarrow> paperStore \<Rightarrow> paperStore" where
  "logPaper actor entity i action = onReview (onWorld (auditLog (Some actor) entity i action))"

definition emitPaper :: "string \<Rightarrow> string \<Rightarrow> paperStore \<Rightarrow> paperStore" where
  "emitPaper name i s = s\<lparr>pw_published := pw_published s @ [(name, i)]\<rparr>"

text \<open>Every self-service operation first resolves the caller's own partner row.\<close>

definition asPartner :: "string \<Rightarrow> (partner \<Rightarrow> paperStore \<Rightarrow> (paperStore, 'a) outcome) \<Rightarrow> paperStore \<Rightarrow> (paperStore, 'a) outcome" where
  "asPartner uid act s =
     (case findPartnerByUserId uid (rvw (pw_review s)) of
        None \<Rightarrow> (Inl (NotFound ''Delivery partner''), s)
      | Some d \<Rightarrow> act d s)"

section \<open>Vehicles\<close>

definition activeVehicles :: "string \<Rightarrow> paperStore \<Rightarrow> vehicle list" where
  "activeVehicles did s = filter (\<lambda>v. ve_partnerId v = did \<and> ve_isActive v) (pw_vehicles s)"

definition findVehicle :: "string \<Rightarrow> paperStore \<Rightarrow> vehicle option" where
  "findVehicle i s = lookup ve_id i (pw_vehicles s)"

definition mapVehicles :: "(vehicle \<Rightarrow> bool) \<Rightarrow> (vehicle \<Rightarrow> vehicle) \<Rightarrow> paperStore \<Rightarrow> paperStore" where
  "mapVehicles p f s = s\<lparr>pw_vehicles := modify p f (pw_vehicles s)\<rparr>"

definition unsetAllPrimary :: "string \<Rightarrow> paperStore \<Rightarrow> paperStore" where
  "unsetAllPrimary did = mapVehicles (\<lambda>v. ve_partnerId v = did) (\<lambda>v. v\<lparr>ve_isPrimary := False\<rparr>)"

definition setPrimaryRow :: "string \<Rightarrow> string \<Rightarrow> paperStore \<Rightarrow> paperStore" where
  "setPrimaryRow did i s =
     mapVehicles (\<lambda>v. ve_id v = i) (\<lambda>v. v\<lparr>ve_isPrimary := True\<rparr>)
       (mapVehicles (\<lambda>v. ve_partnerId v = did \<and> ve_id v \<noteq> i) (\<lambda>v. v\<lparr>ve_isPrimary := False\<rparr>) s)"

record createVehicleDto =
  cv_vehicleType :: string
  cv_registrationNumber :: string
  cv_brand :: "string option"
  cv_model :: "string option"
  cv_year :: "int option"
  cv_fuelType :: "string option"
  cv_color :: "string option"
  cv_isPrimary :: "bool option"

definition newVehicle :: "string \<Rightarrow> int \<Rightarrow> string \<Rightarrow> bool \<Rightarrow> createVehicleDto \<Rightarrow> vehicle" where
  "newVehicle uuid now did primary d =
     \<lparr>ve_id = uuid, ve_partnerId = did, ve_type = cv_vehicleType d, ve_registrationNumber = cv_registrationNumber d,
      ve_brand = cv_brand d, ve_model = cv_model d, ve_year = cv_year d, ve_fuelType = cv_fuelType d,
      ve_color = cv_color d, ve_isPrimary = primary, ve_isActive = True, ve_createdAt = now\<rparr>"

definition listVehicles :: "string \<Rightarrow> paperStore \<Rightarrow> vehicle list result" where
  "listVehicles uid s =
     fst (asPartner uid (\<lambda>d s. (Inr (sort_key (\<lambda>v. (if ve_isPrimary v then 0 else 1 :: nat, ve_createdAt v)) (activeVehicles (d_id d) s)), s)) s)"

definition createVehicle ::
  "(paperStore \<Rightarrow> paperStore) \<Rightarrow> string \<Rightarrow> int \<Rightarrow> string \<Rightarrow> createVehicleDto \<Rightarrow> paperStore \<Rightarrow> (paperStore, vehicle) outcome" where
  "createVehicle env uuid now uid dto =
     asPartner uid (\<lambda>d s.
       let existingCount = length (activeVehicles (d_id d) s);
           isPrimary = (existingCount = 0 \<or> cv_isPrimary dto = Some True);
           s1 = (if isPrimary \<and> existingCount > 0 then unsetAllPrimary (d_id d) s else s);
           v = newVehicle uuid now (d_id d) isPrimary dto;
           s2 = (env s1)\<lparr>pw_vehicles := pw_vehicles (env s1) @ [v]\<rparr>
       in (Inr v, emitPaper ''delivery.vehicle.updated'' uuid (logPaper uid ''DeliveryVehicle'' uuid ''CREATE'' s2)))"

definition ownedVehicle ::
  "string \<Rightarrow> string \<Rightarrow> (partner \<Rightarrow> vehicle \<Rightarrow> paperStore \<Rightarrow> (paperStore, 'a) outcome) \<Rightarrow> paperStore \<Rightarrow> (paperStore, 'a) outcome" where
  "ownedVehicle uid i act =
     asPartner uid (\<lambda>d s.
       case findVehicle i s of
         None \<Rightarrow> (Inl (NotFound ''Vehicle''), s)
       | Some v \<Rightarrow> if ve_partnerId v \<noteq> d_id d then (Inl (NotFound ''Vehicle''), s) else act d v s)"

record updateVehicleDto =
  uv_registrationNumber :: "string option"
  uv_brand :: "string option"
  uv_model :: "string option"
  uv_year :: "int option"
  uv_fuelType :: "string option"
  uv_color :: "string option"

definition patchVehicle :: "updateVehicleDto \<Rightarrow> vehicle \<Rightarrow> vehicle" where
  "patchVehicle d v = v\<lparr>ve_registrationNumber := patchField (uv_registrationNumber d) (ve_registrationNumber v),
     ve_brand := patchOpt (uv_brand d) (ve_brand v), ve_model := patchOpt (uv_model d) (ve_model v),
     ve_year := patchOpt (uv_year d) (ve_year v), ve_fuelType := patchOpt (uv_fuelType d) (ve_fuelType v),
     ve_color := patchOpt (uv_color d) (ve_color v)\<rparr>"

definition updateVehicle :: "string \<Rightarrow> string \<Rightarrow> updateVehicleDto \<Rightarrow> paperStore \<Rightarrow> (paperStore, vehicle) outcome" where
  "updateVehicle uid i dto =
     ownedVehicle uid i (\<lambda>d v s.
       (Inr (patchVehicle dto v),
        emitPaper ''delivery.vehicle.updated'' i (logPaper uid ''DeliveryVehicle'' i ''UPDATE''
          (mapVehicles (\<lambda>v. ve_id v = i) (patchVehicle dto) s))))"

definition setPrimaryVehicle :: "string \<Rightarrow> string \<Rightarrow> paperStore \<Rightarrow> (paperStore, vehicle option) outcome" where
  "setPrimaryVehicle uid i =
     ownedVehicle uid i (\<lambda>d v s.
       if \<not> ve_isActive v then (Inl (BadRequest ''Only an active vehicle can be set as primary''), s)
       else (let s1 = logPaper uid ''DeliveryVehicle'' i ''UPDATE'' (setPrimaryRow (d_id d) i s)
             in (Inr (findVehicle i s1), s1)))"

definition deactivateVehicle :: "string \<Rightarrow> string \<Rightarrow> paperStore \<Rightarrow> (paperStore, unit) outcome" where
  "deactivateVehicle uid i =
     ownedVehicle uid i (\<lambda>d v s.
       if \<not> ve_isActive v then (Inl (BadRequest ''Vehicle is already deactivated''), s)
       else (Inr (), logPaper uid ''DeliveryVehicle'' i ''DELETE''
              (mapVehicles (\<lambda>v. ve_id v = i) (\<lambda>v. v\<lparr>ve_isActive := False, ve_isPrimary := False\<rparr>) s)))"

definition assertOwnsVehicle :: "string \<Rightarrow> string \<Rightarrow> paperStore \<Rightarrow> vehicle result" where
  "assertOwnsVehicle did i s =
     (case findVehicle i s of
        None \<Rightarrow> Inl (Forbidden ''vehicle of another partner'')
      | Some v \<Rightarrow> if ve_partnerId v \<noteq> did then Inl (Forbidden ''vehicle of another partner'') else Inr v)"

section \<open>Documents\<close>

definition latestByPartner :: "string \<Rightarrow> paperStore \<Rightarrow> partnerDocument list" where
  "latestByPartner did s = sort_key (\<lambda>x. - pd_createdAt x)
     (filter (\<lambda>x. pd_partnerId x = did \<and> pd_isLatest x \<and> pd_deletedAt x = None) (pw_documents s))"

definition findPartnerDocument :: "string \<Rightarrow> paperStore \<Rightarrow> partnerDocument option" where
  "findPartnerDocument i s = List.find (\<lambda>x. pd_id x = i \<and> pd_deletedAt x = None) (pw_documents s)"

definition mapDocuments :: "string \<Rightarrow> (partnerDocument \<Rightarrow> partnerDocument) \<Rightarrow> paperStore \<Rightarrow> paperStore" where
  "mapDocuments i f s = s\<lparr>pw_documents := modify (\<lambda>x. pd_id x = i) f (pw_documents s)\<rparr>"

record uploadPartnerDocumentDto =
  up_documentType :: deliveryDocumentType
  up_documentNumber :: "string option"
  up_issueDate :: "int option"
  up_expiryDate :: "int option"
  up_vehicleId :: "string option"
  up_previousVersionId :: "string option"

definition previousPartnerVersion ::
  "string \<Rightarrow> uploadPartnerDocumentDto \<Rightarrow> paperStore \<Rightarrow> partnerDocument option result" where
  "previousPartnerVersion did dto s =
     (if \<not> truthy (up_previousVersionId dto) then Inr None
      else (case findPartnerDocument (the (up_previousVersionId dto)) s of
              None \<Rightarrow> Inl (NotFound ''Previous document version'')
            | Some x \<Rightarrow> if pd_partnerId x \<noteq> did then Inl (NotFound ''Previous document version'') else Inr (Some x)))"

definition newPartnerDocument ::
  "string \<Rightarrow> int \<Rightarrow> string \<Rightarrow> string \<Rightarrow> uploadPartnerDocumentDto \<Rightarrow> uploadedFile \<Rightarrow> string \<Rightarrow> nat \<Rightarrow> partnerDocument" where
  "newPartnerDocument uuid now did uid dto upl url version =
     \<lparr>pd_id = uuid, pd_partnerId = did, pd_vehicleId = up_vehicleId dto, pd_documentType = up_documentType dto,
      pd_documentNumber = up_documentNumber dto, pd_issueDate = up_issueDate dto, pd_expiryDate = up_expiryDate dto,
      pd_status = VS_PENDING, pd_storageUrl = url, pd_fileName = fl_originalname upl, pd_uploadedById = uid,
      pd_verifiedById = None, pd_verifiedAt = None, pd_rejectedReason = None, pd_version = version, pd_isLatest = True,
      pd_previousVersionId = up_previousVersionId dto, pd_deletedAt = None, pd_createdAt = now\<rparr>"

definition uploadPartnerDocument ::
  "(paperStore \<Rightarrow> paperStore) \<Rightarrow> string result \<Rightarrow> string \<Rightarrow> int \<Rightarrow> string \<Rightarrow> uploadPartnerDocumentDto \<Rightarrow> uploadedFile
     \<Rightarrow> paperStore \<Rightarrow> (paperStore, partnerDocument) outcome" where
  "uploadPartnerDocument env stored uuid now uid dto upl =
     asPartner uid (\<lambda>d s.
       case andThen (if truthy (up_vehicleId dto) then andThen (assertOwnsVehicle (d_id d) (the (up_vehicleId dto)) s) (\<lambda>_. Inr ()) else Inr ())
              (\<lambda>_. andThen (previousPartnerVersion (d_id d) dto s) (\<lambda>prev. andThen stored (\<lambda>url. Inr (prev, url)))) of
         Inl e \<Rightarrow> (Inl e, s)
       | Inr (prev, url) \<Rightarrow>
           (let version = (case prev of None \<Rightarrow> 1 | Some x \<Rightarrow> pd_version x + 1);
                x = newPartnerDocument uuid now (d_id d) uid dto upl url version;
                s1 = env s;
                s2 = s1\<lparr>pw_documents := pw_documents s1 @ [x]\<rparr>;
                s3 = (case prev of None \<Rightarrow> s2 | Some p \<Rightarrow> mapDocuments (pd_id p) (\<lambda>x. x\<lparr>pd_isLatest := False\<rparr>) s2);
                s4 = s3\<lparr>pw_versions := pw_versions s3 @ [\<lparr>dn_documentId = uuid, dn_partnerId = d_id d,
                       dn_documentType = pd_documentType x, dn_version = version, dn_storageUrl = url,
                       dn_fileName = fl_originalname upl\<rparr>]\<rparr>
            in (Inr x, emitPaper ''delivery.document.uploaded'' uuid (logPaper uid ''DeliveryDocument'' uuid ''CREATE'' s4))))"

definition partnersDocument ::
  "string \<Rightarrow> string \<Rightarrow> (paperStore \<Rightarrow> (paperStore, 'a) outcome) \<Rightarrow> paperStore \<Rightarrow> (paperStore, 'a) outcome" where
  "partnersDocument did i act s =
     (case findPartnerDocument i s of
        None \<Rightarrow> (Inl (NotFound ''Document''), s)
      | Some x \<Rightarrow> if pd_partnerId x \<noteq> did then (Inl (NotFound ''Document''), s) else act s)"

definition verifyPartnerDocument :: "int \<Rightarrow> string \<Rightarrow> string \<Rightarrow> string \<Rightarrow> paperStore \<Rightarrow> (paperStore, unit) outcome" where
  "verifyPartnerDocument now did i admin =
     partnersDocument did i (\<lambda>s.
       (Inr (), emitPaper ''delivery.document.verified'' i (logPaper admin ''DeliveryDocument'' i ''APPROVE''
          (mapDocuments i (\<lambda>x. x\<lparr>pd_status := VS_VERIFIED, pd_verifiedById := Some admin, pd_verifiedAt := Some now,
             pd_rejectedReason := None\<rparr>) s))))"

definition rejectPartnerDocument :: "int \<Rightarrow> string \<Rightarrow> string \<Rightarrow> string \<Rightarrow> string \<Rightarrow> paperStore \<Rightarrow> (paperStore, unit) outcome" where
  "rejectPartnerDocument now did i reason admin =
     partnersDocument did i (\<lambda>s.
       (Inr (), emitPaper ''delivery.document.verified'' i (logPaper admin ''DeliveryDocument'' i ''REJECT''
          (mapDocuments i (\<lambda>x. x\<lparr>pd_status := VS_REJECTED, pd_verifiedById := Some admin, pd_verifiedAt := Some now,
             pd_rejectedReason := Some reason\<rparr>) s))))"

definition removePartnerDocument :: "int \<Rightarrow> string \<Rightarrow> string \<Rightarrow> paperStore \<Rightarrow> (paperStore, unit) outcome" where
  "removePartnerDocument now uid i =
     asPartner uid (\<lambda>d. partnersDocument (d_id d) i (\<lambda>s.
       (Inr (), logPaper uid ''DeliveryDocument'' i ''DELETE'' (mapDocuments i (\<lambda>x. x\<lparr>pd_deletedAt := Some now\<rparr>) s))))"

definition documentHistory :: "string \<Rightarrow> deliveryDocumentType \<Rightarrow> paperStore \<Rightarrow> documentVersion list" where
  "documentHistory did ty s = sort_key (\<lambda>x. - int (dn_version x))
     (filter (\<lambda>x. dn_partnerId x = did \<and> dn_documentType x = ty) (pw_versions s))"

section \<open>Bank account\<close>

definition findPartnerBank :: "string \<Rightarrow> paperStore \<Rightarrow> partnerBank option" where
  "findPartnerBank did s = lookup pb_partnerId did (pw_bank s)"

definition applyPartnerBank :: "(string \<Rightarrow> string) \<Rightarrow> upsertBankAccountDto \<Rightarrow> partnerBank \<Rightarrow> partnerBank" where
  "applyPartnerBank enc d a = a\<lparr>pb_accountHolderName := ub_accountHolderName d, pb_bankName := ub_bankName d,
     pb_branchName := patchOpt (ub_branchName d) (pb_branchName a), pb_accountNumberEncrypted := enc (ub_accountNumber d),
     pb_accountNumberLast4 := maskLast4 (ub_accountNumber d), pb_ifsc := ub_ifsc d,
     pb_upiId := patchOpt (ub_upiId d) (pb_upiId a),
     pb_cancelledChequeDocumentId := patchOpt (ub_cancelledChequeDocumentId d) (pb_cancelledChequeDocumentId a),
     pb_status := VS_PENDING\<rparr>"

definition upsertPartnerBank :: "(string \<Rightarrow> string) option \<Rightarrow> string \<Rightarrow> upsertBankAccountDto \<Rightarrow> paperStore \<Rightarrow> (paperStore, unit) outcome" where
  "upsertPartnerBank enc uid d =
     asPartner uid (\<lambda>p s.
       case enc of
         None \<Rightarrow> (Inl (ProviderError ''encryption key''), s)
       | Some e \<Rightarrow>
           (let fresh = \<lparr>pb_partnerId = d_id p, pb_accountHolderName = [], pb_bankName = [], pb_branchName = None,
                  pb_accountNumberEncrypted = [], pb_accountNumberLast4 = [], pb_ifsc = [], pb_upiId = None,
                  pb_cancelledChequeDocumentId = None, pb_status = VS_PENDING, pb_verifiedById = None, pb_verifiedAt = None\<rparr>;
                s1 = (case findPartnerBank (d_id p) s of
                        None \<Rightarrow> s\<lparr>pw_bank := pw_bank s @ [applyPartnerBank e d fresh]\<rparr>
                      | Some _ \<Rightarrow> s\<lparr>pw_bank := modify (\<lambda>a. pb_partnerId a = d_id p) (applyPartnerBank e d) (pw_bank s)\<rparr>)
            in (Inr (), logPaper uid ''DeliveryBankAccount'' (d_id p) ''UPDATE'' s1)))"

definition updatePartnerBank :: "string \<Rightarrow> (partnerBank \<Rightarrow> partnerBank) \<Rightarrow> paperStore \<Rightarrow> (paperStore, unit) outcome" where
  "updatePartnerBank did f s =
     (case findPartnerBank did s of
        None \<Rightarrow> (Inl (RecordNotFound ''DeliveryBankAccount''), s)
      | Some _ \<Rightarrow> (Inr (), s\<lparr>pw_bank := modify (\<lambda>a. pb_partnerId a = did) f (pw_bank s)\<rparr>))"

definition verifyPartnerBank :: "int \<Rightarrow> string \<Rightarrow> string \<Rightarrow> paperStore \<Rightarrow> (paperStore, unit) outcome" where
  "verifyPartnerBank now did admin s =
     (case updatePartnerBank did (\<lambda>a. a\<lparr>pb_status := VS_VERIFIED, pb_verifiedById := Some admin, pb_verifiedAt := Some now\<rparr>) s of
        (Inl e, s1) \<Rightarrow> (Inl e, s1)
      | (Inr _, s1) \<Rightarrow> (Inr (), emitPaper ''delivery.bank.verified'' did (logPaper admin ''DeliveryBankAccount'' did ''APPROVE'' s1)))"

definition rejectPartnerBank :: "string \<Rightarrow> string \<Rightarrow> paperStore \<Rightarrow> (paperStore, unit) outcome" where
  "rejectPartnerBank did admin s =
     (case updatePartnerBank did (\<lambda>a. a\<lparr>pb_status := VS_REJECTED\<rparr>) s of
        (Inl e, s1) \<Rightarrow> (Inl e, s1)
      | (Inr _, s1) \<Rightarrow> (Inr (), logPaper admin ''DeliveryBankAccount'' did ''REJECT'' s1))"

section \<open>Onboarding\<close>

definition newPartnerOnboarding :: "string \<Rightarrow> partnerOnboarding" where
  "newPartnerOnboarding did = \<lparr>po_partnerId = did, po_status = OB_DRAFT, po_currentStep = 1, po_completedSteps = [],
     po_termsAcceptedAt = None, po_submittedAt = None, po_decidedAt = None, po_changesRequested = []\<rparr>"

definition findOrCreatePartnerOnboarding :: "string \<Rightarrow> paperStore \<Rightarrow> partnerOnboarding \<times> paperStore" where
  "findOrCreatePartnerOnboarding did s =
     (case lookup po_partnerId did (pw_onboarding s) of
        Some ob \<Rightarrow> (ob, s)
      | None \<Rightarrow> (newPartnerOnboarding did, s\<lparr>pw_onboarding := pw_onboarding s @ [newPartnerOnboarding did]\<rparr>))"

definition updatePartnerOnboarding :: "string \<Rightarrow> (partnerOnboarding \<Rightarrow> partnerOnboarding) \<Rightarrow> paperStore \<Rightarrow> paperStore" where
  "updatePartnerOnboarding did f s = s\<lparr>pw_onboarding := modify (\<lambda>ob. po_partnerId ob = did) f (pw_onboarding s)\<rparr>"

definition markPartnerStep :: "(paperStore \<Rightarrow> paperStore) \<Rightarrow> string \<Rightarrow> int \<Rightarrow> paperStore \<Rightarrow> paperStore" where
  "markPartnerStep env did step s =
     (let (cur, s1) = findOrCreatePartnerOnboarding did s
      in updatePartnerOnboarding did (\<lambda>ob. ob\<lparr>po_completedSteps := addStep step (po_completedSteps cur),
           po_currentStep := max (po_currentStep cur) (min (step + 1) 12),
           po_status := (if po_status cur = OB_DRAFT then OB_IN_PROGRESS else po_status ob)\<rparr>) (env s1))"

definition setPartnerOnboardingStatus ::
  "string \<Rightarrow> onboardingStatus \<Rightarrow> (partnerOnboarding \<Rightarrow> partnerOnboarding) \<Rightarrow> paperStore \<Rightarrow> paperStore" where
  "setPartnerOnboardingStatus did st extra s =
     updatePartnerOnboarding did (\<lambda>ob. extra (ob\<lparr>po_status := st\<rparr>)) (snd (findOrCreatePartnerOnboarding did s))"

definition DELIVERY_ONBOARDING_TOTAL_STEPS :: int where "DELIVERY_ONBOARDING_TOTAL_STEPS = 12"

definition PARTNER_STEPS_BEFORE_SUBMIT :: "int list" where
  "PARTNER_STEPS_BEFORE_SUBMIT = [1..DELIVERY_ONBOARDING_TOTAL_STEPS - 1]"

definition partnerProgress :: "partnerOnboarding \<Rightarrow> int" where
  "partnerProgress ob = mathRound (of_nat (length (po_completedSteps ob)) / of_int DELIVERY_ONBOARDING_TOTAL_STEPS * 100)"

definition getPartnerOnboarding :: "string \<Rightarrow> paperStore \<Rightarrow> (paperStore, partnerOnboarding \<times> int) outcome" where
  "getPartnerOnboarding uid =
     asPartner uid (\<lambda>d s. let (ob, s1) = findOrCreatePartnerOnboarding (d_id d) s in (Inr (ob, partnerProgress ob), s1))"

definition completePartnerStep :: "(paperStore \<Rightarrow> paperStore) \<Rightarrow> string \<Rightarrow> int \<Rightarrow> paperStore \<Rightarrow> (paperStore, unit) outcome" where
  "completePartnerStep env uid step =
     asPartner uid (\<lambda>d s.
       if step < 1 \<or> step > DELIVERY_ONBOARDING_TOTAL_STEPS then (Inl (BadRequest ''step out of bounds''), s)
       else (Inr (), logPaper uid ''DeliveryOnboarding'' (d_id d) ''UPDATE'' (markPartnerStep env (d_id d) step s)))"

definition submitPartnerOnboarding ::
  "(paperStore \<Rightarrow> paperStore) \<Rightarrow> (reviewStore \<Rightarrow> reviewStore) \<Rightarrow> int \<Rightarrow> string \<Rightarrow> paperStore \<Rightarrow> (paperStore, unit) outcome" where
  "submitPartnerOnboarding env renv now uid =
     asPartner uid (\<lambda>d s.
       let (cur, s1) = findOrCreatePartnerOnboarding (d_id d) s;
           missing = filter (\<lambda>k. k \<notin> set (po_completedSteps cur)) PARTNER_STEPS_BEFORE_SUBMIT;
           resubmission = (po_status cur = OB_CHANGES_REQUESTED)
       in if missing \<noteq> [] then (Inl (BadRequest ''Complete steps before submitting''), s1)
          else if po_status cur \<notin> {OB_DRAFT, OB_IN_PROGRESS, OB_CHANGES_REQUESTED}
          then (Inl (BadRequest ''cannot be submitted''), s1)
          else
            (case (if resubmission then (Inr (), pw_review s1) else delivSubmit now renv uid (pw_review s1)) of
               (Inl e, rv) \<Rightarrow> (Inl e, s1\<lparr>pw_review := rv\<rparr>)
             | (Inr _, rv) \<Rightarrow>
                 (Inr (), logPaper uid ''DeliveryOnboarding'' (d_id d) ''STATUS_CHANGE''
                   (setPartnerOnboardingStatus (d_id d) OB_UNDER_REVIEW
                      (\<lambda>ob. ob\<lparr>po_termsAcceptedAt := Some now, po_submittedAt := Some now,
                         po_changesRequested := (if resubmission then [] else po_changesRequested ob)\<rparr>)
                      (env (s1\<lparr>pw_review := rv\<rparr>))))))"

definition requestPartnerChanges :: "string \<Rightarrow> string list \<Rightarrow> string \<Rightarrow> paperStore \<Rightarrow> (paperStore, unit) outcome" where
  "requestPartnerChanges did items admin s =
     (case findPartnerById did (rvw (pw_review s)) of
        None \<Rightarrow> (Inl (NotFound ''Delivery partner''), s)
      | Some d \<Rightarrow>
          (Inr (), onReview (onWorld (enqueue (Notification (d_userId d) ''DELIVERY_PARTNER_CHANGES_REQUESTED'')))
             (logPaper admin ''DeliveryOnboarding'' did ''STATUS_CHANGE''
               (setPartnerOnboardingStatus did OB_CHANGES_REQUESTED (\<lambda>ob. ob\<lparr>po_changesRequested := items\<rparr>) s))))"

text \<open>\<^verbatim>\<open>delivery.created\<close>.\<close>

definition onPartnerCreated :: "string \<Rightarrow> paperStore \<Rightarrow> paperStore" where
  "onPartnerCreated did s = snd (findOrCreatePartnerOnboarding did s)"

section \<open>Compliance\<close>

definition PARTNER_EXPIRY_WINDOW_DAYS :: int where "PARTNER_EXPIRY_WINDOW_DAYS = 30"

definition REQUIRED_DOCUMENT_TYPES :: "deliveryDocumentType list" where
  "REQUIRED_DOCUMENT_TYPES = [DRIVING_LICENSE, AADHAAR, PAN, VEHICLE_RC, VEHICLE_INSURANCE, SELFIE, BACKGROUND_VERIFICATION]"

definition expiredDocuments :: "int \<Rightarrow> partnerDocument list \<Rightarrow> partnerDocument list" where
  "expiredDocuments now xs = filter (\<lambda>x. case pd_expiryDate x of None \<Rightarrow> False | Some t \<Rightarrow> t < now) xs"

definition expiringDocuments :: "int \<Rightarrow> partnerDocument list \<Rightarrow> partnerDocument list" where
  "expiringDocuments now xs = filter (\<lambda>x. case pd_expiryDate x of None \<Rightarrow> False
     | Some t \<Rightarrow> now \<le> t \<and> t - now \<le> PARTNER_EXPIRY_WINDOW_DAYS * 24 * 60 * 60 * 1000) xs"

definition computePartnerCompliance :: "int \<Rightarrow> string \<Rightarrow> paperStore \<Rightarrow> partnerSnapshot \<times> paperStore" where
  "computePartnerCompliance now did s =
     (let (v, rv) = delivFindOrCreate did (pw_review s);
          xs = latestByPartner did s; bank = findPartnerBank did s;
          verified = matches (\<lambda>x. pd_status x = VS_VERIFIED) xs;
          rejected = matches (\<lambda>x. pd_status x = VS_REJECTED) xs;
          pending = length xs - verified - rejected;
          missing = filter (\<lambda>ty. ty \<notin> pd_documentType ` set xs) REQUIRED_DOCUMENT_TYPES;
          bankStatus = map_option pb_status bank;
          blocking = (dv_stage v = DV_REJECTED \<or> dv_stage v = DV_SUSPENDED \<or> rejected > 0 \<or> bankStatus = Some VS_REJECTED);
          risk = (expiredDocuments now xs \<noteq> [] \<or> expiringDocuments now xs \<noteq> [] \<or> pending > 0 \<or> missing \<noteq> [] \<or>
                  dv_stage v \<noteq> DV_APPROVED)
      in (\<lparr>sn_partnerId = did, sn_overallStatus = (if blocking then NON_COMPLIANT else if risk then AT_RISK else COMPLIANT),
           sn_verificationStage = dv_stage v, sn_documentsTotal = length xs, sn_documentsVerified = verified,
           sn_documentsPending = pending, sn_documentsRejected = rejected, sn_missingDocumentTypes = missing,
           sn_bankStatus = bankStatus\<rparr>,
          s\<lparr>pw_review := rv\<rparr>))"

definition upsertSnapshot :: "partnerSnapshot \<Rightarrow> paperStore \<Rightarrow> paperStore" where
  "upsertSnapshot n s =
     (case lookup sn_partnerId (sn_partnerId n) (pw_snapshots s) of
        None \<Rightarrow> s\<lparr>pw_snapshots := pw_snapshots s @ [n]\<rparr>
      | Some _ \<Rightarrow> s\<lparr>pw_snapshots := modify (\<lambda>m. sn_partnerId m = sn_partnerId n)
          (\<lambda>m. n\<lparr>sn_bankStatus := patchOpt (sn_bankStatus n) (sn_bankStatus m)\<rparr>) (pw_snapshots s)\<rparr>)"

definition getPartnerSnapshot :: "int \<Rightarrow> string \<Rightarrow> paperStore \<Rightarrow> partnerSnapshot \<times> paperStore" where
  "getPartnerSnapshot now did s = (let (n, s1) = computePartnerCompliance now did s in (n, upsertSnapshot n s1))"

definition getPartnerSnapshotForSelf :: "int \<Rightarrow> string \<Rightarrow> paperStore \<Rightarrow> (paperStore, partnerSnapshot) outcome" where
  "getPartnerSnapshotForSelf now uid =
     asPartner uid (\<lambda>d s. let (n, s1) = getPartnerSnapshot now (d_id d) s in (Inr n, s1))"

end
