(* ===== verification/PaperworkSafety.thy ===== *)
theory PaperworkSafety
  imports PartnerPaperwork
begin

text \<open>
  What the partner's records promise, request after request: one primary vehicle, a history entry for
  every document, an onboarding that is never decided, and what a compliant partner has on file.
\<close>

section \<open>Requests\<close>

datatype paperOp =
    AddVehicle string int string createVehicleDto
  | EditVehicle string string updateVehicleDto
  | MakePrimary string string
  | RetireVehicle string string
  | UploadPaper "string result" string int string uploadPartnerDocumentDto uploadedFile
  | VerifyPaper int string string string
  | RejectPaper int string string string string
  | RemovePaper int string string
  | SaveBank "(string \<Rightarrow> string) option" string upsertBankAccountDto
  | VerifyBank int string string
  | RejectBank string string
  | TakeStep string int
  | SubmitWizard int string
  | AskChanges string "string list" string
  | Snapshot int string
  | AdvanceStage int string string
  | RejectStage int string string string

fun runPaperOp :: "paperOp \<Rightarrow> paperStore \<Rightarrow> paperStore" where
  "runPaperOp (AddVehicle uuid now uid d) s = snd (createVehicle id uuid now uid d s)"
| "runPaperOp (EditVehicle uid i d) s = snd (updateVehicle uid i d s)"
| "runPaperOp (MakePrimary uid i) s = snd (setPrimaryVehicle uid i s)"
| "runPaperOp (RetireVehicle uid i) s = snd (deactivateVehicle uid i s)"
| "runPaperOp (UploadPaper stored uuid now uid d upl) s = snd (uploadPartnerDocument id stored uuid now uid d upl s)"
| "runPaperOp (VerifyPaper now did i admin) s = snd (verifyPartnerDocument now did i admin s)"
| "runPaperOp (RejectPaper now did i reason admin) s = snd (rejectPartnerDocument now did i reason admin s)"
| "runPaperOp (RemovePaper now uid i) s = snd (removePartnerDocument now uid i s)"
| "runPaperOp (SaveBank enc uid d) s = snd (upsertPartnerBank enc uid d s)"
| "runPaperOp (VerifyBank now did admin) s = snd (verifyPartnerBank now did admin s)"
| "runPaperOp (RejectBank did admin) s = snd (rejectPartnerBank did admin s)"
| "runPaperOp (TakeStep uid k) s = snd (completePartnerStep id uid k s)"
| "runPaperOp (SubmitWizard now uid) s = snd (submitPartnerOnboarding id id now uid s)"
| "runPaperOp (AskChanges did items admin) s = snd (requestPartnerChanges did items admin s)"
| "runPaperOp (Snapshot now did) s = snd (getPartnerSnapshot now did s)"
| "runPaperOp (AdvanceStage now did admin) s = s\<lparr>pw_review := snd (delivAdvance now id did admin (pw_review s))\<rparr>"
| "runPaperOp (RejectStage now did reason admin) s = s\<lparr>pw_review := snd (delivReject now id did reason admin (pw_review s))\<rparr>"

lemma asPartner_post:
  "P s \<Longrightarrow> (\<And>d. P (snd (act d s))) \<Longrightarrow> P (snd (asPartner uid act s))"
  by (simp add: asPartner_def split: option.split)

lemma ownedVehicle_post:
  assumes "P s" "\<And>d v. findVehicle i s = Some v \<Longrightarrow> ve_partnerId v = d_id d \<Longrightarrow> P (snd (act d v s))"
  shows "P (snd (ownedVehicle uid i act s))"
  unfolding ownedVehicle_def by (rule asPartner_post) (use assms in \<open>auto split: option.split\<close>)

lemma partnersDocument_post: "P s \<Longrightarrow> P (snd (act s)) \<Longrightarrow> P (snd (partnersDocument did i act s))"
  by (simp add: partnersDocument_def split: option.split)

lemma paper_effects [simp]:
  "pw_vehicles (logPaper a e i c s) = pw_vehicles s" "pw_vehicles (emitPaper n i s) = pw_vehicles s"
  "pw_documents (logPaper a e i c s) = pw_documents s" "pw_documents (emitPaper n i s) = pw_documents s"
  "pw_versions (logPaper a e i c s) = pw_versions s" "pw_versions (emitPaper n i s) = pw_versions s"
  "pw_onboarding (logPaper a e i c s) = pw_onboarding s" "pw_onboarding (emitPaper n i s) = pw_onboarding s"
  "pw_bank (logPaper a e i c s) = pw_bank s" "pw_bank (emitPaper n i s) = pw_bank s"
  "pw_vehicles (onReview f s) = pw_vehicles s" "pw_documents (onReview f s) = pw_documents s"
  "pw_versions (onReview f s) = pw_versions s" "pw_onboarding (onReview f s) = pw_onboarding s"
  by (simp_all add: logPaper_def emitPaper_def onReview_def)

lemma wizard_frame [simp]:
  "pw_vehicles (snd (findOrCreatePartnerOnboarding did s)) = pw_vehicles s"
  "pw_documents (snd (findOrCreatePartnerOnboarding did s)) = pw_documents s"
  "pw_versions (snd (findOrCreatePartnerOnboarding did s)) = pw_versions s"
  "pw_vehicles (updatePartnerOnboarding did f s) = pw_vehicles s"
  "pw_documents (updatePartnerOnboarding did f s) = pw_documents s"
  "pw_versions (updatePartnerOnboarding did f s) = pw_versions s"
  "pw_vehicles (setPartnerOnboardingStatus did st g s) = pw_vehicles s"
  "pw_documents (setPartnerOnboardingStatus did st g s) = pw_documents s"
  "pw_versions (setPartnerOnboardingStatus did st g s) = pw_versions s"
  by (auto simp: findOrCreatePartnerOnboarding_def updatePartnerOnboarding_def setPartnerOnboardingStatus_def
      split: option.split)

lemma snapshot_frame [simp]:
  "pw_vehicles (snd (getPartnerSnapshot now did s)) = pw_vehicles s"
  "pw_documents (snd (getPartnerSnapshot now did s)) = pw_documents s"
  "pw_versions (snd (getPartnerSnapshot now did s)) = pw_versions s"
  "pw_onboarding (snd (getPartnerSnapshot now did s)) = pw_onboarding s"
  by (auto simp: getPartnerSnapshot_def computePartnerCompliance_def upsertSnapshot_def Let_def split: prod.split option.split)

lemma bank_frame:
  "snd (upsertPartnerBank enc uid d s) = s\<lparr>pw_bank := pw_bank (snd (upsertPartnerBank enc uid d s)),
     pw_review := pw_review (snd (upsertPartnerBank enc uid d s))\<rparr>"
  "snd (verifyPartnerBank now did admin s) = s\<lparr>pw_bank := pw_bank (snd (verifyPartnerBank now did admin s)),
     pw_review := pw_review (snd (verifyPartnerBank now did admin s)),
     pw_published := pw_published (snd (verifyPartnerBank now did admin s))\<rparr>"
  "snd (rejectPartnerBank did admin s) = s\<lparr>pw_bank := pw_bank (snd (rejectPartnerBank did admin s)),
     pw_review := pw_review (snd (rejectPartnerBank did admin s))\<rparr>"
  by (auto simp: upsertPartnerBank_def asPartner_def verifyPartnerBank_def rejectPartnerBank_def updatePartnerBank_def
      logPaper_def emitPaper_def onReview_def Let_def split: option.split)


lemma wizard_found:
  assumes "findOrCreatePartnerOnboarding did s = (cur, s1)"
  shows "pw_vehicles s1 = pw_vehicles s" "pw_documents s1 = pw_documents s" "pw_versions s1 = pw_versions s"
  using wizard_frame(1-3)[of did s] unfolding assms by simp_all

lemma wizard_ops:
  "pw_vehicles (snd (submitPartnerOnboarding id renv now uid s)) = pw_vehicles s"
  "pw_documents (snd (submitPartnerOnboarding id renv now uid s)) = pw_documents s"
  "pw_versions (snd (submitPartnerOnboarding id renv now uid s)) = pw_versions s"
  "pw_vehicles (snd (completePartnerStep id uid k s)) = pw_vehicles s"
  "pw_documents (snd (completePartnerStep id uid k s)) = pw_documents s"
  "pw_versions (snd (completePartnerStep id uid k s)) = pw_versions s"
  "pw_vehicles (snd (requestPartnerChanges did items admin s)) = pw_vehicles s"
  "pw_documents (snd (requestPartnerChanges did items admin s)) = pw_documents s"
  "pw_versions (snd (requestPartnerChanges did items admin s)) = pw_versions s"
  by (auto simp: submitPartnerOnboarding_def completePartnerStep_def requestPartnerChanges_def markPartnerStep_def
      asPartner_def Let_def wizard_found split: option.split prod.split sum.split)

section \<open>One primary vehicle\<close>

definition fleetSound :: "paperStore \<Rightarrow> bool" where
  "fleetSound s \<longleftrightarrow> keyed ve_id (pw_vehicles s) \<and> list_all (\<lambda>v. ve_isPrimary v \<longrightarrow> ve_isActive v) (pw_vehicles s) \<and>
     (\<forall>did. matches (\<lambda>v. ve_partnerId v = did \<and> ve_isPrimary v) (pw_vehicles s) \<le> 1)"

lemma fleetSound_same: "pw_vehicles s' = pw_vehicles s \<Longrightarrow> fleetSound s' = fleetSound s"
  by (simp add: fleetSound_def)

text \<open>A change that clears flags, or retires vehicles, keeps the fleet sound.\<close>

lemma fleetSound_less:
  assumes "fleetSound s"
    and "\<And>v. ve_id (f v) = ve_id v" "\<And>v. ve_partnerId (f v) = ve_partnerId v"
    and "\<And>v. ve_isPrimary (f v) \<Longrightarrow> ve_isPrimary v" "\<And>v. ve_isPrimary (f v) \<Longrightarrow> ve_isActive v \<Longrightarrow> ve_isActive (f v)"
  shows "fleetSound (mapVehicles p f s)"
proof -
  have "matches (\<lambda>v. ve_partnerId v = did \<and> ve_isPrimary v) (modify p f (pw_vehicles s)) \<le>
      matches (\<lambda>v. ve_partnerId v = did \<and> ve_isPrimary v) (pw_vehicles s)" for did
    by (rule matches_modify_le) (auto simp: assms(3) dest: assms(4))
  then have "matches (\<lambda>v. ve_partnerId v = did \<and> ve_isPrimary v) (modify p f (pw_vehicles s)) \<le> 1" for did
    using assms(1) le_trans unfolding fleetSound_def by blast
  moreover have "list_all (\<lambda>v. ve_isPrimary v \<longrightarrow> ve_isActive v) (modify p f (pw_vehicles s))"
    using assms(1,4,5) by (auto simp: fleetSound_def list_all_iff set_modify)
  ultimately show ?thesis using assms(1,2) by (simp add: fleetSound_def mapVehicles_def)
qed

lemma matches_modify_clear:
  "(\<And>r. p r \<Longrightarrow> \<not> q (f r)) \<Longrightarrow> (\<And>r. \<not> p r \<Longrightarrow> \<not> q r) \<Longrightarrow> matches q (modify p f rows) = 0"
  by (induction rows) auto

lemma unset_none:
  "matches (\<lambda>v. ve_partnerId v = did \<and> ve_isPrimary v) (pw_vehicles (unsetAllPrimary did s)) = 0"
  unfolding unsetAllPrimary_def mapVehicles_def by (simp, rule matches_modify_clear) auto

lemma unset_frame [simp]:
  "ve_id ` set (pw_vehicles (unsetAllPrimary did s)) = ve_id ` set (pw_vehicles s)"
proof -
  have "map ve_id (pw_vehicles (unsetAllPrimary did s)) = map ve_id (pw_vehicles s)"
    unfolding unsetAllPrimary_def mapVehicles_def by (simp, rule map_modify) simp
  then show ?thesis by (metis set_map)
qed

lemma mapVehicles_mem:
  "x \<in> set (pw_vehicles (mapVehicles p f s)) \<Longrightarrow> \<exists>y \<in> set (pw_vehicles s). x = (if p y then f y else y)"
  by (auto simp: mapVehicles_def set_modify)

lemma fleetSound_unset: "fleetSound s \<Longrightarrow> fleetSound (unsetAllPrimary did s)"
  unfolding unsetAllPrimary_def by (rule fleetSound_less) auto

lemma fleetSound_add:
  assumes "fleetSound s" "ve_id v \<notin> ve_id ` set (pw_vehicles s)" "ve_isActive v"
    and "ve_isPrimary v \<Longrightarrow> matches (\<lambda>x. ve_partnerId x = ve_partnerId v \<and> ve_isPrimary x) (pw_vehicles s) = 0"
    and "pw_vehicles s' = pw_vehicles s @ [v]"
  shows "fleetSound s'"
  using assms by (auto simp: fleetSound_def keyed_snoc)

lemma fleetSound_setPrimary:
  assumes s: "fleetSound s" and v: "findVehicle i s = Some v" "ve_partnerId v = did" "ve_isActive v"
  shows "fleetSound (setPrimaryRow did i s)"
proof -
  let ?s1 = "mapVehicles (\<lambda>v. ve_partnerId v = did \<and> ve_id v \<noteq> i) (\<lambda>v. v\<lparr>ve_isPrimary := False\<rparr>) s"
  let ?f = "\<lambda>v. v\<lparr>ve_isPrimary := True\<rparr>"
  have s1: "fleetSound ?s1" by (rule fleetSound_less[OF s]) auto
  have mem: "v \<in> set (pw_vehicles s)" "ve_id v = i" using v(1) lookup_SomeD[of ve_id i] by (auto simp: findVehicle_def)
  have only: "x = v" if "x \<in> set (pw_vehicles s)" "ve_id x = i" for x
  proof (rule keyed_same[OF _ that(1) mem(1)])
    show "keyed ve_id (pw_vehicles s)" using s by (simp add: fleetSound_def)
    show "ve_id x = ve_id v" unfolding that(2) mem(2) ..
  qed
  have cleared: "ve_id x = i" if t: "x \<in> set (pw_vehicles ?s1)" "ve_partnerId x = did" "ve_isPrimary x" for x
  proof (rule ccontr)
    assume x: "ve_id x \<noteq> i"
    obtain y where y: "x = (if ve_partnerId y = did \<and> ve_id y \<noteq> i then y\<lparr>ve_isPrimary := False\<rparr> else y)"
      using mapVehicles_mem[OF t(1)] by blast
    show False using x t(2,3) by (cases "ve_partnerId y = did \<and> ve_id y \<noteq> i") (auto simp: y)
  qed
  have same: "x = v" if t: "x \<in> set (pw_vehicles ?s1)" "ve_id x = i" for x
  proof -
    obtain y where y: "y \<in> set (pw_vehicles s)" "x = (if ve_partnerId y = did \<and> ve_id y \<noteq> i then y\<lparr>ve_isPrimary := False\<rparr> else y)"
      using mapVehicles_mem[OF t(1)] by blast
    then have "ve_id y = i" using t(2) by (cases "ve_partnerId y = did \<and> ve_id y \<noteq> i") simp_all
    then show ?thesis using y only by simp
  qed
  have k: "keyed ve_id (pw_vehicles ?s1)" using s1 by (simp add: fleetSound_def)
  have "matches (\<lambda>x. ve_partnerId x = d \<and> ve_isPrimary x) (modify (\<lambda>v. ve_id v = i) ?f (pw_vehicles ?s1)) \<le> 1" for d
  proof (cases "d = did")
    case True
    have "matches (\<lambda>x. ve_partnerId x = did \<and> ve_isPrimary x) (modify (\<lambda>v. ve_id v = i) ?f (pw_vehicles ?s1)) \<le>
        matches (\<lambda>x. ve_id x = i) (modify (\<lambda>v. ve_id v = i) ?f (pw_vehicles ?s1))"
    proof (rule matches_mono)
      fix x assume x: "x \<in> set (modify (\<lambda>v. ve_id v = i) ?f (pw_vehicles ?s1))" "ve_partnerId x = did \<and> ve_isPrimary x"
      obtain y where y: "y \<in> set (pw_vehicles ?s1)" "x = (if ve_id y = i then ?f y else y)"
        using x(1) unfolding set_modify by blast
      show "ve_id x = i" using cleared[OF y(1)] x(2) y(2) by (cases "ve_id y = i") simp_all
    qed
    also have "\<dots> \<le> 1" using matches_pk_le_1[of ve_id "modify (\<lambda>v. ve_id v = i) ?f (pw_vehicles ?s1)" i "\<lambda>_. True"] k by simp
    finally show ?thesis using True by simp
  next
    case False
    have "matches (\<lambda>x. ve_partnerId x = d \<and> ve_isPrimary x) (modify (\<lambda>v. ve_id v = i) ?f (pw_vehicles ?s1)) \<le>
        matches (\<lambda>x. ve_partnerId x = d \<and> ve_isPrimary x) (pw_vehicles ?s1)"
    proof -
      have "modify (\<lambda>v. ve_id v = i) ?f (pw_vehicles ?s1) = modify (\<lambda>v. ve_id v = i \<and> ve_partnerId v = did) ?f (pw_vehicles ?s1)"
        by (rule modify_cong) (use same v(2) in blast)
      then show ?thesis using False by (simp only:) (rule matches_modify_le, auto)
    qed
    then show ?thesis using s1 le_trans unfolding fleetSound_def by blast
  qed
  moreover have "list_all (\<lambda>v. ve_isPrimary v \<longrightarrow> ve_isActive v) (modify (\<lambda>v. ve_id v = i) ?f (pw_vehicles ?s1))"
    using s1 same v(3) by (auto simp: fleetSound_def list_all_iff set_modify)
  ultimately show ?thesis using k by (simp add: fleetSound_def setPrimaryRow_def mapVehicles_def)
qed

lemma documents_frame:
  "pw_vehicles (snd (uploadPartnerDocument id stored uuid now uid d upl s)) = pw_vehicles s"
  "pw_vehicles (snd (verifyPartnerDocument now did i admin s)) = pw_vehicles s"
  "pw_vehicles (snd (rejectPartnerDocument now did i reason admin s)) = pw_vehicles s"
  "pw_vehicles (snd (removePartnerDocument now uid i s)) = pw_vehicles s"
  by (auto simp: uploadPartnerDocument_def verifyPartnerDocument_def rejectPartnerDocument_def removePartnerDocument_def
      partnersDocument_def asPartner_def mapDocuments_def Let_def split: option.split sum.split prod.split)

lemma bank_vehicles:
  "pw_vehicles (snd (upsertPartnerBank enc uid b s)) = pw_vehicles s"
  "pw_vehicles (snd (verifyPartnerBank now did admin s)) = pw_vehicles s"
  "pw_vehicles (snd (rejectPartnerBank did admin s)) = pw_vehicles s"
  by (subst bank_frame, simp)+

definition freshVehicle :: "paperOp \<Rightarrow> paperStore \<Rightarrow> bool" where
  "freshVehicle q s = (case q of AddVehicle uuid _ _ _ \<Rightarrow> uuid \<notin> ve_id ` set (pw_vehicles s) | _ \<Rightarrow> True)"

lemma fleetSound_op:
  assumes s: "fleetSound s" and fresh: "freshVehicle q s"
  shows "fleetSound (runPaperOp q s)"
proof (cases q)
  case (AddVehicle uuid now uid d)
  have "fleetSound (snd (createVehicle id uuid now uid d s))" unfolding createVehicle_def
  proof (rule asPartner_post[where P = fleetSound, OF s])
    fix dp
    let ?n = "length (activeVehicles (d_id dp) s)"
    let ?primary = "?n = 0 \<or> cv_isPrimary d = Some True"
    let ?s1 = "if ?primary \<and> ?n > 0 then unsetAllPrimary (d_id dp) s else s"
    have none: "matches (\<lambda>v. ve_partnerId v = d_id dp \<and> ve_isPrimary v) (pw_vehicles ?s1) = 0" if "?primary"
    proof (cases "?n = 0")
      case True
      have "\<not> (ve_partnerId v = d_id dp \<and> ve_isPrimary v)" if "v \<in> set (pw_vehicles s)" for v
      proof -
        have "ve_isPrimary v \<longrightarrow> ve_isActive v" using s that by (simp add: fleetSound_def list_all_iff)
        then show ?thesis using True that by (auto simp: activeVehicles_def filter_empty_conv)
      qed
      then show ?thesis using True by (simp add: matches_0_iff)
    qed (use that unset_none in simp)
    let ?v = "newVehicle uuid now (d_id dp) ?primary d"
    have v: "ve_id ?v = uuid" "ve_partnerId ?v = d_id dp" "ve_isPrimary ?v = ?primary" "ve_isActive ?v"
      by (simp_all add: newVehicle_def)
    have ids: "ve_id ` set (pw_vehicles ?s1) = ve_id ` set (pw_vehicles s)" by (simp only: unset_frame split: if_split) simp
    have "fleetSound (?s1\<lparr>pw_vehicles := pw_vehicles ?s1 @ [?v]\<rparr>)"
    proof (rule fleetSound_add[of ?s1 ?v])
      show "fleetSound ?s1" using s fleetSound_unset by presburger
      show "ve_id ?v \<notin> ve_id ` set (pw_vehicles ?s1)" using fresh unfolding v ids by (simp add: AddVehicle freshVehicle_def)
      show "matches (\<lambda>x. ve_partnerId x = ve_partnerId ?v \<and> ve_isPrimary x) (pw_vehicles ?s1) = 0" if "ve_isPrimary ?v"
        using none that unfolding v .
    qed (rule v(4), simp)
    then show "fleetSound (snd (let existingCount = ?n; isPrimary = existingCount = 0 \<or> cv_isPrimary d = Some True;
           s1 = if isPrimary \<and> existingCount > 0 then unsetAllPrimary (d_id dp) s else s;
           v = newVehicle uuid now (d_id dp) isPrimary d; s2 = (id s1)\<lparr>pw_vehicles := pw_vehicles (id s1) @ [v]\<rparr>
       in (Inr v, emitPaper ''delivery.vehicle.updated'' uuid (logPaper uid ''DeliveryVehicle'' uuid ''CREATE'' s2))))"
      unfolding Let_def fleetSound_def by (simp only: snd_conv id_apply paper_effects) simp
  qed
  then show ?thesis by (simp add: AddVehicle)
next
  case (EditVehicle uid i d)
  have "fleetSound (mapVehicles (\<lambda>v. ve_id v = i) (patchVehicle d) s)"
    by (rule fleetSound_less[OF s]) (simp_all add: patchVehicle_def)
  then have "fleetSound (snd (updateVehicle uid i d s))" unfolding updateVehicle_def
    by (intro ownedVehicle_post[where P = fleetSound, OF s]) (simp add: fleetSound_def)
  then show ?thesis by (simp add: EditVehicle)
next
  case (MakePrimary uid i)
  have "fleetSound (snd (setPrimaryVehicle uid i s))" unfolding setPrimaryVehicle_def
    by (rule ownedVehicle_post[where P = fleetSound, OF s])
      (auto simp: s Let_def fleetSound_same[of "logPaper _ _ _ _ _"] intro!: fleetSound_setPrimary[OF s])
  then show ?thesis by (simp add: MakePrimary)
next
  case (RetireVehicle uid i)
  have "fleetSound (mapVehicles (\<lambda>v. ve_id v = i) (\<lambda>v. v\<lparr>ve_isActive := False, ve_isPrimary := False\<rparr>) s)"
    by (rule fleetSound_less[OF s]) simp_all
  then have "fleetSound (snd (deactivateVehicle uid i s))" unfolding deactivateVehicle_def
    by (intro ownedVehicle_post[where P = fleetSound, OF s]) (use s in \<open>simp add: fleetSound_def\<close>)
  then show ?thesis by (simp add: RetireVehicle)
qed (use s in \<open>simp_all add: fleetSound_def documents_frame wizard_ops bank_vehicles\<close>)

text \<open>
  One primary vehicle.  Whatever requests partners and administrators make, starting from no vehicles
  and with fresh ids, every partner has at most one primary vehicle, and a primary vehicle is active.
\<close>

theorem one_primary_vehicle:
  assumes "pw_vehicles s = []"
    and "\<And>n. n < length qs \<Longrightarrow> freshVehicle (qs ! n) (foldl (\<lambda>s q. runPaperOp q s) s (take n qs))"
  shows "matches (\<lambda>v. ve_partnerId v = did \<and> ve_isPrimary v) (pw_vehicles (foldl (\<lambda>s q. runPaperOp q s) s qs)) \<le> 1 \<and>
    list_all (\<lambda>v. ve_isPrimary v \<longrightarrow> ve_isActive v) (pw_vehicles (foldl (\<lambda>s q. runPaperOp q s) s qs))"
proof -
  have "fleetSound s" using assms(1) by (simp add: fleetSound_def keyed_def)
  then have "fleetSound (foldl (\<lambda>s q. runPaperOp q s) s qs)" using assms(2)
  proof (induction qs arbitrary: s)
    case (Cons q qs)
    have "fleetSound (runPaperOp q s)" using fleetSound_op[OF Cons.prems(1)] Cons.prems(2)[of 0] by simp
    moreover have "freshVehicle (qs ! n) (foldl (\<lambda>s q. runPaperOp q s) (runPaperOp q s) (take n qs))" if "n < length qs" for n
      using Cons.prems(2)[of "Suc n"] that by simp
    ultimately show ?case using Cons.IH by simp
  qed simp
  then show ?thesis by (simp add: fleetSound_def)
qed

section \<open>Documents\<close>

text \<open>
  A new document replaces one of another type.  The previous version is not checked to be of the same
  type: an Aadhaar card uploaded as the next version of the partner's only PAN card takes the PAN card
  off the file, and the compliance snapshot reports PAN as missing.
\<close>

theorem other_type_replaced:
  assumes "findPartnerByUserId uid (rvw (pw_review s)) = Some d" "keyed pd_id (pw_documents s)"
    and "findPartnerDocument p s = Some x" "p \<noteq> []" "pd_partnerId x = d_id d" "pd_documentType x = PAN"
    and "list_all (\<lambda>y. pd_partnerId y = d_id d \<and> pd_documentType y = PAN \<and> pd_isLatest y \<longrightarrow> pd_id y = p) (pw_documents s)"
    and "uuid \<notin> pd_id ` set (pw_documents s)"
    and "up_documentType dto = AADHAAR" "up_vehicleId dto = None" "up_previousVersionId dto = Some p"
    and "uploadPartnerDocument id (Inr url) uuid now uid dto upl s = (Inr x', s')"
  shows "pd_version x' = pd_version x + 1 \<and>
    PAN \<in> set (sn_missingDocumentTypes (fst (computePartnerCompliance now' (d_id d) s')))"
proof -
  have prev: "previousPartnerVersion (d_id d) dto s = Inr (Some x)"
    using assms(3-5,11) by (simp add: previousPartnerVersion_def)
  have id: "pd_id x = p" using assms(3) find_SomeD[of _ "pw_documents s" x] by (auto simp: findPartnerDocument_def)
  have docs: "pw_documents s' = modify (\<lambda>y. pd_id y = p) (\<lambda>y. y\<lparr>pd_isLatest := False\<rparr>)
      (pw_documents s @ [newPartnerDocument uuid now (d_id d) uid dto upl url (pd_version x + 1)])"
    and x': "pd_version x' = pd_version x + 1"
    using assms(1,10,12) prev id
    by (auto simp: uploadPartnerDocument_def asPartner_def Let_def mapDocuments_def newPartnerDocument_def)
  have "\<not> (pd_partnerId y = d_id d \<and> pd_isLatest y \<and> pd_documentType y = PAN)" if y: "y \<in> set (pw_documents s')" for y
  proof -
    obtain z where z: "z \<in> set (pw_documents s @ [newPartnerDocument uuid now (d_id d) uid dto upl url (pd_version x + 1)])"
      "y = (if pd_id z = p then z\<lparr>pd_isLatest := False\<rparr> else z)"
      using y unfolding docs set_modify by blast
    show ?thesis
    proof (cases "z \<in> set (pw_documents s)")
      case True
      then have "pd_partnerId z = d_id d \<and> pd_documentType z = PAN \<and> pd_isLatest z \<longrightarrow> pd_id z = p"
        using assms(7) by (simp add: list_all_iff)
      then show ?thesis using z(2) by (cases "pd_id z = p") auto
    next
      case False
      then have "pd_documentType z = AADHAAR" using z(1) assms(9) by (auto simp: newPartnerDocument_def)
      then show ?thesis using z(2) by (cases "pd_id z = p") auto
    qed
  qed
  then have "PAN \<notin> pd_documentType ` set (latestByPartner (d_id d) s')"
    unfolding latestByPartner_def set_sort set_filter image_iff by (metis (mono_tags, lifting) mem_Collect_eq)
  then show ?thesis using x'
    by (simp add: computePartnerCompliance_def Let_def REQUIRED_DOCUMENT_TYPES_def split: prod.split)
qed

section \<open>Compliance\<close>

lemma matches_all: "matches p xs = length xs \<longleftrightarrow> list_all p xs"
proof (induction xs)
  case (Cons x xs)
  then show ?case using matches_le[of p xs] by auto
qed simp

text \<open>
  What a compliant partner has on file.  A snapshot that says compliant means: the verification is
  approved, each of the seven required types has a current document, every current document is
  verified and none has expired or expires within thirty days, and no bank account was rejected.
\<close>

theorem partner_compliant_means:
  assumes "computePartnerCompliance now did s = (n, s')" "sn_overallStatus n = COMPLIANT"
  shows "sn_verificationStage n = DV_APPROVED \<and>
    list_all (\<lambda>ty. list_ex (\<lambda>x. pd_documentType x = ty) (latestByPartner did s)) REQUIRED_DOCUMENT_TYPES \<and>
    list_all (\<lambda>x. pd_status x = VS_VERIFIED \<and>
       (case pd_expiryDate x of None \<Rightarrow> True | Some t \<Rightarrow> now + 30 * 24 * 60 * 60 * 1000 < t)) (latestByPartner did s) \<and>
    sn_bankStatus n \<noteq> Some VS_REJECTED"
proof -
  let ?xs = "latestByPartner did s"
  obtain v rv where v: "delivFindOrCreate did (pw_review s) = (v, rv)" by (cases "delivFindOrCreate did (pw_review s)")
  let ?ver = "matches (\<lambda>x. pd_status x = VS_VERIFIED) ?xs" let ?rej = "matches (\<lambda>x. pd_status x = VS_REJECTED) ?xs"
  let ?missing = "filter (\<lambda>ty. ty \<notin> pd_documentType ` set ?xs) REQUIRED_DOCUMENT_TYPES"
  have n: "n = fst (computePartnerCompliance now did s)" using assms(1) by simp
  have ok: "\<not> (dv_stage v = DV_REJECTED \<or> dv_stage v = DV_SUSPENDED \<or> ?rej > 0 \<or> map_option pb_status (findPartnerBank did s) = Some VS_REJECTED)"
    "\<not> (expiredDocuments now ?xs \<noteq> [] \<or> expiringDocuments now ?xs \<noteq> [] \<or> length ?xs - ?ver - ?rej > 0 \<or> ?missing \<noteq> [] \<or>
        dv_stage v \<noteq> DV_APPROVED)"
    using assms(2) unfolding n computePartnerCompliance_def v by (simp_all add: Let_def split: if_splits)
  have sel: "sn_verificationStage n = dv_stage v" "sn_bankStatus n = map_option pb_status (findPartnerBank did s)"
    unfolding n computePartnerCompliance_def v by (simp_all add: Let_def)
  have "?ver = length ?xs" using ok matches_le[of "\<lambda>x. pd_status x = VS_VERIFIED" ?xs] by auto
  then have "list_all (\<lambda>x. pd_status x = VS_VERIFIED) ?xs" by (simp add: matches_all)
  moreover have "case pd_expiryDate x of None \<Rightarrow> True | Some t \<Rightarrow> now + 30 * 24 * 60 * 60 * 1000 < t" if "x \<in> set ?xs" for x
    using ok(2) that by (cases "pd_expiryDate x")
      (force simp: expiredDocuments_def expiringDocuments_def filter_empty_conv PARTNER_EXPIRY_WINDOW_DAYS_def)+
  moreover have "list_all (\<lambda>ty. list_ex (\<lambda>x. pd_documentType x = ty) ?xs) REQUIRED_DOCUMENT_TYPES"
    using ok(2) by (auto simp: filter_empty_conv list_all_iff list_ex_iff)
  ultimately show ?thesis using ok sel by (auto simp: list_all_iff)
qed

section \<open>Onboarding\<close>

definition undecided :: "partnerOnboarding \<Rightarrow> bool" where
  "undecided ob \<longleftrightarrow> po_status ob \<in> {OB_DRAFT, OB_IN_PROGRESS, OB_UNDER_REVIEW, OB_CHANGES_REQUESTED} \<and> po_decidedAt ob = None"

definition allUndecided :: "paperStore \<Rightarrow> bool" where
  "allUndecided s \<longleftrightarrow> list_all undecided (pw_onboarding s)"

lemma allUndecided_same: "pw_onboarding s' = pw_onboarding s \<Longrightarrow> allUndecided s' = allUndecided s"
  by (simp add: allUndecided_def)

lemma foc_undecided:
  assumes "allUndecided s" "findOrCreatePartnerOnboarding did s = (cur, s1)"
  shows "allUndecided s1 \<and> undecided cur"
  using assms lookup_mem[of po_partnerId did "pw_onboarding s" cur]
  by (auto simp: findOrCreatePartnerOnboarding_def allUndecided_def undecided_def newPartnerOnboarding_def list_all_iff
      split: option.splits)

lemma update_undecided:
  assumes "allUndecided s" "\<And>ob. undecided ob \<Longrightarrow> undecided (f ob)"
  shows "allUndecided (updatePartnerOnboarding did f s)"
  using assms by (auto simp: updatePartnerOnboarding_def allUndecided_def list_all_iff set_modify)

lemma setStatus_undecided:
  assumes "allUndecided s" "st \<in> {OB_UNDER_REVIEW, OB_CHANGES_REQUESTED}"
    and "\<And>ob. po_status (g ob) = po_status ob" "\<And>ob. po_decidedAt (g ob) = po_decidedAt ob"
  shows "allUndecided (setPartnerOnboardingStatus did st g s)"
  unfolding setPartnerOnboardingStatus_def
  by (rule update_undecided) (use assms foc_undecided[OF assms(1) prod.collapse[symmetric]] in \<open>auto simp: undecided_def\<close>)

lemma other_onboarding:
  "pw_onboarding (snd (createVehicle id uuid now uid cd s)) = pw_onboarding s"
  "pw_onboarding (snd (updateVehicle uid i ud s)) = pw_onboarding s"
  "pw_onboarding (snd (setPrimaryVehicle uid i s)) = pw_onboarding s"
  "pw_onboarding (snd (deactivateVehicle uid i s)) = pw_onboarding s"
  "pw_onboarding (snd (uploadPartnerDocument id stored uuid now uid pdto upl s)) = pw_onboarding s"
  "pw_onboarding (snd (verifyPartnerDocument now did i admin s)) = pw_onboarding s"
  "pw_onboarding (snd (rejectPartnerDocument now did i reason admin s)) = pw_onboarding s"
  "pw_onboarding (snd (removePartnerDocument now uid i s)) = pw_onboarding s"
  by (auto simp: createVehicle_def updateVehicle_def setPrimaryVehicle_def deactivateVehicle_def ownedVehicle_def
      setPrimaryRow_def unsetAllPrimary_def mapVehicles_def uploadPartnerDocument_def verifyPartnerDocument_def
      rejectPartnerDocument_def removePartnerDocument_def partnersDocument_def asPartner_def mapDocuments_def Let_def
      split: option.split sum.split prod.split)

lemma bank_onboarding:
  "pw_onboarding (snd (upsertPartnerBank enc uid b s)) = pw_onboarding s"
  "pw_onboarding (snd (verifyPartnerBank now did admin s)) = pw_onboarding s"
  "pw_onboarding (snd (rejectPartnerBank did admin s)) = pw_onboarding s"
  by (subst bank_frame, simp)+

lemma allUndecided_op:
  assumes s: "allUndecided s" shows "allUndecided (runPaperOp q s)"
proof (cases q)
  case (TakeStep uid k)
  have "allUndecided (snd (completePartnerStep id uid k s))" unfolding completePartnerStep_def
  proof (rule asPartner_post[where P = allUndecided, OF s])
    fix d
    obtain cur s1 where c: "findOrCreatePartnerOnboarding (d_id d) s = (cur, s1)" by fastforce
    have "allUndecided (markPartnerStep id (d_id d) k s)"
      using foc_undecided[OF s c] by (auto simp: markPartnerStep_def c undecided_def intro!: update_undecided)
    then show "allUndecided (snd (if k < 1 \<or> DELIVERY_ONBOARDING_TOTAL_STEPS < k then (Inl (BadRequest ''step out of bounds''), s)
        else (Inr (), logPaper uid ''DeliveryOnboarding'' (d_id d) ''UPDATE'' (markPartnerStep id (d_id d) k s))))"
      using s by (simp add: allUndecided_def)
  qed
  then show ?thesis by (simp add: TakeStep)
next
  case (SubmitWizard now uid)
  have "allUndecided (snd (submitPartnerOnboarding id id now uid s))" unfolding submitPartnerOnboarding_def
  proof (rule asPartner_post[where P = allUndecided, OF s])
    fix d
    obtain cur s1 where c: "findOrCreatePartnerOnboarding (d_id d) s = (cur, s1)" by fastforce
    have s1: "allUndecided (s1\<lparr>pw_review := rv\<rparr>)" for rv using foc_undecided[OF s c] by (simp add: allUndecided_def)
    show "allUndecided (snd (let (cur, s1) = findOrCreatePartnerOnboarding (d_id d) s;
           missing = filter (\<lambda>k. k \<notin> set (po_completedSteps cur)) PARTNER_STEPS_BEFORE_SUBMIT;
           resubmission = (po_status cur = OB_CHANGES_REQUESTED)
       in if missing \<noteq> [] then (Inl (BadRequest ''Complete steps before submitting''), s1)
          else if po_status cur \<notin> {OB_DRAFT, OB_IN_PROGRESS, OB_CHANGES_REQUESTED}
          then (Inl (BadRequest ''cannot be submitted''), s1)
          else
            (case (if resubmission then (Inr (), pw_review s1) else delivSubmit now id uid (pw_review s1)) of
               (Inl e, rv) \<Rightarrow> (Inl e, s1\<lparr>pw_review := rv\<rparr>)
             | (Inr _, rv) \<Rightarrow>
                 (Inr (), logPaper uid ''DeliveryOnboarding'' (d_id d) ''STATUS_CHANGE''
                   (setPartnerOnboardingStatus (d_id d) OB_UNDER_REVIEW
                      (\<lambda>ob. ob\<lparr>po_termsAcceptedAt := Some now, po_submittedAt := Some now,
                         po_changesRequested := (if resubmission then [] else po_changesRequested ob)\<rparr>)
                      (id (s1\<lparr>pw_review := rv\<rparr>)))))))"
      unfolding c Let_def prod.case
      using foc_undecided[OF s c] s1
      by (auto simp: allUndecided_same[of "logPaper _ _ _ _ _"] intro!: setStatus_undecided split: prod.split sum.split)
  qed
  then show ?thesis by (simp add: SubmitWizard)
next
  case (AskChanges did items admin)
  have "allUndecided (setPartnerOnboardingStatus did OB_CHANGES_REQUESTED (\<lambda>ob. ob\<lparr>po_changesRequested := items\<rparr>) s)"
    by (rule setStatus_undecided[OF s]) simp_all
  then show ?thesis using s by (simp add: AskChanges requestPartnerChanges_def allUndecided_def split: option.split)
qed (use s in \<open>simp_all add: allUndecided_def other_onboarding bank_onboarding\<close>)

text \<open>
  Onboarding is never decided.  No request, the administrator's approval or rejection of the
  verification included, ever marks a delivery partner's onboarding approved or rejected or sets its
  decision time: an approved partner's application stays under review.
\<close>

theorem onboarding_never_decided:
  assumes "pw_onboarding s = []"
  shows "list_all (\<lambda>ob. po_status ob \<notin> {OB_APPROVED, OB_REJECTED} \<and> po_decidedAt ob = None)
    (pw_onboarding (foldl (\<lambda>s q. runPaperOp q s) s qs))"
proof -
  have "allUndecided s" using assms by (simp add: allUndecided_def)
  then have "allUndecided (foldl (\<lambda>s q. runPaperOp q s) s qs)"
    by (induction qs arbitrary: s) (simp_all add: allUndecided_op)
  then show ?thesis by (auto simp: allUndecided_def undecided_def list_all_iff)
qed

text \<open>
  When an application is accepted.  With nobody interfering, a partner's submission succeeds exactly
  when the eleven steps before the review are complete and either the application was sent back for
  changes or it is a first submission whose verification is still a draft; an administrator who has
  already advanced the draft has locked the partner out.
\<close>

theorem submission_accepted_iff:
  assumes "findPartnerByUserId uid (rvw (pw_review s)) = Some d" "keyed dv_partnerId (dv_rows (pw_review s))"
    and "lookup po_partnerId (d_id d) (pw_onboarding s) = Some ob" "lookup dv_partnerId (d_id d) (dv_rows (pw_review s)) = Some v"
  shows "ok (fst (submitPartnerOnboarding id id now uid s)) \<longleftrightarrow>
    list_all (\<lambda>k. k \<in> set (po_completedSteps ob)) [1..11] \<and>
    (po_status ob = OB_CHANGES_REQUESTED \<or> po_status ob \<in> {OB_DRAFT, OB_IN_PROGRESS} \<and> dv_stage v = DV_DRAFT)"
proof -
  have foc: "findOrCreatePartnerOnboarding (d_id d) s = (ob, s)" using assms(3) by (simp add: findOrCreatePartnerOnboarding_def)
  have dfoc: "delivFindOrCreate (d_id d) (pw_review s) = (v, pw_review s)" using assms(4) by (simp add: delivFindOrCreate_def)
  have sub: "ok (fst (delivSubmit now id uid (pw_review s))) \<longleftrightarrow> dv_stage v = DV_DRAFT"
  proof (cases "dv_stage v = DV_DRAFT")
    case True
    have "matches (\<lambda>x. dv_partnerId x = d_id d \<and> dv_stage x \<in> set [DV_DRAFT]) (dv_rows (pw_review s)) \<noteq> 0"
      using assms(4) True lookup_SomeD[OF assms(4)] by (auto simp: matches_0_iff)
    then show ?thesis using True assms(1)
      by (simp add: delivSubmit_def dfoc claimDelivStage_def delivClaimed_def Let_def)
  qed (use assms(1) in \<open>simp add: delivSubmit_def dfoc\<close>)
  have miss: "filter (\<lambda>k. k \<notin> set (po_completedSteps ob)) PARTNER_STEPS_BEFORE_SUBMIT = [] \<longleftrightarrow>
      list_all (\<lambda>k. k \<in> set (po_completedSteps ob)) [1..11]"
    by (simp add: PARTNER_STEPS_BEFORE_SUBMIT_def DELIVERY_ONBOARDING_TOTAL_STEPS_def filter_empty_conv list_all_iff)
  obtain out rv where out: "delivSubmit now id uid (pw_review s) = (out, rv)" by fastforce
  show ?thesis using sub unfolding out
    by (cases out) (auto simp: submitPartnerOnboarding_def asPartner_def assms(1) foc Let_def out miss)
qed

section \<open>The properties on a concrete partner\<close>

definition courier :: partner where
  "courier = \<lparr>d_id = ''d1'', d_userId = ''u1'', d_status = OFFLINE, d_isVerified = False, d_latitude = None, d_longitude = None\<rparr>"

definition courierReview :: "delivStage \<Rightarrow> reviewStore" where
  "courierReview st = \<lparr>rvw = emptyWorld\<lparr>w_partners := [courier]\<rparr>, rv_rows = [],
     dv_rows = [\<lparr>dv_partnerId = ''d1'', dv_stage = st, dv_submittedAt = None, dv_decidedAt = None, dv_rejectedReason = None\<rparr>],
     dv_history = [], on_rows = []\<rparr>"

definition courierDesk :: "delivStage \<Rightarrow> partnerDocument list \<Rightarrow> partnerOnboarding list \<Rightarrow> paperStore" where
  "courierDesk st xs obs = \<lparr>pw_review = courierReview st, pw_vehicles = [], pw_documents = xs, pw_versions = [], pw_bank = [],
     pw_onboarding = obs, pw_snapshots = [], pw_published = []\<rparr>"

definition scooter :: createVehicleDto where
  "scooter = \<lparr>cv_vehicleType = ''BIKE'', cv_registrationNumber = ''KA01'', cv_brand = None, cv_model = None, cv_year = None,
     cv_fuelType = None, cv_color = None, cv_isPrimary = Some True\<rparr>"

definition paperFor :: "string \<Rightarrow> deliveryDocumentType \<Rightarrow> partnerDocument" where
  "paperFor i ty = \<lparr>pd_id = i, pd_partnerId = ''d1'', pd_vehicleId = None, pd_documentType = ty, pd_documentNumber = None,
     pd_issueDate = None, pd_expiryDate = None, pd_status = VS_VERIFIED, pd_storageUrl = [], pd_fileName = [],
     pd_uploadedById = ''u1'', pd_verifiedById = None, pd_verifiedAt = None, pd_rejectedReason = None, pd_version = 1,
     pd_isLatest = True, pd_previousVersionId = None, pd_deletedAt = None, pd_createdAt = 0\<rparr>"

lemma courier_found: "findPartnerByUserId ''u1'' (rvw (pw_review (courierDesk st xs obs))) = Some courier" "d_id courier = ''d1''"
  by (simp_all add: findPartnerByUserId_def courierDesk_def courierReview_def courier_def)

theorem one_primary_vehicle_witness:
  "matches (\<lambda>v. ve_partnerId v = ''d1'' \<and> ve_isPrimary v) (pw_vehicles (foldl (\<lambda>s q. runPaperOp q s) (courierDesk DV_DRAFT [] [])
      [AddVehicle ''v1'' 1 ''u1'' scooter, AddVehicle ''v2'' 2 ''u1'' scooter])) \<le> 1"
proof -
  let ?s = "courierDesk DV_DRAFT [] []"
  have one: "pw_vehicles (runPaperOp (AddVehicle ''v1'' 1 ''u1'' scooter) ?s) = [newVehicle ''v1'' 1 ''d1'' True scooter]"
    by (simp add: createVehicle_def asPartner_def courier_found Let_def activeVehicles_def scooter_def)
      (simp add: courierDesk_def)
  have "freshVehicle ([AddVehicle ''v1'' 1 ''u1'' scooter, AddVehicle ''v2'' 2 ''u1'' scooter] ! n)
      (foldl (\<lambda>s q. runPaperOp q s) ?s (take n [AddVehicle ''v1'' 1 ''u1'' scooter, AddVehicle ''v2'' 2 ''u1'' scooter]))"
    if "n < 2" for n
  proof (cases n)
    case 0
    then show ?thesis by (simp add: freshVehicle_def courierDesk_def)
  next
    case (Suc k)
    then have "n = 1" using that by simp
    then show ?thesis using one by (simp add: freshVehicle_def newVehicle_def del: runPaperOp.simps)
  qed
  then show ?thesis
    using one_primary_vehicle[of ?s "[AddVehicle ''v1'' 1 ''u1'' scooter, AddVehicle ''v2'' 2 ''u1'' scooter]" "''d1''"]
    by (simp add: courierDesk_def del: runPaperOp.simps foldl_Cons) 
qed

definition swapForm :: uploadPartnerDocumentDto where
  "swapForm = \<lparr>up_documentType = AADHAAR, up_documentNumber = None, up_issueDate = None, up_expiryDate = None,
     up_vehicleId = None, up_previousVersionId = Some ''p1''\<rparr>"

definition scanFile :: uploadedFile where
  "scanFile = \<lparr>fl_originalname = ''scan.pdf'', fl_mimetype = ''application/pdf'', fl_size = 10\<rparr>"

theorem other_type_replaced_witness:
  "\<exists>x' s'. uploadPartnerDocument id (Inr ''url'') ''p2'' 5 ''u1'' swapForm scanFile (courierDesk DV_DRAFT [paperFor ''p1'' PAN] []) = (Inr x', s') \<and>
     pd_version x' = 2 \<and> PAN \<in> set (sn_missingDocumentTypes (fst (computePartnerCompliance 6 ''d1'' s')))"
proof -
  let ?s = "courierDesk DV_DRAFT [paperFor ''p1'' PAN] []"
  have x: "findPartnerDocument ''p1'' ?s = Some (paperFor ''p1'' PAN)"
    by (simp add: findPartnerDocument_def courierDesk_def paperFor_def)
  obtain x' s' where u: "uploadPartnerDocument id (Inr ''url'') ''p2'' 5 ''u1'' swapForm scanFile ?s = (Inr x', s')"
    by (simp add: uploadPartnerDocument_def asPartner_def courier_found previousPartnerVersion_def x swapForm_def Let_def)
      (simp add: paperFor_def courier_found Let_def)
  have "pd_version x' = pd_version (paperFor ''p1'' PAN) + 1 \<and>
      PAN \<in> set (sn_missingDocumentTypes (fst (computePartnerCompliance 6 (d_id courier) s')))"
    by (rule other_type_replaced[OF courier_found(1) _ x _ _ _ _ _ _ _ _ u])
      (simp_all add: keyed_def courierDesk_def paperFor_def courier_def swapForm_def)
  then show ?thesis using u by (simp add: courier_found(2) paperFor_def)
qed

theorem partner_compliant_means_witness:
  "list_all (\<lambda>ty. list_ex (\<lambda>x. pd_documentType x = ty)
      (latestByPartner ''d1'' (courierDesk DV_APPROVED (map (\<lambda>ty. paperFor [] ty) REQUIRED_DOCUMENT_TYPES) []))) REQUIRED_DOCUMENT_TYPES"
proof -
  let ?s = "courierDesk DV_APPROVED (map (\<lambda>ty. paperFor [] ty) REQUIRED_DOCUMENT_TYPES) []"
  have latest: "latestByPartner ''d1'' ?s = map (\<lambda>ty. paperFor [] ty) REQUIRED_DOCUMENT_TYPES"
    by (simp add: latestByPartner_def courierDesk_def REQUIRED_DOCUMENT_TYPES_def paperFor_def)
  have d: "delivFindOrCreate ''d1'' (pw_review ?s) = (\<lparr>dv_partnerId = ''d1'', dv_stage = DV_APPROVED, dv_submittedAt = None,
      dv_decidedAt = None, dv_rejectedReason = None\<rparr>, pw_review ?s)"
    by (simp add: delivFindOrCreate_def courierDesk_def courierReview_def)
  have "sn_overallStatus (fst (computePartnerCompliance 6 ''d1'' ?s)) = COMPLIANT"
    unfolding computePartnerCompliance_def d latest
    by (simp add: Let_def findPartnerBank_def REQUIRED_DOCUMENT_TYPES_def paperFor_def expiredDocuments_def expiringDocuments_def
        courierDesk_def[of DV_APPROVED])
  from partner_compliant_means[OF prod.collapse[symmetric] this] show ?thesis by simp
qed

theorem onboarding_never_decided_witness:
  "list_all (\<lambda>ob. po_status ob \<notin> {OB_APPROVED, OB_REJECTED} \<and> po_decidedAt ob = None)
    (pw_onboarding (foldl (\<lambda>s q. runPaperOp q s) (courierDesk DV_UNDER_REVIEW [] []) [TakeStep ''u1'' 1, AdvanceStage 5 ''d1'' ''root'']))"
  by (rule onboarding_never_decided) (simp add: courierDesk_def)

definition readyWizard :: partnerOnboarding where
  "readyWizard = (newPartnerOnboarding ''d1'')\<lparr>po_status := OB_IN_PROGRESS, po_completedSteps := [1,2,3,4,5,6,7,8,9,10,11]\<rparr>"

theorem submission_accepted_iff_witness:
  "ok (fst (submitPartnerOnboarding id id 5 ''u1'' (courierDesk DV_DRAFT [] [readyWizard]))) \<and>
   \<not> ok (fst (submitPartnerOnboarding id id 5 ''u1'' (courierDesk DV_SUBMITTED [] [readyWizard])))"
proof -
  have steps: "list_all (\<lambda>k. k \<in> set (po_completedSteps readyWizard)) [1..11]"
    by (simp add: readyWizard_def upto.simps)
  have iff: "ok (fst (submitPartnerOnboarding id id 5 ''u1'' (courierDesk st [] [readyWizard]))) \<longleftrightarrow> st = DV_DRAFT" for st
    using submission_accepted_iff[of "''u1''" "courierDesk st [] [readyWizard]" courier readyWizard
        "\<lparr>dv_partnerId = ''d1'', dv_stage = st, dv_submittedAt = None, dv_decidedAt = None, dv_rejectedReason = None\<rparr>" 5] steps
    by (simp add: courier_found) (simp add: courierDesk_def courierReview_def keyed_def readyWizard_def newPartnerOnboarding_def)
  show ?thesis unfolding iff by simp
qed

end
