(* ===== verification/Listings.thy ===== *)
theory Listings
  imports ReportsSafety Auth
begin

text \<open>
  What is shown of an order: one order with its rider, a customer's orders, a restaurant's orders and
  dashboard (the read side of \<^verbatim>\<open>orders.service.ts\<close> and its repository).  The rows that a query includes
  from other tables come from a \<open>directory\<close>: users, the names of restaurants, items and variants, and
  the columns of partners, payments and refunds that nothing else reads.
  \<open>offset\<close> is the server's distance from UTC; an order's \<^verbatim>\<open>createdAt\<close> is its \<^verbatim>\<open>placedAt\<close>, both written
  by the insert.
\<close>

section \<open>Included rows\<close>

record directory =
  dr_user :: "string \<Rightarrow> account"
  dr_restaurantName :: "string \<Rightarrow> string"
  dr_itemName :: "string \<Rightarrow> string option"
  dr_variantName :: "string \<Rightarrow> string option"
  dr_vehicleType :: "string \<Rightarrow> string"
  dr_vehicleNumber :: "string \<Rightarrow> string"
  dr_licenseNumber :: "string \<Rightarrow> string option"
  dr_registered :: "string \<Rightarrow> int"
  dr_provider :: "string \<Rightarrow> string"
  dr_refundReason :: "string \<Rightarrow> string option"
  dr_refundedAt :: "string \<Rightarrow> int"

record contact =
  ct_id :: string
  ct_firstName :: string
  ct_lastName :: "string option"
  ct_email :: "string option"
  ct_phone :: "string option"

definition contactOf :: "account \<Rightarrow> contact" where
  "contactOf a = \<lparr>ct_id = ua_id a, ct_firstName = ua_firstName a, ct_lastName = ua_lastName a, ct_email = ua_email a,
     ct_phone = ua_phone a\<rparr>"

record 'a listPage =
  lp_items :: "'a list"
  lp_total :: nat
  lp_page :: nat
  lp_limit :: nat
  lp_totalPages :: nat

definition listPage :: "nat \<Rightarrow> nat \<Rightarrow> ('r \<Rightarrow> 'a) \<Rightarrow> 'r list \<Rightarrow> 'a listPage" where
  "listPage page limit f rows =
     \<lparr>lp_items = map f (skipTake ((page - 1) * limit) limit rows), lp_total = length rows, lp_page = page, lp_limit = limit,
      lp_totalPages = totalPages (length rows) limit\<rparr>"

definition inPeriod :: "int option \<Rightarrow> int option \<Rightarrow> int \<Rightarrow> bool" where
  "inPeriod dateFrom dateTo t \<longleftrightarrow>
     (case dateFrom of None \<Rightarrow> True | Some a \<Rightarrow> a \<le> t) \<and> (case dateTo of None \<Rightarrow> True | Some b \<Rightarrow> t \<le> b)"

definition given :: "'a option \<Rightarrow> 'a \<Rightarrow> bool" where
  "given v x \<longleftrightarrow> (case v of None \<Rightarrow> True | Some y \<Rightarrow> x = y)"

definition mentions :: "string option \<Rightarrow> string option list \<Rightarrow> bool" where
  "mentions search texts \<longleftrightarrow>
     \<not> truthy search \<or> list_ex (\<lambda>t. case t of None \<Rightarrow> False | Some s \<Rightarrow> containsInsensitive (the search) s) texts"

text \<open>Newest first.\<close>

definition newestFirst :: "('r \<Rightarrow> int) \<Rightarrow> 'r list \<Rightarrow> 'r list" where
  "newestFirst key rows = sort_key (\<lambda>r. - key r) rows"

record orderLineView =
  ol_item :: orderItem
  ol_menuItemName :: "string option"
  ol_variantName :: "string option"

definition flattenOrderItems :: "directory \<Rightarrow> orderItem list \<Rightarrow> orderLineView list" where
  "flattenOrderItems d = 
     map (\<lambda>i. \<lparr>ol_item = i, ol_menuItemName = dr_itemName d (i_menuItemId i),
                ol_variantName = Option.bind (i_variantId i) (dr_variantName d)\<rparr>)"

section \<open>One order\<close>

text \<open>
  \<^verbatim>\<open>OrdersRepository.findOrderById\<close> includes the rider's complete user row and partner profile.  One
  reader, \<open>getOrderById\<close>, cuts it down to a contact; \<open>switchToCod\<close> answers with the row itself.
\<close>

record orderRow =
  ow_order :: order
  ow_history :: "statusHistory list"
  ow_deliveryPartner :: "(account \<times> partner option) option"

definition statusHistoryOf :: "string \<Rightarrow> world \<Rightarrow> statusHistory list" where
  "statusHistoryOf oid w = sort_key h_createdAt (filter (\<lambda>h. h_orderId h = oid) (w_history w))"

definition includeRelations :: "directory \<Rightarrow> world \<Rightarrow> order \<Rightarrow> orderRow" where
  "includeRelations d w ord =
     \<lparr>ow_order = ord, ow_history = statusHistoryOf (o_id ord) w,
      ow_deliveryPartner =
        map_option (\<lambda>rid. (dr_user d rid, lookup d_userId rid (w_partners w))) (o_deliveryPartnerId ord)\<rparr>"

record riderView =
  rv_id :: string
  rv_firstName :: string
  rv_lastName :: "string option"
  rv_phone :: "string option"
  rv_vehicleType :: "string option"
  rv_vehicleNumber :: "string option"

record orderView =
  ov_order :: order
  ov_history :: "statusHistory list"
  ov_lines :: "orderLineView list"
  ov_deliveryPartner :: "riderView option"

definition toRiderView :: "directory \<Rightarrow> account \<times> partner option \<Rightarrow> riderView" where
  "toRiderView d r =
     \<lparr>rv_id = ua_id (fst r), rv_firstName = ua_firstName (fst r), rv_lastName = ua_lastName (fst r),
      rv_phone = ua_phone (fst r), rv_vehicleType = map_option (\<lambda>p. dr_vehicleType d (d_id p)) (snd r),
      rv_vehicleNumber = map_option (\<lambda>p. dr_vehicleNumber d (d_id p)) (snd r)\<rparr>"

definition getOrderById :: "directory \<Rightarrow> string \<Rightarrow> authUser \<Rightarrow> world \<Rightarrow> orderView result" where
  "getOrderById d oid u w =
     (case findOrderById oid w of
        None \<Rightarrow> Inl (NotFound ''Order'')
      | Some ord \<Rightarrow>
          andThen (assertOrderAccess w ord u) (\<lambda>_.
            let r = includeRelations d w ord
            in Inr \<lparr>ov_order = ord, ov_history = ow_history r, ov_lines = flattenOrderItems d (o_items ord),
                    ov_deliveryPartner = map_option (toRiderView d) (ow_deliveryPartner r)\<rparr>))"

text \<open>The answer of \<^const>\<open>switchToCod\<close>: the order it returns, as the repository read it.\<close>

definition switchToCodReply ::
  "directory \<Rightarrow> (world \<Rightarrow> world) \<Rightarrow> string \<Rightarrow> authUser \<Rightarrow> world \<Rightarrow> orderRow result" where
  "switchToCodReply d env oid u w =
     (case switchToCod env oid u w of (Inl e, w') \<Rightarrow> Inl e | (Inr ord, w') \<Rightarrow> Inr (includeRelations d w' ord))"

section \<open>A customer's and a restaurant's orders\<close>

record customerOrdersQuery =
  coq_page :: nat
  coq_limit :: nat
  coq_search :: "string option"
  coq_status :: "orderStatus option"
  coq_dateFrom :: "int option"
  coq_dateTo :: "int option"

record customerOrderView =
  cv_order :: order
  cv_restaurantName :: string
  cv_lines :: "orderLineView list"

definition findCustomerOrders :: "directory \<Rightarrow> string \<Rightarrow> customerOrdersQuery \<Rightarrow> world \<Rightarrow> order list" where
  "findCustomerOrders d cid q w =
     newestFirst o_placedAt (filter (\<lambda>ord. o_customerId ord = cid \<and> given (coq_status q) (o_status ord) \<and>
        inPeriod (coq_dateFrom q) (coq_dateTo q) (o_placedAt ord) \<and>
        mentions (coq_search q) [Some (o_orderNumber ord), Some (dr_restaurantName d (o_restaurantId ord))]) (w_orders w))"

definition toCustomerOrder :: "directory \<Rightarrow> order \<Rightarrow> customerOrderView" where
  "toCustomerOrder d ord =
     \<lparr>cv_order = ord, cv_restaurantName = dr_restaurantName d (o_restaurantId ord), cv_lines = flattenOrderItems d (o_items ord)\<rparr>"

definition getCustomerOrders :: "directory \<Rightarrow> string \<Rightarrow> customerOrdersQuery \<Rightarrow> world \<Rightarrow> customerOrderView listPage" where
  "getCustomerOrders d cid q w = listPage (coq_page q) (coq_limit q) (toCustomerOrder d) (findCustomerOrders d cid q w)"

definition findRestaurantOrders :: "string \<Rightarrow> world \<Rightarrow> order list" where
  "findRestaurantOrders rid w = newestFirst o_placedAt (filter (\<lambda>ord. o_restaurantId ord = rid) (w_orders w))"

definition getRestaurantOrders ::
  "directory \<Rightarrow> string \<Rightarrow> authUser \<Rightarrow> world \<Rightarrow> (order \<times> (string \<times> string \<times> string option) \<times> orderLineView list) list result" where
  "getRestaurantOrders d rid u w =
     andThen (assertRestaurantAccess w rid u) (\<lambda>_.
       Inr (map (\<lambda>ord. let c = dr_user d (o_customerId ord)
                       in (ord, (ua_id c, ua_firstName c, ua_lastName c), flattenOrderItems d (o_items ord)))
              (findRestaurantOrders rid w)))"

section \<open>The restaurant dashboard\<close>

definition getDashboardWindowOrders :: "string \<Rightarrow> int \<Rightarrow> string option \<Rightarrow> world \<Rightarrow> order list" where
  "getDashboardWindowOrders rid since branch w =
     filter (\<lambda>ord. o_restaurantId ord = rid \<and> (truthy branch \<longrightarrow> o_branchId ord = branch) \<and> since \<le> o_placedAt ord) (w_orders w)"

definition readyAt :: "world \<Rightarrow> order \<Rightarrow> int option" where
  "readyAt w ord = map_option h_createdAt (find (\<lambda>h. h_orderId h = o_id ord \<and> h_status h = READY_FOR_PICKUP) (w_history w))"

record sellingItem =
  si_menuItemId :: string
  si_name :: string
  si_quantitySold :: int

definition getTopSellingItems :: "directory \<Rightarrow> string \<Rightarrow> int \<Rightarrow> nat \<Rightarrow> string option \<Rightarrow> world \<Rightarrow> sellingItem list" where
  "getTopSellingItems d rid since tk branch w =
     (let items = concat (map o_items (getDashboardWindowOrders rid since branch w));
          grouped = map (\<lambda>g. (fst g, sum_list (map i_quantity (snd g)))) (groupOn i_menuItemId items)
      in map (\<lambda>g. \<lparr>si_menuItemId = fst g,
                    si_name = (case dr_itemName d (fst g) of None \<Rightarrow> ''Unknown item'' | Some n \<Rightarrow> n),
                    si_quantitySold = snd g\<rparr>)
           (take tk (sort_key (\<lambda>g. - snd g) grouped)))"

definition getRecentOrders :: "string \<Rightarrow> nat \<Rightarrow> string option \<Rightarrow> world \<Rightarrow> order list" where
  "getRecentOrders rid tk branch w =
     take tk (newestFirst o_placedAt
       (filter (\<lambda>ord. o_restaurantId ord = rid \<and> (truthy branch \<longrightarrow> o_branchId ord = branch)) (w_orders w)))"

definition localHour :: "int \<Rightarrow> int \<Rightarrow> int" where
  "localHour offset t = ((t + offset) div 3600000) mod 24"

definition peakHours :: "int \<Rightarrow> order list \<Rightarrow> (int \<times> nat) list" where
  "peakHours offset orders =
     sort_key (\<lambda>g. - int (snd g)) (map (\<lambda>g. (fst g, length (snd g))) (groupOn (\<lambda>ord. localHour offset (o_placedAt ord)) orders))"

definition prepMinutes :: "world \<Rightarrow> order list \<Rightarrow> rat list" where
  "prepMinutes w orders =
     List.map_filter (\<lambda>ord. map_option (\<lambda>t. of_int (t - o_placedAt ord) / 60000) (readyAt w ord)) orders"

definition countWhere :: "(orderStatus \<Rightarrow> bool) \<Rightarrow> order list \<Rightarrow> nat" where
  "countWhere p orders = length (filter (\<lambda>ord. p (o_status ord)) orders)"

definition percent :: "nat \<Rightarrow> nat \<Rightarrow> rat" where
  "percent part whole = (if 0 < whole then of_nat part / of_nat whole * 100 else 0)"

definition roundTenth :: "rat \<Rightarrow> rat" where
  "roundTenth x = of_int (mathRound (x * 10)) / 10"

record restaurantDashboard =
  db_ordersToday :: nat
  db_revenueToday :: rat
  db_revenueThisWeek :: rat
  db_revenueThisMonth :: rat
  db_accepted :: nat
  db_rejected :: nat
  db_preparing :: nat
  db_ready :: nat
  db_completed :: nat
  db_averagePreparationTimeMinutes :: "int option"
  db_acceptanceRate :: rat
  db_cancellationRate :: rat
  db_topSellingItems :: "sellingItem list"
  db_peakHours :: "(int \<times> nat) list"
  db_recentOrders :: "(string \<times> string \<times> orderStatus \<times> rat \<times> string \<times> int) list"

definition recentOrderView :: "directory \<Rightarrow> order \<Rightarrow> string \<times> string \<times> orderStatus \<times> rat \<times> string \<times> int" where
  "recentOrderView d ord =
     (let c = dr_user d (o_customerId ord)
      in (o_id ord, o_orderNumber ord, o_status ord, o_total ord,
          trim (ua_firstName c @ '' '' @ (case ua_lastName c of None \<Rightarrow> [] | Some s \<Rightarrow> s)), o_placedAt ord))"

definition todaysOrders :: "int \<Rightarrow> int \<Rightarrow> order list \<Rightarrow> order list" where
  "todaysOrders offset now = filter (\<lambda>ord. startOfDay offset now \<le> o_placedAt ord)"

definition getRestaurantDashboard ::
  "directory \<Rightarrow> int \<Rightarrow> int \<Rightarrow> string \<Rightarrow> authUser \<Rightarrow> string option \<Rightarrow> world \<Rightarrow> restaurantDashboard result" where
  "getRestaurantDashboard d offset now rid u branch w =
     andThen (assertRestaurantAccess w rid u) (\<lambda>_.
       let since30Days = now - 30 * DAY_MS;
           windowOrders = getDashboardWindowOrders rid since30Days branch w;
           today = todaysOrders offset now windowOrders;
           thisWeek = filter (\<lambda>ord. now - 7 * DAY_MS \<le> o_placedAt ord) windowOrders;
           accepted = countWhere (\<lambda>s. s \<noteq> PENDING \<and> s \<noteq> CANCELLED) today;
           rejected = countWhere (\<lambda>s. s = CANCELLED) today;
           prep = prepMinutes w today
       in Inr \<lparr>db_ordersToday = length today,
               db_revenueToday = amountOf o_total today,
               db_revenueThisWeek = amountOf o_total thisWeek,
               db_revenueThisMonth = amountOf o_total windowOrders,
               db_accepted = accepted, db_rejected = rejected,
               db_preparing = countWhere (\<lambda>s. s = PREPARING) today,
               db_ready = countWhere (\<lambda>s. s = READY_FOR_PICKUP) today,
               db_completed = countWhere (\<lambda>s. s = DELIVERED) today,
               db_averagePreparationTimeMinutes =
                 (if prep = [] then None else Some (mathRound (sum_list prep / of_nat (length prep)))),
               db_acceptanceRate = roundTenth (percent accepted (accepted + rejected)),
               db_cancellationRate = roundTenth (percent rejected (length today)),
               db_topSellingItems = getTopSellingItems d rid since30Days 5 branch w,
               db_peakHours = peakHours offset windowOrders,
               db_recentOrders = map (recentOrderView d) (getRecentOrders rid 10 branch w)\<rparr>)"

end
