(* ===== verification/AdminListings.thy ===== *)
theory AdminListings
  imports Listings
begin

text \<open>
  What administrators see: the listings of orders, payments and delivery partners with their filters,
  the riders available for a manual assignment, and the counters of the dashboard (\<^verbatim>\<open>getAllForAdmin\<close> of the orders, payments and delivery services and the
  \<^verbatim>\<open>findAllForAdmin\<close> of their repositories, \<^verbatim>\<open>admin-dispatch.service.ts\<close>, \<^verbatim>\<open>admin.service.ts\<close>).  A row's
  \<^verbatim>\<open>order\<close>, \<^verbatim>\<open>customer\<close> and \<^verbatim>\<open>user\<close> exist by foreign keys.  Health is not part of the dashboard here.
\<close>

section \<open>Orders\<close>

definition matchesId :: "string option \<Rightarrow> string option \<Rightarrow> bool" where
  "matchesId v x \<longleftrightarrow> \<not> truthy v \<or> x = v"

record adminOrdersQuery =
  bq_page :: nat
  bq_limit :: nat
  bq_search :: "string option"
  bq_status :: "orderStatus option"
  bq_paymentStatus :: "paymentStatus option"
  bq_restaurantId :: "string option"
  bq_customerId :: "string option"
  bq_deliveryPartnerId :: "string option"
  bq_dateFrom :: "int option"
  bq_dateTo :: "int option"

definition findAllOrdersForAdmin :: "directory \<Rightarrow> adminOrdersQuery \<Rightarrow> world \<Rightarrow> order list" where
  "findAllOrdersForAdmin d q w =
     newestFirst o_placedAt (filter (\<lambda>ord.
       given (bq_status q) (o_status ord) \<and> given (bq_paymentStatus q) (o_paymentStatus ord) \<and>
       matchesId (bq_restaurantId q) (Some (o_restaurantId ord)) \<and>
       matchesId (bq_customerId q) (Some (o_customerId ord)) \<and>
       matchesId (bq_deliveryPartnerId q) (o_deliveryPartnerId ord) \<and>
       inPeriod (bq_dateFrom q) (bq_dateTo q) (o_placedAt ord) \<and>
       (let c = dr_user d (o_customerId ord)
        in mentions (bq_search q) [Some (o_orderNumber ord), Some (ua_firstName c), ua_lastName c, ua_email c,
             Some (dr_restaurantName d (o_restaurantId ord))])) (w_orders w))"

record adminOrderView =
  av_order :: order
  av_customer :: contact
  av_restaurant :: "string \<times> string"
  av_deliveryPartner :: "(string \<times> string \<times> string option \<times> string option) option"
  av_payment :: "(transactionStatus \<times> rat \<times> paymentMethod option \<times> string) option"
  av_lines :: "orderLineView list"
  av_history :: "statusHistory list"

definition latestPayment :: "string \<Rightarrow> world \<Rightarrow> payment option" where
  "latestPayment oid w = find (\<lambda>_. True) (newestFirst p_createdAt (filter (\<lambda>p. p_orderId p = oid) (w_payments w)))"

definition toAdminOrder :: "directory \<Rightarrow> world \<Rightarrow> order \<Rightarrow> adminOrderView" where
  "toAdminOrder d w ord =
     \<lparr>av_order = ord, av_customer = contactOf (dr_user d (o_customerId ord)),
      av_restaurant = (o_restaurantId ord, dr_restaurantName d (o_restaurantId ord)),
      av_deliveryPartner =
        map_option (\<lambda>rid. let r = dr_user d rid in (ua_id r, ua_firstName r, ua_lastName r, ua_phone r)) (o_deliveryPartnerId ord),
      av_payment = map_option (\<lambda>p. (p_status p, p_amount p, p_method p, dr_provider d (p_id p))) (latestPayment (o_id ord) w),
      av_lines = flattenOrderItems d (o_items ord), av_history = statusHistoryOf (o_id ord) w\<rparr>"

definition getAllOrdersForAdmin :: "directory \<Rightarrow> adminOrdersQuery \<Rightarrow> world \<Rightarrow> adminOrderView listPage" where
  "getAllOrdersForAdmin d q w = listPage (bq_page q) (bq_limit q) (toAdminOrder d w) (findAllOrdersForAdmin d q w)"

section \<open>Payments\<close>

record adminPaymentsQuery =
  yq_page :: nat
  yq_limit :: nat
  yq_search :: "string option"
  yq_status :: "transactionStatus option"
  yq_provider :: "string option"
  yq_method :: "paymentMethod option"
  yq_dateFrom :: "int option"
  yq_dateTo :: "int option"

definition orderOfPayment :: "world \<Rightarrow> payment \<Rightarrow> order option" where
  "orderOfPayment w p = lookup o_id (p_orderId p) (w_orders w)"

definition paymentCustomer :: "directory \<Rightarrow> world \<Rightarrow> payment \<Rightarrow> account option" where
  "paymentCustomer d w p = map_option (\<lambda>ord. dr_user d (o_customerId ord)) (orderOfPayment w p)"

definition buildPaymentWhere :: "directory \<Rightarrow> adminPaymentsQuery \<Rightarrow> world \<Rightarrow> payment \<Rightarrow> bool" where
  "buildPaymentWhere d q w p \<longleftrightarrow>
     given (yq_status q) (p_status p) \<and> given (yq_provider q) (dr_provider d (p_id p)) \<and>
     (case yq_method q of None \<Rightarrow> True | Some m \<Rightarrow> p_method p = Some m) \<and>
     inPeriod (yq_dateFrom q) (yq_dateTo q) (p_createdAt p) \<and>
     (let c = paymentCustomer d w p
      in mentions (yq_search q) [p_providerOrderId p, p_providerPaymentId p, map_option o_orderNumber (orderOfPayment w p),
           map_option ua_firstName c, Option.bind c ua_lastName, Option.bind c ua_email, Option.bind c ua_phone])"

definition findAllPaymentsForAdmin :: "directory \<Rightarrow> adminPaymentsQuery \<Rightarrow> world \<Rightarrow> payment list" where
  "findAllPaymentsForAdmin d q w = newestFirst p_createdAt (filter (buildPaymentWhere d q w) (w_payments w))"

record adminPaymentView =
  yv_payment :: payment
  yv_order :: "(string \<times> string \<times> orderStatus) option"
  yv_customer :: "contact option"
  yv_provider :: string
  yv_refunds :: "(string \<times> rat \<times> string option \<times> transactionStatus \<times> int) list"

definition toAdminPayment :: "directory \<Rightarrow> world \<Rightarrow> payment \<Rightarrow> adminPaymentView" where
  "toAdminPayment d w p =
     \<lparr>yv_payment = p,
      yv_order = map_option (\<lambda>ord. (o_id ord, o_orderNumber ord, o_status ord)) (orderOfPayment w p),
      yv_customer = map_option contactOf (paymentCustomer d w p), yv_provider = dr_provider d (p_id p),
      yv_refunds = map (\<lambda>r. (r_id r, r_amount r, dr_refundReason d (r_id r), r_status r, dr_refundedAt d (r_id r)))
        (newestFirst (\<lambda>r. dr_refundedAt d (r_id r)) (filter (\<lambda>r. r_paymentId r = p_id p) (w_refunds w)))\<rparr>"

definition getAllPaymentsForAdmin :: "directory \<Rightarrow> adminPaymentsQuery \<Rightarrow> world \<Rightarrow> adminPaymentView listPage" where
  "getAllPaymentsForAdmin d q w = listPage (yq_page q) (yq_limit q) (toAdminPayment d w) (findAllPaymentsForAdmin d q w)"

section \<open>Delivery partners\<close>

record adminPartnersQuery =
  dq_page :: nat
  dq_limit :: nat
  dq_search :: "string option"
  dq_status :: "partnerStatus option"
  dq_availability :: "bool option"
  dq_online :: "bool option"
  dq_verified :: "bool option"
  dq_dateFrom :: "int option"
  dq_dateTo :: "int option"

definition buildPartnerWhere :: "directory \<Rightarrow> adminPartnersQuery \<Rightarrow> partner \<Rightarrow> bool" where
  "buildPartnerWhere d q p \<longleftrightarrow>
     given (dq_status q) (d_status p) \<and>
     (case dq_availability q of None \<Rightarrow> True | Some True \<Rightarrow> d_status p = AVAILABLE | Some False \<Rightarrow> d_status p \<noteq> AVAILABLE) \<and>
     given (dq_verified q) (d_isVerified p) \<and>
     inPeriod (dq_dateFrom q) (dq_dateTo q) (dr_registered d (d_id p)) \<and>
     (let a = dr_user d (d_userId p)
      in mentions (dq_search q) [Some (dr_vehicleNumber d (d_id p)), Some (ua_firstName a), ua_lastName a, ua_email a, ua_phone a])"

definition findAllMatchingForAdmin :: "directory \<Rightarrow> adminPartnersQuery \<Rightarrow> world \<Rightarrow> partner list" where
  "findAllMatchingForAdmin d q w =
     newestFirst (\<lambda>p. dr_registered d (d_id p)) (filter (buildPartnerWhere d q) (w_partners w))"

text \<open>The deliveries of the riders of a page, in three queries for the whole page.\<close>

record deliveryStats =
  ds_completedDeliveries :: "(string option \<times> nat) list"
  ds_todaysDeliveries :: "(string option \<times> nat) list"
  ds_estimatedFeesToday :: "(string option \<times> rat) list"
  ds_currentOrder :: "(string \<times> order) list"

definition deliveredBy :: "string set \<Rightarrow> order \<Rightarrow> bool" where
  "deliveredBy ids ord \<longleftrightarrow> (\<exists>r. o_deliveryPartnerId ord = Some r \<and> r \<in> ids) \<and> o_status ord = DELIVERED"

definition deliveredSince :: "int \<Rightarrow> order \<Rightarrow> bool" where
  "deliveredSince t ord \<longleftrightarrow> (case o_deliveredAt ord of None \<Rightarrow> False | Some s \<Rightarrow> t \<le> s)"

fun firstPerPartner :: "(string \<times> order) list \<Rightarrow> order list \<Rightarrow> (string \<times> order) list" where
  "firstPerPartner m [] = m"
| "firstPerPartner m (ord # ords) =
     (case o_deliveryPartnerId ord of
        None \<Rightarrow> firstPerPartner m ords
      | Some r \<Rightarrow> firstPerPartner (if map_of m r = None then m @ [(r, ord)] else m) ords)"

definition getDeliveryStatsForUserIds :: "int \<Rightarrow> string list \<Rightarrow> world \<Rightarrow> deliveryStats" where
  "getDeliveryStatsForUserIds startOfToday userIds w =
     (if userIds = [] then
        \<lparr>ds_completedDeliveries = [], ds_todaysDeliveries = [], ds_estimatedFeesToday = [], ds_currentOrder = []\<rparr>
      else
        let completed = groupOn o_deliveryPartnerId (filter (deliveredBy (set userIds)) (w_orders w));
            todays = groupOn o_deliveryPartnerId
              (filter (\<lambda>ord. deliveredBy (set userIds) ord \<and> deliveredSince startOfToday ord) (w_orders w));
            current = newestFirst o_placedAt
              (filter (\<lambda>ord. (\<exists>r. o_deliveryPartnerId ord = Some r \<and> r \<in> set userIds) \<and>
                 o_status ord \<in> set ACTIVE_ORDER_STATUSES) (w_orders w))
        in \<lparr>ds_completedDeliveries = map (\<lambda>g. (fst g, length (snd g))) completed,
            ds_todaysDeliveries = map (\<lambda>g. (fst g, length (snd g))) todays,
            ds_estimatedFeesToday = map (\<lambda>g. (fst g, amountOf o_deliveryFee (snd g))) todays,
            ds_currentOrder = firstPerPartner [] current\<rparr>)"

definition getOr :: "'v \<Rightarrow> ('k \<times> 'v) list \<Rightarrow> 'k \<Rightarrow> 'v" where
  "getOr z m k = (case map_of m k of None \<Rightarrow> z | Some v \<Rightarrow> v)"

record adminPartnerView =
  nv_partner :: partner
  nv_user :: contact
  nv_userStatus :: userStatus
  nv_vehicleType :: string
  nv_vehicleNumber :: string
  nv_licenseNumber :: "string option"
  nv_online :: bool
  nv_currentOrder :: "(string \<times> string \<times> orderStatus \<times> string) option"
  nv_completedDeliveries :: nat
  nv_todaysDeliveries :: nat
  nv_estimatedFeesToday :: rat

definition toAdminDeliveryPartner :: "directory \<Rightarrow> bool \<Rightarrow> deliveryStats \<Rightarrow> partner \<Rightarrow> adminPartnerView" where
  "toAdminDeliveryPartner d online stats p =
     (let a = dr_user d (d_userId p) in
      \<lparr>nv_partner = p, nv_user = contactOf a, nv_userStatus = ua_status a, nv_vehicleType = dr_vehicleType d (d_id p),
       nv_vehicleNumber = dr_vehicleNumber d (d_id p), nv_licenseNumber = dr_licenseNumber d (d_id p), nv_online = online,
       nv_currentOrder =
         map_option (\<lambda>ord. (o_id ord, o_orderNumber ord, o_status ord, dr_restaurantName d (o_restaurantId ord)))
           (map_of (ds_currentOrder stats) (d_userId p)),
       nv_completedDeliveries = getOr 0 (ds_completedDeliveries stats) (Some (d_userId p)),
       nv_todaysDeliveries = getOr 0 (ds_todaysDeliveries stats) (Some (d_userId p)),
       nv_estimatedFeesToday = getOr 0 (ds_estimatedFeesToday stats) (Some (d_userId p))\<rparr>)"

text \<open>\<^verbatim>\<open>presenceService.isOnlineBatch\<close>.\<close>

definition buildOnlineMap :: "string list \<Rightarrow> world \<Rightarrow> (string \<times> bool) list" where
  "buildOnlineMap ids w = map (\<lambda>i. (i, i \<in> set (w_online w))) ids"

definition getAllPartnersForAdmin :: "directory \<Rightarrow> int \<Rightarrow> adminPartnersQuery \<Rightarrow> world \<Rightarrow> adminPartnerView listPage" where
  "getAllPartnersForAdmin d startOfToday q w =
     (let matching = findAllMatchingForAdmin d q w;
          (pageItems, total, onlineMap) =
            (case dq_online q of
               None \<Rightarrow>
                 let items = skipTake ((dq_page q - 1) * dq_limit q) (dq_limit q) matching
                 in (items, length matching, buildOnlineMap (map d_userId items) w)
             | Some onlineFilter \<Rightarrow>
                 let full = buildOnlineMap (map d_userId matching) w;
                     kept = filter (\<lambda>p. getOr False full (d_userId p) = onlineFilter) matching
                 in (skipTake ((dq_page q - 1) * dq_limit q) (dq_limit q) kept, length kept, full));
          stats = getDeliveryStatsForUserIds startOfToday (map d_userId pageItems) w
      in \<lparr>lp_items = map (\<lambda>p. toAdminDeliveryPartner d (getOr False onlineMap (d_userId p)) stats p) pageItems,
          lp_total = total, lp_page = dq_page q, lp_limit = dq_limit q, lp_totalPages = totalPages total (dq_limit q)\<rparr>)"

section \<open>Manual dispatch\<close>

record availablePartnersQuery =
  lq_page :: nat
  lq_limit :: nat
  lq_search :: "string option"
  lq_status :: "partnerStatus option"
  lq_partnerId :: "string option"
  lq_vehicleType :: "string option"

record availablePartnerView =
  lv_partnerId :: string
  lv_name :: string
  lv_phone :: "string option"
  lv_vehicle :: string
  lv_status :: partnerStatus
  lv_currentAssignments :: "(string \<times> string \<times> string) list"
  lv_online :: bool
  lv_location :: "rat option \<times> rat option"

definition availableQuery :: "availablePartnersQuery \<Rightarrow> adminPartnersQuery" where
  "availableQuery q =
     \<lparr>dq_page = lq_page q, dq_limit = lq_limit q, dq_search = lq_search q,
      dq_status = Some (case lq_status q of None \<Rightarrow> AVAILABLE | Some s \<Rightarrow> s), dq_availability = None, dq_online = None,
      dq_verified = Some True, dq_dateFrom = None, dq_dateTo = None\<rparr>"

definition findLocationsByIds :: "string list \<Rightarrow> world \<Rightarrow> (string \<times> rat option \<times> rat option) list" where
  "findLocationsByIds ids w =
     map (\<lambda>p. (d_id p, d_latitude p, d_longitude p)) (filter (\<lambda>p. d_id p \<in> set ids) (w_partners w))"

definition getAvailablePartners ::
  "directory \<Rightarrow> int \<Rightarrow> availablePartnersQuery \<Rightarrow> world \<Rightarrow> availablePartnerView listPage" where
  "getAvailablePartners d startOfToday q w =
     (let filtered = filter (\<lambda>p. matchesId (lq_partnerId q) (Some (d_id p)) \<and>
            (case lq_vehicleType q of None \<Rightarrow> True | Some v \<Rightarrow> dr_vehicleType d (d_id p) = v))
            (findAllMatchingForAdmin d (availableQuery q) w);
          pageItems = skipTake ((lq_page q - 1) * lq_limit q) (lq_limit q) filtered;
          onlineMap = buildOnlineMap (map d_userId pageItems) w;
          stats = getDeliveryStatsForUserIds startOfToday (map d_userId pageItems) w;
          locations = findLocationsByIds (map d_id pageItems) w
      in \<lparr>lp_items = map (\<lambda>p.
              let a = dr_user d (d_userId p)
              in \<lparr>lv_partnerId = d_id p,
                  lv_name = trim (ua_firstName a @ '' '' @ (case ua_lastName a of None \<Rightarrow> [] | Some s \<Rightarrow> s)),
                  lv_phone = ua_phone a, lv_vehicle = dr_vehicleType d (d_id p), lv_status = d_status p,
                  lv_currentAssignments =
                    (case map_of (ds_currentOrder stats) (d_userId p) of
                       None \<Rightarrow> []
                     | Some ord \<Rightarrow> [(o_id ord, o_orderNumber ord, dr_restaurantName d (o_restaurantId ord))]),
                  lv_online = getOr False onlineMap (d_userId p),
                  lv_location = getOr (None, None) locations (d_id p)\<rparr>) pageItems,
          lp_total = length filtered, lp_page = lq_page q, lp_limit = lq_limit q,
          lp_totalPages = totalPages (length filtered) (lq_limit q)\<rparr>)"

section \<open>Counters\<close>

definition getDashboardOrderCounts :: "int \<Rightarrow> world \<Rightarrow> nat \<times> nat \<times> nat" where
  "getDashboardOrderCounts startOfToday w =
     (countPlacedToday startOfToday w, countActive w, countDeliveredToday startOfToday w)"

record adminMetrics =
  am_totalCustomers :: nat
  am_totalRestaurants :: nat
  am_pendingRestaurantApprovals :: nat
  am_activeDeliveryPartners :: nat
  am_ordersToday :: nat
  am_activeOrders :: nat
  am_completedOrdersToday :: nat
  am_grossRevenueToday :: rat

definition getAdminDashboard :: "int \<Rightarrow> authStore \<Rightarrow> 'z catalog_scheme \<Rightarrow> world \<Rightarrow> adminMetrics" where
  "getAdminDashboard startOfToday s c w =
     (case getDashboardOrderCounts startOfToday w of (placed, active, delivered) \<Rightarrow>
        \<lparr>am_totalCustomers = countByRole CUSTOMER s, am_totalRestaurants = countByStatus None c,
         am_pendingRestaurantApprovals = countByStatus (Some REST_PENDING) c,
         am_activeDeliveryPartners = countActivePartners w, am_ordersToday = placed, am_activeOrders = active,
         am_completedOrdersToday = delivered, am_grossRevenueToday = sumSuccessfulAmountToday startOfToday w\<rparr>)"

end
