(* ===== verification/ListingsSafety.thy ===== *)
theory ListingsSafety
  imports AdminListings
begin

text \<open>
  What the listings and dashboards promise: no listing shows a credential, while one order operation
  does; the riders' pages together are the matching riders, with the figures that a query per rider
  would give; the dashboard's counters add up, and its revenue is blind to cancellations.
\<close>

section \<open>Batched figures\<close>

lemma map_of_keyed: "map_of (map (\<lambda>k. (k, f k)) ks) x = (if x \<in> set ks then Some (f x) else None)"
  by (induction ks) auto

lemma getOr_keyed [simp]: "x \<in> set ks \<Longrightarrow> getOr z (map (\<lambda>k. (k, f k)) ks) x = f x"
  by (simp add: getOr_def map_of_keyed)

lemma getOr_groups:
  assumes "h [] = z"
  shows "getOr z (map (\<lambda>g. (fst g, h (snd g))) (groupOn key rows)) k = h (filter (\<lambda>r. key r = k) rows)"
proof -
  have "map (\<lambda>g. (fst g, h (snd g))) (groupOn key rows) = map (\<lambda>k. (k, h (filter (\<lambda>r. key r = k) rows))) (uniqueIds (map key rows))"
    by (simp add: groupOn_def)
  then have "map_of (map (\<lambda>g. (fst g, h (snd g))) (groupOn key rows)) k =
      (if k \<in> key ` set rows then Some (h (filter (\<lambda>r. key r = k) rows)) else None)"
    by (simp only: map_of_keyed set_uniqueIds set_map)
  moreover have "filter (\<lambda>r. key r = k) rows = []" if "k \<notin> key ` set rows"
    using that by (auto simp: filter_empty_conv)
  ultimately show ?thesis using assms by (auto simp: getOr_def)
qed

lemma first_per_partner:
  "map_of (firstPerPartner m ords) r =
     (case map_of m r of Some ord \<Rightarrow> Some ord | None \<Rightarrow> find (\<lambda>ord. o_deliveryPartnerId ord = Some r) ords)"
  by (induction m ords rule: firstPerPartner.induct) (auto simp: map_add_def split: option.splits)

lemma find_filter: "find p (filter q xs) = find (\<lambda>x. q x \<and> p x) xs"
  by (induction xs) auto

lemma newest_filter: "newestFirst key (filter p rows) = filter p (newestFirst key rows)"
  by (simp add: newestFirst_def filter_sort)

lemma delivered_restrict:
  assumes "r \<in> ids"
  shows "deliveredBy ids ord \<and> o_deliveryPartnerId ord = Some r \<longleftrightarrow> deliveredBy {r} ord"
    "deliveredBy ids ord \<and> deliveredSince t ord \<and> o_deliveryPartnerId ord = Some r \<longleftrightarrow>
       deliveredBy {r} ord \<and> deliveredSince t ord"
  using assms by (auto simp: deliveredBy_def)

text \<open>The same figures with one query per rider.\<close>

definition riderSummary :: "directory \<Rightarrow> int \<Rightarrow> world \<Rightarrow> partner \<Rightarrow> adminPartnerView" where
  "riderSummary d t w p =
     (let a = dr_user d (d_userId p); todays = filter (\<lambda>ord. deliveredBy {d_userId p} ord \<and> deliveredSince t ord) (w_orders w) in
      \<lparr>nv_partner = p, nv_user = contactOf a, nv_userStatus = ua_status a, nv_vehicleType = dr_vehicleType d (d_id p),
       nv_vehicleNumber = dr_vehicleNumber d (d_id p), nv_licenseNumber = dr_licenseNumber d (d_id p),
       nv_online = (d_userId p \<in> set (w_online w)),
       nv_currentOrder =
         map_option (\<lambda>ord. (o_id ord, o_orderNumber ord, o_status ord, dr_restaurantName d (o_restaurantId ord)))
           (find (\<lambda>ord. o_deliveryPartnerId ord = Some (d_userId p) \<and> o_status ord \<in> set ACTIVE_ORDER_STATUSES)
              (newestFirst o_placedAt (w_orders w))),
       nv_completedDeliveries = length (filter (deliveredBy {d_userId p}) (w_orders w)),
       nv_todaysDeliveries = length todays, nv_estimatedFeesToday = amountOf o_deliveryFee todays\<rparr>)"

lemma batched_summary:
  assumes "d_userId p \<in> set ids"
  shows "toAdminDeliveryPartner d (d_userId p \<in> set (w_online w)) (getDeliveryStatsForUserIds t ids w) p = riderSummary d t w p"
proof -
  have ne: "ids \<noteq> []" using assms by auto
  have fee: "amountOf o_deliveryFee [] = 0" by (simp add: amountOf_def)
  have cur: "map_of (ds_currentOrder (getDeliveryStatsForUserIds t ids w)) (d_userId p) =
      find (\<lambda>ord. o_deliveryPartnerId ord = Some (d_userId p) \<and> o_status ord \<in> set ACTIVE_ORDER_STATUSES)
        (newestFirst o_placedAt (w_orders w))"
    using ne assms by (auto simp: getDeliveryStatsForUserIds_def Let_def first_per_partner newest_filter find_filter intro!: arg_cong[where f="\<lambda>f. find f _"])
  show ?thesis unfolding toAdminDeliveryPartner_def riderSummary_def cur Let_def
    using ne by (simp add: getDeliveryStatsForUserIds_def Let_def getOr_groups[where h=length] getOr_groups[where h="amountOf o_deliveryFee"]
      fee delivered_restrict[OF assms])
qed

section \<open>The riders' pages\<close>

lemma online_map: "x \<in> set ids \<Longrightarrow> getOr False (buildOnlineMap ids w) x = (x \<in> set (w_online w))"
  by (simp add: buildOnlineMap_def)

lemma getAllPartners_page:
  "getAllPartnersForAdmin d t q w =
     listPage (dq_page q) (dq_limit q) (riderSummary d t w)
       (filter (\<lambda>p. given (dq_online q) (d_userId p \<in> set (w_online w))) (findAllMatchingForAdmin d q w))"
proof -
  let ?ms = "findAllMatchingForAdmin d q w"
  have items: "map (\<lambda>p. toAdminDeliveryPartner d (getOr False (buildOnlineMap os w) (d_userId p))
        (getDeliveryStatsForUserIds t (map d_userId ps) w) p) ps = map (riderSummary d t w) ps"
    if "d_userId ` set ps \<subseteq> set os" for os ps
    using that batched_summary[of _ "map d_userId ps" d w t] by (intro map_cong) (auto simp: online_map image_subset_iff)
  show ?thesis
  proof (cases "dq_online q")
    case None
    then show ?thesis by (simp add: getAllPartnersForAdmin_def listPage_def given_def Let_def items)
  next
    case (Some b)
    have kept: "filter (\<lambda>p. getOr False (buildOnlineMap (map d_userId ?ms) w) (d_userId p) = b) ?ms =
        filter (\<lambda>p. given (dq_online q) (d_userId p \<in> set (w_online w))) ?ms"
      using Some by (intro filter_cong) (auto simp: online_map given_def)
    have "d_userId ` set (skipTake i k (filter f ?ms)) \<subseteq> set (map d_userId ?ms)" for i k f
      by (auto simp: skipTake_def dest!: in_set_takeD in_set_dropD)
    note page = items[OF this]
    show ?thesis unfolding getAllPartnersForAdmin_def Let_def Some option.case prod.case kept[unfolded Some] page
      by (simp add: listPage_def)
  qed
qed

lemma list_pages_partition:
  assumes "0 < limit"
  shows "concat (map (\<lambda>i. lp_items (listPage (Suc i) limit f rows)) [0..<totalPages (length rows) limit]) = map f rows"
proof -
  have "concat (map (\<lambda>i. skipTake (i * limit) limit rows) [0..<totalPages (length rows) limit]) = rows"
    using pages_partition[OF assms, of rows] by (simp add: pageOf_def)
  then have "map f (concat (map (\<lambda>i. skipTake (i * limit) limit rows) [0..<totalPages (length rows) limit])) = map f rows"
    by simp
  then show ?thesis by (simp add: listPage_def map_concat o_def)
qed

lemma matching_page [simp]: "findAllMatchingForAdmin d (q\<lparr>dq_page := i\<rparr>) w = findAllMatchingForAdmin d q w"
proof -
  have "buildPartnerWhere d (q\<lparr>dq_page := i\<rparr>) = buildPartnerWhere d q" by (intro ext) (simp add: buildPartnerWhere_def)
  then show ?thesis by (simp add: findAllMatchingForAdmin_def)
qed

text \<open>
  C38. The riders' listing is exact.  The pages of the administrators' listing, one after the other, are
  all the riders that match the filters, the presence filter included, newest first, each with the
  figures that separate queries for this rider would give.
\<close>

theorem rider_listing_exact:
  assumes "0 < dq_limit q"
  shows "concat (map (\<lambda>i. lp_items (getAllPartnersForAdmin d t (q\<lparr>dq_page := Suc i\<rparr>) w))
      [0..<lp_totalPages (getAllPartnersForAdmin d t q w)]) =
    map (riderSummary d t w)
      (filter (\<lambda>p. given (dq_online q) (d_userId p \<in> set (w_online w))) (findAllMatchingForAdmin d q w))"
proof -
  let ?rows = "filter (\<lambda>p. given (dq_online q) (d_userId p \<in> set (w_online w))) (findAllMatchingForAdmin d q w)"
  have "lp_totalPages (getAllPartnersForAdmin d t q w) = totalPages (length ?rows) (dq_limit q)"
    by (simp add: getAllPartners_page listPage_def)
  then show ?thesis using list_pages_partition[OF assms, of "riderSummary d t w" ?rows] by (simp add: getAllPartners_page)
qed

section \<open>Credentials\<close>

definition blankPasswords :: "directory \<Rightarrow> directory" where
  "blankPasswords d = d\<lparr>dr_user := (\<lambda>i. (dr_user d i)\<lparr>ua_passwordHash := None\<rparr>)\<rparr>"

lemma blank_columns [simp]:
  "dr_user (blankPasswords d) i = (dr_user d i)\<lparr>ua_passwordHash := None\<rparr>"
  "dr_restaurantName (blankPasswords d) = dr_restaurantName d" "dr_itemName (blankPasswords d) = dr_itemName d"
  "dr_variantName (blankPasswords d) = dr_variantName d" "dr_vehicleType (blankPasswords d) = dr_vehicleType d"
  "dr_vehicleNumber (blankPasswords d) = dr_vehicleNumber d" "dr_licenseNumber (blankPasswords d) = dr_licenseNumber d"
  "dr_registered (blankPasswords d) = dr_registered d" "dr_provider (blankPasswords d) = dr_provider d"
  "dr_refundReason (blankPasswords d) = dr_refundReason d" "dr_refundedAt (blankPasswords d) = dr_refundedAt d"
  by (simp_all add: blankPasswords_def)

lemma blank_contact [simp]: "contactOf (a\<lparr>ua_passwordHash := x\<rparr>) = contactOf a"
  by (simp add: contactOf_def)

lemma blank_lines [simp]: "flattenOrderItems (blankPasswords d) = flattenOrderItems d"
  by (simp add: flattenOrderItems_def)

lemma blank_order: "getOrderById (blankPasswords d) oid u w = getOrderById d oid u w"
proof -
  have r: "toRiderView (blankPasswords d) (a\<lparr>ua_passwordHash := x\<rparr>, p) = toRiderView d (a, p)" for a x p
    by (simp add: toRiderView_def)
  then show ?thesis
    by (simp add: getOrderById_def includeRelations_def Let_def option.map_comp o_def split: option.splits)
qed

lemma blank_orders: "getAllOrdersForAdmin (blankPasswords d) q w = getAllOrdersForAdmin d q w"
proof -
  have "toAdminOrder (blankPasswords d) w = toAdminOrder d w" by (intro ext) (simp add: toAdminOrder_def Let_def)
  then show ?thesis by (simp add: getAllOrdersForAdmin_def findAllOrdersForAdmin_def Let_def)
qed

lemma blank_customer [simp]:
  "paymentCustomer (blankPasswords d) w p = map_option (\<lambda>a. a\<lparr>ua_passwordHash := None\<rparr>) (paymentCustomer d w p)"
  by (simp add: paymentCustomer_def option.map_comp o_def)

lemma blank_payments: "getAllPaymentsForAdmin (blankPasswords d) q w = getAllPaymentsForAdmin d q w"
proof -
  have b: "Option.bind (map_option (\<lambda>a. a\<lparr>ua_passwordHash := None\<rparr>) x) ua_lastName = Option.bind x ua_lastName"
    "Option.bind (map_option (\<lambda>a. a\<lparr>ua_passwordHash := None\<rparr>) x) ua_email = Option.bind x ua_email"
    "Option.bind (map_option (\<lambda>a. a\<lparr>ua_passwordHash := None\<rparr>) x) ua_phone = Option.bind x ua_phone" for x
    by (cases x; simp)+
  have "buildPaymentWhere (blankPasswords d) q w = buildPaymentWhere d q w"
    by (intro ext) (simp add: buildPaymentWhere_def Let_def b option.map_comp o_def)
  moreover have "toAdminPayment (blankPasswords d) w = toAdminPayment d w"
    by (intro ext) (simp add: toAdminPayment_def option.map_comp o_def)
  ultimately show ?thesis by (simp add: getAllPaymentsForAdmin_def findAllPaymentsForAdmin_def)
qed

lemma blank_matching [simp]: "findAllMatchingForAdmin (blankPasswords d) q w = findAllMatchingForAdmin d q w"
proof -
  have "buildPartnerWhere (blankPasswords d) q = buildPartnerWhere d q" by (intro ext) (simp add: buildPartnerWhere_def Let_def)
  then show ?thesis by (simp add: findAllMatchingForAdmin_def)
qed

lemma blank_partners: "getAllPartnersForAdmin (blankPasswords d) t q w = getAllPartnersForAdmin d t q w"
proof -
  have "riderSummary (blankPasswords d) t w = riderSummary d t w" by (intro ext) (simp add: riderSummary_def Let_def)
  then show ?thesis by (simp add: getAllPartners_page)
qed

lemma blank_available: "getAvailablePartners (blankPasswords d) t q w = getAvailablePartners d t q w"
  by (simp add: getAvailablePartners_def Let_def cong: option.case_cong)

lemma blank_restaurant: "getRestaurantOrders (blankPasswords d) rid u w = getRestaurantOrders d rid u w"
  by (simp add: getRestaurantOrders_def Let_def)

lemma blank_dashboard: "getRestaurantDashboard (blankPasswords d) z now rid u b w = getRestaurantDashboard d z now rid u b w"
proof -
  have "recentOrderView (blankPasswords d) = recentOrderView d" by (intro ext) (simp add: recentOrderView_def Let_def)
  then show ?thesis by (simp add: getRestaurantDashboard_def getTopSellingItems_def Let_def)
qed

text \<open>
  C17. The listings carry no credentials.  The order shown to its people, the restaurant's orders and
  dashboard and the administrators' listings of orders, payments and riders are the same whatever the
  password hashes in the user table are.
\<close>

theorem listings_hide_credentials:
  "getOrderById (blankPasswords d) oid u w = getOrderById d oid u w \<and>
   getRestaurantOrders (blankPasswords d) rid u w = getRestaurantOrders d rid u w \<and>
   getRestaurantDashboard (blankPasswords d) z now rid u b w = getRestaurantDashboard d z now rid u b w \<and>
   getAllOrdersForAdmin (blankPasswords d) oq w = getAllOrdersForAdmin d oq w \<and>
   getAllPaymentsForAdmin (blankPasswords d) pq w = getAllPaymentsForAdmin d pq w \<and>
   getAllPartnersForAdmin (blankPasswords d) t nq w = getAllPartnersForAdmin d t nq w \<and>
   getAvailablePartners (blankPasswords d) t lq w = getAvailablePartners d t lq w"
  by (simp add: blank_order blank_restaurant blank_dashboard blank_orders blank_payments blank_partners blank_available)

text \<open>
  C18. The COD switch reveals the rider's credentials.  When the customer of an order that is already
  paid in cash asks for the switch, the answer holds the complete user row of the rider, password
  hash included, in any status of the order.
\<close>

theorem switch_to_cod_leaks_credentials:
  assumes "findOrderById oid w = Some ord" "o_customerId ord = userId u" "o_paymentMode ord = COD"
    and "o_deliveryPartnerId ord = Some rid"
  shows "\<exists>row rider p. switchToCodReply d env oid u w = Inr row \<and> ow_deliveryPartner row = Some (rider, p) \<and>
    ua_passwordHash rider = ua_passwordHash (dr_user d rid)"
  using assms by (simp add: switchToCodReply_def switchToCod_def includeRelations_def)

section \<open>The dashboard\<close>

lemma countWhere_le: "countWhere p ords \<le> length ords"
  by (simp add: countWhere_def)

lemma percent_bounds: "a \<le> b \<Longrightarrow> 0 \<le> percent a b \<and> percent a b \<le> 100"
  by (auto simp: percent_def field_simps)

lemma roundTenth_bounds:
  assumes "0 \<le> x" "x \<le> 100"
  shows "0 \<le> roundTenth x \<and> roundTenth x \<le> 100"
proof -
  have "0 \<le> mathRound (x * 10)" "mathRound (x * 10) \<le> 1000"
    using assms by (auto simp: mathRound_def floor_le_iff le_floor_iff)
  then have "0 \<le> (of_int (mathRound (x * 10)) :: rat)" "(of_int (mathRound (x * 10)) :: rat) \<le> of_int 1000"
    by (simp_all only: of_int_le_iff of_int_0_le_iff)
  then show ?thesis by (simp add: roundTenth_def)
qed

lemma peak_sum: "sum_list (map snd (peakHours z ords)) = length ords"
proof -
  have "mset (map snd (peakHours z ords)) =
      mset (map (\<lambda>g. length (snd g)) (groupOn (\<lambda>ord. localHour z (o_placedAt ord)) ords))"
    unfolding peakHours_def by (simp only: mset_map mset_sort) (simp add: multiset.map_comp o_def)
  then have "sum_list (map snd (peakHours z ords)) =
      sum_list (map (\<lambda>g. length (snd g)) (groupOn (\<lambda>ord. localHour z (o_placedAt ord)) ords))"
    by (metis sum_mset_sum_list)
  also have "\<dots> = length ords"
    using groupOn_sum[of "\<lambda>_. 1 :: nat" "\<lambda>ord. localHour z (o_placedAt ord)" ords] by (simp add: sum_list_triv)
  finally show ?thesis .
qed

lemma three_le: "countWhere (\<lambda>s. s = PREPARING) ords + countWhere (\<lambda>s. s = READY_FOR_PICKUP) ords +
    countWhere (\<lambda>s. s = DELIVERED) ords \<le> countWhere (\<lambda>s. s \<noteq> PENDING \<and> s \<noteq> CANCELLED) ords"
  by (induction ords) (auto simp: countWhere_def)

lemma decided_split: "countWhere (\<lambda>s. s \<noteq> PENDING \<and> s \<noteq> CANCELLED) ords + countWhere (\<lambda>s. s = CANCELLED) ords +
    countWhere (\<lambda>s. s = PENDING) ords = length ords"
  by (induction ords) (auto simp: countWhere_def)

lemma rate_bounds: "a \<le> b \<Longrightarrow> 0 \<le> roundTenth (percent a b) \<and> roundTenth (percent a b) \<le> 100"
  using percent_bounds roundTenth_bounds by blast

text \<open>The orders of the restaurant placed today, among those of the dashboard's window.\<close>

definition dashboardToday :: "int \<Rightarrow> int \<Rightarrow> string \<Rightarrow> string option \<Rightarrow> world \<Rightarrow> order list" where
  "dashboardToday offset now rid branch w =
     todaysOrders offset now (getDashboardWindowOrders rid (now - 30 * DAY_MS) branch w)"

lemma dashboard_cases:
  assumes "getRestaurantDashboard d z now rid u b w = Inr x"
  shows "db_ordersToday x = length (dashboardToday z now rid b w)"
    "db_revenueToday x = amountOf o_total (dashboardToday z now rid b w)"
    "db_revenueThisWeek x = amountOf o_total (filter (\<lambda>ord. now - 7 * DAY_MS \<le> o_placedAt ord)
       (getDashboardWindowOrders rid (now - 30 * DAY_MS) b w))"
    "db_revenueThisMonth x = amountOf o_total (getDashboardWindowOrders rid (now - 30 * DAY_MS) b w)"
    "db_accepted x = countWhere (\<lambda>s. s \<noteq> PENDING \<and> s \<noteq> CANCELLED) (dashboardToday z now rid b w)"
    "db_rejected x = countWhere (\<lambda>s. s = CANCELLED) (dashboardToday z now rid b w)"
    "db_preparing x = countWhere (\<lambda>s. s = PREPARING) (dashboardToday z now rid b w)"
    "db_ready x = countWhere (\<lambda>s. s = READY_FOR_PICKUP) (dashboardToday z now rid b w)"
    "db_completed x = countWhere (\<lambda>s. s = DELIVERED) (dashboardToday z now rid b w)"
    "db_acceptanceRate x = roundTenth (percent (db_accepted x) (db_accepted x + db_rejected x))"
    "db_cancellationRate x = roundTenth (percent (db_rejected x) (db_ordersToday x))"
    "db_peakHours x = peakHours z (getDashboardWindowOrders rid (now - 30 * DAY_MS) b w)"
  using assms by (auto simp: getRestaurantDashboard_def dashboardToday_def Let_def andThen_Inr_iff)

text \<open>
  The restaurant's dashboard adds up: the accepted, the rejected and the pending orders of the day
  are the orders of the day, the orders in the kitchen, ready and completed are among the accepted
  ones, both rates are percentages, and the peak hours count every order of the window once.
\<close>

theorem dashboard_adds_up:
  assumes "getRestaurantDashboard d z now rid u b w = Inr x"
  shows "db_accepted x + db_rejected x + countWhere (\<lambda>s. s = PENDING) (dashboardToday z now rid b w) = db_ordersToday x \<and>
    db_preparing x + db_ready x + db_completed x \<le> db_accepted x \<and>
    (0 \<le> db_acceptanceRate x \<and> db_acceptanceRate x \<le> 100) \<and> (0 \<le> db_cancellationRate x \<and> db_cancellationRate x \<le> 100) \<and>
    sum_list (map snd (db_peakHours x)) = length (getDashboardWindowOrders rid (now - 30 * DAY_MS) b w)"
proof -
  note x = dashboard_cases[OF assms]
  have "db_rejected x \<le> db_ordersToday x" by (simp add: x countWhere_le)
  then show ?thesis
    using rate_bounds[of "db_accepted x" "db_accepted x + db_rejected x"] rate_bounds[of "db_rejected x" "db_ordersToday x"]
      three_le[of "dashboardToday z now rid b w"] decided_split[of "dashboardToday z now rid b w"]
    by (simp add: x(1,5-12) peak_sum)
qed

lemma window_after_status:
  "getDashboardWindowOrders rid since b (updateOrderStatusRow t oid st w) =
     modify (\<lambda>ord. o_id ord = oid) (\<lambda>ord. ord\<lparr>o_status := st, o_deliveredAt := (if st = DELIVERED then Some t else o_deliveredAt ord)\<rparr>)
       (getDashboardWindowOrders rid since b w)"
  by (simp add: getDashboardWindowOrders_def updateOrderStatusRow_def updateOrderRow_def modify_def filter_map o_def if_distrib
      cong: filter_cong if_cong)

lemma total_after_status:
  "(\<And>ord. o_total (f ord) = o_total ord) \<Longrightarrow> amountOf o_total (modify p f ords) = amountOf o_total ords"
  by (induction ords) (auto simp: amountOf_def)

lemma placed_after_status:
  "(\<And>ord. o_placedAt (f ord) = o_placedAt ord) \<Longrightarrow>
   filter (\<lambda>ord. since \<le> o_placedAt ord) (modify p f ords) = modify p f (filter (\<lambda>ord. since \<le> o_placedAt ord) ords)"
  by (induction ords) auto

text \<open>
  Cancelled orders stay in the dashboard's revenue.  Cancelling any order changes none of the
  three revenue figures; only the revenue report looks at the status.
\<close>

theorem dashboard_counts_cancelled_revenue:
  assumes "getRestaurantDashboard d z now rid u b w = Inr x"
    and "getRestaurantDashboard d z now rid u b (updateOrderStatusRow t oid CANCELLED w) = Inr y"
  shows "db_revenueToday y = db_revenueToday x \<and> db_revenueThisWeek y = db_revenueThisWeek x \<and>
    db_revenueThisMonth y = db_revenueThisMonth x"
  by (simp add: dashboard_cases[OF assms(1)] dashboard_cases[OF assms(2)] dashboardToday_def todaysOrders_def
      window_after_status placed_after_status total_after_status)

section \<open>Concrete inputs\<close>

definition riderAccount :: account where
  "riderAccount = \<lparr>ua_id = ''d1'', ua_firstName = ''Ravi'', ua_lastName = None, ua_email = None, ua_phone = None,
     ua_passwordHash = Some ''$2b$10$'', ua_role = DELIVERY_PARTNER, ua_status = USER_ACTIVE, ua_avatarUrl = None,
     ua_referralCode = None, ua_referredByCode = None, ua_createdAt = 0, ua_deletedAt = None\<rparr>"

definition sampleDirectory :: directory where
  "sampleDirectory =
     \<lparr>dr_user = (\<lambda>i. riderAccount\<lparr>ua_id := i\<rparr>), dr_restaurantName = (\<lambda>_. ''Diner''), dr_itemName = (\<lambda>_. None),
      dr_variantName = (\<lambda>_. None), dr_vehicleType = (\<lambda>_. ''BIKE''), dr_vehicleNumber = (\<lambda>_. ''MH12''),
      dr_licenseNumber = (\<lambda>_. None), dr_registered = (\<lambda>_. 0), dr_provider = (\<lambda>_. ''RAZORPAY''),
      dr_refundReason = (\<lambda>_. None), dr_refundedAt = (\<lambda>_. 0)\<rparr>"

definition deliveringOrder :: order where
  "deliveringOrder = sampleOrder\<lparr>o_status := OUT_FOR_DELIVERY, o_paymentMode := COD, o_deliveryPartnerId := Some ''d1''\<rparr>"

lemma switch_to_cod_leaks_credentials_witness:
  "\<exists>row rider p. switchToCodReply sampleDirectory id ''o1'' \<lparr>userId = ''u1'', role = CUSTOMER\<rparr>
      (emptyWorld\<lparr>w_orders := [deliveringOrder]\<rparr>) = Inr row \<and> ow_deliveryPartner row = Some (rider, p) \<and>
    ua_passwordHash rider = ua_passwordHash (dr_user sampleDirectory ''d1'')"
  by (rule switch_to_cod_leaks_credentials[where ord = deliveringOrder])
    (simp_all add: findOrderById_def deliveringOrder_def sampleOrder_def)

definition ridersQuery :: adminPartnersQuery where
  "ridersQuery = \<lparr>dq_page = 1, dq_limit = 20, dq_search = None, dq_status = None, dq_availability = None, dq_online = Some True,
     dq_verified = None, dq_dateFrom = None, dq_dateTo = None\<rparr>"

definition riderWorld :: world where
  "riderWorld = emptyWorld\<lparr>w_partners := [\<lparr>d_id = ''p1'', d_userId = ''d1'', d_status = AVAILABLE, d_isVerified = True,
     d_latitude = None, d_longitude = None\<rparr>], w_online := [''d1''], w_orders := [deliveringOrder]\<rparr>"

lemma rider_listing_exact_witness:
  "map (\<lambda>v. (nv_online v, nv_completedDeliveries v))
      (concat (map (\<lambda>i. lp_items (getAllPartnersForAdmin sampleDirectory 0 (ridersQuery\<lparr>dq_page := Suc i\<rparr>) riderWorld))
        [0..<lp_totalPages (getAllPartnersForAdmin sampleDirectory 0 ridersQuery riderWorld)])) = [(True, 0)]"
proof -
  have "0 < dq_limit ridersQuery" by (simp add: ridersQuery_def)
  note all = rider_listing_exact[OF this]
  show ?thesis unfolding all
    by (simp add: findAllMatchingForAdmin_def newestFirst_def riderWorld_def ridersQuery_def buildPartnerWhere_def given_def
        inPeriod_def mentions_def riderSummary_def deliveredBy_def deliveringOrder_def Let_def)
qed

lemma owner_dashboard:
  "\<exists>x. getRestaurantDashboard sampleDirectory 0 now ''r1'' ownerUser None (orderWorld st ps) = Inr x"
  "\<exists>x. getRestaurantDashboard sampleDirectory 0 now ''r1'' ownerUser None (updateOrderStatusRow 5 ''o1'' CANCELLED (orderWorld st ps)) = Inr x"
  by (simp_all add: getRestaurantDashboard_def Let_def andThen_Inr_iff assertRestaurantAccess_def canAccessRestaurant_def getRestaurantRole_def
      orderWorld_def ownerUser_def isAdmin_def guard_def updateOrderStatusRow_def updateOrderRow_def)

lemma dashboard_adds_up_witness:
  "\<exists>x. getRestaurantDashboard sampleDirectory 0 1000 ''r1'' ownerUser None (orderWorld PENDING PAID) = Inr x \<and>
    db_accepted x + db_rejected x + 1 = db_ordersToday x"
proof -
  obtain x where x: "getRestaurantDashboard sampleDirectory 0 1000 ''r1'' ownerUser None (orderWorld PENDING PAID) = Inr x"
    using owner_dashboard(1) by blast
  have "countWhere (\<lambda>s. s = PENDING) (dashboardToday 0 1000 ''r1'' None (orderWorld PENDING PAID)) = 1"
    by (simp add: countWhere_def dashboardToday_def todaysOrders_def getDashboardWindowOrders_def orderWorld_def sampleOrder_def
        startOfDay_def DAY_MS_def)
  then show ?thesis using x dashboard_adds_up[OF x] by auto
qed

lemma dashboard_counts_cancelled_revenue_witness:
  "\<exists>y. getRestaurantDashboard sampleDirectory 0 1000 ''r1'' ownerUser None
      (updateOrderStatusRow 5 ''o1'' CANCELLED (orderWorld CONFIRMED PAID)) = Inr y \<and> db_revenueToday y = 100"
proof -
  obtain x y where x: "getRestaurantDashboard sampleDirectory 0 1000 ''r1'' ownerUser None (orderWorld CONFIRMED PAID) = Inr x"
    and y: "getRestaurantDashboard sampleDirectory 0 1000 ''r1'' ownerUser None
      (updateOrderStatusRow 5 ''o1'' CANCELLED (orderWorld CONFIRMED PAID)) = Inr y"
    using owner_dashboard by blast
  have "db_revenueToday x = 100"
    by (simp add: dashboard_cases[OF x] amountOf_def dashboardToday_def todaysOrders_def getDashboardWindowOrders_def orderWorld_def
        sampleOrder_def startOfDay_def DAY_MS_def)
  then show ?thesis using y dashboard_counts_cancelled_revenue[OF x y] by auto
qed

end
