(* ===== verification/AccountListings.thy ===== *)
theory AccountListings
  imports ListingsSafety Wallet AuthSafety
begin

text \<open>
  Profile answers, the listings of wallet entries and coupons
  (\<^verbatim>\<open>users.service.ts\<close>, \<^verbatim>\<open>wallet.service.ts\<close>, \<^verbatim>\<open>coupons.service.ts\<close> and their repositories), and the referral
  code that registration and the referral page give out.  Ledger entries and coupons are kept in the
  order of their creation, so the newest come last in the table.
\<close>

section \<open>Profiles\<close>

text \<open>The row without its hash: \<^verbatim>\<open>omit: { passwordHash: true }\<close>.\<close>

definition toSafeUser :: "account \<Rightarrow> account" where
  "toSafeUser a = a\<lparr>ua_passwordHash := None\<rparr>"

definition toProfileResponse :: "account \<Rightarrow> account \<times> int" where
  "toProfileResponse a = (toSafeUser a, computeProfileCompletion a)"

definition getUserProfile :: "string \<Rightarrow> authStore \<Rightarrow> (account \<times> int) result" where
  "getUserProfile uid s =
     (case findUserById uid s of None \<Rightarrow> Inl (NotFound ''User'') | Some a \<Rightarrow> Inr (toProfileResponse a))"

text \<open>\<open>stored\<close>: what the object storage answers to the upload.\<close>

definition uploadAvatar :: "string result \<Rightarrow> string \<Rightarrow> authStore \<Rightarrow> (authStore, account \<times> int) outcome" where
  "uploadAvatar stored uid s =
     (case findUserById uid s of
        None \<Rightarrow> (Inl (NotFound ''User''), s)
      | Some _ \<Rightarrow>
          (case stored of
             Inl e \<Rightarrow> (Inl e, s)
           | Inr url \<Rightarrow>
               (case updateUser uid (\<lambda>a. a\<lparr>ua_avatarUrl := Some url\<rparr>) s of
                  (Inl e, s1) \<Rightarrow> (Inl e, s1)
                | (Inr a, s1) \<Rightarrow> (Inr (toProfileResponse a), s1))))"

section \<open>Wallet\<close>

definition findTransactions :: "string \<Rightarrow> world \<Rightarrow> walletTx list" where
  "findTransactions uid w = rev (filter (\<lambda>t. t_userId t = uid) (w_ledger w))"

definition getTransactions :: "string \<Rightarrow> nat \<Rightarrow> nat \<Rightarrow> world \<Rightarrow> walletTx listPage" where
  "getTransactions uid page limit w = listPage page limit id (findTransactions uid w)"

record adminWalletView =
  wv_entry :: walletTx
  wv_user :: "string \<times> string \<times> string option \<times> string option"

definition toAdminWallet :: "directory \<Rightarrow> walletTx \<Rightarrow> adminWalletView" where
  "toAdminWallet d t =
     (let a = dr_user d (t_userId t)
      in \<lparr>wv_entry = t, wv_user = (ua_id a, ua_firstName a, ua_lastName a, ua_email a)\<rparr>)"

definition getAllWalletForAdmin :: "directory \<Rightarrow> string option \<Rightarrow> nat \<Rightarrow> nat \<Rightarrow> world \<Rightarrow> adminWalletView listPage" where
  "getAllWalletForAdmin d uid page limit w =
     listPage page limit (toAdminWallet d) (rev (filter (\<lambda>t. matchesId uid (Some (t_userId t))) (w_ledger w)))"

text \<open>An account without a code gets one when its owner opens the referral page.\<close>

definition findReferralCode :: "string \<Rightarrow> authStore \<Rightarrow> (authStore, string option) outcome" where
  "findReferralCode uid s =
     (case lookup ua_id uid (as_users s) of
        None \<Rightarrow> (Inr None, s)
      | Some a \<Rightarrow>
          if truthy (ua_referralCode a) then (Inr (ua_referralCode a), s)
          else (case setReferralCode uid (ownReferralCode uid) s of
                  (Inl e, s1) \<Rightarrow> (Inl e, s1)
                | (Inr _, s1) \<Rightarrow> (Inr (Some (ownReferralCode uid)), s1)))"

definition referralPage :: "string \<Rightarrow> authStore \<Rightarrow> world \<Rightarrow> (authStore, string \<times> referralSummary) outcome" where
  "referralPage uid s w =
     (case findReferralCode uid s of
        (Inl e, s1) \<Rightarrow> (Inl e, s1)
      | (Inr code, s1) \<Rightarrow> (Inr (case code of None \<Rightarrow> [] | Some c \<Rightarrow> c, getReferralSummary uid w), s1))"

section \<open>Coupons\<close>

record couponsQuery =
  cq_page :: nat
  cq_limit :: nat
  cq_search :: "string option"
  cq_active :: "bool option"

text \<open>\<open>nameOf\<close>: a coupon's display name, a column nothing else reads.\<close>

definition findAllCouponsForAdmin :: "(string \<Rightarrow> string) \<Rightarrow> couponsQuery \<Rightarrow> world \<Rightarrow> coupon listPage" where
  "findAllCouponsForAdmin nameOf q w =
     listPage (cq_page q) (cq_limit q) id
       (rev (filter (\<lambda>c. given (cq_active q) (c_active c) \<and>
          mentions (cq_search q) [Some (c_code c), Some (nameOf (c_id c))]) (w_coupons w)))"

section \<open>Facts\<close>

lemma referral_code_stable:
  assumes "findReferralCode uid s = (Inr (Some c), s1)" "c \<noteq> []"
  shows "findReferralCode uid s1 = (Inr (Some c), s1)"
proof -
  obtain a where a: "lookup ua_id uid (as_users s) = Some a" using assms(1) by (auto simp: findReferralCode_def split: option.splits)
  then have "ua_id a = uid" by (rule lookup_key)
  then show ?thesis using assms a
    by (cases "truthy (ua_referralCode a)")
      (auto simp: findReferralCode_def setReferralCode_def updateUser_def lookup_modify split: if_splits)
qed

text \<open>
  C39. Two accounts whose ids begin alike half-register the second.  When an account, deleted ones
  included, already has the code that the new id gives, the registration answers with an error but
  the account stays, without a code; registering again is refused because the user exists.
\<close>

theorem code_collision_half_registers:
  assumes "findUserByEmail (rg_email dto) s = None" "b \<in> set (as_users s)" "ua_referralCode b = Some (ownReferralCode uuid)"
    and "uuid \<notin> ua_id ` set (as_users s)" "Some (rg_email dto) \<notin> ua_email ` set (as_users s)"
  shows "\<exists>s1 a. registerWithRole cr now uuid jti id dto rl s = (Inl (UniqueViolation ''referralCode''), s1) \<and>
    findUserByEmail (rg_email dto) s1 = Some a \<and> ua_id a = uuid \<and>
    registerWithRole cr later uuid2 jti2 id dto rl s1 = (Inl (Conflict ''User already exists''), s1)"
proof -
  define a where "a = \<lparr>ua_id = uuid, ua_firstName = rg_firstName dto, ua_lastName = rg_lastName dto,
    ua_email = Some (rg_email dto), ua_phone = None, ua_passwordHash = Some (cr_hash cr (rg_password dto)), ua_role = rl,
    ua_status = USER_ACTIVE, ua_avatarUrl = None, ua_referralCode = None, ua_referredByCode = rg_referralCode dto,
    ua_createdAt = now, ua_deletedAt = None\<rparr>"
  let ?s1 = "s\<lparr>as_users := as_users s @ [a]\<rparr>"
  have create: "createUser a s = (Inr a, ?s1)" using assms(5) by (auto simp: createUser_def a_def image_iff)
  have "ua_id b \<noteq> uuid" using assms(2,4) by auto
  then have "setReferralCode uuid (ownReferralCode uuid) ?s1 = (Inl (UniqueViolation ''referralCode''), ?s1)"
    using assms(2,3) by (auto simp: setReferralCode_def)
  then have "registerWithRole cr now uuid jti id dto rl s = (Inl (UniqueViolation ''referralCode''), ?s1)"
    using assms(1) create by (simp add: registerWithRole_def a_def)
  moreover have "findUserByEmail (rg_email dto) ?s1 = Some a"
    using find_snoc_fresh[of "as_users s" "\<lambda>a. ua_email a = Some (rg_email dto) \<and> ua_deletedAt a = None" a] assms(1)
    by (auto simp: findUserByEmail_def find_None_iff a_def)
  ultimately show ?thesis by (auto simp: registerWithRole_def a_def)
qed

definition bellaDto :: registerDto where
  "bellaDto = \<lparr>rg_firstName = ''Bella'', rg_lastName = None, rg_email = ''b@x'', rg_password = ''pw'', rg_referralCode = None\<rparr>"

lemma code_collision_half_registers_witness:
  "\<exists>s1 a. registerWithRole toyCrypto 5 ''abcdefgh-2'' ''j1'' id bellaDto CUSTOMER
      ((annaStore [])\<lparr>as_users := [anna\<lparr>ua_referralCode := Some (ownReferralCode ''abcdefgh-1'')\<rparr>]\<rparr>) =
      (Inl (UniqueViolation ''referralCode''), s1) \<and> findUserByEmail ''b@x'' s1 = Some a"
proof -
  let ?a = "anna\<lparr>ua_referralCode := Some (ownReferralCode ''abcdefgh-1'')\<rparr>"
  let ?s = "(annaStore [])\<lparr>as_users := [?a]\<rparr>"
  have "findUserByEmail (rg_email bellaDto) ?s = None" by (simp add: findUserByEmail_def bellaDto_def anna_def)
  moreover have "?a \<in> set (as_users ?s)" by simp
  moreover have "ua_referralCode ?a = Some (ownReferralCode ''abcdefgh-2'')" by (simp add: ownReferralCode_def)
  moreover have "''abcdefgh-2'' \<notin> ua_id ` set (as_users ?s)" by (simp add: anna_def)
  moreover have "Some (rg_email bellaDto) \<notin> ua_email ` set (as_users ?s)" by (simp add: bellaDto_def anna_def)
  ultimately have "\<exists>s1 a. registerWithRole toyCrypto 5 ''abcdefgh-2'' ''j1'' id bellaDto CUSTOMER ?s =
      (Inl (UniqueViolation ''referralCode''), s1) \<and> findUserByEmail (rg_email bellaDto) s1 = Some a \<and> ua_id a = ''abcdefgh-2'' \<and>
      registerWithRole toyCrypto 6 ''u3'' ''j2'' id bellaDto CUSTOMER s1 = (Inl (Conflict ''User already exists''), s1)"
    by (rule code_collision_half_registers)
  then show ?thesis by (auto simp: bellaDto_def)
qed

end
