(* ===== verification/Realtime.thy ===== *)
theory Realtime
  imports Auth Orders Tickets Geo "HOL-Library.AList"
begin

text \<open>
  Live connections and live positions: \<^verbatim>\<open>modules/realtime\<close> (gateway and service) and
  \<^verbatim>\<open>modules/tracking/services/tracking.service.ts\<close>, with the two CORS allowlists (\<^verbatim>\<open>main.ts\<close> for HTTP, the
  gateway's own for sockets).  The state is the list of open sockets with their users and rooms, the
  connection gauge, and what was sent to whom.  The socket library is used through connect, join, emit
  and disconnect; \<open>verify\<close> is the token library's check of signature and expiry.
\<close>

section \<open>Origins\<close>

record corsEnv =
  ce_customerApp :: "string option"
  ce_restaurantApp :: "string option"
  ce_adminApp :: "string option"
  ce_deliveryApp :: "string option"
  ce_apiPublicUrl :: "string option"
  ce_extraAllowedOrigins :: "string option"
  ce_nodeEnv :: "string option"

definition SLASH :: char where "SLASH = CHR 0x2F"

definition normalizeOrigin :: "string \<Rightarrow> string" where
  "normalizeOrigin s = rev (dropWhile (\<lambda>c. c = SLASH) (rev s))"

fun splitAt :: "char \<Rightarrow> string \<Rightarrow> string list" where
  "splitAt sep [] = [[]]"
| "splitAt sep (c # cs) =
     (if c = sep then [] # splitAt sep cs
      else case splitAt sep cs of [] \<Rightarrow> [[c]] | w # ws \<Rightarrow> (c # w) # ws)"

definition parseExtraAllowedOrigins :: "string option \<Rightarrow> string list" where
  "parseExtraAllowedOrigins v =
     filter (\<lambda>s. s \<noteq> []) (map trim (splitAt (CHR 0x2C) (case v of None \<Rightarrow> [] | Some s \<Rightarrow> s)))"

text \<open>\<^verbatim>\<open>/^https?:\\/\\/(localhost|127\\.0\\.0\\.1)(:\\d+)?$/\<close>.\<close>

definition portSuffix :: "string \<Rightarrow> bool" where
  "portSuffix s \<longleftrightarrow> s = [] \<or> (hd s = CHR 0x3A \<and> tl s \<noteq> [] \<and> list_all (\<lambda>c. c \<in> set ''0123456789'') (tl s))"

definition afterPrefix :: "string \<Rightarrow> string \<Rightarrow> string option" where
  "afterPrefix p s = (if startsWith p s then Some (drop (length p) s) else None)"

definition isLocalhost :: "string \<Rightarrow> bool" where
  "isLocalhost s \<longleftrightarrow> list_ex (\<lambda>scheme. list_ex (\<lambda>host.
     case afterPrefix (scheme @ ''://'' @ host) s of None \<Rightarrow> False | Some r \<Rightarrow> portSuffix r)
       [''localhost'', ''127.0.0.1'']) [''http'', ''https'']"

definition allowlist :: "string option list \<Rightarrow> string list \<Rightarrow> string list" where
  "allowlist vars extra = map normalizeOrigin (filter (\<lambda>s. s \<noteq> []) (List.map_filter id vars @ extra))"

definition originAllowed :: "string list \<Rightarrow> bool \<Rightarrow> string option \<Rightarrow> bool" where
  "originAllowed allowed isProduction origin =
     (if \<not> truthy origin then True
      else if normalizeOrigin (the origin) \<in> set allowed then True
      else \<not> isProduction \<and> isLocalhost (the origin))"

definition buildRealtimeCorsOrigin :: "corsEnv \<Rightarrow> string option \<Rightarrow> bool" where
  "buildRealtimeCorsOrigin e origin =
     originAllowed
       (allowlist [ce_customerApp e, ce_restaurantApp e, ce_adminApp e, ce_deliveryApp e]
          (parseExtraAllowedOrigins (ce_extraAllowedOrigins e)))
       (ce_nodeEnv e = Some ''production'') origin"

definition buildCorsOriginValidator :: "corsEnv \<Rightarrow> string option \<Rightarrow> bool" where
  "buildCorsOriginValidator e origin =
     originAllowed
       (allowlist [ce_customerApp e, ce_restaurantApp e, ce_adminApp e, ce_deliveryApp e, ce_apiPublicUrl e]
          (parseExtraAllowedOrigins (ce_extraAllowedOrigins e)))
       (ce_nodeEnv e = Some ''production'') origin"

section \<open>Sockets\<close>

record handshake =
  hs_token :: "string option"
  hs_authorization :: "string option"

record socket =
  so_id :: string
  so_user :: "authUser option"
  so_rooms :: "string list"

record sent =
  sn_room :: string
  sn_event :: string
  sn_sockets :: "string list"

record realtimeStore =
  ws_sockets :: "socket list"
  ws_connections :: int
  ws_sent :: "sent list"

definition extractToken :: "handshake \<Rightarrow> string option" where
  "extractToken h =
     (if truthy (hs_token h) then hs_token h
      else case hs_authorization h of
        None \<Rightarrow> None
      | Some v \<Rightarrow> if startsWith ''Bearer '' v then Some (drop 7 v) else None)"

text \<open>A refused connection is closed at once: its socket never enters the table.\<close>

definition handleConnection ::
  "(string \<Rightarrow> accessToken option) \<Rightarrow> handshake \<Rightarrow> string \<Rightarrow> realtimeStore \<Rightarrow> realtimeStore" where
  "handleConnection verify h sid s =
     (if \<not> truthy (extractToken h) then s
      else case verify (the (extractToken h)) of
        None \<Rightarrow> s
      | Some tok \<Rightarrow>
          s\<lparr>ws_sockets := ws_sockets s @
               [\<lparr>so_id = sid, so_user = Some \<lparr>userId = jp_sub (ac_payload tok), role = jp_role (ac_payload tok)\<rparr>, so_rooms = []\<rparr>],
             ws_connections := ws_connections s + 1\<rparr>)"

definition handleDisconnect :: "string \<Rightarrow> realtimeStore \<Rightarrow> realtimeStore" where
  "handleDisconnect sid s =
     (case lookup so_id sid (ws_sockets s) of
        None \<Rightarrow> s
      | Some k \<Rightarrow>
          s\<lparr>ws_sockets := filter (\<lambda>k. so_id k \<noteq> sid) (ws_sockets s),
            ws_connections := (if so_user k \<noteq> None then ws_connections s - 1 else ws_connections s)\<rparr>)"

definition COLON :: char where "COLON = CHR 0x3A"

definition splitRoom :: "string \<Rightarrow> (string \<times> string) option" where
  "splitRoom room =
     (if COLON \<in> set room then Some (takeWhile (\<lambda>c. c \<noteq> COLON) room, tl (dropWhile (\<lambda>c. c \<noteq> COLON) room)) else None)"

definition isAuthorizedForRoom :: "world \<Rightarrow> ticketStore \<Rightarrow> string \<Rightarrow> authUser \<Rightarrow> bool" where
  "isAuthorizedForRoom w tk room u =
     (if role u = ADMIN \<or> role u = SUPER_ADMIN then True
      else if room = ''support-queue'' then role u = SUPPORT_AGENT
      else case splitRoom room of
        None \<Rightarrow> False
      | Some (prefix, i) \<Rightarrow>
          if i = [] then False
          else if prefix = ''user'' then i = userId u
          else if prefix = ''order'' then
            (case lookup o_id i (w_orders w) of None \<Rightarrow> False | Some ord \<Rightarrow> canAccessOrder w ord u)
          else if prefix = ''restaurant'' then canAccessRestaurant w i u
          else if prefix = ''ticket'' then
            (if role u = SUPPORT_AGENT then True
             else case lookup k_id i (ts_tickets tk) of None \<Rightarrow> False | Some k \<Rightarrow> k_customerId k = userId u)
          else False)"

datatype joinRoomResult = Joined string | NotAuthenticated | NotAuthorized

definition joinRoom ::
  "world \<Rightarrow> ticketStore \<Rightarrow> string \<Rightarrow> string \<Rightarrow> realtimeStore \<Rightarrow> joinRoomResult \<times> realtimeStore" where
  "joinRoom w tk sid room s =
     (case Option.bind (lookup so_id sid (ws_sockets s)) so_user of
        None \<Rightarrow> (NotAuthenticated, s)
      | Some u \<Rightarrow>
          if \<not> isAuthorizedForRoom w tk room u then (NotAuthorized, s)
          else (Joined room,
                s\<lparr>ws_sockets := modify (\<lambda>k. so_id k = sid)
                    (\<lambda>k. k\<lparr>so_rooms := (if room \<in> set (so_rooms k) then so_rooms k else so_rooms k @ [room])\<rparr>) (ws_sockets s)\<rparr>))"

definition members :: "string \<Rightarrow> realtimeStore \<Rightarrow> socket list" where
  "members room s = filter (\<lambda>k. room \<in> set (so_rooms k)) (ws_sockets s)"

definition emitToRoom :: "string \<Rightarrow> string \<Rightarrow> realtimeStore \<Rightarrow> realtimeStore" where
  "emitToRoom room event s =
     s\<lparr>ws_sent := ws_sent s @ [\<lparr>sn_room = room, sn_event = event, sn_sockets = map so_id (members room s)\<rparr>]\<rparr>"

definition userRoom :: "string \<Rightarrow> string" where "userRoom uid = ''user:'' @ uid"
definition orderRoom :: "string \<Rightarrow> string" where "orderRoom oid = ''order:'' @ oid"
definition restaurantRoom :: "string \<Rightarrow> string" where "restaurantRoom rid = ''restaurant:'' @ rid"

definition emitToUser :: "string \<Rightarrow> string \<Rightarrow> realtimeStore \<Rightarrow> realtimeStore" where
  "emitToUser uid = emitToRoom (userRoom uid)"

definition emitToOrder :: "string \<Rightarrow> string \<Rightarrow> realtimeStore \<Rightarrow> realtimeStore" where
  "emitToOrder oid = emitToRoom (orderRoom oid)"

definition emitToRestaurant :: "string \<Rightarrow> string \<Rightarrow> realtimeStore \<Rightarrow> realtimeStore" where
  "emitToRestaurant rid = emitToRoom (restaurantRoom rid)"

text \<open>Every socket in the user's own room is closed, and each closing runs \<^const>\<open>handleDisconnect\<close>.\<close>

definition disconnectUser :: "string \<Rightarrow> realtimeStore \<Rightarrow> realtimeStore" where
  "disconnectUser uid s = fold (\<lambda>k. handleDisconnect (so_id k)) (members (userRoom uid) s) s"

section \<open>Live positions\<close>

definition TRACKING_TTL_SECONDS :: int where "TRACKING_TTL_SECONDS = 15 * 60"
definition ASSUMED_AVERAGE_SPEED_KMH :: real where "ASSUMED_AVERAGE_SPEED_KMH = 25"

record orderLocation =
  gl_latitude :: rat
  gl_longitude :: rat
  gl_updatedAt :: int
  gl_distanceKm :: "real option"
  gl_etaMinutes :: "int option"

text \<open>The Redis key of an order's position, with the instant it expires.\<close>

record trackingStore =
  tr_keys :: "(string \<times> orderLocation \<times> int) list"
  tr_sockets :: realtimeStore

definition etaMinutes :: "real \<Rightarrow> int" where
  "etaMinutes km = max 1 \<lfloor>km / ASSUMED_AVERAGE_SPEED_KMH * 60 + 1 / 2\<rfloor>"

definition locationOf :: "int \<Rightarrow> rat \<Rightarrow> rat \<Rightarrow> order \<Rightarrow> orderLocation" where
  "locationOf now lat lng ord =
     (let km = (case (o_latitude ord, o_longitude ord) of
                  (Some olat, Some olng) \<Rightarrow>
                    Some (haversineDistanceKm (of_rat lat) (of_rat lng) (of_rat olat) (of_rat olng))
                | _ \<Rightarrow> None)
      in \<lparr>gl_latitude = lat, gl_longitude = lng, gl_updatedAt = now, gl_distanceKm = km,
          gl_etaMinutes = map_option etaMinutes km\<rparr>)"

definition mayTrack :: "order \<Rightarrow> authUser \<Rightarrow> bool" where
  "mayTrack ord u \<longleftrightarrow>
     role u = ADMIN \<or> role u = SUPER_ADMIN \<or> (role u = DELIVERY_PARTNER \<and> o_deliveryPartnerId ord = Some (userId u))"

definition storePosition :: "string \<Rightarrow> rat \<Rightarrow> rat \<Rightarrow> world \<Rightarrow> world" where
  "storePosition rid lat lng w =
     w\<lparr>w_partners := modify (\<lambda>d. d_userId d = rid) (setLocation (Some (lat, lng))) (w_partners w)\<rparr>"

definition updateOrderLocation ::
  "int \<Rightarrow> string \<Rightarrow> rat \<Rightarrow> rat \<Rightarrow> authUser \<Rightarrow> world \<times> trackingStore \<Rightarrow> (world \<times> trackingStore, orderLocation) outcome" where
  "updateOrderLocation now oid lat lng u st =
     (case getOrderOwnership oid (fst st) of
        Inl e \<Rightarrow> (Inl e, st)
      | Inr ord \<Rightarrow>
          if \<not> mayTrack ord u then (Inl (Forbidden ''location''), st)
          else
            let data = locationOf now lat lng ord;
                t1 = (snd st)\<lparr>tr_keys := AList.update oid (data, now + TRACKING_TTL_SECONDS * 1000) (tr_keys (snd st))\<rparr>;
                w1 = (case o_deliveryPartnerId ord of None \<Rightarrow> fst st | Some rid \<Rightarrow> storePosition rid lat lng (fst st))
            in (Inr data, (w1, t1\<lparr>tr_sockets := emitToOrder oid ''tracking.location'' (tr_sockets t1)\<rparr>)))"

definition getOrderLocation :: "int \<Rightarrow> string \<Rightarrow> authUser \<Rightarrow> world \<Rightarrow> trackingStore \<Rightarrow> orderLocation option result" where
  "getOrderLocation now oid u w t =
     andThen (assertOrderAccessById oid u w) (\<lambda>_.
       Inr (case map_of (tr_keys t) oid of None \<Rightarrow> None | Some (data, expires) \<Rightarrow> if now < expires then Some data else None))"

end
