(* ===== verification/RealtimeSafety.thy ===== *)
theory RealtimeSafety
  imports Realtime AuthSafety
begin

text \<open>
  What the socket layer promises: who is in a room was authorized for it, pushes to a user reach that
  user and administrators only, the connection gauge is exact, the two CORS allowlists agree; and what
  it misses: a suspended user comes back with the old token, and a rider keeps listening to an order
  after losing it.
\<close>

section \<open>Origins\<close>

lemma set_allowlist: "set (allowlist vars extra) = normalizeOrigin ` {y. y \<noteq> [] \<and> (Some y \<in> set vars \<or> y \<in> set extra)}"
proof -
  have "set (List.map_filter id vars) = {y. Some y \<in> set vars}"
    by (induction vars) (auto simp: List.map_filter_simps split: option.splits)
  then show ?thesis by (auto simp: allowlist_def)
qed

text \<open>
  The sockets accept exactly the origins that the HTTP API accepts, except the API's own public
  address, which only the API accepts.
\<close>

theorem cors_lists_agree:
  "buildCorsOriginValidator e origin \<longleftrightarrow>
     buildRealtimeCorsOrigin e origin \<or>
     (\<exists>v. ce_apiPublicUrl e = Some v \<and> v \<noteq> [] \<and> truthy origin \<and> normalizeOrigin (the origin) = normalizeOrigin v)"
  by (cases "ce_apiPublicUrl e")
    (auto simp: buildCorsOriginValidator_def buildRealtimeCorsOrigin_def originAllowed_def set_allowlist)

section \<open>Rooms\<close>

text \<open>The joins that were asked for, with the database they were decided on.\<close>

inductive wsReach ::
  "(string \<Rightarrow> accessToken option) \<Rightarrow> (string \<times> string \<times> world \<times> ticketStore) list \<Rightarrow> realtimeStore \<Rightarrow> bool"
  for verify where
  ws_start: "wsReach verify [] \<lparr>ws_sockets = [], ws_connections = 0, ws_sent = []\<rparr>"
| ws_connect: "wsReach verify js s \<Longrightarrow> sid \<notin> so_id ` set (ws_sockets s) \<Longrightarrow> wsReach verify js (handleConnection verify h sid s)"
| ws_close: "wsReach verify js s \<Longrightarrow> wsReach verify js (handleDisconnect sid s)"
| ws_join: "wsReach verify js s \<Longrightarrow> wsReach verify (js @ [(sid, room, w, tk)]) (snd (joinRoom w tk sid room s))"
| ws_kick: "wsReach verify js s \<Longrightarrow> wsReach verify js (disconnectUser uid s)"
| ws_emit: "wsReach verify js s \<Longrightarrow> wsReach verify js (emitToRoom room event s)"

definition roomsGranted :: "(string \<times> string \<times> world \<times> ticketStore) list \<Rightarrow> socket \<Rightarrow> bool" where
  "roomsGranted js k \<longleftrightarrow> (\<exists>u. so_user k = Some u \<and>
     (\<forall>room \<in> set (so_rooms k). \<exists>w tk. (so_id k, room, w, tk) \<in> set js \<and> isAuthorizedForRoom w tk room u))"

definition wsInv :: "(string \<times> string \<times> world \<times> ticketStore) list \<Rightarrow> realtimeStore \<Rightarrow> bool" where
  "wsInv js s \<longleftrightarrow> keyed so_id (ws_sockets s) \<and> (\<forall>k \<in> set (ws_sockets s). roomsGranted js k) \<and>
     ws_connections s = int (length (ws_sockets s))"

lemma remove_keyed:
  assumes "keyed key rows" "lookup key x rows = Some r"
  shows "length rows = Suc (length (filter (\<lambda>r. key r \<noteq> x) rows))"
  using assms
proof (induction rows)
  case (Cons a rows)
  show ?case
  proof (cases "key a = x")
    case True
    then have "filter (\<lambda>r. key r \<noteq> x) rows = rows"
      using Cons.prems(1) by (auto simp: keyed_def filter_id_conv) (metis image_eqI)
    then show ?thesis using True by simp
  next
    case False
    then show ?thesis using Cons by (simp add: keyed_def)
  qed
qed simp

lemma wsInv_connect: "wsInv js s \<Longrightarrow> sid \<notin> so_id ` set (ws_sockets s) \<Longrightarrow> wsInv js (handleConnection verify h sid s)"
  by (auto simp: wsInv_def handleConnection_def keyed_snoc roomsGranted_def split: option.split)

lemma wsInv_close: "wsInv js s \<Longrightarrow> wsInv js (handleDisconnect sid s)"
proof (cases "lookup so_id sid (ws_sockets s)")
  case (Some k)
  assume inv: "wsInv js s"
  have "k \<in> set (ws_sockets s)" using lookup_mem[OF Some] .
  then have "so_user k \<noteq> None" using inv by (auto simp: wsInv_def roomsGranted_def)
  then show ?thesis using inv remove_keyed[OF _ Some]
    by (auto simp: wsInv_def handleDisconnect_def Some keyed_filter)
qed (simp add: handleDisconnect_def)

lemma wsInv_kick: "wsInv js s \<Longrightarrow> wsInv js (disconnectUser uid s)"
proof -
  have "wsInv js s \<Longrightarrow> wsInv js (fold (\<lambda>k. handleDisconnect (so_id k)) ks s)" for ks
    by (induction ks arbitrary: s) (simp_all add: wsInv_close)
  then show "wsInv js s \<Longrightarrow> wsInv js (disconnectUser uid s)" by (simp add: disconnectUser_def)
qed

lemma granted_more: "roomsGranted js k \<Longrightarrow> roomsGranted (js @ [j]) k"
  by (fastforce simp: roomsGranted_def)

lemma wsInv_join: 
  assumes "wsInv js s"
  shows "wsInv (js @ [(sid, room, w, tk)]) (snd (joinRoom w tk sid room s))"
proof (cases "Option.bind (lookup so_id sid (ws_sockets s)) so_user")
  case None
  then show ?thesis using assms by (auto simp: joinRoom_def wsInv_def granted_more)
next
  case (Some u)
  then obtain k where k: "lookup so_id sid (ws_sockets s) = Some k" "so_user k = Some u"
    by (auto simp: bind_eq_Some_conv)
  let ?f = "\<lambda>k. k\<lparr>so_rooms := (if room \<in> set (so_rooms k) then so_rooms k else so_rooms k @ [room])\<rparr>"
  have only: "k' = k" if "k' \<in> set (ws_sockets s)" "so_id k' = sid" for k'
    using that k(1) assms lookup_keyed[of so_id "ws_sockets s" k'] by (auto simp: wsInv_def)
  have "roomsGranted (js @ [(sid, room, w, tk)]) (?f k)" if "isAuthorizedForRoom w tk room u"
    using that assms k(2) lookup_mem[OF k(1)] lookup_key[OF k(1)]
    by (fastforce simp: wsInv_def roomsGranted_def)
  then show ?thesis using assms only k
    by (auto simp: joinRoom_def wsInv_def granted_more set_modify)
qed

lemma wsReach_inv: "wsReach verify js s \<Longrightarrow> wsInv js s"
  by (induction rule: wsReach.induct)
    (simp_all add: wsInv_connect wsInv_close wsInv_join wsInv_kick, simp_all add: wsInv_def emitToRoom_def keyed_def)

text \<open>
  C21. Whoever is in a room was authorized for it: along any connections, closings, joins, forced
  disconnects and pushes, every socket in a room belongs to a user whom a join of this socket found
  authorized for the room, and the connection gauge is the number of open sockets.
\<close>

theorem room_members_were_authorized:
  assumes "wsReach verify js s" "k \<in> set (ws_sockets s)" "room \<in> set (so_rooms k)"
  shows "\<exists>u w tk. so_user k = Some u \<and> (so_id k, room, w, tk) \<in> set js \<and> isAuthorizedForRoom w tk room u \<and>
    ws_connections s = int (length (ws_sockets s))"
  using wsReach_inv[OF assms(1)] assms(2,3) by (fastforce simp: wsInv_def roomsGranted_def)

lemma user_room_split: "splitRoom (userRoom uid) = Some (''user'', uid)"
  by (simp add: splitRoom_def userRoom_def COLON_def)

lemma user_room_private:
  "isAuthorizedForRoom w tk (userRoom uid) u \<longleftrightarrow> role u = ADMIN \<or> role u = SUPER_ADMIN \<or> (uid \<noteq> [] \<and> uid = userId u)"
proof -
  have "userRoom uid \<noteq> ''support-queue''" by (simp add: userRoom_def)
  then show ?thesis by (simp add: isAuthorizedForRoom_def user_room_split)
qed

lemma pushes_stay_private:
  assumes "wsReach verify js s" "k \<in> set (members (userRoom uid) s)"
  shows "\<exists>u. so_user k = Some u \<and> (userId u = uid \<or> role u = ADMIN \<or> role u = SUPER_ADMIN)"
proof -
  have "k \<in> set (ws_sockets s)" "userRoom uid \<in> set (so_rooms k)" using assms(2) by (auto simp: members_def)
  then show ?thesis using wsReach_inv[OF assms(1)] by (fastforce simp: wsInv_def roomsGranted_def user_room_private)
qed

text \<open>
  C20. A suspended user comes back over a socket.  After a suspension the HTTP layer refuses the user's
  access token, but a new connection with the same token is accepted and joins the user's own room:
  the gateway checks signature and expiry only.
\<close>

theorem suspended_user_listens_on:
  assumes "suspendUser now True uid actor a0 = (Inr acc, a1)" "(authStep uid)\<^sup>*\<^sup>* a1 a2"
    and "verify t = Some tok" "t \<noteq> []" "jp_sub (ac_payload tok) = uid" "uid \<noteq> []" "sid \<notin> so_id ` set (ws_sockets s)"
  shows "\<not> ok (validate later True tok a2) \<and>
    fst (joinRoom w tk sid (userRoom uid) (handleConnection verify \<lparr>hs_token = Some t, hs_authorization = None\<rparr> sid s)) =
      Joined (userRoom uid)"
proof -
  have "\<not> ok (validate later True tok a2)"
    using suspended_blocked[OF assms(1,2)] assms(5) by (simp add: validate_def redisHas_def Let_def)
  moreover have "lookup so_id sid (ws_sockets s) = None" using assms(7) by (auto simp: lookup_None_iff)
  ultimately show ?thesis using assms(3-6)
    by (simp add: handleConnection_def extractToken_def joinRoom_def lookup_append user_room_private)
qed

lemma reassigned_rider_keeps_listening:
  assumes "fst (joinRoom w tk sid (orderRoom oid) s) = Joined (orderRoom oid)"
  shows "sid \<in> set (sn_sockets (last (ws_sent (emitToOrder oid event (snd (joinRoom w tk sid (orderRoom oid) s))))))"
proof -
  obtain k where k: "lookup so_id sid (ws_sockets s) = Some k" "so_user k \<noteq> None"
    using assms by (auto simp: joinRoom_def bind_eq_Some_conv split: option.splits if_splits)
  let ?f = "\<lambda>k. k\<lparr>so_rooms := (if orderRoom oid \<in> set (so_rooms k) then so_rooms k else so_rooms k @ [orderRoom oid])\<rparr>"
  have "k \<in> set (ws_sockets s)" "so_id k = sid" using lookup_mem[OF k(1)] lookup_key[OF k(1)] by auto
  then have "?f k \<in> set (modify (\<lambda>k. so_id k = sid) ?f (ws_sockets s))" by (force simp: set_modify)
  moreover have "orderRoom oid \<in> set (so_rooms (?f k))" "so_id (?f k) = sid" using \<open>so_id k = sid\<close> by auto
  moreover have "ws_sockets (snd (joinRoom w tk sid (orderRoom oid) s)) = modify (\<lambda>k. so_id k = sid) ?f (ws_sockets s)"
    using assms k by (auto simp: joinRoom_def split: if_splits)
  ultimately have "?f k \<in> set (members (orderRoom oid) (snd (joinRoom w tk sid (orderRoom oid) s)))"
    by (simp add: members_def)
  then have "so_id (?f k) \<in> set (map so_id (members (orderRoom oid) (snd (joinRoom w tk sid (orderRoom oid) s))))"
    by (metis image_eqI set_map)
  then show ?thesis using \<open>so_id (?f k) = sid\<close> by (simp only: emitToOrder_def emitToRoom_def) simp
qed

section \<open>Live positions\<close>

lemma etaMinutes_pos: "1 \<le> etaMinutes km"
  by (simp add: etaMinutes_def)

text \<open>
  The position that a rider pushes is the one that is read: after an accepted update whoever has
  access to the order reads exactly the pushed position for fifteen minutes and nothing after, the
  pusher is the order's rider or an administrator, and an estimate is at least one minute.
\<close>

theorem position_roundtrip:
  assumes "updateOrderLocation now oid lat lng u (w, t) = (Inr data, (w', t'))" "ok (assertOrderAccessById oid v w')"
  shows "getOrderLocation later oid v w' t' = Inr (if later < now + 900000 then Some data else None) \<and>
    gl_latitude data = lat \<and> gl_longitude data = lng \<and>
    (\<exists>ord. findOrderById oid w = Some ord \<and> mayTrack ord u) \<and> (case gl_etaMinutes data of None \<Rightarrow> True | Some m \<Rightarrow> 1 \<le> m)"
proof -
  obtain ord where o: "findOrderById oid w = Some ord" "mayTrack ord u" "data = locationOf now lat lng ord"
    "t' = t\<lparr>tr_keys := AList.update oid (data, now + TRACKING_TTL_SECONDS * 1000) (tr_keys t),
       tr_sockets := emitToOrder oid ''tracking.location'' (tr_sockets t)\<rparr>"
    using assms(1) by (auto simp: updateOrderLocation_def getOrderOwnership_def Let_def split: option.splits if_splits)
  obtain x where "assertOrderAccessById oid v w' = Inr x" using assms(2) by (cases "assertOrderAccessById oid v w'") auto
  then have "getOrderLocation later oid v w' t' = Inr (if later < now + 900000 then Some data else None)"
    by (simp add: getOrderLocation_def o(4) update_conv' TRACKING_TTL_SECONDS_def)
  moreover have "gl_latitude data = lat" "gl_longitude data = lng"
    "case gl_etaMinutes data of None \<Rightarrow> True | Some m \<Rightarrow> 1 \<le> m"
    by (auto simp: o(3) locationOf_def Let_def etaMinutes_pos split: option.split)
  ultimately show ?thesis using o(1,2) by blast
qed

section \<open>Concrete inputs\<close>

definition annaToken :: accessToken where
  "annaToken = generateAccessToken ''j1'' 1000 (payloadOf anna)"

definition idleSockets :: realtimeStore where
  "idleSockets = \<lparr>ws_sockets = [], ws_connections = 0, ws_sent = []\<rparr>"

definition annaOnline :: realtimeStore where
  "annaOnline = handleConnection (\<lambda>_. Some annaToken) \<lparr>hs_token = Some ''t'', hs_authorization = None\<rparr> ''s1'' idleSockets"

lemma anna_online:
  "annaOnline = \<lparr>ws_sockets = [\<lparr>so_id = ''s1'', so_user = Some \<lparr>userId = ''u1'', role = CUSTOMER\<rparr>, so_rooms = []\<rparr>],
     ws_connections = 1, ws_sent = []\<rparr>"
  by (simp add: annaOnline_def handleConnection_def extractToken_def idleSockets_def annaToken_def generateAccessToken_def
      payloadOf_def anna_def)

lemma room_members_were_authorized_witness:
  "\<exists>u w tk. (''s1'', userRoom ''u1'', w, tk) \<in> set [(''s1'', userRoom ''u1'', emptyWorld, noTickets)] \<and>
    isAuthorizedForRoom w tk (userRoom ''u1'') u"
proof -
  let ?s = "snd (joinRoom emptyWorld noTickets ''s1'' (userRoom ''u1'') annaOnline)"
  have "wsReach (\<lambda>_. Some annaToken) [] annaOnline"
    unfolding annaOnline_def by (intro ws_connect) (simp_all add: idleSockets_def ws_start)
  from ws_join[OF this] have r: "wsReach (\<lambda>_. Some annaToken) [(''s1'', userRoom ''u1'', emptyWorld, noTickets)] ?s" by simp
  have "ws_sockets ?s = [\<lparr>so_id = ''s1'', so_user = Some \<lparr>userId = ''u1'', role = CUSTOMER\<rparr>, so_rooms = [userRoom ''u1'']\<rparr>]"
    by (simp add: joinRoom_def anna_online user_room_private)
  then show ?thesis using room_members_were_authorized[OF r, of "hd (ws_sockets ?s)" "userRoom ''u1''"] by auto
qed

lemma suspended_user_listens_on_witness:
  "\<exists>s1. \<not> ok (validate 1600 True annaToken s1) \<and>
    fst (joinRoom emptyWorld noTickets ''s1'' (userRoom ''u1'')
      (handleConnection (\<lambda>_. Some annaToken) \<lparr>hs_token = Some ''t'', hs_authorization = None\<rparr> ''s1'' idleSockets)) = Joined (userRoom ''u1'')"
proof -
  obtain a s1 where s: "suspendUser 1500 True ''u1'' ''admin'' (annaStore [annaRow]) = (Inr a, s1)"
    using anna_suspended by blast
  have "jp_sub (ac_payload annaToken) = ''u1''" by (simp add: annaToken_def generateAccessToken_def payloadOf_def anna_def)
  moreover have "''s1'' \<notin> so_id ` set (ws_sockets idleSockets)" by (simp add: idleSockets_def)
  ultimately show ?thesis
    using suspended_user_listens_on[OF s rtranclp.rtrancl_refl, of "\<lambda>_. Some annaToken" "''t''" annaToken "''s1''" idleSockets]
    by blast
qed

definition ridingWorld :: world where
  "ridingWorld = emptyWorld\<lparr>w_orders := [sampleOrder\<lparr>o_deliveryPartnerId := Some ''d1''\<rparr>]\<rparr>"

lemma position_roundtrip_witness:
  "\<exists>data w' t'. updateOrderLocation 1000 ''o1'' 12 77 \<lparr>userId = ''d1'', role = DELIVERY_PARTNER\<rparr>
      (ridingWorld, \<lparr>tr_keys = [], tr_sockets = idleSockets\<rparr>) = (Inr data, (w', t')) \<and>
    getOrderLocation 2000 ''o1'' \<lparr>userId = ''u1'', role = CUSTOMER\<rparr> w' t' = Inr (Some data) \<and> gl_latitude data = 12"
proof -
  let ?rider = "\<lparr>userId = ''d1'', role = DELIVERY_PARTNER\<rparr>"
  let ?t = "\<lparr>tr_keys = [], tr_sockets = idleSockets\<rparr>"
  obtain data w' t' where u: "updateOrderLocation 1000 ''o1'' 12 77 ?rider (ridingWorld, ?t) = (Inr data, (w', t'))"
    "w_orders w' = w_orders ridingWorld"
    by (simp add: updateOrderLocation_def getOrderOwnership_def findOrderById_def ridingWorld_def sampleOrder_def mayTrack_def
        storePosition_def Let_def)
  have "ok (assertOrderAccessById ''o1'' \<lparr>userId = ''u1'', role = CUSTOMER\<rparr> w')"
    using u(2) by (simp add: assertOrderAccessById_def getOrderOwnership_def findOrderById_def ridingWorld_def sampleOrder_def
        assertOrderAccess_def canAccessOrder_def guard_def)
  from position_roundtrip[OF u(1) this, of 2000] u(1) show ?thesis by auto
qed

end
