(* ===== verification/Bootstrap.thy ===== *)
theory Bootstrap
  imports AuthSafety
begin

text \<open>
  The first administrator: \<^verbatim>\<open>modules/admin/bootstrap/admin-bootstrap.service.ts\<close>, which every replica runs
  at start-up.  The check and the insert are one serializable transaction, so replicas that start
  together take effect one after another, or are aborted (\<open>aborted\<close>).  The password hash is \<open>cr_hash\<close>
  of theory \<open>Auth\<close>.
\<close>

record superAdminConfig =
  sc_email :: string
  sc_password :: string
  sc_firstName :: string
  sc_lastName :: string
  sc_phone :: string

definition REQUIRED_ENV_VARS :: "string list" where
  "REQUIRED_ENV_VARS = [''SUPER_ADMIN_EMAIL'', ''SUPER_ADMIN_PASSWORD'', ''SUPER_ADMIN_FIRST_NAME'',
     ''SUPER_ADMIN_LAST_NAME'', ''SUPER_ADMIN_PHONE'']"

definition loadConfig :: "(string \<Rightarrow> string option) \<Rightarrow> superAdminConfig option" where
  "loadConfig env =
     (if filter (\<lambda>key. \<not> truthy (env key)) REQUIRED_ENV_VARS \<noteq> [] then None
      else Some \<lparr>sc_email = the (env ''SUPER_ADMIN_EMAIL''), sc_password = the (env ''SUPER_ADMIN_PASSWORD''),
                 sc_firstName = the (env ''SUPER_ADMIN_FIRST_NAME''), sc_lastName = the (env ''SUPER_ADMIN_LAST_NAME''),
                 sc_phone = the (env ''SUPER_ADMIN_PHONE'')\<rparr>)"

definition activeSuperAdmin :: "account \<Rightarrow> bool" where
  "activeSuperAdmin a \<longleftrightarrow> ua_role a = SUPER_ADMIN \<and> ua_status a = USER_ACTIVE \<and> ua_deletedAt a = None"

text \<open>The unique indexes on \<^verbatim>\<open>email\<close> and \<^verbatim>\<open>phone\<close>.\<close>

definition takenContact :: "account \<Rightarrow> account list \<Rightarrow> bool" where
  "takenContact a rows \<longleftrightarrow>
     list_ex (\<lambda>b. (ua_email b \<noteq> None \<and> ua_email b = ua_email a) \<or> (ua_phone b \<noteq> None \<and> ua_phone b = ua_phone a)) rows"

definition superAdminRow :: "crypto \<Rightarrow> int \<Rightarrow> string \<Rightarrow> superAdminConfig \<Rightarrow> account" where
  "superAdminRow cr now uuid cfg =
     \<lparr>ua_id = uuid, ua_firstName = sc_firstName cfg, ua_lastName = Some (sc_lastName cfg), ua_email = Some (sc_email cfg),
      ua_phone = Some (sc_phone cfg), ua_passwordHash = Some (cr_hash cr (sc_password cfg)), ua_role = SUPER_ADMIN,
      ua_status = USER_ACTIVE, ua_avatarUrl = None, ua_referralCode = None, ua_referredByCode = None, ua_createdAt = now,
      ua_deletedAt = None\<rparr>"

definition bootstrapTx ::
  "crypto \<Rightarrow> int \<Rightarrow> string \<Rightarrow> bool \<Rightarrow> superAdminConfig \<Rightarrow> authStore \<Rightarrow> (authStore, account option) outcome" where
  "bootstrapTx cr now uuid aborted cfg s =
     (if aborted then (Inl SerializationFailure, s)
      else if list_ex activeSuperAdmin (as_users s) then (Inr None, s)
      else
        let a = superAdminRow cr now uuid cfg
        in if takenContact a (as_users s) then (Inl (UniqueViolation ''User''), s)
           else (Inr (Some a), s\<lparr>as_users := as_users s @ [a]\<rparr>))"

fun isConcurrentCreationConflict :: "error \<Rightarrow> bool" where
  "isConcurrentCreationConflict (UniqueViolation _) = True"
| "isConcurrentCreationConflict SerializationFailure = True"
| "isConcurrentCreationConflict _ = False"

datatype bootstrapLog = Skipped | SuperAdminCreated string | SuperAdminAlreadyExists | BootstrapFailed

definition createSuperAdminIfMissing ::
  "crypto \<Rightarrow> int \<Rightarrow> string \<Rightarrow> bool \<Rightarrow> superAdminConfig \<Rightarrow> authStore \<Rightarrow> (authStore, bootstrapLog) outcome" where
  "createSuperAdminIfMissing cr now uuid aborted cfg s =
     (case bootstrapTx cr now uuid aborted cfg s of
        (Inr None, s1) \<Rightarrow> (Inr SuperAdminAlreadyExists, s1)
      | (Inr (Some a), s1) \<Rightarrow> (Inr (SuperAdminCreated (ua_id a)), s1)
      | (Inl e, s1) \<Rightarrow> if isConcurrentCreationConflict e then (Inr SuperAdminAlreadyExists, s1) else (Inl e, s1))"

definition onApplicationBootstrap ::
  "crypto \<Rightarrow> int \<Rightarrow> string \<Rightarrow> bool \<Rightarrow> (string \<Rightarrow> string option) \<Rightarrow> authStore \<Rightarrow> bootstrapLog \<times> authStore" where
  "onApplicationBootstrap cr now uuid aborted env s =
     (case loadConfig env of
        None \<Rightarrow> (Skipped, s)
      | Some cfg \<Rightarrow>
          (case createSuperAdminIfMissing cr now uuid aborted cfg s of
             (Inr l, s1) \<Rightarrow> (l, s1)
           | (Inl e, s1) \<Rightarrow> (BootstrapFailed, s1)))"

section \<open>Any number of replicas\<close>

definition superAdmins :: "authStore \<Rightarrow> nat" where
  "superAdmins s = matches activeSuperAdmin (as_users s)"

fun bootReplicas :: "crypto \<Rightarrow> (int \<times> string \<times> bool \<times> (string \<Rightarrow> string option)) list \<Rightarrow> authStore \<Rightarrow> authStore" where
  "bootReplicas cr [] s = s"
| "bootReplicas cr ((now, uuid, aborted, env) # bs) s = bootReplicas cr bs (snd (onApplicationBootstrap cr now uuid aborted env s))"

lemma boot_cases:
  "snd (onApplicationBootstrap cr now uuid aborted env s) = s \<or>
   (superAdmins s = 0 \<and> (\<exists>cfg. snd (onApplicationBootstrap cr now uuid aborted env s) =
      s\<lparr>as_users := as_users s @ [superAdminRow cr now uuid cfg]\<rparr>))"
  by (auto simp: onApplicationBootstrap_def createSuperAdminIfMissing_def bootstrapTx_def superAdmins_def matches_0_iff
      list_ex_iff Let_def split: option.splits)

lemma boot_count: "superAdmins (snd (onApplicationBootstrap cr now uuid aborted env s)) \<le> max 1 (superAdmins s)"
  using boot_cases[of cr now uuid aborted env s] by (auto simp: superAdmins_def matches_append)

text \<open>
  C40. However many replicas start, together or one after another, with whatever settings, they never
  create a second active super administrator, and they leave every existing account as it is.
\<close>

theorem one_super_admin_bootstrapped:
  "superAdmins (bootReplicas cr boots s) \<le> max 1 (superAdmins s) \<and>
   (\<exists>new. as_users (bootReplicas cr boots s) = as_users s @ new \<and> length new \<le> 1)"
proof -
  have settled: "bootReplicas cr bs s = s" if "superAdmins s \<noteq> 0" for bs s
    using that
  proof (induction bs arbitrary: s)
    case (Cons b bs)
    obtain now uuid ab env where b: "b = (now, uuid, ab, env)" by (cases b)
    show ?case using boot_cases[of cr now uuid ab env s] Cons by (auto simp: b)
  qed simp
  show ?thesis
  proof (induction boots arbitrary: s)
    case (Cons b bs)
    obtain now uuid ab env where b: "b = (now, uuid, ab, env)" by (cases b)
    let ?s = "snd (onApplicationBootstrap cr now uuid ab env s)"
    from boot_cases[of cr now uuid ab env s] show ?case
    proof
      assume "?s = s" then show ?thesis using Cons.IH[of s] by (simp add: b)
    next
      assume "superAdmins s = 0 \<and> (\<exists>cfg. ?s = s\<lparr>as_users := as_users s @ [superAdminRow cr now uuid cfg]\<rparr>)"
      then obtain cfg where cfg: "?s = s\<lparr>as_users := as_users s @ [superAdminRow cr now uuid cfg]\<rparr>" by blast
      then have "superAdmins ?s \<noteq> 0" by (simp add: superAdmins_def matches_append activeSuperAdmin_def superAdminRow_def)
      then show ?thesis using settled[of ?s bs] boot_count[of cr now uuid ab env s] cfg by (simp add: b)
    qed
  qed simp
qed

text \<open>
  A taken address is reported as success.  When the configured email belongs to any account and no
  super administrator is active, the bootstrap creates nobody and logs that a super administrator
  already exists; the platform starts without one.
\<close>

theorem taken_email_masks_missing_admin:
  assumes "loadConfig env = Some cfg" "superAdmins s = 0" "a \<in> set (as_users s)" "ua_email a = Some (sc_email cfg)"
  shows "onApplicationBootstrap cr now uuid False env s = (SuperAdminAlreadyExists, s) \<and> superAdmins s = 0"
proof -
  have "\<not> list_ex activeSuperAdmin (as_users s)" using assms(2) by (auto simp: superAdmins_def matches_0_iff list_ex_iff)
  moreover have "takenContact (superAdminRow cr now uuid cfg) (as_users s)"
    using assms(3,4) by (auto simp: takenContact_def superAdminRow_def list_ex_iff)
  ultimately show ?thesis using assms(1,2)
    by (simp add: onApplicationBootstrap_def createSuperAdminIfMissing_def bootstrapTx_def Let_def)
qed

lemma bootstrap_creates:
  assumes "loadConfig env = Some cfg" "superAdmins s = 0" "\<not> takenContact (superAdminRow cr now uuid cfg) (as_users s)"
  shows "superAdmins (snd (onApplicationBootstrap cr now uuid False env s)) = 1"
proof -
  have "\<not> list_ex activeSuperAdmin (as_users s)" using assms(2) by (auto simp: superAdmins_def matches_0_iff list_ex_iff)
  then show ?thesis using assms
    by (simp add: onApplicationBootstrap_def createSuperAdminIfMissing_def bootstrapTx_def Let_def superAdmins_def matches_append)
      (simp add: activeSuperAdmin_def superAdminRow_def)
qed

definition bootEnv :: "string \<Rightarrow> string option" where
  "bootEnv k = (if k \<in> set REQUIRED_ENV_VARS then Some ''a@x'' else None)"

lemma taken_email_masks_missing_admin_witness:
  "onApplicationBootstrap toyCrypto 5 ''u9'' False bootEnv (annaStore []) = (SuperAdminAlreadyExists, annaStore []) \<and>
   superAdmins (annaStore []) = 0"
proof (rule taken_email_masks_missing_admin)
  show "loadConfig bootEnv = Some \<lparr>sc_email = ''a@x'', sc_password = ''a@x'', sc_firstName = ''a@x'',
      sc_lastName = ''a@x'', sc_phone = ''a@x''\<rparr>"
    by (simp add: loadConfig_def bootEnv_def REQUIRED_ENV_VARS_def)
  show "superAdmins (annaStore []) = 0" by (simp add: superAdmins_def annaStore_def anna_def activeSuperAdmin_def)
  show "anna \<in> set (as_users (annaStore []))" by (simp add: annaStore_def)
qed (simp add: anna_def)

end
