(* ===== verification/Routes.thy ===== *)
theory Routes
  imports Auth
begin

text \<open>
  The HTTP layer.  A controller class is a list of handlers with a base path, guards and roles taken
  from its decorators; a handler has its method, path, rate limit, guards, roles and the service
  calls it makes, with the place every argument is taken from.  \<^verbatim>\<open>handleRequest\<close> is what Nest does
  with such a table: rate limit, first matching handler, guards in order, validated body, bound
  arguments.  A request whose handler reads a caller that no guard has put there is a crash, not an
  answer.
\<close>

section \<open>Handlers\<close>

datatype httpMethod = GET | POST | PATCH | PUT | DELETE

datatype segment = Lit string | Var string

datatype routeGuard = JwtAuthGuard | RolesGuard | MetricsAccessGuard

datatype rateLimit = DefaultLimit | Throttle int int | SkipThrottle

text \<open>
  Where an argument comes from: \<^verbatim>\<open>user\<close>, \<^verbatim>\<open>user.userId\<close>, \<^verbatim>\<open>@Param\<close>, \<^verbatim>\<open>@Query\<close>, \<^verbatim>\<open>@Body\<close>,
  \<^verbatim>\<open>@UploadedFile\<close>, \<^verbatim>\<open>@Headers\<close>, the raw body, or the code itself.
\<close>

datatype argument =
    Caller
  | CallerId
  | PathParam string
  | QueryObject
  | QueryField string
  | QueryNumber string
  | BodyObject
  | BodyField string
  | BodyFieldOrCaller string
  | BodyLocation
  | FormFile string
  | HeaderField string
  | RawBody
  | BearerToken
  | Fixed string
  | StatusDto orderStatus "string option"

datatype serviceCall =
    Call (service: string) (arguments: "argument list")
  | CallIfLocated (service: string) (arguments: "argument list")

datatype httpHandler = Handler
  (hd_method: httpMethod) (hd_path: "segment list") (hd_limit: rateLimit) (hd_guards: "routeGuard list")
  (hd_roles: "userRole list option") (hd_calls: "serviceCall list")

type_synonym route = httpHandler

text \<open>
  The class decorators: the base path comes first, the class guards run before the handler's, and
  \<^verbatim>\<open>getAllAndOverride\<close> takes the handler's roles before the class's.
\<close>

definition controller :: "segment list \<Rightarrow> routeGuard list \<Rightarrow> userRole list option \<Rightarrow> httpHandler list \<Rightarrow> route list" where
  "controller base guards roles hs =
     map (\<lambda>h. Handler (hd_method h) (base @ hd_path h) (hd_limit h) (guards @ hd_guards h)
        (case hd_roles h of None \<Rightarrow> roles | Some rs \<Rightarrow> Some rs) (hd_calls h)) hs"

text \<open>The global prefix, from which the metrics endpoint is excluded.\<close>

definition globalPrefix :: "route \<Rightarrow> route" where
  "globalPrefix h =
     (if hd_method h = GET \<and> hd_path h = [Lit ''metrics''] then h
      else Handler (hd_method h) ([Lit ''api'', Lit ''v1''] @ hd_path h) (hd_limit h) (hd_guards h) (hd_roles h) (hd_calls h))"

section \<open>Requests\<close>

text \<open>
  \<open>'j\<close> stands for the values of a JSON document.  \<open>hr_caller\<close> is what the JWT strategy makes of the
  bearer token: the user, or the reason why it is refused.
\<close>

record 'j httpRequest =
  hr_method :: httpMethod
  hr_path :: "string list"
  hr_bearer :: "string option"
  hr_loopback :: bool
  hr_headers :: "string \<Rightarrow> string option"
  hr_query :: "string \<Rightarrow> 'j option"
  hr_body :: "string \<Rightarrow> 'j option"
  hr_rawBody :: "string option"
  hr_files :: "string \<Rightarrow> 'j option"

datatype 'j bound =
    UserArg authUser
  | IdArg string
  | TextArg "string option"
  | NumberArg "'j option"
  | JsonArg "'j option"
  | ObjectArg "string \<Rightarrow> 'j option"
  | LocationArg "('j \<times> 'j) option"
  | FixedArg string
  | StatusArg orderStatus "'j option"

datatype 'j reply =
    NoRoute
  | TooManyRequests
  | Refused error
  | Invalid
  | Crashed
  | Invoked "authUser option" "(string \<times> 'j bound list) list"

section \<open>Matching\<close>

text \<open>Literal segments match without regard to case, a parameter matches any non-empty segment.\<close>

fun matchPath :: "segment list \<Rightarrow> string list \<Rightarrow> (string \<times> string) list option" where
  "matchPath [] [] = Some []"
| "matchPath (Lit a # ps) (s # ss) = (if toLowerCase a = toLowerCase s then matchPath ps ss else None)"
| "matchPath (Var x # ps) (s # ss) = (if s = [] then None else map_option ((#) (x, s)) (matchPath ps ss))"
| "matchPath _ _ = None"

definition matchesRoute :: "httpMethod \<Rightarrow> string list \<Rightarrow> route \<Rightarrow> bool" where
  "matchesRoute m ss r \<longleftrightarrow> hd_method r = m \<and> matchPath (hd_path r) ss \<noteq> None"

definition findRoute :: "route list \<Rightarrow> httpMethod \<Rightarrow> string list \<Rightarrow> route option" where
  "findRoute rs m ss = find (matchesRoute m ss) rs"

section \<open>Guards\<close>

record gateConfig =
  gc_production :: bool
  gc_metricsToken :: "string option"
  gc_rateLimitMax :: int

text \<open>\<open>hits\<close> is the throttler's count of the client's requests to this handler in the window.\<close>

definition throttled :: "gateConfig \<Rightarrow> int \<Rightarrow> route \<Rightarrow> bool" where
  "throttled cfg hits r =
     (case hd_limit r of
        DefaultLimit \<Rightarrow> gc_rateLimitMax cfg \<le> hits
      | Throttle n _ \<Rightarrow> n \<le> hits
      | SkipThrottle \<Rightarrow> False)"

definition metricsAccess :: "gateConfig \<Rightarrow> 'j httpRequest \<Rightarrow> bool" where
  "metricsAccess cfg q \<longleftrightarrow>
     \<not> gc_production cfg \<or> hr_loopback q \<or>
     (truthy (gc_metricsToken cfg) \<and> hr_bearer q = gc_metricsToken cfg)"

datatype gateResult = Passed "authUser option" | Stopped error | TypeError

text \<open>
  One guard, on the user the guards before it have put on the request.  The roles guard reads
  \<^verbatim>\<open>user.role\<close> of a missing user when it runs unauthenticated.
\<close>

fun runGuard ::
  "(string option \<Rightarrow> authUser result) \<Rightarrow> gateConfig \<Rightarrow> 'j httpRequest \<Rightarrow> userRole list option \<Rightarrow> routeGuard \<Rightarrow> authUser option
     \<Rightarrow> gateResult" where
  "runGuard jwt cfg q roles JwtAuthGuard u =
     (case jwt (hr_bearer q) of Inl e \<Rightarrow> Stopped e | Inr v \<Rightarrow> Passed (Some v))"
| "runGuard jwt cfg q roles RolesGuard u =
     (case u of
        None \<Rightarrow> if roles = None then Passed None else TypeError
      | Some v \<Rightarrow> if canActivate roles v then Passed (Some v) else Stopped (Forbidden ''Forbidden resource''))"
| "runGuard jwt cfg q roles MetricsAccessGuard u =
     (if metricsAccess cfg q then Passed u else Stopped (NotFound ''Not Found''))"

primrec runGuards ::
  "(string option \<Rightarrow> authUser result) \<Rightarrow> gateConfig \<Rightarrow> 'j httpRequest \<Rightarrow> userRole list option \<Rightarrow> routeGuard list \<Rightarrow> authUser option
     \<Rightarrow> gateResult" where
  "runGuards jwt cfg q roles [] u = Passed u"
| "runGuards jwt cfg q roles (g # gs) u =
     (case runGuard jwt cfg q roles g u of
        Passed u' \<Rightarrow> runGuards jwt cfg q roles gs u'
      | Stopped e \<Rightarrow> Stopped e
      | TypeError \<Rightarrow> TypeError)"

section \<open>Arguments\<close>

definition callerOf :: "(authUser \<Rightarrow> 'j bound) \<Rightarrow> authUser option \<Rightarrow> 'j bound option" where
  "callerOf f u = map_option f u"

definition bodyLocation :: "'j httpRequest \<Rightarrow> ('j \<times> 'j) option" where
  "bodyLocation q =
     (case (hr_body q ''latitude'', hr_body q ''longitude'') of
        (Some a, Some b) \<Rightarrow> Some (a, b) | _ \<Rightarrow> None)"

fun bindArgument ::
  "'j httpRequest \<Rightarrow> (string \<times> string) list \<Rightarrow> authUser option \<Rightarrow> argument \<Rightarrow> 'j bound option" where
  "bindArgument q ps u Caller = callerOf UserArg u"
| "bindArgument q ps u CallerId = callerOf (\<lambda>v. IdArg (userId v)) u"
| "bindArgument q ps u (PathParam x) = Some (TextArg (map_of ps x))"
| "bindArgument q ps u QueryObject = Some (ObjectArg (hr_query q))"
| "bindArgument q ps u (QueryField x) = Some (JsonArg (hr_query q x))"
| "bindArgument q ps u (QueryNumber x) = Some (NumberArg (hr_query q x))"
| "bindArgument q ps u BodyObject = Some (ObjectArg (hr_body q))"
| "bindArgument q ps u (BodyField x) = Some (JsonArg (hr_body q x))"
| "bindArgument q ps u (BodyFieldOrCaller x) =
     (case hr_body q x of None \<Rightarrow> callerOf (\<lambda>v. IdArg (userId v)) u | Some j \<Rightarrow> Some (JsonArg (Some j)))"
| "bindArgument q ps u BodyLocation = Some (LocationArg (bodyLocation q))"
| "bindArgument q ps u (FormFile x) = Some (JsonArg (hr_files q x))"
| "bindArgument q ps u (HeaderField x) = Some (TextArg (hr_headers q x))"
| "bindArgument q ps u RawBody = Some (TextArg (Some (case hr_rawBody q of None \<Rightarrow> [] | Some s \<Rightarrow> s)))"
| "bindArgument q ps u BearerToken = Some (TextArg (hr_bearer q))"
| "bindArgument q ps u (Fixed s) = Some (FixedArg s)"
| "bindArgument q ps u (StatusDto st reason) =
     Some (StatusArg st (case reason of None \<Rightarrow> None | Some x \<Rightarrow> hr_body q x))"

definition madeCalls :: "'j httpRequest \<Rightarrow> serviceCall list \<Rightarrow> serviceCall list" where
  "madeCalls q = filter (\<lambda>k. case k of Call _ _ \<Rightarrow> True | CallIfLocated _ _ \<Rightarrow> bodyLocation q \<noteq> None)"

definition bindCall ::
  "'j httpRequest \<Rightarrow> (string \<times> string) list \<Rightarrow> authUser option \<Rightarrow> serviceCall \<Rightarrow> (string \<times> 'j bound list) option" where
  "bindCall q ps u k = map_option (Pair (service k)) (those (map (bindArgument q ps u) (arguments k)))"

text \<open>
  \<open>hits\<close> are the throttler's counts and \<open>valid\<close> the verdict of the pipes (the global validation pipe
  of \<^verbatim>\<open>main.ts\<close> on the parameter objects, \<^verbatim>\<open>ParseIntPipe\<close> on a numeric path parameter); the handler
  runs only when both let the request through.  The order of the stages is Nest's own.
\<close>

definition handleRequest ::
  "(string option \<Rightarrow> authUser result) \<Rightarrow> gateConfig \<Rightarrow> (route \<Rightarrow> int) \<Rightarrow> (route \<Rightarrow> 'j httpRequest \<Rightarrow> bool)
     \<Rightarrow> route list \<Rightarrow> 'j httpRequest \<Rightarrow> 'j reply" where
  "handleRequest jwt cfg hits valid rs q =
     (case findRoute rs (hr_method q) (hr_path q) of
        None \<Rightarrow> NoRoute
      | Some r \<Rightarrow>
          if throttled cfg (hits r) r then TooManyRequests
          else (case runGuards jwt cfg q (hd_roles r) (hd_guards r) None of
                  Stopped e \<Rightarrow> Refused e
                | TypeError \<Rightarrow> Crashed
                | Passed u \<Rightarrow>
                    if \<not> valid r q then Invalid
                    else (case those (map (bindCall q (the (matchPath (hd_path r) (hr_path q))) u)
                                 (madeCalls q (hd_calls r))) of
                            None \<Rightarrow> Crashed
                          | Some cs \<Rightarrow> Invoked u cs)))"

text \<open>The JWT strategy behind \<^verbatim>\<open>JwtAuthGuard\<close>: \<open>decode\<close> verifies the signature and the expiry.\<close>

definition jwtStrategy ::
  "(string \<Rightarrow> accessToken option) \<Rightarrow> int \<Rightarrow> bool \<Rightarrow> authStore \<Rightarrow> string option \<Rightarrow> authUser result" where
  "jwtStrategy decode now up s bearer =
     (case bearer of
        None \<Rightarrow> Inl (Unauthorized ''No auth token'')
      | Some t \<Rightarrow>
          (case decode t of
             None \<Rightarrow> Inl (Unauthorized ''jwt expired'')
           | Some tok \<Rightarrow> validate now up tok s))"

section \<open>Facts\<close>

lemma findRoute_Some:
  assumes "findRoute rs m ss = Some r"
  shows "r \<in> set rs" "hd_method r = m" "matchPath (hd_path r) ss \<noteq> None"
  using assms find_SomeD[of "matchesRoute m ss" rs r] by (auto simp: findRoute_def matchesRoute_def)

lemma runGuards_jwt:
  assumes "JwtAuthGuard \<in> set gs" "runGuards jwt cfg q roles gs u = Passed v"
  shows "\<exists>a. v = Some a \<and> jwt (hr_bearer q) = Inr a"
proof -
  have kept: "runGuards jwt cfg q roles gs (Some a) = Passed v \<Longrightarrow> jwt (hr_bearer q) = Inr a \<Longrightarrow> v = Some a" for gs a v
  proof (induction gs)
    case (Cons g gs)
    then show ?case by (cases g) (auto split: sum.splits if_splits)
  qed simp
  from assms show ?thesis
  proof (induction gs arbitrary: u)
    case (Cons g gs)
    show ?case
    proof (cases g)
      case JwtAuthGuard
      then show ?thesis using Cons.prems kept by (auto split: sum.splits)
    next
      case RolesGuard
      then show ?thesis using Cons by (auto split: option.splits if_splits)
    next
      case MetricsAccessGuard
      then show ?thesis using Cons by (auto split: if_splits)
    qed
  qed simp
qed

lemma runGuards_roles:
  assumes "RolesGuard \<in> set gs" "runGuards jwt cfg q (Some rs) gs u = Passed v"
    and "\<And>a. u = Some a \<Longrightarrow> jwt (hr_bearer q) = Inr a"
  shows "\<exists>a. v = Some a \<and> role a \<in> set rs"
proof -
  have kept: "runGuards jwt cfg q (Some rs) gs (Some a) = Passed v \<Longrightarrow> jwt (hr_bearer q) = Inr a \<Longrightarrow> v = Some a" for gs a v
  proof (induction gs)
    case (Cons g gs)
    then show ?case by (cases g) (auto split: sum.splits if_splits)
  qed simp
  from assms show ?thesis
  proof (induction gs arbitrary: u)
    case (Cons g gs)
    show ?case
    proof (cases g)
      case JwtAuthGuard
      then show ?thesis using Cons by (auto split: sum.splits)
    next
      case RolesGuard
      then show ?thesis using Cons.prems kept by (auto simp: canActivate_def split: option.splits if_splits)
    next
      case MetricsAccessGuard
      then show ?thesis using Cons by (auto split: if_splits)
    qed
  qed simp
qed

end
