(* ===== verification/RouteTables.thy ===== *)
theory RouteTables
  imports Routes
begin

text \<open>
  The controllers, one table per class in the order of the module imports of \<^verbatim>\<open>app.module.ts\<close>; long
  classes are cut into consecutive groups of handlers.  The decorators that only feed the API
  documentation have no counterpart.  \<^verbatim>\<open>AppController\<close> belongs to no module and is not served.
\<close>

definition STAFF_ROLES :: "userRole list" where
  "STAFF_ROLES = [SUPPORT_AGENT, ADMIN, SUPER_ADMIN]"

definition healthController :: "route list" where
  "healthController = controller
    [Lit ''health''] [] None
    [Handler GET [] SkipThrottle [] None
       [Call ''healthService.getHealthStatus'' []],
     Handler GET [Lit ''live''] SkipThrottle [] None
       [Call ''healthService.getLiveness'' []],
     Handler GET [Lit ''ready''] SkipThrottle [] None
       [Call ''healthService.getReadiness'' []]]"

definition authHandlers1 :: "httpHandler list" where
  "authHandlers1 =
    [Handler POST [Lit ''register''] (Throttle 3 60000) [] None
       [Call ''authService.register'' [BodyObject]],
     Handler POST [Lit ''register'', Lit ''delivery-partner''] (Throttle 3 60000) [] None
       [Call ''authService.registerDeliveryPartner'' [BodyObject]],
     Handler POST [Lit ''register'', Lit ''restaurant-owner''] (Throttle 3 60000) [] None
       [Call ''authService.registerRestaurantOwner'' [BodyObject]],
     Handler POST [Lit ''login''] (Throttle 5 60000) [] None
       [Call ''authService.login'' [BodyObject]],
     Handler GET [Lit ''profile''] DefaultLimit [JwtAuthGuard] None
       [Call ''authService.getProfile'' [CallerId]]]"

definition authHandlers2 :: "httpHandler list" where
  "authHandlers2 =
    [Handler POST [Lit ''refresh''] (Throttle 20 60000) [] None
       [Call ''authService.refreshToken'' [BodyObject]],
     Handler POST [Lit ''logout''] (Throttle 20 60000) [] None
       [Call ''authService.logout'' [BodyField ''refreshToken'', BearerToken]],
     Handler POST [Lit ''forgot-password''] (Throttle 3 60000) [] None
       [Call ''authService.forgotPassword'' [BodyObject]],
     Handler POST [Lit ''reset-password''] (Throttle 5 60000) [] None
       [Call ''authService.resetPassword'' [BodyObject]],
     Handler GET [Lit ''admin-only''] DefaultLimit [JwtAuthGuard, RolesGuard] (Some [ADMIN])
       []]"

definition authController :: "route list" where
  "authController = controller [Lit ''auth''] [] None
    (authHandlers1 @ authHandlers2)"

definition usersHandlers1 :: "httpHandler list" where
  "usersHandlers1 =
    [Handler GET [Lit ''me''] DefaultLimit [JwtAuthGuard] None
       [Call ''usersService.getProfile'' [CallerId]],
     Handler PATCH [Lit ''me''] DefaultLimit [JwtAuthGuard] None
       [Call ''usersService.updateProfile'' [CallerId, BodyObject]],
     Handler PATCH [Lit ''me'', Lit ''password''] DefaultLimit [JwtAuthGuard] None
       [Call ''usersService.changePassword'' [CallerId, BodyObject]],
     Handler POST [Lit ''me'', Lit ''avatar''] DefaultLimit [JwtAuthGuard] None
       [Call ''usersService.uploadAvatar'' [CallerId, FormFile ''file'']],
     Handler GET [Lit ''me'', Lit ''preferences''] DefaultLimit [JwtAuthGuard] None
       [Call ''usersService.getPreferences'' [CallerId]],
     Handler PATCH [Lit ''me'', Lit ''preferences''] DefaultLimit [JwtAuthGuard] None
       [Call ''usersService.updatePreferences'' [CallerId, BodyObject]]]"

definition usersHandlers2 :: "httpHandler list" where
  "usersHandlers2 =
    [Handler DELETE [Lit ''me''] DefaultLimit [JwtAuthGuard] None
       [Call ''usersService.deleteAccount'' [CallerId]],
     Handler GET [] DefaultLimit [JwtAuthGuard, RolesGuard] (Some [ADMIN, SUPER_ADMIN])
       [Call ''usersService.getAllUsers'' [QueryObject]],
     Handler PATCH [Var ''id'', Lit ''activate''] DefaultLimit [JwtAuthGuard, RolesGuard] (Some [ADMIN, SUPER_ADMIN])
       [Call ''usersService.activateUser'' [PathParam ''id'', CallerId]],
     Handler PATCH [Var ''id'', Lit ''suspend''] DefaultLimit [JwtAuthGuard, RolesGuard] (Some [ADMIN, SUPER_ADMIN])
       [Call ''usersService.suspendUser'' [PathParam ''id'', CallerId]]]"

definition usersHandlers3 :: "httpHandler list" where
  "usersHandlers3 =
    [Handler PATCH [Var ''id'', Lit ''restore''] DefaultLimit [JwtAuthGuard, RolesGuard] (Some [ADMIN, SUPER_ADMIN])
       [Call ''usersService.restoreUser'' [PathParam ''id'', CallerId]]]"

definition usersController :: "route list" where
  "usersController = controller [Lit ''users''] [] None
    (usersHandlers1 @ usersHandlers2 @ usersHandlers3)"

definition restaurantsHandlers1 :: "httpHandler list" where
  "restaurantsHandlers1 =
    [Handler GET [] DefaultLimit [] None
       [Call ''restaurantsService.findAll'' [QueryObject]],
     Handler POST [] DefaultLimit [JwtAuthGuard, RolesGuard] (Some [RESTAURANT_OWNER, ADMIN, SUPER_ADMIN])
       [Call ''restaurantsService.createRestaurant'' [CallerId, BodyObject]]]"

definition restaurantsHandlers2 :: "httpHandler list" where
  "restaurantsHandlers2 =
    [Handler PATCH [Var ''id''] DefaultLimit [JwtAuthGuard] None
       [Call ''restaurantsService.updateRestaurant'' [PathParam ''id'', BodyObject, Caller]],
     Handler GET [Lit ''me''] DefaultLimit [JwtAuthGuard] None
       [Call ''restaurantsService.getMyRestaurants'' [CallerId]],
     Handler GET [Lit ''admin''] DefaultLimit [JwtAuthGuard, RolesGuard] (Some [ADMIN, SUPER_ADMIN])
       [Call ''restaurantsService.getAllForAdmin'' [QueryObject]],
     Handler PATCH [Var ''id'', Lit ''approve''] DefaultLimit [JwtAuthGuard, RolesGuard] (Some [ADMIN, SUPER_ADMIN])
       [Call ''restaurantsService.approveRestaurant'' [PathParam ''id'', CallerId]]]"

definition restaurantsHandlers3 :: "httpHandler list" where
  "restaurantsHandlers3 =
    [Handler PATCH [Var ''id'', Lit ''reject''] DefaultLimit [JwtAuthGuard, RolesGuard] (Some [ADMIN, SUPER_ADMIN])
       [Call ''restaurantsService.rejectRestaurant'' [PathParam ''id'', CallerId]],
     Handler PATCH [Var ''id'', Lit ''suspend''] DefaultLimit [JwtAuthGuard, RolesGuard] (Some [ADMIN, SUPER_ADMIN])
       [Call ''restaurantsService.suspendRestaurant'' [PathParam ''id'', CallerId]],
     Handler PATCH [Var ''id'', Lit ''restore''] DefaultLimit [JwtAuthGuard, RolesGuard] (Some [ADMIN, SUPER_ADMIN])
       [Call ''restaurantsService.restoreRestaurant'' [PathParam ''id'', CallerId]],
     Handler GET [Var ''id''] DefaultLimit [] None
       [Call ''restaurantsService.getRestaurantById'' [PathParam ''id'']]]"

definition restaurantsHandlers4 :: "httpHandler list" where
  "restaurantsHandlers4 =
    [Handler POST [Var ''id'', Lit ''logo''] DefaultLimit [JwtAuthGuard] None
       [Call ''restaurantsService.uploadLogo'' [PathParam ''id'', FormFile ''file'', Caller]],
     Handler POST [Var ''id'', Lit ''banner''] DefaultLimit [JwtAuthGuard] None
       [Call ''restaurantsService.uploadBanner'' [PathParam ''id'', FormFile ''file'', Caller]]]"

definition restaurantsController :: "route list" where
  "restaurantsController = controller [Lit ''restaurants''] [] None
    (restaurantsHandlers1 @ restaurantsHandlers2 @ restaurantsHandlers3 @ restaurantsHandlers4)"

definition cuisinesController :: "route list" where
  "cuisinesController = controller
    [Lit ''cuisines''] [] None
    [Handler GET [] DefaultLimit [] None
       [Call ''cuisinesService.findAll'' [QueryField ''search'']]]"

definition reviewsHandlers1 :: "httpHandler list" where
  "reviewsHandlers1 =
    [Handler GET [Var ''id'', Lit ''reviews''] DefaultLimit [] None
       [Call ''reviewsService.getReviews'' [PathParam ''id'', QueryObject]],
     Handler GET [Var ''id'', Lit ''reviews'', Lit ''me''] DefaultLimit [JwtAuthGuard, RolesGuard] (Some [CUSTOMER])
       [Call ''reviewsService.getMyReview'' [PathParam ''id'', CallerId]],
     Handler GET [Var ''id'', Lit ''reviews'', Lit ''manage''] DefaultLimit [JwtAuthGuard] None
       [Call ''reviewsService.getReviewsForManage'' [PathParam ''id'', QueryObject, Caller]],
     Handler GET [Var ''id'', Lit ''reviews'', Lit ''manage'', Lit ''summary''] DefaultLimit [JwtAuthGuard] None
       [Call ''reviewsService.getRatingSummary'' [PathParam ''id'', Caller]],
     Handler POST [Var ''id'', Lit ''reviews''] DefaultLimit [JwtAuthGuard, RolesGuard] (Some [CUSTOMER])
       [Call ''reviewsService.createReview'' [PathParam ''id'', CallerId, BodyObject]]]"

definition reviewsHandlers2 :: "httpHandler list" where
  "reviewsHandlers2 =
    [Handler DELETE [Var ''id'', Lit ''reviews''] DefaultLimit [JwtAuthGuard, RolesGuard] (Some [CUSTOMER])
       [Call ''reviewsService.deleteReview'' [PathParam ''id'', CallerId]],
     Handler POST [Var ''id'', Lit ''reviews'', Var ''reviewId'', Lit ''reply''] DefaultLimit [JwtAuthGuard] None
       [Call ''reviewsService.createReply'' [PathParam ''id'', PathParam ''reviewId'', BodyObject, Caller]],
     Handler PATCH [Var ''id'', Lit ''reviews'', Var ''reviewId'', Lit ''reply''] DefaultLimit [JwtAuthGuard] None
       [Call ''reviewsService.updateReply'' [PathParam ''id'', PathParam ''reviewId'', BodyObject, Caller]],
     Handler DELETE [Var ''id'', Lit ''reviews'', Var ''reviewId'', Lit ''reply''] DefaultLimit [JwtAuthGuard] None
       [Call ''reviewsService.deleteReply'' [PathParam ''id'', PathParam ''reviewId'', Caller]]]"

definition reviewsController :: "route list" where
  "reviewsController = controller [Lit ''restaurants''] [] None
    (reviewsHandlers1 @ reviewsHandlers2)"

definition branchesController :: "route list" where
  "branchesController = controller
    [Lit ''restaurants'', Var ''restaurantId'', Lit ''branches''] [] None
    [Handler GET [] DefaultLimit [] None
       [Call ''branchesService.findAll'' [PathParam ''restaurantId'']],
     Handler POST [] DefaultLimit [JwtAuthGuard] None
       [Call ''branchesService.create'' [PathParam ''restaurantId'', BodyObject, Caller]],
     Handler PATCH [Var ''branchId''] DefaultLimit [JwtAuthGuard] None
       [Call ''branchesService.update'' [PathParam ''restaurantId'', PathParam ''branchId'', BodyObject, Caller]],
     Handler DELETE [Var ''branchId''] DefaultLimit [JwtAuthGuard] None
       [Call ''branchesService.remove'' [PathParam ''restaurantId'', PathParam ''branchId'', Caller]]]"

definition staffController :: "route list" where
  "staffController = controller
    [Lit ''restaurants'', Var ''restaurantId'', Lit ''staff''] [JwtAuthGuard] None
    [Handler GET [] DefaultLimit [] None
       [Call ''staffService.findAll'' [PathParam ''restaurantId'', Caller]],
     Handler POST [] DefaultLimit [] None
       [Call ''staffService.invite'' [PathParam ''restaurantId'', BodyObject, Caller]],
     Handler PATCH [Var ''staffId''] DefaultLimit [] None
       [Call ''staffService.update'' [PathParam ''restaurantId'', PathParam ''staffId'', BodyObject, Caller]],
     Handler POST [Var ''staffId'', Lit ''accept''] DefaultLimit [] None
       [Call ''staffService.accept'' [PathParam ''restaurantId'', PathParam ''staffId'', Caller]],
     Handler DELETE [Var ''staffId''] DefaultLimit [] None
       [Call ''staffService.revoke'' [PathParam ''restaurantId'', PathParam ''staffId'', Caller]]]"

definition documentsController :: "route list" where
  "documentsController = controller
    [Lit ''restaurants'', Var ''restaurantId'', Lit ''documents''] [JwtAuthGuard] None
    [Handler GET [] DefaultLimit [] None
       [Call ''documentsService.findAll'' [PathParam ''restaurantId'', Caller]],
     Handler POST [] DefaultLimit [] None
       [Call ''documentsService.upload'' [PathParam ''restaurantId'', BodyObject, FormFile ''file'', Caller]],
     Handler PATCH [Var ''documentId'', Lit ''verify''] DefaultLimit [RolesGuard] (Some [ADMIN, SUPER_ADMIN])
       [Call ''documentsService.verify'' [PathParam ''restaurantId'', PathParam ''documentId'', Caller]],
     Handler PATCH [Var ''documentId'', Lit ''reject''] DefaultLimit [RolesGuard] (Some [ADMIN, SUPER_ADMIN])
       [Call ''documentsService.reject'' [PathParam ''restaurantId'', PathParam ''documentId'',
         BodyField ''rejectedReason'', Caller]],
     Handler DELETE [Var ''documentId''] DefaultLimit [] None
       [Call ''documentsService.remove'' [PathParam ''restaurantId'', PathParam ''documentId'', Caller]]]"

definition taxProfileController :: "route list" where
  "taxProfileController = controller
    [Lit ''restaurants'', Var ''restaurantId'', Lit ''tax-profile''] [JwtAuthGuard] None
    [Handler GET [] DefaultLimit [] None
       [Call ''taxProfileService.find'' [PathParam ''restaurantId'', Caller]],
     Handler PATCH [] DefaultLimit [] None
       [Call ''taxProfileService.upsert'' [PathParam ''restaurantId'', BodyObject, Caller]],
     Handler PATCH [Lit ''gst'', Lit ''verify''] DefaultLimit [RolesGuard] (Some [ADMIN, SUPER_ADMIN])
       [Call ''taxProfileService.verifyGst'' [PathParam ''restaurantId'', Caller]],
     Handler PATCH [Lit ''gst'', Lit ''reject''] DefaultLimit [RolesGuard] (Some [ADMIN, SUPER_ADMIN])
       [Call ''taxProfileService.rejectGst'' [PathParam ''restaurantId'', Caller]],
     Handler PATCH [Lit ''fssai'', Lit ''verify''] DefaultLimit [RolesGuard] (Some [ADMIN, SUPER_ADMIN])
       [Call ''taxProfileService.verifyFssai'' [PathParam ''restaurantId'', Caller]],
     Handler PATCH [Lit ''fssai'', Lit ''reject''] DefaultLimit [RolesGuard] (Some [ADMIN, SUPER_ADMIN])
       [Call ''taxProfileService.rejectFssai'' [PathParam ''restaurantId'', Caller]]]"

definition bankAccountController :: "route list" where
  "bankAccountController = controller
    [Lit ''restaurants'', Var ''restaurantId'', Lit ''bank-account''] [JwtAuthGuard] None
    [Handler GET [] DefaultLimit [] None
       [Call ''bankAccountService.find'' [PathParam ''restaurantId'', Caller]],
     Handler PATCH [] DefaultLimit [] None
       [Call ''bankAccountService.upsert'' [PathParam ''restaurantId'', BodyObject, Caller]],
     Handler PATCH [Lit ''verify''] DefaultLimit [RolesGuard] (Some [ADMIN, SUPER_ADMIN])
       [Call ''bankAccountService.verify'' [PathParam ''restaurantId'', Caller]],
     Handler PATCH [Lit ''reject''] DefaultLimit [RolesGuard] (Some [ADMIN, SUPER_ADMIN])
       [Call ''bankAccountService.reject'' [PathParam ''restaurantId'', Caller]]]"

definition verificationController :: "route list" where
  "verificationController = controller
    [Lit ''restaurants'', Var ''restaurantId'', Lit ''verification''] [JwtAuthGuard] None
    [Handler GET [] DefaultLimit [] None
       [Call ''verificationService.getStatus'' [PathParam ''restaurantId'', Caller]],
     Handler POST [Lit ''submit''] DefaultLimit [] None
       [Call ''verificationService.submit'' [PathParam ''restaurantId'', Caller]],
     Handler PATCH [Lit ''advance''] DefaultLimit [RolesGuard] (Some [ADMIN, SUPER_ADMIN])
       [Call ''verificationService.advance'' [PathParam ''restaurantId'', CallerId]],
     Handler PATCH [Lit ''reject''] DefaultLimit [RolesGuard] (Some [ADMIN, SUPER_ADMIN])
       [Call ''verificationService.reject'' [PathParam ''restaurantId'', BodyField ''rejectedReason'', CallerId]],
     Handler PATCH [Lit ''suspend''] DefaultLimit [RolesGuard] (Some [ADMIN, SUPER_ADMIN])
       [Call ''verificationService.suspend'' [PathParam ''restaurantId'', CallerId]],
     Handler PATCH [Lit ''reinstate''] DefaultLimit [RolesGuard] (Some [ADMIN, SUPER_ADMIN])
       [Call ''verificationService.reinstate'' [PathParam ''restaurantId'', CallerId]]]"

definition mediaController :: "route list" where
  "mediaController = controller
    [Lit ''restaurants'', Var ''restaurantId'', Lit ''media''] [JwtAuthGuard] None
    [Handler GET [] DefaultLimit [] None
       [Call ''mediaService.findAll'' [PathParam ''restaurantId'']],
     Handler POST [] DefaultLimit [] None
       [Call ''mediaService.upload'' [PathParam ''restaurantId'', BodyObject, FormFile ''file'', Caller]],
     Handler PATCH [Lit ''reorder''] DefaultLimit [] None
       [Call ''mediaService.reorder'' [PathParam ''restaurantId'', BodyField ''mediaIds'', Caller]],
     Handler DELETE [Var ''mediaId''] DefaultLimit [] None
       [Call ''mediaService.remove'' [PathParam ''restaurantId'', PathParam ''mediaId'', Caller]]]"

definition complianceController :: "route list" where
  "complianceController = controller
    [Lit ''restaurants'', Var ''restaurantId'', Lit ''compliance''] [JwtAuthGuard] None
    [Handler GET [] DefaultLimit [] None
       [Call ''complianceService.getSnapshot'' [PathParam ''restaurantId'', Caller]]]"

definition settingsController :: "route list" where
  "settingsController = controller
    [Lit ''restaurants'', Var ''restaurantId'', Lit ''settings''] [JwtAuthGuard] None
    [Handler GET [] DefaultLimit [] None
       [Call ''settingsService.find'' [PathParam ''restaurantId'', Caller]],
     Handler PATCH [] DefaultLimit [] None
       [Call ''settingsService.upsert'' [PathParam ''restaurantId'', BodyObject, Caller]]]"

definition operatingHoursController :: "route list" where
  "operatingHoursController = controller
    [Lit ''restaurants'', Var ''restaurantId'', Lit ''branches'', Var ''branchId'', Lit ''operating-hours''] [] None
    [Handler GET [] DefaultLimit [] None
       [Call ''operatingHoursService.findAll'' [PathParam ''restaurantId'', PathParam ''branchId'']],
     Handler PUT [] DefaultLimit [JwtAuthGuard] None
       [Call ''operatingHoursService.replaceAll'' [PathParam ''restaurantId'', PathParam ''branchId'', BodyObject,
         Caller]]]"

definition holidaysController :: "route list" where
  "holidaysController = controller
    [Lit ''restaurants'', Var ''restaurantId'', Lit ''holidays''] [] None
    [Handler GET [] DefaultLimit [] None
       [Call ''holidaysService.findAll'' [PathParam ''restaurantId'', QueryField ''branchId'']],
     Handler POST [] DefaultLimit [JwtAuthGuard] None
       [Call ''holidaysService.create'' [PathParam ''restaurantId'', BodyObject, Caller]],
     Handler PATCH [Var ''holidayId''] DefaultLimit [JwtAuthGuard] None
       [Call ''holidaysService.update'' [PathParam ''restaurantId'', PathParam ''holidayId'', BodyObject, Caller]],
     Handler DELETE [Var ''holidayId''] DefaultLimit [JwtAuthGuard] None
       [Call ''holidaysService.remove'' [PathParam ''restaurantId'', PathParam ''holidayId'', Caller]]]"

definition auditController :: "route list" where
  "auditController = controller
    [Lit ''audit''] [] None
    [Handler GET [] DefaultLimit [JwtAuthGuard, RolesGuard] (Some [ADMIN, SUPER_ADMIN])
       [Call ''auditService.getLogs'' [QueryNumber ''page'', QueryNumber ''limit'']],
     Handler GET [Lit ''admin''] DefaultLimit [JwtAuthGuard, RolesGuard] (Some [ADMIN, SUPER_ADMIN])
       [Call ''auditService.getAllForAdmin'' [QueryObject]]]"

definition onboardingController :: "route list" where
  "onboardingController = controller
    [Lit ''restaurants'', Var ''restaurantId'', Lit ''onboarding''] [JwtAuthGuard] None
    [Handler GET [] DefaultLimit [] None
       [Call ''onboardingService.getState'' [PathParam ''restaurantId'', Caller]],
     Handler PATCH [Lit ''steps'', Var ''step''] DefaultLimit [] None
       [Call ''onboardingService.completeStep'' [PathParam ''restaurantId'', PathParam ''step'', Caller]],
     Handler POST [Lit ''submit''] DefaultLimit [] None
       [Call ''onboardingService.submit'' [PathParam ''restaurantId'', BodyObject, Caller]],
     Handler PATCH [Lit ''request-changes''] DefaultLimit [RolesGuard] (Some [ADMIN, SUPER_ADMIN])
       [Call ''onboardingService.requestChanges'' [PathParam ''restaurantId'', BodyObject, CallerId]]]"

definition menuHandlers1 :: "httpHandler list" where
  "menuHandlers1 =
    [Handler POST [Lit ''categories''] DefaultLimit [JwtAuthGuard] None
       [Call ''menuService.createCategory'' [BodyObject, Caller]],
     Handler POST [Lit ''items''] DefaultLimit [JwtAuthGuard] None
       [Call ''menuService.createMenuItem'' [BodyObject, Caller]],
     Handler GET [Lit ''items'', Var ''id''] DefaultLimit [JwtAuthGuard] None
       [Call ''menuService.getMenuItemById'' [PathParam ''id'']],
     Handler PATCH [Lit ''items'', Var ''id''] DefaultLimit [JwtAuthGuard] None
       [Call ''menuService.updateMenuItem'' [PathParam ''id'', BodyObject, Caller]],
     Handler DELETE [Lit ''items'', Var ''id''] DefaultLimit [JwtAuthGuard] None
       [Call ''menuService.deleteMenuItem'' [PathParam ''id'', Caller]],
     Handler PATCH [Lit ''items'', Var ''id'', Lit ''availability''] DefaultLimit [JwtAuthGuard] None
       [Call ''menuService.toggleAvailability'' [PathParam ''id'', BodyField ''isAvailable'', Caller]],
     Handler GET [Lit ''categories'', Var ''id''] DefaultLimit [JwtAuthGuard] None
       [Call ''menuService.getCategoryById'' [PathParam ''id'']]]"

definition menuHandlers2 :: "httpHandler list" where
  "menuHandlers2 =
    [Handler PATCH [Lit ''categories'', Var ''id''] DefaultLimit [JwtAuthGuard] None
       [Call ''menuService.updateCategory'' [PathParam ''id'', BodyObject, Caller]],
     Handler DELETE [Lit ''categories'', Var ''id''] DefaultLimit [JwtAuthGuard] None
       [Call ''menuService.deleteCategory'' [PathParam ''id'', Caller]],
     Handler POST [Lit ''items'', Var ''id'', Lit ''variants''] DefaultLimit [JwtAuthGuard] None
       [Call ''menuService.createVariant'' [PathParam ''id'', BodyObject, Caller]],
     Handler PATCH [Lit ''variants'', Var ''id''] DefaultLimit [JwtAuthGuard] None
       [Call ''menuService.updateVariant'' [PathParam ''id'', BodyObject, Caller]],
     Handler DELETE [Lit ''variants'', Var ''id''] DefaultLimit [JwtAuthGuard] None
       [Call ''menuService.deleteVariant'' [PathParam ''id'', Caller]],
     Handler POST [Lit ''items'', Var ''id'', Lit ''addons''] DefaultLimit [JwtAuthGuard] None
       [Call ''menuService.createAddon'' [PathParam ''id'', BodyObject, Caller]]]"

definition menuHandlers3 :: "httpHandler list" where
  "menuHandlers3 =
    [Handler PATCH [Lit ''addons'', Var ''id''] DefaultLimit [JwtAuthGuard] None
       [Call ''menuService.updateAddon'' [PathParam ''id'', BodyObject, Caller]],
     Handler DELETE [Lit ''addons'', Var ''id''] DefaultLimit [JwtAuthGuard] None
       [Call ''menuService.deleteAddon'' [PathParam ''id'', Caller]],
     Handler POST [Lit ''addons'', Var ''id'', Lit ''options''] DefaultLimit [JwtAuthGuard] None
       [Call ''menuService.createAddonOption'' [PathParam ''id'', BodyObject, Caller]],
     Handler PATCH [Lit ''options'', Var ''id''] DefaultLimit [JwtAuthGuard] None
       [Call ''menuService.updateAddonOption'' [PathParam ''id'', BodyObject, Caller]],
     Handler DELETE [Lit ''options'', Var ''id''] DefaultLimit [JwtAuthGuard] None
       [Call ''menuService.deleteAddonOption'' [PathParam ''id'', Caller]],
     Handler GET [Lit ''variants'', Var ''id''] DefaultLimit [JwtAuthGuard] None
       [Call ''menuService.getVariantById'' [PathParam ''id'']],
     Handler GET [Lit ''addons'', Var ''id''] DefaultLimit [JwtAuthGuard] None
       [Call ''menuService.getAddonById'' [PathParam ''id'']]]"

definition menuHandlers4 :: "httpHandler list" where
  "menuHandlers4 =
    [Handler GET [Lit ''options'', Var ''id''] DefaultLimit [JwtAuthGuard] None
       [Call ''menuService.getAddonOptionById'' [PathParam ''id'']],
     Handler GET [Var ''restaurantId''] DefaultLimit [] None
       [Call ''menuService.getRestaurantMenu'' [PathParam ''restaurantId'', QueryField ''search'']],
     Handler POST [Lit ''items'', Var ''id'', Lit ''image''] DefaultLimit [JwtAuthGuard] None
       [Call ''menuService.uploadMenuItemImage'' [PathParam ''id'', FormFile ''file'', Caller]]]"

definition menuController :: "route list" where
  "menuController = controller [Lit ''menu''] [] None
    (menuHandlers1 @ menuHandlers2 @ menuHandlers3 @ menuHandlers4)"

definition ordersHandlers1 :: "httpHandler list" where
  "ordersHandlers1 =
    [Handler POST [] DefaultLimit [JwtAuthGuard] None
       [Call ''ordersService.placeOrder'' [CallerId, BodyObject]],
     Handler GET [Lit ''me''] DefaultLimit [JwtAuthGuard] None
       [Call ''ordersService.getCustomerOrders'' [CallerId, QueryObject]],
     Handler GET [Lit ''restaurant'', Var ''restaurantId''] DefaultLimit [JwtAuthGuard] None
       [Call ''ordersService.getRestaurantOrders'' [PathParam ''restaurantId'', Caller]],
     Handler GET [Lit ''restaurant'', Var ''restaurantId'', Lit ''dashboard''] DefaultLimit [JwtAuthGuard] None
       [Call ''ordersService.getRestaurantDashboard'' [PathParam ''restaurantId'', Caller, QueryField ''branchId'']]]"

definition ordersHandlers2 :: "httpHandler list" where
  "ordersHandlers2 =
    [Handler GET [Lit ''admin''] DefaultLimit [JwtAuthGuard, RolesGuard] (Some [ADMIN, SUPER_ADMIN])
       [Call ''ordersService.getAllForAdmin'' [QueryObject]],
     Handler PATCH [Var ''orderId'', Lit ''status''] DefaultLimit [JwtAuthGuard] None
       [Call ''ordersService.updateOrderStatus'' [PathParam ''orderId'', BodyObject, Caller]],
     Handler GET [Var ''id'', Lit ''timeline''] DefaultLimit [JwtAuthGuard] None
       [Call ''ordersService.getOrderTimeline'' [PathParam ''id'', Caller]],
     Handler GET [Var ''id''] DefaultLimit [JwtAuthGuard] None
       [Call ''ordersService.getOrderById'' [PathParam ''id'', Caller]]]"

definition ordersHandlers3 :: "httpHandler list" where
  "ordersHandlers3 =
    [Handler POST [Var ''id'', Lit ''accept''] DefaultLimit [JwtAuthGuard] None
       [Call ''ordersService.updateOrderStatus'' [PathParam ''id'', StatusDto CONFIRMED None, Caller]],
     Handler POST [Var ''id'', Lit ''reject''] DefaultLimit [JwtAuthGuard] None
       [Call ''ordersService.updateOrderStatus'' [PathParam ''id'', StatusDto CANCELLED None, Caller]],
     Handler POST [Var ''id'', Lit ''switch-to-cod''] DefaultLimit [JwtAuthGuard] None
       [Call ''ordersService.switchToCod'' [PathParam ''id'', Caller]],
     Handler POST [Var ''id'', Lit ''prepare''] DefaultLimit [JwtAuthGuard] None
       [Call ''ordersService.updateOrderStatus'' [PathParam ''id'', StatusDto PREPARING None, Caller]],
     Handler POST [Var ''id'', Lit ''ready''] DefaultLimit [JwtAuthGuard] None
       [Call ''ordersService.updateOrderStatus'' [PathParam ''id'', StatusDto READY_FOR_PICKUP None, Caller]]]"

definition ordersHandlers4 :: "httpHandler list" where
  "ordersHandlers4 =
    [Handler POST [Var ''id'', Lit ''picked-up''] DefaultLimit [JwtAuthGuard] None
       [Call ''ordersService.updateOrderStatus'' [PathParam ''id'', StatusDto OUT_FOR_DELIVERY None, Caller]],
     Handler POST [Var ''id'', Lit ''delivered''] DefaultLimit [JwtAuthGuard] None
       [Call ''ordersService.updateOrderStatus'' [PathParam ''id'', StatusDto DELIVERED None, Caller]],
     Handler POST [Var ''id'', Lit ''cancel''] DefaultLimit [JwtAuthGuard] None
       [Call ''ordersService.updateOrderStatus'' [PathParam ''id'', StatusDto CANCELLED (Some ''reason''), Caller]],
     Handler POST [Var ''id'', Lit ''assign-delivery-partner''] DefaultLimit [JwtAuthGuard, RolesGuard] (Some [ADMIN,
       SUPER_ADMIN])
       [Call ''ordersService.assignDeliveryPartner'' [PathParam ''id'', BodyField ''deliveryPartnerId'']]]"

definition ordersHandlers5 :: "httpHandler list" where
  "ordersHandlers5 =
    [Handler PATCH [Var ''id'', Lit ''admin-cancel''] DefaultLimit [JwtAuthGuard, RolesGuard] (Some [ADMIN,
       SUPER_ADMIN])
       [Call ''ordersService.adminCancelOrder'' [PathParam ''id'', BodyObject, CallerId]],
     Handler PATCH [Var ''id'', Lit ''force-complete''] DefaultLimit [JwtAuthGuard, RolesGuard] (Some [ADMIN,
       SUPER_ADMIN])
       [Call ''ordersService.forceCompleteOrder'' [PathParam ''id'', BodyObject]],
     Handler PATCH [Var ''id'', Lit ''refund''] DefaultLimit [JwtAuthGuard, RolesGuard] (Some [ADMIN, SUPER_ADMIN])
       [Call ''ordersService.refundOrder'' [PathParam ''id'', BodyObject, CallerId]]]"

definition ordersController :: "route list" where
  "ordersController = controller [Lit ''orders''] [] None
    (ordersHandlers1 @ ordersHandlers2 @ ordersHandlers3 @ ordersHandlers4 @ ordersHandlers5)"

definition deliveryHandlers1 :: "httpHandler list" where
  "deliveryHandlers1 =
    [Handler GET [Lit ''me''] DefaultLimit [JwtAuthGuard] None
       [Call ''deliveryService.getMe'' [CallerId]],
     Handler GET [Lit ''admin''] DefaultLimit [JwtAuthGuard, RolesGuard] (Some [ADMIN, SUPER_ADMIN])
       [Call ''deliveryService.getAllForAdmin'' [QueryObject]],
     Handler POST [Lit ''onboard''] DefaultLimit [JwtAuthGuard] None
       [Call ''deliveryService.onboardPartner'' [CallerId, BodyObject]]]"

definition deliveryHandlers2 :: "httpHandler list" where
  "deliveryHandlers2 =
    [Handler PATCH [Lit ''available''] DefaultLimit [JwtAuthGuard] None
       [Call ''deliveryService.goAvailable'' [CallerId, BodyLocation]],
     Handler PATCH [Lit ''offline''] DefaultLimit [JwtAuthGuard] None
       [Call ''deliveryService.goOffline'' [CallerId]],
     Handler GET [Lit ''orders''] DefaultLimit [JwtAuthGuard] None
       [Call ''deliveryService.getAssignedOrders'' [CallerId]],
     Handler PATCH [Lit ''orders'', Var ''orderId'', Lit ''status''] DefaultLimit [JwtAuthGuard] None
       [Call ''deliveryService.updateDeliveryStatus'' [PathParam ''orderId'', Caller, BodyObject]],
     Handler PATCH [Var ''id'', Lit ''approve''] DefaultLimit [JwtAuthGuard, RolesGuard] (Some [ADMIN, SUPER_ADMIN])
       [Call ''deliveryService.approvePartner'' [PathParam ''id'', CallerId]]]"

definition deliveryHandlers3 :: "httpHandler list" where
  "deliveryHandlers3 =
    [Handler PATCH [Var ''id'', Lit ''reject''] DefaultLimit [JwtAuthGuard, RolesGuard] (Some [ADMIN, SUPER_ADMIN])
       [Call ''deliveryService.rejectPartner'' [PathParam ''id'', CallerId]],
     Handler PATCH [Var ''id'', Lit ''suspend''] DefaultLimit [JwtAuthGuard, RolesGuard] (Some [ADMIN, SUPER_ADMIN])
       [Call ''deliveryService.suspendPartner'' [PathParam ''id'', CallerId]],
     Handler PATCH [Var ''id'', Lit ''restore''] DefaultLimit [JwtAuthGuard, RolesGuard] (Some [ADMIN, SUPER_ADMIN])
       [Call ''deliveryService.restorePartner'' [PathParam ''id'', CallerId]],
     Handler PATCH [Var ''id'', Lit ''force-offline''] DefaultLimit [JwtAuthGuard, RolesGuard] (Some [ADMIN,
       SUPER_ADMIN])
       [Call ''deliveryService.forceOffline'' [PathParam ''id'', CallerId]],
     Handler PATCH [Var ''id'', Lit ''block''] DefaultLimit [JwtAuthGuard, RolesGuard] (Some [ADMIN, SUPER_ADMIN])
       [Call ''deliveryService.blockPartner'' [PathParam ''id'', CallerId]]]"

definition deliveryHandlers4 :: "httpHandler list" where
  "deliveryHandlers4 =
    [Handler PATCH [Var ''id'', Lit ''unblock''] DefaultLimit [JwtAuthGuard, RolesGuard] (Some [ADMIN, SUPER_ADMIN])
       [Call ''deliveryService.unblockPartner'' [PathParam ''id'', CallerId]]]"

definition deliveryController :: "route list" where
  "deliveryController = controller [Lit ''delivery''] [] None
    (deliveryHandlers1 @ deliveryHandlers2 @ deliveryHandlers3 @ deliveryHandlers4)"

definition vehiclesController :: "route list" where
  "vehiclesController = controller
    [Lit ''delivery'', Lit ''vehicles''] [JwtAuthGuard] None
    [Handler GET [] DefaultLimit [] None
       [Call ''vehiclesService.list'' [CallerId]],
     Handler POST [] DefaultLimit [] None
       [Call ''vehiclesService.create'' [CallerId, BodyObject]],
     Handler PATCH [Var ''vehicleId''] DefaultLimit [] None
       [Call ''vehiclesService.update'' [CallerId, PathParam ''vehicleId'', BodyObject]],
     Handler PATCH [Var ''vehicleId'', Lit ''set-primary''] DefaultLimit [] None
       [Call ''vehiclesService.setPrimary'' [CallerId, PathParam ''vehicleId'']],
     Handler DELETE [Var ''vehicleId''] DefaultLimit [] None
       [Call ''vehiclesService.deactivate'' [CallerId, PathParam ''vehicleId'']]]"

definition deliveryDocumentsController :: "route list" where
  "deliveryDocumentsController = controller
    [Lit ''delivery'', Lit ''documents''] [JwtAuthGuard] None
    [Handler GET [] DefaultLimit [] None
       [Call ''documentsService.findAllForSelf'' [CallerId]],
     Handler POST [] DefaultLimit [] None
       [Call ''documentsService.upload'' [CallerId, BodyObject, FormFile ''file'']],
     Handler GET [Var ''documentType'', Lit ''history''] DefaultLimit [] None
       [Call ''documentsService.historyForSelf'' [CallerId, PathParam ''documentType'']],
     Handler DELETE [Var ''documentId''] DefaultLimit [] None
       [Call ''documentsService.remove'' [CallerId, PathParam ''documentId'']]]"

definition adminDocumentsController :: "route list" where
  "adminDocumentsController = controller
    [Lit ''delivery'', Lit ''admin'', Var ''deliveryPartnerId'', Lit ''documents''] [JwtAuthGuard, RolesGuard] (Some [ADMIN, SUPER_ADMIN])
    [Handler GET [] DefaultLimit [] None
       [Call ''documentsService.findAllForAdmin'' [PathParam ''deliveryPartnerId'']],
     Handler GET [Var ''documentType'', Lit ''history''] DefaultLimit [] None
       [Call ''documentsService.historyForAdmin'' [PathParam ''deliveryPartnerId'', PathParam ''documentType'']],
     Handler PATCH [Var ''documentId'', Lit ''verify''] DefaultLimit [] None
       [Call ''documentsService.verify'' [PathParam ''deliveryPartnerId'', PathParam ''documentId'', CallerId]],
     Handler PATCH [Var ''documentId'', Lit ''reject''] DefaultLimit [] None
       [Call ''documentsService.reject'' [PathParam ''deliveryPartnerId'', PathParam ''documentId'',
         BodyField ''rejectedReason'', CallerId]]]"

definition deliveryBankAccountController :: "route list" where
  "deliveryBankAccountController = controller
    [Lit ''delivery'', Lit ''bank-account''] [JwtAuthGuard] None
    [Handler GET [] DefaultLimit [] None
       [Call ''bankAccountService.findForSelf'' [CallerId]],
     Handler PUT [] DefaultLimit [] None
       [Call ''bankAccountService.upsert'' [CallerId, BodyObject]]]"

definition adminBankAccountController :: "route list" where
  "adminBankAccountController = controller
    [Lit ''delivery'', Lit ''admin'', Var ''deliveryPartnerId'', Lit ''bank-account''] [JwtAuthGuard, RolesGuard] (Some [ADMIN, SUPER_ADMIN])
    [Handler PATCH [Lit ''verify''] DefaultLimit [] None
       [Call ''bankAccountService.verify'' [PathParam ''deliveryPartnerId'', CallerId]],
     Handler PATCH [Lit ''reject''] DefaultLimit [] None
       [Call ''bankAccountService.reject'' [PathParam ''deliveryPartnerId'', CallerId]]]"

definition deliveryVerificationController :: "route list" where
  "deliveryVerificationController = controller
    [Lit ''delivery'', Lit ''verification''] [JwtAuthGuard] None
    [Handler GET [] DefaultLimit [] None
       [Call ''verificationService.getStatus'' [CallerId]],
     Handler GET [Lit ''history''] DefaultLimit [] None
       [Call ''verificationService.getHistory'' [CallerId]],
     Handler POST [Lit ''submit''] DefaultLimit [] None
       [Call ''verificationService.submit'' [CallerId]]]"

definition adminVerificationController :: "route list" where
  "adminVerificationController = controller
    [Lit ''delivery'', Lit ''admin'', Var ''deliveryPartnerId'', Lit ''verification''] [JwtAuthGuard, RolesGuard] (Some [ADMIN, SUPER_ADMIN])
    [Handler PATCH [Lit ''advance''] DefaultLimit [] None
       [Call ''verificationService.advance'' [PathParam ''deliveryPartnerId'', CallerId]],
     Handler PATCH [Lit ''reject''] DefaultLimit [] None
       [Call ''verificationService.reject'' [PathParam ''deliveryPartnerId'', BodyField ''rejectedReason'', CallerId]],
     Handler PATCH [Lit ''suspend''] DefaultLimit [] None
       [Call ''verificationService.suspend'' [PathParam ''deliveryPartnerId'', CallerId]],
     Handler PATCH [Lit ''reinstate''] DefaultLimit [] None
       [Call ''verificationService.reinstate'' [PathParam ''deliveryPartnerId'', CallerId]]]"

definition deliveryOnboardingController :: "route list" where
  "deliveryOnboardingController = controller
    [Lit ''delivery'', Lit ''onboarding''] [JwtAuthGuard] None
    [Handler GET [] DefaultLimit [] None
       [Call ''onboardingService.getState'' [CallerId]],
     Handler PATCH [Lit ''steps'', Var ''step''] DefaultLimit [] None
       [Call ''onboardingService.completeStep'' [CallerId, PathParam ''step'']],
     Handler POST [Lit ''submit''] DefaultLimit [] None
       [Call ''onboardingService.submit'' [CallerId, BodyObject]]]"

definition adminOnboardingController :: "route list" where
  "adminOnboardingController = controller
    [Lit ''delivery'', Lit ''admin'', Var ''deliveryPartnerId'', Lit ''onboarding''] [JwtAuthGuard, RolesGuard] (Some [ADMIN, SUPER_ADMIN])
    [Handler PATCH [Lit ''request-changes''] DefaultLimit [] None
       [Call ''onboardingService.requestChanges'' [PathParam ''deliveryPartnerId'', BodyObject, CallerId]]]"

definition deliveryComplianceController :: "route list" where
  "deliveryComplianceController = controller
    [Lit ''delivery'', Lit ''compliance''] [JwtAuthGuard] None
    [Handler GET [] DefaultLimit [] None
       [Call ''complianceService.getSnapshotForSelf'' [CallerId]]]"

definition adminComplianceController :: "route list" where
  "adminComplianceController = controller
    [Lit ''delivery'', Lit ''admin'', Var ''deliveryPartnerId'', Lit ''compliance''] [JwtAuthGuard, RolesGuard] (Some [ADMIN, SUPER_ADMIN])
    [Handler GET [] DefaultLimit [] None
       [Call ''complianceService.getSnapshot'' [PathParam ''deliveryPartnerId'']]]"

definition profileController :: "route list" where
  "profileController = controller
    [Lit ''delivery'', Lit ''profile''] [JwtAuthGuard] None
    [Handler GET [] DefaultLimit [] None
       [Call ''profileService.getMyProfile'' [CallerId]],
     Handler PATCH [] DefaultLimit [] None
       [Call ''profileService.updateMyProfile'' [CallerId, BodyObject]]]"

definition proofHandlers1 :: "httpHandler list" where
  "proofHandlers1 =
    [Handler POST [Lit ''pickup'', Lit ''generate''] DefaultLimit [] None
       [Call ''proofService.generatePickupOtp'' [PathParam ''orderId'', Caller]],
     Handler POST [Lit ''pickup'', Lit ''verify''] DefaultLimit [] None
       [Call ''proofService.verifyPickupOtp'' [PathParam ''orderId'', BodyField ''code'', Caller]],
     Handler GET [Lit ''pickup'', Lit ''status''] DefaultLimit [] None
       [Call ''proofService.getProofStatus'' [PathParam ''orderId'', Fixed ''PICKUP'', Caller]],
     Handler POST [Lit ''delivery'', Lit ''generate''] DefaultLimit [] None
       [Call ''proofService.generateDeliveryOtp'' [PathParam ''orderId'', Caller]],
     Handler POST [Lit ''delivery'', Lit ''verify''] DefaultLimit [] None
       [Call ''proofService.verifyDeliveryOtp'' [PathParam ''orderId'', BodyField ''code'', Caller]],
     Handler GET [Lit ''delivery'', Lit ''status''] DefaultLimit [] None
       [Call ''proofService.getProofStatus'' [PathParam ''orderId'', Fixed ''DELIVERY'', Caller]],
     Handler POST [Lit ''pickup'', Lit ''photo''] DefaultLimit [] None
       [Call ''proofService.uploadPickupPhoto'' [PathParam ''orderId'', FormFile ''file'', Caller]]]"

definition proofHandlers2 :: "httpHandler list" where
  "proofHandlers2 =
    [Handler GET [Lit ''pickup'', Lit ''photo''] DefaultLimit [] None
       [Call ''proofService.getPickupPhoto'' [PathParam ''orderId'', Caller]],
     Handler POST [Lit ''pickup'', Lit ''arrival''] DefaultLimit [] None
       [Call ''proofService.markRestaurantArrival'' [PathParam ''orderId'', BodyField ''latitude'',
         BodyField ''longitude'', Caller]],
     Handler GET [Lit ''pickup'', Lit ''arrival''] DefaultLimit [] None
       [Call ''proofService.getArrivalStatus'' [PathParam ''orderId'', Caller]]]"

definition proofController :: "route list" where
  "proofController = controller [Lit ''delivery'', Lit ''orders'', Var ''orderId'', Lit ''proof''] [JwtAuthGuard] None
    (proofHandlers1 @ proofHandlers2)"

definition notificationsHandlers1 :: "httpHandler list" where
  "notificationsHandlers1 =
    [Handler GET [Lit ''me''] DefaultLimit [JwtAuthGuard] None
       [Call ''notificationsService.getMyNotifications'' [CallerId, QueryObject]],
     Handler GET [Lit ''me'', Lit ''unread-count''] DefaultLimit [JwtAuthGuard] None
       [Call ''notificationsService.getMyUnreadCount'' [CallerId]],
     Handler PATCH [Lit ''me'', Lit ''read-all''] DefaultLimit [JwtAuthGuard] None
       [Call ''notificationsService.markAllMyNotificationsAsRead'' [CallerId]],
     Handler GET [Lit ''me'', Var ''id''] DefaultLimit [JwtAuthGuard] None
       [Call ''notificationsService.getMyNotificationById'' [PathParam ''id'', CallerId]],
     Handler PATCH [Lit ''me'', Var ''id'', Lit ''read''] DefaultLimit [JwtAuthGuard] None
       [Call ''notificationsService.markMyNotificationAsRead'' [PathParam ''id'', CallerId]]]"

definition notificationsHandlers2 :: "httpHandler list" where
  "notificationsHandlers2 =
    [Handler PATCH [Var ''id'', Lit ''read''] DefaultLimit [JwtAuthGuard] None
       [Call ''notificationsService.markAsRead'' [PathParam ''id'']],
     Handler POST [Lit ''push-token''] DefaultLimit [JwtAuthGuard] None
       [Call ''notificationsService.registerPushToken'' [CallerId, BodyField ''token'', BodyField ''platform'']],
     Handler GET [Lit ''admin''] DefaultLimit [JwtAuthGuard, RolesGuard] (Some [ADMIN, SUPER_ADMIN])
       [Call ''notificationsService.getAllForAdmin'' [QueryObject]]]"

definition notificationsHandlers3 :: "httpHandler list" where
  "notificationsHandlers3 =
    [Handler GET [Lit ''admin'', Var ''id''] DefaultLimit [JwtAuthGuard, RolesGuard] (Some [ADMIN, SUPER_ADMIN])
       [Call ''notificationsService.getByIdForAdmin'' [PathParam ''id'']],
     Handler POST [Lit ''admin'', Var ''id'', Lit ''retry''] DefaultLimit [JwtAuthGuard, RolesGuard] (Some [ADMIN,
       SUPER_ADMIN])
       [Call ''notificationsService.retryNotification'' [PathParam ''id'']]]"

definition notificationsController :: "route list" where
  "notificationsController = controller [Lit ''notifications''] [] None
    (notificationsHandlers1 @ notificationsHandlers2 @ notificationsHandlers3)"

definition metricsController :: "route list" where
  "metricsController = controller
    [Lit ''metrics''] [] None
    [Handler GET [] SkipThrottle [MetricsAccessGuard] None
       [Call ''metrics.getMetrics'' []]]"

definition systemController :: "route list" where
  "systemController = controller
    [Lit ''system''] [JwtAuthGuard, RolesGuard] (Some [ADMIN, SUPER_ADMIN])
    [Handler GET [Lit ''redis-test''] DefaultLimit [] None
       [Call ''redisService.set'' [Fixed ''test'', Fixed ''patheya'',
         Fixed ''60''],
        Call ''redisService.get'' [Fixed ''test'']],
     Handler GET [Lit ''queue-test''] DefaultLimit [] None
       [Call ''queueService.addNotificationJob'' [Fixed ''Hello Queue'']],
     Handler GET [Lit ''queue-health''] DefaultLimit [] None
       [],
     Handler GET [Lit ''presence-test'', Var ''partnerId''] DefaultLimit [] None
       [Call ''presenceService.getStatus'' [Fixed ''partnerId'']]]"

definition presenceController :: "route list" where
  "presenceController = controller
    [Lit ''presence''] [] None
    [Handler POST [Lit ''online''] DefaultLimit [JwtAuthGuard] None
       [Call ''deliveryService.assertOnlineEligible'' [CallerId],
        Call ''presenceService.markOnline'' [CallerId],
         CallIfLocated ''deliveryService.reportLocation'' [CallerId, BodyLocation]],
     Handler POST [Lit ''offline''] DefaultLimit [JwtAuthGuard] None
       [Call ''presenceService.markOffline'' [CallerId]],
     Handler GET [Var ''partnerId''] DefaultLimit [JwtAuthGuard] None
       [Call ''presenceService.getStatus'' [PathParam ''partnerId'']],
     Handler POST [Lit ''agent'', Lit ''online''] DefaultLimit [JwtAuthGuard, RolesGuard] (Some [SUPPORT_AGENT, ADMIN,
       SUPER_ADMIN])
       [Call ''presenceService.markAgentOnline'' [CallerId]],
     Handler POST [Lit ''agent'', Lit ''offline''] DefaultLimit [JwtAuthGuard, RolesGuard] (Some [SUPPORT_AGENT,
       ADMIN, SUPER_ADMIN])
       [Call ''presenceService.markAgentOffline'' [CallerId]],
     Handler GET [Lit ''agents'', Lit ''online''] DefaultLimit [JwtAuthGuard, RolesGuard] (Some [SUPPORT_AGENT, ADMIN,
       SUPER_ADMIN])
       [Call ''presenceService.listOnlineAgentIds'' []]]"

definition paymentsHandlers1 :: "httpHandler list" where
  "paymentsHandlers1 =
    [Handler GET [Lit ''admin''] DefaultLimit [JwtAuthGuard, RolesGuard] (Some [ADMIN, SUPER_ADMIN])
       [Call ''paymentsService.getAllForAdmin'' [QueryObject]],
     Handler POST [Lit ''create''] DefaultLimit [JwtAuthGuard] None
       [Call ''paymentsService.createPayment'' [BodyField ''orderId'', BodyField ''amount'', CallerId]],
     Handler POST [Lit ''verify''] DefaultLimit [JwtAuthGuard] None
       [Call ''paymentsService.verifyPayment'' [BodyObject, CallerId]],
     Handler POST [Lit ''refund''] DefaultLimit [JwtAuthGuard, RolesGuard] (Some [ADMIN, SUPER_ADMIN])
       [Call ''paymentsService.refundPayment'' [BodyField ''paymentId'', BodyField ''amount'', BodyField ''reason'',
         CallerId]]]"

definition paymentsHandlers2 :: "httpHandler list" where
  "paymentsHandlers2 =
    [Handler POST [Lit ''webhook''] DefaultLimit [] None
       [Call ''paymentsService.processWebhook'' [BodyObject, RawBody, HeaderField ''x-razorpay-signature'']]]"

definition paymentsController :: "route list" where
  "paymentsController = controller [Lit ''payments''] [] None
    (paymentsHandlers1 @ paymentsHandlers2)"

definition dispatchController :: "route list" where
  "dispatchController = controller
    [Lit ''dispatch''] [] None
    [Handler GET [Lit ''assignments''] DefaultLimit [JwtAuthGuard] None
       [Call ''dispatchService.getAssignments'' [CallerId, QueryField ''status'']],
     Handler PATCH [Lit ''assignments'', Var ''id'', Lit ''accept''] DefaultLimit [JwtAuthGuard] None
       [Call ''dispatchService.acceptAssignment'' [PathParam ''id'', CallerId]],
     Handler PATCH [Lit ''assignments'', Var ''id'', Lit ''reject''] DefaultLimit [JwtAuthGuard] None
       [Call ''dispatchService.rejectAssignment'' [PathParam ''id'', CallerId]]]"

definition adminController :: "route list" where
  "adminController = controller
    [Lit ''admin''] [] None
    [Handler GET [Lit ''dashboard''] DefaultLimit [JwtAuthGuard, RolesGuard] (Some [ADMIN, SUPER_ADMIN])
       [Call ''adminService.getDashboard'' []]]"

definition adminDispatchController :: "route list" where
  "adminDispatchController = controller
    [Lit ''admin''] [] None
    [Handler GET [Lit ''delivery-partners'', Lit ''available''] DefaultLimit [JwtAuthGuard,
       RolesGuard] (Some [SUPER_ADMIN, ADMIN, DISPATCH_MANAGER])
       [Call ''adminDispatchService.getAvailablePartners'' [QueryObject]],
     Handler POST [Lit ''orders'', Var ''orderId'', Lit ''assign''] DefaultLimit [JwtAuthGuard,
       RolesGuard] (Some [SUPER_ADMIN, DISPATCH_MANAGER])
       [Call ''adminDispatchService.assignOrderToPartner'' [PathParam ''orderId'', BodyObject, CallerId]],
     Handler GET [Lit ''orders'', Var ''orderId'', Lit ''dispatch-debug''] DefaultLimit [JwtAuthGuard,
       RolesGuard] (Some [SUPER_ADMIN, ADMIN, DISPATCH_MANAGER])
       [Call ''adminDispatchService.getDispatchDebugInfo'' [PathParam ''orderId'']]]"

definition customerHomeController :: "route list" where
  "customerHomeController = controller
    [Lit ''customer'', Lit ''home''] [] None
    [Handler GET [] DefaultLimit [] None
       [Call ''customerHomeService.getHome'' [QueryObject]]]"

definition offersHandlers1 :: "httpHandler list" where
  "offersHandlers1 =
    [Handler GET [] DefaultLimit [] None
       [Call ''offersService.findAll'' [QueryObject]],
     Handler GET [Lit ''featured''] DefaultLimit [] None
       [Call ''offersService.findFeatured'' [QueryNumber ''limit'']],
     Handler GET [Lit ''home''] DefaultLimit [] None
       [Call ''offersService.findHome'' [QueryNumber ''limit'']],
     Handler GET [Lit ''restaurants'', Var ''restaurantId''] DefaultLimit [] None
       [Call ''offersService.findByRestaurant'' [PathParam ''restaurantId'', QueryObject]],
     Handler GET [Lit ''manage'', Var ''restaurantId''] DefaultLimit [JwtAuthGuard] None
       [Call ''offersService.findAllForRestaurant'' [PathParam ''restaurantId'', QueryObject, Caller]],
     Handler GET [Var ''id''] DefaultLimit [] None
       [Call ''offersService.findById'' [PathParam ''id'']]]"

definition offersHandlers2 :: "httpHandler list" where
  "offersHandlers2 =
    [Handler POST [] DefaultLimit [JwtAuthGuard] None
       [Call ''offersService.create'' [BodyObject, Caller]],
     Handler PATCH [Var ''id''] DefaultLimit [JwtAuthGuard] None
       [Call ''offersService.update'' [PathParam ''id'', BodyObject, Caller]],
     Handler PATCH [Var ''id'', Lit ''enable''] DefaultLimit [JwtAuthGuard] None
       [Call ''offersService.setActive'' [PathParam ''id'', Fixed ''true'', Caller]],
     Handler PATCH [Var ''id'', Lit ''disable''] DefaultLimit [JwtAuthGuard] None
       [Call ''offersService.setActive'' [PathParam ''id'', Fixed ''false'', Caller]],
     Handler DELETE [Var ''id''] DefaultLimit [JwtAuthGuard] None
       [Call ''offersService.delete'' [PathParam ''id'', Caller]]]"

definition offersController :: "route list" where
  "offersController = controller [Lit ''offers''] [] None
    (offersHandlers1 @ offersHandlers2)"

definition cartController :: "route list" where
  "cartController = controller
    [Lit ''cart''] [JwtAuthGuard] None
    [Handler GET [] DefaultLimit [] None
       [Call ''cartService.getCart'' [CallerId]],
     Handler POST [Lit ''items''] DefaultLimit [] None
       [Call ''cartService.addItem'' [CallerId, BodyObject]],
     Handler PATCH [Lit ''items'', Var ''itemId''] DefaultLimit [] None
       [Call ''cartService.updateItemQuantity'' [CallerId, PathParam ''itemId'', BodyObject]],
     Handler DELETE [Lit ''items'', Var ''itemId''] DefaultLimit [] None
       [Call ''cartService.removeItem'' [CallerId, PathParam ''itemId'']],
     Handler DELETE [] DefaultLimit [] None
       [Call ''cartService.clearCart'' [CallerId]]]"

definition addressesController :: "route list" where
  "addressesController = controller
    [Lit ''addresses''] [JwtAuthGuard] None
    [Handler GET [] DefaultLimit [] None
       [Call ''addressesService.findAllForCustomer'' [CallerId]],
     Handler GET [Var ''id''] DefaultLimit [] None
       [Call ''addressesService.findByIdForCustomer'' [PathParam ''id'', CallerId]],
     Handler POST [] DefaultLimit [] None
       [Call ''addressesService.create'' [CallerId, BodyObject]],
     Handler PATCH [Var ''id''] DefaultLimit [] None
       [Call ''addressesService.update'' [CallerId, PathParam ''id'', BodyObject]],
     Handler PATCH [Var ''id'', Lit ''default''] DefaultLimit [] None
       [Call ''addressesService.setDefault'' [CallerId, PathParam ''id'']],
     Handler DELETE [Var ''id''] DefaultLimit [] None
       [Call ''addressesService.remove'' [CallerId, PathParam ''id'']]]"

definition trackingController :: "route list" where
  "trackingController = controller
    [Lit ''tracking''] [] None
    [Handler POST [Lit ''location''] DefaultLimit [JwtAuthGuard] None
       [Call ''trackingService.updateLocation'' [BodyField ''orderId'', BodyField ''latitude'',
         BodyField ''longitude'', Caller]],
     Handler GET [Lit ''order'', Var ''orderId''] DefaultLimit [JwtAuthGuard] None
       [Call ''trackingService.getOrderLocation'' [PathParam ''orderId'', Caller]]]"

definition favoritesHandlers1 :: "httpHandler list" where
  "favoritesHandlers1 =
    [Handler GET [Lit ''restaurants''] DefaultLimit [] None
       [Call ''favoritesService.getFavoriteRestaurants'' [CallerId, QueryObject]],
     Handler GET [Lit ''restaurants'', Lit ''status''] DefaultLimit [] None
       [Call ''favoritesService.getRestaurantFavoriteStatus'' [CallerId, QueryField ''ids'']],
     Handler POST [Lit ''restaurants'', Var ''restaurantId''] DefaultLimit [] None
       [Call ''favoritesService.addRestaurantFavorite'' [CallerId, PathParam ''restaurantId'']],
     Handler DELETE [Lit ''restaurants'', Var ''restaurantId''] DefaultLimit [] None
       [Call ''favoritesService.removeRestaurantFavorite'' [CallerId, PathParam ''restaurantId'']],
     Handler GET [Lit ''menu-items''] DefaultLimit [] None
       [Call ''favoritesService.getFavoriteMenuItems'' [CallerId, QueryObject]],
     Handler GET [Lit ''menu-items'', Lit ''status''] DefaultLimit [] None
       [Call ''favoritesService.getMenuItemFavoriteStatus'' [CallerId, QueryField ''ids'']],
     Handler POST [Lit ''menu-items'', Var ''menuItemId''] DefaultLimit [] None
       [Call ''favoritesService.addMenuItemFavorite'' [CallerId, PathParam ''menuItemId'']]]"

definition favoritesHandlers2 :: "httpHandler list" where
  "favoritesHandlers2 =
    [Handler DELETE [Lit ''menu-items'', Var ''menuItemId''] DefaultLimit [] None
       [Call ''favoritesService.removeMenuItemFavorite'' [CallerId, PathParam ''menuItemId'']]]"

definition favoritesController :: "route list" where
  "favoritesController = controller [Lit ''favorites''] [JwtAuthGuard] None
    (favoritesHandlers1 @ favoritesHandlers2)"

definition searchController :: "route list" where
  "searchController = controller
    [Lit ''search''] [] None
    [Handler GET [Lit ''global''] DefaultLimit [] None
       [Call ''searchService.globalSearch'' [QueryField ''q'', QueryField ''limit'']],
     Handler GET [Lit ''menu-items''] DefaultLimit [] None
       [Call ''searchService.searchMenuItems'' [QueryField ''q'', QueryField ''page'', QueryField ''limit'']],
     Handler GET [Lit ''suggestions''] DefaultLimit [] None
       [Call ''searchService.getSuggestions'' [QueryField ''q'', QueryField ''limit'']],
     Handler GET [Lit ''trending''] DefaultLimit [] None
       [Call ''searchService.getTrendingSearches'' []],
     Handler POST [Lit ''log''] (Throttle 30 60000) [] None
       [Call ''searchService.logSearch'' [BodyField ''query'']],
     Handler POST [Lit ''recent''] (Throttle 30 60000) [JwtAuthGuard] None
       [Call ''searchService.recordRecentSearch'' [CallerId, BodyField ''query'']],
     Handler GET [Lit ''recent''] DefaultLimit [JwtAuthGuard] None
       [Call ''searchService.getRecentSearches'' [CallerId]],
     Handler DELETE [Lit ''recent'', Var ''id''] DefaultLimit [JwtAuthGuard] None
       [Call ''searchService.deleteRecentSearch'' [PathParam ''id'', CallerId]],
     Handler DELETE [Lit ''recent''] DefaultLimit [JwtAuthGuard] None
       [Call ''searchService.clearRecentSearches'' [CallerId]]]"

definition walletController :: "route list" where
  "walletController = controller
    [Lit ''wallet''] [JwtAuthGuard] None
    [Handler GET [Lit ''balance''] DefaultLimit [] None
       [Call ''walletService.getBalance'' [CallerId]],
     Handler GET [Lit ''transactions''] DefaultLimit [] None
       [Call ''walletService.getTransactions'' [CallerId, QueryField ''page'', QueryField ''limit'']],
     Handler GET [Lit ''referral''] DefaultLimit [] None
       [Call ''walletService.getReferralSummary'' [CallerId]],
     Handler POST [Lit ''apply-to-order''] DefaultLimit [] None
       [Call ''walletService.applyToOrder'' [CallerId, BodyField ''orderId'', BodyField ''amount'']],
     Handler GET [Lit ''admin'', Lit ''transactions''] DefaultLimit [RolesGuard] (Some [ADMIN, SUPER_ADMIN])
       [Call ''walletService.getAllForAdmin'' [QueryField ''userId'', QueryField ''page'', QueryField ''limit'']],
     Handler PATCH [Lit ''admin'', Var ''userId'', Lit ''adjust''] DefaultLimit [RolesGuard] (Some [ADMIN,
       SUPER_ADMIN])
       [Call ''walletService.adminAdjustBalance'' [PathParam ''userId'', BodyField ''amount'', BodyField ''reason'']]]"

definition ticketsHandlers1 :: "httpHandler list" where
  "ticketsHandlers1 =
    [Handler POST [] (Throttle 10 60000) [] None
       [Call ''ticketsService.createTicket'' [CallerId, BodyObject]],
     Handler GET [Lit ''me''] DefaultLimit [] None
       [Call ''ticketsService.getMyTickets'' [CallerId, QueryObject]],
     Handler GET [Lit ''me'', Var ''id''] DefaultLimit [] None
       [Call ''ticketsService.getMyTicketById'' [PathParam ''id'', CallerId]],
     Handler PATCH [Lit ''me'', Var ''id'', Lit ''close''] DefaultLimit [] None
       [Call ''ticketsService.closeTicket'' [PathParam ''id'', CallerId]],
     Handler POST [Var ''id'', Lit ''messages''] (Throttle 30 60000) [] None
       [Call ''ticketsService.postMessage'' [PathParam ''id'', Caller, BodyField ''message'']],
     Handler POST [Var ''id'', Lit ''attachments''] (Throttle 20 60000) [] None
       [Call ''ticketsService.uploadAttachment'' [PathParam ''id'', Caller, FormFile ''file'']],
     Handler GET [Lit ''admin''] DefaultLimit [RolesGuard] (Some STAFF_ROLES)
       [Call ''ticketsService.getAllForAdmin'' [QueryObject]]]"

definition ticketsHandlers2 :: "httpHandler list" where
  "ticketsHandlers2 =
    [Handler GET [Lit ''admin'', Var ''id''] DefaultLimit [RolesGuard] (Some STAFF_ROLES)
       [Call ''ticketsService.getTicketByIdForAdmin'' [PathParam ''id'']],
     Handler PATCH [Lit ''admin'', Var ''id'', Lit ''assign''] DefaultLimit [RolesGuard] (Some STAFF_ROLES)
       [Call ''ticketsService.assignTicket'' [PathParam ''id'', BodyFieldOrCaller ''agentId'', CallerId]],
     Handler PATCH [Lit ''admin'', Var ''id'', Lit ''status''] DefaultLimit [RolesGuard] (Some STAFF_ROLES)
       [Call ''ticketsService.updateStatusAsStaff'' [PathParam ''id'', BodyField ''status'', CallerId]],
     Handler PATCH [Lit ''admin'', Var ''id'', Lit ''priority''] DefaultLimit [RolesGuard] (Some STAFF_ROLES)
       [Call ''ticketsService.updatePriority'' [PathParam ''id'', BodyField ''priority'', CallerId]]]"

definition ticketsController :: "route list" where
  "ticketsController = controller [Lit ''tickets''] [JwtAuthGuard] None
    (ticketsHandlers1 @ ticketsHandlers2)"

definition faqController :: "route list" where
  "faqController = controller
    [Lit ''faqs''] [] None
    [Handler GET [] DefaultLimit [] None
       [Call ''faqService.findActive'' [QueryField ''category'']],
     Handler GET [Lit ''admin''] DefaultLimit [JwtAuthGuard, RolesGuard] (Some [ADMIN, SUPER_ADMIN])
       [Call ''faqService.findAllForAdmin'' []],
     Handler POST [Lit ''admin''] DefaultLimit [JwtAuthGuard, RolesGuard] (Some [ADMIN, SUPER_ADMIN])
       [Call ''faqService.create'' [BodyObject]],
     Handler PATCH [Lit ''admin'', Var ''id''] DefaultLimit [JwtAuthGuard, RolesGuard] (Some [ADMIN, SUPER_ADMIN])
       [Call ''faqService.update'' [PathParam ''id'', BodyObject]],
     Handler DELETE [Lit ''admin'', Var ''id''] DefaultLimit [JwtAuthGuard, RolesGuard] (Some [ADMIN, SUPER_ADMIN])
       [Call ''faqService.delete'' [PathParam ''id'']]]"

definition couponsController :: "route list" where
  "couponsController = controller
    [Lit ''coupons''] [] None
    [Handler POST [Lit ''validate''] DefaultLimit [JwtAuthGuard] None
       [Call ''couponsService.validate'' [CallerId, BodyObject]],
     Handler GET [Lit ''available''] DefaultLimit [JwtAuthGuard] None
       [Call ''couponsService.getAvailable'' [QueryField ''restaurantId'']],
     Handler POST [] DefaultLimit [JwtAuthGuard, RolesGuard] (Some [ADMIN, SUPER_ADMIN])
       [Call ''couponsService.create'' [BodyObject]],
     Handler GET [] DefaultLimit [JwtAuthGuard, RolesGuard] (Some [ADMIN, SUPER_ADMIN])
       [Call ''couponsService.findAllForAdmin'' [QueryObject]],
     Handler GET [Var ''id''] DefaultLimit [JwtAuthGuard, RolesGuard] (Some [ADMIN, SUPER_ADMIN])
       [Call ''couponsService.findByIdOrThrow'' [PathParam ''id'']],
     Handler PATCH [Var ''id''] DefaultLimit [JwtAuthGuard, RolesGuard] (Some [ADMIN, SUPER_ADMIN])
       [Call ''couponsService.update'' [PathParam ''id'', BodyObject]],
     Handler PATCH [Var ''id'', Lit ''disable''] DefaultLimit [JwtAuthGuard, RolesGuard] (Some [ADMIN, SUPER_ADMIN])
       [Call ''couponsService.disable'' [PathParam ''id'']],
     Handler DELETE [Var ''id''] DefaultLimit [JwtAuthGuard, RolesGuard] (Some [ADMIN, SUPER_ADMIN])
       [Call ''couponsService.delete'' [PathParam ''id'']]]"

definition reportsController :: "route list" where
  "reportsController = controller
    [Lit ''reports''] [JwtAuthGuard] None
    [Handler GET [Var ''restaurantId'', Lit ''daily-sales''] DefaultLimit [] None
       [Call ''reportsService.getDailySalesReport'' [PathParam ''restaurantId'', QueryObject, Caller]],
     Handler GET [Var ''restaurantId'', Lit ''orders''] DefaultLimit [] None
       [Call ''reportsService.getOrdersReport'' [PathParam ''restaurantId'', QueryObject, Caller]],
     Handler GET [Var ''restaurantId'', Lit ''revenue''] DefaultLimit [] None
       [Call ''reportsService.getRevenueReport'' [PathParam ''restaurantId'', QueryObject, Caller]],
     Handler GET [Var ''restaurantId'', Lit ''tax-summary''] DefaultLimit [] None
       [Call ''reportsService.getTaxSummary'' [PathParam ''restaurantId'', QueryObject, Caller]],
     Handler GET [Var ''restaurantId'', Lit ''payment-summary''] DefaultLimit [] None
       [Call ''reportsService.getPaymentSummary'' [PathParam ''restaurantId'', QueryObject, Caller]],
     Handler GET [Var ''restaurantId'', Lit ''cancelled-orders''] DefaultLimit [] None
       [Call ''reportsService.getCancelledOrdersReport'' [PathParam ''restaurantId'', QueryObject, Caller]],
     Handler GET [Var ''restaurantId'', Lit ''refund-summary''] DefaultLimit [] None
       [Call ''reportsService.getRefundSummary'' [PathParam ''restaurantId'', QueryObject, Caller]]]"

section \<open>The application\<close>

definition restaurantsModule :: "route list" where
  "restaurantsModule =
     restaurantsController @ cuisinesController @ reviewsController @ branchesController @
     staffController @ documentsController @ taxProfileController @ bankAccountController @
     verificationController @ mediaController @ complianceController @ settingsController @
     operatingHoursController @ holidaysController"

definition deliveryModule :: "route list" where
  "deliveryModule =
     deliveryController @ vehiclesController @ deliveryDocumentsController @ adminDocumentsController @
     deliveryBankAccountController @ adminBankAccountController @ deliveryVerificationController @
     adminVerificationController @ deliveryOnboardingController @ adminOnboardingController @
     deliveryComplianceController @ adminComplianceController @ profileController @ proofController"

text \<open>The smoke-test endpoints are left out in production.\<close>

definition systemModulesFor :: "bool \<Rightarrow> route list" where
  "systemModulesFor production = (if production then [] else systemController)"

definition adminModule :: "route list" where
  "adminModule =
     adminController @ adminDispatchController"

definition ticketsModule :: "route list" where
  "ticketsModule =
     ticketsController @ faqController"

definition servedRoutes :: "bool \<Rightarrow> route list" where
  "servedRoutes production = map globalPrefix
     (healthController @ authController @ usersController @ restaurantsModule @
      auditController @ onboardingController @ menuController @ ordersController @
      deliveryModule @ notificationsController @ metricsController @
      systemModulesFor production @ presenceController @ paymentsController @
      dispatchController @ adminModule @ customerHomeController @ offersController @
      cartController @ addressesController @ trackingController @ favoritesController @
      searchController @ walletController @ ticketsModule @ couponsController @
      reportsController)"

lemmas table_defs = STAFF_ROLES_def healthController_def authHandlers1_def authHandlers2_def authController_def
   usersHandlers1_def usersHandlers2_def usersHandlers3_def usersController_def restaurantsHandlers1_def
   restaurantsHandlers2_def restaurantsHandlers3_def restaurantsHandlers4_def restaurantsController_def
   cuisinesController_def reviewsHandlers1_def reviewsHandlers2_def reviewsController_def branchesController_def
   staffController_def documentsController_def taxProfileController_def bankAccountController_def
   verificationController_def mediaController_def complianceController_def settingsController_def
   operatingHoursController_def holidaysController_def auditController_def onboardingController_def
   menuHandlers1_def menuHandlers2_def menuHandlers3_def menuHandlers4_def menuController_def ordersHandlers1_def
   ordersHandlers2_def ordersHandlers3_def ordersHandlers4_def ordersHandlers5_def ordersController_def
   deliveryHandlers1_def deliveryHandlers2_def deliveryHandlers3_def deliveryHandlers4_def deliveryController_def
   vehiclesController_def deliveryDocumentsController_def adminDocumentsController_def
   deliveryBankAccountController_def adminBankAccountController_def deliveryVerificationController_def
   adminVerificationController_def deliveryOnboardingController_def adminOnboardingController_def
   deliveryComplianceController_def adminComplianceController_def profileController_def proofHandlers1_def
   proofHandlers2_def proofController_def notificationsHandlers1_def notificationsHandlers2_def
   notificationsHandlers3_def notificationsController_def metricsController_def systemController_def
   presenceController_def paymentsHandlers1_def paymentsHandlers2_def paymentsController_def
   dispatchController_def adminController_def adminDispatchController_def customerHomeController_def
   offersHandlers1_def offersHandlers2_def offersController_def cartController_def addressesController_def
   trackingController_def favoritesHandlers1_def favoritesHandlers2_def favoritesController_def
   searchController_def walletController_def ticketsHandlers1_def ticketsHandlers2_def ticketsController_def
   faqController_def couponsController_def reportsController_def restaurantsModule_def deliveryModule_def
   adminModule_def ticketsModule_def

end
