(* ===== verification/RouteChecks.thy ===== *)
theory RouteChecks
  imports RouteTables
begin

text \<open>
  What can be read off the route tables: no handler hides another, callers and roles are checked
  before they are used, changes are public or carry an identity, administration is behind a
  back-office role.  The checks are evaluated block by block, by the first segment of the path, and
  carried over to the list of served routes.
\<close>

section \<open>No handler hides another\<close>

text \<open>Two paths that no specific request can both match; the last segments differ most often.\<close>

fun separated :: "segment list \<Rightarrow> segment list \<Rightarrow> bool" where
  "separated [] [] = False"
| "separated (Lit a # p) (Lit b # q) = (if separated p q then True else a \<noteq> b)"
| "separated (Lit a # p) (Var x # q) = True"
| "separated (Var x # p) (_ # q) = separated p q"
| "separated _ _ = True"

type_synonym pattern = "httpMethod \<times> segment list"

definition pattern :: "route \<Rightarrow> pattern" where
  "pattern r = (hd_method r, hd_path r)"

definition apart :: "pattern \<Rightarrow> pattern \<Rightarrow> bool" where
  "apart p q = (if fst p = fst q then separated (snd p) (snd q) else True)"

definition unshadowed :: "pattern list \<Rightarrow> bool" where
  "unshadowed ps \<longleftrightarrow> sorted_wrt apart ps"

definition lowerSegment :: "segment \<Rightarrow> bool" where
  "lowerSegment s = (case s of Lit a \<Rightarrow> toLowerCase a = a | Var _ \<Rightarrow> True)"

definition literalsOf :: "route list \<Rightarrow> string set" where
  "literalsOf rs = {a. \<exists>r \<in> set rs. Lit a \<in> set (hd_path r)}"

text \<open>A request is specific when no value it gives to a parameter is a literal of the table.\<close>

definition specificWords :: "route list \<Rightarrow> route \<Rightarrow> string list \<Rightarrow> bool" where
  "specificWords rs r ss \<longleftrightarrow>
     (case matchPath (hd_path r) ss of None \<Rightarrow> False | Some bs \<Rightarrow> toLowerCase ` snd ` set bs \<inter> literalsOf rs = {})"

lemma matchPath_empty:
  "matchPath [] ss = (if ss = [] then Some [] else None)" "matchPath ps [] = (if ps = [] then Some [] else None)"
  by (cases ss; simp) (cases ps rule: list.exhaust; cases "hd ps"; simp)

lemma separated_no_match:
  assumes "separated p q" "matchPath q ss = Some bs" "\<forall>b \<in> set bs. toLowerCase (snd b) \<notin> L"
    and "\<forall>s \<in> set p. lowerSegment s" "\<forall>s \<in> set q. lowerSegment s" "\<forall>a. Lit a \<in> set p \<longrightarrow> a \<in> L"
  shows "matchPath p ss = None"
  using assms
proof (induction p q arbitrary: ss bs rule: separated.induct)
  case (2 a p b q)
  then show ?case by (cases ss) (auto simp: lowerSegment_def split: if_splits)
next
  case (3 a p x q)
  then show ?case by (cases ss) (auto simp: lowerSegment_def split: if_splits)
next
  case (4 x p s q)
  then show ?case by (cases ss; cases s) (auto split: if_splits)
qed (auto simp: matchPath_empty split: if_splits)

lemma unshadowed_find:
  assumes "unshadowed (map pattern rs)" "r \<in> set rs" "specificWords L r ss" "set rs \<subseteq> set L"
    and "\<And>r. r \<in> set L \<Longrightarrow> list_all lowerSegment (hd_path r)"
  shows "findRoute rs (hd_method r) ss = Some r"
  using assms(1,2,4)
proof (induction rs)
  case (Cons x rs)
  obtain bs where bs: "matchPath (hd_path r) ss = Some bs" "\<forall>b \<in> set bs. toLowerCase (snd b) \<notin> literalsOf L"
    using assms(3) by (auto simp: specificWords_def split: option.splits)
  show ?case
  proof (cases "x = r")
    case True
    then show ?thesis using bs by (simp add: findRoute_def matchesRoute_def)
  next
    case False
    then have r: "r \<in> set rs" using Cons.prems(2) by simp
    have x: "x \<in> set L" "r \<in> set L" using Cons.prems(3) r by auto
    have "apart (pattern x) (pattern r)" using Cons.prems(1) r by (simp add: unshadowed_def)
    moreover have "matchPath (hd_path x) ss = None" if "separated (hd_path x) (hd_path r)"
    proof (rule separated_no_match[OF that bs])
      show "\<forall>s \<in> set (hd_path x). lowerSegment s" "\<forall>s \<in> set (hd_path r). lowerSegment s"
        using assms(5) x by (simp_all add: list_all_iff)
      show "\<forall>a. Lit a \<in> set (hd_path x) \<longrightarrow> a \<in> literalsOf L" using x by (auto simp: literalsOf_def)
    qed
    ultimately have "\<not> matchesRoute (hd_method r) ss x"
      by (auto simp: matchesRoute_def apart_def pattern_def split: if_splits)
    moreover have "findRoute rs (hd_method r) ss = Some r"
      by (rule Cons.IH) (use Cons.prems r in \<open>auto simp: unshadowed_def\<close>)
    ultimately show ?thesis by (simp add: findRoute_def)
  qed
qed simp

subsection \<open>Blocks with different first segments\<close>

definition startsIn :: "string list \<Rightarrow> pattern \<Rightarrow> bool" where
  "startsIn gs p = (case snd p of Lit a # _ \<Rightarrow> a \<in> set gs | _ \<Rightarrow> False)"

definition block :: "string list \<Rightarrow> pattern list \<Rightarrow> bool" where
  "block gs ps \<longleftrightarrow> unshadowed ps \<and> list_all (startsIn gs) ps"

lemma block_append:
  assumes "block gs ps" "block hs qs" "set gs \<inter> set hs = {}"
  shows "block (gs @ hs) (ps @ qs)"
proof -
  have "apart p q" if "p \<in> set ps" "q \<in> set qs" for p q
  proof -
    have "startsIn gs p" "startsIn hs q" using assms(1,2) that by (auto simp: block_def list_all_iff)
    then show ?thesis using assms(3)
      by (auto simp: startsIn_def apart_def split: list.splits segment.splits)
  qed
  moreover have "startsIn (gs @ hs) p" if "startsIn gs p \<or> startsIn hs p" for p
    using that by (auto simp: startsIn_def split: list.splits segment.splits)
  ultimately show ?thesis using assms(1,2)
    by (auto simp: block_def unshadowed_def sorted_wrt_append list_all_iff)
qed

lemma separated_prefix: "separated p q \<Longrightarrow> separated (x @ p) (x @ q)"
proof (induction x)
  case (Cons s x)
  then show ?case by (cases s) auto
qed simp

lemma unshadowed_prefixed:
  assumes "unshadowed (map pattern rs)"
  shows "unshadowed (map pattern (map globalPrefix rs))"
proof -
  have "apart (pattern (globalPrefix x)) (pattern (globalPrefix y))" if "apart (pattern x) (pattern y)" for x y
    using that separated_prefix[of "hd_path x" "hd_path y" "[Lit ''api'', Lit ''v1'']"]
    by (auto simp: apart_def pattern_def globalPrefix_def split: if_splits)
  then show ?thesis using assms unfolding unshadowed_def
    by (simp add: sorted_wrt_map) (erule sorted_wrt_mono_rel[rotated], simp)
qed


section \<open>What every route of the tables satisfies\<close>

definition PUBLIC_OPERATIONS :: "string list" where
  "PUBLIC_OPERATIONS =
     [''authService.register'', ''authService.registerDeliveryPartner'', ''authService.registerRestaurantOwner'',
      ''authService.login'', ''authService.refreshToken'', ''authService.logout'', ''authService.forgotPassword'',
      ''authService.resetPassword'', ''paymentsService.processWebhook'', ''searchService.logSearch'']"

definition BACK_OFFICE :: "userRole list" where
  "BACK_OFFICE = [SUPPORT_AGENT, ADMIN, SUPER_ADMIN, DISPATCH_MANAGER]"

definition backOffice :: "route \<Rightarrow> bool" where
  "backOffice r \<longleftrightarrow> RolesGuard \<in> set (hd_guards r) \<and>
     (case hd_roles r of None \<Rightarrow> False | Some rs \<Rightarrow> list_all (\<lambda>x. x \<in> set BACK_OFFICE) rs)"

fun readsCaller :: "argument \<Rightarrow> bool" where
  "readsCaller Caller = True"
| "readsCaller CallerId = True"
| "readsCaller (BodyFieldOrCaller _) = True"
| "readsCaller _ = False"

text \<open>The table checks: caller present, roles after login, public changes, identity, back office, and
  every path parameter a handler reads is one of its path.\<close>

definition paramsBound :: "route \<Rightarrow> bool" where
  "paramsBound r \<longleftrightarrow> list_all (\<lambda>k. list_all (\<lambda>a.
     case a of PathParam x \<Rightarrow> Var x \<in> set (hd_path r) | _ \<Rightarrow> True) (arguments k)) (hd_calls r)"

definition callerPresent :: "route \<Rightarrow> bool" where
  "callerPresent r \<longleftrightarrow> JwtAuthGuard \<in> set (hd_guards r) \<or>
     list_all (\<lambda>k. list_all (\<lambda>a. \<not> readsCaller a) (arguments k)) (hd_calls r)"

fun rolesAfterLogin :: "routeGuard list \<Rightarrow> bool" where
  "rolesAfterLogin [] = True"
| "rolesAfterLogin (JwtAuthGuard # gs) = True"
| "rolesAfterLogin (RolesGuard # gs) = False"
| "rolesAfterLogin (MetricsAccessGuard # gs) = rolesAfterLogin gs"

definition publicChanges :: "route \<Rightarrow> bool" where
  "publicChanges r \<longleftrightarrow> hd_method r = GET \<or> JwtAuthGuard \<in> set (hd_guards r) \<or>
     list_all (\<lambda>k. service k \<in> set PUBLIC_OPERATIONS) (hd_calls r)"

definition identityPassed :: "route \<Rightarrow> bool" where
  "identityPassed r \<longleftrightarrow> hd_method r = GET \<or> backOffice r \<or>
     list_all (\<lambda>k. Caller \<in> set (arguments k) \<or> CallerId \<in> set (arguments k) \<or>
        service k \<in> set PUBLIC_OPERATIONS \<or> service k = ''notificationsService.markAsRead'') (hd_calls r)"

definition adminBackOffice :: "route \<Rightarrow> bool" where
  "adminBackOffice r \<longleftrightarrow> Lit ''admin'' \<notin> set (hd_path r) \<or> backOffice r"

text \<open>The administrators' overrides of the order life cycle.\<close>

definition ADMIN_ORDER_OPERATIONS :: "string list" where
  "ADMIN_ORDER_OPERATIONS =
     [''ordersService.adminCancelOrder'', ''ordersService.forceCompleteOrder'', ''ordersService.refundOrder'',
      ''ordersService.assignDeliveryPartner'']"

definition overridesBackOffice :: "route \<Rightarrow> bool" where
  "overridesBackOffice r \<longleftrightarrow> backOffice r \<or>
     list_all (\<lambda>k. service k \<notin> set ADMIN_ORDER_OPERATIONS) (hd_calls r)"

definition soundRoute :: "route \<Rightarrow> bool" where
  "soundRoute r \<longleftrightarrow> callerPresent r \<and> rolesAfterLogin (hd_guards r) \<and>
     publicChanges r \<and> identityPassed r \<and> adminBackOffice r \<and> overridesBackOffice r \<and> paramsBound r"

definition soundBlock :: "string list \<Rightarrow> route list \<Rightarrow> bool" where
  "soundBlock gs rs \<longleftrightarrow> block gs (map pattern rs) \<and> list_all soundRoute rs"

lemma soundBlock_append:
  "soundBlock gs rs \<Longrightarrow> soundBlock hs qs \<Longrightarrow> set gs \<inter> set hs = {} \<Longrightarrow> soundBlock (gs @ hs) (rs @ qs)"
  by (simp add: soundBlock_def block_append)

text \<open>The tables, evaluated.\<close>

lemma account_tables:
  "soundBlock [''health''] healthController"
  "soundBlock [''auth''] authController"
  "soundBlock [''users''] usersController"
  by code_simp+

lemma restaurant_tables:
  "soundBlock [''restaurants'', ''cuisines'', ''audit''] (restaurantsModule @ auditController @ onboardingController)"
  by code_simp

lemma order_tables:
  "soundBlock [''menu''] menuController"
  "soundBlock [''orders''] ordersController"
  by code_simp+

lemma delivery_tables:
  "soundBlock [''delivery''] deliveryModule"
  by code_simp+

lemma message_tables:
  "soundBlock [''notifications''] notificationsController"
  "soundBlock [''metrics''] metricsController"
  "soundBlock [''system''] systemController"
  "soundBlock [''presence''] presenceController"
  "soundBlock [''payments''] paymentsController"
  "soundBlock [''dispatch''] dispatchController"
  "soundBlock [''admin''] adminModule"
  by code_simp+

lemma customer_tables:
  "soundBlock [''customer''] customerHomeController"
  "soundBlock [''offers''] offersController"
  "soundBlock [''cart''] cartController"
  "soundBlock [''addresses''] addressesController"
  "soundBlock [''tracking''] trackingController"
  "soundBlock [''favorites''] favoritesController"
  "soundBlock [''search''] searchController"
  by code_simp+

lemma back_tables:
  "soundBlock [''wallet''] walletController"
  "soundBlock [''tickets'', ''faqs''] ticketsModule"
  "soundBlock [''coupons''] couponsController"
  "soundBlock [''reports''] reportsController"
  by code_simp+

definition unprefixed :: "route list" where
  "unprefixed =
     healthController @ authController @ usersController @
     (restaurantsModule @ auditController @ onboardingController) @ menuController @ ordersController @
     deliveryModule @ notificationsController @ metricsController @ systemController @
     presenceController @ paymentsController @ dispatchController @ adminModule @
     customerHomeController @ offersController @ cartController @ addressesController @
     trackingController @ favoritesController @ searchController @ walletController @ ticketsModule @
     couponsController @ reportsController"

lemma unprefixed_sound:
  "soundBlock
    ([''health''] @ [''auth''] @ [''users''] @ [''restaurants'', ''cuisines'', ''audit''] @ [''menu''] @
     [''orders''] @ [''delivery''] @ [''notifications''] @ [''metrics''] @ [''system''] @
     [''presence''] @ [''payments''] @ [''dispatch''] @ [''admin''] @ [''customer''] @ [''offers''] @
     [''cart''] @ [''addresses''] @ [''tracking''] @ [''favorites''] @ [''search''] @ [''wallet''] @
     [''tickets'', ''faqs''] @ [''coupons''] @ [''reports''])
    unprefixed"
  unfolding unprefixed_def
  by (intro soundBlock_append account_tables restaurant_tables order_tables delivery_tables message_tables
      customer_tables back_tables) simp_all

lemma tables_lower: "list_all (\<lambda>r. list_all lowerSegment (hd_path r)) unprefixed"
  by (simp add: unprefixed_def table_defs controller_def lowerSegment_def toLowerCase_def lowerChar_def)

text \<open>From the tables to the served routes.\<close>

lemma served_from: "r \<in> set (servedRoutes p) \<Longrightarrow> \<exists>r0 \<in> set unprefixed. r = globalPrefix r0"
  by (auto simp: servedRoutes_def unprefixed_def systemModulesFor_def split: if_splits)

lemma sound_prefix: "soundRoute r \<Longrightarrow> soundRoute (globalPrefix r)"
  by (simp add: soundRoute_def globalPrefix_def callerPresent_def publicChanges_def identityPassed_def adminBackOffice_def
      overridesBackOffice_def backOffice_def)
    (auto simp: paramsBound_def list_all_iff split: argument.splits)

lemma served_sound: "r \<in> set (servedRoutes p) \<Longrightarrow> soundRoute r"
  using served_from[of r p] unprefixed_sound sound_prefix by (auto simp: soundBlock_def list_all_iff)

text \<open>So a handler never reads a path parameter that the request does not have.\<close>

lemma match_binds: "matchPath ps ss = Some bs \<Longrightarrow> Var x \<in> set ps \<Longrightarrow> map_of bs x \<noteq> None"
proof (induction ps ss arbitrary: bs rule: matchPath.induct)
  case (3 y ps s ss)
  then show ?case by (cases "s = []") auto
qed (auto split: if_splits)

lemma path_params_given:
  assumes "r \<in> set (servedRoutes p)" "matchPath (hd_path r) ss = Some bs" "k \<in> set (hd_calls r)"
    "PathParam x \<in> set (arguments k)"
  shows "map_of bs x \<noteq> None"
proof -
  have "Var x \<in> set (hd_path r)"
    using served_sound[OF assms(1)] assms(3,4) by (fastforce simp: soundRoute_def paramsBound_def list_all_iff)
  with assms(2) show ?thesis by (rule match_binds)
qed

lemma served_lower:
  assumes "r \<in> set (servedRoutes p)"
  shows "list_all lowerSegment (hd_path r)"
proof -
  obtain r0 where "r0 \<in> set unprefixed" "r = globalPrefix r0" using served_from[OF assms] by blast
  moreover from this have "list_all lowerSegment (hd_path r0)" using tables_lower by (simp add: list_all_iff)
  ultimately show ?thesis
    by (simp add: globalPrefix_def lowerSegment_def toLowerCase_def lowerChar_def)
qed

lemma unshadowed_drop: "unshadowed (map f (xs @ ys @ zs)) \<Longrightarrow> unshadowed (map f (xs @ zs))"
  by (simp add: unshadowed_def sorted_wrt_append)

lemma served_unshadowed: "unshadowed (map pattern (servedRoutes p))"
proof (cases p)
  case False
  then have "servedRoutes p = map globalPrefix unprefixed"
    by (simp add: servedRoutes_def unprefixed_def systemModulesFor_def)
  then show ?thesis using unshadowed_prefixed unprefixed_sound by (simp add: soundBlock_def block_def)
next
  case True
  define xs where "xs = healthController @ authController @ usersController @ restaurantsModule @ auditController @
    onboardingController @ menuController @ ordersController @ deliveryModule @ notificationsController @ metricsController"
  define zs where "zs = presenceController @ paymentsController @ dispatchController @ adminModule @ customerHomeController @
    offersController @ cartController @ addressesController @ trackingController @ favoritesController @ searchController @
    walletController @ ticketsModule @ couponsController @ reportsController"
  have "unprefixed = xs @ systemController @ zs" by (simp add: unprefixed_def xs_def zs_def)
  moreover have "servedRoutes p = map globalPrefix (xs @ zs)"
    using True by (simp add: servedRoutes_def systemModulesFor_def xs_def zs_def)
  moreover have "unshadowed (map pattern unprefixed)" using unprefixed_sound by (simp add: soundBlock_def block_def)
  ultimately show ?thesis using unshadowed_prefixed unshadowed_drop by metis
qed

end
