(* ===== verification/RouteSafety.thy ===== *)
theory RouteSafety
  imports RouteChecks AuthSafety
begin

text \<open>
  What the controllers guarantee whatever the services do: no handler hides another, no request
  crashes for want of a caller, strangers change nothing outside sign-in, webhook and search log, the
  caller's identity reaches every state-changing service, administration is behind a back-office
  role, and a suspended user is a stranger.
\<close>

section \<open>Properties\<close>

text \<open>
  C36. Every handler is reachable.  A request that fits the path of a served handler, and has in the
  place of a parameter no word that is a literal segment of a served path, reaches exactly this
  handler: no earlier one takes it.  (Without the condition an earlier handler may take it, as
  \<^verbatim>\<open>GET /restaurants/admin\<close> is taken from \<^verbatim>\<open>GET /restaurants/:id\<close>; ids are UUIDs.)
\<close>

theorem every_handler_reachable:
  assumes "r \<in> set (servedRoutes p)" "specificWords (servedRoutes p) r ss"
  shows "findRoute (servedRoutes p) (hd_method r) ss = Some r"
  using served_unshadowed assms by (rule unshadowed_find) (simp_all add: served_lower)

lemma handled:
  assumes "handleRequest jwt cfg hits valid (servedRoutes p) q = Invoked u cs"
  obtains r where "findRoute (servedRoutes p) (hr_method q) (hr_path q) = Some r" "soundRoute r" "hd_method r = hr_method q"
    "runGuards jwt cfg q (hd_roles r) (hd_guards r) None = Passed u"
    "those (map (bindCall q (the (matchPath (hd_path r) (hr_path q))) u) (madeCalls q (hd_calls r))) = Some cs"
proof -
  obtain r where r: "findRoute (servedRoutes p) (hr_method q) (hr_path q) = Some r"
    using assms by (auto simp: handleRequest_def split: option.splits)
  show thesis
  proof (rule that[OF r])
    show "soundRoute r" "hd_method r = hr_method q" using findRoute_Some[OF r] served_sound by auto
  qed (use assms r in \<open>auto simp: handleRequest_def split: option.splits if_splits gateResult.splits\<close>)
qed

lemma those_member:
  "those (map f xs) = Some ys \<Longrightarrow> y \<in> set ys \<Longrightarrow> \<exists>x \<in> set xs. f x = Some y"
  by (induction xs arbitrary: ys) (auto split: option.splits)

lemma invoked_call:
  assumes "those (map (bindCall q ps u) (madeCalls q ks)) = Some cs" "(s, args) \<in> set cs"
  shows "\<exists>k \<in> set ks. service k = s \<and> those (map (bindArgument q ps u) (arguments k)) = Some args"
  using those_member[OF assms] by (auto simp: bindCall_def madeCalls_def)

lemma those_bound:
  "those (map f xs) = Some ys \<Longrightarrow> x \<in> set xs \<Longrightarrow> f x = Some y \<Longrightarrow> y \<in> set ys"
  by (induction xs arbitrary: ys) (auto split: option.splits)

lemma backOffice_passed:
  assumes "backOffice r" "rolesAfterLogin (hd_guards r)" "runGuards jwt cfg q (hd_roles r) (hd_guards r) None = Passed u"
  shows "\<exists>a. u = Some a \<and> role a \<in> set BACK_OFFICE"
proof -
  obtain rs where rs: "hd_roles r = Some rs" "set rs \<subseteq> set BACK_OFFICE"
    using assms(1) by (auto simp: backOffice_def list_all_iff split: option.splits)
  then show ?thesis
    using runGuards_roles[of "hd_guards r" jwt cfg q rs None u] assms by (auto simp: backOffice_def)
qed

text \<open>
  C14. Strangers change nothing else.  A request without a valid access token that is not a read runs only
  sign-up, sign-in, token and password operations, the payment webhook or the search log.
\<close>

theorem strangers_change_only_public:
  assumes "handleRequest jwt cfg hits valid (servedRoutes p) q = Invoked u cs"
    and "hr_method q \<noteq> GET" "\<not> ok (jwt (hr_bearer q))"
  shows "fst ` set cs \<subseteq> set PUBLIC_OPERATIONS"
proof -
  obtain r where r: "soundRoute r" "hd_method r = hr_method q"
    "runGuards jwt cfg q (hd_roles r) (hd_guards r) None = Passed u"
    "those (map (bindCall q (the (matchPath (hd_path r) (hr_path q))) u) (madeCalls q (hd_calls r))) = Some cs"
    using assms(1) by (rule handled)
  have "JwtAuthGuard \<notin> set (hd_guards r)" using runGuards_jwt[OF _ r(3)] assms(3) by (auto simp: ok_iff)
  then have "list_all (\<lambda>k. service k \<in> set PUBLIC_OPERATIONS) (hd_calls r)"
    using r(1,2) assms(2) by (simp add: soundRoute_def publicChanges_def)
  then show ?thesis using invoked_call[OF r(4)] by (fastforce simp: list_all_iff)
qed

text \<open>
  C13. Changes carry the caller.  A request that is not a read and runs an operation that is not public
  has a valid access token, and either the operation receives this user or its id, or the user has a
  back-office role.  Marking a notification as read by its id alone is the one exception.
\<close>

theorem changes_carry_caller:
  assumes "handleRequest jwt cfg hits valid (servedRoutes p) q = Invoked u cs" "hr_method q \<noteq> GET"
    and "(s, args) \<in> set cs" "s \<notin> set PUBLIC_OPERATIONS" "s \<noteq> ''notificationsService.markAsRead''"
  shows "\<exists>a. jwt (hr_bearer q) = Inr a \<and>
    (UserArg a \<in> set args \<or> IdArg (userId a) \<in> set args \<or> role a \<in> set BACK_OFFICE)"
proof -
  obtain r where r: "soundRoute r" "hd_method r = hr_method q"
    "runGuards jwt cfg q (hd_roles r) (hd_guards r) None = Passed u"
    "those (map (bindCall q (the (matchPath (hd_path r) (hr_path q))) u) (madeCalls q (hd_calls r))) = Some cs"
    using assms(1) by (rule handled)
  obtain k where k: "k \<in> set (hd_calls r)" "service k = s"
    "those (map (bindArgument q (the (matchPath (hd_path r) (hr_path q))) u) (arguments k)) = Some args"
    using invoked_call[OF r(4) assms(3)] by blast
  have "JwtAuthGuard \<in> set (hd_guards r)"
    using r(1,2) assms(2,4) k(1,2) by (auto simp: soundRoute_def publicChanges_def list_all_iff)
  then obtain a where a: "u = Some a" "jwt (hr_bearer q) = Inr a" using runGuards_jwt[OF _ r(3)] by blast
  have "backOffice r \<or> Caller \<in> set (arguments k) \<or> CallerId \<in> set (arguments k)"
    using r(1,2) assms(2,4,5) k(1,2) by (auto simp: soundRoute_def identityPassed_def list_all_iff)
  moreover have "role a \<in> set BACK_OFFICE" if "backOffice r"
    using backOffice_passed[OF that _ r(3)] r(1) a by (simp add: soundRoute_def)
  ultimately show ?thesis using those_bound[OF k(3)] a by (auto simp: callerOf_def)
qed

text \<open>
  Administration needs a back-office role.  Whatever a handler with an \<^verbatim>\<open>admin\<close> segment in its path
  runs, the caller has a valid access token with one of the back-office roles.
\<close>

theorem admin_needs_back_office:
  assumes "handleRequest jwt cfg hits valid (servedRoutes p) q = Invoked u cs"
    and "findRoute (servedRoutes p) (hr_method q) (hr_path q) = Some r" "Lit ''admin'' \<in> set (hd_path r)"
  shows "\<exists>a. u = Some a \<and> role a \<in> set BACK_OFFICE"
proof -
  obtain r' where r': "findRoute (servedRoutes p) (hr_method q) (hr_path q) = Some r'" "soundRoute r'"
    "runGuards jwt cfg q (hd_roles r') (hd_guards r') None = Passed u"
    using assms(1) by (rule handled)
  then have "backOffice r'" "rolesAfterLogin (hd_guards r')" using assms(2,3) by (simp_all add: soundRoute_def adminBackOffice_def)
  then show ?thesis using r'(3) by (rule backOffice_passed)
qed

lemma rolesAfterLogin_no_crash: "rolesAfterLogin gs \<Longrightarrow> runGuards jwt cfg q roles gs None \<noteq> TypeError"
proof -
  have some: "runGuards jwt cfg q roles gs (Some a) \<noteq> TypeError" for gs a
  proof (induction gs arbitrary: a)
    case (Cons g gs)
    then show ?case by (cases g) (auto split: sum.splits)
  qed simp
  show "rolesAfterLogin gs \<Longrightarrow> runGuards jwt cfg q roles gs None \<noteq> TypeError"
    by (induction gs rule: rolesAfterLogin.induct) (auto simp: some split: sum.splits)
qed

lemma those_total: "list_all (\<lambda>x. f x \<noteq> None) xs \<Longrightarrow> those (map f xs) \<noteq> None"
  by (induction xs) (auto split: option.splits)

lemma bindArgument_total: "u \<noteq> None \<or> \<not> readsCaller a \<Longrightarrow> bindArgument q ps u a \<noteq> None"
  by (cases a) (auto simp: callerOf_def split: option.splits)

text \<open>
  C37. No request crashes in the HTTP layer: the roles guard never runs before the user is known, and no
  handler that reads the caller runs without one.
\<close>

theorem no_request_crashes:
  "handleRequest jwt cfg hits valid (servedRoutes p) q \<noteq> Crashed"
proof (cases "findRoute (servedRoutes p) (hr_method q) (hr_path q)")
  case (Some r)
  have r: "callerPresent r" "rolesAfterLogin (hd_guards r)"
    using findRoute_Some(1)[OF Some] served_sound by (auto simp: soundRoute_def)
  show ?thesis
  proof (cases "runGuards jwt cfg q (hd_roles r) (hd_guards r) None")
    case (Passed u)
    have "u \<noteq> None" if "JwtAuthGuard \<in> set (hd_guards r)" using runGuards_jwt[OF that Passed] by blast
    then have "bindCall q ps u k \<noteq> None" if "k \<in> set (hd_calls r)" for ps k
      using r(1) that those_total[of "bindArgument q ps u" "arguments k"] bindArgument_total[of u _ q ps]
      by (auto simp: callerPresent_def bindCall_def list_all_iff)
    then have "those (map (bindCall q ps u) (madeCalls q (hd_calls r))) \<noteq> None" for ps
      by (intro those_total) (auto simp: madeCalls_def list_all_iff)
    then obtain cs where "those (map (bindCall q (the (matchPath (hd_path r) (hr_path q))) u) (madeCalls q (hd_calls r))) = Some cs"
      by blast
    then show ?thesis using Some Passed by (simp add: handleRequest_def)
  qed (use Some rolesAfterLogin_no_crash[OF r(2)] in \<open>auto simp: handleRequest_def\<close>)
qed (simp add: handleRequest_def)

text \<open>
  C15. A suspended user is a stranger while Redis answers.  If Redis was reachable when the user was
  suspended and the account has not been restored since, whatever other requests have run, no
  request with a token of this user that is validated with Redis reachable is handled in the user's
  name; what is not a read runs only public operations.  (The revocation list fails open: with Redis
  down at either moment the token passes.)
\<close>

theorem suspended_user_is_stranger:
  assumes "suspendUser now True uid actor s = (Inr a, s1)" and "(authStep uid)\<^sup>*\<^sup>* s1 s2"
    and "\<And>t tok. hr_bearer q = Some t \<Longrightarrow> decode t = Some tok \<Longrightarrow> jp_sub (ac_payload tok) = uid"
    and "handleRequest (jwtStrategy decode later True s2) cfg hits valid (servedRoutes p) q = Invoked u cs"
  shows "u = None \<and> (hr_method q = GET \<or> fst ` set cs \<subseteq> set PUBLIC_OPERATIONS)"
proof -
  have "\<not> ok (jwtStrategy decode later True s2 (hr_bearer q))"
    using suspended_blocked[OF assms(1,2)] assms(3)
    by (auto simp: jwtStrategy_def validate_def redisHas_def Let_def split: option.splits)
  note denied = this
  obtain r where r: "soundRoute r" "hd_method r = hr_method q"
    "runGuards (jwtStrategy decode later True s2) cfg q (hd_roles r) (hd_guards r) None = Passed u"
    "those (map (bindCall q (the (matchPath (hd_path r) (hr_path q))) u) (madeCalls q (hd_calls r))) = Some cs"
    using assms(4) by (rule handled)
  have no: "JwtAuthGuard \<notin> set (hd_guards r)" using runGuards_jwt[OF _ r(3)] denied by (auto simp: ok_iff)
  have "u = None" using r(3) no
  proof -
    have "runGuards j cfg q roles gs None = Passed u \<Longrightarrow> JwtAuthGuard \<notin> set gs \<Longrightarrow> u = None" for j roles gs
    proof (induction gs)
      case (Cons g gs)
      then show ?case by (cases g) (auto split: if_splits)
    qed simp
    then show ?thesis using r(3) no by blast
  qed
  moreover have "hr_method q = GET \<or> list_all (\<lambda>k. service k \<in> set PUBLIC_OPERATIONS) (hd_calls r)"
    using r(1,2) no by (auto simp: soundRoute_def publicChanges_def)
  then have "hr_method q = GET \<or> fst ` set cs \<subseteq> set PUBLIC_OPERATIONS"
    using invoked_call[OF r(4)] by (fastforce simp: list_all_iff)
  ultimately show ?thesis by blast
qed

section \<open>Concrete requests\<close>

lemma served_find:
  assumes "r \<in> set (servedRoutes p)" "matchPath (hd_path r) ss = Some []"
  shows "findRoute (servedRoutes p) (hd_method r) ss = Some r"
  using served_unshadowed assms(1) _ subset_refl served_lower
  by (rule unshadowed_find) (simp add: specificWords_def assms(2))

lemma served_orders: "r \<in> set ordersController \<Longrightarrow> globalPrefix r \<in> set (servedRoutes p)"
  and served_auth: "r \<in> set authController \<Longrightarrow> globalPrefix r \<in> set (servedRoutes p)"
  and served_users: "r \<in> set usersController \<Longrightarrow> globalPrefix r \<in> set (servedRoutes p)"
  and served_admin: "r \<in> set adminController \<Longrightarrow> globalPrefix r \<in> set (servedRoutes p)"
  by (simp_all add: servedRoutes_def adminModule_def)

definition sampleRequest :: "httpMethod \<Rightarrow> string list \<Rightarrow> string option \<Rightarrow> string httpRequest" where
  "sampleRequest m ss bearer =
     \<lparr>hr_method = m, hr_path = [''api'', ''v1''] @ ss, hr_bearer = bearer, hr_loopback = False, hr_headers = (\<lambda>_. None),
      hr_query = (\<lambda>_. None), hr_body = (\<lambda>_. None), hr_rawBody = None, hr_files = (\<lambda>_. None)\<rparr>"

definition sampleConfig :: gateConfig where
  "sampleConfig = \<lparr>gc_production = True, gc_metricsToken = None, gc_rateLimitMax = 100\<rparr>"

definition boss :: authUser where "boss = \<lparr>userId = ''a1'', role = ADMIN\<rparr>"

text \<open>\<^verbatim>\<open>GET /orders/me\<close> is not taken by \<^verbatim>\<open>GET /orders/:id\<close>.\<close>

definition myOrders :: route where
  "myOrders = Handler GET [Lit ''api'', Lit ''v1'', Lit ''orders'', Lit ''me''] DefaultLimit [JwtAuthGuard] None
     [Call ''ordersService.getCustomerOrders'' [CallerId, QueryObject]]"

definition signIn :: route where
  "signIn = Handler POST [Lit ''api'', Lit ''v1'', Lit ''auth'', Lit ''login''] (Throttle 5 60000) [] None
     [Call ''authService.login'' [BodyObject]]"

definition renameMe :: route where
  "renameMe = Handler PATCH [Lit ''api'', Lit ''v1'', Lit ''users'', Lit ''me''] DefaultLimit [JwtAuthGuard] None
     [Call ''usersService.updateProfile'' [CallerId, BodyObject]]"

definition dashboard :: route where
  "dashboard = Handler GET [Lit ''api'', Lit ''v1'', Lit ''admin'', Lit ''dashboard''] DefaultLimit [JwtAuthGuard, RolesGuard]
     (Some [ADMIN, SUPER_ADMIN]) [Call ''adminService.getDashboard'' []]"

lemma sample_routes:
  "myOrders \<in> set (servedRoutes p)" "signIn \<in> set (servedRoutes p)" "renameMe \<in> set (servedRoutes p)"
  "dashboard \<in> set (servedRoutes p)"
  using served_orders[of "Handler GET [Lit ''orders'', Lit ''me''] DefaultLimit [JwtAuthGuard] None
      [Call ''ordersService.getCustomerOrders'' [CallerId, QueryObject]]" p]
    served_auth[of "Handler POST [Lit ''auth'', Lit ''login''] (Throttle 5 60000) [] None [Call ''authService.login'' [BodyObject]]" p]
    served_users[of "Handler PATCH [Lit ''users'', Lit ''me''] DefaultLimit [JwtAuthGuard] None
      [Call ''usersService.updateProfile'' [CallerId, BodyObject]]" p]
    served_admin[of "Handler GET [Lit ''admin'', Lit ''dashboard''] DefaultLimit [JwtAuthGuard, RolesGuard]
      (Some [ADMIN, SUPER_ADMIN]) [Call ''adminService.getDashboard'' []]" p]
  by (simp_all add: globalPrefix_def myOrders_def signIn_def renameMe_def dashboard_def table_defs controller_def)

lemma every_handler_reachable_witness:
  "findRoute (servedRoutes True) GET [''api'', ''v1'', ''orders'', ''me''] = Some myOrders"
  using every_handler_reachable[of myOrders True "[''api'', ''v1'', ''orders'', ''me'']"] sample_routes
  by (simp add: myOrders_def specificWords_def)

lemma sample_found:
  "findRoute (servedRoutes p) POST [''api'', ''v1'', ''auth'', ''login''] = Some signIn"
  "findRoute (servedRoutes p) PATCH [''api'', ''v1'', ''users'', ''me''] = Some renameMe"
  "findRoute (servedRoutes p) GET [''api'', ''v1'', ''admin'', ''dashboard''] = Some dashboard"
  using served_find[OF sample_routes(2), of "[''api'', ''v1'', ''auth'', ''login'']" p]
    served_find[OF sample_routes(3), of "[''api'', ''v1'', ''users'', ''me'']" p]
    served_find[OF sample_routes(4), of "[''api'', ''v1'', ''admin'', ''dashboard'']" p]
  by (simp_all add: signIn_def renameMe_def dashboard_def)

lemmas sample_eval = handleRequest_def sampleRequest_def sample_found throttled_def madeCalls_def bindCall_def
  signIn_def renameMe_def dashboard_def callerOf_def canActivate_def boss_def sampleConfig_def

lemma strangers_change_only_public_witness:
  "\<exists>u cs. handleRequest (\<lambda>_. Inl (Unauthorized ''no'')) sampleConfig (\<lambda>_. 0) (\<lambda>_ _. True) (servedRoutes True)
      (sampleRequest POST [''auth'', ''login''] None) = Invoked u cs \<and> cs \<noteq> [] \<and> fst ` set cs \<subseteq> set PUBLIC_OPERATIONS"
proof -
  obtain u cs where h: "handleRequest (\<lambda>_. Inl (Unauthorized ''no'')) sampleConfig (\<lambda>_. 0) (\<lambda>_ _. True) (servedRoutes True)
      (sampleRequest POST [''auth'', ''login''] None) = Invoked u cs" "cs \<noteq> []"
    by (simp add: sample_eval)
  then show ?thesis using strangers_change_only_public[OF h(1)] by (auto simp: sampleRequest_def ok_iff)
qed

lemma changes_carry_caller_witness:
  "\<exists>s args a. (\<lambda>_. Inr boss) (Some ''t'') = (Inr a :: authUser result) \<and> s = ''usersService.updateProfile'' \<and>
    (UserArg a \<in> set (args :: string bound list) \<or> IdArg (userId a) \<in> set args \<or> role a \<in> set BACK_OFFICE)"
proof -
  obtain u cs args where h: "handleRequest (\<lambda>_. Inr boss) sampleConfig (\<lambda>_. 0) (\<lambda>_ _. True) (servedRoutes True)
      (sampleRequest PATCH [''users'', ''me''] (Some ''t'')) = Invoked u cs" "(''usersService.updateProfile'', args) \<in> set cs"
    by (simp add: sample_eval)
  show ?thesis using changes_carry_caller[OF h(1) _ h(2)] by (auto simp: sampleRequest_def PUBLIC_OPERATIONS_def)
qed

lemma admin_needs_back_office_witness:
  "\<exists>cs a. handleRequest (\<lambda>_. Inr boss) sampleConfig (\<lambda>_. 0) (\<lambda>_ _. True) (servedRoutes True)
      (sampleRequest GET [''admin'', ''dashboard''] (Some ''t'')) = Invoked (Some a) cs \<and> role a \<in> set BACK_OFFICE"
proof -
  obtain u cs where h: "handleRequest (\<lambda>_. Inr boss) sampleConfig (\<lambda>_. 0) (\<lambda>_ _. True) (servedRoutes True)
      (sampleRequest GET [''admin'', ''dashboard''] (Some ''t'')) = Invoked u cs"
    by (simp add: sample_eval)
  then show ?thesis using admin_needs_back_office[OF h, of dashboard]
    by (auto simp: sampleRequest_def sample_found dashboard_def)
qed

lemma suspended_user_is_stranger_witness:
  "\<exists>s1 u cs. handleRequest (jwtStrategy (\<lambda>_. Some (generateAccessToken ''j1'' 1000 (payloadOf anna))) 1600 True s1)
      sampleConfig (\<lambda>_. 0) (\<lambda>_ _. True) (servedRoutes True) (sampleRequest POST [''auth'', ''login''] (Some ''t''))
      = Invoked u cs \<and> u = None"
proof -
  obtain a s1 where s: "suspendUser 1500 True ''u1'' ''admin'' (annaStore [annaRow]) = (Inr a, s1)"
    using anna_suspended by blast
  obtain u cs where h: "handleRequest (jwtStrategy (\<lambda>_. Some (generateAccessToken ''j1'' 1000 (payloadOf anna))) 1600 True s1)
      sampleConfig (\<lambda>_. 0) (\<lambda>_ _. True) (servedRoutes True) (sampleRequest POST [''auth'', ''login''] (Some ''t''))
      = Invoked u cs"
    by (simp add: sample_eval)
  have "jp_sub (ac_payload (generateAccessToken ''j1'' 1000 (payloadOf anna))) = ''u1''"
    by (simp add: generateAccessToken_def payloadOf_def anna_def)
  then have "u = None" using suspended_user_is_stranger[OF s rtranclp.rtrancl_refl _ h] by auto
  then show ?thesis using h by blast
qed

end
