(* ===== verification/OrderGateway.thy ===== *)
theory OrderGateway
  imports RouteSafety OrderLifecycle
begin

text \<open>
  The controllers joined to the order service: the calls that handling a request makes, run on the
  database, and which of them can move an order.
\<close>

section \<open>Orders over HTTP\<close>

text \<open>
  The calls of the controllers, run on the order service.  \<open>dto\<close> reads the validated bodies: the
  target status, the reason and the amount, and the text of a JSON value.  The rider's endpoint
  delegates to the same transition.  These are the operations of the order service that act on an
  existing order; placement, the proof codes (theory \<open>Proof\<close>) and the reads are not among them and
  leave the database of this function as it is.
\<close>

record 'j orderDto =
  dto_status :: "(string \<Rightarrow> 'j option) \<Rightarrow> orderStatus option"
  dto_reason :: "(string \<Rightarrow> 'j option) \<Rightarrow> string option"
  dto_amount :: "(string \<Rightarrow> 'j option) \<Rightarrow> rat option"
  dto_text :: "'j \<Rightarrow> string"

definition updateDeliveryStatus ::
  "int \<Rightarrow> (world \<Rightarrow> world) \<Rightarrow> refundCtx \<Rightarrow> string \<Rightarrow> authUser \<Rightarrow> orderStatus \<Rightarrow> world \<Rightarrow> (world, order) outcome" where
  "updateDeliveryStatus now env rx oid u st w = updateOrderStatus now env rx oid st None u w"

definition runOrderCall ::
  "int \<Rightarrow> refundCtx \<Rightarrow> 'j orderDto \<Rightarrow> string \<times> 'j bound list \<Rightarrow> world \<Rightarrow> world" where
  "runOrderCall now rx dto c w =
     (if fst c = ''ordersService.updateOrderStatus'' then
        (case snd c of
           [TextArg (Some oid), StatusArg st j, UserArg u] \<Rightarrow>
             snd (updateOrderStatus now id rx oid st (map_option (dto_text dto) j) u w)
         | [TextArg (Some oid), ObjectArg d, UserArg u] \<Rightarrow>
             (case dto_status dto d of
                None \<Rightarrow> w | Some st \<Rightarrow> snd (updateOrderStatus now id rx oid st (dto_reason dto d) u w))
         | _ \<Rightarrow> w)
      else if fst c = ''deliveryService.updateDeliveryStatus'' then
        (case snd c of
           [TextArg (Some oid), UserArg u, ObjectArg d] \<Rightarrow>
             (case dto_status dto d of
                None \<Rightarrow> w | Some st \<Rightarrow> snd (updateDeliveryStatus now id rx oid u st w))
         | _ \<Rightarrow> w)
      else if fst c = ''ordersService.switchToCod'' then
        (case snd c of
           [TextArg (Some oid), UserArg u] \<Rightarrow> snd (switchToCod id oid u w)
         | _ \<Rightarrow> w)
      else if fst c = ''ordersService.assignDeliveryPartner'' then
        (case snd c of
           [TextArg (Some oid), JsonArg (Some j)] \<Rightarrow> snd (assignDeliveryPartner oid (dto_text dto j) w)
         | _ \<Rightarrow> w)
      else if fst c = ''ordersService.adminCancelOrder'' then
        (case snd c of
           [TextArg (Some oid), ObjectArg d, IdArg a] \<Rightarrow> snd (adminCancelOrder now id rx oid (dto_reason dto d) a w)
         | _ \<Rightarrow> w)
      else if fst c = ''ordersService.forceCompleteOrder'' then
        (case snd c of
           [TextArg (Some oid), ObjectArg d] \<Rightarrow> snd (forceCompleteOrder now id oid (dto_reason dto d) w)
         | _ \<Rightarrow> w)
      else if fst c = ''ordersService.refundOrder'' then
        (case snd c of
           [TextArg (Some oid), ObjectArg d, IdArg a] \<Rightarrow> snd (refundOrder rx oid (dto_amount dto d) a w)
         | _ \<Rightarrow> w)
      else w)"

lemma update_cell:
  assumes "orderQuiet rx" "updateGuards oid st u w = Inr ord"
  shows "orderStatusCell (snd (updateOrderStatus now id rx oid st reason u w)) i = (if i = oid then Some st else orderStatusCell w i)"
proof -
  have o: "findOrderById oid w = Some ord" using assms(2) by (simp add: guards_iff)
  let ?w = "updateOrderStatusRow now oid st w"
  obtain upd where "findOrderById oid ?w = Some upd" using found_after_statusRow[OF o] by blast
  then have "snd (updateOrderStatus now id rx oid st reason u w) = afterStatusWrite now rx ord upd st reason u ?w"
    by (simp add: updateOrderStatus_def assms(2))
  moreover have "orderStatusCell (afterStatusWrite now rx ord upd st reason u ?w) i = orderStatusCell ?w i"
    using statuses_after[OF assms(1)] by (rule cell_by_statuses)
  ultimately show ?thesis using cell_of_found[OF o] by (simp add: cell_statusRow)
qed

lemma update_changes_cell:
  assumes "orderQuiet rx" "orderStatusCell (snd (updateOrderStatus now id rx oid st reason u w)) i \<noteq> orderStatusCell w i"
  shows "i = oid \<and> (\<exists>ord. findOrderById oid w = Some ord \<and> canAccessOrder w ord u)"
proof (cases "updateGuards oid st u w")
  case (Inl e)
  then show ?thesis using assms(2) by (simp add: updateOrderStatus_def)
next
  case (Inr ord)
  then show ?thesis using assms update_cell[OF assms(1) Inr, of now reason i] by (auto simp: guards_iff split: if_splits)
qed

lemma bound_user:
  assumes "those (map (bindArgument q ps u) as) = Some args" "UserArg v \<in> set args"
  shows "u = Some v"
proof -
  obtain a where "bindArgument q ps u a = Some (UserArg v)" using those_member[OF assms] by blast
  then show ?thesis by (cases a) (auto simp: callerOf_def split: option.splits)
qed

text \<open>A call that moves an order: an administrator's override, or a transition of a related user.\<close>

lemma moving_call:
  assumes "orderQuiet rx" "orderStatusCell (runOrderCall now rx dto (s, args) w) i \<noteq> orderStatusCell w i"
  shows "s \<in> set ADMIN_ORDER_OPERATIONS \<or>
    (\<exists>v ord. UserArg v \<in> set args \<and> findOrderById i w = Some ord \<and> canAccessOrder w ord v)"
proof -
  have u: "\<exists>ord. findOrderById i w = Some ord \<and> canAccessOrder w ord v"
    if "orderStatusCell (snd (updateOrderStatus now id rx oid st reason v w)) i \<noteq> orderStatusCell w i" for oid st reason v
    using update_changes_cell[OF assms(1) that] by blast
  note same = statuses_simple(2,3)[THEN cell_by_statuses] statuses_refundOrder[OF assms(1), THEN cell_by_statuses]
  show ?thesis using assms(2) u
    by (auto simp: runOrderCall_def updateDeliveryStatus_def same ADMIN_ORDER_OPERATIONS_def
        split: if_splits list.splits bound.splits option.splits)
qed

end
