(* ===== verification/Spec2Isabelle.thy ===== *)
theory Spec2Isabelle
  imports Access Pricing Coupons Payments Delivery OrderLifecycle OrderRefund OrderPlacement Cart Wallet
    OperatingHours DispatchFairness Presence ProofSafety Tickets AuthSafety VerificationSafety
    DiscoverySafety RestaurantSafety MenuSafety NotificationSafety Reviews BrowsingSafety ReportsSafety PaperworkSafety
    ListingsSafety AccountListings RealtimeSafety Bootstrap OrderGateway
begin

text \<open>
  A model of the food-ordering platform in \<^verbatim>\<open>apps/api-gateway\<close>, a NestJS service in TypeScript over
  PostgreSQL (Prisma), Redis and BullMQ.  Paths below are under \<^verbatim>\<open>apps/api-gateway/src\<close>.

  \<^bold>\<open>How the program hangs together.\<close>  A customer fills a cart (\<^verbatim>\<open>modules/cart\<close>) from a restaurant's menu
  (\<^verbatim>\<open>modules/menu\<close>) and places an order (\<^verbatim>\<open>modules/orders\<close>): the lines are resolved against the menu,
  priced (\<^verbatim>\<open>modules/pricing\<close>), a coupon is reserved (\<^verbatim>\<open>modules/coupons\<close>) and the order is inserted once per
  idempotency key.  A payment (\<^verbatim>\<open>modules/payments\<close>) is created, verified or settled by webhook and marks the
  order paid; the wallet (\<^verbatim>\<open>modules/wallet\<close>) may carry part of it.  The restaurant moves the order along its
  status graph; the ready order is offered to riders (\<^verbatim>\<open>modules/dispatch\<close>) who are online
  (\<^verbatim>\<open>modules/presence\<close>), and the rider proves pickup and delivery with codes and photos
  (\<^verbatim>\<open>modules/delivery\<close>).  Cancellation refunds wallet and provider and releases the coupon.  Restaurants
  and riders are admitted through onboarding and verification (\<^verbatim>\<open>modules/restaurants\<close>,
  \<^verbatim>\<open>modules/delivery\<close>).  Services call each other directly, or publish domain events
  (\<^verbatim>\<open>core/events\<close>) whose handlers notify people (\<^verbatim>\<open>modules/notifications\<close>) or continue the work; queues
  deliver delayed jobs (acceptance timeout, dispatch retries, escalation).  All of it is reached over
  HTTP, behind rate limits, token and role guards.

  \<^bold>\<open>How it is modelled.\<close>  A table is a list of rows (\<open>Prelude\<close>), a row a record with the source's columns, an
  enum a datatype, and the database a record of tables (\<open>Store\<close>: \<open>world\<close>; components with tables of
  their own extend it or keep a record beside it).  A service method is a function of the same name from
  its arguments and the state to an outcome: \<open>Inl\<close> the HTTP error or \<open>Inr\<close> the answer, and the state
  after it.  What the source logs for others (events, jobs, audit entries, pushes) is appended to lists
  in the state.  Clocks, generated ids, random codes, hashes, signatures, the payment provider, object
  storage, the time zone database and the encryption of account numbers are arguments.  Where a method
  reads and later writes without a transaction, an argument \<open>env\<close> is what other requests do in between;
  \<open>env = id\<close> is the sequential case, and the theorems say which one they are about.  Conditional updates
  (\<^verbatim>\<open>updateMany\<close> with the expected state in the \<^verbatim>\<open>where\<close>) are single steps.  Money is an exact rational
  where the code has doubles, rounded to two places (\<open>dec2\<close>, halves away from zero) where a value that
  may have more is written to a \<^verbatim>\<open>Decimal(10, 2)\<close> column: wallet rows, payments and refunds, orders and
  their lines, coupons and redemptions, menu prices.  Coordinates are rationals or reals.

  \<^bold>\<open>Theories.\<close>
  \<^item> \<open>Prelude\<close>, \<open>Store\<close>: errors, tables, pagination, strings; the Prisma enums and rows.
  \<^item> \<open>Claims\<close>: the locales \<open>cas_cell\<close> (a conditional update, under any schedule of racing claims),
    \<open>status_graph\<close> and \<open>ranked_graph\<close> (tables of allowed transitions).  They are interpreted for
    payments, orders, assignments, riders, restaurants and verification stages.
  \<^item> \<open>Access\<close>: \<^verbatim>\<open>shared/authorization\<close>.  \<open>Pricing\<close>, \<open>Coupons\<close>, \<open>Payments\<close>, \<open>Wallet\<close>, \<open>Menu\<close>, \<open>Cart\<close>, \<open>Addresses\<close>:
    the modules of these names; lemmas on monotone and single-shot state changes, usage limits, ledger
    sums, the one-restaurant rule and the one-default rule.
  \<^item> \<open>Orders\<close>, \<open>OrderLifecycle\<close>, \<open>OrderRefund\<close>, \<open>OrderPlacement\<close>: \<^verbatim>\<open>orders.service.ts\<close> and its repository.  The
    status graph and every operation that moves an order; the guards in the code's order; the split of
    refunds and the revert of failed ones; placement under concurrency, exactly once.
  \<^item> \<open>Delivery\<close>, \<open>Verification\<close>, \<open>VerificationSafety\<close>, \<open>PartnerPaperwork\<close>, \<open>PaperworkSafety\<close>: partners, their
    admission and their records.  \<open>Proof\<close>, \<open>ProofSafety\<close>: codes, photos, arrival.
  \<^item> \<open>Geo\<close>, \<open>GeoBox\<close>, \<open>Presence\<close>, \<open>DispatchRepository\<close>, \<open>Dispatch\<close>, \<open>DispatchSafety\<close>, \<open>DispatchFairness\<close>: distances
    and the bounding box; presence keys refining a map of deadlines (locale \<open>presence_space\<close>, for drivers
    and agents); offers, accepts, ranking, radius widening and the chain of retries.
  \<^item> \<open>OperatingHours\<close>, \<open>Catalog\<close>, \<open>Discovery\<close>, \<open>DiscoverySafety\<close>, \<open>RestaurantAdmin\<close>, \<open>RestaurantCompliance\<close>,
    \<open>RestaurantSafety\<close>, \<open>MenuAdmin\<close>, \<open>MenuSafety\<close>, \<open>Reviews\<close>, \<open>Offers\<close>, \<open>Browsing\<close>, \<open>BrowsingSafety\<close>: restaurants, their
    menus, reviews and offers, and how customers find them.
  \<^item> \<open>Tickets\<close>, \<open>Notifications\<close>, \<open>NotificationSafety\<close>, \<open>Reports\<close>, \<open>ReportsSafety\<close>, \<open>Listings\<close>, \<open>AdminListings\<close>,
    \<open>ListingsSafety\<close>, \<open>AccountListings\<close>: support, messages, report tables with the CSV export, and the listings and dashboards
    over orders, payments and riders.
  \<^item> \<open>Auth\<close>, \<open>AuthSafety\<close>, \<open>Bootstrap\<close>: accounts, sessions, refresh tokens, suspension, and the first
    administrator that starting replicas create.
  \<^item> \<open>Realtime\<close>, \<open>RealtimeSafety\<close>: sockets, rooms and live positions; CORS.
  \<^item> \<open>Routes\<close>, \<open>RouteTables\<close>, \<open>RouteChecks\<close>, \<open>RouteSafety\<close>, \<open>OrderGateway\<close>: the HTTP layer: every controller class
    as a table of handlers with method, path, guards, roles, and the service calls with the source of
    each argument; what the tables guarantee; and the order operations run through them.  What runs a
    request (\<open>handleRequest\<close>: matching, throttling, guards in order, validation, handler) is the framework's
    documented pipeline over the source's tables.

  \<^bold>\<open>Bounds.\<close>  No definition takes fuel.  Retry loops of the source are bounded by constants of the source
  (serialization retries, dispatch cycles) and are structural or have a measure; that a chain of
  dispatch retries ends, three attempts of every queued job included, is a theorem (\<open>retry_chain_ends\<close>);
  jobs from rejections, expiries and the reconciliation start chains of their own.  The nearby search is
  exact for radii up to 100 km at latitudes up to 60 and longitudes up to 178 degrees
  (\<open>nearby_box_exact\<close>); across the antimeridian it is not (\<open>box_misses_antimeridian\<close>).

  \<^bold>\<open>What the model leaves to the database.\<close>  Unique indexes are part of the inserts that rely on them; foreign
  keys are part of the deletions that cascade or are refused.  Where a query leaves ties open, rows come
  in table order.

  \<^bold>\<open>Not modelled.\<close>  Metrics, health and system information (process observability, no program state);
  mail, object storage and the audit sink (I/O; what the services hand to them is logged in the model's
  stores); the pub/sub adapter between pods; framework wiring, configuration validation and logging; the PDF and
  spreadsheet writers and the API documentation decorators (they draw through libraries); connection
  handling of Redis, queues and the database; seeds, scripts and deployment; columns that are stored
  and displayed only.

  \<^bold>\<open>What modelling showed\<close> is proved beside the properties: a payment settled by the customer's verify call that an
  administrator's cancellation does not refund (\<open>verified_payment_not_refunded\<close>), a wallet debit of half a paisa
  that its two columns round differently (\<open>half_paisa_debit\<close>), an accept of a cancelled order
  (\<open>accept_cancelled_order\<close>), the reply of the COD switch that carries the rider's password hash
  (\<open>switch_to_cod_leaks_credentials\<close>), dashboards that count cancelled orders as revenue
  (\<open>dashboard_counts_cancelled_revenue\<close>), a suspended user who comes back over a socket
  (\<open>suspended_user_listens_on\<close>), a bootstrap that reports success without an administrator
  (\<open>taken_email_masks_missing_admin\<close>), and others named in the theories of their components.
\<close>

section \<open>Requests and orders\<close>

text \<open>
  C3. Orders move only for their people.  When a call that a served HTTP request makes on the order
  service changes the status of an order, the request carried a valid access token of a user who is
  the order's customer, on the team of its restaurant, its rider or an administrator, or who has a
  back-office role.
\<close>

theorem orders_move_only_for_their_people:
  assumes "handleRequest jwt cfg hits valid (servedRoutes p) q = Invoked u cs" "(s, args) \<in> set cs"
    and "orderQuiet rx" "orderStatusCell (runOrderCall now rx dto (s, args) w) i \<noteq> orderStatusCell w i"
  shows "\<exists>a. u = Some a \<and>
    (role a \<in> set BACK_OFFICE \<or> (\<exists>ord. findOrderById i w = Some ord \<and> canAccessOrder w ord a))"
proof -
  obtain r where r: "soundRoute r" "runGuards jwt cfg q (hd_roles r) (hd_guards r) None = Passed u"
    "those (map (bindCall q (the (matchPath (hd_path r) (hr_path q))) u) (madeCalls q (hd_calls r))) = Some cs"
    using assms(1) by (rule handled)
  obtain k where k: "k \<in> set (hd_calls r)" "service k = s"
    "those (map (bindArgument q (the (matchPath (hd_path r) (hr_path q))) u) (arguments k)) = Some args"
    using invoked_call[OF r(3) assms(2)] by blast
  from moving_call[OF assms(3,4)] show ?thesis
  proof
    assume "s \<in> set ADMIN_ORDER_OPERATIONS"
    then have "backOffice r" using r(1) k(1,2) by (auto simp: soundRoute_def overridesBackOffice_def list_all_iff)
    then show ?thesis using backOffice_passed[OF _ _ r(2)] r(1) by (auto simp: soundRoute_def)
  next
    assume "\<exists>v ord. UserArg v \<in> set args \<and> findOrderById i w = Some ord \<and> canAccessOrder w ord v"
    then show ?thesis using bound_user[OF k(3)] by blast
  qed
qed

definition acceptOrder :: route where
  "acceptOrder = Handler POST [Lit ''api'', Lit ''v1'', Lit ''orders'', Var ''id'', Lit ''accept''] DefaultLimit [JwtAuthGuard]
     None [Call ''ordersService.updateOrderStatus'' [PathParam ''id'', StatusDto CONFIRMED None, Caller]]"

lemma accept_found:
  "findRoute (servedRoutes p) POST [''api'', ''v1'', ''orders'', ''o1'', ''accept''] = Some acceptOrder"
proof -
  have "acceptOrder \<in> set (servedRoutes p)"
    using served_orders[of "Handler POST [Lit ''orders'', Var ''id'', Lit ''accept''] DefaultLimit [JwtAuthGuard]
      None [Call ''ordersService.updateOrderStatus'' [PathParam ''id'', StatusDto CONFIRMED None, Caller]]" p]
    by (simp add: globalPrefix_def acceptOrder_def table_defs controller_def)
  moreover have "list_all (\<lambda>r. Lit ''o1'' \<notin> set (hd_path r)) unprefixed"
    by (simp add: unprefixed_def table_defs controller_def)
  then have "''o1'' \<notin> literalsOf (servedRoutes p)"
    by (auto simp: literalsOf_def globalPrefix_def list_all_iff dest!: served_from split: if_splits)
  then have "specificWords (servedRoutes p) acceptOrder [''api'', ''v1'', ''orders'', ''o1'', ''accept'']"
    by (simp add: specificWords_def acceptOrder_def toLowerCase_def lowerChar_def)
  ultimately show ?thesis
    using unshadowed_find[OF served_unshadowed _ _ subset_refl served_lower] by (fastforce simp: acceptOrder_def)
qed

definition plainDto :: "string orderDto" where
  "plainDto = \<lparr>dto_status = (\<lambda>_. None), dto_reason = (\<lambda>_. None), dto_amount = (\<lambda>_. None), dto_text = id\<rparr>"

lemma orders_move_only_for_their_people_witness:
  "\<exists>args a. orderStatusCell (runOrderCall 5 quietCtx plainDto (''ordersService.updateOrderStatus'', args) (orderWorld PENDING PAID))
       ''o1'' = Some CONFIRMED \<and>
     (role a \<in> set BACK_OFFICE \<or> (\<exists>ord. findOrderById ''o1'' (orderWorld PENDING PAID) = Some ord \<and>
        canAccessOrder (orderWorld PENDING PAID) ord a))"
proof -
  let ?w = "orderWorld PENDING PAID"
  let ?args = "[TextArg (Some ''o1''), StatusArg CONFIRMED None, UserArg ownerUser] :: string bound list"
  have h: "handleRequest (\<lambda>_. Inr ownerUser) sampleConfig (\<lambda>_. 0) (\<lambda>_ _. True) (servedRoutes True)
      (sampleRequest POST [''orders'', ''o1'', ''accept''] (Some ''t'')) =
      Invoked (Some ownerUser) [(''ordersService.updateOrderStatus'', ?args)]"
    by (simp add: sample_eval accept_found acceptOrder_def)
  have quiet: "orderQuiet quietCtx" by (simp add: orderQuiet_def quietCtx_def)
  moreover have "updateGuards ''o1'' CONFIRMED ownerUser ?w = Inr (sampleOrder\<lparr>o_status := PENDING, o_paymentStatus := PAID\<rparr>)"
    by (simp add: guards_iff findOrderById_def orderWorld_def sampleOrder_def canAccessOrder_def ownerUser_def isAdmin_def
        canAccessRestaurant_def getRestaurantRole_def actor_allowed_iff payment_eligible_iff proof_verified_iff photo_verified_iff)
  ultimately have "orderStatusCell (runOrderCall 5 quietCtx plainDto (''ordersService.updateOrderStatus'', ?args) ?w) ''o1'' = Some CONFIRMED"
    using update_cell[of quietCtx "''o1''" CONFIRMED ownerUser ?w _ 5 None "''o1''"] by (simp add: runOrderCall_def)
  moreover have "orderStatusCell ?w ''o1'' = Some PENDING" by (simp add: orderStatusCell_def orderWorld_def sampleOrder_def)
  ultimately show ?thesis
    using orders_move_only_for_their_people[OF h _ quiet, of "''ordersService.updateOrderStatus''" ?args 5 plainDto ?w "''o1''"]
    by auto
qed

end
